(* ===== verification/Prelude.thy ===== *)
theory Prelude
  imports Main "HOL-Library.Word" "HOL-Library.Signed_Division"
begin

text \<open>
  What every theory of the development shares: the machine integers of the C++ code, the
  ways the simulator stops before its loop ends, the result type with its sequencing, and
  the facts about bit fields and little-endian bytes that the component proofs rewrite
  with. \<open>wordfacts\<close> collects the rewrite rules on bit fields, \<open>faultfacts\<close> the
  rules that take a sequence of fallible operations apart.
\<close>

unbundle bit_operations_syntax

section \<open>Machine integers and results\<close>

type_synonym u8 = "8 word"
type_synonym u16 = "16 word"
type_synonym u32 = "32 word"
type_synonym u64 = "64 word"

text \<open>The methods of \<open>Segment\<close> and \<open>Memory\<close>, as they name themselves in a diagnostic.\<close>

datatype access = GetPtr | Fetch32 | Read64 | Read32 | Read16 | Read16u | Read8 | Read8u
  | Write64 | Write32 | Write16 | Write8

text \<open>
  Every way the program ends, or stops being C++, in the middle of an operation: the calls
  of \<open>fatal\<close> and \<open>exit\<close> with what they report, and \<open>HostUB\<close> for what the
  language leaves undefined (an access outside an allocation, an integer division that
  traps on the host).
\<close>

datatype fault =
    FatalIllegal u32
  | FatalUnknownOp u8
  | FatalUnknownItem string
  | FatalAccess access u32
  | ExitBadAddress u32
  | ExitNotDecompressed u16
  | ExitNotFound u8
  | ExitEcall u32
  | ExitElfClass u8
  | ExitSection string
  | HostUB

type_synonym 'a result = "fault + 'a"

definition chain :: "'a result \<Rightarrow> ('a \<Rightarrow> 'b result) \<Rightarrow> 'b result" where
  "chain m k = (case m of Inl e \<Rightarrow> Inl e | Inr x \<Rightarrow> k x)"

named_theorems wordfacts
named_theorems faultfacts

lemma chain_Inl [simp]: "chain (Inl e) k = Inl e"
  by (simp add: chain_def)

lemma chain_Inr [simp]: "chain (Inr x) k = k x"
  by (simp add: chain_def)

lemma chain_eq_Inr [faultfacts]: "chain m k = Inr y \<longleftrightarrow> (\<exists>x. m = Inr x \<and> k x = Inr y)"
  by (cases m) simp_all

lemma chain_eq_Inl [faultfacts]:
  "chain m k = Inl e \<longleftrightarrow> m = Inl e \<or> (\<exists>x. m = Inr x \<and> k x = Inl e)"
  by (cases m) auto

lemma chain_assoc: "chain (chain m f) g = chain m (\<lambda>x. chain (f x) g)"
  by (cases m) simp_all

lemma chain_cong [fundef_cong]:
  "m = m' \<Longrightarrow> (\<And>x. m' = Inr x \<Longrightarrow> k x = k' x) \<Longrightarrow> chain m k = chain m' k'"
  by (cases m') simp_all

text \<open>The status a shell sees for a fault: \<open>fatal\<close> and most \<open>exit\<close> calls pass -1.\<close>

fun exit_status :: "fault \<Rightarrow> int option" where
  "exit_status (ExitNotDecompressed c) = Some 1"
| "exit_status (ExitSection n) = Some 1"
| "exit_status HostUB = None"
| "exit_status f = Some (- 1)"

section \<open>Bit fields\<close>

text \<open>\<open>(x>>lo) & ((1<<n)-1)\<close>, the field extraction used all over the decoders.\<close>

definition bits :: "nat \<Rightarrow> nat \<Rightarrow> 'a::len word \<Rightarrow> 'a word" where
  "bits lo n x = drop_bit lo x AND mask n"

lemma bits_take_bit: "bits lo n x = take_bit n (drop_bit lo x)"
  by (simp add: bits_def take_bit_eq_mask)

lemma bit_bits [wordfacts]:
  "bit (bits lo n (x :: 'a::len word)) i \<longleftrightarrow> i < n \<and> bit x (lo + i)"
  by (auto simp: bits_take_bit bit_simps)

lemma unat_bits: "unat (bits lo n x) = take_bit n (unat (drop_bit lo x))"
  by (simp add: bits_take_bit unsigned_take_bit_eq)

lemma unat_bits_less: "unat (bits lo n x) < 2 ^ n"
  by (simp add: unat_bits)

text \<open>
  Two masked tests on one word: if \<open>x\<close> passes the test \<open>(m, c)\<close>, it passes \<open>(m', c')\<close>
  only if the two constants agree where both masks look. The decoders' first-match
  searches are decided with this on constants alone.
\<close>

lemma masked_conflict:
  fixes x :: "'a::len word"
  assumes "x AND m = c" and "c AND m' \<noteq> c' AND m"
  shows "x AND m' \<noteq> c'"
proof
  assume "x AND m' = c'"
  with assms(1) have "c AND m' = c' AND m" by (metis and.commute and.left_commute)
  with assms(2) show False by contradiction
qed

lemma masked_weaken:
  fixes x :: "'a::len word"
  assumes "x AND m = c" and "m' AND m = m'"
  shows "x AND m' = c AND m'"
  using assms by (metis and.assoc and.commute)

text \<open>Equality of 32-bit words, bit by bit, and the bit that a test with a power of two reads.\<close>

lemma upt_32: "[0..<32] = [0, 1, 2, 3, 4, 5, 6, 7, 8, 9, 10, 11, 12, 13, 14, 15, 16, 17, 18, 19, 20, 21, 22, 23, 24, 25, 26, 27, 28, 29, 30, 31]"
  by code_simp

lemma u32_eq_iff:
  "(x :: u32) = y \<longleftrightarrow>
    bit x 0 = bit y 0 \<and> bit x 1 = bit y 1 \<and> bit x 2 = bit y 2 \<and> bit x 3 = bit y 3 \<and>
    bit x 4 = bit y 4 \<and> bit x 5 = bit y 5 \<and> bit x 6 = bit y 6 \<and> bit x 7 = bit y 7 \<and>
    bit x 8 = bit y 8 \<and> bit x 9 = bit y 9 \<and> bit x 10 = bit y 10 \<and> bit x 11 = bit y 11 \<and>
    bit x 12 = bit y 12 \<and> bit x 13 = bit y 13 \<and> bit x 14 = bit y 14 \<and> bit x 15 = bit y 15 \<and>
    bit x 16 = bit y 16 \<and> bit x 17 = bit y 17 \<and> bit x 18 = bit y 18 \<and> bit x 19 = bit y 19 \<and>
    bit x 20 = bit y 20 \<and> bit x 21 = bit y 21 \<and> bit x 22 = bit y 22 \<and> bit x 23 = bit y 23 \<and>
    bit x 24 = bit y 24 \<and> bit x 25 = bit y 25 \<and> bit x 26 = bit y 26 \<and> bit x 27 = bit y 27 \<and>
    bit x 28 = bit y 28 \<and> bit x 29 = bit y 29 \<and> bit x 30 = bit y 30 \<and> bit x 31 = bit y 31"
proof -
  have "x = y \<longleftrightarrow> (\<forall>i \<in> set [0..<32]. bit x i = bit y i)"
    by (auto intro: bit_word_eqI)
  then show ?thesis by (simp add: upt_32)
qed

lemma and_exp_zero [wordfacts]:
  "x AND 0x20 = 0 \<longleftrightarrow> \<not> bit (x :: u32) 5"
  "x AND 0x80 = 0 \<longleftrightarrow> \<not> bit (x :: u32) 7"
  "x AND 0x200 = 0 \<longleftrightarrow> \<not> bit (x :: u32) 9"
  "x AND 0x800 = 0 \<longleftrightarrow> \<not> bit (x :: u32) 11"
  "x AND 0x1000 = 0 \<longleftrightarrow> \<not> bit (x :: u32) 12"
  "x AND 0x80000 = 0 \<longleftrightarrow> \<not> bit (x :: u32) 19"
  "x AND 0x100000 = 0 \<longleftrightarrow> \<not> bit (x :: u32) 20"
  using and_exp_eq_0_iff_not_bit [of x 5] and_exp_eq_0_iff_not_bit [of x 7]
    and_exp_eq_0_iff_not_bit [of x 9] and_exp_eq_0_iff_not_bit [of x 11]
    and_exp_eq_0_iff_not_bit [of x 12] and_exp_eq_0_iff_not_bit [of x 19]
    and_exp_eq_0_iff_not_bit [of x 20]
  by simp_all

text \<open>A field that is known fixes the masked word, and two masked words join.\<close>

lemma bits_masked: "push_bit lo (bits lo n x) = x AND push_bit lo (mask n)"
  by (rule bit_word_eqI) (auto simp: bit_bits bit_simps)

lemma masked_join:
  fixes x :: "'a::len word"
  shows "x AND m = c \<Longrightarrow> x AND m' = c' \<Longrightarrow> x AND (m OR m') = c OR c'"
  by (metis bit.conj_disj_distrib)

section \<open>Little-endian bytes\<close>

text \<open>The bytes of a value in memory, as the little-endian host stores them, and back.\<close>

fun le_bytes :: "nat \<Rightarrow> 'a::len word \<Rightarrow> u8 list" where
  "le_bytes 0 w = []"
| "le_bytes (Suc n) w = ucast w # le_bytes n (drop_bit 8 w)"

fun le_word :: "u8 list \<Rightarrow> 'a::len word" where
  "le_word [] = 0"
| "le_word (b # bs) = ucast b OR push_bit 8 (le_word bs)"

lemma length_le_bytes [simp]: "length (le_bytes n w) = n"
  by (induction n arbitrary: w) simp_all

lemma bit_le_word:
  "bit (le_word bs :: 'a::len word) i \<longleftrightarrow>
     i < LENGTH('a) \<and> i div 8 < length bs \<and> bit (bs ! (i div 8)) (i mod 8)"
proof (induction bs arbitrary: i)
  case Nil
  then show ?case by simp
next
  case (Cons b bs)
  show ?case
  proof (cases "i < 8")
    case True
    then show ?thesis by (auto simp: bit_simps)
  next
    case False
    then obtain j where j: "i = j + 8" by (metis le_add_diff_inverse2 linorder_not_less)
    have "\<not> bit b i" using False by (simp add: bit_imp_le_length impossible_bit)
    then have "bit (le_word (b # bs) :: 'a word) i \<longleftrightarrow>
        i < LENGTH('a) \<and> bit (le_word bs :: 'a word) j"
      using j by (auto simp: bit_simps)
    moreover have "i div 8 = Suc (j div 8)" and "i mod 8 = j mod 8"
      using j by simp_all
    ultimately show ?thesis using j Cons.IH [of j] by auto
  qed
qed

lemma nth_le_bytes: "k < n \<Longrightarrow> le_bytes n w ! k = ucast (drop_bit (8 * k) w)"
proof (induction n arbitrary: w k)
  case 0
  then show ?case by simp
next
  case (Suc n)
  then show ?case by (cases k) (simp_all add: ac_simps)
qed

lemma le_word_bytes:
  "LENGTH('a) = 8 * n \<Longrightarrow> le_word (le_bytes n (w :: 'a::len word)) = w"
  by (rule bit_word_eqI) (auto simp: bit_le_word nth_le_bytes bit_simps)

lemma le_word_bytes_trunc:
  "8 * n \<le> LENGTH('a) \<Longrightarrow> le_word (le_bytes n (w :: 'a::len word)) = take_bit (8 * n) w"
  by (rule bit_word_eqI) (auto simp: bit_le_word nth_le_bytes bit_simps)

section \<open>Lists as memory\<close>

text \<open>\<open>memcpy\<close>/\<open>memset\<close> into the middle of a buffer.\<close>

definition splice :: "nat \<Rightarrow> 'a list \<Rightarrow> 'a list \<Rightarrow> 'a list" where
  "splice i bs xs = take i xs @ bs @ drop (i + length bs) xs"

definition slice_of :: "nat \<Rightarrow> nat \<Rightarrow> 'a list \<Rightarrow> 'a list" where
  "slice_of i n xs = take n (drop i xs)"

lemma length_splice [simp]: "i + length bs \<le> length xs \<Longrightarrow> length (splice i bs xs) = length xs"
  by (simp add: splice_def)

lemma slice_of_splice_same [simp]:
  "i + length bs \<le> length xs \<Longrightarrow> n = length bs \<Longrightarrow> slice_of i n (splice i bs xs) = bs"
  by (simp add: splice_def slice_of_def)

lemma nth_splice:
  "i + length bs \<le> length xs \<Longrightarrow> j < length xs \<Longrightarrow>
    splice i bs xs ! j = (if i \<le> j \<and> j < i + length bs then bs ! (j - i) else xs ! j)"
  by (auto simp: splice_def nth_append)

lemma slice_of_splice_other:
  assumes "i + length bs \<le> length xs" and "j + n \<le> i \<or> i + length bs \<le> j"
  shows "slice_of j n (splice i bs xs) = slice_of j n xs"
proof (rule nth_equalityI)
  show "length (slice_of j n (splice i bs xs)) = length (slice_of j n xs)"
    using assms(1) by (simp add: slice_of_def)
next
  fix k
  assume "k < length (slice_of j n (splice i bs xs))"
  with assms show "slice_of j n (splice i bs xs) ! k = slice_of j n xs ! k"
    by (auto simp: slice_of_def nth_splice)
qed

lemma length_slice_of [simp]: "i + n \<le> length xs \<Longrightarrow> length (slice_of i n xs) = n"
  by (simp add: slice_of_def)

end
