(* ===== verification/Vliw_Table.thy ===== *)
theory Vliw_Table
  imports Prelude
begin

text \<open>
  The VLIW operation codes of \<open>src/VliwTable_rv32.h\<close>, one abbreviation per \<open>#define\<close> (an
  operation code is the 8-bit \<open>opcode\<close> field of a \<open>Vliw\<close>), the name table
  \<open>VliwName\<close> of \<open>src/VliwTable_rv32.cpp\<close> in its two halves, and \<open>getVliwName\<close>
  of \<open>src/Cpu.cpp\<close>. The table is declared with 250 entries and initialised with
  232; \<open>getVliwName\<close> never looks past \<open>VLIW_SIZE\<close>.
\<close>

section \<open>Operation codes\<close>

abbreviation (input) VLIW_NONE :: u8 where "VLIW_NONE \<equiv> 0x00"
abbreviation (input) VLIW_LUI :: u8 where "VLIW_LUI \<equiv> 0x01"
abbreviation (input) VLIW_AUIPC :: u8 where "VLIW_AUIPC \<equiv> 0x02"
abbreviation (input) VLIW_J :: u8 where "VLIW_J \<equiv> 0x03"
abbreviation (input) VLIW_JAL :: u8 where "VLIW_JAL \<equiv> 0x04"
abbreviation (input) VLIW_JR :: u8 where "VLIW_JR \<equiv> 0x05"
abbreviation (input) VLIW_JALR :: u8 where "VLIW_JALR \<equiv> 0x06"
abbreviation (input) VLIW_BEQ :: u8 where "VLIW_BEQ \<equiv> 0x07"
abbreviation (input) VLIW_BNE :: u8 where "VLIW_BNE \<equiv> 0x08"
abbreviation (input) VLIW_BLT :: u8 where "VLIW_BLT \<equiv> 0x09"
abbreviation (input) VLIW_BGE :: u8 where "VLIW_BGE \<equiv> 0x0a"
abbreviation (input) VLIW_BLTU :: u8 where "VLIW_BLTU \<equiv> 0x0b"
abbreviation (input) VLIW_BGEU :: u8 where "VLIW_BGEU \<equiv> 0x0c"
abbreviation (input) VLIW_LB :: u8 where "VLIW_LB \<equiv> 0x0d"
abbreviation (input) VLIW_LH :: u8 where "VLIW_LH \<equiv> 0x0e"
abbreviation (input) VLIW_LW :: u8 where "VLIW_LW \<equiv> 0x0f"
abbreviation (input) VLIW_LBU :: u8 where "VLIW_LBU \<equiv> 0x10"
abbreviation (input) VLIW_LHU :: u8 where "VLIW_LHU \<equiv> 0x11"
abbreviation (input) VLIW_SB :: u8 where "VLIW_SB \<equiv> 0x12"
abbreviation (input) VLIW_SH :: u8 where "VLIW_SH \<equiv> 0x13"
abbreviation (input) VLIW_SW :: u8 where "VLIW_SW \<equiv> 0x14"
abbreviation (input) VLIW_NOP :: u8 where "VLIW_NOP \<equiv> 0x15"
abbreviation (input) VLIW_ADDI :: u8 where "VLIW_ADDI \<equiv> 0x16"
abbreviation (input) VLIW_SLTI :: u8 where "VLIW_SLTI \<equiv> 0x17"
abbreviation (input) VLIW_SLTIU :: u8 where "VLIW_SLTIU \<equiv> 0x18"
abbreviation (input) VLIW_XORI :: u8 where "VLIW_XORI \<equiv> 0x19"
abbreviation (input) VLIW_ORI :: u8 where "VLIW_ORI \<equiv> 0x1a"
abbreviation (input) VLIW_ANDI :: u8 where "VLIW_ANDI \<equiv> 0x1b"
abbreviation (input) VLIW_SLLI :: u8 where "VLIW_SLLI \<equiv> 0x1c"
abbreviation (input) VLIW_SRLI :: u8 where "VLIW_SRLI \<equiv> 0x1d"
abbreviation (input) VLIW_SRAI :: u8 where "VLIW_SRAI \<equiv> 0x1e"
abbreviation (input) VLIW_ADD :: u8 where "VLIW_ADD \<equiv> 0x1f"
abbreviation (input) VLIW_SUB :: u8 where "VLIW_SUB \<equiv> 0x20"
abbreviation (input) VLIW_SLL :: u8 where "VLIW_SLL \<equiv> 0x21"
abbreviation (input) VLIW_SLT :: u8 where "VLIW_SLT \<equiv> 0x22"
abbreviation (input) VLIW_SLTU :: u8 where "VLIW_SLTU \<equiv> 0x23"
abbreviation (input) VLIW_XOR :: u8 where "VLIW_XOR \<equiv> 0x24"
abbreviation (input) VLIW_SRL :: u8 where "VLIW_SRL \<equiv> 0x25"
abbreviation (input) VLIW_SRA :: u8 where "VLIW_SRA \<equiv> 0x26"
abbreviation (input) VLIW_OR :: u8 where "VLIW_OR \<equiv> 0x27"
abbreviation (input) VLIW_AND :: u8 where "VLIW_AND \<equiv> 0x28"
abbreviation (input) VLIW_FENCE :: u8 where "VLIW_FENCE \<equiv> 0x29"
abbreviation (input) VLIW_ECALL :: u8 where "VLIW_ECALL \<equiv> 0x2a"
abbreviation (input) VLIW_EBREAK :: u8 where "VLIW_EBREAK \<equiv> 0x2b"
abbreviation (input) VLIW_SRET :: u8 where "VLIW_SRET \<equiv> 0x2c"
abbreviation (input) VLIW_MRET :: u8 where "VLIW_MRET \<equiv> 0x2d"
abbreviation (input) VLIW_WFI :: u8 where "VLIW_WFI \<equiv> 0x2e"
abbreviation (input) VLIW_FENCE_I :: u8 where "VLIW_FENCE_I \<equiv> 0x2f"
abbreviation (input) VLIW_CSRRW :: u8 where "VLIW_CSRRW \<equiv> 0x30"
abbreviation (input) VLIW_CSRRS :: u8 where "VLIW_CSRRS \<equiv> 0x31"
abbreviation (input) VLIW_CSRRC :: u8 where "VLIW_CSRRC \<equiv> 0x32"
abbreviation (input) VLIW_CSRRWI :: u8 where "VLIW_CSRRWI \<equiv> 0x33"
abbreviation (input) VLIW_CSRRSI :: u8 where "VLIW_CSRRSI \<equiv> 0x34"
abbreviation (input) VLIW_CSRRCI :: u8 where "VLIW_CSRRCI \<equiv> 0x35"
abbreviation (input) VLIW_MUL :: u8 where "VLIW_MUL \<equiv> 0x36"
abbreviation (input) VLIW_MULH :: u8 where "VLIW_MULH \<equiv> 0x37"
abbreviation (input) VLIW_MULHSU :: u8 where "VLIW_MULHSU \<equiv> 0x38"
abbreviation (input) VLIW_MULHU :: u8 where "VLIW_MULHU \<equiv> 0x39"
abbreviation (input) VLIW_DIV :: u8 where "VLIW_DIV \<equiv> 0x3a"
abbreviation (input) VLIW_DIVU :: u8 where "VLIW_DIVU \<equiv> 0x3b"
abbreviation (input) VLIW_REM :: u8 where "VLIW_REM \<equiv> 0x3c"
abbreviation (input) VLIW_REMU :: u8 where "VLIW_REMU \<equiv> 0x3d"
abbreviation (input) VLIW_MULW :: u8 where "VLIW_MULW \<equiv> 0x3e"
abbreviation (input) VLIW_DIVW :: u8 where "VLIW_DIVW \<equiv> 0x3f"
abbreviation (input) VLIW_DIVUW :: u8 where "VLIW_DIVUW \<equiv> 0x40"
abbreviation (input) VLIW_REMW :: u8 where "VLIW_REMW \<equiv> 0x41"
abbreviation (input) VLIW_REMUW :: u8 where "VLIW_REMUW \<equiv> 0x42"
abbreviation (input) VLIW_LR_W :: u8 where "VLIW_LR_W \<equiv> 0x43"
abbreviation (input) VLIW_SC_W :: u8 where "VLIW_SC_W \<equiv> 0x44"
abbreviation (input) VLIW_AMOSWAP_W :: u8 where "VLIW_AMOSWAP_W \<equiv> 0x45"
abbreviation (input) VLIW_AMOADD_W :: u8 where "VLIW_AMOADD_W \<equiv> 0x46"
abbreviation (input) VLIW_AMOXOR_W :: u8 where "VLIW_AMOXOR_W \<equiv> 0x47"
abbreviation (input) VLIW_AMOAND_W :: u8 where "VLIW_AMOAND_W \<equiv> 0x48"
abbreviation (input) VLIW_AMOOR_W :: u8 where "VLIW_AMOOR_W \<equiv> 0x49"
abbreviation (input) VLIW_AMOMIN_W :: u8 where "VLIW_AMOMIN_W \<equiv> 0x4a"
abbreviation (input) VLIW_AMOMAX_W :: u8 where "VLIW_AMOMAX_W \<equiv> 0x4b"
abbreviation (input) VLIW_AMOMINU_W :: u8 where "VLIW_AMOMINU_W \<equiv> 0x4c"
abbreviation (input) VLIW_AMOMAXU_W :: u8 where "VLIW_AMOMAXU_W \<equiv> 0x4d"
abbreviation (input) VLIW_LR_D :: u8 where "VLIW_LR_D \<equiv> 0x4e"
abbreviation (input) VLIW_SC_D :: u8 where "VLIW_SC_D \<equiv> 0x4f"
abbreviation (input) VLIW_AMOSWAP_D :: u8 where "VLIW_AMOSWAP_D \<equiv> 0x50"
abbreviation (input) VLIW_AMOADD_D :: u8 where "VLIW_AMOADD_D \<equiv> 0x51"
abbreviation (input) VLIW_AMOXOR_D :: u8 where "VLIW_AMOXOR_D \<equiv> 0x52"
abbreviation (input) VLIW_AMOAND_D :: u8 where "VLIW_AMOAND_D \<equiv> 0x53"
abbreviation (input) VLIW_AMOOR_D :: u8 where "VLIW_AMOOR_D \<equiv> 0x54"
abbreviation (input) VLIW_AMOMIN_D :: u8 where "VLIW_AMOMIN_D \<equiv> 0x55"
abbreviation (input) VLIW_AMOMAX_D :: u8 where "VLIW_AMOMAX_D \<equiv> 0x56"
abbreviation (input) VLIW_AMOMINU_D :: u8 where "VLIW_AMOMINU_D \<equiv> 0x57"
abbreviation (input) VLIW_AMOMAXU_D :: u8 where "VLIW_AMOMAXU_D \<equiv> 0x58"
abbreviation (input) VLIW_FLW :: u8 where "VLIW_FLW \<equiv> 0x59"
abbreviation (input) VLIW_FSW :: u8 where "VLIW_FSW \<equiv> 0x5a"
abbreviation (input) VLIW_FMADD_S :: u8 where "VLIW_FMADD_S \<equiv> 0x5b"
abbreviation (input) VLIW_FMSUB_S :: u8 where "VLIW_FMSUB_S \<equiv> 0x5c"
abbreviation (input) VLIW_FNMSUB_S :: u8 where "VLIW_FNMSUB_S \<equiv> 0x5d"
abbreviation (input) VLIW_FNMADD_S :: u8 where "VLIW_FNMADD_S \<equiv> 0x5e"
abbreviation (input) VLIW_FADD_S :: u8 where "VLIW_FADD_S \<equiv> 0x5f"
abbreviation (input) VLIW_FSUB_S :: u8 where "VLIW_FSUB_S \<equiv> 0x60"
abbreviation (input) VLIW_FMUL_S :: u8 where "VLIW_FMUL_S \<equiv> 0x61"
abbreviation (input) VLIW_FDIV_S :: u8 where "VLIW_FDIV_S \<equiv> 0x62"
abbreviation (input) VLIW_FSQRT_S :: u8 where "VLIW_FSQRT_S \<equiv> 0x63"
abbreviation (input) VLIW_FSGNJ_S :: u8 where "VLIW_FSGNJ_S \<equiv> 0x64"
abbreviation (input) VLIW_FSGNJN_S :: u8 where "VLIW_FSGNJN_S \<equiv> 0x65"
abbreviation (input) VLIW_FSGNJX_S :: u8 where "VLIW_FSGNJX_S \<equiv> 0x66"
abbreviation (input) VLIW_FMIN_S :: u8 where "VLIW_FMIN_S \<equiv> 0x67"
abbreviation (input) VLIW_FMAX_S :: u8 where "VLIW_FMAX_S \<equiv> 0x68"
abbreviation (input) VLIW_FCVT_W_S :: u8 where "VLIW_FCVT_W_S \<equiv> 0x69"
abbreviation (input) VLIW_FCVT_WU_S :: u8 where "VLIW_FCVT_WU_S \<equiv> 0x6a"
abbreviation (input) VLIW_FMV_X_W :: u8 where "VLIW_FMV_X_W \<equiv> 0x6b"
abbreviation (input) VLIW_FEQ_S :: u8 where "VLIW_FEQ_S \<equiv> 0x6c"
abbreviation (input) VLIW_FLT_S :: u8 where "VLIW_FLT_S \<equiv> 0x6d"
abbreviation (input) VLIW_FLE_S :: u8 where "VLIW_FLE_S \<equiv> 0x6e"
abbreviation (input) VLIW_FCLASS_S :: u8 where "VLIW_FCLASS_S \<equiv> 0x6f"
abbreviation (input) VLIW_FCVT_S_W :: u8 where "VLIW_FCVT_S_W \<equiv> 0x70"
abbreviation (input) VLIW_FCVT_S_WU :: u8 where "VLIW_FCVT_S_WU \<equiv> 0x71"
abbreviation (input) VLIW_FMV_W_X :: u8 where "VLIW_FMV_W_X \<equiv> 0x72"
abbreviation (input) VLIW_FCVT_L_S :: u8 where "VLIW_FCVT_L_S \<equiv> 0x73"
abbreviation (input) VLIW_FCVT_LU_S :: u8 where "VLIW_FCVT_LU_S \<equiv> 0x74"
abbreviation (input) VLIW_FCVT_S_L :: u8 where "VLIW_FCVT_S_L \<equiv> 0x75"
abbreviation (input) VLIW_FCVT_S_LU :: u8 where "VLIW_FCVT_S_LU \<equiv> 0x76"
abbreviation (input) VLIW_FLD :: u8 where "VLIW_FLD \<equiv> 0x77"
abbreviation (input) VLIW_FSD :: u8 where "VLIW_FSD \<equiv> 0x78"
abbreviation (input) VLIW_FMADD_D :: u8 where "VLIW_FMADD_D \<equiv> 0x79"
abbreviation (input) VLIW_FMSUB_D :: u8 where "VLIW_FMSUB_D \<equiv> 0x7a"
abbreviation (input) VLIW_FNMSUB_D :: u8 where "VLIW_FNMSUB_D \<equiv> 0x7b"
abbreviation (input) VLIW_FNMADD_D :: u8 where "VLIW_FNMADD_D \<equiv> 0x7c"
abbreviation (input) VLIW_FADD_D :: u8 where "VLIW_FADD_D \<equiv> 0x7d"
abbreviation (input) VLIW_FSUB_D :: u8 where "VLIW_FSUB_D \<equiv> 0x7e"
abbreviation (input) VLIW_FMUL_D :: u8 where "VLIW_FMUL_D \<equiv> 0x7f"
abbreviation (input) VLIW_FDIV_D :: u8 where "VLIW_FDIV_D \<equiv> 0x80"
abbreviation (input) VLIW_FSQRT_D :: u8 where "VLIW_FSQRT_D \<equiv> 0x81"
abbreviation (input) VLIW_FSGNJ_D :: u8 where "VLIW_FSGNJ_D \<equiv> 0x82"
abbreviation (input) VLIW_FSGNJN_D :: u8 where "VLIW_FSGNJN_D \<equiv> 0x83"
abbreviation (input) VLIW_FSGNJX_D :: u8 where "VLIW_FSGNJX_D \<equiv> 0x84"
abbreviation (input) VLIW_FMIN_D :: u8 where "VLIW_FMIN_D \<equiv> 0x85"
abbreviation (input) VLIW_FMAX_D :: u8 where "VLIW_FMAX_D \<equiv> 0x86"
abbreviation (input) VLIW_FCVT_S_D :: u8 where "VLIW_FCVT_S_D \<equiv> 0x87"
abbreviation (input) VLIW_FCVT_D_S :: u8 where "VLIW_FCVT_D_S \<equiv> 0x88"
abbreviation (input) VLIW_FEQ_D :: u8 where "VLIW_FEQ_D \<equiv> 0x89"
abbreviation (input) VLIW_FLT_D :: u8 where "VLIW_FLT_D \<equiv> 0x8a"
abbreviation (input) VLIW_FLE_D :: u8 where "VLIW_FLE_D \<equiv> 0x8b"
abbreviation (input) VLIW_FCLASS_D :: u8 where "VLIW_FCLASS_D \<equiv> 0x8c"
abbreviation (input) VLIW_FCVT_W_D :: u8 where "VLIW_FCVT_W_D \<equiv> 0x8d"
abbreviation (input) VLIW_FCVT_WU_D :: u8 where "VLIW_FCVT_WU_D \<equiv> 0x8e"
abbreviation (input) VLIW_FCVT_D_W :: u8 where "VLIW_FCVT_D_W \<equiv> 0x8f"
abbreviation (input) VLIW_FCVT_D_WU :: u8 where "VLIW_FCVT_D_WU \<equiv> 0x90"
abbreviation (input) VLIW_FCVT_L_D :: u8 where "VLIW_FCVT_L_D \<equiv> 0x91"
abbreviation (input) VLIW_FCVT_LU_D :: u8 where "VLIW_FCVT_LU_D \<equiv> 0x92"
abbreviation (input) VLIW_FMV_X_D :: u8 where "VLIW_FMV_X_D \<equiv> 0x93"
abbreviation (input) VLIW_FCVT_D_L :: u8 where "VLIW_FCVT_D_L \<equiv> 0x94"
abbreviation (input) VLIW_FCVT_D_LU :: u8 where "VLIW_FCVT_D_LU \<equiv> 0x95"
abbreviation (input) VLIW_FMV_D_X :: u8 where "VLIW_FMV_D_X \<equiv> 0x96"
abbreviation (input) VLIW_FLQ :: u8 where "VLIW_FLQ \<equiv> 0x97"
abbreviation (input) VLIW_FSQ :: u8 where "VLIW_FSQ \<equiv> 0x98"
abbreviation (input) VLIW_FMADD_Q :: u8 where "VLIW_FMADD_Q \<equiv> 0x99"
abbreviation (input) VLIW_FMSUB_Q :: u8 where "VLIW_FMSUB_Q \<equiv> 0x9a"
abbreviation (input) VLIW_FNMSUB_Q :: u8 where "VLIW_FNMSUB_Q \<equiv> 0x9b"
abbreviation (input) VLIW_FNMADD_Q :: u8 where "VLIW_FNMADD_Q \<equiv> 0x9c"
abbreviation (input) VLIW_FADD_Q :: u8 where "VLIW_FADD_Q \<equiv> 0x9d"
abbreviation (input) VLIW_FSUB_Q :: u8 where "VLIW_FSUB_Q \<equiv> 0x9e"
abbreviation (input) VLIW_FMUL_Q :: u8 where "VLIW_FMUL_Q \<equiv> 0x9f"
abbreviation (input) VLIW_FDIV_Q :: u8 where "VLIW_FDIV_Q \<equiv> 0xa0"
abbreviation (input) VLIW_FSQRT_Q :: u8 where "VLIW_FSQRT_Q \<equiv> 0xa1"
abbreviation (input) VLIW_FSGNJ_Q :: u8 where "VLIW_FSGNJ_Q \<equiv> 0xa2"
abbreviation (input) VLIW_FSGNJN_Q :: u8 where "VLIW_FSGNJN_Q \<equiv> 0xa3"
abbreviation (input) VLIW_FSGNJX_Q :: u8 where "VLIW_FSGNJX_Q \<equiv> 0xa4"
abbreviation (input) VLIW_FMIN_Q :: u8 where "VLIW_FMIN_Q \<equiv> 0xa5"
abbreviation (input) VLIW_FMAX_Q :: u8 where "VLIW_FMAX_Q \<equiv> 0xa6"
abbreviation (input) VLIW_FCVT_S_Q :: u8 where "VLIW_FCVT_S_Q \<equiv> 0xa7"
abbreviation (input) VLIW_FCVT_Q_S :: u8 where "VLIW_FCVT_Q_S \<equiv> 0xa8"
abbreviation (input) VLIW_FCVT_D_Q :: u8 where "VLIW_FCVT_D_Q \<equiv> 0xa9"
abbreviation (input) VLIW_FCVT_Q_D :: u8 where "VLIW_FCVT_Q_D \<equiv> 0xaa"
abbreviation (input) VLIW_FEQ_Q :: u8 where "VLIW_FEQ_Q \<equiv> 0xab"
abbreviation (input) VLIW_FLT_Q :: u8 where "VLIW_FLT_Q \<equiv> 0xac"
abbreviation (input) VLIW_FLE_Q :: u8 where "VLIW_FLE_Q \<equiv> 0xad"
abbreviation (input) VLIW_FCLASS_Q :: u8 where "VLIW_FCLASS_Q \<equiv> 0xae"
abbreviation (input) VLIW_FCVT_W_Q :: u8 where "VLIW_FCVT_W_Q \<equiv> 0xaf"
abbreviation (input) VLIW_FCVT_WU_Q :: u8 where "VLIW_FCVT_WU_Q \<equiv> 0xb0"
abbreviation (input) VLIW_FCVT_Q_W :: u8 where "VLIW_FCVT_Q_W \<equiv> 0xb1"
abbreviation (input) VLIW_FCVT_Q_WU :: u8 where "VLIW_FCVT_Q_WU \<equiv> 0xb2"
abbreviation (input) VLIW_FCVT_L_Q :: u8 where "VLIW_FCVT_L_Q \<equiv> 0xb3"
abbreviation (input) VLIW_FCVT_LU_Q :: u8 where "VLIW_FCVT_LU_Q \<equiv> 0xb4"
abbreviation (input) VLIW_FCVT_Q_L :: u8 where "VLIW_FCVT_Q_L \<equiv> 0xb5"
abbreviation (input) VLIW_FCVT_Q_LU :: u8 where "VLIW_FCVT_Q_LU \<equiv> 0xb6"
abbreviation (input) VLIW_ILLEGAL :: u8 where "VLIW_ILLEGAL \<equiv> 0xb7"
abbreviation (input) VLIW_C_ADDI4SPN :: u8 where "VLIW_C_ADDI4SPN \<equiv> 0xb8"
abbreviation (input) VLIW_C_FLD :: u8 where "VLIW_C_FLD \<equiv> 0xb9"
abbreviation (input) VLIW_C_LQ :: u8 where "VLIW_C_LQ \<equiv> 0xba"
abbreviation (input) VLIW_C_LW :: u8 where "VLIW_C_LW \<equiv> 0xbb"
abbreviation (input) VLIW_C_FLW :: u8 where "VLIW_C_FLW \<equiv> 0xbc"
abbreviation (input) VLIW_RESERVED1 :: u8 where "VLIW_RESERVED1 \<equiv> 0xbd"
abbreviation (input) VLIW_C_FSD :: u8 where "VLIW_C_FSD \<equiv> 0xbe"
abbreviation (input) VLIW_C_SQ :: u8 where "VLIW_C_SQ \<equiv> 0xbf"
abbreviation (input) VLIW_C_SW :: u8 where "VLIW_C_SW \<equiv> 0xc0"
abbreviation (input) VLIW_C_FSW :: u8 where "VLIW_C_FSW \<equiv> 0xc1"
abbreviation (input) VLIW_C_NOP :: u8 where "VLIW_C_NOP \<equiv> 0xc2"
abbreviation (input) VLIW_C_ADDI :: u8 where "VLIW_C_ADDI \<equiv> 0xc3"
abbreviation (input) VLIW_C_JAL :: u8 where "VLIW_C_JAL \<equiv> 0xc4"
abbreviation (input) VLIW_C_ADDIW :: u8 where "VLIW_C_ADDIW \<equiv> 0xc5"
abbreviation (input) VLIW_C_LI :: u8 where "VLIW_C_LI \<equiv> 0xc6"
abbreviation (input) VLIW_C_ADDI16SP :: u8 where "VLIW_C_ADDI16SP \<equiv> 0xc7"
abbreviation (input) VLIW_C_LUI :: u8 where "VLIW_C_LUI \<equiv> 0xc8"
abbreviation (input) VLIW_C_SRLI :: u8 where "VLIW_C_SRLI \<equiv> 0xc9"
abbreviation (input) VLIW_C_SRAI :: u8 where "VLIW_C_SRAI \<equiv> 0xca"
abbreviation (input) VLIW_C_ANDI :: u8 where "VLIW_C_ANDI \<equiv> 0xcb"
abbreviation (input) VLIW_C_SUB :: u8 where "VLIW_C_SUB \<equiv> 0xcc"
abbreviation (input) VLIW_C_XOR :: u8 where "VLIW_C_XOR \<equiv> 0xcd"
abbreviation (input) VLIW_C_OR :: u8 where "VLIW_C_OR \<equiv> 0xce"
abbreviation (input) VLIW_C_AND :: u8 where "VLIW_C_AND \<equiv> 0xcf"
abbreviation (input) VLIW_C_SUBW :: u8 where "VLIW_C_SUBW \<equiv> 0xd0"
abbreviation (input) VLIW_C_ADDW :: u8 where "VLIW_C_ADDW \<equiv> 0xd1"
abbreviation (input) VLIW_RESERVED2 :: u8 where "VLIW_RESERVED2 \<equiv> 0xd2"
abbreviation (input) VLIW_RESERVED3 :: u8 where "VLIW_RESERVED3 \<equiv> 0xd3"
abbreviation (input) VLIW_C_J :: u8 where "VLIW_C_J \<equiv> 0xd4"
abbreviation (input) VLIW_C_BEQZ :: u8 where "VLIW_C_BEQZ \<equiv> 0xd5"
abbreviation (input) VLIW_C_BNEZ :: u8 where "VLIW_C_BNEZ \<equiv> 0xd6"
abbreviation (input) VLIW_C_SLLI :: u8 where "VLIW_C_SLLI \<equiv> 0xd7"
abbreviation (input) VLIW_C_SLLI64 :: u8 where "VLIW_C_SLLI64 \<equiv> 0xd8"
abbreviation (input) VLIW_C_FLDSP :: u8 where "VLIW_C_FLDSP \<equiv> 0xd9"
abbreviation (input) VLIW_C_LQSP :: u8 where "VLIW_C_LQSP \<equiv> 0xda"
abbreviation (input) VLIW_C_LWSP :: u8 where "VLIW_C_LWSP \<equiv> 0xdb"
abbreviation (input) VLIW_C_FLWSP :: u8 where "VLIW_C_FLWSP \<equiv> 0xdc"
abbreviation (input) VLIW_C_LDSP :: u8 where "VLIW_C_LDSP \<equiv> 0xdd"
abbreviation (input) VLIW_C_JR :: u8 where "VLIW_C_JR \<equiv> 0xde"
abbreviation (input) VLIW_C_MV :: u8 where "VLIW_C_MV \<equiv> 0xdf"
abbreviation (input) VLIW_C_EBREAK :: u8 where "VLIW_C_EBREAK \<equiv> 0xe0"
abbreviation (input) VLIW_C_JALR :: u8 where "VLIW_C_JALR \<equiv> 0xe1"
abbreviation (input) VLIW_C_ADD :: u8 where "VLIW_C_ADD \<equiv> 0xe2"
abbreviation (input) VLIW_C_FSDSP :: u8 where "VLIW_C_FSDSP \<equiv> 0xe3"
abbreviation (input) VLIW_C_SQSP :: u8 where "VLIW_C_SQSP \<equiv> 0xe4"
abbreviation (input) VLIW_C_SWSP :: u8 where "VLIW_C_SWSP \<equiv> 0xe5"
abbreviation (input) VLIW_C_FSWSP :: u8 where "VLIW_C_FSWSP \<equiv> 0xe6"
abbreviation (input) VLIW_C_SDSP :: u8 where "VLIW_C_SDSP \<equiv> 0xe7"
abbreviation (input) VLIW_SIZE :: u8 where "VLIW_SIZE \<equiv> 0xe8"

section \<open>Names\<close>

definition VliwName_lo :: "string list" where
  "VliwName_lo =
   [''VLIW_NONE'', ''VLIW_LUI'', ''VLIW_AUIPC'', ''VLIW_J'', ''VLIW_JAL'', ''VLIW_JR'',
    ''VLIW_JALR'', ''VLIW_BEQ'', ''VLIW_BNE'', ''VLIW_BLT'', ''VLIW_BGE'', ''VLIW_BLTU'',
    ''VLIW_BGEU'', ''VLIW_LB'', ''VLIW_LH'', ''VLIW_LW'', ''VLIW_LBU'', ''VLIW_LHU'',
    ''VLIW_SB'', ''VLIW_SH'', ''VLIW_SW'', ''VLIW_NOP'', ''VLIW_ADDI'', ''VLIW_SLTI'',
    ''VLIW_SLTIU'', ''VLIW_XORI'', ''VLIW_ORI'', ''VLIW_ANDI'', ''VLIW_SLLI'',
    ''VLIW_SRLI'', ''VLIW_SRAI'', ''VLIW_ADD'', ''VLIW_SUB'', ''VLIW_SLL'', ''VLIW_SLT'',
    ''VLIW_SLTU'', ''VLIW_XOR'', ''VLIW_SRL'', ''VLIW_SRA'', ''VLIW_OR'', ''VLIW_AND'',
    ''VLIW_FENCE'', ''VLIW_ECALL'', ''VLIW_EBREAK'', ''VLIW_SRET'', ''VLIW_MRET'',
    ''VLIW_WFI'', ''VLIW_FENCE_I'', ''VLIW_CSRRW'', ''VLIW_CSRRS'', ''VLIW_CSRRC'',
    ''VLIW_CSRRWI'', ''VLIW_CSRRSI'', ''VLIW_CSRRCI'', ''VLIW_MUL'', ''VLIW_MULH'',
    ''VLIW_MULHSU'', ''VLIW_MULHU'', ''VLIW_DIV'', ''VLIW_DIVU'', ''VLIW_REM'',
    ''VLIW_REMU'', ''VLIW_MULW'', ''VLIW_DIVW'', ''VLIW_DIVUW'', ''VLIW_REMW'',
    ''VLIW_REMUW'', ''VLIW_LR_W'', ''VLIW_SC_W'', ''VLIW_AMOSWAP_W'', ''VLIW_AMOADD_W'',
    ''VLIW_AMOXOR_W'', ''VLIW_AMOAND_W'', ''VLIW_AMOOR_W'', ''VLIW_AMOMIN_W'',
    ''VLIW_AMOMAX_W'', ''VLIW_AMOMINU_W'', ''VLIW_AMOMAXU_W'', ''VLIW_LR_D'', ''VLIW_SC_D'',
    ''VLIW_AMOSWAP_D'', ''VLIW_AMOADD_D'', ''VLIW_AMOXOR_D'', ''VLIW_AMOAND_D'',
    ''VLIW_AMOOR_D'', ''VLIW_AMOMIN_D'', ''VLIW_AMOMAX_D'', ''VLIW_AMOMINU_D'',
    ''VLIW_AMOMAXU_D'', ''VLIW_FLW'', ''VLIW_FSW'', ''VLIW_FMADD_S'', ''VLIW_FMSUB_S'',
    ''VLIW_FNMSUB_S'', ''VLIW_FNMADD_S'', ''VLIW_FADD_S'', ''VLIW_FSUB_S'', ''VLIW_FMUL_S'',
    ''VLIW_FDIV_S'', ''VLIW_FSQRT_S'', ''VLIW_FSGNJ_S'', ''VLIW_FSGNJN_S'',
    ''VLIW_FSGNJX_S'', ''VLIW_FMIN_S'', ''VLIW_FMAX_S'', ''VLIW_FCVT_W_S'',
    ''VLIW_FCVT_WU_S'', ''VLIW_FMV_X_W'', ''VLIW_FEQ_S'', ''VLIW_FLT_S'', ''VLIW_FLE_S'',
    ''VLIW_FCLASS_S'', ''VLIW_FCVT_S_W'', ''VLIW_FCVT_S_WU'', ''VLIW_FMV_W_X'',
    ''VLIW_FCVT_L_S'']"

definition VliwName_hi :: "string list" where
  "VliwName_hi =
   [''VLIW_FCVT_LU_S'', ''VLIW_FCVT_S_L'', ''VLIW_FCVT_S_LU'', ''VLIW_FLD'', ''VLIW_FSD'',
    ''VLIW_FMADD_D'', ''VLIW_FMSUB_D'', ''VLIW_FNMSUB_D'', ''VLIW_FNMADD_D'',
    ''VLIW_FADD_D'', ''VLIW_FSUB_D'', ''VLIW_FMUL_D'', ''VLIW_FDIV_D'', ''VLIW_FSQRT_D'',
    ''VLIW_FSGNJ_D'', ''VLIW_FSGNJN_D'', ''VLIW_FSGNJX_D'', ''VLIW_FMIN_D'',
    ''VLIW_FMAX_D'', ''VLIW_FCVT_S_D'', ''VLIW_FCVT_D_S'', ''VLIW_FEQ_D'', ''VLIW_FLT_D'',
    ''VLIW_FLE_D'', ''VLIW_FCLASS_D'', ''VLIW_FCVT_W_D'', ''VLIW_FCVT_WU_D'',
    ''VLIW_FCVT_D_W'', ''VLIW_FCVT_D_WU'', ''VLIW_FCVT_L_D'', ''VLIW_FCVT_LU_D'',
    ''VLIW_FMV_X_D'', ''VLIW_FCVT_D_L'', ''VLIW_FCVT_D_LU'', ''VLIW_FMV_D_X'', ''VLIW_FLQ'',
    ''VLIW_FSQ'', ''VLIW_FMADD_Q'', ''VLIW_FMSUB_Q'', ''VLIW_FNMSUB_Q'', ''VLIW_FNMADD_Q'',
    ''VLIW_FADD_Q'', ''VLIW_FSUB_Q'', ''VLIW_FMUL_Q'', ''VLIW_FDIV_Q'', ''VLIW_FSQRT_Q'',
    ''VLIW_FSGNJ_Q'', ''VLIW_FSGNJN_Q'', ''VLIW_FSGNJX_Q'', ''VLIW_FMIN_Q'',
    ''VLIW_FMAX_Q'', ''VLIW_FCVT_S_Q'', ''VLIW_FCVT_Q_S'', ''VLIW_FCVT_D_Q'',
    ''VLIW_FCVT_Q_D'', ''VLIW_FEQ_Q'', ''VLIW_FLT_Q'', ''VLIW_FLE_Q'', ''VLIW_FCLASS_Q'',
    ''VLIW_FCVT_W_Q'', ''VLIW_FCVT_WU_Q'', ''VLIW_FCVT_Q_W'', ''VLIW_FCVT_Q_WU'',
    ''VLIW_FCVT_L_Q'', ''VLIW_FCVT_LU_Q'', ''VLIW_FCVT_Q_L'', ''VLIW_FCVT_Q_LU'',
    ''VLIW_ILLEGAL'', ''VLIW_C_ADDI4SPN'', ''VLIW_C_FLD'', ''VLIW_C_LQ'', ''VLIW_C_LW'',
    ''VLIW_C_FLW'', ''VLIW_RESERVED1'', ''VLIW_C_FSD'', ''VLIW_C_SQ'', ''VLIW_C_SW'',
    ''VLIW_C_FSW'', ''VLIW_C_NOP'', ''VLIW_C_ADDI'', ''VLIW_C_JAL'', ''VLIW_C_ADDIW'',
    ''VLIW_C_LI'', ''VLIW_C_ADDI16SP'', ''VLIW_C_LUI'', ''VLIW_C_SRLI'', ''VLIW_C_SRAI'',
    ''VLIW_C_ANDI'', ''VLIW_C_SUB'', ''VLIW_C_XOR'', ''VLIW_C_OR'', ''VLIW_C_AND'',
    ''VLIW_C_SUBW'', ''VLIW_C_ADDW'', ''VLIW_RESERVED2'', ''VLIW_RESERVED3'', ''VLIW_C_J'',
    ''VLIW_C_BEQZ'', ''VLIW_C_BNEZ'', ''VLIW_C_SLLI'', ''VLIW_C_SLLI64'', ''VLIW_C_FLDSP'',
    ''VLIW_C_LQSP'', ''VLIW_C_LWSP'', ''VLIW_C_FLWSP'', ''VLIW_C_LDSP'', ''VLIW_C_JR'',
    ''VLIW_C_MV'', ''VLIW_C_EBREAK'', ''VLIW_C_JALR'', ''VLIW_C_ADD'', ''VLIW_C_FSDSP'',
    ''VLIW_C_SQSP'', ''VLIW_C_SWSP'', ''VLIW_C_FSWSP'', ''VLIW_C_SDSP'']"

definition VliwName :: "string list" where
  "VliwName = VliwName_lo @ VliwName_hi"

definition getVliwName :: "int \<Rightarrow> string" where
  "getVliwName n =
    (if n < 0 \<or> n \<ge> int (unat VLIW_SIZE) then ''???'' else VliwName ! nat n)"

lemma length_VliwName_lo [simp]: "length VliwName_lo = 116"
  by (simp add: VliwName_lo_def)

lemma length_VliwName_hi [simp]: "length VliwName_hi = 116"
  by (simp add: VliwName_hi_def)

lemma length_VliwName: "length VliwName = unat VLIW_SIZE"
  by (simp add: VliwName_def)

end
