(* ===== verification/Op_Table.thy ===== *)
theory Op_Table
  imports Vliw_Table
begin

text \<open>
  The instruction table \<open>optable\<close> of \<open>src/OpTable_rv32.cpp\<close>, row by row, in the
  table's order (a decoder takes the first row that matches, so the order matters). A row is
  an \<open>Optable\<close> of \<open>src/OpTable.h\<close>; the row of null pointers that ends the array is
  the end of the list. \<open>op_find\<close> is the search loop both decoders run over it.
\<close>

datatype optable = Op (bitText: string) (op_code: u32) (op_mask: u32) (op_vliw: u8) (asmText: string)

definition optable_i :: "optable list" where
  "optable_i =
   [Op ''iiiiiiiiiiiiiiiiiiiiddddd0110111'' 0x00000037 0x0000007f VLIW_LUI ''lui rd,imm20'',
    Op ''iiiiiiiiiiiiiiiiiiiiddddd0010111'' 0x00000017 0x0000007f VLIW_AUIPC ''auipc rd,imm20'',
    Op ''iiiiiiiiiiiiiiiiiiii000001101111'' 0x0000006f 0x00000fff VLIW_J ''j joff'',
    Op ''iiiiiiiiiiiiiiiiiiiiddddd1101111'' 0x0000006f 0x0000007f VLIW_JAL ''jal rd,joff'',
    Op ''000000000000sssss000000001100111'' 0x00000067 0xfff07fff VLIW_JR ''jr rs1'',
    Op ''iiiiiiiiiiiisssss000ddddd1100111'' 0x00000067 0x0000707f VLIW_JALR ''jalr rd,rs1,simm12'',
    Op ''iiiiiiitttttsssss000iiiii1100011'' 0x00000063 0x0000707f VLIW_BEQ ''beq rs1,rs2,boff'',
    Op ''iiiiiiitttttsssss001iiiii1100011'' 0x00001063 0x0000707f VLIW_BNE ''bne rs1,rs2,boff'',
    Op ''iiiiiiitttttsssss100iiiii1100011'' 0x00004063 0x0000707f VLIW_BLT ''blt rs1,rs2,boff'',
    Op ''iiiiiiitttttsssss101iiiii1100011'' 0x00005063 0x0000707f VLIW_BGE ''bge rs1,rs2,boff'',
    Op ''iiiiiiitttttsssss110iiiii1100011'' 0x00006063 0x0000707f VLIW_BLTU ''bltu rs1,rs2,boff'',
    Op ''iiiiiiitttttsssss111iiiii1100011'' 0x00007063 0x0000707f VLIW_BGEU ''bgeu rs1,rs2,boff'',
    Op ''iiiiiiiiiiiisssss000ddddd0000011'' 0x00000003 0x0000707f VLIW_LB ''lb rd,rs,simm12'',
    Op ''iiiiiiiiiiiisssss001ddddd0000011'' 0x00001003 0x0000707f VLIW_LH ''lh rd,rs,simm12'',
    Op ''iiiiiiiiiiiisssss010ddddd0000011'' 0x00002003 0x0000707f VLIW_LW ''lw rd,rs,simm12'',
    Op ''iiiiiiiiiiiisssss100ddddd0000011'' 0x00004003 0x0000707f VLIW_LBU ''lbu rd,rs,simm12'',
    Op ''iiiiiiiiiiiisssss101ddddd0000011'' 0x00005003 0x0000707f VLIW_LHU ''lhu rd,rs,simm12'',
    Op ''iiiiiiitttttsssss000iiiii0100011'' 0x00000023 0x0000707f VLIW_SB ''sb rs2,rs1,s2imm12'',
    Op ''iiiiiiitttttsssss001iiiii0100011'' 0x00001023 0x0000707f VLIW_SH ''sh rs2,rs1,s2imm12'',
    Op ''iiiiiiitttttsssss010iiiii0100011'' 0x00002023 0x0000707f VLIW_SW ''sw rs2,rs1,s2imm12'',
    Op ''00000000000000000000000000010011'' 0x00000013 0xffffffff VLIW_NOP ''nop'',
    Op ''iiiiiiiiiiiisssss000ddddd0010011'' 0x00000013 0x0000707f VLIW_ADDI ''addi rd,rs,simm12'',
    Op ''iiiiiiiiiiiisssss010ddddd0010011'' 0x00002013 0x0000707f VLIW_SLTI ''slti rd,rs,simm12'',
    Op ''iiiiiiiiiiiisssss011ddddd0010011'' 0x00003013 0x0000707f VLIW_SLTIU ''sltiu rd,rs,simm12'',
    Op ''iiiiiiiiiiiisssss100ddddd0010011'' 0x00004013 0x0000707f VLIW_XORI ''xori rd,rs,simm12'',
    Op ''iiiiiiiiiiiisssss110ddddd0010011'' 0x00006013 0x0000707f VLIW_ORI ''ori rd,rs,simm12'',
    Op ''iiiiiiiiiiiisssss111ddddd0010011'' 0x00007013 0x0000707f VLIW_ANDI ''andi rd,rs,simm12'',
    Op ''0000000aaaaasssss001ddddd0010011'' 0x00001013 0xfe00707f VLIW_SLLI ''slli rd,rs1,shamt'',
    Op ''0000000aaaaasssss101ddddd0010011'' 0x00005013 0xfe00707f VLIW_SRLI ''srli rd,rs1,shamt'',
    Op ''0100000aaaaasssss101ddddd0010011'' 0x40005013 0xfe00707f VLIW_SRAI ''srai rd,rs1,shamt'',
    Op ''0000000tttttsssss000ddddd0110011'' 0x00000033 0xfe00707f VLIW_ADD ''add rd,rs1,rs2'',
    Op ''0100000tttttsssss000ddddd0110011'' 0x40000033 0xfe00707f VLIW_SUB ''sub rd,rs1,rs2'',
    Op ''0000000tttttsssss001ddddd0110011'' 0x00001033 0xfe00707f VLIW_SLL ''sll rd,rs1,rs2'',
    Op ''0000000tttttsssss010ddddd0110011'' 0x00002033 0xfe00707f VLIW_SLT ''slt rd,rs1,rs2'',
    Op ''0000000tttttsssss011ddddd0110011'' 0x00003033 0xfe00707f VLIW_SLTU ''sltu rd,rs1,rs2'',
    Op ''0000000tttttsssss100ddddd0110011'' 0x00004033 0xfe00707f VLIW_XOR ''xor rd,rs1,rs2'',
    Op ''0000000tttttsssss101ddddd0110011'' 0x00005033 0xfe00707f VLIW_SRL ''srl rd,rs1,rs2'',
    Op ''0100000tttttsssss101ddddd0110011'' 0x40005033 0xfe00707f VLIW_SRA ''sra rd,rs1,rs2'',
    Op ''0000000tttttsssss110ddddd0110011'' 0x00006033 0xfe00707f VLIW_OR ''or rd,rs1,rs2'',
    Op ''0000000tttttsssss111ddddd0110011'' 0x00007033 0xfe00707f VLIW_AND ''and rd,rs1,rs2'',
    Op ''FFFFFFFFFFFFsssss000ddddd0001111'' 0x0000000f 0x0000707f VLIW_FENCE ''fence'',
    Op ''00000000000000000000000001110011'' 0x00000073 0xffffffff VLIW_ECALL ''ecall'',
    Op ''00000000000010000000000001110011'' 0x00100073 0xffffffff VLIW_EBREAK ''ebreak'',
    Op ''00010000000100000000000001110011'' 0x10200073 0xffffffff VLIW_SRET ''sret'',
    Op ''01100000000100000000000001110011'' 0x30200073 0xffffffff VLIW_MRET ''mret'',
    Op ''00010000001010000000000001110011'' 0x10500073 0xffffffff VLIW_WFI ''wfi'',
    Op ''iiiiiiiiiiiisssss001ddddd0001111'' 0x0000100f 0x0000707f VLIW_FENCE_I ''fence.i imm21'',
    Op ''ccccccccccccsssss001ddddd1110011'' 0x00001073 0x0000707f VLIW_CSRRW ''csrrw csr,rd,rs'',
    Op ''ccccccccccccsssss010ddddd1110011'' 0x00002073 0x0000707f VLIW_CSRRS ''csrrs csr,rd,rs'',
    Op ''ccccccccccccsssss011ddddd1110011'' 0x00003073 0x0000707f VLIW_CSRRC ''csrrc csr,rd,rs'',
    Op ''ccccccccccccuuuuu101ddddd1110011'' 0x00005073 0x0000707f VLIW_CSRRWI ''csrrwi csr,rd,uimm5'',
    Op ''ccccccccccccuuuuu110ddddd1110011'' 0x00006073 0x0000707f VLIW_CSRRSI ''csrrsi csr,rd,uimm5'',
    Op ''ccccccccccccuuuuu111ddddd1110011'' 0x00007073 0x0000707f VLIW_CSRRCI ''csrrci csr,rd,uimm5'']"

definition optable_m :: "optable list" where
  "optable_m =
   [Op ''0000001tttttsssss000ddddd0110011'' 0x02000033 0xfe00707f VLIW_MUL ''mul rd,rs1,rs2'',
    Op ''0000001tttttsssss001ddddd0110011'' 0x02001033 0xfe00707f VLIW_MULH ''mulh rd,rs1,rs2'',
    Op ''0000001tttttsssss010ddddd0110011'' 0x02002033 0xfe00707f VLIW_MULHSU ''mulhsu rd,rs1,rs2'',
    Op ''0000001tttttsssss011ddddd0110011'' 0x02003033 0xfe00707f VLIW_MULHU ''mulhu rd,rs1,rs2'',
    Op ''0000001tttttsssss100ddddd0110011'' 0x02004033 0xfe00707f VLIW_DIV ''div rd,rs1,rs2'',
    Op ''0000001tttttsssss101ddddd0110011'' 0x02005033 0xfe00707f VLIW_DIVU ''divu rd,rs1,rs2'',
    Op ''0000001tttttsssss110ddddd0110011'' 0x02006033 0xfe00707f VLIW_REM ''rem rd,rs1,rs2'',
    Op ''0000001tttttsssss111ddddd0110011'' 0x02007033 0xfe00707f VLIW_REMU ''remu rd,rs1,rs2'',
    Op ''0000001tttttsssss000ddddd0111011'' 0x0200003b 0xfe00707f VLIW_MULW ''mulw rd,rs1,rs2'',
    Op ''0000001tttttsssss100ddddd0111011'' 0x0200403b 0xfe00707f VLIW_DIVW ''divw rd,rs1,rs2'',
    Op ''0000001tttttsssss101ddddd0111011'' 0x0200503b 0xfe00707f VLIW_DIVUW ''divuw rd,rs1,rs2'',
    Op ''0000001tttttsssss110ddddd0111011'' 0x0200603b 0xfe00707f VLIW_REMW ''remw rd,rs1,rs2'',
    Op ''0000001tttttsssss111ddddd0111011'' 0x0200703b 0xfe00707f VLIW_REMUW ''remuw rd,rs1,rs2'']"

definition optable_a :: "optable list" where
  "optable_a =
   [Op ''00010ql00000sssss010ddddd0101111'' 0x1000202f 0xf9f0707f VLIW_LR_W ''lr.w rd,rs1'',
    Op ''00011qltttttsssss010ddddd0101111'' 0x1800202f 0xf800707f VLIW_SC_W ''sc.w rd,rs2,rs1'',
    Op ''00001qltttttsssss010ddddd0101111'' 0x0800202f 0xf800707f VLIW_AMOSWAP_W ''amoswap.w'',
    Op ''00000qltttttsssss010ddddd0101111'' 0x0000202f 0xf800707f VLIW_AMOADD_W ''amoadd.w'',
    Op ''00100qltttttsssss010ddddd0101111'' 0x2000202f 0xf800707f VLIW_AMOXOR_W ''amoxor.w'',
    Op ''01100qltttttsssss010ddddd0101111'' 0x6000202f 0xf800707f VLIW_AMOAND_W ''amoand.w'',
    Op ''01000qltttttsssss010ddddd0101111'' 0x4000202f 0xf800707f VLIW_AMOOR_W ''amoor.w'',
    Op ''10000qltttttsssss010ddddd0101111'' 0x8000202f 0xf800707f VLIW_AMOMIN_W ''amomin.w'',
    Op ''10100qltttttsssss010ddddd0101111'' 0xa000202f 0xf800707f VLIW_AMOMAX_W ''amomax.w'',
    Op ''11000qltttttsssss010ddddd0101111'' 0xc000202f 0xf800707f VLIW_AMOMINU_W ''amominu.w'',
    Op ''11100qltttttsssss010ddddd0101111'' 0xe000202f 0xf800707f VLIW_AMOMAXU_W ''amomaxu.w'',
    Op ''00010ql00000sssss011ddddd0101111'' 0x1000302f 0xf9f0707f VLIW_LR_D ''lr.d rd,rs1'',
    Op ''00011qltttttsssss011ddddd0101111'' 0x1800302f 0xf800707f VLIW_SC_D ''sc.d rd,rs1,rs2'',
    Op ''00001qltttttsssss011ddddd0101111'' 0x0800302f 0xf800707f VLIW_AMOSWAP_D ''amoswap.d'',
    Op ''00000qltttttsssss011ddddd0101111'' 0x0000302f 0xf800707f VLIW_AMOADD_D ''amoadd.d'',
    Op ''00100qltttttsssss011ddddd0101111'' 0x2000302f 0xf800707f VLIW_AMOXOR_D ''amoxor.d'',
    Op ''01100qltttttsssss011ddddd0101111'' 0x6000302f 0xf800707f VLIW_AMOAND_D ''amoand.d'',
    Op ''01000qltttttsssss011ddddd0101111'' 0x4000302f 0xf800707f VLIW_AMOOR_D ''amoor.d'',
    Op ''10000qltttttsssss011ddddd0101111'' 0x8000302f 0xf800707f VLIW_AMOMIN_D ''amomin.d'',
    Op ''10100qltttttsssss011ddddd0101111'' 0xa000302f 0xf800707f VLIW_AMOMAX_D ''amomax.d'',
    Op ''11000qltttttsssss011ddddd0101111'' 0xc000302f 0xf800707f VLIW_AMOMINU_D ''amominu.d'',
    Op ''11100qltttttsssss011ddddd0101111'' 0xe000302f 0xf800707f VLIW_AMOMAXU_D ''amomaxu.d'']"

definition optable_f :: "optable list" where
  "optable_f =
   [Op ''iiiiiiiiiiiisssss010ddddd0000111'' 0x00002007 0x0000707f VLIW_FLW ''flw'',
    Op ''iiiiiiitttttsssss010iiiii0100111'' 0x00002027 0x0000707f VLIW_FSW ''fsw'',
    Op ''rrrrr00tttttsssssmmmddddd1000011'' 0x00000043 0x0600007f VLIW_FMADD_S ''fmadd.s'',
    Op ''rrrrr00tttttsssssmmmddddd1000111'' 0x00000047 0x0600007f VLIW_FMSUB_S ''fmsub.s'',
    Op ''rrrrr00tttttsssssmmmddddd1001011'' 0x0000004b 0x0600007f VLIW_FNMSUB_S ''fnmsub.s'',
    Op ''rrrrr00tttttsssssmmmddddd1001111'' 0x0000004f 0x0600007f VLIW_FNMADD_S ''fnmadd.s'',
    Op ''0000000tttttsssssmmmddddd1010011'' 0x00000053 0xfe00007f VLIW_FADD_S ''fadd.s'',
    Op ''0000100tttttsssssmmmddddd1010011'' 0x08000053 0xfe00007f VLIW_FSUB_S ''fsub.s'',
    Op ''0001000tttttsssssmmmddddd1010011'' 0x10000053 0xfe00007f VLIW_FMUL_S ''fmul.s'',
    Op ''0001100tttttsssssmmmddddd1010011'' 0x18000053 0xfe00007f VLIW_FDIV_S ''fdiv.s'',
    Op ''010110000000sssssmmmddddd1010011'' 0x58000053 0xfff0007f VLIW_FSQRT_S ''fsqrt.s'',
    Op ''0010000tttttsssss000ddddd1010011'' 0x20000053 0xfe00707f VLIW_FSGNJ_S ''fsgnj.s'',
    Op ''0010000tttttsssss001ddddd1010011'' 0x20001053 0xfe00707f VLIW_FSGNJN_S ''fsgnjn.s'',
    Op ''0010000tttttsssss010ddddd1010011'' 0x20002053 0xfe00707f VLIW_FSGNJX_S ''fsgnjx.s'',
    Op ''0010100tttttsssss000ddddd1010011'' 0x28000053 0xfe00707f VLIW_FMIN_S ''fmin.s'',
    Op ''0010100tttttsssss001ddddd1010011'' 0x28001053 0xfe00707f VLIW_FMAX_S ''fmax.s'',
    Op ''110000000000sssssmmmddddd1010011'' 0xc0000053 0xfff0007f VLIW_FCVT_W_S ''fcvt.w.s'',
    Op ''110000000001sssssmmmddddd1010011'' 0xc0100053 0xfff0007f VLIW_FCVT_WU_S ''fcvt.wu.s'',
    Op ''111000000000sssss000ddddd1010011'' 0xe0000053 0xfff0707f VLIW_FMV_X_W ''fmv.x.w'',
    Op ''1010000tttttsssss010ddddd1010011'' 0xa0002053 0xfe00707f VLIW_FEQ_S ''feq.s'',
    Op ''1010000tttttsssss001ddddd1010011'' 0xa0001053 0xfe00707f VLIW_FLT_S ''flt.s'',
    Op ''1010000tttttsssss000ddddd1010011'' 0xa0000053 0xfe00707f VLIW_FLE_S ''fle.s'',
    Op ''111000000000sssss001ddddd1010011'' 0xe0001053 0xfff0707f VLIW_FCLASS_S ''fclass.s'',
    Op ''110100000000sssssmmmddddd1010011'' 0xd0000053 0xfff0007f VLIW_FCVT_S_W ''fcvt.s.w'',
    Op ''110100000001sssssmmmddddd1010011'' 0xd0100053 0xfff0007f VLIW_FCVT_S_WU ''fcvt.s.wu'',
    Op ''111100000000sssss000ddddd1010011'' 0xf0000053 0xfff0707f VLIW_FMV_W_X ''fmv.w.x'',
    Op ''110000000010sssssmmmddddd1010011'' 0xc0200053 0xfff0007f VLIW_FCVT_L_S ''fcvt.l.s'',
    Op ''110000000011sssssmmmddddd1010011'' 0xc0300053 0xfff0007f VLIW_FCVT_LU_S ''fcvt.lu.s'',
    Op ''110100000010sssssmmmddddd1010011'' 0xd0200053 0xfff0007f VLIW_FCVT_S_L ''fcvt.s.l'',
    Op ''110100000011sssssmmmddddd1010011'' 0xd0300053 0xfff0007f VLIW_FCVT_S_LU ''fcvt.s.lu'']"

definition optable_d :: "optable list" where
  "optable_d =
   [Op ''iiiiiiiiiiiisssss011ddddd0000111'' 0x00003007 0x0000707f VLIW_FLD ''fld'',
    Op ''iiiiiiitttttsssss011iiiii0100111'' 0x00003027 0x0000707f VLIW_FSD ''fsd'',
    Op ''rrrrr01tttttsssssmmmddddd1000011'' 0x02000043 0x0600007f VLIW_FMADD_D ''fmadd.d'',
    Op ''rrrrr01tttttsssssmmmddddd1000111'' 0x02000047 0x0600007f VLIW_FMSUB_D ''fmsub.d'',
    Op ''rrrrr01tttttsssssmmmddddd1001011'' 0x0200004b 0x0600007f VLIW_FNMSUB_D ''fnmsub.d'',
    Op ''rrrrr01tttttsssssmmmddddd1001111'' 0x0200004f 0x0600007f VLIW_FNMADD_D ''fnmadd.d'',
    Op ''0000001tttttsssssmmmddddd1010011'' 0x02000053 0xfe00007f VLIW_FADD_D ''fadd.d'',
    Op ''0000101tttttsssssmmmddddd1010011'' 0x0a000053 0xfe00007f VLIW_FSUB_D ''fsub.d'',
    Op ''0001001tttttsssssmmmddddd1010011'' 0x12000053 0xfe00007f VLIW_FMUL_D ''fmul.d'',
    Op ''0001101tttttsssssmmmddddd1010011'' 0x1a000053 0xfe00007f VLIW_FDIV_D ''fdiv.d'',
    Op ''010110100000sssssmmmddddd1010011'' 0x5a000053 0xfff0007f VLIW_FSQRT_D ''fsqrt.d'',
    Op ''0010001tttttsssss000ddddd1010011'' 0x22000053 0xfe00707f VLIW_FSGNJ_D ''fsgnj.d'',
    Op ''0010001tttttsssss001ddddd1010011'' 0x22001053 0xfe00707f VLIW_FSGNJN_D ''fsgnjn.d'',
    Op ''0010001tttttsssss010ddddd1010011'' 0x22002053 0xfe00707f VLIW_FSGNJX_D ''fsgnjx.d'',
    Op ''0010101tttttsssss000ddddd1010011'' 0x2a000053 0xfe00707f VLIW_FMIN_D ''fmin.d'',
    Op ''0010101tttttsssss001ddddd1010011'' 0x2a001053 0xfe00707f VLIW_FMAX_D ''fmax.d'',
    Op ''010000000001sssssmmmddddd1010011'' 0x40100053 0xfff0007f VLIW_FCVT_S_D ''fcvt.s.d'',
    Op ''010000100000sssssmmmddddd1010011'' 0x42000053 0xfff0007f VLIW_FCVT_D_S ''fcvt.d.s'',
    Op ''1010001tttttsssss010ddddd1010011'' 0xa2002053 0xfe00707f VLIW_FEQ_D ''feq.d'',
    Op ''1010001tttttsssss001ddddd1010011'' 0xa2001053 0xfe00707f VLIW_FLT_D ''flt.d'',
    Op ''1010001tttttsssss000ddddd1010011'' 0xa2000053 0xfe00707f VLIW_FLE_D ''fle.d'',
    Op ''111000100000sssss001ddddd1010011'' 0xe2001053 0xfff0707f VLIW_FCLASS_D ''fclass.d'',
    Op ''110000100000sssssmmmddddd1010011'' 0xc2000053 0xfff0007f VLIW_FCVT_W_D ''fcvt.w.d'',
    Op ''110000100001sssssmmmddddd1010011'' 0xc2100053 0xfff0007f VLIW_FCVT_WU_D ''fcvt.wu.d'',
    Op ''110100100000sssssmmmddddd1010011'' 0xd2000053 0xfff0007f VLIW_FCVT_D_W ''fcvt.d.w'',
    Op ''110100100001sssssmmmddddd1010011'' 0xd2100053 0xfff0007f VLIW_FCVT_D_WU ''fcvt.d.wu'',
    Op ''110000100010sssssmmmddddd1010011'' 0xc2200053 0xfff0007f VLIW_FCVT_L_D ''fcvt.l.d'',
    Op ''110000100011sssssmmmddddd1010011'' 0xc2300053 0xfff0007f VLIW_FCVT_LU_D ''fcvt.lu.d'',
    Op ''111000100000sssss000ddddd1010011'' 0xe2000053 0xfff0707f VLIW_FMV_X_D ''fmv.x.d'',
    Op ''110100100010sssssmmmddddd1010011'' 0xd2200053 0xfff0007f VLIW_FCVT_D_L ''fcvt.d.l'',
    Op ''110100100011sssssmmmddddd1010011'' 0xd2300053 0xfff0007f VLIW_FCVT_D_LU ''fcvt.d.lu'',
    Op ''111100100000sssss000ddddd1010011'' 0xf2000053 0xfff0707f VLIW_FMV_D_X ''fmv.d.x'']"

definition optable_q :: "optable list" where
  "optable_q =
   [Op ''iiiiiiiiiiiisssss100ddddd0000111'' 0x00004007 0x0000707f VLIW_FLQ ''flq'',
    Op ''iiiiiiitttttsssss100iiiii0100111'' 0x00004027 0x0000707f VLIW_FSQ ''fsq'',
    Op ''rrrrr11tttttsssssmmmddddd1000011'' 0x06000043 0x0600007f VLIW_FMADD_Q ''fmadd.q'',
    Op ''rrrrr11tttttsssssmmmddddd1000111'' 0x06000047 0x0600007f VLIW_FMSUB_Q ''fmsub.q'',
    Op ''rrrrr11tttttsssssmmmddddd1001011'' 0x0600004b 0x0600007f VLIW_FNMSUB_Q ''fnmsub.q'',
    Op ''rrrrr11tttttsssssmmmddddd1001111'' 0x0600004f 0x0600007f VLIW_FNMADD_Q ''fnmadd.q'',
    Op ''0000011tttttsssssmmmddddd1010011'' 0x06000053 0xfe00007f VLIW_FADD_Q ''fadd.q'',
    Op ''0000111tttttsssssmmmddddd1010011'' 0x0e000053 0xfe00007f VLIW_FSUB_Q ''fsub.q'',
    Op ''0001011tttttsssssmmmddddd1010011'' 0x16000053 0xfe00007f VLIW_FMUL_Q ''fmul.q'',
    Op ''0001111tttttsssssmmmddddd1010011'' 0x1e000053 0xfe00007f VLIW_FDIV_Q ''fdiv.q'',
    Op ''010111100000sssssmmmddddd1010011'' 0x5e000053 0xfff0007f VLIW_FSQRT_Q ''fsqrt.q'',
    Op ''0010011tttttsssss000ddddd1010011'' 0x26000053 0xfe00707f VLIW_FSGNJ_Q ''fsgnj.q'',
    Op ''0010011tttttsssss001ddddd1010011'' 0x26001053 0xfe00707f VLIW_FSGNJN_Q ''fsgnjn.q'',
    Op ''0010011tttttsssss010ddddd1010011'' 0x26002053 0xfe00707f VLIW_FSGNJX_Q ''fsgnjx.q'',
    Op ''0010111tttttsssss000ddddd1010011'' 0x2e000053 0xfe00707f VLIW_FMIN_Q ''fmin.q'',
    Op ''0010111tttttsssss001ddddd1010011'' 0x2e001053 0xfe00707f VLIW_FMAX_Q ''fmax.q'',
    Op ''010000000011sssssmmmddddd1010011'' 0x40300053 0xfff0007f VLIW_FCVT_S_Q ''fcvt.s.q'',
    Op ''010001100000sssssmmmddddd1010011'' 0x46000053 0xfff0007f VLIW_FCVT_Q_S ''fcvt.q.s'',
    Op ''010000100011sssssmmmddddd1010011'' 0x42300053 0xfff0007f VLIW_FCVT_D_Q ''fcvt.d.q'',
    Op ''010001100001sssssmmmddddd1010011'' 0x46100053 0xfff0007f VLIW_FCVT_Q_D ''fcvt.q.d'',
    Op ''1010011tttttsssss010ddddd1010011'' 0xa6002053 0xfe00707f VLIW_FEQ_Q ''feq.q'',
    Op ''1010011tttttsssss001ddddd1010011'' 0xa6001053 0xfe00707f VLIW_FLT_Q ''flt.q'',
    Op ''1010011tttttsssss000ddddd1010011'' 0xa6000053 0xfe00707f VLIW_FLE_Q ''fle.q'',
    Op ''111001100000sssss001ddddd1010011'' 0xe6001053 0xfff0707f VLIW_FCLASS_Q ''fclass.q'',
    Op ''110001100000sssssmmmddddd1010011'' 0xc6000053 0xfff0007f VLIW_FCVT_W_Q ''fcvt.w.q'',
    Op ''110001100001sssssmmmddddd1010011'' 0xc6100053 0xfff0007f VLIW_FCVT_WU_Q ''fcvt.wu.q'',
    Op ''110101100000sssssmmmddddd1010011'' 0xd6000053 0xfff0007f VLIW_FCVT_Q_W ''fcvt.q.w'',
    Op ''110101100001sssssmmmddddd1010011'' 0xd6100053 0xfff0007f VLIW_FCVT_Q_WU ''fcvt.q.wu'',
    Op ''110001100010sssssmmmddddd1010011'' 0xc6200053 0xfff0007f VLIW_FCVT_L_Q ''fcvt.l.q'',
    Op ''110001100011sssssmmmddddd1010011'' 0xc6300053 0xfff0007f VLIW_FCVT_LU_Q ''fcvt.lu.q'',
    Op ''110101100010sssssmmmddddd1010011'' 0xd6200053 0xfff0007f VLIW_FCVT_Q_L ''fcvt.q.l'',
    Op ''110101100011sssssmmmddddd1010011'' 0xd6300053 0xfff0007f VLIW_FCVT_Q_LU ''fcvt.q.lu'']"

definition optable_c :: "optable list" where
  "optable_c =
   [Op ''0000000000000000'' 0x00000000 0x0000ffff VLIW_ILLEGAL ''illegal'',
    Op ''000iiiiiiiiddd00'' 0x00000000 0x0000e003 VLIW_C_ADDI4SPN (''c.addi4spn rd'' @ [CHR 0x27]),
    Op ''001iiisssiiddd00'' 0x00002000 0x0000e003 VLIW_C_FLD ''c.fld'',
    Op ''001iiisssiiddd00'' 0x00002000 0x0000e003 VLIW_C_LQ ''c.lq'',
    Op ''010iiisssiiddd00'' 0x00004000 0x0000e003 VLIW_C_LW ''c.lw'',
    Op ''011iiisssiiddd00'' 0x00006000 0x0000e003 VLIW_C_FLW ''c.flw'',
    Op ''100xxxxxxxxxxx00'' 0x00008000 0x0000e003 VLIW_RESERVED1 ''reserved1'',
    Op ''101iiisssiittt00'' 0x0000a000 0x0000e003 VLIW_C_FSD ''c.fsd'',
    Op ''101iiisssiittt00'' 0x0000a000 0x0000e003 VLIW_C_SQ ''c.sq'',
    Op ''110iiisssiittt00'' 0x0000c000 0x0000e003 VLIW_C_SW ''c.sw'',
    Op ''111iiisssiittt00'' 0x0000e000 0x0000e003 VLIW_C_FSW ''c.fsw'',
    Op ''0000000000000001'' 0x00000001 0x0000ffff VLIW_C_NOP ''c.nop'',
    Op ''000isssssiiiii01'' 0x00000001 0x0000e003 VLIW_C_ADDI ''c.addi rd,imm'',
    Op ''001iiiiiiiiiii01'' 0x00002001 0x0000e003 VLIW_C_JAL ''c.jal'',
    Op ''001isssssiiiii01'' 0x00002001 0x0000e003 VLIW_C_ADDIW ''c.addiw'',
    Op ''010idddddiiiii01'' 0x00004001 0x0000e003 VLIW_C_LI ''c.li'',
    Op ''011i00010iiiii01'' 0x00006101 0x0000ef83 VLIW_C_ADDI16SP ''c.addi16sp'',
    Op ''011idddddiiiii01'' 0x00006001 0x0000e003 VLIW_C_LUI ''c.lui'',
    Op ''100i00sssiiiii01'' 0x00008001 0x0000ec03 VLIW_C_SRLI ''c.srli'',
    Op ''100i01sssiiiii01'' 0x00008401 0x0000ec03 VLIW_C_SRAI ''c.srai'',
    Op ''100i10sssiiiii01'' 0x00008801 0x0000ec03 VLIW_C_ANDI ''c.andi'',
    Op ''100011sss00ttt01'' 0x00008c01 0x0000fc63 VLIW_C_SUB ''c.sub'',
    Op ''100011sss01ttt01'' 0x00008c21 0x0000fc63 VLIW_C_XOR ''c.xor'',
    Op ''100011sss10ttt01'' 0x00008c41 0x0000fc63 VLIW_C_OR ''c.or'',
    Op ''100011sss11ttt01'' 0x00008c61 0x0000fc63 VLIW_C_AND ''c.and'',
    Op ''100111sss00ttt01'' 0x00009c01 0x0000fc63 VLIW_C_SUBW ''c.subw'',
    Op ''100111sss01ttt01'' 0x00009c21 0x0000fc63 VLIW_C_ADDW ''c.addw'',
    Op ''100111xxx10xxx01'' 0x00009c41 0x0000fc63 VLIW_RESERVED2 ''reserved2'',
    Op ''100111xxx11xxx01'' 0x00009c61 0x0000fc63 VLIW_RESERVED3 ''reserved3'',
    Op ''101iiiiiiiiiii01'' 0x0000a001 0x0000e003 VLIW_C_J ''c.j'',
    Op ''110iiisssiiiii01'' 0x0000c001 0x0000e003 VLIW_C_BEQZ ''c.beqz'',
    Op ''111iiisssiiiii01'' 0x0000e001 0x0000e003 VLIW_C_BNEZ ''c.bnez'',
    Op ''000isssssiiiii10'' 0x00000002 0x0000e003 VLIW_C_SLLI ''c.slli'',
    Op ''0000sssss0000010'' 0x00000002 0x0000f07f VLIW_C_SLLI64 ''c.slli64'',
    Op ''001idddddiiiii10'' 0x00002002 0x0000e003 VLIW_C_FLDSP ''c.fldsp'',
    Op ''001idddddiiiii10'' 0x00002002 0x0000e003 VLIW_C_LQSP ''c.lqsp'',
    Op ''010idddddiiiii10'' 0x00004002 0x0000e003 VLIW_C_LWSP ''c.lwsp'',
    Op ''011idddddiiiii10'' 0x00006002 0x0000e003 VLIW_C_FLWSP ''c.flwsp'',
    Op ''011idddddiiiii10'' 0x00006002 0x0000e003 VLIW_C_LDSP ''c.ldsp'',
    Op ''1000sssss0000010'' 0x00008002 0x0000f07f VLIW_C_JR ''c.jr'',
    Op ''1000dddddttttt10'' 0x00008002 0x0000f003 VLIW_C_MV ''c.mv'',
    Op ''1001000000000010'' 0x00009002 0x0000ffff VLIW_C_EBREAK ''c.ebreak'',
    Op ''1001sssss0000010'' 0x00009002 0x0000f07f VLIW_C_JALR ''c.jalr'',
    Op ''1001sssssttttt10'' 0x00009002 0x0000f003 VLIW_C_ADD ''c.add'',
    Op ''101iiiiiittttt10'' 0x0000a002 0x0000e003 VLIW_C_FSDSP ''c.fsdsp'',
    Op ''101iiiiiittttt10'' 0x0000a002 0x0000e003 VLIW_C_SQSP ''c.sqsp'',
    Op ''110iiiiiittttt10'' 0x0000c002 0x0000e003 VLIW_C_SWSP ''c.swsp'',
    Op ''111iiiiiittttt10'' 0x0000e002 0x0000e003 VLIW_C_FSWSP ''c.fswsp'',
    Op ''111iiiiiittttt10'' 0x0000e002 0x0000e003 VLIW_C_SDSP ''c.sdsp'']"

definition optable :: "optable list" where
  "optable = optable_i @ optable_m @ optable_a @ optable_f @ optable_d @ optable_q @ optable_c"

text \<open>\<open>for(; otp->bitText != NULL; ++otp) if((code&otp->mask) == otp->code) break;\<close>\<close>

fun op_find :: "u32 \<Rightarrow> optable list \<Rightarrow> optable option" where
  "op_find code [] = None"
| "op_find code (otp # ots) =
    (if code AND op_mask otp = op_code otp then Some otp else op_find code ots)"

end
