(* ===== verification/Vliw.thy ===== *)
theory Vliw
  imports Op_Table
begin

text \<open>
  The class \<open>Vliw\<close> of \<open>src/Cpu.h\<close>: the decoded form of an instruction, which the
  execution engine runs without looking at the encoding again. Here are its constructors,
  the predicate that its three register fields index the register file, and the register
  names of \<open>src/Decode.cpp\<close>.
\<close>

record vliw =
  opcode :: u8
  rd :: u8
  rs1 :: u8
  rs2 :: u8
  imm :: u32

text \<open>\<open>Vliw(void)\<close> clears the object, \<open>Vliw(int a0)\<close> then sets the operation code.\<close>

definition Vliw_clear :: vliw where
  "Vliw_clear = \<lparr>opcode = 0, rd = 0, rs1 = 0, rs2 = 0, imm = 0\<rparr>"

definition Vliw_op :: "u8 \<Rightarrow> vliw" where
  "Vliw_op a0 = Vliw_clear\<lparr>opcode := a0\<rparr>"

text \<open>The five assignments with which both decoders start.\<close>

definition Vliw_init :: vliw where
  "Vliw_init = \<lparr>opcode = VLIW_NOP, rd = 0, rs1 = 0, rs2 = 0, imm = 0\<rparr>"

definition regs_ok :: "vliw \<Rightarrow> bool" where
  "regs_ok v \<longleftrightarrow> rd v < 32 \<and> rs1 v < 32 \<and> rs2 v < 32"

lemma regs_ok_init [simp]: "regs_ok Vliw_init" "regs_ok Vliw_clear" "regs_ok (Vliw_op n)"
  by (simp_all add: regs_ok_def Vliw_init_def Vliw_clear_def Vliw_op_def)

section \<open>Register names\<close>

definition regNameTable :: "string list" where
  "regNameTable =
   [''x0'', ''ra'', ''sp'', ''gp'', ''tp'', ''t0'', ''t1'', ''t2'',
    ''s0'', ''s1'', ''a0'', ''a1'', ''a2'', ''a3'', ''a4'', ''a5'',
    ''a6'', ''a7'', ''s2'', ''s3'', ''s4'', ''s5'', ''s6'', ''s7'',
    ''s8'', ''s9'', ''s10'', ''s11'', ''t3'', ''t4'', ''t5'', ''t6'']"

text \<open>The guard lets 32 through, one past the table.\<close>

definition getRegName :: "int \<Rightarrow> string result" where
  "getRegName n =
    (if n < 0 \<or> n > 32 then Inr ''??''
     else if nat n < length regNameTable then Inr (regNameTable ! nat n)
     else Inl HostUB)"

lemma length_regNameTable [simp]: "length regNameTable = 32"
  by (simp add: regNameTable_def)

end
