(* ===== verification/Memory.thy ===== *)
theory Memory
  imports Prelude
begin

text \<open>
  The classes \<open>Segment\<close> and \<open>Memory\<close> of \<open>src/RiscVFast.h\<close>, in the build without
  \<open>DO_MEMORY_CHECK\<close>. A segment's \<open>data\<close> is its allocation, as long as what was
  allocated, which may be longer than \<open>memLen\<close> (a command-line option can also make it
  shorter); the unchecked accessors leave the allocation only as \<open>HostUB\<close>. Values are
  little-endian, like the host's, and an address needs no alignment. \<open>Memory\<close> routes an
  access to the data segment, the text segment or the host port; what the port does is
  returned as a \<open>host_effect\<close>, which the machine applies.
\<close>

section \<open>Segments\<close>

record segment =
  memBase :: u32
  memLen :: u32
  data :: "u8 list"

text \<open>The constructor, over the (unspecified) contents \<open>malloc\<close> returns.\<close>

definition Segment_new :: "u32 \<Rightarrow> u32 \<Rightarrow> (nat \<Rightarrow> u8) \<Rightarrow> segment" where
  "Segment_new base sz raw = \<lparr>memBase = base, memLen = sz, data = map raw [0..<unat sz]\<rparr>"

text \<open>The loop of \<open>realloc\<close>: the last power of two it can reach is \<open>1<<31\<close>.\<close>

function p2len_loop :: "nat \<Rightarrow> u32 \<Rightarrow> u32" where
  "p2len_loop i len =
    (let p2len = push_bit i 1 in if p2len \<ge> len \<or> i \<ge> 31 then p2len else p2len_loop (Suc i) len)"
  by pat_completeness auto

termination
  by (relation "measure (\<lambda>(i, _). 31 - i)") auto

declare p2len_loop.simps [simp del]

definition Segment_realloc :: "segment \<Rightarrow> u32 \<Rightarrow> u32 \<Rightarrow> u32 \<Rightarrow> (nat \<Rightarrow> u8) \<Rightarrow> segment" where
  "Segment_realloc s base len heap raw =
    (let len = len + (heap + 16);
         p2len = p2len_loop 0 len
     in \<lparr>memBase = base, memLen = p2len,
         data = (if p2len > memLen s
                 then take (unat p2len) (data s) @ map raw [length (data s)..<unat p2len]
                 else data s)\<rparr>)"

definition Segment_ok :: "segment \<Rightarrow> u32 \<Rightarrow> bool" where
  "Segment_ok s addr \<longleftrightarrow> \<not> (addr - memBase s \<ge> memLen s)"

text \<open>What the accessors share: the offset, and the bytes there.\<close>

definition seg_off :: "segment \<Rightarrow> u32 \<Rightarrow> nat" where
  "seg_off s addr = unat (addr - memBase s)"

definition seg_load :: "segment \<Rightarrow> u32 \<Rightarrow> nat \<Rightarrow> u8 list result" where
  "seg_load s addr n =
    (if seg_off s addr + n \<le> length (data s) then Inr (slice_of (seg_off s addr) n (data s))
     else Inl HostUB)"

definition seg_store :: "segment \<Rightarrow> u32 \<Rightarrow> u8 list \<Rightarrow> segment result" where
  "seg_store s addr bs =
    (if seg_off s addr + length bs \<le> length (data s)
     then Inr (s\<lparr>data := splice (seg_off s addr) bs (data s)\<rparr>)
     else Inl HostUB)"

definition Segment_fetch32 :: "segment \<Rightarrow> u32 \<Rightarrow> u32 result" where
  "Segment_fetch32 s addr = chain (seg_load s addr 4) (\<lambda>bs. Inr (le_word bs))"

definition Segment_read64 :: "segment \<Rightarrow> u32 \<Rightarrow> u64 result" where
  "Segment_read64 s addr = chain (seg_load s addr 8) (\<lambda>bs. Inr (le_word bs))"

definition Segment_read32 :: "segment \<Rightarrow> u32 \<Rightarrow> u32 result" where
  "Segment_read32 s addr = chain (seg_load s addr 4) (\<lambda>bs. Inr (le_word bs))"

definition Segment_read16 :: "segment \<Rightarrow> u32 \<Rightarrow> u32 result" where
  "Segment_read16 s addr = chain (seg_load s addr 2) (\<lambda>bs. Inr (scast (le_word bs :: u16)))"

definition Segment_read16u :: "segment \<Rightarrow> u32 \<Rightarrow> u32 result" where
  "Segment_read16u s addr = chain (seg_load s addr 2) (\<lambda>bs. Inr (ucast (le_word bs :: u16)))"

definition Segment_read8 :: "segment \<Rightarrow> u32 \<Rightarrow> u32 result" where
  "Segment_read8 s addr = chain (seg_load s addr 1) (\<lambda>bs. Inr (scast (le_word bs :: u8)))"

definition Segment_read8u :: "segment \<Rightarrow> u32 \<Rightarrow> u32 result" where
  "Segment_read8u s addr = chain (seg_load s addr 1) (\<lambda>bs. Inr (ucast (le_word bs :: u8)))"

definition Segment_write64 :: "segment \<Rightarrow> u32 \<Rightarrow> u64 \<Rightarrow> segment result" where
  "Segment_write64 s addr value = seg_store s addr (le_bytes 8 value)"

definition Segment_write32 :: "segment \<Rightarrow> u32 \<Rightarrow> u32 \<Rightarrow> segment result" where
  "Segment_write32 s addr value = seg_store s addr (le_bytes 4 value)"

definition Segment_write16 :: "segment \<Rightarrow> u32 \<Rightarrow> u32 \<Rightarrow> segment result" where
  "Segment_write16 s addr value = seg_store s addr (le_bytes 2 value)"

definition Segment_write8 :: "segment \<Rightarrow> u32 \<Rightarrow> u32 \<Rightarrow> segment result" where
  "Segment_write8 s addr value = seg_store s addr (le_bytes 1 value)"

section \<open>The host port\<close>

definition ROM_BASE :: u32 where "ROM_BASE = 0x00000000"
definition ROM_SIZE :: u32 where "ROM_SIZE = 0x00100000"
definition SRAM_BASE :: u32 where "SRAM_BASE = 0x40000000"
definition SRAM_SIZE :: u32 where "SRAM_SIZE = 0x00100000"
definition HOST_BASE :: u32 where "HOST_BASE = 0xffff0000"
definition HOST_SIZE :: u32 where "HOST_SIZE = 0x00010000"
definition HEAP_SIZE :: u32 where "HEAP_SIZE = 0x00010000"

text \<open>
  What \<open>host\<close> of \<open>src/RiscVFast.cpp\<close> does to the rest of the program; its return
  value is always 0. \<open>UartWrite\<close> is a character on standard output (and in the copy
  \<open>stdout.txt\<close>), \<open>HostLog\<close> the line it prints for an address it does not know.
\<close>

datatype host_effect = NoEffect | PowerOff | UartWrite u8 | HostLog bool u32 u32

definition CMD_POWER_OFF :: u16 where "CMD_POWER_OFF = 2"

definition host :: "bool \<Rightarrow> u32 \<Rightarrow> u32 \<Rightarrow> host_effect" where
  "host rw addr value =
    (if addr = 0xfffffffc then
       (let cmd = ucast (drop_bit 16 value) :: u16
        in if cmd = CMD_POWER_OFF then PowerOff else UartWrite (ucast value))
     else if addr = 0xffffff00 \<and> rw then NoEffect
     else HostLog rw addr value)"

definition host_write :: "u32 \<Rightarrow> u32 \<Rightarrow> host_effect" where
  "host_write addr value = host True addr value"

definition host_read :: "u32 \<Rightarrow> u32 \<times> host_effect" where
  "host_read addr = (0, host False addr 0)"

section \<open>Memory\<close>

text \<open>The two segments, with the globals the methods consult.\<close>

record memory =
  insnMem :: segment
  dataMem :: segment
  do_core :: bool
  hostAddr :: u32
  hostSize :: u32

definition Memory_new :: "(nat \<Rightarrow> u8) \<Rightarrow> (nat \<Rightarrow> u8) \<Rightarrow> memory" where
  "Memory_new raw1 raw2 =
    \<lparr>insnMem = Segment_new ROM_BASE ROM_SIZE raw1, dataMem = Segment_new SRAM_BASE SRAM_SIZE raw2,
     do_core = False, hostAddr = HOST_BASE, hostSize = HOST_SIZE\<rparr>"

definition isdata :: "memory \<Rightarrow> u32 \<Rightarrow> bool" where
  "isdata m addr \<longleftrightarrow> addr - memBase (dataMem m) < memLen (dataMem m)"

definition istext :: "memory \<Rightarrow> u32 \<Rightarrow> bool" where
  "istext m addr \<longleftrightarrow> addr - memBase (insnMem m) < memLen (insnMem m)"

definition ishost :: "memory \<Rightarrow> u32 \<Rightarrow> bool" where
  "ishost m addr \<longleftrightarrow> addr \<ge> hostAddr m \<and> addr \<le> hostAddr m + (hostSize m - 1)"

text \<open>A pointer into the simulator's own memory: which allocation, and how far in.\<close>

datatype region = Text | Data
type_synonym ptr = "region \<times> nat"

definition Memory_getPtr :: "memory \<Rightarrow> u32 \<Rightarrow> ptr result" where
  "Memory_getPtr m addr =
    (if isdata m addr then Inr (Data, seg_off (dataMem m) addr)
     else if istext m addr then Inr (Text, seg_off (insnMem m) addr)
     else Inl (FatalAccess GetPtr addr))"

definition Memory_fetch32 :: "memory \<Rightarrow> u32 \<Rightarrow> u32 result" where
  "Memory_fetch32 m addr =
    (if istext m addr then Segment_fetch32 (insnMem m) addr else Inl (FatalAccess Fetch32 addr))"

definition Memory_read64 :: "memory \<Rightarrow> u32 \<Rightarrow> u64 result" where
  "Memory_read64 m addr =
    (if isdata m addr then Segment_read64 (dataMem m) addr
     else if istext m addr then Segment_read64 (insnMem m) addr
     else Inl (FatalAccess Read64 addr))"

definition Memory_read32 :: "memory \<Rightarrow> u32 \<Rightarrow> (u32 \<times> host_effect) result" where
  "Memory_read32 m addr =
    (if isdata m addr then chain (Segment_read32 (dataMem m) addr) (\<lambda>v. Inr (v, NoEffect))
     else if istext m addr then chain (Segment_read32 (insnMem m) addr) (\<lambda>v. Inr (v, NoEffect))
     else if ishost m addr then Inr (host_read addr)
     else Inl (FatalAccess Read32 addr))"

definition Memory_read16 :: "memory \<Rightarrow> u32 \<Rightarrow> u32 result" where
  "Memory_read16 m addr =
    (if isdata m addr then Segment_read16 (dataMem m) addr
     else if istext m addr then Segment_read16 (insnMem m) addr
     else Inl (FatalAccess Read16 addr))"

definition Memory_read16u :: "memory \<Rightarrow> u32 \<Rightarrow> u32 result" where
  "Memory_read16u m addr =
    (if isdata m addr then Segment_read16u (dataMem m) addr
     else if istext m addr then Segment_read16u (insnMem m) addr
     else Inl (FatalAccess Read16u addr))"

definition Memory_read8 :: "memory \<Rightarrow> u32 \<Rightarrow> u32 result" where
  "Memory_read8 m addr =
    (if isdata m addr then Segment_read8 (dataMem m) addr
     else if istext m addr then Segment_read8 (insnMem m) addr
     else Inl (FatalAccess Read8 addr))"

definition Memory_read8u :: "memory \<Rightarrow> u32 \<Rightarrow> u32 result" where
  "Memory_read8u m addr =
    (if isdata m addr then Segment_read8u (dataMem m) addr
     else if istext m addr then Segment_read8u (insnMem m) addr
     else Inl (FatalAccess Read8u addr))"

definition on_data :: "memory \<Rightarrow> segment result \<Rightarrow> memory result" where
  "on_data m r = chain r (\<lambda>s. Inr (m\<lparr>dataMem := s\<rparr>))"

definition on_text :: "memory \<Rightarrow> segment result \<Rightarrow> memory result" where
  "on_text m r = chain r (\<lambda>s. Inr (m\<lparr>insnMem := s\<rparr>))"

definition Memory_write64 :: "memory \<Rightarrow> u32 \<Rightarrow> u64 \<Rightarrow> memory result" where
  "Memory_write64 m addr value =
    (if isdata m addr then on_data m (Segment_write64 (dataMem m) addr value)
     else if do_core m \<and> istext m addr then on_text m (Segment_write64 (insnMem m) addr value)
     else Inl (FatalAccess Write64 addr))"

definition Memory_write32 :: "memory \<Rightarrow> u32 \<Rightarrow> u32 \<Rightarrow> (memory \<times> host_effect) result" where
  "Memory_write32 m addr value =
    (if isdata m addr then
       chain (on_data m (Segment_write32 (dataMem m) addr value)) (\<lambda>m'. Inr (m', NoEffect))
     else if do_core m \<and> istext m addr then
       chain (on_text m (Segment_write32 (insnMem m) addr value)) (\<lambda>m'. Inr (m', NoEffect))
     else if ishost m addr then Inr (m, host_write addr value)
     else Inl (FatalAccess Write32 addr))"

definition Memory_write16 :: "memory \<Rightarrow> u32 \<Rightarrow> u32 \<Rightarrow> memory result" where
  "Memory_write16 m addr value =
    (if isdata m addr then on_data m (Segment_write16 (dataMem m) addr value)
     else if do_core m \<and> istext m addr then on_text m (Segment_write16 (insnMem m) addr value)
     else Inl (FatalAccess Write16 addr))"

definition Memory_write8 :: "memory \<Rightarrow> u32 \<Rightarrow> u32 \<Rightarrow> memory result" where
  "Memory_write8 m addr value =
    (if isdata m addr then on_data m (Segment_write8 (dataMem m) addr value)
     else if do_core m \<and> istext m addr then on_text m (Segment_write8 (insnMem m) addr value)
     else Inl (FatalAccess Write8 addr))"

section \<open>Access through a pointer\<close>

text \<open>What the system calls do with the pointer \<open>getPtr\<close> gave them.\<close>

definition region_seg :: "memory \<Rightarrow> region \<Rightarrow> segment" where
  "region_seg m r = (case r of Text \<Rightarrow> insnMem m | Data \<Rightarrow> dataMem m)"

definition region_upd :: "memory \<Rightarrow> region \<Rightarrow> segment \<Rightarrow> memory" where
  "region_upd m r s = (case r of Text \<Rightarrow> m\<lparr>insnMem := s\<rparr> | Data \<Rightarrow> m\<lparr>dataMem := s\<rparr>)"

definition ptr_load :: "memory \<Rightarrow> ptr \<Rightarrow> nat \<Rightarrow> u8 list result" where
  "ptr_load m p n =
    (let bytes = data (region_seg m (fst p))
     in if snd p + n \<le> length bytes then Inr (slice_of (snd p) n bytes) else Inl HostUB)"

definition ptr_store :: "memory \<Rightarrow> ptr \<Rightarrow> u8 list \<Rightarrow> memory result" where
  "ptr_store m p bs =
    (let s = region_seg m (fst p)
     in if snd p + length bs \<le> length (data s)
        then Inr (region_upd m (fst p) (s\<lparr>data := splice (snd p) bs (data s)\<rparr>))
        else Inl HostUB)"

text \<open>A C string starts at the pointer and must end inside the allocation.\<close>

definition ptr_string :: "memory \<Rightarrow> ptr \<Rightarrow> u8 list result" where
  "ptr_string m p =
    (let rest = drop (snd p) (data (region_seg m (fst p)))
     in if 0 \<in> set rest then Inr (takeWhile (\<lambda>b. b \<noteq> 0) rest) else Inl HostUB)"

end
