(* ===== verification/Cpu.thy ===== *)
theory Cpu
  imports Vliw Memory
begin

text \<open>
  The class \<open>Cpu\<close> of \<open>src/Cpu.h\<close>: its fields as a record, the small methods the set-up
  code and the debugger call, and the parts of \<open>src/Cpu.cpp\<close> that only touch the
  processor: traps, interrupts, the control registers (with the numbers of
  \<open>src/riscv_csr.h\<close>) and \<open>brk\<close>. What the host's operating system answers is a
  parameter, the record \<open>os\<close> of its calls over a state \<open>'h\<close> of its own.
\<close>

section \<open>The operating system\<close>

text \<open>
  Strings and buffers are passed as bytes. \<open>os_getc\<close> is \<open>fgetc(stdin)\<close> with
  \<open>None\<close> for \<open>EOF\<close>; \<open>os_read\<close> returns the call's result and the bytes it stored.
\<close>

record 'h os =
  os_gettimeofday :: "'h \<Rightarrow> (u64 \<times> u64) \<times> 'h"
  os_time :: "'h \<Rightarrow> u64 \<times> 'h"
  os_rdrand32 :: "'h \<Rightarrow> u32 \<times> 'h"
  os_getc :: "'h \<Rightarrow> u8 option \<times> 'h"
  os_read :: "u32 \<Rightarrow> nat \<Rightarrow> 'h \<Rightarrow> (u32 \<times> u8 list) \<times> 'h"
  os_write :: "u32 \<Rightarrow> u8 list \<Rightarrow> 'h \<Rightarrow> u32 \<times> 'h"
  os_open :: "u8 list \<Rightarrow> u32 \<Rightarrow> u32 \<Rightarrow> 'h \<Rightarrow> u32 \<times> 'h"
  os_lseek :: "u32 \<Rightarrow> u32 \<Rightarrow> u32 \<Rightarrow> 'h \<Rightarrow> u32 \<times> 'h"
  os_close :: "u32 \<Rightarrow> 'h \<Rightarrow> u32 \<times> 'h"
  os_link :: "u8 list \<Rightarrow> u8 list \<Rightarrow> 'h \<Rightarrow> u32 \<times> 'h"
  os_unlink :: "u8 list \<Rightarrow> 'h \<Rightarrow> u32 \<times> 'h"

section \<open>The processor\<close>

record cpu =
  reg :: "u32 list"
  pc :: u32
  pc_inc :: u32
  pc_next :: u32
  cycle :: u64
  breakpoint :: u32
  heap :: u32
  endOfData :: u32
  endian :: u32
  running :: bool
  stop :: bool
  quiet :: bool
  verbose :: u32
  singleStep :: bool
  irq :: bool
  trace :: bool
  mstatus :: u32
  mie :: u32
  mtvec :: u32
  mscratch :: u32
  mepc :: u32
  mtval :: u32
  mip :: u32
  mcause :: u32

definition Cpu_new :: cpu where
  "Cpu_new =
    \<lparr>reg = replicate 32 0, pc = 0, pc_inc = 0, pc_next = 0, cycle = 0, breakpoint = 0,
     heap = 0, endOfData = 0, endian = 0, running = False, stop = False, quiet = False,
     verbose = 0, singleStep = False, irq = False, trace = False, mstatus = 0, mie = 0,
     mtvec = 0, mscratch = 0, mepc = 0, mtval = 0, mip = 0, mcause = 0\<rparr>"

definition Cpu_reset :: "cpu \<Rightarrow> cpu" where
  "Cpu_reset c = Cpu_new\<lparr>breakpoint := - 1, irq := False, verbose := 0\<rparr>"

definition Cpu_start :: "u64 \<Rightarrow> cpu \<Rightarrow> cpu" where
  "Cpu_start entry c = c\<lparr>pc := ucast entry, pc_next := ucast entry\<rparr>"

definition Cpu_edata :: "u64 \<Rightarrow> cpu \<Rightarrow> cpu" where
  "Cpu_edata edata c = c\<lparr>heap := 0, endOfData := ucast edata\<rparr>"

definition Cpu_set_trace :: "bool \<Rightarrow> cpu \<Rightarrow> cpu" where
  "Cpu_set_trace t c = c\<lparr>trace := t\<rparr>"

definition Cpu_setPc :: "u32 \<Rightarrow> cpu \<Rightarrow> cpu" where
  "Cpu_setPc target c = c\<lparr>pc_next := target AND 0xfffffffc\<rparr>"

definition Cpu_setStack :: "u32 \<Rightarrow> cpu \<Rightarrow> cpu" where
  "Cpu_setStack target c = c\<lparr>reg := (reg c)[2 := target AND 0xfffffffc]\<rparr>"

text \<open>The argument is not looked at.\<close>

definition Cpu_checkPc :: "memory \<Rightarrow> u32 \<Rightarrow> cpu \<Rightarrow> bool" where
  "Cpu_checkPc m target c \<longleftrightarrow>
    \<not> (pc c - memBase (insnMem m) \<ge> memLen (insnMem m))"

definition Cpu_fetch :: "memory \<Rightarrow> cpu \<Rightarrow> u32 result" where
  "Cpu_fetch m c = Segment_fetch32 (insnMem m) (pc c)"

definition Cpu_checkAddr :: "memory \<Rightarrow> u32 \<Rightarrow> unit result" where
  "Cpu_checkAddr m addr32 =
    (let text_base = memBase (insnMem m); text_end = text_base + memLen (insnMem m);
         data_base = memBase (dataMem m); data_end = data_base + memLen (dataMem m)
     in if \<not> (addr32 \<ge> data_base \<and> addr32 < data_end)
           \<and> \<not> (addr32 \<ge> text_base \<and> addr32 < text_end)
           \<and> \<not> (addr32 \<ge> 0xffffff00 \<and> addr32 \<le> 0xfffffffc)
        then Inl (ExitBadAddress addr32) else Inr ())"

text \<open>\<open>reg[i]\<close> read and written; the register file has 32 entries.\<close>

definition reg_get :: "cpu \<Rightarrow> u8 \<Rightarrow> u32 result" where
  "reg_get c i = (if unat i < length (reg c) then Inr (reg c ! unat i) else Inl HostUB)"

definition reg_put :: "u8 \<Rightarrow> u32 \<Rightarrow> cpu \<Rightarrow> cpu result" where
  "reg_put i v c =
    (if unat i < length (reg c) then Inr (c\<lparr>reg := (reg c)[unat i := v]\<rparr>) else Inl HostUB)"

section \<open>Traps and interrupts\<close>

abbreviation (input) RISCV_EXCP_BREAK :: u32 where "RISCV_EXCP_BREAK \<equiv> 3"
abbreviation (input) RISCV_EXCP_ECALL_U :: u32 where "RISCV_EXCP_ECALL_U \<equiv> 8"
abbreviation (input) RISCV_INTR_MTI :: u32 where "RISCV_INTR_MTI \<equiv> 7"
abbreviation (input) RISCV_INTR_MEI :: u32 where "RISCV_INTR_MEI \<equiv> 11"
abbreviation (input) RISCV_MSTATUS_MIE :: u32 where "RISCV_MSTATUS_MIE \<equiv> 0x00000008"
abbreviation (input) RISCV_MSTATUS_MPIE :: u32 where "RISCV_MSTATUS_MPIE \<equiv> 0x00000080"
abbreviation (input) RISCV_MIP_MTIP :: u32 where "RISCV_MIP_MTIP \<equiv> 0x00000080"
abbreviation (input) RISCV_MIP_MEIP :: u32 where "RISCV_MIP_MEIP \<equiv> 0x00000800"
abbreviation (input) RISCV_MIE_MTIE :: u32 where "RISCV_MIE_MTIE \<equiv> 0x00000080"
abbreviation (input) RISCV_MIE_MEIE :: u32 where "RISCV_MIE_MEIE \<equiv> 0x00000800"

definition ecall :: "cpu \<Rightarrow> cpu" where
  "ecall c =
    (let c = c\<lparr>mepc := pc c, mcause := RISCV_EXCP_ECALL_U, pc_next := mtvec c\<rparr>
     in if mstatus c AND RISCV_MSTATUS_MIE = 0
        then c\<lparr>mstatus := mstatus c AND NOT RISCV_MSTATUS_MPIE\<rparr>
        else c\<lparr>mstatus := mstatus c OR RISCV_MSTATUS_MPIE\<rparr>)"

definition ebreak :: "cpu \<Rightarrow> cpu" where
  "ebreak c =
    (let c = c\<lparr>mepc := pc c, mcause := RISCV_EXCP_BREAK, pc_next := mtvec c\<rparr>
     in if mstatus c AND RISCV_MSTATUS_MIE = 0
        then c\<lparr>mstatus := mstatus c AND NOT RISCV_MSTATUS_MPIE\<rparr>
        else c\<lparr>mstatus := mstatus c OR RISCV_MSTATUS_MPIE\<rparr>)"

definition mret :: "cpu \<Rightarrow> cpu" where
  "mret c =
    (let c = c\<lparr>pc_next := mepc c\<rparr>;
         c = (if mstatus c AND RISCV_MSTATUS_MPIE = 0
              then c\<lparr>mstatus := mstatus c AND NOT RISCV_MSTATUS_MIE\<rparr>
              else c\<lparr>mstatus := mstatus c OR RISCV_MSTATUS_MIE\<rparr>)
     in c\<lparr>mstatus := mstatus c AND NOT RISCV_MSTATUS_MPIE\<rparr>)"

definition do_external_irq :: "cpu \<Rightarrow> bool \<times> cpu" where
  "do_external_irq c =
    (if mip c AND RISCV_MIP_MEIP = 0 \<or> mie c AND RISCV_MIE_MEIE = 0 then (False, c)
     else if mstatus c AND RISCV_MSTATUS_MIE = 0 then (False, c)
     else
       let c = c\<lparr>mstatus := mstatus c OR RISCV_MSTATUS_MPIE\<rparr>;
           c = c\<lparr>mstatus := mstatus c AND NOT RISCV_MSTATUS_MIE\<rparr>
       in (True, c\<lparr>mepc := pc c, mcause := 0x80000000 OR RISCV_INTR_MEI, pc_next := mtvec c\<rparr>))"

definition do_time_irq :: "cpu \<Rightarrow> bool \<times> cpu" where
  "do_time_irq c =
    (if mip c AND mie c AND RISCV_MIE_MTIE = 0 then (False, c)
     else if mstatus c AND RISCV_MSTATUS_MIE = 0 then (False, c)
     else
       let c = c\<lparr>mstatus := mstatus c OR RISCV_MSTATUS_MPIE\<rparr>;
           c = c\<lparr>mstatus := mstatus c AND NOT RISCV_MSTATUS_MIE\<rparr>
       in (True, c\<lparr>mepc := pc c, mcause := 0x80000000 OR RISCV_INTR_MTI, pc_next := mtvec c\<rparr>))"

section \<open>Control registers\<close>

definition OPT_MVENDOR_ID :: u32 where "OPT_MVENDOR_ID = 0x7fff2021"
definition OPT_MARCH_ID :: u32 where "OPT_MARCH_ID = 0x00007201"
definition OPT_MIMP_ID :: u32 where "OPT_MIMP_ID = 0x00000012"
definition OPT_MHART_ID :: u32 where "OPT_MHART_ID = 0x00009001"

definition CRS_MISA_MXL :: u32 where "CRS_MISA_MXL = 1"
definition MISA_I :: u32 where "MISA_I = 0x0000100"
definition MISA_C :: u32 where "MISA_C = 0x0000004"
definition MISA_M :: u32 where "MISA_M = 0x0001000"

text \<open>Neither \<open>OP_COMPRESSED\<close> nor \<open>OP_MUL\<close> is defined anywhere.\<close>

definition CRS_MISA_EXT :: u32 where "CRS_MISA_EXT = MISA_I"
definition OPT_MISA :: u32 where "OPT_MISA = push_bit 30 CRS_MISA_MXL OR CRS_MISA_EXT"

datatype csr_type = CSR_TYPE_W | CSR_TYPE_S | CSR_TYPE_C

definition time_us :: "'h os \<Rightarrow> 'h \<Rightarrow> u64 \<times> 'h" where
  "time_us os h =
    (let ((tv_sec, tv_usec), h) = os_gettimeofday os h;
         value = tv_sec * 1000000
     in (value + ucast (ucast tv_usec :: u32), h))"

text \<open>The read switch: fixed values, the processor's registers, the counters, the host.\<close>

definition csr_value :: "'h os \<Rightarrow> u32 \<Rightarrow> cpu \<Rightarrow> 'h \<Rightarrow> u32 \<times> 'h" where
  "csr_value os csr c h =
    (if csr = 0xf11 then (OPT_MVENDOR_ID, h)
     else if csr = 0xf12 then (OPT_MARCH_ID, h)
     else if csr = 0xf13 then (OPT_MIMP_ID, h)
     else if csr = 0xf14 then (OPT_MHART_ID, h)
     else if csr = 0x300 then (mstatus c, h)
     else if csr = 0x301 then (OPT_MISA, h)
     else if csr = 0x304 then (mie c, h)
     else if csr = 0x305 then (mtvec c, h)
     else if csr = 0x340 then (mscratch c, h)
     else if csr = 0x341 then (mepc c, h)
     else if csr = 0x342 then (mcause c, h)
     else if csr = 0x343 then (mtval c, h)
     else if csr = 0x344 then (mip c, h)
     else if csr = 0xc00 \<or> csr = 0xb00 then (ucast (cycle c), h)
     else if csr = 0xc80 \<or> csr = 0xb80 then (ucast (drop_bit 32 (cycle c)), h)
     else if csr = 0xc01 then (let (t, h) = time_us os h in (ucast t, h))
     else if csr = 0xc81 then (let (t, h) = time_us os h in (ucast (drop_bit 32 t), h))
     else if csr = 0xc02 \<or> csr = 0xb02 then (ucast (cycle c), h)
     else if csr = 0xc82 \<or> csr = 0xb82 then (ucast (drop_bit 32 (cycle c)), h)
     else if csr = 0xcc0 then os_rdrand32 os h
     else (0, h))"

text \<open>The write switch.\<close>

definition csr_update :: "u32 \<Rightarrow> u32 \<Rightarrow> cpu \<Rightarrow> cpu" where
  "csr_update csr new_val c =
    (if csr = 0x305 then c\<lparr>mtvec := new_val\<rparr>
     else if csr = 0x341 then c\<lparr>mepc := new_val\<rparr>
     else if csr = 0x340 then c\<lparr>mscratch := new_val\<rparr>
     else if csr = 0x304 then c\<lparr>mie := new_val\<rparr>
     else if csr = 0x344 then c\<lparr>mip := new_val\<rparr>
     else if csr = 0x300 then c\<lparr>mstatus := new_val\<rparr>
     else if csr = 0xb00 then c\<lparr>cycle := ucast new_val\<rparr>
     else if csr = 0xb80 then c\<lparr>cycle := push_bit 32 (ucast new_val)\<rparr>
     else c)"

definition csr_insn ::
  "'h os \<Rightarrow> csr_type \<Rightarrow> u32 \<Rightarrow> u8 \<Rightarrow> u8 \<Rightarrow> u32 \<Rightarrow> cpu \<Rightarrow> 'h \<Rightarrow> (cpu \<times> 'h) result" where
  "csr_insn os type csr rdn rsn imm32 c h =
    (let csr_read = (type = CSR_TYPE_S \<or> type = CSR_TYPE_C) \<or> rdn \<noteq> 0;
         csr_write = type = CSR_TYPE_W \<or> (type = CSR_TYPE_S \<or> type = CSR_TYPE_C) \<and> rsn \<noteq> 0;
         (value, h) = (if csr_read then csr_value os csr c h else (0, h));
         new_val = (if type = CSR_TYPE_S then value OR imm32
                    else if type = CSR_TYPE_C then value AND NOT imm32
                    else imm32);
         c = (if csr_write then csr_update csr new_val c else c)
     in if rdn \<noteq> 0 then chain (reg_put rdn value c) (\<lambda>c. Inr (c, h)) else Inr (c, h))"

section \<open>brk\<close>

definition sys_brk :: "u32 \<Rightarrow> u32 \<Rightarrow> cpu \<Rightarrow> u32 \<times> cpu" where
  "sys_brk a0 a1 c =
    (let page_size = 0x10
     in if a0 = 0 then
          let c = c\<lparr>heap := endOfData c\<rparr>;
              c = c\<lparr>heap := (endOfData c + (page_size - 1)) AND NOT (page_size - 1)\<rparr>
          in (heap c, c)
        else (a0, c\<lparr>heap := a0 + a1\<rparr>))"

end
