(* ===== verification/Memo.thy ===== *)
theory Memo
  imports Prelude
begin

text \<open>
  The interface of the simulator's three decode caches: the hash table keyed by a 32-bit
  encoding, the table keyed by a 16-bit encoding, and the instruction cache indexed by the
  program counter. A client looks a key up, computes the value on a miss, and stores it.
  \<open>memo_sound\<close> is what makes that transparent: whatever a lookup returns is what the
  computation would give. The law asked of a provider is weak enough for caches that evict:
  a store may lose other entries, it may not change them.
\<close>

definition memo_sound :: "('c \<Rightarrow> 'k \<Rightarrow> 'v option) \<Rightarrow> ('k \<Rightarrow> bool) \<Rightarrow> ('k \<Rightarrow> 'v option) \<Rightarrow> 'c \<Rightarrow> bool" where
  "memo_sound lookup valid f c \<longleftrightarrow>
    (\<forall>k v. valid k \<longrightarrow> lookup c k = Some v \<longrightarrow> f k = Some v)"

lemma memo_soundI:
  "(\<And>k v. valid k \<Longrightarrow> lookup c k = Some v \<Longrightarrow> f k = Some v) \<Longrightarrow> memo_sound lookup valid f c"
  by (simp add: memo_sound_def)

lemma memo_soundD:
  "memo_sound lookup valid f c \<Longrightarrow> valid k \<Longrightarrow> lookup c k = Some v \<Longrightarrow> f k = Some v"
  by (simp add: memo_sound_def)

locale memo =
  fixes lookup :: "'c \<Rightarrow> 'k \<Rightarrow> 'v option"
    and store :: "'k \<Rightarrow> 'v \<Rightarrow> 'c \<Rightarrow> 'c"
    and start :: "'c"
    and valid :: "'k \<Rightarrow> bool"
    and storable :: "'v \<Rightarrow> bool"
  assumes lookup_start: "valid k \<Longrightarrow> lookup start k = None"
    and lookup_store:
      "valid k \<Longrightarrow> valid k' \<Longrightarrow> lookup (store k v c) k' = Some w \<Longrightarrow>
        k' = k \<and> w = v \<or> lookup c k' = Some w"
    and lookup_same: "valid k \<Longrightarrow> storable v \<Longrightarrow> lookup (store k v c) k = Some v"
begin

lemma sound_start: "memo_sound lookup valid f start"
  by (rule memo_soundI) (simp add: lookup_start)

lemma sound_store:
  assumes "memo_sound lookup valid f c" and "valid k" and "f k = Some v"
  shows "memo_sound lookup valid f (store k v c)"
proof (rule memo_soundI)
  fix k' w
  assume "valid k'" and "lookup (store k v c) k' = Some w"
  then consider "k' = k" "w = v" | "lookup c k' = Some w"
    using assms(2) lookup_store by blast
  then show "f k' = Some w"
    using assms \<open>valid k'\<close> by cases (auto dest: memo_soundD)
qed

lemma hit:
  "memo_sound lookup valid f c \<Longrightarrow> valid k \<Longrightarrow> lookup c k = Some v \<Longrightarrow> f k = Some v"
  by (rule memo_soundD)

lemma second_lookup:
  "valid k \<Longrightarrow> storable v \<Longrightarrow> lookup (store k v c) k = Some v"
  by (rule lookup_same)

end

end
