(* ===== verification/Compressed.thy ===== *)
theory Compressed
  imports Vliw Memo
begin

text \<open>
  The decoder of 16-bit encodings in \<open>src/Compressed.cpp\<close>: the immediate extractors
  \<open>mk_*\<close>, the rows of its switch, and \<open>decodeCompressed\<close> with the table
  \<open>fastTable\<close> that remembers one \<open>Vliw\<close> per 16-bit encoding. The run loop does not
  come here (it expands 16-bit encodings through a table first); the disassembly listing
  does. Integers are kept at 32 bits: C promotes the \<open>uint16_t\<close> arguments to \<open>int\<close>.
\<close>

definition regMap3 :: "u8 list" where
  "regMap3 = [8, 9, 10, 11, 12, 13, 14, 15]"

section \<open>Immediates\<close>

definition mk_imm6 :: "u32 \<Rightarrow> u32" where
  "mk_imm6 code =
    (let b5 = drop_bit 12 code AND 0x1;
         b4_0 = drop_bit 2 code AND 0x1f;
         v = push_bit 5 b5 OR push_bit 0 b4_0
     in if v AND 0x20 \<noteq> 0 then v OR 0xffffffc0 else v)"

definition jal_off :: "u16 \<Rightarrow> u32" where
  "jal_off c =
    (let code = ucast c :: u32;
         b5 = drop_bit 2 code AND 0x1;
         b3_1 = drop_bit 3 code AND 0x7;
         b7 = drop_bit 6 code AND 0x1;
         b6 = drop_bit 7 code AND 0x1;
         b10 = drop_bit 8 code AND 0x1;
         b9_8 = drop_bit 9 code AND 0x3;
         b4 = drop_bit 11 code AND 0x1;
         b11 = drop_bit 12 code AND 0x1;
         v = push_bit 11 b11 OR push_bit 10 b10 OR push_bit 8 b9_8 OR push_bit 7 b7 OR
             push_bit 6 b6 OR push_bit 5 b5 OR push_bit 4 b4 OR push_bit 1 b3_1
     in if b11 \<noteq> 0 then v OR 0xfffff000 else v)"

definition mk_lwsp :: "u16 \<Rightarrow> u32" where
  "mk_lwsp c =
    (let code = ucast c :: u32;
         b5 = drop_bit 12 code AND 0x1;
         b4_2 = drop_bit 4 code AND 0x7;
         b7_6 = drop_bit 2 code AND 0x3
     in push_bit 6 b7_6 OR push_bit 5 b5 OR push_bit 2 b4_2)"

definition mk_addi :: "u16 \<Rightarrow> u32" where
  "mk_addi c =
    (let code = ucast c :: u32;
         b5 = drop_bit 12 code AND 0x1;
         b4_0 = drop_bit 2 code AND 0x1f;
         v = push_bit 5 b5 OR push_bit 0 b4_0
     in if v AND 0x20 \<noteq> 0 then v OR 0xffffffc0 else v)"

definition mk_shamt :: "u16 \<Rightarrow> u32" where
  "mk_shamt c =
    (let code = ucast c :: u32;
         b5 = drop_bit 12 code AND 0x1;
         b4_0 = drop_bit 2 code AND 0x1f
     in push_bit 5 b5 OR push_bit 0 b4_0)"

definition mk_addi16sp :: "u16 \<Rightarrow> u32" where
  "mk_addi16sp c =
    (let code = ucast c :: u32;
         b9 = drop_bit 12 code AND 0x1;
         b4 = drop_bit 6 code AND 0x1;
         b6 = drop_bit 5 code AND 0x1;
         b8_7 = drop_bit 3 code AND 0x3;
         b5 = drop_bit 2 code AND 0x1;
         v = push_bit 9 b9 OR push_bit 7 b8_7 OR push_bit 6 b6 OR push_bit 5 b5 OR push_bit 4 b4
     in if v AND 0x200 \<noteq> 0 then v OR 0xfffffc00 else v)"

definition mk_addi4spn :: "u16 \<Rightarrow> u32" where
  "mk_addi4spn c =
    (let code = ucast c :: u32;
         b5_4 = drop_bit 11 code AND 0x3;
         b9_6 = drop_bit 7 code AND 0xf;
         b2 = drop_bit 6 code AND 0x1;
         b3 = drop_bit 5 code AND 0x1
     in push_bit 6 b9_6 OR push_bit 4 b5_4 OR push_bit 3 b3 OR push_bit 2 b2)"

definition mk_beq :: "u16 \<Rightarrow> u32" where
  "mk_beq c =
    (let code = ucast c :: u32;
         b8 = drop_bit 12 code AND 0x1;
         b4_3 = drop_bit 10 code AND 0x3;
         b7_6 = drop_bit 5 code AND 0x3;
         b2_1 = drop_bit 3 code AND 0x3;
         b5 = drop_bit 2 code AND 0x1;
         v = push_bit 8 b8 OR push_bit 6 b7_6 OR push_bit 5 b5 OR push_bit 3 b4_3 OR push_bit 1 b2_1
     in if b8 \<noteq> 0 then v OR 0xfffffe00 else v)"

definition mk_sw :: "u16 \<Rightarrow> u32" where
  "mk_sw c =
    (let code = ucast c :: u32;
         b5_3 = drop_bit 10 code AND 0x7;
         b2 = drop_bit 6 code AND 0x1;
         b6 = drop_bit 5 code AND 0x1;
         v = push_bit 6 b6 OR push_bit 3 b5_3 OR push_bit 2 b2
     in if b6 \<noteq> 0 then v OR 0xffffffc0 else v)"

definition mk_sd :: "u16 \<Rightarrow> u32" where
  "mk_sd c =
    (let code = ucast c :: u32;
         b5_3 = drop_bit 10 code AND 0x7;
         b7_6 = drop_bit 5 code AND 0x3;
         v = push_bit 6 b7_6 OR push_bit 3 b5_3
     in if v AND 0x80 \<noteq> 0 then v OR 0xffffff80 else v)"

definition mk_swsp :: "u16 \<Rightarrow> u32" where
  "mk_swsp c =
    (let code = ucast c :: u32;
         b5_2 = drop_bit 9 code AND 0xf;
         b7_6 = drop_bit 7 code AND 0x3
     in push_bit 6 b7_6 OR push_bit 2 b5_2)"

section \<open>The switch over the compressed rows\<close>

definition r3b2 :: "u32 \<Rightarrow> u8" where
  "r3b2 code = regMap3 ! unat (drop_bit 2 code AND 0x7)"

definition r3b7 :: "u32 \<Rightarrow> u8" where
  "r3b7 code = regMap3 ! unat (drop_bit 7 code AND 0x7)"

definition rfield :: "nat \<Rightarrow> u32 \<Rightarrow> u8" where
  "rfield lo code = ucast (drop_bit lo code AND 0x1f)"

text \<open>
  The cases in source order, for the RV32 build; the rows the switch has no case for end in
  its default, which reports the row and exits.
\<close>

definition compressed_switch :: "u8 \<Rightarrow> u32 \<Rightarrow> vliw \<Rightarrow> vliw result" where
  "compressed_switch op code v =
    (let c = ucast code :: u16 in
     if op = VLIW_C_LW then Inr \<lparr>opcode = VLIW_LW, rd = r3b2 code, rs1 = r3b7 code, rs2 = 0, imm = mk_sw c\<rparr>
     else if op = VLIW_C_SW then Inr \<lparr>opcode = VLIW_SW, rd = 0, rs1 = r3b7 code, rs2 = r3b2 code, imm = mk_sw c\<rparr>
     else if op = VLIW_C_SWSP then Inr \<lparr>opcode = VLIW_SW, rd = 0, rs1 = 2, rs2 = rfield 2 code, imm = mk_swsp c\<rparr>
     else if op = VLIW_C_BEQZ then Inr \<lparr>opcode = VLIW_BEQ, rd = 0, rs1 = r3b7 code, rs2 = 0, imm = mk_beq c\<rparr>
     else if op = VLIW_C_BNEZ then Inr \<lparr>opcode = VLIW_BNE, rd = 0, rs1 = r3b7 code, rs2 = 0, imm = mk_beq c\<rparr>
     else if op = VLIW_C_MV then Inr \<lparr>opcode = VLIW_ADDI, rd = rfield 7 code, rs1 = rfield 2 code, rs2 = 0, imm = 0\<rparr>
     else if op = VLIW_C_ADD then Inr \<lparr>opcode = VLIW_ADD, rd = rfield 7 code, rs1 = rfield 7 code, rs2 = rfield 2 code, imm = 0\<rparr>
     else if op = VLIW_C_ADDI then Inr \<lparr>opcode = VLIW_ADDI, rd = rfield 7 code, rs1 = rfield 7 code, rs2 = 0, imm = mk_addi c\<rparr>
     else if op = VLIW_C_NOP then Inr \<lparr>opcode = VLIW_ADDI, rd = 0, rs1 = 0, rs2 = 0, imm = 0\<rparr>
     else if op = VLIW_C_ADDI16SP then Inr \<lparr>opcode = VLIW_ADDI, rd = rfield 7 code, rs1 = 2, rs2 = 0, imm = mk_addi16sp c\<rparr>
     else if op = VLIW_C_ADDI4SPN then Inr \<lparr>opcode = VLIW_ADDI, rd = r3b2 code, rs1 = 2, rs2 = 0, imm = mk_addi4spn c\<rparr>
     else if op = VLIW_C_LWSP then Inr \<lparr>opcode = VLIW_LW, rd = rfield 7 code, rs1 = 2, rs2 = 0, imm = mk_lwsp c\<rparr>
     else if op = VLIW_C_LI then Inr \<lparr>opcode = VLIW_ADDI, rd = rfield 7 code, rs1 = 0, rs2 = 0, imm = mk_imm6 code\<rparr>
     else if op = VLIW_C_LUI then Inr \<lparr>opcode = VLIW_ADDI, rd = rfield 7 code, rs1 = 0, rs2 = 0, imm = push_bit 12 (mk_imm6 code)\<rparr>
     else if op = VLIW_C_J then Inr \<lparr>opcode = VLIW_JAL, rd = 0, rs1 = 0, rs2 = 0, imm = jal_off c\<rparr>
     else if op = VLIW_C_JAL then Inr \<lparr>opcode = VLIW_JAL, rd = 1, rs1 = 0, rs2 = 0, imm = jal_off c\<rparr>
     else if op = VLIW_C_JR then Inr \<lparr>opcode = VLIW_JALR, rd = 0, rs1 = rfield 7 code, rs2 = 0, imm = 0\<rparr>
     else if op = VLIW_C_JALR then Inr \<lparr>opcode = VLIW_JALR, rd = 1, rs1 = rfield 7 code, rs2 = 0, imm = 0\<rparr>
     else if op = VLIW_C_SUB then Inr (v\<lparr>opcode := VLIW_SUB, rd := r3b7 code, rs1 := r3b7 code, rs2 := r3b2 code\<rparr>)
     else if op = VLIW_C_XOR then Inr (v\<lparr>opcode := VLIW_XOR, rd := r3b7 code, rs1 := r3b7 code, rs2 := r3b2 code\<rparr>)
     else if op = VLIW_C_OR then Inr (v\<lparr>opcode := VLIW_OR, rd := r3b7 code, rs1 := r3b7 code, rs2 := r3b2 code\<rparr>)
     else if op = VLIW_C_AND then Inr (v\<lparr>opcode := VLIW_AND, rd := r3b7 code, rs1 := r3b7 code, rs2 := r3b2 code\<rparr>)
     else if op = VLIW_C_ANDI then Inr \<lparr>opcode = VLIW_ANDI, rd = r3b7 code, rs1 = r3b7 code, rs2 = 0, imm = mk_addi c\<rparr>
     else if op = VLIW_C_SLLI then Inr \<lparr>opcode = VLIW_SLLI, rd = r3b7 code, rs1 = r3b7 code, rs2 = 0, imm = mk_shamt c\<rparr>
     else if op = VLIW_C_SRLI then Inr \<lparr>opcode = VLIW_SRLI, rd = r3b7 code, rs1 = r3b7 code, rs2 = 0, imm = mk_shamt c\<rparr>
     else if op = VLIW_C_SRAI then Inr \<lparr>opcode = VLIW_SRAI, rd = r3b7 code, rs1 = r3b7 code, rs2 = 0, imm = mk_shamt c\<rparr>
     else if op = VLIW_C_EBREAK then Inr \<lparr>opcode = VLIW_EBREAK, rd = 0, rs1 = 0, rs2 = 0, imm = 0\<rparr>
     else Inl (ExitNotFound op))"

text \<open>
  The body of \<open>decodeCompressed\<close> on a miss of \<open>fastTable\<close>: the flag it returns and
  the \<open>Vliw\<close> it leaves in \<open>*vlp\<close>.
\<close>

definition compressed_decode :: "u32 \<Rightarrow> (bool \<times> vliw) result" where
  "compressed_decode code =
    (case op_find code optable of
       None \<Rightarrow> Inr (False, Vliw_init)
     | Some otp \<Rightarrow>
         chain (compressed_switch (op_vliw otp) code (Vliw_init\<lparr>opcode := op_vliw otp\<rparr>))
           (\<lambda>v. Inr (True, v)))"

section \<open>The table of known 16-bit encodings\<close>

type_synonym fast_table = "u16 \<Rightarrow> vliw option"

definition fast_lookup :: "fast_table \<Rightarrow> u16 \<Rightarrow> vliw option" where
  "fast_lookup t c = t c"

definition fast_store :: "u16 \<Rightarrow> vliw \<Rightarrow> fast_table \<Rightarrow> fast_table" where
  "fast_store c v t = t(c \<mapsto> v)"

definition fastTable_start :: fast_table where
  "fastTable_start = (\<lambda>_. None)"

definition decodeCompressed :: "u32 \<Rightarrow> fast_table \<Rightarrow> ((bool \<times> vliw) \<times> fast_table) result" where
  "decodeCompressed code t =
    (case fast_lookup t (ucast code) of
       Some v \<Rightarrow> Inr ((True, v), t)
     | None \<Rightarrow>
         chain (compressed_decode code) (\<lambda>(ok, v).
           Inr ((ok, v), if ok then fast_store (ucast code) v t else t)))"

interpretation fast: memo fast_lookup fast_store fastTable_start "\<lambda>_. True" "\<lambda>_. True"
  by unfold_locales (auto simp: fast_lookup_def fast_store_def fastTable_start_def split: if_splits)

end
