(* ===== verification/Decode.thy ===== *)
theory Decode
  imports Compressed
begin

text \<open>
  \<open>src/Decode.cpp\<close>: the immediate extractors, the interpretation of a row's assembly
  text (\<open>decode2vliw\<close> splits it into words and lets each operand word fill the fields it
  names), and the hash table \<open>vliw_hash_table\<close> in front of the search. What the function
  prints is left out. \<open>decode_row\<close> and \<open>decode_slow\<close> are the miss path;
  \<open>decode2vliw\<close> is the whole function over the state of both decode caches.
\<close>

section \<open>Immediates\<close>

definition doJoff :: "u32 \<Rightarrow> u32" where
  "doJoff code =
    (let field = drop_bit 12 code AND 0x000fffff;
         f1 = drop_bit 0 field AND 0xff;
         f2 = drop_bit 8 field AND 0x01;
         f3 = drop_bit 9 field AND 0x3ff;
         f4 = drop_bit 19 field AND 0x01
     in push_bit 20 f4 OR push_bit 1 f3 OR push_bit 11 f2 OR push_bit 12 f1)"

definition doBoff :: "u32 \<Rightarrow> u32" where
  "doBoff code =
    (let f1 = drop_bit 25 code AND 0x0000007f;
         b1 = drop_bit 6 f1 AND 0x01;
         b2 = drop_bit 0 f1 AND 0x3f;
         f2 = drop_bit 7 code AND 0x0000007f;
         b3 = drop_bit 1 f2 AND 0x0f;
         b4 = drop_bit 0 f2 AND 0x01;
         imm12 = push_bit 12 b1 OR push_bit 5 b2 OR push_bit 1 b3 OR push_bit 11 b4
     in if imm12 AND 0x00001000 \<noteq> 0 then imm12 OR 0xfffff000 else imm12)"

definition mk_simm12 :: "u32 \<Rightarrow> u32" where
  "mk_simm12 code =
    (let imm12 = drop_bit 20 code AND 0x00000fff
     in if imm12 AND 0x00000800 \<noteq> 0 then imm12 OR 0xfffff000 else imm12)"

definition doS2imm12 :: "u32 \<Rightarrow> u32" where
  "doS2imm12 code =
    (let f1 = drop_bit 25 code AND 0x0000007f;
         f2 = drop_bit 7 code AND 0x0000001f;
         imm12 = push_bit 5 f1 OR f2
     in if imm12 AND 0x00000800 \<noteq> 0 then imm12 OR 0xfffff000 else imm12)"

text \<open>The sign extensions written out in the cases \<open>joff\<close> and \<open>imm20\<close> of the loop.\<close>

definition joff_imm :: "u32 \<Rightarrow> u32" where
  "joff_imm code =
    (let imm20 = doJoff code in if imm20 AND 0x00100000 \<noteq> 0 then imm20 OR 0xffe00000 else imm20)"

definition imm20_imm :: "u32 \<Rightarrow> u32" where
  "imm20_imm code =
    (let v = drop_bit 12 code AND 0x000fffff
     in if v AND 0x00080000 \<noteq> 0 then v OR 0xfff00000 else v)"

section \<open>A row's assembly text\<close>

definition isspace :: "char \<Rightarrow> bool" where
  "isspace c \<longleftrightarrow> c = CHR '' '' \<or> c \<in> set [CHR 0x09, CHR 0x0a, CHR 0x0b, CHR 0x0c, CHR 0x0d]"

definition item_sep :: "char \<Rightarrow> bool" where
  "item_sep c \<longleftrightarrow> c = CHR '','' \<or> isspace c"

text \<open>
  The splitting loop: an item is the run up to the next separator; the loop ends where the
  text ends, also right after a separator.
\<close>

function split_items :: "string \<Rightarrow> string list" where
  "split_items s =
    (let w = takeWhile (\<lambda>c. \<not> item_sep c) s; r = dropWhile (\<lambda>c. \<not> item_sep c) s
     in if r = [] \<or> tl r = [] then [w] else w # split_items (tl r))"
  by pat_completeness auto

termination
proof (relation "measure length")
  fix s w r :: string
  assume "w = takeWhile (\<lambda>c. \<not> item_sep c) s" and r: "r = dropWhile (\<lambda>c. \<not> item_sep c) s"
    and ne: "\<not> (r = [] \<or> tl r = [])"
  from r have "length r \<le> length s" by (simp add: length_dropWhile_le)
  moreover from ne have "length (tl r) < length r" by (cases r) simp_all
  ultimately show "(tl r, s) \<in> measure length" by simp
qed simp

declare split_items.simps [simp del]

text \<open>One turn of the operand loop, for an item after the mnemonic.\<close>

definition decode_item :: "u32 \<Rightarrow> string \<Rightarrow> vliw \<Rightarrow> vliw result" where
  "decode_item code item v =
    (if item = ''rd'' then Inr (v\<lparr>rd := rfield 7 code\<rparr>)
     else if item = ''rs'' \<or> item = ''rs1'' then Inr (v\<lparr>rs1 := rfield 15 code\<rparr>)
     else if item = ''rs2'' then Inr (v\<lparr>rs2 := rfield 20 code\<rparr>)
     else if item = ''shamt'' then Inr (v\<lparr>imm := drop_bit 20 code AND 0x1f\<rparr>)
     else if item = ''shamt6'' then Inr (v\<lparr>imm := drop_bit 20 code AND 0x3f\<rparr>)
     else if item = ''boff'' then Inr (v\<lparr>imm := doBoff code\<rparr>)
     else if item = ''joff'' then Inr (v\<lparr>imm := joff_imm code\<rparr>)
     else if item = ''simm12'' then Inr (v\<lparr>imm := mk_simm12 code\<rparr>)
     else if item = ''s2imm12'' then Inr (v\<lparr>imm := doS2imm12 code\<rparr>)
     else if item = ''imm20'' then Inr (v\<lparr>imm := imm20_imm code\<rparr>)
     else if item = ''imm12'' then Inr (v\<lparr>imm := drop_bit 12 code AND 0x000fffff\<rparr>)
     else if item = ''uimm5'' then Inr (v\<lparr>rs1 := rfield 15 code\<rparr>)
     else if item = ''csr'' then Inr (v\<lparr>imm := drop_bit 20 code AND 0x00000fff\<rparr>)
     else Inl (FatalUnknownItem item))"

fun decode_items :: "u32 \<Rightarrow> string list \<Rightarrow> vliw \<Rightarrow> vliw result" where
  "decode_items code [] v = Inr v"
| "decode_items code (item # rest) v =
    chain (decode_item code item v) (decode_items code rest)"

definition decode_row :: "u32 \<Rightarrow> optable \<Rightarrow> vliw result" where
  "decode_row code otp =
    decode_items code (tl (split_items (asmText otp))) (Vliw_init\<lparr>opcode := op_vliw otp\<rparr>)"

text \<open>A search that finds nothing leaves the cleared \<open>Vliw\<close>, a no-operation, and returns false.\<close>

definition decode_slow :: "u32 \<Rightarrow> (bool \<times> vliw) result" where
  "decode_slow code =
    (case op_find code optable of
       None \<Rightarrow> Inr (False, Vliw_init)
     | Some otp \<Rightarrow> chain (decode_row code otp) (\<lambda>v. Inr (True, v)))"

section \<open>The hash table\<close>

type_synonym hash_table = "u16 \<Rightarrow> u32 \<times> vliw"

definition hash_it :: "u32 \<Rightarrow> u16" where
  "hash_it code32 = ucast (code32 + drop_bit 16 code32)"

definition hash_lookup :: "hash_table \<Rightarrow> u32 \<Rightarrow> vliw option" where
  "hash_lookup h code32 =
    (let hp = h (hash_it code32) in if fst hp \<noteq> code32 then None else Some (snd hp))"

definition hash_store :: "u32 \<Rightarrow> vliw \<Rightarrow> hash_table \<Rightarrow> hash_table" where
  "hash_store code v h = h(hash_it code := (code, v))"

definition vliw_hash_table_start :: hash_table where
  "vliw_hash_table_start = (\<lambda>_. (0, Vliw_clear))"

text \<open>Key 0 is never asked for: such a word is not a 32-bit encoding.\<close>

interpretation hash: memo hash_lookup hash_store vliw_hash_table_start "\<lambda>c. c \<noteq> 0" "\<lambda>_. True"
  by unfold_locales
    (auto simp: hash_lookup_def hash_store_def vliw_hash_table_start_def Let_def split: if_splits)

record decoder =
  hashes :: hash_table
  fasts :: fast_table

definition decoder_start :: decoder where
  "decoder_start = \<lparr>hashes = vliw_hash_table_start, fasts = fastTable_start\<rparr>"

definition decode2vliw :: "u32 \<Rightarrow> decoder \<Rightarrow> ((bool \<times> vliw) \<times> decoder) result" where
  "decode2vliw code d =
    (if code AND 0x00000003 \<noteq> 0x00000003 then
       chain (decodeCompressed code (fasts d)) (\<lambda>(r, t). Inr (r, d\<lparr>fasts := t\<rparr>))
     else
       (case hash_lookup (hashes d) code of
          Some v \<Rightarrow> Inr ((True, v), d)
        | None \<Rightarrow>
            chain (decode_slow code) (\<lambda>(ok, v).
              Inr ((ok, v), if ok then d\<lparr>hashes := hash_store code v (hashes d)\<rparr> else d))))"

end
