(* ===== verification/Machine.thy ===== *)
theory Machine
  imports Cpu Decode
begin

text \<open>
  The global state of the simulator that \<open>Cpu::run\<close> works on: the objects \<open>cpu\<close> and
  \<open>memory\<close>, the decode caches (\<open>vliw_insn\<close> of \<open>src/Cpu.cpp\<close> in front of the
  tables of the decoder), the option \<open>do_newlib\<close>, what has been written to the console
  so far, and the state of the host's operating system.
\<close>

datatype io = Uart u8 | HostLine bool u32 u32 | Stdout u8 | Stderr u8

text \<open>\<open>vliw_insn\<close> has \<open>0x200000\<close> slots; \<open>vliw_mask\<close> keeps an index inside.\<close>

record 'h machine =
  cpu :: cpu
  memory :: memory
  decoder :: decoder
  vliw_insn :: "u32 \<Rightarrow> vliw"
  do_newlib :: bool
  console :: "io list"
  os_state :: 'h

definition vliw_mask :: u32 where "vliw_mask = 0x200000 - 1"

definition put_cpu :: "'h machine \<Rightarrow> cpu \<Rightarrow> 'h machine" where
  "put_cpu s c = s\<lparr>cpu := c\<rparr>"

definition apply_host :: "host_effect \<Rightarrow> 'h machine \<Rightarrow> 'h machine" where
  "apply_host e s =
    (case e of
       NoEffect \<Rightarrow> s
     | PowerOff \<Rightarrow> s\<lparr>cpu := (cpu s)\<lparr>stop := True\<rparr>\<rparr>
     | UartWrite c \<Rightarrow> s\<lparr>console := console s @ [Uart c]\<rparr>
     | HostLog rw addr value \<Rightarrow> s\<lparr>console := console s @ [HostLine rw addr value]\<rparr>)"

end
