(* ===== verification/Newlib.thy ===== *)
theory Newlib
  imports Machine
begin

text \<open>
  \<open>src/Newlib.cpp\<close>: the system calls a program linked with Newlib makes through
  \<open>ECALL\<close>, one definition per \<open>sys_\<close> method, and the dispatcher \<open>syscall\<close>. The
  numbers are those of \<open>src/Newlib-syscall.h\<close>, the open flags Linux's. Lines the calls
  print about themselves are left out; what the program writes is in \<open>console\<close>.
\<close>

section \<open>Names\<close>

abbreviation (input) SYS_close :: u32 where "SYS_close \<equiv> 57"
abbreviation (input) SYS_lseek :: u32 where "SYS_lseek \<equiv> 62"
abbreviation (input) SYS_read :: u32 where "SYS_read \<equiv> 63"
abbreviation (input) SYS_write :: u32 where "SYS_write \<equiv> 64"
abbreviation (input) SYS_fstat :: u32 where "SYS_fstat \<equiv> 80"
abbreviation (input) SYS_exit :: u32 where "SYS_exit \<equiv> 93"
abbreviation (input) SYS_gettimeofday :: u32 where "SYS_gettimeofday \<equiv> 169"
abbreviation (input) SYS_brk :: u32 where "SYS_brk \<equiv> 214"
abbreviation (input) SYS_open :: u32 where "SYS_open \<equiv> 1024"
abbreviation (input) SYS_link :: u32 where "SYS_link \<equiv> 1025"
abbreviation (input) SYS_unlink :: u32 where "SYS_unlink \<equiv> 1026"
abbreviation (input) SYS_time :: u32 where "SYS_time \<equiv> 1062"

definition syscallName :: "(u32 \<times> string) list" where
  "syscallName =
   [(SYS_exit, ''SYS_exit''), (SYS_write, ''SYS_write''), (SYS_read, ''SYS_read''),
    (SYS_close, ''SYS_close''), (SYS_open, ''SYS_open''), (SYS_fstat, ''SYS_fstat''),
    (SYS_brk, ''SYS_brk''), (SYS_gettimeofday, ''SYS_gettimeofday''), (SYS_time, ''SYS_time'')]"

definition getSyscallName :: "u32 \<Rightarrow> string" where
  "getSyscallName n = (case map_of syscallName n of Some name \<Rightarrow> name | None \<Rightarrow> ''???'')"

section \<open>Time\<close>

definition sys_gettimeofday :: "'h os \<Rightarrow> u32 \<Rightarrow> 'h machine \<Rightarrow> (u32 \<times> 'h machine) result" where
  "sys_gettimeofday os a0 s =
    chain (Memory_getPtr (memory s) a0) (\<lambda>p.
      let ((tv_sec, tv_usec), h) = os_gettimeofday os (os_state s);
          words = [ucast tv_sec, ucast (drop_bit 32 tv_sec), ucast tv_usec] :: u32 list
      in chain (ptr_store (memory s) p (concat (map (le_bytes 4) words))) (\<lambda>m.
           Inr (0, s\<lparr>memory := m, os_state := h\<rparr>)))"

section \<open>Files\<close>

definition sys_lseek :: "'h os \<Rightarrow> u32 \<Rightarrow> u32 \<Rightarrow> u32 \<Rightarrow> 'h machine \<Rightarrow> (u32 \<times> 'h machine) result" where
  "sys_lseek os fd offset whence s =
    (if sint fd \<le> 2 then Inr (- 1, s)
     else let (r, h) = os_lseek os fd offset whence (os_state s) in Inr (r, s\<lparr>os_state := h\<rparr>))"

text \<open>The loop that reads a line from standard input, one byte a turn, at most \<open>count\<close>.\<close>

fun read_stdin :: "'h os \<Rightarrow> nat \<Rightarrow> ptr \<Rightarrow> u32 \<Rightarrow> 'h machine \<Rightarrow> (u32 \<times> 'h machine) result" where
  "read_stdin os 0 buf n s = Inr (n, s)"
| "read_stdin os (Suc count) buf n s =
    (let (c, h) = os_getc os (os_state s); s = s\<lparr>os_state := h\<rparr>
     in case c of
          None \<Rightarrow> Inr (n, s)
        | Some c \<Rightarrow>
            chain (ptr_store (memory s) buf [c]) (\<lambda>m.
              let s = s\<lparr>memory := m\<rparr>
              in if c = 10 then Inr (n + 1, s)
                 else read_stdin os count (fst buf, Suc (snd buf)) (n + 1) s))"

definition sys_read :: "'h os \<Rightarrow> u32 \<Rightarrow> u32 \<Rightarrow> u32 \<Rightarrow> 'h machine \<Rightarrow> (u32 \<times> 'h machine) result" where
  "sys_read os a0 a1 a2 s =
    chain (Memory_getPtr (memory s) a1) (\<lambda>buf.
      if a0 = 0 then read_stdin os (nat (sint a2)) buf 0 s
      else if a0 = 1 \<or> a0 = 2 then Inr (- 1, s)
      else
        let ((r, bytes), h) = os_read os a0 (unat (scast a2 :: u64)) (os_state s)
        in chain (ptr_store (memory s) buf bytes) (\<lambda>m. Inr (r, s\<lparr>memory := m, os_state := h\<rparr>)))"

text \<open>The loops that copy a buffer to standard console or standard error.\<close>

fun write_console :: "(u8 \<Rightarrow> io) \<Rightarrow> nat \<Rightarrow> ptr \<Rightarrow> u32 \<Rightarrow> 'h machine \<Rightarrow> (u32 \<times> 'h machine) result" where
  "write_console stream 0 buf n s = Inr (n, s)"
| "write_console stream (Suc count) buf n s =
    chain (ptr_load (memory s) buf 1) (\<lambda>bs.
      write_console stream count (fst buf, Suc (snd buf)) (n + 1)
        (s\<lparr>console := console s @ [stream (hd bs)]\<rparr>))"

definition sys_write :: "'h os \<Rightarrow> u32 \<Rightarrow> u32 \<Rightarrow> u32 \<Rightarrow> 'h machine \<Rightarrow> (u32 \<times> 'h machine) result" where
  "sys_write os a0 a1 a2 s =
    chain (Memory_getPtr (memory s) a1) (\<lambda>buf.
      if a0 = 1 then write_console Stdout (nat (sint a2)) buf 0 s
      else if a0 = 2 then write_console Stderr (nat (sint a2)) buf 0 s
      else if sint a0 \<le> 0 then Inr (- 1, s)
      else
        chain (ptr_load (memory s) buf (unat (scast a2 :: u64))) (\<lambda>bytes.
          let (r, h) = os_write os a0 bytes (os_state s) in Inr (r, s\<lparr>os_state := h\<rparr>)))"

abbreviation (input) RISCV_O_CREAT :: u32 where "RISCV_O_CREAT \<equiv> 0x0200"
abbreviation (input) RISCV_O_TRUNC :: u32 where "RISCV_O_TRUNC \<equiv> 0x0400"
abbreviation (input) RISCV_O_APPEND :: u32 where "RISCV_O_APPEND \<equiv> 0x0008"
abbreviation (input) RISCV_O_RDONLY :: u32 where "RISCV_O_RDONLY \<equiv> 0"
abbreviation (input) RISCV_O_WRONLY :: u32 where "RISCV_O_WRONLY \<equiv> 1"
abbreviation (input) RISCV_O_RDWR :: u32 where "RISCV_O_RDWR \<equiv> 2"
abbreviation (input) O_RDONLY :: u32 where "O_RDONLY \<equiv> 0"
abbreviation (input) O_WRONLY :: u32 where "O_WRONLY \<equiv> 1"
abbreviation (input) O_RDWR :: u32 where "O_RDWR \<equiv> 2"
abbreviation (input) O_CREAT :: u32 where "O_CREAT \<equiv> 0x40"
abbreviation (input) O_TRUNC :: u32 where "O_TRUNC \<equiv> 0x200"
abbreviation (input) O_APPEND :: u32 where "O_APPEND \<equiv> 0x400"

text \<open>The file name is read through \<open>Memory\<close>, at most 255 characters of it.\<close>

fun open_name :: "memory \<Rightarrow> nat \<Rightarrow> u32 \<Rightarrow> u8 list result" where
  "open_name m 0 pathname = Inr []"
| "open_name m (Suc n) pathname =
    chain (Memory_read8 m pathname) (\<lambda>c.
      if c = 0 then Inr []
      else chain (open_name m n (pathname + 1)) (\<lambda>name. Inr (ucast c # name)))"

definition open_flags :: "u32 \<Rightarrow> u32" where
  "open_flags flags =
    (let new_flags = 0;
         new_flags = (if flags AND 3 = RISCV_O_RDONLY then new_flags OR O_RDONLY else new_flags);
         new_flags = (if flags AND 3 = RISCV_O_WRONLY then new_flags OR O_WRONLY else new_flags);
         new_flags = (if flags AND 3 = RISCV_O_RDWR then new_flags OR O_RDWR else new_flags);
         new_flags = (if flags AND RISCV_O_CREAT \<noteq> 0 then new_flags OR O_CREAT else new_flags);
         new_flags = (if flags AND RISCV_O_APPEND \<noteq> 0 then new_flags OR O_APPEND else new_flags)
     in if flags AND RISCV_O_TRUNC \<noteq> 0 then new_flags OR O_TRUNC else new_flags)"

definition sys_open :: "'h os \<Rightarrow> u32 \<Rightarrow> u32 \<Rightarrow> u32 \<Rightarrow> 'h machine \<Rightarrow> (u32 \<times> 'h machine) result" where
  "sys_open os pathname flags mode s =
    chain (open_name (memory s) 255 pathname) (\<lambda>fname.
      let (fd, h) = os_open os fname (open_flags flags) mode (os_state s)
      in Inr (fd, s\<lparr>os_state := h\<rparr>))"

definition sys_close :: "'h os \<Rightarrow> u32 \<Rightarrow> 'h machine \<Rightarrow> (u32 \<times> 'h machine) result" where
  "sys_close os fd s =
    (if fd \<le> 2 then Inr (0, s)
     else let (r, h) = os_close os fd (os_state s) in Inr (r, s\<lparr>os_state := h\<rparr>))"

definition sys_link :: "'h os \<Rightarrow> u32 \<Rightarrow> u32 \<Rightarrow> 'h machine \<Rightarrow> (u32 \<times> 'h machine) result" where
  "sys_link os a0 a1 s =
    chain (Memory_getPtr (memory s) a0) (\<lambda>p.
    chain (Memory_getPtr (memory s) a1) (\<lambda>q.
    chain (ptr_string (memory s) p) (\<lambda>oldpath.
    chain (ptr_string (memory s) q) (\<lambda>newpath.
      let (r, h) = os_link os oldpath newpath (os_state s) in Inr (r, s\<lparr>os_state := h\<rparr>)))))"

definition sys_unlink :: "'h os \<Rightarrow> u32 \<Rightarrow> 'h machine \<Rightarrow> (u32 \<times> 'h machine) result" where
  "sys_unlink os a0 s =
    chain (Memory_getPtr (memory s) a0) (\<lambda>p.
    chain (ptr_string (memory s) p) (\<lambda>pathname.
      let (r, h) = os_unlink os pathname (os_state s) in Inr (r, s\<lparr>os_state := h\<rparr>)))"

section \<open>The dispatcher\<close>

text \<open>\<open>reg[10] = f(...)\<close>, after the call.\<close>

definition return_a0 :: "(u32 \<times> 'h machine) result \<Rightarrow> 'h machine result" where
  "return_a0 r =
    chain r (\<lambda>(v, s). chain (reg_put 10 v (cpu s)) (\<lambda>c. Inr (put_cpu s c)))"

definition syscall_switch ::
  "'h os \<Rightarrow> u32 \<Rightarrow> u32 \<Rightarrow> u32 \<Rightarrow> u32 \<Rightarrow> 'h machine \<Rightarrow> 'h machine result" where
  "syscall_switch os a7 a0 a1 a2 s =
    (if a7 = SYS_brk then
       return_a0 (let (r, c) = sys_brk a0 a1 (cpu s) in Inr (r, put_cpu s c))
     else if a7 = SYS_gettimeofday then return_a0 (sys_gettimeofday os a0 s)
     else if a7 = SYS_exit then Inr (s\<lparr>cpu := (cpu s)\<lparr>running := False, stop := True\<rparr>\<rparr>)
     else if a7 = SYS_read then return_a0 (sys_read os a0 a1 a2 s)
     else if a7 = SYS_write then return_a0 (sys_write os a0 a1 a2 s)
     else if a7 = SYS_open then return_a0 (sys_open os a0 a1 a2 s)
     else if a7 = SYS_lseek then return_a0 (sys_lseek os a0 a1 a2 s)
     else if a7 = SYS_close then return_a0 (sys_close os a0 s)
     else if a7 = SYS_link then return_a0 (sys_link os a0 a1 s)
     else if a7 = SYS_unlink then return_a0 (sys_unlink os a0 s)
     else if a7 = SYS_fstat then return_a0 (Inr (0, s))
     else if a7 = SYS_time then
       return_a0 (let (t, h) = os_time os (os_state s) in Inr (ucast t, s\<lparr>os_state := h\<rparr>))
     else Inl (ExitEcall a7))"

definition syscall :: "'h os \<Rightarrow> 'h machine \<Rightarrow> 'h machine result" where
  "syscall os s =
    chain (reg_get (cpu s) 10) (\<lambda>a0.
    chain (reg_get (cpu s) 11) (\<lambda>a1.
    chain (reg_get (cpu s) 12) (\<lambda>a2.
    chain (reg_get (cpu s) 17) (\<lambda>a7. syscall_switch os a7 a0 a1 a2 s))))"

end
