(* ===== verification/Execute.thy ===== *)
theory Execute
  imports Newlib
begin

text \<open>
  \<open>Cpu::execute\<close> of \<open>src/Cpu.cpp\<close> for the RV32 build, one definition per group of the
  switch (jumps, branches, register and immediate arithmetic, loads, stores, multiplication
  and division, system, control registers); \<open>execute\<close> is the switch over all of them,
  its default, and the reset of \<open>reg[0]\<close> at the end. The register fields of the
  \<open>Vliw\<close> index a 32-entry array, so each access can leave it. Signed conversions and
  products wrap as the compiler's two's complement arithmetic does, also where C++ leaves the product of \<open>mulhu\<close>
  undefined, which can overflow its signed 64-bit type; a division the processor
  traps on is \<open>HostUB\<close>.
\<close>

section \<open>Jumps and branches\<close>

definition exec_jump :: "vliw \<Rightarrow> cpu \<Rightarrow> cpu result option" where
  "exec_jump v c =
    (if opcode v = VLIW_J then Some (Inr (c\<lparr>pc_next := pc c + imm v\<rparr>))
     else if opcode v = VLIW_JAL then
       Some (chain (reg_put (rd v) (pc_next c) c) (\<lambda>c. Inr (c\<lparr>pc_next := pc c + imm v\<rparr>)))
     else if opcode v = VLIW_JR then
       Some (chain (reg_get c (rs1 v)) (\<lambda>a. Inr (c\<lparr>pc_next := a\<rparr>)))
     else if opcode v = VLIW_JALR then
       Some (let temp32 = pc_next c
             in chain (reg_get c (rs1 v)) (\<lambda>a. reg_put (rd v) temp32 (c\<lparr>pc_next := a + imm v\<rparr>)))
     else None)"

definition branch_cond :: "u8 \<Rightarrow> (u32 \<Rightarrow> u32 \<Rightarrow> bool) option" where
  "branch_cond op =
    (if op = VLIW_BEQ then Some (\<lambda>a b. a = b)
     else if op = VLIW_BNE then Some (\<lambda>a b. a \<noteq> b)
     else if op = VLIW_BGE then Some (\<lambda>a b. sint a \<ge> sint b)
     else if op = VLIW_BGEU then Some (\<lambda>a b. a \<ge> b)
     else if op = VLIW_BLT then Some (\<lambda>a b. sint a < sint b)
     else if op = VLIW_BLTU then Some (\<lambda>a b. a < b)
     else None)"

definition exec_branch :: "vliw \<Rightarrow> cpu \<Rightarrow> cpu result option" where
  "exec_branch v c =
    map_option (\<lambda>taken.
      chain (reg_get c (rs1 v)) (\<lambda>a.
      chain (reg_get c (rs2 v)) (\<lambda>b.
        Inr (if taken a b then c\<lparr>pc_next := pc c + imm v\<rparr> else c)))) (branch_cond (opcode v))"

section \<open>Arithmetic\<close>

text \<open>The cases \<open>reg[rd] = reg[rs1] op reg[rs2]\<close>.\<close>

definition alu_op :: "u8 \<Rightarrow> (u32 \<Rightarrow> u32 \<Rightarrow> u32) option" where
  "alu_op op =
    (if op = VLIW_ADD then Some (\<lambda>a b. a + b)
     else if op = VLIW_SUB then Some (\<lambda>a b. a - b)
     else if op = VLIW_XOR then Some (\<lambda>a b. a XOR b)
     else if op = VLIW_OR then Some (\<lambda>a b. a OR b)
     else if op = VLIW_AND then Some (\<lambda>a b. a AND b)
     else if op = VLIW_SLT then Some (\<lambda>a b. if sint a < sint b then 1 else 0)
     else if op = VLIW_SLTU then Some (\<lambda>a b. if a < b then 1 else 0)
     else if op = VLIW_SRL then Some (\<lambda>a b. drop_bit (unat (b AND 0x1f)) a)
     else if op = VLIW_SRA then Some (\<lambda>a b. signed_drop_bit (unat (b AND 0x1f)) a)
     else if op = VLIW_SLL then Some (\<lambda>a b. push_bit (unat (b AND 0x1f)) a)
     else None)"

text \<open>The cases \<open>reg[rd] = reg[rs1] op imm\<close>.\<close>

definition alui_op :: "u8 \<Rightarrow> (u32 \<Rightarrow> u32 \<Rightarrow> u32) option" where
  "alui_op op =
    (if op = VLIW_ADDI then Some (\<lambda>a i. a + i)
     else if op = VLIW_XORI then Some (\<lambda>a i. a XOR i)
     else if op = VLIW_ORI then Some (\<lambda>a i. a OR i)
     else if op = VLIW_ANDI then Some (\<lambda>a i. a AND i)
     else if op = VLIW_SLTI then Some (\<lambda>a i. if sint a < sint i then 1 else 0)
     else if op = VLIW_SLTIU then Some (\<lambda>a i. if a < i then 1 else 0)
     else if op = VLIW_SLLI then Some (\<lambda>a i. push_bit (unat (i AND 0x1f)) a)
     else if op = VLIW_SRLI then Some (\<lambda>a i. drop_bit (unat (i AND 0x1f)) a)
     else if op = VLIW_SRAI then Some (\<lambda>a i. signed_drop_bit (unat (i AND 0x1f)) a)
     else None)"

definition trap_div :: "u32 \<Rightarrow> u32 \<Rightarrow> bool" where
  "trap_div a b \<longleftrightarrow> b = 0 \<or> a = 0x80000000 \<and> b = 0xffffffff"

text \<open>
  Multiplication and division. The high words come from a 64-bit product; the host's signed
  division traps on a zero divisor and on the one quotient that does not fit.
\<close>

definition muldiv_op :: "u8 \<Rightarrow> (u32 \<Rightarrow> u32 \<Rightarrow> u32 result) option" where
  "muldiv_op op =
    (if op = VLIW_MUL then Some (\<lambda>a b. Inr (a * b))
     else if op = VLIW_MULH then
       Some (\<lambda>a b. let temp64 = (scast a :: u64) * scast b in Inr (ucast (signed_drop_bit 32 temp64)))
     else if op = VLIW_MULHU then
       Some (\<lambda>a b. let temp64 = (ucast a :: u64) * ucast b in Inr (ucast (signed_drop_bit 32 temp64)))
     else if op = VLIW_MULHSU then
       Some (\<lambda>a b. let temp64 = (scast a :: u64) * ucast b in Inr (ucast (signed_drop_bit 32 temp64)))
     else if op = VLIW_DIV then
       Some (\<lambda>a b. if trap_div a b then Inl HostUB else Inr (word_of_int (sint a sdiv sint b)))
     else if op = VLIW_DIVU then
       Some (\<lambda>a b. if b = 0 then Inl HostUB else Inr (a div b))
     else if op = VLIW_REM then
       Some (\<lambda>a b. if trap_div a b then Inl HostUB else Inr (word_of_int (sint a smod sint b)))
     else if op = VLIW_REMU then
       Some (\<lambda>a b. if b = 0 then Inl HostUB else Inr (a mod b))
     else None)"

definition exec_alu :: "vliw \<Rightarrow> cpu \<Rightarrow> cpu result option" where
  "exec_alu v c =
    map_option (\<lambda>f.
      chain (reg_get c (rs1 v)) (\<lambda>a.
      chain (reg_get c (rs2 v)) (\<lambda>b. reg_put (rd v) (f a b) c))) (alu_op (opcode v))"

definition exec_alui :: "vliw \<Rightarrow> cpu \<Rightarrow> cpu result option" where
  "exec_alui v c =
    map_option (\<lambda>f.
      chain (reg_get c (rs1 v)) (\<lambda>a. reg_put (rd v) (f a (imm v)) c)) (alui_op (opcode v))"

definition exec_muldiv :: "vliw \<Rightarrow> cpu \<Rightarrow> cpu result option" where
  "exec_muldiv v c =
    map_option (\<lambda>f.
      chain (reg_get c (rs1 v)) (\<lambda>a.
      chain (reg_get c (rs2 v)) (\<lambda>b.
      chain (f a b) (\<lambda>x. reg_put (rd v) x c)))) (muldiv_op (opcode v))"

definition exec_upper :: "vliw \<Rightarrow> cpu \<Rightarrow> cpu result option" where
  "exec_upper v c =
    (if opcode v = VLIW_LUI then Some (reg_put (rd v) (push_bit 12 (imm v)) c)
     else if opcode v = VLIW_AUIPC then Some (reg_put (rd v) (pc c + push_bit 12 (imm v)) c)
     else None)"

section \<open>Loads and stores\<close>

text \<open>The read of each load case: the value for \<open>rd\<close> and what the host port does.\<close>

definition load_op :: "u8 \<Rightarrow> (memory \<Rightarrow> u32 \<Rightarrow> (u32 \<times> host_effect) result) option" where
  "load_op op =
    (let plain = (\<lambda>f m a. chain (f m a) (\<lambda>x. Inr (x, NoEffect)))
     in if op = VLIW_LW then Some Memory_read32
        else if op = VLIW_LH then Some (plain Memory_read16)
        else if op = VLIW_LHU then Some (plain Memory_read16u)
        else if op = VLIW_LB then Some (plain Memory_read8)
        else if op = VLIW_LBU then Some (plain Memory_read8u)
        else None)"

definition exec_load :: "vliw \<Rightarrow> 'h machine \<Rightarrow> 'h machine result option" where
  "exec_load v s =
    map_option (\<lambda>f.
      chain (reg_get (cpu s) (rs1 v)) (\<lambda>a.
        let addr32 = a + imm v
        in chain (Cpu_checkAddr (memory s) addr32) (\<lambda>_.
           chain (f (memory s) addr32) (\<lambda>(x, e).
             let s = apply_host e s
             in chain (reg_put (rd v) x (cpu s)) (\<lambda>c. Inr (put_cpu s c)))))) (load_op (opcode v))"

definition store_op :: "u8 \<Rightarrow> (memory \<Rightarrow> u32 \<Rightarrow> u32 \<Rightarrow> (memory \<times> host_effect) result) option" where
  "store_op op =
    (let plain = (\<lambda>f m a x. chain (f m a x) (\<lambda>m. Inr (m, NoEffect)))
     in if op = VLIW_SW then Some Memory_write32
        else if op = VLIW_SH then Some (plain Memory_write16)
        else if op = VLIW_SB then Some (plain Memory_write8)
        else None)"

definition exec_store :: "vliw \<Rightarrow> 'h machine \<Rightarrow> 'h machine result option" where
  "exec_store v s =
    map_option (\<lambda>f.
      chain (reg_get (cpu s) (rs1 v)) (\<lambda>a.
        let addr32 = a + imm v
        in chain (reg_get (cpu s) (rs2 v)) (\<lambda>x.
           chain (f (memory s) addr32 x) (\<lambda>(m, e). Inr (apply_host e (s\<lparr>memory := m\<rparr>))))))
     (store_op (opcode v))"

section \<open>System\<close>

definition exec_system :: "'h os \<Rightarrow> vliw \<Rightarrow> 'h machine \<Rightarrow> 'h machine result option" where
  "exec_system os v s =
    (if opcode v = VLIW_ECALL then
       Some (if do_newlib s then syscall os s else Inr (put_cpu s (ecall (cpu s))))
     else if opcode v = VLIW_EBREAK then Some (Inr (put_cpu s (ebreak (cpu s))))
     else if opcode v = VLIW_SRET then Some (Inr s)
     else if opcode v = VLIW_MRET then Some (Inr (put_cpu s (mret (cpu s))))
     else if opcode v = VLIW_WFI then Some (Inr s)
     else None)"

text \<open>The six control-register cases: the type, and whether the operand is a register.\<close>

definition csr_kind :: "u8 \<Rightarrow> (csr_type \<times> bool) option" where
  "csr_kind op =
    (if op = VLIW_CSRRW then Some (CSR_TYPE_W, True)
     else if op = VLIW_CSRRS then Some (CSR_TYPE_S, True)
     else if op = VLIW_CSRRC then Some (CSR_TYPE_C, True)
     else if op = VLIW_CSRRWI then Some (CSR_TYPE_W, False)
     else if op = VLIW_CSRRSI then Some (CSR_TYPE_S, False)
     else if op = VLIW_CSRRCI then Some (CSR_TYPE_C, False)
     else None)"

definition exec_csr :: "'h os \<Rightarrow> vliw \<Rightarrow> 'h machine \<Rightarrow> 'h machine result option" where
  "exec_csr os v s =
    map_option (\<lambda>(type, register).
      chain (if register then reg_get (cpu s) (rs1 v) else Inr (ucast (rs1 v))) (\<lambda>imm32.
      chain (csr_insn os type (imm v AND 0xfff) (rd v) (rs1 v) imm32 (cpu s) (os_state s))
        (\<lambda>(c, h). Inr (s\<lparr>cpu := c, os_state := h\<rparr>)))) (csr_kind (opcode v))"

section \<open>The switch\<close>

text \<open>The cases that only touch the processor.\<close>

definition or_else :: "'a option \<Rightarrow> 'a option \<Rightarrow> 'a option" where
  "or_else x y = (case x of None \<Rightarrow> y | Some _ \<Rightarrow> x)"

definition exec_cpu :: "vliw \<Rightarrow> cpu \<Rightarrow> cpu result option" where
  "exec_cpu v c =
    or_else (exec_jump v c) (or_else (exec_branch v c) (or_else (exec_alu v c)
      (or_else (exec_alui v c) (or_else (exec_upper v c) (exec_muldiv v c)))))"

definition exec_switch :: "'h os \<Rightarrow> vliw \<Rightarrow> 'h machine \<Rightarrow> 'h machine result" where
  "exec_switch os v s =
    (if opcode v = VLIW_NOP then Inr s
     else if opcode v = VLIW_ILLEGAL then Inl (FatalIllegal (pc (cpu s)))
     else
       (case or_else (map_option (\<lambda>r. chain r (\<lambda>c. Inr (put_cpu s c))) (exec_cpu v (cpu s)))
               (or_else (exec_load v s) (or_else (exec_store v s)
                 (or_else (exec_system os v s) (exec_csr os v s)))) of
          Some r \<Rightarrow> r
        | None \<Rightarrow> Inl (FatalUnknownOp (opcode v))))"

definition clear_r0 :: "cpu \<Rightarrow> cpu" where
  "clear_r0 c = c\<lparr>reg := (reg c)[0 := 0]\<rparr>"

definition execute :: "'h os \<Rightarrow> vliw \<Rightarrow> 'h machine \<Rightarrow> 'h machine result" where
  "execute os v s = chain (exec_switch os v s) (\<lambda>s. Inr (put_cpu s (clear_r0 (cpu s))))"

end
