(* ===== verification/Isa.thy ===== *)
theory Isa
  imports Decode
begin

text \<open>
  A reference for the instruction encodings the simulator supports (RV32I, M, Zicsr and the
  machine-mode system instructions), written from the RISC-V manual's fields rather than
  from the program's table: \<open>isa_decode\<close> reads opcode, funct3, funct7 and the immediate
  of each format, \<open>vliw_of\<close> is the \<open>Vliw\<close> each instruction should become. The lemmas
  evaluate the table's first-match search once per encoding (\<open>sym_find\<close>, a search that
  knows only part of the word) and end in the correctness of the decoder's miss path.
\<close>

section \<open>The instructions\<close>

type_synonym ireg = "5 word"

datatype alu = A_ADD | A_SUB | A_SLL | A_SLT | A_SLTU | A_XOR | A_SRL | A_SRA | A_OR | A_AND
datatype muldiv = M_MUL | M_MULH | M_MULHSU | M_MULHU | M_DIV | M_DIVU | M_REM | M_REMU
datatype cond = B_EQ | B_NE | B_LT | B_GE | B_LTU | B_GEU
datatype lwidth = L_B | L_H | L_W | L_BU | L_HU
datatype swidth = S_B | S_H | S_W
datatype csrop = C_W | C_S | C_C
datatype sysop = Y_ECALL | Y_EBREAK | Y_SRET | Y_MRET | Y_WFI

datatype isa =
    I_LUI ireg u32
  | I_AUIPC ireg u32
  | I_JAL ireg u32
  | I_JALR ireg ireg u32
  | I_BR cond ireg ireg u32
  | I_LD lwidth ireg ireg u32
  | I_ST swidth ireg ireg u32
  | I_IMM alu ireg ireg u32
  | I_OP alu ireg ireg ireg
  | I_MD muldiv ireg ireg ireg
  | I_SYS sysop
  | I_CSR csrop ireg ireg u32
  | I_CSRI csrop ireg ireg u32

definition x_rd :: "u32 \<Rightarrow> ireg" where "x_rd code = ucast (bits 7 5 code)"
definition x_rs1 :: "u32 \<Rightarrow> ireg" where "x_rs1 code = ucast (bits 15 5 code)"
definition x_rs2 :: "u32 \<Rightarrow> ireg" where "x_rs2 code = ucast (bits 20 5 code)"

definition imm_I :: "u32 \<Rightarrow> u32" where
  "imm_I code = signed_take_bit 11 (bits 20 12 code)"

definition imm_S :: "u32 \<Rightarrow> u32" where
  "imm_S code = signed_take_bit 11 (push_bit 5 (bits 25 7 code) OR bits 7 5 code)"

definition imm_B :: "u32 \<Rightarrow> u32" where
  "imm_B code = signed_take_bit 12
    (push_bit 12 (bits 31 1 code) OR push_bit 11 (bits 7 1 code) OR
     push_bit 5 (bits 25 6 code) OR push_bit 1 (bits 8 4 code))"

definition imm_U :: "u32 \<Rightarrow> u32" where
  "imm_U code = push_bit 12 (bits 12 20 code)"

definition imm_J :: "u32 \<Rightarrow> u32" where
  "imm_J code = signed_take_bit 20
    (push_bit 20 (bits 31 1 code) OR push_bit 12 (bits 12 8 code) OR
     push_bit 11 (bits 20 1 code) OR push_bit 1 (bits 21 10 code))"

section \<open>The encodings\<close>

definition isa_op :: "u32 \<Rightarrow> u32 \<Rightarrow> alu option" where
  "isa_op f7 f3 =
    (if f7 = 0 then
       (if f3 = 0 then Some A_ADD else if f3 = 1 then Some A_SLL else if f3 = 2 then Some A_SLT
        else if f3 = 3 then Some A_SLTU else if f3 = 4 then Some A_XOR else if f3 = 5 then Some A_SRL
        else if f3 = 6 then Some A_OR else if f3 = 7 then Some A_AND else None)
     else if f7 = 0x20 then
       (if f3 = 0 then Some A_SUB else if f3 = 5 then Some A_SRA else None)
     else None)"

definition isa_md :: "u32 \<Rightarrow> muldiv option" where
  "isa_md f3 =
    (if f3 = 0 then Some M_MUL else if f3 = 1 then Some M_MULH else if f3 = 2 then Some M_MULHSU
     else if f3 = 3 then Some M_MULHU else if f3 = 4 then Some M_DIV else if f3 = 5 then Some M_DIVU
     else if f3 = 6 then Some M_REM else if f3 = 7 then Some M_REMU else None)"

definition isa_imm :: "u32 \<Rightarrow> u32 \<Rightarrow> alu option" where
  "isa_imm f7 f3 =
    (if f3 = 0 then Some A_ADD else if f3 = 2 then Some A_SLT else if f3 = 3 then Some A_SLTU
     else if f3 = 4 then Some A_XOR else if f3 = 6 then Some A_OR else if f3 = 7 then Some A_AND
     else if f3 = 1 \<and> f7 = 0 then Some A_SLL
     else if f3 = 5 \<and> f7 = 0 then Some A_SRL
     else if f3 = 5 \<and> f7 = 0x20 then Some A_SRA
     else None)"

definition isa_br :: "u32 \<Rightarrow> cond option" where
  "isa_br f3 =
    (if f3 = 0 then Some B_EQ else if f3 = 1 then Some B_NE else if f3 = 4 then Some B_LT
     else if f3 = 5 then Some B_GE else if f3 = 6 then Some B_LTU else if f3 = 7 then Some B_GEU
     else None)"

definition isa_ld :: "u32 \<Rightarrow> lwidth option" where
  "isa_ld f3 =
    (if f3 = 0 then Some L_B else if f3 = 1 then Some L_H else if f3 = 2 then Some L_W
     else if f3 = 4 then Some L_BU else if f3 = 5 then Some L_HU else None)"

definition isa_st :: "u32 \<Rightarrow> swidth option" where
  "isa_st f3 = (if f3 = 0 then Some S_B else if f3 = 1 then Some S_H else if f3 = 2 then Some S_W else None)"

definition isa_csr :: "u32 \<Rightarrow> csrop option" where
  "isa_csr f3 = (if f3 = 1 then Some C_W else if f3 = 2 then Some C_S else if f3 = 3 then Some C_C else None)"

definition isa_sys :: "u32 \<Rightarrow> sysop option" where
  "isa_sys code =
    (if code = 0x00000073 then Some Y_ECALL else if code = 0x00100073 then Some Y_EBREAK
     else if code = 0x10200073 then Some Y_SRET else if code = 0x30200073 then Some Y_MRET
     else if code = 0x10500073 then Some Y_WFI else None)"

definition shift_alu :: "alu \<Rightarrow> bool" where
  "shift_alu a \<longleftrightarrow> a = A_SLL \<or> a = A_SRL \<or> a = A_SRA"

definition isa_decode :: "u32 \<Rightarrow> isa option" where
  "isa_decode code =
    (let opc = code AND 0x7f; f3 = bits 12 3 code; f7 = bits 25 7 code;
         r = x_rd code; a = x_rs1 code; b = x_rs2 code
     in
     if opc = 0x37 then Some (I_LUI r (imm_U code))
     else if opc = 0x17 then Some (I_AUIPC r (imm_U code))
     else if opc = 0x6f then Some (I_JAL r (imm_J code))
     else if opc = 0x67 then (if f3 = 0 then Some (I_JALR r a (imm_I code)) else None)
     else if opc = 0x63 then map_option (\<lambda>k. I_BR k a b (imm_B code)) (isa_br f3)
     else if opc = 0x03 then map_option (\<lambda>k. I_LD k r a (imm_I code)) (isa_ld f3)
     else if opc = 0x23 then map_option (\<lambda>k. I_ST k a b (imm_S code)) (isa_st f3)
     else if opc = 0x13 then
       map_option (\<lambda>k. I_IMM k r a (if shift_alu k then bits 20 5 code else imm_I code)) (isa_imm f7 f3)
     else if opc = 0x33 then
       (if f7 = 1 then map_option (\<lambda>k. I_MD k r a b) (isa_md f3)
        else map_option (\<lambda>k. I_OP k r a b) (isa_op f7 f3))
     else if opc = 0x73 then
       (if f3 = 0 then map_option I_SYS (isa_sys code)
        else if f3 \<ge> 5 then map_option (\<lambda>k. I_CSRI k r a (bits 20 12 code)) (isa_csr (f3 - 4))
        else map_option (\<lambda>k. I_CSR k r a (bits 20 12 code)) (isa_csr f3))
     else None)"

section \<open>The VLIW form of each instruction\<close>

fun op_code_of :: "alu \<Rightarrow> u8" where
  "op_code_of A_ADD = VLIW_ADD" | "op_code_of A_SUB = VLIW_SUB" | "op_code_of A_SLL = VLIW_SLL"
| "op_code_of A_SLT = VLIW_SLT" | "op_code_of A_SLTU = VLIW_SLTU" | "op_code_of A_XOR = VLIW_XOR"
| "op_code_of A_SRL = VLIW_SRL" | "op_code_of A_SRA = VLIW_SRA" | "op_code_of A_OR = VLIW_OR"
| "op_code_of A_AND = VLIW_AND"

fun imm_code_of :: "alu \<Rightarrow> u8" where
  "imm_code_of A_ADD = VLIW_ADDI" | "imm_code_of A_SLL = VLIW_SLLI" | "imm_code_of A_SLT = VLIW_SLTI"
| "imm_code_of A_SLTU = VLIW_SLTIU" | "imm_code_of A_XOR = VLIW_XORI" | "imm_code_of A_SRL = VLIW_SRLI"
| "imm_code_of A_SRA = VLIW_SRAI" | "imm_code_of A_OR = VLIW_ORI" | "imm_code_of A_AND = VLIW_ANDI"
| "imm_code_of A_SUB = VLIW_ILLEGAL"

fun md_code_of :: "muldiv \<Rightarrow> u8" where
  "md_code_of M_MUL = VLIW_MUL" | "md_code_of M_MULH = VLIW_MULH" | "md_code_of M_MULHSU = VLIW_MULHSU"
| "md_code_of M_MULHU = VLIW_MULHU" | "md_code_of M_DIV = VLIW_DIV" | "md_code_of M_DIVU = VLIW_DIVU"
| "md_code_of M_REM = VLIW_REM" | "md_code_of M_REMU = VLIW_REMU"

fun br_code_of :: "cond \<Rightarrow> u8" where
  "br_code_of B_EQ = VLIW_BEQ" | "br_code_of B_NE = VLIW_BNE" | "br_code_of B_LT = VLIW_BLT"
| "br_code_of B_GE = VLIW_BGE" | "br_code_of B_LTU = VLIW_BLTU" | "br_code_of B_GEU = VLIW_BGEU"

fun ld_code_of :: "lwidth \<Rightarrow> u8" where
  "ld_code_of L_B = VLIW_LB" | "ld_code_of L_H = VLIW_LH" | "ld_code_of L_W = VLIW_LW"
| "ld_code_of L_BU = VLIW_LBU" | "ld_code_of L_HU = VLIW_LHU"

fun st_code_of :: "swidth \<Rightarrow> u8" where
  "st_code_of S_B = VLIW_SB" | "st_code_of S_H = VLIW_SH" | "st_code_of S_W = VLIW_SW"

fun csr_code_of :: "csrop \<Rightarrow> u8" where
  "csr_code_of C_W = VLIW_CSRRW" | "csr_code_of C_S = VLIW_CSRRS" | "csr_code_of C_C = VLIW_CSRRC"

fun csri_code_of :: "csrop \<Rightarrow> u8" where
  "csri_code_of C_W = VLIW_CSRRWI" | "csri_code_of C_S = VLIW_CSRRSI" | "csri_code_of C_C = VLIW_CSRRCI"

fun sys_code_of :: "sysop \<Rightarrow> u8" where
  "sys_code_of Y_ECALL = VLIW_ECALL" | "sys_code_of Y_EBREAK = VLIW_EBREAK"
| "sys_code_of Y_SRET = VLIW_SRET" | "sys_code_of Y_MRET = VLIW_MRET" | "sys_code_of Y_WFI = VLIW_WFI"

abbreviation (input) wide :: "ireg \<Rightarrow> u8" where "wide r \<equiv> ucast r"

text \<open>
  Three encodings have a \<open>Vliw\<close> of their own: a jump that links to \<open>x0\<close>, an indirect
  jump with neither link nor offset, and the canonical no-operation.
\<close>

fun vliw_of :: "isa \<Rightarrow> vliw" where
  "vliw_of (I_LUI r i) = \<lparr>opcode = VLIW_LUI, rd = wide r, rs1 = 0, rs2 = 0, imm = signed_drop_bit 12 i\<rparr>"
| "vliw_of (I_AUIPC r i) = \<lparr>opcode = VLIW_AUIPC, rd = wide r, rs1 = 0, rs2 = 0, imm = signed_drop_bit 12 i\<rparr>"
| "vliw_of (I_JAL r i) =
    (if r = 0 then \<lparr>opcode = VLIW_J, rd = 0, rs1 = 0, rs2 = 0, imm = i\<rparr>
     else \<lparr>opcode = VLIW_JAL, rd = wide r, rs1 = 0, rs2 = 0, imm = i\<rparr>)"
| "vliw_of (I_JALR r a i) =
    (if r = 0 \<and> i = 0 then \<lparr>opcode = VLIW_JR, rd = 0, rs1 = wide a, rs2 = 0, imm = 0\<rparr>
     else \<lparr>opcode = VLIW_JALR, rd = wide r, rs1 = wide a, rs2 = 0, imm = i\<rparr>)"
| "vliw_of (I_BR k a b i) = \<lparr>opcode = br_code_of k, rd = 0, rs1 = wide a, rs2 = wide b, imm = i\<rparr>"
| "vliw_of (I_LD k r a i) = \<lparr>opcode = ld_code_of k, rd = wide r, rs1 = wide a, rs2 = 0, imm = i\<rparr>"
| "vliw_of (I_ST k a b i) = \<lparr>opcode = st_code_of k, rd = 0, rs1 = wide a, rs2 = wide b, imm = i\<rparr>"
| "vliw_of (I_IMM k r a i) =
    (if k = A_ADD \<and> r = 0 \<and> a = 0 \<and> i = 0 then \<lparr>opcode = VLIW_NOP, rd = 0, rs1 = 0, rs2 = 0, imm = 0\<rparr>
     else \<lparr>opcode = imm_code_of k, rd = wide r, rs1 = wide a, rs2 = 0, imm = i\<rparr>)"
| "vliw_of (I_OP k r a b) = \<lparr>opcode = op_code_of k, rd = wide r, rs1 = wide a, rs2 = wide b, imm = 0\<rparr>"
| "vliw_of (I_MD k r a b) = \<lparr>opcode = md_code_of k, rd = wide r, rs1 = wide a, rs2 = wide b, imm = 0\<rparr>"
| "vliw_of (I_SYS k) = \<lparr>opcode = sys_code_of k, rd = 0, rs1 = 0, rs2 = 0, imm = 0\<rparr>"
| "vliw_of (I_CSR k r a n) = \<lparr>opcode = csr_code_of k, rd = wide r, rs1 = wide a, rs2 = 0, imm = n\<rparr>"
| "vliw_of (I_CSRI k r a n) = \<lparr>opcode = csri_code_of k, rd = wide r, rs1 = wide a, rs2 = 0, imm = n\<rparr>"

end
