(* ===== verification/Decomp16.thy ===== *)
theory Decomp16
  imports Isa
begin

text \<open>
  The table \<open>decomp16_table\<close> of \<open>src/decomp16.cpp\<close>, through which the run loop expands
  a 16-bit encoding into the 32-bit one it stands for (0 where there is none). The file is
  generated: 65536 rows. Here it is written as what its rows are, the encoding
  (\<open>isa_encode\<close>) of the instruction a 16-bit word stands for (\<open>rvc_isa\<close>); theory
  \<open>Decomp16_Table\<close> holds the literal rows and shows that they are these. \<open>rvc_isa\<close>
  follows the rows: among the words the manual reserves for hints, most have no expansion;
  \<open>c.lwsp\<close> into \<open>x0\<close>, reserved there, has one.
\<close>

section \<open>Encoding\<close>

text \<open>The six fields that every 32-bit format fills in some way.\<close>

definition insn_fields :: "u32 \<Rightarrow> u32 \<Rightarrow> u32 \<Rightarrow> u32 \<Rightarrow> u32 \<Rightarrow> u32 \<Rightarrow> u32" where
  "insn_fields f7 b a f3 r opc =
    push_bit 25 (take_bit 7 f7) OR push_bit 20 (take_bit 5 b) OR push_bit 15 (take_bit 5 a) OR
    push_bit 12 (take_bit 3 f3) OR push_bit 7 (take_bit 5 r) OR take_bit 7 opc"

fun alu_f3 :: "alu \<Rightarrow> u32" where
  "alu_f3 A_ADD = 0" | "alu_f3 A_SUB = 0" | "alu_f3 A_SLL = 1" | "alu_f3 A_SLT = 2"
| "alu_f3 A_SLTU = 3" | "alu_f3 A_XOR = 4" | "alu_f3 A_SRL = 5" | "alu_f3 A_SRA = 5"
| "alu_f3 A_OR = 6" | "alu_f3 A_AND = 7"

definition alu_f7 :: "alu \<Rightarrow> u32" where
  "alu_f7 k = (if k = A_SUB \<or> k = A_SRA then 0x20 else 0)"

fun md_f3 :: "muldiv \<Rightarrow> u32" where
  "md_f3 M_MUL = 0" | "md_f3 M_MULH = 1" | "md_f3 M_MULHSU = 2" | "md_f3 M_MULHU = 3"
| "md_f3 M_DIV = 4" | "md_f3 M_DIVU = 5" | "md_f3 M_REM = 6" | "md_f3 M_REMU = 7"

fun br_f3 :: "cond \<Rightarrow> u32" where
  "br_f3 B_EQ = 0" | "br_f3 B_NE = 1" | "br_f3 B_LT = 4" | "br_f3 B_GE = 5" | "br_f3 B_LTU = 6"
| "br_f3 B_GEU = 7"

fun ld_f3 :: "lwidth \<Rightarrow> u32" where
  "ld_f3 L_B = 0" | "ld_f3 L_H = 1" | "ld_f3 L_W = 2" | "ld_f3 L_BU = 4" | "ld_f3 L_HU = 5"

fun st_f3 :: "swidth \<Rightarrow> u32" where
  "st_f3 S_B = 0" | "st_f3 S_H = 1" | "st_f3 S_W = 2"

fun csr_f3 :: "csrop \<Rightarrow> u32" where
  "csr_f3 C_W = 1" | "csr_f3 C_S = 2" | "csr_f3 C_C = 3"

fun sys_word :: "sysop \<Rightarrow> u32" where
  "sys_word Y_ECALL = 0x00000073" | "sys_word Y_EBREAK = 0x00100073"
| "sys_word Y_SRET = 0x10200073" | "sys_word Y_MRET = 0x30200073" | "sys_word Y_WFI = 0x10500073"

fun isa_encode :: "isa \<Rightarrow> u32" where
  "isa_encode (I_LUI r i) = insn_fields (drop_bit 25 i) (drop_bit 20 i) (drop_bit 15 i) (drop_bit 12 i) (ucast r) 0x37"
| "isa_encode (I_AUIPC r i) = insn_fields (drop_bit 25 i) (drop_bit 20 i) (drop_bit 15 i) (drop_bit 12 i) (ucast r) 0x17"
| "isa_encode (I_JAL r i) =
    insn_fields (push_bit 6 (bits 20 1 i) OR bits 5 6 i) (push_bit 1 (bits 1 4 i) OR bits 11 1 i)
      (drop_bit 15 i) (drop_bit 12 i) (ucast r) 0x6f"
| "isa_encode (I_JALR r a i) = insn_fields (drop_bit 5 i) i (ucast a) 0 (ucast r) 0x67"
| "isa_encode (I_BR k a b i) =
    insn_fields (push_bit 6 (bits 12 1 i) OR bits 5 6 i) (ucast b) (ucast a) (br_f3 k)
      (push_bit 1 (bits 1 4 i) OR bits 11 1 i) 0x63"
| "isa_encode (I_LD k r a i) = insn_fields (drop_bit 5 i) i (ucast a) (ld_f3 k) (ucast r) 0x03"
| "isa_encode (I_ST k a b i) = insn_fields (drop_bit 5 i) (ucast b) (ucast a) (st_f3 k) i 0x23"
| "isa_encode (I_IMM k r a i) =
    insn_fields (if shift_alu k then alu_f7 k else drop_bit 5 i) i (ucast a) (alu_f3 k) (ucast r) 0x13"
| "isa_encode (I_OP k r a b) = insn_fields (alu_f7 k) (ucast b) (ucast a) (alu_f3 k) (ucast r) 0x33"
| "isa_encode (I_MD k r a b) = insn_fields 1 (ucast b) (ucast a) (md_f3 k) (ucast r) 0x33"
| "isa_encode (I_SYS k) = sys_word k"
| "isa_encode (I_CSR k r a n) = insn_fields (drop_bit 5 n) n (ucast a) (csr_f3 k) (ucast r) 0x73"
| "isa_encode (I_CSRI k r a n) = insn_fields (drop_bit 5 n) n (ucast a) (csr_f3 k + 4) (ucast r) 0x73"

section \<open>What a 16-bit word stands for\<close>

definition rvc_r :: "nat \<Rightarrow> u32 \<Rightarrow> ireg" where "rvc_r lo w = ucast (bits lo 5 w)"
definition rvc_p :: "nat \<Rightarrow> u32 \<Rightarrow> ireg" where "rvc_p lo w = ucast (8 + bits lo 3 w)"

definition rvc_imm6 :: "u32 \<Rightarrow> u32" where
  "rvc_imm6 w = signed_take_bit 5 (push_bit 5 (bits 12 1 w) OR bits 2 5 w)"

definition rvc_j :: "u32 \<Rightarrow> u32" where
  "rvc_j w = signed_take_bit 11
    (push_bit 11 (bits 12 1 w) OR push_bit 10 (bits 8 1 w) OR push_bit 8 (bits 9 2 w) OR
     push_bit 7 (bits 6 1 w) OR push_bit 6 (bits 7 1 w) OR push_bit 5 (bits 2 1 w) OR
     push_bit 4 (bits 11 1 w) OR push_bit 1 (bits 3 3 w))"

definition rvc_b :: "u32 \<Rightarrow> u32" where
  "rvc_b w = signed_take_bit 8
    (push_bit 8 (bits 12 1 w) OR push_bit 6 (bits 5 2 w) OR push_bit 5 (bits 2 1 w) OR
     push_bit 3 (bits 10 2 w) OR push_bit 1 (bits 3 2 w))"

definition rvc_lw :: "u32 \<Rightarrow> u32" where
  "rvc_lw w = push_bit 6 (bits 5 1 w) OR push_bit 3 (bits 10 3 w) OR push_bit 2 (bits 6 1 w)"

definition rvc_4spn :: "u32 \<Rightarrow> u32" where
  "rvc_4spn w = push_bit 6 (bits 7 4 w) OR push_bit 4 (bits 11 2 w) OR push_bit 3 (bits 5 1 w) OR
     push_bit 2 (bits 6 1 w)"

definition rvc_16sp :: "u32 \<Rightarrow> u32" where
  "rvc_16sp w = signed_take_bit 9
    (push_bit 9 (bits 12 1 w) OR push_bit 7 (bits 3 2 w) OR push_bit 6 (bits 5 1 w) OR
     push_bit 5 (bits 2 1 w) OR push_bit 4 (bits 6 1 w))"

definition rvc_lwsp :: "u32 \<Rightarrow> u32" where
  "rvc_lwsp w = push_bit 6 (bits 2 2 w) OR push_bit 5 (bits 12 1 w) OR push_bit 2 (bits 4 3 w)"

definition rvc_swsp :: "u32 \<Rightarrow> u32" where
  "rvc_swsp w = push_bit 6 (bits 7 2 w) OR push_bit 2 (bits 9 4 w)"

definition rvc_q0 :: "u32 \<Rightarrow> isa option" where
  "rvc_q0 w =
    (let f = bits 13 3 w in
     if f = 0 then if rvc_4spn w = 0 then None else Some (I_IMM A_ADD (rvc_p 2 w) 2 (rvc_4spn w))
     else if f = 2 then Some (I_LD L_W (rvc_p 2 w) (rvc_p 7 w) (rvc_lw w))
     else if f = 6 then Some (I_ST S_W (rvc_p 7 w) (rvc_p 2 w) (rvc_lw w))
     else None)"

definition rvc_alu :: "u32 \<Rightarrow> isa option" where
  "rvc_alu w =
    (let g = bits 10 2 w; b12 = bits 12 1 w; sh = bits 2 5 w; p = rvc_p 7 w; q = rvc_p 2 w;
         h = bits 5 2 w
     in
     if g = 0 then if b12 = 0 \<and> sh \<noteq> 0 then Some (I_IMM A_SRL p p sh) else None
     else if g = 1 then if b12 = 0 \<and> sh \<noteq> 0 then Some (I_IMM A_SRA p p sh) else None
     else if g = 2 then Some (I_IMM A_AND p p (rvc_imm6 w))
     else if b12 \<noteq> 0 then None
     else if h = 0 then Some (I_OP A_SUB p p q)
     else if h = 1 then Some (I_OP A_XOR p p q)
     else if h = 2 then Some (I_OP A_OR p p q)
     else Some (I_OP A_AND p p q))"

definition rvc_q1 :: "u32 \<Rightarrow> isa option" where
  "rvc_q1 w =
    (let f = bits 13 3 w; r = rvc_r 7 w; i = rvc_imm6 w in
     if f = 0 then if r = 0 \<and> i \<noteq> 0 then None else Some (I_IMM A_ADD r r i)
     else if f = 1 then Some (I_JAL 1 (rvc_j w))
     else if f = 2 then if r = 0 then None else Some (I_IMM A_ADD r 0 i)
     else if f = 3 then
       if r = 2 then if rvc_16sp w = 0 then None else Some (I_IMM A_ADD 2 2 (rvc_16sp w))
       else if r = 0 \<or> i = 0 then None else Some (I_LUI r (push_bit 12 i))
     else if f = 4 then rvc_alu w
     else if f = 5 then Some (I_JAL 0 (rvc_j w))
     else if f = 6 then Some (I_BR B_EQ (rvc_p 7 w) 0 (rvc_b w))
     else Some (I_BR B_NE (rvc_p 7 w) 0 (rvc_b w)))"

definition rvc_q2 :: "u32 \<Rightarrow> isa option" where
  "rvc_q2 w =
    (let f = bits 13 3 w; b12 = bits 12 1 w; r = rvc_r 7 w; s = rvc_r 2 w in
     if f = 0 then if b12 = 0 then Some (I_IMM A_SLL r r (bits 2 5 w)) else None
     else if f = 2 then Some (I_LD L_W r 2 (rvc_lwsp w))
     else if f = 4 then
       if b12 = 0 then
         if r = 0 then None
         else if s = 0 then Some (I_JALR 0 r 0) else Some (I_OP A_ADD r 0 s)
       else if s = 0 then if r = 0 then Some (I_SYS Y_EBREAK) else Some (I_JALR 1 r 0)
       else if r = 0 then None else Some (I_OP A_ADD r r s)
     else if f = 6 then Some (I_ST S_W 2 s (rvc_swsp w))
     else None)"

definition rvc_isa :: "u16 \<Rightarrow> isa option" where
  "rvc_isa c =
    (let w = ucast c; q = bits 0 2 w
     in if q = 0 then rvc_q0 w else if q = 1 then rvc_q1 w else if q = 2 then rvc_q2 w else None)"

definition decomp16_table :: "u16 \<Rightarrow> u32" where
  "decomp16_table code16 = (case rvc_isa code16 of Some i \<Rightarrow> isa_encode i | None \<Rightarrow> 0)"

end
