(* ===== verification/Run.thy ===== *)
theory Run
  imports Execute Decomp16
begin

text \<open>
  \<open>Cpu::run\<close> of \<open>src/Cpu.cpp\<close> (the \<open>VERY_FAST\<close> build with compressed instructions):
  fetch and expansion, the instruction cache \<open>vliw_insn\<close>, the interrupt check every 16
  cycles, execution, and the loop. The loop runs at most \<open>n\<close> turns, so it is a recursion
  on \<open>n\<close>; the loop of the other build, which reports and stops, is in \<open>Run_Slow\<close>.
\<close>

section \<open>Fetch and expansion\<close>

text \<open>The 32-bit encoding at the program counter and the length of the instruction.\<close>

definition expand :: "u32 \<Rightarrow> (u32 \<times> u32) result" where
  "expand code32 =
    (if code32 AND 0x00000003 = 0x00000003 then Inr (code32, 4)
     else
       let code16 = ucast code32 :: u16; code32 = decomp16_table code16
       in if code32 = 0 then Inl (ExitNotDecompressed code16) else Inr (code32, 2))"

definition fetch_code :: "memory \<Rightarrow> cpu \<Rightarrow> (u32 \<times> u32) result" where
  "fetch_code m c = chain (Cpu_fetch m c) expand"

section \<open>The instruction cache\<close>

definition vliw_index :: "u32 \<Rightarrow> u32" where
  "vliw_index p = drop_bit 1 p AND vliw_mask"

definition vliw_lookup :: "(u32 \<Rightarrow> vliw) \<Rightarrow> u32 \<Rightarrow> vliw option" where
  "vliw_lookup t p = (let vcp = t (vliw_index p) in if opcode vcp = VLIW_NONE then None else Some vcp)"

definition vliw_store :: "u32 \<Rightarrow> vliw \<Rightarrow> (u32 \<Rightarrow> vliw) \<Rightarrow> (u32 \<Rightarrow> vliw)" where
  "vliw_store p v t = t(vliw_index p := v)"

definition vliw_insn_start :: "u32 \<Rightarrow> vliw" where
  "vliw_insn_start = (\<lambda>_. Vliw_clear)"

text \<open>The slot is filled also when nothing decodes: with the no-operation the decoder leaves.\<close>

definition decode_cached :: "u32 \<Rightarrow> 'h machine \<Rightarrow> (vliw \<times> 'h machine) result" where
  "decode_cached code32 s =
    (let p = pc (cpu s) in
     case vliw_lookup (vliw_insn s) p of
       Some v \<Rightarrow> Inr (v, s)
     | None \<Rightarrow>
         chain (decode2vliw code32 (decoder s)) (\<lambda>((ok, v), d).
           Inr (v, s\<lparr>decoder := d, vliw_insn := vliw_store p v (vliw_insn s)\<rparr>)))"

section \<open>One turn of the loop\<close>

definition vliw_nop :: vliw where "vliw_nop = Vliw_op VLIW_NOP"

definition check_irqs :: "vliw \<Rightarrow> cpu \<Rightarrow> vliw \<times> cpu" where
  "check_irqs vlp c =
    (if cycle c AND 0xf = 0xf then
       let (e, c) = do_external_irq c;
           vlp = (if e then vliw_nop else vlp);
           (t, c) = do_time_irq c;
           vlp = (if t then vliw_nop else vlp);
           c = (if cycle c AND 0xfffff = 0xfffff then c\<lparr>mip := mip c OR RISCV_MIP_MTIP\<rparr> else c)
       in (vlp, c)
     else (vlp, c))"

text \<open>What follows the decoding: the interrupt check, execution, and the step of the counters.\<close>

definition run_insn :: "'h os \<Rightarrow> vliw \<Rightarrow> u32 \<Rightarrow> 'h machine \<Rightarrow> 'h machine result" where
  "run_insn os vlp len s =
    (let c = (cpu s)\<lparr>pc_inc := pc (cpu s) + len\<rparr>;
         c = c\<lparr>pc_next := pc_inc c\<rparr>;
         (vlp, c) = check_irqs vlp c
     in chain (execute os vlp (put_cpu s c)) (\<lambda>s.
          Inr (s\<lparr>cpu := (cpu s)\<lparr>pc := pc_next (cpu s), cycle := cycle (cpu s) + 1\<rparr>\<rparr>)))"

definition run_step :: "'h os \<Rightarrow> 'h machine \<Rightarrow> 'h machine result" where
  "run_step os s =
    chain (fetch_code (memory s) (cpu s)) (\<lambda>(code32, len).
    chain (decode_cached code32 s) (\<lambda>(vlp, s). run_insn os vlp len s))"

section \<open>The loop\<close>

fun run_loop :: "'h os \<Rightarrow> nat \<Rightarrow> 'h machine \<Rightarrow> 'h machine result" where
  "run_loop os 0 s = Inr s"
| "run_loop os (Suc n) s =
    (if running (cpu s) then
       chain (run_step os s) (\<lambda>s.
         if stop (cpu s) then Inr (s\<lparr>cpu := (cpu s)\<lparr>stop := False\<rparr>\<rparr>)
         else run_loop os n s)
     else Inr s)"

definition run :: "'h os \<Rightarrow> u64 \<Rightarrow> 'h machine \<Rightarrow> 'h machine result" where
  "run os n s = run_loop os (unat n) (s\<lparr>cpu := (cpu s)\<lparr>running := True, cycle := 0\<rparr>\<rparr>)"

end
