(* ===== verification/Memory_Facts.thy ===== *)
theory Memory_Facts
  imports Memory
begin

text \<open>
  The contract of byte-addressed storage as a locale (\<open>byte_store\<close>), and what routing an
  address through a partial map makes of it (\<open>routed\<close>, again a \<open>byte_store\<close>). A
  \<open>Segment\<close> and the allocations behind a pointer are byte stores; \<open>Memory\<close> is one
  routed by \<open>getPtr\<close> for reads and by the write rule for writes. The typed accessors are
  then loads and stores of little-endian words, and their laws are the locale's.
\<close>

section \<open>The contract\<close>

locale byte_store =
  fixes load :: "'m \<Rightarrow> 'a \<Rightarrow> nat \<Rightarrow> u8 list result"
    and store :: "'m \<Rightarrow> 'a \<Rightarrow> u8 list \<Rightarrow> 'm result"
    and apart :: "'m \<Rightarrow> 'a \<Rightarrow> nat \<Rightarrow> 'a \<Rightarrow> nat \<Rightarrow> bool"
  assumes load_same: "store m a bs = Inr m' \<Longrightarrow> load m' a (length bs) = Inr bs"
    and load_apart:
      "store m a bs = Inr m' \<Longrightarrow> apart m a (length bs) b n \<Longrightarrow> load m' b n = load m b n"
    and apart_store: "store m a bs = Inr m' \<Longrightarrow> apart m' = apart m"
    and loaded_length: "load m a n = Inr bs \<Longrightarrow> length bs = n"
begin

lemma word_same:
  assumes "store m a (le_bytes n w) = Inr m'" and "LENGTH('w) = 8 * n"
  shows "chain (load m' a n) (\<lambda>bs. Inr (le_word bs)) = Inr (w :: 'w::len word)"
  using load_same [OF assms(1)] assms(2) by (simp add: le_word_bytes)

lemma first_survives:
  assumes "store m a as = Inr m1" and "store m1 b bs = Inr m2"
    and "apart m b (length bs) a (length as)"
  shows "load m2 a (length as) = Inr as"
  using load_same [OF assms(1)] load_apart [OF assms(2)] apart_store [OF assms(1)] assms(3)
  by simp

end

definition routed_load where
  "routed_load route load m x n = chain (route m x) (\<lambda>a. load m a n)"

definition routed_store where
  "routed_store route store m x bs = chain (route m x) (\<lambda>a. store m a bs)"

definition routed_apart where
  "routed_apart route apart m x n y k \<longleftrightarrow>
    (\<forall>a b. route m x = Inr a \<longrightarrow> route m y = Inr b \<longrightarrow> apart m a n b k)"

locale routed = byte_store load store apart
  for load :: "'m \<Rightarrow> 'a \<Rightarrow> nat \<Rightarrow> u8 list result"
    and store :: "'m \<Rightarrow> 'a \<Rightarrow> u8 list \<Rightarrow> 'm result"
    and apart :: "'m \<Rightarrow> 'a \<Rightarrow> nat \<Rightarrow> 'a \<Rightarrow> nat \<Rightarrow> bool" +
  fixes route :: "'m \<Rightarrow> 'x \<Rightarrow> 'a result"
    and wroute :: "'m \<Rightarrow> 'x \<Rightarrow> 'a result"
  assumes wroute_route: "wroute m x = Inr a \<Longrightarrow> route m x = Inr a"
    and route_store: "store m a bs = Inr m' \<Longrightarrow> route m' = route m"
begin

lemma routed_load_same:
  "routed_store wroute store m x bs = Inr m' \<Longrightarrow> routed_load route load m' x (length bs) = Inr bs"
  by (auto simp: routed_load_def routed_store_def faultfacts route_store load_same dest: wroute_route)

lemma routed_load_apart:
  assumes "routed_store wroute store m x bs = Inr m'" and "routed_apart route apart m x (length bs) y n"
  shows "routed_load route load m' y n = routed_load route load m y n"
proof -
  obtain a where a: "wroute m x = Inr a" "store m a bs = Inr m'"
    using assms(1) by (auto simp: routed_store_def faultfacts)
  show ?thesis
  proof (cases "route m y")
    case (Inl e)
    then show ?thesis by (simp add: routed_load_def route_store [OF a(2)])
  next
    case (Inr b)
    then have "apart m a (length bs) b n"
      using assms(2) wroute_route [OF a(1)] by (simp add: routed_apart_def)
    then show ?thesis
      using Inr by (simp add: routed_load_def route_store [OF a(2)] load_apart [OF a(2)])
  qed
qed

lemma routed_apart_store:
  "routed_store wroute store m x bs = Inr m' \<Longrightarrow> routed_apart route apart m' = routed_apart route apart m"
  by (auto simp: routed_store_def routed_apart_def faultfacts route_store apart_store fun_eq_iff)

end

sublocale routed \<subseteq> via: byte_store
  "routed_load route load" "routed_store wroute store" "routed_apart route apart"
  by (unfold_locales; (elim routed_load_same | erule (1) routed_load_apart | erule routed_apart_store)?)
    (auto simp: routed_load_def faultfacts dest: loaded_length)

section \<open>Segments and pointers\<close>

definition seg_apart :: "segment \<Rightarrow> u32 \<Rightarrow> nat \<Rightarrow> u32 \<Rightarrow> nat \<Rightarrow> bool" where
  "seg_apart s a n b k \<longleftrightarrow> seg_off s b + k \<le> seg_off s a \<or> seg_off s a + n \<le> seg_off s b"

definition ptr_apart :: "memory \<Rightarrow> ptr \<Rightarrow> nat \<Rightarrow> ptr \<Rightarrow> nat \<Rightarrow> bool" where
  "ptr_apart m p n q k \<longleftrightarrow> fst p \<noteq> fst q \<or> snd q + k \<le> snd p \<or> snd p + n \<le> snd q"

interpretation seg: byte_store seg_load seg_store seg_apart
  by unfold_locales
    (auto simp: seg_load_def seg_store_def seg_apart_def seg_off_def slice_of_splice_other fun_eq_iff
      split: if_splits)

lemma region_upd_simps [simp]:
  "region_seg (region_upd m r s) r = s"
  "r \<noteq> q \<Longrightarrow> region_seg (region_upd m r s) q = region_seg m q"
  "isdata (region_upd m r (region_seg m r\<lparr>data := d\<rparr>)) = isdata m"
  "istext (region_upd m r (region_seg m r\<lparr>data := d\<rparr>)) = istext m"
  "seg_off (dataMem (region_upd m r (region_seg m r\<lparr>data := d\<rparr>))) = seg_off (dataMem m)"
  "seg_off (insnMem (region_upd m r (region_seg m r\<lparr>data := d\<rparr>))) = seg_off (insnMem m)"
  "do_core (region_upd m r s) = do_core m"
  by (auto simp: region_seg_def region_upd_def isdata_def istext_def seg_off_def fun_eq_iff
      split: region.splits)

text \<open>Where \<open>Memory\<close> sends a write that stays inside it.\<close>

definition Memory_wptr :: "memory \<Rightarrow> u32 \<Rightarrow> ptr result" where
  "Memory_wptr m addr =
    (if isdata m addr \<or> do_core m then Memory_getPtr m addr else Inl (FatalAccess GetPtr addr))"

interpretation mem: routed ptr_load ptr_store ptr_apart Memory_getPtr Memory_wptr
proof unfold_locales
  show "ptr_load m' a (length bs) = Inr bs" if "ptr_store m a bs = Inr m'" for m a bs m'
    using that by (auto simp: ptr_load_def ptr_store_def Let_def split: if_splits)
  show "ptr_load m' b n = ptr_load m b n"
    if "ptr_store m a bs = Inr m'" "ptr_apart m a (length bs) b n" for m a bs m' b n
    using that by (cases "fst a = fst b")
      (auto simp: ptr_load_def ptr_store_def ptr_apart_def Let_def slice_of_splice_other split: if_splits)
  show "Memory_getPtr m' = Memory_getPtr m" if "ptr_store m a bs = Inr m'" for m a bs m'
    using that by (auto simp: ptr_store_def Let_def Memory_getPtr_def fun_eq_iff split: if_splits)
qed (auto simp: ptr_apart_def ptr_load_def Memory_wptr_def Let_def fun_eq_iff split: if_splits)

section \<open>The accessors as loads and stores\<close>

abbreviation mem_load :: "memory \<Rightarrow> u32 \<Rightarrow> nat \<Rightarrow> u8 list result" where
  "mem_load \<equiv> routed_load Memory_getPtr ptr_load"

abbreviation mem_store :: "memory \<Rightarrow> u32 \<Rightarrow> u8 list \<Rightarrow> memory result" where
  "mem_store \<equiv> routed_store Memory_wptr ptr_store"

abbreviation mem_apart :: "memory \<Rightarrow> u32 \<Rightarrow> nat \<Rightarrow> u32 \<Rightarrow> nat \<Rightarrow> bool" where
  "mem_apart \<equiv> routed_apart Memory_getPtr ptr_apart"

definition readable :: "memory \<Rightarrow> u32 \<Rightarrow> bool" where
  "readable m addr \<longleftrightarrow> isdata m addr \<or> istext m addr"

definition writable :: "memory \<Rightarrow> u32 \<Rightarrow> bool" where
  "writable m addr \<longleftrightarrow> isdata m addr \<or> do_core m \<and> istext m addr"

lemma writable_readable: "writable m addr \<Longrightarrow> readable m addr"
  by (auto simp: writable_def readable_def)

lemmas access_defs = routed_load_def routed_store_def ptr_load_def ptr_store_def Memory_getPtr_def
  Memory_wptr_def region_seg_def region_upd_def seg_load_def seg_store_def Let_def

lemma read_loads:
  assumes "readable m a"
  shows "Memory_read64 m a = chain (mem_load m a 8) (\<lambda>bs. Inr (le_word bs))"
    and "Memory_read32 m a = chain (mem_load m a 4) (\<lambda>bs. Inr (le_word bs, NoEffect))"
    and "Memory_read16 m a = chain (mem_load m a 2) (\<lambda>bs. Inr (scast (le_word bs :: u16)))"
    and "Memory_read16u m a = chain (mem_load m a 2) (\<lambda>bs. Inr (ucast (le_word bs :: u16)))"
    and "Memory_read8 m a = chain (mem_load m a 1) (\<lambda>bs. Inr (scast (le_word bs :: u8)))"
    and "Memory_read8u m a = chain (mem_load m a 1) (\<lambda>bs. Inr (ucast (le_word bs :: u8)))"
  using assms
  by (auto simp: readable_def access_defs Memory_read64_def Memory_read32_def Memory_read16_def
      Memory_read16u_def Memory_read8_def Memory_read8u_def Segment_read64_def Segment_read32_def
      Segment_read16_def Segment_read16u_def Segment_read8_def Segment_read8u_def)

lemma write_stores:
  assumes "writable m a"
  shows "Memory_write64 m a v = mem_store m a (le_bytes 8 v)"
    and "Memory_write32 m a w = chain (mem_store m a (le_bytes 4 w)) (\<lambda>m'. Inr (m', NoEffect))"
    and "Memory_write16 m a w = mem_store m a (le_bytes 2 w)"
    and "Memory_write8 m a w = mem_store m a (le_bytes 1 w)"
  using assms
  by (auto simp: writable_def access_defs on_data_def on_text_def Memory_write64_def
      Memory_write32_def Memory_write16_def Memory_write8_def Segment_write64_def
      Segment_write32_def Segment_write16_def Segment_write8_def)

lemma store_readable: "mem_store m a bs = Inr m' \<Longrightarrow> readable m' = readable m \<and> writable m' = writable m"
  by (auto simp: access_defs readable_def writable_def isdata_def istext_def fun_eq_iff
      split: if_splits)

text \<open>A 16-bit or 8-bit store keeps the low bits of the register.\<close>

lemma le_word_bytes_2: "le_word (le_bytes 2 (w :: u32)) = (ucast w :: u16)"
  by (rule bit_word_eqI) (auto simp: bit_le_word nth_le_bytes bit_simps)

lemma le_word_bytes_1: "le_word (le_bytes 1 (w :: u32)) = (ucast w :: u8)"
  by (rule bit_word_eqI) (auto simp: bit_le_word nth_le_bytes bit_simps)

lemma read_back:
  assumes "writable m a"
  shows "Memory_write32 m a w = Inr (m', e) \<Longrightarrow> Memory_read32 m' a = Inr (w, NoEffect) \<and> e = NoEffect"
    and "Memory_write16 m a w = Inr m' \<Longrightarrow>
      Memory_read16u m' a = Inr (take_bit 16 w) \<and> Memory_read16 m' a = Inr (signed_take_bit 15 w)"
    and "Memory_write8 m a w = Inr m' \<Longrightarrow>
      Memory_read8u m' a = Inr (take_bit 8 w) \<and> Memory_read8 m' a = Inr (signed_take_bit 7 w)"
    and "Memory_write64 m a v = Inr m' \<Longrightarrow> Memory_read64 m' a = Inr v"
proof -
  have r: "readable m' a" if "mem_store m a bs = Inr m'" for bs
    using that assms store_readable writable_readable by fastforce
  have l: "mem_load m' a (length bs) = Inr bs" if "mem_store m a bs = Inr m'" for bs
    using that by (rule mem.via.load_same)
  show "Memory_write32 m a w = Inr (m', e) \<Longrightarrow> Memory_read32 m' a = Inr (w, NoEffect) \<and> e = NoEffect"
    using r [of "le_bytes 4 w"] l [of "le_bytes 4 w"]
    by (auto simp: write_stores [OF assms] read_loads faultfacts le_word_bytes)
  show "Memory_write64 m a v = Inr m' \<Longrightarrow> Memory_read64 m' a = Inr v"
    using r [of "le_bytes 8 v"] l [of "le_bytes 8 v"]
    by (auto simp: write_stores [OF assms] read_loads le_word_bytes)
  have s16: "(scast (ucast w :: u16) :: u32) = signed_take_bit 15 w"
    by (rule bit_word_eqI) (auto simp: bit_simps)
  have s8: "(scast (ucast w :: u8) :: u32) = signed_take_bit 7 w"
    by (rule bit_word_eqI) (auto simp: bit_simps)
  have u16: "(ucast (ucast w :: u16) :: u32) = take_bit 16 w"
    by (rule bit_word_eqI) (auto simp: bit_simps)
  have u8: "(ucast (ucast w :: u8) :: u32) = take_bit 8 w"
    by (rule bit_word_eqI) (auto simp: bit_simps)
  show "Memory_write16 m a w = Inr m' \<Longrightarrow>
      Memory_read16u m' a = Inr (take_bit 16 w) \<and> Memory_read16 m' a = Inr (signed_take_bit 15 w)"
    using r [of "le_bytes 2 w"] l [of "le_bytes 2 w"]
    by (auto simp: write_stores [OF assms] read_loads le_word_bytes_2 s16 u16)
  show "Memory_write8 m a w = Inr m' \<Longrightarrow>
      Memory_read8u m' a = Inr (take_bit 8 w) \<and> Memory_read8 m' a = Inr (signed_take_bit 7 w)"
    using r [of "le_bytes 1 w"] l [of "le_bytes 1 w"]
    by (auto simp: write_stores [OF assms] read_loads le_word_bytes_1 [unfolded One_nat_def] s8 u8)
qed

section \<open>What a write leaves alone\<close>

text \<open>The layout: everything but the bytes.\<close>

definition layout :: "memory \<Rightarrow> (u32 \<times> u32 \<times> nat) \<times> (u32 \<times> u32 \<times> nat) \<times> bool \<times> u32 \<times> u32" where
  "layout m =
    ((memBase (insnMem m), memLen (insnMem m), length (data (insnMem m))),
     (memBase (dataMem m), memLen (dataMem m), length (data (dataMem m))),
     do_core m, hostAddr m, hostSize m)"

definition memory_ok :: "memory \<Rightarrow> bool" where
  "memory_ok m \<longleftrightarrow> unat (memLen (insnMem m)) \<le> length (data (insnMem m)) \<and>
    unat (memLen (dataMem m)) \<le> length (data (dataMem m))"

lemma layout_ok: "layout m' = layout m \<Longrightarrow> memory_ok m' = memory_ok m"
  by (simp add: layout_def memory_ok_def)

lemma ptr_store_layout: "ptr_store m p bs = Inr m' \<Longrightarrow> layout m' = layout m"
  by (auto simp: ptr_store_def Let_def layout_def region_seg_def region_upd_def
      split: if_splits region.splits)

lemmas write_defs = Memory_write64_def Memory_write32_def Memory_write16_def Memory_write8_def
  on_data_def on_text_def Segment_write64_def Segment_write32_def Segment_write16_def
  Segment_write8_def seg_store_def

lemma write_layout:
  "Memory_write64 m a v = Inr m' \<Longrightarrow> layout m' = layout m"
  "Memory_write32 m a w = Inr (m', e) \<Longrightarrow> layout m' = layout m"
  "Memory_write16 m a w = Inr m' \<Longrightarrow> layout m' = layout m"
  "Memory_write8 m a w = Inr m' \<Longrightarrow> layout m' = layout m"
  by (auto simp: write_defs layout_def faultfacts split: if_splits)

lemma write_text:
  assumes "\<not> do_core m"
  shows "Memory_write64 m a v = Inr m' \<Longrightarrow> insnMem m' = insnMem m"
    and "Memory_write32 m a w = Inr (m', e) \<Longrightarrow> insnMem m' = insnMem m"
    and "Memory_write16 m a w = Inr m' \<Longrightarrow> insnMem m' = insnMem m"
    and "Memory_write8 m a w = Inr m' \<Longrightarrow> insnMem m' = insnMem m"
  using assms by (auto simp: write_defs faultfacts split: if_splits)

text \<open>Inside \<open>memLen\<close> the unchecked accessors stay inside the allocation.\<close>

definition fits :: "memory \<Rightarrow> u32 \<Rightarrow> nat \<Rightarrow> bool" where
  "fits m a n \<longleftrightarrow>
    (if isdata m a then seg_off (dataMem m) a + n \<le> unat (memLen (dataMem m))
     else istext m a \<and> seg_off (insnMem m) a + n \<le> unat (memLen (insnMem m)))"

lemma mem_load_fits: "memory_ok m \<Longrightarrow> fits m a n \<Longrightarrow> \<exists>bs. mem_load m a n = Inr bs"
  by (auto simp: memory_ok_def fits_def access_defs split: if_splits)

lemma mem_store_fits:
  "memory_ok m \<Longrightarrow> writable m a \<Longrightarrow> fits m a (length bs) \<Longrightarrow> \<exists>m'. mem_store m a bs = Inr m'"
  by (auto simp: memory_ok_def fits_def writable_def access_defs split: if_splits)

section \<open>The size of a reallocated segment\<close>

lemma p2len_loop_spec:
  assumes "i \<le> 31"
  shows "\<exists>j \<ge> i. j \<le> 31 \<and> p2len_loop i len = push_bit j 1 \<and> (len \<le> push_bit j 1 \<or> j = 31) \<and>
    (\<forall>k. i \<le> k \<longrightarrow> k < j \<longrightarrow> push_bit k 1 < len)"
  using assms
proof (induction i len rule: p2len_loop.induct)
  case (1 i len)
  show ?case
  proof (cases "push_bit i 1 \<ge> len \<or> i \<ge> 31")
    case True
    then show ?thesis using 1(2)
      by (subst p2len_loop.simps) (auto intro!: exI [of _ i])
  next
    case False
    with 1(1) obtain j where j: "j \<ge> Suc i" "j \<le> 31" "p2len_loop (Suc i) len = push_bit j 1"
      "len \<le> push_bit j 1 \<or> j = 31" "\<forall>k. Suc i \<le> k \<longrightarrow> k < j \<longrightarrow> push_bit k 1 < len"
      by auto
    have "push_bit k 1 < len" if "i \<le> k" "k < j" for k
      using that j(5) False by (cases "k = i") auto
    with j False show ?thesis
      by (subst p2len_loop.simps) (auto intro!: exI [of _ j] simp: Let_def)
  qed
qed

end
