(* ===== verification/Cpu_Facts.thy ===== *)
theory Cpu_Facts
  imports Run Memory_Facts
begin

text \<open>
  Laws of the processor's own operations. The register file and the control registers are
  two providers of one interface, \<open>cells\<close>: what is written is read back, other cells keep
  their value. The traps and interrupts are brought to one normal form each, from which the
  properties about nesting, priority and return follow.
\<close>

unbundle bit_operations_syntax

section \<open>Cells that can be written and read\<close>

locale cells =
  fixes peek :: "'s \<Rightarrow> 'k \<Rightarrow> 'v"
    and poke :: "'k \<Rightarrow> 'v \<Rightarrow> 's \<Rightarrow> 's"
    and cell :: "'k \<Rightarrow> bool"
    and good :: "'s \<Rightarrow> bool"
  assumes peek_poke: "good s \<Longrightarrow> cell k \<Longrightarrow> peek (poke k v s) k = v"
    and peek_other: "good s \<Longrightarrow> cell k \<Longrightarrow> cell j \<Longrightarrow> j \<noteq> k \<Longrightarrow> peek (poke k v s) j = peek s j"
    and good_poke: "good s \<Longrightarrow> good (poke k v s)"
begin

lemma exchange:
  assumes "good s" "cell k" "cell j" "j \<noteq> k"
  shows "peek (poke j (peek s k) (poke k (f (peek s k)) s)) k = f (peek s k)"
    and "peek (poke j (peek s k) (poke k (f (peek s k)) s)) j = peek s k"
  using assms by (simp_all add: peek_poke peek_other good_poke)

lemma last_write:
  assumes "good s" "cell k" "cell j"
  shows "peek (poke k v (poke k w s)) j = peek (poke k v s) j"
  using assms by (cases "j = k") (simp_all add: peek_poke peek_other good_poke)

end

definition reg_val :: "cpu \<Rightarrow> u8 \<Rightarrow> u32" where
  "reg_val c i = reg c ! unat i"

definition reg_set :: "u8 \<Rightarrow> u32 \<Rightarrow> cpu \<Rightarrow> cpu" where
  "reg_set i v c = c\<lparr>reg := (reg c)[unat i := v]\<rparr>"

definition regs32 :: "cpu \<Rightarrow> bool" where
  "regs32 c \<longleftrightarrow> length (reg c) = 32"

lemma unat_less_32: "(i :: u8) < 32 \<longleftrightarrow> unat i < 32"
  by (simp add: word_less_nat_alt)

lemma reg_access [simp]:
  "regs32 c \<Longrightarrow> i < 32 \<Longrightarrow> reg_get c i = Inr (reg_val c i)"
  "regs32 c \<Longrightarrow> i < 32 \<Longrightarrow> reg_put i v c = Inr (reg_set i v c)"
  by (simp_all add: regs32_def unat_less_32 reg_get_def reg_put_def reg_val_def reg_set_def)

lemma regs32_set [simp]: "regs32 (reg_set i v c) = regs32 c"
  by (simp add: regs32_def reg_set_def)

interpretation regfile: cells reg_val reg_set "\<lambda>i. i < 32" regs32
  by unfold_locales
    (auto simp: reg_val_def reg_set_def regs32_def unat_less_32 nth_list_update dest: word_unat_eq_iff [THEN iffD2])

text \<open>The control registers a program can write and read back, all 32 bits of them.\<close>

definition csr_cell :: "u32 \<Rightarrow> bool" where
  "csr_cell csr \<longleftrightarrow> csr = 0x300 \<or> csr = 0x304 \<or> csr = 0x305 \<or> csr = 0x340 \<or> csr = 0x341 \<or> csr = 0x344"

definition csr_val :: "cpu \<Rightarrow> u32 \<Rightarrow> u32" where
  "csr_val c csr =
    (if csr = 0x300 then mstatus c else if csr = 0x304 then mie c else if csr = 0x305 then mtvec c
     else if csr = 0x340 then mscratch c else if csr = 0x341 then mepc c else mip c)"

lemma csr_value_cell: "csr_cell csr \<Longrightarrow> csr_value os csr c h = (csr_val c csr, h)"
  by (auto simp: csr_cell_def csr_value_def csr_val_def)

interpretation csrfile: cells csr_val csr_update csr_cell "\<lambda>_. True"
  by unfold_locales (auto simp: csr_cell_def csr_val_def csr_update_def)

lemma csr_update_reg [simp]: "reg (csr_update csr v c) = reg c" "pc_next (csr_update csr v c) = pc_next c"
  "pc (csr_update csr v c) = pc c"
  by (simp_all add: csr_update_def)

lemma regs32_csr [simp]: "regs32 (csr_update csr v c) = regs32 c"
  by (simp add: regs32_def)

lemma reg_val_csr [simp]: "reg_val (csr_update csr v c) i = reg_val c i"
  by (simp add: reg_val_def)

lemma csr_val_reg [simp]: "csr_val (reg_set i v c) csr = csr_val c csr"
  by (simp add: csr_val_def reg_set_def)

section \<open>Traps\<close>

text \<open>The machine's interrupt stack: the enable bit goes to MPIE and comes back.\<close>

definition set_mie :: "bool \<Rightarrow> u32 \<Rightarrow> u32" where
  "set_mie b m = (if b then set_bit 3 m else unset_bit 3 m)"

definition set_mpie :: "bool \<Rightarrow> u32 \<Rightarrow> u32" where
  "set_mpie b m = (if b then set_bit 7 m else unset_bit 7 m)"

lemma status_bits:
  "m AND 0x8 = 0 \<longleftrightarrow> \<not> bit (m :: u32) 3"
  "m AND 0x80 = 0 \<longleftrightarrow> \<not> bit (m :: u32) 7"
  "m AND 0x800 = 0 \<longleftrightarrow> \<not> bit (m :: u32) 11"
  using and_exp_eq_0_iff_not_bit [of m 3] and_exp_eq_0_iff_not_bit [of m 7] and_exp_eq_0_iff_not_bit [of m 11]
  by simp_all

lemma status_updates:
  "m OR 0x80 = set_mpie True m" "m AND NOT 0x80 = set_mpie False m"
  "m OR 0x8 = set_mie True m" "m AND NOT 0x8 = set_mie False (m :: u32)"
  "m AND - 129 = set_mpie False m" "m AND - 9 = set_mie False m"
  by (simp_all add: set_mpie_def set_mie_def set_bit_eq_or unset_bit_eq_and_not)

lemma bit_status:
  "bit (set_mie b m) n \<longleftrightarrow> (if n = 3 then b else bit m n)"
  "bit (set_mpie b m) n \<longleftrightarrow> (if n = 7 then b else bit m n)"
  by (auto simp: set_mie_def set_mpie_def bit_simps)

lemma ecall_form:
  "ecall c = c\<lparr>mepc := pc c, mcause := 8, pc_next := mtvec c, mstatus := set_mpie (bit (mstatus c) 3) (mstatus c)\<rparr>"
  "ebreak c = c\<lparr>mepc := pc c, mcause := 3, pc_next := mtvec c, mstatus := set_mpie (bit (mstatus c) 3) (mstatus c)\<rparr>"
  by (simp_all add: ecall_def ebreak_def Let_def status_bits status_updates)

lemma mret_form:
  "mret c = c\<lparr>pc_next := mepc c, mstatus := set_mpie False (set_mie (bit (mstatus c) 7) (mstatus c))\<rparr>"
  by (simp add: mret_def Let_def status_bits status_updates)

definition take_irq :: "u32 \<Rightarrow> cpu \<Rightarrow> cpu" where
  "take_irq cause c =
    c\<lparr>mstatus := set_mie False (set_mpie True (mstatus c)), mepc := pc c,
      mcause := 0x80000000 OR cause, pc_next := mtvec c\<rparr>"

definition external_pending :: "cpu \<Rightarrow> bool" where
  "external_pending c \<longleftrightarrow> bit (mip c) 11 \<and> bit (mie c) 11"

definition timer_pending :: "cpu \<Rightarrow> bool" where
  "timer_pending c \<longleftrightarrow> bit (mip c) 7 \<and> bit (mie c) 7"

lemma irq_form:
  "do_external_irq c = (if bit (mstatus c) 3 \<and> external_pending c then (True, take_irq 11 c) else (False, c))"
  "do_time_irq c = (if bit (mstatus c) 3 \<and> timer_pending c then (True, take_irq 7 c) else (False, c))"
proof -
  have t: "mip c AND mie c AND 0x80 = 0 \<longleftrightarrow> \<not> timer_pending c"
    using and_exp_eq_0_iff_not_bit [of "mip c AND mie c" 7]
    by (simp add: timer_pending_def bit_simps ac_simps)
  show "do_external_irq c = (if bit (mstatus c) 3 \<and> external_pending c then (True, take_irq 11 c) else (False, c))"
    by (auto simp: do_external_irq_def external_pending_def take_irq_def Let_def status_bits status_updates)
  show "do_time_irq c = (if bit (mstatus c) 3 \<and> timer_pending c then (True, take_irq 7 c) else (False, c))"
    by (auto simp: do_time_irq_def t take_irq_def Let_def status_bits status_updates)
qed

text \<open>At most one interrupt is taken in a turn, the external one first.\<close>

definition raise_mtip :: "cpu \<Rightarrow> cpu" where
  "raise_mtip c = (if cycle c AND 0xfffff = 0xfffff then c\<lparr>mip := mip c OR 0x80\<rparr> else c)"

lemma take_irq_simps [simp]:
  "bit (mstatus (take_irq n c)) 3 = False" "cycle (take_irq n c) = cycle c"
  "mip (take_irq n c) = mip c" "mie (take_irq n c) = mie c" "reg (take_irq n c) = reg c"
  by (simp_all add: take_irq_def bit_status)

lemma check_irqs_form:
  "check_irqs v c =
    (if cycle c AND 0xf \<noteq> 0xf then (v, c)
     else if bit (mstatus c) 3 \<and> external_pending c then (vliw_nop, raise_mtip (take_irq 11 c))
     else if bit (mstatus c) 3 \<and> timer_pending c then (vliw_nop, raise_mtip (take_irq 7 c))
     else (v, raise_mtip c))"
  by (auto simp: check_irqs_def irq_form raise_mtip_def Let_def)

lemma check_irqs_reg [simp]: "reg (snd (check_irqs v c)) = reg c"
  by (simp add: check_irqs_form raise_mtip_def)

lemma status_roundtrip:
  "bit m 3 \<Longrightarrow> set_mpie False (set_mie True (set_mie False (set_mpie True m))) = set_mpie False m"
  "set_mpie False (set_mie (bit m 3) (set_mpie (bit m 3) m)) = set_mpie False m"
  by (rule bit_word_eqI, auto simp: bit_status)+

end
