(* ===== verification/Isa_Decode.thy ===== *)
theory Isa_Decode
  imports Isa
begin

text \<open>
  The decoder against the reference of theory \<open>Isa\<close>. \<open>sym_find\<close> runs the table
  search on a word of which only the bits under a mask are known: a row is passed over when
  the known bits refute it (or it is listed in \<open>ns\<close>), taken when they decide it. One
  evaluation per encoding then covers every word with these fields.
\<close>

section \<open>The table search on a partly known word\<close>

fun sym_find :: "(u32 \<times> u32) list \<Rightarrow> u32 \<Rightarrow> u32 \<Rightarrow> optable list \<Rightarrow> optable option" where
  "sym_find ns m c [] = None"
| "sym_find ns m c (otp # ots) =
    (if c AND op_mask otp \<noteq> op_code otp AND m \<or> (op_mask otp, op_code otp) \<in> set ns
     then sym_find ns m c ots
     else if op_mask otp AND m = op_mask otp \<and> c AND op_mask otp = op_code otp then Some otp
     else None)"

lemma sym_find_sound:
  assumes "code AND m = c" and "\<forall>(m', c') \<in> set ns. code AND m' \<noteq> c'"
    and "sym_find ns m c ots = Some otp"
  shows "op_find code ots = Some otp"
  using assms(3)
proof (induction ots)
  case Nil
  then show ?case by simp
next
  case (Cons o' ots)
  show ?case
  proof (cases "c AND op_mask o' \<noteq> op_code o' AND m \<or> (op_mask o', op_code o') \<in> set ns")
    case True
    then have "code AND op_mask o' \<noteq> op_code o'"
      using masked_conflict [OF assms(1)] assms(2) by blast
    then show ?thesis using Cons True by simp
  next
    case False
    then show ?thesis
      using Cons.prems masked_weaken [OF assms(1), of "op_mask o'"] by (simp split: if_splits)
  qed
qed

definition sym_decode :: "(u32 \<times> u32) list \<Rightarrow> u32 \<Rightarrow> u32 \<Rightarrow> (u8 \<times> string list) option" where
  "sym_decode ns m c = map_option (\<lambda>otp. (op_vliw otp, tl (split_items (asmText otp)))) (sym_find ns m c optable)"

lemma decode_slow_sym:
  assumes "code AND m = c" and "\<forall>(m', c') \<in> set ns. code AND m' \<noteq> c'"
  shows "decode_slow code =
    (case sym_decode ns m c of
       Some (v, items) \<Rightarrow>
         chain (decode_items code items (Vliw_init\<lparr>opcode := v\<rparr>)) (\<lambda>v. Inr (True, v))
     | None \<Rightarrow> decode_slow code)"
  using sym_find_sound [OF assms]
  by (auto simp: sym_decode_def decode_slow_def decode_row_def split: option.split)

lemma sym_find_lazy: "ns = ns' \<Longrightarrow> m = m' \<Longrightarrow> c = c' \<Longrightarrow> sym_find ns m c ots = sym_find ns' m' c' ots"
  by simp

lemma sym_find_append [simp]:
  "sym_find ns m c ([] @ ys) = sym_find ns m c ys"
  "sym_find ns m c ((otp # ots) @ ys) = sym_find ns m c (otp # (ots @ ys))"
  by simp_all

lemma sym_find_optable:
  "sym_find ns m c optable = sym_find ns m c
    (optable_i @ optable_m @ optable_a @ optable_f @ optable_d @ optable_q @ optable_c)"
  by (simp add: optable_def)

lemmas sym_find_i = arg_cong [OF optable_i_def, of "\<lambda>t. sym_find ns m c (t @ ys)" for ns m c ys]
lemmas sym_find_m = arg_cong [OF optable_m_def, of "\<lambda>t. sym_find ns m c (t @ ys)" for ns m c ys]

lemmas sym_eval = sym_decode_def sym_find_optable sym_find_i sym_find_m
  split_items.simps item_sep_def isspace_def

section \<open>What the search finds for each encoding\<close>

lemma sym_LUI: "sym_decode [] 0x0000007f 0x00000037 =
    Some (VLIW_LUI, [''rd'', ''imm20''])"
  by (simp add: sym_eval cong: sym_find_lazy)

lemma sym_AUIPC: "sym_decode [] 0x0000007f 0x00000017 =
    Some (VLIW_AUIPC, [''rd'', ''imm20''])"
  by (simp add: sym_eval cong: sym_find_lazy)

lemma sym_J: "sym_decode [] 0x00000fff 0x0000006f =
    Some (VLIW_J, [''joff''])"
  by (simp add: sym_eval cong: sym_find_lazy)

lemma sym_JAL: "sym_decode [(0x00000fff, 0x0000006f)] 0x0000007f 0x0000006f =
    Some (VLIW_JAL, [''rd'', ''joff''])"
  by (simp add: sym_eval cong: sym_find_lazy)

lemma sym_JR: "sym_decode [] 0xfff07fff 0x00000067 =
    Some (VLIW_JR, [''rs1''])"
  by (simp add: sym_eval cong: sym_find_lazy)

lemma sym_JALR: "sym_decode [(0xfff07fff, 0x00000067)] 0x0000707f 0x00000067 =
    Some (VLIW_JALR, [''rd'', ''rs1'', ''simm12''])"
  by (simp add: sym_eval cong: sym_find_lazy)

lemma sym_BEQ: "sym_decode [] 0x0000707f 0x00000063 =
    Some (VLIW_BEQ, [''rs1'', ''rs2'', ''boff''])"
  by (simp add: sym_eval cong: sym_find_lazy)

lemma sym_BNE: "sym_decode [] 0x0000707f 0x00001063 =
    Some (VLIW_BNE, [''rs1'', ''rs2'', ''boff''])"
  by (simp add: sym_eval cong: sym_find_lazy)

lemma sym_BLT: "sym_decode [] 0x0000707f 0x00004063 =
    Some (VLIW_BLT, [''rs1'', ''rs2'', ''boff''])"
  by (simp add: sym_eval cong: sym_find_lazy)

lemma sym_BGE: "sym_decode [] 0x0000707f 0x00005063 =
    Some (VLIW_BGE, [''rs1'', ''rs2'', ''boff''])"
  by (simp add: sym_eval cong: sym_find_lazy)

lemma sym_BLTU: "sym_decode [] 0x0000707f 0x00006063 =
    Some (VLIW_BLTU, [''rs1'', ''rs2'', ''boff''])"
  by (simp add: sym_eval cong: sym_find_lazy)

lemma sym_BGEU: "sym_decode [] 0x0000707f 0x00007063 =
    Some (VLIW_BGEU, [''rs1'', ''rs2'', ''boff''])"
  by (simp add: sym_eval cong: sym_find_lazy)

lemma sym_LB: "sym_decode [] 0x0000707f 0x00000003 =
    Some (VLIW_LB, [''rd'', ''rs'', ''simm12''])"
  by (simp add: sym_eval cong: sym_find_lazy)

lemma sym_LH: "sym_decode [] 0x0000707f 0x00001003 =
    Some (VLIW_LH, [''rd'', ''rs'', ''simm12''])"
  by (simp add: sym_eval cong: sym_find_lazy)

lemma sym_LW: "sym_decode [] 0x0000707f 0x00002003 =
    Some (VLIW_LW, [''rd'', ''rs'', ''simm12''])"
  by (simp add: sym_eval cong: sym_find_lazy)

lemma sym_LBU: "sym_decode [] 0x0000707f 0x00004003 =
    Some (VLIW_LBU, [''rd'', ''rs'', ''simm12''])"
  by (simp add: sym_eval cong: sym_find_lazy)

lemma sym_LHU: "sym_decode [] 0x0000707f 0x00005003 =
    Some (VLIW_LHU, [''rd'', ''rs'', ''simm12''])"
  by (simp add: sym_eval cong: sym_find_lazy)

lemma sym_SB: "sym_decode [] 0x0000707f 0x00000023 =
    Some (VLIW_SB, [''rs2'', ''rs1'', ''s2imm12''])"
  by (simp add: sym_eval cong: sym_find_lazy)

lemma sym_SH: "sym_decode [] 0x0000707f 0x00001023 =
    Some (VLIW_SH, [''rs2'', ''rs1'', ''s2imm12''])"
  by (simp add: sym_eval cong: sym_find_lazy)

lemma sym_SW: "sym_decode [] 0x0000707f 0x00002023 =
    Some (VLIW_SW, [''rs2'', ''rs1'', ''s2imm12''])"
  by (simp add: sym_eval cong: sym_find_lazy)

lemma sym_NOP: "sym_decode [] 0xffffffff 0x00000013 =
    Some (VLIW_NOP, [])"
  by (simp add: sym_eval cong: sym_find_lazy)

lemma sym_ADDI: "sym_decode [(0xffffffff, 0x00000013)] 0x0000707f 0x00000013 =
    Some (VLIW_ADDI, [''rd'', ''rs'', ''simm12''])"
  by (simp add: sym_eval cong: sym_find_lazy)

lemma sym_SLTI: "sym_decode [] 0x0000707f 0x00002013 =
    Some (VLIW_SLTI, [''rd'', ''rs'', ''simm12''])"
  by (simp add: sym_eval cong: sym_find_lazy)

lemma sym_SLTIU: "sym_decode [] 0x0000707f 0x00003013 =
    Some (VLIW_SLTIU, [''rd'', ''rs'', ''simm12''])"
  by (simp add: sym_eval cong: sym_find_lazy)

lemma sym_XORI: "sym_decode [] 0x0000707f 0x00004013 =
    Some (VLIW_XORI, [''rd'', ''rs'', ''simm12''])"
  by (simp add: sym_eval cong: sym_find_lazy)

lemma sym_ORI: "sym_decode [] 0x0000707f 0x00006013 =
    Some (VLIW_ORI, [''rd'', ''rs'', ''simm12''])"
  by (simp add: sym_eval cong: sym_find_lazy)

lemma sym_ANDI: "sym_decode [] 0x0000707f 0x00007013 =
    Some (VLIW_ANDI, [''rd'', ''rs'', ''simm12''])"
  by (simp add: sym_eval cong: sym_find_lazy)

lemma sym_SLLI: "sym_decode [] 0xfe00707f 0x00001013 =
    Some (VLIW_SLLI, [''rd'', ''rs1'', ''shamt''])"
  by (simp add: sym_eval cong: sym_find_lazy)

lemma sym_SRLI: "sym_decode [] 0xfe00707f 0x00005013 =
    Some (VLIW_SRLI, [''rd'', ''rs1'', ''shamt''])"
  by (simp add: sym_eval cong: sym_find_lazy)

lemma sym_SRAI: "sym_decode [] 0xfe00707f 0x40005013 =
    Some (VLIW_SRAI, [''rd'', ''rs1'', ''shamt''])"
  by (simp add: sym_eval cong: sym_find_lazy)

lemma sym_ADD: "sym_decode [] 0xfe00707f 0x00000033 =
    Some (VLIW_ADD, [''rd'', ''rs1'', ''rs2''])"
  by (simp add: sym_eval cong: sym_find_lazy)

lemma sym_SUB: "sym_decode [] 0xfe00707f 0x40000033 =
    Some (VLIW_SUB, [''rd'', ''rs1'', ''rs2''])"
  by (simp add: sym_eval cong: sym_find_lazy)

lemma sym_SLL: "sym_decode [] 0xfe00707f 0x00001033 =
    Some (VLIW_SLL, [''rd'', ''rs1'', ''rs2''])"
  by (simp add: sym_eval cong: sym_find_lazy)

lemma sym_SLT: "sym_decode [] 0xfe00707f 0x00002033 =
    Some (VLIW_SLT, [''rd'', ''rs1'', ''rs2''])"
  by (simp add: sym_eval cong: sym_find_lazy)

lemma sym_SLTU: "sym_decode [] 0xfe00707f 0x00003033 =
    Some (VLIW_SLTU, [''rd'', ''rs1'', ''rs2''])"
  by (simp add: sym_eval cong: sym_find_lazy)

lemma sym_XOR: "sym_decode [] 0xfe00707f 0x00004033 =
    Some (VLIW_XOR, [''rd'', ''rs1'', ''rs2''])"
  by (simp add: sym_eval cong: sym_find_lazy)

lemma sym_SRL: "sym_decode [] 0xfe00707f 0x00005033 =
    Some (VLIW_SRL, [''rd'', ''rs1'', ''rs2''])"
  by (simp add: sym_eval cong: sym_find_lazy)

lemma sym_SRA: "sym_decode [] 0xfe00707f 0x40005033 =
    Some (VLIW_SRA, [''rd'', ''rs1'', ''rs2''])"
  by (simp add: sym_eval cong: sym_find_lazy)

lemma sym_OR: "sym_decode [] 0xfe00707f 0x00006033 =
    Some (VLIW_OR, [''rd'', ''rs1'', ''rs2''])"
  by (simp add: sym_eval cong: sym_find_lazy)

lemma sym_AND: "sym_decode [] 0xfe00707f 0x00007033 =
    Some (VLIW_AND, [''rd'', ''rs1'', ''rs2''])"
  by (simp add: sym_eval cong: sym_find_lazy)

lemma sym_FENCE: "sym_decode [] 0x0000707f 0x0000000f =
    Some (VLIW_FENCE, [])"
  by (simp add: sym_eval cong: sym_find_lazy)

lemma sym_ECALL: "sym_decode [] 0xffffffff 0x00000073 =
    Some (VLIW_ECALL, [])"
  by (simp add: sym_eval cong: sym_find_lazy)

lemma sym_EBREAK: "sym_decode [] 0xffffffff 0x00100073 =
    Some (VLIW_EBREAK, [])"
  by (simp add: sym_eval cong: sym_find_lazy)

lemma sym_SRET: "sym_decode [] 0xffffffff 0x10200073 =
    Some (VLIW_SRET, [])"
  by (simp add: sym_eval cong: sym_find_lazy)

lemma sym_MRET: "sym_decode [] 0xffffffff 0x30200073 =
    Some (VLIW_MRET, [])"
  by (simp add: sym_eval cong: sym_find_lazy)

lemma sym_WFI: "sym_decode [] 0xffffffff 0x10500073 =
    Some (VLIW_WFI, [])"
  by (simp add: sym_eval cong: sym_find_lazy)

lemma sym_FENCE_I: "sym_decode [] 0x0000707f 0x0000100f =
    Some (VLIW_FENCE_I, [''imm21''])"
  by (simp add: sym_eval cong: sym_find_lazy)

lemma sym_CSRRW: "sym_decode [] 0x0000707f 0x00001073 =
    Some (VLIW_CSRRW, [''csr'', ''rd'', ''rs''])"
  by (simp add: sym_eval cong: sym_find_lazy)

lemma sym_CSRRS: "sym_decode [] 0x0000707f 0x00002073 =
    Some (VLIW_CSRRS, [''csr'', ''rd'', ''rs''])"
  by (simp add: sym_eval cong: sym_find_lazy)

lemma sym_CSRRC: "sym_decode [] 0x0000707f 0x00003073 =
    Some (VLIW_CSRRC, [''csr'', ''rd'', ''rs''])"
  by (simp add: sym_eval cong: sym_find_lazy)

lemma sym_CSRRWI: "sym_decode [] 0x0000707f 0x00005073 =
    Some (VLIW_CSRRWI, [''csr'', ''rd'', ''uimm5''])"
  by (simp add: sym_eval cong: sym_find_lazy)

lemma sym_CSRRSI: "sym_decode [] 0x0000707f 0x00006073 =
    Some (VLIW_CSRRSI, [''csr'', ''rd'', ''uimm5''])"
  by (simp add: sym_eval cong: sym_find_lazy)

lemma sym_CSRRCI: "sym_decode [] 0x0000707f 0x00007073 =
    Some (VLIW_CSRRCI, [''csr'', ''rd'', ''uimm5''])"
  by (simp add: sym_eval cong: sym_find_lazy)

lemma sym_MUL: "sym_decode [] 0xfe00707f 0x02000033 =
    Some (VLIW_MUL, [''rd'', ''rs1'', ''rs2''])"
  by (simp add: sym_eval cong: sym_find_lazy)

lemma sym_MULH: "sym_decode [] 0xfe00707f 0x02001033 =
    Some (VLIW_MULH, [''rd'', ''rs1'', ''rs2''])"
  by (simp add: sym_eval cong: sym_find_lazy)

lemma sym_MULHSU: "sym_decode [] 0xfe00707f 0x02002033 =
    Some (VLIW_MULHSU, [''rd'', ''rs1'', ''rs2''])"
  by (simp add: sym_eval cong: sym_find_lazy)

lemma sym_MULHU: "sym_decode [] 0xfe00707f 0x02003033 =
    Some (VLIW_MULHU, [''rd'', ''rs1'', ''rs2''])"
  by (simp add: sym_eval cong: sym_find_lazy)

lemma sym_DIV: "sym_decode [] 0xfe00707f 0x02004033 =
    Some (VLIW_DIV, [''rd'', ''rs1'', ''rs2''])"
  by (simp add: sym_eval cong: sym_find_lazy)

lemma sym_DIVU: "sym_decode [] 0xfe00707f 0x02005033 =
    Some (VLIW_DIVU, [''rd'', ''rs1'', ''rs2''])"
  by (simp add: sym_eval cong: sym_find_lazy)

lemma sym_REM: "sym_decode [] 0xfe00707f 0x02006033 =
    Some (VLIW_REM, [''rd'', ''rs1'', ''rs2''])"
  by (simp add: sym_eval cong: sym_find_lazy)

lemma sym_REMU: "sym_decode [] 0xfe00707f 0x02007033 =
    Some (VLIW_REMU, [''rd'', ''rs1'', ''rs2''])"
  by (simp add: sym_eval cong: sym_find_lazy)

section \<open>Operands\<close>

lemma decode_item_simps [simp]:
  "decode_item code ''rd'' v = Inr (v\<lparr>rd := rfield 7 code\<rparr>)"
  "decode_item code ''rs'' v = Inr (v\<lparr>rs1 := rfield 15 code\<rparr>)"
  "decode_item code ''rs1'' v = Inr (v\<lparr>rs1 := rfield 15 code\<rparr>)"
  "decode_item code ''rs2'' v = Inr (v\<lparr>rs2 := rfield 20 code\<rparr>)"
  "decode_item code ''shamt'' v = Inr (v\<lparr>imm := drop_bit 20 code AND 0x1f\<rparr>)"
  "decode_item code ''boff'' v = Inr (v\<lparr>imm := doBoff code\<rparr>)"
  "decode_item code ''joff'' v = Inr (v\<lparr>imm := joff_imm code\<rparr>)"
  "decode_item code ''simm12'' v = Inr (v\<lparr>imm := mk_simm12 code\<rparr>)"
  "decode_item code ''s2imm12'' v = Inr (v\<lparr>imm := doS2imm12 code\<rparr>)"
  "decode_item code ''imm20'' v = Inr (v\<lparr>imm := imm20_imm code\<rparr>)"
  "decode_item code ''uimm5'' v = Inr (v\<lparr>rs1 := rfield 15 code\<rparr>)"
  "decode_item code ''csr'' v = Inr (v\<lparr>imm := drop_bit 20 code AND 0x00000fff\<rparr>)"
  "decode_item code ''imm21'' v = Inl (FatalUnknownItem ''imm21'')"
  by (simp_all add: decode_item_def)

lemma mk_simm12_imm_I: "mk_simm12 code = imm_I code"
  unfolding u32_eq_iff
  by (simp add: mk_simm12_def imm_I_def Let_def bit_simps wordfacts del: push_bit_Suc)

lemma doS2imm12_imm_S: "doS2imm12 code = imm_S code"
  unfolding u32_eq_iff
  by (simp add: doS2imm12_def imm_S_def Let_def bit_simps wordfacts del: push_bit_Suc)

lemma doBoff_imm_B: "doBoff code = imm_B code"
  unfolding u32_eq_iff
  by (simp add: doBoff_def imm_B_def Let_def bit_simps wordfacts del: push_bit_Suc)

lemma joff_imm_J: "joff_imm code = imm_J code"
  unfolding u32_eq_iff
  by (simp add: joff_imm_def doJoff_def imm_J_def Let_def bit_simps wordfacts del: push_bit_Suc)

lemma imm20_imm_U: "imm20_imm code = signed_drop_bit 12 (imm_U code)"
  unfolding u32_eq_iff
  by (simp add: imm20_imm_def imm_U_def Let_def bit_simps wordfacts del: push_bit_Suc)

lemmas imm_eqs = mk_simm12_imm_I doS2imm12_imm_S doBoff_imm_B joff_imm_J imm20_imm_U

lemma bits_and:
  "drop_bit 20 code AND 0x1f = bits 20 5 (code :: u32)"
  "drop_bit 20 code AND 0xfff = bits 20 12 (code :: u32)"
  by (simp_all add: bits_def mask_eq_exp_minus_1)

lemma rfield_bits: "rfield lo code = ucast (bits lo 5 code)"
  by (simp add: rfield_def bits_def mask_eq_exp_minus_1)

lemma rfield_wide:
  "rfield 7 code = ucast (x_rd code)"
  "rfield 15 code = ucast (x_rs1 code)"
  "rfield 20 code = ucast (x_rs2 code)"
  by (auto intro!: bit_word_eqI
      simp: rfield_bits x_rd_def x_rs1_def x_rs2_def bit_simps wordfacts)

section \<open>The miss path decodes every supported instruction\<close>

text \<open>What is known of a word once its opcode, funct3 and funct7 are.\<close>

lemma known_f3:
  assumes "code AND 0x7f = (k :: u32)"
  shows "code AND 0x0000707f = k OR push_bit 12 (bits 12 3 code)"
  using masked_join [OF assms bits_masked [of 12 3 code, symmetric]]
  by (simp add: mask_eq_exp_minus_1)

lemma known_f7:
  assumes "code AND 0x7f = (k :: u32)"
  shows "code AND 0xfe00707f = k OR push_bit 12 (bits 12 3 code) OR push_bit 25 (bits 25 7 code)"
  using masked_join [OF known_f3 [OF assms] bits_masked [of 25 7 code, symmetric]]
  by (simp add: mask_eq_exp_minus_1 or.assoc)

lemmas dec_simps = vliw_of.simps imm_eqs rfield_wide bits_and Vliw_init_def

lemma dec_op:
  assumes "code AND 0x7f = 0x33" and "isa_op (bits 25 7 code) (bits 12 3 code) = Some k"
  shows "decode_slow code = Inr (True, vliw_of (I_OP k (x_rd code) (x_rs1 code) (x_rs2 code)))"
  using assms(2) known_f7 [OF assms(1)]
  by (subst decode_slow_sym [where ns = "[]", OF known_f7 [OF assms(1)]])
    (auto simp: isa_op_def dec_simps sym_ADD sym_SUB sym_SLL sym_SLT sym_SLTU sym_XOR sym_SRL
      sym_SRA sym_OR sym_AND split: if_splits)

lemma dec_md:
  assumes "code AND 0x7f = 0x33" and "bits 25 7 code = 1" and "isa_md (bits 12 3 code) = Some k"
  shows "decode_slow code = Inr (True, vliw_of (I_MD k (x_rd code) (x_rs1 code) (x_rs2 code)))"
  using assms(2,3) 
  by (subst decode_slow_sym [where ns = "[]", OF known_f7 [OF assms(1)]])
    (auto simp: isa_md_def dec_simps sym_MUL sym_MULH sym_MULHSU sym_MULHU sym_DIV sym_DIVU sym_REM
      sym_REMU split: if_splits)

lemma dec_br:
  assumes "code AND 0x7f = 0x63" and "isa_br (bits 12 3 code) = Some k"
  shows "decode_slow code = Inr (True, vliw_of (I_BR k (x_rs1 code) (x_rs2 code) (imm_B code)))"
  using assms(2) 
  by (subst decode_slow_sym [where ns = "[]", OF known_f3 [OF assms(1)]])
    (auto simp: isa_br_def dec_simps sym_BEQ sym_BNE sym_BLT sym_BGE sym_BLTU sym_BGEU split: if_splits)

lemma dec_ld:
  assumes "code AND 0x7f = 0x03" and "isa_ld (bits 12 3 code) = Some k"
  shows "decode_slow code = Inr (True, vliw_of (I_LD k (x_rd code) (x_rs1 code) (imm_I code)))"
  using assms(2) 
  by (subst decode_slow_sym [where ns = "[]", OF known_f3 [OF assms(1)]])
    (auto simp: isa_ld_def dec_simps sym_LB sym_LH sym_LW sym_LBU sym_LHU split: if_splits)

lemma dec_st:
  assumes "code AND 0x7f = 0x23" and "isa_st (bits 12 3 code) = Some k"
  shows "decode_slow code = Inr (True, vliw_of (I_ST k (x_rs1 code) (x_rs2 code) (imm_S code)))"
  using assms(2) 
  by (subst decode_slow_sym [where ns = "[]", OF known_f3 [OF assms(1)]])
    (auto simp: isa_st_def dec_simps sym_SB sym_SH sym_SW split: if_splits)

lemma dec_csr:
  assumes "code AND 0x7f = 0x73" and "isa_csr (bits 12 3 code) = Some k"
  shows "decode_slow code = Inr (True, vliw_of (I_CSR k (x_rd code) (x_rs1 code) (bits 20 12 code)))"
  using assms(2) 
  by (subst decode_slow_sym [where ns = "[]", OF known_f3 [OF assms(1)]])
    (auto simp: isa_csr_def dec_simps sym_CSRRW sym_CSRRS sym_CSRRC split: if_splits)

lemma dec_csri:
  assumes "code AND 0x7f = 0x73" and "isa_csr (bits 12 3 code - 4) = Some k"
  shows "decode_slow code = Inr (True, vliw_of (I_CSRI k (x_rd code) (x_rs1 code) (bits 20 12 code)))"
  using assms(2) 
  by (subst decode_slow_sym [where ns = "[]", OF known_f3 [OF assms(1)]])
    (auto simp: isa_csr_def dec_simps diff_eq_eq sym_CSRRWI sym_CSRRSI sym_CSRRCI split: if_splits)

lemma dec_sys:
  assumes "isa_sys code = Some k"
  shows "decode_slow code = Inr (True, vliw_of (I_SYS k))"
  using assms
  by (subst decode_slow_sym [where ns = "[]" and m = "0xffffffff" and c = code])
    (auto simp: isa_sys_def dec_simps sym_ECALL sym_EBREAK sym_SRET sym_MRET sym_WFI split: if_splits)

lemma dec_u:
  assumes "code AND 0x7f = k" and "k = 0x37 \<and> i = I_LUI (x_rd code) (imm_U code) \<or> k = 0x17 \<and> i = I_AUIPC (x_rd code) (imm_U code)"
  shows "decode_slow code = Inr (True, vliw_of i)"
  using assms(2) 
  by (subst decode_slow_sym [where ns = "[]", OF assms(1)])
    (auto simp: dec_simps sym_LUI sym_AUIPC)

lemma bits_zero: "bits lo n x = 0 \<longleftrightarrow> x AND push_bit lo (mask n) = (0 :: 'a::len word)"
proof
  assume "bits lo n x = 0"
  then show "x AND push_bit lo (mask n) = 0" by (simp flip: bits_masked)
next
  assume z: "x AND push_bit lo (mask n) = 0"
  show "bits lo n x = 0"
  proof (rule bit_word_eqI)
    fix i
    assume "i < LENGTH('a)"
    have "\<not> bit (x AND push_bit lo (mask n)) (lo + i)" by (simp add: z)
    then show "bit (bits lo n x) i = bit (0 :: 'a word) i"
      using bit_imp_le_length [of x "lo + i"] by (auto simp: bit_bits bit_simps)
  qed
qed

lemma ucast_bits_zero: "(ucast (bits lo 5 code) :: ireg) = 0 \<longleftrightarrow> bits lo 5 (code :: u32) = 0"
  by (auto simp: bit_eq_iff bit_simps bit_bits)

lemma imm_I_zero: "imm_I code = 0 \<longleftrightarrow> bits 20 12 code = 0"
proof -
  have "take_bit 12 (imm_I code) = bits 20 12 code"
    by (simp add: imm_I_def take_bit_signed_take_bit bits_take_bit)
  then show ?thesis by (auto simp: imm_I_def)
qed

lemmas field_zero = x_rd_def x_rs1_def ucast_bits_zero imm_I_zero bits_zero mask_eq_exp_minus_1

lemma dec_jal:
  assumes "code AND 0x7f = 0x6f"
  shows "decode_slow code = Inr (True, vliw_of (I_JAL (x_rd code) (imm_J code)))"
proof (cases "x_rd code = 0")
  case True
  then have "code AND 0xfff = 0x6f"
    using masked_join [OF assms, where m' = "0xf80" and c' = 0] by (simp add: field_zero)
  then show ?thesis using True
    by (subst decode_slow_sym [where ns = "[]" and m = "0xfff"]) (auto simp: dec_simps sym_J)
next
  case False
  then have "code AND 0xfff \<noteq> 0x6f"
    using masked_weaken [where x = code and m = "0xfff" and c = "0x6f" and m' = "0xf80"] by (auto simp: field_zero)
  then show ?thesis using False assms
    by (subst decode_slow_sym [where ns = "[(0xfff, 0x6f)]" and m = "0x7f"])
      (auto simp: dec_simps sym_JAL)
qed

lemma dec_jalr:
  assumes "code AND 0x7f = 0x67" and "bits 12 3 code = 0"
  shows "decode_slow code = Inr (True, vliw_of (I_JALR (x_rd code) (x_rs1 code) (imm_I code)))"
proof -
  have f3: "code AND 0x707f = 0x67" using known_f3 [OF assms(1)] assms(2) by simp
  show ?thesis
  proof (cases "x_rd code = 0 \<and> imm_I code = 0")
    case True
    then have "code AND 0xfff07fff = 0x67"
      using masked_join [OF f3, where m' = "0xfff00f80" and c' = 0] masked_join [where x = code and m = "0xf80" and c = 0 and m' = "0xfff00000" and c' = 0]
      by (simp add: field_zero)
    then show ?thesis using True
      by (subst decode_slow_sym [where ns = "[]" and m = "0xfff07fff"]) (auto simp: dec_simps sym_JR)
  next
    case False
    then have "code AND 0xfff07fff \<noteq> 0x67"
      using masked_weaken [where x = code and m = "0xfff07fff" and c = "0x67" and m' = "0xf80"] masked_weaken [where x = code and m = "0xfff07fff" and c = "0x67" and m' = "0xfff00000"]
      by (auto simp: field_zero)
    then show ?thesis using False f3
      by (subst decode_slow_sym [where ns = "[(0xfff07fff, 0x67)]" and m = "0x707f"])
        (auto simp: dec_simps sym_JALR)
  qed
qed

lemma dec_addi:
  assumes "code AND 0x7f = 0x13" and "bits 12 3 code = 0"
  shows "decode_slow code = Inr (True, vliw_of (I_IMM A_ADD (x_rd code) (x_rs1 code) (imm_I code)))"
proof -
  have f3: "code AND 0x707f = 0x13" using known_f3 [OF assms(1)] assms(2) by simp
  show ?thesis
  proof (cases "x_rd code = 0 \<and> x_rs1 code = 0 \<and> imm_I code = 0")
    case True
    then have "code AND 0xffffffff = 0x13"
      using masked_join [OF f3, where m' = "0xffff8f80" and c' = 0] masked_join [where x = code and m = "0xf8f80" and c = 0 and m' = "0xfff00000" and c' = 0]
        masked_join [where x = code and m = "0xf80" and c = 0 and m' = "0xf8000" and c' = 0]
      by (simp add: field_zero)
    then show ?thesis using True
      by (subst decode_slow_sym [where ns = "[]" and m = "0xffffffff"]) (auto simp: dec_simps sym_NOP)
  next
    case False
    then have "code AND 0xffffffff \<noteq> 0x13"
      using masked_weaken [where x = code and m = "0xffffffff" and c = "0x13" and m' = "0xf80"] masked_weaken [where x = code and m = "0xffffffff" and c = "0x13" and m' = "0xf8000"]
        masked_weaken [where x = code and m = "0xffffffff" and c = "0x13" and m' = "0xfff00000"]
      by (auto simp: field_zero)
    then show ?thesis using False f3
      by (subst decode_slow_sym [where ns = "[(0xffffffff, 0x13)]" and m = "0x707f"])
        (auto simp: dec_simps sym_ADDI)
  qed
qed

lemma dec_imm:
  assumes "code AND 0x7f = 0x13" and "isa_imm (bits 25 7 code) (bits 12 3 code) = Some k"
  shows "decode_slow code = Inr (True, vliw_of (I_IMM k (x_rd code) (x_rs1 code)
    (if shift_alu k then bits 20 5 code else imm_I code)))"
proof (cases "k = A_ADD")
  case True
  then have "bits 12 3 code = 0" using assms(2) by (auto simp: isa_imm_def split: if_splits)
  then show ?thesis using dec_addi [OF assms(1)] True by (simp add: shift_alu_def)
next
  case False
  show ?thesis
  proof (cases "shift_alu k")
    case True
    then show ?thesis using assms(2)
      by (subst decode_slow_sym [where ns = "[]", OF known_f7 [OF assms(1)]])
        (auto simp: isa_imm_def dec_simps shift_alu_def sym_SLLI sym_SRLI sym_SRAI split: if_splits)
  next
    case n: False
    then show ?thesis using assms(2) False
      by (subst decode_slow_sym [where ns = "[]", OF known_f3 [OF assms(1)]])
        (auto simp: isa_imm_def dec_simps shift_alu_def sym_SLTI sym_SLTIU sym_XORI sym_ORI sym_ANDI
          split: if_splits)
  qed
qed

lemma decode_slow_correct:
  assumes "isa_decode code = Some i"
  shows "decode_slow code = Inr (True, vliw_of i)"
  using assms
  by (auto simp: isa_decode_def Let_def dec_u dec_jal dec_jalr dec_br dec_ld dec_st dec_imm dec_op dec_md
      dec_sys dec_csr dec_csri split: if_splits)

end
