(* ===== verification/Decode_Facts.thy ===== *)
theory Decode_Facts
  imports Isa_Decode
begin

text \<open>
  What the rest of the simulator relies on about decoding: a decoded \<open>Vliw\<close> only names
  the 32 integer registers and keeps the operation code of its row (never \<open>VLIW_NONE\<close>,
  which marks an empty slot of the caches), a 16-bit encoding is decoded from its low half
  alone, and the two tables in front of the searches change nothing but the time it takes.
  The facts about \<open>optable\<close> are evaluated part by part of the table.
\<close>

unbundle bit_operations_syntax

section \<open>The table as a whole\<close>

text \<open>The word a row's bit text spells: \<open>0\<close> and \<open>1\<close> are fixed bits, any other letter is a field.\<close>

fun text_word :: "char set \<Rightarrow> u32 \<Rightarrow> string \<Rightarrow> u32" where
  "text_word cs a [] = a"
| "text_word cs a (c # s) = text_word cs (2 * a + of_bool (c \<in> cs)) s"

fun row_text_ok :: "optable \<Rightarrow> bool" where
  "row_text_ok (Op t c m v a) \<longleftrightarrow>
    length t \<in> {16, 32} \<and> text_word {CHR ''0'', CHR ''1''} 0 t = m \<and> text_word {CHR ''1''} 0 t = c"

text \<open>The simplifier is kept out of the rows until their turn comes.\<close>

lemma op_lazy:
  "op_vliw x = op_vliw x" "op_mask x = op_mask x" "op_code x = op_code x"
  "bitText x = bitText x" "asmText x = asmText x" "row_text_ok x = row_text_ok x"
  by (rule refl)+

lemma list_all_lazy: "list_all P xs = list_all P xs"
  by (rule refl)

lemma filter_lazy: "filter P xs = filter P xs"
  by (rule refl)

lemma rows_all:
  "list_all P optable \<longleftrightarrow> list_all P optable_i \<and> list_all P optable_m \<and> list_all P optable_a \<and>
    list_all P optable_f \<and> list_all P optable_d \<and> list_all P optable_q \<and> list_all P optable_c"
  by (simp add: optable_def)

lemmas rows_unfold =
  arg_cong [OF optable_i_def, of "list_all P" for P]
  arg_cong [OF optable_m_def, of "list_all P" for P]
  arg_cong [OF optable_a_def, of "list_all P" for P]
  arg_cong [OF optable_f_def, of "list_all P" for P]
  arg_cong [OF optable_d_def, of "list_all P" for P]
  arg_cong [OF optable_q_def, of "list_all P" for P]
  arg_cong [OF optable_c_def, of "list_all P" for P]

lemmas rows_filter =
  arg_cong [OF optable_i_def, of "filter P" for P]
  arg_cong [OF optable_m_def, of "filter P" for P]
  arg_cong [OF optable_a_def, of "filter P" for P]
  arg_cong [OF optable_f_def, of "filter P" for P]
  arg_cong [OF optable_d_def, of "filter P" for P]
  arg_cong [OF optable_q_def, of "filter P" for P]
  arg_cong [OF optable_c_def, of "filter P" for P]

lemma optable_vliw: "list_all (\<lambda>otp. op_vliw otp \<noteq> VLIW_NONE) optable"
  by (simp add: rows_all rows_unfold cong: op_lazy list_all_lazy)

lemma optable_width:
  "list_all (\<lambda>otp. op_mask otp AND 0xffff = op_mask otp \<or>
     op_mask otp AND 3 = 3 \<and> op_code otp AND 3 = 3) optable"
  by (simp add: rows_all rows_unfold cong: op_lazy list_all_lazy)

lemma optable_code_in_mask:
  "list_all (\<lambda>otp. op_code otp AND op_mask otp = op_code otp) optable"
  by (simp add: rows_all rows_unfold cong: op_lazy list_all_lazy)

lemma text_wrong_i:
  "map op_vliw (filter (\<lambda>otp. \<not> row_text_ok otp) optable_i) =
    [VLIW_EBREAK, VLIW_SRET, VLIW_MRET, VLIW_WFI]"
  by (simp add: rows_filter cong: op_lazy filter_lazy)

lemma text_wrong_m: "list_all row_text_ok optable_m"
  by (simp add: rows_unfold cong: op_lazy list_all_lazy)

lemma text_wrong_a: "list_all row_text_ok optable_a"
  by (simp add: rows_unfold cong: op_lazy list_all_lazy)

lemma text_wrong_f: "list_all row_text_ok optable_f"
  by (simp add: rows_unfold cong: op_lazy list_all_lazy)

lemma text_wrong_d: "list_all row_text_ok optable_d"
  by (simp add: rows_unfold cong: op_lazy list_all_lazy)

lemma text_wrong_q: "list_all row_text_ok optable_q"
  by (simp add: rows_unfold cong: op_lazy list_all_lazy)

lemma text_wrong_c: "list_all row_text_ok optable_c"
  by (simp add: rows_unfold cong: op_lazy list_all_lazy)

lemma op_find_Some:
  "op_find code rows = Some otp \<Longrightarrow> otp \<in> set rows \<and> code AND op_mask otp = op_code otp"
  by (induction rows) (auto split: if_splits)

lemma op_find_low_half:
  assumes "code AND 3 \<noteq> 3"
    and "list_all (\<lambda>otp. op_mask otp AND 0xffff = op_mask otp \<or>
       op_mask otp AND 3 = 3 \<and> op_code otp AND 3 = 3) rows"
  shows "op_find code rows = op_find (code AND 0xffff) rows"
  using assms(2)
proof (induction rows)
  case Nil
  then show ?case by simp
next
  case (Cons otp rows)
  have "code AND op_mask otp = op_code otp \<longleftrightarrow> (code AND 0xffff) AND op_mask otp = op_code otp"
  proof (cases "op_mask otp AND 0xffff = op_mask otp")
    case True
    then have "(code AND 0xffff) AND op_mask otp = code AND op_mask otp"
      by (metis and.assoc and.commute)
    then show ?thesis by simp
  next
    case False
    with Cons.prems have l: "op_mask otp AND 3 = 3" "op_code otp AND 3 = 3" by auto
    have miss: "x AND op_mask otp \<noteq> op_code otp" if "x AND 3 \<noteq> 3" for x
      using that l by (metis and.assoc)
    have "(code AND 0xffff) AND 3 \<noteq> 3" using assms(1) by (simp add: and.assoc)
    from miss [OF this] miss [OF assms(1)] show ?thesis by simp
  qed
  with Cons show ?case by simp
qed

section \<open>Register fields\<close>

lemma rfield_less: "rfield lo code < 32"
proof -
  have "drop_bit lo code AND 0x1f = take_bit 5 (drop_bit lo code)"
    by (simp add: take_bit_eq_mask mask_eq_exp_minus_1)
  then have "rfield lo code = take_bit 5 (ucast (drop_bit lo code))"
    unfolding rfield_def by (simp add: bit_eq_iff bit_simps)
  then show ?thesis using take_bit_nat_less_exp [of 5] by (simp add: word_less_nat_alt unsigned_take_bit_eq)
qed

lemma r3_less: "r3b2 code < 32" "r3b7 code < 32"
proof -
  have "regMap3 ! unat (x AND 7 :: u32) < 32" for x
  proof -
    have "(x AND 7 :: u32) \<le> 7" by (rule word_and_le1)
    then have "unat (x AND 7) \<le> 7" by (simp add: word_le_nat_alt)
    then have "unat (x AND 7) \<in> {0, 1, 2, 3, 4, 5, 6, 7}" by auto
    then show ?thesis by (auto simp: regMap3_def)
  qed
  then show "r3b2 code < 32" "r3b7 code < 32" by (simp_all add: r3b2_def r3b7_def)
qed

lemma decode_item_keeps:
  "decode_item code item v = Inr w \<Longrightarrow> regs_ok v \<Longrightarrow> regs_ok w \<and> opcode w = opcode v"
  by (auto simp: decode_item_def regs_ok_def rfield_less split: if_splits)

lemma decode_items_keeps:
  "decode_items code its v = Inr w \<Longrightarrow> regs_ok v \<Longrightarrow> regs_ok w \<and> opcode w = opcode v"
proof (induction its arbitrary: v)
  case Nil
  then show ?case by simp
next
  case (Cons item its)
  then obtain u where u: "decode_item code item v = Inr u" "decode_items code its u = Inr w"
    by (auto simp: faultfacts)
  from decode_item_keeps [OF u(1) Cons.prems(2)] Cons.IH [OF u(2)] show ?case by simp
qed

lemma decode_slow_keeps:
  assumes "decode_slow code = Inr (ok, v)"
  shows "regs_ok v \<and> opcode v \<noteq> VLIW_NONE"
proof (cases "op_find code optable")
  case None
  then show ?thesis using assms by (auto simp: decode_slow_def Vliw_init_def regs_ok_def)
next
  case (Some otp)
  then have "decode_row code otp = Inr v" using assms by (auto simp: decode_slow_def faultfacts)
  then have "regs_ok v \<and> opcode v = op_vliw otp"
    unfolding decode_row_def by (auto simp: regs_ok_def Vliw_init_def dest: decode_items_keeps)
  moreover have "op_vliw otp \<noteq> VLIW_NONE"
    using op_find_Some [OF Some] optable_vliw by (auto simp: list_all_iff)
  ultimately show ?thesis by simp
qed

lemma compressed_switch_keeps:
  "compressed_switch op code v = Inr w \<Longrightarrow> regs_ok v \<Longrightarrow> regs_ok w \<and> opcode w \<noteq> VLIW_NONE"
  by (auto simp: compressed_switch_def Let_def regs_ok_def rfield_less r3_less split: if_splits)

lemma compressed_decode_keeps:
  "compressed_decode code = Inr (ok, v) \<Longrightarrow> regs_ok v \<and> opcode v \<noteq> VLIW_NONE"
proof (cases "op_find code optable")
  case None
  assume "compressed_decode code = Inr (ok, v)"
  with None show ?thesis by (auto simp: compressed_decode_def Vliw_init_def regs_ok_def)
next
  case (Some otp)
  assume "compressed_decode code = Inr (ok, v)"
  with Some show ?thesis
    by (auto simp: compressed_decode_def faultfacts Vliw_init_def regs_ok_def
        dest!: compressed_switch_keeps)
qed


section \<open>A 16-bit encoding is its low half\<close>

lemma low_half_take_bit: "code AND 0xffff = take_bit 16 (code :: u32)"
  by (simp add: take_bit_eq_mask mask_eq_exp_minus_1)

lemma low_half_eq: "(ucast (ucast code :: u16) :: u32) = code AND 0xffff"
  by (auto simp: low_half_take_bit bit_eq_iff bit_simps)

lemma low_half_fields:
  fixes code :: u32
  shows "ucast (code AND 0xffff) = (ucast code :: u16)"
    "rfield 2 (code AND 0xffff) = rfield 2 code" "rfield 7 (code AND 0xffff) = rfield 7 code"
    "r3b2 (code AND 0xffff) = r3b2 code" "r3b7 (code AND 0xffff) = r3b7 code"
    "mk_imm6 (code AND 0xffff) = mk_imm6 code"
proof -
  have m: "drop_bit lo (code AND 0xffff) AND mask n = drop_bit lo code AND mask n" if "lo + n \<le> 16" for lo n
    using that by (auto simp: low_half_take_bit bit_eq_iff bit_simps)
  have f: "drop_bit 2 (code AND 0xffff) AND 0x1f = drop_bit 2 code AND 0x1f"
    "drop_bit 7 (code AND 0xffff) AND 0x1f = drop_bit 7 code AND 0x1f"
    "drop_bit 2 (code AND 0xffff) AND 0x7 = drop_bit 2 code AND 0x7"
    "drop_bit 7 (code AND 0xffff) AND 0x7 = drop_bit 7 code AND 0x7"
    "drop_bit 12 (code AND 0xffff) AND 0x1 = drop_bit 12 code AND 0x1"
    using m [of 2 5] m [of 7 5] m [of 2 3] m [of 7 3] m [of 12 1]
    by (simp_all add: mask_eq_exp_minus_1)
  show "rfield 2 (code AND 0xffff) = rfield 2 code" "rfield 7 (code AND 0xffff) = rfield 7 code"
    "r3b2 (code AND 0xffff) = r3b2 code" "r3b7 (code AND 0xffff) = r3b7 code"
    "mk_imm6 (code AND 0xffff) = mk_imm6 code"
    by (simp_all only: rfield_def r3b2_def r3b7_def mk_imm6_def f)
  show "ucast (code AND 0xffff) = (ucast code :: u16)"
    by (auto simp: low_half_take_bit bit_eq_iff bit_simps)
qed

lemma compressed_switch_low_half:
  "compressed_switch op (code AND 0xffff) v = compressed_switch op code v"
  by (simp only: compressed_switch_def low_half_fields)

lemma compressed_decode_low_half:
  assumes "code AND 3 \<noteq> 3"
  shows "compressed_decode code = compressed_decode (ucast (ucast code :: u16))"
  unfolding low_half_eq compressed_decode_def compressed_switch_low_half
  by (simp only: op_find_low_half [OF assms optable_width])

section \<open>The tables are transparent\<close>

text \<open>What \<open>decode2vliw\<close> computes when nothing is remembered.\<close>

definition decode_ref :: "u32 \<Rightarrow> (bool \<times> vliw) result" where
  "decode_ref code = (if code AND 3 \<noteq> 3 then compressed_decode code else decode_slow code)"

fun found :: "(bool \<times> vliw) result \<Rightarrow> vliw option" where
  "found (Inr (True, v)) = Some v"
| "found _ = None"

lemma found_Some: "found r = Some v \<longleftrightarrow> r = Inr (True, v)"
  by (cases r rule: found.cases) simp_all

definition known32 :: "u32 \<Rightarrow> vliw option" where
  "known32 code = found (decode_slow code)"

definition known16 :: "u16 \<Rightarrow> vliw option" where
  "known16 c = found (compressed_decode (ucast c))"

definition decoder_ok :: "decoder \<Rightarrow> bool" where
  "decoder_ok d \<longleftrightarrow> memo_sound hash_lookup (\<lambda>c. c \<noteq> 0) known32 (hashes d) \<and>
    memo_sound fast_lookup (\<lambda>_. True) known16 (fasts d)"

lemma decoder_ok_start: "decoder_ok decoder_start"
  by (simp add: decoder_ok_def decoder_start_def hash.sound_start fast.sound_start)

lemma decodeCompressed_transparent:
  assumes "memo_sound fast_lookup (\<lambda>_. True) known16 t" and "code AND 3 \<noteq> 3"
  shows "case decodeCompressed code t of
      Inl e \<Rightarrow> compressed_decode code = Inl e
    | Inr (r, t') \<Rightarrow> compressed_decode code = Inr r \<and> memo_sound fast_lookup (\<lambda>_. True) known16 t'"
proof (cases "fast_lookup t (ucast code)")
  case (Some v)
  have "known16 (ucast code) = Some v" using fast.hit [OF assms(1) _ Some] by simp
  then show ?thesis using Some assms
    by (simp add: decodeCompressed_def known16_def found_Some flip: compressed_decode_low_half)
next
  case None
  show ?thesis
  proof (cases "compressed_decode code")
    case (Inl e)
    then show ?thesis using None by (simp add: decodeCompressed_def)
  next
    case (Inr r)
    obtain ok v where r: "r = (ok, v)" by (cases r)
    have "known16 (ucast code) = Some v" if ok
      using that Inr r assms(2)
      by (simp add: known16_def found_Some flip: compressed_decode_low_half)
    then show ?thesis using None Inr r assms(1)
      by (simp add: decodeCompressed_def fast.sound_store)
  qed
qed

lemma decode2vliw_transparent:
  assumes "decoder_ok d"
  shows "case decode2vliw code d of
      Inl e \<Rightarrow> decode_ref code = Inl e
    | Inr (r, d') \<Rightarrow> decode_ref code = Inr r \<and> decoder_ok d'"
proof (cases "code AND 3 \<noteq> 3")
  case True
  have "case decodeCompressed code (fasts d) of
      Inl e \<Rightarrow> compressed_decode code = Inl e
    | Inr (r, t') \<Rightarrow> compressed_decode code = Inr r \<and> memo_sound fast_lookup (\<lambda>_. True) known16 t'"
    using assms True by (intro decodeCompressed_transparent) (simp_all add: decoder_ok_def)
  then show ?thesis using True assms
    by (cases "decodeCompressed code (fasts d)")
      (auto simp: decode2vliw_def decode_ref_def decoder_ok_def)
next
  case low: False
  then have nz: "code \<noteq> 0" by auto
  have h: "memo_sound hash_lookup (\<lambda>c. c \<noteq> 0) known32 (hashes d)" using assms by (simp add: decoder_ok_def)
  show ?thesis
  proof (cases "hash_lookup (hashes d) code")
    case (Some v)
    have "known32 code = Some v" using hash.hit [OF h _ Some] nz by simp
    then show ?thesis using Some low assms
      by (simp add: decode2vliw_def decode_ref_def known32_def found_Some)
  next
    case None
    show ?thesis
    proof (cases "decode_slow code")
      case (Inl e)
      then show ?thesis using None low by (simp add: decode2vliw_def decode_ref_def)
    next
      case (Inr r)
      obtain ok v where r: "r = (ok, v)" by (cases r)
      have "known32 code = Some v" if ok using that Inr r by (simp add: known32_def)
      then show ?thesis using None Inr r h assms low nz
        by (auto simp: decode2vliw_def decode_ref_def decoder_ok_def hash.sound_store)
    qed
  qed
qed

lemma decode_ref_keeps:
  "decode_ref code = Inr (ok, v) \<Longrightarrow> regs_ok v \<and> opcode v \<noteq> VLIW_NONE"
  by (auto simp: decode_ref_def dest: decode_slow_keeps compressed_decode_keeps split: if_splits)

end
