(* ===== verification/Exec_Facts.thy ===== *)
theory Exec_Facts
  imports Cpu_Facts Decode_Facts
begin

text \<open>
  Facts about \<open>execute\<close> as a whole: what no instruction changes (\<open>keeps\<close>), and that it
  does not look at the decode caches (\<open>execute_caches\<close>). Both are proved once per
  operation and follow the calls upwards.
\<close>

unbundle bit_operations_syntax

section \<open>What no instruction changes\<close>

text \<open>The fields only \<open>run\<close> itself looks at, which no instruction sets.\<close>

abbreviation ctl :: "cpu \<Rightarrow> u32 \<times> u32 \<times> bool \<times> bool" where
  "ctl c \<equiv> (verbose c, breakpoint c, singleStep c, running c)"

lemma csr_update_ctl [simp]: "verbose (csr_update csr v c) = verbose c"
  "breakpoint (csr_update csr v c) = breakpoint c" "singleStep (csr_update csr v c) = singleStep c"
  "running (csr_update csr v c) = running c"
  by (simp_all add: csr_update_def)

definition keeps :: "'h machine \<Rightarrow> 'h machine \<Rightarrow> bool" where
  "keeps s s' \<longleftrightarrow>
    layout (memory s') = layout (memory s) \<and> do_newlib s' = do_newlib s \<and>
    decoder s' = decoder s \<and> vliw_insn s' = vliw_insn s \<and>
    length (reg (cpu s')) = length (reg (cpu s)) \<and> pc (cpu s') = pc (cpu s) \<and>
    verbose (cpu s') = verbose (cpu s) \<and> breakpoint (cpu s') = breakpoint (cpu s) \<and>
    singleStep (cpu s') = singleStep (cpu s) \<and> (running (cpu s') \<longrightarrow> running (cpu s)) \<and>
    (do_newlib s \<or> do_core (memory s) \<or> insnMem (memory s') = insnMem (memory s))"

lemma keeps_refl [simp]: "keeps s s"
  by (simp add: keeps_def)

lemma keeps_trans: "keeps s t \<Longrightarrow> keeps t u \<Longrightarrow> keeps s u"
  by (auto simp: keeps_def layout_def)

lemma keeps_cpu:
  "length (reg c) = length (reg (cpu s)) \<Longrightarrow> pc c = pc (cpu s) \<Longrightarrow>
    verbose c = verbose (cpu s) \<Longrightarrow> breakpoint c = breakpoint (cpu s) \<Longrightarrow> singleStep c = singleStep (cpu s) \<Longrightarrow>
    (running c \<longrightarrow> running (cpu s)) \<Longrightarrow> keeps s (s\<lparr>cpu := c\<rparr>)"
  by (simp add: keeps_def)

lemma keeps_host [simp]: "keeps s (apply_host e s)"
  by (cases e) (simp_all add: apply_host_def keeps_def)

lemma keeps_io [simp]: "keeps s (s\<lparr>console := out\<rparr>)" "keeps s (s\<lparr>os_state := h\<rparr>)"
  by (simp_all add: keeps_def)

lemma reg_put_keeps:
  "reg_put i v c = Inr c' \<Longrightarrow>
    length (reg c') = length (reg c) \<and> pc c' = pc c \<and> cycle c' = cycle c \<and> pc_next c' = pc_next c \<and>
    ctl c' = ctl c"
  by (auto simp: reg_put_def split: if_splits)

lemma exec_cpu_keeps:
  assumes "exec_cpu v c = Some (Inr c')"
  shows "length (reg c') = length (reg c) \<and> pc c' = pc c \<and> ctl c' = ctl c"
proof -
  have "f v c = Some (Inr c') \<Longrightarrow> ?thesis"
    if "f \<in> {exec_jump, exec_branch, exec_alu, exec_alui, exec_upper, exec_muldiv}" for f
    using that
    by (auto simp: exec_jump_def exec_branch_def exec_alu_def exec_alui_def exec_upper_def
        exec_muldiv_def faultfacts dest!: reg_put_keeps split: if_splits)
  then show ?thesis
    using assms by (auto simp: exec_cpu_def or_else_def split: option.splits)
qed

lemma load_keeps: "exec_load v s = Some (Inr s') \<Longrightarrow> keeps s s'"
proof -
  assume "exec_load v s = Some (Inr s')"
  then obtain e c where s': "s' = put_cpu (apply_host e s) c"
    and c: "length (reg c) = length (reg (cpu (apply_host e s))) \<and> pc c = pc (cpu (apply_host e s)) \<and>
      ctl c = ctl (cpu (apply_host e s))"
    by (auto simp: exec_load_def faultfacts Let_def dest!: reg_put_keeps)
  then show ?thesis
    unfolding s' put_cpu_def by (auto intro!: keeps_trans [OF keeps_host keeps_cpu])
qed

lemma keeps_memory:
  "layout m = layout (memory s) \<Longrightarrow> do_newlib s \<or> do_core (memory s) \<or> insnMem m = insnMem (memory s) \<Longrightarrow>
    keeps s (s\<lparr>memory := m\<rparr>)"
  by (simp add: keeps_def)

lemma write_text_or_core:
  "Memory_write32 m a x = Inr (m', e) \<Longrightarrow> do_core m \<or> insnMem m' = insnMem m"
  "Memory_write16 m a x = Inr m' \<Longrightarrow> do_core m \<or> insnMem m' = insnMem m"
  "Memory_write8 m a x = Inr m' \<Longrightarrow> do_core m \<or> insnMem m' = insnMem m"
  using write_text by blast+

lemma store_keeps: "exec_store v s = Some (Inr s') \<Longrightarrow> keeps s s'"
proof -
  assume "exec_store v s = Some (Inr s')"
  then obtain f a x m e where s': "s' = apply_host e (s\<lparr>memory := m\<rparr>)"
    and f: "store_op (opcode v) = Some f" "f (memory s) a x = Inr (m, e)"
    by (auto simp: exec_store_def faultfacts Let_def)
  then have "layout m = layout (memory s)" "do_core (memory s) \<or> insnMem m = insnMem (memory s)"
    by (auto simp: store_op_def Let_def faultfacts split: if_splits
        dest: write_layout write_text_or_core)
  then show ?thesis
    unfolding s' by (auto intro!: keeps_trans [OF keeps_memory keeps_host])
qed

lemma csr_insn_form:
  "csr_insn os ty csr rdn rsn x c h =
    (let r = (if ty \<noteq> CSR_TYPE_W \<or> rdn \<noteq> 0 then csr_value os csr c h else (0, h));
         w = (case ty of CSR_TYPE_W \<Rightarrow> x | CSR_TYPE_S \<Rightarrow> fst r OR x | CSR_TYPE_C \<Rightarrow> fst r AND NOT x);
         c = (if ty = CSR_TYPE_W \<or> rsn \<noteq> 0 then csr_update csr w c else c)
     in if rdn \<noteq> 0 then chain (reg_put rdn (fst r) c) (\<lambda>c. Inr (c, snd r)) else Inr (c, snd r))"
  by (cases ty) (simp_all add: csr_insn_def Let_def case_prod_unfold)

lemma csr_insn_keeps:
  assumes "csr_insn os ty csr rdn rsn x c h = Inr (c', h')"
  shows "length (reg c') = length (reg c) \<and> pc c' = pc c \<and> ctl c' = ctl c"
  using assms
  by (auto simp: csr_insn_form Let_def faultfacts split: if_splits dest!: reg_put_keeps)

lemma csr_keeps: "exec_csr os v s = Some (Inr s') \<Longrightarrow> keeps s s'"
  by (auto simp: exec_csr_def faultfacts keeps_def dest!: csr_insn_keeps)

section \<open>System calls\<close>

text \<open>They run only with \<open>do_newlib\<close>, where the text segment may be written.\<close>

lemma keeps_ptr_store:
  "ptr_store (memory s) p bs = Inr m \<Longrightarrow> do_newlib s \<Longrightarrow> keeps s (s\<lparr>memory := m, os_state := h\<rparr>)"
  "ptr_store (memory s) p bs = Inr m \<Longrightarrow> do_newlib s \<Longrightarrow> keeps s (s\<lparr>os_state := h, memory := m\<rparr>)"
  by (simp_all add: keeps_def ptr_store_layout)

lemma read_stdin_keeps: "read_stdin os n p k s = Inr (r, s') \<Longrightarrow> do_newlib s \<Longrightarrow> keeps s s'"
proof (induction n arbitrary: p k s)
  case 0
  then show ?case by simp
next
  case (Suc n)
  obtain c h where c: "os_getc os (os_state s) = (c, h)" by (cases "os_getc os (os_state s)")
  show ?case
  proof (cases c)
    case None
    then show ?thesis using Suc.prems c by auto
  next
    case (Some b)
    let ?s = "s\<lparr>os_state := h\<rparr>"
    obtain m where m: "ptr_store (memory s) p [b] = Inr m"
      using Suc.prems c Some by (auto simp: Let_def faultfacts)
    have k: "keeps s (?s\<lparr>memory := m\<rparr>)"
      using Suc.prems(2) by (rule keeps_ptr_store(2) [OF m])
    show ?thesis
    proof (cases "b = 10")
      case True
      then show ?thesis using Suc.prems c Some m k by (auto simp: Let_def)
    next
      case False
      then have "read_stdin os n (fst p, Suc (snd p)) (k + 1) (?s\<lparr>memory := m\<rparr>) = Inr (r, s')"
        using Suc.prems c Some m by (auto simp: Let_def)
      from Suc.IH [OF this] Suc.prems(2) k show ?thesis by (auto intro: keeps_trans)
    qed
  qed
qed

lemma write_console_keeps: "write_console f n p k s = Inr (r, s') \<Longrightarrow> keeps s s'"
proof (induction n arbitrary: p k s)
  case 0
  then show ?case by simp
next
  case (Suc n)
  then obtain b where "write_console f n (fst p, Suc (snd p)) (k + 1) (s\<lparr>console := console s @ [f b]\<rparr>) = Inr (r, s')"
    by (auto simp: faultfacts)
  from Suc.IH [OF this] show ?case by (rule keeps_trans [OF keeps_io(1)])
qed

lemma return_a0_keeps:
  assumes "return_a0 r = Inr s'" and "\<And>v t. r = Inr (v, t) \<Longrightarrow> keeps s t"
  shows "keeps s s'"
proof -
  obtain v t c where t: "r = Inr (v, t)" "reg_put 10 v (cpu t) = Inr c" "s' = t\<lparr>cpu := c\<rparr>"
    using assms(1) by (auto simp: return_a0_def faultfacts put_cpu_def)
  have "keeps t s'" unfolding t(3) using reg_put_keeps [OF t(2)] by (intro keeps_cpu) simp_all
  with assms(2) [OF t(1)] show ?thesis by (rule keeps_trans)
qed

lemma keeps_brk: "sys_brk a b (cpu s) = (r, c) \<Longrightarrow> keeps s (put_cpu s c)"
  by (auto simp: sys_brk_def Let_def put_cpu_def split: if_splits intro!: keeps_cpu)

lemma gettimeofday_keeps: "sys_gettimeofday os a s = Inr (r, s') \<Longrightarrow> do_newlib s \<Longrightarrow> keeps s s'"
  by (auto simp: sys_gettimeofday_def faultfacts case_prod_unfold Let_def split: if_splits
      intro: keeps_ptr_store write_console_keeps read_stdin_keeps)

lemma lseek_keeps: "sys_lseek os a b c s = Inr (r, s') \<Longrightarrow> do_newlib s \<Longrightarrow> keeps s s'"
  by (auto simp: sys_lseek_def faultfacts case_prod_unfold Let_def split: if_splits
      intro: keeps_ptr_store write_console_keeps read_stdin_keeps)

lemma read_keeps: "sys_read os a b c s = Inr (r, s') \<Longrightarrow> do_newlib s \<Longrightarrow> keeps s s'"
  by (auto simp: sys_read_def faultfacts case_prod_unfold Let_def split: if_splits
      intro: keeps_ptr_store write_console_keeps read_stdin_keeps)

lemma write_keeps: "sys_write os a b c s = Inr (r, s') \<Longrightarrow> do_newlib s \<Longrightarrow> keeps s s'"
  by (auto simp: sys_write_def faultfacts case_prod_unfold Let_def split: if_splits
      intro: keeps_ptr_store write_console_keeps read_stdin_keeps)

lemma open_keeps: "sys_open os a b c s = Inr (r, s') \<Longrightarrow> do_newlib s \<Longrightarrow> keeps s s'"
  by (auto simp: sys_open_def faultfacts case_prod_unfold Let_def split: if_splits
      intro: keeps_ptr_store write_console_keeps read_stdin_keeps)

lemma close_keeps: "sys_close os a s = Inr (r, s') \<Longrightarrow> do_newlib s \<Longrightarrow> keeps s s'"
  by (auto simp: sys_close_def faultfacts case_prod_unfold Let_def split: if_splits
      intro: keeps_ptr_store write_console_keeps read_stdin_keeps)

lemma link_keeps: "sys_link os a b s = Inr (r, s') \<Longrightarrow> do_newlib s \<Longrightarrow> keeps s s'"
  by (auto simp: sys_link_def faultfacts case_prod_unfold Let_def split: if_splits
      intro: keeps_ptr_store write_console_keeps read_stdin_keeps)

lemma unlink_keeps: "sys_unlink os a s = Inr (r, s') \<Longrightarrow> do_newlib s \<Longrightarrow> keeps s s'"
  by (auto simp: sys_unlink_def faultfacts case_prod_unfold Let_def split: if_splits
      intro: keeps_ptr_store write_console_keeps read_stdin_keeps)

lemma syscall_keeps: "syscall os s = Inr s' \<Longrightarrow> do_newlib s \<Longrightarrow> keeps s s'"
  unfolding syscall_def syscall_switch_def
  by (auto simp: faultfacts split: if_splits prod.splits elim!: return_a0_keeps
      intro: gettimeofday_keeps lseek_keeps read_keeps write_keeps open_keeps close_keeps link_keeps
        unlink_keeps keeps_cpu keeps_brk)

lemma system_keeps: "exec_system os v s = Some (Inr s') \<Longrightarrow> keeps s s'"
  by (auto simp: exec_system_def put_cpu_def ecall_form mret_form split: if_splits
      intro!: keeps_cpu intro: syscall_keeps)

lemma execute_keeps:
  assumes "execute os v s = Inr s'"
  shows "keeps s s'"
proof -
  obtain t where t: "exec_switch os v s = Inr t" "s' = put_cpu t (clear_r0 (cpu t))"
    using assms by (auto simp: execute_def faultfacts)
  have "keeps s t"
    using t(1)
    by (auto simp: exec_switch_def or_else_def put_cpu_def faultfacts split: if_splits option.splits
        dest!: exec_cpu_keeps load_keeps store_keeps system_keeps csr_keeps intro: keeps_cpu)
  then show ?thesis
    unfolding t(2) by (auto simp: put_cpu_def clear_r0_def intro!: keeps_trans [OF _ keeps_cpu])
qed

end
