(* ===== verification/Exec_Frame.thy ===== *)
theory Exec_Frame
  imports Exec_Facts
begin

text \<open>
  Execution does not look at the decode caches: run on a state with other caches, every
  operation gives the same result with those caches. This is what lets the cached loop be
  compared with one that decodes each instruction afresh.
\<close>

unbundle bit_operations_syntax

definition with_caches :: "decoder \<Rightarrow> (u32 \<Rightarrow> vliw) \<Rightarrow> 'h machine \<Rightarrow> 'h machine" where
  "with_caches d t s = s\<lparr>decoder := d, vliw_insn := t\<rparr>"

abbreviation swap_caches :: "decoder \<Rightarrow> (u32 \<Rightarrow> vliw) \<Rightarrow> 'h machine result \<Rightarrow> 'h machine result" where
  "swap_caches d t \<equiv> map_sum id (with_caches d t)"

abbreviation swap_caches2 :: "decoder \<Rightarrow> (u32 \<Rightarrow> vliw) \<Rightarrow> ('a \<times> 'h machine) result \<Rightarrow> ('a \<times> 'h machine) result" where
  "swap_caches2 d t \<equiv> map_sum id (map_prod id (with_caches d t))"

lemma with_caches_fields [simp]:
  "cpu (with_caches d t s) = cpu s" "memory (with_caches d t s) = memory s"
  "do_newlib (with_caches d t s) = do_newlib s" "console (with_caches d t s) = console s"
  "os_state (with_caches d t s) = os_state s"
  "decoder (with_caches d t s) = d" "vliw_insn (with_caches d t s) = t"
  by (simp_all add: with_caches_def)

lemma with_caches_updates [simp]:
  "(with_caches d t s)\<lparr>cpu := c\<rparr> = with_caches d t (s\<lparr>cpu := c\<rparr>)"
  "(with_caches d t s)\<lparr>memory := m\<rparr> = with_caches d t (s\<lparr>memory := m\<rparr>)"
  "(with_caches d t s)\<lparr>console := out\<rparr> = with_caches d t (s\<lparr>console := out\<rparr>)"
  "(with_caches d t s)\<lparr>os_state := h\<rparr> = with_caches d t (s\<lparr>os_state := h\<rparr>)"
  "put_cpu (with_caches d t s) c = with_caches d t (put_cpu s c)"
  "with_caches d t (with_caches d' t' s) = with_caches d t s"
  by (simp_all add: with_caches_def put_cpu_def)

lemma apply_host_caches [simp]: "apply_host e (with_caches d t s) = with_caches d t (apply_host e s)"
  by (cases e) (simp_all add: apply_host_def)

lemma map_sum_chain [simp]: "map_sum id f (chain m k) = chain m (\<lambda>x. map_sum id f (k x))"
  by (cases m) simp_all

lemma chain_map_sum [simp]: "chain (map_sum id f m) k = chain m (\<lambda>x. k (f x))"
  by (cases m) simp_all

lemma read_stdin_caches:
  "read_stdin os n p k (with_caches d t s) = swap_caches2 d t (read_stdin os n p k s)"
  by (induction n arbitrary: p k s)
    (auto simp: Let_def case_prod_unfold split: option.split intro!: chain_cong)

lemma write_console_caches:
  "write_console f n p k (with_caches d t s) = swap_caches2 d t (write_console f n p k s)"
  by (induction n arbitrary: p k s) (auto intro!: chain_cong)

lemma sys_caches:
  "sys_gettimeofday os a (with_caches d t s) = swap_caches2 d t (sys_gettimeofday os a s)"
  "sys_lseek os a b c (with_caches d t s) = swap_caches2 d t (sys_lseek os a b c s)"
  "sys_read os a b c (with_caches d t s) = swap_caches2 d t (sys_read os a b c s)"
  "sys_write os a b c (with_caches d t s) = swap_caches2 d t (sys_write os a b c s)"
  "sys_open os a b c (with_caches d t s) = swap_caches2 d t (sys_open os a b c s)"
  "sys_close os a (with_caches d t s) = swap_caches2 d t (sys_close os a s)"
  "sys_link os a b (with_caches d t s) = swap_caches2 d t (sys_link os a b s)"
  "sys_unlink os a (with_caches d t s) = swap_caches2 d t (sys_unlink os a s)"
  by (auto simp: sys_gettimeofday_def sys_lseek_def sys_read_def sys_write_def sys_open_def
      sys_close_def sys_link_def sys_unlink_def case_prod_unfold Let_def read_stdin_caches
      write_console_caches intro!: chain_cong)

lemma return_a0_caches: "return_a0 (swap_caches2 d t r) = swap_caches d t (return_a0 r)"
  by (simp add: return_a0_def case_prod_unfold)

lemma syscall_switch_caches:
  "syscall_switch os a7 a0 a1 a2 (with_caches d t s) =
    swap_caches d t (syscall_switch os a7 a0 a1 a2 s)"
proof -
  have i: "Inr (v, with_caches d t s) = swap_caches2 d t (Inr (v, s))" for v and s :: "'a machine"
    by simp
  show ?thesis
    unfolding syscall_switch_def with_caches_fields with_caches_updates sys_caches case_prod_unfold Let_def
      i return_a0_caches
    by simp
qed

lemma syscall_caches: "syscall os (with_caches d t s) = swap_caches d t (syscall os s)"
  by (simp add: syscall_def syscall_switch_caches)

lemma exec_caches:
  "exec_load v (with_caches d t s) = map_option (swap_caches d t) (exec_load v s)"
  "exec_store v (with_caches d t s) = map_option (swap_caches d t) (exec_store v s)"
  "exec_system os v (with_caches d t s) = map_option (swap_caches d t) (exec_system os v s)"
  "exec_csr os v (with_caches d t s) = map_option (swap_caches d t) (exec_csr os v s)"
  by (auto simp: exec_load_def exec_store_def exec_system_def exec_csr_def case_prod_unfold Let_def
      syscall_caches option.map_comp comp_def intro!: option.map_cong chain_cong)

lemma or_else_map: "or_else (map_option f x) (map_option f y) = map_option f (or_else x y)"
  by (simp add: or_else_def split: option.split)

lemma exec_switch_caches:
  "exec_switch os v (with_caches d t s) = swap_caches d t (exec_switch os v s)"
proof -
  have "map_option (\<lambda>r. chain r (\<lambda>c. Inr (put_cpu (with_caches d t s) c))) x =
      map_option (swap_caches d t) (map_option (\<lambda>r. chain r (\<lambda>c. Inr (put_cpu s c))) x)" for x
    by (simp add: option.map_comp comp_def)
  then show ?thesis
    by (simp add: exec_switch_def exec_caches or_else_map split: option.split)
qed

lemma execute_caches: "execute os v (with_caches d t s) = swap_caches d t (execute os v s)"
  by (simp add: execute_def exec_switch_caches)

lemma run_insn_caches:
  "run_insn os v len (with_caches d t s) = swap_caches d t (run_insn os v len s)"
  by (simp add: run_insn_def Let_def case_prod_unfold execute_caches)

end
