(* ===== verification/Decomp16_Facts.thy ===== *)
theory Decomp16_Facts
  imports Decomp16 Isa_Decode
begin

text \<open>
  Encoding and decoding of the reference instructions are inverse (\<open>isa_roundtrip\<close>),
  field by field; every expansion in \<open>decomp16_table\<close> is such an encoding, so it decodes to
  the instruction the 16-bit word stands for and has the low bits of a 32-bit encoding.
\<close>

unbundle bit_operations_syntax

section \<open>Fields and immediates of an encoding\<close>

lemma fields_bits:
  "insn_fields f7 b a f3 r opc AND 0x7f = take_bit 7 opc"
  "bits 7 5 (insn_fields f7 b a f3 r opc) = take_bit 5 r"
  "bits 12 3 (insn_fields f7 b a f3 r opc) = take_bit 3 f3"
  "bits 15 5 (insn_fields f7 b a f3 r opc) = take_bit 5 a"
  "bits 20 5 (insn_fields f7 b a f3 r opc) = take_bit 5 b"
  "bits 25 7 (insn_fields f7 b a f3 r opc) = take_bit 7 f7"
proof -
  have "insn_fields f7 b a f3 r opc AND mask 7 = take_bit 7 opc"
    by (rule bit_word_eqI) (auto simp: insn_fields_def bit_simps)
  then show "insn_fields f7 b a f3 r opc AND 0x7f = take_bit 7 opc" by (simp add: mask_eq_exp_minus_1)
qed (rule bit_word_eqI, auto simp: insn_fields_def bit_simps bit_bits)+

lemma reg_fields:
  "x_rd (insn_fields f7 b a f3 (ucast r) opc) = r"
  "x_rs1 (insn_fields f7 b (ucast s) f3 rr opc) = s"
  "x_rs2 (insn_fields f7 (ucast t) a f3 rr opc) = t"
  unfolding x_rd_def x_rs1_def x_rs2_def fields_bits
  by (rule bit_word_eqI, simp add: bit_simps)+

lemma imm12_fields: "bits 20 12 (insn_fields (drop_bit 5 i) i a f3 r opc) = take_bit 12 i"
  by (rule bit_word_eqI) (auto simp: insn_fields_def bit_simps bit_bits)

lemma imm_I_fields:
  "signed_take_bit 11 i = i \<Longrightarrow> imm_I (insn_fields (drop_bit 5 i) i a f3 r opc) = i"
  by (simp add: imm_I_def imm12_fields signed_take_bit_take_bit)

lemma imm_S_fields:
  "signed_take_bit 11 i = i \<Longrightarrow> imm_S (insn_fields (drop_bit 5 i) b a f3 i opc) = i"
proof -
  have "push_bit 5 (take_bit 7 (drop_bit 5 i)) OR take_bit 5 i = take_bit 12 i"
    by (rule bit_word_eqI) (auto simp: bit_simps)
  then show "signed_take_bit 11 i = i \<Longrightarrow> imm_S (insn_fields (drop_bit 5 i) b a f3 i opc) = i"
    by (simp add: imm_S_def fields_bits signed_take_bit_take_bit)
qed

lemma imm_U_fields:
  "take_bit 12 i = 0 \<Longrightarrow>
    imm_U (insn_fields (drop_bit 25 i) (drop_bit 20 i) (drop_bit 15 i) (drop_bit 12 i) r opc) = i"
proof -
  assume z: "take_bit 12 i = 0"
  have low: "\<not> bit i n" if "n < 12" for n
    using arg_cong [OF z, of "\<lambda>x. bit x n"] that by (simp add: bit_simps)
  show ?thesis
    unfolding u32_eq_iff imm_U_def by (simp add: insn_fields_def bit_simps bit_bits low del: push_bit_Suc)
qed

lemma imm_B_fields:
  assumes "signed_take_bit 12 i = i" and "\<not> bit i 0"
  shows "imm_B (insn_fields (push_bit 6 (bits 12 1 i) OR bits 5 6 i) b a f3
    (push_bit 1 (bits 1 4 i) OR bits 11 1 i) opc) = i" (is "imm_B ?c = i")
proof -
  have "push_bit 12 (bits 31 1 ?c) OR push_bit 11 (bits 7 1 ?c) OR
     push_bit 5 (bits 25 6 ?c) OR push_bit 1 (bits 8 4 ?c) = take_bit 13 i"
    unfolding u32_eq_iff using assms(2)
    by (simp add: insn_fields_def bit_simps bit_bits del: push_bit_Suc flip: numeral_2_eq_2 numeral_3_eq_3)
  then show ?thesis using assms(1)
    by (simp add: imm_B_def signed_take_bit_take_bit)
qed

lemma imm_J_fields:
  assumes "signed_take_bit 20 i = i" and "\<not> bit i 0"
  shows "imm_J (insn_fields (push_bit 6 (bits 20 1 i) OR bits 5 6 i) (push_bit 1 (bits 1 4 i) OR bits 11 1 i)
      (drop_bit 15 i) (drop_bit 12 i) r opc) = i" (is "imm_J ?c = i")
proof -
  have "push_bit 20 (bits 31 1 ?c) OR push_bit 12 (bits 12 8 ?c) OR
     push_bit 11 (bits 20 1 ?c) OR push_bit 1 (bits 21 10 ?c) = take_bit 21 i"
    unfolding u32_eq_iff using assms(2)
    by (simp add: insn_fields_def bit_simps bit_bits del: push_bit_Suc flip: numeral_2_eq_2 numeral_3_eq_3)
  then show ?thesis using assms(1)
    by (simp add: imm_J_def signed_take_bit_take_bit)
qed

section \<open>The round trip\<close>

text \<open>The instructions an encoding exists for: immediates in range, no subtraction of an immediate.\<close>

fun isa_wf :: "isa \<Rightarrow> bool" where
  "isa_wf (I_LUI r i) \<longleftrightarrow> take_bit 12 i = 0"
| "isa_wf (I_AUIPC r i) \<longleftrightarrow> take_bit 12 i = 0"
| "isa_wf (I_JAL r i) \<longleftrightarrow> signed_take_bit 20 i = i \<and> \<not> bit i 0"
| "isa_wf (I_JALR r a i) \<longleftrightarrow> signed_take_bit 11 i = i"
| "isa_wf (I_BR k a b i) \<longleftrightarrow> signed_take_bit 12 i = i \<and> \<not> bit i 0"
| "isa_wf (I_LD k r a i) \<longleftrightarrow> signed_take_bit 11 i = i"
| "isa_wf (I_ST k a b i) \<longleftrightarrow> signed_take_bit 11 i = i"
| "isa_wf (I_IMM k r a i) \<longleftrightarrow>
    k \<noteq> A_SUB \<and> (if shift_alu k then take_bit 5 i = i else signed_take_bit 11 i = i)"
| "isa_wf (I_OP k r a b) \<longleftrightarrow> True"
| "isa_wf (I_MD k r a b) \<longleftrightarrow> True"
| "isa_wf (I_SYS k) \<longleftrightarrow> True"
| "isa_wf (I_CSR k r a n) \<longleftrightarrow> take_bit 12 n = n"
| "isa_wf (I_CSRI k r a n) \<longleftrightarrow> take_bit 12 n = n"

lemma small_field_1 [simp]: "take_bit 3 (alu_f3 k) = alu_f3 k"
  by (cases k) simp_all

lemma small_field_2 [simp]: "take_bit 3 (md_f3 k) = md_f3 k"
  by (cases k) simp_all

lemma small_field_3 [simp]: "take_bit 3 (br_f3 k) = br_f3 k"
  by (cases k) simp_all

lemma small_field_4 [simp]: "take_bit 3 (ld_f3 k) = ld_f3 k"
  by (cases k) simp_all

lemma small_field_5 [simp]: "take_bit 3 (st_f3 k) = st_f3 k"
  by (cases k) simp_all

lemma small_field_6 [simp]: "take_bit 3 (csr_f3 k) = csr_f3 k"
  by (cases k) simp_all

lemma small_field_7 [simp]: "take_bit 7 (alu_f7 k) = alu_f7 k"
  by (simp add: alu_f7_def)

lemma small_field_8 [simp]: "take_bit 3 (csr_f3 k + 4) = csr_f3 k + 4"
  by (cases k) simp_all

lemma f3_decode_1: "isa_md (md_f3 k) = Some k"
  by (cases k) (simp_all add: isa_md_def)

lemma f3_decode_2: "isa_br (br_f3 k) = Some k"
  by (cases k) (simp_all add: isa_br_def)

lemma f3_decode_3: "isa_ld (ld_f3 k) = Some k"
  by (cases k) (simp_all add: isa_ld_def)

lemma f3_decode_4: "isa_st (st_f3 k) = Some k"
  by (cases k) (simp_all add: isa_st_def)

lemma f3_decode_5: "isa_csr (csr_f3 k) = Some k"
  by (cases k) (simp_all add: isa_csr_def)

lemma f3_decode_6: "isa_op (alu_f7 k) (alu_f3 k) = Some k"
  by (cases k) (simp_all add: isa_op_def alu_f7_def)

lemma f3_decode_7: "isa_csr (csr_f3 k + 4 - 4) = Some k"
  by (cases k) (simp_all add: isa_csr_def)

lemmas f3_decode = f3_decode_1 f3_decode_2 f3_decode_3 f3_decode_4 f3_decode_5 f3_decode_6 f3_decode_7

lemma imm_decode:
  "shift_alu k \<Longrightarrow> isa_imm (alu_f7 k) (alu_f3 k) = Some k"
  "k \<noteq> A_SUB \<Longrightarrow> \<not> shift_alu k \<Longrightarrow> isa_imm x (alu_f3 k) = Some k"
  by (cases k; simp add: isa_imm_def alu_f7_def shift_alu_def)+

lemma csr_range1: "csr_f3 k \<noteq> 0"
  by (cases k) simp_all

lemma csr_range2: "\<not> 5 \<le> csr_f3 k"
  by (cases k) (simp_all add: word_le_nat_alt)

lemma csr_range3: "csr_f3 k + 4 \<noteq> 0 \<and> 5 \<le> csr_f3 k + 4"
  by (cases k) simp_all

lemma alu_f7_one: "alu_f7 k \<noteq> 1" by (simp add: alu_f7_def)

lemmas field_simps_isa = isa_decode_def Let_def fields_bits reg_fields imm_U_fields imm_J_fields imm_I_fields imm_B_fields
   imm_S_fields imm12_fields f3_decode imm_decode csr_range1 csr_range2 csr_range3 alu_f7_one

lemma isa_roundtrip: "isa_wf i \<Longrightarrow> isa_decode (isa_encode i) = Some i"
proof (cases i)
  case (I_SYS k)
  then show ?thesis by (cases k) (simp_all add: isa_decode_def isa_sys_def bits_def mask_eq_exp_minus_1)
next
  case (I_IMM k r a j)
  assume "isa_wf i"
  then show ?thesis using I_IMM
    by (auto simp: field_simps_isa)
next
  case (I_JAL r j)
  assume "isa_wf i"
  then have "imm_J (isa_encode i) = j" using I_JAL by (auto simp only: isa_encode.simps isa_wf.simps intro!: imm_J_fields)
  then show ?thesis using I_JAL by (simp add: field_simps_isa)
next
  case (I_BR k a b j)
  assume "isa_wf i"
  then have "imm_B (isa_encode i) = j" using I_BR by (auto simp only: isa_encode.simps isa_wf.simps intro!: imm_B_fields)
  then show ?thesis using I_BR by (simp add: field_simps_isa)
qed (simp_all add: field_simps_isa)

section \<open>Every expansion\<close>

lemma signed_take_bit_mono:
  "n \<le> m \<Longrightarrow> signed_take_bit m (signed_take_bit n (x :: u32)) = signed_take_bit n x"
  by (rule bit_word_eqI) (auto simp: bit_simps min_def)

lemma signed_take_bit_small:
  "take_bit n x = x \<Longrightarrow> n \<le> m \<Longrightarrow> signed_take_bit m (x :: u32) = x"
proof -
  assume x: "take_bit n x = x" and "n \<le> m"
  have "signed_take_bit m (take_bit n x) = take_bit n x"
    using \<open>n \<le> m\<close> by (intro bit_word_eqI) (auto simp: bit_simps min_def)
  then show ?thesis by (simp add: x)
qed

lemma rvc_imm_wf:
  "n \<ge> 5 \<Longrightarrow> signed_take_bit n (rvc_imm6 w) = rvc_imm6 w"
  "signed_take_bit 20 (rvc_j w) = rvc_j w" "\<not> bit (rvc_j w) 0"
  "signed_take_bit 12 (rvc_b w) = rvc_b w" "\<not> bit (rvc_b w) 0"
  "signed_take_bit 11 (rvc_16sp w) = rvc_16sp w"
  by (simp_all add: rvc_imm6_def rvc_j_def rvc_b_def rvc_16sp_def signed_take_bit_mono bit_simps
      bit_bits del: push_bit_Suc)

lemma rvc_offset_wf:
  "signed_take_bit 11 (rvc_lw w) = rvc_lw w" "signed_take_bit 11 (rvc_4spn w) = rvc_4spn w"
  "signed_take_bit 11 (rvc_lwsp w) = rvc_lwsp w" "signed_take_bit 11 (rvc_swsp w) = rvc_swsp w"
proof -
  have "take_bit 11 (rvc_lw w) = rvc_lw w" "take_bit 11 (rvc_4spn w) = rvc_4spn w"
    "take_bit 11 (rvc_lwsp w) = rvc_lwsp w" "take_bit 11 (rvc_swsp w) = rvc_swsp w"
    by (rule bit_word_eqI, auto simp: rvc_lw_def rvc_4spn_def rvc_lwsp_def rvc_swsp_def bit_simps bit_bits)+
  then show "signed_take_bit 11 (rvc_lw w) = rvc_lw w" "signed_take_bit 11 (rvc_4spn w) = rvc_4spn w"
    "signed_take_bit 11 (rvc_lwsp w) = rvc_lwsp w" "signed_take_bit 11 (rvc_swsp w) = rvc_swsp w"
    by (auto intro: signed_take_bit_small)
qed

lemma rvc_shamt_wf: "take_bit 5 (bits 2 5 w) = bits 2 5 (w :: u32)"
  by (rule bit_word_eqI) (auto simp: bit_simps bit_bits)

lemma rvc_lui_wf: "take_bit 12 (push_bit 12 x) = (0 :: u32)"
  by (rule bit_word_eqI) (auto simp: bit_simps)

lemma rvc_isa_wf: "rvc_isa c = Some i \<Longrightarrow> isa_wf i"
  by (auto simp: rvc_isa_def rvc_q0_def rvc_q1_def rvc_q2_def rvc_alu_def Let_def shift_alu_def
      rvc_imm_wf rvc_offset_wf rvc_shamt_wf rvc_lui_wf split: if_splits)

lemma rvc_decodes: "rvc_isa c = Some i \<Longrightarrow> isa_decode (decomp16_table c) = Some i"
  by (simp add: decomp16_table_def isa_roundtrip rvc_isa_wf)

lemma rvc_low_bits: "rvc_isa c = Some i \<Longrightarrow> decomp16_table c AND 3 = 3"
proof -
  assume "rvc_isa c = Some i"
  have "isa_encode i AND 3 = 3"
  proof -
    have y: "(sys_word k AND 0x7f) AND 3 = 3" for k by (cases k) simp_all
    have m: "isa_encode i AND 3 = (isa_encode i AND 0x7f) AND 3"
      by (simp add: and.assoc)
    show ?thesis
      unfolding m by (cases i rule: isa_encode.cases) (simp_all add: fields_bits y)
  qed
  then show ?thesis using \<open>rvc_isa c = Some i\<close> by (simp add: decomp16_table_def)
qed

end
