(* ===== verification/Run_Facts.thy ===== *)
theory Run_Facts
  imports Exec_Frame Decomp16_Facts
begin

text \<open>
  The run loop against a loop without caches. \<open>vliw_insn\<close> is untagged: a slot belongs to
  every program counter with the same 21 bits above bit 0. It is a \<open>memo\<close> table for the even
  addresses of a 4 MB window (\<open>in_window\<close>), and as long as the text does not change and the
  program counter stays even, the loop computes what \<open>step_ref\<close> does, which decodes each
  instruction from the text it is about to run.
\<close>

unbundle bit_operations_syntax

section \<open>The instruction cache\<close>

definition in_window :: "u32 \<Rightarrow> u32 \<Rightarrow> bool" where
  "in_window base p \<longleftrightarrow> \<not> bit p 0 \<and> p - base < 0x400000"

lemma vliw_index_bits: "vliw_index p = take_bit 21 (drop_bit 1 p)"
  by (simp add: vliw_index_def vliw_mask_def take_bit_eq_mask mask_eq_exp_minus_1)

lemma take_bit_minus_cong:
  assumes "take_bit 22 p = take_bit 22 (q :: u32)"
  shows "take_bit 22 (p - b) = take_bit 22 (q - b)"
proof -
  have u: "uint (take_bit 22 (x - b)) = take_bit 22 (take_bit 22 (uint x) - take_bit 22 (uint b))" for x
    by (simp add: unsigned_take_bit_eq uint_word_arith_bintrs(2) take_bit_take_bit take_bit_diff)
  have "take_bit 22 (uint p) = take_bit 22 (uint q)"
    using arg_cong [OF assms, of uint] by (simp add: unsigned_take_bit_eq)
  then have "uint (take_bit 22 (p - b)) = uint (take_bit 22 (q - b))" by (simp add: u)
  then show ?thesis by (simp add: word_uint_eq_iff)
qed

lemma vliw_index_inj:
  assumes "in_window base p" and "in_window base q" and "vliw_index p = vliw_index q"
  shows "p = q"
proof -
  have e: "bit p (Suc n) = bit q (Suc n)" if "n < 21" for n
    using arg_cong [OF assms(3), of "\<lambda>x. bit x n"] that
    by (simp add: vliw_index_bits bit_simps)
  have "take_bit 22 p = take_bit 22 q"
  proof (rule bit_word_eqI)
    fix n
    assume "n < LENGTH(32)"
    show "bit (take_bit 22 p) n = bit (take_bit 22 q) n"
      using e [of "n - 1"] assms(1,2) by (cases n) (auto simp: bit_simps in_window_def)
  qed
  then have "take_bit 22 (p - base) = take_bit 22 (q - base)"
    by (rule take_bit_minus_cong)
  moreover have "take_bit 22 (x - base) = x - base" if "in_window base x" for x
    using that by (simp add: in_window_def word_unat_eq_iff word_less_nat_alt unsigned_take_bit_eq
        take_bit_nat_eq_self_iff)
  ultimately show ?thesis using assms(1,2) by simp
qed

interpretation vcache: memo vliw_lookup vliw_store vliw_insn_start "in_window base" "\<lambda>v. opcode v \<noteq> VLIW_NONE"
  for base :: u32
  by unfold_locales
    (auto simp: vliw_lookup_def vliw_store_def vliw_insn_start_def Vliw_clear_def Let_def
      split: if_splits dest: vliw_index_inj)

section \<open>The loop without caches\<close>

definition step_ref :: "'h os \<Rightarrow> 'h machine \<Rightarrow> 'h machine result" where
  "step_ref os s =
    chain (fetch_code (memory s) (cpu s)) (\<lambda>(code32, len).
    chain (decode_slow code32) (\<lambda>(ok, v). run_insn os v len s))"

fun run_ref :: "'h os \<Rightarrow> nat \<Rightarrow> 'h machine \<Rightarrow> 'h machine result" where
  "run_ref os 0 s = Inr s"
| "run_ref os (Suc n) s =
    (if running (cpu s) then
       chain (step_ref os s) (\<lambda>s.
         if stop (cpu s) then Inr (s\<lparr>cpu := (cpu s)\<lparr>stop := False\<rparr>\<rparr>)
         else run_ref os n s)
     else Inr s)"

text \<open>The instruction a program counter stands for, in the current text.\<close>

definition insn_at :: "memory \<Rightarrow> u32 \<Rightarrow> vliw option" where
  "insn_at m p =
    (case chain (Segment_fetch32 (insnMem m) p) expand of
       Inl _ \<Rightarrow> None
     | Inr (code32, len) \<Rightarrow>
         (case decode_slow code32 of Inl _ \<Rightarrow> None | Inr (ok, v) \<Rightarrow> Some v))"

definition caches_ok :: "'h machine \<Rightarrow> bool" where
  "caches_ok s \<longleftrightarrow> decoder_ok (decoder s) \<and>
    memo_sound vliw_lookup (in_window (memBase (insnMem (memory s)))) (insn_at (memory s)) (vliw_insn s)"

lemma caches_ok_start: "decoder s = decoder_start \<Longrightarrow> vliw_insn s = vliw_insn_start \<Longrightarrow> caches_ok s"
  by (simp add: caches_ok_def decoder_ok_start vcache.sound_start)

lemma insn_at_text: "insnMem m = insnMem m' \<Longrightarrow> insn_at m = insn_at m'"
  by (simp add: insn_at_def fun_eq_iff)

definition small_text :: "memory \<Rightarrow> bool" where
  "small_text m \<longleftrightarrow> length (data (insnMem m)) \<le> 0x400000"

lemma fetch_in_window:
  assumes "fetch_code m c = Inr r" and "small_text m" and "\<not> bit (pc c) 0"
  shows "in_window (memBase (insnMem m)) (pc c)"
proof -
  have "seg_off (insnMem m) (pc c) + 4 \<le> 0x400000"
    using assms(1,2)
    by (auto simp: fetch_code_def Cpu_fetch_def Segment_fetch32_def seg_load_def small_text_def
        faultfacts split: if_splits)
  then show ?thesis
    using assms(3) by (simp add: in_window_def seg_off_def word_less_nat_alt)
qed

lemma expand_low: "expand code = Inr (code32, len) \<Longrightarrow> code32 AND 3 = 3"
proof -
  assume e: "expand code = Inr (code32, len)"
  have low: "x AND 3 = 3" if "decomp16_table c = x" "x \<noteq> 0" for c x
    using that rvc_low_bits [of c] by (cases "rvc_isa c") (auto simp: decomp16_table_def)
  show ?thesis
    using e low [of "ucast code"] by (auto simp: expand_def Let_def split: if_splits)
qed

lemma fetch_low: "fetch_code m c = Inr (code32, len) \<Longrightarrow> code32 AND 3 = 3"
  by (auto simp: fetch_code_def faultfacts dest: expand_low)

lemma insn_at_fetch:
  assumes "fetch_code m c = Inr (code32, len)"
  shows "insn_at m (pc c) = (case decode_slow code32 of Inl _ \<Rightarrow> None | Inr (ok, v) \<Rightarrow> Some v)"
  using assms by (simp add: insn_at_def fetch_code_def Cpu_fetch_def)

text \<open>Decoding through the caches gives what decoding afresh gives, and keeps them sound.\<close>

lemma decode_cached_ref:
  assumes ok: "caches_ok s" and f: "fetch_code (memory s) (cpu s) = Inr (code32, len)"
    and w: "in_window (memBase (insnMem (memory s))) (pc (cpu s))"
  shows "case decode_cached code32 s of
      Inl e \<Rightarrow> decode_slow code32 = Inl e
    | Inr (v, s') \<Rightarrow> (\<exists>ok. decode_slow code32 = Inr (ok, v)) \<and>
        (\<exists>d t. s' = with_caches d t s) \<and> caches_ok s'"
proof -
  let ?p = "pc (cpu s)"
  have same: "s = with_caches (decoder s) (vliw_insn s) s" by (simp add: with_caches_def)
  have at: "insn_at (memory s) ?p = (case decode_slow code32 of Inl _ \<Rightarrow> None | Inr (ok, v) \<Rightarrow> Some v)"
    using f by (rule insn_at_fetch)
  have d: "decoder_ok (decoder s)" and m: "memo_sound vliw_lookup
      (in_window (memBase (insnMem (memory s)))) (insn_at (memory s)) (vliw_insn s)"
    using ok by (simp_all add: caches_ok_def)
  show ?thesis
  proof (cases "vliw_lookup (vliw_insn s) ?p")
    case (Some v)
    have "insn_at (memory s) ?p = Some v" using vcache.hit [OF m w Some] .
    then have "\<exists>ok. decode_slow code32 = Inr (ok, v)"
      using at by (auto split: sum.splits)
    moreover have "\<exists>d t. s = with_caches d t s" using same by blast
    ultimately show ?thesis using Some ok by (simp add: decode_cached_def Let_def)
  next
    case None
    have ref: "decode_ref code32 = decode_slow code32"
      using fetch_low [OF f] by (simp add: decode_ref_def)
    show ?thesis
    proof (cases "decode2vliw code32 (decoder s)")
      case (Inl e)
      then have "decode_slow code32 = Inl e"
        using decode2vliw_transparent [OF d, of code32] ref by simp
      then show ?thesis using None Inl by (simp add: decode_cached_def Let_def)
    next
      case (Inr r)
      obtain okk v d' where r: "r = ((okk, v), d')" by (cases r) auto
      have t: "decode_slow code32 = Inr (okk, v)" "decoder_ok d'"
        using decode2vliw_transparent [OF d, of code32] ref Inr r by auto
      then have "insn_at (memory s) ?p = Some v" using at by simp
      then have "memo_sound vliw_lookup (in_window (memBase (insnMem (memory s))))
          (insn_at (memory s)) (vliw_store ?p v (vliw_insn s))"
        by (rule vcache.sound_store [OF m w])
      then show ?thesis using None Inr r t
        by (auto simp: decode_cached_def Let_def caches_ok_def with_caches_def)
    qed
  qed
qed

lemma keeps_caches_ok:
  assumes "keeps s s'" and "insnMem (memory s') = insnMem (memory s)" and "caches_ok s"
  shows "caches_ok s'"
  using assms insn_at_text [OF assms(2)] by (simp add: caches_ok_def keeps_def)

lemma run_insn_keeps_but:
  assumes "run_insn os v len s = Inr s'"
  shows "layout (memory s') = layout (memory s) \<and> do_newlib s' = do_newlib s \<and>
    decoder s' = decoder s \<and> vliw_insn s' = vliw_insn s \<and>
    length (reg (cpu s')) = length (reg (cpu s)) \<and>
    (do_newlib s \<or> do_core (memory s) \<or> insnMem (memory s') = insnMem (memory s))"
proof -
  obtain u t where t: "keeps (put_cpu s u) t" "s' = t\<lparr>cpu := (cpu t)\<lparr>pc := pc_next (cpu t), cycle := cycle (cpu t) + 1\<rparr>\<rparr>"
    and u: "length (reg u) = length (reg (cpu s))"
    using assms by (auto simp: run_insn_def Let_def case_prod_unfold faultfacts dest!: execute_keeps)
  then show ?thesis by (auto simp: keeps_def put_cpu_def)
qed

lemma run_step_ref:
  assumes ok: "caches_ok s" and small: "small_text (memory s)" and even: "\<not> bit (pc (cpu s)) 0"
  shows "swap_caches d t (run_step os s) = step_ref os (with_caches d t s)"
    and "run_step os s = Inr s' \<Longrightarrow> insnMem (memory s') = insnMem (memory s) \<Longrightarrow> caches_ok s'"
proof -
  have "swap_caches d t (run_step os s) = step_ref os (with_caches d t s) \<and>
    (run_step os s = Inr s' \<longrightarrow> insnMem (memory s') = insnMem (memory s) \<longrightarrow> caches_ok s')"
  proof (cases "fetch_code (memory s) (cpu s)")
    case (Inl e)
    then show ?thesis by (simp add: run_step_def step_ref_def)
  next
    case (Inr r)
    obtain code32 len where r: "r = (code32, len)" by (cases r)
    have f: "fetch_code (memory s) (cpu s) = Inr (code32, len)" using Inr r by simp
    have w: "in_window (memBase (insnMem (memory s))) (pc (cpu s))"
      using fetch_in_window [OF f small even] .
    note dc = decode_cached_ref [OF ok f w]
    show ?thesis
    proof (cases "decode_cached code32 s")
      case (Inl e)
      then show ?thesis using dc f by (simp add: run_step_def step_ref_def)
    next
      case (Inr q)
      obtain v s1 where q: "q = (v, s1)" by (cases q)
      obtain okk d1 t1 where dec: "decode_slow code32 = Inr (okk, v)"
        and s1: "s1 = with_caches d1 t1 s" "caches_ok s1"
        using dc Inr q by auto
      have step: "run_step os s = run_insn os v len s1"
        using f Inr q by (simp add: run_step_def)
      have ref: "step_ref os (with_caches d t s) = run_insn os v len (with_caches d t s)"
        using f dec by (simp add: step_ref_def)
      have "swap_caches d t (run_insn os v len s1) = run_insn os v len (with_caches d t s)"
        unfolding s1(1) by (simp add: run_insn_caches sum.map_comp comp_def id_def)
      moreover have "caches_ok s'"
        if "run_insn os v len s1 = Inr s'" "insnMem (memory s') = insnMem (memory s)"
        using run_insn_keeps_but [OF that(1)] that(2) s1 insn_at_text [of "memory s'" "memory s1"]
        by (simp add: caches_ok_def)
      ultimately show ?thesis using step ref by simp
    qed
  qed
  then show "swap_caches d t (run_step os s) = step_ref os (with_caches d t s)"
    and "run_step os s = Inr s' \<Longrightarrow> insnMem (memory s') = insnMem (memory s) \<Longrightarrow> caches_ok s'"
    by blast+
qed

section \<open>The whole loop\<close>

text \<open>
  \<open>steady\<close>: in each of the next \<open>n\<close> turns of the loop without caches, the program counter
  is even and the turn leaves the text as it is.
\<close>

fun steady :: "'h os \<Rightarrow> nat \<Rightarrow> 'h machine \<Rightarrow> bool" where
  "steady os 0 s \<longleftrightarrow> True"
| "steady os (Suc n) s \<longleftrightarrow>
    (if running (cpu s) then
       \<not> bit (pc (cpu s)) 0 \<and>
       (case step_ref os s of
          Inl _ \<Rightarrow> True
        | Inr s' \<Rightarrow> insnMem (memory s') = insnMem (memory s) \<and> (stop (cpu s') \<or> steady os n s'))
     else True)"

lemma run_loop_ref:
  assumes "caches_ok s" and "small_text (memory s)" and "steady os n (with_caches d t s)"
  shows "swap_caches d t (run_loop os n s) = run_ref os n (with_caches d t s)"
  using assms
proof (induction n arbitrary: s)
  case 0
  then show ?case by simp
next
  case (Suc n)
  show ?case
  proof (cases "running (cpu s)")
    case False
    then show ?thesis by simp
  next
    case True
    then have even: "\<not> bit (pc (cpu s)) 0" using Suc.prems(3) by simp
    note step = run_step_ref [OF Suc.prems(1,2) even]
    show ?thesis
    proof (cases "run_step os s")
      case (Inl e)
      then have "step_ref os (with_caches d t s) = Inl e" using step(1) [of d t os] by simp
      then show ?thesis using Inl True by simp
    next
      case (Inr s')
      then have ref: "step_ref os (with_caches d t s) = Inr (with_caches d t s')"
        using step(1) [of d t os] by simp
      then have same: "insnMem (memory s') = insnMem (memory s)"
        using Suc.prems(3) True by simp
      show ?thesis
      proof (cases "stop (cpu s')")
        case stop: True
        then show ?thesis using Inr ref True by simp
      next
        case False
        then have "swap_caches d t (run_loop os n s') = run_ref os n (with_caches d t s')"
          using Suc.prems Inr True ref same step(2) by (intro Suc.IH) (auto simp: small_text_def)
        then show ?thesis using Inr ref True False by (simp add: id_def)
      qed
    qed
  qed
qed

text \<open>Without \<open>--newlib\<close> and \<open>--core\<close> no instruction changes the text.\<close>

lemma step_ref_text:
  assumes "step_ref os s = Inr s'" and "\<not> do_newlib s" and "\<not> do_core (memory s)"
  shows "insnMem (memory s') = insnMem (memory s)"
proof -
  obtain v len where "run_insn os v len s = Inr s'"
    using assms(1) by (auto simp: step_ref_def faultfacts)
  from run_insn_keeps_but [OF this] assms show ?thesis by blast
qed

section \<open>Steps\<close>

text \<open>
  The loop as a relation: \<open>turns os k s s'\<close> when \<open>k\<close> turns lead from \<open>s\<close> to \<open>s'\<close>, each but
  the last leaving \<open>running\<close> set and \<open>stop\<close> clear.
\<close>

inductive turns :: "'h os \<Rightarrow> nat \<Rightarrow> 'h machine \<Rightarrow> 'h machine \<Rightarrow> bool" for os where
  turns_0: "turns os 0 s s"
| turns_Suc: "running (cpu s) \<Longrightarrow> run_step os s = Inr s1 \<Longrightarrow> k = 0 \<or> \<not> stop (cpu s1) \<Longrightarrow>
    turns os k s1 s2 \<Longrightarrow> turns os (Suc k) s s2"

inductive_cases turns_0E: "turns os 0 s s'"
inductive_cases turns_SucE: "turns os (Suc k) s s'"
inductive_simps turns_0_iff: "turns os 0 s s'"

definition halted :: "'h machine \<Rightarrow> 'h machine \<Rightarrow> bool" where
  "halted t s' \<longleftrightarrow>
    stop (cpu t) \<and> s' = t\<lparr>cpu := (cpu t)\<lparr>stop := False\<rparr>\<rparr> \<or> \<not> running (cpu t) \<and> s' = t"

lemma run_loop_turns:
  assumes "run_loop os n s = Inr s'" and "\<not> stop (cpu s)"
  shows "\<exists>k t. k \<le> n \<and> turns os k s t \<and> (k = n \<and> s' = t \<and> \<not> stop (cpu t) \<or> halted t s')"
  using assms
proof (induction n arbitrary: s)
  case 0
  then show ?case by (auto intro: turns_0)
next
  case (Suc n)
  show ?case
  proof (cases "running (cpu s)")
    case False
    then show ?thesis using Suc.prems
      by (intro exI [of _ 0] exI [of _ s]) (auto intro: turns_0 simp: halted_def)
  next
    case True
    then obtain s1 where s1: "run_step os s = Inr s1"
      using Suc.prems by (auto simp: faultfacts)
    show ?thesis
    proof (cases "stop (cpu s1)")
      case stop: True
      then have "halted s1 s'" using Suc.prems True s1 by (auto simp: halted_def)
      moreover have "turns os 1 s s1"
        using True s1 by (auto intro: turns_Suc turns_0 simp: One_nat_def)
      ultimately show ?thesis by (intro exI [of _ 1] exI [of _ s1]) auto
    next
      case False
      then obtain k t where "k \<le> n" "turns os k s1 t"
        "k = n \<and> s' = t \<and> \<not> stop (cpu t) \<or> halted t s'"
        using Suc.IH [of s1] Suc.prems True s1 by auto
      with True s1 False show ?thesis
        by (intro exI [of _ "Suc k"] exI [of _ t]) (auto intro: turns_Suc)
    qed
  qed
qed

text \<open>An invariant of the turn is an invariant of the loop.\<close>

lemma turns_invariant:
  assumes "turns os k s s'" and "P s"
    and "\<And>t t'. P t \<Longrightarrow> run_step os t = Inr t' \<Longrightarrow> P t'"
  shows "P s'"
  using assms(1,2) by (induction rule: turns.induct) (auto intro: assms(3))

end
