(* ===== verification/Isa_Exec.thy ===== *)
theory Isa_Exec
  imports Run_Facts
begin

text \<open>
  A reference for what the instructions do, written from the manual over integers: registers
  as a function with a hard-wired \<open>x0\<close>, the address of the next instruction, and memory.
  \<open>execute\<close> on the \<open>Vliw\<close> of an instruction simulates it (\<open>execute_refines\<close>), for every
  instruction that stays with registers and memory; the traps, control registers and the
  host port have theories of their own. \<open>host_ok\<close> names the two places where the program
  leaves the manual: a division the host's processor traps on, and a jump to an odd target.
\<close>

unbundle bit_operations_syntax

section \<open>The reference\<close>

record astate =
  gpr :: "ireg \<Rightarrow> u32"
  apc :: u32
  amem :: memory

definition xset :: "ireg \<Rightarrow> u32 \<Rightarrow> (ireg \<Rightarrow> u32) \<Rightarrow> (ireg \<Rightarrow> u32)" where
  "xset r x g = (if r = 0 then g else g(r := x))"

fun alu_sem :: "alu \<Rightarrow> u32 \<Rightarrow> u32 \<Rightarrow> u32" where
  "alu_sem A_ADD a b = word_of_int (uint a + uint b)"
| "alu_sem A_SUB a b = word_of_int (uint a - uint b)"
| "alu_sem A_SLL a b = word_of_int (uint a * 2 ^ (unat b mod 32))"
| "alu_sem A_SLT a b = (if sint a < sint b then 1 else 0)"
| "alu_sem A_SLTU a b = (if uint a < uint b then 1 else 0)"
| "alu_sem A_XOR a b = a XOR b"
| "alu_sem A_SRL a b = word_of_int (uint a div 2 ^ (unat b mod 32))"
| "alu_sem A_SRA a b = word_of_int (sint a div 2 ^ (unat b mod 32))"
| "alu_sem A_OR a b = a OR b"
| "alu_sem A_AND a b = a AND b"

fun md_sem :: "muldiv \<Rightarrow> u32 \<Rightarrow> u32 \<Rightarrow> u32" where
  "md_sem M_MUL a b = word_of_int (sint a * sint b)"
| "md_sem M_MULH a b = word_of_int (sint a * sint b div 2 ^ 32)"
| "md_sem M_MULHSU a b = word_of_int (sint a * uint b div 2 ^ 32)"
| "md_sem M_MULHU a b = word_of_int (uint a * uint b div 2 ^ 32)"
| "md_sem M_DIV a b = (if b = 0 then - 1 else word_of_int (sint a sdiv sint b))"
| "md_sem M_DIVU a b = (if b = 0 then - 1 else word_of_int (uint a div uint b))"
| "md_sem M_REM a b = (if b = 0 then a else word_of_int (sint a smod sint b))"
| "md_sem M_REMU a b = (if b = 0 then a else word_of_int (uint a mod uint b))"

fun cond_sem :: "cond \<Rightarrow> u32 \<Rightarrow> u32 \<Rightarrow> bool" where
  "cond_sem B_EQ a b \<longleftrightarrow> a = b" | "cond_sem B_NE a b \<longleftrightarrow> a \<noteq> b"
| "cond_sem B_LT a b \<longleftrightarrow> sint a < sint b" | "cond_sem B_GE a b \<longleftrightarrow> sint b \<le> sint a"
| "cond_sem B_LTU a b \<longleftrightarrow> uint a < uint b" | "cond_sem B_GEU a b \<longleftrightarrow> uint b \<le> uint a"

fun ld_size :: "lwidth \<Rightarrow> nat" where
  "ld_size L_B = 1" | "ld_size L_BU = 1" | "ld_size L_H = 2" | "ld_size L_HU = 2" | "ld_size L_W = 4"

fun ld_sem :: "lwidth \<Rightarrow> u8 list \<Rightarrow> u32" where
  "ld_sem L_B bs = signed_take_bit 7 (le_word bs)"
| "ld_sem L_H bs = signed_take_bit 15 (le_word bs)"
| "ld_sem k bs = le_word bs"

fun st_size :: "swidth \<Rightarrow> nat" where
  "st_size S_B = 1" | "st_size S_H = 2" | "st_size S_W = 4"

text \<open>
  \<open>None\<close>: outside the reference (a system instruction, or an address that is not memory
  the access may touch).
\<close>

fun isa_exec :: "isa \<Rightarrow> u32 \<Rightarrow> astate \<Rightarrow> astate option" where
  "isa_exec (I_LUI r i) len a = Some (a\<lparr>gpr := xset r i (gpr a), apc := apc a + len\<rparr>)"
| "isa_exec (I_AUIPC r i) len a = Some (a\<lparr>gpr := xset r (apc a + i) (gpr a), apc := apc a + len\<rparr>)"
| "isa_exec (I_JAL r i) len a = Some (a\<lparr>gpr := xset r (apc a + len) (gpr a), apc := apc a + i\<rparr>)"
| "isa_exec (I_JALR r s i) len a =
    Some (a\<lparr>gpr := xset r (apc a + len) (gpr a), apc := (gpr a s + i) AND NOT 1\<rparr>)"
| "isa_exec (I_BR k s t i) len a =
    Some (a\<lparr>apc := (if cond_sem k (gpr a s) (gpr a t) then apc a + i else apc a + len)\<rparr>)"
| "isa_exec (I_LD k r s i) len a =
    (if readable (amem a) (gpr a s + i)
     then (case mem_load (amem a) (gpr a s + i) (ld_size k) of
             Inl _ \<Rightarrow> None
           | Inr bs \<Rightarrow> Some (a\<lparr>gpr := xset r (ld_sem k bs) (gpr a), apc := apc a + len\<rparr>))
     else None)"
| "isa_exec (I_ST k s t i) len a =
    (if writable (amem a) (gpr a s + i)
     then (case mem_store (amem a) (gpr a s + i) (le_bytes (st_size k) (gpr a t)) of
             Inl _ \<Rightarrow> None
           | Inr m \<Rightarrow> Some (a\<lparr>amem := m, apc := apc a + len\<rparr>))
     else None)"
| "isa_exec (I_IMM k r s i) len a =
    Some (a\<lparr>gpr := xset r (alu_sem k (gpr a s) i) (gpr a), apc := apc a + len\<rparr>)"
| "isa_exec (I_OP k r s t) len a =
    Some (a\<lparr>gpr := xset r (alu_sem k (gpr a s) (gpr a t)) (gpr a), apc := apc a + len\<rparr>)"
| "isa_exec (I_MD k r s t) len a =
    Some (a\<lparr>gpr := xset r (md_sem k (gpr a s) (gpr a t)) (gpr a), apc := apc a + len\<rparr>)"
| "isa_exec (I_SYS k) len a = None"
| "isa_exec (I_CSR k r s n) len a = None"
| "isa_exec (I_CSRI k r s n) len a = None"

definition md_traps :: "muldiv \<Rightarrow> u32 \<Rightarrow> u32 \<Rightarrow> bool" where
  "md_traps k a b \<longleftrightarrow>
    k \<in> {M_DIV, M_REM} \<and> trap_div a b \<or> k \<in> {M_DIVU, M_REMU} \<and> b = 0"

fun host_ok :: "isa \<Rightarrow> astate \<Rightarrow> bool" where
  "host_ok (I_JALR r s i) a \<longleftrightarrow> \<not> bit (gpr a s + i) 0"
| "host_ok (I_MD k r s t) a \<longleftrightarrow> \<not> md_traps k (gpr a s) (gpr a t)"
| "host_ok _ a \<longleftrightarrow> True"

section \<open>The operations agree\<close>

lemma shamt_mod: "unat (b AND 0x1f) = unat (b :: u32) mod 32"
proof -
  have "b AND 0x1f = take_bit 5 b" by (simp add: take_bit_eq_mask mask_eq_exp_minus_1)
  then have "unat (b AND 0x1f) = take_bit 5 (unat b)" by (simp only: unsigned_take_bit_eq)
  then show ?thesis by (simp add: take_bit_eq_mod)
qed

lemma drop_of_int:
  "drop_bit n (a :: u32) = word_of_int (uint a div 2 ^ n)"
  "signed_drop_bit n a = word_of_int (sint a div 2 ^ n)"
  "push_bit n a = word_of_int (uint a * 2 ^ n)"
proof -
  show "drop_bit n a = word_of_int (uint a div 2 ^ n)"
    unfolding drop_bit_eq_div [symmetric]
    by (rule bit_word_eqI) (auto simp: bit_simps)
  show "signed_drop_bit n a = word_of_int (sint a div 2 ^ n)"
    unfolding drop_bit_eq_div [symmetric]
  proof (rule bit_word_eqI)
    fix m
    assume "m < LENGTH(32)"
    then show "bit (signed_drop_bit n a) m = bit (word_of_int (drop_bit n (sint a)) :: u32) m"
      by (cases "n + m = 31") (auto simp: bit_simps min_def)
  qed
  show "push_bit n a = word_of_int (uint a * 2 ^ n)"
    unfolding push_bit_eq_mult [symmetric]
    by (rule bit_word_eqI) (auto simp: bit_simps)
qed

lemma high_word: "(ucast (signed_drop_bit 32 (word_of_int k :: u64)) :: u32) = word_of_int (k div 2 ^ 32)"
  unfolding drop_bit_eq_div [symmetric]
  by (rule bit_word_eqI) (auto simp: bit_simps min_def add.commute)

lemma scast_ucast_int: "(scast (a :: u32) :: u64) = word_of_int (sint a)" "(ucast a :: u64) = word_of_int (uint a)"
  by (rule bit_word_eqI, auto simp: bit_simps min_def)+

lemma mul_low: "word_of_int (sint a * sint b) = (a :: u32) * b"
  by (simp flip: wi_hom_mult)

lemma alu_op_sem: "alu_op (op_code_of k) = Some f \<Longrightarrow> f a b = alu_sem k a b"
  by (cases k) (auto simp: alu_op_def shamt_mod drop_of_int wi_hom_syms word_less_def)

lemma alu_op_defined: "\<exists>f. alu_op (op_code_of k) = Some f"
  by (cases k) (simp_all add: alu_op_def)

lemma alui_op_sem:
  "alui_op (imm_code_of k) = Some f \<Longrightarrow> f a b = alu_sem k a b"
  by (cases k) (auto simp: alui_op_def shamt_mod drop_of_int wi_hom_syms word_less_def)

lemma alui_op_defined: "k \<noteq> A_SUB \<Longrightarrow> \<exists>f. alui_op (imm_code_of k) = Some f"
  by (cases k) (simp_all add: alui_op_def)

lemma high_product:
  "(ucast (signed_drop_bit 32 (scast a * scast b :: u64)) :: u32) = word_of_int (sint a * sint b div 2 ^ 32)"
  "(ucast (signed_drop_bit 32 (ucast a * ucast b :: u64)) :: u32) = word_of_int (uint a * uint b div 2 ^ 32)"
  "(ucast (signed_drop_bit 32 (scast a * ucast b :: u64)) :: u32) = word_of_int (sint a * uint b div 2 ^ 32)"
  for a b :: u32
  unfolding scast_ucast_int wi_hom_mult by (rule high_word)+

lemma muldiv_op_sem:
  "muldiv_op (md_code_of k) = Some f \<Longrightarrow> \<not> md_traps k a b \<Longrightarrow> f a b = Inr (md_sem k a b)"
  by (cases k)
    (auto simp del: One_nat_def power_numeral simp: muldiv_op_def md_traps_def Let_def high_product mul_low
      word_div_def word_mod_def trap_div_def)

lemma muldiv_op_defined: "\<exists>f. muldiv_op (md_code_of k) = Some f"
  by (cases k) (simp_all add: muldiv_op_def)

lemma branch_cond_sem: "branch_cond (br_code_of k) = Some f \<Longrightarrow> f a b = cond_sem k a b"
  by (cases k) (auto simp: branch_cond_def word_less_def word_le_def)

lemma branch_cond_defined: "\<exists>f. branch_cond (br_code_of k) = Some f"
  by (cases k) (simp_all add: branch_cond_def)

section \<open>Abstraction\<close>

text \<open>The reference state of a machine whose next instruction is at \<open>p\<close>.\<close>

definition abs_at :: "u32 \<Rightarrow> 'h machine \<Rightarrow> astate" where
  "abs_at p s = \<lparr>gpr = (\<lambda>r. reg_val (cpu s) (ucast r)), apc = p, amem = memory s\<rparr>"

definition cpu_inv :: "cpu \<Rightarrow> bool" where
  "cpu_inv c \<longleftrightarrow> regs32 c \<and> reg_val c 0 = 0"

lemma wide_less [simp]: "(ucast (r :: ireg) :: u8) < 32"
proof -
  have "unat r < 2 ^ LENGTH(5)" by (rule unsigned_less)
  then have "unat r < 32" by simp
  then show ?thesis by (simp add: word_less_nat_alt unsigned_ucast_eq take_bit_nat_eq_self)
qed

lemma wide_back: "(ucast (ucast (r :: ireg) :: u8) :: ireg) = r"
  by (rule bit_word_eqI) (simp add: bit_simps)

lemma wide_inj [simp]: "(ucast (r :: ireg) :: u8) = ucast q \<longleftrightarrow> r = q"
  using wide_back by metis

lemma wide_zero [simp]: "(ucast (r :: ireg) :: u8) = 0 \<longleftrightarrow> r = 0"
  using wide_inj [of r 0] by (simp del: wide_inj)

lemma reg_val_clear: "regs32 c \<Longrightarrow> reg_val (clear_r0 c) i = (if i = 0 then 0 else reg_val c i)"
  by (auto simp: reg_val_def clear_r0_def regs32_def nth_list_update word_unat_eq_iff [where 'a = 8])

lemma regs32_clear [simp]: "regs32 (clear_r0 c) = regs32 c"
  by (simp add: regs32_def clear_r0_def)

lemma cpu_inv_clear: "regs32 c \<Longrightarrow> cpu_inv (clear_r0 c)"
  by (simp add: cpu_inv_def reg_val_clear)

lemma gpr_put:
  "cpu_inv c \<Longrightarrow>
    (\<lambda>q. reg_val (clear_r0 (reg_set (ucast r) x c)) (ucast (q :: ireg))) = xset r x (\<lambda>q. reg_val c (ucast q))"
  by (auto simp: cpu_inv_def reg_val_clear fun_eq_iff xset_def regfile.peek_poke regfile.peek_other)

lemma gpr_same:
  "cpu_inv c \<Longrightarrow> (\<lambda>q. reg_val (clear_r0 c) (ucast (q :: ireg))) = (\<lambda>q. reg_val c (ucast q))"
  by (auto simp: cpu_inv_def reg_val_clear fun_eq_iff)

lemma reg_val_updates [simp]:
  "reg_val (c\<lparr>pc_next := p\<rparr>) i = reg_val c i" "regs32 (c\<lparr>pc_next := p\<rparr>) = regs32 c"
  "cpu_inv (c\<lparr>pc_next := p\<rparr>) = cpu_inv c"
  by (simp_all add: reg_val_def regs32_def cpu_inv_def)

lemma pc_updates [simp]:
  "pc (reg_set i x c) = pc c" "pc_next (reg_set i x c) = pc_next c" "pc_next (clear_r0 c) = pc_next c"
  "reg_set i x (c\<lparr>pc_next := p\<rparr>) = (reg_set i x c)\<lparr>pc_next := p\<rparr>"
  "clear_r0 (c\<lparr>pc_next := p\<rparr>) = (clear_r0 c)\<lparr>pc_next := p\<rparr>"
  by (simp_all add: reg_set_def clear_r0_def)

lemma mode_updates [simp]:
  "running (reg_set i x c) = running c" "stop (reg_set i x c) = stop c" "mstatus (reg_set i x c) = mstatus c"
  "running (clear_r0 c) = running c" "stop (clear_r0 c) = stop c" "mstatus (clear_r0 c) = mstatus c"
  by (simp_all add: reg_set_def clear_r0_def)

section \<open>Each group of the switch\<close>

lemma execute_cpu:
  "exec_cpu v (cpu s) = Some (Inr c) \<Longrightarrow> opcode v \<noteq> VLIW_NOP \<Longrightarrow> opcode v \<noteq> VLIW_ILLEGAL \<Longrightarrow>
    execute os v s = Inr (put_cpu s (clear_r0 c))"
  by (simp add: execute_def exec_switch_def or_else_def put_cpu_def)

lemmas cpu_groups = exec_cpu_def or_else_def exec_jump_def exec_branch_def branch_cond_def
  exec_alu_def alu_op_def exec_alui_def alui_op_def exec_upper_def exec_muldiv_def muldiv_op_def

lemma group_alu: "opcode v = op_code_of k \<Longrightarrow> exec_cpu v c = exec_alu v c"
  by (cases k) (simp_all add: cpu_groups)

lemma group_alui: "k \<noteq> A_SUB \<Longrightarrow> opcode v = imm_code_of k \<Longrightarrow> exec_cpu v c = exec_alui v c"
  by (cases k) (simp_all add: cpu_groups)

lemma group_md: "opcode v = md_code_of k \<Longrightarrow> exec_cpu v c = exec_muldiv v c"
  by (cases k) (simp_all add: cpu_groups)

lemma group_br: "opcode v = br_code_of k \<Longrightarrow> exec_cpu v c = exec_branch v c"
  by (cases k) (simp_all add: cpu_groups)

lemma group_upper: "opcode v = VLIW_LUI \<or> opcode v = VLIW_AUIPC \<Longrightarrow> exec_cpu v c = exec_upper v c"
  by (auto simp: cpu_groups)

lemma group_jump:
  "opcode v = VLIW_J \<or> opcode v = VLIW_JAL \<or> opcode v = VLIW_JR \<or> opcode v = VLIW_JALR \<Longrightarrow>
    exec_cpu v c = exec_jump v c"
  by (auto simp: exec_cpu_def or_else_def exec_jump_def)

lemma code_ranges:
  "op_code_of k \<noteq> VLIW_NOP" "op_code_of k \<noteq> VLIW_ILLEGAL" "k \<noteq> A_SUB \<Longrightarrow> imm_code_of k \<noteq> VLIW_NOP"
  "k \<noteq> A_SUB \<Longrightarrow> imm_code_of k \<noteq> VLIW_ILLEGAL"
  by (cases k; simp)+

lemma code_ranges2:
  "md_code_of m \<noteq> VLIW_NOP" "md_code_of m \<noteq> VLIW_ILLEGAL"
  by (cases m; simp)+

lemma code_ranges3:
  "br_code_of b \<noteq> VLIW_NOP" "br_code_of b \<noteq> VLIW_ILLEGAL"
  by (cases b; simp)+

text \<open>
  What a successful step of the reference gives, in terms of the machine; what decides about the
  loop and about interrupts, and the outside world, are left alone.
\<close>

definition same_mode :: "'h machine \<Rightarrow> 'h machine \<Rightarrow> bool" where
  "same_mode s s' \<longleftrightarrow> running (cpu s') = running (cpu s) \<and> stop (cpu s') = stop (cpu s) \<and>
    mstatus (cpu s') = mstatus (cpu s) \<and> console s' = console s \<and> os_state s' = os_state s"

lemma same_mode_refl [simp]: "same_mode s s"
  by (simp add: same_mode_def)

definition simulates :: "'h os \<Rightarrow> vliw \<Rightarrow> 'h machine \<Rightarrow> astate \<Rightarrow> bool" where
  "simulates os v s a \<longleftrightarrow>
    (\<exists>s'. execute os v s = Inr s' \<and> abs_at (pc_next (cpu s')) s' = a \<and> cpu_inv (cpu s') \<and> same_mode s s')"

lemma simulates_put:
  assumes "cpu_inv (cpu s)" and "execute os v s = Inr (put_cpu s (clear_r0 ((reg_set (ucast (r :: ireg)) x (cpu s))\<lparr>pc_next := p\<rparr>)))"
  shows "simulates os v s \<lparr>gpr = xset r x (gpr (abs_at q s)), apc = p, amem = memory s\<rparr>"
proof -
  have "regs32 (cpu s)" using assms(1) by (simp add: cpu_inv_def)
  then show ?thesis
    using assms
    by (simp add: simulates_def abs_at_def put_cpu_def gpr_put cpu_inv_clear same_mode_def)
qed

lemma simulates_jump:
  assumes "cpu_inv (cpu s)" and "execute os v s = Inr (put_cpu s (clear_r0 ((cpu s)\<lparr>pc_next := p\<rparr>)))"
  shows "simulates os v s \<lparr>gpr = gpr (abs_at q s), apc = p, amem = memory s\<rparr>"
proof -
  have "regs32 (cpu s)" using assms(1) by (simp add: cpu_inv_def)
  then show ?thesis
    using assms by (simp add: simulates_def abs_at_def put_cpu_def gpr_same cpu_inv_clear same_mode_def)
qed

lemma put_next: "reg_set i x c = (reg_set i x c)\<lparr>pc_next := pc_next c\<rparr>"
  by (simp add: reg_set_def)

section \<open>The simulation\<close>

text \<open>A segment that does not reach past the end of the address space.\<close>

definition no_wrap :: "segment \<Rightarrow> bool" where
  "no_wrap s \<longleftrightarrow> unat (memBase s) + unat (memLen s) < 2 ^ 32"

lemma no_wrap_range:
  assumes "no_wrap s" and "a - memBase s < memLen s"
  shows "memBase s \<le> a \<and> a < memBase s + memLen s"
proof -
  have t: "unat (memBase s + memLen s) = unat (memBase s) + unat (memLen s)"
    using assms(1) by (simp add: no_wrap_def unat_word_ariths)
  have a: "a = memBase s + (a - memBase s)" by simp
  have l: "unat (a - memBase s) < unat (memLen s)" using assms(2) by (simp add: word_less_nat_alt)
  have "unat a = unat (memBase s) + unat (a - memBase s)"
    using assms(1) l by (subst a) (simp only: unat_word_ariths no_wrap_def, simp)
  then show ?thesis using l t by (simp add: word_le_nat_alt word_less_nat_alt)
qed

lemma checkAddr_readable:
  assumes "no_wrap (insnMem m)" and "no_wrap (dataMem m)" and "readable m a"
  shows "Cpu_checkAddr m a = Inr ()"
  using no_wrap_range [OF assms(1), of a] no_wrap_range [OF assms(2), of a] assms(3)
  by (auto simp: Cpu_checkAddr_def Let_def readable_def isdata_def istext_def)

lemma scast_le_word:
  "length bs = 2 \<Longrightarrow> (scast (le_word bs :: u16) :: u32) = signed_take_bit 15 (le_word bs)"
  "length bs = 1 \<Longrightarrow> (scast (le_word bs :: u8) :: u32) = signed_take_bit 7 (le_word bs)"
  "length bs = 2 \<Longrightarrow> (ucast (le_word bs :: u16) :: u32) = le_word bs"
  "length bs = 1 \<Longrightarrow> (ucast (le_word bs :: u8) :: u32) = le_word bs"
  by (rule bit_word_eqI, auto simp: bit_simps bit_le_word min_def)+

lemma load_op_bytes:
  assumes "load_op (ld_code_of k) = Some f" and "readable m a" and "mem_load m a (ld_size k) = Inr bs"
  shows "f m a = Inr (ld_sem k bs, NoEffect)"
proof -
  have "length bs = ld_size k" using assms(3) by (rule mem.via.loaded_length)
  then show ?thesis
    using assms read_loads [OF assms(2)]
    by (cases k) (auto simp: load_op_def Let_def scast_le_word)
qed

lemma load_op_defined: "\<exists>f. load_op (ld_code_of k) = Some f"
  by (cases k) (simp_all add: load_op_def)

lemma store_op_bytes:
  assumes "store_op (st_code_of k) = Some f" and "writable m a"
    and "mem_store m a (le_bytes (st_size k) x) = Inr m'"
  shows "f m a x = Inr (m', NoEffect)"
  using assms write_stores [OF assms(2)] by (cases k) (auto simp: store_op_def Let_def)

lemma store_op_defined: "\<exists>f. store_op (st_code_of k) = Some f"
  by (cases k) (simp_all add: store_op_def)

lemma group_ld:
  "opcode v = ld_code_of k \<Longrightarrow> exec_cpu v c = None \<and> opcode v \<noteq> VLIW_NOP \<and> opcode v \<noteq> VLIW_ILLEGAL"
  by (cases k) (simp_all add: cpu_groups)

lemma group_st:
  "opcode v = st_code_of k \<Longrightarrow>
    exec_cpu v c = None \<and> load_op (opcode v) = None \<and> opcode v \<noteq> VLIW_NOP \<and> opcode v \<noteq> VLIW_ILLEGAL"
  by (cases k) (simp_all add: cpu_groups load_op_def)

lemma execute_load:
  "exec_cpu v (cpu s) = None \<Longrightarrow> opcode v \<noteq> VLIW_NOP \<Longrightarrow> opcode v \<noteq> VLIW_ILLEGAL \<Longrightarrow>
    exec_load v s = Some (Inr t) \<Longrightarrow> execute os v s = Inr (put_cpu t (clear_r0 (cpu t)))"
  by (simp add: execute_def exec_switch_def or_else_def)

lemma execute_store:
  "exec_cpu v (cpu s) = None \<Longrightarrow> load_op (opcode v) = None \<Longrightarrow> opcode v \<noteq> VLIW_NOP \<Longrightarrow>
    opcode v \<noteq> VLIW_ILLEGAL \<Longrightarrow> exec_store v s = Some (Inr t) \<Longrightarrow>
    execute os v s = Inr (put_cpu t (clear_r0 (cpu t)))"
  by (simp add: execute_def exec_switch_def or_else_def exec_load_def)

lemma refines_load:
  assumes inv: "cpu_inv (cpu s)" and m: "no_wrap (insnMem (memory s))" "no_wrap (dataMem (memory s))"
    and e: "isa_exec (I_LD k r q i) len (abs_at (pc (cpu s)) s) = Some a"
    and n: "pc_next (cpu s) = pc (cpu s) + len"
  shows "simulates os (vliw_of (I_LD k r q i)) s a"
proof -
  let ?v = "vliw_of (I_LD k r q i)" and ?ea = "reg_val (cpu s) (ucast q) + i"
  have r32: "regs32 (cpu s)" using inv by (simp add: cpu_inv_def)
  from e obtain bs where ra: "readable (memory s) ?ea" and bs: "mem_load (memory s) ?ea (ld_size k) = Inr bs"
    and a: "a = \<lparr>gpr = xset r (ld_sem k bs) (gpr (abs_at 0 s)), apc = pc_next (cpu s), amem = memory s\<rparr>"
    by (auto simp: abs_at_def n split: if_splits sum.splits)
  obtain f where f: "load_op (ld_code_of k) = Some f" using load_op_defined by blast
  have "exec_load ?v s = Some (Inr (put_cpu s (reg_set (ucast r) (ld_sem k bs) (cpu s))))"
    using f load_op_bytes [OF f ra bs] checkAddr_readable [OF m ra] r32
    by (simp add: exec_load_def apply_host_def)
  then have "execute os ?v s = Inr (put_cpu s (clear_r0 (reg_set (ucast r) (ld_sem k bs) (cpu s))))"
    using group_ld [of ?v k] by (subst execute_load) (auto simp: put_cpu_def)
  then have "execute os ?v s = Inr (put_cpu s (clear_r0 ((reg_set (ucast r) (ld_sem k bs) (cpu s))\<lparr>pc_next := pc_next (cpu s)\<rparr>)))"
    by (subst put_next [symmetric])
  from simulates_put [OF inv this] show ?thesis unfolding a .
qed

lemma refines_store:
  assumes inv: "cpu_inv (cpu s)"
    and e: "isa_exec (I_ST k q t i) len (abs_at (pc (cpu s)) s) = Some a"
    and n: "pc_next (cpu s) = pc (cpu s) + len"
  shows "simulates os (vliw_of (I_ST k q t i)) s a"
proof -
  let ?v = "vliw_of (I_ST k q t i)" and ?ea = "reg_val (cpu s) (ucast q) + i"
  have r32: "regs32 (cpu s)" using inv by (simp add: cpu_inv_def)
  from e obtain m where wa: "writable (memory s) ?ea"
    and m: "mem_store (memory s) ?ea (le_bytes (st_size k) (reg_val (cpu s) (ucast t))) = Inr m"
    and a: "a = \<lparr>gpr = gpr (abs_at 0 s), apc = pc_next (cpu s), amem = m\<rparr>"
    by (auto simp: abs_at_def n split: if_splits sum.splits)
  obtain f where f: "store_op (st_code_of k) = Some f" using store_op_defined by blast
  have "exec_store ?v s = Some (Inr (s\<lparr>memory := m\<rparr>))"
    using f store_op_bytes [OF f wa m] r32 by (simp add: exec_store_def apply_host_def)
  then have "execute os ?v s = Inr (put_cpu (s\<lparr>memory := m\<rparr>) (clear_r0 (cpu s)))"
    using group_st [of ?v k] by (subst execute_store) auto
  then show ?thesis
    using inv r32 by (simp add: simulates_def a abs_at_def put_cpu_def gpr_same cpu_inv_clear same_mode_def)
qed

lemma refines_put:
  assumes inv: "cpu_inv (cpu s)"
    and x: "exec_cpu v (cpu s) = Some (Inr ((reg_set (ucast r) x (cpu s))\<lparr>pc_next := p\<rparr>))"
    and o: "opcode v \<noteq> VLIW_NOP" "opcode v \<noteq> VLIW_ILLEGAL"
    and a: "a = \<lparr>gpr = xset r x (gpr (abs_at q s)), apc = p, amem = memory s\<rparr>"
  shows "simulates os v s a"
  unfolding a using execute_cpu [OF x o] by (rule simulates_put [OF inv])

lemma refines_jump:
  assumes inv: "cpu_inv (cpu s)"
    and x: "exec_cpu v (cpu s) = Some (Inr ((cpu s)\<lparr>pc_next := p\<rparr>))"
    and o: "opcode v \<noteq> VLIW_NOP" "opcode v \<noteq> VLIW_ILLEGAL"
    and a: "a = \<lparr>gpr = gpr (abs_at q s), apc = p, amem = memory s\<rparr>"
  shows "simulates os v s a"
  unfolding a using execute_cpu [OF x o] by (rule simulates_jump [OF inv])

lemma refines_nop:
  assumes inv: "cpu_inv (cpu s)" and o: "opcode v = VLIW_NOP"
    and a: "a = \<lparr>gpr = gpr (abs_at q s), apc = pc_next (cpu s), amem = memory s\<rparr>"
  shows "simulates os v s a"
proof -
  have "execute os v s = Inr (put_cpu s (clear_r0 ((cpu s)\<lparr>pc_next := pc_next (cpu s)\<rparr>)))"
    using o by (simp add: execute_def exec_switch_def put_cpu_def)
  then show ?thesis unfolding a by (rule simulates_jump [OF inv])
qed

lemma xset_zero [simp]: "xset 0 x g = g"
  by (simp add: xset_def)

lemma clear_low:
  assumes "\<not> bit (x :: u32) 0"
  shows "x AND - 2 = x"
proof -
  have "bit (- 2 :: u32) n \<longleftrightarrow> n < 32 \<and> n \<noteq> 0" for n
    using bit_not_iff [of "1 :: u32" n] by (auto simp: bit_1_iff)
  moreover have "bit x n \<Longrightarrow> n \<noteq> 0" for n
    using assms by (cases "n = 0") simp_all
  ultimately show ?thesis
    by (intro bit_word_eqI) (auto simp: bit_simps)
qed

lemma imm_upper: "take_bit 12 i = 0 \<Longrightarrow> push_bit 12 (signed_drop_bit 12 i) = (i :: u32)"
proof -
  assume z: "take_bit 12 i = 0"
  have "bit i n \<Longrightarrow> 12 \<le> n" for n
    using arg_cong [OF z, of "\<lambda>x. bit x n"] by (auto simp: bit_simps)
  then show ?thesis by (intro bit_word_eqI) (auto simp: bit_simps min_def)
qed

lemma execute_refines:
  assumes inv: "cpu_inv (cpu s)" and m: "no_wrap (insnMem (memory s))" "no_wrap (dataMem (memory s))"
    and wf: "isa_wf i" and e: "isa_exec i len (abs_at (pc (cpu s)) s) = Some a"
    and h: "host_ok i (abs_at (pc (cpu s)) s)" and n: "pc_next (cpu s) = pc (cpu s) + len"
  shows "simulates os (vliw_of i) s a"
proof -
  have r32: "regs32 (cpu s)" using inv by (simp add: cpu_inv_def)
  let ?g = "gpr (abs_at 0 s)"
  show ?thesis
  proof (cases i)
    case (I_LUI r j)
    then show ?thesis using inv r32 wf e n
      by (intro refines_put [where r = r and x = j and p = "pc_next (cpu s)" and q = 0])
        (auto simp: group_upper exec_upper_def imm_upper abs_at_def simp flip: put_next)
  next
    case (I_AUIPC r j)
    then show ?thesis using inv r32 wf e n
      by (intro refines_put [where r = r and x = "pc (cpu s) + j" and p = "pc_next (cpu s)" and q = 0])
        (auto simp: group_upper exec_upper_def imm_upper abs_at_def simp flip: put_next)
  next
    case (I_JAL r j)
    show ?thesis
    proof (cases "r = 0")
      case True
      then show ?thesis using I_JAL inv r32 e
        by (intro refines_jump [where p = "pc (cpu s) + j" and q = 0])
          (auto simp: group_jump exec_jump_def abs_at_def)
    next
      case False
      then show ?thesis using I_JAL inv r32 e n
        by (intro refines_put [where r = r and x = "pc_next (cpu s)" and p = "pc (cpu s) + j" and q = 0])
          (auto simp: group_jump exec_jump_def abs_at_def)
    qed
  next
    case (I_JALR r t j)
    show ?thesis
    proof (cases "r = 0 \<and> j = 0")
      case True
      then show ?thesis using I_JALR inv r32 e h
        by (intro refines_jump [where p = "reg_val (cpu s) (ucast t)" and q = 0])
          (auto simp: group_jump exec_jump_def abs_at_def clear_low)
    next
      case False
      then have v: "vliw_of i = \<lparr>opcode = VLIW_JALR, rd = ucast r, rs1 = ucast t, rs2 = 0, imm = j\<rparr>"
        using I_JALR by auto
      show ?thesis using I_JALR inv r32 e h n unfolding v
        by (intro refines_put [where r = r and x = "pc_next (cpu s)" and p = "reg_val (cpu s) (ucast t) + j" and q = 0])
          (auto simp: group_jump exec_jump_def abs_at_def clear_low Let_def)
    qed
  next
    case (I_BR k t u j)
    obtain f where f: "branch_cond (br_code_of k) = Some f" using branch_cond_defined by blast
    let ?p = "if cond_sem k (?g t) (?g u) then pc (cpu s) + j else pc_next (cpu s)"
    have "exec_cpu (vliw_of i) (cpu s) = Some (Inr ((cpu s)\<lparr>pc_next := ?p\<rparr>))"
      using I_BR f r32 group_br [of "vliw_of i" k] branch_cond_sem [OF f]
      by (simp add: exec_branch_def abs_at_def)
    then show ?thesis using I_BR inv e n code_ranges3 [of k]
      by (intro refines_jump [where p = ?p and q = 0]) (auto simp: abs_at_def)
  next
    case (I_LD k r t j)
    then show ?thesis using refines_load [OF inv m _ n] e by simp
  next
    case (I_ST k t u j)
    then show ?thesis using refines_store [OF inv _ n] e by simp
  next
    case (I_IMM k r t j)
    show ?thesis
    proof (cases "k = A_ADD \<and> r = 0 \<and> t = 0 \<and> j = 0")
      case True
      then show ?thesis using I_IMM inv e n
        by (intro refines_nop [where q = 0]) (auto simp: abs_at_def)
    next
      case False
      then have v: "vliw_of i = \<lparr>opcode = imm_code_of k, rd = ucast r, rs1 = ucast t, rs2 = 0, imm = j\<rparr>"
        using I_IMM by auto
      have k: "k \<noteq> A_SUB" using wf I_IMM by simp
      obtain f where f: "alui_op (imm_code_of k) = Some f" using alui_op_defined [OF k] by blast
      have "exec_cpu (vliw_of i) (cpu s) =
          Some (Inr ((reg_set (ucast r) (alu_sem k (?g t) j) (cpu s))\<lparr>pc_next := pc_next (cpu s)\<rparr>))"
        using f r32 group_alui [OF k, of "vliw_of i"] alui_op_sem [OF f]
        by (simp add: v exec_alui_def abs_at_def flip: put_next)
      then show ?thesis using I_IMM False inv e n code_ranges(3,4) [OF k]
        by (intro refines_put [where r = r and x = "alu_sem k (?g t) j" and q = 0])
          (auto simp: v abs_at_def)
    qed
  next
    case (I_OP k r t u)
    obtain f where f: "alu_op (op_code_of k) = Some f" using alu_op_defined by blast
    have "exec_cpu (vliw_of i) (cpu s) =
        Some (Inr ((reg_set (ucast r) (alu_sem k (?g t) (?g u)) (cpu s))\<lparr>pc_next := pc_next (cpu s)\<rparr>))"
      using I_OP f r32 group_alu [of "vliw_of i" k] alu_op_sem [OF f]
      by (simp add: exec_alu_def abs_at_def flip: put_next)
    then show ?thesis using I_OP inv e n code_ranges(1,2) [of k]
      by (intro refines_put [where r = r and x = "alu_sem k (?g t) (?g u)" and q = 0])
        (auto simp: abs_at_def)
  next
    case (I_MD k r t u)
    obtain f where f: "muldiv_op (md_code_of k) = Some f" using muldiv_op_defined by blast
    have "\<not> md_traps k (?g t) (?g u)" using h I_MD by (simp add: abs_at_def)
    then have "exec_cpu (vliw_of i) (cpu s) =
        Some (Inr ((reg_set (ucast r) (md_sem k (?g t) (?g u)) (cpu s))\<lparr>pc_next := pc_next (cpu s)\<rparr>))"
      using I_MD f r32 group_md [of "vliw_of i" k] muldiv_op_sem [OF f]
      by (simp add: exec_muldiv_def abs_at_def flip: put_next)
    then show ?thesis using I_MD inv e n code_ranges2 [of k]
      by (intro refines_put [where r = r and x = "md_sem k (?g t) (?g u)" and q = 0])
        (auto simp: abs_at_def)
  qed (use e in auto)
qed

section \<open>A turn of the loop\<close>

lemma imm_wf:
  "signed_take_bit 11 (imm_I code) = imm_I code" "signed_take_bit 11 (imm_S code) = imm_S code"
  "signed_take_bit 12 (imm_B code) = imm_B code" "\<not> bit (imm_B code) 0"
  "signed_take_bit 20 (imm_J code) = imm_J code" "\<not> bit (imm_J code) 0"
  "take_bit 12 (imm_U code) = 0"
  by (simp_all add: imm_I_def imm_S_def imm_B_def imm_J_def imm_U_def signed_take_bit_mono
      rvc_lui_wf bit_simps bit_bits del: push_bit_Suc)

lemma bits_wf: "take_bit n (bits lo n code) = bits lo n (code :: u32)"
  by (rule bit_word_eqI) (auto simp: bit_simps bit_bits)

lemma isa_imm_sub: "isa_imm f7 f3 \<noteq> Some A_SUB"
  by (auto simp: isa_imm_def)

lemma isa_decode_wf: "isa_decode code = Some i \<Longrightarrow> isa_wf i"
  using bits_wf [of 5 20 code]
  by (auto simp: isa_decode_def Let_def imm_wf bits_wf isa_imm_sub split: if_splits)
    (metis bits_wf)

text \<open>No interrupt is taken in this turn.\<close>

definition no_irq :: "cpu \<Rightarrow> bool" where
  "no_irq c \<longleftrightarrow> cycle c AND 0xf \<noteq> 0xf \<or> \<not> bit (mstatus c) 3 \<or>
    \<not> external_pending c \<and> \<not> timer_pending c"

lemma check_irqs_none:
  "no_irq c \<Longrightarrow> \<exists>m. check_irqs v c = (v, c\<lparr>mip := m\<rparr>)"
proof
  assume "no_irq c"
  have m: "mip (raise_mtip c) = mip (raise_mtip c)" "raise_mtip c = c\<lparr>mip := mip (raise_mtip c)\<rparr>"
    by (simp_all add: raise_mtip_def)
  have "check_irqs v c = (v, raise_mtip c) \<or> check_irqs v c = (v, c)"
    using \<open>no_irq c\<close> unfolding check_irqs_form no_irq_def by argo
  moreover have "c = c\<lparr>mip := mip c\<rparr>" by simp
  ultimately show "check_irqs v c = (v, c\<lparr>mip := mip (snd (check_irqs v c))\<rparr>)"
    using m(2) by (metis snd_conv)
qed

lemma run_insn_refines:
  assumes inv: "cpu_inv (cpu s)" and m: "no_wrap (insnMem (memory s))" "no_wrap (dataMem (memory s))"
    and wf: "isa_wf i" and e: "isa_exec i len (abs_at (pc (cpu s)) s) = Some a"
    and h: "host_ok i (abs_at (pc (cpu s)) s)" and q: "no_irq (cpu s)"
  shows "\<exists>s'. run_insn os (vliw_of i) len s = Inr s' \<and> abs_at (pc (cpu s')) s' = a \<and> cpu_inv (cpu s') \<and>
    same_mode s s'"
proof -
  let ?c = "(cpu s)\<lparr>pc_inc := pc (cpu s) + len, pc_next := pc (cpu s) + len\<rparr>"
  have "no_irq ?c" using q by (simp add: no_irq_def external_pending_def timer_pending_def)
  then obtain n where n: "check_irqs (vliw_of i) ?c = (vliw_of i, ?c\<lparr>mip := n\<rparr>)"
    using check_irqs_none by blast
  let ?s = "put_cpu s (?c\<lparr>mip := n\<rparr>)"
  have "simulates os (vliw_of i) ?s a"
    using inv m wf e h
    by (intro execute_refines [where len = len])
      (simp_all add: put_cpu_def cpu_inv_def regs32_def reg_val_def abs_at_def)
  then obtain t where t: "execute os (vliw_of i) ?s = Inr t" "abs_at (pc_next (cpu t)) t = a" "cpu_inv (cpu t)"
    "same_mode ?s t"
    by (auto simp: simulates_def)
  let ?t = "t\<lparr>cpu := (cpu t)\<lparr>pc := pc_next (cpu t), cycle := cycle (cpu t) + 1\<rparr>\<rparr>"
  have "run_insn os (vliw_of i) len s = Inr ?t"
    using n t(1) by (simp add: run_insn_def Let_def)
  moreover have "abs_at (pc (cpu ?t)) ?t = a" "cpu_inv (cpu ?t)" "same_mode s ?t"
    using t(2-4) by (simp_all add: abs_at_def cpu_inv_def regs32_def reg_val_def same_mode_def put_cpu_def)
  ultimately show ?thesis by blast
qed

lemma run_step_refines:
  assumes ok: "caches_ok s" "small_text (memory s)" "\<not> bit (pc (cpu s)) 0"
    and inv: "cpu_inv (cpu s)" and m: "no_wrap (insnMem (memory s))" "no_wrap (dataMem (memory s))"
    and f: "fetch_code (memory s) (cpu s) = Inr (code, len)" and d: "isa_decode code = Some i"
    and e: "isa_exec i len (abs_at (pc (cpu s)) s) = Some a"
    and h: "host_ok i (abs_at (pc (cpu s)) s)" and q: "no_irq (cpu s)"
  shows "\<exists>s'. run_step os s = Inr s' \<and> abs_at (pc (cpu s')) s' = a \<and> cpu_inv (cpu s') \<and> same_mode s s'"
proof -
  have same: "with_caches (decoder s) (vliw_insn s) s = s" by (simp add: with_caches_def)
  have "step_ref os s = run_insn os (vliw_of i) len s"
    using f decode_slow_correct [OF d] by (simp add: step_ref_def)
  then obtain s' where s': "step_ref os s = Inr s'" "abs_at (pc (cpu s')) s' = a" "cpu_inv (cpu s')" "same_mode s s'"
    using run_insn_refines [OF inv m isa_decode_wf [OF d] e h q] by metis
  have "swap_caches (decoder s) (vliw_insn s) (run_step os s) = Inr s'"
    using run_step_ref(1) [OF ok, of "decoder s" "vliw_insn s" os] s'(1) by (simp add: same)
  then obtain t where t: "run_step os s = Inr t" "with_caches (decoder s) (vliw_insn s) t = s'"
    by (cases "run_step os s") auto
  have "abs_at (pc (cpu t)) t = a" "cpu_inv (cpu t)" "same_mode s t"
    using s'(2-4) by (auto simp: abs_at_def same_mode_def simp flip: t(2))
  with t(1) show ?thesis by blast
qed

end
