(* ===== verification/Memory_Props.thy ===== *)
theory Memory_Props
  imports Memory_Facts
begin

text \<open>
  The properties of \<open>Segment\<close>, \<open>Memory\<close> and the host port, with their witnesses. The
  witnesses run on a small machine memory: 16 bytes of text at 0, 16 bytes of data at
  \<open>0x40000000\<close>.
\<close>

unbundle bit_operations_syntax

definition sample_memory :: memory where
  "sample_memory =
    \<lparr>insnMem = \<lparr>memBase = 0, memLen = 16, data = replicate 16 0\<rparr>,
     dataMem = \<lparr>memBase = 0x40000000, memLen = 16, data = replicate 16 0\<rparr>,
     do_core = False, hostAddr = HOST_BASE, hostSize = HOST_SIZE\<rparr>"

text \<open>
  C18: What a store writes, a load at the same address reads back, at each width: 32 and 64
  bits unchanged, 16 and 8 bits zero-extended by the unsigned loads and sign-extended by the
  signed ones. The address needs no alignment; it only has to be one that stores may go to
  (the data segment, or the text segment with \<open>do_core\<close>).
\<close>

theorem load_after_store:
  assumes "writable m a"
  shows "(case Memory_write32 m a w of Inl _ \<Rightarrow> True | Inr (m', e) \<Rightarrow> Memory_read32 m' a = Inr (w, NoEffect)) \<and>
    (case Memory_write16 m a w of Inl _ \<Rightarrow> True | Inr m' \<Rightarrow>
       Memory_read16u m' a = Inr (take_bit 16 w) \<and> Memory_read16 m' a = Inr (signed_take_bit 15 w)) \<and>
    (case Memory_write8 m a w of Inl _ \<Rightarrow> True | Inr m' \<Rightarrow>
       Memory_read8u m' a = Inr (take_bit 8 w) \<and> Memory_read8 m' a = Inr (signed_take_bit 7 w)) \<and>
    (case Memory_write64 m a v of Inl _ \<Rightarrow> True | Inr m' \<Rightarrow> Memory_read64 m' a = Inr v)"
  using read_back [OF assms] by (auto split: sum.splits)

lemma sample_facts:
  "writable sample_memory 0x40000001" "isdata sample_memory 0x40000001"
  "\<not> isdata sample_memory 4" "istext sample_memory 4" "memory_ok sample_memory"
  by (simp_all add: sample_memory_def writable_def isdata_def istext_def memory_ok_def)

theorem load_after_store_witness:
  "\<exists>m' e. Memory_write32 sample_memory 0x40000001 0xdeadbeef = Inr (m', e) \<and>
     Memory_read32 m' 0x40000001 = Inr (0xdeadbeef, NoEffect)"
proof -
  obtain m' e where w: "Memory_write32 sample_memory 0x40000001 0xdeadbeef = Inr (m', e)"
    by (simp add: Memory_write32_def isdata_def sample_memory_def on_data_def Segment_write32_def
        seg_store_def seg_off_def)
  then show ?thesis
    using load_after_store [OF sample_facts(1), where w = "0xdeadbeef"] by auto
qed

text \<open>
  C19: A store changes nothing but its own bytes: a 32-bit store leaves every load of a range
  that does not overlap its four bytes as it was (bytes of the other segment included).
\<close>

theorem store_frame:
  assumes "writable m a" and "Memory_write32 m a w = Inr (m', e)" and "mem_apart m a 4 b n"
  shows "mem_load m' b n = mem_load m b n"
proof -
  have "mem_store m a (le_bytes 4 w) = Inr m'"
    using assms(2) by (auto simp: write_stores [OF assms(1)] faultfacts)
  then show ?thesis using assms(3) by (rule mem.via.load_apart [where bs = "le_bytes 4 w", simplified])
qed

theorem store_frame_witness:
  "\<exists>m' e. Memory_write32 sample_memory 0x40000001 0xdeadbeef = Inr (m', e) \<and>
     mem_load m' 0x40000005 3 = mem_load sample_memory 0x40000005 3"
proof -
  obtain m' e where w: "Memory_write32 sample_memory 0x40000001 0xdeadbeef = Inr (m', e)"
    by (simp add: Memory_write32_def isdata_def sample_memory_def on_data_def Segment_write32_def
        seg_store_def seg_off_def)
  have "mem_apart sample_memory 0x40000001 4 0x40000005 3"
    by (simp add: routed_apart_def ptr_apart_def Memory_getPtr_def isdata_def sample_memory_def seg_off_def)
  then have "mem_load m' 0x40000005 3 = mem_load sample_memory 0x40000005 3"
    by (rule store_frame [OF sample_facts(1) w])
  with w show ?thesis by (intro exI conjI)
qed

text \<open>
  The text is write-protected: without \<open>do_core\<close>, no store of any width changes the text
  segment, and an attempt to store to a text address that is not also data or host is fatal.
\<close>

theorem text_write_protected:
  assumes "\<not> do_core m"
  shows "(case Memory_write32 m a w of Inl _ \<Rightarrow> True | Inr (m', _) \<Rightarrow> insnMem m' = insnMem m) \<and>
    (case Memory_write16 m a w of Inl _ \<Rightarrow> True | Inr m' \<Rightarrow> insnMem m' = insnMem m) \<and>
    (case Memory_write8 m a w of Inl _ \<Rightarrow> True | Inr m' \<Rightarrow> insnMem m' = insnMem m) \<and>
    (\<not> isdata m a \<longrightarrow> Memory_write16 m a w = Inl (FatalAccess Write16 a) \<and>
       Memory_write8 m a w = Inl (FatalAccess Write8 a) \<and>
       (\<not> ishost m a \<longrightarrow> Memory_write32 m a w = Inl (FatalAccess Write32 a)))"
proof (intro conjI impI)
  show "case Memory_write32 m a w of Inl _ \<Rightarrow> True | Inr (m', _) \<Rightarrow> insnMem m' = insnMem m"
    using write_text(2) [OF assms] by (simp split: sum.split prod.split)
  show "case Memory_write16 m a w of Inl _ \<Rightarrow> True | Inr m' \<Rightarrow> insnMem m' = insnMem m"
    using write_text(3) [OF assms] by (simp split: sum.split)
  show "case Memory_write8 m a w of Inl _ \<Rightarrow> True | Inr m' \<Rightarrow> insnMem m' = insnMem m"
    using write_text(4) [OF assms] by (simp split: sum.split)
qed (use assms in \<open>simp_all add: Memory_write16_def Memory_write8_def Memory_write32_def\<close>)

theorem text_write_protected_witness:
  "Memory_write8 sample_memory 4 1 = Inl (FatalAccess Write8 4)"
  using text_write_protected [of sample_memory 4 1] sample_facts(3) by (simp add: sample_memory_def)

text \<open>
  C20: The unchecked accessors are safe inside \<open>memLen\<close>: if both allocations are at least as
  long as \<open>memLen\<close> says, a 32-bit access whose four bytes lie inside a segment is never
  undefined behaviour: the load returns, and the store returns with the layout unchanged.
\<close>

theorem access_inside_segment:
  assumes "memory_ok m" and "fits m a 4"
  shows "(\<exists>v. Memory_read32 m a = Inr (v, NoEffect)) \<and>
    (writable m a \<longrightarrow> (\<exists>m'. Memory_write32 m a w = Inr (m', NoEffect) \<and> layout m' = layout m \<and> memory_ok m'))"
proof -
  have r: "readable m a" using assms(2) by (auto simp: fits_def readable_def split: if_splits)
  obtain bs where bs: "mem_load m a 4 = Inr bs" using mem_load_fits [OF assms] by blast
  have "\<exists>v. Memory_read32 m a = Inr (v, NoEffect)"
    using read_loads(2) [OF r] bs by simp
  moreover have "\<exists>m'. Memory_write32 m a w = Inr (m', NoEffect) \<and> layout m' = layout m \<and> memory_ok m'"
    if wr: "writable m a"
  proof -
    obtain m' where "mem_store m a (le_bytes 4 w) = Inr m'"
      using mem_store_fits [OF assms(1) wr, of "le_bytes 4 w"] assms(2) by auto
    then have "Memory_write32 m a w = Inr (m', NoEffect)" by (simp add: write_stores [OF wr])
    then show ?thesis using write_layout(2) layout_ok assms(1) by blast
  qed
  ultimately show ?thesis by blast
qed

theorem access_inside_segment_witness:
  "(\<exists>v. Memory_read32 sample_memory 0x40000001 = Inr (v, NoEffect)) \<and>
    (\<exists>m'. Memory_write32 sample_memory 0x40000001 7 = Inr (m', NoEffect) \<and> memory_ok m')"
proof -
  have "fits sample_memory 0x40000001 4"
    by (simp add: fits_def isdata_def sample_memory_def seg_off_def)
  from access_inside_segment [OF sample_facts(5) this, of 7] sample_facts(1) show ?thesis by blast
qed

text \<open>
  The size \<open>realloc\<close> settles on. For a request (with the heap and 16 bytes of slack) of up
  to 2 GB, \<open>memLen\<close> becomes the least power of two that covers it, and the allocation is at
  least that long when it was at least \<open>memLen\<close> before.
\<close>

theorem realloc_size:
  assumes "unat len + unat hp + 16 \<le> 2 ^ 31" and "unat (memLen s) \<le> length (data s)"
  shows "\<exists>j. memLen (Segment_realloc s base len hp raw) = push_bit j 1 \<and>
      unat len + unat hp + 16 \<le> unat (memLen (Segment_realloc s base len hp raw)) \<and>
      (\<forall>k < j. 2 ^ k < unat len + unat hp + 16) \<and>
      unat (memLen (Segment_realloc s base len hp raw)) \<le> length (data (Segment_realloc s base len hp raw))"
proof -
  let ?l = "len + (hp + 16)" and ?t = "Segment_realloc s base len hp raw"
  have pw: "unat (push_bit k 1 :: u32) = 2 ^ k" if "k \<le> 31" for k
  proof -
    have "(2 :: nat) ^ k < 2 ^ LENGTH(32)" using that by (intro power_strict_increasing) auto
    then have "unat (of_nat (2 ^ k) :: u32) = 2 ^ k" by (simp only: unsigned_of_nat take_bit_nat_eq_self of_nat_id)
    then show ?thesis by (simp add: push_bit_eq_mult)
  qed
  have l: "unat ?l = unat len + unat hp + 16"
    using assms(1) by (simp add: unat_word_ariths)
  obtain j where j: "j \<le> 31" "p2len_loop 0 ?l = push_bit j 1" "?l \<le> push_bit j 1 \<or> j = 31"
    "\<forall>k. 0 \<le> k \<longrightarrow> k < j \<longrightarrow> push_bit k 1 < ?l"
    using p2len_loop_spec [of 0 ?l] by auto
  have t: "memLen ?t = push_bit j 1" using j(2) by (simp add: Segment_realloc_def Let_def)
  have cover: "unat len + unat hp + 16 \<le> unat (memLen ?t)"
    using j(1,3) assms(1) l pw [of j] by (auto simp: t word_le_nat_alt)
  have least: "2 ^ k < unat len + unat hp + 16" if "k < j" for k
  proof -
    have "unat (push_bit k 1 :: u32) < unat ?l" using j(4) that by (simp only: word_less_nat_alt)
    then show ?thesis using j(1) that pw [of k] l by simp
  qed
  have alloc: "unat (memLen ?t) \<le> length (data ?t)"
    using assms(2) j(2) by (auto simp: Segment_realloc_def Let_def word_less_nat_alt not_less)
  show ?thesis using t cover least alloc by blast
qed

theorem realloc_size_witness:
  "\<exists>j. memLen (Segment_realloc \<lparr>memBase = 0, memLen = 4, data = [1, 2, 3, 4]\<rparr> 0x1000 10 5 (\<lambda>_. 0)) = push_bit j 1
    \<and> (\<forall>k < j. (2 :: nat) ^ k < 31)"
  using realloc_size [of 10 5 "\<lparr>memBase = 0, memLen = 4, data = [1, 2, 3, 4]\<rparr>" "0x1000" "\<lambda>_. 0"]
  by auto

lemma upper_half: "(ucast (drop_bit 16 w) :: u16) = 2 \<longleftrightarrow> drop_bit 16 w = (2 :: u32)"
proof
  assume "(ucast (drop_bit 16 w) :: u16) = 2"
  then have "(ucast (ucast (drop_bit 16 w) :: u16) :: u32) = 2" by simp
  moreover have "(ucast (ucast (drop_bit 16 w) :: u16) :: u32) = drop_bit 16 w"
    by (rule bit_word_eqI) (auto simp: bit_simps dest: bit_imp_le_length)
  ultimately show "drop_bit 16 w = 2" by simp
qed simp

text \<open>
  C30: The host port. A 32-bit store to \<open>0xfffffffc\<close> (when no segment covers it) powers the
  machine off exactly when its upper half is 2, and otherwise sends its low byte to the
  console; a load from the port sends a zero byte there and returns 0. No access to the host
  range changes memory.
\<close>

theorem host_port:
  assumes "\<not> readable m 0xfffffffc" and "ishost m 0xfffffffc"
  shows "Memory_write32 m 0xfffffffc w =
      Inr (m, if drop_bit 16 w = 2 then PowerOff else UartWrite (ucast w))
    \<and> Memory_read32 m 0xfffffffc = Inr (0, UartWrite 0)"
  using assms
  by (simp add: upper_half Memory_write32_def Memory_read32_def readable_def host_write_def host_read_def
      host_def CMD_POWER_OFF_def Let_def)

theorem host_port_witness:
  "Memory_write32 sample_memory 0xfffffffc 0x00020000 = Inr (sample_memory, PowerOff) \<and>
    Memory_write32 sample_memory 0xfffffffc 0x41 = Inr (sample_memory, UartWrite 0x41)"
proof -
  have "\<not> readable sample_memory 0xfffffffc" "ishost sample_memory 0xfffffffc"
    by (simp_all add: readable_def isdata_def istext_def ishost_def sample_memory_def HOST_BASE_def HOST_SIZE_def)
  from host_port [OF this, of "0x00020000"] host_port [OF this, of "0x41"] show ?thesis by simp
qed

end
