(* ===== verification/Newlib_Props.thy ===== *)
theory Newlib_Props
  imports Isa_Exec Memory_Props
begin

text \<open>
  The system calls of \<open>Newlib.thy\<close>: what they do to the console, to memory and to the run
  loop's flags. The loops over a buffer are brought to one closed form each
  (\<open>write_console_bytes\<close>, \<open>read_stdin_line\<close>), by induction on the count.
\<close>

unbundle bit_operations_syntax

section \<open>The loops over a buffer\<close>

lemma slice_Suc:
  "i + Suc n \<le> length xs \<Longrightarrow> slice_of i (Suc n) xs = xs ! i # slice_of (Suc i) n xs"
  by (simp add: slice_of_def Cons_nth_drop_Suc [symmetric])

lemma ptr_load_Suc:
  assumes "ptr_load m p (Suc n) = Inr bs"
  shows "ptr_load m p 1 = Inr [hd bs]" and "ptr_load m (fst p, Suc (snd p)) n = Inr (tl bs)" and "bs \<noteq> []"
proof -
  let ?d = "data (region_seg m (fst p))"
  have l: "Suc (snd p + n) \<le> length ?d" and bs: "bs = slice_of (snd p) (Suc n) ?d"
    using assms by (auto simp: ptr_load_def Let_def split: if_splits)
  have one: "slice_of (snd p) 1 ?d = [?d ! snd p]"
    using slice_Suc [of "snd p" 0 ?d] l by (simp add: slice_of_def)
  have "bs = ?d ! snd p # slice_of (Suc (snd p)) n ?d" using slice_Suc [of "snd p" n ?d] l bs by simp
  then show "ptr_load m p 1 = Inr [hd bs]" "ptr_load m (fst p, Suc (snd p)) n = Inr (tl bs)" "bs \<noteq> []"
    using l one by (auto simp: ptr_load_def Let_def)
qed

lemma write_console_bytes:
  "ptr_load (memory s) p n = Inr bs \<Longrightarrow>
    write_console f n p k s = Inr (k + of_nat n, s\<lparr>console := console s @ map f bs\<rparr>)"
proof (induction n arbitrary: p k s bs)
  case 0
  then show ?case by (auto simp: ptr_load_def Let_def slice_of_def split: if_splits)
next
  case (Suc n)
  note l = ptr_load_Suc [OF Suc.prems]
  show ?case using Suc.IH [of "s\<lparr>console := console s @ [f (hd bs)]\<rparr>", OF _] l
    by (cases bs) (auto simp: add.assoc)
qed

lemma ptr_store_Cons:
  assumes "ptr_store m p [b] = Inr m1" and "ptr_store m1 (fst p, Suc (snd p)) bs = Inr m2"
  shows "ptr_store m p (b # bs) = Inr m2"
proof -
  let ?d = "data (region_seg m (fst p))"
  have m1: "m1 = region_upd m (fst p) ((region_seg m (fst p))\<lparr>data := splice (snd p) [b] ?d\<rparr>)"
    and l1: "snd p + 1 \<le> length ?d"
    using assms(1) by (auto simp: ptr_store_def Let_def split: if_splits)
  have l2: "Suc (snd p) + length bs \<le> length ?d"
    and m2: "m2 = region_upd m1 (fst p) ((region_seg m1 (fst p))\<lparr>data :=
      splice (Suc (snd p)) bs (splice (snd p) [b] ?d)\<rparr>)"
    using assms(2) l1 unfolding m1 by (auto simp: ptr_store_def Let_def split: if_splits)
  have "splice (Suc (snd p)) bs (splice (snd p) [b] ?d) = splice (snd p) (b # bs) ?d"
    using l2 by (intro nth_equalityI) (auto simp: nth_splice nth_Cons')
  then have "m2 = region_upd m (fst p) ((region_seg m (fst p))\<lparr>data := splice (snd p) (b # bs) ?d\<rparr>)"
    unfolding m2 m1 by (cases "fst p") (simp_all add: region_upd_def region_seg_def)
  then show ?thesis using l2 by (simp add: ptr_store_def Let_def)
qed

lemma ptr_store_Nil:
  "snd p \<le> length (data (region_seg m (fst p))) \<Longrightarrow> ptr_store m p [] = Inr m"
  by (cases "fst p") (simp_all add: ptr_store_def Let_def splice_def region_upd_def region_seg_def)

lemma ptr_store_bound:
  "ptr_store m p [b] = Inr m1 \<Longrightarrow>
    Suc (snd p) \<le> length (data (region_seg m1 (fst p)))"
  by (auto simp: ptr_store_def Let_def split: if_splits)

lemma read_stdin_line:
  assumes "read_stdin os n p k s = Inr (r, s')" and "snd p \<le> length (data (region_seg (memory s) (fst p)))"
  shows "\<exists>bs. length bs \<le> n \<and> r = k + of_nat (length bs) \<and> 10 \<notin> set (butlast bs) \<and>
    ptr_store (memory s) p bs = Inr (memory s')"
  using assms
proof (induction n arbitrary: p k s)
  case 0
  then show ?case by (auto simp: ptr_store_Nil intro: exI [of _ "[]"])
next
  case (Suc n)
  obtain c h where c: "os_getc os (os_state s) = (c, h)" by (cases "os_getc os (os_state s)")
  show ?case
  proof (cases c)
    case None
    then have "r = k \<and> memory s' = memory s" using Suc.prems c by auto
    then show ?thesis using Suc.prems(2) by (auto simp: ptr_store_Nil intro: exI [of _ "[]"])
  next
    case (Some b)
    obtain m where m: "ptr_store (memory s) p [b] = Inr m"
      using Suc.prems c Some by (auto simp: Let_def faultfacts)
    let ?t = "s\<lparr>os_state := h, memory := m\<rparr>"
    show ?thesis
    proof (cases "b = 10")
      case True
      then have "r = k + 1 \<and> memory s' = m" using Suc.prems c Some m by (auto simp: Let_def)
      then show ?thesis using m by (auto intro!: exI [of _ "[b]"])
    next
      case False
      then have "read_stdin os n (fst p, Suc (snd p)) (k + 1) ?t = Inr (r, s')"
        using Suc.prems c Some m by (auto simp: Let_def)
      from Suc.IH [OF this] ptr_store_bound [OF m]
      obtain bs where bs: "length bs \<le> n" "r = k + 1 + of_nat (length bs)" "10 \<notin> set (butlast bs)"
        "ptr_store m (fst p, Suc (snd p)) bs = Inr (memory s')" by auto
      then show ?thesis using False ptr_store_Cons [OF m bs(4)]
        by (intro exI [of _ "b # bs"]) (auto simp: add.assoc)
    qed
  qed
qed

section \<open>Properties\<close>

text \<open>What a write to standard output or error does.\<close>

lemma sys_write_bytes:
  assumes "fd = 1 \<and> f = Stdout \<or> fd = 2 \<and> f = Stderr"
    and "mem_load (memory s) buf (nat (sint count)) = Inr bs"
  shows "sys_write os fd buf count s =
    Inr (if sint count \<le> 0 then 0 else count, s\<lparr>console := console s @ map f bs\<rparr>)"
proof -
  obtain p where p: "Memory_getPtr (memory s) buf = Inr p"
    and l: "ptr_load (memory s) p (nat (sint count)) = Inr bs"
    using assms(2) by (auto simp: routed_load_def faultfacts)
  have n: "(of_nat (nat (sint count)) :: u32) = (if sint count \<le> 0 then 0 else count)"
    by (auto simp: of_nat_nat)
  show ?thesis
    using assms(1) p write_console_bytes [OF l] n by (auto simp: sys_write_def)
qed

text \<open>
  C31: Writing to standard output or standard error. When the buffer lies inside the
  segment's allocation, \<open>sys_write\<close> returns the count and appends exactly the buffer's
  bytes, in order, to the stream; memory, processor and host are as before. A negative count
  writes nothing and returns 0.
\<close>

theorem sys_write_console:
  assumes "fd = 1 \<and> f = Stdout \<or> fd = 2 \<and> f = Stderr"
    and "mem_load (memory s) buf (nat (sint count)) = Inr bs"
  shows "sys_write os fd buf count s =
    Inr (if sint count \<le> 0 then 0 else count, s\<lparr>console := console s @ map f bs\<rparr>)"
  using assms by (rule sys_write_bytes)

text \<open>A machine and an operating system for the witnesses: every read finds a newline.\<close>

definition sample_os :: "nat os" where
  "sample_os =
    \<lparr>os_gettimeofday = (\<lambda>h. ((5, 6), h)), os_time = (\<lambda>h. (7, h)), os_rdrand32 = (\<lambda>h. (8, h)),
     os_getc = (\<lambda>h. (Some (if h = 0 then 10 else 65), h - 1)),
     os_read = (\<lambda>fd n h. ((0, []), h)), os_write = (\<lambda>fd bs h. (of_nat (length bs), h)),
     os_open = (\<lambda>name fl mode h. (3, h)), os_lseek = (\<lambda>fd off wh h. (off, h)),
     os_close = (\<lambda>fd h. (0, h)), os_link = (\<lambda>a b h. (0, h)), os_unlink = (\<lambda>a h. (0, h))\<rparr>"

definition sample_machine :: "nat machine" where
  "sample_machine =
    \<lparr>cpu = Cpu_start 0 (Cpu_reset Cpu_new), memory = sample_memory, decoder = decoder_start,
     vliw_insn = vliw_insn_start, do_newlib = True, console = [], os_state = 2\<rparr>"

lemma sample_memory_load: "mem_load sample_memory 0x40000000 2 = Inr [0, 0]"
  by (simp add: routed_load_def Memory_getPtr_def isdata_def sample_memory_def ptr_load_def
      region_seg_def seg_off_def slice_of_def)
    (simp add: numeral_2_eq_2)

theorem sys_write_console_witness:
  "\<exists>s'. sys_write sample_os 1 0x40000000 2 sample_machine = Inr (2, s') \<and> console s' = [Stdout 0, Stdout 0]"
proof -
  have "mem_load (memory sample_machine) 0x40000000 (nat (sint (2 :: u32))) = Inr [0, 0]"
    using sample_memory_load by (simp add: sample_machine_def)
  then have "sys_write sample_os 1 0x40000000 2 sample_machine =
      Inr (2, sample_machine\<lparr>console := console sample_machine @ map Stdout [0, 0]\<rparr>)"
    by (subst sys_write_console) auto
  then show ?thesis by (simp add: sample_machine_def)
qed

text \<open>
  C32: Reading a line from standard input. \<open>sys_read\<close> on descriptor 0 stores a run of at most
  \<open>count\<close> bytes at the buffer and returns how many: none of them but the last is a newline,
  and memory is changed nowhere else.
\<close>

theorem sys_read_line:
  assumes "sys_read os 0 buf count s = Inr (r, s')" and "memory_ok (memory s)"
  shows "\<exists>p bs. Memory_getPtr (memory s) buf = Inr p \<and> length bs \<le> nat (sint count) \<and>
    r = of_nat (length bs) \<and> 10 \<notin> set (butlast bs) \<and> ptr_store (memory s) p bs = Inr (memory s')"
proof -
  obtain p where p: "Memory_getPtr (memory s) buf = Inr p"
    and r: "read_stdin os (nat (sint count)) p 0 s = Inr (r, s')"
    using assms(1) by (auto simp: sys_read_def faultfacts)
  have "snd p \<le> length (data (region_seg (memory s) (fst p)))"
    using p assms(2)
    by (auto simp: Memory_getPtr_def region_seg_def isdata_def istext_def seg_off_def memory_ok_def
        word_less_nat_alt split: if_splits)
  from read_stdin_line [OF r this] p show ?thesis by fastforce
qed

theorem sys_read_line_witness:
  "\<exists>s'. sys_read sample_os 0 0x40000000 1 (sample_machine\<lparr>os_state := 0\<rparr>) = Inr (1, s') \<and>
    (\<exists>p bs. ptr_store sample_memory p bs = Inr (memory s') \<and> (1 :: u32) = of_nat (length bs))"
proof -
  let ?s = "sample_machine\<lparr>os_state := 0\<rparr>"
  have getp: "Memory_getPtr (memory ?s) 0x40000000 = Inr (Data, 0)"
    by (simp add: sample_machine_def Memory_getPtr_def isdata_def sample_memory_def seg_off_def)
  have n: "nat (sint (1 :: u32)) = Suc 0" by simp
  obtain m where m: "ptr_store sample_memory (Data, 0) [10] = Inr m"
    by (simp add: sample_memory_def ptr_store_def Let_def region_seg_def)
  have s': "sys_read sample_os 0 0x40000000 1 ?s = Inr (1, ?s\<lparr>memory := m\<rparr>)"
    unfolding sys_read_def getp n using m by (simp add: sample_os_def sample_machine_def)
  have "memory_ok (memory ?s)" by (simp add: sample_machine_def sample_facts(5))
  from sys_read_line [OF s' this] s' show ?thesis by (auto simp: sample_machine_def)
qed

lemma bit_power: "x = 2 ^ k \<Longrightarrow> k < 32 \<Longrightarrow> bit (x :: u32) n \<longleftrightarrow> n = k"
  by (auto simp: bit_exp_iff)

lemma bit_flag_constants:
  "bit (1 :: u32) n \<longleftrightarrow> n = 0" "bit (2 :: u32) n \<longleftrightarrow> n = 1" "bit (0x40 :: u32) n \<longleftrightarrow> n = 6"
  "bit (0x200 :: u32) n \<longleftrightarrow> n = 9" "bit (0x400 :: u32) n \<longleftrightarrow> n = 10"
  by (rule bit_power; simp)+

lemma flag_tests:
  "fl AND 0x200 = 0 \<longleftrightarrow> \<not> bit (fl :: u32) 9" "fl AND 0x400 = 0 \<longleftrightarrow> \<not> bit (fl :: u32) 10"
  "fl AND 0x8 = 0 \<longleftrightarrow> \<not> bit (fl :: u32) 3"
  using and_exp_eq_0_iff_not_bit [of fl 9] and_exp_eq_0_iff_not_bit [of fl 10]
    and_exp_eq_0_iff_not_bit [of fl 3] by simp_all

lemma open_flags_form:
  "open_flags fl =
    (if fl AND 3 = 1 then 1 else if fl AND 3 = 2 then 2 else 0) OR (if bit fl 9 then 0x40 else 0) OR
    (if bit fl 3 then 0x400 else 0) OR (if bit fl 10 then 0x200 else 0)"
  by (cases "bit fl 9"; cases "bit fl 3"; cases "bit fl 10"; simp add: open_flags_def Let_def flag_tests)

lemma open_flags_bits:
  "bit (open_flags fl) n \<longleftrightarrow> n = 0 \<and> fl AND 3 = 1 \<or> n = 1 \<and> fl AND 3 = 2 \<or> n = 6 \<and> bit fl 9 \<or>
    n = 9 \<and> bit fl 10 \<or> n = 10 \<and> bit fl 3"
proof -
  have d: "bit (if P then x else y) n = (if P then bit x n else bit y n)" for P and x y :: u32
    by simp
  have z: "\<not> bit (0 :: u32) n" by simp
  show ?thesis
    unfolding open_flags_form bit_or_iff d bit_flag_constants using z by auto
qed

text \<open>
  The open flags. Newlib's are translated to Linux's bit by bit: the access mode (an
  invalid mode 3 becomes read-only), create, truncate and append; every other bit a program
  passes is dropped.
\<close>

theorem open_flags_map:
  "open_flags fl AND 3 = (if fl AND 3 = 3 then O_RDONLY else fl AND 3) \<and>
    (bit (open_flags fl) 6 \<longleftrightarrow> bit fl 9) \<and> (bit (open_flags fl) 9 \<longleftrightarrow> bit fl 10) \<and>
    (bit (open_flags fl) 10 \<longleftrightarrow> bit fl 3) \<and> open_flags fl AND NOT 0x643 = 0"
proof -
  have m: "x AND 3 = y AND 3 \<longleftrightarrow> bit x 0 = bit y 0 \<and> bit x 1 = bit y 1" for x y :: u32
    unfolding u32_eq_iff by (simp add: bit_simps)
  have b: "bit (3 :: u32) 0" "bit (3 :: u32) 1" by simp_all
  have k: "fl AND 3 = 1 \<longleftrightarrow> bit fl 0 \<and> \<not> bit fl 1" "fl AND 3 = 2 \<longleftrightarrow> \<not> bit fl 0 \<and> bit fl 1"
    "fl AND 3 = 3 \<longleftrightarrow> bit fl 0 \<and> bit fl 1"
    using m [of fl 1] m [of fl 2] m [of fl 3] b by (simp_all add: bit_flag_constants)
  have "open_flags fl AND NOT 0x643 = 0"
    unfolding u32_eq_iff by (simp add: bit_simps open_flags_bits)
  moreover have "open_flags fl AND 3 = (if fl AND 3 = 3 then O_RDONLY else fl AND 3)"
    using m [of "open_flags fl" fl] m [of "open_flags fl" 0] k by (auto simp: open_flags_bits)
  ultimately show ?thesis by (simp add: open_flags_bits)
qed

text \<open>
  The exit call ends the run: it clears \<open>running\<close> and requests a stop, and changes
  nothing else; an unknown call number ends the program with a report.
\<close>

theorem sys_exit_stops:
  "syscall_switch os 93 a0 a1 a2 s = Inr (s\<lparr>cpu := (cpu s)\<lparr>running := False, stop := True\<rparr>\<rparr>) \<and>
    (a7 \<notin> {57, 62, 63, 64, 80, 93, 169, 214, 1024, 1025, 1026, 1062} \<longrightarrow>
      syscall_switch os a7 a0 a1 a2 s = Inl (ExitEcall a7))"
  by (simp add: syscall_switch_def)

theorem sys_exit_stops_witness:
  "syscall_switch sample_os 17 1 2 3 sample_machine = Inl (ExitEcall 17)"
  using sys_exit_stops [of sample_os 1 2 3 sample_machine 17] by simp

end
