(* ===== verification/Composition.thy ===== *)
theory Composition
  imports Newlib_Props
begin

text \<open>
  Lemmas about a whole turn of the run loop that the properties of the root theory share: the
  turn as the execution of the decoded instruction, the invariant every turn preserves, and
  a small machine for the witnesses.
\<close>

unbundle bit_operations_syntax

section \<open>Lemmas of the composition\<close>

lemma swap_back: "swap_caches (decoder s) (vliw_insn s) r = Inr s' \<Longrightarrow>
    \<exists>t. r = Inr t \<and> s' = with_caches (decoder s) (vliw_insn s) t"
  by (cases r) auto

lemma run_step_insn:
  assumes ok: "caches_ok s" "small_text (memory s)" "\<not> bit (pc (cpu s)) 0"
    and f: "fetch_code (memory s) (cpu s) = Inr (code, len)" and d: "isa_decode code = Some i"
  shows "swap_caches (decoder s) (vliw_insn s) (run_step os s) = run_insn os (vliw_of i) len s"
proof -
  have "with_caches (decoder s) (vliw_insn s) s = s" by (simp add: with_caches_def)
  moreover have "step_ref os s = run_insn os (vliw_of i) len s"
    using f decode_slow_correct [OF d] by (simp add: step_ref_def)
  ultimately show ?thesis using run_step_ref(1) [OF ok, of "decoder s" "vliw_insn s" os] by metis
qed

lemma run_insn_none:
  assumes "no_irq (cpu s)"
  shows "\<exists>n. run_insn os v len s = chain (execute os v (put_cpu s
      ((cpu s)\<lparr>pc_inc := pc (cpu s) + len, pc_next := pc (cpu s) + len, mip := n\<rparr>)))
    (\<lambda>s. Inr (s\<lparr>cpu := (cpu s)\<lparr>pc := pc_next (cpu s), cycle := cycle (cpu s) + 1\<rparr>\<rparr>))"
proof -
  let ?c = "(cpu s)\<lparr>pc_inc := pc (cpu s) + len, pc_next := pc (cpu s) + len\<rparr>"
  have "no_irq ?c" using assms by (simp add: no_irq_def external_pending_def timer_pending_def)
  then obtain n where "check_irqs v ?c = (v, ?c\<lparr>mip := n\<rparr>)" using check_irqs_none by blast
  then show ?thesis by (auto simp: run_insn_def Let_def)
qed

text \<open>What every turn preserves.\<close>

definition machine_inv :: "'h machine \<Rightarrow> bool" where
  "machine_inv s \<longleftrightarrow> cpu_inv (cpu s) \<and> memory_ok (memory s)"

lemma run_insn_inv:
  assumes "run_insn os v len s = Inr s'" and "regs32 (cpu s)"
  shows "cpu_inv (cpu s')"
proof -
  obtain c v' t where t: "execute os v' (put_cpu s c) = Inr t" "length (reg c) = length (reg (cpu s))"
    and s': "reg (cpu s') = reg (cpu t)"
    using assms(1) by (auto simp: run_insn_def Let_def case_prod_unfold faultfacts)
  from t(1) obtain u where u: "exec_switch os v' (put_cpu s c) = Inr u" "cpu t = clear_r0 (cpu u)"
    by (auto simp: execute_def faultfacts put_cpu_def)
  have "length (reg (cpu t)) = length (reg (cpu s))"
    using execute_keeps [OF t(1)] t(2) by (simp add: keeps_def put_cpu_def)
  then have "regs32 (cpu u)" using u(2) assms(2) by (simp add: regs32_def clear_r0_def)
  then have "cpu_inv (cpu t)" using u(2) cpu_inv_clear by simp
  then show ?thesis using s' by (simp add: cpu_inv_def regs32_def reg_val_def)
qed

lemma run_step_inv:
  assumes "machine_inv s" and "run_step os s = Inr s'"
  shows "machine_inv s' \<and> layout (memory s') = layout (memory s)"
proof -
  obtain code len v s1 where s1: "decode_cached code s = Inr (v, s1)" "run_insn os v len s1 = Inr s'"
    using assms(2) by (auto simp: run_step_def faultfacts)
  then have m: "memory s1 = memory s" "cpu s1 = cpu s"
    by (auto simp: decode_cached_def Let_def faultfacts split: option.splits)
  have "layout (memory s') = layout (memory s)" using run_insn_keeps_but [OF s1(2)] m by simp
  moreover have "cpu_inv (cpu s')"
    using run_insn_inv [OF s1(2)] assms(1) m by (simp add: machine_inv_def cpu_inv_def)
  ultimately show ?thesis
    using layout_ok [of "memory s'" "memory s"] assms(1) by (simp add: machine_inv_def)
qed

lemma run_loop_inv:
  assumes "machine_inv s" and "run_loop os n s = Inr s'"
  shows "machine_inv s' \<and> layout (memory s') = layout (memory s)"
  using assms
proof (induction n arbitrary: s)
  case (Suc n)
  show ?case
  proof (cases "running (cpu s)")
    case True
    then obtain t where t: "run_step os s = Inr t"
      "(if stop (cpu t) then Inr (t\<lparr>cpu := (cpu t)\<lparr>stop := False\<rparr>\<rparr>) else run_loop os n t) = Inr s'"
      using Suc.prems(2) by (auto simp: faultfacts)
    have i: "machine_inv t \<and> layout (memory t) = layout (memory s)" using run_step_inv [OF Suc.prems(1) t(1)] .
    show ?thesis
    proof (cases "stop (cpu t)")
      case True
      then show ?thesis using t(2) i by (auto simp: machine_inv_def cpu_inv_def regs32_def reg_val_def)
    next
      case False
      then show ?thesis using t(2) i Suc.IH [of t] by simp
    qed
  qed (use Suc.prems in simp)
qed simp

lemma run_inv:
  assumes "machine_inv s" and "run os n s = Inr s'"
  shows "machine_inv s' \<and> layout (memory s') = layout (memory s)"
  using run_loop_inv [of "s\<lparr>cpu := (cpu s)\<lparr>running := True, cycle := 0\<rparr>\<rparr>" os "unat n" s'] assms
  by (simp add: run_def machine_inv_def cpu_inv_def regs32_def reg_val_def)

text \<open>A small bare machine for the witnesses: 16 bytes of text, no Newlib.\<close>

definition bare_machine :: "u32 \<Rightarrow> nat machine" where
  "bare_machine code =
    sample_machine\<lparr>cpu := (Cpu_reset Cpu_new)\<lparr>running := True\<rparr>, do_newlib := False,
      memory := sample_memory\<lparr>insnMem := \<lparr>memBase = 0, memLen = 16, data = le_bytes 4 code @ replicate 12 0\<rparr>\<rparr>\<rparr>"

lemma bare_facts:
  "caches_ok (bare_machine code)" "small_text (memory (bare_machine code))"
  "pc (cpu (bare_machine code)) = 0" "cpu_inv (cpu (bare_machine code))" "no_irq (cpu (bare_machine code))"
  "no_wrap (insnMem (memory (bare_machine code)))" "no_wrap (dataMem (memory (bare_machine code)))"
  "running (cpu (bare_machine code))" "\<not> stop (cpu (bare_machine code))" "machine_inv (bare_machine code)"
  by (simp_all add: bare_machine_def sample_machine_def caches_ok_start small_text_def cpu_inv_def
      regs32_def reg_val_def Cpu_reset_def Cpu_new_def no_irq_def no_wrap_def sample_memory_def
      machine_inv_def memory_ok_def del: le_bytes.simps)

lemma bare_fetch:
  "code AND 3 = 3 \<Longrightarrow> fetch_code (memory (bare_machine code)) (cpu (bare_machine code)) = Inr (code, 4)"
  by (simp add: fetch_code_def Cpu_fetch_def Segment_fetch32_def seg_load_def seg_off_def bare_facts(3)
      slice_of_def expand_def)
    (simp add: bare_machine_def le_word_bytes expand_def)

text \<open>A store to the port, and the turn that powers the machine off.\<close>

lemma store_port:
  assumes "\<not> writable (memory s) x" and "ishost (memory s) x" and "regs32 (cpu s)"
    and "reg_val (cpu s) (ucast t) + j = x"
  shows "execute os (vliw_of (I_ST S_W t u j)) s =
    (let s' = apply_host (host_write x (reg_val (cpu s) (ucast u))) s in Inr (put_cpu s' (clear_r0 (cpu s'))))"
proof -
  let ?v = "vliw_of (I_ST S_W t u j)"
  have "exec_store ?v s = Some (Inr (apply_host (host_write x (reg_val (cpu s) (ucast u))) s))"
    using assms by (auto simp: exec_store_def store_op_def Memory_write32_def writable_def Let_def)
  then show ?thesis
    using group_st [of ?v S_W] by (subst execute_store) (auto simp: put_cpu_def Let_def)
qed

lemma step_power_off:
  assumes ok: "caches_ok s" "small_text (memory s)" "\<not> bit (pc (cpu s)) 0"
    and inv: "cpu_inv (cpu s)" and q: "no_irq (cpu s)"
    and f: "fetch_code (memory s) (cpu s) = Inr (code, len)" and d: "isa_decode code = Some (I_ST S_W t u j)"
    and h: "\<not> readable (memory s) 0xfffffffc" "ishost (memory s) 0xfffffffc"
    and a: "reg_val (cpu s) (ucast t) + j = 0xfffffffc"
    and w: "ucast (drop_bit 16 (reg_val (cpu s) (ucast u))) = (2 :: u16)"
  shows "\<exists>s'. run_step os s = Inr s' \<and> stop (cpu s') \<and> memory s' = memory s \<and> console s' = console s \<and>
    pc (cpu s') = pc (cpu s) + len \<and> (\<forall>i < 32. reg_val (cpu s') i = reg_val (cpu s) i)"
proof -
  let ?i = "I_ST S_W t u j"
  obtain n where n: "run_insn os (vliw_of ?i) len s = chain (execute os (vliw_of ?i) (put_cpu s
      ((cpu s)\<lparr>pc_inc := pc (cpu s) + len, pc_next := pc (cpu s) + len, mip := n\<rparr>)))
    (\<lambda>s. Inr (s\<lparr>cpu := (cpu s)\<lparr>pc := pc_next (cpu s), cycle := cycle (cpu s) + 1\<rparr>\<rparr>))"
    using run_insn_none [OF q] by blast
  let ?s = "put_cpu s ((cpu s)\<lparr>pc_inc := pc (cpu s) + len, pc_next := pc (cpu s) + len, mip := n\<rparr>)"
  have r32: "regs32 (cpu s)" using inv by (simp add: cpu_inv_def)
  have "execute os (vliw_of ?i) ?s = Inr (put_cpu ?s (clear_r0 ((cpu ?s)\<lparr>stop := True\<rparr>)))"
    using h a w r32 writable_readable
    by (subst store_port [where x = "0xfffffffc"])
      (auto simp: put_cpu_def regs32_def reg_val_def host_write_def host_def CMD_POWER_OFF_def apply_host_def Let_def)
  then obtain s1 where s1: "swap_caches (decoder s) (vliw_insn s) (run_step os s) = Inr s1"
    "stop (cpu s1)" "memory s1 = memory s" "console s1 = console s" "pc (cpu s1) = pc (cpu s) + len"
    "reg (cpu s1) = (reg (cpu s))[0 := 0]"
    using run_step_insn [OF ok f d, of os] n by (simp add: put_cpu_def clear_r0_def)
  from swap_back [OF s1(1)] obtain t where t: "run_step os s = Inr t" "s1 = with_caches (decoder s) (vliw_insn s) t"
    by blast
  have "reg_val (cpu t) i = reg_val (cpu s) i" if "i < 32" for i
    using s1(6) t(2) inv r32 by (cases "unat i") (auto simp: reg_val_def cpu_inv_def regs32_def)
  with t s1 show ?thesis by auto
qed

end
