(* ===== verification/Exec_Wide.thy ===== *)
theory Exec_Wide
  imports Exec_Frame
begin

text \<open>
  Execution stays inside the register file. In C the registers are an array in the middle of a structure: an index
  past its end would read or write whatever stands behind it. The model has these words too, when the
  list is made longer (\<open>with_regs\<close>): an instruction whose register fields are below 32 does the same
  whatever they are, and leaves them as they are (\<open>execute_regs\<close>).
\<close>

unbundle bit_operations_syntax

definition widen_regs :: "u32 list \<Rightarrow> cpu \<Rightarrow> cpu" where
  "widen_regs xs c = c\<lparr>reg := reg c @ xs\<rparr>"

definition with_regs :: "u32 list \<Rightarrow> 'h machine \<Rightarrow> 'h machine" where
  "with_regs xs s = s\<lparr>cpu := widen_regs xs (cpu s)\<rparr>"

abbreviation regs_beside :: "u32 list \<Rightarrow> 'h machine result \<Rightarrow> 'h machine result" where
  "regs_beside xs \<equiv> map_sum id (with_regs xs)"

abbreviation regs_beside2 :: "u32 list \<Rightarrow> ('a \<times> 'h machine) result \<Rightarrow> ('a \<times> 'h machine) result" where
  "regs_beside2 xs \<equiv> map_sum id (map_prod id (with_regs xs))"

lemma widen_fields [simp]:
  "pc (widen_regs xs c) = pc c" "pc_next (widen_regs xs c) = pc_next c" "pc_inc (widen_regs xs c) = pc_inc c" "cycle (widen_regs xs c) = cycle c"
  "mstatus (widen_regs xs c) = mstatus c" "mtvec (widen_regs xs c) = mtvec c" "mepc (widen_regs xs c) = mepc c"
  "heap (widen_regs xs c) = heap c" "endOfData (widen_regs xs c) = endOfData c" "csr_value os n (widen_regs xs c) = csr_value os n c"
  by (simp_all add: widen_regs_def csr_value_def fun_eq_iff)

lemma widen_updates [simp]:
  "(widen_regs xs c)\<lparr>pc_next := n\<rparr> = widen_regs xs (c\<lparr>pc_next := n\<rparr>)" "(widen_regs xs c)\<lparr>stop := b\<rparr> = widen_regs xs (c\<lparr>stop := b\<rparr>)"
  "(widen_regs xs c)\<lparr>running := b\<rparr> = widen_regs xs (c\<lparr>running := b\<rparr>)" "(widen_regs xs c)\<lparr>heap := n\<rparr> = widen_regs xs (c\<lparr>heap := n\<rparr>)"
  "csr_update n v (widen_regs xs c) = widen_regs xs (csr_update n v c)" "ecall (widen_regs xs c) = widen_regs xs (ecall c)"
  "ebreak (widen_regs xs c) = widen_regs xs (ebreak c)" "mret (widen_regs xs c) = widen_regs xs (mret c)"
  by (simp_all add: widen_regs_def csr_update_def ecall_def ebreak_def mret_def Let_def)

lemma with_regs_fields [simp]:
  "cpu (with_regs xs s) = widen_regs xs (cpu s)" "memory (with_regs xs s) = memory s" "console (with_regs xs s) = console s"
  "os_state (with_regs xs s) = os_state s" "do_newlib (with_regs xs s) = do_newlib s"
  by (simp_all add: with_regs_def)

lemma with_regs_updates [simp]:
  "put_cpu (with_regs xs s) (widen_regs xs c) = with_regs xs (put_cpu s c)"
  "(with_regs xs s)\<lparr>cpu := widen_regs xs c\<rparr> = with_regs xs (s\<lparr>cpu := c\<rparr>)"
  "(with_regs xs s)\<lparr>memory := m\<rparr> = with_regs xs (s\<lparr>memory := m\<rparr>)"
  "(with_regs xs s)\<lparr>console := out\<rparr> = with_regs xs (s\<lparr>console := out\<rparr>)"
  "(with_regs xs s)\<lparr>os_state := h\<rparr> = with_regs xs (s\<lparr>os_state := h\<rparr>)"
  "apply_host e (with_regs xs s) = with_regs xs (apply_host e s)"
  by (simp_all add: with_regs_def put_cpu_def apply_host_def widen_regs_def split: host_effect.split)

lemma widen_access [simp]:
  assumes "regs32 c" and "i < 32"
  shows "reg_get (widen_regs xs c) i = reg_get c i" and "reg_put i v (widen_regs xs c) = map_sum id (widen_regs xs) (reg_put i v c)"
  using assms by (simp_all add: reg_get_def reg_put_def widen_regs_def regs32_def word_less_nat_alt nth_append list_update_append1)

lemma regs32_updates [simp]:
  "regs32 (c\<lparr>pc_next := n\<rparr>) = regs32 c" "regs32 (c\<lparr>heap := n\<rparr>) = regs32 c"
  by (simp_all add: regs32_def)

lemma regs32_host [simp]: "regs32 (cpu (apply_host e s)) = regs32 (cpu s)"
  by (simp add: apply_host_def regs32_def split: host_effect.split)

section \<open>The processor's own cases\<close>

definition fields32 :: "vliw \<Rightarrow> bool" where
  "fields32 v \<longleftrightarrow> rd v < 32 \<and> rs1 v < 32 \<and> rs2 v < 32"

lemma exec_groups_regs:
  assumes "fields32 v" and "regs32 c"
  shows "exec_jump v (widen_regs xs c) = map_option (map_sum id (widen_regs xs)) (exec_jump v c)"
    and "exec_branch v (widen_regs xs c) = map_option (map_sum id (widen_regs xs)) (exec_branch v c)"
    and "exec_alu v (widen_regs xs c) = map_option (map_sum id (widen_regs xs)) (exec_alu v c)"
    and "exec_alui v (widen_regs xs c) = map_option (map_sum id (widen_regs xs)) (exec_alui v c)"
    and "exec_upper v (widen_regs xs c) = map_option (map_sum id (widen_regs xs)) (exec_upper v c)"
    and "exec_muldiv v (widen_regs xs c) = map_option (map_sum id (widen_regs xs)) (exec_muldiv v c)"
  using assms
  by (auto simp: fields32_def exec_jump_def exec_branch_def exec_alu_def exec_alui_def exec_upper_def exec_muldiv_def
      Let_def option.map_comp comp_def intro!: option.map_cong chain_cong)

lemma exec_cpu_regs:
  assumes "fields32 v" and "regs32 c"
  shows "exec_cpu v (widen_regs xs c) = map_option (map_sum id (widen_regs xs)) (exec_cpu v c)"
  unfolding exec_cpu_def exec_groups_regs [OF assms] by (simp add: or_else_def split: option.split)

lemma csr_insn_regs:
  assumes "regs32 c" and "r < 32"
  shows "csr_insn os ty n r a x (widen_regs xs c) h = map_sum id (map_prod (widen_regs xs) id) (csr_insn os ty n r a x c h)"
  using assms by (cases ty) (auto simp: csr_insn_form Let_def intro!: chain_cong)

section \<open>Memory and system\<close>

lemma read_stdin_regs:
  "read_stdin os n p k (with_regs xs s) = regs_beside2 xs (read_stdin os n p k s)"
  by (induction n arbitrary: p k s)
    (auto simp: Let_def case_prod_unfold split: option.split intro!: chain_cong)

lemma write_console_regs:
  "write_console f n p k (with_regs xs s) = regs_beside2 xs (write_console f n p k s)"
  by (induction n arbitrary: p k s) (auto intro!: chain_cong)

lemma sys_regs:
  "sys_gettimeofday os a (with_regs xs s) = regs_beside2 xs (sys_gettimeofday os a s)"
  "sys_lseek os a b c (with_regs xs s) = regs_beside2 xs (sys_lseek os a b c s)"
  "sys_read os a b c (with_regs xs s) = regs_beside2 xs (sys_read os a b c s)"
  "sys_write os a b c (with_regs xs s) = regs_beside2 xs (sys_write os a b c s)"
  "sys_open os a b c (with_regs xs s) = regs_beside2 xs (sys_open os a b c s)"
  "sys_close os a (with_regs xs s) = regs_beside2 xs (sys_close os a s)"
  "sys_link os a b (with_regs xs s) = regs_beside2 xs (sys_link os a b s)"
  "sys_unlink os a (with_regs xs s) = regs_beside2 xs (sys_unlink os a s)"
  by (auto simp: sys_gettimeofday_def sys_lseek_def sys_read_def sys_write_def sys_open_def
      sys_close_def sys_link_def sys_unlink_def case_prod_unfold Let_def read_stdin_regs
      write_console_regs intro!: chain_cong)

lemma return_a0_regs:
  assumes "\<And>v t. r = Inr (v, t) \<Longrightarrow> regs32 (cpu t)"
  shows "return_a0 (regs_beside2 xs r) = regs_beside xs (return_a0 r)"
  using assms by (cases r) (auto simp: return_a0_def)

lemma return_a0_Inr:
  "regs32 (cpu t) \<Longrightarrow> return_a0 (Inr (v, with_regs xs t)) = regs_beside xs (return_a0 (Inr (v, t)))"
  by (simp add: return_a0_def)

lemma keeps_regs32: "keeps s t \<Longrightarrow> regs32 (cpu s) \<Longrightarrow> regs32 (cpu t)"
  by (simp add: keeps_def regs32_def)

lemma syscall_regs:
  assumes "do_newlib s" and "regs32 (cpu s)"
  shows "syscall os (with_regs xs s) = regs_beside xs (syscall os s)"
proof -
  have brk: "(let (r, c) = sys_brk a b (widen_regs xs (cpu s)) in Inr (r, put_cpu (with_regs xs s) c)) =
      regs_beside2 xs (let (r, c) = sys_brk a b (cpu s) in Inr (r, put_cpu s c))" for a b
    by (simp add: sys_brk_def Let_def)
  have time: "(let (t, h) = os_time os (os_state s) in Inr (ucast t, (with_regs xs s)\<lparr>os_state := h\<rparr>)) =
      regs_beside2 xs (let (t, h) = os_time os (os_state s) in Inr (ucast t, s\<lparr>os_state := h\<rparr>))"
    by (simp add: case_prod_unfold Let_def)
  have stat: "Inr (0, with_regs xs s) = regs_beside2 xs (Inr (0, s))" by simp
  have b: "regs32 (cpu (put_cpu s (snd (sys_brk a b (cpu s)))))" for a b
    using assms(2) by (simp add: sys_brk_def Let_def put_cpu_def)
  have "syscall_switch os a7 a0 a1 a2 (with_regs xs s) = regs_beside xs (syscall_switch os a7 a0 a1 a2 s)" for a7 a0 a1 a2
    unfolding syscall_switch_def with_regs_fields brk time sys_regs stat
    using assms
    by (auto simp: return_a0_Inr b Let_def case_prod_unfold intro!: return_a0_regs
        dest!: gettimeofday_keeps lseek_keeps read_keeps write_keeps open_keeps close_keeps link_keeps unlink_keeps
        keeps_regs32 split: prod.splits)
  then show ?thesis using assms by (simp add: syscall_def)
qed

lemma exec_rest_regs:
  assumes "fields32 v" and "regs32 (cpu s)"
  shows "exec_load v (with_regs xs s) = map_option (regs_beside xs) (exec_load v s)"
    and "exec_store v (with_regs xs s) = map_option (regs_beside xs) (exec_store v s)"
    and "exec_system os v (with_regs xs s) = map_option (regs_beside xs) (exec_system os v s)"
    and "exec_csr os v (with_regs xs s) = map_option (regs_beside xs) (exec_csr os v s)"
  using assms
  by (auto simp: fields32_def exec_load_def exec_store_def exec_system_def exec_csr_def case_prod_unfold Let_def
      syscall_regs csr_insn_regs option.map_comp comp_def intro!: option.map_cong chain_cong)

lemma execute_regs:
  assumes "fields32 v" and "regs32 (cpu s)"
  shows "execute os v (with_regs xs s) = regs_beside xs (execute os v s)"
proof -
  have "map_option (\<lambda>r. chain r (\<lambda>c. Inr (put_cpu (with_regs xs s) c))) (exec_cpu v (widen_regs xs (cpu s))) =
      map_option (regs_beside xs) (map_option (\<lambda>r. chain r (\<lambda>c. Inr (put_cpu s c))) (exec_cpu v (cpu s)))"
    unfolding exec_cpu_regs [OF assms] by (simp add: option.map_comp comp_def)
  then have "exec_switch os v (with_regs xs s) = regs_beside xs (exec_switch os v s)"
    by (simp add: exec_switch_def exec_rest_regs [OF assms] or_else_map split: option.split)
  moreover have "clear_r0 (widen_regs xs (cpu t)) = widen_regs xs (clear_r0 (cpu t))" if "exec_switch os v s = Inr t" for t
  proof -
    have "execute os v s = Inr (put_cpu t (clear_r0 (cpu t)))" using that by (simp add: execute_def)
    then have "length (reg (cpu t)) = 32"
      using execute_keeps [of os v s] assms(2) by (fastforce simp: keeps_def put_cpu_def clear_r0_def regs32_def)
    then show ?thesis by (simp add: clear_r0_def widen_regs_def list_update_append1)
  qed
  ultimately show ?thesis by (simp add: execute_def cong: chain_cong)
qed

end
