(* ===== verification/Decode_Props.thy ===== *)
theory Decode_Props
  imports Decode_Facts Decomp16_Facts
begin

text \<open>
  The properties of the decoders and of their tables, each followed by the theorem that
  applies it to a concrete input.
\<close>

unbundle bit_operations_syntax

text \<open>With the tables in front: a known encoding decodes to its instruction.\<close>

lemma decode2vliw_known:
  assumes "decoder_ok d" and "isa_decode code = Some i"
  shows "\<exists>d'. decode2vliw code d = Inr ((True, vliw_of i), d') \<and> decoder_ok d'"
proof -
  have low: "\<not> code AND 3 \<noteq> 3"
  proof -
    have "code AND 0x7f = k \<Longrightarrow> code AND 3 = k AND 3" for k
      using masked_weaken [where x = code and m = "0x7f" and m' = 3] by simp
    then show ?thesis
      using assms(2) by (auto simp: isa_decode_def Let_def split: if_splits)
  qed
  then have "decode_ref code = Inr (True, vliw_of i)"
    using decode_slow_correct [OF assms(2)] by (simp add: decode_ref_def)
  then show ?thesis
    using decode2vliw_transparent [OF assms(1), of code]
    by (cases "decode2vliw code d") auto
qed

text \<open>
  C4: The 32-bit decoder is correct. For every encoding of RV32I, M, Zicsr and the
  machine-mode system instructions (\<open>isa_decode\<close>, written from the manual's fields),
  \<open>decode2vliw\<close> succeeds, whatever its tables have remembered so far, and produces the
  \<open>Vliw\<close> of that instruction: operation code, the three registers, and the sign-extended
  immediate.
\<close>

theorem decode2vliw_correct:
  assumes "decoder_ok d" and "isa_decode code = Some i"
  shows "\<exists>d'. decode2vliw code d = Inr ((True, vliw_of i), d') \<and> decoder_ok d'"
  using assms by (rule decode2vliw_known)

theorem decode2vliw_correct_witness:
  "\<exists>d'. decode2vliw 0xfe010113 decoder_start =
     Inr ((True, \<lparr>opcode = VLIW_ADDI, rd = 2, rs1 = 2, rs2 = 0, imm = 0xffffffe0\<rparr>), d') \<and> decoder_ok d'"
proof -
  have "isa_decode 0xfe010113 = Some (I_IMM A_ADD 2 2 0xffffffe0)"
    by code_simp
  from decode2vliw_correct [OF decoder_ok_start this] show ?thesis by simp
qed

text \<open>
  C17: The decoder's tables are invisible. From any state they can reach, \<open>decode2vliw\<close> returns
  what a decoder without tables returns (the search of \<open>optable\<close>, or the compressed
  switch), for every word, faults included, and leaves the tables sound.
\<close>

theorem decode2vliw_tables_invisible:
  assumes "decoder_ok d"
  shows "map_sum id fst (decode2vliw code d) =
      (if code AND 3 = 3 then decode_slow code else compressed_decode code)
    \<and> (case decode2vliw code d of Inl _ \<Rightarrow> True | Inr (_, d') \<Rightarrow> decoder_ok d')"
  using decode2vliw_transparent [OF assms, of code]
  by (cases "decode2vliw code d") (auto simp: decode_ref_def split: if_splits)

theorem decode2vliw_tables_invisible_witness:
  "map_sum id fst (decode2vliw 0x4501 decoder_start) = compressed_decode 0x4501"
  using decode2vliw_tables_invisible [OF decoder_ok_start, of "0x4501"] by simp

text \<open>
  A remembered instruction stays decoded: after a successful decode, decoding the same
  word again gives the same \<open>Vliw\<close>, without a change to the tables, for 32-bit and 16-bit
  encodings alike.
\<close>

theorem decode_twice:
  assumes "decode2vliw code d = Inr ((True, v), d')"
  shows "decode2vliw code d' = Inr ((True, v), d')"
proof (cases "code AND 3 \<noteq> 3")
  case True
  then obtain t where t: "decodeCompressed code (fasts d) = Inr ((True, v), t)" "d' = d\<lparr>fasts := t\<rparr>"
    using assms by (auto simp: decode2vliw_def faultfacts)
  then have "fast_lookup t (ucast code) = Some v"
    by (auto simp: decodeCompressed_def faultfacts fast.second_lookup split: option.splits)
  then show ?thesis
    using True t(2) by (simp add: decode2vliw_def decodeCompressed_def)
next
  case False
  then have "code \<noteq> 0" by auto
  then have "hash_lookup (hashes d') code = Some v"
    using assms False
    by (auto simp: decode2vliw_def faultfacts hash.second_lookup split: option.splits)
  then show ?thesis using False by (simp add: decode2vliw_def)
qed

theorem decode_twice_witness:
  "\<exists>v d'. decode2vliw 0x00000073 decoder_start = Inr ((True, v), d') \<and>
     decode2vliw 0x00000073 d' = Inr ((True, v), d')"
proof -
  have "isa_decode 0x00000073 = Some (I_SYS Y_ECALL)" by code_simp
  from decode2vliw_known [OF decoder_ok_start this] decode_twice show ?thesis by blast
qed

text \<open>
  C29: An encoding that no row matches is not an error: \<open>decode2vliw\<close> returns false, leaves
  the no-operation in the \<open>Vliw\<close>, and remembers nothing. The run loop then executes that
  no-operation; an illegal instruction never traps.
\<close>

theorem unknown_encoding_is_nop:
  assumes "op_find code optable = None" and "code AND 3 = 3" and "hash_lookup (hashes d) code = None"
  shows "decode2vliw code d =
    Inr ((False, \<lparr>opcode = VLIW_NOP, rd = 0, rs1 = 0, rs2 = 0, imm = 0\<rparr>), d)"
  using assms by (simp add: decode2vliw_def decode_slow_def Vliw_init_def)

lemma op_find_None: "op_find code rows = None \<longleftrightarrow> list_all (\<lambda>otp. code AND op_mask otp \<noteq> op_code otp) rows"
  by (induction rows) simp_all

theorem unknown_encoding_is_nop_witness:
  "decode2vliw 0xffffffff decoder_start =
    Inr ((False, \<lparr>opcode = VLIW_NOP, rd = 0, rs1 = 0, rs2 = 0, imm = 0\<rparr>), decoder_start)"
proof -
  have "op_find 0xffffffff optable = None"
    unfolding op_find_None by (simp add: rows_all rows_unfold cong: op_lazy list_all_lazy)
  moreover have "hash_lookup (hashes decoder_start) 0xffffffff = None"
    using hash.lookup_start [of "0xffffffff"] by (simp add: decoder_start_def)
  ultimately show ?thesis by (intro unknown_encoding_is_nop) simp_all
qed

text \<open>
  C34: The rows of \<open>optable\<close> mean what they spell: the mask is the set of fixed bits of the
  row's bit text and the code their values, in every row but four. The bit texts of
  \<open>ebreak\<close>, \<open>sret\<close>, \<open>mret\<close> and \<open>wfi\<close> disagree with their code column (which is the right
  one, and the one the decoders use).
\<close>

theorem optable_text:
  "map op_vliw (filter (\<lambda>otp. \<not> row_text_ok otp) optable) =
    [VLIW_EBREAK, VLIW_SRET, VLIW_MRET, VLIW_WFI]"
proof -
  have none: "filter (\<lambda>otp. \<not> row_text_ok otp) rows = []" if "list_all row_text_ok rows" for rows
    using that by (simp add: filter_empty_conv list_all_iff)
  show ?thesis
    unfolding optable_def filter_append
    by (simp only: none [OF text_wrong_m] none [OF text_wrong_a] none [OF text_wrong_f]
        none [OF text_wrong_d] none [OF text_wrong_q] none [OF text_wrong_c] append_Nil2 text_wrong_i)
qed

text \<open>
  C15: The expansion of 16-bit encodings is right: whenever \<open>decomp16_table\<close> has an entry, the
  32-bit word there has the low bits of a full encoding and decodes to exactly the
  instruction the compressed encoding stands for.
\<close>

theorem decomp16_expands:
  assumes "rvc_isa c = Some i" and "decoder_ok d"
  shows "decomp16_table c \<noteq> 0 \<and> decomp16_table c AND 3 = 3 \<and>
    (\<exists>d'. decode2vliw (decomp16_table c) d = Inr ((True, vliw_of i), d'))"
  using rvc_low_bits [OF assms(1)] decode2vliw_transparent [OF assms(2), of "decomp16_table c"]
    decode_slow_correct [OF rvc_decodes [OF assms(1)]]
  by (cases "decode2vliw (decomp16_table c) d") (auto simp: decode_ref_def)

theorem decomp16_expands_witness:
  "\<exists>d'. decode2vliw (decomp16_table 0x1141) decoder_start =
     Inr ((True, vliw_of (I_IMM A_ADD 2 2 0xfffffff0)), d')"
proof -
  have "rvc_isa 0x1141 = Some (I_IMM A_ADD 2 2 0xfffffff0)" by code_simp
  from decomp16_expands [OF this decoder_ok_start] show ?thesis by blast
qed

text \<open>
  Encoding and decoding are inverse on every instruction an encoding exists for, and every
  instruction the decoder recognises is one of those.
\<close>

theorem encode_decode:
  assumes "isa_wf i"
  shows "isa_decode (isa_encode i) = Some i \<and> decode_slow (isa_encode i) = Inr (True, vliw_of i)"
  using isa_roundtrip [OF assms] decode_slow_correct by blast

theorem encode_decode_witness:
  "decode_slow (isa_encode (I_BR B_LTU 10 11 0xfffff000)) =
     Inr (True, \<lparr>opcode = VLIW_BLTU, rd = 0, rs1 = 10, rs2 = 11, imm = 0xfffff000\<rparr>)"
proof -
  have "isa_wf (I_BR B_LTU 10 11 0xfffff000)" by code_simp
  from encode_decode [OF this] show ?thesis by simp
qed

lemma and_one_bit: "drop_bit n x AND 1 = 0 \<longleftrightarrow> \<not> bit (x :: u32) n"
  by (simp add: and_one_eq even_iff_mod_2_eq_zero bit_iff_odd_drop_bit)

lemmas compressed_imms = mk_imm6_def mk_addi_def jal_off_def mk_beq_def mk_lwsp_def mk_swsp_def
  mk_addi16sp_def mk_addi4spn_def mk_sw_def rvc_imm6_def rvc_j_def rvc_b_def rvc_lwsp_def rvc_swsp_def
  rvc_16sp_def rvc_4spn_def rvc_lw_def

text \<open>
  The two decoders of 16-bit encodings extract the same immediates, with one exception:
  \<open>mk_sw\<close>, the offset of compressed loads and stores, treats bit 6 of the offset as a sign,
  so offsets from 64 on come out negative in the disassembly of \<open>decodeCompressed\<close>, while the
  table the run loop uses has them right.
\<close>

theorem compressed_immediates:
  fixes c :: u16
  defines "w \<equiv> ucast c :: u32"
  shows "mk_imm6 w = rvc_imm6 w \<and> mk_addi c = rvc_imm6 w \<and> jal_off c = rvc_j w \<and> mk_beq c = rvc_b w \<and>
    mk_lwsp c = rvc_lwsp w \<and> mk_swsp c = rvc_swsp w \<and> mk_addi16sp c = rvc_16sp w \<and>
    mk_addi4spn c = rvc_4spn w \<and> mk_sw c = signed_take_bit 6 (rvc_lw w)"
  unfolding u32_eq_iff w_def
  by (intro conjI; simp add: compressed_imms Let_def bit_simps wordfacts and_one_bit del: push_bit_Suc)

end
