(* ===== verification/Exec_Props.thy ===== *)
theory Exec_Props
  imports Composition Exec_Wide Decode_Props
begin

text \<open>
  Properties of \<open>execute\<close> on its own: when a division stops the simulator, what happens to
  the instructions the tables know and the switch does not, and that a decoded instruction stays inside the registers.
\<close>

unbundle bit_operations_syntax




text \<open>
  C33: A decoded instruction never leaves the register file. Whatever word is decoded, the three
  register fields of the \<open>Vliw\<close> are below 32 and its operation code is not the one that marks an empty cache slot; and
  executing it does not depend on what follows the 32 registers in memory and does not change it: with any words
  \<open>xs\<close> behind them, which an index out of range would read or write, it ends the same way, faults included, and
  leaves \<open>xs\<close> there.
\<close>

theorem decoded_registers_in_range:
  assumes "decoder_ok d" and "decode2vliw code d = Inr ((ok, v), d')"
  shows "rd v < 32 \<and> rs1 v < 32 \<and> rs2 v < 32 \<and> opcode v \<noteq> VLIW_NONE \<and>
    (\<forall>s xs. length (reg (cpu s)) = 32 \<longrightarrow>
      (case execute os v s of
         Inl e \<Rightarrow> execute os v (s\<lparr>cpu := (cpu s)\<lparr>reg := reg (cpu s) @ xs\<rparr>\<rparr>) = Inl e
       | Inr s' \<Rightarrow> length (reg (cpu s')) = 32 \<and>
           execute os v (s\<lparr>cpu := (cpu s)\<lparr>reg := reg (cpu s) @ xs\<rparr>\<rparr>) =
             Inr (s'\<lparr>cpu := (cpu s')\<lparr>reg := reg (cpu s') @ xs\<rparr>\<rparr>)))"
proof -
  have v: "rd v < 32" "rs1 v < 32" "rs2 v < 32" "opcode v \<noteq> VLIW_NONE"
    using decode2vliw_transparent [OF assms(1), of code] assms(2) decode_ref_keeps
    by (fastforce simp: regs_ok_def)+
  have "execute os v (with_regs xs s) = regs_beside xs (execute os v s)" if "length (reg (cpu s)) = 32" for s xs
    using v that by (intro execute_regs) (simp_all add: fields32_def regs32_def)
  then show ?thesis using v execute_keeps [of os v]
    by (auto simp: with_regs_def widen_regs_def keeps_def split: sum.split)
qed

theorem decoded_registers_in_range_witness:
  "\<exists>v d' s'. decode2vliw 0x01ff8fb3 decoder_start = Inr ((True, v), d') \<and> rd v = 31 \<and>
    execute sample_os v (bare_machine 0) = Inr s' \<and> reg_val (cpu s') 31 = 0 \<and>
    execute sample_os v ((bare_machine 0)\<lparr>cpu := (cpu (bare_machine 0))\<lparr>reg := reg (cpu (bare_machine 0)) @ [7]\<rparr>\<rparr>) =
      Inr (s'\<lparr>cpu := (cpu s')\<lparr>reg := reg (cpu s') @ [7]\<rparr>\<rparr>)"
proof -
  let ?s = "bare_machine 0" and ?v = "vliw_of (I_OP A_ADD 31 31 31)"
  have i: "isa_decode 0x01ff8fb3 = Some (I_OP A_ADD 31 31 31)" by code_simp
  obtain d' where d: "decode2vliw 0x01ff8fb3 decoder_start = Inr ((True, ?v), d')"
    using decode2vliw_known [OF decoder_ok_start i] by blast
  have l: "length (reg (cpu ?s)) = 32" by (simp add: bare_machine_def Cpu_reset_def Cpu_new_def)
  have z: "reg_val (cpu ?s) 31 = 0" by (simp add: bare_machine_def reg_val_def Cpu_reset_def Cpu_new_def)
  have "simulates sample_os ?v ?s ((abs_at (pc (cpu ?s)) ?s)\<lparr>gpr := xset 31 0 (gpr (abs_at (pc (cpu ?s)) ?s)),
      apc := pc_next (cpu ?s)\<rparr>)"
    using z by (intro execute_refines [OF bare_facts(4,6,7), where len = "pc_next (cpu ?s) - pc (cpu ?s)"])
      (simp_all add: abs_at_def)
  then obtain s' where s': "execute sample_os ?v ?s = Inr s'"
    "gpr (abs_at (pc_next (cpu s')) s') 31 = 0" by (auto simp: simulates_def xset_def)
  then have "reg_val (cpu s') 31 = 0" by (simp add: abs_at_def)
  moreover have "execute sample_os ?v (?s\<lparr>cpu := (cpu ?s)\<lparr>reg := reg (cpu ?s) @ [7]\<rparr>\<rparr>) =
      Inr (s'\<lparr>cpu := (cpu s')\<lparr>reg := reg (cpu s') @ [7]\<rparr>\<rparr>)"
    using decoded_registers_in_range [OF decoder_ok_start d, where os = sample_os, THEN conjunct2, THEN conjunct2,
        THEN conjunct2, THEN conjunct2, THEN spec, of ?s, THEN spec, of "[7]"] l
    by (simp only: s'(1) sum.case simp_thms)
  ultimately show ?thesis using d s'(1) by (intro exI [of _ ?v] exI [of _ d'] exI [of _ s']) simp
qed

text \<open>The operation codes the switch of \<open>execute\<close> has no case for.\<close>

definition no_case :: "u8 \<Rightarrow> bool" where
  "no_case op \<longleftrightarrow> op = VLIW_FENCE \<or> op = VLIW_FENCE_I \<or> VLIW_MULW \<le> op \<and> op \<noteq> VLIW_ILLEGAL"

lemma no_case_neq: "no_case op \<Longrightarrow> \<not> no_case c \<Longrightarrow> op \<noteq> c"
  by auto

lemma no_case_groups:
  assumes "no_case (opcode v)"
  shows "exec_cpu v c = None" and "load_op (opcode v) = None" and "store_op (opcode v) = None"
    and "exec_system os v s = None" and "csr_kind (opcode v) = None"
    and "opcode v \<noteq> VLIW_NOP" and "opcode v \<noteq> VLIW_ILLEGAL"
proof -
  note n = no_case_neq [OF assms]
  have "\<not> no_case 1" by (simp add: no_case_def word_le_nat_alt)
  then show "exec_cpu v c = None" by (simp add: cpu_groups n no_case_def)
  show "load_op (opcode v) = None" by (simp add: load_op_def n no_case_def)
  show "store_op (opcode v) = None" by (simp add: store_op_def n no_case_def)
  show "exec_system os v s = None" by (simp add: exec_system_def n no_case_def)
  show "csr_kind (opcode v) = None" by (simp add: csr_kind_def n no_case_def)
  show "opcode v \<noteq> VLIW_NOP" "opcode v \<noteq> VLIW_ILLEGAL" by (simp_all add: n no_case_def)
qed

lemma execute_no_case:
  "no_case (opcode v) \<Longrightarrow> execute os v s = Inl (FatalUnknownOp (opcode v))"
  by (simp add: execute_def exec_switch_def or_else_def exec_load_def exec_store_def exec_csr_def no_case_groups)

lemma decode_item_opcode: "decode_item code item v = Inr v' \<Longrightarrow> opcode v' = opcode v"
  by (auto simp: decode_item_def split: if_splits)

lemma decode_items_opcode: "decode_items code items v = Inr v' \<Longrightarrow> opcode v' = opcode v"
  by (induction items arbitrary: v) (auto simp: faultfacts dest: decode_item_opcode)

lemma decode_items_fault: "decode_items code items v = Inl e \<Longrightarrow> \<exists>item. e = FatalUnknownItem item"
  by (induction items arbitrary: v) (auto simp: faultfacts decode_item_def split: if_splits)

text \<open>
  C37: An instruction the tables know and the simulator does not implement never runs as
  something else: for every row of the A, F, D and Q extensions, of the 64-bit
  multiplications, and for the two fences, whatever the remaining bits of the word, the run
  ends either in the decoder, with a report of an operand it cannot read, or in \<open>execute\<close>, with
  a report of the operation code.
\<close>

theorem unsupported_stops:
  assumes "otp \<in> set (optable_a @ optable_f @ optable_d @ optable_q) \<or>
    otp \<in> set (optable_i @ optable_m) \<and> op_vliw otp \<in> {VLIW_FENCE, VLIW_FENCE_I} \<union> {VLIW_MULW..VLIW_REMUW}"
  shows "case decode_row code otp of
      Inl e \<Rightarrow> \<exists>item. e = FatalUnknownItem item
    | Inr v \<Rightarrow> execute os v s = Inl (FatalUnknownOp (op_vliw otp))"
proof -
  have "list_all (\<lambda>otp. no_case (op_vliw otp)) (optable_a @ optable_f @ optable_d @ optable_q)"
    by (simp add: optable_a_def optable_f_def optable_d_def optable_q_def no_case_def)
  moreover have "no_case c" if "c \<in> {VLIW_FENCE, VLIW_FENCE_I} \<union> {VLIW_MULW..VLIW_REMUW}" for c
    using that by (auto simp: no_case_def)
  ultimately have "no_case (op_vliw otp)" using assms by (auto simp: list_all_iff)
  then show ?thesis
    using execute_no_case [of _ os s]
    by (auto simp: decode_row_def split: sum.split dest: decode_items_opcode decode_items_fault)
qed

text \<open>\<open>fence\<close>\<close>

theorem unsupported_stops_witness:
  "execute sample_os \<lparr>opcode = VLIW_FENCE, rd = 0, rs1 = 0, rs2 = 0, imm = 0\<rparr> (bare_machine 0) =
    Inl (FatalUnknownOp VLIW_FENCE)"
proof -
  let ?otp = "Op ''FFFFFFFFFFFFsssss000ddddd0001111'' 0x0000000f 0x0000707f VLIW_FENCE ''fence''"
  have m: "?otp \<in> set (optable_i @ optable_m)" by (simp add: optable_i_def)
  have r: "decode_row 0x0ff0000f ?otp = Inr \<lparr>opcode = VLIW_FENCE, rd = 0, rs1 = 0, rs2 = 0, imm = 0\<rparr>" by code_simp
  have "case decode_row 0x0ff0000f ?otp of
      Inl e \<Rightarrow> \<exists>item. e = FatalUnknownItem item
    | Inr v \<Rightarrow> execute sample_os v (bare_machine 0) = Inl (FatalUnknownOp (op_vliw ?otp))"
    by (rule unsupported_stops) (use m in simp)
  then show ?thesis unfolding r by simp
qed

end
