(* ===== verification/Cpu_Props.thy ===== *)
theory Cpu_Props
  imports Exec_Frame
begin

text \<open>
  The properties of the processor's own operations (traps, interrupts, control registers,
  \<open>brk\<close>) and of the system calls, with their witnesses.
\<close>

unbundle bit_operations_syntax

section \<open>Traps and control registers\<close>

text \<open>
  C22: Interrupts are checked only in every sixteenth turn, at most one is taken, the external
  one before the timer's, and only with the machine enable bit set and the source both
  pending and enabled. A taken interrupt saves the program counter, clears the enable bit,
  and replaces the instruction by a no-operation; otherwise the instruction is kept. The
  registers are as they were in each case.
\<close>

theorem interrupt_check:
  "check_irqs v c =
    (if cycle c AND 0xf \<noteq> 0xf then (v, c)
     else if bit (mstatus c) 3 \<and> external_pending c then (vliw_nop, raise_mtip (take_irq 11 c))
     else if bit (mstatus c) 3 \<and> timer_pending c then (vliw_nop, raise_mtip (take_irq 7 c))
     else (v, raise_mtip c))
   \<and> reg (snd (check_irqs v c)) = reg c"
proof
  show "reg (snd (check_irqs v c)) = reg c" by (rule check_irqs_reg)
qed (rule check_irqs_form)

text \<open>
  C23: Returning from a trap restores the state it interrupted. \<open>mret\<close> right after an
  interrupt goes back to the interrupted address with interrupts enabled again, and after
  \<open>ecall\<close> or \<open>ebreak\<close> it goes back to the trapping instruction itself with the enable bit
  unchanged; in each case the status register is the old one with MPIE cleared.
\<close>

theorem trap_return:
  "(bit (mstatus c) 3 \<longrightarrow>
      pc_next (mret (take_irq n c)) = pc c \<and> mstatus (mret (take_irq n c)) = mstatus c AND NOT 0x80) \<and>
    (\<forall>f \<in> {ecall, ebreak}.
      pc_next (mret (f c)) = pc c \<and> mstatus (mret (f c)) = mstatus c AND NOT 0x80)"
proof -
  have "mstatus (mret (take_irq n c)) = mstatus c AND NOT 0x80" if "bit (mstatus c) 3"
    using status_roundtrip(1) [OF that] that
    by (simp add: mret_form take_irq_def bit_status status_updates)
  moreover have "mstatus (mret (ecall c)) = mstatus c AND NOT 0x80"
    "mstatus (mret (ebreak c)) = mstatus c AND NOT 0x80"
    using status_roundtrip(2) [of "mstatus c"] by (simp_all add: mret_form ecall_form bit_status status_updates)
  moreover have "pc_next (mret (take_irq n c)) = pc c" "pc_next (mret (ecall c)) = pc c"
    "pc_next (mret (ebreak c)) = pc c"
    by (simp_all add: mret_form ecall_form take_irq_def)
  ultimately show ?thesis by simp
qed

definition sample_cpu :: cpu where
  "sample_cpu = (Cpu_reset Cpu_new)\<lparr>pc := 0x100, mtvec := 0x40, mstatus := 0x8, mie := 0x880, mip := 0x80\<rparr>"

theorem trap_return_witness:
  "pc_next (mret (take_irq 7 sample_cpu)) = 0x100 \<and> mstatus (mret (ecall sample_cpu)) = 0x8"
proof -
  have "bit (mstatus sample_cpu) 3" "pc sample_cpu = 0x100" "mstatus sample_cpu = 0x8"
    by (simp_all add: sample_cpu_def)
  with trap_return [of sample_cpu 7] show ?thesis by simp
qed

text \<open>
  A control-register instruction on one of the six read-write machine registers is an
  exchange: \<open>rd\<close> gets the old value, the register gets the new one (written, bits set or
  bits cleared; nothing when a set or clear names \<open>x0\<close>), every other such register and
  every other general register keeps its value, and the host is not consulted.
\<close>

theorem csr_exchange:
  assumes "regs32 c" and "csr_cell csr" and "rdn \<noteq> 0" and "rdn < 32"
  shows "\<exists>c'. csr_insn os type csr rdn rsn x c h = Inr (c', h) \<and>
    reg_val c' rdn = csr_val c csr \<and>
    csr_val c' csr =
      (case type of CSR_TYPE_W \<Rightarrow> x
       | CSR_TYPE_S \<Rightarrow> if rsn = 0 then csr_val c csr else csr_val c csr OR x
       | CSR_TYPE_C \<Rightarrow> if rsn = 0 then csr_val c csr else csr_val c csr AND NOT x) \<and>
    (\<forall>k. csr_cell k \<and> k \<noteq> csr \<longrightarrow> csr_val c' k = csr_val c k) \<and>
    (\<forall>i < 32. i \<noteq> rdn \<longrightarrow> reg_val c' i = reg_val c i)"
proof -
  define w where "w = (case type of CSR_TYPE_W \<Rightarrow> x | CSR_TYPE_S \<Rightarrow> csr_val c csr OR x
    | CSR_TYPE_C \<Rightarrow> csr_val c csr AND NOT x)"
  define d where "d = (if type = CSR_TYPE_W \<or> rsn \<noteq> 0 then csr_update csr w c else c)"
  have d32: "regs32 d" using assms(1) by (simp add: d_def)
  have "csr_insn os type csr rdn rsn x c h = Inr (reg_set rdn (csr_val c csr) d, h)"
    using assms d32
    by (cases type) (simp_all add: csr_insn_form csr_value_cell d_def w_def Let_def)
  moreover have "reg_val d i = reg_val c i" for i by (simp add: d_def)
  moreover have "csr_val d k = csr_val c k" if "csr_cell k" "k \<noteq> csr" for k
    using that assms(2) by (simp add: d_def csrfile.peek_other)
  moreover have "csr_val d csr = (if type = CSR_TYPE_W \<or> rsn \<noteq> 0 then w else csr_val c csr)"
    using assms(2) by (simp add: d_def csrfile.peek_poke)
  ultimately show ?thesis
    using assms d32
    by (cases type) (auto simp: w_def regfile.peek_poke regfile.peek_other)
qed

theorem csr_exchange_witness:
  "\<exists>c'. csr_insn undefined CSR_TYPE_S 0x304 5 6 0x8 sample_cpu () = Inr (c', ()) \<and>
    reg_val c' 5 = 0x880 \<and> csr_val c' 0x304 = 0x888"
proof -
  have "regs32 sample_cpu" "csr_val sample_cpu 0x304 = 0x880"
    by (simp_all add: sample_cpu_def regs32_def Cpu_reset_def Cpu_new_def csr_val_def)
  then show ?thesis
    using csr_exchange [of sample_cpu "0x304" 5 undefined CSR_TYPE_S 6 "0x8" "()"]
    by (auto simp: csr_cell_def)
qed

text \<open>
  The 64-bit cycle counter cannot be set through its two halves: writing \<open>mcycle\<close> clears
  the upper half and writing \<open>mcycleh\<close> clears the lower one, so whichever is written last is
  all that remains.
\<close>

theorem mcycle_halves:
  "cycle (csr_update 0xb00 lo (csr_update 0xb80 hi c)) = ucast lo \<and>
    cycle (csr_update 0xb80 hi (csr_update 0xb00 lo c)) = push_bit 32 (ucast hi) \<and>
    fst (csr_value os 0xb80 (csr_update 0xb00 lo c) h) = 0 \<and>
    fst (csr_value os 0xb00 (csr_update 0xb80 hi c) h) = 0"
proof -
  have "(ucast (drop_bit 32 (ucast lo :: u64)) :: u32) = 0"
    by (rule bit_word_eqI) (auto simp: bit_simps dest: bit_imp_le_length)
  moreover have "(ucast (push_bit 32 (ucast hi) :: u64) :: u32) = 0"
    by (rule bit_word_eqI) (auto simp: bit_simps)
  ultimately show ?thesis by (simp add: csr_update_def csr_value_def)
qed

section \<open>System calls\<close>

text \<open>
  \<open>brk\<close>. Asked with 0 it starts the heap at the first multiple of 16 at or above the end
  of the data (for an end that leaves room below the top of the address space) and returns
  that; asked with a previous break it returns that and moves the heap by the increment.
\<close>

theorem brk_start:
  assumes "unat (endOfData c) + 15 < 2 ^ 32"
  shows "sys_brk 0 a1 c = (heap (snd (sys_brk 0 a1 c)), snd (sys_brk 0 a1 c)) \<and>
    unat (endOfData c) \<le> unat (fst (sys_brk 0 a1 c)) \<and>
    unat (fst (sys_brk 0 a1 c)) < unat (endOfData c) + 16 \<and>
    fst (sys_brk 0 a1 c) AND 0xf = 0 \<and>
    (a0 \<noteq> 0 \<longrightarrow> sys_brk a0 a1 c = (a0, c\<lparr>heap := a0 + a1\<rparr>))"
proof -
  let ?e = "endOfData c + 15" and ?h = "fst (sys_brk 0 a1 c)"
  have h: "?h = push_bit 4 (drop_bit 4 ?e)"
  proof -
    have "?h = ?e AND NOT (mask 4)" by (simp add: sys_brk_def Let_def mask_eq_exp_minus_1)
    also have "\<dots> = push_bit 4 (drop_bit 4 ?e)" by (rule bit_word_eqI) (auto simp: bit_simps)
    finally show ?thesis .
  qed
  have e: "unat ?e = unat (endOfData c) + 15"
    using assms by (simp add: unat_word_ariths)
  have "unat ?h = take_bit 32 (push_bit 4 (drop_bit 4 (take_bit 32 (unat ?e))))"
    by (simp only: h unsigned_push_bit_eq unsigned_drop_bit_eq len_of_numeral_defs) simp
  moreover have "unat ?e < 2 ^ 32" "unat ?e div 16 * 16 < 2 ^ 32" using assms e by simp_all
  ultimately have u: "unat ?h = unat ?e div 16 * 16"
    by (simp only: take_bit_nat_eq_self push_bit_eq_mult drop_bit_eq_div) (simp add: take_bit_nat_eq_self)
  have "?h AND mask 4 = 0" by (auto simp: h bit_eq_iff bit_simps)
  then have "?h AND 0xf = 0" by (simp add: mask_eq_exp_minus_1)
  moreover have "sys_brk 0 a1 c = (heap (snd (sys_brk 0 a1 c)), snd (sys_brk 0 a1 c))"
    "a0 \<noteq> 0 \<longrightarrow> sys_brk a0 a1 c = (a0, c\<lparr>heap := a0 + a1\<rparr>)"
    by (simp_all add: sys_brk_def Let_def)
  moreover have "unat (endOfData c) \<le> unat ?h" "unat ?h < unat (endOfData c) + 16"
    unfolding u e by linarith+
  ultimately show ?thesis by blast
qed

theorem brk_start_witness:
  "fst (sys_brk 0 7 (sample_cpu\<lparr>endOfData := 0x40000123\<rparr>)) AND 0xf = 0"
  using brk_start [of "sample_cpu\<lparr>endOfData := 0x40000123\<rparr>" 7] by simp

end
