(* ===== verification/Elf.thy ===== *)
theory Elf
  imports Memory
begin

text \<open>
  \<open>readElf\<close> of \<open>src/Elf64.cpp\<close> for 32-bit files: the header checks, the section headers, the
  address ranges of text, data and bss, the two fresh allocations, and the copy of each
  section to its place. The file is the bytes that \<open>fopen\<close> and \<open>fread\<close> deliver, read in place:
  an access past its end is \<open>HostUB\<close>. \<open>verbose\<close> is 0 when the loader runs, so the byte order
  is never switched and \<open>ntohl\<close> is the identity. What the loader prints is left out.
\<close>

section \<open>Reading the file\<close>

definition buf_bytes :: "u8 list \<Rightarrow> nat \<Rightarrow> nat \<Rightarrow> u8 list result" where
  "buf_bytes buf off n = (if off + n \<le> length buf then Inr (slice_of off n buf) else Inl HostUB)"

definition buf_word :: "u8 list \<Rightarrow> nat \<Rightarrow> nat \<Rightarrow> 'a::len word result" where
  "buf_word buf off n = chain (buf_bytes buf off n) (\<lambda>bs. Inr (le_word bs))"

text \<open>
  \<open>strncmp(s, t, strlen(t)) == 0\<close> on the string at an offset: the comparison stops at the first
  difference. \<open>strcmp\<close> also compares the final NUL.
\<close>

fun buf_strncmp :: "u8 list \<Rightarrow> nat \<Rightarrow> string \<Rightarrow> bool result" where
  "buf_strncmp buf off [] = Inr True"
| "buf_strncmp buf off (c # cs) =
    chain (buf_bytes buf off 1) (\<lambda>bs.
      if hd bs = of_nat (of_char c) then buf_strncmp buf (Suc off) cs else Inr False)"

text \<open>\<open>strdup\<close>: the string must end inside the file.\<close>

definition buf_string :: "u8 list \<Rightarrow> nat \<Rightarrow> u8 list result" where
  "buf_string buf off =
    (let rest = drop off buf
     in if 0 \<in> set rest then Inr (takeWhile (\<lambda>b. b \<noteq> 0) rest) else Inl HostUB)"

section \<open>Headers\<close>

abbreviation (input) EM_MIPS :: u16 where "EM_MIPS \<equiv> 8"
abbreviation (input) EM_RISCV :: u16 where "EM_RISCV \<equiv> 243"
abbreviation (input) SHT_STRTAB :: u32 where "SHT_STRTAB \<equiv> 3"
abbreviation (input) SHT_NOBITS :: u32 where "SHT_NOBITS \<equiv> 8"
abbreviation (input) SHF_WRITE :: u32 where "SHF_WRITE \<equiv> 1"
abbreviation (input) SHF_ALLOC :: u32 where "SHF_ALLOC \<equiv> 2"
abbreviation (input) SHF_EXECINSTR :: u32 where "SHF_EXECINSTR \<equiv> 4"

text \<open>The fields of \<open>Elf32_Ehdr\<close> and \<open>Elf32_Shdr\<close> the loader looks at, from the structures' layout.\<close>

record ehdr =
  e_entry :: u32
  e_phoff :: u32
  e_shoff :: u32
  e_phentsize :: u16
  e_phnum :: u16
  e_shentsize :: u16
  e_shnum :: u16
  e_shstrndx :: u16

record shdr =
  sh_name :: u32
  sh_type :: u32
  sh_flags :: u32
  sh_addr :: u32
  sh_offset :: u32
  sh_size :: u32

definition ehdr_at :: "u8 list \<Rightarrow> ehdr result" where
  "ehdr_at buf =
    chain (buf_word buf 24 4) (\<lambda>entry. chain (buf_word buf 28 4) (\<lambda>phoff.
    chain (buf_word buf 32 4) (\<lambda>shoff. chain (buf_word buf 42 2) (\<lambda>phentsize.
    chain (buf_word buf 44 2) (\<lambda>phnum. chain (buf_word buf 46 2) (\<lambda>shentsize.
    chain (buf_word buf 48 2) (\<lambda>shnum. chain (buf_word buf 50 2) (\<lambda>shstrndx.
      Inr \<lparr>e_entry = entry, e_phoff = phoff, e_shoff = shoff, e_phentsize = phentsize,
        e_phnum = phnum, e_shentsize = shentsize, e_shnum = shnum, e_shstrndx = shstrndx\<rparr>))))))))"

definition shdr_at :: "u8 list \<Rightarrow> nat \<Rightarrow> shdr result" where
  "shdr_at buf off =
    chain (buf_word buf off 4) (\<lambda>nm. chain (buf_word buf (off + 4) 4) (\<lambda>ty.
    chain (buf_word buf (off + 8) 4) (\<lambda>fl. chain (buf_word buf (off + 12) 4) (\<lambda>addr.
    chain (buf_word buf (off + 16) 4) (\<lambda>offs. chain (buf_word buf (off + 20) 4) (\<lambda>len.
      Inr \<lparr>sh_name = nm, sh_type = ty, sh_flags = fl, sh_addr = addr, sh_offset = offs,
        sh_size = len\<rparr>))))))"

text \<open>The loop over the program headers only byte-swaps, here in place and without effect.\<close>

fun phdr_loop :: "u8 list \<Rightarrow> ehdr \<Rightarrow> nat list \<Rightarrow> unit result" where
  "phdr_loop buf h [] = Inr ()"
| "phdr_loop buf h (i # rest) =
    chain (buf_bytes buf (unat (e_phoff h) + unat (e_phentsize h) * i) 24) (\<lambda>_. phdr_loop buf h rest)"

fun shdr_loop :: "u8 list \<Rightarrow> ehdr \<Rightarrow> nat list \<Rightarrow> shdr list result" where
  "shdr_loop buf h [] = Inr []"
| "shdr_loop buf h (i # rest) =
    chain (shdr_at buf (unat (e_shoff h) + unat (e_shentsize h) * i)) (\<lambda>s.
    chain (shdr_loop buf h rest) (\<lambda>ss. Inr (s # ss)))"

text \<open>The name table: the section \<open>e_shstrndx\<close>, when it is a string table.\<close>

definition name_table :: "ehdr \<Rightarrow> shdr list \<Rightarrow> nat option" where
  "name_table h ss =
    (let i = unat (e_shstrndx h)
     in if i < length ss \<and> sh_type (ss ! i) = SHT_STRTAB then Some (unat (sh_offset (ss ! i))) else None)"

text \<open>The string at \<open>&nameTable[sh_name]\<close>; without a table the pointer is not valid.\<close>

definition name_ptr :: "nat option \<Rightarrow> shdr \<Rightarrow> nat result" where
  "name_ptr nt s = (case nt of None \<Rightarrow> Inl HostUB | Some t \<Rightarrow> Inr (t + unat (sh_name s)))"

section \<open>The ranges of text, data and bss\<close>

datatype area = TextArea | DataArea | BssArea

text \<open>
  The chain of tests on a section's name and flags, in order. An exact name is compared with
  its final NUL. The code's second test for \<open>.eh_frame\<close> repeats the first and is never reached.
\<close>

definition section_rules :: "(string \<times> u32 \<times> area) list" where
  "section_rules =
    [(''.text'', SHF_ALLOC OR SHF_EXECINSTR, TextArea),
     (''.rodata'', SHF_ALLOC, TextArea),
     (''.eh_frame'' @ [CHR 0x00], SHF_ALLOC OR SHF_WRITE, TextArea),
     (''.init_array'' @ [CHR 0x00], SHF_ALLOC OR SHF_WRITE, TextArea),
     (''.fini_array'' @ [CHR 0x00], SHF_ALLOC OR SHF_WRITE, TextArea),
     (''.data'', SHF_ALLOC OR SHF_WRITE, DataArea),
     (''.sdata'', SHF_ALLOC OR SHF_WRITE, DataArea),
     (''.bss'', SHF_ALLOC OR SHF_WRITE, BssArea),
     (''.sbss'', SHF_ALLOC OR SHF_WRITE, BssArea)]"

fun find_area :: "(string \<times> u32 \<times> area) list \<Rightarrow> u8 list \<Rightarrow> nat \<Rightarrow> u32 \<Rightarrow> area result" where
  "find_area [] buf p flags =
    chain (buf_string buf p) (\<lambda>nm. Inl (ExitSection (map (\<lambda>b. char_of (unat b)) nm)))"
| "find_area ((nm, fl, a) # rules) buf p flags =
    chain (buf_strncmp buf p nm) (\<lambda>eq.
      if eq \<and> flags AND fl \<noteq> 0 then Inr a else find_area rules buf p flags)"

definition section_area :: "u8 list \<Rightarrow> nat option \<Rightarrow> shdr \<Rightarrow> area result" where
  "section_area buf nt s = chain (name_ptr nt s) (\<lambda>p. find_area section_rules buf p (sh_flags s))"

text \<open>Comments and symbol tables are passed over.\<close>

definition skipped :: "shdr \<Rightarrow> bool" where
  "skipped s \<longleftrightarrow> sh_flags s = 0x00 \<or> sh_flags s = 0x30"

record ranges =
  text_base :: u32
  text_end :: u32
  data_base :: u32
  data_end :: u32
  bss_base :: u32
  bss_end :: u32

definition ranges_start :: ranges where
  "ranges_start =
    \<lparr>text_base = - 1, text_end = 0, data_base = - 1, data_end = 0, bss_base = - 1, bss_end = 0\<rparr>"

definition widen :: "u32 \<Rightarrow> u32 \<Rightarrow> u32 \<times> u32 \<Rightarrow> u32 \<times> u32" where
  "widen addr len r =
    (let (b, e) = r in (if addr < b then addr else b, if addr + len > e then addr + len else e))"

definition widen_area :: "area \<Rightarrow> u32 \<Rightarrow> u32 \<Rightarrow> ranges \<Rightarrow> ranges" where
  "widen_area a addr len r =
    (case a of
       TextArea \<Rightarrow> let (b, e) = widen addr len (text_base r, text_end r) in r\<lparr>text_base := b, text_end := e\<rparr>
     | DataArea \<Rightarrow> let (b, e) = widen addr len (data_base r, data_end r) in r\<lparr>data_base := b, data_end := e\<rparr>
     | BssArea \<Rightarrow> let (b, e) = widen addr len (bss_base r, bss_end r) in r\<lparr>bss_base := b, bss_end := e\<rparr>)"

fun range_loop :: "u8 list \<Rightarrow> nat option \<Rightarrow> shdr list \<Rightarrow> ranges \<Rightarrow> ranges result" where
  "range_loop buf nt [] r = Inr r"
| "range_loop buf nt (s # ss) r =
    (if skipped s then range_loop buf nt ss r
     else chain (section_area buf nt s) (\<lambda>a. range_loop buf nt ss (widen_area a (sh_addr s) (sh_size s) r)))"

section \<open>The two segments\<close>

text \<open>The length of the data segment: from the data to the end of the heap after the bss.\<close>

definition total_len :: "u32 \<Rightarrow> ranges \<Rightarrow> u32" where
  "total_len heap_len r =
    (let heap_base = (bss_end r + 15) AND NOT 0xf; heap_end = heap_base + heap_len
     in heap_end - data_base r)"

definition code_segment :: "ranges \<Rightarrow> (nat \<Rightarrow> u8) \<Rightarrow> segment" where
  "code_segment r raw = Segment_new (text_base r) (text_end r - text_base r) raw"

definition data_segment :: "u32 \<Rightarrow> ranges \<Rightarrow> (nat \<Rightarrow> u8) \<Rightarrow> segment" where
  "data_segment heap_len r raw = Segment_new (data_base r) (total_len heap_len r) raw"

text \<open>The record kept of each loaded section, and the state of the copying loop.\<close>

record elf_info =
  info_name :: "u8 list"
  info_type :: u32
  info_flags :: u32
  info_addr :: u32
  info_size :: u32
  info_offset :: u32

record loading =
  seg_code :: segment
  seg_data :: segment
  code_infos :: "elf_info list"
  data_infos :: "elf_info list"

definition section_info :: "u8 list \<Rightarrow> nat option \<Rightarrow> shdr \<Rightarrow> elf_info result" where
  "section_info buf nt s =
    chain (name_ptr nt s) (\<lambda>p. chain (buf_string buf p) (\<lambda>nm.
      Inr \<lparr>info_name = nm, info_type = sh_type s, info_flags = sh_flags s, info_addr = sh_addr s,
        info_size = sh_size s, info_offset = sh_offset s\<rparr>))"

text \<open>Where a section goes: the test of the three branches, in order.\<close>

datatype place = ToText | ToData | ZeroBss | NoPlace

definition section_place :: "ranges \<Rightarrow> shdr \<Rightarrow> place" where
  "section_place r s =
    (let addr = sh_addr s;
         textOk = addr \<ge> text_base r \<and> addr < text_end r;
         dataOk = addr \<ge> data_base r \<and> addr < data_end r;
         bssOk = addr \<ge> bss_base r \<and> addr < bss_end r;
         alloc = (sh_flags s AND SHF_ALLOC \<noteq> 0);
         rw = (sh_flags s AND SHF_WRITE \<noteq> 0);
         nobits = (sh_type s = SHT_NOBITS)
     in if textOk \<and> alloc then ToText
        else if dataOk \<and> (alloc \<and> rw) \<and> \<not> nobits then ToData
        else if bssOk \<and> (alloc \<and> rw) \<and> nobits then ZeroBss
        else NoPlace)"

definition load_section :: "u8 list \<Rightarrow> nat option \<Rightarrow> ranges \<Rightarrow> shdr \<Rightarrow> loading \<Rightarrow> loading result" where
  "load_section buf nt r s l =
    (case section_place r s of
       ToText \<Rightarrow>
         chain (buf_bytes buf (unat (sh_offset s)) (unat (sh_size s))) (\<lambda>bs.
         chain (seg_store (seg_code l) (sh_addr s) bs) (\<lambda>c.
         chain (section_info buf nt s) (\<lambda>i. Inr (l\<lparr>seg_code := c, code_infos := code_infos l @ [i]\<rparr>))))
     | ToData \<Rightarrow>
         chain (buf_bytes buf (unat (sh_offset s)) (unat (sh_size s))) (\<lambda>bs.
         chain (seg_store (seg_data l) (sh_addr s) bs) (\<lambda>d.
         chain (section_info buf nt s) (\<lambda>i. Inr (l\<lparr>seg_data := d, data_infos := data_infos l @ [i]\<rparr>))))
     | ZeroBss \<Rightarrow>
         chain (seg_store (seg_data l) (sh_addr s) (replicate (unat (sh_size s)) 0)) (\<lambda>d.
         chain (section_info buf nt s) (\<lambda>i. Inr (l\<lparr>seg_data := d, data_infos := data_infos l @ [i]\<rparr>)))
     | NoPlace \<Rightarrow> Inr l)"

fun load_loop :: "u8 list \<Rightarrow> nat option \<Rightarrow> ranges \<Rightarrow> shdr list \<Rightarrow> loading \<Rightarrow> loading result" where
  "load_loop buf nt r [] l = Inr l"
| "load_loop buf nt r (s # ss) l =
    (if skipped s then load_loop buf nt r ss l
     else chain (load_section buf nt r s l) (load_loop buf nt r ss))"

section \<open>The loader\<close>

text \<open>
  What a successful load leaves: the two segments with their section records (the lists were
  empty before) and the entry point. \<open>None\<close> is the return value -1, with nothing changed.
\<close>

record loaded =
  ld_code :: segment
  ld_data :: segment
  ld_code_infos :: "elf_info list"
  ld_data_infos :: "elf_info list"
  ld_entry :: u32

definition load_sections ::
    "u8 list \<Rightarrow> u32 \<Rightarrow> (nat \<Rightarrow> u8) \<Rightarrow> (nat \<Rightarrow> u8) \<Rightarrow> ehdr \<Rightarrow> shdr list \<Rightarrow> loaded result" where
  "load_sections buf heap_len raw1 raw2 h ss =
    (let nt = name_table h ss in
     chain (range_loop buf nt ss ranges_start) (\<lambda>r.
     chain (load_loop buf nt r ss \<lparr>seg_code = code_segment r raw1, seg_data = data_segment heap_len r raw2,
         code_infos = [], data_infos = []\<rparr>) (\<lambda>l.
       Inr \<lparr>ld_code = seg_code l, ld_data = seg_data l, ld_code_infos = code_infos l,
         ld_data_infos = data_infos l, ld_entry = e_entry h\<rparr>)))"

definition readElf ::
    "u8 list option \<Rightarrow> u32 \<Rightarrow> (nat \<Rightarrow> u8) \<Rightarrow> (nat \<Rightarrow> u8) \<Rightarrow> loaded option result" where
  "readElf file heap_len raw1 raw2 =
    (case file of
       None \<Rightarrow> Inr None
     | Some contents \<Rightarrow>
         let buf = take (unat (of_nat (length contents) :: u32)) contents in
         chain (buf_strncmp buf 1 ''ELF'') (\<lambda>ok. if \<not> ok then Inr None else
         chain (buf_word buf 5 1 :: u8 result) (\<lambda>_.
         chain (buf_word buf 4 1) (\<lambda>class. if class \<noteq> (1 :: u8) then Inl (ExitElfClass class) else
         chain (buf_word buf 18 2) (\<lambda>machine.
           if machine \<noteq> 0 \<and> machine \<noteq> EM_MIPS \<and> machine \<noteq> EM_RISCV then Inr None else
         chain (ehdr_at buf) (\<lambda>h.
         chain (phdr_loop buf h [0..<unat (e_phnum h)]) (\<lambda>_.
         chain (shdr_loop buf h [0..<unat (e_shnum h)]) (\<lambda>ss.
         chain (load_sections buf heap_len raw1 raw2 h ss) (\<lambda>l. Inr (Some l))))))))))"

end
