(* ===== verification/Printf.thy ===== *)
theory Printf
  imports Decode
begin

text \<open>
  The conversions of the C library the program uses on text: the formats \<open>%x\<close>, \<open>%08x\<close>, \<open>%03x\<close>,
  \<open>%d\<close>, \<open>%02X\<close> and others of \<open>printf\<close>, and \<open>strtol\<close> in base 16. Printing and reading a number in
  hexadecimal are inverse.
\<close>

section \<open>Printing\<close>

definition hex_digit :: "nat \<Rightarrow> char" where "hex_digit d = ''0123456789abcdef'' ! d"
definition hex_digit_upper :: "nat \<Rightarrow> char" where "hex_digit_upper d = ''0123456789ABCDEF'' ! d"
definition dec_digit :: "nat \<Rightarrow> char" where "dec_digit d = ''0123456789'' ! d"

fun hex_of :: "nat \<Rightarrow> string" where
  "hex_of n = (if n < 16 then [hex_digit n] else hex_of (n div 16) @ [hex_digit (n mod 16)])"

fun dec_of :: "nat \<Rightarrow> string" where
  "dec_of n = (if n < 10 then [dec_digit n] else dec_of (n div 10) @ [dec_digit (n mod 10)])"

declare hex_of.simps [simp del] dec_of.simps [simp del]

definition pad0 :: "nat \<Rightarrow> string \<Rightarrow> string" where
  "pad0 n s = replicate (n - length s) (CHR ''0'') @ s"

definition fmt_x :: "u32 \<Rightarrow> string" where "fmt_x w = hex_of (unat w)"
definition fmt_08x :: "u32 \<Rightarrow> string" where "fmt_08x w = pad0 8 (hex_of (unat w))"
definition fmt_03x :: "u32 \<Rightarrow> string" where "fmt_03x w = pad0 3 (hex_of (unat w))"

text \<open>\<open>%d\<close> of an \<open>int\<close>.\<close>

definition fmt_d :: "u32 \<Rightarrow> string" where
  "fmt_d w = (if sint w < 0 then CHR ''-'' # dec_of (nat (- sint w)) else dec_of (nat (sint w)))"

text \<open>\<open>%02X\<close> and \<open>%04X\<close>, and \<open>%04x\<close>.\<close>

fun hex_of_upper :: "nat \<Rightarrow> string" where
  "hex_of_upper n =
    (if n < 16 then [hex_digit_upper n] else hex_of_upper (n div 16) @ [hex_digit_upper (n mod 16)])"

declare hex_of_upper.simps [simp del]

definition fmt_02X :: "u32 \<Rightarrow> string" where "fmt_02X w = pad0 2 (hex_of_upper (unat w))"
definition fmt_04X :: "u32 \<Rightarrow> string" where "fmt_04X w = pad0 4 (hex_of_upper (unat w))"
definition fmt_04x :: "u32 \<Rightarrow> string" where "fmt_04x w = pad0 4 (hex_of (unat w))"

text \<open>\<open>%016lx\<close>, and \<open>%ld\<close> of an \<open>unsigned long\<close>: what \<open>src/Util.cpp\<close> prints 64-bit values with.\<close>

definition hex64 :: "u64 \<Rightarrow> string" where "hex64 value = pad0 16 (hex_of (unat value))"

definition dec64 :: "u64 \<Rightarrow> string" where
  "dec64 value =
    (if sint value < 0 then CHR ''-'' # dec_of (nat (- sint value)) else dec_of (nat (sint value)))"

text \<open>A new line, and tabs.\<close>

definition nl :: string where "nl = [CHR 0x0a]"
definition tabs :: "nat \<Rightarrow> string" where "tabs n = replicate n (CHR 0x09)"

section \<open>Reading\<close>

definition hex_val :: "char \<Rightarrow> nat option" where
  "hex_val = map_of (zip ''0123456789abcdefABCDEF'' ([0..<16] @ [10..<16]))"

fun hex_digits :: "string \<Rightarrow> nat \<Rightarrow> nat \<times> string" where
  "hex_digits [] acc = (acc, [])"
| "hex_digits (c # cs) acc =
    (case hex_val c of Some d \<Rightarrow> hex_digits cs (16 * acc + d) | None \<Rightarrow> (acc, c # cs))"

definition is_hex :: "string \<Rightarrow> bool" where
  "is_hex s \<longleftrightarrow> s \<noteq> [] \<and> hex_val (hd s) \<noteq> None"

text \<open>
  \<open>strtol(s, &end, 16)\<close>: white space, a sign, an optional \<open>0x\<close>, digits; the value saturates at
  the bounds of \<open>long\<close>. Without a digit the value is 0 and \<open>end\<close> is \<open>s\<close>.
\<close>

definition strtol16 :: "string \<Rightarrow> int \<times> string" where
  "strtol16 s =
    (let t = dropWhile isspace s;
         neg = (t \<noteq> [] \<and> hd t = CHR ''-'');
         u = (if t \<noteq> [] \<and> (hd t = CHR ''-'' \<or> hd t = CHR ''+'') then tl t else t);
         v = (if (take 2 u = ''0x'' \<or> take 2 u = ''0X'') \<and> is_hex (drop 2 u) then drop 2 u else u)
     in if is_hex v then
          (let (n, rest) = hex_digits v 0
           in (if neg then max (- int n) (- (2 ^ 63)) else min (int n) (2 ^ 63 - 1), rest))
        else (0, s))"

section \<open>Reading what was printed\<close>

lemma hex_val_digits: "map hex_val ''0123456789abcdef'' = map Some [0..<16]"
  by (simp add: hex_val_def upt_rec)

lemma hex_val_digit: "d < 16 \<Longrightarrow> hex_val (hex_digit d) = Some d"
  using arg_cong [OF hex_val_digits, of "\<lambda>xs. xs ! d"]
  unfolding hex_digit_def by (subst (asm) nth_map) (simp_all add: nth_map)

lemma hex_digits_append:
  "hex_digits (hex_of n @ r) acc = hex_digits r (acc * 16 ^ length (hex_of n) + n)"
proof (induction n arbitrary: acc r rule: hex_of.induct)
  case (1 n)
  show ?case
  proof (cases "n < 16")
    case True
    then show ?thesis by (subst (1 2) hex_of.simps) (simp add: hex_val_digit algebra_simps)
  next
    case False
    have "hex_digits (hex_of n @ r) acc =
        hex_digits (hex_digit (n mod 16) # r) (acc * 16 ^ length (hex_of (n div 16)) + n div 16)"
      using 1 [OF False, of "hex_digit (n mod 16) # r"] False by (subst hex_of.simps) simp
    also have "\<dots> = hex_digits r (16 * (acc * 16 ^ length (hex_of (n div 16)) + n div 16) + n mod 16)"
      by (simp add: hex_val_digit)
    also have "16 * (acc * 16 ^ length (hex_of (n div 16)) + n div 16) + n mod 16 = acc * 16 ^ length (hex_of n) + n"
      using False by (subst (2) hex_of.simps) (simp add: algebra_simps)
    finally show ?thesis .
  qed
qed

lemma hex_of_hd: "hex_of n \<noteq> [] \<and> (\<exists>d < 16. hd (hex_of n) = hex_digit d)"
proof (induction n rule: hex_of.induct)
  case (1 n)
  then show ?case by (cases "n < 16") (auto simp: hex_of.simps [of n])
qed

lemma digits_plain: "list_all (\<lambda>c. \<not> isspace c \<and> c \<notin> set ''-+xX='') ''0123456789abcdef''"
  by (simp add: isspace_def)

lemma digit_plain: "d < 16 \<Longrightarrow> \<not> isspace (hex_digit d) \<and> hex_digit d \<noteq> CHR ''-'' \<and> hex_digit d \<noteq> CHR ''+'' \<and>
    hex_digit d \<noteq> CHR ''x'' \<and> hex_digit d \<noteq> CHR ''X'' \<and> hex_digit d \<noteq> CHR ''=''"
proof -
  assume "d < 16"
  then have "hex_digit d \<in> set ''0123456789abcdef''" unfolding hex_digit_def by (intro nth_mem) simp
  then show ?thesis using digits_plain unfolding list_all_iff by fastforce
qed

lemma hex_of_all: "\<forall>c \<in> set (hex_of n). \<exists>d < 16. c = hex_digit d"
proof (induction n rule: hex_of.induct)
  case (1 n)
  have "\<exists>d < 16. hex_digit (n mod 16) = hex_digit d" by (rule exI [of _ "n mod 16"]) simp
  with 1 show ?case by (cases "n < 16") (auto simp: hex_of.simps [of n])
qed

lemma hex_of_second: "r = [] \<or> hd r \<notin> {CHR ''x'', CHR ''X''} \<Longrightarrow>
    take 2 (hex_of n @ r) \<noteq> ''0x'' \<and> take 2 (hex_of n @ r) \<noteq> ''0X''"
proof -
  assume r: "r = [] \<or> hd r \<notin> {CHR ''x'', CHR ''X''}"
  have all: "\<forall>c \<in> set (hex_of n). \<exists>d < 16. c = hex_digit d" by (rule hex_of_all)
  show ?thesis
  proof (cases "hex_of n")
    case Nil
    then show ?thesis using hex_of_hd by simp
  next
    case (Cons c cs)
    then show ?thesis using r all digit_plain by (cases cs; cases r) auto
  qed
qed

lemma strtol16_hex:
  assumes "n < 2 ^ 63" and "r = [] \<or> hex_val (hd r) = None \<and> hd r \<notin> {CHR ''x'', CHR ''X''}"
  shows "strtol16 (hex_of n @ r) = (int n, r)"
proof -
  obtain d where d: "hex_of n \<noteq> []" "d < 16" "hd (hex_of n) = hex_digit d" using hex_of_hd by blast
  have hd: "hd (hex_of n @ r) = hex_digit d" using d by simp
  have t: "dropWhile isspace (hex_of n @ r) = hex_of n @ r"
    using d digit_plain [OF d(2)] by (cases "hex_of n") simp_all
  have x: "is_hex (hex_of n @ r)" using d hd by (simp add: is_hex_def hex_val_digit)
  have h: "hex_digits (hex_of n @ r) 0 = (n, r)"
    using assms(2) hex_digits_append [of n r 0] by (cases r) auto
  have s: "take 2 (hex_of n @ r) \<noteq> ''0x'' \<and> take 2 (hex_of n @ r) \<noteq> ''0X''"
    using assms(2) by (intro hex_of_second) auto
  have m: "min (int n) (2 ^ 63 - 1) = int n" using assms(1) by simp
  show ?thesis
    using digit_plain [OF d(2)] s x h m by (simp add: strtol16_def t hd Let_def)
qed

end
