(* ===== verification/Options.thy ===== *)
theory Options
  imports Printf
begin

text \<open>
  The command line of \<open>main\<close> in \<open>src/RiscVFast.cpp\<close>: the loop that takes out the long options,
  the \<open>getopt\<close> loop over \<open>cdilvqub:T:D:H:\<close> with its switch, and the readers of addresses
  (\<open>getValue\<close>, \<open>getAddrSize\<close>). An argument list is \<open>argv[1]\<close> onwards.
\<close>

section \<open>Long options\<close>

record options =
  opt_newlib :: bool
  opt_core :: bool
  opt_quiet :: bool
  vflag :: bool
  c_flag :: bool
  lflag :: bool
  uflag :: bool
  debug_flag :: bool
  dis_flag :: bool
  trace_flag :: bool
  textBase :: "string option"
  dataBase :: "string option"
  hostBase :: "string option"

definition options_start :: options where
  "options_start =
    \<lparr>opt_newlib = False, opt_core = False, opt_quiet = True, vflag = False, c_flag = False,
     lflag = False, uflag = False, debug_flag = False, dis_flag = False, trace_flag = False,
     textBase = None, dataBase = None, hostBase = None\<rparr>"

definition long_option :: "string \<Rightarrow> options \<Rightarrow> options" where
  "long_option a opts =
    (if a = ''--newlib'' then opts\<lparr>opt_newlib := True\<rparr>
     else if a = ''--core'' then opts\<lparr>opt_core := True\<rparr>
     else opts)"

text \<open>
  Removing an argument moves the rest down, and the index then steps over the argument that
  moved into its place.
\<close>

fun long_loop :: "string list \<Rightarrow> options \<Rightarrow> options \<times> string list" where
  "long_loop [] opts = (opts, [])"
| "long_loop (a # rest) opts =
    (if take 2 a = ''--'' then
       (case rest of
          [] \<Rightarrow> (long_option a opts, [])
        | b # rest' \<Rightarrow> let (opts, args) = long_loop rest' (long_option a opts) in (opts, b # args))
     else let (opts, args) = long_loop rest opts in (opts, a # args))"

section \<open>Short options\<close>

text \<open>
  \<open>getopt\<close> of the C library on the option string: the options found, in order, \<open>CHR ''?''\<close>
  for one that is unknown or lacks its argument, and the other arguments, in order. An
  argument of one option letter continues with the letters after it; \<open>--\<close> ends the options.
\<close>

definition opt_flags :: string where "opt_flags = ''cdilvqu''"
definition opt_args :: string where "opt_args = ''bTDH''"

fun getopt_cluster :: "string \<Rightarrow> string list \<Rightarrow> (char \<times> string) list \<times> string list" where
  "getopt_cluster [] rest = ([], rest)"
| "getopt_cluster (c # cs) rest =
    (if c \<in> set opt_flags then let (es, r) = getopt_cluster cs rest in ((c, []) # es, r)
     else if c \<in> set opt_args then
       (if cs \<noteq> [] then ([(c, cs)], rest)
        else case rest of [] \<Rightarrow> ([(CHR ''?'', [])], []) | a # rest' \<Rightarrow> ([(c, a)], rest'))
     else let (es, r) = getopt_cluster cs rest in ((CHR ''?'', []) # es, r))"

lemma getopt_cluster_length: "length (snd (getopt_cluster cs rest)) \<le> length rest"
proof (induction cs rest rule: getopt_cluster.induct)
  case (2 c cs rest)
  then show ?case
    by (cases "c \<in> set opt_flags"; cases "c \<in> set opt_args") (simp_all add: case_prod_unfold Let_def split: list.split)
qed simp

function getopt_all :: "string list \<Rightarrow> (char \<times> string) list \<times> string list" where
  "getopt_all [] = ([], [])"
| "getopt_all (a # rest) =
    (if a = ''--'' then ([], rest)
     else if length a \<ge> 2 \<and> hd a = CHR ''-'' then
       (let (es, r) = getopt_cluster (tl a) rest; (es', ops) = getopt_all r in (es @ es', ops))
     else let (es, ops) = getopt_all rest in (es, a # ops))"
  by pat_completeness auto

termination
proof (relation "measure length")
  fix a :: string and rest r :: "string list" and x es
  assume "x = getopt_cluster (tl a) rest" and "(es, r) = x"
  then have "length r \<le> length rest" using getopt_cluster_length [of "tl a" rest] by (metis snd_conv)
  then show "(r, a # rest) \<in> measure length" by simp
qed simp_all

text \<open>The switch; \<open>None\<close> is the return from \<open>main\<close> with status 1. \<open>-b\<close> falls to the default.\<close>

definition short_option :: "char \<times> string \<Rightarrow> options \<Rightarrow> options option" where
  "short_option e opts =
    (let (c, optarg) = e in
     if c = CHR ''q'' then Some (opts\<lparr>opt_quiet := \<not> opt_quiet opts, vflag := False\<rparr>)
     else if c = CHR ''c'' then Some (opts\<lparr>c_flag := True\<rparr>)
     else if c = CHR ''t'' then Some (opts\<lparr>trace_flag := True\<rparr>)
     else if c = CHR ''d'' then Some (opts\<lparr>dis_flag := True\<rparr>)
     else if c = CHR ''i'' then Some (opts\<lparr>debug_flag := \<not> debug_flag opts\<rparr>)
     else if c = CHR ''v'' then Some (opts\<lparr>vflag := True\<rparr>)
     else if c = CHR ''u'' then Some (opts\<lparr>uflag := True\<rparr>)
     else if c = CHR ''l'' then Some (opts\<lparr>lflag := True\<rparr>)
     else if c = CHR ''T'' then Some (opts\<lparr>textBase := Some optarg\<rparr>)
     else if c = CHR ''D'' then Some (opts\<lparr>dataBase := Some optarg\<rparr>)
     else if c = CHR ''H'' then Some (opts\<lparr>hostBase := Some optarg\<rparr>)
     else if c = CHR ''?'' then None
     else Some opts)"

fun short_loop :: "(char \<times> string) list \<Rightarrow> options \<Rightarrow> options option" where
  "short_loop [] opts = Some opts"
| "short_loop (e # es) opts =
    (case short_option e opts of None \<Rightarrow> None | Some opts \<Rightarrow> short_loop es opts)"

text \<open>The whole parse: the options and the ELF file's name, the first argument that is no option.\<close>

definition parse_args :: "string list \<Rightarrow> (options \<times> string option) option" where
  "parse_args argv =
    (let (opts, args) = long_loop argv options_start; (es, ops) = getopt_all args
     in case short_loop es opts of
          None \<Rightarrow> None
        | Some opts \<Rightarrow> Some (opts, case ops of [] \<Rightarrow> None | f # _ \<Rightarrow> Some f))"

section \<open>Addresses\<close>

definition getValue :: "string \<Rightarrow> u32" where
  "getValue argv =
    (let s = (if argv \<noteq> [] \<and> hd argv = CHR ''='' then tl argv else argv)
     in word_of_int (fst (strtol16 s)))"

text \<open>The size is left as it was (0) without a colon.\<close>

definition getAddrSize :: "string \<Rightarrow> u32 \<times> u32" where
  "getAddrSize str =
    (let s = (if str \<noteq> [] \<and> hd str = CHR ''='' then tl str else str);
         (addr, rest) = strtol16 s
     in (word_of_int addr,
         if rest \<noteq> [] \<and> hd rest = CHR '':'' then word_of_int (fst (strtol16 (tl rest))) else 0))"

end
