(* ===== verification/Csr_Names.thy ===== *)
theory Csr_Names
  imports Printf
begin

text \<open>
  The table of control-register names of \<open>src/rv_csr.cpp\<close> (number, access, name, description), in
  the order of the file, and the lookup \<open>csr_name\<close> the disassembler uses.
\<close>

datatype csr_row = Csr (csr_number: u16) (csr_access: string) (csr_text: string) (csr_desc: string)

definition csr_table_1 :: "csr_row list" where
  "csr_table_1 =
   [Csr 0x001 ''URW'' ''fflags'' ''Floating-Point Accrued Exceptions'',
    Csr 0x002 ''URW'' ''frm'' ''Floating-Point Dynamic Rounding Mode'',
    Csr 0x003 ''URW'' ''fcsr'' ''Floating-Point Control and Status Register (frm + fflags)'',
    Csr 0xc00 ''URO'' ''cycle'' ''Cycle counter for RDCYCLE instruction'',
    Csr 0xc01 ''URO'' ''time'' ''Timer for RDTIME instruction'',
    Csr 0xc02 ''URO'' ''instret'' ''Instructions-retired counter for RDINSTRET instruction'',
    Csr 0xc03 ''URO'' ''hpmcounter3'' ''Performance-monitoring counter'',
    Csr 0xc04 ''URO'' ''hpmcounter4'' ''Performance-monitoring counter'',
    Csr 0xc1f ''URO'' ''hpmcounter31'' ''Performance-monitoring counter'',
    Csr 0xc80 ''URO'' ''cycleh'' ''Upper 32 bits of cycle, RV32 only'',
    Csr 0xc81 ''URO'' ''timeh'' ''Upper 32 bits of time, RV32 only'',
    Csr 0xc82 ''URO'' ''instreth'' ''Upper 32 bits of instret, RV32 only'',
    Csr 0xc83 ''URO'' ''hpmcounter3h'' ''Upper 32 bits of hpmcounter3, RV32 only'',
    Csr 0xc84 ''URO'' ''hpmcounter4h'' ''Upper 32 bits of hpmcounter4, RV32 only'',
    Csr 0xc9f ''URO'' ''hpmcounter31h'' ''Upper 32 bits of hpmcounter31, RV32 only'',
    Csr 0x100 ''SRW'' ''sstatus'' ''Supervisor status register'',
    Csr 0x104 ''SRW'' ''sie'' ''Supervisor interrupt-enable register'',
    Csr 0x105 ''SRW'' ''stvec'' ''Supervisor trap handler base address'',
    Csr 0x106 ''SRW'' ''scounteren'' ''Supervisor counter enable'',
    Csr 0x10a ''SRW'' ''senvcfg'' ''Supervisor environment configuration register'',
    Csr 0x140 ''SRW'' ''sscratch'' ''Scratch register for supervisor trap handlers'',
    Csr 0x141 ''SRW'' ''sepc'' ''Supervisor exception program counter'',
    Csr 0x142 ''SRW'' ''scause'' ''Supervisor trap cause'',
    Csr 0x143 ''SRW'' ''stval'' ''Supervisor bad address or instruction'',
    Csr 0x144 ''SRW'' ''sip'' ''Supervisor interrupt pending'',
    Csr 0x180 ''SRW'' ''satp'' ''Supervisor address translation and protection'']"

definition csr_table_2 :: "csr_row list" where
  "csr_table_2 =
   [Csr 0x5a8 ''SRW'' ''scontext'' ''Supervisor-mode context register'',
    Csr 0x600 ''HRW'' ''hstatus'' ''Hypervisor status register'',
    Csr 0x602 ''HRW'' ''hedeleg'' ''Hypervisor exception delegation register'',
    Csr 0x603 ''HRW'' ''hideleg'' ''Hypervisor interrupt delegation register'',
    Csr 0x604 ''HRW'' ''hie'' ''Hypervisor interrupt-enable register'',
    Csr 0x606 ''HRW'' ''hcounteren'' ''Hypervisor counter enable'',
    Csr 0x607 ''HRW'' ''hgeie'' ''Hypervisor guest external interrupt-enable register'',
    Csr 0x643 ''HRW'' ''htval'' ''Hypervisor bad guest physical address'',
    Csr 0x644 ''HRW'' ''hip'' ''Hypervisor interrupt pending'',
    Csr 0x645 ''HRW'' ''hvip'' ''Hypervisor virtual interrupt pending'',
    Csr 0x64a ''HRW'' ''htinst'' ''Hypervisor trap instruction (transformed)'',
    Csr 0xe12 ''HRO'' ''hgeip'' ''Hypervisor guest external interrupt pending'',
    Csr 0x60a ''HRW'' ''henvcfg'' ''Hypervisor environment configuration register'',
    Csr 0x61a ''HRW'' ''henvcfgh'' ''Additional hypervisor env. conf. register, RV32 only'',
    Csr 0x680 ''HRW'' ''hgatp'' ''Hypervisor guest address translation and protection'',
    Csr 0x6a8 ''HRW'' ''hcontext'' ''Hypervisor-mode context register'',
    Csr 0x605 ''HRW'' ''htimedelta'' ''Delta for VS/VU-mode timer'',
    Csr 0x615 ''HRW'' ''htimedeltah'' ''Upper 32 bits of htimedelta, HSXLEN=32 only'',
    Csr 0x200 ''HRW'' ''vsstatus'' ''Virtual supervisor status register'',
    Csr 0x204 ''HRW'' ''vsie'' ''Virtual supervisor interrupt-enable register'',
    Csr 0x205 ''HRW'' ''vstvec'' ''Virtual supervisor trap handler base address'',
    Csr 0x240 ''HRW'' ''vsscratch'' ''Virtual supervisor scratch register'',
    Csr 0x241 ''HRW'' ''vsepc'' ''Virtual supervisor exception program counter'',
    Csr 0x242 ''HRW'' ''vscause'' ''Virtual supervisor trap cause'',
    Csr 0x243 ''HRW'' ''vstval'' ''Virtual supervisor bad address or instruction'',
    Csr 0x244 ''HRW'' ''vsip'' ''Virtual supervisor interrupt pending'',
    Csr 0x280 ''HRW'' ''vsatp'' ''Virtual supervisor address translation and protection'',
    Csr 0xf11 ''MRO'' ''mvendorid'' ''Vendor ID'',
    Csr 0xf12 ''MRO'' ''marchid'' ''Architecture ID'',
    Csr 0xf13 ''MRO'' ''mimpid'' ''Implementation ID'',
    Csr 0xf14 ''MRO'' ''mhartid'' ''Hardware thread ID'',
    Csr 0xf15 ''MRO'' ''mconfigptr'' ''Pointer to configuration data structure'',
    Csr 0x300 ''MRW'' ''mstatus'' ''Machine status register'',
    Csr 0x301 ''MRW'' ''misa'' ''ISA and extensions'',
    Csr 0x302 ''MRW'' ''medeleg'' ''Machine exception delegation register'',
    Csr 0x303 ''MRW'' ''mideleg'' ''Machine interrupt delegation register'',
    Csr 0x304 ''MRW'' ''mie'' ''Machine interrupt-enable register'',
    Csr 0x305 ''MRW'' ''mtvec'' ''Machine trap-handler base address'',
    Csr 0x306 ''MRW'' ''mcounteren'' ''Machine counter enable'',
    Csr 0x310 ''MRW'' ''mstatush'' ''Additional machine status register, RV32 only'']"

definition csr_table_3 :: "csr_row list" where
  "csr_table_3 =
   [Csr 0x340 ''MRW'' ''mscratch'' ''Scratch register for machine trap handlers'',
    Csr 0x341 ''MRW'' ''mepc'' ''Machine exception program counter'',
    Csr 0x342 ''MRW'' ''mcause'' ''Machine trap cause'',
    Csr 0x343 ''MRW'' ''mtval'' ''Machine bad address or instruction'',
    Csr 0x344 ''MRW'' ''mip'' ''Machine interrupt pending'',
    Csr 0x34a ''MRW'' ''mtinst'' ''Machine trap instruction (transformed)'',
    Csr 0x34b ''MRW'' ''mtval2'' ''Machine bad guest physical address'',
    Csr 0x30a ''MRW'' ''menvcfg'' ''Machine environment configuration register'',
    Csr 0x31a ''MRW'' ''menvcfgh'' ''Additional machine env. conf. register, RV32 only'',
    Csr 0x747 ''MRW'' ''mseccfg'' ''Machine security configuration register'',
    Csr 0x757 ''MRW'' ''mseccfgh'' ''Additional machine security conf. register, RV32 only'',
    Csr 0x3a0 ''MRW'' ''pmpcfg0'' ''Physical memory protection configuration'',
    Csr 0x3a1 ''MRW'' ''pmpcfg1'' ''Physical memory protection configuration, RV32 only'',
    Csr 0x3a2 ''MRW'' ''pmpcfg2'' ''Physical memory protection configuration'',
    Csr 0x3a3 ''MRW'' ''pmpcfg3'' ''Physical memory protection configuration, RV32 only'',
    Csr 0x3ae ''MRW'' ''pmpcfg14'' ''Physical memory protection configuration'',
    Csr 0x3af ''MRW'' ''pmpcfg15'' ''Physical memory protection configuration, RV32 only'',
    Csr 0x3b0 ''MRW'' ''pmpaddr0'' ''Physical memory protection address register'',
    Csr 0x3b1 ''MRW'' ''pmpaddr1'' ''Physical memory protection address register'',
    Csr 0x3ef ''MRW'' ''pmpaddr63'' ''Physical memory protection address register'',
    Csr 0xb00 ''MRW'' ''mcycle'' ''Machine cycle counter'',
    Csr 0xb02 ''MRW'' ''minstret'' ''Machine instructions-retired counter'',
    Csr 0xb03 ''MRW'' ''mhpmcounter3'' ''Machine performance-monitoring counter'',
    Csr 0xb04 ''MRW'' ''mhpmcounter4'' ''Machine performance-monitoring counter'',
    Csr 0xb1f ''MRW'' ''mhpmcounter31'' ''Machine performance-monitoring counter'',
    Csr 0xb80 ''MRW'' ''mcycleh'' ''Upper 32 bits of mcycle, RV32 only'',
    Csr 0xb82 ''MRW'' ''minstreth'' ''Upper 32 bits of minstret, RV32 only'',
    Csr 0xb83 ''MRW'' ''mhpmcounter3h'' ''Upper 32 bits of mhpmcounter3, RV32 only'',
    Csr 0xb84 ''MRW'' ''mhpmcounter4h'' ''Upper 32 bits of mhpmcounter4, RV32 only'',
    Csr 0xb9f ''MRW'' ''mhpmcounter31h'' ''Upper 32 bits of mhpmcounter31, RV32 only'',
    Csr 0x320 ''MRW'' ''mcountinhibit'' ''Machine counter-inhibit register'',
    Csr 0x323 ''MRW'' ''mhpmevent3'' ''Machine performance-monitoring event selector'',
    Csr 0x324 ''MRW'' ''mhpmevent4'' ''Machine performance-monitoring event selector'',
    Csr 0x33f ''MRW'' ''mhpmevent31'' ''Machine performance-monitoring event selector'',
    Csr 0x7a0 ''MRW'' ''tselect'' ''Debug/Trace trigger register select'',
    Csr 0x7a1 ''MRW'' ''tdata1'' ''First Debug/Trace trigger data register'',
    Csr 0x7a2 ''MRW'' ''tdata2'' ''Second Debug/Trace trigger data register'',
    Csr 0x7a3 ''MRW'' ''tdata3'' ''Third Debug/Trace trigger data register'',
    Csr 0x7a8 ''MRW'' ''mcontext'' ''Machine-mode context register'',
    Csr 0x7b0 ''DRW'' ''dcsr'' ''Debug control and status register'',
    Csr 0x7b1 ''DRW'' ''dpc'' ''Debug PC'',
    Csr 0x7b2 ''DRW'' ''dscratch0'' ''Debug scratch register 0'',
    Csr 0x7b3 ''DRW'' ''dscratch1'' ''Debug scratch register 1'',
    Csr 0xcc0 ''URO'' ''rand'' ''Random Number, 32 bit'']"

definition csr_table :: "csr_row list" where
  "csr_table = csr_table_1 @ csr_table_2 @ csr_table_3"

fun csr_find :: "csr_row list \<Rightarrow> u32 \<Rightarrow> string option" where
  "csr_find [] csr = None"
| "csr_find (r # rs) csr = (if ucast (csr_number r) = csr then Some (csr_text r) else csr_find rs csr)"

definition csr_name :: "u32 \<Rightarrow> string" where
  "csr_name csr = (case csr_find csr_table csr of Some n \<Rightarrow> n | None \<Rightarrow> ''0x'' @ fmt_03x csr)"

end
