(* ===== verification/Disasm.thy ===== *)
theory Disasm
  imports Csr_Names Isa
begin

text \<open>
  The disassembler \<open>disasm\<close> of \<open>src/rv_disasm.cpp\<close>: the text it prints into the buffer, one
  definition per case of the switch on the opcode. It reads the instruction word itself, with
  its own extraction of every field and immediate, and knows the usual aliases.
\<close>

section \<open>Names\<close>

definition rn :: "string list" where
  "rn = [''zero'', ''ra'', ''sp'', ''gp'', ''tp'', ''t0'', ''t1'', ''t2'',
    ''s0'', ''s1'', ''a0'', ''a1'', ''a2'', ''a3'', ''a4'', ''a5'',
    ''a6'', ''a7'', ''s2'', ''s3'', ''s4'', ''s5'', ''s6'', ''s7'',
    ''s8'', ''s9'', ''s10'', ''s11'', ''t3'', ''t4'', ''t5'', ''t6'']"

definition alu_name :: "string list" where
  "alu_name = [''add'', ''sll'', ''slt'', ''sltu'', ''xor'', ''srl'', ''or'', ''and'']"
definition alu2_name :: "string list" where
  "alu2_name = [''sub'', ''???'', ''???'', ''???'', ''???'', ''sra'', ''???'', ''???'']"
definition alui_name :: "string list" where
  "alui_name = [''addi'', ''slli'', ''slti'', ''sltiu'', ''xori'', ''srli'', ''ori'', ''andi'']"
definition alui2_name :: "string list" where
  "alui2_name = [''???'', ''???'', ''???'', ''???'', ''???'', ''srai'', ''???'', ''???'']"
definition store_name :: "string list" where
  "store_name = [''sb'', ''sh'', ''sw'', ''???'', ''???'', ''???'', ''???'', ''???'']"
definition load_name :: "string list" where
  "load_name = [''lb'', ''lh'', ''lw'', ''???'', ''lbu'', ''lhu'', ''???'', ''???'']"
definition bra_name :: "string list" where
  "bra_name = [''beq'', ''bne'', ''???'', ''???'', ''blt'', ''bge'', ''bltu'', ''bgeu'']"
definition braz_name :: "string list" where
  "braz_name = [''beqz'', ''bnez'', ''???'', ''???'', ''bltz'', ''bgez'', ''bltuz'', ''bgeuz'']"
definition brazi_name :: "string list" where
  "brazi_name = [''???'', ''???'', ''???'', ''???'', ''bgtz'', ''blez'', ''???'', ''???'']"
definition csr_opname :: "string list" where
  "csr_opname = [''???'', ''csrrw'', ''csrrs'', ''csrrc'', ''???'', ''csrrwi'', ''csrrsi'', ''csrrci'']"
definition mul_name :: "string list" where
  "mul_name = [''mul'', ''mulh'', ''mulhsu'', ''mulhu'', ''div'', ''divu'', ''rem'', ''remu'']"

section \<open>Formats\<close>

text \<open>A name, a blank, and operands separated by commas; an offset with its base register.\<close>

definition ops1 :: "string \<Rightarrow> string \<Rightarrow> string" where "ops1 n a = n @ '' '' @ a"
definition ops2 :: "string \<Rightarrow> string \<Rightarrow> string \<Rightarrow> string" where "ops2 n a b = n @ '' '' @ a @ '','' @ b"
definition ops3 :: "string \<Rightarrow> string \<Rightarrow> string \<Rightarrow> string \<Rightarrow> string" where
  "ops3 n a b c = n @ '' '' @ a @ '','' @ b @ '','' @ c"
definition offs :: "u32 \<Rightarrow> string \<Rightarrow> string" where "offs i r = fmt_d i @ ''('' @ r @ '')''"

definition reg_name :: "u32 \<Rightarrow> string" where "reg_name r = rn ! unat r"

section \<open>The fields\<close>

definition dis_rd :: "u32 \<Rightarrow> u32" where "dis_rd insn = drop_bit 7 insn AND 0x1f"
definition dis_rs1 :: "u32 \<Rightarrow> u32" where "dis_rs1 insn = drop_bit 15 insn AND 0x1f"
definition dis_rs2 :: "u32 \<Rightarrow> u32" where "dis_rs2 insn = drop_bit 20 insn AND 0x1f"
definition dis_type :: "u32 \<Rightarrow> u32" where "dis_type insn = drop_bit 12 insn AND 0x7"
definition dis_f7 :: "u32 \<Rightarrow> u32" where "dis_f7 insn = drop_bit 25 insn AND 0x7f"
definition dis_imm12 :: "u32 \<Rightarrow> u32" where "dis_imm12 insn = signed_drop_bit 20 insn"

definition dis_imm_S :: "u32 \<Rightarrow> u32" where
  "dis_imm_S insn =
    (let f1 = signed_drop_bit 20 insn AND 0xffffffe0; f2 = drop_bit 7 insn AND 0x0000001f in f1 OR f2)"

definition dis_imm_J :: "u32 \<Rightarrow> u32" where
  "dis_imm_J insn =
    (let field = signed_drop_bit 12 insn AND 0x000fffff;
         f1 = field AND 0xff; f2 = drop_bit 8 field AND 0x01;
         f3 = drop_bit 9 field AND 0x3ff; f4 = drop_bit 19 field AND 0x01;
         imm32_j = push_bit 20 f4 OR push_bit 1 f3 OR push_bit 11 f2 OR push_bit 12 f1
     in signed_drop_bit 11 (push_bit 11 imm32_j))"

definition dis_imm_B :: "u32 \<Rightarrow> u32" where
  "dis_imm_B insn =
    (let f1 = drop_bit 25 insn AND 0x0000007f;
         b1 = drop_bit 6 f1 AND 0x01; b2 = f1 AND 0x3f;
         f2 = drop_bit 7 insn AND 0x0000007f;
         b3 = drop_bit 1 f2 AND 0x0f; b4 = f2 AND 0x01;
         simm12 = push_bit 12 b1 OR push_bit 5 b2 OR push_bit 1 b3 OR push_bit 11 b4
     in signed_drop_bit 19 (push_bit 19 simm12))"

section \<open>The cases of the switch\<close>

definition dis_alu :: "u32 \<Rightarrow> string" where
  "dis_alu insn =
    (let ty = dis_type insn; f7 = dis_f7 insn; rd = reg_name (dis_rd insn);
         r1 = reg_name (dis_rs1 insn); r2 = reg_name (dis_rs2 insn); rs1 = dis_rs1 insn
     in if f7 = 0x00 then
          (if ty = 3 \<and> rs1 = 0 then ops2 ''snez'' rd r2
           else if ty = 2 \<and> rs1 = 0 then ops2 ''sgtz'' rd r2
           else ops3 (alu_name ! unat ty) rd r1 r2)
        else if f7 = 0x20 then
          (if ty = 0 \<and> rs1 = 0 then ops2 ''neg'' rd r2
           else ops3 (alu2_name ! unat ty) rd r1 r2)
        else if f7 = 0x01 then ops3 (mul_name ! unat ty) rd r1 r2
        else ''???'')"

definition dis_alui :: "u32 \<Rightarrow> string" where
  "dis_alui insn =
    (let ty = dis_type insn; f7 = dis_f7 insn; rd = reg_name (dis_rd insn);
         r1 = reg_name (dis_rs1 insn); rs1 = dis_rs1 insn; imm12 = dis_imm12 insn
     in if insn = 0x00000013 then ''nop''
        else if ty = 0 \<and> rs1 = 0 then ops2 ''li'' rd (fmt_d imm12)
        else if ty = 0 \<and> imm12 = 0 then ops2 ''mv'' rd r1
        else if ty = 1 \<or> ty = 5 then
          (if f7 = 0x00 then ops3 (alui_name ! unat ty) rd r1 (''0x'' @ fmt_x (imm12 AND 0x1f))
           else if f7 = 0x20 then ops3 (alui2_name ! unat ty) rd r1 (''0x'' @ fmt_x (imm12 AND 0x1f))
           else ''???'')
        else if ty = 4 \<and> imm12 = - 1 then ops2 ''not'' rd r1
        else if ty = 7 \<and> imm12 = 255 then ops2 ''zext.b'' rd r1
        else if ty = 3 \<and> imm12 = 1 then ops2 ''seqz'' rd r1
        else ops3 (alui_name ! unat ty) rd r1 (fmt_d imm12))"

definition dis_jalr :: "u32 \<Rightarrow> string" where
  "dis_jalr insn =
    (let rd = dis_rd insn; r1 = reg_name (dis_rs1 insn); imm12 = dis_imm12 insn
     in if insn = 0x00008067 then ''ret''
        else if rd = 0 \<and> imm12 = 0 then ops1 ''jr'' r1
        else if rd = 1 \<and> imm12 = 0 then ops1 ''jalr'' r1
        else if rd = 0 then ops1 ''jr'' (offs imm12 r1)
        else if rd = 1 then ops1 ''jalr'' (offs imm12 r1)
        else ops2 ''jalr'' (reg_name rd) (offs imm12 r1))"

definition dis_branch :: "u32 \<Rightarrow> u32 \<Rightarrow> string" where
  "dis_branch pc insn =
    (let ty = unat (dis_type insn); r1 = dis_rs1 insn; r2 = dis_rs2 insn; target = fmt_x (pc + dis_imm_B insn)
     in if r2 = 0 then ops2 (braz_name ! ty) (reg_name r1) target
        else if r1 = 0 then ops2 (brazi_name ! ty) (reg_name r2) target
        else ops3 (bra_name ! ty) (reg_name r1) (reg_name r2) target)"

definition dis_system :: "u32 \<Rightarrow> string" where
  "dis_system insn =
    (let ty = dis_type insn; rd = dis_rd insn; rs1 = dis_rs1 insn in
     if ty = 0 \<or> ty = 4 then
       (if insn = 0x00000073 then ''ecall''
        else if insn = 0x00100073 then ''ebreak''
        else if insn = 0x10200073 then ''sret''
        else if insn = 0x30200073 then ''mret''
        else if insn = 0x10500073 then ''wfi''
        else ''???'')
     else
       (let csr = drop_bit 20 insn in
        if ty = 1 \<and> rd = 0 then ops2 ''csrw'' (csr_name csr) (reg_name rs1)
        else if ty = 2 \<and> rs1 = 0 then
          (if csr = 0xc01 then ops1 ''rdtime'' (reg_name rd)
           else if csr = 0xc81 then ops1 ''rdtimeh'' (reg_name rd)
           else ops2 ''csrr'' (reg_name rd) (csr_name csr))
        else if ty = 3 \<and> rd = 0 then ops2 ''csrc'' (csr_name csr) (reg_name rs1)
        else if ty < 4 then ops3 (csr_opname ! unat ty) (csr_name csr) (reg_name rd) (reg_name rs1)
        else ops3 (csr_opname ! unat ty) (csr_name csr) (reg_name rd) (fmt_x rs1)))"

text \<open>An opcode without a case leaves the empty text.\<close>

definition disasm :: "u32 \<Rightarrow> u32 \<Rightarrow> string" where
  "disasm pc insn =
    (let opc = insn AND 0x7f; ty = unat (dis_type insn);
         rd = dis_rd insn; r1 = reg_name (dis_rs1 insn); r2 = reg_name (dis_rs2 insn)
     in if opc = 0x33 then dis_alu insn
        else if opc = 0x13 then dis_alui insn
        else if opc = 0x23 then ops2 (store_name ! ty) r2 (offs (dis_imm_S insn) r1)
        else if opc = 0x03 then ops2 (load_name ! ty) (reg_name rd) (offs (signed_drop_bit 20 insn) r1)
        else if opc = 0x37 then ops2 ''lui'' (reg_name rd) (''0x'' @ fmt_x (drop_bit 12 insn))
        else if opc = 0x17 then ops2 ''auipc'' (reg_name rd) (''0x'' @ fmt_x (drop_bit 12 insn))
        else if opc = 0x6f then
          (if rd = 0 then ops1 ''j'' (fmt_x (pc + dis_imm_J insn))
           else ops2 ''jal'' (reg_name rd) (fmt_x (pc + dis_imm_J insn)))
        else if opc = 0x67 then dis_jalr insn
        else if opc = 0x63 then dis_branch pc insn
        else if opc = 0x73 then dis_system insn
        else [])"

end
