(* ===== verification/Compile.thy ===== *)
theory Compile
  imports Disasm
begin

text \<open>
  The translator of \<open>src/rv_compile.cpp\<close>: the C text \<open>rv_insn\<close> writes for an instruction, one
  definition per case of its switch. \<open>add_debug\<close>, \<open>add_check\<close> and \<open>add_realtime\<close> have the values
  the file gives them. The loop over the text, which reads memory, is in \<open>Listing\<close>.
\<close>

definition quote :: string where "quote = [CHR 0x22]"
definition backslash_n :: string where "backslash_n = [CHR 0x5c, CHR ''n'']"
definition stmt :: "string \<Rightarrow> string" where "stmt s = [CHR 0x09] @ s @ '';'' @ nl"

text \<open>\<open>r[%d]\<close>, and the register sources \<open>sd\<close>, \<open>ss1\<close>, \<open>ss2\<close>, in which \<open>x0\<close> is 0.\<close>

definition r_of :: "u32 \<Rightarrow> string" where "r_of r = ''r['' @ fmt_d r @ '']''"
definition src_of :: "u32 \<Rightarrow> string" where "src_of r = (if r = 0 then ''0'' else r_of r)"

definition rv_alu :: "u32 \<Rightarrow> string" where
  "rv_alu insn =
    (let ty = dis_type insn; f7 = dis_f7 insn; d = r_of (dis_rd insn); a = r_of (dis_rs1 insn); b = r_of (dis_rs2 insn)
     in if f7 = 0x00 then
          (if ty = 0 then stmt (src_of (dis_rd insn) @ '' = '' @ src_of (dis_rs1 insn) @ '' + '' @ src_of (dis_rs2 insn))
           else if ty = 1 then stmt (d @ '' = '' @ a @ ''<<('' @ b @ ''&0x1f)'')
           else if ty = 2 then stmt (d @ '' = (((int32_t)'' @ a @ '')<((int32_t)'' @ b @ ''))?1:0'')
           else if ty = 3 then stmt (d @ '' = (((uint32_t)'' @ a @ '')<((uint32_t)'' @ b @ ''))?1:0'')
           else if ty = 4 then stmt (d @ '' = '' @ a @ '' ^ '' @ b)
           else if ty = 5 then stmt (d @ '' = ((uint32_t)'' @ a @ '')>>('' @ b @ ''&0x1f)'')
           else if ty = 6 then stmt (d @ '' = '' @ a @ '' | '' @ b)
           else stmt (d @ '' = '' @ a @ '' & '' @ b))
        else if f7 = 0x20 then
          (if ty = 0 then stmt (d @ '' = '' @ a @ '' - '' @ b)
           else if ty = 5 then stmt (d @ '' = ((int32_t)'' @ a @ '')>>('' @ b @ ''&0x1f)'')
           else [])
        else if f7 = 0x01 then [CHR 0x09] @ ''// TO DO !!!!'' @ nl
        else [])"

definition rv_alui :: "u32 \<Rightarrow> string" where
  "rv_alui insn =
    (let ty = dis_type insn; f7 = dis_f7 insn; d = r_of (dis_rd insn); a = r_of (dis_rs1 insn);
         sd = src_of (dis_rd insn); ss1 = src_of (dis_rs1 insn); imm12 = dis_imm12 insn;
         i = fmt_d imm12; sh = ''0x'' @ fmt_x (imm12 AND 0x1f)
     in if ty = 5 \<and> f7 = 0x20 then stmt (d @ '' = ((int32_t)'' @ a @ '')>>'' @ sh)
        else if ty = 0 then
          (if insn = 0x00000013 then [CHR 0x09] @ ''// NOP;'' @ nl
           else if imm12 = 0 then stmt (sd @ '' = '' @ ss1)
           else if dis_rs1 insn = 0 then stmt (sd @ '' = '' @ i)
           else stmt (sd @ '' = '' @ ss1 @ '' + '' @ i))
        else if ty = 1 then stmt (d @ '' = '' @ a @ ''<<'' @ sh)
        else if ty = 2 then stmt (d @ '' = (((int32_t)'' @ a @ '')<(int32_t)'' @ i @ '')?1:0'')
        else if ty = 3 then stmt (d @ '' = ((uint32_t)'' @ a @ ''<(uint32_t)'' @ i @ '')?1:0'')
        else if ty = 4 then stmt (d @ '' = '' @ a @ '' ^ '' @ i)
        else if ty = 5 then stmt (d @ '' = ((uint32_t)'' @ a @ '')>>'' @ sh)
        else if ty = 6 then stmt (d @ '' = '' @ a @ '' | '' @ i)
        else stmt (d @ '' = '' @ a @ '' & '' @ i))"

definition rv_store :: "u32 \<Rightarrow> string" where
  "rv_store insn =
    (let ty = dis_type insn;
         args = ''('' @ r_of (dis_rs1 insn) @ ''+'' @ fmt_d (dis_imm_S insn) @ '', '' @ r_of (dis_rs2 insn) @ '')''
     in if ty = 0 then stmt (''memory->write8'' @ args)
        else if ty = 1 then stmt (''memory->write16'' @ args)
        else if ty = 2 then stmt (''memory->write32'' @ args)
        else [])"

definition rv_load :: "u32 \<Rightarrow> string" where
  "rv_load insn =
    (let ty = dis_type insn; d = r_of (dis_rd insn) @ '' = memory->'';
         args = ''('' @ r_of (dis_rs1 insn) @ ''+'' @ fmt_d (signed_drop_bit 20 insn) @ '')''
     in if ty = 0 then stmt (d @ ''read8'' @ args)
        else if ty = 1 then stmt (d @ ''read16'' @ args)
        else if ty = 2 then stmt (d @ ''read32'' @ args)
        else if ty = 4 then stmt (d @ ''read8u'' @ args)
        else if ty = 5 then stmt (d @ ''read16u'' @ args)
        else [])"

definition rv_jal :: "u32 \<Rightarrow> u32 \<Rightarrow> string" where
  "rv_jal pc insn =
    (let rd = dis_rd insn; save_pc = pc + 4
     in stmt (''pc = 0x'' @ fmt_08x (pc + dis_imm_J insn)) @
        (if rd \<noteq> 0 then stmt (r_of rd @ '' = 0x'' @ fmt_08x save_pc) else []) @
        stmt ''goto next'')"

definition rv_jalr :: "u32 \<Rightarrow> u32 \<Rightarrow> string" where
  "rv_jalr pc insn =
    (let rd = dis_rd insn; a = r_of (dis_rs1 insn); imm12 = dis_imm12 insn; save_pc = pc + 4
     in (if imm12 = 0 then stmt (''pc = '' @ a) else stmt (''pc = '' @ a @ '' + '' @ fmt_d imm12)) @
        (if rd \<noteq> 0 then stmt (r_of rd @ '' = 0x'' @ fmt_08x save_pc) else []) @
        stmt ''goto next'')"

definition rv_branch :: "u32 \<Rightarrow> u32 \<Rightarrow> string" where
  "rv_branch pc insn =
    (let ty = dis_type insn; a = src_of (dis_rs1 insn); b = src_of (dis_rs2 insn);
         go = '') goto L_'' @ fmt_x (pc + dis_imm_B insn)
     in if ty = 0 then stmt (''if('' @ a @ '' == '' @ b @ go)
        else if ty = 1 then stmt (''if('' @ a @ '' != '' @ b @ go)
        else if ty = 4 then stmt (''if((int32_t)'' @ a @ '' < (int32_t)'' @ b @ go)
        else if ty = 5 then stmt (''if((int32_t)'' @ a @ '' >= (int32_t)'' @ b @ go)
        else if ty = 6 then stmt (''if((uint32_t)'' @ a @ '' < (uint32_t)'' @ b @ go)
        else if ty = 7 then stmt (''if((uint32_t)'' @ a @ '' >= (uint32_t)'' @ b @ go)
        else [])"

definition rv_system :: "bool \<Rightarrow> u32 \<Rightarrow> string" where
  "rv_system do_newlib insn =
    (let ty = dis_type insn; rs1 = dis_rs1 insn;
         args = fmt_d (ty AND 0x3) @ '', 0x'' @ fmt_03x (drop_bit 20 insn) @ '', '' @ fmt_d (dis_rd insn) @ '', '' @ fmt_d rs1
     in if ty = 0 \<or> ty = 4 then
          (if insn = 0x00000073 then stmt (if do_newlib then ''syscall()'' else ''ecall()'')
           else if insn = 0x00100073 then stmt ''ebreak()''
           else if insn = 0x10200073 then stmt ''sret()''
           else if insn = 0x30200073 then stmt ''mret()''
           else if insn = 0x10500073 then stmt ''wfi()''
           else [CHR 0x09] @ ''// Unknown System Instruction - ???'')
        else if ty < 4 then stmt (''csr_insn('' @ args @ '', '' @ r_of rs1 @ '')'')
        else stmt (''csr_insn('' @ args @ '', 0x'' @ fmt_x rs1 @ '')''))"

definition rv_body :: "bool \<Rightarrow> u32 \<Rightarrow> u32 \<Rightarrow> string" where
  "rv_body do_newlib pc insn =
    (let opc = insn AND 0x7f; d = r_of (dis_rd insn)
     in if opc = 0x33 then rv_alu insn
        else if opc = 0x13 then rv_alui insn
        else if opc = 0x23 then rv_store insn
        else if opc = 0x03 then rv_load insn
        else if opc = 0x37 then stmt (d @ '' = 0x'' @ fmt_08x (insn AND 0xfffff000))
        else if opc = 0x17 then stmt (d @ '' = 0x'' @ fmt_08x (pc + (insn AND 0xfffff000)))
        else if opc = 0x6f then rv_jal pc insn
        else if opc = 0x67 then rv_jalr pc insn
        else if opc = 0x63 then rv_branch pc insn
        else if opc = 0x73 then rv_system do_newlib insn
        else [])"

text \<open>A label, a comment with the disassembly, and the statements.\<close>

definition rv_label :: "u32 \<Rightarrow> string" where "rv_label pc = ''L_'' @ fmt_x pc"

definition rv_insn :: "bool \<Rightarrow> u32 \<Rightarrow> u32 \<Rightarrow> string" where
  "rv_insn do_newlib pc insn =
    nl @ rv_label pc @ '':'' @ nl @
    [CHR 0x09] @ ''// '' @ fmt_08x pc @ '': '' @ fmt_08x insn @ '' '' @ disasm pc insn @ nl @
    rv_body do_newlib pc insn"

section \<open>The frame around the instructions\<close>

definition rv_printf :: "string \<Rightarrow> string \<Rightarrow> string" where
  "rv_printf text args = ''printf('' @ quote @ text @ backslash_n @ quote @ args @ '');'' @ nl"

definition rv_head :: string where
  "rv_head =
    ''next:'' @ nl @
    ''if (r[0] != 0) {'' @ nl @ rv_printf ''Bad x0 register!!!'' [] @ ''dump();'' @ nl @ ''}'' @ nl @
    ''if (r[2] < 0x40000000 || r[2] > 0x40010000) {'' @ nl @ rv_printf ''Bad sp register!!!'' [] @
    ''dump();'' @ nl @ ''}'' @ nl @
    ''if ((nonseq++&0xffffff) == 0) {'' @ nl @
    ''fputc('' @ [CHR 0x27] @ ''.'' @ [CHR 0x27] @ '', stderr); fflush(stderr);'' @ nl @ ''}'' @ nl @
    ''++cycle;'' @ nl @ ''switch(pc>>2) {'' @ nl"

definition rv_case :: "u32 \<Rightarrow> string" where
  "rv_case i = ''case 0x'' @ fmt_x (drop_bit 2 i) @ '': goto L_'' @ fmt_x i @ '';'' @ nl"

definition rv_tail :: string where
  "rv_tail = ''}'' @ nl @ rv_printf ''Bad pc: 0x%08x'' '', pc'' @ ''return;'' @ nl"

end
