(* ===== verification/Listing.thy ===== *)
theory Listing
  imports Compile Machine
begin

text \<open>
  The two loops over the text that write a file: \<open>disasm_all\<close> of \<open>src/RiscVFast.cpp\<close> and
  \<open>rv_compile\<close>. They read memory (so they can stop the program, or reach the host port), and
  the first also runs the decoder. The address is a 32-bit counter that advances by 4, so a
  loop whose end is above \<open>0xfffffffc\<close> would not end: not returning is \<open>None\<close>.
\<close>

definition rn2 :: "string list" where
  "rn2 = [''x0'', ''ra'', ''sp'', ''gp'', ''tp'', ''t0'', ''t1'', ''t2'',
    ''s0'', ''s1'', ''a0'', ''a1'', ''a2'', ''a3'', ''a4'', ''a5'',
    ''a6'', ''a7'', ''s2'', ''s3'', ''s4'', ''s5'', ''s6'', ''s7'',
    ''s8'', ''s9'', ''sa'', ''sb'', ''t3'', ''t4'', ''t5'', ''t6'']"

definition rn2_name :: "u8 \<Rightarrow> string result" where
  "rn2_name r = (if unat r < length rn2 then Inr (rn2 ! unat r) else Inl HostUB)"

text \<open>\<open>"%08x: %08x [%2d %s,%s,%s,%08x] %s\n"\<close>.\<close>

definition listing_line :: "u32 \<Rightarrow> u32 \<Rightarrow> vliw \<Rightarrow> string result" where
  "listing_line i insn v =
    chain (rn2_name (rd v)) (\<lambda>d. chain (rn2_name (rs1 v)) (\<lambda>a. chain (rn2_name (rs2 v)) (\<lambda>b.
      let op = dec_of (unat (opcode v)) in
      Inr (fmt_08x i @ '': '' @ fmt_08x insn @ '' ['' @ replicate (2 - length op) (CHR '' '') @ op @ '' '' @
        d @ '','' @ a @ '','' @ b @ '','' @ fmt_08x (imm v) @ ''] '' @ disasm i insn @ nl))))"

definition listing_step :: "u32 \<Rightarrow> 'h machine \<Rightarrow> (string \<times> 'h machine) result" where
  "listing_step i s =
    chain (Memory_read32 (memory s) i) (\<lambda>(insn, e).
      let s = apply_host e s
      in chain (decode2vliw insn (decoder s)) (\<lambda>((ok, v), d).
         chain (listing_line i insn v) (\<lambda>text. Inr (text, s\<lparr>decoder := d\<rparr>))))"

partial_function (option) disasm_loop ::
    "u32 \<Rightarrow> u32 \<Rightarrow> string \<Rightarrow> 'h machine \<Rightarrow> (string \<times> 'h machine) result option" where
  "disasm_loop lim i out s =
    (if i < lim then
       (case listing_step i s of
          Inl e \<Rightarrow> Some (Inl e)
        | Inr p \<Rightarrow> disasm_loop lim (i + 4) (out @ fst p) (snd p))
     else Some (Inr (out, s)))"

definition disasm_all :: "u32 \<Rightarrow> u32 \<Rightarrow> 'h machine \<Rightarrow> (string \<times> 'h machine) result option" where
  "disasm_all start len s = disasm_loop (start + len) start [] s"

partial_function (option) case_loop :: "u32 \<Rightarrow> u32 \<Rightarrow> string \<Rightarrow> string option" where
  "case_loop lim i out = (if i < lim then case_loop lim (i + 4) (out @ rv_case i) else Some out)"

partial_function (option) insn_loop ::
    "u32 \<Rightarrow> u32 \<Rightarrow> string \<Rightarrow> 'h machine \<Rightarrow> (string \<times> 'h machine) result option" where
  "insn_loop lim i out s =
    (if i < lim then
       (case Memory_read32 (memory s) i of
          Inl e \<Rightarrow> Some (Inl e)
        | Inr p \<Rightarrow> insn_loop lim (i + 4) (out @ rv_insn (do_newlib s) i (fst p)) (apply_host (snd p) s))
     else Some (Inr (out, s)))"

definition rv_compile :: "u32 \<Rightarrow> u32 \<Rightarrow> 'h machine \<Rightarrow> (string \<times> 'h machine) result option" where
  "rv_compile addr len s =
    (case case_loop (addr + len) addr rv_head of
       None \<Rightarrow> None
     | Some out \<Rightarrow> insn_loop (addr + len) addr (out @ rv_tail) s)"

end
