(* ===== verification/Debugger.thy ===== *)
theory Debugger
  imports Run Disasm
begin

text \<open>
  The interactive debugger of \<open>src/RiscVFast.cpp\<close>: reading a line, splitting it, the commands, and
  the loop. What it prints, prompts included, is a string beside the machine; standard input is
  the host's, shared with the simulated program.
\<close>

section \<open>Numbers\<close>

text \<open>\<open>strtol(s, NULL, base)\<close> for base 10, and for base 0, where a prefix chooses the base.\<close>

fun base_digits :: "nat \<Rightarrow> string \<Rightarrow> nat \<Rightarrow> nat" where
  "base_digits b [] acc = acc"
| "base_digits b (c # cs) acc =
    (case hex_val c of
       Some d \<Rightarrow> if d < b then base_digits b cs (b * acc + d) else acc
     | None \<Rightarrow> acc)"

definition signed_part :: "string \<Rightarrow> bool \<times> string" where
  "signed_part s =
    (let t = dropWhile isspace s
     in (t \<noteq> [] \<and> hd t = CHR ''-'', if t \<noteq> [] \<and> (hd t = CHR ''-'' \<or> hd t = CHR ''+'') then tl t else t))"

definition clamp_long :: "bool \<Rightarrow> nat \<Rightarrow> int" where
  "clamp_long neg n = (if neg then max (- int n) (- (2 ^ 63)) else min (int n) (2 ^ 63 - 1))"

definition strtol10 :: "string \<Rightarrow> int" where
  "strtol10 s = (let (neg, u) = signed_part s in clamp_long neg (base_digits 10 u 0))"

definition strtol0 :: "string \<Rightarrow> int" where
  "strtol0 s =
    (let (neg, u) = signed_part s
     in clamp_long neg
       (if (take 2 u = ''0x'' \<or> take 2 u = ''0X'') \<and> is_hex (drop 2 u) then base_digits 16 (drop 2 u) 0
        else if u \<noteq> [] \<and> hd u = CHR ''0'' then base_digits 8 u 0
        else base_digits 10 u 0))"

section \<open>What is printed\<close>

definition reg_list :: "string list" where
  "reg_list = [''zero'', ''ra'', ''sp'', ''gp'', ''tp'', ''t0'', ''t1'', ''t2'',
    ''s0'', ''s1'', ''a0'', ''a1'', ''a2'', ''a3'', ''a4'', ''a5'',
    ''a6'', ''a7'', ''s2'', ''s3'', ''s4'', ''s5'', ''s6'', ''s7'',
    ''s8'', ''s9'', ''s10'', ''s11'', ''t3'', ''t4'', ''t5'', ''t6'']"

definition reg_line :: "string \<Rightarrow> u32 \<Rightarrow> string" where
  "reg_line nm v = nm @ '': '' @ fmt_08x v @ nl"

fun reg_find :: "string \<Rightarrow> nat \<Rightarrow> string list \<Rightarrow> nat option" where
  "reg_find nm n [] = None"
| "reg_find nm n (r # rs) = (if nm = r then Some n else reg_find nm (Suc n) rs)"

definition reg_entry :: "cpu \<Rightarrow> nat \<Rightarrow> string" where
  "reg_entry c i =
    (let nm = reg_list ! i
     in replicate (4 - length nm) (CHR '' '') @ nm @ '': 0x'' @ fmt_08x (reg c ! i) @
       (if i mod 4 = 3 then nl else []))"

text \<open>The number after an \<open>x\<close> is not checked: one outside the registers reads outside the array.\<close>

definition dump_reg :: "string option \<Rightarrow> cpu \<Rightarrow> string result" where
  "dump_reg r c =
    (case r of
       None \<Rightarrow> Inr (concat (map (reg_entry c) [0..<32]))
     | Some nm \<Rightarrow>
         if nm = ''all'' then Inr (concat (map (reg_entry c) [0..<32]))
         else if nm \<noteq> [] \<and> hd nm = CHR ''x'' then
           (let n = sint (word_of_int (strtol10 (tl nm)) :: u32)
            in if 0 \<le> n \<and> n < 32 then Inr (reg_line nm (reg c ! nat n)) else Inl HostUB)
         else
           (case reg_find nm 0 reg_list of
              Some n \<Rightarrow> Inr (reg_line nm (reg c ! n))
            | None \<Rightarrow> Inr (''Unknown reg: '' @ nm @ nl)))"

definition debug_help :: string where
  "debug_help =
    ''Interactive Debug Mode'' @ nl @
    ''======================'' @ nl @
    ''core [num]'' @ tabs 5 @ ''Set the current core to [num], print the current core number'' @ nl @
    ''quit or q'' @ tabs 5 @ ''End the simulation'' @ nl @
    ''pc [addr]'' @ tabs 5 @ ''Set the program counter, print the current pc'' @ nl @
    ''mem addr [value]'' @ tabs 3 @ ''Set memory address to [value], print the memory contents'' @ nl @
    ''reg [name]'' @ tabs 5 @ ''Show register [name], or show all'' @ nl @
    ''run [num]'' @ tabs 5 @ ''Run for [num] cycles, or forever is no [num]'' @ nl @
    ''r [num]'' @ tabs 6 @ ''Same as run'' @ nl @
    ''step or s'' @ tabs 5 @ ''Step, execute next instruction'' @ nl @
    ''<Enter>'' @ tabs 6 @ ''Enter key, same as step'' @ nl @
    ''help or h'' @ tabs 5 @ ''Show help'' @ nl @
    ''  [option]'' @ tabs 5 @ ''Option in above commands, if absent command just prints'' @ nl"

definition show_current :: "'h machine \<Rightarrow> (string \<times> 'h machine) result" where
  "show_current s =
    (let p = pc (cpu s)
     in chain (Memory_read32 (memory s) p) (\<lambda>(insn, e).
       Inr (''0x'' @ fmt_08x p @ '': 0x'' @ fmt_08x insn @ ''  '' @ disasm p insn @ nl, apply_host e s)))"

section \<open>A line\<close>

text \<open>\<open>fgets\<close> of at most \<open>n\<close> characters: up to a newline, which it keeps, or the end of the input.\<close>

fun read_line :: "'h os \<Rightarrow> nat \<Rightarrow> 'h \<Rightarrow> u8 list \<times> 'h" where
  "read_line os 0 h = ([], h)"
| "read_line os (Suc n) h =
    (case os_getc os h of
       (None, h) \<Rightarrow> ([], h)
     | (Some c, h) \<Rightarrow> if c = 10 then ([c], h) else let (cs, h) = read_line os n h in (c # cs, h))"

text \<open>The string in the buffer, without the newline.\<close>

definition line_text :: "u8 list \<Rightarrow> string" where
  "line_text bs = map (\<lambda>b. char_of (unat b)) (takeWhile (\<lambda>b. b \<noteq> 0 \<and> b \<noteq> 10) bs)"

fun split_args :: "nat \<Rightarrow> string \<Rightarrow> string list" where
  "split_args 0 s = []"
| "split_args (Suc n) s =
    (let t = dropWhile isspace s
     in if t = [] then []
        else takeWhile (\<lambda>c. \<not> isspace c) t # split_args n (dropWhile (\<lambda>c. \<not> isspace c) t))"

text \<open>What \<open>buf\<close> holds after the split: the leading white space and the first word.\<close>

definition buf_after :: "string \<Rightarrow> string" where
  "buf_after s = takeWhile isspace s @ takeWhile (\<lambda>c. \<not> isspace c) (dropWhile isspace s)"

section \<open>The commands\<close>

text \<open>An \<open>int\<close> made a \<open>uint64_t\<close>.\<close>

definition run_count :: "u32 \<Rightarrow> u64" where "run_count n = scast n"

definition debug_run :: "'h os \<Rightarrow> u64 \<Rightarrow> string \<Rightarrow> 'h machine \<Rightarrow> (string \<times> 'h machine) result" where
  "debug_run os n out s =
    chain (run os n s) (\<lambda>s. chain (show_current s) (\<lambda>(t, s). Inr (out @ t, s)))"

text \<open>
  Without an address \<open>mem\<close> goes on to read the pointer this line did not set, which the stack may hold from an
  earlier line: \<open>HostUB\<close>.
\<close>

definition debug_mem :: "string list \<Rightarrow> 'h machine \<Rightarrow> (string \<times> 'h machine) result" where
  "debug_mem args s =
    (if length args < 2 then Inl HostUB
     else
       let addr = word_of_int (strtol0 (args ! 1)) :: u32
       in chain
         (if length args = 3 then
            (let value = word_of_int (strtol0 (args ! 2)) :: u32; addr = value
             in chain (Memory_write32 (memory s) addr value) (\<lambda>(m, e). Inr (addr, apply_host e (s\<lparr>memory := m\<rparr>))))
          else Inr (addr, s)) (\<lambda>(addr, s).
         chain (Memory_read32 (memory s) addr) (\<lambda>(v, e).
           Inr (''0x'' @ fmt_08x addr @ '': 0x'' @ fmt_08x v @ nl, apply_host e s))))"

text \<open>The state of the debugger: the machine and the core number, which nothing else uses.\<close>

type_synonym 'h dbg = "'h machine \<times> u32"

text \<open>One line; \<open>None\<close> for the machine's successor is the command to leave.\<close>

definition debug_command :: "'h os \<Rightarrow> string \<Rightarrow> 'h dbg \<Rightarrow> (string \<times> 'h dbg option) result" where
  "debug_command os line st =
    (let (s, core) = st; args = split_args 16 line; buf = buf_after line;
         go = (\<lambda>(out, s). Inr (out, Some (s, core)))
     in if args = [] then chain (debug_run os 1 [] s) go
        else if args ! 0 = ''q'' \<or> args ! 0 = ''quit'' then Inr ([], None)
        else if buf = ''h'' \<or> buf = ''help'' then go (debug_help, s)
        else if args ! 0 = ''core'' then
          (let core = (if length args = 2 then word_of_int (strtol0 (args ! 1)) else core)
           in Inr (''Core: '' @ fmt_d core @ nl, Some (s, core)))
        else if buf = ''r'' \<or> buf = ''run'' then
          (let n = (if length args = 2 then word_of_int (strtol0 (args ! 1)) else - 1)
           in chain (debug_run os (run_count n) (''Run: '' @ fmt_d n @ nl) s) go)
        else if buf = ''s'' \<or> buf = ''step'' then chain (debug_run os 1 [] s) go
        else if buf = ''pc'' then
          (let s = (if length args = 2 then s\<lparr>cpu := (cpu s)\<lparr>pc := word_of_int (strtol0 (args ! 1))\<rparr>\<rparr> else s)
           in go (''PC: '' @ fmt_08x (pc (cpu s)) @ nl, s))
        else if args ! 0 = ''mem'' then chain (debug_mem args s) go
        else if buf = ''reg'' then
          chain (dump_reg (if length args = 2 then Some (args ! 1) else None) (cpu s)) (\<lambda>out. go (out, s))
        else go (''Unknown command '' @ [CHR 0x27] @ args ! 0 @ [CHR 0x27] @ nl, s))"

section \<open>The loop\<close>

text \<open>At the end of the input \<open>fgets\<close> leaves the fresh buffer unset.\<close>

definition debug_turn :: "'h os \<Rightarrow> 'h dbg \<Rightarrow> (string \<times> 'h dbg option \<times> 'h machine) result" where
  "debug_turn os st =
    (let (s, core) = st; (bs, h) = read_line os 254 (os_state s); s = s\<lparr>os_state := h\<rparr>
     in if bs = [] then Inl HostUB
        else chain (debug_command os (line_text bs) (s, core)) (\<lambda>(out, r). Inr ('': '' @ out, r, s)))"

partial_function (option) debug_loop ::
    "'h os \<Rightarrow> string \<Rightarrow> 'h dbg \<Rightarrow> (string \<times> 'h machine) result option" where
  "debug_loop os out st =
    (case debug_turn os st of
       Inl e \<Rightarrow> Some (Inl e)
     | Inr r \<Rightarrow>
         (case fst (snd r) of
            None \<Rightarrow> Some (Inr (out @ fst r, snd (snd r)))
          | Some st' \<Rightarrow> debug_loop os (out @ fst r) st'))"

definition debug_mode :: "'h os \<Rightarrow> 'h machine \<Rightarrow> (string \<times> 'h machine) result option" where
  "debug_mode os s =
    (case show_current s of
       Inl e \<Rightarrow> Some (Inl e)
     | Inr (out, s) \<Rightarrow> debug_loop os out (s, 0))"

end
