(* ===== verification/Boot.thy ===== *)
theory Boot
  imports Elf Options Listing Debugger
begin

text \<open>
  \<open>main\<close> of \<open>src/RiscVFast.cpp\<close> after the command line: the segments the program starts
  with, the options that move them, the ELF file, the listings, the reset of the processor and
  the run. The file system is a function from names to contents, \<open>raws\<close> gives what each
  \<open>malloc\<close> of a segment returned, and the lists of section records start out empty.
\<close>

section \<open>Memory before the ELF file\<close>

text \<open>\<open>-T\<close> and \<open>-D\<close>: the base, and the length when it is not 0. Nothing is allocated.\<close>

definition set_segment :: "string option \<Rightarrow> segment \<Rightarrow> segment" where
  "set_segment base s =
    (case base of
       None \<Rightarrow> s
     | Some str \<Rightarrow>
         let (addr, sz) = getAddrSize str; s = s\<lparr>memBase := addr\<rparr>
         in if sz \<noteq> 0 then s\<lparr>memLen := sz\<rparr> else s)"

definition set_host :: "string option \<Rightarrow> memory \<Rightarrow> memory" where
  "set_host base m = (case base of None \<Rightarrow> m | Some str \<Rightarrow> m\<lparr>hostAddr := getValue str\<rparr>)"

definition main_memory :: "options \<Rightarrow> (nat \<Rightarrow> nat \<Rightarrow> u8) \<Rightarrow> memory" where
  "main_memory opts raws =
    (let m = (Memory_new (raws 0) (raws 1))\<lparr>do_core := opt_core opts\<rparr>;
         m = m\<lparr>insnMem := set_segment (textBase opts) (insnMem m)\<rparr>;
         m = m\<lparr>dataMem := set_segment (dataBase opts) (dataMem m)\<rparr>
     in set_host (hostBase opts) m)"

section \<open>The ELF file\<close>

text \<open>
  What \<open>main\<close> has after \<open>readElf\<close>, whose return value it does not look at: a refused file
  leaves memory as it was and the entry point 0. Without a file name, \<open>fopen\<close> is called on a
  null pointer.
\<close>

record image =
  im_memory :: memory
  im_text :: "elf_info list"
  im_data :: "elf_info list"
  im_entry :: u32

definition main_load ::
    "(string \<Rightarrow> u8 list option) \<Rightarrow> string option \<Rightarrow> (nat \<Rightarrow> nat \<Rightarrow> u8) \<Rightarrow> memory \<Rightarrow> image result" where
  "main_load files elfFile raws m =
    (case elfFile of
       None \<Rightarrow> Inl HostUB
     | Some name \<Rightarrow>
         chain (readElf (files name) HEAP_SIZE (raws 2) (raws 3)) (\<lambda>r. Inr
           (case r of
              None \<Rightarrow> \<lparr>im_memory = m, im_text = [], im_data = [], im_entry = 0\<rparr>
            | Some l \<Rightarrow>
                \<lparr>im_memory = m\<lparr>insnMem := ld_code l, dataMem := ld_data l\<rparr>,
                 im_text = ld_code_infos l, im_data = ld_data_infos l, im_entry = ld_entry l\<rparr>)))"

text \<open>The start and the end of the sections in a list.\<close>

definition info_range :: "elf_info list \<Rightarrow> u32 \<times> u32" where
  "info_range ips = foldl (\<lambda>r ip. widen (info_addr ip) (info_size ip) r) (- 1, 0) ips"

section \<open>The processor\<close>

definition stack_top :: "memory \<Rightarrow> u32" where
  "stack_top m = memBase (dataMem m) + memLen (dataMem m) - 16"

definition init_cpu :: "options \<Rightarrow> u32 \<Rightarrow> u32 \<Rightarrow> memory \<Rightarrow> cpu \<Rightarrow> cpu" where
  "init_cpu opts entry brk_base m c =
    (let c = Cpu_edata (ucast brk_base) (Cpu_start (ucast entry) (Cpu_reset c));
         c = Cpu_set_trace (trace_flag opts) (Cpu_setStack (stack_top m) c);
         c = (if vflag opts then c\<lparr>verbose := 1\<rparr> else c)
     in if opt_quiet opts then c\<lparr>verbose := 0\<rparr> else c)"

text \<open>Unless quiet, the word at the entry point is fetched to be shown.\<close>

definition check_entry :: "options \<Rightarrow> u32 \<Rightarrow> memory \<Rightarrow> unit result" where
  "check_entry opts entry m =
    (if opt_quiet opts then Inr () else chain (Segment_fetch32 (insnMem m) entry) (\<lambda>_. Inr ()))"

section \<open>The program\<close>

text \<open>The files the listings write, beside the machine.\<close>

record 'h launch =
  la_machine :: "'h machine"
  la_disasm :: "string option"
  la_warp :: "string option"

definition first_machine :: "options \<Rightarrow> memory \<Rightarrow> 'h \<Rightarrow> 'h machine" where
  "first_machine opts m h =
    \<lparr>cpu = Cpu_new, memory = m, decoder = decoder_start, vliw_insn = vliw_insn_start,
     do_newlib = opt_newlib opts, console = [], os_state = h\<rparr>"

definition main_listing :: "options \<Rightarrow> u32 \<times> u32 \<Rightarrow> 'h machine \<Rightarrow> 'h launch result option" where
  "main_listing opts text s =
    (case (if dis_flag opts then disasm_all (fst text) (snd text) s else Some (Inr ([], s))) of
       None \<Rightarrow> None
     | Some (Inl e) \<Rightarrow> Some (Inl e)
     | Some (Inr (dis, s)) \<Rightarrow>
         (case (if c_flag opts then rv_compile 0x00000000 (snd text) s else Some (Inr ([], s))) of
            None \<Rightarrow> None
          | Some (Inl e) \<Rightarrow> Some (Inl e)
          | Some (Inr (warp, s)) \<Rightarrow>
              Some (Inr \<lparr>la_machine = s, la_disasm = (if dis_flag opts then Some dis else None),
                la_warp = (if c_flag opts then Some warp else None)\<rparr>)))"

definition main_boot ::
    "(string \<Rightarrow> u8 list option) \<Rightarrow> (nat \<Rightarrow> nat \<Rightarrow> u8) \<Rightarrow> 'h \<Rightarrow> options \<Rightarrow> string option \<Rightarrow>
      'h launch result option" where
  "main_boot files raws h opts elfFile =
    (case main_load files elfFile raws (main_memory opts raws) of
       Inl e \<Rightarrow> Some (Inl e)
     | Inr im \<Rightarrow>
         let m = im_memory im;
             text = info_range (im_text im);
             brk_base = snd (info_range (if uflag opts then im_text im else im_data im))
         in (case main_listing opts text (first_machine opts m h) of
               None \<Rightarrow> None
             | Some r \<Rightarrow> Some (chain r (\<lambda>la.
                 chain (check_entry opts (im_entry im) (memory (la_machine la))) (\<lambda>_.
                 let s = la_machine la
                 in Inr (la\<lparr>la_machine := s\<lparr>cpu := init_cpu opts (im_entry im) brk_base (memory s) (cpu s)\<rparr>\<rparr>))))))"

text \<open>
  How \<open>main\<close> ends: status 1 for a bad option, or status 0 after the run or the debugging session,
  with what the debugger printed.
\<close>

datatype 'h outcome = BadOption | Ended "'h launch" string

definition main_run :: "'h os \<Rightarrow> options \<Rightarrow> 'h machine \<Rightarrow> (string \<times> 'h machine) result option" where
  "main_run os opts s =
    (if debug_flag opts then debug_mode os s
     else Some (chain (run os (- 1) s) (\<lambda>s. Inr ([], s))))"

definition main_program ::
    "'h os \<Rightarrow> (string \<Rightarrow> u8 list option) \<Rightarrow> (nat \<Rightarrow> nat \<Rightarrow> u8) \<Rightarrow> 'h \<Rightarrow> string list \<Rightarrow>
      'h outcome result option" where
  "main_program os files raws h argv =
    (case parse_args argv of
       None \<Rightarrow> Some (Inr BadOption)
     | Some (opts, elfFile) \<Rightarrow>
         (case main_boot files raws h opts elfFile of
            None \<Rightarrow> None
          | Some (Inl e) \<Rightarrow> Some (Inl e)
          | Some (Inr la) \<Rightarrow>
              (case main_run os opts (la_machine la) of
                 None \<Rightarrow> None
               | Some r \<Rightarrow> Some (chain r (\<lambda>(out, s). Inr (Ended (la\<lparr>la_machine := s\<rparr>) out))))))"

end
