(* ===== verification/Disasm_Facts.thy ===== *)
theory Disasm_Facts
  imports Disasm Decomp16_Facts
begin

text \<open>
  The text of an instruction in the manual's assembly language (\<open>isa_text\<close>), over the reference decoder's
  instructions instead of the word, the instructions the disassembler prints otherwise (\<open>departs\<close>, \<open>odd_text\<close>), and the
  proof that it prints every other one so: its fields and immediates are the reference's, and its name tables
  agree with the instructions.
\<close>

unbundle bit_operations_syntax

section \<open>The text of an instruction\<close>

definition xname :: "ireg \<Rightarrow> string" where "xname r = rn ! unat r"

fun op_text :: "alu \<Rightarrow> string" where
  "op_text A_ADD = ''add''" | "op_text A_SUB = ''sub''" | "op_text A_SLL = ''sll''"
| "op_text A_SLT = ''slt''" | "op_text A_SLTU = ''sltu''" | "op_text A_XOR = ''xor''"
| "op_text A_SRL = ''srl''" | "op_text A_SRA = ''sra''" | "op_text A_OR = ''or''" | "op_text A_AND = ''and''"

fun imm_text :: "alu \<Rightarrow> string" where
  "imm_text A_SLTU = ''sltiu''"
| "imm_text k = op_text k @ ''i''"

fun md_text :: "muldiv \<Rightarrow> string" where
  "md_text M_MUL = ''mul''" | "md_text M_MULH = ''mulh''" | "md_text M_MULHSU = ''mulhsu''"
| "md_text M_MULHU = ''mulhu''" | "md_text M_DIV = ''div''" | "md_text M_DIVU = ''divu''"
| "md_text M_REM = ''rem''" | "md_text M_REMU = ''remu''"

fun ld_text :: "lwidth \<Rightarrow> string" where
  "ld_text L_B = ''lb''" | "ld_text L_H = ''lh''" | "ld_text L_W = ''lw''"
| "ld_text L_BU = ''lbu''" | "ld_text L_HU = ''lhu''"

fun st_text :: "swidth \<Rightarrow> string" where
  "st_text S_B = ''sb''" | "st_text S_H = ''sh''" | "st_text S_W = ''sw''"

fun br_text :: "cond \<Rightarrow> string" where
  "br_text B_EQ = ''beq''" | "br_text B_NE = ''bne''" | "br_text B_LT = ''blt''"
| "br_text B_GE = ''bge''" | "br_text B_LTU = ''bltu''" | "br_text B_GEU = ''bgeu''"

text \<open>The comparisons with zero that have a mnemonic of their own.\<close>

fun br_right_zero :: "cond \<Rightarrow> string option" where
  "br_right_zero B_EQ = Some ''beqz''" | "br_right_zero B_NE = Some ''bnez''" | "br_right_zero B_LT = Some ''bltz''"
| "br_right_zero B_GE = Some ''bgez''" | "br_right_zero k = None"

fun br_left_zero :: "cond \<Rightarrow> string option" where
  "br_left_zero B_LT = Some ''bgtz''" | "br_left_zero B_GE = Some ''blez''" | "br_left_zero k = None"

fun sys_text :: "sysop \<Rightarrow> string" where
  "sys_text Y_ECALL = ''ecall''" | "sys_text Y_EBREAK = ''ebreak''" | "sys_text Y_SRET = ''sret''"
| "sys_text Y_MRET = ''mret''" | "sys_text Y_WFI = ''wfi''"

fun csr_op_text :: "csrop \<Rightarrow> string" where
  "csr_op_text C_W = ''csrrw''" | "csr_op_text C_S = ''csrrs''" | "csr_op_text C_C = ''csrrc''"

fun isa_text :: "u32 \<Rightarrow> isa \<Rightarrow> string" where
  "isa_text pc (I_LUI r i) = ops2 ''lui'' (xname r) (''0x'' @ fmt_x (drop_bit 12 i))"
| "isa_text pc (I_AUIPC r i) = ops2 ''auipc'' (xname r) (''0x'' @ fmt_x (drop_bit 12 i))"
| "isa_text pc (I_JAL r i) =
    (if r = 0 then ops1 ''j'' (fmt_x (pc + i)) else ops2 ''jal'' (xname r) (fmt_x (pc + i)))"
| "isa_text pc (I_JALR r a i) =
    (if r = 0 \<and> a = 1 \<and> i = 0 then ''ret''
     else if r = 0 then ops1 ''jr'' (if i = 0 then xname a else offs i (xname a))
     else if r = 1 then ops1 ''jalr'' (if i = 0 then xname a else offs i (xname a))
     else ops2 ''jalr'' (xname r) (offs i (xname a)))"
| "isa_text pc (I_BR k a b i) =
    (case (if b = 0 then br_right_zero k else None) of
       Some nm \<Rightarrow> ops2 nm (xname a) (fmt_x (pc + i))
     | None \<Rightarrow>
         (case (if a = 0 \<and> b \<noteq> 0 then br_left_zero k else None) of
            Some nm \<Rightarrow> ops2 nm (xname b) (fmt_x (pc + i))
          | None \<Rightarrow> ops3 (br_text k) (xname a) (xname b) (fmt_x (pc + i))))"
| "isa_text pc (I_LD k r a i) = ops2 (ld_text k) (xname r) (offs i (xname a))"
| "isa_text pc (I_ST k a b i) = ops2 (st_text k) (xname b) (offs i (xname a))"
| "isa_text pc (I_IMM k r a i) =
    (if k = A_ADD then
       (if r = 0 \<and> a = 0 \<and> i = 0 then ''nop''
        else if a = 0 then ops2 ''li'' (xname r) (fmt_d i)
        else if i = 0 then ops2 ''mv'' (xname r) (xname a)
        else ops3 ''addi'' (xname r) (xname a) (fmt_d i))
     else if shift_alu k then ops3 (imm_text k) (xname r) (xname a) (''0x'' @ fmt_x i)
     else if k = A_XOR \<and> i = - 1 then ops2 ''not'' (xname r) (xname a)
     else if k = A_AND \<and> i = 255 then ops2 ''zext.b'' (xname r) (xname a)
     else if k = A_SLTU \<and> i = 1 then ops2 ''seqz'' (xname r) (xname a)
     else ops3 (imm_text k) (xname r) (xname a) (fmt_d i))"
| "isa_text pc (I_OP k r a b) =
    (if a = 0 \<and> k = A_SLTU then ops2 ''snez'' (xname r) (xname b)
     else if a = 0 \<and> k = A_SLT then ops2 ''sgtz'' (xname r) (xname b)
     else if a = 0 \<and> k = A_SUB then ops2 ''neg'' (xname r) (xname b)
     else ops3 (op_text k) (xname r) (xname a) (xname b))"
| "isa_text pc (I_MD k r a b) = ops3 (md_text k) (xname r) (xname a) (xname b)"
| "isa_text pc (I_SYS k) = sys_text k"
| "isa_text pc (I_CSR k r a n) =
    (if k = C_W \<and> r = 0 then ops2 ''csrw'' (csr_name n) (xname a)
     else if k = C_S \<and> a = 0 then
       (if n = 0xc01 then ops1 ''rdtime'' (xname r)
        else if n = 0xc81 then ops1 ''rdtimeh'' (xname r)
        else ops2 ''csrr'' (xname r) (csr_name n))
     else if k = C_C \<and> r = 0 then ops2 ''csrc'' (csr_name n) (xname a)
     else ops3 (csr_op_text k) (xname r) (csr_name n) (xname a))"
| "isa_text pc (I_CSRI k r a n) = ops3 (csr_op_text k @ ''i'') (xname r) (csr_name n) (fmt_d (ucast a))"

text \<open>
  What the disassembler prints otherwise: an unsigned comparison with zero on the right gets a mnemonic no assembler
  has; one of \<open>beq\<close>, \<open>bne\<close>, \<open>bltu\<close> and \<open>bgeu\<close> with zero on the left loses its name; and a control-register
  instruction in its full form has its first two operands exchanged, and its immediate in hexadecimal without a mark.
\<close>

fun departs :: "isa \<Rightarrow> bool" where
  "departs (I_BR k a b i) \<longleftrightarrow> (if b = 0 then br_right_zero k = None else a = 0 \<and> br_left_zero k = None)"
| "departs (I_CSR k r a n) \<longleftrightarrow> \<not> (k = C_W \<and> r = 0 \<or> k = C_S \<and> a = 0 \<or> k = C_C \<and> r = 0)"
| "departs (I_CSRI k r a n) \<longleftrightarrow> True"
| "departs i \<longleftrightarrow> False"

fun odd_text :: "u32 \<Rightarrow> isa \<Rightarrow> string" where
  "odd_text pc (I_BR k a b i) =
    (if b = 0 then ops2 (br_text k @ ''z'') (xname a) (fmt_x (pc + i)) else ops2 ''???'' (xname b) (fmt_x (pc + i)))"
| "odd_text pc (I_CSR k r a n) = ops3 (csr_op_text k) (csr_name n) (xname r) (xname a)"
| "odd_text pc (I_CSRI k r a n) = ops3 (csr_op_text k @ ''i'') (csr_name n) (xname r) (fmt_x (ucast a))"
| "odd_text pc i = []"

definition dis_text :: "u32 \<Rightarrow> isa \<Rightarrow> string" where
  "dis_text pc i = (if departs i then odd_text pc i else isa_text pc i)"

text \<open>The program's tables give the two branch tables of the reference and the departures together.\<close>

lemma dis_text_br:
  "dis_text pc (I_BR k a b i) =
    (if b = 0 then ops2 (br_text k @ ''z'') (xname a) (fmt_x (pc + i))
     else if a = 0 then ops2 (case br_left_zero k of Some nm \<Rightarrow> nm | None \<Rightarrow> ''???'') (xname b) (fmt_x (pc + i))
     else ops3 (br_text k) (xname a) (xname b) (fmt_x (pc + i)))"
  by (cases k) (simp_all add: dis_text_def)

lemma dis_text_csr:
  "dis_text pc (I_CSR k r a n) =
    (if k = C_W \<and> r = 0 then ops2 ''csrw'' (csr_name n) (xname a)
     else if k = C_S \<and> a = 0 then
       (if n = 0xc01 then ops1 ''rdtime'' (xname r)
        else if n = 0xc81 then ops1 ''rdtimeh'' (xname r)
        else ops2 ''csrr'' (xname r) (csr_name n))
     else if k = C_C \<and> r = 0 then ops2 ''csrc'' (csr_name n) (xname a)
     else ops3 (csr_op_text k) (csr_name n) (xname r) (xname a))"
  "dis_text pc (I_CSRI k r a n) = ops3 (csr_op_text k @ ''i'') (csr_name n) (xname r) (fmt_x (ucast a))"
  by (auto simp: dis_text_def)

lemma dis_text_plain: "\<not> departs i \<Longrightarrow> dis_text pc i = isa_text pc i"
  by (simp add: dis_text_def)

declare dis_text_br [simp] dis_text_csr [simp] dis_text_plain [simp]

section \<open>The fields agree\<close>

lemma mask_numerals:
  "(0x1f :: u32) = mask 5" "(0x7 :: u32) = mask 3" "(0x7f :: u32) = mask 7" "(0xff :: u32) = mask 8"
  "(0x3ff :: u32) = mask 10" "(0x3f :: u32) = mask 6" "(0x0f :: u32) = mask 4" "(0x000fffff :: u32) = mask 20"
  by (simp_all add: mask_eq_exp_minus_1)

lemma dis_fields:
  "dis_rd insn = bits 7 5 insn" "dis_rs1 insn = bits 15 5 insn" "dis_rs2 insn = bits 20 5 insn"
  "dis_type insn = bits 12 3 insn" "dis_f7 insn = bits 25 7 insn"
  by (simp_all add: dis_rd_def dis_rs1_def dis_rs2_def dis_type_def dis_f7_def bits_def mask_numerals)

lemma ucast_field: "n \<le> 5 \<Longrightarrow> (ucast (ucast (bits lo n insn) :: ireg) :: u32) = bits lo n (insn :: u32)"
  by (rule bit_word_eqI) (auto simp: bit_simps bit_bits)

lemma field_ireg:
  "reg_name (bits 7 5 insn) = xname (x_rd insn)" "reg_name (bits 15 5 insn) = xname (x_rs1 insn)"
  "reg_name (bits 20 5 insn) = xname (x_rs2 insn)"
  "bits 7 5 insn = ucast (x_rd insn)" "bits 15 5 insn = ucast (x_rs1 insn)" "bits 20 5 insn = ucast (x_rs2 insn)"
proof -
  have "unat (ucast (bits lo 5 insn) :: ireg) = unat (bits lo 5 insn)" for lo
  proof -
    have "take_bit 5 (bits lo 5 insn) = bits lo 5 insn" by (simp add: bits_take_bit)
    then show ?thesis by (simp add: unsigned_ucast_eq flip: unsigned_take_bit_eq)
  qed
  then show "reg_name (bits 7 5 insn) = xname (x_rd insn)" "reg_name (bits 15 5 insn) = xname (x_rs1 insn)"
    "reg_name (bits 20 5 insn) = xname (x_rs2 insn)"
    by (simp_all add: reg_name_def xname_def x_rd_def x_rs1_def x_rs2_def)
qed (simp_all add: ucast_field x_rd_def x_rs1_def x_rs2_def)


lemma dis_imms:
  "dis_imm12 insn = imm_I insn" "dis_imm_S insn = imm_S insn"
  "dis_imm_J insn = imm_J insn" "dis_imm_B insn = imm_B insn"
  unfolding u32_eq_iff
  by (simp_all add: dis_imm12_def dis_imm_S_def dis_imm_J_def dis_imm_B_def imm_I_def imm_S_def imm_J_def
      imm_B_def Let_def bit_simps wordfacts del: push_bit_Suc)

lemma shamt_field: "imm_I insn AND 0x1f = bits 20 5 insn"
  unfolding mask_numerals by (rule bit_word_eqI) (auto simp: imm_I_def bit_simps bit_bits)

lemma upper_field: "drop_bit 12 (imm_U insn) = drop_bit 12 insn"
  by (rule bit_word_eqI) (auto simp: imm_U_def bit_simps bit_bits dest: bit_imp_le_length)

lemma csr_field: "drop_bit 20 insn = bits 20 12 (insn :: u32)"
  by (rule bit_word_eqI) (auto simp: bit_simps bit_bits dest: bit_imp_le_length)

text \<open>A word is its fields.\<close>

lemma word_by_fields:
  fixes x y :: u32
  assumes "x AND 0x7f = y AND 0x7f" and "bits 7 5 x = bits 7 5 y" and "bits 12 3 x = bits 12 3 y"
    and "bits 15 5 x = bits 15 5 y" and "bits 20 12 x = bits 20 12 y"
  shows "x = y"
proof (rule bit_word_eqI)
  fix n assume n: "n < LENGTH(32)"
  have low: "bit x n = bit y n" if "n < 7"
    using arg_cong [OF assms(1), of "\<lambda>w. bit w n"] that n unfolding mask_numerals by (simp add: bit_simps)
  have f: "bit x n = bit y n" if "bits lo k x = bits lo k y" "lo \<le> n" "n < lo + k" for lo k
    using arg_cong [OF that(1), of "\<lambda>w. bit w (n - lo)"] that(2,3) by (simp add: bit_bits less_diff_conv2)
  show "bit x n = bit y n"
    using low f [OF assms(2)] f [OF assms(3)] f [OF assms(4)] f [OF assms(5)] n by fastforce
qed

lemma fields_of_word:
  assumes "insn AND 0x7f = w AND 0x7f" and "x_rd insn = x_rd w" and "bits 12 3 insn = bits 12 3 w"
    and "x_rs1 insn = x_rs1 w" and "imm_I insn = imm_I w"
  shows "insn = w"
proof (rule word_by_fields)
  have "take_bit 12 (imm_I x) = bits 20 12 x" for x
    by (simp add: imm_I_def take_bit_signed_take_bit bits_take_bit)
  then show "bits 20 12 insn = bits 20 12 w" using assms(5) by metis
qed (use assms in \<open>simp_all add: field_ireg(4,5)\<close>)

lemma constant_fields:
  "(0x13 :: u32) AND 0x7f = 0x13" "x_rd 0x13 = 0" "bits 12 3 (0x13 :: u32) = 0" "x_rs1 0x13 = 0" "imm_I 0x13 = 0"
  "(0x8067 :: u32) AND 0x7f = 0x67" "x_rd 0x8067 = 0" "bits 12 3 (0x8067 :: u32) = 0" "x_rs1 0x8067 = 1" "imm_I 0x8067 = 0"
  by (simp, simp add: x_rd_def bits_take_bit, simp add: bits_take_bit, simp add: x_rs1_def bits_take_bit,
      simp add: imm_I_def bits_take_bit, simp, simp add: x_rd_def bits_take_bit, simp add: bits_take_bit,
      simp add: x_rs1_def bits_take_bit, simp add: imm_I_def bits_take_bit)

lemma nop_word:
  "insn = 0x00000013 \<longleftrightarrow>
    insn AND 0x7f = 0x13 \<and> x_rd insn = 0 \<and> bits 12 3 insn = 0 \<and> x_rs1 insn = 0 \<and> imm_I insn = 0"
  using constant_fields(1-5) by (metis fields_of_word)

lemma ret_word:
  "insn = 0x00008067 \<longleftrightarrow>
    insn AND 0x7f = 0x67 \<and> x_rd insn = 0 \<and> bits 12 3 insn = 0 \<and> x_rs1 insn = 1 \<and> imm_I insn = 0"
  using constant_fields(6-10) by (metis fields_of_word)

lemma ucast_ireg: "ucast (ucast (r :: ireg) :: u32) = r"
  by (rule bit_word_eqI) (simp add: bit_simps)

section \<open>Each case\<close>

lemma zero_fields:
  "bits 7 5 insn = 0 \<longleftrightarrow> x_rd insn = 0" "bits 15 5 insn = 0 \<longleftrightarrow> x_rs1 insn = 0"
  "bits 20 5 insn = 0 \<longleftrightarrow> x_rs2 insn = 0" "bits 7 5 insn = 1 \<longleftrightarrow> x_rd insn = 1"
  unfolding field_ireg(4-6) by (metis ucast_0 ucast_1 ucast_ireg)+

lemmas dis_simps = dis_fields dis_imms zero_fields field_ireg(1-3) shamt_field upper_field csr_field Let_def

lemma op_fields: "isa_op f7 f3 = Some k \<Longrightarrow> f7 = alu_f7 k \<and> f3 = alu_f3 k"
  by (simp add: isa_op_def alu_f7_def split: if_splits; clarsimp)

lemma md_fields: "isa_md f3 = Some k \<Longrightarrow> f3 = md_f3 k"
  by (simp add: isa_md_def split: if_splits; clarsimp)

lemma imm_fields: "isa_imm f7 f3 = Some k \<Longrightarrow> f3 = alu_f3 k \<and> k \<noteq> A_SUB \<and> (shift_alu k \<longrightarrow> f7 = alu_f7 k)"
  by (simp add: isa_imm_def alu_f7_def shift_alu_def split: if_splits; clarsimp)

lemma br_fields: "isa_br f3 = Some k \<Longrightarrow> f3 = br_f3 k"
  by (simp add: isa_br_def split: if_splits; clarsimp)

lemma dis_op:
  assumes "isa_op (bits 25 7 insn) (bits 12 3 insn) = Some k"
  shows "dis_alu insn = dis_text pc (I_OP k (x_rd insn) (x_rs1 insn) (x_rs2 insn))"
  using op_fields [OF assms]
  by (cases k) (simp_all add: dis_alu_def dis_simps alu_name_def alu2_name_def alu_f7_def)

lemma dis_md:
  assumes "bits 25 7 insn = 1" and "isa_md (bits 12 3 insn) = Some k"
  shows "dis_alu insn = dis_text pc (I_MD k (x_rd insn) (x_rs1 insn) (x_rs2 insn))"
  using assms(1) md_fields [OF assms(2)]
  by (cases k) (simp_all add: dis_alu_def dis_simps mul_name_def)

lemma dis_imm:
  assumes "insn AND 0x7f = 0x13" and "isa_imm (bits 25 7 insn) (bits 12 3 insn) = Some k"
  shows "dis_alui insn =
    dis_text pc (I_IMM k (x_rd insn) (x_rs1 insn) (if shift_alu k then bits 20 5 insn else imm_I insn))"
  using assms(1) imm_fields [OF assms(2)]
  by (cases k)
    (simp_all add: dis_alui_def nop_word [of insn] dis_simps alui_name_def alui2_name_def alu_f7_def shift_alu_def)

lemma dis_jump:
  assumes "insn AND 0x7f = 0x67" and "bits 12 3 insn = 0"
  shows "dis_jalr insn = dis_text pc (I_JALR (x_rd insn) (x_rs1 insn) (imm_I insn))"
  using assms by (simp add: dis_jalr_def ret_word [of insn] dis_simps)

lemma dis_br:
  assumes "isa_br (bits 12 3 insn) = Some k"
  shows "dis_branch pc insn = dis_text pc (I_BR k (x_rs1 insn) (x_rs2 insn) (imm_B insn))"
  using br_fields [OF assms]
  by (cases k) (simp_all add: dis_branch_def dis_simps bra_name_def braz_name_def brazi_name_def)


lemma dis_st:
  assumes "isa_st (bits 12 3 insn) = Some k"
  shows "store_name ! unat (bits 12 3 insn) = st_text k"
proof -
  have "bits 12 3 insn = st_f3 k" using assms by (simp add: isa_st_def split: if_splits; clarsimp)
  then show ?thesis by (cases k) (simp_all add: store_name_def)
qed

lemma dis_ld:
  assumes "isa_ld (bits 12 3 insn) = Some k"
  shows "load_name ! unat (bits 12 3 insn) = ld_text k"
proof -
  have "bits 12 3 insn = ld_f3 k" using assms by (simp add: isa_ld_def split: if_splits; clarsimp)
  then show ?thesis by (cases k) (simp_all add: load_name_def)
qed

lemma dis_sys:
  assumes "isa_sys insn = Some k" and "bits 12 3 insn = 0"
  shows "dis_system insn = sys_text k"
proof -
  have "insn = sys_word k" using assms(1) by (simp add: isa_sys_def split: if_splits; clarsimp)
  then show ?thesis using assms(2) by (cases k) (simp_all add: dis_system_def dis_fields)
qed

lemma csr_fields: "isa_csr f3 = Some k \<Longrightarrow> f3 = csr_f3 k"
  by (simp add: isa_csr_def split: if_splits; clarsimp)

lemma dis_csr:
  assumes "isa_csr (bits 12 3 insn) = Some k"
  shows "dis_system insn = dis_text pc (I_CSR k (x_rd insn) (x_rs1 insn) (bits 20 12 insn))"
  using csr_fields [OF assms]
  by (cases k) (simp_all add: dis_system_def dis_simps csr_opname_def)

lemma dis_csri:
  assumes "isa_csr (bits 12 3 insn - 4) = Some k"
  shows "dis_system insn = dis_text pc (I_CSRI k (x_rd insn) (x_rs1 insn) (bits 20 12 insn))"
proof -
  have "bits 12 3 insn = csr_f3 k + 4" using csr_fields [OF assms] by (simp add: algebra_simps)
  then show ?thesis
    by (cases k) (simp_all add: dis_system_def dis_fields field_ireg(1-3) csr_field csr_opname_def Let_def
        flip: field_ireg(5))
qed

lemma disasm_text:
  assumes "isa_decode insn = Some i"
  shows "disasm pc insn = dis_text pc i"
proof -
  have "insn AND 0x7f \<in> {0x37, 0x17, 0x6f, 0x67, 0x63, 0x03, 0x23, 0x13, 0x33, 0x73}"
    using assms by (simp add: isa_decode_def Let_def split: if_splits)
  then consider (lui) "insn AND 0x7f = 0x37" | (auipc) "insn AND 0x7f = 0x17" | (jal) "insn AND 0x7f = 0x6f"
    | (jalr) "insn AND 0x7f = 0x67" | (br) "insn AND 0x7f = 0x63" | (ld) "insn AND 0x7f = 0x03"
    | (st) "insn AND 0x7f = 0x23" | (imm) "insn AND 0x7f = 0x13" | (op) "insn AND 0x7f = 0x33"
    | (sys) "insn AND 0x7f = 0x73"
    by blast
  then show ?thesis
  proof cases
    case lui
    then show ?thesis using assms by (auto simp: isa_decode_def disasm_def dis_simps)
  next
    case auipc
    then show ?thesis using assms by (auto simp: isa_decode_def disasm_def dis_simps)
  next
    case jal
    then show ?thesis using assms by (auto simp: isa_decode_def disasm_def dis_simps)
  next
    case jalr
    then have "bits 12 3 insn = 0" "i = I_JALR (x_rd insn) (x_rs1 insn) (imm_I insn)"
      using assms by (auto simp: isa_decode_def Let_def split: if_splits)
    then show ?thesis using jalr dis_jump [OF jalr] by (simp only: disasm_def Let_def) simp
  next
    case br
    then obtain k where "isa_br (bits 12 3 insn) = Some k" "i = I_BR k (x_rs1 insn) (x_rs2 insn) (imm_B insn)"
      using assms by (auto simp: isa_decode_def Let_def)
    then show ?thesis using br dis_br by (simp add: disasm_def)
  next
    case ld
    then obtain k where k: "isa_ld (bits 12 3 insn) = Some k" "i = I_LD k (x_rd insn) (x_rs1 insn) (imm_I insn)"
      using assms by (auto simp: isa_decode_def Let_def)
    then show ?thesis using ld dis_ld [OF k(1)] dis_imms(1) [of insn]
      by (simp add: disasm_def dis_fields field_ireg(1-3) Let_def dis_imm12_def)
  next
    case st
    then obtain k where k: "isa_st (bits 12 3 insn) = Some k" "i = I_ST k (x_rs1 insn) (x_rs2 insn) (imm_S insn)"
      using assms by (auto simp: isa_decode_def Let_def)
    then show ?thesis using st dis_st [OF k(1)] by (simp add: disasm_def dis_fields dis_imms field_ireg(1-3) Let_def)
  next
    case imm
    then obtain k where k: "isa_imm (bits 25 7 insn) (bits 12 3 insn) = Some k"
      "i = I_IMM k (x_rd insn) (x_rs1 insn) (if shift_alu k then bits 20 5 insn else imm_I insn)"
      using assms by (auto simp: isa_decode_def Let_def)
    then show ?thesis using imm dis_imm [OF imm k(1)] by (simp only: disasm_def Let_def) simp
  next
    case op
    show ?thesis
    proof (cases "bits 25 7 insn = 1")
      case True
      then obtain k where k: "isa_md (bits 12 3 insn) = Some k" "i = I_MD k (x_rd insn) (x_rs1 insn) (x_rs2 insn)"
        using op assms by (auto simp: isa_decode_def Let_def)
      then show ?thesis using op dis_md [OF True k(1)] by (simp only: disasm_def Let_def) simp
    next
      case False
      then obtain k where k: "isa_op (bits 25 7 insn) (bits 12 3 insn) = Some k"
        "i = I_OP k (x_rd insn) (x_rs1 insn) (x_rs2 insn)"
        using op assms by (auto simp: isa_decode_def Let_def)
      then show ?thesis using op dis_op [OF k(1)] by (simp only: disasm_def Let_def) simp
    qed
  next
    case sys
    then have "disasm pc insn = dis_system insn" by (simp add: disasm_def)
    moreover have "dis_system insn = dis_text pc i"
      using assms sys dis_sys [of insn] dis_csr [of insn _ pc] dis_csri [of insn _ pc]
      by (auto simp: isa_decode_def Let_def simp del: dis_text_csr split: if_splits)
    ultimately show ?thesis by simp
  qed
qed

end
