(* ===== verification/Listing_Facts.thy ===== *)
theory Listing_Facts
  imports Listing Disasm_Facts Decode_Props
begin

text \<open>
  The loops over the text as lists of addresses: when they end, what they write, and what they
  leave of the machine. They count in 32 bits, so they end just when their end can be reached.
\<close>

section \<open>Counting by four\<close>

definition addrs :: "u32 \<Rightarrow> u32 \<Rightarrow> u32 list" where
  "addrs i lim = map (\<lambda>k. i + 4 * of_nat k) [0..<(unat lim - unat i + 3) div 4]"

lemma step4:
  fixes i lim :: u32
  assumes "i < lim" and "lim \<le> 0xfffffffc"
  shows "unat (i + 4) = unat i + 4"
proof -
  have "unat i + 4 < 2 ^ 32" using assms by (simp add: word_less_nat_alt word_le_nat_alt)
  then show ?thesis by (simp add: unat_word_ariths)
qed

lemma count4: "(a :: nat) < b \<Longrightarrow> (b - a + 3) div 4 = Suc ((b - (a + 4) + 3) div 4)"
proof (cases "a + 4 \<le> b")
  case True
  then obtain c where "b = a + 4 + c" using le_Suc_ex by blast
  then show ?thesis by simp
next
  case False
  moreover assume "a < b"
  ultimately obtain d where "b = a + d" "d = 1 \<or> d = 2 \<or> d = 3" by (intro that [of "b - a"]) auto
  then show ?thesis by auto
qed

lemma addrs_step:
  assumes "lim \<le> 0xfffffffc"
  shows "addrs i lim = (if i < lim then i # addrs (i + 4) lim else [])"
proof (cases "i < lim")
  case True
  define n where "n = (unat lim - unat (i + 4) + 3) div 4"
  have "(unat lim - unat i + 3) div 4 = Suc n"
    using True count4 [of "unat i" "unat lim"] step4 [OF True assms] by (simp add: n_def word_less_nat_alt)
  then have "addrs i lim = map (\<lambda>k. i + 4 * of_nat k) [0..<Suc n]" by (simp only: addrs_def)
  also have "\<dots> = i # map (\<lambda>k. i + 4 + 4 * of_nat k) [0..<n]"
    unfolding map_upt_Suc by (simp add: algebra_simps)
  finally show ?thesis using True by (simp only: addrs_def n_def if_True)
next
  case False
  then show ?thesis by (simp add: addrs_def word_less_nat_alt)
qed

lemma count_induct [consumes 1, case_names stop go]:
  fixes lim :: u32
  assumes "lim \<le> 0xfffffffc" and "\<And>i. \<not> i < lim \<Longrightarrow> P i" and "\<And>i. i < lim \<Longrightarrow> P (i + 4) \<Longrightarrow> P i"
  shows "P i"
proof (induction i rule: measure_induct_rule [of "\<lambda>i. unat lim - unat i"])
  case (less i)
  show ?case
  proof (cases "i < lim")
    case True
    then have "unat lim - unat (i + 4) < unat lim - unat i"
      using step4 [OF True assms(1)] by (simp add: word_less_nat_alt)
    then show ?thesis using True assms(3) less by blast
  qed (use assms(2) in blast)
qed

section \<open>The dispatch\<close>

lemma case_loop_text:
  assumes "lim \<le> 0xfffffffc"
  shows "case_loop lim i out = Some (out @ concat (map rv_case (addrs i lim)))"
  using assms
proof (induction i arbitrary: out rule: count_induct)
  case (stop i)
  then show ?case using assms by (subst case_loop.simps) (simp add: addrs_step [of lim i])
next
  case (go i)
  then show ?case using assms by (subst case_loop.simps) (simp add: addrs_step [of lim i])
qed

lemma case_loop_runs_on: "4 dvd unat i \<Longrightarrow> 0xfffffffc < lim \<Longrightarrow> case_loop lim i out = None"
proof (rule ccontr)
  assume a: "4 dvd unat i" "0xfffffffc < lim" and "case_loop lim i out \<noteq> None"
  then obtain y where "case_loop lim i out = Some y" by blast
  then have "\<not> (4 dvd unat i \<and> 0xfffffffc < lim)"
  proof (induction rule: case_loop.raw_induct [rotated, consumes 1, case_names turn])
    case (turn f lim i out y)
    show ?case
    proof
      assume d: "4 dvd unat i \<and> 0xfffffffc < lim"
      have "unat i \<noteq> 0xfffffffd \<and> unat i \<noteq> 0xfffffffe \<and> unat i \<noteq> 0xffffffff"
        using d by auto
      then have "unat i \<le> 0xfffffffc" using unsigned_less [of i, where 'a = nat] by simp
      then have "i \<le> 0xfffffffc" by (simp add: word_le_nat_alt)
      then have "i < lim" using d by (blast intro: le_less_trans)
      then have "f lim (i + 4) (out @ rv_case i) = Some y" using turn(2) by simp
      from turn(1) [OF this] have "\<not> (4 dvd unat (i + 4) \<and> 0xfffffffc < lim)" .
      moreover have "4 dvd unat (i + 4)"
        unfolding unat_word_ariths using d by (intro dvd_mod) auto
      ultimately show False using d by simp
    qed
  qed
  with a show False by simp
qed

section \<open>The bodies\<close>

lemma insn_loop_returns:
  assumes "lim \<le> 0xfffffffc"
  shows "insn_loop lim i out s \<noteq> None"
  using assms
proof (induction i arbitrary: out s rule: count_induct)
  case (stop i)
  then show ?case by (subst insn_loop.simps) simp
next
  case (go i)
  then show ?case by (subst insn_loop.simps) (auto split: sum.split)
qed

lemma insn_loop_text:
  assumes "lim \<le> 0xfffffffc" and "\<forall>a \<in> set (addrs i lim). Memory_read32 (memory s) a = Inr (w a, NoEffect)"
  shows "insn_loop lim i out s = Some (Inr (out @ concat (map (\<lambda>a. rv_insn (do_newlib s) a (w a)) (addrs i lim)), s))"
  using assms
proof (induction i arbitrary: out rule: count_induct)
  case (stop i)
  then show ?case using assms by (subst insn_loop.simps) (simp add: addrs_step [of lim i])
next
  case (go i)
  then show ?case using assms
    by (subst insn_loop.simps) (simp add: addrs_step [of lim i] apply_host_def)
qed

section \<open>The listing\<close>

lemma disasm_loop_returns:
  assumes "lim \<le> 0xfffffffc"
  shows "disasm_loop lim i out s \<noteq> None"
  using assms
proof (induction i arbitrary: out s rule: count_induct)
  case (stop i)
  then show ?case by (subst disasm_loop.simps) simp
next
  case (go i)
  then show ?case by (subst disasm_loop.simps) (auto split: sum.split)
qed

text \<open>The line of a known instruction.\<close>

definition listed :: "u32 \<Rightarrow> u32 \<Rightarrow> isa \<Rightarrow> string" where
  "listed a w i =
    (let v = vliw_of i; op = dec_of (unat (opcode v))
     in fmt_08x a @ '': '' @ fmt_08x w @ '' ['' @ replicate (2 - length op) (CHR '' '') @ op @ '' '' @
       rn2 ! unat (rd v) @ '','' @ rn2 ! unat (rs1 v) @ '','' @ rn2 ! unat (rs2 v) @ '','' @
       fmt_08x (imm v) @ ''] '' @ dis_text a i @ nl)"

lemma rn2_in_range: "r < 32 \<Longrightarrow> rn2_name r = Inr (rn2 ! unat r)"
  by (simp add: rn2_name_def rn2_def word_less_nat_alt)

text \<open>What a loop over the text changes: the decoder's tables and the console.\<close>

definition same_but_tables :: "'h machine \<Rightarrow> 'h machine \<Rightarrow> bool" where
  "same_but_tables s s' \<longleftrightarrow> memory s' = memory s \<and> vliw_insn s' = vliw_insn s \<and>
    do_newlib s' = do_newlib s \<and> os_state s' = os_state s \<and> (decoder_ok (decoder s) \<longrightarrow> decoder_ok (decoder s'))"

lemma same_host: "same_but_tables s (apply_host e s)"
  by (auto simp: same_but_tables_def apply_host_def split: host_effect.split)

lemma same_refl [simp]: "same_but_tables s s"
  by (simp add: same_but_tables_def)

lemma same_trans: "same_but_tables s t \<Longrightarrow> same_but_tables t u \<Longrightarrow> same_but_tables s u"
  by (simp add: same_but_tables_def)

lemma listing_step_same: "listing_step i s = Inr (t, s') \<Longrightarrow> same_but_tables s s'"
proof -
  assume "listing_step i s = Inr (t, s')"
  then obtain insn e r d where d: "decode2vliw insn (decoder (apply_host e s)) = Inr (r, d)"
    "s' = (apply_host e s)\<lparr>decoder := d\<rparr>"
    by (auto simp: listing_step_def Let_def faultfacts)
  have "same_but_tables (apply_host e s) s'"
    using d decode2vliw_transparent [of "decoder (apply_host e s)" insn] by (auto simp: same_but_tables_def)
  then show ?thesis by (rule same_trans [OF same_host])
qed

lemma disasm_loop_same:
  assumes "disasm_loop lim i out s = Some (Inr (out', s'))"
  shows "same_but_tables s s'"
proof -
  have "y = Inr (out', s') \<longrightarrow> same_but_tables s s'" if "disasm_loop lim i out s = Some y" for y
    using that
  proof (induction rule: disasm_loop.raw_induct [rotated, consumes 1, case_names turn])
    case (turn f lim i out s y)
    show ?case
    proof (cases "i < lim")
      case True
      then show ?thesis
        using turn by (auto split: sum.splits intro: same_trans [OF listing_step_same])
    qed (use turn(2) in auto)
  qed
  then show ?thesis using assms by blast
qed

lemma insn_loop_same:
  assumes "insn_loop lim i out s = Some (Inr (out', s'))"
  shows "same_but_tables s s'"
proof -
  have "y = Inr (out', s') \<longrightarrow> same_but_tables s s'" if "insn_loop lim i out s = Some y" for y
    using that
  proof (induction rule: insn_loop.raw_induct [rotated, consumes 1, case_names turn])
    case (turn f lim i out s y)
    show ?case
    proof (cases "i < lim")
      case True
      then have eq: "(case Memory_read32 (memory s) i of Inl e \<Rightarrow> Some (Inl e)
          | Inr p \<Rightarrow> f lim (i + 4) (out @ rv_insn (do_newlib s) i (fst p)) (apply_host (snd p) s)) = Some y"
        using turn(2) by simp
      show ?thesis
      proof (cases "Memory_read32 (memory s) i")
        case (Inr p)
        then show ?thesis using eq turn(1) [of lim "i + 4" _ "apply_host (snd p) s" y] same_trans [OF same_host] by auto
      qed (use eq in auto)
    qed (use turn(2) in auto)
  qed
  then show ?thesis using assms by blast
qed

lemma listing_step_known:
  assumes "decoder_ok (decoder s)" and "Memory_read32 (memory s) a = Inr (w, NoEffect)" and "isa_decode w = Some i"
  shows "\<exists>d. listing_step a s = Inr (listed a w i, s\<lparr>decoder := d\<rparr>) \<and> decoder_ok d"
proof -
  obtain d where d: "decode2vliw w (decoder s) = Inr ((True, vliw_of i), d)" "decoder_ok d"
    using decode2vliw_known [OF assms(1,3)] by blast
  then have "regs_ok (vliw_of i)"
    using decode2vliw_transparent [OF assms(1), of w] decode_ref_keeps [of w True "vliw_of i"] by simp
  then have r: "rd (vliw_of i) < 32" "rs1 (vliw_of i) < 32" "rs2 (vliw_of i) < 32" by (simp_all add: regs_ok_def)
  have "listing_line a w (vliw_of i) = Inr (listed a w i)"
    by (simp add: listing_line_def rn2_in_range [OF r(1)] rn2_in_range [OF r(2)] rn2_in_range [OF r(3)]
        disasm_text [OF assms(3)] listed_def Let_def)
  then have "listing_step a s = Inr (listed a w i, s\<lparr>decoder := d\<rparr>)"
    using d assms(2) by (simp add: listing_step_def apply_host_def)
  with d show ?thesis by blast
qed

lemma disasm_loop_text:
  assumes "lim \<le> 0xfffffffc" and "decoder_ok (decoder s)"
    and "\<forall>a \<in> set (addrs i lim). Memory_read32 (memory s) a = Inr (w a, NoEffect) \<and> isa_decode (w a) = Some (ins a)"
  shows "\<exists>d. disasm_loop lim i out s =
      Some (Inr (out @ concat (map (\<lambda>a. listed a (w a) (ins a)) (addrs i lim)), s\<lparr>decoder := d\<rparr>)) \<and> decoder_ok d"
  using assms
proof (induction i arbitrary: out s rule: count_induct)
  case (stop i)
  then show ?case using assms(1)
    by (subst disasm_loop.simps) (auto simp: addrs_step [of lim i] intro: exI [of _ "decoder s"])
next
  case (go i)
  then have i: "addrs i lim = i # addrs (i + 4) lim" using assms(1) by (simp add: addrs_step [of lim i])
  obtain d where d: "listing_step i s = Inr (listed i (w i) (ins i), s\<lparr>decoder := d\<rparr>)" "decoder_ok d"
    using listing_step_known [of s i "w i" "ins i"] go.prems i by auto
  obtain d' where "disasm_loop lim (i + 4) (out @ listed i (w i) (ins i)) (s\<lparr>decoder := d\<rparr>) =
      Some (Inr ((out @ listed i (w i) (ins i)) @ concat (map (\<lambda>a. listed a (w a) (ins a)) (addrs (i + 4) lim)),
        s\<lparr>decoder := d'\<rparr>))" "decoder_ok d'"
    using go.IH [of "s\<lparr>decoder := d\<rparr>" "out @ listed i (w i) (ins i)"] go.prems i d by auto
  then show ?case using go.hyps d i by (subst disasm_loop.simps) auto
qed

end
