(* ===== verification/Elf_Facts.thy ===== *)
theory Elf_Facts
  imports Elf Memory_Facts
begin

text \<open>
  Facts about the loader: the ranges cover every section that widened them, the copying loop
  keeps the shape of both segments, and a section's bytes stay where they were copied unless
  a later section overlaps it.
\<close>

section \<open>The ranges cover the sections\<close>

definition area_of :: "area \<Rightarrow> ranges \<Rightarrow> u32 \<times> u32" where
  "area_of a r =
    (case a of TextArea \<Rightarrow> (text_base r, text_end r) | DataArea \<Rightarrow> (data_base r, data_end r)
     | BssArea \<Rightarrow> (bss_base r, bss_end r))"

definition wider :: "ranges \<Rightarrow> ranges \<Rightarrow> bool" where
  "wider r r' \<longleftrightarrow> (\<forall>a. fst (area_of a r') \<le> fst (area_of a r) \<and> snd (area_of a r) \<le> snd (area_of a r'))"

lemma wider_refl [simp]: "wider r r"
  by (simp add: wider_def)

lemma wider_trans: "wider r r' \<Longrightarrow> wider r' r'' \<Longrightarrow> wider r r''"
  unfolding wider_def by (meson order_trans)

lemma widen_bounds:
  "fst (widen addr len r) \<le> fst r" "snd r \<le> snd (widen addr len r)"
  "fst (widen addr len r) \<le> addr" "addr + len \<le> snd (widen addr len r)"
  by (cases r; simp add: widen_def not_less less_imp_le)+

lemma area_of_widen:
  "area_of b (widen_area a addr len r) = (if b = a then widen addr len (area_of a r) else area_of b r)"
  by (cases a; cases b; simp add: widen_area_def area_of_def case_prod_unfold Let_def)

lemma wider_widen: "wider r (widen_area a addr len r)"
  by (simp add: wider_def area_of_widen widen_bounds)

lemma widen_covers:
  "fst (area_of a (widen_area a addr len r)) \<le> addr \<and> addr + len \<le> snd (area_of a (widen_area a addr len r))"
  by (simp add: area_of_widen widen_bounds)

lemma range_loop_wider: "range_loop buf nt ss r = Inr r' \<Longrightarrow> wider r r'"
proof (induction ss arbitrary: r)
  case (Cons s ss)
  then show ?case by (auto simp: faultfacts intro: wider_trans [OF wider_widen] split: if_splits)
qed simp

lemma range_loop_covers:
  "range_loop buf nt ss r = Inr r' \<Longrightarrow> s \<in> set ss \<Longrightarrow> \<not> skipped s \<Longrightarrow>
    \<exists>a. section_area buf nt s = Inr a \<and> fst (area_of a r') \<le> sh_addr s \<and>
      sh_addr s + sh_size s \<le> snd (area_of a r')"
proof (induction ss arbitrary: r)
  case (Cons t ss)
  show ?case
  proof (cases "s = t")
    case True
    with Cons.prems obtain a where a: "section_area buf nt s = Inr a"
      "range_loop buf nt ss (widen_area a (sh_addr s) (sh_size s) r) = Inr r'"
      by (auto simp: faultfacts)
    have "wider (widen_area a (sh_addr s) (sh_size s) r) r'" using a(2) by (rule range_loop_wider)
    then show ?thesis
      using a(1) widen_covers [of a "sh_addr s" "sh_size s" r] unfolding wider_def by (meson order_trans)
  next
    case False
    with Cons show ?thesis by (auto simp: faultfacts split: if_splits)
  qed
qed simp

section \<open>The copying loop\<close>

text \<open>The bytes a section brings, and the segment it brings them to.\<close>

definition section_bytes :: "u8 list \<Rightarrow> ranges \<Rightarrow> shdr \<Rightarrow> u8 list result" where
  "section_bytes buf r s =
    (if section_place r s = ZeroBss then Inr (replicate (unat (sh_size s)) 0)
     else buf_bytes buf (unat (sh_offset s)) (unat (sh_size s)))"

definition placed :: "ranges \<Rightarrow> shdr \<Rightarrow> bool" where
  "placed r s \<longleftrightarrow> \<not> skipped s \<and> section_place r s \<noteq> NoPlace"

definition in_code :: "ranges \<Rightarrow> shdr \<Rightarrow> bool" where
  "in_code r s \<longleftrightarrow> section_place r s = ToText"

definition seg_of :: "bool \<Rightarrow> loading \<Rightarrow> segment" where
  "seg_of c l = (if c then seg_code l else seg_data l)"

definition shape :: "segment \<Rightarrow> u32 \<times> u32 \<times> nat" where
  "shape s = (memBase s, memLen s, length (data s))"

lemma shape_store: "seg_store s a bs = Inr s' \<Longrightarrow> shape s' = shape s"
  by (auto simp: seg_store_def shape_def split: if_splits)

lemma shape_apart: "shape s' = shape s \<Longrightarrow> seg_apart s' = seg_apart s"
  by (simp add: shape_def seg_apart_def seg_off_def fun_eq_iff)

lemma load_section_cases:
  assumes "load_section buf nt r s l = Inr l'"
  shows "section_place r s = NoPlace \<and> l' = l \<or>
    (\<exists>bs. section_place r s \<noteq> NoPlace \<and> section_bytes buf r s = Inr bs \<and>
      seg_store (seg_of (in_code r s) l) (sh_addr s) bs = Inr (seg_of (in_code r s) l') \<and>
      seg_of (\<not> in_code r s) l' = seg_of (\<not> in_code r s) l)"
  using assms
  by (cases "section_place r s")
    (auto simp: load_section_def section_bytes_def in_code_def seg_of_def faultfacts)

lemma load_section_shape:
  assumes "load_section buf nt r s l = Inr l'"
  shows "shape (seg_of c l') = shape (seg_of c l)"
  using load_section_cases [OF assms]
proof (elim disjE exE conjE)
  fix bs
  assume "seg_store (seg_of (in_code r s) l) (sh_addr s) bs = Inr (seg_of (in_code r s) l')"
    and "seg_of (\<not> in_code r s) l' = seg_of (\<not> in_code r s) l"
  then have "shape (seg_of (in_code r s) l') = shape (seg_of (in_code r s) l)"
    "shape (seg_of (\<not> in_code r s) l') = shape (seg_of (\<not> in_code r s) l)"
    by (simp_all add: shape_store)
  then show ?thesis by (cases c; cases "in_code r s") simp_all
qed simp

lemma load_loop_shape: "load_loop buf nt r ss l = Inr l' \<Longrightarrow> shape (seg_of c l') = shape (seg_of c l)"
  by (induction ss arbitrary: l) (auto simp: faultfacts dest: load_section_shape split: if_splits)

text \<open>Two sections in the same segment do not overlap.\<close>

definition disjoint :: "shdr \<Rightarrow> shdr \<Rightarrow> bool" where
  "disjoint s t \<longleftrightarrow>
    unat (sh_addr s) + unat (sh_size s) \<le> unat (sh_addr t) \<or>
    unat (sh_addr t) + unat (sh_size t) \<le> unat (sh_addr s)"

definition survives :: "ranges \<Rightarrow> shdr \<Rightarrow> shdr list \<Rightarrow> bool" where
  "survives r s ss \<longleftrightarrow> (\<forall>t \<in> set ss. placed r t \<and> in_code r t = in_code r s \<longrightarrow> disjoint s t)"

lemma section_bytes_length: "section_bytes buf r s = Inr bs \<Longrightarrow> length bs = unat (sh_size s)"
  by (auto simp: section_bytes_def buf_bytes_def split: if_splits)

text \<open>No section reaches past the end of the address space.\<close>

definition ends_inside :: "shdr \<Rightarrow> bool" where
  "ends_inside s \<longleftrightarrow> unat (sh_addr s) + unat (sh_size s) \<le> 2 ^ 32"

lemma seg_off_unat:
  "seg_off g a = (if memBase g \<le> a then unat a - unat (memBase g) else unat a + 2 ^ 32 - unat (memBase g))"
  by (simp add: seg_off_def unat_sub_if' word_le_nat_alt)

lemma disjoint_apart:
  assumes "disjoint s t" and "ends_inside s" and "ends_inside t"
    and "n \<le> unat (sh_size s)" and "seg_off g (sh_addr t) + unat (sh_size t) \<le> 2 ^ 32"
    and "seg_off g (sh_addr s) + n \<le> 2 ^ 32"
  shows "seg_apart g (sh_addr t) (unat (sh_size t)) (sh_addr s) n"
proof -
  have "unat (memBase g) < 2 ^ 32" "unat (sh_addr s) < 2 ^ 32" "unat (sh_addr t) < 2 ^ 32"
    using unsigned_less [of "memBase g"] unsigned_less [of "sh_addr s"] unsigned_less [of "sh_addr t"] by simp_all
  with assms show ?thesis
    unfolding seg_apart_def disjoint_def ends_inside_def seg_off_unat word_le_nat_alt
    by (simp split: if_splits) linarith+
qed

lemma seg_store_fits: "seg_store g a bs = Inr g' \<Longrightarrow> seg_off g a + length bs \<le> length (data g)"
  by (simp add: seg_store_def split: if_splits)

lemma load_loop_keeps:
  assumes "load_loop buf nt r ss l = Inr l'" and "survives r s ss" and "n \<le> unat (sh_size s)"
    and "\<forall>t \<in> set (s # ss). ends_inside t" and "length (data (seg_of (in_code r s) l)) \<le> 2 ^ 32"
    and "seg_off (seg_of (in_code r s) l) (sh_addr s) + n \<le> 2 ^ 32"
  shows "seg_load (seg_of (in_code r s) l') (sh_addr s) n = seg_load (seg_of (in_code r s) l) (sh_addr s) n"
  using assms
proof (induction ss arbitrary: l)
  case (Cons t ss)
  let ?c = "in_code r s"
  show ?case
  proof (cases "skipped t")
    case True
    with Cons show ?thesis by (auto simp: survives_def)
  next
    case False
    with Cons.prems(1) obtain l1 where l1: "load_section buf nt r t l = Inr l1" "load_loop buf nt r ss l1 = Inr l'"
      by (auto simp: faultfacts)
    have sh: "shape (seg_of ?c l1) = shape (seg_of ?c l)" using load_section_shape [OF l1(1)] .
    then have off: "seg_off (seg_of ?c l1) = seg_off (seg_of ?c l)" by (simp add: shape_def seg_off_def fun_eq_iff)
    have "seg_load (seg_of ?c l') (sh_addr s) n = seg_load (seg_of ?c l1) (sh_addr s) n"
      using Cons.prems off sh by (intro Cons.IH [OF l1(2)]) (auto simp: survives_def shape_def)
    moreover have "seg_load (seg_of ?c l1) (sh_addr s) n = seg_load (seg_of ?c l) (sh_addr s) n"
    proof (cases "section_place r t \<noteq> NoPlace \<and> in_code r t = ?c")
      case True
      then obtain bs where bs: "section_bytes buf r t = Inr bs"
        "seg_store (seg_of ?c l) (sh_addr t) bs = Inr (seg_of ?c l1)"
        using load_section_cases [OF l1(1)] by auto
      have "disjoint s t" using Cons.prems(2) True False by (auto simp: survives_def placed_def)
      then have "seg_apart (seg_of ?c l) (sh_addr t) (length bs) (sh_addr s) n"
        using Cons.prems(3-6) seg_store_fits [OF bs(2)] section_bytes_length [OF bs(1)]
        by (simp add: disjoint_apart)
      then show ?thesis by (rule seg.load_apart [OF bs(2)])
    next
      case False
      then show ?thesis using load_section_cases [OF l1(1)] by (cases "in_code r t") (auto simp: seg_of_def)
    qed
    ultimately show ?thesis by simp
  qed
qed simp

text \<open>So what a section brings is there at the end.\<close>

lemma load_loop_append:
  "load_loop buf nt r (ss @ ts) l = chain (load_loop buf nt r ss l) (load_loop buf nt r ts)"
proof (induction ss arbitrary: l)
  case (Cons s ss)
  then show ?case by (cases "load_section buf nt r s l") auto
qed simp

lemma load_loop_section:
  assumes "load_loop buf nt r (pre @ s # post) l = Inr l'" and "placed r s" and "survives r s post"
    and "\<forall>t \<in> set (s # post). ends_inside t" and "\<And>c. length (data (seg_of c l)) \<le> 2 ^ 32"
  shows "\<exists>bs. section_bytes buf r s = Inr bs \<and>
    seg_load (seg_of (in_code r s) l') (sh_addr s) (unat (sh_size s)) = Inr bs"
proof -
  let ?c = "in_code r s"
  obtain l1 l2 where l: "load_loop buf nt r pre l = Inr l1" "load_section buf nt r s l1 = Inr l2"
    "load_loop buf nt r post l2 = Inr l'"
    using assms(1,2) by (auto simp: load_loop_append faultfacts placed_def)
  then obtain bs where bs: "section_bytes buf r s = Inr bs"
    "seg_store (seg_of ?c l1) (sh_addr s) bs = Inr (seg_of ?c l2)"
    using load_section_cases [OF l(2)] assms(2) by (auto simp: placed_def)
  have len: "length (data (seg_of ?c l2)) \<le> 2 ^ 32" "length (data (seg_of ?c l1)) \<le> 2 ^ 32"
    using assms(5) [of ?c] load_loop_shape [OF l(1), of ?c] load_section_shape [OF l(2), of ?c]
    by (simp_all add: shape_def)
  have "seg_off (seg_of ?c l2) = seg_off (seg_of ?c l1)"
    using load_section_shape [OF l(2), of ?c] by (simp add: shape_def seg_off_def fun_eq_iff)
  then have off: "seg_off (seg_of ?c l2) (sh_addr s) + unat (sh_size s) \<le> 2 ^ 32"
    using seg_store_fits [OF bs(2)] section_bytes_length [OF bs(1)] len by simp
  have "seg_load (seg_of ?c l') (sh_addr s) (unat (sh_size s)) = seg_load (seg_of ?c l2) (sh_addr s) (unat (sh_size s))"
    by (rule load_loop_keeps [OF l(3) assms(3) order_refl assms(4) len(1) off])
  then show ?thesis using bs seg.load_same [OF bs(2)] section_bytes_length [OF bs(1)] by simp
qed

lemma placed_base:
  "placed r s \<Longrightarrow> in_code r s \<Longrightarrow> text_base r \<le> sh_addr s"
  by (auto simp: placed_def in_code_def section_place_def Let_def split: if_splits)

end
