(* ===== verification/Elf_Props.thy ===== *)
theory Elf_Props
  imports Elf_Facts
begin

text \<open>
  Properties of the loader: a section that no later one overwrites is in its segment at the
  end, the text segment covers the text sections, and how long the data segment is. The
  witnesses load a small file with one text section.
\<close>

section \<open>What a load does\<close>

lemma readElf_loaded:
  assumes "readElf (Some buf) heap_len raw1 raw2 = Inr (Some l)" and "length buf < 2 ^ 32"
    and "ehdr_at buf = Inr h" and "shdr_loop buf h [0..<unat (e_shnum h)] = Inr ss"
    and "range_loop buf (name_table h ss) ss ranges_start = Inr r"
  shows "\<exists>lo. load_loop buf (name_table h ss) r ss \<lparr>seg_code = code_segment r raw1,
      seg_data = data_segment heap_len r raw2, code_infos = [], data_infos = []\<rparr> = Inr lo \<and>
    ld_code l = seg_code lo \<and> ld_data l = seg_data lo \<and> ld_entry l = e_entry h"
proof -
  have "unat (of_nat (length buf) :: u32) = length buf" using assms(2)
    by (simp add: unsigned_of_nat take_bit_nat_eq_self_iff)
  then show ?thesis
    using assms(1,3-5) by (auto simp: readElf_def load_sections_def Let_def faultfacts split: if_splits)
qed

lemma unat_le_2p32: "unat (w :: u32) \<le> 4294967296"
  using unsigned_less [of w, where 'a = nat] by simp

lemma start_shapes:
  "shape (code_segment r raw) = (text_base r, text_end r - text_base r, unat (text_end r - text_base r))"
  "shape (data_segment heap_len r raw) = (data_base r, total_len heap_len r, unat (total_len heap_len r))"
  by (simp_all add: shape_def code_segment_def data_segment_def Segment_new_def)

lemma readElf_shapes:
  assumes "readElf (Some buf) heap_len raw1 raw2 = Inr (Some l)" and "length buf < 2 ^ 32"
    and "ehdr_at buf = Inr h" and "shdr_loop buf h [0..<unat (e_shnum h)] = Inr ss"
    and "range_loop buf (name_table h ss) ss ranges_start = Inr r"
  shows "shape (ld_code l) = shape (code_segment r raw1)" "shape (ld_data l) = shape (data_segment heap_len r raw2)"
proof -
  obtain lo where lo: "load_loop buf (name_table h ss) r ss \<lparr>seg_code = code_segment r raw1,
      seg_data = data_segment heap_len r raw2, code_infos = [], data_infos = []\<rparr> = Inr lo"
    "ld_code l = seg_code lo" "ld_data l = seg_data lo"
    using readElf_loaded [OF assms] by blast
  show "shape (ld_code l) = shape (code_segment r raw1)"
    using load_loop_shape [OF lo(1), of True] lo(2) by (simp add: seg_of_def)
  show "shape (ld_data l) = shape (data_segment heap_len r raw2)"
    using load_loop_shape [OF lo(1), of False] lo(3) by (simp add: seg_of_def)
qed

lemma loaded_section:
  assumes "readElf (Some buf) heap_len raw1 raw2 = Inr (Some l)" and "length buf < 2 ^ 32"
    and "ehdr_at buf = Inr h" and "shdr_loop buf h [0..<unat (e_shnum h)] = Inr (pre @ s # post)"
    and "range_loop buf (name_table h (pre @ s # post)) (pre @ s # post) ranges_start = Inr r"
    and "placed r s" and "survives r s post" and "\<forall>t \<in> set (s # post). ends_inside t"
  shows "\<exists>bs. section_bytes buf r s = Inr bs \<and>
    seg_load (if in_code r s then ld_code l else ld_data l) (sh_addr s) (unat (sh_size s)) = Inr bs"
proof -
  obtain lo where lo: "load_loop buf (name_table h (pre @ s # post)) r (pre @ s # post)
      \<lparr>seg_code = code_segment r raw1, seg_data = data_segment heap_len r raw2, code_infos = [],
       data_infos = []\<rparr> = Inr lo" "ld_code l = seg_code lo" "ld_data l = seg_data lo"
    using readElf_loaded [OF assms(1-5)] by blast
  have "length (data (code_segment r raw1)) \<le> 2 ^ 32" "length (data (data_segment heap_len r raw2)) \<le> 2 ^ 32"
    using start_shapes(1) [of r raw1] start_shapes(2) [of heap_len r raw2]
    by (simp_all add: shape_def unat_le_2p32)
  then have "\<exists>bs. section_bytes buf r s = Inr bs \<and>
      seg_load (seg_of (in_code r s) lo) (sh_addr s) (unat (sh_size s)) = Inr bs"
    by (intro load_loop_section [OF lo(1) assms(6-8)]) (simp add: seg_of_def)
  moreover have "seg_of (in_code r s) lo = (if in_code r s then ld_code l else ld_data l)"
    using lo(2,3) by (simp add: seg_of_def)
  ultimately show ?thesis by simp
qed

section \<open>A small file\<close>

text \<open>\<open>.text\<close> at 0 with the instruction \<open>addi sp,sp,-32\<close>, and the table of section names.\<close>

definition sample_text :: shdr where
  "sample_text = \<lparr>sh_name = 1, sh_type = 1, sh_flags = 6, sh_addr = 0, sh_offset = 52, sh_size = 4\<rparr>"

definition sample_null :: shdr where
  "sample_null = \<lparr>sh_name = 0, sh_type = 0, sh_flags = 0, sh_addr = 0, sh_offset = 0, sh_size = 0\<rparr>"

definition sample_names :: shdr where
  "sample_names = \<lparr>sh_name = 7, sh_type = 3, sh_flags = 0, sh_addr = 0, sh_offset = 56, sh_size = 17\<rparr>"

definition sample_ehdr :: ehdr where
  "sample_ehdr = \<lparr>e_entry = 0, e_phoff = 0, e_shoff = 76, e_phentsize = 32, e_phnum = 0, e_shentsize = 40,
    e_shnum = 3, e_shstrndx = 2\<rparr>"

definition sample_ranges :: ranges where
  "sample_ranges = \<lparr>text_base = 0, text_end = 4, data_base = - 1, data_end = 0, bss_base = - 1, bss_end = 0\<rparr>"

definition sample_elf :: "u8 list" where
  "sample_elf = [
    127, 69, 76, 70, 1, 1, 1, 0, 0, 0, 0, 0, 0, 0, 0, 0, 2, 0, 243, 0, 1, 0, 0, 0, 0, 0, 0, 0,
    0, 0, 0, 0, 76, 0, 0, 0, 0, 0, 0, 0, 52, 0, 32, 0, 0, 0, 40, 0, 3, 0, 2, 0,
    19, 1, 1, 254,
    0, 46, 116, 101, 120, 116, 0, 46, 115, 104, 115, 116, 114, 116, 97, 98, 0, 0, 0, 0,
    0, 0, 0, 0, 0, 0, 0, 0, 0, 0, 0, 0, 0, 0, 0, 0, 0, 0, 0, 0, 0, 0, 0, 0, 0, 0, 0, 0, 0, 0, 0, 0,
    0, 0, 0, 0, 0, 0, 0, 0,
    1, 0, 0, 0, 1, 0, 0, 0, 6, 0, 0, 0, 0, 0, 0, 0, 52, 0, 0, 0, 4, 0, 0, 0, 0, 0, 0, 0, 0, 0, 0, 0,
    4, 0, 0, 0, 0, 0, 0, 0,
    7, 0, 0, 0, 3, 0, 0, 0, 0, 0, 0, 0, 0, 0, 0, 0, 56, 0, 0, 0, 17, 0, 0, 0, 0, 0, 0, 0, 0, 0, 0, 0,
    1, 0, 0, 0, 0, 0, 0, 0]"

lemma sample_parts:
  "length sample_elf = 196" "buf_strncmp sample_elf 1 ''ELF'' = Inr True"
  "buf_word sample_elf 5 1 = Inr (1 :: u8)" "buf_word sample_elf 4 1 = Inr (1 :: u8)"
  "buf_word sample_elf 18 2 = Inr EM_RISCV" "ehdr_at sample_elf = Inr sample_ehdr"
  "shdr_loop sample_elf sample_ehdr [0..<3] = Inr [sample_null, sample_text, sample_names]"
  "name_table sample_ehdr [sample_null, sample_text, sample_names] = Some 56"
  "range_loop sample_elf (Some 56) [sample_null, sample_text, sample_names] ranges_start = Inr sample_ranges"
  "section_place sample_ranges sample_text = ToText"
  "skipped sample_null" "skipped sample_names" "\<not> skipped sample_text"
  "buf_bytes sample_elf 52 4 = Inr [19, 1, 1, 254]"
  "name_ptr (Some 56) sample_text = Inr 57" "buf_string sample_elf 57 = Inr [46, 116, 101, 120, 116]"
  by code_simp+

definition sample_loaded :: "u32 \<Rightarrow> (nat \<Rightarrow> u8) \<Rightarrow> loaded" where
  "sample_loaded heap_len raw =
    \<lparr>ld_code = \<lparr>memBase = 0, memLen = 4, data = [19, 1, 1, 254]\<rparr>,
     ld_data = data_segment heap_len sample_ranges raw,
     ld_code_infos = [\<lparr>info_name = [46, 116, 101, 120, 116], info_type = 1, info_flags = 6, info_addr = 0,
       info_size = 4, info_offset = 52\<rparr>],
     ld_data_infos = [], ld_entry = 0\<rparr>"

lemma sample_readElf: "readElf (Some sample_elf) heap_len raw1 raw2 = Inr (Some (sample_loaded heap_len raw2))"
proof -
  have seg: "seg_store (code_segment sample_ranges raw1) 0 [19, 1, 1, 254] =
      Inr \<lparr>memBase = 0, memLen = 4, data = [19, 1, 1, 254]\<rparr>"
    by (simp add: seg_store_def seg_off_def code_segment_def sample_ranges_def Segment_new_def splice_def upt_rec)
  have f: "sh_offset sample_text = 52" "sh_size sample_text = 4" "sh_addr sample_text = 0" "sh_type sample_text = 1"
    "sh_flags sample_text = 6" "e_shnum sample_ehdr = 3" "e_phnum sample_ehdr = 0" "e_entry sample_ehdr = 0"
    by (simp_all add: sample_text_def sample_ehdr_def)
  show ?thesis
    by (simp add: readElf_def load_sections_def load_section_def section_info_def sample_parts f seg
        sample_loaded_def Let_def del: upt.simps buf_strncmp.simps One_nat_def
        range_loop.simps shdr_loop.simps)
qed

lemma sample_view:
  "shdr_loop sample_elf sample_ehdr [0..<unat (e_shnum sample_ehdr)] = Inr [sample_null, sample_text, sample_names]"
  "range_loop sample_elf (name_table sample_ehdr [sample_null, sample_text, sample_names])
     [sample_null, sample_text, sample_names] ranges_start = Inr sample_ranges"
  "shdr_loop sample_elf sample_ehdr [0..<unat (e_shnum sample_ehdr)] = Inr ([sample_null] @ sample_text # [sample_names])"
  "range_loop sample_elf (name_table sample_ehdr ([sample_null] @ sample_text # [sample_names]))
     ([sample_null] @ sample_text # [sample_names]) ranges_start = Inr sample_ranges"
proof -
  have "unat (e_shnum sample_ehdr) = 3" by (simp add: sample_ehdr_def)
  then show s: "shdr_loop sample_elf sample_ehdr [0..<unat (e_shnum sample_ehdr)] = Inr [sample_null, sample_text, sample_names]"
    using sample_parts(7) by (simp del: upt.simps shdr_loop.simps)
  show r: "range_loop sample_elf (name_table sample_ehdr [sample_null, sample_text, sample_names])
     [sample_null, sample_text, sample_names] ranges_start = Inr sample_ranges"
    using sample_parts(8,9) by (simp del: range_loop.simps)
  show "shdr_loop sample_elf sample_ehdr [0..<unat (e_shnum sample_ehdr)] = Inr ([sample_null] @ sample_text # [sample_names])"
    "range_loop sample_elf (name_table sample_ehdr ([sample_null] @ sample_text # [sample_names]))
     ([sample_null] @ sample_text # [sample_names]) ranges_start = Inr sample_ranges"
    using s r by simp_all
qed

section \<open>The properties\<close>

text \<open>
  C14: Loading delivers the file. When \<open>readElf\<close> accepts a file none of whose sections wraps
  around the address space, the bytes of every section it places - the file's, or zeros for bss -
  are in the segment of its kind at its address at the end, unless a later section of the
  same segment overlaps it.
\<close>

theorem elf_section_loaded:
  assumes "readElf (Some buf) heap_len raw1 raw2 = Inr (Some l)" and "length buf < 2 ^ 32"
    and "ehdr_at buf = Inr h" and "shdr_loop buf h [0..<unat (e_shnum h)] = Inr (pre @ s # post)"
    and "range_loop buf (name_table h (pre @ s # post)) (pre @ s # post) ranges_start = Inr r"
    and "placed r s" and "survives r s post" and "\<forall>t \<in> set (s # post). ends_inside t"
  shows "\<exists>bs. section_bytes buf r s = Inr bs \<and>
    seg_load (if in_code r s then ld_code l else ld_data l) (sh_addr s) (unat (sh_size s)) = Inr bs"
  using assms by (rule loaded_section)

theorem elf_section_loaded_witness:
  "seg_load (ld_code (sample_loaded 0 (\<lambda>_. 0))) 0 4 = Inr [19, 1, 1, 254]"
proof -
  have p: "placed sample_ranges sample_text" "survives sample_ranges sample_text [sample_names]"
    by (simp_all add: placed_def survives_def sample_parts)
  have e: "\<forall>t \<in> set (sample_text # [sample_names]). ends_inside t"
    by (simp add: ends_inside_def sample_text_def sample_names_def)
  have "\<exists>bs. section_bytes sample_elf sample_ranges sample_text = Inr bs \<and>
    seg_load (if in_code sample_ranges sample_text then ld_code (sample_loaded 0 (\<lambda>_. 0))
      else ld_data (sample_loaded 0 (\<lambda>_. 0))) (sh_addr sample_text) (unat (sh_size sample_text)) = Inr bs"
    by (rule elf_section_loaded [OF sample_readElf _ sample_parts(6) sample_view(3,4) p e])
      (simp add: sample_parts)
  then show ?thesis
    by (simp add: in_code_def sample_parts section_bytes_def) (simp add: sample_text_def sample_parts)
qed

text \<open>
  The text segment is made for the text sections: after a load it is allocated in full, and
  every section the loader counts as text lies between its base and its end.
\<close>

theorem text_sections_covered:
  assumes "readElf (Some buf) heap_len raw1 raw2 = Inr (Some l)" and "length buf < 2 ^ 32"
    and "ehdr_at buf = Inr h" and "shdr_loop buf h [0..<unat (e_shnum h)] = Inr ss"
    and "range_loop buf (name_table h ss) ss ranges_start = Inr r"
    and "s \<in> set ss" and "\<not> skipped s" and "section_area buf (name_table h ss) s = Inr TextArea"
  shows "memBase (ld_code l) \<le> sh_addr s \<and> sh_addr s + sh_size s \<le> memBase (ld_code l) + memLen (ld_code l) \<and>
    length (data (ld_code l)) = unat (memLen (ld_code l))"
proof -
  have "text_base r \<le> sh_addr s \<and> sh_addr s + sh_size s \<le> text_end r"
    using range_loop_covers [OF assms(5-7)] assms(8) by (auto simp: area_of_def)
  then show ?thesis using readElf_shapes(1) [OF assms(1-5)] start_shapes(1) by (simp add: shape_def)
qed

theorem text_sections_covered_witness:
  "0 \<le> sh_addr sample_text \<and> sh_addr sample_text + sh_size sample_text \<le> 0 + 4"
proof -
  have a: "section_area sample_elf (Some 56) sample_text = Inr TextArea" by code_simp
  have "memBase (ld_code (sample_loaded 0 (\<lambda>_. 0))) \<le> sh_addr sample_text \<and>
    sh_addr sample_text + sh_size sample_text \<le>
      memBase (ld_code (sample_loaded 0 (\<lambda>_. 0))) + memLen (ld_code (sample_loaded 0 (\<lambda>_. 0))) \<and>
    length (data (ld_code (sample_loaded 0 (\<lambda>_. 0)))) = unat (memLen (ld_code (sample_loaded 0 (\<lambda>_. 0))))"
    by (rule text_sections_covered [OF sample_readElf _ sample_parts(6) sample_view(1,2)])
      (simp_all add: sample_parts(1,8,13) a)
  then show ?thesis by (simp add: sample_loaded_def)
qed

text \<open>
  The data segment reaches from the data to the end of a heap that is put after the bss. A
  file without bss has its heap put at address 0, so the segment's length is the heap's length
  minus the data's address, around the end of the 32 bits: for data at \<open>0x40000000\<close> it asks for
  more than 3 GB.
\<close>

theorem data_without_bss:
  assumes "readElf (Some buf) heap_len raw1 raw2 = Inr (Some l)" and "length buf < 2 ^ 32"
    and "ehdr_at buf = Inr h" and "shdr_loop buf h [0..<unat (e_shnum h)] = Inr ss"
    and "range_loop buf (name_table h ss) ss ranges_start = Inr r"
    and "\<forall>s \<in> set ss. \<not> skipped s \<longrightarrow> section_area buf (name_table h ss) s \<noteq> Inr BssArea"
  shows "memLen (ld_data l) = heap_len - memBase (ld_data l)"
proof -
  have "bss_end r' = bss_end r"
    if "range_loop buf nt ss r = Inr r'" "\<forall>s \<in> set ss. \<not> skipped s \<longrightarrow> section_area buf nt s \<noteq> Inr BssArea"
    for nt ss r r'
    using that
  proof (induction ss arbitrary: r)
    case (Cons s ss)
    show ?case
    proof (cases "skipped s")
      case False
      then obtain a where a: "section_area buf nt s = Inr a" "a \<noteq> BssArea"
        "range_loop buf nt ss (widen_area a (sh_addr s) (sh_size s) r) = Inr r'"
        using Cons.prems by (auto simp: faultfacts)
      have "bss_end (widen_area a (sh_addr s) (sh_size s) r) = bss_end r"
        using a(2) by (cases a) (simp_all add: widen_area_def case_prod_unfold Let_def)
      then show ?thesis using Cons.IH [OF a(3)] Cons.prems(2) by simp
    qed (use Cons in simp)
  qed simp
  from this [OF assms(5,6)] have "bss_end r = 0" by (simp add: ranges_start_def)
  then have "total_len heap_len r = heap_len - data_base r" by (simp add: total_len_def)
  then show ?thesis using readElf_shapes(2) [OF assms(1-5)] start_shapes(2) by (simp add: shape_def)
qed

theorem data_without_bss_witness:
  "memLen (ld_data (sample_loaded 0x10000 (\<lambda>_. 0))) = 0x10001"
proof -
  have a: "section_area sample_elf (Some 56) sample_text = Inr TextArea" by code_simp
  have "memLen (ld_data (sample_loaded 0x10000 (\<lambda>_. 0))) = 0x10000 - memBase (ld_data (sample_loaded 0x10000 (\<lambda>_. 0)))"
    by (rule data_without_bss [OF sample_readElf _ sample_parts(6) sample_view(1,2)])
      (simp_all add: sample_parts(1,8,11-13) a)
  then show ?thesis by (simp add: sample_loaded_def data_segment_def Segment_new_def sample_ranges_def)
qed

end
