(* ===== verification/Debugger_Facts.thy ===== *)
theory Debugger_Facts
  imports Debugger Composition
begin

text \<open>
  Facts about the debugger: no command breaks the machine, a step is a turn of the run loop
  without the interrupt check, and the words of a line are what was typed.
\<close>

section \<open>The invariant\<close>

text \<open>The machine is sound and every segment is where it was.\<close>

definition kept :: "'h machine \<Rightarrow> 'h machine \<Rightarrow> bool" where
  "kept s s' \<longleftrightarrow> (machine_inv s \<longrightarrow> machine_inv s') \<and> layout (memory s') = layout (memory s)"

lemma kept_refl [simp]: "kept s s"
  by (simp add: kept_def)

lemma kept_trans: "kept s t \<Longrightarrow> kept t u \<Longrightarrow> kept s u"
  by (simp add: kept_def)

lemma kept_host: "kept s (apply_host e s)"
  by (auto simp: kept_def apply_host_def machine_inv_def cpu_inv_def regs32_def reg_val_def split: host_effect.split)

lemma kept_pc: "kept s (s\<lparr>cpu := (cpu s)\<lparr>pc := p\<rparr>\<rparr>)"
  by (simp add: kept_def machine_inv_def cpu_inv_def regs32_def reg_val_def)

lemma kept_memory: "layout m = layout (memory s) \<Longrightarrow> kept s (s\<lparr>memory := m\<rparr>)"
  using layout_ok [of m "memory s"] by (simp add: kept_def machine_inv_def)

lemma show_current_kept: "show_current s = Inr (out, s') \<Longrightarrow> kept s s'"
  by (auto simp: show_current_def Let_def faultfacts kept_host)

lemma kept_run:
  assumes "machine_inv s" and "run os n s = Inr s'"
  shows "kept s s'"
  using run_inv [OF assms] by (simp add: kept_def)

lemma debug_run_kept:
  assumes "debug_run os n out s = Inr (out', s')" and "machine_inv s"
  shows "kept s s'"
proof -
  obtain t x where t: "run os n s = Inr t" "show_current t = Inr (x, s')"
    using assms(1) by (auto simp: debug_run_def faultfacts)
  show ?thesis using kept_trans [OF kept_run [OF assms(2) t(1)] show_current_kept [OF t(2)]] .
qed

lemma debug_mem_kept: "debug_mem args s = Inr (out, s') \<Longrightarrow> kept s s'"
proof -
  assume "debug_mem args s = Inr (out, s')"
  then obtain a t v e where t: "(if length args = 3 then
        (let value = word_of_int (strtol0 (args ! 2)) :: u32; addr = value
         in chain (Memory_write32 (memory s) addr value) (\<lambda>(m, e). Inr (addr, apply_host e (s\<lparr>memory := m\<rparr>))))
      else Inr (word_of_int (strtol0 (args ! 1)), s)) = Inr (a :: u32, t)" "s' = apply_host e t"
    by (auto simp: debug_mem_def Let_def faultfacts split: if_splits)
  have "kept s t"
    using t(1) by (auto simp: Let_def faultfacts split: if_splits
        intro: kept_trans [OF kept_memory kept_host] write_layout)
  then show ?thesis using t(2) kept_host kept_trans by blast
qed

lemma debug_command_kept:
  assumes "debug_command os line (s, core) = Inr (out, Some (s', core'))" and "machine_inv s"
  shows "kept s s'"
  using assms(1)
  by (auto simp: debug_command_def Let_def faultfacts split: if_splits
      intro: debug_run_kept [OF _ assms(2)] debug_mem_kept kept_pc)

lemma debug_loop_kept:
  assumes "debug_loop os out st = Some (Inr (out', s'))" and "machine_inv (fst st)"
  shows "kept (fst st) s'"
proof -
  have "y = Inr (out', s') \<longrightarrow> machine_inv (fst st) \<longrightarrow> kept (fst st) s'" if "debug_loop os out st = Some y" for y
    using that
  proof (induction rule: debug_loop.raw_induct [rotated, consumes 1, case_names turn])
    case (turn f os out st y)
    show ?case
    proof (intro impI)
      assume y: "y = Inr (out', s')" and inv: "machine_inv (fst st)"
      obtain r where r: "debug_turn os st = Inr r" using turn(2) y by (cases "debug_turn os st") auto
      obtain s core bs h where s: "st = (s, core)" "read_line os 254 (os_state s) = (bs, h)" by (cases st) fastforce
      let ?s = "s\<lparr>os_state := h\<rparr>"
      have k: "kept s ?s" and inv': "machine_inv ?s" using inv s(1) by (simp_all add: kept_def machine_inv_def)
      show "kept (fst st) s'"
      proof (cases "fst (snd r)")
        case None
        then have "s' = snd (snd r)" using turn(2) r y by simp
        then show ?thesis using r s k by (auto simp: debug_turn_def Let_def faultfacts split: if_splits)
      next
        case (Some st')
        then have "debug_command os (line_text bs) (?s, core) = Inr (drop 2 (fst r), Some (fst st', snd st'))"
          using r s by (auto simp: debug_turn_def Let_def faultfacts split: if_splits)
        then have c: "kept ?s (fst st')" using inv' by (rule debug_command_kept)
        have "f os (out @ fst r) st' = Some y" using turn(2) r Some by simp
        then have "kept (fst st') s'" using turn(1) y c inv' by (auto simp: kept_def)
        then show ?thesis using kept_trans [OF kept_trans [OF k c]] s(1) by simp
      qed
    qed
  qed
  then show ?thesis using assms by blast
qed

lemma debug_mode_kept:
  assumes "debug_mode os s = Some (Inr (out, s'))" and "machine_inv s"
  shows "kept s s'"
proof -
  obtain x t where t: "show_current s = Inr (x, t)" "debug_loop os x (t, 0) = Some (Inr (out, s'))"
    using assms(1) by (auto simp: debug_mode_def split: sum.splits)
  have "kept s t" using show_current_kept [OF t(1)] .
  moreover have "kept t s'" using debug_loop_kept [OF t(2)] assms(2) calculation by (simp add: kept_def)
  ultimately show ?thesis by (rule kept_trans)
qed

section \<open>Stepping\<close>

lemma run_one:
  "run os 1 s = chain (run_step os (s\<lparr>cpu := (cpu s)\<lparr>running := True, cycle := 0\<rparr>\<rparr>))
    (\<lambda>t. Inr (t\<lparr>cpu := (cpu t)\<lparr>stop := False\<rparr>\<rparr>))"
proof -
  have "(if stop (cpu t) then Inr (t\<lparr>cpu := (cpu t)\<lparr>stop := False\<rparr>\<rparr>) else run_loop os 0 t) =
    Inr (t\<lparr>cpu := (cpu t)\<lparr>stop := False\<rparr>\<rparr>)" for t :: "'a machine"
    by (cases "stop (cpu t)") simp_all
  moreover have "unat (1 :: u64) = Suc 0" by simp
  ultimately show ?thesis by (simp add: run_def)
qed

section \<open>Words\<close>

lemma no_space_split:
  assumes "w \<noteq> []" and "\<forall>c \<in> set w. \<not> isspace c" and "r = [] \<or> isspace (hd r)"
  shows "split_args (Suc n) (w @ r) = w # split_args n r"
proof -
  have d: "dropWhile isspace (w @ r) = w @ r" using assms(1,2) by (cases w) simp_all
  have "takeWhile (\<lambda>c. \<not> isspace c) r = []" "dropWhile (\<lambda>c. \<not> isspace c) r = r"
    using assms(3) by (cases r; auto)+
  then have "takeWhile (\<lambda>c. \<not> isspace c) (w @ r) = w" "dropWhile (\<lambda>c. \<not> isspace c) (w @ r) = r"
    using assms(2) by (simp_all add: takeWhile_append dropWhile_append)
  then show ?thesis using assms(1) by (simp add: d Let_def)
qed

lemma split_blank: "split_args (Suc n) (CHR '' '' # r) = split_args (Suc n) r"
  by (simp add: isspace_def)

end
