(* ===== verification/Isa_Priv.thy ===== *)
theory Isa_Priv
  imports Composition
begin

text \<open>
  A reference for what the integer reference (theory \<open>Isa_Exec\<close>) leaves out: traps, interrupts, returns
  and the control registers, apart from the clock of the host and its random numbers. Its state is the
  registers, the control registers that hold something, the number of turns and the program counter. Entering a trap, returning from it and exchanging a control register are
  written as the manual describes them, with the program's departures from it: an exception
  leaves interrupts enabled, an environment call reports the cause of user mode, a return
  leaves the previous enable bit clear, and a write to one half of the cycle counter clears the other.
\<close>

unbundle bit_operations_syntax

section \<open>The reference\<close>

record priv =
  xpr :: "ireg \<Rightarrow> u32"
  csrs :: "u32 \<Rightarrow> u32"
  pclk :: u64
  ppc :: u32

text \<open>The numbers of mstatus, mie, mtvec, mepc, mcause and mip.\<close>

definition trap_to :: "u32 \<Rightarrow> u32 \<Rightarrow> priv \<Rightarrow> priv" where
  "trap_to cause status p =
    p\<lparr>csrs := (csrs p)(0x341 := ppc p, 0x342 := cause, 0x300 := status), ppc := csrs p 0x305\<rparr>"

definition exception :: "u32 \<Rightarrow> priv \<Rightarrow> priv" where
  "exception cause p = trap_to cause (set_mpie (bit (csrs p 0x300) 3) (csrs p 0x300)) p"

definition interrupt :: "u32 \<Rightarrow> priv \<Rightarrow> priv" where
  "interrupt n p = trap_to (0x80000000 OR n) (set_mie False (set_mpie True (csrs p 0x300))) p"

definition return_trap :: "priv \<Rightarrow> priv" where
  "return_trap p =
    (let m = csrs p 0x300
     in p\<lparr>csrs := (csrs p)(0x300 := set_mpie False (set_mie (bit m 7) m)), ppc := csrs p 0x341\<rparr>)"

text \<open>Which interrupt is due: enabled, pending and switched on, the external one first.\<close>

definition irq_due :: "priv \<Rightarrow> u32 option" where
  "irq_due p =
    (if \<not> bit (csrs p 0x300) 3 then None
     else if bit (csrs p 0x344) 11 \<and> bit (csrs p 0x304) 11 then Some 11
     else if bit (csrs p 0x344) 7 \<and> bit (csrs p 0x304) 7 then Some 7
     else None)"

fun csr_new :: "csrop \<Rightarrow> u32 \<Rightarrow> u32 \<Rightarrow> u32" where
  "csr_new C_W old x = x"
| "csr_new C_S old x = old OR x"
| "csr_new C_C old x = old AND NOT x"

text \<open>
  What a control register reads as: the cells, \<open>mcause\<close> and \<open>mtval\<close> hold a value, the cycle and
  instruction counters count turns, the identity registers are constants, and any other number is 0. The
  host's time and random numbers are not in the reference.
\<close>

definition csr_held :: "u32 \<Rightarrow> bool" where
  "csr_held n \<longleftrightarrow> csr_cell n \<or> n = 0x342 \<or> n = 0x343"

definition csr_id :: "u32 \<Rightarrow> u32" where
  "csr_id n =
    (if n = 0xf11 then OPT_MVENDOR_ID else if n = 0xf12 then OPT_MARCH_ID else if n = 0xf13 then OPT_MIMP_ID
     else if n = 0xf14 then OPT_MHART_ID else if n = 0x301 then OPT_MISA else 0)"

definition csr_read :: "u32 \<Rightarrow> priv \<Rightarrow> u32 option" where
  "csr_read n p =
    (if csr_held n then Some (csrs p n)
     else if n = 0xc01 \<or> n = 0xc81 \<or> n = 0xcc0 then None
     else if n = 0xc00 \<or> n = 0xb00 \<or> n = 0xc02 \<or> n = 0xb02 then Some (ucast (pclk p))
     else if n = 0xc80 \<or> n = 0xb80 \<or> n = 0xc82 \<or> n = 0xb82 then Some (ucast (drop_bit 32 (pclk p)))
     else Some (csr_id n))"

text \<open>
  A control-register instruction: \<open>wr\<close> is whether its operand is other than \<open>x0\<close> or 0; without it the
  two bit operations do not write. Only the cells and the two halves of the cycle counter can be written.
\<close>

definition csr_write :: "u32 \<Rightarrow> u32 \<Rightarrow> priv \<Rightarrow> priv" where
  "csr_write n v p =
    (if csr_cell n then p\<lparr>csrs := (csrs p)(n := v)\<rparr>
     else if n = 0xb00 then p\<lparr>pclk := ucast v\<rparr>
     else if n = 0xb80 then p\<lparr>pclk := push_bit 32 (ucast v)\<rparr>
     else p)"

definition csr_step :: "csrop \<Rightarrow> ireg \<Rightarrow> u32 \<Rightarrow> bool \<Rightarrow> u32 \<Rightarrow> u32 \<Rightarrow> priv \<Rightarrow> priv option" where
  "csr_step k r x wr n len p =
    map_option (\<lambda>old.
        (if k = C_W \<or> wr then csr_write n (csr_new k old x) p else p)
          \<lparr>xpr := xset r old (xpr p), ppc := ppc p + len\<rparr>)
      (csr_read n p)"

fun priv_exec :: "isa \<Rightarrow> u32 \<Rightarrow> priv \<Rightarrow> priv option" where
  "priv_exec (I_CSR k r a n) len p = csr_step k r (xpr p a) (a \<noteq> 0) n len p"
| "priv_exec (I_CSRI k r a n) len p = csr_step k r (ucast a) (a \<noteq> 0) n len p"
| "priv_exec (I_SYS Y_ECALL) len p = Some (exception 8 p)"
| "priv_exec (I_SYS Y_EBREAK) len p = Some (exception 3 p)"
| "priv_exec (I_SYS Y_MRET) len p = Some (return_trap p)"
| "priv_exec (I_SYS Y_WFI) len p = Some (p\<lparr>ppc := ppc p + len\<rparr>)"
| "priv_exec _ len p = None"

text \<open>
  A turn: in every sixteenth one an interrupt that is due replaces the instruction, and every
  \<open>2 ^ 20\<close>th makes the timer's pending.
\<close>

definition raise_timer :: "bool \<Rightarrow> priv \<Rightarrow> priv" where
  "raise_timer tick p = (if tick then p\<lparr>csrs := (csrs p)(0x344 := csrs p 0x344 OR 0x80)\<rparr> else p)"

definition poll :: "priv \<Rightarrow> priv \<times> bool" where
  "poll p =
    (let tick = pclk p AND 0xfffff = 0xfffff
     in if pclk p AND 0xf \<noteq> 0xf then (p, False)
        else (case irq_due p of
                Some n \<Rightarrow> (raise_timer tick (interrupt n p), True)
              | None \<Rightarrow> (raise_timer tick p, False)))"

definition priv_turn :: "isa \<Rightarrow> u32 \<Rightarrow> priv \<Rightarrow> priv option" where
  "priv_turn i len p =
    (let (q, taken) = poll p
     in map_option (\<lambda>q. q\<lparr>pclk := pclk q + 1\<rparr>) (if taken then Some q else priv_exec i len q))"

section \<open>The machine as a reference state\<close>

definition csr_view :: "cpu \<Rightarrow> u32 \<Rightarrow> u32" where
  "csr_view c n = (if n = 0x342 then mcause c else if n = 0x343 then mtval c else if csr_cell n then csr_val c n else 0)"

definition priv_at :: "u32 \<Rightarrow> cpu \<Rightarrow> priv" where
  "priv_at p c = \<lparr>xpr = (\<lambda>r. reg_val c (ucast r)), csrs = csr_view c, pclk = cycle c, ppc = p\<rparr>"

definition priv_of :: "cpu \<Rightarrow> priv" where "priv_of c = priv_at (pc c) c"

lemma priv_at_sel [simp]: "xpr (priv_at p c) r = reg_val c (ucast r)" "ppc (priv_at p c) = p" "csrs (priv_at p c) = csr_view c"
  "pclk (priv_at p c) = cycle c"
  by (simp_all add: priv_at_def)

lemma csr_views [simp]:
  "csr_view c 0x300 = mstatus c" "csr_view c 0x304 = mie c" "csr_view c 0x305 = mtvec c" "csr_view c 0x341 = mepc c"
  "csr_view c 0x342 = mcause c" "csr_view c 0x344 = mip c"
  by (simp_all add: csr_view_def csr_cell_def csr_val_def)

text \<open>The control registers the reference sees, as a tuple.\<close>

abbreviation held :: "cpu \<Rightarrow> u32 \<times> u32 \<times> u32 \<times> u32 \<times> u32 \<times> u32 \<times> u32 \<times> u32" where
  "held c \<equiv> (mstatus c, mie c, mtvec c, mscratch c, mepc c, mcause c, mtval c, mip c)"

lemma csr_view_eq: "csr_view c = csr_view d \<longleftrightarrow> held c = held d"
proof
  assume e: "csr_view c = csr_view d"
  have "csr_view c n = csr_view d n" for n using e by simp
  from this [of "0x300"] this [of "0x304"] this [of "0x305"] this [of "0x340"] this [of "0x341"] this [of "0x342"]
    this [of "0x343"] this [of "0x344"]
  show "held c = held d" by (simp add: csr_view_def csr_cell_def csr_val_def)
qed (auto simp: fun_eq_iff csr_view_def csr_val_def)

lemma csr_view_set:
  "(csr_view c)(0x300 := v) = csr_view (c\<lparr>mstatus := v\<rparr>)" "(csr_view c)(0x341 := v) = csr_view (c\<lparr>mepc := v\<rparr>)"
  "(csr_view c)(0x342 := v) = csr_view (c\<lparr>mcause := v\<rparr>)" "(csr_view c)(0x344 := v) = csr_view (c\<lparr>mip := v\<rparr>)"
  by (auto simp: fun_eq_iff csr_view_def csr_cell_def csr_val_def)

lemma csr_view_update: "csr_cell n \<Longrightarrow> (csr_view c)(n := v) = csr_view (csr_update n v c)"
  by (auto simp: csr_cell_def fun_eq_iff csr_view_def csr_val_def csr_update_def)

section \<open>Interrupts\<close>

lemma priv_of_clk: "pclk (priv_of c) = cycle c"
  by (simp add: priv_of_def)

lemma irq_due_form:
  "irq_due (priv_at p c) =
    (if bit (mstatus c) 3 \<and> external_pending c then Some 11
     else if bit (mstatus c) 3 \<and> timer_pending c then Some 7 else None)"
  by (simp add: irq_due_def external_pending_def timer_pending_def)

lemma priv_raise: "priv_at p (raise_mtip c) = raise_timer (cycle c AND 0xfffff = 0xfffff) (priv_at p c)"
  by (simp add: priv_at_def raise_mtip_def raise_timer_def reg_val_def csr_view_set)

lemma priv_take_irq: "priv_at (mtvec c) (take_irq n c) = interrupt n (priv_of c)"
  by (simp add: priv_at_def priv_of_def take_irq_def interrupt_def trap_to_def csr_view_set reg_val_def)
    (simp add: csr_view_eq)

text \<open>What a poll leaves to execute, and where: in the place of the interrupted instruction, one that does nothing.\<close>

definition same_loop :: "cpu \<Rightarrow> cpu \<Rightarrow> bool" where
  "same_loop c d \<longleftrightarrow> cycle d = cycle c \<and> running d = running c \<and> stop d = stop c \<and> endOfData d = endOfData c"

lemma same_loop_refl [simp]: "same_loop c c"
  by (simp add: same_loop_def)

lemma poll_check:
  assumes "poll (priv_of c) = (q, taken)" and "cpu_inv c"
  shows "\<exists>d. check_irqs v c = (if taken then vliw_nop else v, d) \<and> q = priv_at (if taken then pc_next d else pc d) d \<and>
    pc d = pc c \<and> (taken \<or> pc_next d = pc_next c) \<and> reg d = reg c \<and> same_loop c d"
proof (cases "cycle c AND 0xf = 0xf \<and> irq_due (priv_of c) \<noteq> None")
  case True
  then obtain n where n: "irq_due (priv_of c) = Some n" by auto
  let ?d = "raise_mtip (take_irq n c)"
  have d: "check_irqs v c = (vliw_nop, ?d)"
    using True n by (auto simp: check_irqs_form irq_due_form priv_of_def split: if_splits)
  have q: "taken" "q = raise_timer (cycle c AND 0xfffff = 0xfffff) (priv_at (mtvec c) (take_irq n c))"
    using assms(1) True n by (simp_all add: poll_def Let_def priv_of_clk priv_take_irq)
  have "cycle (take_irq n c) = cycle c" "pc_next ?d = mtvec c" by (simp_all add: raise_mtip_def take_irq_def)
  then have "q = priv_at (pc_next ?d) ?d" unfolding q(2) priv_raise by simp
  then show ?thesis using d q(1) by (auto simp: raise_mtip_def take_irq_def same_loop_def)
next
  case False
  let ?d = "if cycle c AND 0xf = 0xf then raise_mtip c else c"
  have d: "check_irqs v c = (v, ?d)"
    using False by (auto simp: check_irqs_form irq_due_form priv_of_def split: if_splits)
  have q: "\<not> taken" "q = priv_at (pc c) ?d"
    using assms(1) False by (auto simp: poll_def Let_def priv_of_def priv_raise split: if_splits)
  then show ?thesis using d by (auto simp: raise_mtip_def same_loop_def)
qed

section \<open>Instructions\<close>

text \<open>That executing \<open>v\<close> in \<open>s\<close> ends in the reference state \<open>p\<close> and touches nothing else.\<close>

definition priv_sim :: "'h os \<Rightarrow> vliw \<Rightarrow> 'h machine \<Rightarrow> priv \<Rightarrow> bool" where
  "priv_sim os v s p \<longleftrightarrow> (\<exists>c. execute os v s = Inr (put_cpu s c) \<and> priv_at (pc_next c) c = p \<and> cpu_inv c \<and>
    running c = running (cpu s) \<and> stop c = stop (cpu s) \<and> endOfData c = endOfData (cpu s))"

lemma clear_view [simp]: "csr_view (clear_r0 c) = csr_view c" "csr_view (reg_set r x c) = csr_view c"
  "csr_view (c\<lparr>pc_next := n\<rparr>) = csr_view c"
  by (simp_all add: csr_view_eq clear_r0_def reg_set_def)

lemma priv_clear:
  assumes "cpu_inv c"
  shows "priv_at p (clear_r0 c) = priv_at p c"
proof -
  have "cycle (clear_r0 c) = cycle c" by (simp add: clear_r0_def)
  then show ?thesis using gpr_same [of c] assms by (simp add: priv_at_def)
qed

lemma execute_system:
  assumes "exec_cpu v (cpu s) = None" and "load_op (opcode v) = None" and "store_op (opcode v) = None"
    and "opcode v \<noteq> VLIW_NOP" and "opcode v \<noteq> VLIW_ILLEGAL"
    and "or_else (exec_system os v s) (exec_csr os v s) = Some (Inr (s\<lparr>cpu := c\<rparr>))"
  shows "execute os v s = Inr (put_cpu s (clear_r0 c))"
  using assms by (simp add: execute_def exec_switch_def or_else_def exec_load_def exec_store_def put_cpu_def)

lemma group_sys:
  "opcode v = sys_code_of k \<or> opcode v = csr_code_of j \<or> opcode v = csri_code_of j \<Longrightarrow>
    exec_cpu v c = None \<and> load_op (opcode v) = None \<and> store_op (opcode v) = None \<and>
    opcode v \<noteq> VLIW_NOP \<and> opcode v \<noteq> VLIW_ILLEGAL"
  by (elim disjE; cases k; cases j; simp add: cpu_groups load_op_def store_op_def)

lemma priv_sim_system:
  assumes "opcode v = sys_code_of k \<or> opcode v = csr_code_of j \<or> opcode v = csri_code_of j"
    and "or_else (exec_system os v s) (exec_csr os v s) = Some (Inr (s\<lparr>cpu := c\<rparr>))"
    and "cpu_inv c" and "running c = running (cpu s) \<and> stop c = stop (cpu s) \<and> endOfData c = endOfData (cpu s)" and "priv_at (pc_next c) c = p"
  shows "priv_sim os v s p"
proof -
  have "execute os v s = Inr (put_cpu s (clear_r0 c))"
    using group_sys [OF assms(1), of "cpu s"] assms(2) by (intro execute_system) simp_all
  moreover have "pc_next (clear_r0 c) = pc_next c" "running (clear_r0 c) = running c" "stop (clear_r0 c) = stop c"
    "endOfData (clear_r0 c) = endOfData c"
    by (simp_all add: clear_r0_def)
  ultimately show ?thesis using assms(3-5) cpu_inv_clear [of c]
    by (auto simp: priv_sim_def priv_clear cpu_inv_def)
qed

fun csr_type_of :: "csrop \<Rightarrow> csr_type" where
  "csr_type_of C_W = CSR_TYPE_W" | "csr_type_of C_S = CSR_TYPE_S" | "csr_type_of C_C = CSR_TYPE_C"

lemma csr_kind_of:
  "csr_kind (csr_code_of k) = Some (csr_type_of k, True)" "csr_kind (csri_code_of k) = Some (csr_type_of k, False)"
  by (cases k; simp add: csr_kind_def)+

lemma csr_values: "csr_read n (priv_at q c) = Some x \<Longrightarrow> csr_value os n c h = (x, h)"
  unfolding csr_value_def csr_read_def csr_held_def csr_cell_def csr_id_def csr_view_def csr_val_def priv_at_sel
  by (auto simp: csr_cell_def csr_val_def split: if_splits)

lemma priv_write: "priv_at q (csr_update n v c) = csr_write n v (priv_at q c)"
proof (cases "csr_cell n")
  case True
  have "csr_view (csr_update n v c) = (csr_view c)(n := v)" using csr_view_update [OF True] by simp
  moreover have "cycle (csr_update n v c) = cycle c" using True by (auto simp: csr_update_def csr_cell_def)
  ultimately show ?thesis using True by (simp add: priv_at_def csr_write_def reg_val_def)
next
  case False
  then show ?thesis
    by (auto simp: csr_update_def csr_cell_def csr_write_def priv_at_def reg_val_def csr_view_eq)
qed

lemma priv_reg_set:
  assumes "regs32 c" and "(r :: ireg) \<noteq> 0"
  shows "priv_at q (reg_set (ucast r) x c) = (priv_at q c)\<lparr>xpr := xset r x (xpr (priv_at q c))\<rparr>"
proof -
  have "cycle (reg_set (ucast r) x c) = cycle c" by (simp add: reg_set_def)
  then show ?thesis using assms
    by (auto simp: priv_at_def xset_def fun_eq_iff regfile.peek_poke regfile.peek_other)
qed

text \<open>What a control-register instruction makes of the processor.\<close>

definition csr_done :: "csrop \<Rightarrow> ireg \<Rightarrow> u32 \<Rightarrow> bool \<Rightarrow> u32 \<Rightarrow> u32 \<Rightarrow> cpu \<Rightarrow> cpu" where
  "csr_done k r x wr n old c =
    (let d = (if k = C_W \<or> wr then csr_update n (csr_new k old x) c else c)
     in if r = 0 then d else reg_set (ucast r) old d)"

lemma csr_insn_done:
  assumes "regs32 c" and "csr_read n (priv_at q c) = Some old"
  shows "csr_insn os (csr_type_of k) n (ucast (r :: ireg)) (ucast (a :: ireg)) x c h = Inr (csr_done k r x (a \<noteq> 0) n old c, h)"
proof -
  have "regs32 (csr_update n v c)" for v using assms(1) by simp
  then show ?thesis using assms
    by (cases k) (simp_all add: csr_insn_form csr_values [OF assms(2)] csr_done_def Let_def)
qed

lemma csr_done_keeps:
  "cpu_inv c \<Longrightarrow> cpu_inv (csr_done k r x wr n old c)" "running (csr_done k r x wr n old c) = running c"
  "stop (csr_done k r x wr n old c) = stop c" "pc_next (csr_done k r x wr n old c) = pc_next c"
  "endOfData (csr_done k r x wr n old c) = endOfData c"
  by (auto simp: csr_done_def Let_def cpu_inv_def regfile.peek_other) (auto simp: reg_set_def csr_update_def split: if_splits)

lemma csr_done_step:
  assumes "regs32 c" and "csr_step k r x wr n len (priv_at q c) = Some p"
  shows "\<exists>old. csr_read n (priv_at q c) = Some old \<and> p = priv_at (q + len) (csr_done k r x wr n old c)"
proof -
  obtain old where o: "csr_read n (priv_at q c) = Some old"
    "p = (if k = C_W \<or> wr then csr_write n (csr_new k old x) (priv_at q c) else priv_at q c)
      \<lparr>xpr := xset r old (xpr (priv_at q c)), ppc := q + len\<rparr>"
    using assms(2) by (auto simp: csr_step_def)
  define d where "d = (if k = C_W \<or> wr then csr_update n (csr_new k old x) c else c)"
  have d: "regs32 d" "(if k = C_W \<or> wr then csr_write n (csr_new k old x) (priv_at q c) else priv_at q c) = priv_at q d"
    "xpr (priv_at q c) = xpr (priv_at q d)"
    using assms(1) by (auto simp: d_def priv_write) (auto simp: csr_write_def)
  have "priv_at (q + len) y = (priv_at q y)\<lparr>ppc := q + len\<rparr>" for y by (simp add: priv_at_def)
  moreover have "csr_done k r x wr n old c = (if r = 0 then d else reg_set (ucast r) old d)"
    by (simp add: csr_done_def d_def Let_def)
  ultimately show ?thesis using o d priv_reg_set [OF d(1), of r q old] by (auto simp: xset_def)
qed

lemma priv_csr:
  assumes inv: "cpu_inv (cpu s)" and m: "n AND 0xfff = n"
    and v: "v = vliw_of (I_CSR k r a n) \<and> x = reg_val (cpu s) (ucast a) \<or> v = vliw_of (I_CSRI k r a n) \<and> x = ucast a"
    and q: "pc_next (cpu s) = q + len" and e: "csr_step k r x (a \<noteq> 0) n len (priv_at q (cpu s)) = Some p"
  shows "priv_sim os v s p"
proof -
  have r: "regs32 (cpu s)" using inv by (simp add: cpu_inv_def)
  obtain old where o: "csr_read n (priv_at q (cpu s)) = Some old" "p = priv_at (q + len) (csr_done k r x (a \<noteq> 0) n old (cpu s))"
    using csr_done_step [OF r e] by blast
  let ?c = "csr_done k r x (a \<noteq> 0) n old (cpu s)"
  have sys: "exec_system os v s = None" using v by (cases k) (auto simp: exec_system_def)
  have "ucast (ucast a :: u8) = (ucast a :: u32)" by (rule bit_word_eqI) (auto simp: bit_simps dest: bit_imp_le_length)
  then have "exec_csr os v s = Some (Inr (s\<lparr>cpu := ?c\<rparr>))"
    using v by (elim disjE conjE; simp add: exec_csr_def csr_kind_of m r csr_insn_done [OF r o(1)])
  then have "or_else (exec_system os v s) (exec_csr os v s) = Some (Inr (s\<lparr>cpu := ?c\<rparr>))"
    by (simp add: sys or_else_def)
  moreover have "opcode v = sys_code_of Y_WFI \<or> opcode v = csr_code_of k \<or> opcode v = csri_code_of k" using v by auto
  ultimately show ?thesis using csr_done_keeps(1) [OF inv, of k r x "a \<noteq> 0" n old] csr_done_keeps(2-5) [of k r x "a \<noteq> 0" n old "cpu s"] o(2) q
    by (intro priv_sim_system [where k = Y_WFI and j = k and c = ?c]) simp_all
qed

lemma priv_sys:
  assumes inv: "cpu_inv (cpu s)" and nl: "k = Y_ECALL \<Longrightarrow> \<not> do_newlib s"
    and q: "pc_next (cpu s) = pc (cpu s) + len" and e: "priv_exec (I_SYS k) len (priv_of (cpu s)) = Some p"
  shows "priv_sim os (vliw_of (I_SYS k)) s p"
proof -
  let ?c = "case k of Y_ECALL \<Rightarrow> ecall (cpu s) | Y_EBREAK \<Rightarrow> ebreak (cpu s) | Y_MRET \<Rightarrow> mret (cpu s) | _ \<Rightarrow> cpu s"
  have "or_else (exec_system os (vliw_of (I_SYS k)) s) (exec_csr os (vliw_of (I_SYS k)) s) = Some (Inr (s\<lparr>cpu := ?c\<rparr>))"
    using nl by (cases k) (auto simp: exec_system_def or_else_def put_cpu_def)
  moreover have "cpu_inv ?c" "running ?c = running (cpu s) \<and> stop ?c = stop (cpu s) \<and> endOfData ?c = endOfData (cpu s)" using inv
    by (cases k; simp add: ecall_form mret_form cpu_inv_def regs32_def reg_val_def)+
  moreover have "priv_at (pc_next ?c) ?c = p"
    using e q by (cases k) (auto simp: priv_of_def priv_at_def ecall_form mret_form exception_def return_trap_def
        trap_to_def csr_view_set Let_def reg_val_def; simp add: csr_view_eq)+
  ultimately show ?thesis by (intro priv_sim_system [where k = k and j = C_W]) simp_all
qed

section \<open>A turn\<close>

lemma priv_insn:
  assumes "cpu_inv (cpu s)" and "isa_wf i" and "i = I_SYS Y_ECALL \<Longrightarrow> \<not> do_newlib s"
    and "pc_next (cpu s) = pc (cpu s) + len" and "priv_exec i len (priv_of (cpu s)) = Some p"
  shows "priv_sim os (vliw_of i) s p"
proof -
  have m: "n AND 0xfff = n" if "take_bit 12 n = n" for n :: u32 using that by (simp add: take_bit_eq_mask mask_numeral)
  show ?thesis
  proof (cases i)
    case (I_SYS k)
    then show ?thesis using priv_sys [of s k len p os] assms by simp
  next
    case (I_CSR k r a j)
    have e: "csr_step k r (reg_val (cpu s) (ucast a)) (a \<noteq> 0) j len (priv_at (pc (cpu s)) (cpu s)) = Some p"
      and w: "take_bit 12 j = j" using assms(2,5) I_CSR by (simp_all add: priv_of_def)
    show ?thesis unfolding I_CSR
      by (rule priv_csr [OF assms(1) m [OF w] disjI1 [OF conjI [OF refl refl]] assms(4) e])
  next
    case (I_CSRI k r a j)
    have e: "csr_step k r (ucast a) (a \<noteq> 0) j len (priv_at (pc (cpu s)) (cpu s)) = Some p"
      and w: "take_bit 12 j = j" using assms(2,5) I_CSRI by (simp_all add: priv_of_def)
    show ?thesis unfolding I_CSRI
      by (rule priv_csr [OF assms(1) m [OF w] disjI2 [OF conjI [OF refl refl]] assms(4) e])
  qed (use assms in simp_all)
qed

lemma priv_nop:
  assumes "cpu_inv (cpu s)"
  shows "priv_sim os vliw_nop s (priv_at (pc_next (cpu s)) (cpu s))"
proof -
  have "execute os vliw_nop s = Inr (put_cpu s (clear_r0 (cpu s)))"
    by (simp add: execute_def exec_switch_def vliw_nop_def Vliw_op_def Vliw_clear_def)
  moreover have "cpu_inv (clear_r0 (cpu s))" using assms by (intro cpu_inv_clear) (simp add: cpu_inv_def)
  moreover have "pc_next (clear_r0 c) = pc_next c" "running (clear_r0 c) = running c" "stop (clear_r0 c) = stop c"
    "endOfData (clear_r0 c) = endOfData c" for c
    by (simp_all add: clear_r0_def)
  ultimately show ?thesis using assms by (auto simp: priv_sim_def priv_clear)
qed

text \<open>
  The start of a turn, the poll and the end of a turn around the execution of what is left to execute: \<open>d\<close>
  is the processor the instruction sees.
\<close>

definition polled :: "vliw \<Rightarrow> vliw \<Rightarrow> u32 \<Rightarrow> cpu \<Rightarrow> cpu \<Rightarrow> priv \<Rightarrow> bool \<Rightarrow> bool" where
  "polled v w len c d q taken \<longleftrightarrow> w = (if taken then vliw_nop else v) \<and>
    q = priv_at (if taken then pc_next d else pc d) d \<and> pc d = pc c \<and> (taken \<or> pc_next d = pc c + len) \<and>
    reg d = reg c \<and> same_loop c d"

lemma run_insn_poll:
  assumes "cpu_inv (cpu s)" and "poll (priv_of (cpu s)) = (q, taken)"
  shows "\<exists>w d. polled v w len (cpu s) d q taken \<and> cpu_inv d \<and>
    run_insn os v len s = chain (execute os w (put_cpu s d))
      (\<lambda>s. Inr (s\<lparr>cpu := (cpu s)\<lparr>pc := pc_next (cpu s), cycle := cycle (cpu s) + 1\<rparr>\<rparr>))"
proof -
  let ?c = "(cpu s)\<lparr>pc_inc := pc (cpu s) + len, pc_next := pc (cpu s) + len\<rparr>"
  have "priv_of ?c = priv_of (cpu s)" "cpu_inv ?c"
    using assms(1) by (simp_all add: priv_of_def priv_at_def cpu_inv_def regs32_def reg_val_def csr_view_eq)
  then obtain d where d: "check_irqs v ?c = (if taken then vliw_nop else v, d)"
    "q = priv_at (if taken then pc_next d else pc d) d" "pc d = pc (cpu s)" "taken \<or> pc_next d = pc (cpu s) + len"
    "reg d = reg (cpu s)" "same_loop ?c d"
    using poll_check [of ?c q taken v] assms(2) by auto
  have "polled v (if taken then vliw_nop else v) len (cpu s) d q taken"
    using d(2-6) by (simp add: polled_def same_loop_def)
  moreover have "cpu_inv d" using assms(1) d(5) by (simp add: cpu_inv_def regs32_def reg_val_def)
  ultimately show ?thesis using d(1)
    by (intro exI [of _ "if taken then vliw_nop else v"] exI [of _ d]) (simp add: run_insn_def Let_def put_cpu_def)
qed

lemma priv_next:
  "priv_of (c\<lparr>pc := p, cycle := cycle c + 1\<rparr>) = (priv_at p c)\<lparr>pclk := cycle c + 1\<rparr>"
  by (simp add: priv_of_def priv_at_def reg_val_def csr_view_eq)

lemma priv_run_insn:
  assumes inv: "cpu_inv (cpu s)" and wf: "isa_wf i" and nl: "i = I_SYS Y_ECALL \<Longrightarrow> \<not> do_newlib s"
    and e: "priv_turn i len (priv_of (cpu s)) = Some p"
  shows "\<exists>s'. run_insn os (vliw_of i) len s = Inr s' \<and> priv_of (cpu s') = p \<and> cpu_inv (cpu s') \<and>
    memory s' = memory s \<and> console s' = console s \<and> os_state s' = os_state s"
proof -
  obtain q taken where q: "poll (priv_of (cpu s)) = (q, taken)" by fastforce
  obtain w d where d: "polled (vliw_of i) w len (cpu s) d q taken" "cpu_inv d"
    "run_insn os (vliw_of i) len s = chain (execute os w (put_cpu s d))
      (\<lambda>s. Inr (s\<lparr>cpu := (cpu s)\<lparr>pc := pc_next (cpu s), cycle := cycle (cpu s) + 1\<rparr>\<rparr>))"
    using run_insn_poll [OF inv q] by blast
  obtain p' where p: "(if taken then Some q else priv_exec i len q) = Some p'" "p = p'\<lparr>pclk := pclk p' + 1\<rparr>"
    using e by (auto simp: priv_turn_def q)
  have "priv_sim os w (put_cpu s d) p'"
  proof (cases taken)
    case True
    then show ?thesis using priv_nop [of "put_cpu s d" os] d(1,2) p(1) by (simp add: polled_def put_cpu_def)
  next
    case False
    then show ?thesis using priv_insn [of "put_cpu s d" i len p' os] d(1,2) p(1) wf nl
      by (simp add: polled_def put_cpu_def priv_of_def)
  qed
  then obtain t where t: "execute os w (put_cpu s d) = Inr (put_cpu s t)" "priv_at (pc_next t) t = p'" "cpu_inv t"
    by (auto simp: priv_sim_def put_cpu_def)
  let ?t = "t\<lparr>pc := pc_next t, cycle := cycle t + 1\<rparr>"
  have "run_insn os (vliw_of i) len s = Inr (put_cpu s ?t)" using d(3) t(1) by (simp add: put_cpu_def)
  moreover have "priv_of ?t = p" using t(2) p(2) by (auto simp: priv_next)
  moreover have "cpu_inv ?t" using t(3) by (simp add: cpu_inv_def regs32_def reg_val_def)
  ultimately show ?thesis by (auto simp: put_cpu_def)
qed

end
