(* ===== verification/Isa_Run.thy ===== *)
theory Isa_Run
  imports Isa_Priv
begin

text \<open>
  A reference for whole programs: fetching, decoding by the manual's fields or as the compressed
  instruction, executing, traps, interrupts and control registers, and the host port as a device with an
  output and a power switch. The run loop simulates it turn by turn (\<open>board_turn\<close>) and to the end
  (\<open>board_run_loop\<close>). With \<open>--newlib\<close> an environment call is Newlib's: writing to standard output and error, the break, the
  status of a file and the exit are in the reference. What is left out is what the host decides: files, input, the
  clock and random numbers.
\<close>

unbundle bit_operations_syntax

section \<open>The reference\<close>

text \<open>The instruction at an address and its length.\<close>

definition isa_at :: "memory \<Rightarrow> u32 \<Rightarrow> (isa \<times> u32) option" where
  "isa_at m p =
    (case seg_load (insnMem m) p 4 of
       Inl _ \<Rightarrow> None
     | Inr bs \<Rightarrow>
         let w = le_word bs :: u32
         in if w AND 3 = 3 then map_option (\<lambda>i. (i, 4)) (isa_decode w)
            else map_option (\<lambda>i. (i, 2)) (rvc_isa (ucast w)))"

text \<open>What a word stored to the port does: power off, a character, or a line of the host's.\<close>

definition port_off :: "u32 \<Rightarrow> u32 \<Rightarrow> bool" where
  "port_off x v \<longleftrightarrow> x = 0xfffffffc \<and> drop_bit 16 v = 2"

definition port_out :: "u32 \<Rightarrow> u32 \<Rightarrow> io list" where
  "port_out x v =
    (if port_off x v \<or> x = 0xffffff00 then []
     else if x = 0xfffffffc then [Uart (ucast v)] else [HostLine True x v])"

fun port_store :: "isa \<Rightarrow> astate \<Rightarrow> (u32 \<times> u32) option" where
  "port_store (I_ST S_W s t i) a =
    (let x = gpr a s + i
     in if \<not> writable (amem a) x \<and> ishost (amem a) x then Some (x, gpr a t) else None)"
| "port_store _ a = None"

text \<open>
  The board: what the integer reference works on, the control registers, the number of turns,
  whether environment calls are Newlib's, and the address the program's data ends at.
\<close>

record board =
  core :: astate
  bcsr :: "u32 \<Rightarrow> u32"
  bclk :: u64
  hosted :: bool
  edata :: u32

definition priv_part :: "board \<Rightarrow> priv" where
  "priv_part b = \<lparr>xpr = gpr (core b), csrs = bcsr b, pclk = bclk b, ppc = apc (core b)\<rparr>"

definition with_priv :: "board \<Rightarrow> priv \<Rightarrow> board" where
  "with_priv b p = b\<lparr>core := (core b)\<lparr>gpr := xpr p, apc := ppc p\<rparr>, bcsr := csrs p, bclk := pclk p\<rparr>"

text \<open>An outcome: the new state, the output, and whether this ends the run.\<close>

type_synonym board_outcome = "board \<times> io list \<times> bool"

text \<open>
  Newlib's calls, by the number in \<open>a7\<close>, with arguments and result in \<open>a0\<close> to \<open>a2\<close>: \<open>brk\<close> of 0 is the end of the
  data rounded up to 16 and any other is granted, \<open>write\<close> to 1 and 2 prints a positive number of bytes of the memory,
  \<open>fstat\<close> succeeds, and \<open>exit\<close> ends the run.
\<close>

definition newlib_call :: "u32 \<Rightarrow> board \<Rightarrow> board_outcome option" where
  "newlib_call len b =
    (let x = gpr (core b); next = apc (core b) + len;
         ret = (\<lambda>r. b\<lparr>core := (core b)\<lparr>gpr := x(10 := r), apc := next\<rparr>\<rparr>)
     in if x 17 = 214 then Some (ret (if x 10 = 0 then (edata b + 15) AND NOT 15 else x 10), [], False)
        else if x 17 = 64 \<and> (x 10 = 1 \<or> x 10 = 2) then
          (case mem_load (amem (core b)) (x 11) (nat (sint (x 12))) of
             Inl _ \<Rightarrow> None
           | Inr bs \<Rightarrow>
               Some (ret (if sint (x 12) \<le> 0 then 0 else x 12), map (if x 10 = 1 then Stdout else Stderr) bs, False))
        else if x 17 = 80 then Some (ret 0, [], False)
        else if x 17 = 93 then Some (b\<lparr>core := (core b)\<lparr>apc := next\<rparr>\<rparr>, [], True)
        else None)"

text \<open>One instruction.\<close>

definition board_exec :: "isa \<Rightarrow> u32 \<Rightarrow> board \<Rightarrow> board_outcome option" where
  "board_exec i len b =
    (case port_store i (core b) of
       Some (x, v) \<Rightarrow> Some (b\<lparr>core := (core b)\<lparr>apc := apc (core b) + len\<rparr>\<rparr>, port_out x v, port_off x v)
     | None \<Rightarrow>
         (case isa_exec i len (core b) of
            Some a \<Rightarrow> if host_ok i (core b) then Some (b\<lparr>core := a\<rparr>, [], False) else None
          | None \<Rightarrow>
              if i = I_SYS Y_ECALL \<and> hosted b then newlib_call len b
              else map_option (\<lambda>p. (with_priv b p, [], False)) (priv_exec i len (priv_part b))))"

text \<open>A turn: fetch, look for an interrupt, and execute unless one was taken.\<close>

definition board_step :: "board \<Rightarrow> board_outcome option" where
  "board_step b =
    (if bit (apc (core b)) 0 then None
     else
       (case isa_at (amem (core b)) (apc (core b)) of
          None \<Rightarrow> None
        | Some (i, len) \<Rightarrow>
            let (q, taken) = poll (priv_part b)
            in map_option (\<lambda>(b, evs, off). (b\<lparr>bclk := bclk b + 1\<rparr>, evs, off))
                 (if taken then Some (with_priv b q, [], False) else board_exec i len (with_priv b q))))"

fun board_run :: "nat \<Rightarrow> board \<Rightarrow> board_outcome option" where
  "board_run 0 b = Some (b, [], False)"
| "board_run (Suc n) b =
    (case board_step b of
       None \<Rightarrow> None
     | Some (b, o1, off) \<Rightarrow>
         if off then Some (b, o1, True)
         else map_option (\<lambda>(c, o2, off). (c, o1 @ o2, off)) (board_run n b))"

section \<open>Fetching\<close>

lemma isa_at_fetch:
  assumes "isa_at m (pc c) = Some (i, len)"
  shows "\<exists>code. fetch_code m c = Inr (code, len) \<and> isa_decode code = Some i \<and> \<not> bit len 0"
proof -
  obtain bs where bs: "seg_load (insnMem m) (pc c) 4 = Inr bs"
    using assms by (auto simp: isa_at_def split: sum.splits)
  let ?w = "le_word bs :: u32"
  have f: "fetch_code m c = expand ?w" using bs by (simp add: fetch_code_def Cpu_fetch_def Segment_fetch32_def)
  show ?thesis
  proof (cases "?w AND 3 = 3")
    case True
    then have "isa_decode ?w = Some i" "len = 4" using assms bs by (auto simp: isa_at_def Let_def)
    then show ?thesis using True f by (auto simp: expand_def)
  next
    case False
    then have r: "rvc_isa (ucast ?w) = Some i" "len = 2" using assms bs by (auto simp: isa_at_def Let_def)
    then have "decomp16_table (ucast ?w) \<noteq> 0" using rvc_low_bits [OF r(1)] by auto
    then show ?thesis using False f r rvc_decodes [OF r(1)] by (auto simp: expand_def Let_def)
  qed
qed

section \<open>What a step leaves\<close>

lemma mem_store_frame:
  "mem_store m x bs = Inr m' \<Longrightarrow> layout m' = layout m \<and> (do_core m \<or> insnMem m' = insnMem m)"
proof -
  assume s: "mem_store m x bs = Inr m'"
  then obtain p where "ptr_store m p bs = Inr m'" by (auto simp: routed_store_def faultfacts)
  then have "layout m' = layout m" by (rule ptr_store_layout)
  moreover have "do_core m \<or> insnMem m' = insnMem m" using s by (auto simp: access_defs split: if_splits)
  ultimately show ?thesis by simp
qed

lemma isa_exec_memory:
  assumes "isa_exec i len a = Some b"
  shows "layout (amem b) = layout (amem a) \<and> (do_core (amem a) \<or> insnMem (amem b) = insnMem (amem a))"
proof (cases i)
  case (I_ST k s t j)
  then have "mem_store (amem a) (gpr a s + j) (le_bytes (st_size k) (gpr a t)) = Inr (amem b)"
    using assms by (auto split: if_splits sum.splits)
  then show ?thesis by (rule mem_store_frame)
qed (use assms in \<open>auto split: if_splits sum.splits\<close>)

text \<open>
  Instructions that are not of the system or control-register groups leave the control registers, the counter
  and the loop's own flag alone.
\<close>

definition plain_kept :: "cpu \<Rightarrow> cpu \<Rightarrow> bool" where
  "plain_kept c d \<longleftrightarrow> held d = held c \<and> cycle d = cycle c \<and> running d = running c \<and> endOfData d = endOfData c"

lemma plain_cpu:
  assumes "exec_cpu v c = Some (Inr c')"
  shows "held c' = held c \<and> same_loop c c'"
proof -
  have r: "reg_put i x d = Inr d' \<Longrightarrow> held d' = held d \<and> same_loop d d'" for i x d d'
    by (auto simp: reg_put_def same_loop_def split: if_splits)
  have "f v c = Some (Inr c') \<Longrightarrow> ?thesis"
    if "f \<in> {exec_jump, exec_branch, exec_alu, exec_alui, exec_upper, exec_muldiv}" for f
    using that
    by (auto simp: exec_jump_def exec_branch_def exec_alu_def exec_alui_def exec_upper_def
        exec_muldiv_def same_loop_def faultfacts dest!: r split: if_splits)
  then show ?thesis
    using assms by (auto simp: exec_cpu_def or_else_def split: option.splits)
qed

lemma apply_host_held:
  "plain_kept (cpu s) (cpu (apply_host e s))"
  by (cases e) (simp_all add: apply_host_def plain_kept_def)

lemma plain_execute:
  assumes "execute os v s = Inr s'" and "exec_system os v s = None" and "exec_csr os v s = None"
  shows "plain_kept (cpu s) (cpu s')"
proof -
  obtain t where t: "exec_switch os v s = Inr t" "s' = put_cpu t (clear_r0 (cpu t))"
    using assms(1) by (auto simp: execute_def faultfacts)
  have "plain_kept (cpu s) (cpu t)"
    if l: "exec_load v s = Some (Inr t)"
  proof -
    obtain e c i x where "t = put_cpu (apply_host e s) c" "reg_put i x (cpu (apply_host e s)) = Inr c"
      using l by (auto simp: exec_load_def faultfacts Let_def)
    then show ?thesis using apply_host_held [of s e] by (auto simp: plain_kept_def reg_put_def put_cpu_def split: if_splits)
  qed
  moreover have "plain_kept (cpu s) (cpu t)"
    if st: "exec_store v s = Some (Inr t)"
  proof -
    obtain e m where "t = apply_host e (s\<lparr>memory := m\<rparr>)" using st by (auto simp: exec_store_def faultfacts Let_def)
    then show ?thesis using apply_host_held [of "s\<lparr>memory := m\<rparr>" e] by simp
  qed
  ultimately have "plain_kept (cpu s) (cpu t)"
    using t(1) assms(2,3)
    by (auto simp: exec_switch_def or_else_def put_cpu_def faultfacts same_loop_def plain_kept_def split: if_splits option.splits
        dest!: plain_cpu)
  then show ?thesis using t(2) by (simp add: put_cpu_def clear_r0_def plain_kept_def)
qed

abbreviation privileged :: "u8 set" where
  "privileged \<equiv> {VLIW_ECALL, VLIW_EBREAK, VLIW_SRET, VLIW_MRET, VLIW_WFI, VLIW_CSRRW, VLIW_CSRRS, VLIW_CSRRC,
    VLIW_CSRRWI, VLIW_CSRRSI, VLIW_CSRRCI}"

lemma plain_isa:
  assumes "isa_wf i" and "port_store i a \<noteq> None \<or> isa_exec i len a \<noteq> None"
  shows "exec_system os (vliw_of i) s = None \<and> exec_csr os (vliw_of i) s = None"
proof -
  have plain: "exec_system os v s = None \<and> exec_csr os v s = None"
    if "opcode v \<notin> privileged" for v
    using that by (simp add: exec_system_def exec_csr_def csr_kind_def)
  show ?thesis
  proof (rule plain, cases i)
    case (I_BR k s t j)
    then show "opcode (vliw_of i) \<notin> privileged" by (cases k) simp_all
  next
    case (I_LD k r s j)
    then show "opcode (vliw_of i) \<notin> privileged" by (cases k) simp_all
  next
    case (I_ST k s t j)
    then show "opcode (vliw_of i) \<notin> privileged" by (cases k) simp_all
  next
    case (I_IMM k r s j)
    then show "opcode (vliw_of i) \<notin> privileged" using assms(1) by (cases k) simp_all
  next
    case (I_OP k r s t)
    then show "opcode (vliw_of i) \<notin> privileged" by (cases k) simp_all
  next
    case (I_MD k r s t)
    then show "opcode (vliw_of i) \<notin> privileged" by (cases k) simp_all
  qed (use assms in auto)
qed

section \<open>A turn\<close>

text \<open>
  A machine the reference speaks about: the loop's caches are sound, the segments do not wrap,
  the text cannot be written, and it runs.
\<close>

definition ready :: "'h machine \<Rightarrow> bool" where
  "ready s \<longleftrightarrow> caches_ok s \<and> small_text (memory s) \<and> cpu_inv (cpu s) \<and>
    no_wrap (insnMem (memory s)) \<and> no_wrap (dataMem (memory s)) \<and> \<not> do_core (memory s) \<and> running (cpu s)"

definition board_at :: "u32 \<Rightarrow> 'h machine \<Rightarrow> board" where
  "board_at p s = \<lparr>core = abs_at p s, bcsr = csr_view (cpu s), bclk = cycle (cpu s), hosted = do_newlib s,
      edata = endOfData (cpu s)\<rparr>"

definition board_of :: "'h machine \<Rightarrow> board" where
  "board_of s = board_at (pc (cpu s)) s"

lemma board_at_sel [simp]: "core (board_at p s) = abs_at p s" "hosted (board_at p s) = do_newlib s"
  "amem (abs_at p s) = memory s" "apc (abs_at p s) = p"
  by (simp_all add: board_at_def abs_at_def)

lemma priv_part_at: "priv_part (board_at p s) = priv_at p (cpu s)"
  by (simp add: priv_part_def board_at_def priv_at_def abs_at_def)

lemma with_priv_at:
  "endOfData c = endOfData (cpu s) \<Longrightarrow> with_priv (board_at p s) (priv_at q c) = board_at q (put_cpu s c)"
  by (simp add: with_priv_def board_at_def priv_at_def abs_at_def put_cpu_def)

lemma layout_wrap: "layout m' = layout m \<Longrightarrow> no_wrap (insnMem m') = no_wrap (insnMem m) \<and>
    no_wrap (dataMem m') = no_wrap (dataMem m) \<and> small_text m' = small_text m \<and> do_core m' = do_core m"
  by (simp add: layout_def no_wrap_def small_text_def)

text \<open>
  That executing \<open>v\<close> in \<open>s\<close> has the outcome \<open>r\<close> of the reference, and leaves the host, the text and, unless it ends
  the run, the loop's flag alone.
\<close>

definition board_sim :: "'h os \<Rightarrow> vliw \<Rightarrow> 'h machine \<Rightarrow> board_outcome \<Rightarrow> bool" where
  "board_sim os v s = (\<lambda>(b, evs, off). \<exists>t. execute os v s = Inr t \<and> board_at (pc_next (cpu t)) t = b \<and>
    console t = console s @ evs \<and> os_state t = os_state s \<and> stop (cpu t) = (off \<or> stop (cpu s)) \<and>
    cpu_inv (cpu t) \<and> (off \<or> running (cpu t) = running (cpu s)) \<and> layout (memory t) = layout (memory s) \<and>
    insnMem (memory t) = insnMem (memory s))"

lemma board_sim_priv:
  assumes "priv_sim os v s p"
  shows "board_sim os v s (with_priv (board_at q s) p, [], False)"
proof -
  obtain c where c: "execute os v s = Inr (put_cpu s c)" "priv_at (pc_next c) c = p" "cpu_inv c"
    "running c = running (cpu s)" "stop c = stop (cpu s)" "endOfData c = endOfData (cpu s)"
    using assms by (auto simp: priv_sim_def)
  then show ?thesis
    by (auto simp: board_sim_def with_priv_at put_cpu_def simp flip: c(2))
qed

lemma board_sim_int:
  assumes "cpu_inv (cpu s)" and "no_wrap (insnMem (memory s))" and "no_wrap (dataMem (memory s))" and "\<not> do_core (memory s)"
    and "isa_wf i" and "pc_next (cpu s) = pc (cpu s) + len"
    and "isa_exec i len (abs_at (pc (cpu s)) s) = Some a" and "host_ok i (abs_at (pc (cpu s)) s)"
  shows "board_sim os (vliw_of i) s ((board_of s)\<lparr>core := a\<rparr>, [], False)"
proof -
  obtain t where t: "execute os (vliw_of i) s = Inr t" "abs_at (pc_next (cpu t)) t = a" "cpu_inv (cpu t)" "same_mode s t"
    using execute_refines [OF assms(1-3,5,7,8,6), of os] by (auto simp: simulates_def)
  have p: "held (cpu t) = held (cpu s)" "cycle (cpu t) = cycle (cpu s)" "running (cpu t) = running (cpu s)"
    "endOfData (cpu t) = endOfData (cpu s)"
    using plain_execute [OF t(1)] plain_isa [OF assms(5), of "abs_at (pc (cpu s)) s" len os s] assms(7) by (auto simp: plain_kept_def)
  have m: "memory t = amem a" using t(2) by auto
  have k: "layout (memory t) = layout (memory s)" "insnMem (memory t) = insnMem (memory s)"
    using isa_exec_memory [OF assms(7)] assms(4) by (simp_all add: m)
  have "board_at (pc_next (cpu t)) t = (board_of s)\<lparr>core := a\<rparr>"
    using t(2) p execute_keeps [OF t(1)] csr_view_eq [of "cpu t" "cpu s"] by (simp add: board_at_def board_of_def keeps_def)
  then show ?thesis using t(1,3,4) k p(3) by (simp add: board_sim_def same_mode_def)
qed

lemma port_effect:
  "apply_host (host_write x v) s =
    s\<lparr>console := console s @ port_out x v, cpu := (cpu s)\<lparr>stop := port_off x v \<or> stop (cpu s)\<rparr>\<rparr>"
  by (auto simp: apply_host_def host_write_def host_def port_out_def port_off_def CMD_POWER_OFF_def Let_def upper_half)

lemma board_sim_port:
  assumes "cpu_inv (cpu s)" and "pc_next (cpu s) = pc (cpu s) + len" and "port_store i (abs_at (pc (cpu s)) s) = Some (x, v)"
  shows "board_sim os (vliw_of i) s
    ((board_of s)\<lparr>core := (abs_at (pc (cpu s)) s)\<lparr>apc := pc (cpu s) + len\<rparr>\<rparr>, port_out x v, port_off x v)"
proof -
  obtain t u j where i: "i = I_ST S_W t u j"
    using assms(3) by (cases "(i, abs_at (pc (cpu s)) s)" rule: port_store.cases) auto
  have p: "\<not> writable (memory s) x" "ishost (memory s) x" "reg_val (cpu s) (ucast t) + j = x" "v = reg_val (cpu s) (ucast u)"
    using assms(3) by (auto simp: i abs_at_def Let_def split: if_splits)
  let ?c = "(cpu s)\<lparr>stop := port_off x v \<or> stop (cpu s)\<rparr>"
  let ?t = "s\<lparr>console := console s @ port_out x v, cpu := clear_r0 ?c\<rparr>"
  have r: "regs32 (cpu s)" using assms(1) by (simp add: cpu_inv_def)
  have "execute os (vliw_of i) s = Inr ?t"
    using p unfolding i by (subst store_port [OF _ _ r]) (simp_all add: put_cpu_def port_effect Let_def)
  moreover have inv: "cpu_inv ?c" using assms(1) by (simp add: cpu_inv_def regs32_def reg_val_def)
  moreover have "board_at (pc_next (cpu ?t)) ?t = (board_of s)\<lparr>core := (abs_at (pc (cpu s)) s)\<lparr>apc := pc (cpu s) + len\<rparr>\<rparr>"
  proof -
    have f: "cycle (clear_r0 ?c) = cycle (cpu s)" "csr_view (clear_r0 ?c) = csr_view (cpu s)" "pc_next (clear_r0 ?c) = pc_next (cpu s)"
      "endOfData (clear_r0 ?c) = endOfData (cpu s)"
      by (simp_all add: clear_r0_def csr_view_eq)
    have "(\<lambda>r :: ireg. reg_val (clear_r0 ?c) (ucast r)) = (\<lambda>r. reg_val (cpu s) (ucast r))"
      using gpr_same [OF inv] by (simp add: reg_val_def)
    then show ?thesis using assms(2) f by (simp add: board_at_def board_of_def abs_at_def)
  qed
  moreover have "cpu_inv (clear_r0 ?c)" "running (clear_r0 ?c) = running (cpu s)" "stop (clear_r0 ?c) = stop ?c"
    using cpu_inv_clear [of ?c] inv by (simp_all add: cpu_inv_def clear_r0_def)
  ultimately show ?thesis by (simp add: board_sim_def)
qed

lemma board_sim_newlib:
  assumes "cpu_inv (cpu s)" and "do_newlib s" and "pc_next (cpu s) = pc (cpu s) + len"
    and "newlib_call len (board_of s) = Some r"
  shows "board_sim os (vliw_of (I_SYS Y_ECALL)) s r"
proof -
  let ?v = "vliw_of (I_SYS Y_ECALL)" and ?x = "\<lambda>r :: ireg. reg_val (cpu s) (ucast r)"
  have r: "regs32 (cpu s)" using assms(1) by (simp add: cpu_inv_def)
  have ex: "execute os ?v s = chain (syscall_switch os (?x 17) (?x 10) (?x 11) (?x 12) s)
      (\<lambda>s. Inr (put_cpu s (clear_r0 (cpu s))))"
    using group_sys [of ?v Y_ECALL C_W "cpu s"] assms(2) r
    by (simp add: execute_def exec_switch_def or_else_def exec_load_def exec_store_def exec_system_def syscall_def)
  have result: "board_sim os ?v s ((board_of s)\<lparr>core := (abs_at (pc (cpu s)) s)\<lparr>gpr := ?x(10 := a), apc := pc (cpu s) + len\<rparr>\<rparr>, evs, False)"
    if "syscall_switch os (?x 17) (?x 10) (?x 11) (?x 12) s = return_a0 (Inr (a, s\<lparr>console := console s @ evs, cpu := (cpu s)\<lparr>heap := hp\<rparr>\<rparr>))"
    for a evs hp
  proof -
    let ?c = "reg_set 10 a ((cpu s)\<lparr>heap := hp\<rparr>)"
    have h: "regs32 ((cpu s)\<lparr>heap := hp\<rparr>)" using r by (simp add: regs32_def)
    have c: "cpu_inv ?c" using assms(1) h by (simp add: cpu_inv_def regfile.peek_other) (simp add: reg_val_def)
    let ?t = "s\<lparr>console := console s @ evs, cpu := clear_r0 ?c\<rparr>"
    have "cpu_inv ((cpu s)\<lparr>heap := hp\<rparr>)" using assms(1) by (simp add: cpu_inv_def regs32_def reg_val_def)
    from gpr_put [OF this, of 10 a] have g: "(\<lambda>i :: ireg. reg_val (clear_r0 ?c) (ucast i)) = ?x(10 := a)"
      by (simp add: xset_def reg_val_def)
    have k: "pc_next (clear_r0 ?c) = pc_next (cpu s)" "stop (clear_r0 ?c) = stop (cpu s)" "running (clear_r0 ?c) = running (cpu s)"
      "cycle (clear_r0 ?c) = cycle (cpu s)" "endOfData (clear_r0 ?c) = endOfData (cpu s)" "csr_view (clear_r0 ?c) = csr_view (cpu s)"
      by (simp_all add: clear_r0_def reg_set_def csr_view_eq)
    have "execute os ?v s = Inr ?t" using h unfolding ex that by (simp add: return_a0_def put_cpu_def)
    moreover have "board_at (pc_next (cpu ?t)) ?t =
        (board_of s)\<lparr>core := (abs_at (pc (cpu s)) s)\<lparr>gpr := ?x(10 := a), apc := pc (cpu s) + len\<rparr>\<rparr>"
      using g k assms(3) by (simp add: board_at_def board_of_def abs_at_def)
    moreover have "cpu_inv (clear_r0 ?c)" using cpu_inv_clear [of ?c] c by (simp add: cpu_inv_def)
    ultimately show ?thesis using k by (simp add: board_sim_def)
  qed
  let ?n = "?x 17"
  have x: "gpr (core (board_of s)) = ?x" "amem (core (board_of s)) = memory s" "apc (core (board_of s)) = pc (cpu s)"
    "edata (board_of s) = endOfData (cpu s)" "core (board_of s) = abs_at (pc (cpu s)) s" "gpr (abs_at (pc (cpu s)) s) = ?x"
    by (simp_all add: board_of_def board_at_def abs_at_def)
  consider (brk) "?n = 214" | (wr) "?n = 64" "?x 10 = 1 \<or> ?x 10 = 2" | (stat) "?n = 80" | (out) "?n = 93"
    using assms(4) by (auto simp: newlib_call_def Let_def x split: if_splits)
  then show ?thesis
  proof cases
    case brk
    let ?r = "if ?x 10 = 0 then (endOfData (cpu s) + 15) AND NOT 15 else ?x 10"
    let ?h = "if ?x 10 = 0 then (endOfData (cpu s) + 15) AND NOT 15 else ?x 10 + ?x 11"
    have "syscall_switch os ?n (?x 10) (?x 11) (?x 12) s =
        return_a0 (Inr (?r, s\<lparr>console := console s @ [], cpu := (cpu s)\<lparr>heap := ?h\<rparr>\<rparr>))"
      using brk by (auto simp: syscall_switch_def sys_brk_def Let_def put_cpu_def)
    from result [OF this] show ?thesis using assms(4) brk by (simp add: newlib_call_def Let_def x cong: if_cong)
  next
    case wr
    let ?f = "if ?x 10 = 1 then Stdout else Stderr"
    obtain bs where bs: "mem_load (memory s) (?x 11) (nat (sint (?x 12))) = Inr bs"
      "r = ((board_of s)\<lparr>core := (abs_at (pc (cpu s)) s)\<lparr>gpr := ?x(10 := if sint (?x 12) \<le> 0 then 0 else ?x 12),
        apc := pc (cpu s) + len\<rparr>\<rparr>, map ?f bs, False)"
      using assms(4) wr by (auto simp: newlib_call_def Let_def x split: sum.splits)
    have "syscall_switch os ?n (?x 10) (?x 11) (?x 12) s =
        return_a0 (Inr (if sint (?x 12) \<le> 0 then 0 else ?x 12, s\<lparr>console := console s @ map ?f bs, cpu := (cpu s)\<lparr>heap := heap (cpu s)\<rparr>\<rparr>))"
      using wr sys_write_bytes [OF _ bs(1), of "?x 10" ?f os] by (auto simp: syscall_switch_def)
    from result [OF this] show ?thesis unfolding bs(2) .
  next
    case stat
    have "syscall_switch os ?n (?x 10) (?x 11) (?x 12) s =
        return_a0 (Inr (0, s\<lparr>console := console s @ [], cpu := (cpu s)\<lparr>heap := heap (cpu s)\<rparr>\<rparr>))"
      using stat by (simp add: syscall_switch_def)
    from result [OF this] show ?thesis using assms(4) stat by (simp add: newlib_call_def Let_def x)
  next
    case out
    let ?c = "clear_r0 ((cpu s)\<lparr>running := False, stop := True\<rparr>)"
    have i: "cpu_inv ((cpu s)\<lparr>running := False, stop := True\<rparr>)" using assms(1) by (simp add: cpu_inv_def regs32_def reg_val_def)
    have g: "(\<lambda>i :: ireg. reg_val ?c (ucast i)) = ?x" using gpr_same [OF i] by (simp add: reg_val_def)
    have k: "pc_next ?c = pc_next (cpu s)" "stop ?c" "cycle ?c = cycle (cpu s)" "endOfData ?c = endOfData (cpu s)"
      "csr_view ?c = csr_view (cpu s)" by (simp_all add: clear_r0_def csr_view_eq)
    have "execute os ?v s = Inr (s\<lparr>cpu := ?c\<rparr>)" using out
      by (subst ex) (simp add: syscall_switch_def put_cpu_def)
    moreover have "cpu_inv ?c" using cpu_inv_clear i by (simp add: cpu_inv_def)
    ultimately show ?thesis using assms(3,4) out g k
      by (auto simp: newlib_call_def Let_def x board_sim_def board_at_def board_of_def abs_at_def)
  qed
qed

lemma board_sim_exec:
  assumes "cpu_inv (cpu s)" and "no_wrap (insnMem (memory s))" and "no_wrap (dataMem (memory s))" and "\<not> do_core (memory s)"
    and "isa_wf i" and "pc_next (cpu s) = pc (cpu s) + len" and "board_exec i len (board_of s) = Some r"
  shows "board_sim os (vliw_of i) s r"
proof (cases "port_store i (abs_at (pc (cpu s)) s)")
  case (Some xv)
  then obtain x v where xv: "port_store i (abs_at (pc (cpu s)) s) = Some (x, v)" by (cases xv) auto
  then show ?thesis using board_sim_port [OF assms(1,6) xv, of os] assms(7) by (simp add: board_exec_def board_of_def)
next
  case None
  show ?thesis
  proof (cases "isa_exec i len (abs_at (pc (cpu s)) s)")
    case (Some a)
    then show ?thesis using None board_sim_int [OF assms(1-6) Some, of os] assms(7)
      by (auto simp: board_exec_def board_of_def split: if_splits)
  next
    case e: None
    show ?thesis
    proof (cases "i = I_SYS Y_ECALL \<and> do_newlib s")
      case True
      then have "newlib_call len (board_of s) = Some r" using None e assms(7) by (simp add: board_exec_def board_of_def)
      then show ?thesis using True board_sim_newlib [OF assms(1) _ assms(6)] by simp
    next
      case False
      then obtain p where p: "priv_exec i len (priv_of (cpu s)) = Some p" "r = (with_priv (board_of s) p, [], False)"
        using None e assms(7) by (auto simp: board_exec_def board_of_def priv_part_at priv_of_def split: if_splits)
      then have "priv_sim os (vliw_of i) s p" using False by (intro priv_insn [OF assms(1,5) _ assms(6)]) auto
      then show ?thesis using p(2) by (simp add: board_of_def board_sim_priv)
    qed
  qed
qed

text \<open>A turn of the loop is a step of the reference.\<close>

lemma board_run_insn:
  assumes rd: "ready s" and wf: "isa_wf i"
    and e: "poll (priv_part (board_of s)) = (q, taken)"
      "(if taken then Some (with_priv (board_of s) q, [], False) else board_exec i len (with_priv (board_of s) q)) = Some (b, evs, off)"
  shows "\<exists>s'. run_insn os (vliw_of i) len s = Inr s' \<and> board_of s' = b\<lparr>bclk := bclk b + 1\<rparr> \<and>
    console s' = console s @ evs \<and> os_state s' = os_state s \<and> stop (cpu s') = (off \<or> stop (cpu s)) \<and>
    cpu_inv (cpu s') \<and> (off \<or> running (cpu s')) \<and> layout (memory s') = layout (memory s) \<and> insnMem (memory s') = insnMem (memory s)"
proof -
  have r: "cpu_inv (cpu s)" "no_wrap (insnMem (memory s))" "no_wrap (dataMem (memory s))" "\<not> do_core (memory s)" "running (cpu s)"
    using rd by (simp_all add: ready_def)
  have q: "poll (priv_of (cpu s)) = (q, taken)" using e(1) by (simp add: board_of_def priv_part_at priv_of_def)
  obtain w d where d: "polled (vliw_of i) w len (cpu s) d q taken" "cpu_inv d"
    "run_insn os (vliw_of i) len s = chain (execute os w (put_cpu s d))
      (\<lambda>s. Inr (s\<lparr>cpu := (cpu s)\<lparr>pc := pc_next (cpu s), cycle := cycle (cpu s) + 1\<rparr>\<rparr>))"
    using run_insn_poll [OF r(1) q] by blast
  let ?s = "put_cpu s d"
  have f: "cpu ?s = d" "memory ?s = memory s" "console ?s = console s" "os_state ?s = os_state s" by (simp_all add: put_cpu_def)
  have "board_sim os w ?s (b, evs, off)"
  proof (cases taken)
    case True
    have "priv_sim os vliw_nop ?s q" using priv_nop [of ?s os] d(1,2) True f by (simp add: polled_def)
    from board_sim_priv [OF this, of "pc (cpu s)"] show ?thesis
      using True d(1) e(2) by (auto simp: polled_def same_loop_def board_of_def with_priv_def board_at_def put_cpu_def abs_at_def)
  next
    case False
    then have "with_priv (board_of s) q = board_of ?s" "w = vliw_of i" "pc_next d = pc d + len"
      using d(1) f by (simp_all add: polled_def same_loop_def board_of_def with_priv_at)
    then show ?thesis using board_sim_exec [of ?s i len "(b, evs, off)" os] r wf d(2) e(2) False f by simp
  qed
  then obtain t where t: "execute os w ?s = Inr t" "board_at (pc_next (cpu t)) t = b" "console t = console s @ evs"
    "os_state t = os_state s" "stop (cpu t) = (off \<or> stop d)" "cpu_inv (cpu t)" "off \<or> running (cpu t) = running d"
    "layout (memory t) = layout (memory s)" "insnMem (memory t) = insnMem (memory s)"
    using f by (auto simp: board_sim_def)
  have l: "stop d = stop (cpu s)" "running d" "endOfData d = endOfData (cpu s)" using d(1) r(5) by (simp_all add: polled_def same_loop_def)
  let ?t = "t\<lparr>cpu := (cpu t)\<lparr>pc := pc_next (cpu t), cycle := cycle (cpu t) + 1\<rparr>\<rparr>"
  have "board_of ?t = b\<lparr>bclk := bclk b + 1\<rparr>"
    using t(2) by (auto simp: board_of_def board_at_def abs_at_def reg_val_def csr_view_eq)
  moreover have "cpu_inv (cpu ?t)" using t(6) by (simp add: cpu_inv_def regs32_def reg_val_def)
  ultimately show ?thesis using d(3) t l by auto
qed

lemma board_turn:
  assumes "ready s" and "board_step (board_of s) = Some (b, evs, off)"
  shows "\<exists>s'. run_step os s = Inr s' \<and> board_of s' = b \<and> console s' = console s @ evs \<and>
    os_state s' = os_state s \<and> stop (cpu s') = (off \<or> stop (cpu s)) \<and> (off \<or> ready s')"
proof -
  have r: "caches_ok s" "small_text (memory s)" using assms(1) by (simp_all add: ready_def)
  obtain q taken where q: "poll (priv_part (board_of s)) = (q, taken)" by fastforce
  obtain i len c where e: "\<not> bit (pc (cpu s)) 0" "isa_at (memory s) (pc (cpu s)) = Some (i, len)"
    "b = c\<lparr>bclk := bclk c + 1\<rparr>"
    "(if taken then Some (with_priv (board_of s) q, [], False) else board_exec i len (with_priv (board_of s) q)) = Some (c, evs, off)"
    using assms(2) q by (auto simp: board_step_def board_of_def split: if_splits option.splits)
  obtain code where f: "fetch_code (memory s) (cpu s) = Inr (code, len)" "isa_decode code = Some i"
    using isa_at_fetch [OF e(2)] by blast
  obtain t where t: "run_insn os (vliw_of i) len s = Inr t" "board_of t = b" "console t = console s @ evs"
    "os_state t = os_state s" "stop (cpu t) = (off \<or> stop (cpu s))" "cpu_inv (cpu t)" "off \<or> running (cpu t)"
    "layout (memory t) = layout (memory s)" "insnMem (memory t) = insnMem (memory s)"
    using board_run_insn [OF assms(1) isa_decode_wf [OF f(2)] q e(4), of os] unfolding e(3) by blast
  obtain s' where s': "run_step os s = Inr s'" "t = with_caches (decoder s) (vliw_insn s) s'"
    using run_step_insn [OF r e(1) f, of os] t(1) swap_back by metis
  have k: "cpu t = cpu s'" "memory t = memory s'" "console t = console s'" "os_state t = os_state s'" "board_of t = board_of s'"
    unfolding s'(2) by (simp_all add: board_of_def board_at_def abs_at_def)
  have "caches_ok s'" using run_step_ref(2) [OF r e(1) s'(1)] t(9) k by simp
  then have "off \<or> ready s'" using assms(1) t(6-8) k layout_wrap [OF t(8)] by (simp add: ready_def)
  then show ?thesis using s'(1) t k by auto
qed

section \<open>The loop\<close>

text \<open>
  The run loop does what the reference does, to the power-off or for as many turns as asked: and when the
  reference powers off within \<open>n\<close> steps, asking for more turns changes nothing.
\<close>

lemma board_run_loop:
  assumes "ready s" and "\<not> stop (cpu s)" and "board_run n (board_of s) = Some (a, evs, off)"
    and "off \<and> n \<le> k \<or> k = n"
  shows "\<exists>s'. run_loop os k s = Inr s' \<and> board_of s' = a \<and> console s' = console s @ evs \<and>
    os_state s' = os_state s \<and> \<not> stop (cpu s')"
  using assms
proof (induction n arbitrary: s evs k)
  case 0
  then show ?case by (intro exI [of _ s]) auto
next
  case (Suc n)
  from Suc.prems(3) obtain b o1 off1 where b: "board_step (board_of s) = Some (b, o1, off1)"
    by (auto split: option.splits)
  obtain t where t: "run_step os s = Inr t" "board_of t = b" "console t = console s @ o1" "os_state t = os_state s"
    "stop (cpu t) = off1" "off1 \<or> ready t"
    using board_turn [OF Suc.prems(1) b, of os] Suc.prems(2) by auto
  obtain k' where k: "k = Suc k'" using Suc.prems(4) by (cases k) auto
  have run: "running (cpu s)" using Suc.prems(1) by (simp add: ready_def)
  show ?case
  proof (cases off1)
    case True
    let ?t = "t\<lparr>cpu := (cpu t)\<lparr>stop := False\<rparr>\<rparr>"
    have "run_loop os k s = Inr ?t" using k run t(1,5) True by simp
    moreover have "board_of ?t = board_of t" by (simp add: board_of_def board_at_def abs_at_def reg_val_def csr_view_eq)
    ultimately show ?thesis using Suc.prems(3) b t True by auto
  next
    case False
    obtain o2 where o2: "board_run n (board_of t) = Some (a, o2, off)" "evs = o1 @ o2"
      using Suc.prems(3) b t(2) False by auto
    have "off \<and> n \<le> k' \<or> k' = n" using Suc.prems(4) k by auto
    then obtain s' where "run_loop os k' t = Inr s'" "board_of s' = a" "console s' = console t @ o2"
      "os_state s' = os_state t" "\<not> stop (cpu s')"
      using Suc.IH [OF _ _ o2(1), of k'] t(5,6) False by auto
    then show ?thesis using k run t False o2(2) by simp
  qed
qed

end
