(* ===== verification/Boot_Facts.thy ===== *)
theory Boot_Facts
  imports Boot Listing_Facts Elf_Props Debugger_Facts Isa_Run
begin

unbundle bit_operations_syntax

text \<open>
  Facts about \<open>main\<close>: what the listings leave, what the loader makes of memory, and the state
  the run starts in.
\<close>

section \<open>The listings\<close>

lemma rv_compile_same:
  assumes "rv_compile a n s = Some (Inr (out, s'))"
  shows "same_but_tables s s'"
  using assms by (auto simp: rv_compile_def split: option.splits dest: insn_loop_same)

lemma disasm_all_same:
  assumes "disasm_all a n s = Some (Inr (out, s'))"
  shows "same_but_tables s s'"
  using assms unfolding disasm_all_def by (rule disasm_loop_same)

lemma main_listing_same:
  assumes "main_listing opts text s = Some (Inr la)"
  shows "same_but_tables s (la_machine la)"
proof -
  obtain dis t warp u where
    t: "(if dis_flag opts then disasm_all (fst text) (snd text) s else Some (Inr ([], s))) = Some (Inr (dis, t))" and
    u: "(if c_flag opts then rv_compile 0x00000000 (snd text) t else Some (Inr ([], t))) = Some (Inr (warp, u))" and
    la: "la_machine la = u"
    using assms by (auto simp: main_listing_def split: option.splits sum.splits if_splits)
  have "same_but_tables s t" using t disasm_all_same by (auto split: if_splits)
  moreover have "same_but_tables t u" using u rv_compile_same by (auto split: if_splits)
  ultimately show ?thesis using la same_trans by blast
qed

section \<open>The start of the run\<close>

lemma main_boot_machine:
  assumes "main_boot files raws h opts elf = Some (Inr la)"
    and "main_load files elf raws (main_memory opts raws) = Inr im"
  shows "\<exists>s e. same_but_tables (first_machine opts (im_memory im) h) s \<and>
    e = snd (info_range (if uflag opts then im_text im else im_data im)) \<and>
    la_machine la = s\<lparr>cpu := init_cpu opts (im_entry im) e (memory s) (cpu s)\<rparr>"
  using assms by (fastforce simp: main_boot_def Let_def faultfacts split: option.splits dest: main_listing_same)

lemma quiet_boot:
  assumes "main_load files elf raws (main_memory opts raws) = Inr im"
    and "opt_quiet opts" and "\<not> dis_flag opts" and "\<not> c_flag opts"
  shows "main_boot files raws h opts elf =
    (let m = im_memory im; s = first_machine opts m h;
         e = snd (info_range (if uflag opts then im_text im else im_data im))
     in Some (Inr \<lparr>la_machine = s\<lparr>cpu := init_cpu opts (im_entry im) e m Cpu_new\<rparr>, la_disasm = None, la_warp = None\<rparr>))"
  using assms by (simp add: main_boot_def main_listing_def check_entry_def first_machine_def Let_def)

lemma through_u64: "ucast (ucast (w :: u32) :: u64) = w"
  by (rule bit_word_eqI) (simp add: bit_unsigned_iff)

lemma init_cpu_facts:
  "pc (init_cpu opts entry e m c) = entry" "cpu_inv (init_cpu opts entry e m c)" "\<not> stop (init_cpu opts entry e m c)"
  "reg_val (init_cpu opts entry e m c) 2 = stack_top m AND 0xfffffffc" "endOfData (init_cpu opts entry e m c) = e"
  "heap (init_cpu opts entry e m c) = 0"
  by (simp_all add: init_cpu_def Cpu_setStack_def Cpu_set_trace_def Cpu_start_def Cpu_edata_def Cpu_reset_def
      Cpu_new_def cpu_inv_def regs32_def reg_val_def through_u64 Let_def)

lemma Segment_new_ok: "unat (memLen (Segment_new b n raw)) \<le> length (data (Segment_new b n raw))"
  by (simp add: Segment_new_def)

lemma main_memory_ok: "textBase opts = None \<Longrightarrow> dataBase opts = None \<Longrightarrow> memory_ok (main_memory opts raws)"
  by (simp add: memory_ok_def main_memory_def Let_def set_segment_def set_host_def Memory_new_def Segment_new_ok
      split: option.split)

lemma shape_ok: "shape s = shape (Segment_new b n raw) \<Longrightarrow> unat (memLen s) \<le> length (data s)"
  by (simp add: shape_def Segment_new_def)

lemma loaded_ok:
  assumes "readElf file heap_len raw1 raw2 = Inr (Some l)"
  shows "unat (memLen (ld_code l)) \<le> length (data (ld_code l))" "unat (memLen (ld_data l)) \<le> length (data (ld_data l))"
proof -
  obtain buf nt r ss lo where lo: "load_loop buf nt r ss \<lparr>seg_code = code_segment r raw1,
      seg_data = data_segment heap_len r raw2, code_infos = [], data_infos = []\<rparr> = Inr lo"
    "ld_code l = seg_code lo" "ld_data l = seg_data lo"
    using assms by (auto simp: readElf_def load_sections_def Let_def faultfacts split: option.splits if_splits)
  have "shape (ld_code l) = shape (code_segment r raw1)"
    using load_loop_shape [OF lo(1), of True] lo(2) by (simp add: seg_of_def)
  then show "unat (memLen (ld_code l)) \<le> length (data (ld_code l))"
    unfolding code_segment_def by (rule shape_ok)
  have "shape (ld_data l) = shape (data_segment heap_len r raw2)"
    using load_loop_shape [OF lo(1), of False] lo(3) by (simp add: seg_of_def)
  then show "unat (memLen (ld_data l)) \<le> length (data (ld_data l))"
    unfolding data_segment_def by (rule shape_ok)
qed

lemma main_load_ok:
  assumes "main_load files elf raws (main_memory opts raws) = Inr im" and "textBase opts = None" and "dataBase opts = None"
  shows "memory_ok (im_memory im)"
proof -
  obtain name r where r: "readElf (files name) HEAP_SIZE (raws 2) (raws 3) = Inr r" and
    im: "im_memory im = (case r of None \<Rightarrow> main_memory opts raws
      | Some l \<Rightarrow> (main_memory opts raws)\<lparr>insnMem := ld_code l, dataMem := ld_data l\<rparr>)"
    using assms(1) by (auto simp: main_load_def faultfacts split: option.splits)
  show ?thesis
  proof (cases r)
    case None
    then show ?thesis using im main_memory_ok [OF assms(2,3)] by simp
  next
    case (Some l)
    then show ?thesis using im loaded_ok r by (simp add: memory_ok_def)
  qed
qed

lemma seg_load_part:
  assumes "seg_load g a n = Inr bs" and "k + m \<le> n" and "length (data g) < 2 ^ 32" and "0 < m"
  shows "seg_load g (a + of_nat k) m = Inr (slice_of k m bs)"
proof -
  have l: "seg_off g a + n \<le> length (data g)" and bs: "bs = slice_of (seg_off g a) n (data g)"
    using assms(1) by (auto simp: seg_load_def split: if_splits)
  have "unat (a - memBase g + of_nat k) = unat (a - memBase g) + k"
    using l assms(2-4) by (simp add: seg_off_def unat_word_ariths unsigned_of_nat take_bit_nat_def)
  then have "seg_off g (a + of_nat k) = seg_off g a + k"
    by (simp add: seg_off_def algebra_simps)
  then show ?thesis
    using l bs assms(2) by (simp add: seg_load_def slice_of_def drop_take add.commute min_def)
qed

lemma boot_state:
  assumes "main_boot files raws h opts elf = Some (Inr la)"
    and "main_load files elf raws (main_memory opts raws) = Inr im"
  shows "cpu_inv (cpu (la_machine la))" "caches_ok (la_machine la)" "\<not> stop (cpu (la_machine la))"
    "pc (cpu (la_machine la)) = im_entry im" "memory (la_machine la) = im_memory im"
    "reg_val (cpu (la_machine la)) 2 = stack_top (im_memory im) AND 0xfffffffc"
proof -
  obtain s e where s: "same_but_tables (first_machine opts (im_memory im) h) s"
    "la_machine la = s\<lparr>cpu := init_cpu opts (im_entry im) e (memory s) (cpu s)\<rparr>"
    using main_boot_machine [OF assms] by blast
  then have m: "memory s = im_memory im" by (simp add: same_but_tables_def first_machine_def)
  show "cpu_inv (cpu (la_machine la))" "\<not> stop (cpu (la_machine la))" "pc (cpu (la_machine la)) = im_entry im"
    "memory (la_machine la) = im_memory im" "reg_val (cpu (la_machine la)) 2 = stack_top (im_memory im) AND 0xfffffffc"
    using init_cpu_facts s(2) m by simp_all
  have "decoder_ok (decoder s)" "vliw_insn s = vliw_insn_start"
    using s(1) decoder_ok_start by (simp_all add: same_but_tables_def first_machine_def)
  then show "caches_ok (la_machine la)" using s(2) by (simp add: caches_ok_def vcache.sound_start)
qed

text \<open>The state of the reference a program starts in.\<close>

definition board_start :: "options \<Rightarrow> image \<Rightarrow> board" where
  "board_start opts im =
    \<lparr>core = \<lparr>gpr = (\<lambda>r. if r = 2 then stack_top (im_memory im) AND 0xfffffffc else 0), apc = im_entry im, amem = im_memory im\<rparr>,
     bcsr = (\<lambda>_. 0), bclk = 0, hosted = opt_newlib opts,
     edata = snd (info_range (if uflag opts then im_text im else im_data im))\<rparr>"

lemma init_cpu_regs:
  "reg_val (init_cpu opts entry e m c) (ucast (r :: ireg)) = (if r = 2 then stack_top m AND 0xfffffffc else 0)"
  "csr_view (init_cpu opts entry e m c) = (\<lambda>_. 0)" "cycle (init_cpu opts entry e m c) = 0"
proof -
  have "unat (ucast r :: u8) < 32" using wide_less [of r] by (simp add: word_less_nat_alt)
  moreover have "unat (ucast r :: u8) = 2 \<longleftrightarrow> r = 2"
    using wide_inj [of r 2] by (simp add: word_unat_eq_iff [where 'a = 8])
  ultimately show "reg_val (init_cpu opts entry e m c) (ucast (r :: ireg)) = (if r = 2 then stack_top m AND 0xfffffffc else 0)"
    by (auto simp: init_cpu_def Cpu_setStack_def Cpu_set_trace_def Cpu_start_def Cpu_edata_def Cpu_reset_def
      Cpu_new_def reg_val_def Let_def nth_list_update)
qed (simp_all add: fun_eq_iff csr_view_def csr_val_def init_cpu_def Cpu_setStack_def Cpu_set_trace_def Cpu_start_def
    Cpu_edata_def Cpu_reset_def Cpu_new_def Let_def)

lemma boot_board:
  assumes "main_boot files raws h opts elf = Some (Inr la)"
    and "main_load files elf raws (main_memory opts raws) = Inr im"
  shows "board_of (la_machine la) = board_start opts im" "os_state (la_machine la) = h"
proof -
  obtain s e where s: "same_but_tables (first_machine opts (im_memory im) h) s"
    "la_machine la = s\<lparr>cpu := init_cpu opts (im_entry im) e (memory s) (cpu s)\<rparr>"
    and e: "e = snd (info_range (if uflag opts then im_text im else im_data im))"
    using main_boot_machine [OF assms] by blast
  then have "memory s = im_memory im" "os_state s = h" "do_newlib s = opt_newlib opts" by (simp_all add: same_but_tables_def first_machine_def)
  then show "board_of (la_machine la) = board_start opts im" "os_state (la_machine la) = h"
    using s(2) e by (simp_all add: board_of_def board_at_def abs_at_def board_start_def init_cpu_facts init_cpu_regs)
qed

section \<open>The end of the program\<close>

lemma main_run_kept:
  assumes "main_run os opts s = Some (Inr (out, s'))" and "machine_inv s"
  shows "kept s s'"
  using assms by (auto simp: main_run_def faultfacts split: if_splits intro: debug_mode_kept kept_run)

text \<open>A program the reference powers off runs to the same end.\<close>

lemma main_load_core:
  "main_load files elf raws (main_memory opts raws) = Inr im \<Longrightarrow> do_core (im_memory im) = opt_core opts"
  by (auto simp: main_load_def faultfacts main_memory_def set_host_def Let_def split: option.splits)

lemma boot_runs:
  assumes "main_boot files raws h opts elf = Some (Inr la)"
    and "main_load files elf raws (main_memory opts raws) = Inr im"
    and "\<not> opt_core opts" and "small_text (im_memory im)" and "no_wrap (insnMem (im_memory im))"
    and "no_wrap (dataMem (im_memory im))"
    and "board_run n (board_start opts im) = Some (a, evs, True)" and "n < 2 ^ 64"
  shows "\<exists>s'. run os (- 1) (la_machine la) = Inr s' \<and> board_of s' = a \<and>
    console s' = console (la_machine la) @ evs \<and> os_state s' = h"
proof -
  let ?s = "(la_machine la)\<lparr>cpu := (cpu (la_machine la))\<lparr>running := True, cycle := 0\<rparr>\<rparr>"
  note st = boot_state [OF assms(1,2)] boot_board [OF assms(1,2)]
  have "ready ?s"
    using st assms(3-6) main_load_core [OF assms(2)]
    by (simp add: ready_def caches_ok_def cpu_inv_def regs32_def reg_val_def)
  moreover have "board_of ?s = board_start opts im"
  proof -
    have "cycle (cpu (la_machine la)) = 0" using arg_cong [OF st(7), of bclk] by (simp add: board_of_def board_at_def board_start_def)
    then show ?thesis
      unfolding st(7) [symmetric] by (simp add: board_of_def board_at_def abs_at_def reg_val_def csr_view_eq)
  qed
  moreover have "n \<le> unat (- 1 :: u64)" using assms(8) by (simp add: unsigned_minus_1_eq_mask mask_eq_exp_minus_1)
  ultimately show ?thesis
    using board_run_loop [of ?s n a evs True "unat (- 1 :: u64)" os] assms(7) st(3,8) by (auto simp: run_def)
qed

end
