(* ===== verification/Boot_Sample.thy ===== *)
theory Boot_Sample
  imports Boot_Facts
begin

text \<open>
  A small program for the witnesses: an ELF file with a text, a data and a bss section. It loads the first
  byte of the data, prints it through the port, and powers off by storing the stack pointer, which the
  loader's placement makes the power-off command.
\<close>

unbundle bit_operations_syntax

section \<open>The file\<close>

definition hello_elf :: "u8 list" where
  "hello_elf = [
    127, 69, 76, 70, 1, 1, 1, 0, 0, 0, 0, 0, 0, 0, 0, 0, 2, 0, 243, 0, 1, 0, 0, 0, 0, 0, 0, 0,
    0, 0, 0, 0, 100, 0, 0, 0, 0, 0, 0, 0, 52, 0, 32, 0, 0, 0, 40, 0, 5, 0, 4, 0,
    183, 5, 1, 0, 3, 197, 5, 0, 35, 46, 160, 254, 35, 46, 32, 254,
    72, 105, 33, 10,
    0, 46, 116, 101, 120, 116, 0, 46, 100, 97, 116, 97, 0, 46, 98, 115, 115, 0, 46, 115, 104, 115, 116, 114, 116, 97, 98, 0,
    0, 0, 0, 0, 0, 0, 0, 0, 0, 0, 0, 0, 0, 0, 0, 0, 0, 0, 0, 0, 0, 0, 0, 0, 0, 0, 0, 0,
    0, 0, 0, 0, 0, 0, 0, 0, 0, 0, 0, 0, 1, 0, 0, 0, 1, 0, 0, 0, 6, 0, 0, 0, 0, 0, 0, 0,
    52, 0, 0, 0, 16, 0, 0, 0, 0, 0, 0, 0, 0, 0, 0, 0, 4, 0, 0, 0, 0, 0, 0, 0, 7, 0, 0, 0,
    1, 0, 0, 0, 3, 0, 0, 0, 0, 0, 1, 0, 68, 0, 0, 0, 4, 0, 0, 0, 0, 0, 0, 0, 0, 0, 0, 0,
    4, 0, 0, 0, 0, 0, 0, 0, 13, 0, 0, 0, 8, 0, 0, 0, 3, 0, 0, 0, 16, 0, 1, 0, 72, 0, 0, 0,
    16, 0, 0, 0, 0, 0, 0, 0, 0, 0, 0, 0, 1, 0, 0, 0, 0, 0, 0, 0, 18, 0, 0, 0, 3, 0, 0, 0,
    0, 0, 0, 0, 0, 0, 0, 0, 72, 0, 0, 0, 28, 0, 0, 0, 0, 0, 0, 0, 0, 0, 0, 0, 1, 0, 0, 0,
    0, 0, 0, 0]"

definition hello_ehdr :: ehdr where
  "hello_ehdr = \<lparr>e_entry = 0, e_phoff = 0, e_shoff = 100, e_phentsize = 32, e_phnum = 0, e_shentsize = 40,
    e_shnum = 5, e_shstrndx = 4\<rparr>"

definition hello_text :: shdr where
  "hello_text = \<lparr>sh_name = 1, sh_type = 1, sh_flags = 6, sh_addr = 0, sh_offset = 52, sh_size = 16\<rparr>"

definition hello_data :: shdr where
  "hello_data = \<lparr>sh_name = 7, sh_type = 1, sh_flags = 3, sh_addr = 0x10000, sh_offset = 68, sh_size = 4\<rparr>"

definition hello_bss :: shdr where
  "hello_bss = \<lparr>sh_name = 13, sh_type = 8, sh_flags = 3, sh_addr = 0x10010, sh_offset = 72, sh_size = 16\<rparr>"

definition hello_names :: shdr where
  "hello_names = \<lparr>sh_name = 18, sh_type = 3, sh_flags = 0, sh_addr = 0, sh_offset = 72, sh_size = 28\<rparr>"

definition hello_ranges :: ranges where
  "hello_ranges = \<lparr>text_base = 0, text_end = 16, data_base = 0x10000, data_end = 0x10004, bss_base = 0x10010, bss_end = 0x10020\<rparr>"

abbreviation (input) hello_sections :: "shdr list" where
  "hello_sections \<equiv> [sample_null, hello_text, hello_data, hello_bss, hello_names]"

abbreviation (input) hello_code :: "u8 list" where
  "hello_code \<equiv> [183, 5, 1, 0, 3, 197, 5, 0, 35, 46, 160, 254, 35, 46, 32, 254]"

lemma hello_parts:
  "length hello_elf = 300" "buf_strncmp hello_elf 1 ''ELF'' = Inr True"
  "buf_word hello_elf 5 1 = Inr (1 :: u8)" "buf_word hello_elf 4 1 = Inr (1 :: u8)"
  "buf_word hello_elf 18 2 = Inr EM_RISCV" "ehdr_at hello_elf = Inr hello_ehdr"
  "shdr_loop hello_elf hello_ehdr [0..<5] = Inr hello_sections"
  "name_table hello_ehdr hello_sections = Some 72"
  "range_loop hello_elf (Some 72) hello_sections ranges_start = Inr hello_ranges"
  "section_place hello_ranges hello_text = ToText" "section_place hello_ranges hello_data = ToData"
  "section_place hello_ranges hello_bss = ZeroBss"
  "skipped sample_null" "skipped hello_names" "\<not> skipped hello_text" "\<not> skipped hello_data" "\<not> skipped hello_bss"
  "buf_bytes hello_elf 52 16 = Inr hello_code" "buf_bytes hello_elf 68 4 = Inr [72, 105, 33, 10]"
  "name_ptr (Some 72) hello_text = Inr 73" "buf_string hello_elf 73 = Inr [46, 116, 101, 120, 116]"
  "name_ptr (Some 72) hello_data = Inr 79" "buf_string hello_elf 79 = Inr [46, 100, 97, 116, 97]"
  "name_ptr (Some 72) hello_bss = Inr 85" "buf_string hello_elf 85 = Inr [46, 98, 115, 115]"
  by code_simp+

lemma hello_view:
  "shdr_loop hello_elf hello_ehdr [0..<unat (e_shnum hello_ehdr)] = Inr hello_sections"
  "range_loop hello_elf (name_table hello_ehdr hello_sections) hello_sections ranges_start = Inr hello_ranges"
  "shdr_loop hello_elf hello_ehdr [0..<unat (e_shnum hello_ehdr)] =
    Inr ([sample_null] @ hello_text # [hello_data, hello_bss, hello_names])"
  "range_loop hello_elf (name_table hello_ehdr ([sample_null] @ hello_text # [hello_data, hello_bss, hello_names]))
     ([sample_null] @ hello_text # [hello_data, hello_bss, hello_names]) ranges_start = Inr hello_ranges"
proof -
  have "unat (e_shnum hello_ehdr) = 5" by (simp add: hello_ehdr_def)
  then show "shdr_loop hello_elf hello_ehdr [0..<unat (e_shnum hello_ehdr)] = Inr hello_sections"
    using hello_parts(7) by (simp del: upt.simps shdr_loop.simps)
  then show "shdr_loop hello_elf hello_ehdr [0..<unat (e_shnum hello_ehdr)] =
      Inr ([sample_null] @ hello_text # [hello_data, hello_bss, hello_names])"
    using hello_parts(7) by (simp del: upt.simps shdr_loop.simps)
  show "range_loop hello_elf (name_table hello_ehdr hello_sections) hello_sections ranges_start = Inr hello_ranges"
    using hello_parts(8,9) by (simp del: range_loop.simps)
  then show "range_loop hello_elf (name_table hello_ehdr ([sample_null] @ hello_text # [hello_data, hello_bss, hello_names]))
      ([sample_null] @ hello_text # [hello_data, hello_bss, hello_names]) ranges_start = Inr hello_ranges"
    by (simp del: range_loop.simps)
qed

section \<open>The load\<close>

definition hello_bytes :: "(nat \<Rightarrow> u8) \<Rightarrow> u8 list" where
  "hello_bytes raw = splice 0x10 (replicate 16 0) (splice 0 [72, 105, 33, 10] (map raw [0..<0x10020]))"

definition hello_loaded :: "(nat \<Rightarrow> u8) \<Rightarrow> loaded" where
  "hello_loaded raw =
    \<lparr>ld_code = \<lparr>memBase = 0, memLen = 16, data = hello_code\<rparr>,
     ld_data = \<lparr>memBase = 0x10000, memLen = 0x10020, data = hello_bytes raw\<rparr>,
     ld_code_infos = [\<lparr>info_name = [46, 116, 101, 120, 116], info_type = 1, info_flags = 6, info_addr = 0,
       info_size = 16, info_offset = 52\<rparr>],
     ld_data_infos = [\<lparr>info_name = [46, 100, 97, 116, 97], info_type = 1, info_flags = 3, info_addr = 0x10000,
       info_size = 4, info_offset = 68\<rparr>, \<lparr>info_name = [46, 98, 115, 115], info_type = 8, info_flags = 3,
       info_addr = 0x10010, info_size = 16, info_offset = 72\<rparr>], ld_entry = 0\<rparr>"

lemma hello_readElf: "readElf (Some hello_elf) HEAP_SIZE raw1 raw2 = Inr (Some (hello_loaded raw2))"
proof -
  have code: "seg_store (code_segment hello_ranges raw1) 0 hello_code = Inr \<lparr>memBase = 0, memLen = 16, data = hello_code\<rparr>"
    by (simp add: seg_store_def seg_off_def code_segment_def hello_ranges_def Segment_new_def splice_def)
  have "total_len HEAP_SIZE hello_ranges = 0x10020" by code_simp
  then have data: "seg_store (data_segment HEAP_SIZE hello_ranges raw2) 0x10000 [72, 105, 33, 10] =
      Inr \<lparr>memBase = 0x10000, memLen = 0x10020, data = splice 0 [72, 105, 33, 10] (map raw2 [0..<0x10020])\<rparr>"
    by (simp add: seg_store_def seg_off_def data_segment_def hello_ranges_def Segment_new_def del: upt.simps)
  have "length (splice 0 [72, 105, 33, 10] (map raw2 [0..<0x10020])) = 0x10020" by simp
  then have bss: "seg_store \<lparr>memBase = 0x10000, memLen = 0x10020, data = splice 0 [72, 105, 33, 10] (map raw2 [0..<0x10020])\<rparr>
      0x10010 (replicate 16 0) = Inr \<lparr>memBase = 0x10000, memLen = 0x10020, data = hello_bytes raw2\<rparr>"
    by (simp add: seg_store_def seg_off_def hello_bytes_def del: upt.simps replicate.simps)
  have f: "sh_offset hello_text = 52" "sh_size hello_text = 16" "sh_addr hello_text = 0" "sh_type hello_text = 1"
    "sh_flags hello_text = 6" "e_shnum hello_ehdr = 5" "e_phnum hello_ehdr = 0" "e_entry hello_ehdr = 0"
    "sh_offset hello_data = 68" "sh_size hello_data = 4" "sh_addr hello_data = 0x10000" "sh_type hello_data = 1"
    "sh_flags hello_data = 3"
    "sh_offset hello_bss = 72" "sh_size hello_bss = 16" "sh_addr hello_bss = 0x10010" "sh_type hello_bss = 8"
    "sh_flags hello_bss = 3"
    by (simp_all add: hello_text_def hello_data_def hello_ehdr_def hello_bss_def)
  show ?thesis
    by (simp add: readElf_def load_sections_def load_section_def section_info_def hello_parts f code data bss
        hello_loaded_def Let_def del: upt.simps buf_strncmp.simps One_nat_def range_loop.simps shdr_loop.simps
          replicate.simps)
qed

definition hello_image :: "(nat \<Rightarrow> nat \<Rightarrow> u8) \<Rightarrow> image" where
  "hello_image raws =
    \<lparr>im_memory = (main_memory options_start raws)\<lparr>insnMem := ld_code (hello_loaded (raws 3)), dataMem := ld_data (hello_loaded (raws 3))\<rparr>,
     im_text = ld_code_infos (hello_loaded (raws 3)), im_data = ld_data_infos (hello_loaded (raws 3)), im_entry = 0\<rparr>"

lemma hello_load: "main_load (\<lambda>_. Some hello_elf) (Some f) raws (main_memory options_start raws) = Inr (hello_image raws)"
  by (simp add: main_load_def hello_readElf hello_image_def) (simp add: hello_loaded_def)

lemma hello_image_facts:
  "insnMem (im_memory (hello_image raws)) = \<lparr>memBase = 0, memLen = 16, data = hello_code\<rparr>"
  "dataMem (im_memory (hello_image raws)) = \<lparr>memBase = 0x10000, memLen = 0x10020, data = hello_bytes (raws 3)\<rparr>"
  "hostAddr (im_memory (hello_image raws)) = HOST_BASE" "hostSize (im_memory (hello_image raws)) = HOST_SIZE"
  "\<not> do_core (im_memory (hello_image raws))" "im_entry (hello_image raws) = 0"
  by (simp_all only: hello_image_def hello_loaded_def image.simps loaded.simps)
    (simp_all add: main_memory_def Memory_new_def set_host_def options_start_def Let_def)

lemma hello_args: "parse_args [''a.out''] = Some (options_start, Some ''a.out'')"
  by code_simp

lemma hello_boot:
  "\<exists>la. main_boot (\<lambda>_. Some hello_elf) raws h options_start (Some f) = Some (Inr la) \<and> console (la_machine la) = []"
  by (subst quiet_boot [OF hello_load]) (simp_all add: options_start_def first_machine_def Let_def)

section \<open>The run\<close>

text \<open>Four steps of the reference: the address, the byte, the character, the power-off.\<close>

lemma hello_isa:
  "isa_at (im_memory (hello_image raws)) 0 = Some (I_LUI 11 0x10000, 4)"
  "isa_at (im_memory (hello_image raws)) 4 = Some (I_LD L_BU 10 11 0, 4)"
  "isa_at (im_memory (hello_image raws)) 8 = Some (I_ST S_W 0 10 0xfffffffc, 4)"
  "isa_at (im_memory (hello_image raws)) 12 = Some (I_ST S_W 0 2 0xfffffffc, 4)"
  unfolding isa_at_def hello_image_facts by code_simp+

lemma hello_reads:
  "readable (im_memory (hello_image raws)) 0x10000" "mem_load (im_memory (hello_image raws)) 0x10000 1 = Inr [72]"
  "\<not> writable (im_memory (hello_image raws)) 0xfffffffc" "ishost (im_memory (hello_image raws)) 0xfffffffc"
  "stack_top (im_memory (hello_image raws)) = 0x20010"
proof -
  have "length (hello_bytes (raws 3)) = 0x10020" by (simp add: hello_bytes_def del: upt.simps)
  moreover have "slice_of 0 1 (hello_bytes (raws 3)) = [72]"
    by (simp add: hello_bytes_def slice_of_def splice_def del: upt.simps replicate.simps)
  ultimately show "mem_load (im_memory (hello_image raws)) 0x10000 1 = Inr [72]"
    by (simp add: access_defs isdata_def hello_image_facts seg_off_def)
qed (simp_all add: readable_def writable_def isdata_def istext_def ishost_def stack_top_def hello_image_facts HOST_BASE_def
    HOST_SIZE_def)

text \<open>A step in a turn that does not look for interrupts.\<close>

lemma board_step_plain:
  assumes "clk AND 0xf \<noteq> 0xf" and "\<not> bit (apc a) 0" and "isa_at (amem a) (apc a) = Some (i, len)"
  shows "board_step \<lparr>core = a, bcsr = f, bclk = clk, hosted = w, edata = e\<rparr> =
    map_option (\<lambda>(b, evs, off). (b\<lparr>bclk := bclk b + 1\<rparr>, evs, off))
      (board_exec i len \<lparr>core = a, bcsr = f, bclk = clk, hosted = w, edata = e\<rparr>)"
  using assms by (simp add: board_step_def poll_def priv_part_def with_priv_def Let_def)

lemma hello_board:
  "\<exists>b. board_run 4 (board_start options_start (hello_image raws)) = Some (b, [Uart 72], True) \<and>
    gpr (core b) 10 = 72 \<and> apc (core b) = 16"
proof -
  let ?m = "im_memory (hello_image raws)" and ?g = "\<lambda>r :: ireg. if r = 2 then 0x20010 else (0 :: u32)"
  let ?h = "?g(11 := 0x10000, 10 := 72)"
  let ?b = "\<lambda>g p n. \<lparr>core = \<lparr>gpr = g, apc = p, amem = ?m\<rparr>, bcsr = (\<lambda>_. 0), bclk = n, hosted = False,
      edata = snd (info_range (im_data (hello_image raws)))\<rparr>"
  have s: "board_start options_start (hello_image raws) = ?b ?g 0 0"
    by (simp add: board_start_def hello_reads(5) hello_image_facts(6) options_start_def cong: if_cong)
  note step = board_step_plain board_exec_def hello_isa xset_def port_out_def port_off_def
  have 1: "board_step (?b ?g 0 0) = Some (?b (?g(11 := 0x10000)) 4 1, [], False)"
    using hello_reads(1-4) by (simp add: step)
  have 2: "board_step (?b (?g(11 := 0x10000)) 4 1) = Some (?b ?h 8 2, [], False)"
    using hello_reads(1-4) by (simp add: step)
  have 3: "board_step (?b ?h 8 2) = Some (?b ?h 12 3, [Uart 72], False)"
    using hello_reads(1-4) by (simp add: step)
  have 4: "board_step (?b ?h 12 3) = Some (?b ?h 16 4, [], True)"
    using hello_reads(1-4) by (simp add: step)
  have "board_run 4 (board_start options_start (hello_image raws)) = Some (?b ?h 16 4, [Uart 72], True)"
    unfolding s by (simp add: numeral_nat 1 2 3 4 del: fun_upd_apply)
  then show ?thesis by simp
qed

text \<open>What the machine does with the file.\<close>

lemma hello_wraps:
  "small_text (im_memory (hello_image raws))" "no_wrap (insnMem (im_memory (hello_image raws)))"
  "no_wrap (dataMem (im_memory (hello_image raws)))" "\<not> opt_core options_start" "\<not> bit (im_entry (hello_image raws)) 0"
  by (simp_all add: small_text_def no_wrap_def hello_image_facts options_start_def)

lemma hello_runs:
  assumes "main_boot (\<lambda>_. Some hello_elf) raws h options_start (Some f) = Some (Inr la)"
  shows "\<exists>s. run os (- 1) (la_machine la) = Inr s \<and> pc (cpu s) = 16"
proof -
  obtain a where a: "board_run 4 (board_start options_start (hello_image raws)) = Some (a, [Uart 72], True)" "apc (core a) = 16"
    using hello_board by blast
  obtain s where "run os (- 1) (la_machine la) = Inr s" "board_of s = a"
    using boot_runs [OF assms hello_load hello_wraps(4,1-3) a(1)] by auto
  then show ?thesis using a(2) by (auto simp: board_of_def)
qed

end
