(* ===== verification/Boot_Props.thy ===== *)
theory Boot_Props
  imports Boot_Sample
begin

text \<open>
  Properties of the program as \<open>main\<close> puts it together: the state a run starts in, what every
  finished run has kept, the first instruction, the effect of the options, and the files that
  are refused. The witnesses boot small ELF files.
\<close>

unbundle bit_operations_syntax

section \<open>From the file to the run\<close>

text \<open>
  C6: The program starts ready to run. When \<open>main\<close> reaches the run, without \<open>-T\<close> and \<open>-D\<close>, the
  machine satisfies the invariants the other properties ask for: 32 registers with \<open>x0\<close>
  zero, allocations that cover their segments, sound decode caches even after a listing filled
  them, and no stop request. The program counter is the file's entry point, memory is the
  loaded image, and the stack pointer is the word-aligned top of the data segment.
\<close>

theorem boot_ready:
  assumes "main_boot files raws h opts elf = Some (Inr la)"
    and "main_load files elf raws (main_memory opts raws) = Inr im"
    and "textBase opts = None" and "dataBase opts = None"
  shows "machine_inv (la_machine la) \<and> caches_ok (la_machine la) \<and> \<not> stop (cpu (la_machine la)) \<and>
    pc (cpu (la_machine la)) = im_entry im \<and> memory (la_machine la) = im_memory im \<and>
    reg_val (cpu (la_machine la)) 2 = stack_top (im_memory im) AND 0xfffffffc"
  using boot_state [OF assms(1,2)] main_load_ok [OF assms(2-4)]
  by (simp add: machine_inv_def)

theorem boot_ready_witness:
  "\<exists>la. main_boot (\<lambda>_. Some hello_elf) (\<lambda>_ _. 0) (0 :: nat) options_start (Some ''a.out'') = Some (Inr la) \<and>
    reg_val (cpu (la_machine la)) 2 = 0x20010 \<and> machine_inv (la_machine la)"
proof -
  obtain la where la: "main_boot (\<lambda>_. Some hello_elf) (\<lambda>_ _. 0) (0 :: nat) options_start (Some ''a.out'') = Some (Inr la)"
    using hello_boot [of "\<lambda>_ _. 0" "0 :: nat" "''a.out''"] by blast
  have "stack_top (im_memory (hello_image (\<lambda>_ _. 0))) = 0x20010" by (rule hello_reads(5))
  then show ?thesis
    using boot_ready [OF la hello_load] la by (simp add: options_start_def)
qed

text \<open>
  C1: The program computes what the instruction set says, from the file to the end. Take the
  machine of the reference at the file's entry point, on the loaded image, with the stack pointer at the
  top of the data and every other register and control register 0, and let it fetch, decode by the manual's fields,
  execute, trap and take interrupts. If after fewer than \<open>2 ^ 64\<close> steps it powers itself off through the port or exits, then \<open>main\<close>
  ends in just that state of registers, control registers, cycle counter, memory and program counter, having printed
  what the reference printed, without touching the host. This is for a text of at most 4 MB that is not
  writable, segments that do not wrap around, and programs that stay off the host: of Newlib's calls only those to
  write to standard output and error, \<open>brk\<close>, \<open>fstat\<close> and \<open>exit\<close>, and no reading of the host's clock and random numbers.
\<close>

theorem program_computes:
  assumes "parse_args argv = Some (opts, elf)" and "\<not> debug_flag opts" and "\<not> opt_core opts"
    and "main_load files elf raws (main_memory opts raws) = Inr im"
    and "main_boot files raws h opts elf = Some (Inr la)"
    and "small_text (im_memory im)" and "no_wrap (insnMem (im_memory im))" and "no_wrap (dataMem (im_memory im))"
    and "board_run n (board_start opts im) = Some (b, evs, True)" and "n < 2 ^ 64"
  shows "\<exists>s. main_program os files raws h argv = Some (Inr (Ended (la\<lparr>la_machine := s\<rparr>) [])) \<and>
    board_of s = b \<and> console s = console (la_machine la) @ evs \<and> os_state s = h"
proof -
  obtain s where s: "run os (- 1) (la_machine la) = Inr s" "board_of s = b"
    "console s = console (la_machine la) @ evs" "os_state s = h"
    using boot_runs [OF assms(5,4,3,6-10)] by blast
  then show ?thesis using assms(1,2,5) by (intro exI [of _ s]) (simp add: main_program_def main_run_def)
qed

theorem program_computes_witness:
  "\<exists>la. main_program sample_os (\<lambda>_. Some hello_elf) (\<lambda>_ _. 0) 0 [''a.out''] = Some (Inr (Ended la [])) \<and>
    console (la_machine la) = [Uart 72] \<and> pc (cpu (la_machine la)) = 16 \<and> reg_val (cpu (la_machine la)) 10 = 72"
proof -
  obtain la where la: "main_boot (\<lambda>_. Some hello_elf) (\<lambda>_ _. 0) (0 :: nat) options_start (Some ''a.out'') = Some (Inr la)"
    "console (la_machine la) = []"
    using hello_boot [of "\<lambda>_ _. 0" "0 :: nat" "''a.out''"] by blast
  obtain b where b: "board_run 4 (board_start options_start (hello_image (\<lambda>_ _. 0))) = Some (b, [Uart 72], True)"
    "gpr (core b) 10 = 72" "apc (core b) = 16"
    using hello_board by blast
  have "\<not> debug_flag options_start" by (simp add: options_start_def)
  from program_computes [OF hello_args this hello_wraps(4) hello_load la(1) hello_wraps(1-3) b(1), of sample_os] la(2)
  obtain s where s: "main_program sample_os (\<lambda>_. Some hello_elf) (\<lambda>_ _. 0) 0 [''a.out''] =
      Some (Inr (Ended (la\<lparr>la_machine := s\<rparr>) []))" "board_of s = b" "console s = [Uart 72]"
    by auto
  then have "pc (cpu s) = 16" "reg_val (cpu s) 10 = 72" using b(2,3) by (auto simp: board_of_def abs_at_def)
  then show ?thesis using s(1,3) by (intro exI [of _ "la\<lparr>la_machine := s\<rparr>"]) simp
qed

text \<open>
  C7: Whatever is loaded and executed, when the program ends, after its run or after a session
  of the debugger with any commands, the machine still has 32 registers, \<open>x0\<close> zero and every
  segment in full where the loader put it.
\<close>

theorem program_invariant:
  assumes "main_program os files raws h argv = Some (Inr (Ended la out))"
    and "parse_args argv = Some (opts, elf)" and "textBase opts = None" and "dataBase opts = None"
    and "main_load files elf raws (main_memory opts raws) = Inr im"
  shows "machine_inv (la_machine la) \<and> layout (memory (la_machine la)) = layout (im_memory im)"
proof -
  obtain lb where b: "main_boot files raws h opts elf = Some (Inr lb)"
    "main_run os opts (la_machine lb) = Some (Inr (out, la_machine la))"
    using assms(1,2) by (auto simp: main_program_def faultfacts split: option.splits sum.splits)
  have "machine_inv (la_machine lb) \<and> memory (la_machine lb) = im_memory im"
    using boot_state [OF b(1) assms(5)] main_load_ok [OF assms(5,3,4)] by (simp add: machine_inv_def)
  then show ?thesis using main_run_kept [OF b(2)] by (simp add: kept_def)
qed

theorem program_invariant_witness:
  "\<exists>la. main_program sample_os (\<lambda>_. Some hello_elf) (\<lambda>_ _. 0) 0 [''a.out''] = Some (Inr (Ended la [])) \<and>
    machine_inv (la_machine la) \<and> pc (cpu (la_machine la)) = 16"
proof -
  obtain lb where lb: "main_boot (\<lambda>_. Some hello_elf) (\<lambda>_ _. 0) (0 :: nat) options_start (Some ''a.out'') = Some (Inr lb)"
    using hello_boot [of "\<lambda>_ _. 0" "0 :: nat" "''a.out''"] by blast
  obtain s where s: "run sample_os (- 1) (la_machine lb) = Inr s" "pc (cpu s) = 16"
    using hello_runs [OF lb] by blast
  have p: "main_program sample_os (\<lambda>_. Some hello_elf) (\<lambda>_ _. 0) 0 [''a.out''] = Some (Inr (Ended (lb\<lparr>la_machine := s\<rparr>) []))"
    using lb s(1) by (simp add: main_program_def main_run_def hello_args options_start_def)
  have "machine_inv (la_machine (lb\<lparr>la_machine := s\<rparr>)) \<and> layout (memory (la_machine (lb\<lparr>la_machine := s\<rparr>))) =
      layout (im_memory (hello_image (\<lambda>_ _. 0)))"
    by (rule program_invariant [OF p hello_args _ _ hello_load]) (simp_all add: options_start_def)
  then show ?thesis using p s(2) by auto
qed

text \<open>
  C8: The first instruction comes from the file. When a section placed in the text covers the
  entry point with four bytes to spare, and no later text section overlaps it, the first word
  the run fetches is the little-endian word of the file at that section's offset plus the
  distance from its start.
\<close>

theorem first_instruction:
  assumes "main_boot files raws h opts (Some name) = Some (Inr la)" and "files name = Some buf"
    and "readElf (Some buf) HEAP_SIZE (raws 2) (raws 3) = Inr (Some l)" and "length buf < 2 ^ 32"
    and "ehdr_at buf = Inr eh" and "shdr_loop buf eh [0..<unat (e_shnum eh)] = Inr (pre @ s # post)"
    and "range_loop buf (name_table eh (pre @ s # post)) (pre @ s # post) ranges_start = Inr r"
    and "placed r s" and "in_code r s" and "survives r s post" and "\<forall>t \<in> set (s # post). ends_inside t"
    and "e_entry eh = sh_addr s + of_nat k" and "k + 4 \<le> unat (sh_size s)"
  shows "Cpu_fetch (memory (la_machine la)) (cpu (la_machine la)) =
    Inr (le_word (slice_of (unat (sh_offset s) + k) 4 buf))"
proof -
  have load: "main_load files (Some name) raws (main_memory opts raws) =
      Inr \<lparr>im_memory = (main_memory opts raws)\<lparr>insnMem := ld_code l, dataMem := ld_data l\<rparr>,
        im_text = ld_code_infos l, im_data = ld_data_infos l, im_entry = ld_entry l\<rparr>"
    using assms(2,3) by (simp add: main_load_def)
  obtain bs where bs: "section_bytes buf r s = Inr bs"
    "seg_load (ld_code l) (sh_addr s) (unat (sh_size s)) = Inr bs"
    using loaded_section [OF assms(3-8,10,11)] assms(9) by auto
  have "length (data (ld_code l)) < 2 ^ 32"
    using readElf_shapes(1) [OF assms(3-7)] start_shapes(1) unsigned_less [of "text_end r - text_base r", where 'a = nat]
    by (simp add: shape_def)
  then have "seg_load (ld_code l) (sh_addr s + of_nat k) 4 = Inr (slice_of k 4 bs)"
    using seg_load_part [OF bs(2) assms(13)] by simp
  moreover have "bs = slice_of (unat (sh_offset s)) (unat (sh_size s)) buf"
    using bs(1) assms(9) by (auto simp: section_bytes_def in_code_def buf_bytes_def split: if_splits)
  then have "slice_of k 4 bs = slice_of (unat (sh_offset s) + k) 4 buf"
    using assms(13) by (simp add: slice_of_def drop_take add.commute min_def)
  moreover have "ld_entry l = e_entry eh" using readElf_loaded [OF assms(3-7)] by auto
  ultimately show ?thesis
    using boot_state [OF assms(1) load] assms(12) by (simp add: Cpu_fetch_def Segment_fetch32_def)
qed

theorem first_instruction_witness:
  "\<exists>la. main_boot (\<lambda>_. Some hello_elf) (\<lambda>_ _. 0) (0 :: nat) options_start (Some ''a.out'') = Some (Inr la) \<and>
    Cpu_fetch (memory (la_machine la)) (cpu (la_machine la)) = Inr 0x000105b7"
proof -
  obtain la where la: "main_boot (\<lambda>_. Some hello_elf) (\<lambda>_ _. 0) (0 :: nat) options_start (Some ''a.out'') = Some (Inr la)"
    using hello_boot [of "\<lambda>_ _. 0" "0 :: nat" "''a.out''"] by blast
  have p: "placed hello_ranges hello_text" "in_code hello_ranges hello_text" "survives hello_ranges hello_text [hello_data, hello_bss, hello_names]"
    by (simp_all add: placed_def in_code_def survives_def hello_parts)
  have e: "\<forall>t \<in> set (hello_text # [hello_data, hello_bss, hello_names]). ends_inside t"
    by (simp add: ends_inside_def hello_text_def hello_data_def hello_bss_def hello_names_def)
  have k: "e_entry hello_ehdr = sh_addr hello_text + of_nat 0" "0 + 4 \<le> unat (sh_size hello_text)" "length hello_elf < 2 ^ 32"
    by (simp_all add: hello_ehdr_def hello_text_def hello_parts(1))
  have "Cpu_fetch (memory (la_machine la)) (cpu (la_machine la)) =
      Inr (le_word (slice_of (unat (sh_offset hello_text) + 0) 4 hello_elf))"
    by (rule first_instruction [OF la refl hello_readElf k(3) hello_parts(6) hello_view(3,4) p e k(1,2)])
  moreover have "le_word (slice_of (unat (sh_offset hello_text) + 0) 4 hello_elf) = (0x000105b7 :: u32)" by code_simp
  ultimately show ?thesis using la by simp
qed

text \<open>
  C25: The program always gets to an end. Without the debugger, the only
  way \<open>main\<close> does not return or stop is a listing that was asked for and whose end the 32-bit counter cannot reach:
  with \<open>-d\<close> when the start of the text plus its end (as a 32-bit sum) is above both \<open>0xfffffffc\<close> and the start, with
  \<open>-c\<close> when the end of the text is above \<open>0xfffffffc\<close>. So it returns whenever neither is given, whatever the file,
  and for a file that is refused whatever is given.
\<close>

theorem program_returns:
  assumes "parse_args argv = Some (opts, elf)" and "\<not> debug_flag opts"
    and "\<forall>im. main_load files elf raws (main_memory opts raws) = Inr im \<longrightarrow>
      (let (a, b) = info_range (im_text im)
       in (dis_flag opts \<longrightarrow> a + b \<le> 0xfffffffc \<or> a + b \<le> a) \<and> (c_flag opts \<longrightarrow> b \<le> 0xfffffffc))"
  shows "main_program os files raws h argv \<noteq> None"
proof -
  have "main_boot files raws h opts elf \<noteq> None"
  proof (cases "main_load files elf raws (main_memory opts raws)")
    case (Inr im)
    obtain a b where r: "info_range (im_text im) = (a, b)" by fastforce
    have d: "dis_flag opts \<longrightarrow> a + b \<le> 0xfffffffc \<or> a + b \<le> a" and c: "c_flag opts \<longrightarrow> b \<le> 0xfffffffc"
      using spec [OF assms(3), of im] Inr r by simp_all
    have stop: "disasm_loop (a + b) a out s = Some (Inr (out, s))" if "a + b \<le> a" for out and s :: "'a machine"
      using that by (subst disasm_loop.simps) (simp add: leD)
    have dis: "disasm_all a b s = None \<Longrightarrow> \<not> dis_flag opts" for s :: "'a machine"
      using d disasm_loop_returns [of "a + b" a "[]" s] stop [of "[]" s] by (auto simp: disasm_all_def)
    have comp: "rv_compile 0 b s = None \<Longrightarrow> \<not> c_flag opts" for s :: "'a machine"
      using c case_loop_text [of b 0] insn_loop_returns [of b 0 _ s] by (auto simp: rv_compile_def simp del: not_None_eq)
    have "main_listing opts (a, b) s \<noteq> None" for s :: "'a machine"
      by (auto simp: main_listing_def split: option.splits sum.splits if_splits dest: dis comp)
    then show ?thesis using Inr r by (auto simp: main_boot_def Let_def split: option.split)
  qed (simp add: main_boot_def)
  then show ?thesis using assms(1,2) by (auto simp: main_program_def main_run_def chain_def split: option.splits sum.splits)
qed

theorem program_returns_witness:
  "main_program sample_os (\<lambda>_. Some hello_elf) (\<lambda>_ _. 0) 0 [''-d'', ''a.out''] \<noteq> None"
proof -
  have p: "parse_args [''-d'', ''a.out''] = Some (options_start\<lparr>dis_flag := True\<rparr>, Some ''a.out'')" by code_simp
  have m: "main_memory (options_start\<lparr>dis_flag := True\<rparr>) r = main_memory options_start r" for r
    by (simp add: main_memory_def set_host_def options_start_def Let_def)
  have "info_range (im_text (hello_image (\<lambda>_ _. 0))) = (0, 16)"
    by (simp add: hello_image_def hello_loaded_def info_range_def widen_def word_gt_0)
  then have "\<forall>im. main_load (\<lambda>_. Some hello_elf) (Some ''a.out'') (\<lambda>_ _. 0)
      (main_memory (options_start\<lparr>dis_flag := True\<rparr>) (\<lambda>_ _. 0)) = Inr im \<longrightarrow>
      (let (a, b) = info_range (im_text im)
       in (dis_flag (options_start\<lparr>dis_flag := True\<rparr>) \<longrightarrow> a + b \<le> 0xfffffffc \<or> a + b \<le> a) \<and>
          (c_flag (options_start\<lparr>dis_flag := True\<rparr>) \<longrightarrow> b \<le> 0xfffffffc))"
    unfolding m hello_load by (auto simp: options_start_def)
  then show ?thesis by (intro program_returns [OF p]) (simp add: options_start_def)
qed

section \<open>Options\<close>

lemma main_memory_over:
  "(main_memory (opts\<lparr>textBase := t, dataBase := d\<rparr>) raws)\<lparr>insnMem := a, dataMem := b\<rparr> =
    (main_memory opts raws)\<lparr>insnMem := a, dataMem := b\<rparr>"
  by (simp add: main_memory_def set_host_def Let_def Memory_new_def split: option.split)

text \<open>
  \<open>-T\<close> and \<open>-D\<close> have no effect once a file is loaded: the program boots the same machine,
  with the same listings, whatever they say, because the loader puts both segments where the
  file wants them.
\<close>

theorem base_options_ignored:
  assumes "readElf (files name) HEAP_SIZE (raws 2) (raws 3) = Inr (Some l)"
  shows "main_boot files raws h (opts\<lparr>textBase := t, dataBase := d\<rparr>) (Some name) =
    main_boot files raws h opts (Some name)"
proof -
  let ?o = "opts\<lparr>textBase := t, dataBase := d\<rparr>"
  have load: "main_load files (Some name) raws (main_memory ?o raws) = main_load files (Some name) raws (main_memory opts raws)"
    using assms by (simp add: main_load_def main_memory_over)
  have flags: "dis_flag ?o = dis_flag opts" "c_flag ?o = c_flag opts" "opt_newlib ?o = opt_newlib opts"
    "opt_quiet ?o = opt_quiet opts" "vflag ?o = vflag opts" "trace_flag ?o = trace_flag opts" "uflag ?o = uflag opts"
    by simp_all
  have "first_machine ?o m h = first_machine opts m h" "main_listing ?o x s = main_listing opts x s"
    "check_entry ?o e m = check_entry opts e m" "init_cpu ?o e f m c = init_cpu opts e f m c"
    for m x e f c and s :: "'a machine"
    unfolding first_machine_def main_listing_def check_entry_def init_cpu_def flags by (rule refl)+
  with load flags show ?thesis unfolding main_boot_def by (simp only:)
qed

theorem base_options_ignored_witness:
  "main_boot (\<lambda>_. Some sample_elf) (\<lambda>_ _. 0) (0 :: nat) (options_start\<lparr>textBase := Some ''80000000'', dataBase := None\<rparr>)
      (Some ''a.out'') =
    main_boot (\<lambda>_. Some sample_elf) (\<lambda>_ _. 0) 0 options_start (Some ''a.out'')"
  by (rule base_options_ignored [OF sample_readElf])

text \<open>
  C36: A file that is refused is run anyway. When the named file cannot be read or does not start
  like an ELF file, \<open>main\<close> goes on without it: the machine starts at address 0 in the memory
  the program was born with (moved by \<open>-T\<close> and \<open>-D\<close>), whose text nobody wrote.
\<close>

theorem refused_file_runs:
  assumes "files name = None \<or>
      (\<exists>buf. files name = Some buf \<and> length buf < 2 ^ 32 \<and> buf_strncmp buf 1 ''ELF'' = Inr False)"
    and "opt_quiet opts" and "\<not> dis_flag opts" and "\<not> c_flag opts"
  shows "main_boot files raws h opts (Some name) =
    (let m = main_memory opts raws; s = first_machine opts m h
     in Some (Inr \<lparr>la_machine = s\<lparr>cpu := init_cpu opts 0 0 m Cpu_new\<rparr>, la_disasm = None, la_warp = None\<rparr>))"
proof -
  have "readElf (files name) HEAP_SIZE (raws 2) (raws 3) = Inr None"
    using assms(1)
  proof (elim disjE exE conjE)
    fix buf :: "u8 list"
    assume b: "files name = Some buf" "length buf < 2 ^ 32" "buf_strncmp buf 1 ''ELF'' = Inr False"
    then have "unat (of_nat (length buf) :: u32) = length buf"
      by (simp add: unsigned_of_nat take_bit_nat_eq_self_iff)
    then show ?thesis using b by (simp add: readElf_def Let_def del: buf_strncmp.simps One_nat_def)
  qed (simp add: readElf_def)
  then have l: "main_load files (Some name) raws (main_memory opts raws) =
      Inr \<lparr>im_memory = main_memory opts raws, im_text = [], im_data = [], im_entry = 0\<rparr>"
    by (simp add: main_load_def)
  show ?thesis
    unfolding quiet_boot [OF l assms(2-4)] by (simp add: info_range_def Let_def)
qed

theorem refused_file_runs_witness:
  "\<exists>la. main_boot (\<lambda>_. Some [35, 33, 47, 98]) (\<lambda>_ _. 7) (0 :: nat) options_start (Some ''run.sh'') = Some (Inr la) \<and>
    pc (cpu (la_machine la)) = 0"
proof -
  have b: "buf_strncmp [35, 33, 47, 98] 1 ''ELF'' = Inr False" by code_simp
  show ?thesis
    by (subst refused_file_runs) (auto simp: b options_start_def init_cpu_facts Let_def simp del: buf_strncmp.simps One_nat_def)
qed

text \<open>
  Two long options in a row are refused. The loop that takes out a long option steps over
  the argument that moves into its place, so a second one right after it is left to
  \<open>getopt\<close>, which does not know it: the program ends with status 1.
\<close>

theorem adjacent_long_options_refused:
  assumes "take 2 a = ''--''" and "take 2 b = ''--''" and "b \<noteq> ''--''"
  shows "parse_args (a # b # rest) = None"
proof -
  obtain c cs where b: "b = CHR ''-'' # CHR ''-'' # c # cs"
    using assms(2,3) by (cases b; cases "tl b"; cases "tl (tl b)") auto
  obtain opts args where "long_loop (a # b # rest) options_start = (opts, b # args)"
    using assms(1) by (cases "long_loop rest (long_option a options_start)") simp
  moreover obtain es ops where "getopt_all (b # args) = ((CHR ''?'', []) # es, ops)"
    by (simp add: b getopt_all.simps opt_flags_def opt_args_def case_prod_unfold Let_def)
  ultimately show ?thesis
    by (simp add: parse_args_def short_option_def del: long_loop.simps getopt_all.simps)
qed

theorem adjacent_long_options_refused_witness:
  "parse_args [''--newlib'', ''--core'', ''a.out''] = None"
  by (rule adjacent_long_options_refused) simp_all

lemma read_x:
  "strtol16 (fmt_x a @ CHR '':'' # s) = (int (unat a), CHR '':'' # s)" "strtol16 (fmt_x a) = (int (unat a), [])"
  "fmt_x a \<noteq> []" "hd (fmt_x a) \<noteq> CHR ''=''"
proof -
  have n: "unat a < 2 ^ 63" using unsigned_less [of a, where 'a = nat] by simp
  show "strtol16 (fmt_x a @ CHR '':'' # s) = (int (unat a), CHR '':'' # s)"
    using strtol16_hex [OF n, of "CHR '':'' # s"] by (simp add: fmt_x_def hex_val_def)
  show "strtol16 (fmt_x a) = (int (unat a), [])" using strtol16_hex [OF n, of "[]"] by (simp add: fmt_x_def)
  obtain d where "hex_of (unat a) \<noteq> []" "d < 16" "hd (hex_of (unat a)) = hex_digit d"
    using hex_of_hd [of "unat a"] by blast
  then show "fmt_x a \<noteq> []" "hd (fmt_x a) \<noteq> CHR ''=''"
    using digit_plain [of d] by (simp_all add: fmt_x_def)
qed

text \<open>
  Addresses are read as they are printed: \<open>getAddrSize\<close> gives back the address and size
  whose hexadecimal digits stand around the colon, and \<open>getValue\<close> the value, with or
  without the leading \<open>=\<close>.
\<close>

theorem address_roundtrip:
  "getAddrSize (fmt_x a @ '':'' @ fmt_x b) = (a, b) \<and> getAddrSize (''='' @ fmt_x a @ '':'' @ fmt_x b) = (a, b) \<and>
    getAddrSize (fmt_x a) = (a, 0) \<and> getValue (fmt_x a) = a \<and> getValue (''='' @ fmt_x a) = a"
  by (simp add: getAddrSize_def getValue_def read_x)

end
