(* ===== verification/Listing_Props.thy ===== *)
theory Listing_Props
  imports Listing_Facts Composition
begin

text \<open>
  Properties of the texts the program writes: the disassembly, the listing, the translation to
  C and the names of the control registers.
\<close>

unbundle bit_operations_syntax

section \<open>The disassembler\<close>

text \<open>
  C26: The disassembler against the assembly language. For every encoding of a RV32IM/Zicsr
  instruction it prints the text of that very instruction (\<open>isa_text\<close>): its mnemonic, its registers and
  its immediate, the target address for jumps and branches; except for three groups, for which it prints what
  \<open>odd_text\<close> says: \<open>bltu\<close> and \<open>bgeu\<close> against \<open>x0\<close> as \<open>bltuz\<close> and \<open>bgeuz\<close>, which no assembler has; \<open>beq\<close>, \<open>bne\<close>, \<open>bltu\<close>
  and \<open>bgeu\<close> of \<open>x0\<close> and another register as \<open>???\<close>; and a control-register instruction in its full form with
  the control register before \<open>rd\<close>, and with its immediate in unmarked hexadecimal.
\<close>

theorem disasm_is_isa_text:
  assumes "isa_decode insn = Some i"
  shows "disasm p insn = (if departs i then odd_text p i else isa_text p i)"
  using disasm_text [OF assms] by (simp only: dis_text_def)

theorem disasm_is_isa_text_witness:
  "disasm 0 0xfe010113 = ''addi sp,sp,-32'' \<and> disasm 0 0x00100463 = ''??? ra,8''"
proof
  have i: "isa_decode 0xfe010113 = Some (I_IMM A_ADD 2 2 0xffffffe0)" "isa_decode 0x00100463 = Some (I_BR B_EQ 0 1 8)"
    by code_simp+
  have t: "isa_text 0 (I_IMM A_ADD 2 2 0xffffffe0) = ''addi sp,sp,-32''" "odd_text 0 (I_BR B_EQ 0 1 8) = ''??? ra,8''"
    by code_simp+
  have d: "\<not> departs (I_IMM A_ADD 2 2 0xffffffe0)" "departs (I_BR B_EQ 0 1 8)" by simp_all
  show "disasm 0 0xfe010113 = ''addi sp,sp,-32''" by (simp only: disasm_is_isa_text [OF i(1)] d t if_False)
  show "disasm 0 0x00100463 = ''??? ra,8''" by (simp only: disasm_is_isa_text [OF i(2)] d t if_True)
qed

text \<open>
  C27: The listing is complete and in order. Over a text of known instructions that reads
  without the host port, \<open>disasm_all\<close> writes one line per word, from the first address to the
  last, each with the address, the word, the decoded fields and the disassembly of that
  word, and leaves the machine as it was but for the decoder's tables.
\<close>

theorem listing_text:
  assumes "start + len \<le> 0xfffffffc" and "decoder_ok (decoder s)"
    and "\<forall>a \<in> set (addrs start (start + len)).
      Memory_read32 (memory s) a = Inr (w a, NoEffect) \<and> isa_decode (w a) = Some (ins a)"
  shows "\<exists>d. disasm_all start len s =
    Some (Inr (concat (map (\<lambda>a. listed a (w a) (ins a)) (addrs start (start + len))), s\<lparr>decoder := d\<rparr>)) \<and>
    decoder_ok d"
  using disasm_loop_text [OF assms, of "[]"] by (simp add: disasm_all_def)

lemma bare_read: "Memory_read32 (memory (bare_machine code)) 0 = Inr (code, NoEffect)"
  by (simp add: Memory_read32_def isdata_def istext_def Segment_read32_def seg_load_def seg_off_def slice_of_def
      bare_machine_def sample_memory_def le_word_bytes)

lemma addrs_one: "addrs 0 4 = [0]"
  by code_simp

theorem listing_text_witness:
  "\<exists>d. disasm_all 0 4 (bare_machine 0xfe010113) =
    Some (Inr (listed 0 0xfe010113 (I_IMM A_ADD 2 2 0xffffffe0), (bare_machine 0xfe010113)\<lparr>decoder := d\<rparr>))"
proof -
  have d: "decoder_ok (decoder (bare_machine 0xfe010113))" using bare_facts(1) [of "0xfe010113"] by (simp add: caches_ok_def)
  have i: "isa_decode 0xfe010113 = Some (I_IMM A_ADD 2 2 0xffffffe0)" by code_simp
  show ?thesis
    using listing_text [where start = 0 and len = 4 and s = "bare_machine 0xfe010113" and w = "\<lambda>_. 0xfe010113"
      and ins = "\<lambda>_. I_IMM A_ADD 2 2 0xffffffe0"] d i bare_read
    by (auto simp: addrs_one)
qed

text \<open>
  Every case of the translation's dispatch has its body. Over a text that reads without the
  host port, \<open>rv_compile\<close> writes the fixed head, a dispatch case for every word address up to the
  end, the fixed middle, and then the translation of the word at each of these same addresses, in order.
\<close>

theorem translation_text:
  assumes "addr + len \<le> 0xfffffffc"
    and "\<forall>a \<in> set (addrs addr (addr + len)). Memory_read32 (memory s) a = Inr (w a, NoEffect)"
  shows "rv_compile addr len s =
    Some (Inr (rv_head @ concat (map rv_case (addrs addr (addr + len))) @ rv_tail @
      concat (map (\<lambda>a. rv_insn (do_newlib s) a (w a)) (addrs addr (addr + len))), s))"
  using case_loop_text [OF assms(1)] insn_loop_text [OF assms] by (simp add: rv_compile_def)

theorem translation_text_witness:
  "rv_compile 0 4 (bare_machine 0xfe010113) =
    Some (Inr (rv_head @ rv_case 0 @ rv_tail @ rv_insn False 0 0xfe010113, bare_machine 0xfe010113))"
proof -
  have "\<not> do_newlib (bare_machine 0xfe010113)" by (simp add: bare_machine_def)
  then show ?thesis
    using translation_text [of 0 4 "bare_machine 0xfe010113" "\<lambda>_. 0xfe010113"] bare_read by (simp add: addrs_one)
qed

text \<open>
  When the translation ends. \<open>rv_compile\<close> from address 0 returns, or stops the program,
  just when the length is at most \<open>0xfffffffc\<close>: above it, the 32-bit address wraps around
  before it reaches the end and the loop never leaves.
\<close>

theorem translation_ends:
  "rv_compile 0 len s = None \<longleftrightarrow> 0xfffffffc < len"
proof (cases "0xfffffffc < len")
  case True
  then show ?thesis by (simp add: rv_compile_def case_loop_runs_on)
next
  case False
  then have "len \<le> 0xfffffffc" by (simp add: not_less)
  then show ?thesis using False insn_loop_returns [of len] by (simp add: rv_compile_def case_loop_text)
qed

end
