(* ===== verification/Debugger_Props.thy ===== *)
theory Debugger_Props
  imports Debugger_Facts
begin

text \<open>
  Properties of the debugger: what a step does, what \<open>mem\<close> and \<open>pc\<close> do with the numbers typed,
  and how a session ends.
\<close>

section \<open>Numbers as they are typed\<close>

lemma hex_val_bound: "hex_val c = Some d \<Longrightarrow> d < 16"
proof -
  assume "hex_val c = Some d"
  then have "(c, d) \<in> set (zip ''0123456789abcdefABCDEF'' ([0..<16] @ [10..<16]))"
    unfolding hex_val_def by (rule map_of_SomeD)
  then have "d \<in> set ([0..<16] @ [10..<16])" by (rule set_zip_rightD)
  then show ?thesis by auto
qed

lemma base_digits_hex: "base_digits 16 s acc = fst (hex_digits s acc)"
  by (induction s arbitrary: acc) (auto split: option.split dest: hex_val_bound)

lemma strtol0_x: "strtol0 (''0x'' @ fmt_x a) = int (unat a)"
proof -
  obtain d where d: "hex_of (unat a) \<noteq> []" "d < 16" "hd (hex_of (unat a)) = hex_digit d" using hex_of_hd by blast
  have "int (unat a) < 2 ^ 32" using unsigned_less [of a, where 'a = int] by simp
  then show ?thesis
    using d hex_digits_append [of "unat a" "[]" 0]
    by (simp add: strtol0_def signed_part_def isspace_def is_hex_def fmt_x_def hex_val_digit base_digits_hex
        clamp_long_def)
qed

lemma x_word: "''0x'' @ fmt_x a \<noteq> []" "\<forall>c \<in> set (''0x'' @ fmt_x a). \<not> isspace c"
proof -
  have h: "\<not> isspace c" if c: "c \<in> set (hex_of (unat a))" for c
    using bspec [OF hex_of_all c] digit_plain by (elim exE) simp
  have "\<not> isspace (CHR ''0'')" "\<not> isspace (CHR ''x'')" by code_simp+
  with h show "\<forall>c \<in> set (''0x'' @ fmt_x a). \<not> isspace c" unfolding fmt_x_def by simp
qed simp

lemma split_words:
  assumes "u \<noteq> []" "\<forall>c \<in> set u. \<not> isspace c" "v \<noteq> []" "\<forall>c \<in> set v. \<not> isspace c"
  shows "split_args (Suc (Suc (Suc n))) (u @ CHR '' '' # v) = [u, v]"
    "w \<noteq> [] \<Longrightarrow> \<forall>c \<in> set w. \<not> isspace c \<Longrightarrow>
      split_args (Suc (Suc (Suc (Suc n)))) (u @ CHR '' '' # v @ CHR '' '' # w) = [u, v, w]"
proof -
  have sp: "isspace (CHR '' '')" by (simp add: isspace_def)
  have one: "split_args (Suc (Suc n)) w = [w]" if "w \<noteq> []" "\<forall>c \<in> set w. \<not> isspace c" for w n
    using no_space_split [OF that, of "[]" "Suc n"] by simp
  have two: "split_args (Suc m) (u @ CHR '' '' # r) = u # split_args m (CHR '' '' # r)"
      if "u \<noteq> []" "\<forall>c \<in> set u. \<not> isspace c" for u r m
    using that sp by (intro no_space_split) simp_all
  note split_args.simps [simp del]
  show "split_args (Suc (Suc (Suc n))) (u @ CHR '' '' # v) = [u, v]"
    by (simp add: two [OF assms(1,2)] split_blank one [OF assms(3,4)])
  show "split_args (Suc (Suc (Suc (Suc n)))) (u @ CHR '' '' # v @ CHR '' '' # w) = [u, v, w]"
    if "w \<noteq> []" "\<forall>c \<in> set w. \<not> isspace c"
    by (simp add: two [OF assms(1,2)] two [OF assms(3,4)] split_blank one [OF that])
qed

section \<open>A step\<close>

lemma decode_cached_cpu:
  "pc c = pc (cpu s) \<Longrightarrow>
    decode_cached code (s\<lparr>cpu := c\<rparr>) = chain (decode_cached code s) (\<lambda>(v, t). Inr (v, t\<lparr>cpu := c\<rparr>))"
  by (cases s) (simp add: decode_cached_def Let_def chain_assoc case_prod_unfold split: option.split)

lemma fresh_turn:
  assumes "pc c = pc (cpu s)" and "cycle c = 0"
  shows "run_step os (s\<lparr>cpu := c\<rparr>) =
    chain (fetch_code (memory s) (cpu s)) (\<lambda>(code, len).
    chain (decode_cached code s) (\<lambda>(v, t).
    chain (execute os v (put_cpu t (c\<lparr>pc_inc := pc c + len, pc_next := pc c + len\<rparr>))) (\<lambda>t.
      Inr (put_cpu t ((cpu t)\<lparr>pc := pc_next (cpu t), cycle := cycle (cpu t) + 1\<rparr>)))))"
proof -
  have "fetch_code (memory s) c = fetch_code (memory s) (cpu s)"
    using assms(1) by (simp add: fetch_code_def Cpu_fetch_def)
  then show ?thesis
    using assms by (simp add: run_step_def run_insn_def decode_cached_cpu chain_assoc case_prod_unfold check_irqs_def
        Let_def put_cpu_def)
qed

text \<open>
  A single step is the execution of the one instruction at the program counter, with the cycle
  counter restarted at 0: the interrupt check, due when the counter's low four bits are
  all ones, is never reached, so no step, however many are made, takes an interrupt.
\<close>

theorem step_takes_no_interrupt:
  assumes "line = [] \<or> line = ''s'' \<or> line = ''step''"
  shows "debug_command os line (s, core) =
    chain (fetch_code (memory s) (cpu s)) (\<lambda>(code, len).
    chain (decode_cached code s) (\<lambda>(v, t).
    chain (execute os v (put_cpu t ((cpu s)\<lparr>running := True, cycle := 0, pc_inc := pc (cpu s) + len,
      pc_next := pc (cpu s) + len\<rparr>))) (\<lambda>t.
    chain (show_current (put_cpu t ((cpu t)\<lparr>pc := pc_next (cpu t), cycle := cycle (cpu t) + 1, stop := False\<rparr>)))
      (\<lambda>(out, t). Inr (out, Some (t, core))))))"
proof -
  let ?c = "(cpu s)\<lparr>running := True, cycle := 0\<rparr>"
  have "debug_command os line (s, core) = chain (debug_run os 1 [] s) (\<lambda>(out, s). Inr (out, Some (s, core)))"
    using assms by (auto simp: debug_command_def buf_after_def isspace_def numeral_nat)
  also have "\<dots> = chain (run_step os (s\<lparr>cpu := ?c\<rparr>)) (\<lambda>t.
      chain (show_current (put_cpu t ((cpu t)\<lparr>stop := False\<rparr>))) (\<lambda>(out, t). Inr (out, Some (t, core))))"
    by (simp add: debug_run_def run_one chain_assoc case_prod_unfold put_cpu_def)
  finally show ?thesis
    by (simp add: fresh_turn chain_assoc case_prod_unfold put_cpu_def)
qed


theorem step_takes_no_interrupt_witness:
  "debug_command sample_os [] (bare_machine 0x13, 0) = debug_command sample_os ''step'' (bare_machine 0x13, 0)"
  by (simp add: step_takes_no_interrupt)

section \<open>Typed numbers\<close>

lemma mem_words: "split_args 16 (''mem 0x'' @ fmt_x a @ '' 0x'' @ fmt_x v) = [''mem'', ''0x'' @ fmt_x a, ''0x'' @ fmt_x v]"
proof -
  have "\<forall>c \<in> set ''mem''. \<not> isspace c" by code_simp
  then have "split_args (Suc (Suc (Suc (Suc 12)))) (''mem'' @ CHR '' '' # (''0x'' @ fmt_x a) @ CHR '' '' # (''0x'' @ fmt_x v)) =
      [''mem'', ''0x'' @ fmt_x a, ''0x'' @ fmt_x v]"
    by (intro split_words(2) x_word) simp
  then show ?thesis by (simp add: numeral_nat del: split_args.simps)
qed

lemma pc_words: "split_args 16 (''pc 0x'' @ fmt_x a) = [''pc'', ''0x'' @ fmt_x a]"
proof -
  have "\<forall>c \<in> set ''pc''. \<not> isspace c" by code_simp
  then have "split_args (Suc (Suc (Suc 13))) (''pc'' @ CHR '' '' # (''0x'' @ fmt_x a)) = [''pc'', ''0x'' @ fmt_x a]"
    by (intro split_words(1) x_word) simp
  then show ?thesis by (simp add: numeral_nat del: split_args.simps)
qed

lemma word_then_space:
  assumes "\<forall>c \<in> set w. \<not> isspace c" and "w \<noteq> []"
  shows "buf_after (w @ CHR '' '' # r) = w"
proof -
  have "takeWhile isspace (w @ CHR '' '' # r) = []" "dropWhile isspace (w @ CHR '' '' # r) = w @ CHR '' '' # r"
    using assms by (cases w; simp)+
  then show ?thesis using assms(1) by (simp add: buf_after_def takeWhile_append isspace_def)
qed

lemma debug_command_mem:
  assumes "split_args 16 line = ''mem'' # args" and "buf_after line = ''mem''"
  shows "debug_command os line (s, core) =
    chain (debug_mem (''mem'' # args) s) (\<lambda>(out, s). Inr (out, Some (s, core)))"
  using assms by (simp add: debug_command_def Let_def)

lemma debug_command_pc:
  assumes "split_args 16 line = [''pc'', x]" and "buf_after line = ''pc''"
  shows "debug_command os line (s, core) =
    (let p = word_of_int (strtol0 x)
     in Inr (''PC: '' @ fmt_08x p @ nl, Some (s\<lparr>cpu := (cpu s)\<lparr>pc := p\<rparr>\<rparr>, core)))"
  using assms by (simp add: debug_command_def Let_def)

text \<open>
  \<open>mem\<close> with an address and a value writes the value to the address it names, not to the one
  typed: whatever the address, the word \<open>v\<close> goes to address \<open>v\<close>, and that is what is shown.
\<close>

theorem mem_ignores_address:
  "debug_command os (''mem 0x'' @ fmt_x a @ '' 0x'' @ fmt_x v) (s, core) =
    chain (Memory_write32 (memory s) v v) (\<lambda>(m, e).
      let t = apply_host e (s\<lparr>memory := m\<rparr>)
      in chain (Memory_read32 (memory t) v) (\<lambda>(w, e).
        Inr (''0x'' @ fmt_08x v @ '': 0x'' @ fmt_08x w @ nl, Some (apply_host e t, core))))"
proof -
  have b: "buf_after (''mem 0x'' @ fmt_x a @ '' 0x'' @ fmt_x v) = ''mem''"
    using word_then_space [of "''mem''" "''0x'' @ fmt_x a @ '' 0x'' @ fmt_x v"] by (simp add: isspace_def)
  have n: "word_of_int (strtol0 (''0x'' @ fmt_x v)) = v" by (simp only: strtol0_x of_int_of_nat_eq) simp
  show ?thesis
    unfolding debug_command_mem [OF mem_words b]
    using n by (simp add: debug_mem_def Let_def chain_assoc case_prod_unfold)
qed

text \<open>
  \<open>pc\<close> sets the program counter to the address typed, and changes nothing else.
\<close>

theorem pc_command_sets:
  "debug_command os (''pc 0x'' @ fmt_x a) (s, core) =
    Inr (''PC: '' @ fmt_08x a @ nl, Some (s\<lparr>cpu := (cpu s)\<lparr>pc := a\<rparr>\<rparr>, core))"
proof -
  have b: "buf_after (''pc 0x'' @ fmt_x a) = ''pc''"
    using word_then_space [of "''pc''" "''0x'' @ fmt_x a"] by (simp add: isspace_def)
  have n: "word_of_int (strtol0 (''0x'' @ fmt_x a)) = a" by (simp only: strtol0_x of_int_of_nat_eq) simp
  show ?thesis unfolding debug_command_pc [OF pc_words b] n Let_def by (rule refl)
qed

end
