(* ===== verification/Image_Files.thy ===== *)
theory Image_Files
  imports Elf Printf
begin

text \<open>
  The writers of \<open>src/Elf64.cpp\<close> and the helpers beside them, which the simulator keeps from the
  converter it grew out of and does not call: Intel hex, binary and memory initialization files,
  the start-up code for the data section, byte swapping, and the names of section types. A file is
  the string that is written; opening it always succeeds.
\<close>

unbundle bit_operations_syntax

section \<open>Counting\<close>

text \<open>\<open>for(unsigned i = first; i < lim; i += step) body\<close>; the counter may wrap around and the loop not end.\<close>

partial_function (option) for_loop ::
    "(u32 \<Rightarrow> 's \<Rightarrow> 's result) \<Rightarrow> u32 \<Rightarrow> u32 \<Rightarrow> u32 \<Rightarrow> 's \<Rightarrow> 's result option" where
  "for_loop body step lim i s =
    (if i < lim then
       (case body i s of Inl e \<Rightarrow> Some (Inl e) | Inr s \<Rightarrow> for_loop body step lim (i + step) s)
     else Some (Inr s))"

section \<open>Names\<close>

abbreviation (input) SHT_PROGBITS :: u32 where "SHT_PROGBITS \<equiv> 1"
abbreviation (input) SHT_INIT_ARRAY :: u32 where "SHT_INIT_ARRAY \<equiv> 14"
abbreviation (input) SHT_FINI_ARRAY :: u32 where "SHT_FINI_ARRAY \<equiv> 15"

definition sectHdr2str :: "u32 \<Rightarrow> string" where
  "sectHdr2str type =
    (if type = SHT_PROGBITS then ''SHT_PROGBITS''
     else if type = SHT_NOBITS then ''SHT_NOBITS''
     else if type = SHT_INIT_ARRAY then ''SHT_INIT_ARRAY''
     else if type = SHT_FINI_ARRAY then ''SHT_FINI_ARRAY''
     else ''None'')"

definition flags2str :: "u32 \<Rightarrow> string" where
  "flags2str flags =
    (if flags AND SHF_WRITE \<noteq> 0 then ''W'' else []) @
    (if flags AND SHF_ALLOC \<noteq> 0 then ''A'' else []) @
    (if flags AND SHF_EXECINSTR \<noteq> 0 then ''X'' else [])"

text \<open>The comparison stops at the first difference; both strings end in a NUL.\<close>

fun sectCmp :: "string \<Rightarrow> string \<Rightarrow> bool" where
  "sectCmp [] [] = True"
| "sectCmp [] (d # t) = False"
| "sectCmp (c # s) [] = False"
| "sectCmp (c # s) (d # t) = (if c \<noteq> d then c = CHR ''.'' \<and> d = CHR ''*'' else sectCmp s t)"

text \<open>
  \<open>sscanf(s, "%x", &ret)\<close>, which reads as \<open>strtoul\<close> does and keeps the low 32 bits; \<open>ret\<close> stays 0 when
  there is no digit.
\<close>

definition hextoi :: "string \<Rightarrow> u32" where
  "hextoi s =
    (let t = dropWhile isspace s;
         neg = (t \<noteq> [] \<and> hd t = CHR ''-'');
         u = (if t \<noteq> [] \<and> (hd t = CHR ''-'' \<or> hd t = CHR ''+'') then tl t else t);
         v = (if (take 2 u = ''0x'' \<or> take 2 u = ''0X'') \<and> is_hex (drop 2 u) then drop 2 u else u);
         n = fst (hex_digits v 0)
     in if \<not> is_hex v then 0
        else if 2 ^ 64 \<le> n then 0xffffffff
        else if neg then - of_nat n else of_nat n)"

section \<open>Words in a buffer\<close>

text \<open>\<open>ntohl\<close> of an \<open>unsigned long\<close>, 64 bits wide on the host.\<close>

definition ntohl :: "bool \<Rightarrow> u64 \<Rightarrow> u64" where
  "ntohl littleEndian a =
    (if littleEndian then a
     else drop_bit 24 a OR drop_bit 8 (a AND 0x00ff0000) OR push_bit 8 (a AND 0xff00) OR push_bit 24 a)"

definition set_low :: "bool \<Rightarrow> u8 list \<Rightarrow> nat \<Rightarrow> u64 \<Rightarrow> u8 list result" where
  "set_low littleEndian buf address value =
    chain (buf_word buf address 8) (\<lambda>opcode.
      let opcode = ntohl littleEndian opcode;
          opcode = opcode AND 0xffff0000 OR value AND 0xffff;
          opcode = ntohl littleEndian opcode
      in Inr (splice address (le_bytes 8 opcode) buf))"

definition swap_word :: "u32 \<Rightarrow> u8 list \<Rightarrow> u8 list result" where
  "swap_word i buf =
    chain (buf_bytes buf (unat i) 1) (\<lambda>t0. chain (buf_bytes buf (unat (i + 1)) 1) (\<lambda>t1.
    chain (buf_bytes buf (unat (i + 2)) 1) (\<lambda>t2. chain (buf_bytes buf (unat (i + 3)) 1) (\<lambda>t3.
      Inr (buf[unat i := hd t3, unat (i + 1) := hd t2, unat (i + 2) := hd t1, unat (i + 3) := hd t0])))))"

definition byteSwap :: "u8 list \<Rightarrow> u32 \<Rightarrow> u8 list result option" where
  "byteSwap buf sz = for_loop swap_word 4 sz 0 buf"

section \<open>Intel hex\<close>

definition outHexLine :: "u16 \<Rightarrow> u8 list \<Rightarrow> u32 \<Rightarrow> u32 \<Rightarrow> string result" where
  "outHexLine add d len type =
    chain (buf_bytes d 0 (unat len)) (\<lambda>bs.
      let checksum = len + ucast add + ucast (drop_bit 8 add) + type;
          checksum = foldl (\<lambda>sum b. sum + ucast b) checksum bs
      in Inr ('':'' @ fmt_02X len @ fmt_04X (ucast add) @ fmt_02X type @
           concat (map (\<lambda>b. fmt_02X (ucast b AND 0xff)) bs) @ fmt_02X ((- checksum) AND 0xff) @ nl))"

definition outHexSegment :: "u16 \<Rightarrow> string result" where
  "outHexSegment segment = outHexLine 0x0000 [ucast (drop_bit 8 segment), ucast segment] 2 2"

text \<open>What the loop changes: the pointer to the data, the address, the segment, the file.\<close>

record hex_state =
  hex_data :: "u8 list"
  hex_addr :: u64
  hex_segment :: u16
  hex_out :: string

definition hex_block :: "u32 \<Rightarrow> u32 \<Rightarrow> hex_state \<Rightarrow> hex_state result" where
  "hex_block len n h =
    (let segment = ucast (drop_bit 4 (hex_addr h) AND 0xf000) :: u16
     in chain (if segment \<noteq> hex_segment h then outHexSegment segment else Inr []) (\<lambda>t.
        let cnt = len - n; cnt = (if 32 <s cnt then 32 else cnt)
        in chain (outHexLine (ucast (hex_addr h AND 0xffff)) (hex_data h) cnt 0x00) (\<lambda>u.
           Inr \<lparr>hex_data = drop 32 (hex_data h), hex_addr = hex_addr h + 32, hex_segment = segment,
             hex_out = hex_out h @ t @ u\<rparr>)))"

definition saveIntel :: "u8 list \<Rightarrow> u32 \<Rightarrow> string result option" where
  "saveIntel d len =
    map_option (\<lambda>r. chain r (\<lambda>h. Inr (hex_out h @ '':00000001FF'' @ nl)))
      (for_loop (hex_block len) 32 len 0 \<lparr>hex_data = d, hex_addr = 0, hex_segment = 0xffff, hex_out = []\<rparr>)"

section \<open>The other files\<close>

definition saveBinary :: "u8 list \<Rightarrow> u32 \<Rightarrow> u8 list result" where
  "saveBinary d len = buf_bytes d 0 (unat len)"

definition mif_word :: "bool \<Rightarrow> u8 list \<Rightarrow> u32 \<Rightarrow> u32 result" where
  "mif_word littleEndian d i = chain (buf_word d (unat i) 8) (\<lambda>a. Inr (ucast (ntohl littleEndian a)))"

definition mif_line :: "bool \<Rightarrow> u8 list \<Rightarrow> u32 \<Rightarrow> string \<Rightarrow> string result" where
  "mif_line littleEndian d i out =
    chain (mif_word littleEndian d i) (\<lambda>w.
      Inr (out @ '' '' @ fmt_04x (i div 4) @ '' : '' @ fmt_08x w @ '';'' @ nl))"

definition saveMif :: "bool \<Rightarrow> string \<Rightarrow> u8 list \<Rightarrow> u32 \<Rightarrow> string result option" where
  "saveMif littleEndian filename d len =
    (let width = 32; depth = (len + 3) div 4
     in map_option (\<lambda>r. chain r (\<lambda>t. Inr (t @ ''END;'' @ nl)))
       (for_loop (mif_line littleEndian d) 4 len 0
         (''%Rom memory - '' @ filename @ '', '' @ fmt_d width @ '' x '' @ fmt_d depth @ ''%'' @ nl @
          nl @ ''DEPTH = '' @ fmt_d depth @ '';'' @ nl @ ''WIDTH = '' @ fmt_d width @ '';'' @ nl @
          ''ADDRESS_RADIX = HEX;'' @ nl @ ''DATA_RADIX = HEX;'' @ nl @ ''CONTENT BEGIN'' @ nl)))"

definition mif_i_line :: "bool \<Rightarrow> u8 list \<Rightarrow> u32 \<Rightarrow> string \<Rightarrow> string result" where
  "mif_i_line littleEndian d i out = chain (mif_word littleEndian d i) (\<lambda>w. Inr (out @ fmt_08x w @ nl))"

definition saveMif_i :: "bool \<Rightarrow> u8 list \<Rightarrow> u32 \<Rightarrow> string result option" where
  "saveMif_i littleEndian d len = for_loop (mif_i_line littleEndian d) 4 len 0 []"

definition mif8_line :: "u8 list \<Rightarrow> u32 \<Rightarrow> string \<Rightarrow> string result" where
  "mif8_line d i out = chain (buf_word d (unat i) 1 :: u8 result) (\<lambda>b. Inr (out @ fmt_08x (ucast b) @ nl))"

definition saveMif8_i :: "u8 list \<Rightarrow> u32 \<Rightarrow> string result option" where
  "saveMif8_i d len = for_loop (mif8_line d) 1 len 0 []"

section \<open>Start-up code for the data\<close>

text \<open>The four bytes are read one by one, as indices into the data.\<close>

definition init_word :: "bool \<Rightarrow> u8 list \<Rightarrow> u32 \<Rightarrow> u32 result" where
  "init_word littleEndian d i =
    chain (buf_word d (unat i) 1 :: u8 result) (\<lambda>b0. chain (buf_word d (unat (i + 1)) 1 :: u8 result) (\<lambda>b1.
    chain (buf_word d (unat (i + 2)) 1 :: u8 result) (\<lambda>b2. chain (buf_word d (unat (i + 3)) 1 :: u8 result) (\<lambda>b3.
      Inr (if littleEndian
           then push_bit 24 (ucast b3) OR push_bit 16 (ucast b2) OR push_bit 8 (ucast b1) OR ucast b0
           else push_bit 24 (ucast b0) OR push_bit 16 (ucast b1) OR push_bit 8 (ucast b2) OR ucast b3)))))"

definition init_line :: "bool \<Rightarrow> u8 list \<Rightarrow> u32 \<Rightarrow> u32 \<Rightarrow> string \<Rightarrow> string result" where
  "init_line littleEndian d start i out =
    chain (init_word littleEndian d i) (\<lambda>w.
      Inr (if w \<noteq> 0 then
             out @ tabs 1 @ ''la $3,0x'' @ fmt_x w @ nl @
             tabs 1 @ ''sw $3,0x'' @ fmt_x (i - start) @ ''($2)'' @ nl
           else out))"

definition initData :: "bool \<Rightarrow> u8 list \<Rightarrow> u32 \<Rightarrow> u32 \<Rightarrow> string result option" where
  "initData littleEndian d start end =
    map_option (\<lambda>r. chain r (\<lambda>t. Inr (t @
        tabs 1 @ ''jr $31'' @ nl @ tabs 1 @ ''nop'' @ nl @
        tabs 1 @ ''.end'' @ tabs 1 @ ''_initData'' @ nl @ nl)))
      (for_loop (init_line littleEndian d start) 4 end start
        (tabs 1 @ ''# data initialization'' @ nl @ nl @
         tabs 1 @ ''.set nomips16'' @ nl @ nl @
         tabs 1 @ ''.text'' @ nl @
         tabs 1 @ ''.glob'' @ tabs 1 @ ''_initData'' @ nl @
         tabs 1 @ ''.ent'' @ tabs 1 @ ''_initData'' @ nl @ nl @
         ''_initData:'' @ nl @
         tabs 1 @ ''la $2,0x'' @ fmt_x start @ nl @
         tabs 1 @ ''la $3,0x'' @ fmt_x end @ nl @
         ''3:'' @ tabs 1 @ ''sw $0,0($2)'' @ nl @
         tabs 1 @ ''bltu $2,$3,3b'' @ nl @
         tabs 1 @ ''addiu $2,$2,4'' @ nl @ nl @
         tabs 1 @ ''# Set up base pointer and copy data'' @ nl @
         tabs 1 @ ''la $2,'' @ fmt_d start @ nl))"

end
