(* ===== verification/Image_Props.thy ===== *)
theory Image_Props
  imports Image_Files
begin

text \<open>
  Properties of the writers: an Intel hex file read back by the format's own rules gives the
  bytes that were written, every checksum included; what \<open>sectCmp\<close> compares; swapping twice.
\<close>

unbundle bit_operations_syntax

section \<open>A reader of Intel hex\<close>

fun hex_bytes :: "string \<Rightarrow> u8 list option" where
  "hex_bytes [] = Some []"
| "hex_bytes [c] = None"
| "hex_bytes (a # b # r) =
    (case (hex_val a, hex_val b) of
       (Some x, Some y) \<Rightarrow> map_option (Cons (of_nat (16 * x + y))) (hex_bytes r)
     | _ \<Rightarrow> None)"

text \<open>A record: its address, type and bytes. The bytes of the line add up to 0.\<close>

definition read_record :: "string \<Rightarrow> (nat \<times> u8 \<times> u8 list) option" where
  "read_record l =
    (if l = [] \<or> hd l \<noteq> CHR '':'' then None
     else case hex_bytes (tl l) of
       Some (n # hi # lo # ty # r) \<Rightarrow>
         if length r = Suc (unat n) \<and> sum_list (n # hi # lo # ty # r) = 0
         then Some (256 * unat hi + unat lo, ty, butlast r) else None
     | _ \<Rightarrow> None)"

text \<open>The bytes and where they go, from the lines; the base is that of the last segment record.\<close>

fun read_records :: "string list \<Rightarrow> nat \<Rightarrow> (nat \<times> u8) list option" where
  "read_records [] base = None"
| "read_records (l # ls) base =
    (case read_record l of
       None \<Rightarrow> None
     | Some (addr, ty, bs) \<Rightarrow>
         if ty = 1 then (if ls = [] then Some [] else None)
         else if ty = 2 then (if length bs = 2 then read_records ls (256 * unat (bs ! 0) + unat (bs ! 1)) else None)
         else if ty = 0 then map_option (append (zip [16 * base + addr..<16 * base + addr + length bs] bs)) (read_records ls base)
         else None)"

fun text_lines :: "string \<Rightarrow> string \<Rightarrow> string list" where
  "text_lines acc [] = (if acc = [] then [] else [rev acc])"
| "text_lines acc (c # cs) = (if c = CHR 0x0a then rev acc # text_lines [] cs else text_lines (c # acc) cs)"

definition read_image :: "string \<Rightarrow> (nat \<times> u8) list option" where
  "read_image t = read_records (text_lines [] t) 0"

lemma text_lines_app: "CHR 0x0a \<notin> set l \<Longrightarrow> text_lines acc (l @ nl @ r) = (rev acc @ l) # text_lines [] r"
  by (induction l arbitrary: acc) (auto simp: nl_def)

section \<open>Digits\<close>

fun hex_fixed :: "nat \<Rightarrow> nat \<Rightarrow> string" where
  "hex_fixed 0 n = []"
| "hex_fixed (Suc k) n = hex_fixed k (n div 16) @ [hex_digit_upper (n mod 16)]"

lemma hex_fixed_zero: "hex_fixed k 0 = replicate k (CHR ''0'')"
  by (induction k) (simp_all add: hex_digit_upper_def replicate_append_same)

lemma hex_upper_fixed: "n < 16 ^ Suc k \<Longrightarrow> pad0 (Suc k) (hex_of_upper n) = hex_fixed (Suc k) n"
proof (induction k arbitrary: n)
  case 0
  then show ?case by (simp add: pad0_def hex_of_upper.simps)
next
  case (Suc k)
  show ?case
  proof (cases "n < 16")
    case True
    then have "n div 16 = 0" by simp
    then have "hex_fixed (Suc (Suc k)) n = replicate (Suc k) (CHR ''0'') @ [hex_digit_upper n]"
      using True hex_fixed_zero [of "Suc k"] by (simp only: hex_fixed.simps) simp
    then show ?thesis using True by (simp add: pad0_def hex_of_upper.simps [of n])
  next
    case False
    have "n div 16 < 16 ^ Suc k" using Suc.prems by (simp add: less_mult_imp_div_less)
    from Suc.IH [OF this] show ?thesis using False
      by (simp add: pad0_def hex_of_upper.simps [of n])
  qed
qed

lemma hex_val_upper: "d < 16 \<Longrightarrow> hex_val (hex_digit_upper d) = Some d"
proof -
  assume d: "d < 16"
  have "map hex_val ''0123456789ABCDEF'' = map Some [0..<16]" by (simp add: hex_val_def upt_rec)
  from arg_cong [OF this, of "\<lambda>xs. xs ! d"] d show ?thesis
    unfolding hex_digit_upper_def by (subst (asm) nth_map) (simp_all add: nth_map)
qed

lemma fmt_byte: "fmt_02X (ucast (b :: u8)) = [hex_digit_upper (unat b div 16), hex_digit_upper (unat b mod 16)]"
proof -
  have "unat b < 256" using unsigned_less [of b, where 'a = nat] by simp
  then have b: "unat (ucast b :: u32) = unat b" by (simp add: unsigned_ucast_eq take_bit_nat_eq_self_iff)
  have l: "unat b < 16 ^ Suc 1" "unat b div 16 mod 16 = unat b div 16" using unsigned_less [of b, where 'a = nat] by simp_all
  from hex_upper_fixed [OF l(1)] l(2) show ?thesis
    unfolding fmt_02X_def b by (simp add: numeral_2_eq_2)
qed

lemma hex_bytes_byte: "hex_bytes (fmt_02X (ucast b) @ r) = map_option (Cons b) (hex_bytes r)"
proof -
  have "unat b < 256" using unsigned_less [of b, where 'a = nat] by simp
  then have "hex_val (hex_digit_upper (unat b div 16)) = Some (unat b div 16)"
    "hex_val (hex_digit_upper (unat b mod 16)) = Some (unat b mod 16)"
    by (simp_all add: hex_val_upper)
  moreover have "16 * (unat b div 16) + unat b mod 16 = unat b" by simp
  ultimately show ?thesis by (simp add: fmt_byte del: of_nat_add of_nat_mult)
qed

lemma hex_bytes_all: "hex_bytes (concat (map (\<lambda>b. fmt_02X (ucast b)) bs)) = Some bs"
  by (induction bs) (simp_all add: hex_bytes_byte)

lemma two_bytes:
  "unat (ucast (drop_bit 8 a) :: u8) = unat (a :: u16) div 256" "unat (ucast a :: u8) = unat (a :: u16) mod 256"
proof -
  have "unat a < 65536" using unsigned_less [of a, where 'a = nat] by simp
  then show "unat (ucast (drop_bit 8 a) :: u8) = unat a div 256" "unat (ucast a :: u8) = unat a mod 256"
    by (simp_all add: unsigned_ucast_eq unsigned_drop_bit_eq take_bit_eq_mod flip: drop_bit_eq_div)
      (simp add: drop_bit_eq_div)
qed

lemma fmt_two: "fmt_04X (ucast (a :: u16)) = fmt_02X (ucast (ucast (drop_bit 8 a) :: u8)) @ fmt_02X (ucast (ucast a :: u8))"
proof -
  have l: "unat a < 65536" using unsigned_less [of a, where 'a = nat] by simp
  then have a: "unat (ucast a :: u32) = unat a" by (simp add: unsigned_ucast_eq take_bit_nat_eq_self_iff)
  have f: "hex_fixed (Suc 3) n = [hex_digit_upper (n div 256 div 16 mod 16), hex_digit_upper (n div 256 mod 16),
      hex_digit_upper (n div 16 mod 16), hex_digit_upper (n mod 16)]" for n
    by (simp add: numeral_3_eq_3 div_mult2_eq [symmetric])
  have "unat a < 16 ^ Suc 3" using l by simp
  from hex_upper_fixed [OF this] have "fmt_04X (ucast a) = hex_fixed (Suc 3) (unat a)" by (simp add: fmt_04X_def a)
  moreover have "unat a mod 256 = 16 * (unat a div 16 mod 16) + unat a mod 16"
    using mod_mult2_eq [of "unat a" 16 16] by simp
  then have "unat a div 16 mod 16 = unat a mod 256 div 16" "unat a mod 16 = unat a mod 256 mod 16" by simp_all
  moreover have "unat a div 256 div 16 mod 16 = unat a div 256 div 16" using l by simp
  moreover have "fmt_02X (ucast (ucast (drop_bit 8 a) :: u8)) = [hex_digit_upper (unat a div 256 div 16), hex_digit_upper (unat a div 256 mod 16)]"
    "fmt_02X (ucast (ucast a :: u8)) = [hex_digit_upper (unat a mod 256 div 16), hex_digit_upper (unat a mod 256 mod 16)]"
    using fmt_byte [of "ucast (drop_bit 8 a)"] fmt_byte [of "ucast a"] by (simp_all only: two_bytes [of a])
  ultimately show ?thesis by (simp only: f append.simps)
qed

lemma upper_plain: "d < 16 \<Longrightarrow> hex_digit_upper d \<noteq> CHR 0x0a"
proof
  assume "d < 16" and "hex_digit_upper d = CHR 0x0a"
  then have "CHR 0x0a \<in> set ''0123456789ABCDEF''" unfolding hex_digit_upper_def using nth_mem [of d "''0123456789ABCDEF''"] by simp
  then show False by simp
qed

lemma no_newline: "CHR 0x0a \<notin> set (fmt_02X (ucast (b :: u8)))"
proof -
  have "unat b div 16 < 16" "unat b mod 16 < 16" using unsigned_less [of b, where 'a = nat] by simp_all
  from this [THEN upper_plain] show ?thesis by (simp add: fmt_byte eq_commute)
qed

section \<open>A line\<close>

lemma byte_of_and: "(w AND 0xff :: u32) = ucast (ucast w :: u8)"
proof -
  have "(w AND mask 8 :: u32) = ucast (ucast w :: u8)" by (rule bit_word_eqI) (auto simp: bit_simps)
  then show ?thesis by (simp add: mask_eq_exp_minus_1)
qed

lemma ucast_back8: "(ucast (ucast (b :: u8) :: u32) :: u8) = b"
  by (rule bit_word_eqI) (auto simp: bit_simps)

lemma ucast_through: "(ucast (ucast (a :: u16) :: u32) :: u8) = ucast a"
  by (rule bit_word_eqI) (auto simp: bit_simps)

lemma ucast_word_of_int: "(ucast (word_of_int k :: u32) :: u8) = word_of_int k"
  by (rule bit_word_eqI) (auto simp: bit_simps)

lemma ucast_add8: "(ucast (a + b :: u32) :: u8) = ucast a + ucast b" "(ucast (- a :: u32) :: u8) = - ucast a"
proof -
  have u: "(ucast w :: u8) = word_of_int (uint w)" for w :: u32 by (rule bit_word_eqI) (auto simp: bit_simps)
  have "a + b = word_of_int (uint a + uint b)" "- a = word_of_int (- uint a)" by simp_all
  then have "(ucast (a + b) :: u8) = word_of_int (uint a + uint b)" "(ucast (- a) :: u8) = word_of_int (- uint a)"
    using ucast_word_of_int by metis+
  then show "(ucast (a + b) :: u8) = ucast a + ucast b" "(ucast (- a) :: u8) = - ucast a"
    unfolding u wi_hom_add wi_hom_neg by simp_all
qed

lemma checksum_low:
  "(ucast (foldl (\<lambda>sum b. sum + ucast b) (c :: u32) bs) :: u8) = ucast c + sum_list bs"
  by (induction bs arbitrary: c) (simp_all add: ucast_add8 ucast_back8 algebra_simps)

lemma small_byte: "unat (w :: u32) < 256 \<Longrightarrow> ucast (ucast w :: u8) = w \<and> unat (ucast w :: u8) = unat w"
  by (simp add: word_unat_eq_iff unsigned_ucast_eq unsigned_take_bit_eq take_bit_nat_eq_self_iff)

lemma hex_line_reads:
  assumes "outHexLine add d len type = Inr t" and "unat len < 256" and "type < 256"
  shows "\<exists>l. t = l @ nl \<and> CHR 0x0a \<notin> set l \<and>
    read_record l = Some (unat add, ucast type, take (unat len) d) \<and> unat len \<le> length d"
proof -
  let ?bs = "take (unat len) d" and ?hi = "ucast (drop_bit 8 add) :: u8" and ?lo = "ucast add :: u8"
    and ?n = "ucast len :: u8" and ?ty = "ucast type :: u8"
  define c where "c = foldl (\<lambda>sum b. sum + ucast b) (len + ucast add + ucast (drop_bit 8 add) + type) ?bs"
  let ?sum = "ucast (- c) :: u8"
  have len: "unat len \<le> length d" and t: "t = '':'' @ fmt_02X len @ fmt_04X (ucast add) @ fmt_02X type @
      concat (map (\<lambda>b. fmt_02X (ucast b AND 0xff)) ?bs) @ fmt_02X ((- c) AND 0xff) @ nl"
    using assms(1) by (auto simp: outHexLine_def buf_bytes_def slice_of_def c_def Let_def split: if_splits)
  have ty: "ucast (ucast type :: u8) = type" and n: "ucast (ucast len :: u8) = len" "unat ?n = unat len"
    using small_byte [of type] small_byte [of len] assms(2,3) by (simp_all add: word_less_nat_alt)
  let ?l = "'':'' @ fmt_02X (ucast ?n) @ fmt_02X (ucast ?hi) @ fmt_02X (ucast ?lo) @ fmt_02X (ucast ?ty) @
      concat (map (\<lambda>b. fmt_02X (ucast b)) ?bs) @ fmt_02X (ucast ?sum)"
  have "t = ?l @ nl" unfolding t by (simp add: ty n(1) fmt_two byte_of_and ucast_back8)
  moreover have "CHR 0x0a \<notin> set ?l" using no_newline by (auto simp del: append_assoc)
  moreover have "hex_bytes (tl ?l) = Some (?n # ?hi # ?lo # ?ty # ?bs @ [?sum])"
    using hex_bytes_all [of "?n # ?hi # ?lo # ?ty # ?bs @ [?sum]"] by simp
  moreover have "?n + (?hi + (?lo + (?ty + (sum_list ?bs + ?sum)))) = 0"
    unfolding ucast_add8(2) c_def checksum_low by (simp add: ucast_add8 ucast_through)
  moreover have "256 * unat ?hi + unat ?lo = unat add" unfolding two_bytes [of add] by simp
  ultimately show ?thesis using len n(2) by (intro exI [of _ ?l]) (simp add: read_record_def)
qed

section \<open>The file\<close>

lemma segment_base:
  assumes "N < 2 ^ 64"
  shows "unat (ucast (drop_bit 4 (of_nat N :: u64) AND 0xf000) :: u16) * 16 = N div 65536 mod 16 * 65536"
proof -
  let ?a = "of_nat N :: u64"
  have a: "unat ?a = N" using assms by (simp add: unsigned_of_nat take_bit_nat_eq_self_iff)
  have m: "(0xf000 :: u64) = push_bit 12 (mask 4)" by (simp add: mask_eq_exp_minus_1)
  have w: "(ucast (drop_bit 4 ?a AND 0xf000) :: u16) = push_bit 12 (ucast (take_bit 4 (drop_bit 16 ?a)))"
    unfolding m by (rule bit_word_eqI) (auto simp: bit_simps)
  have "unat (drop_bit 16 ?a) = N div 65536"
    unfolding unsigned_drop_bit_eq using assms
    by (simp only: take_bit_drop_bit a) (simp add: drop_bit_eq_div take_bit_nat_eq_self)
  then have "unat (take_bit 4 (drop_bit 16 ?a)) = N div 65536 mod 16"
    unfolding unsigned_take_bit_eq by (simp only: take_bit_eq_mod) simp
  then have "unat (ucast (take_bit 4 (drop_bit 16 ?a)) :: u16) = N div 65536 mod 16"
    unfolding unsigned_ucast_eq by (simp only: take_bit_eq_mod) simp
  then have "unat (push_bit 12 (ucast (take_bit 4 (drop_bit 16 ?a))) :: u16) = N div 65536 mod 16 * 4096"
    unfolding unsigned_push_bit_eq by (simp only: take_bit_eq_mod push_bit_eq_mult) simp
  then show ?thesis unfolding w by simp
qed

lemma low_address: "N < 2 ^ 64 \<Longrightarrow> unat (ucast (of_nat N AND 0xffff :: u64) :: u16) = N mod 65536"
proof -
  assume "N < 2 ^ 64"
  have "(ucast (of_nat N AND mask 16 :: u64) :: u16) = of_nat N" by (rule bit_word_eqI) (auto simp: bit_simps)
  then show ?thesis by (simp add: mask_eq_exp_minus_1 unsigned_of_nat take_bit_eq_mod)
qed

text \<open>What one turn of the loop writes is what the reader takes.\<close>

lemma read_line_data:
  assumes "read_record l = Some (unat a, 0, bs)" and "CHR 0x0a \<notin> set l"
  shows "read_records (text_lines [] (l @ nl @ r)) base =
    map_option (append (zip [16 * base + unat a..<16 * base + unat a + length bs] bs)) (read_records (text_lines [] r) base)"
  using assms by (simp add: text_lines_app)

lemma read_line_segment:
  assumes "outHexSegment segment = Inr t"
  shows "read_records (text_lines [] (t @ r)) base = read_records (text_lines [] r) (unat segment)"
proof -
  obtain l where l: "t = l @ nl" "CHR 0x0a \<notin> set l"
    "read_record l = Some (0, 2, take (unat (2 :: u32)) [ucast (drop_bit 8 segment), ucast segment])"
    using hex_line_reads [OF assms [unfolded outHexSegment_def]] by auto
  have "256 * unat (ucast (drop_bit 8 segment) :: u8) + unat (ucast segment :: u8) = unat segment"
    unfolding two_bytes [of segment] by simp
  then show ?thesis using l by (simp add: text_lines_app del: One_nat_def)
qed

lemma segment_written: "\<exists>t. outHexSegment segment = Inr t"
  by (simp add: outHexSegment_def outHexLine_def buf_bytes_def)

lemma where_it_goes:
  fixes N :: nat
  assumes "32 dvd N" and "j < 32"
  shows "(N + j) mod 0x100000 = N div 65536 mod 16 * 65536 + N mod 65536 + j"
proof -
  have n: "N mod 0x100000 = N div 65536 mod 16 * 65536 + N mod 65536"
    using mod_mult2_eq [of N 65536 16] by simp
  have "32 dvd N mod 0x100000" using assms(1) by (simp add: dvd_mod)
  then obtain q where q: "N mod 0x100000 = 32 * q" ..
  moreover have "N mod 0x100000 < 0x100000" by simp
  ultimately have "q \<le> 32767" by linarith
  then have "N mod 0x100000 + j < 0x100000" using assms(2) q by linarith
  then have "(N mod 0x100000 + j) mod 0x100000 = N mod 0x100000 + j" by (rule mod_less)
  then show ?thesis by (simp only: mod_add_left_eq n [symmetric])
qed

lemma block_bytes:
  assumes "32 dvd N" and "c \<le> 32" and "N + c \<le> length D" and "b = N div 65536 mod 16 * 65536 + N mod 65536"
  shows "zip [b..<b + c] (take c (drop N D)) = map (\<lambda>i. (i mod 0x100000, D ! i)) [N..<N + c]"
  using assms where_it_goes [OF assms(1)] by (intro nth_equalityI) (auto simp del: power_numeral)

lemma sless_unat:
  assumes "unat (a :: u32) < 2 ^ 31" and "unat b < 2 ^ 31"
  shows "a <s b \<longleftrightarrow> unat a < unat b"
proof -
  have "sint w = uint w" if "unat w < 2 ^ 31" for w :: u32
  proof -
    have "int (unat w) < int (2 ^ 31)" using that by (simp only: of_nat_less_iff)
    then have "uint w < 2 ^ 31" by simp
    moreover have "- (2 ^ 31) \<le> uint w" by (rule order_trans [OF _ uint_ge_0]) simp
    ultimately have "signed_take_bit 31 (uint w) = uint w" by (intro signed_take_bit_int_eq_self)
    then show ?thesis by (simp add: sint_uint)
  qed
  from this [OF assms(1)] this [OF assms(2)] show ?thesis
    using word_less_def [of a b] word_less_nat_alt [of a b] by (simp only: word_sless_alt)
qed

lemma hex_block_reads:
  assumes "N < unat len" and "unat len < 2 ^ 31" and "unat len \<le> length D" and "32 dvd N"
    and "hex_data h = drop N D" and "hex_addr h = of_nat N" and "hex_segment h = 0xffff \<or> base = unat (hex_segment h)"
  shows "\<exists>h' t. hex_block len (of_nat N) h = Inr h' \<and> hex_out h' = hex_out h @ t \<and> hex_data h' = drop (N + 32) D \<and>
    hex_addr h' = of_nat (N + 32) \<and> (\<forall>r. read_records (text_lines [] (t @ r)) base =
      map_option (append (map (\<lambda>i. (i mod 0x100000, D ! i)) [N..<min (N + 32) (unat len)]))
        (read_records (text_lines [] r) (unat (hex_segment h'))))"
proof -
  let ?s = "ucast (drop_bit 4 (of_nat N :: u64) AND 0xf000) :: u16" and ?c = "min 32 (unat len - N)"
  define cnt where "cnt = (let c = len - of_nat N :: u32 in if 32 <s c then 32 else c)"
  have l: "N < 2 ^ 31" using assms(1,2) by (rule less_trans)
  have N: "N < 2 ^ 64" "unat (of_nat N :: u32) = N"
    using l by (simp_all add: unsigned_of_nat take_bit_nat_eq_self)
  then have "unat (len - of_nat N) = unat len - N" using assms(1) by (simp add: unat_sub word_le_nat_alt)
  then have cnt: "unat cnt = ?c" using assms(2) sless_unat [of 32 "len - of_nat N"] by (auto simp: cnt_def Let_def)
  have s: "unat ?s * 16 = N div 65536 mod 16 * 65536" using segment_base [OF N(1)] .
  have no: "?s \<noteq> 0xffff"
  proof
    assume "?s = 0xffff"
    then have "N div 65536 mod 16 * 65536 = 65535 * 16" using s by simp
    moreover have "N div 65536 mod 16 \<le> 15" by simp
    ultimately show False by linarith
  qed
  obtain t1 where t1: "(if ?s \<noteq> hex_segment h then outHexSegment ?s else Inr []) = Inr t1"
    "\<forall>r. read_records (text_lines [] (t1 @ r)) base = read_records (text_lines [] r) (unat ?s)"
  proof (cases "?s = hex_segment h")
    case True
    then show ?thesis using assms(7) no by (intro that [of "[]"]) auto
  next
    case False
    obtain t where "outHexSegment ?s = Inr t" using segment_written by blast
    then show ?thesis using False read_line_segment by (intro that [of t]) auto
  qed
  let ?a = "ucast (hex_addr h AND 0xffff) :: u16"
  have len: "unat cnt \<le> length (hex_data h)" using assms(3,5) cnt by simp
  then obtain t2 where t2: "outHexLine ?a (hex_data h) cnt 0x00 = Inr t2"
    by (auto simp: outHexLine_def buf_bytes_def Let_def)
  have "unat cnt < 256" using cnt by simp
  then obtain l where l: "t2 = l @ nl" "CHR 0x0a \<notin> set l" "read_record l = Some (unat ?a, 0, take ?c (drop N D))"
    using hex_line_reads [OF t2] assms(5) cnt by auto
  have a: "unat ?a = N mod 65536" using low_address [OF N(1)] assms(6) by simp
  have "zip [N div 65536 mod 16 * 65536 + N mod 65536..<N div 65536 mod 16 * 65536 + N mod 65536 + ?c] (take ?c (drop N D)) =
      map (\<lambda>i. (i mod 0x100000, D ! i)) [N..<N + ?c]"
    using assms(1,3,4) by (intro block_bytes) auto
  moreover have "N + ?c = min (N + 32) (unat len)" using assms(1) by simp
  moreover have "length (take ?c (drop N D)) = ?c" using assms(1,3) by simp
  ultimately have r2: "read_records (text_lines [] (t2 @ r)) (unat ?s) =
      map_option (append (map (\<lambda>i. (i mod 0x100000, D ! i)) [N..<min (N + 32) (unat len)])) (read_records (text_lines [] r) (unat ?s))" for r
    using read_line_data [OF l(3,2), of r "unat ?s"] a s unfolding l(1) by (simp add: mult.commute)
  let ?h = "\<lparr>hex_data = drop 32 (hex_data h), hex_addr = hex_addr h + 32, hex_segment = ?s, hex_out = hex_out h @ t1 @ t2\<rparr>"
  have "hex_block len (of_nat N) h = Inr ?h"
    using t1(1) t2 assms(6) by (simp add: hex_block_def Let_def cnt_def)
  then show ?thesis using assms(5,6) t1(2) r2 by (intro exI [of _ ?h] exI [of _ "t1 @ t2"]) (simp add: add.commute)
qed

lemma hex_loop_reads:
  assumes "unat len < 2 ^ 31" and "unat len \<le> length D" and "32 dvd N" and "N < unat len + 32"
    and "hex_data h = drop N D" and "hex_addr h = of_nat N" and "hex_segment h = 0xffff \<or> base = unat (hex_segment h)"
  shows "\<exists>h' t. for_loop (hex_block len) 32 len (of_nat N) h = Some (Inr h') \<and> hex_out h' = hex_out h @ t \<and>
    read_records (text_lines [] (t @ '':00000001FF'' @ nl)) base =
      Some (map (\<lambda>i. (i mod 0x100000, D ! i)) [N..<unat len])"
  using assms(3-)
proof (induction "unat len - N" arbitrary: N h base rule: less_induct)
  case less
  have "N < 2 ^ 31 + 32" using less.prems(2) assms(1) by linarith
  then have N: "unat (of_nat N :: u32) = N" by (simp add: unsigned_of_nat take_bit_nat_eq_self)
  show ?case
  proof (cases "N < unat len")
    case False
    then have "\<not> of_nat N < len" by (simp add: word_less_nat_alt N)
    moreover have "read_records (text_lines [] ('':00000001FF'' @ nl)) base = Some []"
    proof -
      have "read_record '':00000001FF'' = Some (0, 1, [])" by code_simp
      then show ?thesis using text_lines_app [of "'':00000001FF''" "[]" "[]"] by simp
    qed
    ultimately show ?thesis using False by (subst for_loop.simps) simp
  next
    case True
    obtain h1 t where h1: "hex_block len (of_nat N) h = Inr h1" "hex_out h1 = hex_out h @ t"
      "hex_data h1 = drop (N + 32) D" "hex_addr h1 = of_nat (N + 32)"
      "\<forall>r. read_records (text_lines [] (t @ r)) base =
        map_option (append (map (\<lambda>i. (i mod 0x100000, D ! i)) [N..<min (N + 32) (unat len)]))
          (read_records (text_lines [] r) (unat (hex_segment h1)))"
      using hex_block_reads [OF True assms(1,2) less.prems(1,3,4,5)] by blast
    have "32 dvd N + 32" "N + 32 < unat len + 32" "unat len - (N + 32) < unat len - N"
      using less.prems(1) True by simp_all
    then obtain h2 u where h2: "for_loop (hex_block len) 32 len (of_nat (N + 32)) h1 = Some (Inr h2)"
      "hex_out h2 = hex_out h1 @ u" "read_records (text_lines [] (u @ '':00000001FF'' @ nl)) (unat (hex_segment h1)) =
        Some (map (\<lambda>i. (i mod 0x100000, D ! i)) [N + 32..<unat len])"
      using less.hyps [of "N + 32" h1 "unat (hex_segment h1)"] h1(3,4) by blast
    have "of_nat N < len" using True by (simp add: word_less_nat_alt N)
    then have "for_loop (hex_block len) 32 len (of_nat N) h = Some (Inr h2)"
      using h1(1) h2(1) by (subst for_loop.simps) (simp add: add.commute)
    moreover have "[N..<unat len] = [N..<min (N + 32) (unat len)] @ [N + 32..<unat len]"
      using True upt_add_eq_append [of N "N + 32" "unat len - (N + 32)"] by (cases "N + 32 \<le> unat len") (simp_all add: min_def)
    ultimately show ?thesis using h1(2,5) h2(2,3) by (intro exI [of _ h2] exI [of _ "t @ u"]) simp
  qed
qed

text \<open>
  C38: An Intel hex file holds the data. For fewer than \<open>2 ^ 31\<close> bytes \<open>saveIntel\<close> writes a file, and
  a reader that goes by the format (records with their checksums, segment records, the end
  record) gets every byte back in order, at its address modulo the 1 MB a segment reaches.
\<close>

theorem intel_roundtrip:
  assumes "unat len < 2 ^ 31" and "unat len \<le> length d"
  shows "\<exists>t. saveIntel d len = Some (Inr t) \<and>
    read_image t = Some (map (\<lambda>i. (i mod 0x100000, d ! i)) [0..<unat len])"
proof -
  let ?h = "\<lparr>hex_data = d, hex_addr = 0, hex_segment = 0xffff, hex_out = []\<rparr>"
  obtain h t where "for_loop (hex_block len) 32 len 0 ?h = Some (Inr h)" "hex_out h = t"
    "read_records (text_lines [] (t @ '':00000001FF'' @ nl)) 0 = Some (map (\<lambda>i. (i mod 0x100000, d ! i)) [0..<unat len])"
    using hex_loop_reads [OF assms, of 0 ?h 0] by auto
  then show ?thesis by (simp add: saveIntel_def read_image_def)
qed

theorem intel_roundtrip_witness:
  "\<exists>t. saveIntel [1, 2, 3] 3 = Some (Inr t) \<and> read_image t = Some [(0, 1), (1, 2), (2, 3)]"
proof -
  have "map (\<lambda>i. (i mod 0x100000, [1, 2, 3 :: u8] ! i)) [0..<unat (3 :: u32)] = [(0, 1), (1, 2), (2, 3)]"
    by (subst unat_numeral) (simp add: upt_rec)
  then show ?thesis using intel_roundtrip [of 3 "[1, 2, 3]"] by simp
qed

section \<open>The other helpers\<close>

text \<open>
  A memory initialization file is never written for a buffer of just its length: each word is
  read through an \<open>unsigned long\<close>, which is 8 bytes on the host, so the last one is read past the end.
\<close>

theorem mif_reads_past_end:
  assumes "length d = unat len" and "4 dvd unat len" and "0 < len"
  shows "saveMif littleEndian filename d len = Some (Inl HostUB)"
proof -
  have "for_loop (mif_line littleEndian d) 4 len i out = Some (Inl HostUB)" if "4 dvd unat i" "i < len" for i out
    using that
  proof (induction "unat len - unat i" arbitrary: i out rule: less_induct)
    case less
    have i: "unat i + 4 \<le> unat len"
      using less.prems assms(2) by (auto simp: word_less_nat_alt elim!: dvdE)
    have n: "unat (i + 4) = unat i + 4"
      using i unsigned_less [of len, where 'a = nat] by (simp add: unat_word_ariths)
    show ?case
    proof (cases "unat i + 4 = unat len")
      case True
      then have "mif_line littleEndian d i out = Inl HostUB"
        using assms(1) by (simp add: mif_line_def mif_word_def buf_word_def buf_bytes_def)
      then show ?thesis using less.prems(2) by (subst for_loop.simps) simp
    next
      case False
      moreover have "4 dvd unat len - (unat i + 4)" using less.prems(1) assms(2) by (simp add: dvd_diff_nat)
      ultimately have m: "unat i + 8 \<le> unat len" using i dvd_imp_le [of 4 "unat len - (unat i + 4)"] by simp
      then obtain out' where o: "mif_line littleEndian d i out = Inr out'"
        using assms(1) by (simp add: mif_line_def mif_word_def buf_word_def buf_bytes_def)
      have "for_loop (mif_line littleEndian d) 4 len (i + 4) out' = Some (Inl HostUB)"
        using less.hyps [of "i + 4" out'] m n less.prems(1) by (simp add: word_less_nat_alt)
      then show ?thesis using o less.prems(2) by (subst for_loop.simps) simp
    qed
  qed
  from this [of 0] show ?thesis using assms(3) by (simp add: saveMif_def Let_def)
qed

theorem mif_reads_past_end_witness:
  "saveMif True ''rom.mif'' [0x13, 0, 0, 0] 4 = Some (Inl HostUB)"
  by (rule mif_reads_past_end) simp_all

text \<open>
  \<open>sectCmp\<close> holds for equal names, and when up to a dot in the name and a star in the pattern at the
  same place both are equal; what follows the star is not looked at.
\<close>

theorem sectCmp_iff:
  "sectCmp name sect \<longleftrightarrow> name = sect \<or>
    (\<exists>p r q. name = p @ CHR ''.'' # r \<and> sect = p @ CHR ''*'' # q)"
proof (induction name sect rule: sectCmp.induct)
  case (4 c s d t)
  show ?case
  proof (cases "c = d")
    case True
    have "(\<exists>p r q. c # s = p @ CHR ''.'' # r \<and> d # t = p @ CHR ''*'' # q) \<longleftrightarrow>
        (\<exists>p r q. s = p @ CHR ''.'' # r \<and> t = p @ CHR ''*'' # q)" (is "?l \<longleftrightarrow> ?r")
    proof
      assume ?l
      then obtain p r q where "c # s = p @ CHR ''.'' # r" "d # t = p @ CHR ''*'' # q" by blast
      then show ?r using True by (cases p) auto
    next
      assume ?r
      then obtain p r q where "s = p @ CHR ''.'' # r" "t = p @ CHR ''*'' # q" by blast
      then show ?l using True by (intro exI [of _ "c # p"] exI [of _ r] exI [of _ q]) simp
    qed
    then show ?thesis using 4 True by simp
  next
    case False
    have "(\<exists>p r q. c # s = p @ CHR ''.'' # r \<and> d # t = p @ CHR ''*'' # q) \<longleftrightarrow> c = CHR ''.'' \<and> d = CHR ''*''" (is "?l \<longleftrightarrow> _")
    proof
      assume ?l
      then obtain p r q where "c # s = p @ CHR ''.'' # r" "d # t = p @ CHR ''*'' # q" by blast
      then show "c = CHR ''.'' \<and> d = CHR ''*''" using False by (cases p) auto
    qed auto
    then show ?thesis using False by simp
  qed
qed (auto simp: Cons_eq_append_conv)

text \<open>\<open>hextoi\<close> reads back what \<open>%x\<close> prints.\<close>

theorem hextoi_printed: "hextoi (fmt_x w) = w"
proof -
  obtain d where d: "hex_of (unat w) \<noteq> []" "d < 16" "hd (hex_of (unat w)) = hex_digit d" using hex_of_hd by blast
  have t: "dropWhile isspace (hex_of (unat w)) = hex_of (unat w)"
    using d digit_plain [OF d(2)] by (cases "hex_of (unat w)") simp_all
  have x: "is_hex (hex_of (unat w))" using d by (simp add: is_hex_def hex_val_digit)
  have h: "fst (hex_digits (hex_of (unat w)) 0) = unat w" using hex_digits_append [of "unat w" "[]" 0] by simp
  have s: "take 2 (hex_of (unat w)) \<noteq> ''0x'' \<and> take 2 (hex_of (unat w)) \<noteq> ''0X''"
    using hex_of_second [of "[]" "unat w"] by simp
  have m: "unat w < 2 ^ 64" using unsigned_less [of w, where 'a = nat] by simp
  show ?thesis using digit_plain [OF d(2)] s x h m d by (simp add: hextoi_def fmt_x_def t Let_def)
qed

text \<open>
  \<open>set_low\<close> also clears the four bytes after the word it changes: it works on an \<open>unsigned long\<close>,
  and its mask has only the low 32 bits.
\<close>

theorem set_low_clears:
  assumes "set_low True buf a value = Inr buf'"
  shows "slice_of (a + 4) 4 buf' = [0, 0, 0, 0]"
proof -
  obtain w where w: "a + 8 \<le> length buf" "buf' = splice a (le_bytes 8 (w AND 0xffff0000 OR value AND 0xffff)) buf"
    using assms by (auto simp: set_low_def ntohl_def buf_word_def buf_bytes_def Let_def faultfacts split: if_splits)
  let ?x = "w AND 0xffff0000 OR value AND 0xffff :: u64"
  have m: "(0xffff0000 :: u64) = push_bit 16 (mask 16)" "(0xffff :: u64) = mask 16" by (simp_all add: mask_eq_exp_minus_1)
  have z: "\<not> bit ?x n" if "32 \<le> n" for n unfolding m using that by (auto simp: bit_simps)
  have "slice_of (a + 4) 4 buf' = drop 4 (le_bytes 8 ?x)"
    using w by (simp add: slice_of_def splice_def del: le_bytes.simps)
  also have "\<dots> = [0, 0, 0, 0]"
    by (simp add: numeral_eq_Suc) (auto intro!: bit_word_eqI simp: bit_simps z)
  finally show ?thesis .
qed

end
