(* ===== verification/Table_rv64.thy ===== *)
theory Table_rv64
  imports Op_Table
begin

text \<open>
  The tables of the 64-bit build: the operation codes of \<open>src/VliwTable_rv64.h\<close>, which are numbered
  differently from those of the 32-bit build, their names in \<open>src/VliwTable_rv64.cpp\<close>, and the rows of
  \<open>src/OpTable_rv64.cpp\<close> in their order. The names here have a 64 in them. The Makefile's default does not
  compile these files; theory \<open>Table_Props\<close> compares them with the tables of the 32-bit build.
\<close>

section \<open>Operation codes\<close>

abbreviation (input) VLIW64_NONE :: u8 where "VLIW64_NONE \<equiv> 0x00"
abbreviation (input) VLIW64_LUI :: u8 where "VLIW64_LUI \<equiv> 0x01"
abbreviation (input) VLIW64_AUIPC :: u8 where "VLIW64_AUIPC \<equiv> 0x02"
abbreviation (input) VLIW64_J :: u8 where "VLIW64_J \<equiv> 0x03"
abbreviation (input) VLIW64_JAL :: u8 where "VLIW64_JAL \<equiv> 0x04"
abbreviation (input) VLIW64_JR :: u8 where "VLIW64_JR \<equiv> 0x05"
abbreviation (input) VLIW64_JALR :: u8 where "VLIW64_JALR \<equiv> 0x06"
abbreviation (input) VLIW64_BEQ :: u8 where "VLIW64_BEQ \<equiv> 0x07"
abbreviation (input) VLIW64_BNE :: u8 where "VLIW64_BNE \<equiv> 0x08"
abbreviation (input) VLIW64_BLT :: u8 where "VLIW64_BLT \<equiv> 0x09"
abbreviation (input) VLIW64_BGE :: u8 where "VLIW64_BGE \<equiv> 0x0a"
abbreviation (input) VLIW64_BLTU :: u8 where "VLIW64_BLTU \<equiv> 0x0b"
abbreviation (input) VLIW64_BGEU :: u8 where "VLIW64_BGEU \<equiv> 0x0c"
abbreviation (input) VLIW64_LB :: u8 where "VLIW64_LB \<equiv> 0x0d"
abbreviation (input) VLIW64_LH :: u8 where "VLIW64_LH \<equiv> 0x0e"
abbreviation (input) VLIW64_LW :: u8 where "VLIW64_LW \<equiv> 0x0f"
abbreviation (input) VLIW64_LBU :: u8 where "VLIW64_LBU \<equiv> 0x10"
abbreviation (input) VLIW64_LHU :: u8 where "VLIW64_LHU \<equiv> 0x11"
abbreviation (input) VLIW64_SB :: u8 where "VLIW64_SB \<equiv> 0x12"
abbreviation (input) VLIW64_SH :: u8 where "VLIW64_SH \<equiv> 0x13"
abbreviation (input) VLIW64_SW :: u8 where "VLIW64_SW \<equiv> 0x14"
abbreviation (input) VLIW64_NOP :: u8 where "VLIW64_NOP \<equiv> 0x15"
abbreviation (input) VLIW64_ADDI :: u8 where "VLIW64_ADDI \<equiv> 0x16"
abbreviation (input) VLIW64_SLTI :: u8 where "VLIW64_SLTI \<equiv> 0x17"
abbreviation (input) VLIW64_SLTIU :: u8 where "VLIW64_SLTIU \<equiv> 0x18"
abbreviation (input) VLIW64_XORI :: u8 where "VLIW64_XORI \<equiv> 0x19"
abbreviation (input) VLIW64_ORI :: u8 where "VLIW64_ORI \<equiv> 0x1a"
abbreviation (input) VLIW64_ANDI :: u8 where "VLIW64_ANDI \<equiv> 0x1b"
abbreviation (input) VLIW64_ADD :: u8 where "VLIW64_ADD \<equiv> 0x1c"
abbreviation (input) VLIW64_SUB :: u8 where "VLIW64_SUB \<equiv> 0x1d"
abbreviation (input) VLIW64_XOR :: u8 where "VLIW64_XOR \<equiv> 0x1e"
abbreviation (input) VLIW64_SRL :: u8 where "VLIW64_SRL \<equiv> 0x1f"
abbreviation (input) VLIW64_SRA :: u8 where "VLIW64_SRA \<equiv> 0x20"
abbreviation (input) VLIW64_OR :: u8 where "VLIW64_OR \<equiv> 0x21"
abbreviation (input) VLIW64_AND :: u8 where "VLIW64_AND \<equiv> 0x22"
abbreviation (input) VLIW64_FENCE :: u8 where "VLIW64_FENCE \<equiv> 0x23"
abbreviation (input) VLIW64_ECALL :: u8 where "VLIW64_ECALL \<equiv> 0x24"
abbreviation (input) VLIW64_EBREAK :: u8 where "VLIW64_EBREAK \<equiv> 0x25"
abbreviation (input) VLIW64_SRET :: u8 where "VLIW64_SRET \<equiv> 0x26"
abbreviation (input) VLIW64_MRET :: u8 where "VLIW64_MRET \<equiv> 0x27"
abbreviation (input) VLIW64_WFI :: u8 where "VLIW64_WFI \<equiv> 0x28"
abbreviation (input) VLIW64_LWU :: u8 where "VLIW64_LWU \<equiv> 0x29"
abbreviation (input) VLIW64_LD :: u8 where "VLIW64_LD \<equiv> 0x2a"
abbreviation (input) VLIW64_SD :: u8 where "VLIW64_SD \<equiv> 0x2b"
abbreviation (input) VLIW64_SLLID :: u8 where "VLIW64_SLLID \<equiv> 0x2c"
abbreviation (input) VLIW64_SRLID :: u8 where "VLIW64_SRLID \<equiv> 0x2d"
abbreviation (input) VLIW64_SRAID :: u8 where "VLIW64_SRAID \<equiv> 0x2e"
abbreviation (input) VLIW64_ADDIW :: u8 where "VLIW64_ADDIW \<equiv> 0x2f"
abbreviation (input) VLIW64_SLLIW :: u8 where "VLIW64_SLLIW \<equiv> 0x30"
abbreviation (input) VLIW64_SRLIW :: u8 where "VLIW64_SRLIW \<equiv> 0x31"
abbreviation (input) VLIW64_SRAIW :: u8 where "VLIW64_SRAIW \<equiv> 0x32"
abbreviation (input) VLIW64_ADDW :: u8 where "VLIW64_ADDW \<equiv> 0x33"
abbreviation (input) VLIW64_SUBW :: u8 where "VLIW64_SUBW \<equiv> 0x34"
abbreviation (input) VLIW64_SLLW :: u8 where "VLIW64_SLLW \<equiv> 0x35"
abbreviation (input) VLIW64_SRLW :: u8 where "VLIW64_SRLW \<equiv> 0x36"
abbreviation (input) VLIW64_SRAW :: u8 where "VLIW64_SRAW \<equiv> 0x37"
abbreviation (input) VLIW64_FENCE_I :: u8 where "VLIW64_FENCE_I \<equiv> 0x38"
abbreviation (input) VLIW64_CSRRW :: u8 where "VLIW64_CSRRW \<equiv> 0x39"
abbreviation (input) VLIW64_CSRRS :: u8 where "VLIW64_CSRRS \<equiv> 0x3a"
abbreviation (input) VLIW64_CSRRC :: u8 where "VLIW64_CSRRC \<equiv> 0x3b"
abbreviation (input) VLIW64_CSRRWI :: u8 where "VLIW64_CSRRWI \<equiv> 0x3c"
abbreviation (input) VLIW64_CSRRSI :: u8 where "VLIW64_CSRRSI \<equiv> 0x3d"
abbreviation (input) VLIW64_CSRRCI :: u8 where "VLIW64_CSRRCI \<equiv> 0x3e"
abbreviation (input) VLIW64_MUL :: u8 where "VLIW64_MUL \<equiv> 0x3f"
abbreviation (input) VLIW64_MULH :: u8 where "VLIW64_MULH \<equiv> 0x40"
abbreviation (input) VLIW64_MULHSU :: u8 where "VLIW64_MULHSU \<equiv> 0x41"
abbreviation (input) VLIW64_MULHU :: u8 where "VLIW64_MULHU \<equiv> 0x42"
abbreviation (input) VLIW64_DIV :: u8 where "VLIW64_DIV \<equiv> 0x43"
abbreviation (input) VLIW64_DIVU :: u8 where "VLIW64_DIVU \<equiv> 0x44"
abbreviation (input) VLIW64_REM :: u8 where "VLIW64_REM \<equiv> 0x45"
abbreviation (input) VLIW64_REMU :: u8 where "VLIW64_REMU \<equiv> 0x46"
abbreviation (input) VLIW64_MULW :: u8 where "VLIW64_MULW \<equiv> 0x47"
abbreviation (input) VLIW64_DIVW :: u8 where "VLIW64_DIVW \<equiv> 0x48"
abbreviation (input) VLIW64_DIVUW :: u8 where "VLIW64_DIVUW \<equiv> 0x49"
abbreviation (input) VLIW64_REMW :: u8 where "VLIW64_REMW \<equiv> 0x4a"
abbreviation (input) VLIW64_REMUW :: u8 where "VLIW64_REMUW \<equiv> 0x4b"
abbreviation (input) VLIW64_LR_W :: u8 where "VLIW64_LR_W \<equiv> 0x4c"
abbreviation (input) VLIW64_SC_W :: u8 where "VLIW64_SC_W \<equiv> 0x4d"
abbreviation (input) VLIW64_AMOSWAP_W :: u8 where "VLIW64_AMOSWAP_W \<equiv> 0x4e"
abbreviation (input) VLIW64_AMOADD_W :: u8 where "VLIW64_AMOADD_W \<equiv> 0x4f"
abbreviation (input) VLIW64_AMOXOR_W :: u8 where "VLIW64_AMOXOR_W \<equiv> 0x50"
abbreviation (input) VLIW64_AMOAND_W :: u8 where "VLIW64_AMOAND_W \<equiv> 0x51"
abbreviation (input) VLIW64_AMOOR_W :: u8 where "VLIW64_AMOOR_W \<equiv> 0x52"
abbreviation (input) VLIW64_AMOMIN_W :: u8 where "VLIW64_AMOMIN_W \<equiv> 0x53"
abbreviation (input) VLIW64_AMOMAX_W :: u8 where "VLIW64_AMOMAX_W \<equiv> 0x54"
abbreviation (input) VLIW64_AMOMINU_W :: u8 where "VLIW64_AMOMINU_W \<equiv> 0x55"
abbreviation (input) VLIW64_AMOMAXU_W :: u8 where "VLIW64_AMOMAXU_W \<equiv> 0x56"
abbreviation (input) VLIW64_LR_D :: u8 where "VLIW64_LR_D \<equiv> 0x57"
abbreviation (input) VLIW64_SC_D :: u8 where "VLIW64_SC_D \<equiv> 0x58"
abbreviation (input) VLIW64_AMOSWAP_D :: u8 where "VLIW64_AMOSWAP_D \<equiv> 0x59"
abbreviation (input) VLIW64_AMOADD_D :: u8 where "VLIW64_AMOADD_D \<equiv> 0x5a"
abbreviation (input) VLIW64_AMOXOR_D :: u8 where "VLIW64_AMOXOR_D \<equiv> 0x5b"
abbreviation (input) VLIW64_AMOAND_D :: u8 where "VLIW64_AMOAND_D \<equiv> 0x5c"
abbreviation (input) VLIW64_AMOOR_D :: u8 where "VLIW64_AMOOR_D \<equiv> 0x5d"
abbreviation (input) VLIW64_AMOMIN_D :: u8 where "VLIW64_AMOMIN_D \<equiv> 0x5e"
abbreviation (input) VLIW64_AMOMAX_D :: u8 where "VLIW64_AMOMAX_D \<equiv> 0x5f"
abbreviation (input) VLIW64_AMOMINU_D :: u8 where "VLIW64_AMOMINU_D \<equiv> 0x60"
abbreviation (input) VLIW64_AMOMAXU_D :: u8 where "VLIW64_AMOMAXU_D \<equiv> 0x61"
abbreviation (input) VLIW64_FLW :: u8 where "VLIW64_FLW \<equiv> 0x62"
abbreviation (input) VLIW64_FSW :: u8 where "VLIW64_FSW \<equiv> 0x63"
abbreviation (input) VLIW64_FMADD_S :: u8 where "VLIW64_FMADD_S \<equiv> 0x64"
abbreviation (input) VLIW64_FMSUB_S :: u8 where "VLIW64_FMSUB_S \<equiv> 0x65"
abbreviation (input) VLIW64_FNMSUB_S :: u8 where "VLIW64_FNMSUB_S \<equiv> 0x66"
abbreviation (input) VLIW64_FNMADD_S :: u8 where "VLIW64_FNMADD_S \<equiv> 0x67"
abbreviation (input) VLIW64_FADD_S :: u8 where "VLIW64_FADD_S \<equiv> 0x68"
abbreviation (input) VLIW64_FSUB_S :: u8 where "VLIW64_FSUB_S \<equiv> 0x69"
abbreviation (input) VLIW64_FMUL_S :: u8 where "VLIW64_FMUL_S \<equiv> 0x6a"
abbreviation (input) VLIW64_FDIV_S :: u8 where "VLIW64_FDIV_S \<equiv> 0x6b"
abbreviation (input) VLIW64_FSQRT_S :: u8 where "VLIW64_FSQRT_S \<equiv> 0x6c"
abbreviation (input) VLIW64_FSGNJ_S :: u8 where "VLIW64_FSGNJ_S \<equiv> 0x6d"
abbreviation (input) VLIW64_FSGNJN_S :: u8 where "VLIW64_FSGNJN_S \<equiv> 0x6e"
abbreviation (input) VLIW64_FSGNJX_S :: u8 where "VLIW64_FSGNJX_S \<equiv> 0x6f"
abbreviation (input) VLIW64_FMIN_S :: u8 where "VLIW64_FMIN_S \<equiv> 0x70"
abbreviation (input) VLIW64_FMAX_S :: u8 where "VLIW64_FMAX_S \<equiv> 0x71"
abbreviation (input) VLIW64_FCVT_W_S :: u8 where "VLIW64_FCVT_W_S \<equiv> 0x72"
abbreviation (input) VLIW64_FCVT_WU_S :: u8 where "VLIW64_FCVT_WU_S \<equiv> 0x73"
abbreviation (input) VLIW64_FMV_X_W :: u8 where "VLIW64_FMV_X_W \<equiv> 0x74"
abbreviation (input) VLIW64_FEQ_S :: u8 where "VLIW64_FEQ_S \<equiv> 0x75"
abbreviation (input) VLIW64_FLT_S :: u8 where "VLIW64_FLT_S \<equiv> 0x76"
abbreviation (input) VLIW64_FLE_S :: u8 where "VLIW64_FLE_S \<equiv> 0x77"
abbreviation (input) VLIW64_FCLASS_S :: u8 where "VLIW64_FCLASS_S \<equiv> 0x78"
abbreviation (input) VLIW64_FCVT_S_W :: u8 where "VLIW64_FCVT_S_W \<equiv> 0x79"
abbreviation (input) VLIW64_FCVT_S_WU :: u8 where "VLIW64_FCVT_S_WU \<equiv> 0x7a"
abbreviation (input) VLIW64_FMV_W_X :: u8 where "VLIW64_FMV_W_X \<equiv> 0x7b"
abbreviation (input) VLIW64_FCVT_L_S :: u8 where "VLIW64_FCVT_L_S \<equiv> 0x7c"
abbreviation (input) VLIW64_FCVT_LU_S :: u8 where "VLIW64_FCVT_LU_S \<equiv> 0x7d"
abbreviation (input) VLIW64_FCVT_S_L :: u8 where "VLIW64_FCVT_S_L \<equiv> 0x7e"
abbreviation (input) VLIW64_FCVT_S_LU :: u8 where "VLIW64_FCVT_S_LU \<equiv> 0x7f"
abbreviation (input) VLIW64_FLD :: u8 where "VLIW64_FLD \<equiv> 0x80"
abbreviation (input) VLIW64_FSD :: u8 where "VLIW64_FSD \<equiv> 0x81"
abbreviation (input) VLIW64_FMADD_D :: u8 where "VLIW64_FMADD_D \<equiv> 0x82"
abbreviation (input) VLIW64_FMSUB_D :: u8 where "VLIW64_FMSUB_D \<equiv> 0x83"
abbreviation (input) VLIW64_FNMSUB_D :: u8 where "VLIW64_FNMSUB_D \<equiv> 0x84"
abbreviation (input) VLIW64_FNMADD_D :: u8 where "VLIW64_FNMADD_D \<equiv> 0x85"
abbreviation (input) VLIW64_FADD_D :: u8 where "VLIW64_FADD_D \<equiv> 0x86"
abbreviation (input) VLIW64_FSUB_D :: u8 where "VLIW64_FSUB_D \<equiv> 0x87"
abbreviation (input) VLIW64_FMUL_D :: u8 where "VLIW64_FMUL_D \<equiv> 0x88"
abbreviation (input) VLIW64_FDIV_D :: u8 where "VLIW64_FDIV_D \<equiv> 0x89"
abbreviation (input) VLIW64_FSQRT_D :: u8 where "VLIW64_FSQRT_D \<equiv> 0x8a"
abbreviation (input) VLIW64_FSGNJ_D :: u8 where "VLIW64_FSGNJ_D \<equiv> 0x8b"
abbreviation (input) VLIW64_FSGNJN_D :: u8 where "VLIW64_FSGNJN_D \<equiv> 0x8c"
abbreviation (input) VLIW64_FSGNJX_D :: u8 where "VLIW64_FSGNJX_D \<equiv> 0x8d"
abbreviation (input) VLIW64_FMIN_D :: u8 where "VLIW64_FMIN_D \<equiv> 0x8e"
abbreviation (input) VLIW64_FMAX_D :: u8 where "VLIW64_FMAX_D \<equiv> 0x8f"
abbreviation (input) VLIW64_FCVT_S_D :: u8 where "VLIW64_FCVT_S_D \<equiv> 0x90"
abbreviation (input) VLIW64_FCVT_D_S :: u8 where "VLIW64_FCVT_D_S \<equiv> 0x91"
abbreviation (input) VLIW64_FEQ_D :: u8 where "VLIW64_FEQ_D \<equiv> 0x92"
abbreviation (input) VLIW64_FLT_D :: u8 where "VLIW64_FLT_D \<equiv> 0x93"
abbreviation (input) VLIW64_FLE_D :: u8 where "VLIW64_FLE_D \<equiv> 0x94"
abbreviation (input) VLIW64_FCLASS_D :: u8 where "VLIW64_FCLASS_D \<equiv> 0x95"
abbreviation (input) VLIW64_FCVT_W_D :: u8 where "VLIW64_FCVT_W_D \<equiv> 0x96"
abbreviation (input) VLIW64_FCVT_WU_D :: u8 where "VLIW64_FCVT_WU_D \<equiv> 0x97"
abbreviation (input) VLIW64_FCVT_D_W :: u8 where "VLIW64_FCVT_D_W \<equiv> 0x98"
abbreviation (input) VLIW64_FCVT_D_WU :: u8 where "VLIW64_FCVT_D_WU \<equiv> 0x99"
abbreviation (input) VLIW64_FCVT_L_D :: u8 where "VLIW64_FCVT_L_D \<equiv> 0x9a"
abbreviation (input) VLIW64_FCVT_LU_D :: u8 where "VLIW64_FCVT_LU_D \<equiv> 0x9b"
abbreviation (input) VLIW64_FMV_X_D :: u8 where "VLIW64_FMV_X_D \<equiv> 0x9c"
abbreviation (input) VLIW64_FCVT_D_L :: u8 where "VLIW64_FCVT_D_L \<equiv> 0x9d"
abbreviation (input) VLIW64_FCVT_D_LU :: u8 where "VLIW64_FCVT_D_LU \<equiv> 0x9e"
abbreviation (input) VLIW64_FMV_D_X :: u8 where "VLIW64_FMV_D_X \<equiv> 0x9f"
abbreviation (input) VLIW64_FLQ :: u8 where "VLIW64_FLQ \<equiv> 0xa0"
abbreviation (input) VLIW64_FSQ :: u8 where "VLIW64_FSQ \<equiv> 0xa1"
abbreviation (input) VLIW64_FMADD_Q :: u8 where "VLIW64_FMADD_Q \<equiv> 0xa2"
abbreviation (input) VLIW64_FMSUB_Q :: u8 where "VLIW64_FMSUB_Q \<equiv> 0xa3"
abbreviation (input) VLIW64_FNMSUB_Q :: u8 where "VLIW64_FNMSUB_Q \<equiv> 0xa4"
abbreviation (input) VLIW64_FNMADD_Q :: u8 where "VLIW64_FNMADD_Q \<equiv> 0xa5"
abbreviation (input) VLIW64_FADD_Q :: u8 where "VLIW64_FADD_Q \<equiv> 0xa6"
abbreviation (input) VLIW64_FSUB_Q :: u8 where "VLIW64_FSUB_Q \<equiv> 0xa7"
abbreviation (input) VLIW64_FMUL_Q :: u8 where "VLIW64_FMUL_Q \<equiv> 0xa8"
abbreviation (input) VLIW64_FDIV_Q :: u8 where "VLIW64_FDIV_Q \<equiv> 0xa9"
abbreviation (input) VLIW64_FSQRT_Q :: u8 where "VLIW64_FSQRT_Q \<equiv> 0xaa"
abbreviation (input) VLIW64_FSGNJ_Q :: u8 where "VLIW64_FSGNJ_Q \<equiv> 0xab"
abbreviation (input) VLIW64_FSGNJN_Q :: u8 where "VLIW64_FSGNJN_Q \<equiv> 0xac"
abbreviation (input) VLIW64_FSGNJX_Q :: u8 where "VLIW64_FSGNJX_Q \<equiv> 0xad"
abbreviation (input) VLIW64_FMIN_Q :: u8 where "VLIW64_FMIN_Q \<equiv> 0xae"
abbreviation (input) VLIW64_FMAX_Q :: u8 where "VLIW64_FMAX_Q \<equiv> 0xaf"
abbreviation (input) VLIW64_FCVT_S_Q :: u8 where "VLIW64_FCVT_S_Q \<equiv> 0xb0"
abbreviation (input) VLIW64_FCVT_Q_S :: u8 where "VLIW64_FCVT_Q_S \<equiv> 0xb1"
abbreviation (input) VLIW64_FCVT_D_Q :: u8 where "VLIW64_FCVT_D_Q \<equiv> 0xb2"
abbreviation (input) VLIW64_FCVT_Q_D :: u8 where "VLIW64_FCVT_Q_D \<equiv> 0xb3"
abbreviation (input) VLIW64_FEQ_Q :: u8 where "VLIW64_FEQ_Q \<equiv> 0xb4"
abbreviation (input) VLIW64_FLT_Q :: u8 where "VLIW64_FLT_Q \<equiv> 0xb5"
abbreviation (input) VLIW64_FLE_Q :: u8 where "VLIW64_FLE_Q \<equiv> 0xb6"
abbreviation (input) VLIW64_FCLASS_Q :: u8 where "VLIW64_FCLASS_Q \<equiv> 0xb7"
abbreviation (input) VLIW64_FCVT_W_Q :: u8 where "VLIW64_FCVT_W_Q \<equiv> 0xb8"
abbreviation (input) VLIW64_FCVT_WU_Q :: u8 where "VLIW64_FCVT_WU_Q \<equiv> 0xb9"
abbreviation (input) VLIW64_FCVT_Q_W :: u8 where "VLIW64_FCVT_Q_W \<equiv> 0xba"
abbreviation (input) VLIW64_FCVT_Q_WU :: u8 where "VLIW64_FCVT_Q_WU \<equiv> 0xbb"
abbreviation (input) VLIW64_FCVT_L_Q :: u8 where "VLIW64_FCVT_L_Q \<equiv> 0xbc"
abbreviation (input) VLIW64_FCVT_LU_Q :: u8 where "VLIW64_FCVT_LU_Q \<equiv> 0xbd"
abbreviation (input) VLIW64_FCVT_Q_L :: u8 where "VLIW64_FCVT_Q_L \<equiv> 0xbe"
abbreviation (input) VLIW64_FCVT_Q_LU :: u8 where "VLIW64_FCVT_Q_LU \<equiv> 0xbf"
abbreviation (input) VLIW64_ILLEGAL :: u8 where "VLIW64_ILLEGAL \<equiv> 0xc0"
abbreviation (input) VLIW64_C_ADDI4SPN :: u8 where "VLIW64_C_ADDI4SPN \<equiv> 0xc1"
abbreviation (input) VLIW64_C_FLD :: u8 where "VLIW64_C_FLD \<equiv> 0xc2"
abbreviation (input) VLIW64_C_LQ :: u8 where "VLIW64_C_LQ \<equiv> 0xc3"
abbreviation (input) VLIW64_C_LW :: u8 where "VLIW64_C_LW \<equiv> 0xc4"
abbreviation (input) VLIW64_C_LD :: u8 where "VLIW64_C_LD \<equiv> 0xc5"
abbreviation (input) VLIW64_RESERVED1 :: u8 where "VLIW64_RESERVED1 \<equiv> 0xc6"
abbreviation (input) VLIW64_C_FSD :: u8 where "VLIW64_C_FSD \<equiv> 0xc7"
abbreviation (input) VLIW64_C_SQ :: u8 where "VLIW64_C_SQ \<equiv> 0xc8"
abbreviation (input) VLIW64_C_SW :: u8 where "VLIW64_C_SW \<equiv> 0xc9"
abbreviation (input) VLIW64_C_SD :: u8 where "VLIW64_C_SD \<equiv> 0xca"
abbreviation (input) VLIW64_C_NOP :: u8 where "VLIW64_C_NOP \<equiv> 0xcb"
abbreviation (input) VLIW64_C_ADDI :: u8 where "VLIW64_C_ADDI \<equiv> 0xcc"
abbreviation (input) VLIW64_C_JAL :: u8 where "VLIW64_C_JAL \<equiv> 0xcd"
abbreviation (input) VLIW64_C_ADDIW :: u8 where "VLIW64_C_ADDIW \<equiv> 0xce"
abbreviation (input) VLIW64_C_LI :: u8 where "VLIW64_C_LI \<equiv> 0xcf"
abbreviation (input) VLIW64_C_ADDI16SP :: u8 where "VLIW64_C_ADDI16SP \<equiv> 0xd0"
abbreviation (input) VLIW64_C_LUI :: u8 where "VLIW64_C_LUI \<equiv> 0xd1"
abbreviation (input) VLIW64_C_SRLI :: u8 where "VLIW64_C_SRLI \<equiv> 0xd2"
abbreviation (input) VLIW64_C_SRLI64 :: u8 where "VLIW64_C_SRLI64 \<equiv> 0xd3"
abbreviation (input) VLIW64_C_SRAI :: u8 where "VLIW64_C_SRAI \<equiv> 0xd4"
abbreviation (input) VLIW64_C_SRAI64 :: u8 where "VLIW64_C_SRAI64 \<equiv> 0xd5"
abbreviation (input) VLIW64_C_ANDI :: u8 where "VLIW64_C_ANDI \<equiv> 0xd6"
abbreviation (input) VLIW64_C_SUB :: u8 where "VLIW64_C_SUB \<equiv> 0xd7"
abbreviation (input) VLIW64_C_XOR :: u8 where "VLIW64_C_XOR \<equiv> 0xd8"
abbreviation (input) VLIW64_C_OR :: u8 where "VLIW64_C_OR \<equiv> 0xd9"
abbreviation (input) VLIW64_C_AND :: u8 where "VLIW64_C_AND \<equiv> 0xda"
abbreviation (input) VLIW64_C_SUBW :: u8 where "VLIW64_C_SUBW \<equiv> 0xdb"
abbreviation (input) VLIW64_C_ADDW :: u8 where "VLIW64_C_ADDW \<equiv> 0xdc"
abbreviation (input) VLIW64_RESERVED2 :: u8 where "VLIW64_RESERVED2 \<equiv> 0xdd"
abbreviation (input) VLIW64_RESERVED3 :: u8 where "VLIW64_RESERVED3 \<equiv> 0xde"
abbreviation (input) VLIW64_C_J :: u8 where "VLIW64_C_J \<equiv> 0xdf"
abbreviation (input) VLIW64_C_BEQZ :: u8 where "VLIW64_C_BEQZ \<equiv> 0xe0"
abbreviation (input) VLIW64_C_BNEZ :: u8 where "VLIW64_C_BNEZ \<equiv> 0xe1"
abbreviation (input) VLIW64_C_SLLI :: u8 where "VLIW64_C_SLLI \<equiv> 0xe2"
abbreviation (input) VLIW64_C_SLLI64 :: u8 where "VLIW64_C_SLLI64 \<equiv> 0xe3"
abbreviation (input) VLIW64_C_FLDSP :: u8 where "VLIW64_C_FLDSP \<equiv> 0xe4"
abbreviation (input) VLIW64_C_LQSP :: u8 where "VLIW64_C_LQSP \<equiv> 0xe5"
abbreviation (input) VLIW64_C_LWSP :: u8 where "VLIW64_C_LWSP \<equiv> 0xe6"
abbreviation (input) VLIW64_C_FLWSP :: u8 where "VLIW64_C_FLWSP \<equiv> 0xe7"
abbreviation (input) VLIW64_C_LDSP :: u8 where "VLIW64_C_LDSP \<equiv> 0xe8"
abbreviation (input) VLIW64_C_JR :: u8 where "VLIW64_C_JR \<equiv> 0xe9"
abbreviation (input) VLIW64_C_MV :: u8 where "VLIW64_C_MV \<equiv> 0xea"
abbreviation (input) VLIW64_C_EBREAK :: u8 where "VLIW64_C_EBREAK \<equiv> 0xeb"
abbreviation (input) VLIW64_C_JALR :: u8 where "VLIW64_C_JALR \<equiv> 0xec"
abbreviation (input) VLIW64_C_ADD :: u8 where "VLIW64_C_ADD \<equiv> 0xed"
abbreviation (input) VLIW64_C_FSDSP :: u8 where "VLIW64_C_FSDSP \<equiv> 0xee"
abbreviation (input) VLIW64_C_SQSP :: u8 where "VLIW64_C_SQSP \<equiv> 0xef"
abbreviation (input) VLIW64_C_SWSP :: u8 where "VLIW64_C_SWSP \<equiv> 0xf0"
abbreviation (input) VLIW64_C_FSWSP :: u8 where "VLIW64_C_FSWSP \<equiv> 0xf1"
abbreviation (input) VLIW64_C_SDSP :: u8 where "VLIW64_C_SDSP \<equiv> 0xf2"
abbreviation (input) VLIW64_SIZE :: u8 where "VLIW64_SIZE \<equiv> 0xf3"

section \<open>Names\<close>

definition VliwName64_lo :: "string list" where
  "VliwName64_lo =
   [''VLIW_NONE'', ''VLIW_LUI'', ''VLIW_AUIPC'', ''VLIW_J'', ''VLIW_JAL'', ''VLIW_JR'',
    ''VLIW_JALR'', ''VLIW_BEQ'', ''VLIW_BNE'', ''VLIW_BLT'', ''VLIW_BGE'', ''VLIW_BLTU'',
    ''VLIW_BGEU'', ''VLIW_LB'', ''VLIW_LH'', ''VLIW_LW'', ''VLIW_LBU'', ''VLIW_LHU'',
    ''VLIW_SB'', ''VLIW_SH'', ''VLIW_SW'', ''VLIW_NOP'', ''VLIW_ADDI'', ''VLIW_SLTI'',
    ''VLIW_SLTIU'', ''VLIW_XORI'', ''VLIW_ORI'', ''VLIW_ANDI'', ''VLIW_ADD'', ''VLIW_SUB'',
    ''VLIW_XOR'', ''VLIW_SRL'', ''VLIW_SRA'', ''VLIW_OR'', ''VLIW_AND'', ''VLIW_FENCE'',
    ''VLIW_ECALL'', ''VLIW_EBREAK'', ''VLIW_SRET'', ''VLIW_MRET'', ''VLIW_WFI'',
    ''VLIW_LWU'', ''VLIW_LD'', ''VLIW_SD'', ''VLIW_SLLID'', ''VLIW_SRLID'', ''VLIW_SRAID'',
    ''VLIW_ADDIW'', ''VLIW_SLLIW'', ''VLIW_SRLIW'', ''VLIW_SRAIW'', ''VLIW_ADDW'',
    ''VLIW_SUBW'', ''VLIW_SLLW'', ''VLIW_SRLW'', ''VLIW_SRAW'', ''VLIW_FENCE_I'',
    ''VLIW_CSRRW'', ''VLIW_CSRRS'', ''VLIW_CSRRC'', ''VLIW_CSRRWI'', ''VLIW_CSRRSI'',
    ''VLIW_CSRRCI'', ''VLIW_MUL'', ''VLIW_MULH'', ''VLIW_MULHSU'', ''VLIW_MULHU'',
    ''VLIW_DIV'', ''VLIW_DIVU'', ''VLIW_REM'', ''VLIW_REMU'', ''VLIW_MULW'', ''VLIW_DIVW'',
    ''VLIW_DIVUW'', ''VLIW_REMW'', ''VLIW_REMUW'', ''VLIW_LR_W'', ''VLIW_SC_W'',
    ''VLIW_AMOSWAP_W'', ''VLIW_AMOADD_W'', ''VLIW_AMOXOR_W'', ''VLIW_AMOAND_W'',
    ''VLIW_AMOOR_W'', ''VLIW_AMOMIN_W'', ''VLIW_AMOMAX_W'', ''VLIW_AMOMINU_W'',
    ''VLIW_AMOMAXU_W'', ''VLIW_LR_D'', ''VLIW_SC_D'', ''VLIW_AMOSWAP_D'', ''VLIW_AMOADD_D'',
    ''VLIW_AMOXOR_D'', ''VLIW_AMOAND_D'', ''VLIW_AMOOR_D'', ''VLIW_AMOMIN_D'',
    ''VLIW_AMOMAX_D'', ''VLIW_AMOMINU_D'', ''VLIW_AMOMAXU_D'', ''VLIW_FLW'', ''VLIW_FSW'',
    ''VLIW_FMADD_S'', ''VLIW_FMSUB_S'', ''VLIW_FNMSUB_S'', ''VLIW_FNMADD_S'',
    ''VLIW_FADD_S'', ''VLIW_FSUB_S'', ''VLIW_FMUL_S'', ''VLIW_FDIV_S'', ''VLIW_FSQRT_S'',
    ''VLIW_FSGNJ_S'', ''VLIW_FSGNJN_S'', ''VLIW_FSGNJX_S'', ''VLIW_FMIN_S'',
    ''VLIW_FMAX_S'', ''VLIW_FCVT_W_S'', ''VLIW_FCVT_WU_S'', ''VLIW_FMV_X_W'',
    ''VLIW_FEQ_S'', ''VLIW_FLT_S'', ''VLIW_FLE_S'', ''VLIW_FCLASS_S'', ''VLIW_FCVT_S_W'']"

definition VliwName64_hi :: "string list" where
  "VliwName64_hi =
   [''VLIW_FCVT_S_WU'', ''VLIW_FMV_W_X'', ''VLIW_FCVT_L_S'', ''VLIW_FCVT_LU_S'',
    ''VLIW_FCVT_S_L'', ''VLIW_FCVT_S_LU'', ''VLIW_FLD'', ''VLIW_FSD'', ''VLIW_FMADD_D'',
    ''VLIW_FMSUB_D'', ''VLIW_FNMSUB_D'', ''VLIW_FNMADD_D'', ''VLIW_FADD_D'',
    ''VLIW_FSUB_D'', ''VLIW_FMUL_D'', ''VLIW_FDIV_D'', ''VLIW_FSQRT_D'', ''VLIW_FSGNJ_D'',
    ''VLIW_FSGNJN_D'', ''VLIW_FSGNJX_D'', ''VLIW_FMIN_D'', ''VLIW_FMAX_D'',
    ''VLIW_FCVT_S_D'', ''VLIW_FCVT_D_S'', ''VLIW_FEQ_D'', ''VLIW_FLT_D'', ''VLIW_FLE_D'',
    ''VLIW_FCLASS_D'', ''VLIW_FCVT_W_D'', ''VLIW_FCVT_WU_D'', ''VLIW_FCVT_D_W'',
    ''VLIW_FCVT_D_WU'', ''VLIW_FCVT_L_D'', ''VLIW_FCVT_LU_D'', ''VLIW_FMV_X_D'',
    ''VLIW_FCVT_D_L'', ''VLIW_FCVT_D_LU'', ''VLIW_FMV_D_X'', ''VLIW_FLQ'', ''VLIW_FSQ'',
    ''VLIW_FMADD_Q'', ''VLIW_FMSUB_Q'', ''VLIW_FNMSUB_Q'', ''VLIW_FNMADD_Q'',
    ''VLIW_FADD_Q'', ''VLIW_FSUB_Q'', ''VLIW_FMUL_Q'', ''VLIW_FDIV_Q'', ''VLIW_FSQRT_Q'',
    ''VLIW_FSGNJ_Q'', ''VLIW_FSGNJN_Q'', ''VLIW_FSGNJX_Q'', ''VLIW_FMIN_Q'',
    ''VLIW_FMAX_Q'', ''VLIW_FCVT_S_Q'', ''VLIW_FCVT_Q_S'', ''VLIW_FCVT_D_Q'',
    ''VLIW_FCVT_Q_D'', ''VLIW_FEQ_Q'', ''VLIW_FLT_Q'', ''VLIW_FLE_Q'', ''VLIW_FCLASS_Q'',
    ''VLIW_FCVT_W_Q'', ''VLIW_FCVT_WU_Q'', ''VLIW_FCVT_Q_W'', ''VLIW_FCVT_Q_WU'',
    ''VLIW_FCVT_L_Q'', ''VLIW_FCVT_LU_Q'', ''VLIW_FCVT_Q_L'', ''VLIW_FCVT_Q_LU'',
    ''VLIW_ILLEGAL'', ''VLIW_C_ADDI4SPN'', ''VLIW_C_FLD'', ''VLIW_C_LQ'', ''VLIW_C_LW'',
    ''VLIW_C_LD'', ''VLIW_RESERVED1'', ''VLIW_C_FSD'', ''VLIW_C_SQ'', ''VLIW_C_SW'',
    ''VLIW_C_SD'', ''VLIW_C_NOP'', ''VLIW_C_ADDI'', ''VLIW_C_JAL'', ''VLIW_C_ADDIW'',
    ''VLIW_C_LI'', ''VLIW_C_ADDI16SP'', ''VLIW_C_LUI'', ''VLIW_C_SRLI'', ''VLIW_C_SRLI64'',
    ''VLIW_C_SRAI'', ''VLIW_C_SRAI64'', ''VLIW_C_ANDI'', ''VLIW_C_SUB'', ''VLIW_C_XOR'',
    ''VLIW_C_OR'', ''VLIW_C_AND'', ''VLIW_C_SUBW'', ''VLIW_C_ADDW'', ''VLIW_RESERVED2'',
    ''VLIW_RESERVED3'', ''VLIW_C_J'', ''VLIW_C_BEQZ'', ''VLIW_C_BNEZ'', ''VLIW_C_SLLI'',
    ''VLIW_C_SLLI64'', ''VLIW_C_FLDSP'', ''VLIW_C_LQSP'', ''VLIW_C_LWSP'', ''VLIW_C_FLWSP'',
    ''VLIW_C_LDSP'', ''VLIW_C_JR'', ''VLIW_C_MV'', ''VLIW_C_EBREAK'', ''VLIW_C_JALR'',
    ''VLIW_C_ADD'', ''VLIW_C_FSDSP'', ''VLIW_C_SQSP'', ''VLIW_C_SWSP'', ''VLIW_C_FSWSP'',
    ''VLIW_C_SDSP'']"

definition VliwName64 :: "string list" where
  "VliwName64 = VliwName64_lo @ VliwName64_hi"

section \<open>Rows\<close>

definition optable64_i :: "optable list" where
  "optable64_i =
   [Op ''iiiiiiiiiiiiiiiiiiiiddddd0110111'' 0x00000037 0x0000007f VLIW64_LUI ''lui rd,imm20'',
    Op ''iiiiiiiiiiiiiiiiiiiiddddd0010111'' 0x00000017 0x0000007f VLIW64_AUIPC ''auipc rd,imm20'',
    Op ''iiiiiiiiiiiiiiiiiiii000001101111'' 0x0000006f 0x00000fff VLIW64_J ''j joff'',
    Op ''iiiiiiiiiiiiiiiiiiiiddddd1101111'' 0x0000006f 0x0000007f VLIW64_JAL ''jal rd,joff'',
    Op ''000000000000sssss000000001100111'' 0x00000067 0xfff07fff VLIW64_JR ''jr rs1'',
    Op ''iiiiiiiiiiiisssss000ddddd1100111'' 0x00000067 0x0000707f VLIW64_JALR ''jalr rd,rs1,simm12'',
    Op ''iiiiiiitttttsssss000iiiii1100011'' 0x00000063 0x0000707f VLIW64_BEQ ''beq rs1,rs2,boff'',
    Op ''iiiiiiitttttsssss001iiiii1100011'' 0x00001063 0x0000707f VLIW64_BNE ''bne rs1,rs2,boff'',
    Op ''iiiiiiitttttsssss100iiiii1100011'' 0x00004063 0x0000707f VLIW64_BLT ''blt rs1,rs2,boff'',
    Op ''iiiiiiitttttsssss101iiiii1100011'' 0x00005063 0x0000707f VLIW64_BGE ''bge rs1,rs2,boff'',
    Op ''iiiiiiitttttsssss110iiiii1100011'' 0x00006063 0x0000707f VLIW64_BLTU ''bltu rs1,rs2,boff'',
    Op ''iiiiiiitttttsssss111iiiii1100011'' 0x00007063 0x0000707f VLIW64_BGEU ''bgeu rs1,rs2,boff'',
    Op ''iiiiiiiiiiiisssss000ddddd0000011'' 0x00000003 0x0000707f VLIW64_LB ''lb rd,rs,simm12'',
    Op ''iiiiiiiiiiiisssss001ddddd0000011'' 0x00001003 0x0000707f VLIW64_LH ''lh rd,rs,simm12'',
    Op ''iiiiiiiiiiiisssss010ddddd0000011'' 0x00002003 0x0000707f VLIW64_LW ''lw rd,rs,simm12'',
    Op ''iiiiiiiiiiiisssss100ddddd0000011'' 0x00004003 0x0000707f VLIW64_LBU ''lbu rd,rs,simm12'',
    Op ''iiiiiiiiiiiisssss101ddddd0000011'' 0x00005003 0x0000707f VLIW64_LHU ''lhu rd,rs,simm12'',
    Op ''iiiiiiitttttsssss000iiiii0100011'' 0x00000023 0x0000707f VLIW64_SB ''sb rs2,rs1,s2imm12'',
    Op ''iiiiiiitttttsssss001iiiii0100011'' 0x00001023 0x0000707f VLIW64_SH ''sh rs2,rs1,s2imm12'',
    Op ''iiiiiiitttttsssss010iiiii0100011'' 0x00002023 0x0000707f VLIW64_SW ''sw rs2,rs1,s2imm12'',
    Op ''00000000000000000000000000010011'' 0x00000013 0xffffffff VLIW64_NOP ''nop'',
    Op ''iiiiiiiiiiiisssss000ddddd0010011'' 0x00000013 0x0000707f VLIW64_ADDI ''addi rd,rs,simm12'',
    Op ''iiiiiiiiiiiisssss010ddddd0010011'' 0x00002013 0x0000707f VLIW64_SLTI ''slti rd,rs,simm12'',
    Op ''iiiiiiiiiiiisssss011ddddd0010011'' 0x00003013 0x0000707f VLIW64_SLTIU ''sltiu rd,rs,simm12'',
    Op ''iiiiiiiiiiiisssss100ddddd0010011'' 0x00004013 0x0000707f VLIW64_XORI ''xori rd,rs,simm12'',
    Op ''iiiiiiiiiiiisssss110ddddd0010011'' 0x00006013 0x0000707f VLIW64_ORI ''ori rd,rs,simm12'',
    Op ''iiiiiiiiiiiisssss111ddddd0010011'' 0x00007013 0x0000707f VLIW64_ANDI ''andi rd,rs,simm12'',
    Op ''0000000tttttsssss000ddddd0110011'' 0x00000033 0xfe00707f VLIW64_ADD ''add rd,rs1,rs2'',
    Op ''0100000tttttsssss000ddddd0110011'' 0x40000033 0xfe00707f VLIW64_SUB ''sub rd,rs1,rs2'',
    Op ''0000000tttttsssss100ddddd0110011'' 0x00004033 0xfe00707f VLIW64_XOR ''xor rd,rs1,rs2'',
    Op ''0000000tttttsssss101ddddd0110011'' 0x00005033 0xfe00707f VLIW64_SRL ''srl rd,rs1,rs2'',
    Op ''0100000tttttsssss101ddddd0110011'' 0x40005033 0xfe00707f VLIW64_SRA ''sra rd,rs1,rs2'',
    Op ''0000000tttttsssss110ddddd0110011'' 0x00006033 0xfe00707f VLIW64_OR ''or rd,rs1,rs2'',
    Op ''0000000tttttsssss111ddddd0110011'' 0x00007033 0xfe00707f VLIW64_AND ''and rd,rs1,rs2'',
    Op ''FFFFFFFFFFFFsssss000ddddd0001111'' 0x0000000f 0x0000707f VLIW64_FENCE ''fence'',
    Op ''00000000000000000000000001110011'' 0x00000073 0xffffffff VLIW64_ECALL ''ecall'',
    Op ''00000000000010000000000001110011'' 0x00100073 0xffffffff VLIW64_EBREAK ''ebreak'',
    Op ''00010000000100000000000001110011'' 0x10200073 0xffffffff VLIW64_SRET ''sret'',
    Op ''01100000000100000000000001110011'' 0x30200073 0xffffffff VLIW64_MRET ''mret'',
    Op ''00010000001010000000000001110011'' 0x10500073 0xffffffff VLIW64_WFI ''wfi'',
    Op ''iiiiiiiiiiiisssss110ddddd0000011'' 0x00006003 0x0000707f VLIW64_LWU ''lwu rd,rs,simm12'',
    Op ''iiiiiiiiiiiisssss011ddddd0000011'' 0x00003003 0x0000707f VLIW64_LD ''ld rd,rs,simm12'',
    Op ''iiiiiiitttttsssss011iiiii0100011'' 0x00003023 0x0000707f VLIW64_SD ''sd rs2,rs1,s2imm12'',
    Op ''000000aaaaaasssss001ddddd0010011'' 0x00001013 0xfc00707f VLIW64_SLLID ''sllid rd,rs1,shamt6'',
    Op ''000000aaaaaasssss101ddddd0010011'' 0x00005013 0xfc00707f VLIW64_SRLID ''srlid rd,rs1,shamt6'',
    Op ''010000aaaaaasssss101ddddd0010011'' 0x40005013 0xfc00707f VLIW64_SRAID ''sraid rd,rs1,shamt6'',
    Op ''iiiiiiiiiiiisssss000ddddd0011011'' 0x0000001b 0x0000707f VLIW64_ADDIW ''addiw rd,rs,simm12'',
    Op ''0000000aaaaasssss001ddddd0011011'' 0x0000101b 0xfe00707f VLIW64_SLLIW ''slliw rd,rs1,shamt'',
    Op ''0000000aaaaasssss101ddddd0011011'' 0x0000501b 0xfe00707f VLIW64_SRLIW ''srliw rd,rs1,shamt'',
    Op ''0100000aaaaasssss101ddddd0011011'' 0x4000501b 0xfe00707f VLIW64_SRAIW ''sraiw rd,rs1,shamt'',
    Op ''0000000tttttsssss000ddddd0111011'' 0x0000003b 0xfe00707f VLIW64_ADDW ''addw rd,rs1,rs2'',
    Op ''0100000tttttsssss000ddddd0111011'' 0x4000003b 0xfe00707f VLIW64_SUBW ''subw rd,rs1,rs2'',
    Op ''0000000tttttsssss001ddddd0111011'' 0x0000103b 0xfe00707f VLIW64_SLLW ''sllw rd,rs1,rs2'',
    Op ''0000000tttttsssss101ddddd0111011'' 0x0000503b 0xfe00707f VLIW64_SRLW ''srlw rd,rs1,rs2'',
    Op ''0100000tttttsssss101ddddd0111011'' 0x4000503b 0xfe00707f VLIW64_SRAW ''sraw rd,rs1,rs2'',
    Op ''iiiiiiiiiiiisssss001ddddd0001111'' 0x0000100f 0x0000707f VLIW64_FENCE_I ''fence.i imm21'',
    Op ''ccccccccccccsssss001ddddd1110011'' 0x00001073 0x0000707f VLIW64_CSRRW ''csrrw csr,rd,rs'',
    Op ''ccccccccccccsssss010ddddd1110011'' 0x00002073 0x0000707f VLIW64_CSRRS ''csrrs csr,rd,rs'',
    Op ''ccccccccccccsssss011ddddd1110011'' 0x00003073 0x0000707f VLIW64_CSRRC ''csrrc csr,rd,rs'',
    Op ''ccccccccccccuuuuu101ddddd1110011'' 0x00005073 0x0000707f VLIW64_CSRRWI ''csrrwi csr,rd,uimm5'',
    Op ''ccccccccccccuuuuu110ddddd1110011'' 0x00006073 0x0000707f VLIW64_CSRRSI ''csrrsi csr,rd,uimm5'',
    Op ''ccccccccccccuuuuu111ddddd1110011'' 0x00007073 0x0000707f VLIW64_CSRRCI ''csrrci csr,rd,uimm5'']"

definition optable64_m :: "optable list" where
  "optable64_m =
   [Op ''0000001tttttsssss000ddddd0110011'' 0x02000033 0xfe00707f VLIW64_MUL ''mul rd,rs1,rs2'',
    Op ''0000001tttttsssss001ddddd0110011'' 0x02001033 0xfe00707f VLIW64_MULH ''mulh rd,rs1,rs2'',
    Op ''0000001tttttsssss010ddddd0110011'' 0x02002033 0xfe00707f VLIW64_MULHSU ''mulhsu rd,rs1,rs2'',
    Op ''0000001tttttsssss011ddddd0110011'' 0x02003033 0xfe00707f VLIW64_MULHU ''mulhu rd,rs1,rs2'',
    Op ''0000001tttttsssss100ddddd0110011'' 0x02004033 0xfe00707f VLIW64_DIV ''div rd,rs1,rs2'',
    Op ''0000001tttttsssss101ddddd0110011'' 0x02005033 0xfe00707f VLIW64_DIVU ''divu rd,rs1,rs2'',
    Op ''0000001tttttsssss110ddddd0110011'' 0x02006033 0xfe00707f VLIW64_REM ''rem rd,rs1,rs2'',
    Op ''0000001tttttsssss111ddddd0110011'' 0x02007033 0xfe00707f VLIW64_REMU ''remu rd,rs1,rs2'',
    Op ''0000001tttttsssss000ddddd0111011'' 0x0200003b 0xfe00707f VLIW64_MULW ''mulw rd,rs1,rs2'',
    Op ''0000001tttttsssss100ddddd0111011'' 0x0200403b 0xfe00707f VLIW64_DIVW ''divw rd,rs1,rs2'',
    Op ''0000001tttttsssss101ddddd0111011'' 0x0200503b 0xfe00707f VLIW64_DIVUW ''divuw rd,rs1,rs2'',
    Op ''0000001tttttsssss110ddddd0111011'' 0x0200603b 0xfe00707f VLIW64_REMW ''remw rd,rs1,rs2'',
    Op ''0000001tttttsssss111ddddd0111011'' 0x0200703b 0xfe00707f VLIW64_REMUW ''remuw rd,rs1,rs2'']"

definition optable64_a :: "optable list" where
  "optable64_a =
   [Op ''00010ql00000sssss010ddddd0101111'' 0x1000202f 0xf9f0707f VLIW64_LR_W ''lr.w rd,rs1'',
    Op ''00011qltttttsssss010ddddd0101111'' 0x1800202f 0xf800707f VLIW64_SC_W ''sc.w rd,rs2,rs1'',
    Op ''00001qltttttsssss010ddddd0101111'' 0x0800202f 0xf800707f VLIW64_AMOSWAP_W ''amoswap.w'',
    Op ''00000qltttttsssss010ddddd0101111'' 0x0000202f 0xf800707f VLIW64_AMOADD_W ''amoadd.w'',
    Op ''00100qltttttsssss010ddddd0101111'' 0x2000202f 0xf800707f VLIW64_AMOXOR_W ''amoxor.w'',
    Op ''01100qltttttsssss010ddddd0101111'' 0x6000202f 0xf800707f VLIW64_AMOAND_W ''amoand.w'',
    Op ''01000qltttttsssss010ddddd0101111'' 0x4000202f 0xf800707f VLIW64_AMOOR_W ''amoor.w'',
    Op ''10000qltttttsssss010ddddd0101111'' 0x8000202f 0xf800707f VLIW64_AMOMIN_W ''amomin.w'',
    Op ''10100qltttttsssss010ddddd0101111'' 0xa000202f 0xf800707f VLIW64_AMOMAX_W ''amomax.w'',
    Op ''11000qltttttsssss010ddddd0101111'' 0xc000202f 0xf800707f VLIW64_AMOMINU_W ''amominu.w'',
    Op ''11100qltttttsssss010ddddd0101111'' 0xe000202f 0xf800707f VLIW64_AMOMAXU_W ''amomaxu.w'',
    Op ''00010ql00000sssss011ddddd0101111'' 0x1000302f 0xf9f0707f VLIW64_LR_D ''lr.d rd,rs1'',
    Op ''00011qltttttsssss011ddddd0101111'' 0x1800302f 0xf800707f VLIW64_SC_D ''sc.d rd,rs1,rs2'',
    Op ''00001qltttttsssss011ddddd0101111'' 0x0800302f 0xf800707f VLIW64_AMOSWAP_D ''amoswap.d'',
    Op ''00000qltttttsssss011ddddd0101111'' 0x0000302f 0xf800707f VLIW64_AMOADD_D ''amoadd.d'',
    Op ''00100qltttttsssss011ddddd0101111'' 0x2000302f 0xf800707f VLIW64_AMOXOR_D ''amoxor.d'',
    Op ''01100qltttttsssss011ddddd0101111'' 0x6000302f 0xf800707f VLIW64_AMOAND_D ''amoand.d'',
    Op ''01000qltttttsssss011ddddd0101111'' 0x4000302f 0xf800707f VLIW64_AMOOR_D ''amoor.d'',
    Op ''10000qltttttsssss011ddddd0101111'' 0x8000302f 0xf800707f VLIW64_AMOMIN_D ''amomin.d'',
    Op ''10100qltttttsssss011ddddd0101111'' 0xa000302f 0xf800707f VLIW64_AMOMAX_D ''amomax.d'',
    Op ''11000qltttttsssss011ddddd0101111'' 0xc000302f 0xf800707f VLIW64_AMOMINU_D ''amominu.d'',
    Op ''11100qltttttsssss011ddddd0101111'' 0xe000302f 0xf800707f VLIW64_AMOMAXU_D ''amomaxu.d'']"

definition optable64_f :: "optable list" where
  "optable64_f =
   [Op ''iiiiiiiiiiiisssss010ddddd0000111'' 0x00002007 0x0000707f VLIW64_FLW ''flw'',
    Op ''iiiiiiitttttsssss010iiiii0100111'' 0x00002027 0x0000707f VLIW64_FSW ''fsw'',
    Op ''rrrrr00tttttsssssmmmddddd1000011'' 0x00000043 0x0600007f VLIW64_FMADD_S ''fmadd.s'',
    Op ''rrrrr00tttttsssssmmmddddd1000111'' 0x00000047 0x0600007f VLIW64_FMSUB_S ''fmsub.s'',
    Op ''rrrrr00tttttsssssmmmddddd1001011'' 0x0000004b 0x0600007f VLIW64_FNMSUB_S ''fnmsub.s'',
    Op ''rrrrr00tttttsssssmmmddddd1001111'' 0x0000004f 0x0600007f VLIW64_FNMADD_S ''fnmadd.s'',
    Op ''0000000tttttsssssmmmddddd1010011'' 0x00000053 0xfe00007f VLIW64_FADD_S ''fadd.s'',
    Op ''0000100tttttsssssmmmddddd1010011'' 0x08000053 0xfe00007f VLIW64_FSUB_S ''fsub.s'',
    Op ''0001000tttttsssssmmmddddd1010011'' 0x10000053 0xfe00007f VLIW64_FMUL_S ''fmul.s'',
    Op ''0001100tttttsssssmmmddddd1010011'' 0x18000053 0xfe00007f VLIW64_FDIV_S ''fdiv.s'',
    Op ''010110000000sssssmmmddddd1010011'' 0x58000053 0xfff0007f VLIW64_FSQRT_S ''fsqrt.s'',
    Op ''0010000tttttsssss000ddddd1010011'' 0x20000053 0xfe00707f VLIW64_FSGNJ_S ''fsgnj.s'',
    Op ''0010000tttttsssss001ddddd1010011'' 0x20001053 0xfe00707f VLIW64_FSGNJN_S ''fsgnjn.s'',
    Op ''0010000tttttsssss010ddddd1010011'' 0x20002053 0xfe00707f VLIW64_FSGNJX_S ''fsgnjx.s'',
    Op ''0010100tttttsssss000ddddd1010011'' 0x28000053 0xfe00707f VLIW64_FMIN_S ''fmin.s'',
    Op ''0010100tttttsssss001ddddd1010011'' 0x28001053 0xfe00707f VLIW64_FMAX_S ''fmax.s'',
    Op ''110000000000sssssmmmddddd1010011'' 0xc0000053 0xfff0007f VLIW64_FCVT_W_S ''fcvt.w.s'',
    Op ''110000000001sssssmmmddddd1010011'' 0xc0100053 0xfff0007f VLIW64_FCVT_WU_S ''fcvt.wu.s'',
    Op ''111000000000sssss000ddddd1010011'' 0xe0000053 0xfff0707f VLIW64_FMV_X_W ''fmv.x.w'',
    Op ''1010000tttttsssss010ddddd1010011'' 0xa0002053 0xfe00707f VLIW64_FEQ_S ''feq.s'',
    Op ''1010000tttttsssss001ddddd1010011'' 0xa0001053 0xfe00707f VLIW64_FLT_S ''flt.s'',
    Op ''1010000tttttsssss000ddddd1010011'' 0xa0000053 0xfe00707f VLIW64_FLE_S ''fle.s'',
    Op ''111000000000sssss001ddddd1010011'' 0xe0001053 0xfff0707f VLIW64_FCLASS_S ''fclass.s'',
    Op ''110100000000sssssmmmddddd1010011'' 0xd0000053 0xfff0007f VLIW64_FCVT_S_W ''fcvt.s.w'',
    Op ''110100000001sssssmmmddddd1010011'' 0xd0100053 0xfff0007f VLIW64_FCVT_S_WU ''fcvt.s.wu'',
    Op ''111100000000sssss000ddddd1010011'' 0xf0000053 0xfff0707f VLIW64_FMV_W_X ''fmv.w.x'',
    Op ''110000000010sssssmmmddddd1010011'' 0xc0200053 0xfff0007f VLIW64_FCVT_L_S ''fcvt.l.s'',
    Op ''110000000011sssssmmmddddd1010011'' 0xc0300053 0xfff0007f VLIW64_FCVT_LU_S ''fcvt.lu.s'',
    Op ''110100000010sssssmmmddddd1010011'' 0xd0200053 0xfff0007f VLIW64_FCVT_S_L ''fcvt.s.l'',
    Op ''110100000011sssssmmmddddd1010011'' 0xd0300053 0xfff0007f VLIW64_FCVT_S_LU ''fcvt.s.lu'']"

definition optable64_d :: "optable list" where
  "optable64_d =
   [Op ''iiiiiiiiiiiisssss011ddddd0000111'' 0x00003007 0x0000707f VLIW64_FLD ''fld'',
    Op ''iiiiiiitttttsssss011iiiii0100111'' 0x00003027 0x0000707f VLIW64_FSD ''fsd'',
    Op ''rrrrr01tttttsssssmmmddddd1000011'' 0x02000043 0x0600007f VLIW64_FMADD_D ''fmadd.d'',
    Op ''rrrrr01tttttsssssmmmddddd1000111'' 0x02000047 0x0600007f VLIW64_FMSUB_D ''fmsub.d'',
    Op ''rrrrr01tttttsssssmmmddddd1001011'' 0x0200004b 0x0600007f VLIW64_FNMSUB_D ''fnmsub.d'',
    Op ''rrrrr01tttttsssssmmmddddd1001111'' 0x0200004f 0x0600007f VLIW64_FNMADD_D ''fnmadd.d'',
    Op ''0000001tttttsssssmmmddddd1010011'' 0x02000053 0xfe00007f VLIW64_FADD_D ''fadd.d'',
    Op ''0000101tttttsssssmmmddddd1010011'' 0x0a000053 0xfe00007f VLIW64_FSUB_D ''fsub.d'',
    Op ''0001001tttttsssssmmmddddd1010011'' 0x12000053 0xfe00007f VLIW64_FMUL_D ''fmul.d'',
    Op ''0001101tttttsssssmmmddddd1010011'' 0x1a000053 0xfe00007f VLIW64_FDIV_D ''fdiv.d'',
    Op ''010110100000sssssmmmddddd1010011'' 0x5a000053 0xfff0007f VLIW64_FSQRT_D ''fsqrt.d'',
    Op ''0010001tttttsssss000ddddd1010011'' 0x22000053 0xfe00707f VLIW64_FSGNJ_D ''fsgnj.d'',
    Op ''0010001tttttsssss001ddddd1010011'' 0x22001053 0xfe00707f VLIW64_FSGNJN_D ''fsgnjn.d'',
    Op ''0010001tttttsssss010ddddd1010011'' 0x22002053 0xfe00707f VLIW64_FSGNJX_D ''fsgnjx.d'',
    Op ''0010101tttttsssss000ddddd1010011'' 0x2a000053 0xfe00707f VLIW64_FMIN_D ''fmin.d'',
    Op ''0010101tttttsssss001ddddd1010011'' 0x2a001053 0xfe00707f VLIW64_FMAX_D ''fmax.d'',
    Op ''010000000001sssssmmmddddd1010011'' 0x40100053 0xfff0007f VLIW64_FCVT_S_D ''fcvt.s.d'',
    Op ''010000100000sssssmmmddddd1010011'' 0x42000053 0xfff0007f VLIW64_FCVT_D_S ''fcvt.d.s'',
    Op ''1010001tttttsssss010ddddd1010011'' 0xa2002053 0xfe00707f VLIW64_FEQ_D ''feq.d'',
    Op ''1010001tttttsssss001ddddd1010011'' 0xa2001053 0xfe00707f VLIW64_FLT_D ''flt.d'',
    Op ''1010001tttttsssss000ddddd1010011'' 0xa2000053 0xfe00707f VLIW64_FLE_D ''fle.d'',
    Op ''111000100000sssss001ddddd1010011'' 0xe2001053 0xfff0707f VLIW64_FCLASS_D ''fclass.d'',
    Op ''110000100000sssssmmmddddd1010011'' 0xc2000053 0xfff0007f VLIW64_FCVT_W_D ''fcvt.w.d'',
    Op ''110000100001sssssmmmddddd1010011'' 0xc2100053 0xfff0007f VLIW64_FCVT_WU_D ''fcvt.wu.d'',
    Op ''110100100000sssssmmmddddd1010011'' 0xd2000053 0xfff0007f VLIW64_FCVT_D_W ''fcvt.d.w'',
    Op ''110100100001sssssmmmddddd1010011'' 0xd2100053 0xfff0007f VLIW64_FCVT_D_WU ''fcvt.d.wu'',
    Op ''110000100010sssssmmmddddd1010011'' 0xc2200053 0xfff0007f VLIW64_FCVT_L_D ''fcvt.l.d'',
    Op ''110000100011sssssmmmddddd1010011'' 0xc2300053 0xfff0007f VLIW64_FCVT_LU_D ''fcvt.lu.d'',
    Op ''111000100000sssss000ddddd1010011'' 0xe2000053 0xfff0707f VLIW64_FMV_X_D ''fmv.x.d'',
    Op ''110100100010sssssmmmddddd1010011'' 0xd2200053 0xfff0007f VLIW64_FCVT_D_L ''fcvt.d.l'',
    Op ''110100100011sssssmmmddddd1010011'' 0xd2300053 0xfff0007f VLIW64_FCVT_D_LU ''fcvt.d.lu'',
    Op ''111100100000sssss000ddddd1010011'' 0xf2000053 0xfff0707f VLIW64_FMV_D_X ''fmv.d.x'']"

definition optable64_q :: "optable list" where
  "optable64_q =
   [Op ''iiiiiiiiiiiisssss100ddddd0000111'' 0x00004007 0x0000707f VLIW64_FLQ ''flq'',
    Op ''iiiiiiitttttsssss100iiiii0100111'' 0x00004027 0x0000707f VLIW64_FSQ ''fsq'',
    Op ''rrrrr11tttttsssssmmmddddd1000011'' 0x06000043 0x0600007f VLIW64_FMADD_Q ''fmadd.q'',
    Op ''rrrrr11tttttsssssmmmddddd1000111'' 0x06000047 0x0600007f VLIW64_FMSUB_Q ''fmsub.q'',
    Op ''rrrrr11tttttsssssmmmddddd1001011'' 0x0600004b 0x0600007f VLIW64_FNMSUB_Q ''fnmsub.q'',
    Op ''rrrrr11tttttsssssmmmddddd1001111'' 0x0600004f 0x0600007f VLIW64_FNMADD_Q ''fnmadd.q'',
    Op ''0000011tttttsssssmmmddddd1010011'' 0x06000053 0xfe00007f VLIW64_FADD_Q ''fadd.q'',
    Op ''0000111tttttsssssmmmddddd1010011'' 0x0e000053 0xfe00007f VLIW64_FSUB_Q ''fsub.q'',
    Op ''0001011tttttsssssmmmddddd1010011'' 0x16000053 0xfe00007f VLIW64_FMUL_Q ''fmul.q'',
    Op ''0001111tttttsssssmmmddddd1010011'' 0x1e000053 0xfe00007f VLIW64_FDIV_Q ''fdiv.q'',
    Op ''010111100000sssssmmmddddd1010011'' 0x5e000053 0xfff0007f VLIW64_FSQRT_Q ''fsqrt.q'',
    Op ''0010011tttttsssss000ddddd1010011'' 0x26000053 0xfe00707f VLIW64_FSGNJ_Q ''fsgnj.q'',
    Op ''0010011tttttsssss001ddddd1010011'' 0x26001053 0xfe00707f VLIW64_FSGNJN_Q ''fsgnjn.q'',
    Op ''0010011tttttsssss010ddddd1010011'' 0x26002053 0xfe00707f VLIW64_FSGNJX_Q ''fsgnjx.q'',
    Op ''0010111tttttsssss000ddddd1010011'' 0x2e000053 0xfe00707f VLIW64_FMIN_Q ''fmin.q'',
    Op ''0010111tttttsssss001ddddd1010011'' 0x2e001053 0xfe00707f VLIW64_FMAX_Q ''fmax.q'',
    Op ''010000000011sssssmmmddddd1010011'' 0x40300053 0xfff0007f VLIW64_FCVT_S_Q ''fcvt.s.q'',
    Op ''010001100000sssssmmmddddd1010011'' 0x46000053 0xfff0007f VLIW64_FCVT_Q_S ''fcvt.q.s'',
    Op ''010000100011sssssmmmddddd1010011'' 0x42300053 0xfff0007f VLIW64_FCVT_D_Q ''fcvt.d.q'',
    Op ''010001100001sssssmmmddddd1010011'' 0x46100053 0xfff0007f VLIW64_FCVT_Q_D ''fcvt.q.d'',
    Op ''1010011tttttsssss010ddddd1010011'' 0xa6002053 0xfe00707f VLIW64_FEQ_Q ''feq.q'',
    Op ''1010011tttttsssss001ddddd1010011'' 0xa6001053 0xfe00707f VLIW64_FLT_Q ''flt.q'',
    Op ''1010011tttttsssss000ddddd1010011'' 0xa6000053 0xfe00707f VLIW64_FLE_Q ''fle.q'',
    Op ''111001100000sssss001ddddd1010011'' 0xe6001053 0xfff0707f VLIW64_FCLASS_Q ''fclass.q'',
    Op ''110001100000sssssmmmddddd1010011'' 0xc6000053 0xfff0007f VLIW64_FCVT_W_Q ''fcvt.w.q'',
    Op ''110001100001sssssmmmddddd1010011'' 0xc6100053 0xfff0007f VLIW64_FCVT_WU_Q ''fcvt.wu.q'',
    Op ''110101100000sssssmmmddddd1010011'' 0xd6000053 0xfff0007f VLIW64_FCVT_Q_W ''fcvt.q.w'',
    Op ''110101100001sssssmmmddddd1010011'' 0xd6100053 0xfff0007f VLIW64_FCVT_Q_WU ''fcvt.q.wu'',
    Op ''110001100010sssssmmmddddd1010011'' 0xc6200053 0xfff0007f VLIW64_FCVT_L_Q ''fcvt.l.q'',
    Op ''110001100011sssssmmmddddd1010011'' 0xc6300053 0xfff0007f VLIW64_FCVT_LU_Q ''fcvt.lu.q'',
    Op ''110101100010sssssmmmddddd1010011'' 0xd6200053 0xfff0007f VLIW64_FCVT_Q_L ''fcvt.q.l'',
    Op ''110101100011sssssmmmddddd1010011'' 0xd6300053 0xfff0007f VLIW64_FCVT_Q_LU ''fcvt.q.lu'']"

definition optable64_c :: "optable list" where
  "optable64_c =
   [Op ''0000000000000000'' 0x00000000 0x0000ffff VLIW64_ILLEGAL ''illegal'',
    Op ''000iiiiiiiiddd00'' 0x00000000 0x0000e003 VLIW64_C_ADDI4SPN (''c.addi4spn rd'' @ [CHR 0x27]),
    Op ''001iiisssiiddd00'' 0x00002000 0x0000e003 VLIW64_C_FLD ''c.fld'',
    Op ''001iiisssiiddd00'' 0x00002000 0x0000e003 VLIW64_C_LQ ''c.lq'',
    Op ''010iiisssiiddd00'' 0x00004000 0x0000e003 VLIW64_C_LW ''c.lw'',
    Op ''011iiisssiiddd00'' 0x00006000 0x0000e003 VLIW64_C_LD ''c.ld'',
    Op ''100xxxxxxxxxxx00'' 0x00008000 0x0000e003 VLIW64_RESERVED1 ''reserved1'',
    Op ''101iiisssiittt00'' 0x0000a000 0x0000e003 VLIW64_C_FSD ''c.fsd'',
    Op ''101iiisssiittt00'' 0x0000a000 0x0000e003 VLIW64_C_SQ ''c.sq'',
    Op ''110iiisssiittt00'' 0x0000c000 0x0000e003 VLIW64_C_SW ''c.sw'',
    Op ''111iiisssiittt00'' 0x0000e000 0x0000e003 VLIW64_C_SD ''c.sd'',
    Op ''0000000000000001'' 0x00000001 0x0000ffff VLIW64_C_NOP ''c.nop'',
    Op ''000isssssiiiii01'' 0x00000001 0x0000e003 VLIW64_C_ADDI ''c.addi rd,imm'',
    Op ''001iiiiiiiiiii01'' 0x00002001 0x0000e003 VLIW64_C_JAL ''c.jal'',
    Op ''001isssssiiiii01'' 0x00002001 0x0000e003 VLIW64_C_ADDIW ''c.addiw'',
    Op ''010idddddiiiii01'' 0x00004001 0x0000e003 VLIW64_C_LI ''c.li'',
    Op ''011i00010iiiii01'' 0x00006101 0x0000ef83 VLIW64_C_ADDI16SP ''c.addi16sp'',
    Op ''011idddddiiiii01'' 0x00006001 0x0000e003 VLIW64_C_LUI ''c.lui'',
    Op ''100i00sssiiiii01'' 0x00008001 0x0000ec03 VLIW64_C_SRLI ''c.srli'',
    Op ''100000sss0000001'' 0x00008001 0x0000fc7f VLIW64_C_SRLI64 ''c.srli64'',
    Op ''100i01sssiiiii01'' 0x00008401 0x0000ec03 VLIW64_C_SRAI ''c.srai'',
    Op ''100001sss0000001'' 0x00008401 0x0000fc7f VLIW64_C_SRAI64 ''c.srai64'',
    Op ''100i10sssiiiii01'' 0x00008801 0x0000ec03 VLIW64_C_ANDI ''c.andi'',
    Op ''100011sss00ttt01'' 0x00008c01 0x0000fc63 VLIW64_C_SUB ''c.sub'',
    Op ''100011sss01ttt01'' 0x00008c21 0x0000fc63 VLIW64_C_XOR ''c.xor'',
    Op ''100011sss10ttt01'' 0x00008c41 0x0000fc63 VLIW64_C_OR ''c.or'',
    Op ''100011sss11ttt01'' 0x00008c61 0x0000fc63 VLIW64_C_AND ''c.and'',
    Op ''100111sss00ttt01'' 0x00009c01 0x0000fc63 VLIW64_C_SUBW ''c.subw'',
    Op ''100111sss01ttt01'' 0x00009c21 0x0000fc63 VLIW64_C_ADDW ''c.addw'',
    Op ''100111xxx10xxx01'' 0x00009c41 0x0000fc63 VLIW64_RESERVED2 ''reserved2'',
    Op ''100111xxx11xxx01'' 0x00009c61 0x0000fc63 VLIW64_RESERVED3 ''reserved3'',
    Op ''101iiiiiiiiiii01'' 0x0000a001 0x0000e003 VLIW64_C_J ''c.j'',
    Op ''110iiisssiiiii01'' 0x0000c001 0x0000e003 VLIW64_C_BEQZ ''c.beqz'',
    Op ''111iiisssiiiii01'' 0x0000e001 0x0000e003 VLIW64_C_BNEZ ''c.bnez'',
    Op ''000isssssiiiii10'' 0x00000002 0x0000e003 VLIW64_C_SLLI ''c.slli'',
    Op ''0000sssss0000010'' 0x00000002 0x0000f07f VLIW64_C_SLLI64 ''c.slli64'',
    Op ''001idddddiiiii10'' 0x00002002 0x0000e003 VLIW64_C_FLDSP ''c.fldsp'',
    Op ''001idddddiiiii10'' 0x00002002 0x0000e003 VLIW64_C_LQSP ''c.lqsp'',
    Op ''010idddddiiiii10'' 0x00004002 0x0000e003 VLIW64_C_LWSP ''c.lwsp'',
    Op ''011idddddiiiii10'' 0x00006002 0x0000e003 VLIW64_C_FLWSP ''c.flwsp'',
    Op ''011idddddiiiii10'' 0x00006002 0x0000e003 VLIW64_C_LDSP ''c.ldsp'',
    Op ''1000sssss0000010'' 0x00008002 0x0000f07f VLIW64_C_JR ''c.jr'',
    Op ''1000dddddttttt10'' 0x00008002 0x0000f003 VLIW64_C_MV ''c.mv'',
    Op ''1001000000000010'' 0x00009002 0x0000ffff VLIW64_C_EBREAK ''c.ebreak'',
    Op ''1001sssss0000010'' 0x00009002 0x0000f07f VLIW64_C_JALR ''c.jalr'',
    Op ''1001sssssttttt10'' 0x00009002 0x0000f003 VLIW64_C_ADD ''c.add'',
    Op ''101iiiiiittttt10'' 0x0000a002 0x0000e003 VLIW64_C_FSDSP ''c.fsdsp'',
    Op ''101iiiiiittttt10'' 0x0000a002 0x0000e003 VLIW64_C_SQSP ''c.sqsp'',
    Op ''110iiiiiittttt10'' 0x0000c002 0x0000e003 VLIW64_C_SWSP ''c.swsp'',
    Op ''111iiiiiittttt10'' 0x0000e002 0x0000e003 VLIW64_C_FSWSP ''c.fswsp'',
    Op ''111iiiiiittttt10'' 0x0000e002 0x0000e003 VLIW64_C_SDSP ''c.sdsp'']"

definition optable64 :: "optable list" where
  "optable64 = optable64_i @ optable64_m @ optable64_a @ optable64_f @ optable64_d @ optable64_q @ optable64_c"

end
