(* ===== verification/Table_Props.thy ===== *)
theory Table_Props
  imports Table_rv64 Isa_Decode Decode_Facts
begin

text \<open>
  The table of the 64-bit build against that of the 32-bit build: what is a row of both is found
  by both; what the words of the other rows of one find in the other.
\<close>

unbundle bit_operations_syntax

section \<open>Searching a part of a table\<close>

fun spelled :: "optable \<Rightarrow> u32 \<times> u32 \<times> string \<times> string" where
  "spelled (Op t c m v a) = (m, c, t, a)"

lemma op_find_filter:
  assumes "\<forall>r \<in> set rows. \<not> P r \<longrightarrow> code AND op_mask r \<noteq> op_code r"
  shows "op_find code (filter P rows) = op_find code rows"
  using assms by (induction rows) auto

lemma op_find_spelled:
  assumes "map spelled rows = map spelled rows'"
  shows "map_option spelled (op_find code rows) = map_option spelled (op_find code rows')"
  using assms
proof (induction rows arbitrary: rows')
  case Nil
  then show ?case by simp
next
  case (Cons r rows)
  then obtain r' rows2 where rows': "rows' = r' # rows2" "spelled r = spelled r'"
      "map spelled rows = map spelled rows2" by (auto simp: Cons_eq_map_conv)
  then have "op_mask r = op_mask r' \<and> op_code r = op_code r'" by (cases r; cases r') simp
  then show ?case using Cons.IH [OF rows'(3)] rows'(1,2) by simp
qed

section \<open>The rows of both tables\<close>

text \<open>The rows the 64-bit table leaves out, and those it adds.\<close>

definition only32 :: "string list" where
  "only32 = [''slli rd,rs1,shamt'', ''srli rd,rs1,shamt'', ''srai rd,rs1,shamt'',
    ''sll rd,rs1,rs2'', ''slt rd,rs1,rs2'', ''sltu rd,rs1,rs2'', ''c.flw'', ''c.fsw'']"

definition only64 :: "string list" where
  "only64 = [''lwu rd,rs,simm12'', ''ld rd,rs,simm12'', ''sd rs2,rs1,s2imm12'',
    ''sllid rd,rs1,shamt6'', ''srlid rd,rs1,shamt6'', ''sraid rd,rs1,shamt6'',
    ''addiw rd,rs,simm12'', ''slliw rd,rs1,shamt'', ''srliw rd,rs1,shamt'', ''sraiw rd,rs1,shamt'',
    ''addw rd,rs1,rs2'', ''subw rd,rs1,rs2'', ''sllw rd,rs1,rs2'', ''srlw rd,rs1,rs2'', ''sraw rd,rs1,rs2'',
    ''c.ld'', ''c.sd'', ''c.srli64'', ''c.srai64'']"

definition both32 :: "optable \<Rightarrow> bool" where "both32 r \<longleftrightarrow> asmText r \<notin> set only32"
definition both64 :: "optable \<Rightarrow> bool" where "both64 r \<longleftrightarrow> asmText r \<notin> set only64"

lemmas unfold64 = optable64_i_def optable64_m_def optable64_a_def optable64_f_def optable64_d_def optable64_q_def optable64_c_def

lemma same_i: "map spelled (filter both32 optable_i) = map spelled (filter both64 optable64_i)"
  by code_simp

lemma same_m: "map spelled (filter both32 optable_m) = map spelled (filter both64 optable64_m)"
  by code_simp

lemma same_a: "map spelled (filter both32 optable_a) = map spelled (filter both64 optable64_a)"
  by code_simp

lemma same_f: "map spelled (filter both32 optable_f) = map spelled (filter both64 optable64_f)"
  by code_simp

lemma same_d: "map spelled (filter both32 optable_d) = map spelled (filter both64 optable64_d)"
  by code_simp

lemma same_q: "map spelled (filter both32 optable_q) = map spelled (filter both64 optable64_q)"
  by code_simp

lemma same_c: "map spelled (filter both32 optable_c) = map spelled (filter both64 optable64_c)"
  by code_simp

text \<open>
  C35: What is a row of both tables is read alike by both builds: a word that fits no row only one
  of the tables has finds the same row in the two, with the same bits, mask, name and operands
  (or no row in either). The operation codes are numbered differently.
\<close>

theorem rv64_rows:
  assumes "\<forall>r \<in> set optable. asmText r \<in> set only32 \<longrightarrow> code AND op_mask r \<noteq> op_code r"
    and "\<forall>r \<in> set optable64. asmText r \<in> set only64 \<longrightarrow> code AND op_mask r \<noteq> op_code r"
  shows "map_option spelled (op_find code optable64) = map_option spelled (op_find code optable)"
proof -
  have "map spelled (filter both64 optable64) = map spelled (filter both32 optable)"
    by (simp add: optable64_def optable_def same_i same_m same_a same_f same_d same_q same_c)
  then have "map_option spelled (op_find code (filter both64 optable64)) = map_option spelled (op_find code (filter both32 optable))"
    by (rule op_find_spelled)
  then show ?thesis
    using op_find_filter [of optable both32] op_find_filter [of optable64 both64] assms
    by (simp add: both32_def both64_def)
qed

lemmas rows64_unfold =
  arg_cong [OF optable64_i_def, of "list_all P" for P]
  arg_cong [OF optable64_m_def, of "list_all P" for P]
  arg_cong [OF optable64_a_def, of "list_all P" for P]
  arg_cong [OF optable64_f_def, of "list_all P" for P]
  arg_cong [OF optable64_d_def, of "list_all P" for P]
  arg_cong [OF optable64_q_def, of "list_all P" for P]
  arg_cong [OF optable64_c_def, of "list_all P" for P]

lemma rows64_all:
  "list_all P optable64 \<longleftrightarrow> list_all P optable64_i \<and> list_all P optable64_m \<and> list_all P optable64_a \<and>
    list_all P optable64_f \<and> list_all P optable64_d \<and> list_all P optable64_q \<and> list_all P optable64_c"
  by (simp add: optable64_def)

text \<open>\<open>addi sp,sp,-32\<close>\<close>

theorem rv64_rows_witness:
  "map_option spelled (op_find 0xfe010113 optable64) = map_option spelled (op_find 0xfe010113 optable)"
proof (rule rv64_rows)
  let ?P = "\<lambda>only r. asmText r \<in> set only \<longrightarrow> (0xfe010113 :: u32) AND op_mask r \<noteq> op_code r"
  have "list_all (?P only32) optable" "list_all (?P only64) optable64"
    by (simp_all add: rows_all rows_unfold rows64_all rows64_unfold only32_def only64_def cong: op_lazy list_all_lazy)
  then show "\<forall>r \<in> set optable. ?P only32 r" "\<forall>r \<in> set optable64. ?P only64 r"
    by (simp_all only: list_all_iff)
qed

section \<open>The rows of one table\<close>

text \<open>
  The search on a partly known word, as \<open>sym_find\<close>, over masks, codes and texts: \<open>Some None\<close>
  when no row can match, \<open>None\<close> when the known bits do not decide. \<open>narrow\<close> keeps the rows that
  a word with these bits can match.
\<close>

fun key :: "optable \<Rightarrow> u32 \<times> u32 \<times> string" where
  "key (Op t c m v a) = (m, c, a)"

definition narrow :: "u32 \<Rightarrow> u32 \<Rightarrow> (u32 \<times> u32 \<times> string) list \<Rightarrow> (u32 \<times> u32 \<times> string) list" where
  "narrow m c = filter (\<lambda>(m', c', a). c AND m' = c' AND m)"

fun text_find :: "u32 \<Rightarrow> u32 \<Rightarrow> (u32 \<times> u32 \<times> string) list \<Rightarrow> string option option" where
  "text_find m c [] = Some None"
| "text_find m c ((m', c', a) # ks) =
    (if c AND m' \<noteq> c' AND m then text_find m c ks
     else if m' AND m = m' \<and> c AND m' = c' then Some (Some a)
     else None)"

lemma text_find_sound:
  assumes "code AND m = c" and "code AND n = d" and "text_find m c (narrow n d (map key rows)) = Some t"
  shows "map_option asmText (op_find code rows) = t"
  using assms(3)
proof (induction rows)
  case Nil
  then show ?case by (simp add: narrow_def)
next
  case (Cons r rows)
  obtain bt c' m' v a where r: "r = Op bt c' m' v a" by (cases r)
  consider "d AND m' \<noteq> c' AND n" | "c AND m' \<noteq> c' AND m" | "d AND m' = c' AND n" "c AND m' = c' AND m" by blast
  then show ?case
  proof cases
    case 1
    then have "code AND m' \<noteq> c'" using masked_conflict [OF assms(2)] by blast
    then show ?thesis using Cons 1 r by (simp add: narrow_def)
  next
    case 2
    then have "code AND m' \<noteq> c'" using masked_conflict [OF assms(1)] by blast
    then show ?thesis using Cons 2 r by (simp add: narrow_def split: if_splits)
  next
    case 3
    then have "m' AND m = m'" "c AND m' = c'" "t = Some a" using Cons.prems r by (auto simp: narrow_def split: if_splits)
    then show ?thesis using masked_weaken [OF assms(1), of m'] r by simp
  qed
qed

text \<open>Words of the two integer opcodes fit no row after the first two groups, 16-bit ones none before the last.\<close>

lemma op_find_append: "list_all (\<lambda>r. code AND op_mask r \<noteq> op_code r) rows \<Longrightarrow> op_find code (rows @ rows') = op_find code rows'"
  by (induction rows) auto

lemma op_find_drop: "list_all (\<lambda>r. code AND op_mask r \<noteq> op_code r) rows' \<Longrightarrow> op_find code (rows @ rows') = op_find code rows"
proof (induction rows)
  case Nil
  then show ?case by (induction rows') auto
qed simp

lemma other_opcodes:
  "list_all (\<lambda>r. op_mask r AND 0x7f = 0x7f \<and> op_code r AND 0x7f \<noteq> 0x13 \<and> op_code r AND 0x7f \<noteq> 0x33)
    (optable64_a @ optable64_f @ optable64_d @ optable64_q)"
  by (simp add: rows64_unfold cong: op_lazy list_all_lazy)

lemma wide_rows:
  "list_all (\<lambda>r. op_mask r AND 3 = 3 \<and> op_code r AND 3 = 3)
    (optable64_i @ optable64_m @ optable64_a @ optable64_f @ optable64_d @ optable64_q)"
  by (simp add: rows64_unfold cong: op_lazy list_all_lazy)

lemma narrow_rows: "list_all (\<lambda>r. op_mask r AND 3 = 3 \<and> op_code r AND 3 \<noteq> 3) optable64_c"
  by (simp add: rows64_unfold cong: op_lazy list_all_lazy)

lemma low_bits: "op_mask r AND n = n \<Longrightarrow> op_code r AND n \<noteq> code AND n \<Longrightarrow> code AND op_mask r \<noteq> op_code r"
  by (metis and.assoc)

lemma integer_rows:
  assumes "code AND 0x7f = 0x13 \<or> code AND 0x7f = 0x33"
  shows "op_find code optable64 = op_find code (optable64_i @ optable64_m)"
proof -
  have "code AND 3 = (code AND 0x7f) AND 3" by (simp add: and.assoc)
  then have "code AND 3 = 3" using assms by auto
  then have "list_all (\<lambda>r. code AND op_mask r \<noteq> op_code r) optable64_c"
    using narrow_rows low_bits [of _ "3" code] by (auto simp: list_all_iff)
  moreover have "list_all (\<lambda>r. code AND op_mask r \<noteq> op_code r) (optable64_a @ optable64_f @ optable64_d @ optable64_q)"
    using other_opcodes assms low_bits [of _ "0x7f" code] unfolding list_all_iff by metis
  ultimately have "op_find code ((optable64_i @ optable64_m) @ (optable64_a @ optable64_f @ optable64_d @ optable64_q) @ optable64_c) =
      op_find code (optable64_i @ optable64_m)"
    by (intro op_find_drop) simp
  then show ?thesis by (simp add: optable64_def)
qed

lemma compressed_rows:
  assumes "code AND 3 \<noteq> 3"
  shows "op_find code optable64 = op_find code optable64_c"
proof -
  have "list_all (\<lambda>r. code AND op_mask r \<noteq> op_code r)
      (optable64_i @ optable64_m @ optable64_a @ optable64_f @ optable64_d @ optable64_q)"
    using wide_rows assms low_bits [of _ "3" code] unfolding list_all_iff by metis
  from op_find_append [OF this, of optable64_c] show ?thesis by (simp add: optable64_def)
qed

lemmas keys64 =
  arg_cong [OF optable64_i_def, of "map key", simplified list.map key.simps]
  arg_cong [OF optable64_m_def, of "map key", simplified list.map key.simps]
  arg_cong [OF optable64_c_def, of "map key", simplified list.map key.simps]

lemma narrow_append: "narrow m c (ks @ ks') = narrow m c ks @ narrow m c ks'"
  by (simp add: narrow_def)

lemmas op_keys =
  arg_cong [OF keys64(1), of "narrow 0x7f 0x33", unfolded narrow_def, simplified, folded narrow_def]
  arg_cong [OF keys64(2), of "narrow 0x7f 0x33", unfolded narrow_def, simplified, folded narrow_def]
lemmas imm_keys =
  arg_cong [OF keys64(1), of "narrow 0x7f 0x13", unfolded narrow_def, simplified, folded narrow_def]
  arg_cong [OF keys64(2), of "narrow 0x7f 0x13", unfolded narrow_def, simplified, folded narrow_def]

text \<open>
  What the six instructions of RV32I the 64-bit table has no row for find in it: the register shift
  to the left and the two register comparisons nothing at all, so they run as no-operations;
  the shifts by an immediate the shifts with a 6-bit amount.
\<close>

definition missing64 :: "(u32 \<times> string option) list" where
  "missing64 =
    [(0x00001033, None), (0x00002033, None), (0x00003033, None),
     (0x00001013, Some ''sllid rd,rs1,shamt6''), (0x00005013, Some ''srlid rd,rs1,shamt6''),
     (0x40005013, Some ''sraid rd,rs1,shamt6'')]"

lemma text_missing: "list_all (\<lambda>(c, t). text_find 0xfe00707f c (narrow 0x7f (c AND 0x7f) (map key (optable64_i @ optable64_m))) = Some t \<and>
    (c AND 0x7f = 0x13 \<or> c AND 0x7f = 0x33)) missing64"
  by (simp add: missing64_def narrow_append op_keys imm_keys)

theorem rv64_missing:
  assumes "(code AND 0xfe00707f, t) \<in> set missing64"
  shows "map_option asmText (op_find code optable64) = t"
proof -
  have "(code AND 0xfe00707f) AND 0x7f = code AND 0x7f" by (simp add: and.assoc)
  then have "text_find 0xfe00707f (code AND 0xfe00707f) (narrow 0x7f (code AND 0x7f) (map key (optable64_i @ optable64_m))) = Some t"
    and "code AND 0x7f = 0x13 \<or> code AND 0x7f = 0x33"
    using text_missing assms by (auto simp: list_all_iff)
  then show ?thesis using text_find_sound [OF refl refl] integer_rows by metis
qed

text \<open>\<open>sltu a0,a1,a2\<close>\<close>

theorem rv64_missing_witness: "map_option asmText (op_find 0x00c5b533 optable64) = None"
  by (rule rv64_missing) (simp add: missing64_def)

lemmas quadrant_keys =
  arg_cong [OF keys64(3), of "narrow 3 1", unfolded narrow_def, simplified, folded narrow_def]
  arg_cong [OF keys64(3), of "narrow 3 2", unfolded narrow_def, simplified, folded narrow_def]

text \<open>
  Three compressed instructions RV64 has in place of others are read as those others, whose rows
  stand before theirs: \<open>c.addiw\<close> as the jump \<open>c.jal\<close>, \<open>c.ldsp\<close> and \<open>c.sdsp\<close> as the floating-point \<open>c.flwsp\<close>
  and \<open>c.fswsp\<close>.
\<close>

definition shadowed64 :: "(u32 \<times> string) list" where
  "shadowed64 = [(0x2001, ''c.jal''), (0x6002, ''c.flwsp''), (0xe002, ''c.fswsp'')]"

lemma text_shadowed: "list_all (\<lambda>(c, t). text_find 0xe003 c (narrow 3 (c AND 3) (map key optable64_c)) = Some (Some t) \<and> c AND 3 \<noteq> 3) shadowed64"
  by (simp add: shadowed64_def quadrant_keys)

theorem rv64_shadowed:
  assumes "(code AND 0xe003, t) \<in> set shadowed64"
  shows "map_option asmText (op_find code optable64) = Some t"
proof -
  have "(code AND 0xe003) AND 3 = code AND 3" by (simp add: and.assoc)
  then have "text_find 0xe003 (code AND 0xe003) (narrow 3 (code AND 3) (map key optable64_c)) = Some (Some t)" and "code AND 3 \<noteq> 3"
    using text_shadowed assms by (auto simp: list_all_iff)
  then show ?thesis using text_find_sound [OF refl refl] compressed_rows by metis
qed

text \<open>\<open>c.ldsp ra,8(sp)\<close>\<close>

theorem rv64_shadowed_witness: "map_option asmText (op_find 0x60a2 optable64) = Some ''c.flwsp''"
  by (rule rv64_shadowed) (simp add: shadowed64_def)

section \<open>Numbers and names\<close>

lemma length_VliwName64: "length VliwName64 = unat VLIW64_SIZE"
  by (simp add: VliwName64_def VliwName64_lo_def VliwName64_hi_def)

fun numbered :: "u8 \<Rightarrow> optable list \<Rightarrow> bool" where
  "numbered n [] \<longleftrightarrow> n = VLIW64_SIZE"
| "numbered n (r # rows) \<longleftrightarrow> op_vliw r = n \<and> numbered (n + 1) rows"

text \<open>The rows are numbered from 1 in their order, so each has an operation code and a name of its own.\<close>

theorem rv64_numbered: "numbered 1 optable64"
  by (simp add: optable64_def unfold64)

end
