(* ===== verification/Decomp16_Lines.thy ===== *)
theory Decomp16_Lines
  imports Decomp16
begin

text \<open>
  The rows of the expansion table by lines of 32: the words of a line differ in five bits only, and
  an encoding is the sum of what each bit of the 16-bit word puts into it. So a line is written
  down by adding weights, which is how the literal rows of the file are compared with the table
  (theories \<open>Decomp16_Rows_0\<close> to \<open>Decomp16_Rows_7\<close>).
\<close>

unbundle bit_operations_syntax

section \<open>Sums of weights\<close>

fun sumv :: "u32 list \<Rightarrow> nat \<Rightarrow> u32" where
  "sumv [] n = 0"
| "sumv (w # ws) n = (if odd n then w + sumv ws (n div 2) else sumv ws (n div 2))"

fun blow :: "u32 \<Rightarrow> u32 list \<Rightarrow> u32 list" where
  "blow k [] = [k]"
| "blow k (w # ws) = concat (map (\<lambda>x. [x, w + x]) (blow k ws))"

text \<open>
  The weights of a family of words: what all have, what bits 2 to 6 of the 16-bit word put in, and
  what bits 7 to 12 do. A 16-bit word is \<open>128 * k + 4 * j + q\<close>.
\<close>

type_synonym scatter = "u32 \<times> u32 list \<times> u32 list"

fun line :: "scatter \<Rightarrow> nat \<Rightarrow> u32 list" where
  "line (c, lo, hi) k = blow (c + sumv hi k) lo"

definition w_addi4spn :: scatter where
  "w_addi4spn = (0x00010413, [0x00000080, 0x00000100, 0x00000200, 0x00800000, 0x00400000],
    [0x04000000, 0x08000000, 0x10000000, 0x20000000, 0x01000000, 0x02000000])"

definition w_lw :: scatter where
  "w_lw = (0x00042403, [0x00000080, 0x00000100, 0x00000200, 0x04000000, 0x00400000],
    [0x00008000, 0x00010000, 0x00020000, 0x00800000, 0x01000000, 0x02000000])"

definition w_sw :: scatter where
  "w_sw = (0x00842023, [0x00100000, 0x00200000, 0x00400000, 0x04000000, 0x00000200],
    [0x00008000, 0x00010000, 0x00020000, 0x00000400, 0x00000800, 0x02000000])"

definition w_addi :: scatter where
  "w_addi = (0x00000013, [0x00100000, 0x00200000, 0x00400000, 0x00800000, 0x01000000],
    [0x00008080, 0x00010100, 0x00020200, 0x00040400, 0x00080800, 0xfe000000])"

definition w_jal :: scatter where
  "w_jal = (0x000000ef, [0x02000000, 0x00200000, 0x00400000, 0x00800000, 0x08000000],
    [0x04000000, 0x40000000, 0x10000000, 0x20000000, 0x01000000, 0x801ff000])"

definition w_li :: scatter where
  "w_li = (0x00000013, [0x00100000, 0x00200000, 0x00400000, 0x00800000, 0x01000000],
    [0x00000080, 0x00000100, 0x00000200, 0x00000400, 0x00000800, 0xfe000000])"

definition w_addi16sp :: scatter where
  "w_addi16sp = (0x00010113, [0x02000000, 0x08000000, 0x10000000, 0x04000000, 0x01000000],
    [0, 0, 0, 0, 0, 0xe0000000])"

definition w_lui :: scatter where
  "w_lui = (0x00000037, [0x00001000, 0x00002000, 0x00004000, 0x00008000, 0x00010000],
    [0x00000080, 0x00000100, 0x00000200, 0x00000400, 0x00000800, 0xfffe0000])"

definition w_srli :: scatter where
  "w_srli = (0x00045413, [0x00100000, 0x00200000, 0x00400000, 0x00800000, 0x01000000],
    [0x00008080, 0x00010100, 0x00020200])"

definition w_srai :: scatter where
  "w_srai = (0x40045413, [0x00100000, 0x00200000, 0x00400000, 0x00800000, 0x01000000],
    [0x00008080, 0x00010100, 0x00020200])"

definition w_andi :: scatter where
  "w_andi = (0x00047413, [0x00100000, 0x00200000, 0x00400000, 0x00800000, 0x01000000],
    [0x00008080, 0x00010100, 0x00020200, 0, 0, 0xfe000000])"

definition w_sub :: scatter where
  "w_sub = (0x40840433, [0x00100000, 0x00200000, 0x00400000, 0, 0],
    [0x00008080, 0x00010100, 0x00020200])"

definition w_xor :: scatter where
  "w_xor = (0x00844433, [0x00100000, 0x00200000, 0x00400000, 0, 0],
    [0x00008080, 0x00010100, 0x00020200])"

definition w_or :: scatter where
  "w_or = (0x00846433, [0x00100000, 0x00200000, 0x00400000, 0, 0],
    [0x00008080, 0x00010100, 0x00020200])"

definition w_and :: scatter where
  "w_and = (0x00847433, [0x00100000, 0x00200000, 0x00400000, 0, 0],
    [0x00008080, 0x00010100, 0x00020200])"

definition w_j :: scatter where
  "w_j = (0x0000006f, [0x02000000, 0x00200000, 0x00400000, 0x00800000, 0x08000000],
    [0x04000000, 0x40000000, 0x10000000, 0x20000000, 0x01000000, 0x801ff000])"

definition w_beqz :: scatter where
  "w_beqz = (0x00040063, [0x02000000, 0x00000100, 0x00000200, 0x04000000, 0x08000000],
    [0x00008000, 0x00010000, 0x00020000, 0x00000400, 0x00000800, 0xf0000080])"

definition w_bnez :: scatter where
  "w_bnez = (0x00041063, [0x02000000, 0x00000100, 0x00000200, 0x04000000, 0x08000000],
    [0x00008000, 0x00010000, 0x00020000, 0x00000400, 0x00000800, 0xf0000080])"

definition w_slli :: scatter where
  "w_slli = (0x00001013, [0x00100000, 0x00200000, 0x00400000, 0x00800000, 0x01000000],
    [0x00008080, 0x00010100, 0x00020200, 0x00040400, 0x00080800])"

definition w_lwsp :: scatter where
  "w_lwsp = (0x00012003, [0x04000000, 0x08000000, 0x00400000, 0x00800000, 0x01000000],
    [0x00000080, 0x00000100, 0x00000200, 0x00000400, 0x00000800, 0x02000000])"

definition w_jr :: scatter where
  "w_jr = (0x00000067, [0, 0, 0, 0, 0],
    [0x00008000, 0x00010000, 0x00020000, 0x00040000, 0x00080000])"

definition w_mv :: scatter where
  "w_mv = (0x00000033, [0x00100000, 0x00200000, 0x00400000, 0x00800000, 0x01000000],
    [0x00000080, 0x00000100, 0x00000200, 0x00000400, 0x00000800])"

definition w_jalr :: scatter where
  "w_jalr = (0x000000e7, [0, 0, 0, 0, 0],
    [0x00008000, 0x00010000, 0x00020000, 0x00040000, 0x00080000])"

definition w_add :: scatter where
  "w_add = (0x00000033, [0x00100000, 0x00200000, 0x00400000, 0x00800000, 0x01000000],
    [0x00008080, 0x00010100, 0x00020200, 0x00040400, 0x00080800])"

definition w_swsp :: scatter where
  "w_swsp = (0x00012023, [0x00100000, 0x00200000, 0x00400000, 0x00800000, 0x01000000],
    [0x04000000, 0x08000000, 0x00000200, 0x00000400, 0x00000800, 0x02000000])"

section \<open>The rows of a chunk\<close>

text \<open>
  Chunk \<open>k\<close> is the 128 rows from \<open>128 * k\<close>: 32 times a row of each quadrant, the last of which is 0.
  The lines follow the format of the 16-bit encodings; 0 stands where there is no expansion.
\<close>

definition no_line :: "u32 list" where "no_line = replicate 32 0"

definition part0 :: "nat \<Rightarrow> u32 list" where
  "part0 k =
    (if k div 64 = 0 then
       if k = 0 then replicate 8 0 @ drop 8 (line w_addi4spn k) else line w_addi4spn k
     else if k div 64 = 2 then line w_lw k
     else if k div 64 = 6 then line w_sw k
     else no_line)"

definition part_alu :: "nat \<Rightarrow> u32 list" where
  "part_alu k =
    (if k div 8 mod 4 = 2 then line w_andi k
     else if k div 32 mod 2 = 1 then no_line
     else if k div 8 mod 4 = 0 then (line w_srli k)[0 := 0]
     else if k div 8 mod 4 = 1 then (line w_srai k)[0 := 0]
     else take 8 (line w_sub k) @ take 8 (drop 8 (line w_xor k)) @ take 8 (drop 16 (line w_or k)) @ drop 24 (line w_and k))"

definition part1 :: "nat \<Rightarrow> u32 list" where
  "part1 k =
    (if k div 64 = 0 then
       if k mod 32 = 0 then no_line[0 := if k = 0 then 0x13 else 0] else line w_addi k
     else if k div 64 = 1 then line w_jal k
     else if k div 64 = 2 then if k mod 32 = 0 then no_line else line w_li k
     else if k div 64 = 3 then
       if k mod 32 = 2 then if k = 194 then (line w_addi16sp k)[0 := 0] else line w_addi16sp k
       else if k mod 32 = 0 then no_line
       else if k < 224 then (line w_lui k)[0 := 0] else line w_lui k
     else if k div 64 = 4 then part_alu k
     else if k div 64 = 5 then line w_j k
     else if k div 64 = 6 then line w_beqz k
     else line w_bnez k)"

definition part2 :: "nat \<Rightarrow> u32 list" where
  "part2 k =
    (if k div 64 = 0 then if k div 32 mod 2 = 0 then line w_slli k else no_line
     else if k div 64 = 2 then line w_lwsp k
     else if k div 64 = 4 then
       if k div 32 mod 2 = 0 then
         if k mod 32 = 0 then no_line else (line w_mv k)[0 := hd (line w_jr k)]
       else if k mod 32 = 0 then no_line[0 := 0x00100073]
       else (line w_add k)[0 := hd (line w_jalr k)]
     else if k div 64 = 6 then line w_swsp k
     else no_line)"

fun weave :: "u32 list \<Rightarrow> u32 list \<Rightarrow> u32 list \<Rightarrow> u32 list" where
  "weave (a # as) (b # bs) (d # ds) = a # b # d # 0 # weave as bs ds"
| "weave _ _ _ = []"

definition chunk :: "nat \<Rightarrow> u32 list" where
  "chunk k = weave (part0 k) (part1 k) (part2 k)"

text \<open>That a list holds the chunks from \<open>k\<close> on, and what evaluates a chunk.\<close>

fun chunks_from :: "nat \<Rightarrow> u32 list list \<Rightarrow> bool" where
  "chunks_from k [] \<longleftrightarrow> True"
| "chunks_from k (c # cs) \<longleftrightarrow> chunk k = c \<and> chunks_from (k + 1) cs"

lemma no_line_eval: "no_line = [0, 0, 0, 0, 0, 0, 0, 0, 0, 0, 0, 0, 0, 0, 0, 0,
    0, 0, 0, 0, 0, 0, 0, 0, 0, 0, 0, 0, 0, 0, 0, 0]"
  by (simp add: no_line_def numeral_eq_Suc)

lemma zeros_eval: "replicate 8 (0 :: u32) = [0, 0, 0, 0, 0, 0, 0, 0]"
  by (simp add: numeral_eq_Suc)

lemmas chunk_eval = chunk_def part0_def part1_def part2_def part_alu_def no_line_eval zeros_eval
  w_addi4spn_def w_lw_def w_sw_def w_addi_def w_jal_def w_li_def w_addi16sp_def w_lui_def w_srli_def
  w_srai_def w_andi_def w_sub_def w_xor_def w_or_def w_and_def w_j_def w_beqz_def w_bnez_def
  w_slli_def w_lwsp_def w_jr_def w_mv_def w_jalr_def w_add_def w_swsp_def

end
