(* ===== verification/Decomp16_Chunks.thy ===== *)
theory Decomp16_Chunks
  imports Decomp16_Lines
begin

text \<open>
  The chunks of theory \<open>Decomp16_Lines\<close> are the rows of \<open>decomp16_table\<close> (\<open>chunk_rows\<close>): a sum of weights
  is a disjunction of bits, and so is the encoding of each family of instructions.
\<close>

unbundle bit_operations_syntax

section \<open>Lines\<close>

lemma upt_double: "[0..<2 * n] = concat (map (\<lambda>i. [2 * i, 2 * i + 1]) [0..<n])"
  by (induction n) simp_all

lemma blow_sumv: "blow k ws = map (\<lambda>n. k + sumv ws n) [0..<2 ^ length ws]"
proof (induction ws)
  case (Cons w ws)
  then show ?case by (simp add: upt_double map_concat o_def add.assoc add.left_commute)
qed simp

section \<open>Sums are disjunctions\<close>

fun orv :: "u32 list \<Rightarrow> nat \<Rightarrow> u32 \<Rightarrow> u32" where
  "orv [] i x = 0"
| "orv (w # ws) i x = (if bit x i then w else 0) OR orv ws (Suc i) x"

fun all_of :: "u32 list \<Rightarrow> u32" where
  "all_of [] = 0"
| "all_of (w # ws) = w OR all_of ws"

fun apart :: "u32 list \<Rightarrow> bool" where
  "apart [] \<longleftrightarrow> True"
| "apart (w # ws) \<longleftrightarrow> w AND all_of ws = 0 \<and> apart ws"

fun mix :: "scatter \<Rightarrow> u32 \<Rightarrow> u32" where
  "mix (c, lo, hi) x = c OR orv hi 7 x OR orv lo 2 x"

fun neat :: "scatter \<Rightarrow> bool" where
  "neat (c, lo, hi) \<longleftrightarrow> apart lo \<and> apart hi \<and> all_of hi AND all_of lo = 0 \<and> c AND all_of hi = 0 \<and>
    c AND all_of lo = 0 \<and> length lo = 5 \<and> length hi \<le> 6"

lemma and_or_zero: "w AND (a OR b) = 0 \<longleftrightarrow> w AND a = 0 \<and> w AND b = (0 :: u32)"
  unfolding bit.conj_disj_distrib by (rule or_eq_0_iff)

lemma orv_apart: "w AND all_of ws = 0 \<Longrightarrow> w AND orv ws i x = 0"
  by (induction ws arbitrary: i) (auto simp: and_or_zero)

lemma add_or: "a AND b = 0 \<Longrightarrow> a + b = a OR (b :: u32)"
  by (rule disjunctive_add) (metis bit_0_eq bit_and_iff bot_apply bot_bool_def)

lemma sumv_orv:
  assumes "apart ws" and "\<forall>i < length ws. bit x (i0 + i) = odd (n div 2 ^ i)"
  shows "sumv ws n = orv ws i0 x"
  using assms
proof (induction ws arbitrary: n i0)
  case (Cons w ws)
  have "\<forall>i < length ws. bit x (Suc i0 + i) = odd (n div 2 div 2 ^ i)"
  proof (intro allI impI)
    fix i assume "i < length ws"
    then show "bit x (Suc i0 + i) = odd (n div 2 div 2 ^ i)"
      using Cons.prems(2) [rule_format, of "Suc i"] by (simp add: div_mult2_eq)
  qed
  then have "sumv ws (n div 2) = orv ws (Suc i0) x" using Cons by simp
  moreover have "bit x i0 = odd n" using Cons.prems(2) [rule_format, of 0] by simp
  moreover have "w AND orv ws (Suc i0) x = 0" using Cons.prems(1) by (simp add: orv_apart)
  ultimately show ?case by (simp add: add_or)
qed simp

section \<open>The bits of a 16-bit word\<close>

definition word_of :: "nat \<Rightarrow> nat \<Rightarrow> nat \<Rightarrow> u32" where
  "word_of k j q = of_nat (128 * k + 4 * j + q)"

lemma unat_word_of:
  fixes k j :: nat
  assumes k: "k < 512" and j: "j < 32" and q: "q < 4"
  shows "unat (word_of k j q) = 128 * k + 4 * j + q"
  using k j q by (simp add: word_of_def unsigned_of_nat take_bit_nat_eq_self del: of_nat_add of_nat_mult)

lemma ucast_word_of:
  fixes k j :: nat
  assumes k: "k < 512" and j: "j < 32" and q: "q < 4"
  shows "ucast (of_nat (128 * k + 4 * j + q) :: u16) = word_of k j q"
proof -
  have "128 * k + 4 * j + q < 65536" using k j q by simp
  then show ?thesis by (intro word_unat_eq_iff [THEN iffD2])
    (simp add: word_of_def unsigned_ucast_eq unsigned_of_nat take_bit_nat_eq_self del: of_nat_add of_nat_mult)
qed

lemma bit_word_of:
  fixes k j :: nat
  assumes k: "k < 512" and j: "j < 32" and q: "q < 4"
  shows "bit (word_of k j q) n \<longleftrightarrow> odd ((128 * k + 4 * j + q) div 2 ^ n)"
proof -
  have "bit (word_of k j q) n = bit (unat (word_of k j q)) n"
    by (auto simp: bit_unsigned_iff dest: bit_imp_possible_bit)
  then show ?thesis by (simp add: unat_word_of [OF k j q] bit_iff_odd)
qed

lemma low_div:
  fixes k j :: nat
  assumes k: "k < 512" and j: "j < 32" and q: "q < 4"
  shows "(128 * k + 4 * j + q) div 2 ^ (2 + i) = (32 * k + j) div 2 ^ i"
proof -
  have "(128 * k + 4 * j + q) div 4 = 32 * k + j" using q by simp
  then show ?thesis by (simp add: power_add div_mult2_eq)
qed

lemma high_div:
  fixes k j :: nat
  assumes k: "k < 512" and j: "j < 32" and q: "q < 4"
  shows "(128 * k + 4 * j + q) div 2 ^ (7 + i) = k div 2 ^ i"
proof -
  have "(128 * k + 4 * j + q) div 128 = k" using q j by simp
  then show ?thesis by (simp add: power_add div_mult2_eq)
qed

lemma bit_high:
  fixes k j :: nat
  assumes k: "k < 512" and j: "j < 32" and q: "q < 4"
  shows "bit (word_of k j q) (7 + i) \<longleftrightarrow> odd (k div 2 ^ i)"
  by (simp only: bit_word_of [OF k j q] high_div [OF k j q])

lemma bit_low:
  fixes k j :: nat
  assumes k: "k < 512" and j: "j < 32" and q: "q < 4"
  shows "i < 5 \<Longrightarrow> bit (word_of k j q) (2 + i) \<longleftrightarrow> odd (j div 2 ^ i)"
proof -
  assume i: "i < 5"
  then have "(32 :: nat) = 2 ^ i * 2 ^ (5 - i)" by (simp flip: power_add)
  then have "32 * k + j = j + (2 ^ (5 - i) * k) * 2 ^ i" by (simp add: mult.commute mult.left_commute)
  then have "(32 * k + j) div 2 ^ i = 2 ^ (5 - i) * k + j div 2 ^ i" by (simp only: div_mult_self1) simp
  then show ?thesis using i by (simp only: bit_word_of [OF k j q] low_div [OF k j q]) simp
qed

lemma line_row:
  fixes k j :: nat
  assumes k: "k < 512" and j: "j < 32" and q: "q < 4"
    and "neat s"
  shows "line s k ! j = mix s (word_of k j q)"
proof -
  obtain c lo hi where s: "s = (c, lo, hi)" by (cases s)
  have h: "sumv hi k = orv hi 7 (word_of k j q)"
    using assms s by (intro sumv_orv) (auto simp: bit_high [OF k j q])
  have l: "sumv lo j = orv lo 2 (word_of k j q)"
    using assms s bit_low [OF k j q] by (intro sumv_orv) auto
  have "c AND orv hi 7 x = 0" "c AND orv lo 2 x = 0" for x using assms s by (simp_all add: orv_apart)
  moreover have "orv hi 7 x AND orv lo 2 x = 0" for x
    using assms s orv_apart [of "orv hi 7 x" lo] orv_apart [of "all_of lo" hi]
    by (simp add: and.commute)
  ultimately have "c + sumv hi k + sumv lo j = c OR orv hi 7 (word_of k j q) OR orv lo 2 (word_of k j q)"
    unfolding h l by (simp add: add_or and_or_zero and.commute or.assoc)
  moreover have "2 ^ length lo = (32 :: nat)" using assms s by simp
  ultimately show ?thesis using j s by (simp add: blow_sumv)
qed

lemma field_of:
  fixes k j :: nat
  assumes k: "k < 512" and j: "j < 32" and q: "q < 4"
  shows "bits lo n (word_of k j q) = of_nat ((128 * k + 4 * j + q) div 2 ^ lo mod 2 ^ n)"
proof -
  let ?m = "128 * k + 4 * j + q"
  have "?m div 2 ^ lo mod 2 ^ n \<le> ?m" by (meson div_le_dividend le_trans mod_less_eq_dividend)
  then have "?m div 2 ^ lo mod 2 ^ n < 4294967296" using k j q by linarith
  moreover have "unat (drop_bit lo (word_of k j q)) = ?m div 2 ^ lo"
    by (simp only: unat_drop_bit_eq unat_word_of [OF k j q]) (rule drop_bit_eq_div)
  ultimately show ?thesis by (intro word_unat_eq_iff [THEN iffD2])
    (simp add: unat_bits take_bit_eq_mod unsigned_of_nat del: of_nat_add of_nat_mult)
qed

lemma length_line [simp]: "neat s \<Longrightarrow> length (line s k) = 32"
  by (cases s) (simp add: blow_sumv)

lemma neat_all:
  "neat w_addi4spn"
  "neat w_lw"
  "neat w_sw"
  "neat w_addi"
  "neat w_jal"
  "neat w_li"
  "neat w_addi16sp"
  "neat w_lui"
  "neat w_srli"
  "neat w_srai"
  "neat w_andi"
  "neat w_sub"
  "neat w_xor"
  "neat w_or"
  "neat w_and"
  "neat w_j"
  "neat w_beqz"
  "neat w_bnez"
  "neat w_slli"
  "neat w_lwsp"
  "neat w_jr"
  "neat w_mv"
  "neat w_jalr"
  "neat w_add"
  "neat w_swsp"
  by (simp_all add: w_addi4spn_def w_lw_def w_sw_def w_addi_def w_jal_def w_li_def w_addi16sp_def w_lui_def w_srli_def w_srai_def w_andi_def w_sub_def w_xor_def w_or_def w_and_def w_j_def w_beqz_def w_bnez_def w_slli_def w_lwsp_def w_jr_def w_mv_def w_jalr_def w_add_def w_swsp_def)

section \<open>The families\<close>

lemma bits_p: "8 + bits lo 3 w = push_bit 3 1 OR (bits lo 3 w :: u32)"
proof -
  have "push_bit 3 1 + bits lo 3 w = push_bit 3 1 OR (bits lo 3 w :: u32)"
    by (rule disjunctive_add) (auto simp only: bit_push_bit_iff bit_bits)
  then show ?thesis by simp
qed

lemmas enc = insn_fields_def rvc_r_def rvc_p_def rvc_imm6_def rvc_j_def rvc_b_def rvc_lw_def rvc_4spn_def rvc_16sp_def
  rvc_lwsp_def rvc_swsp_def bits_p alu_f7_def shift_alu_def bit_simps bit_bits

lemma enc_addi4spn: "isa_encode (I_IMM A_ADD (rvc_p 2 w) 2 (rvc_4spn w)) = mix w_addi4spn w"
  unfolding u32_eq_iff by (intro conjI; simp add: w_addi4spn_def enc del: push_bit_Suc)

lemma enc_lw: "isa_encode (I_LD L_W (rvc_p 2 w) (rvc_p 7 w) (rvc_lw w)) = mix w_lw w"
  unfolding u32_eq_iff by (intro conjI; simp add: w_lw_def enc del: push_bit_Suc)

lemma enc_sw: "isa_encode (I_ST S_W (rvc_p 7 w) (rvc_p 2 w) (rvc_lw w)) = mix w_sw w"
  unfolding u32_eq_iff by (intro conjI; simp add: w_sw_def enc del: push_bit_Suc)

lemma enc_addi: "isa_encode (I_IMM A_ADD (rvc_r 7 w) (rvc_r 7 w) (rvc_imm6 w)) = mix w_addi w"
  unfolding u32_eq_iff by (intro conjI; simp add: w_addi_def enc del: push_bit_Suc)

lemma enc_jal: "isa_encode (I_JAL 1 (rvc_j w)) = mix w_jal w"
  unfolding u32_eq_iff by (intro conjI; simp add: w_jal_def enc del: push_bit_Suc)

lemma enc_li: "isa_encode (I_IMM A_ADD (rvc_r 7 w) 0 (rvc_imm6 w)) = mix w_li w"
  unfolding u32_eq_iff by (intro conjI; simp add: w_li_def enc del: push_bit_Suc)

lemma enc_addi16sp: "isa_encode (I_IMM A_ADD 2 2 (rvc_16sp w)) = mix w_addi16sp w"
  unfolding u32_eq_iff by (intro conjI; simp add: w_addi16sp_def enc del: push_bit_Suc)

lemma enc_lui: "isa_encode (I_LUI (rvc_r 7 w) (push_bit 12 (rvc_imm6 w))) = mix w_lui w"
  unfolding u32_eq_iff by (intro conjI; simp add: w_lui_def enc del: push_bit_Suc)

lemma enc_srli: "isa_encode (I_IMM A_SRL (rvc_p 7 w) (rvc_p 7 w) (bits 2 5 w)) = mix w_srli w"
  unfolding u32_eq_iff by (intro conjI; simp add: w_srli_def enc del: push_bit_Suc)

lemma enc_srai: "isa_encode (I_IMM A_SRA (rvc_p 7 w) (rvc_p 7 w) (bits 2 5 w)) = mix w_srai w"
  unfolding u32_eq_iff by (intro conjI; simp add: w_srai_def enc del: push_bit_Suc)

lemma enc_andi: "isa_encode (I_IMM A_AND (rvc_p 7 w) (rvc_p 7 w) (rvc_imm6 w)) = mix w_andi w"
  unfolding u32_eq_iff by (intro conjI; simp add: w_andi_def enc del: push_bit_Suc)

lemma enc_sub: "isa_encode (I_OP A_SUB (rvc_p 7 w) (rvc_p 7 w) (rvc_p 2 w)) = mix w_sub w"
  unfolding u32_eq_iff by (intro conjI; simp add: w_sub_def enc del: push_bit_Suc)

lemma enc_xor: "isa_encode (I_OP A_XOR (rvc_p 7 w) (rvc_p 7 w) (rvc_p 2 w)) = mix w_xor w"
  unfolding u32_eq_iff by (intro conjI; simp add: w_xor_def enc del: push_bit_Suc)

lemma enc_or: "isa_encode (I_OP A_OR (rvc_p 7 w) (rvc_p 7 w) (rvc_p 2 w)) = mix w_or w"
  unfolding u32_eq_iff by (intro conjI; simp add: w_or_def enc del: push_bit_Suc)

lemma enc_and: "isa_encode (I_OP A_AND (rvc_p 7 w) (rvc_p 7 w) (rvc_p 2 w)) = mix w_and w"
  unfolding u32_eq_iff by (intro conjI; simp add: w_and_def enc del: push_bit_Suc)

lemma enc_j: "isa_encode (I_JAL 0 (rvc_j w)) = mix w_j w"
  unfolding u32_eq_iff by (intro conjI; simp add: w_j_def enc del: push_bit_Suc)

lemma enc_beqz: "isa_encode (I_BR B_EQ (rvc_p 7 w) 0 (rvc_b w)) = mix w_beqz w"
  unfolding u32_eq_iff by (intro conjI; simp add: w_beqz_def enc del: push_bit_Suc)

lemma enc_bnez: "isa_encode (I_BR B_NE (rvc_p 7 w) 0 (rvc_b w)) = mix w_bnez w"
  unfolding u32_eq_iff by (intro conjI; simp add: w_bnez_def enc del: push_bit_Suc)

lemma enc_slli: "isa_encode (I_IMM A_SLL (rvc_r 7 w) (rvc_r 7 w) (bits 2 5 w)) = mix w_slli w"
  unfolding u32_eq_iff by (intro conjI; simp add: w_slli_def enc del: push_bit_Suc)

lemma enc_lwsp: "isa_encode (I_LD L_W (rvc_r 7 w) 2 (rvc_lwsp w)) = mix w_lwsp w"
  unfolding u32_eq_iff by (intro conjI; simp add: w_lwsp_def enc del: push_bit_Suc)

lemma enc_jr: "isa_encode (I_JALR 0 (rvc_r 7 w) 0) = mix w_jr w"
  unfolding u32_eq_iff by (intro conjI; simp add: w_jr_def enc del: push_bit_Suc)

lemma enc_mv: "isa_encode (I_OP A_ADD (rvc_r 7 w) 0 (rvc_r 2 w)) = mix w_mv w"
  unfolding u32_eq_iff by (intro conjI; simp add: w_mv_def enc del: push_bit_Suc)

lemma enc_jalr: "isa_encode (I_JALR 1 (rvc_r 7 w) 0) = mix w_jalr w"
  unfolding u32_eq_iff by (intro conjI; simp add: w_jalr_def enc del: push_bit_Suc)

lemma enc_add: "isa_encode (I_OP A_ADD (rvc_r 7 w) (rvc_r 7 w) (rvc_r 2 w)) = mix w_add w"
  unfolding u32_eq_iff by (intro conjI; simp add: w_add_def enc del: push_bit_Suc)

lemma enc_swsp: "isa_encode (I_ST S_W 2 (rvc_r 2 w) (rvc_swsp w)) = mix w_swsp w"
  unfolding u32_eq_iff by (intro conjI; simp add: w_swsp_def enc del: push_bit_Suc)


section \<open>The fields of a 16-bit word\<close>

definition entry :: "nat \<Rightarrow> nat \<Rightarrow> nat \<Rightarrow> u32" where
  "entry k j q = decomp16_table (of_nat (128 * k + 4 * j + q))"

lemma fields_of:
  fixes k j :: nat
  assumes k: "k < 512" and j: "j < 32" and q: "q < 4"
  shows "bits 0 2 (word_of k j q) = of_nat q" "bits 13 3 (word_of k j q) = of_nat (k div 64)"
  "bits 12 1 (word_of k j q) = of_nat (k div 32 mod 2)" "bits 10 2 (word_of k j q) = of_nat (k div 8 mod 4)"
  "bits 7 5 (word_of k j q) = of_nat (k mod 32)" "bits 7 6 (word_of k j q) = of_nat (k mod 64)"
  "bits 2 5 (word_of k j q) = of_nat j" "bits 5 2 (word_of k j q) = of_nat (j div 8)"
proof -
  have h: "(128 * k + 4 * j + q) div 128 = k" using q j by simp
  have l: "(128 * k + 4 * j + q) div 4 = 32 * k + j" using q by simp
  have "(128 * k + 4 * j + q) mod 4 = q" using q by presburger
  then show "bits 0 2 (word_of k j q) = of_nat q" by (simp add: field_of [OF k j q])
  have "(128 * k + 4 * j + q) div 8192 = k div 64" using h div_mult2_eq [of "128 * k + 4 * j + q" 128 64] by simp
  moreover have "k div 64 mod 8 = k div 64" using k by simp
  ultimately show "bits 13 3 (word_of k j q) = of_nat (k div 64)" by (simp add: field_of [OF k j q])
  have "(128 * k + 4 * j + q) div 4096 = k div 32" using h div_mult2_eq [of "128 * k + 4 * j + q" 128 32] by simp
  then show "bits 12 1 (word_of k j q) = of_nat (k div 32 mod 2)" by (simp add: field_of [OF k j q])
  have "(128 * k + 4 * j + q) div 1024 = k div 8" using h div_mult2_eq [of "128 * k + 4 * j + q" 128 8] by simp
  then show "bits 10 2 (word_of k j q) = of_nat (k div 8 mod 4)" by (simp add: field_of [OF k j q])
  show "bits 7 5 (word_of k j q) = of_nat (k mod 32)" "bits 7 6 (word_of k j q) = of_nat (k mod 64)"
    using h by (simp_all add: field_of [OF k j q])
  have "(32 * k + j) mod 32 = j" using j by simp
  then show "bits 2 5 (word_of k j q) = of_nat j" using l by (simp add: field_of [OF k j q])
  have "(128 * k + 4 * j + q) div 32 = (32 * k + j) div 8" using l div_mult2_eq [of "128 * k + 4 * j + q" 4 8] by simp
  moreover have "(32 * k + j) div 8 = 4 * k + j div 8" using div_mult_self2 [of 8 j "4 * k"] by (simp add: add.commute)
  moreover have "(4 * k + j div 8) mod 4 = j div 8" using j by simp
  ultimately show "bits 5 2 (word_of k j q) = of_nat (j div 8)" by (simp add: field_of [OF k j q])
qed

lemma table_row:
  fixes k j :: nat
  assumes k: "k < 512" and j: "j < 32" and q: "q < 4"
  shows "entry k j q =
    (case (if q = 0 then rvc_q0 (word_of k j q) else if q = 1 then rvc_q1 (word_of k j q)
       else if q = 2 then rvc_q2 (word_of k j q) else None) of
       Some i \<Rightarrow> isa_encode i | None \<Rightarrow> 0)"
proof -
  have "entry k j q =
      (case (if (of_nat q :: u32) = 0 then rvc_q0 (word_of k j q) else if (of_nat q :: u32) = 1 then rvc_q1 (word_of k j q)
         else if (of_nat q :: u32) = 2 then rvc_q2 (word_of k j q) else None) of Some i \<Rightarrow> isa_encode i | None \<Rightarrow> 0)"
    by (simp only: entry_def decomp16_table_def rvc_isa_def Let_def ucast_word_of [OF k j q] fields_of(1) [OF k j q])
  moreover have "q \<in> {0, 1, 2, 3}" using q by auto
  ultimately show ?thesis by auto
qed

lemma small_word: "n < 65536 \<Longrightarrow> m < 65536 \<Longrightarrow> (of_nat n :: u32) = of_nat m \<longleftrightarrow> n = m"
  by (auto simp: word_unat_eq_iff unsigned_of_nat take_bit_nat_eq_self)

lemma small_reg: "n < 32 \<Longrightarrow> m < 32 \<Longrightarrow> (ucast (of_nat n :: u32) :: ireg) = of_nat m \<longleftrightarrow> n = m"
  by (auto simp: word_unat_eq_iff unsigned_ucast_eq unsigned_of_nat take_bit_nat_eq_self)

lemma zero_imm:
  "rvc_imm6 w = 0 \<longleftrightarrow> bits 12 1 w = 0 \<and> bits 2 5 w = 0"
  "rvc_16sp w = 0 \<longleftrightarrow> bits 12 1 w = 0 \<and> bits 2 5 w = 0"
  "rvc_4spn w = 0 \<longleftrightarrow> bits 7 6 w = 0 \<and> bits 5 2 w = 0"
  unfolding u32_eq_iff rvc_imm6_def rvc_16sp_def rvc_4spn_def
  by (auto simp: bit_simps bit_bits simp del: push_bit_Suc)

section \<open>The rows of each quadrant\<close>

lemma eighth: "k < 512 \<Longrightarrow> k div 64 \<in> {0, 1, 2, 3, 4, 5, 6, 7 :: nat}"
proof -
  assume "k < 512"
  then have "k div 64 < 8" by simp
  then show ?thesis by (cases "k div 64") auto
qed

lemma row0:
  fixes k j :: nat
  assumes k: "k < 512" and j: "j < 32"
  shows "part0 k ! j = entry k j 0"
proof -
  have f: "bits 13 3 (word_of k j 0) = of_nat (k div 64)" by (rule fields_of) (use k j in simp_all)
  have z: "rvc_4spn (word_of k j 0) = 0 \<longleftrightarrow> k mod 64 = 0 \<and> j div 8 = 0"
    using small_word [of "k mod 64" 0] small_word [of "j div 8" 0] j unfolding zero_imm fields_of [OF k j, of 0, simplified] by simp
  have m: "k mod 64 = k" if "k div 64 = 0" using that by (simp add: div_eq_0_iff)
  have n: "j < 8 \<longleftrightarrow> j div 8 = 0" by (simp add: div_eq_0_iff)
  have nl: "no_line ! j = 0" using j by (simp add: no_line_def)
  note l = line_row [OF k j, of 0, simplified]
  note l0 = line_row [of 0 j 0, OF _ j, simplified]
  note rules = l0 rvc_q0_def f z m part0_def l neat_all enc_addi4spn enc_lw enc_sw nl n nth_append Let_def
  show ?thesis
    unfolding table_row [OF k j, of 0, simplified] using eighth [OF k]
    by (elim insertE emptyE; simp add: rules del: isa_encode.simps One_nat_def)
qed

lemma regs_of:
  fixes k j :: nat
  assumes k: "k < 512" and j: "j < 32" and that: "q < 4"
  shows "rvc_r 7 (word_of k j q) = 0 \<longleftrightarrow> k mod 32 = 0" "rvc_r 7 (word_of k j q) = 2 \<longleftrightarrow> k mod 32 = 2"
  "rvc_r 2 (word_of k j q) = 0 \<longleftrightarrow> j = 0"
  unfolding rvc_r_def fields_of [OF k j that]
  using small_reg [of "k mod 32" 0] small_reg [of "k mod 32" 2] small_reg [of j 0] j by simp_all

lemma bits_of:
  fixes k j :: nat
  assumes k: "k < 512" and j: "j < 32" and that: "q < 4"
  shows "bits 12 1 (word_of k j q) = 0 \<longleftrightarrow> k div 32 mod 2 = 0" "bits 2 5 (word_of k j q) = 0 \<longleftrightarrow> j = 0"
  unfolding fields_of [OF k j that]
  using small_word [of "k div 32 mod 2" 0] small_word [of j 0] j by simp_all

lemma changed_line:
  fixes k j :: nat
  assumes j: "j < 32"
  shows "neat s \<Longrightarrow> (line s k)[0 := x] ! j = (if j = 0 then x else line s k ! j)"
  using j by (simp add: nth_list_update)

lemma quarter_lines:
  fixes k j :: nat
  assumes k: "k < 512" and j: "j < 32"
    and "neat s" "neat t" "neat u" "neat v"
  shows "(take 8 (line s k) @ take 8 (drop 8 (line t k)) @ take 8 (drop 16 (line u k)) @ drop 24 (line v k)) ! j =
    (if j div 8 = 0 then line s k ! j else if j div 8 = 1 then line t k ! j else if j div 8 = 2 then line u k ! j else line v k ! j)"
proof -
  have b: "j div 8 < 4" "8 * (j div 8) \<le> j" "j < 8 * (j div 8) + 8" using j by linarith+
  then consider "j div 8 = 0" | "j div 8 = 1" | "j div 8 = 2" | "j div 8 = 3" by linarith
  then show ?thesis using assms j b by cases (simp_all add: nth_append less_diff_conv2)
qed

text \<open>The tests of a row are named, so that the cases do not run into each other.\<close>

lemma alu_row:
  fixes k j :: nat
  assumes k: "k < 512" and j: "j < 32"
  shows "part_alu k ! j = (case rvc_alu (word_of k j 1) of Some i \<Rightarrow> isa_encode i | None \<Rightarrow> 0)"
proof -
  obtain G H B z where n: "k div 8 mod 4 = G" "j div 8 = H" "k div 32 mod 2 = B" "(j = 0) = z" by simp
  have g: "bits 10 2 (word_of k j 1) = of_nat G" and h: "bits 5 2 (word_of k j 1) = of_nat H"
    using fields_of [OF k j, of 1] n by simp_all
  have b: "bits 12 1 (word_of k j 1) = 0 \<longleftrightarrow> B = 0" "bits 2 5 (word_of k j 1) = 0 \<longleftrightarrow> z" "B = 1 \<longleftrightarrow> B \<noteq> 0"
    using bits_of [OF k j, of 1] n by auto
  have c: "neat s \<Longrightarrow> (line s k)[0 := x] ! j = (if z then x else line s k ! j)" for s x
    using changed_line [OF j] n by auto
  have nl: "no_line ! j = 0" using j by (simp add: no_line_def)
  have l: "neat s \<Longrightarrow> line s k ! j = mix s (word_of k j 1)" for s by (rule line_row [OF k j]) simp
  note rules = rvc_alu_def g h b part_alu_def c quarter_lines [OF k j, unfolded n] l neat_all nl n(1,3)
    enc_srli enc_srai enc_andi enc_sub enc_xor enc_or enc_and Let_def
  have "G < 4" "H < 4" using n j by auto
  then have "G \<in> {0, 1, 2, 3}" "H \<in> {0, 1, 2, 3}" by auto
  then show ?thesis
    by (elim insertE emptyE; simp add: rules del: isa_encode.simps One_nat_def)
qed

lemma row1:
  fixes k j :: nat
  assumes k: "k < 512" and j: "j < 32"
  shows "part1 k ! j = entry k j 1"
proof -
  obtain F R B z y u v where n: "k div 64 = F" "k mod 32 = R" "k div 32 mod 2 = B" "(j = 0) = z"
    "(k = 0) = y" "(k = 194) = u" "(k < 224) = v" by simp
  have f: "bits 13 3 (word_of k j 1) = of_nat F" using fields_of [OF k j, of 1] n by simp
  have nl: "no_line ! j = 0" "no_line[0 := x] ! j = (if z then x else 0)" for x
    using j n by (auto simp: no_line_def nth_list_update)
  have "k div 64 = k div 32 div 2" using div_mult2_eq [of k 32 2] by simp
  then have e: "k = 64 * F + 32 * B + R"
    using mult_div_mod_eq [of 32 k] mult_div_mod_eq [of 2 "k div 32"] n by linarith
  have "R < 32" "B < 2" using n by auto
  then have a: "F = 0 \<Longrightarrow> R = 0 \<Longrightarrow> y \<longleftrightarrow> B = 0" "F = 3 \<Longrightarrow> R = 2 \<Longrightarrow> u \<longleftrightarrow> B = 0" "F = 3 \<Longrightarrow> v \<longleftrightarrow> B = 0"
    using e n(5-7) by linarith+
  have nop: "isa_encode (I_IMM A_ADD 0 0 0) = 0x13" by code_simp
  have i0: "rvc_imm6 (word_of k j 1) = 0 \<longleftrightarrow> B = 0 \<and> z" "rvc_16sp (word_of k j 1) = 0 \<longleftrightarrow> B = 0 \<and> z"
    using n by (simp_all add: zero_imm bits_of [OF k j] del: One_nat_def)
  have r0: "rvc_r 7 (word_of k j 1) = 0 \<longleftrightarrow> R = 0" "rvc_r 7 (word_of k j 1) = 2 \<longleftrightarrow> R = 2"
    using regs_of [OF k j, of 1] n by simp_all
  have addi: "R = 0 \<Longrightarrow> B = 0 \<Longrightarrow> z \<Longrightarrow> mix w_addi (word_of k j 1) = 0x13"
    using nop r0 i0 enc_addi [of "word_of k j 1"] by (simp del: isa_encode.simps)
  have c: "neat s \<Longrightarrow> (line s k)[0 := x] ! j = (if z then x else line s k ! j)" for s x
    using changed_line [OF j] n by auto
  have l: "neat s \<Longrightarrow> line s k ! j = mix s (word_of k j 1)" for s by (rule line_row [OF k j]) simp
  note rules = addi rvc_q1_def f i0 a r0 part1_def c l neat_all nl Let_def alu_row [OF k j] n(1-3,5-7)
    enc_addi enc_jal enc_li enc_addi16sp enc_lui enc_j enc_beqz enc_bnez
  have t: "entry k j 1 = (case rvc_q1 (word_of k j 1) of Some i \<Rightarrow> isa_encode i | None \<Rightarrow> 0)"
    by (subst table_row [OF k j]) simp_all
  have "F \<in> {0, 1, 2, 3, 4, 5, 6, 7}" using eighth [OF k] n by simp
  then show ?thesis
    unfolding t by (elim insertE emptyE; simp add: rules del: isa_encode.simps One_nat_def)
qed

lemma row2:
  fixes k j :: nat
  assumes k: "k < 512" and j: "j < 32"
  shows "part2 k ! j = entry k j 2"
proof -
  obtain F R B z where n: "k div 64 = F" "k mod 32 = R" "k div 32 mod 2 = B" "(j = 0) = z" by simp
  have f: "bits 13 3 (word_of k j 2) = of_nat F" using fields_of [OF k j, of 2] n by simp
  have nl: "no_line ! j = 0" "no_line[0 := x] ! j = (if z then x else 0)" for x
    using j n by (auto simp: no_line_def nth_list_update)
  have b: "bits 12 1 (word_of k j 2) = 0 \<longleftrightarrow> B = 0" using bits_of [OF k j, of 2] n by simp
  have r0: "rvc_r 7 (word_of k j 2) = 0 \<longleftrightarrow> R = 0" "rvc_r 2 (word_of k j 2) = 0 \<longleftrightarrow> z"
    using regs_of [OF k j, of 2] n by simp_all
  note l = line_row [OF k j, of 2, simplified]
  have c: "neat s \<Longrightarrow> (line s k)[0 := x] ! j = (if z then x else line s k ! j)" for s x
    using changed_line [OF j] n by auto
  have "neat s \<Longrightarrow> hd (line s k) = line s k ! 0" for s by (rule hd_conv_nth) (auto dest: length_line [where k = k])
  then have h: "z \<Longrightarrow> neat s \<Longrightarrow> hd (line s k) = mix s (word_of k j 2)" for s using l n by auto
  have brk: "isa_encode (I_SYS Y_EBREAK) = 0x00100073" by code_simp
  note rules = rvc_q2_def f b r0 part2_def c h l neat_all nl Let_def n(1-3) brk
    enc_slli enc_lwsp enc_jr enc_mv enc_jalr enc_add enc_swsp
  have "F \<in> {0, 1, 2, 3, 4, 5, 6, 7}" using eighth [OF k] n by simp
  then show ?thesis
    unfolding table_row [OF k j, of 2, simplified]
    by (elim insertE emptyE; simp add: rules del: isa_encode.simps One_nat_def)
qed

section \<open>The rows of a chunk\<close>

lemma part_lengths: "length (part0 k) = 32" "length (part1 k) = 32" "length (part2 k) = 32"
proof -
  have n: "length no_line = 32" by (simp add: no_line_def)
  have z: "length (replicate 8 0 @ drop 8 (line w_addi4spn k)) = 32" by (simp add: neat_all)
  have q: "length (take 8 (line w_sub k) @ take 8 (drop 8 (line w_xor k)) @ take 8 (drop 16 (line w_or k)) @
      drop 24 (line w_and k)) = 32" by (simp add: neat_all)
  note rules = if_distrib [where f = length] length_line neat_all length_list_update n z q if_cancel
  have "length (part_alu k) = 32" by (simp only: part_alu_def rules)
  then show "length (part0 k) = 32" "length (part1 k) = 32" "length (part2 k) = 32"
    by (simp_all only: part0_def part1_def part2_def rules)
qed

lemma weave_maps: "weave (map f xs) (map g xs) (map h xs) = concat (map (\<lambda>j. [f j, g j, h j, 0]) xs)"
  by (induction xs) simp_all

lemma upt_fours: "[a..<a + 4 * n] = concat (map (\<lambda>j. [a + 4 * j, a + 4 * j + 1, a + 4 * j + 2, a + 4 * j + 3]) [0..<n])"
proof (induction n)
  case (Suc n)
  have "[a + 4 * n..<a + 4 * n + 4] = [a + 4 * n, a + 4 * n + 1, a + 4 * n + 2, a + 4 * n + 3]"
    by (simp add: upt_rec numeral_eq_Suc)
  then show ?case using Suc upt_add_eq_append [of a "a + 4 * n" 4] by (simp add: add.assoc add.commute [of 4])
qed simp

lemma chunk_rows:
  assumes "k < 512"
  shows "chunk k = map (\<lambda>n. decomp16_table (of_nat n)) [128 * k..<128 * k + 128]"
proof -
  have p: "part0 k = map (\<lambda>j. entry k j 0) [0..<32]" "part1 k = map (\<lambda>j. entry k j 1) [0..<32]"
      "part2 k = map (\<lambda>j. entry k j 2) [0..<32]"
    using row0 [OF assms] row1 [OF assms] row2 [OF assms] by (simp_all add: list_eq_iff_nth_eq part_lengths)
  have "entry k j 3 = 0" if "j < 32" for j by (subst table_row [OF assms that]) simp_all
  then have "chunk k = concat (map (\<lambda>j. [entry k j 0, entry k j 1, entry k j 2, entry k j 3]) [0..<32])"
    unfolding chunk_def p weave_maps by (intro arg_cong [of _ _ concat] map_cong refl) simp
  also have "\<dots> = map (\<lambda>n. decomp16_table (of_nat n)) [128 * k..<128 * k + 4 * 32]"
    unfolding upt_fours map_concat map_map entry_def o_def by simp
  finally show ?thesis by simp
qed

end
