(* ===== verification/Decomp16_Rows_1.thy ===== *)
theory Decomp16_Rows_1
  imports Decomp16_Lines
begin

text \<open>
  The rows 0x2000 to 0x3fff of \<open>decomp16_table\<close>, as they stand in \<open>src/decomp16.cpp\<close>, 128 to a
  definition, and their comparison with the chunks of theory \<open>Decomp16_Lines\<close>.
\<close>

definition decomp16_064 :: "u32 list" where
  "decomp16_064 = [
    0x00000000, 0x000000ef, 0x00000000, 0x00000000, 0x00000000, 0x020000ef, 0x00000000, 0x00000000,
    0x00000000, 0x002000ef, 0x00000000, 0x00000000, 0x00000000, 0x022000ef, 0x00000000, 0x00000000,
    0x00000000, 0x004000ef, 0x00000000, 0x00000000, 0x00000000, 0x024000ef, 0x00000000, 0x00000000,
    0x00000000, 0x006000ef, 0x00000000, 0x00000000, 0x00000000, 0x026000ef, 0x00000000, 0x00000000,
    0x00000000, 0x008000ef, 0x00000000, 0x00000000, 0x00000000, 0x028000ef, 0x00000000, 0x00000000,
    0x00000000, 0x00a000ef, 0x00000000, 0x00000000, 0x00000000, 0x02a000ef, 0x00000000, 0x00000000,
    0x00000000, 0x00c000ef, 0x00000000, 0x00000000, 0x00000000, 0x02c000ef, 0x00000000, 0x00000000,
    0x00000000, 0x00e000ef, 0x00000000, 0x00000000, 0x00000000, 0x02e000ef, 0x00000000, 0x00000000,
    0x00000000, 0x080000ef, 0x00000000, 0x00000000, 0x00000000, 0x0a0000ef, 0x00000000, 0x00000000,
    0x00000000, 0x082000ef, 0x00000000, 0x00000000, 0x00000000, 0x0a2000ef, 0x00000000, 0x00000000,
    0x00000000, 0x084000ef, 0x00000000, 0x00000000, 0x00000000, 0x0a4000ef, 0x00000000, 0x00000000,
    0x00000000, 0x086000ef, 0x00000000, 0x00000000, 0x00000000, 0x0a6000ef, 0x00000000, 0x00000000,
    0x00000000, 0x088000ef, 0x00000000, 0x00000000, 0x00000000, 0x0a8000ef, 0x00000000, 0x00000000,
    0x00000000, 0x08a000ef, 0x00000000, 0x00000000, 0x00000000, 0x0aa000ef, 0x00000000, 0x00000000,
    0x00000000, 0x08c000ef, 0x00000000, 0x00000000, 0x00000000, 0x0ac000ef, 0x00000000, 0x00000000,
    0x00000000, 0x08e000ef, 0x00000000, 0x00000000, 0x00000000, 0x0ae000ef, 0x00000000, 0x00000000]"

definition decomp16_065 :: "u32 list" where
  "decomp16_065 = [
    0x00000000, 0x040000ef, 0x00000000, 0x00000000, 0x00000000, 0x060000ef, 0x00000000, 0x00000000,
    0x00000000, 0x042000ef, 0x00000000, 0x00000000, 0x00000000, 0x062000ef, 0x00000000, 0x00000000,
    0x00000000, 0x044000ef, 0x00000000, 0x00000000, 0x00000000, 0x064000ef, 0x00000000, 0x00000000,
    0x00000000, 0x046000ef, 0x00000000, 0x00000000, 0x00000000, 0x066000ef, 0x00000000, 0x00000000,
    0x00000000, 0x048000ef, 0x00000000, 0x00000000, 0x00000000, 0x068000ef, 0x00000000, 0x00000000,
    0x00000000, 0x04a000ef, 0x00000000, 0x00000000, 0x00000000, 0x06a000ef, 0x00000000, 0x00000000,
    0x00000000, 0x04c000ef, 0x00000000, 0x00000000, 0x00000000, 0x06c000ef, 0x00000000, 0x00000000,
    0x00000000, 0x04e000ef, 0x00000000, 0x00000000, 0x00000000, 0x06e000ef, 0x00000000, 0x00000000,
    0x00000000, 0x0c0000ef, 0x00000000, 0x00000000, 0x00000000, 0x0e0000ef, 0x00000000, 0x00000000,
    0x00000000, 0x0c2000ef, 0x00000000, 0x00000000, 0x00000000, 0x0e2000ef, 0x00000000, 0x00000000,
    0x00000000, 0x0c4000ef, 0x00000000, 0x00000000, 0x00000000, 0x0e4000ef, 0x00000000, 0x00000000,
    0x00000000, 0x0c6000ef, 0x00000000, 0x00000000, 0x00000000, 0x0e6000ef, 0x00000000, 0x00000000,
    0x00000000, 0x0c8000ef, 0x00000000, 0x00000000, 0x00000000, 0x0e8000ef, 0x00000000, 0x00000000,
    0x00000000, 0x0ca000ef, 0x00000000, 0x00000000, 0x00000000, 0x0ea000ef, 0x00000000, 0x00000000,
    0x00000000, 0x0cc000ef, 0x00000000, 0x00000000, 0x00000000, 0x0ec000ef, 0x00000000, 0x00000000,
    0x00000000, 0x0ce000ef, 0x00000000, 0x00000000, 0x00000000, 0x0ee000ef, 0x00000000, 0x00000000]"

definition decomp16_066 :: "u32 list" where
  "decomp16_066 = [
    0x00000000, 0x400000ef, 0x00000000, 0x00000000, 0x00000000, 0x420000ef, 0x00000000, 0x00000000,
    0x00000000, 0x402000ef, 0x00000000, 0x00000000, 0x00000000, 0x422000ef, 0x00000000, 0x00000000,
    0x00000000, 0x404000ef, 0x00000000, 0x00000000, 0x00000000, 0x424000ef, 0x00000000, 0x00000000,
    0x00000000, 0x406000ef, 0x00000000, 0x00000000, 0x00000000, 0x426000ef, 0x00000000, 0x00000000,
    0x00000000, 0x408000ef, 0x00000000, 0x00000000, 0x00000000, 0x428000ef, 0x00000000, 0x00000000,
    0x00000000, 0x40a000ef, 0x00000000, 0x00000000, 0x00000000, 0x42a000ef, 0x00000000, 0x00000000,
    0x00000000, 0x40c000ef, 0x00000000, 0x00000000, 0x00000000, 0x42c000ef, 0x00000000, 0x00000000,
    0x00000000, 0x40e000ef, 0x00000000, 0x00000000, 0x00000000, 0x42e000ef, 0x00000000, 0x00000000,
    0x00000000, 0x480000ef, 0x00000000, 0x00000000, 0x00000000, 0x4a0000ef, 0x00000000, 0x00000000,
    0x00000000, 0x482000ef, 0x00000000, 0x00000000, 0x00000000, 0x4a2000ef, 0x00000000, 0x00000000,
    0x00000000, 0x484000ef, 0x00000000, 0x00000000, 0x00000000, 0x4a4000ef, 0x00000000, 0x00000000,
    0x00000000, 0x486000ef, 0x00000000, 0x00000000, 0x00000000, 0x4a6000ef, 0x00000000, 0x00000000,
    0x00000000, 0x488000ef, 0x00000000, 0x00000000, 0x00000000, 0x4a8000ef, 0x00000000, 0x00000000,
    0x00000000, 0x48a000ef, 0x00000000, 0x00000000, 0x00000000, 0x4aa000ef, 0x00000000, 0x00000000,
    0x00000000, 0x48c000ef, 0x00000000, 0x00000000, 0x00000000, 0x4ac000ef, 0x00000000, 0x00000000,
    0x00000000, 0x48e000ef, 0x00000000, 0x00000000, 0x00000000, 0x4ae000ef, 0x00000000, 0x00000000]"

definition decomp16_067 :: "u32 list" where
  "decomp16_067 = [
    0x00000000, 0x440000ef, 0x00000000, 0x00000000, 0x00000000, 0x460000ef, 0x00000000, 0x00000000,
    0x00000000, 0x442000ef, 0x00000000, 0x00000000, 0x00000000, 0x462000ef, 0x00000000, 0x00000000,
    0x00000000, 0x444000ef, 0x00000000, 0x00000000, 0x00000000, 0x464000ef, 0x00000000, 0x00000000,
    0x00000000, 0x446000ef, 0x00000000, 0x00000000, 0x00000000, 0x466000ef, 0x00000000, 0x00000000,
    0x00000000, 0x448000ef, 0x00000000, 0x00000000, 0x00000000, 0x468000ef, 0x00000000, 0x00000000,
    0x00000000, 0x44a000ef, 0x00000000, 0x00000000, 0x00000000, 0x46a000ef, 0x00000000, 0x00000000,
    0x00000000, 0x44c000ef, 0x00000000, 0x00000000, 0x00000000, 0x46c000ef, 0x00000000, 0x00000000,
    0x00000000, 0x44e000ef, 0x00000000, 0x00000000, 0x00000000, 0x46e000ef, 0x00000000, 0x00000000,
    0x00000000, 0x4c0000ef, 0x00000000, 0x00000000, 0x00000000, 0x4e0000ef, 0x00000000, 0x00000000,
    0x00000000, 0x4c2000ef, 0x00000000, 0x00000000, 0x00000000, 0x4e2000ef, 0x00000000, 0x00000000,
    0x00000000, 0x4c4000ef, 0x00000000, 0x00000000, 0x00000000, 0x4e4000ef, 0x00000000, 0x00000000,
    0x00000000, 0x4c6000ef, 0x00000000, 0x00000000, 0x00000000, 0x4e6000ef, 0x00000000, 0x00000000,
    0x00000000, 0x4c8000ef, 0x00000000, 0x00000000, 0x00000000, 0x4e8000ef, 0x00000000, 0x00000000,
    0x00000000, 0x4ca000ef, 0x00000000, 0x00000000, 0x00000000, 0x4ea000ef, 0x00000000, 0x00000000,
    0x00000000, 0x4cc000ef, 0x00000000, 0x00000000, 0x00000000, 0x4ec000ef, 0x00000000, 0x00000000,
    0x00000000, 0x4ce000ef, 0x00000000, 0x00000000, 0x00000000, 0x4ee000ef, 0x00000000, 0x00000000]"

definition decomp16_068 :: "u32 list" where
  "decomp16_068 = [
    0x00000000, 0x100000ef, 0x00000000, 0x00000000, 0x00000000, 0x120000ef, 0x00000000, 0x00000000,
    0x00000000, 0x102000ef, 0x00000000, 0x00000000, 0x00000000, 0x122000ef, 0x00000000, 0x00000000,
    0x00000000, 0x104000ef, 0x00000000, 0x00000000, 0x00000000, 0x124000ef, 0x00000000, 0x00000000,
    0x00000000, 0x106000ef, 0x00000000, 0x00000000, 0x00000000, 0x126000ef, 0x00000000, 0x00000000,
    0x00000000, 0x108000ef, 0x00000000, 0x00000000, 0x00000000, 0x128000ef, 0x00000000, 0x00000000,
    0x00000000, 0x10a000ef, 0x00000000, 0x00000000, 0x00000000, 0x12a000ef, 0x00000000, 0x00000000,
    0x00000000, 0x10c000ef, 0x00000000, 0x00000000, 0x00000000, 0x12c000ef, 0x00000000, 0x00000000,
    0x00000000, 0x10e000ef, 0x00000000, 0x00000000, 0x00000000, 0x12e000ef, 0x00000000, 0x00000000,
    0x00000000, 0x180000ef, 0x00000000, 0x00000000, 0x00000000, 0x1a0000ef, 0x00000000, 0x00000000,
    0x00000000, 0x182000ef, 0x00000000, 0x00000000, 0x00000000, 0x1a2000ef, 0x00000000, 0x00000000,
    0x00000000, 0x184000ef, 0x00000000, 0x00000000, 0x00000000, 0x1a4000ef, 0x00000000, 0x00000000,
    0x00000000, 0x186000ef, 0x00000000, 0x00000000, 0x00000000, 0x1a6000ef, 0x00000000, 0x00000000,
    0x00000000, 0x188000ef, 0x00000000, 0x00000000, 0x00000000, 0x1a8000ef, 0x00000000, 0x00000000,
    0x00000000, 0x18a000ef, 0x00000000, 0x00000000, 0x00000000, 0x1aa000ef, 0x00000000, 0x00000000,
    0x00000000, 0x18c000ef, 0x00000000, 0x00000000, 0x00000000, 0x1ac000ef, 0x00000000, 0x00000000,
    0x00000000, 0x18e000ef, 0x00000000, 0x00000000, 0x00000000, 0x1ae000ef, 0x00000000, 0x00000000]"

definition decomp16_069 :: "u32 list" where
  "decomp16_069 = [
    0x00000000, 0x140000ef, 0x00000000, 0x00000000, 0x00000000, 0x160000ef, 0x00000000, 0x00000000,
    0x00000000, 0x142000ef, 0x00000000, 0x00000000, 0x00000000, 0x162000ef, 0x00000000, 0x00000000,
    0x00000000, 0x144000ef, 0x00000000, 0x00000000, 0x00000000, 0x164000ef, 0x00000000, 0x00000000,
    0x00000000, 0x146000ef, 0x00000000, 0x00000000, 0x00000000, 0x166000ef, 0x00000000, 0x00000000,
    0x00000000, 0x148000ef, 0x00000000, 0x00000000, 0x00000000, 0x168000ef, 0x00000000, 0x00000000,
    0x00000000, 0x14a000ef, 0x00000000, 0x00000000, 0x00000000, 0x16a000ef, 0x00000000, 0x00000000,
    0x00000000, 0x14c000ef, 0x00000000, 0x00000000, 0x00000000, 0x16c000ef, 0x00000000, 0x00000000,
    0x00000000, 0x14e000ef, 0x00000000, 0x00000000, 0x00000000, 0x16e000ef, 0x00000000, 0x00000000,
    0x00000000, 0x1c0000ef, 0x00000000, 0x00000000, 0x00000000, 0x1e0000ef, 0x00000000, 0x00000000,
    0x00000000, 0x1c2000ef, 0x00000000, 0x00000000, 0x00000000, 0x1e2000ef, 0x00000000, 0x00000000,
    0x00000000, 0x1c4000ef, 0x00000000, 0x00000000, 0x00000000, 0x1e4000ef, 0x00000000, 0x00000000,
    0x00000000, 0x1c6000ef, 0x00000000, 0x00000000, 0x00000000, 0x1e6000ef, 0x00000000, 0x00000000,
    0x00000000, 0x1c8000ef, 0x00000000, 0x00000000, 0x00000000, 0x1e8000ef, 0x00000000, 0x00000000,
    0x00000000, 0x1ca000ef, 0x00000000, 0x00000000, 0x00000000, 0x1ea000ef, 0x00000000, 0x00000000,
    0x00000000, 0x1cc000ef, 0x00000000, 0x00000000, 0x00000000, 0x1ec000ef, 0x00000000, 0x00000000,
    0x00000000, 0x1ce000ef, 0x00000000, 0x00000000, 0x00000000, 0x1ee000ef, 0x00000000, 0x00000000]"

definition decomp16_070 :: "u32 list" where
  "decomp16_070 = [
    0x00000000, 0x500000ef, 0x00000000, 0x00000000, 0x00000000, 0x520000ef, 0x00000000, 0x00000000,
    0x00000000, 0x502000ef, 0x00000000, 0x00000000, 0x00000000, 0x522000ef, 0x00000000, 0x00000000,
    0x00000000, 0x504000ef, 0x00000000, 0x00000000, 0x00000000, 0x524000ef, 0x00000000, 0x00000000,
    0x00000000, 0x506000ef, 0x00000000, 0x00000000, 0x00000000, 0x526000ef, 0x00000000, 0x00000000,
    0x00000000, 0x508000ef, 0x00000000, 0x00000000, 0x00000000, 0x528000ef, 0x00000000, 0x00000000,
    0x00000000, 0x50a000ef, 0x00000000, 0x00000000, 0x00000000, 0x52a000ef, 0x00000000, 0x00000000,
    0x00000000, 0x50c000ef, 0x00000000, 0x00000000, 0x00000000, 0x52c000ef, 0x00000000, 0x00000000,
    0x00000000, 0x50e000ef, 0x00000000, 0x00000000, 0x00000000, 0x52e000ef, 0x00000000, 0x00000000,
    0x00000000, 0x580000ef, 0x00000000, 0x00000000, 0x00000000, 0x5a0000ef, 0x00000000, 0x00000000,
    0x00000000, 0x582000ef, 0x00000000, 0x00000000, 0x00000000, 0x5a2000ef, 0x00000000, 0x00000000,
    0x00000000, 0x584000ef, 0x00000000, 0x00000000, 0x00000000, 0x5a4000ef, 0x00000000, 0x00000000,
    0x00000000, 0x586000ef, 0x00000000, 0x00000000, 0x00000000, 0x5a6000ef, 0x00000000, 0x00000000,
    0x00000000, 0x588000ef, 0x00000000, 0x00000000, 0x00000000, 0x5a8000ef, 0x00000000, 0x00000000,
    0x00000000, 0x58a000ef, 0x00000000, 0x00000000, 0x00000000, 0x5aa000ef, 0x00000000, 0x00000000,
    0x00000000, 0x58c000ef, 0x00000000, 0x00000000, 0x00000000, 0x5ac000ef, 0x00000000, 0x00000000,
    0x00000000, 0x58e000ef, 0x00000000, 0x00000000, 0x00000000, 0x5ae000ef, 0x00000000, 0x00000000]"

definition decomp16_071 :: "u32 list" where
  "decomp16_071 = [
    0x00000000, 0x540000ef, 0x00000000, 0x00000000, 0x00000000, 0x560000ef, 0x00000000, 0x00000000,
    0x00000000, 0x542000ef, 0x00000000, 0x00000000, 0x00000000, 0x562000ef, 0x00000000, 0x00000000,
    0x00000000, 0x544000ef, 0x00000000, 0x00000000, 0x00000000, 0x564000ef, 0x00000000, 0x00000000,
    0x00000000, 0x546000ef, 0x00000000, 0x00000000, 0x00000000, 0x566000ef, 0x00000000, 0x00000000,
    0x00000000, 0x548000ef, 0x00000000, 0x00000000, 0x00000000, 0x568000ef, 0x00000000, 0x00000000,
    0x00000000, 0x54a000ef, 0x00000000, 0x00000000, 0x00000000, 0x56a000ef, 0x00000000, 0x00000000,
    0x00000000, 0x54c000ef, 0x00000000, 0x00000000, 0x00000000, 0x56c000ef, 0x00000000, 0x00000000,
    0x00000000, 0x54e000ef, 0x00000000, 0x00000000, 0x00000000, 0x56e000ef, 0x00000000, 0x00000000,
    0x00000000, 0x5c0000ef, 0x00000000, 0x00000000, 0x00000000, 0x5e0000ef, 0x00000000, 0x00000000,
    0x00000000, 0x5c2000ef, 0x00000000, 0x00000000, 0x00000000, 0x5e2000ef, 0x00000000, 0x00000000,
    0x00000000, 0x5c4000ef, 0x00000000, 0x00000000, 0x00000000, 0x5e4000ef, 0x00000000, 0x00000000,
    0x00000000, 0x5c6000ef, 0x00000000, 0x00000000, 0x00000000, 0x5e6000ef, 0x00000000, 0x00000000,
    0x00000000, 0x5c8000ef, 0x00000000, 0x00000000, 0x00000000, 0x5e8000ef, 0x00000000, 0x00000000,
    0x00000000, 0x5ca000ef, 0x00000000, 0x00000000, 0x00000000, 0x5ea000ef, 0x00000000, 0x00000000,
    0x00000000, 0x5cc000ef, 0x00000000, 0x00000000, 0x00000000, 0x5ec000ef, 0x00000000, 0x00000000,
    0x00000000, 0x5ce000ef, 0x00000000, 0x00000000, 0x00000000, 0x5ee000ef, 0x00000000, 0x00000000]"

definition decomp16_072 :: "u32 list" where
  "decomp16_072 = [
    0x00000000, 0x200000ef, 0x00000000, 0x00000000, 0x00000000, 0x220000ef, 0x00000000, 0x00000000,
    0x00000000, 0x202000ef, 0x00000000, 0x00000000, 0x00000000, 0x222000ef, 0x00000000, 0x00000000,
    0x00000000, 0x204000ef, 0x00000000, 0x00000000, 0x00000000, 0x224000ef, 0x00000000, 0x00000000,
    0x00000000, 0x206000ef, 0x00000000, 0x00000000, 0x00000000, 0x226000ef, 0x00000000, 0x00000000,
    0x00000000, 0x208000ef, 0x00000000, 0x00000000, 0x00000000, 0x228000ef, 0x00000000, 0x00000000,
    0x00000000, 0x20a000ef, 0x00000000, 0x00000000, 0x00000000, 0x22a000ef, 0x00000000, 0x00000000,
    0x00000000, 0x20c000ef, 0x00000000, 0x00000000, 0x00000000, 0x22c000ef, 0x00000000, 0x00000000,
    0x00000000, 0x20e000ef, 0x00000000, 0x00000000, 0x00000000, 0x22e000ef, 0x00000000, 0x00000000,
    0x00000000, 0x280000ef, 0x00000000, 0x00000000, 0x00000000, 0x2a0000ef, 0x00000000, 0x00000000,
    0x00000000, 0x282000ef, 0x00000000, 0x00000000, 0x00000000, 0x2a2000ef, 0x00000000, 0x00000000,
    0x00000000, 0x284000ef, 0x00000000, 0x00000000, 0x00000000, 0x2a4000ef, 0x00000000, 0x00000000,
    0x00000000, 0x286000ef, 0x00000000, 0x00000000, 0x00000000, 0x2a6000ef, 0x00000000, 0x00000000,
    0x00000000, 0x288000ef, 0x00000000, 0x00000000, 0x00000000, 0x2a8000ef, 0x00000000, 0x00000000,
    0x00000000, 0x28a000ef, 0x00000000, 0x00000000, 0x00000000, 0x2aa000ef, 0x00000000, 0x00000000,
    0x00000000, 0x28c000ef, 0x00000000, 0x00000000, 0x00000000, 0x2ac000ef, 0x00000000, 0x00000000,
    0x00000000, 0x28e000ef, 0x00000000, 0x00000000, 0x00000000, 0x2ae000ef, 0x00000000, 0x00000000]"

definition decomp16_073 :: "u32 list" where
  "decomp16_073 = [
    0x00000000, 0x240000ef, 0x00000000, 0x00000000, 0x00000000, 0x260000ef, 0x00000000, 0x00000000,
    0x00000000, 0x242000ef, 0x00000000, 0x00000000, 0x00000000, 0x262000ef, 0x00000000, 0x00000000,
    0x00000000, 0x244000ef, 0x00000000, 0x00000000, 0x00000000, 0x264000ef, 0x00000000, 0x00000000,
    0x00000000, 0x246000ef, 0x00000000, 0x00000000, 0x00000000, 0x266000ef, 0x00000000, 0x00000000,
    0x00000000, 0x248000ef, 0x00000000, 0x00000000, 0x00000000, 0x268000ef, 0x00000000, 0x00000000,
    0x00000000, 0x24a000ef, 0x00000000, 0x00000000, 0x00000000, 0x26a000ef, 0x00000000, 0x00000000,
    0x00000000, 0x24c000ef, 0x00000000, 0x00000000, 0x00000000, 0x26c000ef, 0x00000000, 0x00000000,
    0x00000000, 0x24e000ef, 0x00000000, 0x00000000, 0x00000000, 0x26e000ef, 0x00000000, 0x00000000,
    0x00000000, 0x2c0000ef, 0x00000000, 0x00000000, 0x00000000, 0x2e0000ef, 0x00000000, 0x00000000,
    0x00000000, 0x2c2000ef, 0x00000000, 0x00000000, 0x00000000, 0x2e2000ef, 0x00000000, 0x00000000,
    0x00000000, 0x2c4000ef, 0x00000000, 0x00000000, 0x00000000, 0x2e4000ef, 0x00000000, 0x00000000,
    0x00000000, 0x2c6000ef, 0x00000000, 0x00000000, 0x00000000, 0x2e6000ef, 0x00000000, 0x00000000,
    0x00000000, 0x2c8000ef, 0x00000000, 0x00000000, 0x00000000, 0x2e8000ef, 0x00000000, 0x00000000,
    0x00000000, 0x2ca000ef, 0x00000000, 0x00000000, 0x00000000, 0x2ea000ef, 0x00000000, 0x00000000,
    0x00000000, 0x2cc000ef, 0x00000000, 0x00000000, 0x00000000, 0x2ec000ef, 0x00000000, 0x00000000,
    0x00000000, 0x2ce000ef, 0x00000000, 0x00000000, 0x00000000, 0x2ee000ef, 0x00000000, 0x00000000]"

definition decomp16_074 :: "u32 list" where
  "decomp16_074 = [
    0x00000000, 0x600000ef, 0x00000000, 0x00000000, 0x00000000, 0x620000ef, 0x00000000, 0x00000000,
    0x00000000, 0x602000ef, 0x00000000, 0x00000000, 0x00000000, 0x622000ef, 0x00000000, 0x00000000,
    0x00000000, 0x604000ef, 0x00000000, 0x00000000, 0x00000000, 0x624000ef, 0x00000000, 0x00000000,
    0x00000000, 0x606000ef, 0x00000000, 0x00000000, 0x00000000, 0x626000ef, 0x00000000, 0x00000000,
    0x00000000, 0x608000ef, 0x00000000, 0x00000000, 0x00000000, 0x628000ef, 0x00000000, 0x00000000,
    0x00000000, 0x60a000ef, 0x00000000, 0x00000000, 0x00000000, 0x62a000ef, 0x00000000, 0x00000000,
    0x00000000, 0x60c000ef, 0x00000000, 0x00000000, 0x00000000, 0x62c000ef, 0x00000000, 0x00000000,
    0x00000000, 0x60e000ef, 0x00000000, 0x00000000, 0x00000000, 0x62e000ef, 0x00000000, 0x00000000,
    0x00000000, 0x680000ef, 0x00000000, 0x00000000, 0x00000000, 0x6a0000ef, 0x00000000, 0x00000000,
    0x00000000, 0x682000ef, 0x00000000, 0x00000000, 0x00000000, 0x6a2000ef, 0x00000000, 0x00000000,
    0x00000000, 0x684000ef, 0x00000000, 0x00000000, 0x00000000, 0x6a4000ef, 0x00000000, 0x00000000,
    0x00000000, 0x686000ef, 0x00000000, 0x00000000, 0x00000000, 0x6a6000ef, 0x00000000, 0x00000000,
    0x00000000, 0x688000ef, 0x00000000, 0x00000000, 0x00000000, 0x6a8000ef, 0x00000000, 0x00000000,
    0x00000000, 0x68a000ef, 0x00000000, 0x00000000, 0x00000000, 0x6aa000ef, 0x00000000, 0x00000000,
    0x00000000, 0x68c000ef, 0x00000000, 0x00000000, 0x00000000, 0x6ac000ef, 0x00000000, 0x00000000,
    0x00000000, 0x68e000ef, 0x00000000, 0x00000000, 0x00000000, 0x6ae000ef, 0x00000000, 0x00000000]"

definition decomp16_075 :: "u32 list" where
  "decomp16_075 = [
    0x00000000, 0x640000ef, 0x00000000, 0x00000000, 0x00000000, 0x660000ef, 0x00000000, 0x00000000,
    0x00000000, 0x642000ef, 0x00000000, 0x00000000, 0x00000000, 0x662000ef, 0x00000000, 0x00000000,
    0x00000000, 0x644000ef, 0x00000000, 0x00000000, 0x00000000, 0x664000ef, 0x00000000, 0x00000000,
    0x00000000, 0x646000ef, 0x00000000, 0x00000000, 0x00000000, 0x666000ef, 0x00000000, 0x00000000,
    0x00000000, 0x648000ef, 0x00000000, 0x00000000, 0x00000000, 0x668000ef, 0x00000000, 0x00000000,
    0x00000000, 0x64a000ef, 0x00000000, 0x00000000, 0x00000000, 0x66a000ef, 0x00000000, 0x00000000,
    0x00000000, 0x64c000ef, 0x00000000, 0x00000000, 0x00000000, 0x66c000ef, 0x00000000, 0x00000000,
    0x00000000, 0x64e000ef, 0x00000000, 0x00000000, 0x00000000, 0x66e000ef, 0x00000000, 0x00000000,
    0x00000000, 0x6c0000ef, 0x00000000, 0x00000000, 0x00000000, 0x6e0000ef, 0x00000000, 0x00000000,
    0x00000000, 0x6c2000ef, 0x00000000, 0x00000000, 0x00000000, 0x6e2000ef, 0x00000000, 0x00000000,
    0x00000000, 0x6c4000ef, 0x00000000, 0x00000000, 0x00000000, 0x6e4000ef, 0x00000000, 0x00000000,
    0x00000000, 0x6c6000ef, 0x00000000, 0x00000000, 0x00000000, 0x6e6000ef, 0x00000000, 0x00000000,
    0x00000000, 0x6c8000ef, 0x00000000, 0x00000000, 0x00000000, 0x6e8000ef, 0x00000000, 0x00000000,
    0x00000000, 0x6ca000ef, 0x00000000, 0x00000000, 0x00000000, 0x6ea000ef, 0x00000000, 0x00000000,
    0x00000000, 0x6cc000ef, 0x00000000, 0x00000000, 0x00000000, 0x6ec000ef, 0x00000000, 0x00000000,
    0x00000000, 0x6ce000ef, 0x00000000, 0x00000000, 0x00000000, 0x6ee000ef, 0x00000000, 0x00000000]"

definition decomp16_076 :: "u32 list" where
  "decomp16_076 = [
    0x00000000, 0x300000ef, 0x00000000, 0x00000000, 0x00000000, 0x320000ef, 0x00000000, 0x00000000,
    0x00000000, 0x302000ef, 0x00000000, 0x00000000, 0x00000000, 0x322000ef, 0x00000000, 0x00000000,
    0x00000000, 0x304000ef, 0x00000000, 0x00000000, 0x00000000, 0x324000ef, 0x00000000, 0x00000000,
    0x00000000, 0x306000ef, 0x00000000, 0x00000000, 0x00000000, 0x326000ef, 0x00000000, 0x00000000,
    0x00000000, 0x308000ef, 0x00000000, 0x00000000, 0x00000000, 0x328000ef, 0x00000000, 0x00000000,
    0x00000000, 0x30a000ef, 0x00000000, 0x00000000, 0x00000000, 0x32a000ef, 0x00000000, 0x00000000,
    0x00000000, 0x30c000ef, 0x00000000, 0x00000000, 0x00000000, 0x32c000ef, 0x00000000, 0x00000000,
    0x00000000, 0x30e000ef, 0x00000000, 0x00000000, 0x00000000, 0x32e000ef, 0x00000000, 0x00000000,
    0x00000000, 0x380000ef, 0x00000000, 0x00000000, 0x00000000, 0x3a0000ef, 0x00000000, 0x00000000,
    0x00000000, 0x382000ef, 0x00000000, 0x00000000, 0x00000000, 0x3a2000ef, 0x00000000, 0x00000000,
    0x00000000, 0x384000ef, 0x00000000, 0x00000000, 0x00000000, 0x3a4000ef, 0x00000000, 0x00000000,
    0x00000000, 0x386000ef, 0x00000000, 0x00000000, 0x00000000, 0x3a6000ef, 0x00000000, 0x00000000,
    0x00000000, 0x388000ef, 0x00000000, 0x00000000, 0x00000000, 0x3a8000ef, 0x00000000, 0x00000000,
    0x00000000, 0x38a000ef, 0x00000000, 0x00000000, 0x00000000, 0x3aa000ef, 0x00000000, 0x00000000,
    0x00000000, 0x38c000ef, 0x00000000, 0x00000000, 0x00000000, 0x3ac000ef, 0x00000000, 0x00000000,
    0x00000000, 0x38e000ef, 0x00000000, 0x00000000, 0x00000000, 0x3ae000ef, 0x00000000, 0x00000000]"

definition decomp16_077 :: "u32 list" where
  "decomp16_077 = [
    0x00000000, 0x340000ef, 0x00000000, 0x00000000, 0x00000000, 0x360000ef, 0x00000000, 0x00000000,
    0x00000000, 0x342000ef, 0x00000000, 0x00000000, 0x00000000, 0x362000ef, 0x00000000, 0x00000000,
    0x00000000, 0x344000ef, 0x00000000, 0x00000000, 0x00000000, 0x364000ef, 0x00000000, 0x00000000,
    0x00000000, 0x346000ef, 0x00000000, 0x00000000, 0x00000000, 0x366000ef, 0x00000000, 0x00000000,
    0x00000000, 0x348000ef, 0x00000000, 0x00000000, 0x00000000, 0x368000ef, 0x00000000, 0x00000000,
    0x00000000, 0x34a000ef, 0x00000000, 0x00000000, 0x00000000, 0x36a000ef, 0x00000000, 0x00000000,
    0x00000000, 0x34c000ef, 0x00000000, 0x00000000, 0x00000000, 0x36c000ef, 0x00000000, 0x00000000,
    0x00000000, 0x34e000ef, 0x00000000, 0x00000000, 0x00000000, 0x36e000ef, 0x00000000, 0x00000000,
    0x00000000, 0x3c0000ef, 0x00000000, 0x00000000, 0x00000000, 0x3e0000ef, 0x00000000, 0x00000000,
    0x00000000, 0x3c2000ef, 0x00000000, 0x00000000, 0x00000000, 0x3e2000ef, 0x00000000, 0x00000000,
    0x00000000, 0x3c4000ef, 0x00000000, 0x00000000, 0x00000000, 0x3e4000ef, 0x00000000, 0x00000000,
    0x00000000, 0x3c6000ef, 0x00000000, 0x00000000, 0x00000000, 0x3e6000ef, 0x00000000, 0x00000000,
    0x00000000, 0x3c8000ef, 0x00000000, 0x00000000, 0x00000000, 0x3e8000ef, 0x00000000, 0x00000000,
    0x00000000, 0x3ca000ef, 0x00000000, 0x00000000, 0x00000000, 0x3ea000ef, 0x00000000, 0x00000000,
    0x00000000, 0x3cc000ef, 0x00000000, 0x00000000, 0x00000000, 0x3ec000ef, 0x00000000, 0x00000000,
    0x00000000, 0x3ce000ef, 0x00000000, 0x00000000, 0x00000000, 0x3ee000ef, 0x00000000, 0x00000000]"

definition decomp16_078 :: "u32 list" where
  "decomp16_078 = [
    0x00000000, 0x700000ef, 0x00000000, 0x00000000, 0x00000000, 0x720000ef, 0x00000000, 0x00000000,
    0x00000000, 0x702000ef, 0x00000000, 0x00000000, 0x00000000, 0x722000ef, 0x00000000, 0x00000000,
    0x00000000, 0x704000ef, 0x00000000, 0x00000000, 0x00000000, 0x724000ef, 0x00000000, 0x00000000,
    0x00000000, 0x706000ef, 0x00000000, 0x00000000, 0x00000000, 0x726000ef, 0x00000000, 0x00000000,
    0x00000000, 0x708000ef, 0x00000000, 0x00000000, 0x00000000, 0x728000ef, 0x00000000, 0x00000000,
    0x00000000, 0x70a000ef, 0x00000000, 0x00000000, 0x00000000, 0x72a000ef, 0x00000000, 0x00000000,
    0x00000000, 0x70c000ef, 0x00000000, 0x00000000, 0x00000000, 0x72c000ef, 0x00000000, 0x00000000,
    0x00000000, 0x70e000ef, 0x00000000, 0x00000000, 0x00000000, 0x72e000ef, 0x00000000, 0x00000000,
    0x00000000, 0x780000ef, 0x00000000, 0x00000000, 0x00000000, 0x7a0000ef, 0x00000000, 0x00000000,
    0x00000000, 0x782000ef, 0x00000000, 0x00000000, 0x00000000, 0x7a2000ef, 0x00000000, 0x00000000,
    0x00000000, 0x784000ef, 0x00000000, 0x00000000, 0x00000000, 0x7a4000ef, 0x00000000, 0x00000000,
    0x00000000, 0x786000ef, 0x00000000, 0x00000000, 0x00000000, 0x7a6000ef, 0x00000000, 0x00000000,
    0x00000000, 0x788000ef, 0x00000000, 0x00000000, 0x00000000, 0x7a8000ef, 0x00000000, 0x00000000,
    0x00000000, 0x78a000ef, 0x00000000, 0x00000000, 0x00000000, 0x7aa000ef, 0x00000000, 0x00000000,
    0x00000000, 0x78c000ef, 0x00000000, 0x00000000, 0x00000000, 0x7ac000ef, 0x00000000, 0x00000000,
    0x00000000, 0x78e000ef, 0x00000000, 0x00000000, 0x00000000, 0x7ae000ef, 0x00000000, 0x00000000]"

definition decomp16_079 :: "u32 list" where
  "decomp16_079 = [
    0x00000000, 0x740000ef, 0x00000000, 0x00000000, 0x00000000, 0x760000ef, 0x00000000, 0x00000000,
    0x00000000, 0x742000ef, 0x00000000, 0x00000000, 0x00000000, 0x762000ef, 0x00000000, 0x00000000,
    0x00000000, 0x744000ef, 0x00000000, 0x00000000, 0x00000000, 0x764000ef, 0x00000000, 0x00000000,
    0x00000000, 0x746000ef, 0x00000000, 0x00000000, 0x00000000, 0x766000ef, 0x00000000, 0x00000000,
    0x00000000, 0x748000ef, 0x00000000, 0x00000000, 0x00000000, 0x768000ef, 0x00000000, 0x00000000,
    0x00000000, 0x74a000ef, 0x00000000, 0x00000000, 0x00000000, 0x76a000ef, 0x00000000, 0x00000000,
    0x00000000, 0x74c000ef, 0x00000000, 0x00000000, 0x00000000, 0x76c000ef, 0x00000000, 0x00000000,
    0x00000000, 0x74e000ef, 0x00000000, 0x00000000, 0x00000000, 0x76e000ef, 0x00000000, 0x00000000,
    0x00000000, 0x7c0000ef, 0x00000000, 0x00000000, 0x00000000, 0x7e0000ef, 0x00000000, 0x00000000,
    0x00000000, 0x7c2000ef, 0x00000000, 0x00000000, 0x00000000, 0x7e2000ef, 0x00000000, 0x00000000,
    0x00000000, 0x7c4000ef, 0x00000000, 0x00000000, 0x00000000, 0x7e4000ef, 0x00000000, 0x00000000,
    0x00000000, 0x7c6000ef, 0x00000000, 0x00000000, 0x00000000, 0x7e6000ef, 0x00000000, 0x00000000,
    0x00000000, 0x7c8000ef, 0x00000000, 0x00000000, 0x00000000, 0x7e8000ef, 0x00000000, 0x00000000,
    0x00000000, 0x7ca000ef, 0x00000000, 0x00000000, 0x00000000, 0x7ea000ef, 0x00000000, 0x00000000,
    0x00000000, 0x7cc000ef, 0x00000000, 0x00000000, 0x00000000, 0x7ec000ef, 0x00000000, 0x00000000,
    0x00000000, 0x7ce000ef, 0x00000000, 0x00000000, 0x00000000, 0x7ee000ef, 0x00000000, 0x00000000]"

definition decomp16_080 :: "u32 list" where
  "decomp16_080 = [
    0x00000000, 0x010000ef, 0x00000000, 0x00000000, 0x00000000, 0x030000ef, 0x00000000, 0x00000000,
    0x00000000, 0x012000ef, 0x00000000, 0x00000000, 0x00000000, 0x032000ef, 0x00000000, 0x00000000,
    0x00000000, 0x014000ef, 0x00000000, 0x00000000, 0x00000000, 0x034000ef, 0x00000000, 0x00000000,
    0x00000000, 0x016000ef, 0x00000000, 0x00000000, 0x00000000, 0x036000ef, 0x00000000, 0x00000000,
    0x00000000, 0x018000ef, 0x00000000, 0x00000000, 0x00000000, 0x038000ef, 0x00000000, 0x00000000,
    0x00000000, 0x01a000ef, 0x00000000, 0x00000000, 0x00000000, 0x03a000ef, 0x00000000, 0x00000000,
    0x00000000, 0x01c000ef, 0x00000000, 0x00000000, 0x00000000, 0x03c000ef, 0x00000000, 0x00000000,
    0x00000000, 0x01e000ef, 0x00000000, 0x00000000, 0x00000000, 0x03e000ef, 0x00000000, 0x00000000,
    0x00000000, 0x090000ef, 0x00000000, 0x00000000, 0x00000000, 0x0b0000ef, 0x00000000, 0x00000000,
    0x00000000, 0x092000ef, 0x00000000, 0x00000000, 0x00000000, 0x0b2000ef, 0x00000000, 0x00000000,
    0x00000000, 0x094000ef, 0x00000000, 0x00000000, 0x00000000, 0x0b4000ef, 0x00000000, 0x00000000,
    0x00000000, 0x096000ef, 0x00000000, 0x00000000, 0x00000000, 0x0b6000ef, 0x00000000, 0x00000000,
    0x00000000, 0x098000ef, 0x00000000, 0x00000000, 0x00000000, 0x0b8000ef, 0x00000000, 0x00000000,
    0x00000000, 0x09a000ef, 0x00000000, 0x00000000, 0x00000000, 0x0ba000ef, 0x00000000, 0x00000000,
    0x00000000, 0x09c000ef, 0x00000000, 0x00000000, 0x00000000, 0x0bc000ef, 0x00000000, 0x00000000,
    0x00000000, 0x09e000ef, 0x00000000, 0x00000000, 0x00000000, 0x0be000ef, 0x00000000, 0x00000000]"

definition decomp16_081 :: "u32 list" where
  "decomp16_081 = [
    0x00000000, 0x050000ef, 0x00000000, 0x00000000, 0x00000000, 0x070000ef, 0x00000000, 0x00000000,
    0x00000000, 0x052000ef, 0x00000000, 0x00000000, 0x00000000, 0x072000ef, 0x00000000, 0x00000000,
    0x00000000, 0x054000ef, 0x00000000, 0x00000000, 0x00000000, 0x074000ef, 0x00000000, 0x00000000,
    0x00000000, 0x056000ef, 0x00000000, 0x00000000, 0x00000000, 0x076000ef, 0x00000000, 0x00000000,
    0x00000000, 0x058000ef, 0x00000000, 0x00000000, 0x00000000, 0x078000ef, 0x00000000, 0x00000000,
    0x00000000, 0x05a000ef, 0x00000000, 0x00000000, 0x00000000, 0x07a000ef, 0x00000000, 0x00000000,
    0x00000000, 0x05c000ef, 0x00000000, 0x00000000, 0x00000000, 0x07c000ef, 0x00000000, 0x00000000,
    0x00000000, 0x05e000ef, 0x00000000, 0x00000000, 0x00000000, 0x07e000ef, 0x00000000, 0x00000000,
    0x00000000, 0x0d0000ef, 0x00000000, 0x00000000, 0x00000000, 0x0f0000ef, 0x00000000, 0x00000000,
    0x00000000, 0x0d2000ef, 0x00000000, 0x00000000, 0x00000000, 0x0f2000ef, 0x00000000, 0x00000000,
    0x00000000, 0x0d4000ef, 0x00000000, 0x00000000, 0x00000000, 0x0f4000ef, 0x00000000, 0x00000000,
    0x00000000, 0x0d6000ef, 0x00000000, 0x00000000, 0x00000000, 0x0f6000ef, 0x00000000, 0x00000000,
    0x00000000, 0x0d8000ef, 0x00000000, 0x00000000, 0x00000000, 0x0f8000ef, 0x00000000, 0x00000000,
    0x00000000, 0x0da000ef, 0x00000000, 0x00000000, 0x00000000, 0x0fa000ef, 0x00000000, 0x00000000,
    0x00000000, 0x0dc000ef, 0x00000000, 0x00000000, 0x00000000, 0x0fc000ef, 0x00000000, 0x00000000,
    0x00000000, 0x0de000ef, 0x00000000, 0x00000000, 0x00000000, 0x0fe000ef, 0x00000000, 0x00000000]"

definition decomp16_082 :: "u32 list" where
  "decomp16_082 = [
    0x00000000, 0x410000ef, 0x00000000, 0x00000000, 0x00000000, 0x430000ef, 0x00000000, 0x00000000,
    0x00000000, 0x412000ef, 0x00000000, 0x00000000, 0x00000000, 0x432000ef, 0x00000000, 0x00000000,
    0x00000000, 0x414000ef, 0x00000000, 0x00000000, 0x00000000, 0x434000ef, 0x00000000, 0x00000000,
    0x00000000, 0x416000ef, 0x00000000, 0x00000000, 0x00000000, 0x436000ef, 0x00000000, 0x00000000,
    0x00000000, 0x418000ef, 0x00000000, 0x00000000, 0x00000000, 0x438000ef, 0x00000000, 0x00000000,
    0x00000000, 0x41a000ef, 0x00000000, 0x00000000, 0x00000000, 0x43a000ef, 0x00000000, 0x00000000,
    0x00000000, 0x41c000ef, 0x00000000, 0x00000000, 0x00000000, 0x43c000ef, 0x00000000, 0x00000000,
    0x00000000, 0x41e000ef, 0x00000000, 0x00000000, 0x00000000, 0x43e000ef, 0x00000000, 0x00000000,
    0x00000000, 0x490000ef, 0x00000000, 0x00000000, 0x00000000, 0x4b0000ef, 0x00000000, 0x00000000,
    0x00000000, 0x492000ef, 0x00000000, 0x00000000, 0x00000000, 0x4b2000ef, 0x00000000, 0x00000000,
    0x00000000, 0x494000ef, 0x00000000, 0x00000000, 0x00000000, 0x4b4000ef, 0x00000000, 0x00000000,
    0x00000000, 0x496000ef, 0x00000000, 0x00000000, 0x00000000, 0x4b6000ef, 0x00000000, 0x00000000,
    0x00000000, 0x498000ef, 0x00000000, 0x00000000, 0x00000000, 0x4b8000ef, 0x00000000, 0x00000000,
    0x00000000, 0x49a000ef, 0x00000000, 0x00000000, 0x00000000, 0x4ba000ef, 0x00000000, 0x00000000,
    0x00000000, 0x49c000ef, 0x00000000, 0x00000000, 0x00000000, 0x4bc000ef, 0x00000000, 0x00000000,
    0x00000000, 0x49e000ef, 0x00000000, 0x00000000, 0x00000000, 0x4be000ef, 0x00000000, 0x00000000]"

definition decomp16_083 :: "u32 list" where
  "decomp16_083 = [
    0x00000000, 0x450000ef, 0x00000000, 0x00000000, 0x00000000, 0x470000ef, 0x00000000, 0x00000000,
    0x00000000, 0x452000ef, 0x00000000, 0x00000000, 0x00000000, 0x472000ef, 0x00000000, 0x00000000,
    0x00000000, 0x454000ef, 0x00000000, 0x00000000, 0x00000000, 0x474000ef, 0x00000000, 0x00000000,
    0x00000000, 0x456000ef, 0x00000000, 0x00000000, 0x00000000, 0x476000ef, 0x00000000, 0x00000000,
    0x00000000, 0x458000ef, 0x00000000, 0x00000000, 0x00000000, 0x478000ef, 0x00000000, 0x00000000,
    0x00000000, 0x45a000ef, 0x00000000, 0x00000000, 0x00000000, 0x47a000ef, 0x00000000, 0x00000000,
    0x00000000, 0x45c000ef, 0x00000000, 0x00000000, 0x00000000, 0x47c000ef, 0x00000000, 0x00000000,
    0x00000000, 0x45e000ef, 0x00000000, 0x00000000, 0x00000000, 0x47e000ef, 0x00000000, 0x00000000,
    0x00000000, 0x4d0000ef, 0x00000000, 0x00000000, 0x00000000, 0x4f0000ef, 0x00000000, 0x00000000,
    0x00000000, 0x4d2000ef, 0x00000000, 0x00000000, 0x00000000, 0x4f2000ef, 0x00000000, 0x00000000,
    0x00000000, 0x4d4000ef, 0x00000000, 0x00000000, 0x00000000, 0x4f4000ef, 0x00000000, 0x00000000,
    0x00000000, 0x4d6000ef, 0x00000000, 0x00000000, 0x00000000, 0x4f6000ef, 0x00000000, 0x00000000,
    0x00000000, 0x4d8000ef, 0x00000000, 0x00000000, 0x00000000, 0x4f8000ef, 0x00000000, 0x00000000,
    0x00000000, 0x4da000ef, 0x00000000, 0x00000000, 0x00000000, 0x4fa000ef, 0x00000000, 0x00000000,
    0x00000000, 0x4dc000ef, 0x00000000, 0x00000000, 0x00000000, 0x4fc000ef, 0x00000000, 0x00000000,
    0x00000000, 0x4de000ef, 0x00000000, 0x00000000, 0x00000000, 0x4fe000ef, 0x00000000, 0x00000000]"

definition decomp16_084 :: "u32 list" where
  "decomp16_084 = [
    0x00000000, 0x110000ef, 0x00000000, 0x00000000, 0x00000000, 0x130000ef, 0x00000000, 0x00000000,
    0x00000000, 0x112000ef, 0x00000000, 0x00000000, 0x00000000, 0x132000ef, 0x00000000, 0x00000000,
    0x00000000, 0x114000ef, 0x00000000, 0x00000000, 0x00000000, 0x134000ef, 0x00000000, 0x00000000,
    0x00000000, 0x116000ef, 0x00000000, 0x00000000, 0x00000000, 0x136000ef, 0x00000000, 0x00000000,
    0x00000000, 0x118000ef, 0x00000000, 0x00000000, 0x00000000, 0x138000ef, 0x00000000, 0x00000000,
    0x00000000, 0x11a000ef, 0x00000000, 0x00000000, 0x00000000, 0x13a000ef, 0x00000000, 0x00000000,
    0x00000000, 0x11c000ef, 0x00000000, 0x00000000, 0x00000000, 0x13c000ef, 0x00000000, 0x00000000,
    0x00000000, 0x11e000ef, 0x00000000, 0x00000000, 0x00000000, 0x13e000ef, 0x00000000, 0x00000000,
    0x00000000, 0x190000ef, 0x00000000, 0x00000000, 0x00000000, 0x1b0000ef, 0x00000000, 0x00000000,
    0x00000000, 0x192000ef, 0x00000000, 0x00000000, 0x00000000, 0x1b2000ef, 0x00000000, 0x00000000,
    0x00000000, 0x194000ef, 0x00000000, 0x00000000, 0x00000000, 0x1b4000ef, 0x00000000, 0x00000000,
    0x00000000, 0x196000ef, 0x00000000, 0x00000000, 0x00000000, 0x1b6000ef, 0x00000000, 0x00000000,
    0x00000000, 0x198000ef, 0x00000000, 0x00000000, 0x00000000, 0x1b8000ef, 0x00000000, 0x00000000,
    0x00000000, 0x19a000ef, 0x00000000, 0x00000000, 0x00000000, 0x1ba000ef, 0x00000000, 0x00000000,
    0x00000000, 0x19c000ef, 0x00000000, 0x00000000, 0x00000000, 0x1bc000ef, 0x00000000, 0x00000000,
    0x00000000, 0x19e000ef, 0x00000000, 0x00000000, 0x00000000, 0x1be000ef, 0x00000000, 0x00000000]"

definition decomp16_085 :: "u32 list" where
  "decomp16_085 = [
    0x00000000, 0x150000ef, 0x00000000, 0x00000000, 0x00000000, 0x170000ef, 0x00000000, 0x00000000,
    0x00000000, 0x152000ef, 0x00000000, 0x00000000, 0x00000000, 0x172000ef, 0x00000000, 0x00000000,
    0x00000000, 0x154000ef, 0x00000000, 0x00000000, 0x00000000, 0x174000ef, 0x00000000, 0x00000000,
    0x00000000, 0x156000ef, 0x00000000, 0x00000000, 0x00000000, 0x176000ef, 0x00000000, 0x00000000,
    0x00000000, 0x158000ef, 0x00000000, 0x00000000, 0x00000000, 0x178000ef, 0x00000000, 0x00000000,
    0x00000000, 0x15a000ef, 0x00000000, 0x00000000, 0x00000000, 0x17a000ef, 0x00000000, 0x00000000,
    0x00000000, 0x15c000ef, 0x00000000, 0x00000000, 0x00000000, 0x17c000ef, 0x00000000, 0x00000000,
    0x00000000, 0x15e000ef, 0x00000000, 0x00000000, 0x00000000, 0x17e000ef, 0x00000000, 0x00000000,
    0x00000000, 0x1d0000ef, 0x00000000, 0x00000000, 0x00000000, 0x1f0000ef, 0x00000000, 0x00000000,
    0x00000000, 0x1d2000ef, 0x00000000, 0x00000000, 0x00000000, 0x1f2000ef, 0x00000000, 0x00000000,
    0x00000000, 0x1d4000ef, 0x00000000, 0x00000000, 0x00000000, 0x1f4000ef, 0x00000000, 0x00000000,
    0x00000000, 0x1d6000ef, 0x00000000, 0x00000000, 0x00000000, 0x1f6000ef, 0x00000000, 0x00000000,
    0x00000000, 0x1d8000ef, 0x00000000, 0x00000000, 0x00000000, 0x1f8000ef, 0x00000000, 0x00000000,
    0x00000000, 0x1da000ef, 0x00000000, 0x00000000, 0x00000000, 0x1fa000ef, 0x00000000, 0x00000000,
    0x00000000, 0x1dc000ef, 0x00000000, 0x00000000, 0x00000000, 0x1fc000ef, 0x00000000, 0x00000000,
    0x00000000, 0x1de000ef, 0x00000000, 0x00000000, 0x00000000, 0x1fe000ef, 0x00000000, 0x00000000]"

definition decomp16_086 :: "u32 list" where
  "decomp16_086 = [
    0x00000000, 0x510000ef, 0x00000000, 0x00000000, 0x00000000, 0x530000ef, 0x00000000, 0x00000000,
    0x00000000, 0x512000ef, 0x00000000, 0x00000000, 0x00000000, 0x532000ef, 0x00000000, 0x00000000,
    0x00000000, 0x514000ef, 0x00000000, 0x00000000, 0x00000000, 0x534000ef, 0x00000000, 0x00000000,
    0x00000000, 0x516000ef, 0x00000000, 0x00000000, 0x00000000, 0x536000ef, 0x00000000, 0x00000000,
    0x00000000, 0x518000ef, 0x00000000, 0x00000000, 0x00000000, 0x538000ef, 0x00000000, 0x00000000,
    0x00000000, 0x51a000ef, 0x00000000, 0x00000000, 0x00000000, 0x53a000ef, 0x00000000, 0x00000000,
    0x00000000, 0x51c000ef, 0x00000000, 0x00000000, 0x00000000, 0x53c000ef, 0x00000000, 0x00000000,
    0x00000000, 0x51e000ef, 0x00000000, 0x00000000, 0x00000000, 0x53e000ef, 0x00000000, 0x00000000,
    0x00000000, 0x590000ef, 0x00000000, 0x00000000, 0x00000000, 0x5b0000ef, 0x00000000, 0x00000000,
    0x00000000, 0x592000ef, 0x00000000, 0x00000000, 0x00000000, 0x5b2000ef, 0x00000000, 0x00000000,
    0x00000000, 0x594000ef, 0x00000000, 0x00000000, 0x00000000, 0x5b4000ef, 0x00000000, 0x00000000,
    0x00000000, 0x596000ef, 0x00000000, 0x00000000, 0x00000000, 0x5b6000ef, 0x00000000, 0x00000000,
    0x00000000, 0x598000ef, 0x00000000, 0x00000000, 0x00000000, 0x5b8000ef, 0x00000000, 0x00000000,
    0x00000000, 0x59a000ef, 0x00000000, 0x00000000, 0x00000000, 0x5ba000ef, 0x00000000, 0x00000000,
    0x00000000, 0x59c000ef, 0x00000000, 0x00000000, 0x00000000, 0x5bc000ef, 0x00000000, 0x00000000,
    0x00000000, 0x59e000ef, 0x00000000, 0x00000000, 0x00000000, 0x5be000ef, 0x00000000, 0x00000000]"

definition decomp16_087 :: "u32 list" where
  "decomp16_087 = [
    0x00000000, 0x550000ef, 0x00000000, 0x00000000, 0x00000000, 0x570000ef, 0x00000000, 0x00000000,
    0x00000000, 0x552000ef, 0x00000000, 0x00000000, 0x00000000, 0x572000ef, 0x00000000, 0x00000000,
    0x00000000, 0x554000ef, 0x00000000, 0x00000000, 0x00000000, 0x574000ef, 0x00000000, 0x00000000,
    0x00000000, 0x556000ef, 0x00000000, 0x00000000, 0x00000000, 0x576000ef, 0x00000000, 0x00000000,
    0x00000000, 0x558000ef, 0x00000000, 0x00000000, 0x00000000, 0x578000ef, 0x00000000, 0x00000000,
    0x00000000, 0x55a000ef, 0x00000000, 0x00000000, 0x00000000, 0x57a000ef, 0x00000000, 0x00000000,
    0x00000000, 0x55c000ef, 0x00000000, 0x00000000, 0x00000000, 0x57c000ef, 0x00000000, 0x00000000,
    0x00000000, 0x55e000ef, 0x00000000, 0x00000000, 0x00000000, 0x57e000ef, 0x00000000, 0x00000000,
    0x00000000, 0x5d0000ef, 0x00000000, 0x00000000, 0x00000000, 0x5f0000ef, 0x00000000, 0x00000000,
    0x00000000, 0x5d2000ef, 0x00000000, 0x00000000, 0x00000000, 0x5f2000ef, 0x00000000, 0x00000000,
    0x00000000, 0x5d4000ef, 0x00000000, 0x00000000, 0x00000000, 0x5f4000ef, 0x00000000, 0x00000000,
    0x00000000, 0x5d6000ef, 0x00000000, 0x00000000, 0x00000000, 0x5f6000ef, 0x00000000, 0x00000000,
    0x00000000, 0x5d8000ef, 0x00000000, 0x00000000, 0x00000000, 0x5f8000ef, 0x00000000, 0x00000000,
    0x00000000, 0x5da000ef, 0x00000000, 0x00000000, 0x00000000, 0x5fa000ef, 0x00000000, 0x00000000,
    0x00000000, 0x5dc000ef, 0x00000000, 0x00000000, 0x00000000, 0x5fc000ef, 0x00000000, 0x00000000,
    0x00000000, 0x5de000ef, 0x00000000, 0x00000000, 0x00000000, 0x5fe000ef, 0x00000000, 0x00000000]"

definition decomp16_088 :: "u32 list" where
  "decomp16_088 = [
    0x00000000, 0x210000ef, 0x00000000, 0x00000000, 0x00000000, 0x230000ef, 0x00000000, 0x00000000,
    0x00000000, 0x212000ef, 0x00000000, 0x00000000, 0x00000000, 0x232000ef, 0x00000000, 0x00000000,
    0x00000000, 0x214000ef, 0x00000000, 0x00000000, 0x00000000, 0x234000ef, 0x00000000, 0x00000000,
    0x00000000, 0x216000ef, 0x00000000, 0x00000000, 0x00000000, 0x236000ef, 0x00000000, 0x00000000,
    0x00000000, 0x218000ef, 0x00000000, 0x00000000, 0x00000000, 0x238000ef, 0x00000000, 0x00000000,
    0x00000000, 0x21a000ef, 0x00000000, 0x00000000, 0x00000000, 0x23a000ef, 0x00000000, 0x00000000,
    0x00000000, 0x21c000ef, 0x00000000, 0x00000000, 0x00000000, 0x23c000ef, 0x00000000, 0x00000000,
    0x00000000, 0x21e000ef, 0x00000000, 0x00000000, 0x00000000, 0x23e000ef, 0x00000000, 0x00000000,
    0x00000000, 0x290000ef, 0x00000000, 0x00000000, 0x00000000, 0x2b0000ef, 0x00000000, 0x00000000,
    0x00000000, 0x292000ef, 0x00000000, 0x00000000, 0x00000000, 0x2b2000ef, 0x00000000, 0x00000000,
    0x00000000, 0x294000ef, 0x00000000, 0x00000000, 0x00000000, 0x2b4000ef, 0x00000000, 0x00000000,
    0x00000000, 0x296000ef, 0x00000000, 0x00000000, 0x00000000, 0x2b6000ef, 0x00000000, 0x00000000,
    0x00000000, 0x298000ef, 0x00000000, 0x00000000, 0x00000000, 0x2b8000ef, 0x00000000, 0x00000000,
    0x00000000, 0x29a000ef, 0x00000000, 0x00000000, 0x00000000, 0x2ba000ef, 0x00000000, 0x00000000,
    0x00000000, 0x29c000ef, 0x00000000, 0x00000000, 0x00000000, 0x2bc000ef, 0x00000000, 0x00000000,
    0x00000000, 0x29e000ef, 0x00000000, 0x00000000, 0x00000000, 0x2be000ef, 0x00000000, 0x00000000]"

definition decomp16_089 :: "u32 list" where
  "decomp16_089 = [
    0x00000000, 0x250000ef, 0x00000000, 0x00000000, 0x00000000, 0x270000ef, 0x00000000, 0x00000000,
    0x00000000, 0x252000ef, 0x00000000, 0x00000000, 0x00000000, 0x272000ef, 0x00000000, 0x00000000,
    0x00000000, 0x254000ef, 0x00000000, 0x00000000, 0x00000000, 0x274000ef, 0x00000000, 0x00000000,
    0x00000000, 0x256000ef, 0x00000000, 0x00000000, 0x00000000, 0x276000ef, 0x00000000, 0x00000000,
    0x00000000, 0x258000ef, 0x00000000, 0x00000000, 0x00000000, 0x278000ef, 0x00000000, 0x00000000,
    0x00000000, 0x25a000ef, 0x00000000, 0x00000000, 0x00000000, 0x27a000ef, 0x00000000, 0x00000000,
    0x00000000, 0x25c000ef, 0x00000000, 0x00000000, 0x00000000, 0x27c000ef, 0x00000000, 0x00000000,
    0x00000000, 0x25e000ef, 0x00000000, 0x00000000, 0x00000000, 0x27e000ef, 0x00000000, 0x00000000,
    0x00000000, 0x2d0000ef, 0x00000000, 0x00000000, 0x00000000, 0x2f0000ef, 0x00000000, 0x00000000,
    0x00000000, 0x2d2000ef, 0x00000000, 0x00000000, 0x00000000, 0x2f2000ef, 0x00000000, 0x00000000,
    0x00000000, 0x2d4000ef, 0x00000000, 0x00000000, 0x00000000, 0x2f4000ef, 0x00000000, 0x00000000,
    0x00000000, 0x2d6000ef, 0x00000000, 0x00000000, 0x00000000, 0x2f6000ef, 0x00000000, 0x00000000,
    0x00000000, 0x2d8000ef, 0x00000000, 0x00000000, 0x00000000, 0x2f8000ef, 0x00000000, 0x00000000,
    0x00000000, 0x2da000ef, 0x00000000, 0x00000000, 0x00000000, 0x2fa000ef, 0x00000000, 0x00000000,
    0x00000000, 0x2dc000ef, 0x00000000, 0x00000000, 0x00000000, 0x2fc000ef, 0x00000000, 0x00000000,
    0x00000000, 0x2de000ef, 0x00000000, 0x00000000, 0x00000000, 0x2fe000ef, 0x00000000, 0x00000000]"

definition decomp16_090 :: "u32 list" where
  "decomp16_090 = [
    0x00000000, 0x610000ef, 0x00000000, 0x00000000, 0x00000000, 0x630000ef, 0x00000000, 0x00000000,
    0x00000000, 0x612000ef, 0x00000000, 0x00000000, 0x00000000, 0x632000ef, 0x00000000, 0x00000000,
    0x00000000, 0x614000ef, 0x00000000, 0x00000000, 0x00000000, 0x634000ef, 0x00000000, 0x00000000,
    0x00000000, 0x616000ef, 0x00000000, 0x00000000, 0x00000000, 0x636000ef, 0x00000000, 0x00000000,
    0x00000000, 0x618000ef, 0x00000000, 0x00000000, 0x00000000, 0x638000ef, 0x00000000, 0x00000000,
    0x00000000, 0x61a000ef, 0x00000000, 0x00000000, 0x00000000, 0x63a000ef, 0x00000000, 0x00000000,
    0x00000000, 0x61c000ef, 0x00000000, 0x00000000, 0x00000000, 0x63c000ef, 0x00000000, 0x00000000,
    0x00000000, 0x61e000ef, 0x00000000, 0x00000000, 0x00000000, 0x63e000ef, 0x00000000, 0x00000000,
    0x00000000, 0x690000ef, 0x00000000, 0x00000000, 0x00000000, 0x6b0000ef, 0x00000000, 0x00000000,
    0x00000000, 0x692000ef, 0x00000000, 0x00000000, 0x00000000, 0x6b2000ef, 0x00000000, 0x00000000,
    0x00000000, 0x694000ef, 0x00000000, 0x00000000, 0x00000000, 0x6b4000ef, 0x00000000, 0x00000000,
    0x00000000, 0x696000ef, 0x00000000, 0x00000000, 0x00000000, 0x6b6000ef, 0x00000000, 0x00000000,
    0x00000000, 0x698000ef, 0x00000000, 0x00000000, 0x00000000, 0x6b8000ef, 0x00000000, 0x00000000,
    0x00000000, 0x69a000ef, 0x00000000, 0x00000000, 0x00000000, 0x6ba000ef, 0x00000000, 0x00000000,
    0x00000000, 0x69c000ef, 0x00000000, 0x00000000, 0x00000000, 0x6bc000ef, 0x00000000, 0x00000000,
    0x00000000, 0x69e000ef, 0x00000000, 0x00000000, 0x00000000, 0x6be000ef, 0x00000000, 0x00000000]"

definition decomp16_091 :: "u32 list" where
  "decomp16_091 = [
    0x00000000, 0x650000ef, 0x00000000, 0x00000000, 0x00000000, 0x670000ef, 0x00000000, 0x00000000,
    0x00000000, 0x652000ef, 0x00000000, 0x00000000, 0x00000000, 0x672000ef, 0x00000000, 0x00000000,
    0x00000000, 0x654000ef, 0x00000000, 0x00000000, 0x00000000, 0x674000ef, 0x00000000, 0x00000000,
    0x00000000, 0x656000ef, 0x00000000, 0x00000000, 0x00000000, 0x676000ef, 0x00000000, 0x00000000,
    0x00000000, 0x658000ef, 0x00000000, 0x00000000, 0x00000000, 0x678000ef, 0x00000000, 0x00000000,
    0x00000000, 0x65a000ef, 0x00000000, 0x00000000, 0x00000000, 0x67a000ef, 0x00000000, 0x00000000,
    0x00000000, 0x65c000ef, 0x00000000, 0x00000000, 0x00000000, 0x67c000ef, 0x00000000, 0x00000000,
    0x00000000, 0x65e000ef, 0x00000000, 0x00000000, 0x00000000, 0x67e000ef, 0x00000000, 0x00000000,
    0x00000000, 0x6d0000ef, 0x00000000, 0x00000000, 0x00000000, 0x6f0000ef, 0x00000000, 0x00000000,
    0x00000000, 0x6d2000ef, 0x00000000, 0x00000000, 0x00000000, 0x6f2000ef, 0x00000000, 0x00000000,
    0x00000000, 0x6d4000ef, 0x00000000, 0x00000000, 0x00000000, 0x6f4000ef, 0x00000000, 0x00000000,
    0x00000000, 0x6d6000ef, 0x00000000, 0x00000000, 0x00000000, 0x6f6000ef, 0x00000000, 0x00000000,
    0x00000000, 0x6d8000ef, 0x00000000, 0x00000000, 0x00000000, 0x6f8000ef, 0x00000000, 0x00000000,
    0x00000000, 0x6da000ef, 0x00000000, 0x00000000, 0x00000000, 0x6fa000ef, 0x00000000, 0x00000000,
    0x00000000, 0x6dc000ef, 0x00000000, 0x00000000, 0x00000000, 0x6fc000ef, 0x00000000, 0x00000000,
    0x00000000, 0x6de000ef, 0x00000000, 0x00000000, 0x00000000, 0x6fe000ef, 0x00000000, 0x00000000]"

definition decomp16_092 :: "u32 list" where
  "decomp16_092 = [
    0x00000000, 0x310000ef, 0x00000000, 0x00000000, 0x00000000, 0x330000ef, 0x00000000, 0x00000000,
    0x00000000, 0x312000ef, 0x00000000, 0x00000000, 0x00000000, 0x332000ef, 0x00000000, 0x00000000,
    0x00000000, 0x314000ef, 0x00000000, 0x00000000, 0x00000000, 0x334000ef, 0x00000000, 0x00000000,
    0x00000000, 0x316000ef, 0x00000000, 0x00000000, 0x00000000, 0x336000ef, 0x00000000, 0x00000000,
    0x00000000, 0x318000ef, 0x00000000, 0x00000000, 0x00000000, 0x338000ef, 0x00000000, 0x00000000,
    0x00000000, 0x31a000ef, 0x00000000, 0x00000000, 0x00000000, 0x33a000ef, 0x00000000, 0x00000000,
    0x00000000, 0x31c000ef, 0x00000000, 0x00000000, 0x00000000, 0x33c000ef, 0x00000000, 0x00000000,
    0x00000000, 0x31e000ef, 0x00000000, 0x00000000, 0x00000000, 0x33e000ef, 0x00000000, 0x00000000,
    0x00000000, 0x390000ef, 0x00000000, 0x00000000, 0x00000000, 0x3b0000ef, 0x00000000, 0x00000000,
    0x00000000, 0x392000ef, 0x00000000, 0x00000000, 0x00000000, 0x3b2000ef, 0x00000000, 0x00000000,
    0x00000000, 0x394000ef, 0x00000000, 0x00000000, 0x00000000, 0x3b4000ef, 0x00000000, 0x00000000,
    0x00000000, 0x396000ef, 0x00000000, 0x00000000, 0x00000000, 0x3b6000ef, 0x00000000, 0x00000000,
    0x00000000, 0x398000ef, 0x00000000, 0x00000000, 0x00000000, 0x3b8000ef, 0x00000000, 0x00000000,
    0x00000000, 0x39a000ef, 0x00000000, 0x00000000, 0x00000000, 0x3ba000ef, 0x00000000, 0x00000000,
    0x00000000, 0x39c000ef, 0x00000000, 0x00000000, 0x00000000, 0x3bc000ef, 0x00000000, 0x00000000,
    0x00000000, 0x39e000ef, 0x00000000, 0x00000000, 0x00000000, 0x3be000ef, 0x00000000, 0x00000000]"

definition decomp16_093 :: "u32 list" where
  "decomp16_093 = [
    0x00000000, 0x350000ef, 0x00000000, 0x00000000, 0x00000000, 0x370000ef, 0x00000000, 0x00000000,
    0x00000000, 0x352000ef, 0x00000000, 0x00000000, 0x00000000, 0x372000ef, 0x00000000, 0x00000000,
    0x00000000, 0x354000ef, 0x00000000, 0x00000000, 0x00000000, 0x374000ef, 0x00000000, 0x00000000,
    0x00000000, 0x356000ef, 0x00000000, 0x00000000, 0x00000000, 0x376000ef, 0x00000000, 0x00000000,
    0x00000000, 0x358000ef, 0x00000000, 0x00000000, 0x00000000, 0x378000ef, 0x00000000, 0x00000000,
    0x00000000, 0x35a000ef, 0x00000000, 0x00000000, 0x00000000, 0x37a000ef, 0x00000000, 0x00000000,
    0x00000000, 0x35c000ef, 0x00000000, 0x00000000, 0x00000000, 0x37c000ef, 0x00000000, 0x00000000,
    0x00000000, 0x35e000ef, 0x00000000, 0x00000000, 0x00000000, 0x37e000ef, 0x00000000, 0x00000000,
    0x00000000, 0x3d0000ef, 0x00000000, 0x00000000, 0x00000000, 0x3f0000ef, 0x00000000, 0x00000000,
    0x00000000, 0x3d2000ef, 0x00000000, 0x00000000, 0x00000000, 0x3f2000ef, 0x00000000, 0x00000000,
    0x00000000, 0x3d4000ef, 0x00000000, 0x00000000, 0x00000000, 0x3f4000ef, 0x00000000, 0x00000000,
    0x00000000, 0x3d6000ef, 0x00000000, 0x00000000, 0x00000000, 0x3f6000ef, 0x00000000, 0x00000000,
    0x00000000, 0x3d8000ef, 0x00000000, 0x00000000, 0x00000000, 0x3f8000ef, 0x00000000, 0x00000000,
    0x00000000, 0x3da000ef, 0x00000000, 0x00000000, 0x00000000, 0x3fa000ef, 0x00000000, 0x00000000,
    0x00000000, 0x3dc000ef, 0x00000000, 0x00000000, 0x00000000, 0x3fc000ef, 0x00000000, 0x00000000,
    0x00000000, 0x3de000ef, 0x00000000, 0x00000000, 0x00000000, 0x3fe000ef, 0x00000000, 0x00000000]"

definition decomp16_094 :: "u32 list" where
  "decomp16_094 = [
    0x00000000, 0x710000ef, 0x00000000, 0x00000000, 0x00000000, 0x730000ef, 0x00000000, 0x00000000,
    0x00000000, 0x712000ef, 0x00000000, 0x00000000, 0x00000000, 0x732000ef, 0x00000000, 0x00000000,
    0x00000000, 0x714000ef, 0x00000000, 0x00000000, 0x00000000, 0x734000ef, 0x00000000, 0x00000000,
    0x00000000, 0x716000ef, 0x00000000, 0x00000000, 0x00000000, 0x736000ef, 0x00000000, 0x00000000,
    0x00000000, 0x718000ef, 0x00000000, 0x00000000, 0x00000000, 0x738000ef, 0x00000000, 0x00000000,
    0x00000000, 0x71a000ef, 0x00000000, 0x00000000, 0x00000000, 0x73a000ef, 0x00000000, 0x00000000,
    0x00000000, 0x71c000ef, 0x00000000, 0x00000000, 0x00000000, 0x73c000ef, 0x00000000, 0x00000000,
    0x00000000, 0x71e000ef, 0x00000000, 0x00000000, 0x00000000, 0x73e000ef, 0x00000000, 0x00000000,
    0x00000000, 0x790000ef, 0x00000000, 0x00000000, 0x00000000, 0x7b0000ef, 0x00000000, 0x00000000,
    0x00000000, 0x792000ef, 0x00000000, 0x00000000, 0x00000000, 0x7b2000ef, 0x00000000, 0x00000000,
    0x00000000, 0x794000ef, 0x00000000, 0x00000000, 0x00000000, 0x7b4000ef, 0x00000000, 0x00000000,
    0x00000000, 0x796000ef, 0x00000000, 0x00000000, 0x00000000, 0x7b6000ef, 0x00000000, 0x00000000,
    0x00000000, 0x798000ef, 0x00000000, 0x00000000, 0x00000000, 0x7b8000ef, 0x00000000, 0x00000000,
    0x00000000, 0x79a000ef, 0x00000000, 0x00000000, 0x00000000, 0x7ba000ef, 0x00000000, 0x00000000,
    0x00000000, 0x79c000ef, 0x00000000, 0x00000000, 0x00000000, 0x7bc000ef, 0x00000000, 0x00000000,
    0x00000000, 0x79e000ef, 0x00000000, 0x00000000, 0x00000000, 0x7be000ef, 0x00000000, 0x00000000]"

definition decomp16_095 :: "u32 list" where
  "decomp16_095 = [
    0x00000000, 0x750000ef, 0x00000000, 0x00000000, 0x00000000, 0x770000ef, 0x00000000, 0x00000000,
    0x00000000, 0x752000ef, 0x00000000, 0x00000000, 0x00000000, 0x772000ef, 0x00000000, 0x00000000,
    0x00000000, 0x754000ef, 0x00000000, 0x00000000, 0x00000000, 0x774000ef, 0x00000000, 0x00000000,
    0x00000000, 0x756000ef, 0x00000000, 0x00000000, 0x00000000, 0x776000ef, 0x00000000, 0x00000000,
    0x00000000, 0x758000ef, 0x00000000, 0x00000000, 0x00000000, 0x778000ef, 0x00000000, 0x00000000,
    0x00000000, 0x75a000ef, 0x00000000, 0x00000000, 0x00000000, 0x77a000ef, 0x00000000, 0x00000000,
    0x00000000, 0x75c000ef, 0x00000000, 0x00000000, 0x00000000, 0x77c000ef, 0x00000000, 0x00000000,
    0x00000000, 0x75e000ef, 0x00000000, 0x00000000, 0x00000000, 0x77e000ef, 0x00000000, 0x00000000,
    0x00000000, 0x7d0000ef, 0x00000000, 0x00000000, 0x00000000, 0x7f0000ef, 0x00000000, 0x00000000,
    0x00000000, 0x7d2000ef, 0x00000000, 0x00000000, 0x00000000, 0x7f2000ef, 0x00000000, 0x00000000,
    0x00000000, 0x7d4000ef, 0x00000000, 0x00000000, 0x00000000, 0x7f4000ef, 0x00000000, 0x00000000,
    0x00000000, 0x7d6000ef, 0x00000000, 0x00000000, 0x00000000, 0x7f6000ef, 0x00000000, 0x00000000,
    0x00000000, 0x7d8000ef, 0x00000000, 0x00000000, 0x00000000, 0x7f8000ef, 0x00000000, 0x00000000,
    0x00000000, 0x7da000ef, 0x00000000, 0x00000000, 0x00000000, 0x7fa000ef, 0x00000000, 0x00000000,
    0x00000000, 0x7dc000ef, 0x00000000, 0x00000000, 0x00000000, 0x7fc000ef, 0x00000000, 0x00000000,
    0x00000000, 0x7de000ef, 0x00000000, 0x00000000, 0x00000000, 0x7fe000ef, 0x00000000, 0x00000000]"

definition decomp16_096 :: "u32 list" where
  "decomp16_096 = [
    0x00000000, 0x801ff0ef, 0x00000000, 0x00000000, 0x00000000, 0x821ff0ef, 0x00000000, 0x00000000,
    0x00000000, 0x803ff0ef, 0x00000000, 0x00000000, 0x00000000, 0x823ff0ef, 0x00000000, 0x00000000,
    0x00000000, 0x805ff0ef, 0x00000000, 0x00000000, 0x00000000, 0x825ff0ef, 0x00000000, 0x00000000,
    0x00000000, 0x807ff0ef, 0x00000000, 0x00000000, 0x00000000, 0x827ff0ef, 0x00000000, 0x00000000,
    0x00000000, 0x809ff0ef, 0x00000000, 0x00000000, 0x00000000, 0x829ff0ef, 0x00000000, 0x00000000,
    0x00000000, 0x80bff0ef, 0x00000000, 0x00000000, 0x00000000, 0x82bff0ef, 0x00000000, 0x00000000,
    0x00000000, 0x80dff0ef, 0x00000000, 0x00000000, 0x00000000, 0x82dff0ef, 0x00000000, 0x00000000,
    0x00000000, 0x80fff0ef, 0x00000000, 0x00000000, 0x00000000, 0x82fff0ef, 0x00000000, 0x00000000,
    0x00000000, 0x881ff0ef, 0x00000000, 0x00000000, 0x00000000, 0x8a1ff0ef, 0x00000000, 0x00000000,
    0x00000000, 0x883ff0ef, 0x00000000, 0x00000000, 0x00000000, 0x8a3ff0ef, 0x00000000, 0x00000000,
    0x00000000, 0x885ff0ef, 0x00000000, 0x00000000, 0x00000000, 0x8a5ff0ef, 0x00000000, 0x00000000,
    0x00000000, 0x887ff0ef, 0x00000000, 0x00000000, 0x00000000, 0x8a7ff0ef, 0x00000000, 0x00000000,
    0x00000000, 0x889ff0ef, 0x00000000, 0x00000000, 0x00000000, 0x8a9ff0ef, 0x00000000, 0x00000000,
    0x00000000, 0x88bff0ef, 0x00000000, 0x00000000, 0x00000000, 0x8abff0ef, 0x00000000, 0x00000000,
    0x00000000, 0x88dff0ef, 0x00000000, 0x00000000, 0x00000000, 0x8adff0ef, 0x00000000, 0x00000000,
    0x00000000, 0x88fff0ef, 0x00000000, 0x00000000, 0x00000000, 0x8afff0ef, 0x00000000, 0x00000000]"

definition decomp16_097 :: "u32 list" where
  "decomp16_097 = [
    0x00000000, 0x841ff0ef, 0x00000000, 0x00000000, 0x00000000, 0x861ff0ef, 0x00000000, 0x00000000,
    0x00000000, 0x843ff0ef, 0x00000000, 0x00000000, 0x00000000, 0x863ff0ef, 0x00000000, 0x00000000,
    0x00000000, 0x845ff0ef, 0x00000000, 0x00000000, 0x00000000, 0x865ff0ef, 0x00000000, 0x00000000,
    0x00000000, 0x847ff0ef, 0x00000000, 0x00000000, 0x00000000, 0x867ff0ef, 0x00000000, 0x00000000,
    0x00000000, 0x849ff0ef, 0x00000000, 0x00000000, 0x00000000, 0x869ff0ef, 0x00000000, 0x00000000,
    0x00000000, 0x84bff0ef, 0x00000000, 0x00000000, 0x00000000, 0x86bff0ef, 0x00000000, 0x00000000,
    0x00000000, 0x84dff0ef, 0x00000000, 0x00000000, 0x00000000, 0x86dff0ef, 0x00000000, 0x00000000,
    0x00000000, 0x84fff0ef, 0x00000000, 0x00000000, 0x00000000, 0x86fff0ef, 0x00000000, 0x00000000,
    0x00000000, 0x8c1ff0ef, 0x00000000, 0x00000000, 0x00000000, 0x8e1ff0ef, 0x00000000, 0x00000000,
    0x00000000, 0x8c3ff0ef, 0x00000000, 0x00000000, 0x00000000, 0x8e3ff0ef, 0x00000000, 0x00000000,
    0x00000000, 0x8c5ff0ef, 0x00000000, 0x00000000, 0x00000000, 0x8e5ff0ef, 0x00000000, 0x00000000,
    0x00000000, 0x8c7ff0ef, 0x00000000, 0x00000000, 0x00000000, 0x8e7ff0ef, 0x00000000, 0x00000000,
    0x00000000, 0x8c9ff0ef, 0x00000000, 0x00000000, 0x00000000, 0x8e9ff0ef, 0x00000000, 0x00000000,
    0x00000000, 0x8cbff0ef, 0x00000000, 0x00000000, 0x00000000, 0x8ebff0ef, 0x00000000, 0x00000000,
    0x00000000, 0x8cdff0ef, 0x00000000, 0x00000000, 0x00000000, 0x8edff0ef, 0x00000000, 0x00000000,
    0x00000000, 0x8cfff0ef, 0x00000000, 0x00000000, 0x00000000, 0x8efff0ef, 0x00000000, 0x00000000]"

definition decomp16_098 :: "u32 list" where
  "decomp16_098 = [
    0x00000000, 0xc01ff0ef, 0x00000000, 0x00000000, 0x00000000, 0xc21ff0ef, 0x00000000, 0x00000000,
    0x00000000, 0xc03ff0ef, 0x00000000, 0x00000000, 0x00000000, 0xc23ff0ef, 0x00000000, 0x00000000,
    0x00000000, 0xc05ff0ef, 0x00000000, 0x00000000, 0x00000000, 0xc25ff0ef, 0x00000000, 0x00000000,
    0x00000000, 0xc07ff0ef, 0x00000000, 0x00000000, 0x00000000, 0xc27ff0ef, 0x00000000, 0x00000000,
    0x00000000, 0xc09ff0ef, 0x00000000, 0x00000000, 0x00000000, 0xc29ff0ef, 0x00000000, 0x00000000,
    0x00000000, 0xc0bff0ef, 0x00000000, 0x00000000, 0x00000000, 0xc2bff0ef, 0x00000000, 0x00000000,
    0x00000000, 0xc0dff0ef, 0x00000000, 0x00000000, 0x00000000, 0xc2dff0ef, 0x00000000, 0x00000000,
    0x00000000, 0xc0fff0ef, 0x00000000, 0x00000000, 0x00000000, 0xc2fff0ef, 0x00000000, 0x00000000,
    0x00000000, 0xc81ff0ef, 0x00000000, 0x00000000, 0x00000000, 0xca1ff0ef, 0x00000000, 0x00000000,
    0x00000000, 0xc83ff0ef, 0x00000000, 0x00000000, 0x00000000, 0xca3ff0ef, 0x00000000, 0x00000000,
    0x00000000, 0xc85ff0ef, 0x00000000, 0x00000000, 0x00000000, 0xca5ff0ef, 0x00000000, 0x00000000,
    0x00000000, 0xc87ff0ef, 0x00000000, 0x00000000, 0x00000000, 0xca7ff0ef, 0x00000000, 0x00000000,
    0x00000000, 0xc89ff0ef, 0x00000000, 0x00000000, 0x00000000, 0xca9ff0ef, 0x00000000, 0x00000000,
    0x00000000, 0xc8bff0ef, 0x00000000, 0x00000000, 0x00000000, 0xcabff0ef, 0x00000000, 0x00000000,
    0x00000000, 0xc8dff0ef, 0x00000000, 0x00000000, 0x00000000, 0xcadff0ef, 0x00000000, 0x00000000,
    0x00000000, 0xc8fff0ef, 0x00000000, 0x00000000, 0x00000000, 0xcafff0ef, 0x00000000, 0x00000000]"

definition decomp16_099 :: "u32 list" where
  "decomp16_099 = [
    0x00000000, 0xc41ff0ef, 0x00000000, 0x00000000, 0x00000000, 0xc61ff0ef, 0x00000000, 0x00000000,
    0x00000000, 0xc43ff0ef, 0x00000000, 0x00000000, 0x00000000, 0xc63ff0ef, 0x00000000, 0x00000000,
    0x00000000, 0xc45ff0ef, 0x00000000, 0x00000000, 0x00000000, 0xc65ff0ef, 0x00000000, 0x00000000,
    0x00000000, 0xc47ff0ef, 0x00000000, 0x00000000, 0x00000000, 0xc67ff0ef, 0x00000000, 0x00000000,
    0x00000000, 0xc49ff0ef, 0x00000000, 0x00000000, 0x00000000, 0xc69ff0ef, 0x00000000, 0x00000000,
    0x00000000, 0xc4bff0ef, 0x00000000, 0x00000000, 0x00000000, 0xc6bff0ef, 0x00000000, 0x00000000,
    0x00000000, 0xc4dff0ef, 0x00000000, 0x00000000, 0x00000000, 0xc6dff0ef, 0x00000000, 0x00000000,
    0x00000000, 0xc4fff0ef, 0x00000000, 0x00000000, 0x00000000, 0xc6fff0ef, 0x00000000, 0x00000000,
    0x00000000, 0xcc1ff0ef, 0x00000000, 0x00000000, 0x00000000, 0xce1ff0ef, 0x00000000, 0x00000000,
    0x00000000, 0xcc3ff0ef, 0x00000000, 0x00000000, 0x00000000, 0xce3ff0ef, 0x00000000, 0x00000000,
    0x00000000, 0xcc5ff0ef, 0x00000000, 0x00000000, 0x00000000, 0xce5ff0ef, 0x00000000, 0x00000000,
    0x00000000, 0xcc7ff0ef, 0x00000000, 0x00000000, 0x00000000, 0xce7ff0ef, 0x00000000, 0x00000000,
    0x00000000, 0xcc9ff0ef, 0x00000000, 0x00000000, 0x00000000, 0xce9ff0ef, 0x00000000, 0x00000000,
    0x00000000, 0xccbff0ef, 0x00000000, 0x00000000, 0x00000000, 0xcebff0ef, 0x00000000, 0x00000000,
    0x00000000, 0xccdff0ef, 0x00000000, 0x00000000, 0x00000000, 0xcedff0ef, 0x00000000, 0x00000000,
    0x00000000, 0xccfff0ef, 0x00000000, 0x00000000, 0x00000000, 0xcefff0ef, 0x00000000, 0x00000000]"

definition decomp16_100 :: "u32 list" where
  "decomp16_100 = [
    0x00000000, 0x901ff0ef, 0x00000000, 0x00000000, 0x00000000, 0x921ff0ef, 0x00000000, 0x00000000,
    0x00000000, 0x903ff0ef, 0x00000000, 0x00000000, 0x00000000, 0x923ff0ef, 0x00000000, 0x00000000,
    0x00000000, 0x905ff0ef, 0x00000000, 0x00000000, 0x00000000, 0x925ff0ef, 0x00000000, 0x00000000,
    0x00000000, 0x907ff0ef, 0x00000000, 0x00000000, 0x00000000, 0x927ff0ef, 0x00000000, 0x00000000,
    0x00000000, 0x909ff0ef, 0x00000000, 0x00000000, 0x00000000, 0x929ff0ef, 0x00000000, 0x00000000,
    0x00000000, 0x90bff0ef, 0x00000000, 0x00000000, 0x00000000, 0x92bff0ef, 0x00000000, 0x00000000,
    0x00000000, 0x90dff0ef, 0x00000000, 0x00000000, 0x00000000, 0x92dff0ef, 0x00000000, 0x00000000,
    0x00000000, 0x90fff0ef, 0x00000000, 0x00000000, 0x00000000, 0x92fff0ef, 0x00000000, 0x00000000,
    0x00000000, 0x981ff0ef, 0x00000000, 0x00000000, 0x00000000, 0x9a1ff0ef, 0x00000000, 0x00000000,
    0x00000000, 0x983ff0ef, 0x00000000, 0x00000000, 0x00000000, 0x9a3ff0ef, 0x00000000, 0x00000000,
    0x00000000, 0x985ff0ef, 0x00000000, 0x00000000, 0x00000000, 0x9a5ff0ef, 0x00000000, 0x00000000,
    0x00000000, 0x987ff0ef, 0x00000000, 0x00000000, 0x00000000, 0x9a7ff0ef, 0x00000000, 0x00000000,
    0x00000000, 0x989ff0ef, 0x00000000, 0x00000000, 0x00000000, 0x9a9ff0ef, 0x00000000, 0x00000000,
    0x00000000, 0x98bff0ef, 0x00000000, 0x00000000, 0x00000000, 0x9abff0ef, 0x00000000, 0x00000000,
    0x00000000, 0x98dff0ef, 0x00000000, 0x00000000, 0x00000000, 0x9adff0ef, 0x00000000, 0x00000000,
    0x00000000, 0x98fff0ef, 0x00000000, 0x00000000, 0x00000000, 0x9afff0ef, 0x00000000, 0x00000000]"

definition decomp16_101 :: "u32 list" where
  "decomp16_101 = [
    0x00000000, 0x941ff0ef, 0x00000000, 0x00000000, 0x00000000, 0x961ff0ef, 0x00000000, 0x00000000,
    0x00000000, 0x943ff0ef, 0x00000000, 0x00000000, 0x00000000, 0x963ff0ef, 0x00000000, 0x00000000,
    0x00000000, 0x945ff0ef, 0x00000000, 0x00000000, 0x00000000, 0x965ff0ef, 0x00000000, 0x00000000,
    0x00000000, 0x947ff0ef, 0x00000000, 0x00000000, 0x00000000, 0x967ff0ef, 0x00000000, 0x00000000,
    0x00000000, 0x949ff0ef, 0x00000000, 0x00000000, 0x00000000, 0x969ff0ef, 0x00000000, 0x00000000,
    0x00000000, 0x94bff0ef, 0x00000000, 0x00000000, 0x00000000, 0x96bff0ef, 0x00000000, 0x00000000,
    0x00000000, 0x94dff0ef, 0x00000000, 0x00000000, 0x00000000, 0x96dff0ef, 0x00000000, 0x00000000,
    0x00000000, 0x94fff0ef, 0x00000000, 0x00000000, 0x00000000, 0x96fff0ef, 0x00000000, 0x00000000,
    0x00000000, 0x9c1ff0ef, 0x00000000, 0x00000000, 0x00000000, 0x9e1ff0ef, 0x00000000, 0x00000000,
    0x00000000, 0x9c3ff0ef, 0x00000000, 0x00000000, 0x00000000, 0x9e3ff0ef, 0x00000000, 0x00000000,
    0x00000000, 0x9c5ff0ef, 0x00000000, 0x00000000, 0x00000000, 0x9e5ff0ef, 0x00000000, 0x00000000,
    0x00000000, 0x9c7ff0ef, 0x00000000, 0x00000000, 0x00000000, 0x9e7ff0ef, 0x00000000, 0x00000000,
    0x00000000, 0x9c9ff0ef, 0x00000000, 0x00000000, 0x00000000, 0x9e9ff0ef, 0x00000000, 0x00000000,
    0x00000000, 0x9cbff0ef, 0x00000000, 0x00000000, 0x00000000, 0x9ebff0ef, 0x00000000, 0x00000000,
    0x00000000, 0x9cdff0ef, 0x00000000, 0x00000000, 0x00000000, 0x9edff0ef, 0x00000000, 0x00000000,
    0x00000000, 0x9cfff0ef, 0x00000000, 0x00000000, 0x00000000, 0x9efff0ef, 0x00000000, 0x00000000]"

definition decomp16_102 :: "u32 list" where
  "decomp16_102 = [
    0x00000000, 0xd01ff0ef, 0x00000000, 0x00000000, 0x00000000, 0xd21ff0ef, 0x00000000, 0x00000000,
    0x00000000, 0xd03ff0ef, 0x00000000, 0x00000000, 0x00000000, 0xd23ff0ef, 0x00000000, 0x00000000,
    0x00000000, 0xd05ff0ef, 0x00000000, 0x00000000, 0x00000000, 0xd25ff0ef, 0x00000000, 0x00000000,
    0x00000000, 0xd07ff0ef, 0x00000000, 0x00000000, 0x00000000, 0xd27ff0ef, 0x00000000, 0x00000000,
    0x00000000, 0xd09ff0ef, 0x00000000, 0x00000000, 0x00000000, 0xd29ff0ef, 0x00000000, 0x00000000,
    0x00000000, 0xd0bff0ef, 0x00000000, 0x00000000, 0x00000000, 0xd2bff0ef, 0x00000000, 0x00000000,
    0x00000000, 0xd0dff0ef, 0x00000000, 0x00000000, 0x00000000, 0xd2dff0ef, 0x00000000, 0x00000000,
    0x00000000, 0xd0fff0ef, 0x00000000, 0x00000000, 0x00000000, 0xd2fff0ef, 0x00000000, 0x00000000,
    0x00000000, 0xd81ff0ef, 0x00000000, 0x00000000, 0x00000000, 0xda1ff0ef, 0x00000000, 0x00000000,
    0x00000000, 0xd83ff0ef, 0x00000000, 0x00000000, 0x00000000, 0xda3ff0ef, 0x00000000, 0x00000000,
    0x00000000, 0xd85ff0ef, 0x00000000, 0x00000000, 0x00000000, 0xda5ff0ef, 0x00000000, 0x00000000,
    0x00000000, 0xd87ff0ef, 0x00000000, 0x00000000, 0x00000000, 0xda7ff0ef, 0x00000000, 0x00000000,
    0x00000000, 0xd89ff0ef, 0x00000000, 0x00000000, 0x00000000, 0xda9ff0ef, 0x00000000, 0x00000000,
    0x00000000, 0xd8bff0ef, 0x00000000, 0x00000000, 0x00000000, 0xdabff0ef, 0x00000000, 0x00000000,
    0x00000000, 0xd8dff0ef, 0x00000000, 0x00000000, 0x00000000, 0xdadff0ef, 0x00000000, 0x00000000,
    0x00000000, 0xd8fff0ef, 0x00000000, 0x00000000, 0x00000000, 0xdafff0ef, 0x00000000, 0x00000000]"

definition decomp16_103 :: "u32 list" where
  "decomp16_103 = [
    0x00000000, 0xd41ff0ef, 0x00000000, 0x00000000, 0x00000000, 0xd61ff0ef, 0x00000000, 0x00000000,
    0x00000000, 0xd43ff0ef, 0x00000000, 0x00000000, 0x00000000, 0xd63ff0ef, 0x00000000, 0x00000000,
    0x00000000, 0xd45ff0ef, 0x00000000, 0x00000000, 0x00000000, 0xd65ff0ef, 0x00000000, 0x00000000,
    0x00000000, 0xd47ff0ef, 0x00000000, 0x00000000, 0x00000000, 0xd67ff0ef, 0x00000000, 0x00000000,
    0x00000000, 0xd49ff0ef, 0x00000000, 0x00000000, 0x00000000, 0xd69ff0ef, 0x00000000, 0x00000000,
    0x00000000, 0xd4bff0ef, 0x00000000, 0x00000000, 0x00000000, 0xd6bff0ef, 0x00000000, 0x00000000,
    0x00000000, 0xd4dff0ef, 0x00000000, 0x00000000, 0x00000000, 0xd6dff0ef, 0x00000000, 0x00000000,
    0x00000000, 0xd4fff0ef, 0x00000000, 0x00000000, 0x00000000, 0xd6fff0ef, 0x00000000, 0x00000000,
    0x00000000, 0xdc1ff0ef, 0x00000000, 0x00000000, 0x00000000, 0xde1ff0ef, 0x00000000, 0x00000000,
    0x00000000, 0xdc3ff0ef, 0x00000000, 0x00000000, 0x00000000, 0xde3ff0ef, 0x00000000, 0x00000000,
    0x00000000, 0xdc5ff0ef, 0x00000000, 0x00000000, 0x00000000, 0xde5ff0ef, 0x00000000, 0x00000000,
    0x00000000, 0xdc7ff0ef, 0x00000000, 0x00000000, 0x00000000, 0xde7ff0ef, 0x00000000, 0x00000000,
    0x00000000, 0xdc9ff0ef, 0x00000000, 0x00000000, 0x00000000, 0xde9ff0ef, 0x00000000, 0x00000000,
    0x00000000, 0xdcbff0ef, 0x00000000, 0x00000000, 0x00000000, 0xdebff0ef, 0x00000000, 0x00000000,
    0x00000000, 0xdcdff0ef, 0x00000000, 0x00000000, 0x00000000, 0xdedff0ef, 0x00000000, 0x00000000,
    0x00000000, 0xdcfff0ef, 0x00000000, 0x00000000, 0x00000000, 0xdefff0ef, 0x00000000, 0x00000000]"

definition decomp16_104 :: "u32 list" where
  "decomp16_104 = [
    0x00000000, 0xa01ff0ef, 0x00000000, 0x00000000, 0x00000000, 0xa21ff0ef, 0x00000000, 0x00000000,
    0x00000000, 0xa03ff0ef, 0x00000000, 0x00000000, 0x00000000, 0xa23ff0ef, 0x00000000, 0x00000000,
    0x00000000, 0xa05ff0ef, 0x00000000, 0x00000000, 0x00000000, 0xa25ff0ef, 0x00000000, 0x00000000,
    0x00000000, 0xa07ff0ef, 0x00000000, 0x00000000, 0x00000000, 0xa27ff0ef, 0x00000000, 0x00000000,
    0x00000000, 0xa09ff0ef, 0x00000000, 0x00000000, 0x00000000, 0xa29ff0ef, 0x00000000, 0x00000000,
    0x00000000, 0xa0bff0ef, 0x00000000, 0x00000000, 0x00000000, 0xa2bff0ef, 0x00000000, 0x00000000,
    0x00000000, 0xa0dff0ef, 0x00000000, 0x00000000, 0x00000000, 0xa2dff0ef, 0x00000000, 0x00000000,
    0x00000000, 0xa0fff0ef, 0x00000000, 0x00000000, 0x00000000, 0xa2fff0ef, 0x00000000, 0x00000000,
    0x00000000, 0xa81ff0ef, 0x00000000, 0x00000000, 0x00000000, 0xaa1ff0ef, 0x00000000, 0x00000000,
    0x00000000, 0xa83ff0ef, 0x00000000, 0x00000000, 0x00000000, 0xaa3ff0ef, 0x00000000, 0x00000000,
    0x00000000, 0xa85ff0ef, 0x00000000, 0x00000000, 0x00000000, 0xaa5ff0ef, 0x00000000, 0x00000000,
    0x00000000, 0xa87ff0ef, 0x00000000, 0x00000000, 0x00000000, 0xaa7ff0ef, 0x00000000, 0x00000000,
    0x00000000, 0xa89ff0ef, 0x00000000, 0x00000000, 0x00000000, 0xaa9ff0ef, 0x00000000, 0x00000000,
    0x00000000, 0xa8bff0ef, 0x00000000, 0x00000000, 0x00000000, 0xaabff0ef, 0x00000000, 0x00000000,
    0x00000000, 0xa8dff0ef, 0x00000000, 0x00000000, 0x00000000, 0xaadff0ef, 0x00000000, 0x00000000,
    0x00000000, 0xa8fff0ef, 0x00000000, 0x00000000, 0x00000000, 0xaafff0ef, 0x00000000, 0x00000000]"

definition decomp16_105 :: "u32 list" where
  "decomp16_105 = [
    0x00000000, 0xa41ff0ef, 0x00000000, 0x00000000, 0x00000000, 0xa61ff0ef, 0x00000000, 0x00000000,
    0x00000000, 0xa43ff0ef, 0x00000000, 0x00000000, 0x00000000, 0xa63ff0ef, 0x00000000, 0x00000000,
    0x00000000, 0xa45ff0ef, 0x00000000, 0x00000000, 0x00000000, 0xa65ff0ef, 0x00000000, 0x00000000,
    0x00000000, 0xa47ff0ef, 0x00000000, 0x00000000, 0x00000000, 0xa67ff0ef, 0x00000000, 0x00000000,
    0x00000000, 0xa49ff0ef, 0x00000000, 0x00000000, 0x00000000, 0xa69ff0ef, 0x00000000, 0x00000000,
    0x00000000, 0xa4bff0ef, 0x00000000, 0x00000000, 0x00000000, 0xa6bff0ef, 0x00000000, 0x00000000,
    0x00000000, 0xa4dff0ef, 0x00000000, 0x00000000, 0x00000000, 0xa6dff0ef, 0x00000000, 0x00000000,
    0x00000000, 0xa4fff0ef, 0x00000000, 0x00000000, 0x00000000, 0xa6fff0ef, 0x00000000, 0x00000000,
    0x00000000, 0xac1ff0ef, 0x00000000, 0x00000000, 0x00000000, 0xae1ff0ef, 0x00000000, 0x00000000,
    0x00000000, 0xac3ff0ef, 0x00000000, 0x00000000, 0x00000000, 0xae3ff0ef, 0x00000000, 0x00000000,
    0x00000000, 0xac5ff0ef, 0x00000000, 0x00000000, 0x00000000, 0xae5ff0ef, 0x00000000, 0x00000000,
    0x00000000, 0xac7ff0ef, 0x00000000, 0x00000000, 0x00000000, 0xae7ff0ef, 0x00000000, 0x00000000,
    0x00000000, 0xac9ff0ef, 0x00000000, 0x00000000, 0x00000000, 0xae9ff0ef, 0x00000000, 0x00000000,
    0x00000000, 0xacbff0ef, 0x00000000, 0x00000000, 0x00000000, 0xaebff0ef, 0x00000000, 0x00000000,
    0x00000000, 0xacdff0ef, 0x00000000, 0x00000000, 0x00000000, 0xaedff0ef, 0x00000000, 0x00000000,
    0x00000000, 0xacfff0ef, 0x00000000, 0x00000000, 0x00000000, 0xaefff0ef, 0x00000000, 0x00000000]"

definition decomp16_106 :: "u32 list" where
  "decomp16_106 = [
    0x00000000, 0xe01ff0ef, 0x00000000, 0x00000000, 0x00000000, 0xe21ff0ef, 0x00000000, 0x00000000,
    0x00000000, 0xe03ff0ef, 0x00000000, 0x00000000, 0x00000000, 0xe23ff0ef, 0x00000000, 0x00000000,
    0x00000000, 0xe05ff0ef, 0x00000000, 0x00000000, 0x00000000, 0xe25ff0ef, 0x00000000, 0x00000000,
    0x00000000, 0xe07ff0ef, 0x00000000, 0x00000000, 0x00000000, 0xe27ff0ef, 0x00000000, 0x00000000,
    0x00000000, 0xe09ff0ef, 0x00000000, 0x00000000, 0x00000000, 0xe29ff0ef, 0x00000000, 0x00000000,
    0x00000000, 0xe0bff0ef, 0x00000000, 0x00000000, 0x00000000, 0xe2bff0ef, 0x00000000, 0x00000000,
    0x00000000, 0xe0dff0ef, 0x00000000, 0x00000000, 0x00000000, 0xe2dff0ef, 0x00000000, 0x00000000,
    0x00000000, 0xe0fff0ef, 0x00000000, 0x00000000, 0x00000000, 0xe2fff0ef, 0x00000000, 0x00000000,
    0x00000000, 0xe81ff0ef, 0x00000000, 0x00000000, 0x00000000, 0xea1ff0ef, 0x00000000, 0x00000000,
    0x00000000, 0xe83ff0ef, 0x00000000, 0x00000000, 0x00000000, 0xea3ff0ef, 0x00000000, 0x00000000,
    0x00000000, 0xe85ff0ef, 0x00000000, 0x00000000, 0x00000000, 0xea5ff0ef, 0x00000000, 0x00000000,
    0x00000000, 0xe87ff0ef, 0x00000000, 0x00000000, 0x00000000, 0xea7ff0ef, 0x00000000, 0x00000000,
    0x00000000, 0xe89ff0ef, 0x00000000, 0x00000000, 0x00000000, 0xea9ff0ef, 0x00000000, 0x00000000,
    0x00000000, 0xe8bff0ef, 0x00000000, 0x00000000, 0x00000000, 0xeabff0ef, 0x00000000, 0x00000000,
    0x00000000, 0xe8dff0ef, 0x00000000, 0x00000000, 0x00000000, 0xeadff0ef, 0x00000000, 0x00000000,
    0x00000000, 0xe8fff0ef, 0x00000000, 0x00000000, 0x00000000, 0xeafff0ef, 0x00000000, 0x00000000]"

definition decomp16_107 :: "u32 list" where
  "decomp16_107 = [
    0x00000000, 0xe41ff0ef, 0x00000000, 0x00000000, 0x00000000, 0xe61ff0ef, 0x00000000, 0x00000000,
    0x00000000, 0xe43ff0ef, 0x00000000, 0x00000000, 0x00000000, 0xe63ff0ef, 0x00000000, 0x00000000,
    0x00000000, 0xe45ff0ef, 0x00000000, 0x00000000, 0x00000000, 0xe65ff0ef, 0x00000000, 0x00000000,
    0x00000000, 0xe47ff0ef, 0x00000000, 0x00000000, 0x00000000, 0xe67ff0ef, 0x00000000, 0x00000000,
    0x00000000, 0xe49ff0ef, 0x00000000, 0x00000000, 0x00000000, 0xe69ff0ef, 0x00000000, 0x00000000,
    0x00000000, 0xe4bff0ef, 0x00000000, 0x00000000, 0x00000000, 0xe6bff0ef, 0x00000000, 0x00000000,
    0x00000000, 0xe4dff0ef, 0x00000000, 0x00000000, 0x00000000, 0xe6dff0ef, 0x00000000, 0x00000000,
    0x00000000, 0xe4fff0ef, 0x00000000, 0x00000000, 0x00000000, 0xe6fff0ef, 0x00000000, 0x00000000,
    0x00000000, 0xec1ff0ef, 0x00000000, 0x00000000, 0x00000000, 0xee1ff0ef, 0x00000000, 0x00000000,
    0x00000000, 0xec3ff0ef, 0x00000000, 0x00000000, 0x00000000, 0xee3ff0ef, 0x00000000, 0x00000000,
    0x00000000, 0xec5ff0ef, 0x00000000, 0x00000000, 0x00000000, 0xee5ff0ef, 0x00000000, 0x00000000,
    0x00000000, 0xec7ff0ef, 0x00000000, 0x00000000, 0x00000000, 0xee7ff0ef, 0x00000000, 0x00000000,
    0x00000000, 0xec9ff0ef, 0x00000000, 0x00000000, 0x00000000, 0xee9ff0ef, 0x00000000, 0x00000000,
    0x00000000, 0xecbff0ef, 0x00000000, 0x00000000, 0x00000000, 0xeebff0ef, 0x00000000, 0x00000000,
    0x00000000, 0xecdff0ef, 0x00000000, 0x00000000, 0x00000000, 0xeedff0ef, 0x00000000, 0x00000000,
    0x00000000, 0xecfff0ef, 0x00000000, 0x00000000, 0x00000000, 0xeefff0ef, 0x00000000, 0x00000000]"

definition decomp16_108 :: "u32 list" where
  "decomp16_108 = [
    0x00000000, 0xb01ff0ef, 0x00000000, 0x00000000, 0x00000000, 0xb21ff0ef, 0x00000000, 0x00000000,
    0x00000000, 0xb03ff0ef, 0x00000000, 0x00000000, 0x00000000, 0xb23ff0ef, 0x00000000, 0x00000000,
    0x00000000, 0xb05ff0ef, 0x00000000, 0x00000000, 0x00000000, 0xb25ff0ef, 0x00000000, 0x00000000,
    0x00000000, 0xb07ff0ef, 0x00000000, 0x00000000, 0x00000000, 0xb27ff0ef, 0x00000000, 0x00000000,
    0x00000000, 0xb09ff0ef, 0x00000000, 0x00000000, 0x00000000, 0xb29ff0ef, 0x00000000, 0x00000000,
    0x00000000, 0xb0bff0ef, 0x00000000, 0x00000000, 0x00000000, 0xb2bff0ef, 0x00000000, 0x00000000,
    0x00000000, 0xb0dff0ef, 0x00000000, 0x00000000, 0x00000000, 0xb2dff0ef, 0x00000000, 0x00000000,
    0x00000000, 0xb0fff0ef, 0x00000000, 0x00000000, 0x00000000, 0xb2fff0ef, 0x00000000, 0x00000000,
    0x00000000, 0xb81ff0ef, 0x00000000, 0x00000000, 0x00000000, 0xba1ff0ef, 0x00000000, 0x00000000,
    0x00000000, 0xb83ff0ef, 0x00000000, 0x00000000, 0x00000000, 0xba3ff0ef, 0x00000000, 0x00000000,
    0x00000000, 0xb85ff0ef, 0x00000000, 0x00000000, 0x00000000, 0xba5ff0ef, 0x00000000, 0x00000000,
    0x00000000, 0xb87ff0ef, 0x00000000, 0x00000000, 0x00000000, 0xba7ff0ef, 0x00000000, 0x00000000,
    0x00000000, 0xb89ff0ef, 0x00000000, 0x00000000, 0x00000000, 0xba9ff0ef, 0x00000000, 0x00000000,
    0x00000000, 0xb8bff0ef, 0x00000000, 0x00000000, 0x00000000, 0xbabff0ef, 0x00000000, 0x00000000,
    0x00000000, 0xb8dff0ef, 0x00000000, 0x00000000, 0x00000000, 0xbadff0ef, 0x00000000, 0x00000000,
    0x00000000, 0xb8fff0ef, 0x00000000, 0x00000000, 0x00000000, 0xbafff0ef, 0x00000000, 0x00000000]"

definition decomp16_109 :: "u32 list" where
  "decomp16_109 = [
    0x00000000, 0xb41ff0ef, 0x00000000, 0x00000000, 0x00000000, 0xb61ff0ef, 0x00000000, 0x00000000,
    0x00000000, 0xb43ff0ef, 0x00000000, 0x00000000, 0x00000000, 0xb63ff0ef, 0x00000000, 0x00000000,
    0x00000000, 0xb45ff0ef, 0x00000000, 0x00000000, 0x00000000, 0xb65ff0ef, 0x00000000, 0x00000000,
    0x00000000, 0xb47ff0ef, 0x00000000, 0x00000000, 0x00000000, 0xb67ff0ef, 0x00000000, 0x00000000,
    0x00000000, 0xb49ff0ef, 0x00000000, 0x00000000, 0x00000000, 0xb69ff0ef, 0x00000000, 0x00000000,
    0x00000000, 0xb4bff0ef, 0x00000000, 0x00000000, 0x00000000, 0xb6bff0ef, 0x00000000, 0x00000000,
    0x00000000, 0xb4dff0ef, 0x00000000, 0x00000000, 0x00000000, 0xb6dff0ef, 0x00000000, 0x00000000,
    0x00000000, 0xb4fff0ef, 0x00000000, 0x00000000, 0x00000000, 0xb6fff0ef, 0x00000000, 0x00000000,
    0x00000000, 0xbc1ff0ef, 0x00000000, 0x00000000, 0x00000000, 0xbe1ff0ef, 0x00000000, 0x00000000,
    0x00000000, 0xbc3ff0ef, 0x00000000, 0x00000000, 0x00000000, 0xbe3ff0ef, 0x00000000, 0x00000000,
    0x00000000, 0xbc5ff0ef, 0x00000000, 0x00000000, 0x00000000, 0xbe5ff0ef, 0x00000000, 0x00000000,
    0x00000000, 0xbc7ff0ef, 0x00000000, 0x00000000, 0x00000000, 0xbe7ff0ef, 0x00000000, 0x00000000,
    0x00000000, 0xbc9ff0ef, 0x00000000, 0x00000000, 0x00000000, 0xbe9ff0ef, 0x00000000, 0x00000000,
    0x00000000, 0xbcbff0ef, 0x00000000, 0x00000000, 0x00000000, 0xbebff0ef, 0x00000000, 0x00000000,
    0x00000000, 0xbcdff0ef, 0x00000000, 0x00000000, 0x00000000, 0xbedff0ef, 0x00000000, 0x00000000,
    0x00000000, 0xbcfff0ef, 0x00000000, 0x00000000, 0x00000000, 0xbefff0ef, 0x00000000, 0x00000000]"

definition decomp16_110 :: "u32 list" where
  "decomp16_110 = [
    0x00000000, 0xf01ff0ef, 0x00000000, 0x00000000, 0x00000000, 0xf21ff0ef, 0x00000000, 0x00000000,
    0x00000000, 0xf03ff0ef, 0x00000000, 0x00000000, 0x00000000, 0xf23ff0ef, 0x00000000, 0x00000000,
    0x00000000, 0xf05ff0ef, 0x00000000, 0x00000000, 0x00000000, 0xf25ff0ef, 0x00000000, 0x00000000,
    0x00000000, 0xf07ff0ef, 0x00000000, 0x00000000, 0x00000000, 0xf27ff0ef, 0x00000000, 0x00000000,
    0x00000000, 0xf09ff0ef, 0x00000000, 0x00000000, 0x00000000, 0xf29ff0ef, 0x00000000, 0x00000000,
    0x00000000, 0xf0bff0ef, 0x00000000, 0x00000000, 0x00000000, 0xf2bff0ef, 0x00000000, 0x00000000,
    0x00000000, 0xf0dff0ef, 0x00000000, 0x00000000, 0x00000000, 0xf2dff0ef, 0x00000000, 0x00000000,
    0x00000000, 0xf0fff0ef, 0x00000000, 0x00000000, 0x00000000, 0xf2fff0ef, 0x00000000, 0x00000000,
    0x00000000, 0xf81ff0ef, 0x00000000, 0x00000000, 0x00000000, 0xfa1ff0ef, 0x00000000, 0x00000000,
    0x00000000, 0xf83ff0ef, 0x00000000, 0x00000000, 0x00000000, 0xfa3ff0ef, 0x00000000, 0x00000000,
    0x00000000, 0xf85ff0ef, 0x00000000, 0x00000000, 0x00000000, 0xfa5ff0ef, 0x00000000, 0x00000000,
    0x00000000, 0xf87ff0ef, 0x00000000, 0x00000000, 0x00000000, 0xfa7ff0ef, 0x00000000, 0x00000000,
    0x00000000, 0xf89ff0ef, 0x00000000, 0x00000000, 0x00000000, 0xfa9ff0ef, 0x00000000, 0x00000000,
    0x00000000, 0xf8bff0ef, 0x00000000, 0x00000000, 0x00000000, 0xfabff0ef, 0x00000000, 0x00000000,
    0x00000000, 0xf8dff0ef, 0x00000000, 0x00000000, 0x00000000, 0xfadff0ef, 0x00000000, 0x00000000,
    0x00000000, 0xf8fff0ef, 0x00000000, 0x00000000, 0x00000000, 0xfafff0ef, 0x00000000, 0x00000000]"

definition decomp16_111 :: "u32 list" where
  "decomp16_111 = [
    0x00000000, 0xf41ff0ef, 0x00000000, 0x00000000, 0x00000000, 0xf61ff0ef, 0x00000000, 0x00000000,
    0x00000000, 0xf43ff0ef, 0x00000000, 0x00000000, 0x00000000, 0xf63ff0ef, 0x00000000, 0x00000000,
    0x00000000, 0xf45ff0ef, 0x00000000, 0x00000000, 0x00000000, 0xf65ff0ef, 0x00000000, 0x00000000,
    0x00000000, 0xf47ff0ef, 0x00000000, 0x00000000, 0x00000000, 0xf67ff0ef, 0x00000000, 0x00000000,
    0x00000000, 0xf49ff0ef, 0x00000000, 0x00000000, 0x00000000, 0xf69ff0ef, 0x00000000, 0x00000000,
    0x00000000, 0xf4bff0ef, 0x00000000, 0x00000000, 0x00000000, 0xf6bff0ef, 0x00000000, 0x00000000,
    0x00000000, 0xf4dff0ef, 0x00000000, 0x00000000, 0x00000000, 0xf6dff0ef, 0x00000000, 0x00000000,
    0x00000000, 0xf4fff0ef, 0x00000000, 0x00000000, 0x00000000, 0xf6fff0ef, 0x00000000, 0x00000000,
    0x00000000, 0xfc1ff0ef, 0x00000000, 0x00000000, 0x00000000, 0xfe1ff0ef, 0x00000000, 0x00000000,
    0x00000000, 0xfc3ff0ef, 0x00000000, 0x00000000, 0x00000000, 0xfe3ff0ef, 0x00000000, 0x00000000,
    0x00000000, 0xfc5ff0ef, 0x00000000, 0x00000000, 0x00000000, 0xfe5ff0ef, 0x00000000, 0x00000000,
    0x00000000, 0xfc7ff0ef, 0x00000000, 0x00000000, 0x00000000, 0xfe7ff0ef, 0x00000000, 0x00000000,
    0x00000000, 0xfc9ff0ef, 0x00000000, 0x00000000, 0x00000000, 0xfe9ff0ef, 0x00000000, 0x00000000,
    0x00000000, 0xfcbff0ef, 0x00000000, 0x00000000, 0x00000000, 0xfebff0ef, 0x00000000, 0x00000000,
    0x00000000, 0xfcdff0ef, 0x00000000, 0x00000000, 0x00000000, 0xfedff0ef, 0x00000000, 0x00000000,
    0x00000000, 0xfcfff0ef, 0x00000000, 0x00000000, 0x00000000, 0xfefff0ef, 0x00000000, 0x00000000]"

definition decomp16_112 :: "u32 list" where
  "decomp16_112 = [
    0x00000000, 0x811ff0ef, 0x00000000, 0x00000000, 0x00000000, 0x831ff0ef, 0x00000000, 0x00000000,
    0x00000000, 0x813ff0ef, 0x00000000, 0x00000000, 0x00000000, 0x833ff0ef, 0x00000000, 0x00000000,
    0x00000000, 0x815ff0ef, 0x00000000, 0x00000000, 0x00000000, 0x835ff0ef, 0x00000000, 0x00000000,
    0x00000000, 0x817ff0ef, 0x00000000, 0x00000000, 0x00000000, 0x837ff0ef, 0x00000000, 0x00000000,
    0x00000000, 0x819ff0ef, 0x00000000, 0x00000000, 0x00000000, 0x839ff0ef, 0x00000000, 0x00000000,
    0x00000000, 0x81bff0ef, 0x00000000, 0x00000000, 0x00000000, 0x83bff0ef, 0x00000000, 0x00000000,
    0x00000000, 0x81dff0ef, 0x00000000, 0x00000000, 0x00000000, 0x83dff0ef, 0x00000000, 0x00000000,
    0x00000000, 0x81fff0ef, 0x00000000, 0x00000000, 0x00000000, 0x83fff0ef, 0x00000000, 0x00000000,
    0x00000000, 0x891ff0ef, 0x00000000, 0x00000000, 0x00000000, 0x8b1ff0ef, 0x00000000, 0x00000000,
    0x00000000, 0x893ff0ef, 0x00000000, 0x00000000, 0x00000000, 0x8b3ff0ef, 0x00000000, 0x00000000,
    0x00000000, 0x895ff0ef, 0x00000000, 0x00000000, 0x00000000, 0x8b5ff0ef, 0x00000000, 0x00000000,
    0x00000000, 0x897ff0ef, 0x00000000, 0x00000000, 0x00000000, 0x8b7ff0ef, 0x00000000, 0x00000000,
    0x00000000, 0x899ff0ef, 0x00000000, 0x00000000, 0x00000000, 0x8b9ff0ef, 0x00000000, 0x00000000,
    0x00000000, 0x89bff0ef, 0x00000000, 0x00000000, 0x00000000, 0x8bbff0ef, 0x00000000, 0x00000000,
    0x00000000, 0x89dff0ef, 0x00000000, 0x00000000, 0x00000000, 0x8bdff0ef, 0x00000000, 0x00000000,
    0x00000000, 0x89fff0ef, 0x00000000, 0x00000000, 0x00000000, 0x8bfff0ef, 0x00000000, 0x00000000]"

definition decomp16_113 :: "u32 list" where
  "decomp16_113 = [
    0x00000000, 0x851ff0ef, 0x00000000, 0x00000000, 0x00000000, 0x871ff0ef, 0x00000000, 0x00000000,
    0x00000000, 0x853ff0ef, 0x00000000, 0x00000000, 0x00000000, 0x873ff0ef, 0x00000000, 0x00000000,
    0x00000000, 0x855ff0ef, 0x00000000, 0x00000000, 0x00000000, 0x875ff0ef, 0x00000000, 0x00000000,
    0x00000000, 0x857ff0ef, 0x00000000, 0x00000000, 0x00000000, 0x877ff0ef, 0x00000000, 0x00000000,
    0x00000000, 0x859ff0ef, 0x00000000, 0x00000000, 0x00000000, 0x879ff0ef, 0x00000000, 0x00000000,
    0x00000000, 0x85bff0ef, 0x00000000, 0x00000000, 0x00000000, 0x87bff0ef, 0x00000000, 0x00000000,
    0x00000000, 0x85dff0ef, 0x00000000, 0x00000000, 0x00000000, 0x87dff0ef, 0x00000000, 0x00000000,
    0x00000000, 0x85fff0ef, 0x00000000, 0x00000000, 0x00000000, 0x87fff0ef, 0x00000000, 0x00000000,
    0x00000000, 0x8d1ff0ef, 0x00000000, 0x00000000, 0x00000000, 0x8f1ff0ef, 0x00000000, 0x00000000,
    0x00000000, 0x8d3ff0ef, 0x00000000, 0x00000000, 0x00000000, 0x8f3ff0ef, 0x00000000, 0x00000000,
    0x00000000, 0x8d5ff0ef, 0x00000000, 0x00000000, 0x00000000, 0x8f5ff0ef, 0x00000000, 0x00000000,
    0x00000000, 0x8d7ff0ef, 0x00000000, 0x00000000, 0x00000000, 0x8f7ff0ef, 0x00000000, 0x00000000,
    0x00000000, 0x8d9ff0ef, 0x00000000, 0x00000000, 0x00000000, 0x8f9ff0ef, 0x00000000, 0x00000000,
    0x00000000, 0x8dbff0ef, 0x00000000, 0x00000000, 0x00000000, 0x8fbff0ef, 0x00000000, 0x00000000,
    0x00000000, 0x8ddff0ef, 0x00000000, 0x00000000, 0x00000000, 0x8fdff0ef, 0x00000000, 0x00000000,
    0x00000000, 0x8dfff0ef, 0x00000000, 0x00000000, 0x00000000, 0x8ffff0ef, 0x00000000, 0x00000000]"

definition decomp16_114 :: "u32 list" where
  "decomp16_114 = [
    0x00000000, 0xc11ff0ef, 0x00000000, 0x00000000, 0x00000000, 0xc31ff0ef, 0x00000000, 0x00000000,
    0x00000000, 0xc13ff0ef, 0x00000000, 0x00000000, 0x00000000, 0xc33ff0ef, 0x00000000, 0x00000000,
    0x00000000, 0xc15ff0ef, 0x00000000, 0x00000000, 0x00000000, 0xc35ff0ef, 0x00000000, 0x00000000,
    0x00000000, 0xc17ff0ef, 0x00000000, 0x00000000, 0x00000000, 0xc37ff0ef, 0x00000000, 0x00000000,
    0x00000000, 0xc19ff0ef, 0x00000000, 0x00000000, 0x00000000, 0xc39ff0ef, 0x00000000, 0x00000000,
    0x00000000, 0xc1bff0ef, 0x00000000, 0x00000000, 0x00000000, 0xc3bff0ef, 0x00000000, 0x00000000,
    0x00000000, 0xc1dff0ef, 0x00000000, 0x00000000, 0x00000000, 0xc3dff0ef, 0x00000000, 0x00000000,
    0x00000000, 0xc1fff0ef, 0x00000000, 0x00000000, 0x00000000, 0xc3fff0ef, 0x00000000, 0x00000000,
    0x00000000, 0xc91ff0ef, 0x00000000, 0x00000000, 0x00000000, 0xcb1ff0ef, 0x00000000, 0x00000000,
    0x00000000, 0xc93ff0ef, 0x00000000, 0x00000000, 0x00000000, 0xcb3ff0ef, 0x00000000, 0x00000000,
    0x00000000, 0xc95ff0ef, 0x00000000, 0x00000000, 0x00000000, 0xcb5ff0ef, 0x00000000, 0x00000000,
    0x00000000, 0xc97ff0ef, 0x00000000, 0x00000000, 0x00000000, 0xcb7ff0ef, 0x00000000, 0x00000000,
    0x00000000, 0xc99ff0ef, 0x00000000, 0x00000000, 0x00000000, 0xcb9ff0ef, 0x00000000, 0x00000000,
    0x00000000, 0xc9bff0ef, 0x00000000, 0x00000000, 0x00000000, 0xcbbff0ef, 0x00000000, 0x00000000,
    0x00000000, 0xc9dff0ef, 0x00000000, 0x00000000, 0x00000000, 0xcbdff0ef, 0x00000000, 0x00000000,
    0x00000000, 0xc9fff0ef, 0x00000000, 0x00000000, 0x00000000, 0xcbfff0ef, 0x00000000, 0x00000000]"

definition decomp16_115 :: "u32 list" where
  "decomp16_115 = [
    0x00000000, 0xc51ff0ef, 0x00000000, 0x00000000, 0x00000000, 0xc71ff0ef, 0x00000000, 0x00000000,
    0x00000000, 0xc53ff0ef, 0x00000000, 0x00000000, 0x00000000, 0xc73ff0ef, 0x00000000, 0x00000000,
    0x00000000, 0xc55ff0ef, 0x00000000, 0x00000000, 0x00000000, 0xc75ff0ef, 0x00000000, 0x00000000,
    0x00000000, 0xc57ff0ef, 0x00000000, 0x00000000, 0x00000000, 0xc77ff0ef, 0x00000000, 0x00000000,
    0x00000000, 0xc59ff0ef, 0x00000000, 0x00000000, 0x00000000, 0xc79ff0ef, 0x00000000, 0x00000000,
    0x00000000, 0xc5bff0ef, 0x00000000, 0x00000000, 0x00000000, 0xc7bff0ef, 0x00000000, 0x00000000,
    0x00000000, 0xc5dff0ef, 0x00000000, 0x00000000, 0x00000000, 0xc7dff0ef, 0x00000000, 0x00000000,
    0x00000000, 0xc5fff0ef, 0x00000000, 0x00000000, 0x00000000, 0xc7fff0ef, 0x00000000, 0x00000000,
    0x00000000, 0xcd1ff0ef, 0x00000000, 0x00000000, 0x00000000, 0xcf1ff0ef, 0x00000000, 0x00000000,
    0x00000000, 0xcd3ff0ef, 0x00000000, 0x00000000, 0x00000000, 0xcf3ff0ef, 0x00000000, 0x00000000,
    0x00000000, 0xcd5ff0ef, 0x00000000, 0x00000000, 0x00000000, 0xcf5ff0ef, 0x00000000, 0x00000000,
    0x00000000, 0xcd7ff0ef, 0x00000000, 0x00000000, 0x00000000, 0xcf7ff0ef, 0x00000000, 0x00000000,
    0x00000000, 0xcd9ff0ef, 0x00000000, 0x00000000, 0x00000000, 0xcf9ff0ef, 0x00000000, 0x00000000,
    0x00000000, 0xcdbff0ef, 0x00000000, 0x00000000, 0x00000000, 0xcfbff0ef, 0x00000000, 0x00000000,
    0x00000000, 0xcddff0ef, 0x00000000, 0x00000000, 0x00000000, 0xcfdff0ef, 0x00000000, 0x00000000,
    0x00000000, 0xcdfff0ef, 0x00000000, 0x00000000, 0x00000000, 0xcffff0ef, 0x00000000, 0x00000000]"

definition decomp16_116 :: "u32 list" where
  "decomp16_116 = [
    0x00000000, 0x911ff0ef, 0x00000000, 0x00000000, 0x00000000, 0x931ff0ef, 0x00000000, 0x00000000,
    0x00000000, 0x913ff0ef, 0x00000000, 0x00000000, 0x00000000, 0x933ff0ef, 0x00000000, 0x00000000,
    0x00000000, 0x915ff0ef, 0x00000000, 0x00000000, 0x00000000, 0x935ff0ef, 0x00000000, 0x00000000,
    0x00000000, 0x917ff0ef, 0x00000000, 0x00000000, 0x00000000, 0x937ff0ef, 0x00000000, 0x00000000,
    0x00000000, 0x919ff0ef, 0x00000000, 0x00000000, 0x00000000, 0x939ff0ef, 0x00000000, 0x00000000,
    0x00000000, 0x91bff0ef, 0x00000000, 0x00000000, 0x00000000, 0x93bff0ef, 0x00000000, 0x00000000,
    0x00000000, 0x91dff0ef, 0x00000000, 0x00000000, 0x00000000, 0x93dff0ef, 0x00000000, 0x00000000,
    0x00000000, 0x91fff0ef, 0x00000000, 0x00000000, 0x00000000, 0x93fff0ef, 0x00000000, 0x00000000,
    0x00000000, 0x991ff0ef, 0x00000000, 0x00000000, 0x00000000, 0x9b1ff0ef, 0x00000000, 0x00000000,
    0x00000000, 0x993ff0ef, 0x00000000, 0x00000000, 0x00000000, 0x9b3ff0ef, 0x00000000, 0x00000000,
    0x00000000, 0x995ff0ef, 0x00000000, 0x00000000, 0x00000000, 0x9b5ff0ef, 0x00000000, 0x00000000,
    0x00000000, 0x997ff0ef, 0x00000000, 0x00000000, 0x00000000, 0x9b7ff0ef, 0x00000000, 0x00000000,
    0x00000000, 0x999ff0ef, 0x00000000, 0x00000000, 0x00000000, 0x9b9ff0ef, 0x00000000, 0x00000000,
    0x00000000, 0x99bff0ef, 0x00000000, 0x00000000, 0x00000000, 0x9bbff0ef, 0x00000000, 0x00000000,
    0x00000000, 0x99dff0ef, 0x00000000, 0x00000000, 0x00000000, 0x9bdff0ef, 0x00000000, 0x00000000,
    0x00000000, 0x99fff0ef, 0x00000000, 0x00000000, 0x00000000, 0x9bfff0ef, 0x00000000, 0x00000000]"

definition decomp16_117 :: "u32 list" where
  "decomp16_117 = [
    0x00000000, 0x951ff0ef, 0x00000000, 0x00000000, 0x00000000, 0x971ff0ef, 0x00000000, 0x00000000,
    0x00000000, 0x953ff0ef, 0x00000000, 0x00000000, 0x00000000, 0x973ff0ef, 0x00000000, 0x00000000,
    0x00000000, 0x955ff0ef, 0x00000000, 0x00000000, 0x00000000, 0x975ff0ef, 0x00000000, 0x00000000,
    0x00000000, 0x957ff0ef, 0x00000000, 0x00000000, 0x00000000, 0x977ff0ef, 0x00000000, 0x00000000,
    0x00000000, 0x959ff0ef, 0x00000000, 0x00000000, 0x00000000, 0x979ff0ef, 0x00000000, 0x00000000,
    0x00000000, 0x95bff0ef, 0x00000000, 0x00000000, 0x00000000, 0x97bff0ef, 0x00000000, 0x00000000,
    0x00000000, 0x95dff0ef, 0x00000000, 0x00000000, 0x00000000, 0x97dff0ef, 0x00000000, 0x00000000,
    0x00000000, 0x95fff0ef, 0x00000000, 0x00000000, 0x00000000, 0x97fff0ef, 0x00000000, 0x00000000,
    0x00000000, 0x9d1ff0ef, 0x00000000, 0x00000000, 0x00000000, 0x9f1ff0ef, 0x00000000, 0x00000000,
    0x00000000, 0x9d3ff0ef, 0x00000000, 0x00000000, 0x00000000, 0x9f3ff0ef, 0x00000000, 0x00000000,
    0x00000000, 0x9d5ff0ef, 0x00000000, 0x00000000, 0x00000000, 0x9f5ff0ef, 0x00000000, 0x00000000,
    0x00000000, 0x9d7ff0ef, 0x00000000, 0x00000000, 0x00000000, 0x9f7ff0ef, 0x00000000, 0x00000000,
    0x00000000, 0x9d9ff0ef, 0x00000000, 0x00000000, 0x00000000, 0x9f9ff0ef, 0x00000000, 0x00000000,
    0x00000000, 0x9dbff0ef, 0x00000000, 0x00000000, 0x00000000, 0x9fbff0ef, 0x00000000, 0x00000000,
    0x00000000, 0x9ddff0ef, 0x00000000, 0x00000000, 0x00000000, 0x9fdff0ef, 0x00000000, 0x00000000,
    0x00000000, 0x9dfff0ef, 0x00000000, 0x00000000, 0x00000000, 0x9ffff0ef, 0x00000000, 0x00000000]"

definition decomp16_118 :: "u32 list" where
  "decomp16_118 = [
    0x00000000, 0xd11ff0ef, 0x00000000, 0x00000000, 0x00000000, 0xd31ff0ef, 0x00000000, 0x00000000,
    0x00000000, 0xd13ff0ef, 0x00000000, 0x00000000, 0x00000000, 0xd33ff0ef, 0x00000000, 0x00000000,
    0x00000000, 0xd15ff0ef, 0x00000000, 0x00000000, 0x00000000, 0xd35ff0ef, 0x00000000, 0x00000000,
    0x00000000, 0xd17ff0ef, 0x00000000, 0x00000000, 0x00000000, 0xd37ff0ef, 0x00000000, 0x00000000,
    0x00000000, 0xd19ff0ef, 0x00000000, 0x00000000, 0x00000000, 0xd39ff0ef, 0x00000000, 0x00000000,
    0x00000000, 0xd1bff0ef, 0x00000000, 0x00000000, 0x00000000, 0xd3bff0ef, 0x00000000, 0x00000000,
    0x00000000, 0xd1dff0ef, 0x00000000, 0x00000000, 0x00000000, 0xd3dff0ef, 0x00000000, 0x00000000,
    0x00000000, 0xd1fff0ef, 0x00000000, 0x00000000, 0x00000000, 0xd3fff0ef, 0x00000000, 0x00000000,
    0x00000000, 0xd91ff0ef, 0x00000000, 0x00000000, 0x00000000, 0xdb1ff0ef, 0x00000000, 0x00000000,
    0x00000000, 0xd93ff0ef, 0x00000000, 0x00000000, 0x00000000, 0xdb3ff0ef, 0x00000000, 0x00000000,
    0x00000000, 0xd95ff0ef, 0x00000000, 0x00000000, 0x00000000, 0xdb5ff0ef, 0x00000000, 0x00000000,
    0x00000000, 0xd97ff0ef, 0x00000000, 0x00000000, 0x00000000, 0xdb7ff0ef, 0x00000000, 0x00000000,
    0x00000000, 0xd99ff0ef, 0x00000000, 0x00000000, 0x00000000, 0xdb9ff0ef, 0x00000000, 0x00000000,
    0x00000000, 0xd9bff0ef, 0x00000000, 0x00000000, 0x00000000, 0xdbbff0ef, 0x00000000, 0x00000000,
    0x00000000, 0xd9dff0ef, 0x00000000, 0x00000000, 0x00000000, 0xdbdff0ef, 0x00000000, 0x00000000,
    0x00000000, 0xd9fff0ef, 0x00000000, 0x00000000, 0x00000000, 0xdbfff0ef, 0x00000000, 0x00000000]"

definition decomp16_119 :: "u32 list" where
  "decomp16_119 = [
    0x00000000, 0xd51ff0ef, 0x00000000, 0x00000000, 0x00000000, 0xd71ff0ef, 0x00000000, 0x00000000,
    0x00000000, 0xd53ff0ef, 0x00000000, 0x00000000, 0x00000000, 0xd73ff0ef, 0x00000000, 0x00000000,
    0x00000000, 0xd55ff0ef, 0x00000000, 0x00000000, 0x00000000, 0xd75ff0ef, 0x00000000, 0x00000000,
    0x00000000, 0xd57ff0ef, 0x00000000, 0x00000000, 0x00000000, 0xd77ff0ef, 0x00000000, 0x00000000,
    0x00000000, 0xd59ff0ef, 0x00000000, 0x00000000, 0x00000000, 0xd79ff0ef, 0x00000000, 0x00000000,
    0x00000000, 0xd5bff0ef, 0x00000000, 0x00000000, 0x00000000, 0xd7bff0ef, 0x00000000, 0x00000000,
    0x00000000, 0xd5dff0ef, 0x00000000, 0x00000000, 0x00000000, 0xd7dff0ef, 0x00000000, 0x00000000,
    0x00000000, 0xd5fff0ef, 0x00000000, 0x00000000, 0x00000000, 0xd7fff0ef, 0x00000000, 0x00000000,
    0x00000000, 0xdd1ff0ef, 0x00000000, 0x00000000, 0x00000000, 0xdf1ff0ef, 0x00000000, 0x00000000,
    0x00000000, 0xdd3ff0ef, 0x00000000, 0x00000000, 0x00000000, 0xdf3ff0ef, 0x00000000, 0x00000000,
    0x00000000, 0xdd5ff0ef, 0x00000000, 0x00000000, 0x00000000, 0xdf5ff0ef, 0x00000000, 0x00000000,
    0x00000000, 0xdd7ff0ef, 0x00000000, 0x00000000, 0x00000000, 0xdf7ff0ef, 0x00000000, 0x00000000,
    0x00000000, 0xdd9ff0ef, 0x00000000, 0x00000000, 0x00000000, 0xdf9ff0ef, 0x00000000, 0x00000000,
    0x00000000, 0xddbff0ef, 0x00000000, 0x00000000, 0x00000000, 0xdfbff0ef, 0x00000000, 0x00000000,
    0x00000000, 0xdddff0ef, 0x00000000, 0x00000000, 0x00000000, 0xdfdff0ef, 0x00000000, 0x00000000,
    0x00000000, 0xddfff0ef, 0x00000000, 0x00000000, 0x00000000, 0xdffff0ef, 0x00000000, 0x00000000]"

definition decomp16_120 :: "u32 list" where
  "decomp16_120 = [
    0x00000000, 0xa11ff0ef, 0x00000000, 0x00000000, 0x00000000, 0xa31ff0ef, 0x00000000, 0x00000000,
    0x00000000, 0xa13ff0ef, 0x00000000, 0x00000000, 0x00000000, 0xa33ff0ef, 0x00000000, 0x00000000,
    0x00000000, 0xa15ff0ef, 0x00000000, 0x00000000, 0x00000000, 0xa35ff0ef, 0x00000000, 0x00000000,
    0x00000000, 0xa17ff0ef, 0x00000000, 0x00000000, 0x00000000, 0xa37ff0ef, 0x00000000, 0x00000000,
    0x00000000, 0xa19ff0ef, 0x00000000, 0x00000000, 0x00000000, 0xa39ff0ef, 0x00000000, 0x00000000,
    0x00000000, 0xa1bff0ef, 0x00000000, 0x00000000, 0x00000000, 0xa3bff0ef, 0x00000000, 0x00000000,
    0x00000000, 0xa1dff0ef, 0x00000000, 0x00000000, 0x00000000, 0xa3dff0ef, 0x00000000, 0x00000000,
    0x00000000, 0xa1fff0ef, 0x00000000, 0x00000000, 0x00000000, 0xa3fff0ef, 0x00000000, 0x00000000,
    0x00000000, 0xa91ff0ef, 0x00000000, 0x00000000, 0x00000000, 0xab1ff0ef, 0x00000000, 0x00000000,
    0x00000000, 0xa93ff0ef, 0x00000000, 0x00000000, 0x00000000, 0xab3ff0ef, 0x00000000, 0x00000000,
    0x00000000, 0xa95ff0ef, 0x00000000, 0x00000000, 0x00000000, 0xab5ff0ef, 0x00000000, 0x00000000,
    0x00000000, 0xa97ff0ef, 0x00000000, 0x00000000, 0x00000000, 0xab7ff0ef, 0x00000000, 0x00000000,
    0x00000000, 0xa99ff0ef, 0x00000000, 0x00000000, 0x00000000, 0xab9ff0ef, 0x00000000, 0x00000000,
    0x00000000, 0xa9bff0ef, 0x00000000, 0x00000000, 0x00000000, 0xabbff0ef, 0x00000000, 0x00000000,
    0x00000000, 0xa9dff0ef, 0x00000000, 0x00000000, 0x00000000, 0xabdff0ef, 0x00000000, 0x00000000,
    0x00000000, 0xa9fff0ef, 0x00000000, 0x00000000, 0x00000000, 0xabfff0ef, 0x00000000, 0x00000000]"

definition decomp16_121 :: "u32 list" where
  "decomp16_121 = [
    0x00000000, 0xa51ff0ef, 0x00000000, 0x00000000, 0x00000000, 0xa71ff0ef, 0x00000000, 0x00000000,
    0x00000000, 0xa53ff0ef, 0x00000000, 0x00000000, 0x00000000, 0xa73ff0ef, 0x00000000, 0x00000000,
    0x00000000, 0xa55ff0ef, 0x00000000, 0x00000000, 0x00000000, 0xa75ff0ef, 0x00000000, 0x00000000,
    0x00000000, 0xa57ff0ef, 0x00000000, 0x00000000, 0x00000000, 0xa77ff0ef, 0x00000000, 0x00000000,
    0x00000000, 0xa59ff0ef, 0x00000000, 0x00000000, 0x00000000, 0xa79ff0ef, 0x00000000, 0x00000000,
    0x00000000, 0xa5bff0ef, 0x00000000, 0x00000000, 0x00000000, 0xa7bff0ef, 0x00000000, 0x00000000,
    0x00000000, 0xa5dff0ef, 0x00000000, 0x00000000, 0x00000000, 0xa7dff0ef, 0x00000000, 0x00000000,
    0x00000000, 0xa5fff0ef, 0x00000000, 0x00000000, 0x00000000, 0xa7fff0ef, 0x00000000, 0x00000000,
    0x00000000, 0xad1ff0ef, 0x00000000, 0x00000000, 0x00000000, 0xaf1ff0ef, 0x00000000, 0x00000000,
    0x00000000, 0xad3ff0ef, 0x00000000, 0x00000000, 0x00000000, 0xaf3ff0ef, 0x00000000, 0x00000000,
    0x00000000, 0xad5ff0ef, 0x00000000, 0x00000000, 0x00000000, 0xaf5ff0ef, 0x00000000, 0x00000000,
    0x00000000, 0xad7ff0ef, 0x00000000, 0x00000000, 0x00000000, 0xaf7ff0ef, 0x00000000, 0x00000000,
    0x00000000, 0xad9ff0ef, 0x00000000, 0x00000000, 0x00000000, 0xaf9ff0ef, 0x00000000, 0x00000000,
    0x00000000, 0xadbff0ef, 0x00000000, 0x00000000, 0x00000000, 0xafbff0ef, 0x00000000, 0x00000000,
    0x00000000, 0xaddff0ef, 0x00000000, 0x00000000, 0x00000000, 0xafdff0ef, 0x00000000, 0x00000000,
    0x00000000, 0xadfff0ef, 0x00000000, 0x00000000, 0x00000000, 0xaffff0ef, 0x00000000, 0x00000000]"

definition decomp16_122 :: "u32 list" where
  "decomp16_122 = [
    0x00000000, 0xe11ff0ef, 0x00000000, 0x00000000, 0x00000000, 0xe31ff0ef, 0x00000000, 0x00000000,
    0x00000000, 0xe13ff0ef, 0x00000000, 0x00000000, 0x00000000, 0xe33ff0ef, 0x00000000, 0x00000000,
    0x00000000, 0xe15ff0ef, 0x00000000, 0x00000000, 0x00000000, 0xe35ff0ef, 0x00000000, 0x00000000,
    0x00000000, 0xe17ff0ef, 0x00000000, 0x00000000, 0x00000000, 0xe37ff0ef, 0x00000000, 0x00000000,
    0x00000000, 0xe19ff0ef, 0x00000000, 0x00000000, 0x00000000, 0xe39ff0ef, 0x00000000, 0x00000000,
    0x00000000, 0xe1bff0ef, 0x00000000, 0x00000000, 0x00000000, 0xe3bff0ef, 0x00000000, 0x00000000,
    0x00000000, 0xe1dff0ef, 0x00000000, 0x00000000, 0x00000000, 0xe3dff0ef, 0x00000000, 0x00000000,
    0x00000000, 0xe1fff0ef, 0x00000000, 0x00000000, 0x00000000, 0xe3fff0ef, 0x00000000, 0x00000000,
    0x00000000, 0xe91ff0ef, 0x00000000, 0x00000000, 0x00000000, 0xeb1ff0ef, 0x00000000, 0x00000000,
    0x00000000, 0xe93ff0ef, 0x00000000, 0x00000000, 0x00000000, 0xeb3ff0ef, 0x00000000, 0x00000000,
    0x00000000, 0xe95ff0ef, 0x00000000, 0x00000000, 0x00000000, 0xeb5ff0ef, 0x00000000, 0x00000000,
    0x00000000, 0xe97ff0ef, 0x00000000, 0x00000000, 0x00000000, 0xeb7ff0ef, 0x00000000, 0x00000000,
    0x00000000, 0xe99ff0ef, 0x00000000, 0x00000000, 0x00000000, 0xeb9ff0ef, 0x00000000, 0x00000000,
    0x00000000, 0xe9bff0ef, 0x00000000, 0x00000000, 0x00000000, 0xebbff0ef, 0x00000000, 0x00000000,
    0x00000000, 0xe9dff0ef, 0x00000000, 0x00000000, 0x00000000, 0xebdff0ef, 0x00000000, 0x00000000,
    0x00000000, 0xe9fff0ef, 0x00000000, 0x00000000, 0x00000000, 0xebfff0ef, 0x00000000, 0x00000000]"

definition decomp16_123 :: "u32 list" where
  "decomp16_123 = [
    0x00000000, 0xe51ff0ef, 0x00000000, 0x00000000, 0x00000000, 0xe71ff0ef, 0x00000000, 0x00000000,
    0x00000000, 0xe53ff0ef, 0x00000000, 0x00000000, 0x00000000, 0xe73ff0ef, 0x00000000, 0x00000000,
    0x00000000, 0xe55ff0ef, 0x00000000, 0x00000000, 0x00000000, 0xe75ff0ef, 0x00000000, 0x00000000,
    0x00000000, 0xe57ff0ef, 0x00000000, 0x00000000, 0x00000000, 0xe77ff0ef, 0x00000000, 0x00000000,
    0x00000000, 0xe59ff0ef, 0x00000000, 0x00000000, 0x00000000, 0xe79ff0ef, 0x00000000, 0x00000000,
    0x00000000, 0xe5bff0ef, 0x00000000, 0x00000000, 0x00000000, 0xe7bff0ef, 0x00000000, 0x00000000,
    0x00000000, 0xe5dff0ef, 0x00000000, 0x00000000, 0x00000000, 0xe7dff0ef, 0x00000000, 0x00000000,
    0x00000000, 0xe5fff0ef, 0x00000000, 0x00000000, 0x00000000, 0xe7fff0ef, 0x00000000, 0x00000000,
    0x00000000, 0xed1ff0ef, 0x00000000, 0x00000000, 0x00000000, 0xef1ff0ef, 0x00000000, 0x00000000,
    0x00000000, 0xed3ff0ef, 0x00000000, 0x00000000, 0x00000000, 0xef3ff0ef, 0x00000000, 0x00000000,
    0x00000000, 0xed5ff0ef, 0x00000000, 0x00000000, 0x00000000, 0xef5ff0ef, 0x00000000, 0x00000000,
    0x00000000, 0xed7ff0ef, 0x00000000, 0x00000000, 0x00000000, 0xef7ff0ef, 0x00000000, 0x00000000,
    0x00000000, 0xed9ff0ef, 0x00000000, 0x00000000, 0x00000000, 0xef9ff0ef, 0x00000000, 0x00000000,
    0x00000000, 0xedbff0ef, 0x00000000, 0x00000000, 0x00000000, 0xefbff0ef, 0x00000000, 0x00000000,
    0x00000000, 0xeddff0ef, 0x00000000, 0x00000000, 0x00000000, 0xefdff0ef, 0x00000000, 0x00000000,
    0x00000000, 0xedfff0ef, 0x00000000, 0x00000000, 0x00000000, 0xeffff0ef, 0x00000000, 0x00000000]"

definition decomp16_124 :: "u32 list" where
  "decomp16_124 = [
    0x00000000, 0xb11ff0ef, 0x00000000, 0x00000000, 0x00000000, 0xb31ff0ef, 0x00000000, 0x00000000,
    0x00000000, 0xb13ff0ef, 0x00000000, 0x00000000, 0x00000000, 0xb33ff0ef, 0x00000000, 0x00000000,
    0x00000000, 0xb15ff0ef, 0x00000000, 0x00000000, 0x00000000, 0xb35ff0ef, 0x00000000, 0x00000000,
    0x00000000, 0xb17ff0ef, 0x00000000, 0x00000000, 0x00000000, 0xb37ff0ef, 0x00000000, 0x00000000,
    0x00000000, 0xb19ff0ef, 0x00000000, 0x00000000, 0x00000000, 0xb39ff0ef, 0x00000000, 0x00000000,
    0x00000000, 0xb1bff0ef, 0x00000000, 0x00000000, 0x00000000, 0xb3bff0ef, 0x00000000, 0x00000000,
    0x00000000, 0xb1dff0ef, 0x00000000, 0x00000000, 0x00000000, 0xb3dff0ef, 0x00000000, 0x00000000,
    0x00000000, 0xb1fff0ef, 0x00000000, 0x00000000, 0x00000000, 0xb3fff0ef, 0x00000000, 0x00000000,
    0x00000000, 0xb91ff0ef, 0x00000000, 0x00000000, 0x00000000, 0xbb1ff0ef, 0x00000000, 0x00000000,
    0x00000000, 0xb93ff0ef, 0x00000000, 0x00000000, 0x00000000, 0xbb3ff0ef, 0x00000000, 0x00000000,
    0x00000000, 0xb95ff0ef, 0x00000000, 0x00000000, 0x00000000, 0xbb5ff0ef, 0x00000000, 0x00000000,
    0x00000000, 0xb97ff0ef, 0x00000000, 0x00000000, 0x00000000, 0xbb7ff0ef, 0x00000000, 0x00000000,
    0x00000000, 0xb99ff0ef, 0x00000000, 0x00000000, 0x00000000, 0xbb9ff0ef, 0x00000000, 0x00000000,
    0x00000000, 0xb9bff0ef, 0x00000000, 0x00000000, 0x00000000, 0xbbbff0ef, 0x00000000, 0x00000000,
    0x00000000, 0xb9dff0ef, 0x00000000, 0x00000000, 0x00000000, 0xbbdff0ef, 0x00000000, 0x00000000,
    0x00000000, 0xb9fff0ef, 0x00000000, 0x00000000, 0x00000000, 0xbbfff0ef, 0x00000000, 0x00000000]"

definition decomp16_125 :: "u32 list" where
  "decomp16_125 = [
    0x00000000, 0xb51ff0ef, 0x00000000, 0x00000000, 0x00000000, 0xb71ff0ef, 0x00000000, 0x00000000,
    0x00000000, 0xb53ff0ef, 0x00000000, 0x00000000, 0x00000000, 0xb73ff0ef, 0x00000000, 0x00000000,
    0x00000000, 0xb55ff0ef, 0x00000000, 0x00000000, 0x00000000, 0xb75ff0ef, 0x00000000, 0x00000000,
    0x00000000, 0xb57ff0ef, 0x00000000, 0x00000000, 0x00000000, 0xb77ff0ef, 0x00000000, 0x00000000,
    0x00000000, 0xb59ff0ef, 0x00000000, 0x00000000, 0x00000000, 0xb79ff0ef, 0x00000000, 0x00000000,
    0x00000000, 0xb5bff0ef, 0x00000000, 0x00000000, 0x00000000, 0xb7bff0ef, 0x00000000, 0x00000000,
    0x00000000, 0xb5dff0ef, 0x00000000, 0x00000000, 0x00000000, 0xb7dff0ef, 0x00000000, 0x00000000,
    0x00000000, 0xb5fff0ef, 0x00000000, 0x00000000, 0x00000000, 0xb7fff0ef, 0x00000000, 0x00000000,
    0x00000000, 0xbd1ff0ef, 0x00000000, 0x00000000, 0x00000000, 0xbf1ff0ef, 0x00000000, 0x00000000,
    0x00000000, 0xbd3ff0ef, 0x00000000, 0x00000000, 0x00000000, 0xbf3ff0ef, 0x00000000, 0x00000000,
    0x00000000, 0xbd5ff0ef, 0x00000000, 0x00000000, 0x00000000, 0xbf5ff0ef, 0x00000000, 0x00000000,
    0x00000000, 0xbd7ff0ef, 0x00000000, 0x00000000, 0x00000000, 0xbf7ff0ef, 0x00000000, 0x00000000,
    0x00000000, 0xbd9ff0ef, 0x00000000, 0x00000000, 0x00000000, 0xbf9ff0ef, 0x00000000, 0x00000000,
    0x00000000, 0xbdbff0ef, 0x00000000, 0x00000000, 0x00000000, 0xbfbff0ef, 0x00000000, 0x00000000,
    0x00000000, 0xbddff0ef, 0x00000000, 0x00000000, 0x00000000, 0xbfdff0ef, 0x00000000, 0x00000000,
    0x00000000, 0xbdfff0ef, 0x00000000, 0x00000000, 0x00000000, 0xbffff0ef, 0x00000000, 0x00000000]"

definition decomp16_126 :: "u32 list" where
  "decomp16_126 = [
    0x00000000, 0xf11ff0ef, 0x00000000, 0x00000000, 0x00000000, 0xf31ff0ef, 0x00000000, 0x00000000,
    0x00000000, 0xf13ff0ef, 0x00000000, 0x00000000, 0x00000000, 0xf33ff0ef, 0x00000000, 0x00000000,
    0x00000000, 0xf15ff0ef, 0x00000000, 0x00000000, 0x00000000, 0xf35ff0ef, 0x00000000, 0x00000000,
    0x00000000, 0xf17ff0ef, 0x00000000, 0x00000000, 0x00000000, 0xf37ff0ef, 0x00000000, 0x00000000,
    0x00000000, 0xf19ff0ef, 0x00000000, 0x00000000, 0x00000000, 0xf39ff0ef, 0x00000000, 0x00000000,
    0x00000000, 0xf1bff0ef, 0x00000000, 0x00000000, 0x00000000, 0xf3bff0ef, 0x00000000, 0x00000000,
    0x00000000, 0xf1dff0ef, 0x00000000, 0x00000000, 0x00000000, 0xf3dff0ef, 0x00000000, 0x00000000,
    0x00000000, 0xf1fff0ef, 0x00000000, 0x00000000, 0x00000000, 0xf3fff0ef, 0x00000000, 0x00000000,
    0x00000000, 0xf91ff0ef, 0x00000000, 0x00000000, 0x00000000, 0xfb1ff0ef, 0x00000000, 0x00000000,
    0x00000000, 0xf93ff0ef, 0x00000000, 0x00000000, 0x00000000, 0xfb3ff0ef, 0x00000000, 0x00000000,
    0x00000000, 0xf95ff0ef, 0x00000000, 0x00000000, 0x00000000, 0xfb5ff0ef, 0x00000000, 0x00000000,
    0x00000000, 0xf97ff0ef, 0x00000000, 0x00000000, 0x00000000, 0xfb7ff0ef, 0x00000000, 0x00000000,
    0x00000000, 0xf99ff0ef, 0x00000000, 0x00000000, 0x00000000, 0xfb9ff0ef, 0x00000000, 0x00000000,
    0x00000000, 0xf9bff0ef, 0x00000000, 0x00000000, 0x00000000, 0xfbbff0ef, 0x00000000, 0x00000000,
    0x00000000, 0xf9dff0ef, 0x00000000, 0x00000000, 0x00000000, 0xfbdff0ef, 0x00000000, 0x00000000,
    0x00000000, 0xf9fff0ef, 0x00000000, 0x00000000, 0x00000000, 0xfbfff0ef, 0x00000000, 0x00000000]"

definition decomp16_127 :: "u32 list" where
  "decomp16_127 = [
    0x00000000, 0xf51ff0ef, 0x00000000, 0x00000000, 0x00000000, 0xf71ff0ef, 0x00000000, 0x00000000,
    0x00000000, 0xf53ff0ef, 0x00000000, 0x00000000, 0x00000000, 0xf73ff0ef, 0x00000000, 0x00000000,
    0x00000000, 0xf55ff0ef, 0x00000000, 0x00000000, 0x00000000, 0xf75ff0ef, 0x00000000, 0x00000000,
    0x00000000, 0xf57ff0ef, 0x00000000, 0x00000000, 0x00000000, 0xf77ff0ef, 0x00000000, 0x00000000,
    0x00000000, 0xf59ff0ef, 0x00000000, 0x00000000, 0x00000000, 0xf79ff0ef, 0x00000000, 0x00000000,
    0x00000000, 0xf5bff0ef, 0x00000000, 0x00000000, 0x00000000, 0xf7bff0ef, 0x00000000, 0x00000000,
    0x00000000, 0xf5dff0ef, 0x00000000, 0x00000000, 0x00000000, 0xf7dff0ef, 0x00000000, 0x00000000,
    0x00000000, 0xf5fff0ef, 0x00000000, 0x00000000, 0x00000000, 0xf7fff0ef, 0x00000000, 0x00000000,
    0x00000000, 0xfd1ff0ef, 0x00000000, 0x00000000, 0x00000000, 0xff1ff0ef, 0x00000000, 0x00000000,
    0x00000000, 0xfd3ff0ef, 0x00000000, 0x00000000, 0x00000000, 0xff3ff0ef, 0x00000000, 0x00000000,
    0x00000000, 0xfd5ff0ef, 0x00000000, 0x00000000, 0x00000000, 0xff5ff0ef, 0x00000000, 0x00000000,
    0x00000000, 0xfd7ff0ef, 0x00000000, 0x00000000, 0x00000000, 0xff7ff0ef, 0x00000000, 0x00000000,
    0x00000000, 0xfd9ff0ef, 0x00000000, 0x00000000, 0x00000000, 0xff9ff0ef, 0x00000000, 0x00000000,
    0x00000000, 0xfdbff0ef, 0x00000000, 0x00000000, 0x00000000, 0xffbff0ef, 0x00000000, 0x00000000,
    0x00000000, 0xfddff0ef, 0x00000000, 0x00000000, 0x00000000, 0xffdff0ef, 0x00000000, 0x00000000,
    0x00000000, 0xfdfff0ef, 0x00000000, 0x00000000, 0x00000000, 0xfffff0ef, 0x00000000, 0x00000000]"

definition decomp16_block_1 :: "u32 list list" where
  "decomp16_block_1 = [
    decomp16_064, decomp16_065, decomp16_066, decomp16_067, decomp16_068, decomp16_069,
    decomp16_070, decomp16_071, decomp16_072, decomp16_073, decomp16_074, decomp16_075,
    decomp16_076, decomp16_077, decomp16_078, decomp16_079, decomp16_080, decomp16_081,
    decomp16_082, decomp16_083, decomp16_084, decomp16_085, decomp16_086, decomp16_087,
    decomp16_088, decomp16_089, decomp16_090, decomp16_091, decomp16_092, decomp16_093,
    decomp16_094, decomp16_095, decomp16_096, decomp16_097, decomp16_098, decomp16_099,
    decomp16_100, decomp16_101, decomp16_102, decomp16_103, decomp16_104, decomp16_105,
    decomp16_106, decomp16_107, decomp16_108, decomp16_109, decomp16_110, decomp16_111,
    decomp16_112, decomp16_113, decomp16_114, decomp16_115, decomp16_116, decomp16_117,
    decomp16_118, decomp16_119, decomp16_120, decomp16_121, decomp16_122, decomp16_123,
    decomp16_124, decomp16_125, decomp16_126, decomp16_127]"

lemma rows_064:
  "chunk 64 = decomp16_064"
  "chunk 65 = decomp16_065"
  "chunk 66 = decomp16_066"
  "chunk 67 = decomp16_067"
  "chunk 68 = decomp16_068"
  "chunk 69 = decomp16_069"
  "chunk 70 = decomp16_070"
  "chunk 71 = decomp16_071"
  by (simp_all add: chunk_eval
    decomp16_064_def decomp16_065_def decomp16_066_def decomp16_067_def decomp16_068_def
    decomp16_069_def decomp16_070_def decomp16_071_def)

lemma rows_072:
  "chunk 72 = decomp16_072"
  "chunk 73 = decomp16_073"
  "chunk 74 = decomp16_074"
  "chunk 75 = decomp16_075"
  "chunk 76 = decomp16_076"
  "chunk 77 = decomp16_077"
  "chunk 78 = decomp16_078"
  "chunk 79 = decomp16_079"
  by (simp_all add: chunk_eval
    decomp16_072_def decomp16_073_def decomp16_074_def decomp16_075_def decomp16_076_def
    decomp16_077_def decomp16_078_def decomp16_079_def)

lemma rows_080:
  "chunk 80 = decomp16_080"
  "chunk 81 = decomp16_081"
  "chunk 82 = decomp16_082"
  "chunk 83 = decomp16_083"
  "chunk 84 = decomp16_084"
  "chunk 85 = decomp16_085"
  "chunk 86 = decomp16_086"
  "chunk 87 = decomp16_087"
  by (simp_all add: chunk_eval
    decomp16_080_def decomp16_081_def decomp16_082_def decomp16_083_def decomp16_084_def
    decomp16_085_def decomp16_086_def decomp16_087_def)

lemma rows_088:
  "chunk 88 = decomp16_088"
  "chunk 89 = decomp16_089"
  "chunk 90 = decomp16_090"
  "chunk 91 = decomp16_091"
  "chunk 92 = decomp16_092"
  "chunk 93 = decomp16_093"
  "chunk 94 = decomp16_094"
  "chunk 95 = decomp16_095"
  by (simp_all add: chunk_eval
    decomp16_088_def decomp16_089_def decomp16_090_def decomp16_091_def decomp16_092_def
    decomp16_093_def decomp16_094_def decomp16_095_def)

lemma rows_096:
  "chunk 96 = decomp16_096"
  "chunk 97 = decomp16_097"
  "chunk 98 = decomp16_098"
  "chunk 99 = decomp16_099"
  "chunk 100 = decomp16_100"
  "chunk 101 = decomp16_101"
  "chunk 102 = decomp16_102"
  "chunk 103 = decomp16_103"
  by (simp_all add: chunk_eval
    decomp16_096_def decomp16_097_def decomp16_098_def decomp16_099_def decomp16_100_def
    decomp16_101_def decomp16_102_def decomp16_103_def)

lemma rows_104:
  "chunk 104 = decomp16_104"
  "chunk 105 = decomp16_105"
  "chunk 106 = decomp16_106"
  "chunk 107 = decomp16_107"
  "chunk 108 = decomp16_108"
  "chunk 109 = decomp16_109"
  "chunk 110 = decomp16_110"
  "chunk 111 = decomp16_111"
  by (simp_all add: chunk_eval
    decomp16_104_def decomp16_105_def decomp16_106_def decomp16_107_def decomp16_108_def
    decomp16_109_def decomp16_110_def decomp16_111_def)

lemma rows_112:
  "chunk 112 = decomp16_112"
  "chunk 113 = decomp16_113"
  "chunk 114 = decomp16_114"
  "chunk 115 = decomp16_115"
  "chunk 116 = decomp16_116"
  "chunk 117 = decomp16_117"
  "chunk 118 = decomp16_118"
  "chunk 119 = decomp16_119"
  by (simp_all add: chunk_eval
    decomp16_112_def decomp16_113_def decomp16_114_def decomp16_115_def decomp16_116_def
    decomp16_117_def decomp16_118_def decomp16_119_def)

lemma rows_120:
  "chunk 120 = decomp16_120"
  "chunk 121 = decomp16_121"
  "chunk 122 = decomp16_122"
  "chunk 123 = decomp16_123"
  "chunk 124 = decomp16_124"
  "chunk 125 = decomp16_125"
  "chunk 126 = decomp16_126"
  "chunk 127 = decomp16_127"
  by (simp_all add: chunk_eval
    decomp16_120_def decomp16_121_def decomp16_122_def decomp16_123_def decomp16_124_def
    decomp16_125_def decomp16_126_def decomp16_127_def)

lemma block_1: "chunks_from 64 decomp16_block_1"
  by (simp add: decomp16_block_1_def
    rows_064 rows_072 rows_080 rows_088 rows_096 rows_104 rows_112 rows_120 del: One_nat_def)

end
