(* ===== verification/Decomp16_Rows_3.thy ===== *)
theory Decomp16_Rows_3
  imports Decomp16_Lines
begin

text \<open>
  The rows 0x6000 to 0x7fff of \<open>decomp16_table\<close>, as they stand in \<open>src/decomp16.cpp\<close>, 128 to a
  definition, and their comparison with the chunks of theory \<open>Decomp16_Lines\<close>.
\<close>

definition decomp16_192 :: "u32 list" where
  "decomp16_192 = [
    0x00000000, 0x00000000, 0x00000000, 0x00000000, 0x00000000, 0x00000000, 0x00000000, 0x00000000,
    0x00000000, 0x00000000, 0x00000000, 0x00000000, 0x00000000, 0x00000000, 0x00000000, 0x00000000,
    0x00000000, 0x00000000, 0x00000000, 0x00000000, 0x00000000, 0x00000000, 0x00000000, 0x00000000,
    0x00000000, 0x00000000, 0x00000000, 0x00000000, 0x00000000, 0x00000000, 0x00000000, 0x00000000,
    0x00000000, 0x00000000, 0x00000000, 0x00000000, 0x00000000, 0x00000000, 0x00000000, 0x00000000,
    0x00000000, 0x00000000, 0x00000000, 0x00000000, 0x00000000, 0x00000000, 0x00000000, 0x00000000,
    0x00000000, 0x00000000, 0x00000000, 0x00000000, 0x00000000, 0x00000000, 0x00000000, 0x00000000,
    0x00000000, 0x00000000, 0x00000000, 0x00000000, 0x00000000, 0x00000000, 0x00000000, 0x00000000,
    0x00000000, 0x00000000, 0x00000000, 0x00000000, 0x00000000, 0x00000000, 0x00000000, 0x00000000,
    0x00000000, 0x00000000, 0x00000000, 0x00000000, 0x00000000, 0x00000000, 0x00000000, 0x00000000,
    0x00000000, 0x00000000, 0x00000000, 0x00000000, 0x00000000, 0x00000000, 0x00000000, 0x00000000,
    0x00000000, 0x00000000, 0x00000000, 0x00000000, 0x00000000, 0x00000000, 0x00000000, 0x00000000,
    0x00000000, 0x00000000, 0x00000000, 0x00000000, 0x00000000, 0x00000000, 0x00000000, 0x00000000,
    0x00000000, 0x00000000, 0x00000000, 0x00000000, 0x00000000, 0x00000000, 0x00000000, 0x00000000,
    0x00000000, 0x00000000, 0x00000000, 0x00000000, 0x00000000, 0x00000000, 0x00000000, 0x00000000,
    0x00000000, 0x00000000, 0x00000000, 0x00000000, 0x00000000, 0x00000000, 0x00000000, 0x00000000]"

definition decomp16_193 :: "u32 list" where
  "decomp16_193 = [
    0x00000000, 0x00000000, 0x00000000, 0x00000000, 0x00000000, 0x000010b7, 0x00000000, 0x00000000,
    0x00000000, 0x000020b7, 0x00000000, 0x00000000, 0x00000000, 0x000030b7, 0x00000000, 0x00000000,
    0x00000000, 0x000040b7, 0x00000000, 0x00000000, 0x00000000, 0x000050b7, 0x00000000, 0x00000000,
    0x00000000, 0x000060b7, 0x00000000, 0x00000000, 0x00000000, 0x000070b7, 0x00000000, 0x00000000,
    0x00000000, 0x000080b7, 0x00000000, 0x00000000, 0x00000000, 0x000090b7, 0x00000000, 0x00000000,
    0x00000000, 0x0000a0b7, 0x00000000, 0x00000000, 0x00000000, 0x0000b0b7, 0x00000000, 0x00000000,
    0x00000000, 0x0000c0b7, 0x00000000, 0x00000000, 0x00000000, 0x0000d0b7, 0x00000000, 0x00000000,
    0x00000000, 0x0000e0b7, 0x00000000, 0x00000000, 0x00000000, 0x0000f0b7, 0x00000000, 0x00000000,
    0x00000000, 0x000100b7, 0x00000000, 0x00000000, 0x00000000, 0x000110b7, 0x00000000, 0x00000000,
    0x00000000, 0x000120b7, 0x00000000, 0x00000000, 0x00000000, 0x000130b7, 0x00000000, 0x00000000,
    0x00000000, 0x000140b7, 0x00000000, 0x00000000, 0x00000000, 0x000150b7, 0x00000000, 0x00000000,
    0x00000000, 0x000160b7, 0x00000000, 0x00000000, 0x00000000, 0x000170b7, 0x00000000, 0x00000000,
    0x00000000, 0x000180b7, 0x00000000, 0x00000000, 0x00000000, 0x000190b7, 0x00000000, 0x00000000,
    0x00000000, 0x0001a0b7, 0x00000000, 0x00000000, 0x00000000, 0x0001b0b7, 0x00000000, 0x00000000,
    0x00000000, 0x0001c0b7, 0x00000000, 0x00000000, 0x00000000, 0x0001d0b7, 0x00000000, 0x00000000,
    0x00000000, 0x0001e0b7, 0x00000000, 0x00000000, 0x00000000, 0x0001f0b7, 0x00000000, 0x00000000]"

definition decomp16_194 :: "u32 list" where
  "decomp16_194 = [
    0x00000000, 0x00000000, 0x00000000, 0x00000000, 0x00000000, 0x02010113, 0x00000000, 0x00000000,
    0x00000000, 0x08010113, 0x00000000, 0x00000000, 0x00000000, 0x0a010113, 0x00000000, 0x00000000,
    0x00000000, 0x10010113, 0x00000000, 0x00000000, 0x00000000, 0x12010113, 0x00000000, 0x00000000,
    0x00000000, 0x18010113, 0x00000000, 0x00000000, 0x00000000, 0x1a010113, 0x00000000, 0x00000000,
    0x00000000, 0x04010113, 0x00000000, 0x00000000, 0x00000000, 0x06010113, 0x00000000, 0x00000000,
    0x00000000, 0x0c010113, 0x00000000, 0x00000000, 0x00000000, 0x0e010113, 0x00000000, 0x00000000,
    0x00000000, 0x14010113, 0x00000000, 0x00000000, 0x00000000, 0x16010113, 0x00000000, 0x00000000,
    0x00000000, 0x1c010113, 0x00000000, 0x00000000, 0x00000000, 0x1e010113, 0x00000000, 0x00000000,
    0x00000000, 0x01010113, 0x00000000, 0x00000000, 0x00000000, 0x03010113, 0x00000000, 0x00000000,
    0x00000000, 0x09010113, 0x00000000, 0x00000000, 0x00000000, 0x0b010113, 0x00000000, 0x00000000,
    0x00000000, 0x11010113, 0x00000000, 0x00000000, 0x00000000, 0x13010113, 0x00000000, 0x00000000,
    0x00000000, 0x19010113, 0x00000000, 0x00000000, 0x00000000, 0x1b010113, 0x00000000, 0x00000000,
    0x00000000, 0x05010113, 0x00000000, 0x00000000, 0x00000000, 0x07010113, 0x00000000, 0x00000000,
    0x00000000, 0x0d010113, 0x00000000, 0x00000000, 0x00000000, 0x0f010113, 0x00000000, 0x00000000,
    0x00000000, 0x15010113, 0x00000000, 0x00000000, 0x00000000, 0x17010113, 0x00000000, 0x00000000,
    0x00000000, 0x1d010113, 0x00000000, 0x00000000, 0x00000000, 0x1f010113, 0x00000000, 0x00000000]"

definition decomp16_195 :: "u32 list" where
  "decomp16_195 = [
    0x00000000, 0x00000000, 0x00000000, 0x00000000, 0x00000000, 0x000011b7, 0x00000000, 0x00000000,
    0x00000000, 0x000021b7, 0x00000000, 0x00000000, 0x00000000, 0x000031b7, 0x00000000, 0x00000000,
    0x00000000, 0x000041b7, 0x00000000, 0x00000000, 0x00000000, 0x000051b7, 0x00000000, 0x00000000,
    0x00000000, 0x000061b7, 0x00000000, 0x00000000, 0x00000000, 0x000071b7, 0x00000000, 0x00000000,
    0x00000000, 0x000081b7, 0x00000000, 0x00000000, 0x00000000, 0x000091b7, 0x00000000, 0x00000000,
    0x00000000, 0x0000a1b7, 0x00000000, 0x00000000, 0x00000000, 0x0000b1b7, 0x00000000, 0x00000000,
    0x00000000, 0x0000c1b7, 0x00000000, 0x00000000, 0x00000000, 0x0000d1b7, 0x00000000, 0x00000000,
    0x00000000, 0x0000e1b7, 0x00000000, 0x00000000, 0x00000000, 0x0000f1b7, 0x00000000, 0x00000000,
    0x00000000, 0x000101b7, 0x00000000, 0x00000000, 0x00000000, 0x000111b7, 0x00000000, 0x00000000,
    0x00000000, 0x000121b7, 0x00000000, 0x00000000, 0x00000000, 0x000131b7, 0x00000000, 0x00000000,
    0x00000000, 0x000141b7, 0x00000000, 0x00000000, 0x00000000, 0x000151b7, 0x00000000, 0x00000000,
    0x00000000, 0x000161b7, 0x00000000, 0x00000000, 0x00000000, 0x000171b7, 0x00000000, 0x00000000,
    0x00000000, 0x000181b7, 0x00000000, 0x00000000, 0x00000000, 0x000191b7, 0x00000000, 0x00000000,
    0x00000000, 0x0001a1b7, 0x00000000, 0x00000000, 0x00000000, 0x0001b1b7, 0x00000000, 0x00000000,
    0x00000000, 0x0001c1b7, 0x00000000, 0x00000000, 0x00000000, 0x0001d1b7, 0x00000000, 0x00000000,
    0x00000000, 0x0001e1b7, 0x00000000, 0x00000000, 0x00000000, 0x0001f1b7, 0x00000000, 0x00000000]"

definition decomp16_196 :: "u32 list" where
  "decomp16_196 = [
    0x00000000, 0x00000000, 0x00000000, 0x00000000, 0x00000000, 0x00001237, 0x00000000, 0x00000000,
    0x00000000, 0x00002237, 0x00000000, 0x00000000, 0x00000000, 0x00003237, 0x00000000, 0x00000000,
    0x00000000, 0x00004237, 0x00000000, 0x00000000, 0x00000000, 0x00005237, 0x00000000, 0x00000000,
    0x00000000, 0x00006237, 0x00000000, 0x00000000, 0x00000000, 0x00007237, 0x00000000, 0x00000000,
    0x00000000, 0x00008237, 0x00000000, 0x00000000, 0x00000000, 0x00009237, 0x00000000, 0x00000000,
    0x00000000, 0x0000a237, 0x00000000, 0x00000000, 0x00000000, 0x0000b237, 0x00000000, 0x00000000,
    0x00000000, 0x0000c237, 0x00000000, 0x00000000, 0x00000000, 0x0000d237, 0x00000000, 0x00000000,
    0x00000000, 0x0000e237, 0x00000000, 0x00000000, 0x00000000, 0x0000f237, 0x00000000, 0x00000000,
    0x00000000, 0x00010237, 0x00000000, 0x00000000, 0x00000000, 0x00011237, 0x00000000, 0x00000000,
    0x00000000, 0x00012237, 0x00000000, 0x00000000, 0x00000000, 0x00013237, 0x00000000, 0x00000000,
    0x00000000, 0x00014237, 0x00000000, 0x00000000, 0x00000000, 0x00015237, 0x00000000, 0x00000000,
    0x00000000, 0x00016237, 0x00000000, 0x00000000, 0x00000000, 0x00017237, 0x00000000, 0x00000000,
    0x00000000, 0x00018237, 0x00000000, 0x00000000, 0x00000000, 0x00019237, 0x00000000, 0x00000000,
    0x00000000, 0x0001a237, 0x00000000, 0x00000000, 0x00000000, 0x0001b237, 0x00000000, 0x00000000,
    0x00000000, 0x0001c237, 0x00000000, 0x00000000, 0x00000000, 0x0001d237, 0x00000000, 0x00000000,
    0x00000000, 0x0001e237, 0x00000000, 0x00000000, 0x00000000, 0x0001f237, 0x00000000, 0x00000000]"

definition decomp16_197 :: "u32 list" where
  "decomp16_197 = [
    0x00000000, 0x00000000, 0x00000000, 0x00000000, 0x00000000, 0x000012b7, 0x00000000, 0x00000000,
    0x00000000, 0x000022b7, 0x00000000, 0x00000000, 0x00000000, 0x000032b7, 0x00000000, 0x00000000,
    0x00000000, 0x000042b7, 0x00000000, 0x00000000, 0x00000000, 0x000052b7, 0x00000000, 0x00000000,
    0x00000000, 0x000062b7, 0x00000000, 0x00000000, 0x00000000, 0x000072b7, 0x00000000, 0x00000000,
    0x00000000, 0x000082b7, 0x00000000, 0x00000000, 0x00000000, 0x000092b7, 0x00000000, 0x00000000,
    0x00000000, 0x0000a2b7, 0x00000000, 0x00000000, 0x00000000, 0x0000b2b7, 0x00000000, 0x00000000,
    0x00000000, 0x0000c2b7, 0x00000000, 0x00000000, 0x00000000, 0x0000d2b7, 0x00000000, 0x00000000,
    0x00000000, 0x0000e2b7, 0x00000000, 0x00000000, 0x00000000, 0x0000f2b7, 0x00000000, 0x00000000,
    0x00000000, 0x000102b7, 0x00000000, 0x00000000, 0x00000000, 0x000112b7, 0x00000000, 0x00000000,
    0x00000000, 0x000122b7, 0x00000000, 0x00000000, 0x00000000, 0x000132b7, 0x00000000, 0x00000000,
    0x00000000, 0x000142b7, 0x00000000, 0x00000000, 0x00000000, 0x000152b7, 0x00000000, 0x00000000,
    0x00000000, 0x000162b7, 0x00000000, 0x00000000, 0x00000000, 0x000172b7, 0x00000000, 0x00000000,
    0x00000000, 0x000182b7, 0x00000000, 0x00000000, 0x00000000, 0x000192b7, 0x00000000, 0x00000000,
    0x00000000, 0x0001a2b7, 0x00000000, 0x00000000, 0x00000000, 0x0001b2b7, 0x00000000, 0x00000000,
    0x00000000, 0x0001c2b7, 0x00000000, 0x00000000, 0x00000000, 0x0001d2b7, 0x00000000, 0x00000000,
    0x00000000, 0x0001e2b7, 0x00000000, 0x00000000, 0x00000000, 0x0001f2b7, 0x00000000, 0x00000000]"

definition decomp16_198 :: "u32 list" where
  "decomp16_198 = [
    0x00000000, 0x00000000, 0x00000000, 0x00000000, 0x00000000, 0x00001337, 0x00000000, 0x00000000,
    0x00000000, 0x00002337, 0x00000000, 0x00000000, 0x00000000, 0x00003337, 0x00000000, 0x00000000,
    0x00000000, 0x00004337, 0x00000000, 0x00000000, 0x00000000, 0x00005337, 0x00000000, 0x00000000,
    0x00000000, 0x00006337, 0x00000000, 0x00000000, 0x00000000, 0x00007337, 0x00000000, 0x00000000,
    0x00000000, 0x00008337, 0x00000000, 0x00000000, 0x00000000, 0x00009337, 0x00000000, 0x00000000,
    0x00000000, 0x0000a337, 0x00000000, 0x00000000, 0x00000000, 0x0000b337, 0x00000000, 0x00000000,
    0x00000000, 0x0000c337, 0x00000000, 0x00000000, 0x00000000, 0x0000d337, 0x00000000, 0x00000000,
    0x00000000, 0x0000e337, 0x00000000, 0x00000000, 0x00000000, 0x0000f337, 0x00000000, 0x00000000,
    0x00000000, 0x00010337, 0x00000000, 0x00000000, 0x00000000, 0x00011337, 0x00000000, 0x00000000,
    0x00000000, 0x00012337, 0x00000000, 0x00000000, 0x00000000, 0x00013337, 0x00000000, 0x00000000,
    0x00000000, 0x00014337, 0x00000000, 0x00000000, 0x00000000, 0x00015337, 0x00000000, 0x00000000,
    0x00000000, 0x00016337, 0x00000000, 0x00000000, 0x00000000, 0x00017337, 0x00000000, 0x00000000,
    0x00000000, 0x00018337, 0x00000000, 0x00000000, 0x00000000, 0x00019337, 0x00000000, 0x00000000,
    0x00000000, 0x0001a337, 0x00000000, 0x00000000, 0x00000000, 0x0001b337, 0x00000000, 0x00000000,
    0x00000000, 0x0001c337, 0x00000000, 0x00000000, 0x00000000, 0x0001d337, 0x00000000, 0x00000000,
    0x00000000, 0x0001e337, 0x00000000, 0x00000000, 0x00000000, 0x0001f337, 0x00000000, 0x00000000]"

definition decomp16_199 :: "u32 list" where
  "decomp16_199 = [
    0x00000000, 0x00000000, 0x00000000, 0x00000000, 0x00000000, 0x000013b7, 0x00000000, 0x00000000,
    0x00000000, 0x000023b7, 0x00000000, 0x00000000, 0x00000000, 0x000033b7, 0x00000000, 0x00000000,
    0x00000000, 0x000043b7, 0x00000000, 0x00000000, 0x00000000, 0x000053b7, 0x00000000, 0x00000000,
    0x00000000, 0x000063b7, 0x00000000, 0x00000000, 0x00000000, 0x000073b7, 0x00000000, 0x00000000,
    0x00000000, 0x000083b7, 0x00000000, 0x00000000, 0x00000000, 0x000093b7, 0x00000000, 0x00000000,
    0x00000000, 0x0000a3b7, 0x00000000, 0x00000000, 0x00000000, 0x0000b3b7, 0x00000000, 0x00000000,
    0x00000000, 0x0000c3b7, 0x00000000, 0x00000000, 0x00000000, 0x0000d3b7, 0x00000000, 0x00000000,
    0x00000000, 0x0000e3b7, 0x00000000, 0x00000000, 0x00000000, 0x0000f3b7, 0x00000000, 0x00000000,
    0x00000000, 0x000103b7, 0x00000000, 0x00000000, 0x00000000, 0x000113b7, 0x00000000, 0x00000000,
    0x00000000, 0x000123b7, 0x00000000, 0x00000000, 0x00000000, 0x000133b7, 0x00000000, 0x00000000,
    0x00000000, 0x000143b7, 0x00000000, 0x00000000, 0x00000000, 0x000153b7, 0x00000000, 0x00000000,
    0x00000000, 0x000163b7, 0x00000000, 0x00000000, 0x00000000, 0x000173b7, 0x00000000, 0x00000000,
    0x00000000, 0x000183b7, 0x00000000, 0x00000000, 0x00000000, 0x000193b7, 0x00000000, 0x00000000,
    0x00000000, 0x0001a3b7, 0x00000000, 0x00000000, 0x00000000, 0x0001b3b7, 0x00000000, 0x00000000,
    0x00000000, 0x0001c3b7, 0x00000000, 0x00000000, 0x00000000, 0x0001d3b7, 0x00000000, 0x00000000,
    0x00000000, 0x0001e3b7, 0x00000000, 0x00000000, 0x00000000, 0x0001f3b7, 0x00000000, 0x00000000]"

definition decomp16_200 :: "u32 list" where
  "decomp16_200 = [
    0x00000000, 0x00000000, 0x00000000, 0x00000000, 0x00000000, 0x00001437, 0x00000000, 0x00000000,
    0x00000000, 0x00002437, 0x00000000, 0x00000000, 0x00000000, 0x00003437, 0x00000000, 0x00000000,
    0x00000000, 0x00004437, 0x00000000, 0x00000000, 0x00000000, 0x00005437, 0x00000000, 0x00000000,
    0x00000000, 0x00006437, 0x00000000, 0x00000000, 0x00000000, 0x00007437, 0x00000000, 0x00000000,
    0x00000000, 0x00008437, 0x00000000, 0x00000000, 0x00000000, 0x00009437, 0x00000000, 0x00000000,
    0x00000000, 0x0000a437, 0x00000000, 0x00000000, 0x00000000, 0x0000b437, 0x00000000, 0x00000000,
    0x00000000, 0x0000c437, 0x00000000, 0x00000000, 0x00000000, 0x0000d437, 0x00000000, 0x00000000,
    0x00000000, 0x0000e437, 0x00000000, 0x00000000, 0x00000000, 0x0000f437, 0x00000000, 0x00000000,
    0x00000000, 0x00010437, 0x00000000, 0x00000000, 0x00000000, 0x00011437, 0x00000000, 0x00000000,
    0x00000000, 0x00012437, 0x00000000, 0x00000000, 0x00000000, 0x00013437, 0x00000000, 0x00000000,
    0x00000000, 0x00014437, 0x00000000, 0x00000000, 0x00000000, 0x00015437, 0x00000000, 0x00000000,
    0x00000000, 0x00016437, 0x00000000, 0x00000000, 0x00000000, 0x00017437, 0x00000000, 0x00000000,
    0x00000000, 0x00018437, 0x00000000, 0x00000000, 0x00000000, 0x00019437, 0x00000000, 0x00000000,
    0x00000000, 0x0001a437, 0x00000000, 0x00000000, 0x00000000, 0x0001b437, 0x00000000, 0x00000000,
    0x00000000, 0x0001c437, 0x00000000, 0x00000000, 0x00000000, 0x0001d437, 0x00000000, 0x00000000,
    0x00000000, 0x0001e437, 0x00000000, 0x00000000, 0x00000000, 0x0001f437, 0x00000000, 0x00000000]"

definition decomp16_201 :: "u32 list" where
  "decomp16_201 = [
    0x00000000, 0x00000000, 0x00000000, 0x00000000, 0x00000000, 0x000014b7, 0x00000000, 0x00000000,
    0x00000000, 0x000024b7, 0x00000000, 0x00000000, 0x00000000, 0x000034b7, 0x00000000, 0x00000000,
    0x00000000, 0x000044b7, 0x00000000, 0x00000000, 0x00000000, 0x000054b7, 0x00000000, 0x00000000,
    0x00000000, 0x000064b7, 0x00000000, 0x00000000, 0x00000000, 0x000074b7, 0x00000000, 0x00000000,
    0x00000000, 0x000084b7, 0x00000000, 0x00000000, 0x00000000, 0x000094b7, 0x00000000, 0x00000000,
    0x00000000, 0x0000a4b7, 0x00000000, 0x00000000, 0x00000000, 0x0000b4b7, 0x00000000, 0x00000000,
    0x00000000, 0x0000c4b7, 0x00000000, 0x00000000, 0x00000000, 0x0000d4b7, 0x00000000, 0x00000000,
    0x00000000, 0x0000e4b7, 0x00000000, 0x00000000, 0x00000000, 0x0000f4b7, 0x00000000, 0x00000000,
    0x00000000, 0x000104b7, 0x00000000, 0x00000000, 0x00000000, 0x000114b7, 0x00000000, 0x00000000,
    0x00000000, 0x000124b7, 0x00000000, 0x00000000, 0x00000000, 0x000134b7, 0x00000000, 0x00000000,
    0x00000000, 0x000144b7, 0x00000000, 0x00000000, 0x00000000, 0x000154b7, 0x00000000, 0x00000000,
    0x00000000, 0x000164b7, 0x00000000, 0x00000000, 0x00000000, 0x000174b7, 0x00000000, 0x00000000,
    0x00000000, 0x000184b7, 0x00000000, 0x00000000, 0x00000000, 0x000194b7, 0x00000000, 0x00000000,
    0x00000000, 0x0001a4b7, 0x00000000, 0x00000000, 0x00000000, 0x0001b4b7, 0x00000000, 0x00000000,
    0x00000000, 0x0001c4b7, 0x00000000, 0x00000000, 0x00000000, 0x0001d4b7, 0x00000000, 0x00000000,
    0x00000000, 0x0001e4b7, 0x00000000, 0x00000000, 0x00000000, 0x0001f4b7, 0x00000000, 0x00000000]"

definition decomp16_202 :: "u32 list" where
  "decomp16_202 = [
    0x00000000, 0x00000000, 0x00000000, 0x00000000, 0x00000000, 0x00001537, 0x00000000, 0x00000000,
    0x00000000, 0x00002537, 0x00000000, 0x00000000, 0x00000000, 0x00003537, 0x00000000, 0x00000000,
    0x00000000, 0x00004537, 0x00000000, 0x00000000, 0x00000000, 0x00005537, 0x00000000, 0x00000000,
    0x00000000, 0x00006537, 0x00000000, 0x00000000, 0x00000000, 0x00007537, 0x00000000, 0x00000000,
    0x00000000, 0x00008537, 0x00000000, 0x00000000, 0x00000000, 0x00009537, 0x00000000, 0x00000000,
    0x00000000, 0x0000a537, 0x00000000, 0x00000000, 0x00000000, 0x0000b537, 0x00000000, 0x00000000,
    0x00000000, 0x0000c537, 0x00000000, 0x00000000, 0x00000000, 0x0000d537, 0x00000000, 0x00000000,
    0x00000000, 0x0000e537, 0x00000000, 0x00000000, 0x00000000, 0x0000f537, 0x00000000, 0x00000000,
    0x00000000, 0x00010537, 0x00000000, 0x00000000, 0x00000000, 0x00011537, 0x00000000, 0x00000000,
    0x00000000, 0x00012537, 0x00000000, 0x00000000, 0x00000000, 0x00013537, 0x00000000, 0x00000000,
    0x00000000, 0x00014537, 0x00000000, 0x00000000, 0x00000000, 0x00015537, 0x00000000, 0x00000000,
    0x00000000, 0x00016537, 0x00000000, 0x00000000, 0x00000000, 0x00017537, 0x00000000, 0x00000000,
    0x00000000, 0x00018537, 0x00000000, 0x00000000, 0x00000000, 0x00019537, 0x00000000, 0x00000000,
    0x00000000, 0x0001a537, 0x00000000, 0x00000000, 0x00000000, 0x0001b537, 0x00000000, 0x00000000,
    0x00000000, 0x0001c537, 0x00000000, 0x00000000, 0x00000000, 0x0001d537, 0x00000000, 0x00000000,
    0x00000000, 0x0001e537, 0x00000000, 0x00000000, 0x00000000, 0x0001f537, 0x00000000, 0x00000000]"

definition decomp16_203 :: "u32 list" where
  "decomp16_203 = [
    0x00000000, 0x00000000, 0x00000000, 0x00000000, 0x00000000, 0x000015b7, 0x00000000, 0x00000000,
    0x00000000, 0x000025b7, 0x00000000, 0x00000000, 0x00000000, 0x000035b7, 0x00000000, 0x00000000,
    0x00000000, 0x000045b7, 0x00000000, 0x00000000, 0x00000000, 0x000055b7, 0x00000000, 0x00000000,
    0x00000000, 0x000065b7, 0x00000000, 0x00000000, 0x00000000, 0x000075b7, 0x00000000, 0x00000000,
    0x00000000, 0x000085b7, 0x00000000, 0x00000000, 0x00000000, 0x000095b7, 0x00000000, 0x00000000,
    0x00000000, 0x0000a5b7, 0x00000000, 0x00000000, 0x00000000, 0x0000b5b7, 0x00000000, 0x00000000,
    0x00000000, 0x0000c5b7, 0x00000000, 0x00000000, 0x00000000, 0x0000d5b7, 0x00000000, 0x00000000,
    0x00000000, 0x0000e5b7, 0x00000000, 0x00000000, 0x00000000, 0x0000f5b7, 0x00000000, 0x00000000,
    0x00000000, 0x000105b7, 0x00000000, 0x00000000, 0x00000000, 0x000115b7, 0x00000000, 0x00000000,
    0x00000000, 0x000125b7, 0x00000000, 0x00000000, 0x00000000, 0x000135b7, 0x00000000, 0x00000000,
    0x00000000, 0x000145b7, 0x00000000, 0x00000000, 0x00000000, 0x000155b7, 0x00000000, 0x00000000,
    0x00000000, 0x000165b7, 0x00000000, 0x00000000, 0x00000000, 0x000175b7, 0x00000000, 0x00000000,
    0x00000000, 0x000185b7, 0x00000000, 0x00000000, 0x00000000, 0x000195b7, 0x00000000, 0x00000000,
    0x00000000, 0x0001a5b7, 0x00000000, 0x00000000, 0x00000000, 0x0001b5b7, 0x00000000, 0x00000000,
    0x00000000, 0x0001c5b7, 0x00000000, 0x00000000, 0x00000000, 0x0001d5b7, 0x00000000, 0x00000000,
    0x00000000, 0x0001e5b7, 0x00000000, 0x00000000, 0x00000000, 0x0001f5b7, 0x00000000, 0x00000000]"

definition decomp16_204 :: "u32 list" where
  "decomp16_204 = [
    0x00000000, 0x00000000, 0x00000000, 0x00000000, 0x00000000, 0x00001637, 0x00000000, 0x00000000,
    0x00000000, 0x00002637, 0x00000000, 0x00000000, 0x00000000, 0x00003637, 0x00000000, 0x00000000,
    0x00000000, 0x00004637, 0x00000000, 0x00000000, 0x00000000, 0x00005637, 0x00000000, 0x00000000,
    0x00000000, 0x00006637, 0x00000000, 0x00000000, 0x00000000, 0x00007637, 0x00000000, 0x00000000,
    0x00000000, 0x00008637, 0x00000000, 0x00000000, 0x00000000, 0x00009637, 0x00000000, 0x00000000,
    0x00000000, 0x0000a637, 0x00000000, 0x00000000, 0x00000000, 0x0000b637, 0x00000000, 0x00000000,
    0x00000000, 0x0000c637, 0x00000000, 0x00000000, 0x00000000, 0x0000d637, 0x00000000, 0x00000000,
    0x00000000, 0x0000e637, 0x00000000, 0x00000000, 0x00000000, 0x0000f637, 0x00000000, 0x00000000,
    0x00000000, 0x00010637, 0x00000000, 0x00000000, 0x00000000, 0x00011637, 0x00000000, 0x00000000,
    0x00000000, 0x00012637, 0x00000000, 0x00000000, 0x00000000, 0x00013637, 0x00000000, 0x00000000,
    0x00000000, 0x00014637, 0x00000000, 0x00000000, 0x00000000, 0x00015637, 0x00000000, 0x00000000,
    0x00000000, 0x00016637, 0x00000000, 0x00000000, 0x00000000, 0x00017637, 0x00000000, 0x00000000,
    0x00000000, 0x00018637, 0x00000000, 0x00000000, 0x00000000, 0x00019637, 0x00000000, 0x00000000,
    0x00000000, 0x0001a637, 0x00000000, 0x00000000, 0x00000000, 0x0001b637, 0x00000000, 0x00000000,
    0x00000000, 0x0001c637, 0x00000000, 0x00000000, 0x00000000, 0x0001d637, 0x00000000, 0x00000000,
    0x00000000, 0x0001e637, 0x00000000, 0x00000000, 0x00000000, 0x0001f637, 0x00000000, 0x00000000]"

definition decomp16_205 :: "u32 list" where
  "decomp16_205 = [
    0x00000000, 0x00000000, 0x00000000, 0x00000000, 0x00000000, 0x000016b7, 0x00000000, 0x00000000,
    0x00000000, 0x000026b7, 0x00000000, 0x00000000, 0x00000000, 0x000036b7, 0x00000000, 0x00000000,
    0x00000000, 0x000046b7, 0x00000000, 0x00000000, 0x00000000, 0x000056b7, 0x00000000, 0x00000000,
    0x00000000, 0x000066b7, 0x00000000, 0x00000000, 0x00000000, 0x000076b7, 0x00000000, 0x00000000,
    0x00000000, 0x000086b7, 0x00000000, 0x00000000, 0x00000000, 0x000096b7, 0x00000000, 0x00000000,
    0x00000000, 0x0000a6b7, 0x00000000, 0x00000000, 0x00000000, 0x0000b6b7, 0x00000000, 0x00000000,
    0x00000000, 0x0000c6b7, 0x00000000, 0x00000000, 0x00000000, 0x0000d6b7, 0x00000000, 0x00000000,
    0x00000000, 0x0000e6b7, 0x00000000, 0x00000000, 0x00000000, 0x0000f6b7, 0x00000000, 0x00000000,
    0x00000000, 0x000106b7, 0x00000000, 0x00000000, 0x00000000, 0x000116b7, 0x00000000, 0x00000000,
    0x00000000, 0x000126b7, 0x00000000, 0x00000000, 0x00000000, 0x000136b7, 0x00000000, 0x00000000,
    0x00000000, 0x000146b7, 0x00000000, 0x00000000, 0x00000000, 0x000156b7, 0x00000000, 0x00000000,
    0x00000000, 0x000166b7, 0x00000000, 0x00000000, 0x00000000, 0x000176b7, 0x00000000, 0x00000000,
    0x00000000, 0x000186b7, 0x00000000, 0x00000000, 0x00000000, 0x000196b7, 0x00000000, 0x00000000,
    0x00000000, 0x0001a6b7, 0x00000000, 0x00000000, 0x00000000, 0x0001b6b7, 0x00000000, 0x00000000,
    0x00000000, 0x0001c6b7, 0x00000000, 0x00000000, 0x00000000, 0x0001d6b7, 0x00000000, 0x00000000,
    0x00000000, 0x0001e6b7, 0x00000000, 0x00000000, 0x00000000, 0x0001f6b7, 0x00000000, 0x00000000]"

definition decomp16_206 :: "u32 list" where
  "decomp16_206 = [
    0x00000000, 0x00000000, 0x00000000, 0x00000000, 0x00000000, 0x00001737, 0x00000000, 0x00000000,
    0x00000000, 0x00002737, 0x00000000, 0x00000000, 0x00000000, 0x00003737, 0x00000000, 0x00000000,
    0x00000000, 0x00004737, 0x00000000, 0x00000000, 0x00000000, 0x00005737, 0x00000000, 0x00000000,
    0x00000000, 0x00006737, 0x00000000, 0x00000000, 0x00000000, 0x00007737, 0x00000000, 0x00000000,
    0x00000000, 0x00008737, 0x00000000, 0x00000000, 0x00000000, 0x00009737, 0x00000000, 0x00000000,
    0x00000000, 0x0000a737, 0x00000000, 0x00000000, 0x00000000, 0x0000b737, 0x00000000, 0x00000000,
    0x00000000, 0x0000c737, 0x00000000, 0x00000000, 0x00000000, 0x0000d737, 0x00000000, 0x00000000,
    0x00000000, 0x0000e737, 0x00000000, 0x00000000, 0x00000000, 0x0000f737, 0x00000000, 0x00000000,
    0x00000000, 0x00010737, 0x00000000, 0x00000000, 0x00000000, 0x00011737, 0x00000000, 0x00000000,
    0x00000000, 0x00012737, 0x00000000, 0x00000000, 0x00000000, 0x00013737, 0x00000000, 0x00000000,
    0x00000000, 0x00014737, 0x00000000, 0x00000000, 0x00000000, 0x00015737, 0x00000000, 0x00000000,
    0x00000000, 0x00016737, 0x00000000, 0x00000000, 0x00000000, 0x00017737, 0x00000000, 0x00000000,
    0x00000000, 0x00018737, 0x00000000, 0x00000000, 0x00000000, 0x00019737, 0x00000000, 0x00000000,
    0x00000000, 0x0001a737, 0x00000000, 0x00000000, 0x00000000, 0x0001b737, 0x00000000, 0x00000000,
    0x00000000, 0x0001c737, 0x00000000, 0x00000000, 0x00000000, 0x0001d737, 0x00000000, 0x00000000,
    0x00000000, 0x0001e737, 0x00000000, 0x00000000, 0x00000000, 0x0001f737, 0x00000000, 0x00000000]"

definition decomp16_207 :: "u32 list" where
  "decomp16_207 = [
    0x00000000, 0x00000000, 0x00000000, 0x00000000, 0x00000000, 0x000017b7, 0x00000000, 0x00000000,
    0x00000000, 0x000027b7, 0x00000000, 0x00000000, 0x00000000, 0x000037b7, 0x00000000, 0x00000000,
    0x00000000, 0x000047b7, 0x00000000, 0x00000000, 0x00000000, 0x000057b7, 0x00000000, 0x00000000,
    0x00000000, 0x000067b7, 0x00000000, 0x00000000, 0x00000000, 0x000077b7, 0x00000000, 0x00000000,
    0x00000000, 0x000087b7, 0x00000000, 0x00000000, 0x00000000, 0x000097b7, 0x00000000, 0x00000000,
    0x00000000, 0x0000a7b7, 0x00000000, 0x00000000, 0x00000000, 0x0000b7b7, 0x00000000, 0x00000000,
    0x00000000, 0x0000c7b7, 0x00000000, 0x00000000, 0x00000000, 0x0000d7b7, 0x00000000, 0x00000000,
    0x00000000, 0x0000e7b7, 0x00000000, 0x00000000, 0x00000000, 0x0000f7b7, 0x00000000, 0x00000000,
    0x00000000, 0x000107b7, 0x00000000, 0x00000000, 0x00000000, 0x000117b7, 0x00000000, 0x00000000,
    0x00000000, 0x000127b7, 0x00000000, 0x00000000, 0x00000000, 0x000137b7, 0x00000000, 0x00000000,
    0x00000000, 0x000147b7, 0x00000000, 0x00000000, 0x00000000, 0x000157b7, 0x00000000, 0x00000000,
    0x00000000, 0x000167b7, 0x00000000, 0x00000000, 0x00000000, 0x000177b7, 0x00000000, 0x00000000,
    0x00000000, 0x000187b7, 0x00000000, 0x00000000, 0x00000000, 0x000197b7, 0x00000000, 0x00000000,
    0x00000000, 0x0001a7b7, 0x00000000, 0x00000000, 0x00000000, 0x0001b7b7, 0x00000000, 0x00000000,
    0x00000000, 0x0001c7b7, 0x00000000, 0x00000000, 0x00000000, 0x0001d7b7, 0x00000000, 0x00000000,
    0x00000000, 0x0001e7b7, 0x00000000, 0x00000000, 0x00000000, 0x0001f7b7, 0x00000000, 0x00000000]"

definition decomp16_208 :: "u32 list" where
  "decomp16_208 = [
    0x00000000, 0x00000000, 0x00000000, 0x00000000, 0x00000000, 0x00001837, 0x00000000, 0x00000000,
    0x00000000, 0x00002837, 0x00000000, 0x00000000, 0x00000000, 0x00003837, 0x00000000, 0x00000000,
    0x00000000, 0x00004837, 0x00000000, 0x00000000, 0x00000000, 0x00005837, 0x00000000, 0x00000000,
    0x00000000, 0x00006837, 0x00000000, 0x00000000, 0x00000000, 0x00007837, 0x00000000, 0x00000000,
    0x00000000, 0x00008837, 0x00000000, 0x00000000, 0x00000000, 0x00009837, 0x00000000, 0x00000000,
    0x00000000, 0x0000a837, 0x00000000, 0x00000000, 0x00000000, 0x0000b837, 0x00000000, 0x00000000,
    0x00000000, 0x0000c837, 0x00000000, 0x00000000, 0x00000000, 0x0000d837, 0x00000000, 0x00000000,
    0x00000000, 0x0000e837, 0x00000000, 0x00000000, 0x00000000, 0x0000f837, 0x00000000, 0x00000000,
    0x00000000, 0x00010837, 0x00000000, 0x00000000, 0x00000000, 0x00011837, 0x00000000, 0x00000000,
    0x00000000, 0x00012837, 0x00000000, 0x00000000, 0x00000000, 0x00013837, 0x00000000, 0x00000000,
    0x00000000, 0x00014837, 0x00000000, 0x00000000, 0x00000000, 0x00015837, 0x00000000, 0x00000000,
    0x00000000, 0x00016837, 0x00000000, 0x00000000, 0x00000000, 0x00017837, 0x00000000, 0x00000000,
    0x00000000, 0x00018837, 0x00000000, 0x00000000, 0x00000000, 0x00019837, 0x00000000, 0x00000000,
    0x00000000, 0x0001a837, 0x00000000, 0x00000000, 0x00000000, 0x0001b837, 0x00000000, 0x00000000,
    0x00000000, 0x0001c837, 0x00000000, 0x00000000, 0x00000000, 0x0001d837, 0x00000000, 0x00000000,
    0x00000000, 0x0001e837, 0x00000000, 0x00000000, 0x00000000, 0x0001f837, 0x00000000, 0x00000000]"

definition decomp16_209 :: "u32 list" where
  "decomp16_209 = [
    0x00000000, 0x00000000, 0x00000000, 0x00000000, 0x00000000, 0x000018b7, 0x00000000, 0x00000000,
    0x00000000, 0x000028b7, 0x00000000, 0x00000000, 0x00000000, 0x000038b7, 0x00000000, 0x00000000,
    0x00000000, 0x000048b7, 0x00000000, 0x00000000, 0x00000000, 0x000058b7, 0x00000000, 0x00000000,
    0x00000000, 0x000068b7, 0x00000000, 0x00000000, 0x00000000, 0x000078b7, 0x00000000, 0x00000000,
    0x00000000, 0x000088b7, 0x00000000, 0x00000000, 0x00000000, 0x000098b7, 0x00000000, 0x00000000,
    0x00000000, 0x0000a8b7, 0x00000000, 0x00000000, 0x00000000, 0x0000b8b7, 0x00000000, 0x00000000,
    0x00000000, 0x0000c8b7, 0x00000000, 0x00000000, 0x00000000, 0x0000d8b7, 0x00000000, 0x00000000,
    0x00000000, 0x0000e8b7, 0x00000000, 0x00000000, 0x00000000, 0x0000f8b7, 0x00000000, 0x00000000,
    0x00000000, 0x000108b7, 0x00000000, 0x00000000, 0x00000000, 0x000118b7, 0x00000000, 0x00000000,
    0x00000000, 0x000128b7, 0x00000000, 0x00000000, 0x00000000, 0x000138b7, 0x00000000, 0x00000000,
    0x00000000, 0x000148b7, 0x00000000, 0x00000000, 0x00000000, 0x000158b7, 0x00000000, 0x00000000,
    0x00000000, 0x000168b7, 0x00000000, 0x00000000, 0x00000000, 0x000178b7, 0x00000000, 0x00000000,
    0x00000000, 0x000188b7, 0x00000000, 0x00000000, 0x00000000, 0x000198b7, 0x00000000, 0x00000000,
    0x00000000, 0x0001a8b7, 0x00000000, 0x00000000, 0x00000000, 0x0001b8b7, 0x00000000, 0x00000000,
    0x00000000, 0x0001c8b7, 0x00000000, 0x00000000, 0x00000000, 0x0001d8b7, 0x00000000, 0x00000000,
    0x00000000, 0x0001e8b7, 0x00000000, 0x00000000, 0x00000000, 0x0001f8b7, 0x00000000, 0x00000000]"

definition decomp16_210 :: "u32 list" where
  "decomp16_210 = [
    0x00000000, 0x00000000, 0x00000000, 0x00000000, 0x00000000, 0x00001937, 0x00000000, 0x00000000,
    0x00000000, 0x00002937, 0x00000000, 0x00000000, 0x00000000, 0x00003937, 0x00000000, 0x00000000,
    0x00000000, 0x00004937, 0x00000000, 0x00000000, 0x00000000, 0x00005937, 0x00000000, 0x00000000,
    0x00000000, 0x00006937, 0x00000000, 0x00000000, 0x00000000, 0x00007937, 0x00000000, 0x00000000,
    0x00000000, 0x00008937, 0x00000000, 0x00000000, 0x00000000, 0x00009937, 0x00000000, 0x00000000,
    0x00000000, 0x0000a937, 0x00000000, 0x00000000, 0x00000000, 0x0000b937, 0x00000000, 0x00000000,
    0x00000000, 0x0000c937, 0x00000000, 0x00000000, 0x00000000, 0x0000d937, 0x00000000, 0x00000000,
    0x00000000, 0x0000e937, 0x00000000, 0x00000000, 0x00000000, 0x0000f937, 0x00000000, 0x00000000,
    0x00000000, 0x00010937, 0x00000000, 0x00000000, 0x00000000, 0x00011937, 0x00000000, 0x00000000,
    0x00000000, 0x00012937, 0x00000000, 0x00000000, 0x00000000, 0x00013937, 0x00000000, 0x00000000,
    0x00000000, 0x00014937, 0x00000000, 0x00000000, 0x00000000, 0x00015937, 0x00000000, 0x00000000,
    0x00000000, 0x00016937, 0x00000000, 0x00000000, 0x00000000, 0x00017937, 0x00000000, 0x00000000,
    0x00000000, 0x00018937, 0x00000000, 0x00000000, 0x00000000, 0x00019937, 0x00000000, 0x00000000,
    0x00000000, 0x0001a937, 0x00000000, 0x00000000, 0x00000000, 0x0001b937, 0x00000000, 0x00000000,
    0x00000000, 0x0001c937, 0x00000000, 0x00000000, 0x00000000, 0x0001d937, 0x00000000, 0x00000000,
    0x00000000, 0x0001e937, 0x00000000, 0x00000000, 0x00000000, 0x0001f937, 0x00000000, 0x00000000]"

definition decomp16_211 :: "u32 list" where
  "decomp16_211 = [
    0x00000000, 0x00000000, 0x00000000, 0x00000000, 0x00000000, 0x000019b7, 0x00000000, 0x00000000,
    0x00000000, 0x000029b7, 0x00000000, 0x00000000, 0x00000000, 0x000039b7, 0x00000000, 0x00000000,
    0x00000000, 0x000049b7, 0x00000000, 0x00000000, 0x00000000, 0x000059b7, 0x00000000, 0x00000000,
    0x00000000, 0x000069b7, 0x00000000, 0x00000000, 0x00000000, 0x000079b7, 0x00000000, 0x00000000,
    0x00000000, 0x000089b7, 0x00000000, 0x00000000, 0x00000000, 0x000099b7, 0x00000000, 0x00000000,
    0x00000000, 0x0000a9b7, 0x00000000, 0x00000000, 0x00000000, 0x0000b9b7, 0x00000000, 0x00000000,
    0x00000000, 0x0000c9b7, 0x00000000, 0x00000000, 0x00000000, 0x0000d9b7, 0x00000000, 0x00000000,
    0x00000000, 0x0000e9b7, 0x00000000, 0x00000000, 0x00000000, 0x0000f9b7, 0x00000000, 0x00000000,
    0x00000000, 0x000109b7, 0x00000000, 0x00000000, 0x00000000, 0x000119b7, 0x00000000, 0x00000000,
    0x00000000, 0x000129b7, 0x00000000, 0x00000000, 0x00000000, 0x000139b7, 0x00000000, 0x00000000,
    0x00000000, 0x000149b7, 0x00000000, 0x00000000, 0x00000000, 0x000159b7, 0x00000000, 0x00000000,
    0x00000000, 0x000169b7, 0x00000000, 0x00000000, 0x00000000, 0x000179b7, 0x00000000, 0x00000000,
    0x00000000, 0x000189b7, 0x00000000, 0x00000000, 0x00000000, 0x000199b7, 0x00000000, 0x00000000,
    0x00000000, 0x0001a9b7, 0x00000000, 0x00000000, 0x00000000, 0x0001b9b7, 0x00000000, 0x00000000,
    0x00000000, 0x0001c9b7, 0x00000000, 0x00000000, 0x00000000, 0x0001d9b7, 0x00000000, 0x00000000,
    0x00000000, 0x0001e9b7, 0x00000000, 0x00000000, 0x00000000, 0x0001f9b7, 0x00000000, 0x00000000]"

definition decomp16_212 :: "u32 list" where
  "decomp16_212 = [
    0x00000000, 0x00000000, 0x00000000, 0x00000000, 0x00000000, 0x00001a37, 0x00000000, 0x00000000,
    0x00000000, 0x00002a37, 0x00000000, 0x00000000, 0x00000000, 0x00003a37, 0x00000000, 0x00000000,
    0x00000000, 0x00004a37, 0x00000000, 0x00000000, 0x00000000, 0x00005a37, 0x00000000, 0x00000000,
    0x00000000, 0x00006a37, 0x00000000, 0x00000000, 0x00000000, 0x00007a37, 0x00000000, 0x00000000,
    0x00000000, 0x00008a37, 0x00000000, 0x00000000, 0x00000000, 0x00009a37, 0x00000000, 0x00000000,
    0x00000000, 0x0000aa37, 0x00000000, 0x00000000, 0x00000000, 0x0000ba37, 0x00000000, 0x00000000,
    0x00000000, 0x0000ca37, 0x00000000, 0x00000000, 0x00000000, 0x0000da37, 0x00000000, 0x00000000,
    0x00000000, 0x0000ea37, 0x00000000, 0x00000000, 0x00000000, 0x0000fa37, 0x00000000, 0x00000000,
    0x00000000, 0x00010a37, 0x00000000, 0x00000000, 0x00000000, 0x00011a37, 0x00000000, 0x00000000,
    0x00000000, 0x00012a37, 0x00000000, 0x00000000, 0x00000000, 0x00013a37, 0x00000000, 0x00000000,
    0x00000000, 0x00014a37, 0x00000000, 0x00000000, 0x00000000, 0x00015a37, 0x00000000, 0x00000000,
    0x00000000, 0x00016a37, 0x00000000, 0x00000000, 0x00000000, 0x00017a37, 0x00000000, 0x00000000,
    0x00000000, 0x00018a37, 0x00000000, 0x00000000, 0x00000000, 0x00019a37, 0x00000000, 0x00000000,
    0x00000000, 0x0001aa37, 0x00000000, 0x00000000, 0x00000000, 0x0001ba37, 0x00000000, 0x00000000,
    0x00000000, 0x0001ca37, 0x00000000, 0x00000000, 0x00000000, 0x0001da37, 0x00000000, 0x00000000,
    0x00000000, 0x0001ea37, 0x00000000, 0x00000000, 0x00000000, 0x0001fa37, 0x00000000, 0x00000000]"

definition decomp16_213 :: "u32 list" where
  "decomp16_213 = [
    0x00000000, 0x00000000, 0x00000000, 0x00000000, 0x00000000, 0x00001ab7, 0x00000000, 0x00000000,
    0x00000000, 0x00002ab7, 0x00000000, 0x00000000, 0x00000000, 0x00003ab7, 0x00000000, 0x00000000,
    0x00000000, 0x00004ab7, 0x00000000, 0x00000000, 0x00000000, 0x00005ab7, 0x00000000, 0x00000000,
    0x00000000, 0x00006ab7, 0x00000000, 0x00000000, 0x00000000, 0x00007ab7, 0x00000000, 0x00000000,
    0x00000000, 0x00008ab7, 0x00000000, 0x00000000, 0x00000000, 0x00009ab7, 0x00000000, 0x00000000,
    0x00000000, 0x0000aab7, 0x00000000, 0x00000000, 0x00000000, 0x0000bab7, 0x00000000, 0x00000000,
    0x00000000, 0x0000cab7, 0x00000000, 0x00000000, 0x00000000, 0x0000dab7, 0x00000000, 0x00000000,
    0x00000000, 0x0000eab7, 0x00000000, 0x00000000, 0x00000000, 0x0000fab7, 0x00000000, 0x00000000,
    0x00000000, 0x00010ab7, 0x00000000, 0x00000000, 0x00000000, 0x00011ab7, 0x00000000, 0x00000000,
    0x00000000, 0x00012ab7, 0x00000000, 0x00000000, 0x00000000, 0x00013ab7, 0x00000000, 0x00000000,
    0x00000000, 0x00014ab7, 0x00000000, 0x00000000, 0x00000000, 0x00015ab7, 0x00000000, 0x00000000,
    0x00000000, 0x00016ab7, 0x00000000, 0x00000000, 0x00000000, 0x00017ab7, 0x00000000, 0x00000000,
    0x00000000, 0x00018ab7, 0x00000000, 0x00000000, 0x00000000, 0x00019ab7, 0x00000000, 0x00000000,
    0x00000000, 0x0001aab7, 0x00000000, 0x00000000, 0x00000000, 0x0001bab7, 0x00000000, 0x00000000,
    0x00000000, 0x0001cab7, 0x00000000, 0x00000000, 0x00000000, 0x0001dab7, 0x00000000, 0x00000000,
    0x00000000, 0x0001eab7, 0x00000000, 0x00000000, 0x00000000, 0x0001fab7, 0x00000000, 0x00000000]"

definition decomp16_214 :: "u32 list" where
  "decomp16_214 = [
    0x00000000, 0x00000000, 0x00000000, 0x00000000, 0x00000000, 0x00001b37, 0x00000000, 0x00000000,
    0x00000000, 0x00002b37, 0x00000000, 0x00000000, 0x00000000, 0x00003b37, 0x00000000, 0x00000000,
    0x00000000, 0x00004b37, 0x00000000, 0x00000000, 0x00000000, 0x00005b37, 0x00000000, 0x00000000,
    0x00000000, 0x00006b37, 0x00000000, 0x00000000, 0x00000000, 0x00007b37, 0x00000000, 0x00000000,
    0x00000000, 0x00008b37, 0x00000000, 0x00000000, 0x00000000, 0x00009b37, 0x00000000, 0x00000000,
    0x00000000, 0x0000ab37, 0x00000000, 0x00000000, 0x00000000, 0x0000bb37, 0x00000000, 0x00000000,
    0x00000000, 0x0000cb37, 0x00000000, 0x00000000, 0x00000000, 0x0000db37, 0x00000000, 0x00000000,
    0x00000000, 0x0000eb37, 0x00000000, 0x00000000, 0x00000000, 0x0000fb37, 0x00000000, 0x00000000,
    0x00000000, 0x00010b37, 0x00000000, 0x00000000, 0x00000000, 0x00011b37, 0x00000000, 0x00000000,
    0x00000000, 0x00012b37, 0x00000000, 0x00000000, 0x00000000, 0x00013b37, 0x00000000, 0x00000000,
    0x00000000, 0x00014b37, 0x00000000, 0x00000000, 0x00000000, 0x00015b37, 0x00000000, 0x00000000,
    0x00000000, 0x00016b37, 0x00000000, 0x00000000, 0x00000000, 0x00017b37, 0x00000000, 0x00000000,
    0x00000000, 0x00018b37, 0x00000000, 0x00000000, 0x00000000, 0x00019b37, 0x00000000, 0x00000000,
    0x00000000, 0x0001ab37, 0x00000000, 0x00000000, 0x00000000, 0x0001bb37, 0x00000000, 0x00000000,
    0x00000000, 0x0001cb37, 0x00000000, 0x00000000, 0x00000000, 0x0001db37, 0x00000000, 0x00000000,
    0x00000000, 0x0001eb37, 0x00000000, 0x00000000, 0x00000000, 0x0001fb37, 0x00000000, 0x00000000]"

definition decomp16_215 :: "u32 list" where
  "decomp16_215 = [
    0x00000000, 0x00000000, 0x00000000, 0x00000000, 0x00000000, 0x00001bb7, 0x00000000, 0x00000000,
    0x00000000, 0x00002bb7, 0x00000000, 0x00000000, 0x00000000, 0x00003bb7, 0x00000000, 0x00000000,
    0x00000000, 0x00004bb7, 0x00000000, 0x00000000, 0x00000000, 0x00005bb7, 0x00000000, 0x00000000,
    0x00000000, 0x00006bb7, 0x00000000, 0x00000000, 0x00000000, 0x00007bb7, 0x00000000, 0x00000000,
    0x00000000, 0x00008bb7, 0x00000000, 0x00000000, 0x00000000, 0x00009bb7, 0x00000000, 0x00000000,
    0x00000000, 0x0000abb7, 0x00000000, 0x00000000, 0x00000000, 0x0000bbb7, 0x00000000, 0x00000000,
    0x00000000, 0x0000cbb7, 0x00000000, 0x00000000, 0x00000000, 0x0000dbb7, 0x00000000, 0x00000000,
    0x00000000, 0x0000ebb7, 0x00000000, 0x00000000, 0x00000000, 0x0000fbb7, 0x00000000, 0x00000000,
    0x00000000, 0x00010bb7, 0x00000000, 0x00000000, 0x00000000, 0x00011bb7, 0x00000000, 0x00000000,
    0x00000000, 0x00012bb7, 0x00000000, 0x00000000, 0x00000000, 0x00013bb7, 0x00000000, 0x00000000,
    0x00000000, 0x00014bb7, 0x00000000, 0x00000000, 0x00000000, 0x00015bb7, 0x00000000, 0x00000000,
    0x00000000, 0x00016bb7, 0x00000000, 0x00000000, 0x00000000, 0x00017bb7, 0x00000000, 0x00000000,
    0x00000000, 0x00018bb7, 0x00000000, 0x00000000, 0x00000000, 0x00019bb7, 0x00000000, 0x00000000,
    0x00000000, 0x0001abb7, 0x00000000, 0x00000000, 0x00000000, 0x0001bbb7, 0x00000000, 0x00000000,
    0x00000000, 0x0001cbb7, 0x00000000, 0x00000000, 0x00000000, 0x0001dbb7, 0x00000000, 0x00000000,
    0x00000000, 0x0001ebb7, 0x00000000, 0x00000000, 0x00000000, 0x0001fbb7, 0x00000000, 0x00000000]"

definition decomp16_216 :: "u32 list" where
  "decomp16_216 = [
    0x00000000, 0x00000000, 0x00000000, 0x00000000, 0x00000000, 0x00001c37, 0x00000000, 0x00000000,
    0x00000000, 0x00002c37, 0x00000000, 0x00000000, 0x00000000, 0x00003c37, 0x00000000, 0x00000000,
    0x00000000, 0x00004c37, 0x00000000, 0x00000000, 0x00000000, 0x00005c37, 0x00000000, 0x00000000,
    0x00000000, 0x00006c37, 0x00000000, 0x00000000, 0x00000000, 0x00007c37, 0x00000000, 0x00000000,
    0x00000000, 0x00008c37, 0x00000000, 0x00000000, 0x00000000, 0x00009c37, 0x00000000, 0x00000000,
    0x00000000, 0x0000ac37, 0x00000000, 0x00000000, 0x00000000, 0x0000bc37, 0x00000000, 0x00000000,
    0x00000000, 0x0000cc37, 0x00000000, 0x00000000, 0x00000000, 0x0000dc37, 0x00000000, 0x00000000,
    0x00000000, 0x0000ec37, 0x00000000, 0x00000000, 0x00000000, 0x0000fc37, 0x00000000, 0x00000000,
    0x00000000, 0x00010c37, 0x00000000, 0x00000000, 0x00000000, 0x00011c37, 0x00000000, 0x00000000,
    0x00000000, 0x00012c37, 0x00000000, 0x00000000, 0x00000000, 0x00013c37, 0x00000000, 0x00000000,
    0x00000000, 0x00014c37, 0x00000000, 0x00000000, 0x00000000, 0x00015c37, 0x00000000, 0x00000000,
    0x00000000, 0x00016c37, 0x00000000, 0x00000000, 0x00000000, 0x00017c37, 0x00000000, 0x00000000,
    0x00000000, 0x00018c37, 0x00000000, 0x00000000, 0x00000000, 0x00019c37, 0x00000000, 0x00000000,
    0x00000000, 0x0001ac37, 0x00000000, 0x00000000, 0x00000000, 0x0001bc37, 0x00000000, 0x00000000,
    0x00000000, 0x0001cc37, 0x00000000, 0x00000000, 0x00000000, 0x0001dc37, 0x00000000, 0x00000000,
    0x00000000, 0x0001ec37, 0x00000000, 0x00000000, 0x00000000, 0x0001fc37, 0x00000000, 0x00000000]"

definition decomp16_217 :: "u32 list" where
  "decomp16_217 = [
    0x00000000, 0x00000000, 0x00000000, 0x00000000, 0x00000000, 0x00001cb7, 0x00000000, 0x00000000,
    0x00000000, 0x00002cb7, 0x00000000, 0x00000000, 0x00000000, 0x00003cb7, 0x00000000, 0x00000000,
    0x00000000, 0x00004cb7, 0x00000000, 0x00000000, 0x00000000, 0x00005cb7, 0x00000000, 0x00000000,
    0x00000000, 0x00006cb7, 0x00000000, 0x00000000, 0x00000000, 0x00007cb7, 0x00000000, 0x00000000,
    0x00000000, 0x00008cb7, 0x00000000, 0x00000000, 0x00000000, 0x00009cb7, 0x00000000, 0x00000000,
    0x00000000, 0x0000acb7, 0x00000000, 0x00000000, 0x00000000, 0x0000bcb7, 0x00000000, 0x00000000,
    0x00000000, 0x0000ccb7, 0x00000000, 0x00000000, 0x00000000, 0x0000dcb7, 0x00000000, 0x00000000,
    0x00000000, 0x0000ecb7, 0x00000000, 0x00000000, 0x00000000, 0x0000fcb7, 0x00000000, 0x00000000,
    0x00000000, 0x00010cb7, 0x00000000, 0x00000000, 0x00000000, 0x00011cb7, 0x00000000, 0x00000000,
    0x00000000, 0x00012cb7, 0x00000000, 0x00000000, 0x00000000, 0x00013cb7, 0x00000000, 0x00000000,
    0x00000000, 0x00014cb7, 0x00000000, 0x00000000, 0x00000000, 0x00015cb7, 0x00000000, 0x00000000,
    0x00000000, 0x00016cb7, 0x00000000, 0x00000000, 0x00000000, 0x00017cb7, 0x00000000, 0x00000000,
    0x00000000, 0x00018cb7, 0x00000000, 0x00000000, 0x00000000, 0x00019cb7, 0x00000000, 0x00000000,
    0x00000000, 0x0001acb7, 0x00000000, 0x00000000, 0x00000000, 0x0001bcb7, 0x00000000, 0x00000000,
    0x00000000, 0x0001ccb7, 0x00000000, 0x00000000, 0x00000000, 0x0001dcb7, 0x00000000, 0x00000000,
    0x00000000, 0x0001ecb7, 0x00000000, 0x00000000, 0x00000000, 0x0001fcb7, 0x00000000, 0x00000000]"

definition decomp16_218 :: "u32 list" where
  "decomp16_218 = [
    0x00000000, 0x00000000, 0x00000000, 0x00000000, 0x00000000, 0x00001d37, 0x00000000, 0x00000000,
    0x00000000, 0x00002d37, 0x00000000, 0x00000000, 0x00000000, 0x00003d37, 0x00000000, 0x00000000,
    0x00000000, 0x00004d37, 0x00000000, 0x00000000, 0x00000000, 0x00005d37, 0x00000000, 0x00000000,
    0x00000000, 0x00006d37, 0x00000000, 0x00000000, 0x00000000, 0x00007d37, 0x00000000, 0x00000000,
    0x00000000, 0x00008d37, 0x00000000, 0x00000000, 0x00000000, 0x00009d37, 0x00000000, 0x00000000,
    0x00000000, 0x0000ad37, 0x00000000, 0x00000000, 0x00000000, 0x0000bd37, 0x00000000, 0x00000000,
    0x00000000, 0x0000cd37, 0x00000000, 0x00000000, 0x00000000, 0x0000dd37, 0x00000000, 0x00000000,
    0x00000000, 0x0000ed37, 0x00000000, 0x00000000, 0x00000000, 0x0000fd37, 0x00000000, 0x00000000,
    0x00000000, 0x00010d37, 0x00000000, 0x00000000, 0x00000000, 0x00011d37, 0x00000000, 0x00000000,
    0x00000000, 0x00012d37, 0x00000000, 0x00000000, 0x00000000, 0x00013d37, 0x00000000, 0x00000000,
    0x00000000, 0x00014d37, 0x00000000, 0x00000000, 0x00000000, 0x00015d37, 0x00000000, 0x00000000,
    0x00000000, 0x00016d37, 0x00000000, 0x00000000, 0x00000000, 0x00017d37, 0x00000000, 0x00000000,
    0x00000000, 0x00018d37, 0x00000000, 0x00000000, 0x00000000, 0x00019d37, 0x00000000, 0x00000000,
    0x00000000, 0x0001ad37, 0x00000000, 0x00000000, 0x00000000, 0x0001bd37, 0x00000000, 0x00000000,
    0x00000000, 0x0001cd37, 0x00000000, 0x00000000, 0x00000000, 0x0001dd37, 0x00000000, 0x00000000,
    0x00000000, 0x0001ed37, 0x00000000, 0x00000000, 0x00000000, 0x0001fd37, 0x00000000, 0x00000000]"

definition decomp16_219 :: "u32 list" where
  "decomp16_219 = [
    0x00000000, 0x00000000, 0x00000000, 0x00000000, 0x00000000, 0x00001db7, 0x00000000, 0x00000000,
    0x00000000, 0x00002db7, 0x00000000, 0x00000000, 0x00000000, 0x00003db7, 0x00000000, 0x00000000,
    0x00000000, 0x00004db7, 0x00000000, 0x00000000, 0x00000000, 0x00005db7, 0x00000000, 0x00000000,
    0x00000000, 0x00006db7, 0x00000000, 0x00000000, 0x00000000, 0x00007db7, 0x00000000, 0x00000000,
    0x00000000, 0x00008db7, 0x00000000, 0x00000000, 0x00000000, 0x00009db7, 0x00000000, 0x00000000,
    0x00000000, 0x0000adb7, 0x00000000, 0x00000000, 0x00000000, 0x0000bdb7, 0x00000000, 0x00000000,
    0x00000000, 0x0000cdb7, 0x00000000, 0x00000000, 0x00000000, 0x0000ddb7, 0x00000000, 0x00000000,
    0x00000000, 0x0000edb7, 0x00000000, 0x00000000, 0x00000000, 0x0000fdb7, 0x00000000, 0x00000000,
    0x00000000, 0x00010db7, 0x00000000, 0x00000000, 0x00000000, 0x00011db7, 0x00000000, 0x00000000,
    0x00000000, 0x00012db7, 0x00000000, 0x00000000, 0x00000000, 0x00013db7, 0x00000000, 0x00000000,
    0x00000000, 0x00014db7, 0x00000000, 0x00000000, 0x00000000, 0x00015db7, 0x00000000, 0x00000000,
    0x00000000, 0x00016db7, 0x00000000, 0x00000000, 0x00000000, 0x00017db7, 0x00000000, 0x00000000,
    0x00000000, 0x00018db7, 0x00000000, 0x00000000, 0x00000000, 0x00019db7, 0x00000000, 0x00000000,
    0x00000000, 0x0001adb7, 0x00000000, 0x00000000, 0x00000000, 0x0001bdb7, 0x00000000, 0x00000000,
    0x00000000, 0x0001cdb7, 0x00000000, 0x00000000, 0x00000000, 0x0001ddb7, 0x00000000, 0x00000000,
    0x00000000, 0x0001edb7, 0x00000000, 0x00000000, 0x00000000, 0x0001fdb7, 0x00000000, 0x00000000]"

definition decomp16_220 :: "u32 list" where
  "decomp16_220 = [
    0x00000000, 0x00000000, 0x00000000, 0x00000000, 0x00000000, 0x00001e37, 0x00000000, 0x00000000,
    0x00000000, 0x00002e37, 0x00000000, 0x00000000, 0x00000000, 0x00003e37, 0x00000000, 0x00000000,
    0x00000000, 0x00004e37, 0x00000000, 0x00000000, 0x00000000, 0x00005e37, 0x00000000, 0x00000000,
    0x00000000, 0x00006e37, 0x00000000, 0x00000000, 0x00000000, 0x00007e37, 0x00000000, 0x00000000,
    0x00000000, 0x00008e37, 0x00000000, 0x00000000, 0x00000000, 0x00009e37, 0x00000000, 0x00000000,
    0x00000000, 0x0000ae37, 0x00000000, 0x00000000, 0x00000000, 0x0000be37, 0x00000000, 0x00000000,
    0x00000000, 0x0000ce37, 0x00000000, 0x00000000, 0x00000000, 0x0000de37, 0x00000000, 0x00000000,
    0x00000000, 0x0000ee37, 0x00000000, 0x00000000, 0x00000000, 0x0000fe37, 0x00000000, 0x00000000,
    0x00000000, 0x00010e37, 0x00000000, 0x00000000, 0x00000000, 0x00011e37, 0x00000000, 0x00000000,
    0x00000000, 0x00012e37, 0x00000000, 0x00000000, 0x00000000, 0x00013e37, 0x00000000, 0x00000000,
    0x00000000, 0x00014e37, 0x00000000, 0x00000000, 0x00000000, 0x00015e37, 0x00000000, 0x00000000,
    0x00000000, 0x00016e37, 0x00000000, 0x00000000, 0x00000000, 0x00017e37, 0x00000000, 0x00000000,
    0x00000000, 0x00018e37, 0x00000000, 0x00000000, 0x00000000, 0x00019e37, 0x00000000, 0x00000000,
    0x00000000, 0x0001ae37, 0x00000000, 0x00000000, 0x00000000, 0x0001be37, 0x00000000, 0x00000000,
    0x00000000, 0x0001ce37, 0x00000000, 0x00000000, 0x00000000, 0x0001de37, 0x00000000, 0x00000000,
    0x00000000, 0x0001ee37, 0x00000000, 0x00000000, 0x00000000, 0x0001fe37, 0x00000000, 0x00000000]"

definition decomp16_221 :: "u32 list" where
  "decomp16_221 = [
    0x00000000, 0x00000000, 0x00000000, 0x00000000, 0x00000000, 0x00001eb7, 0x00000000, 0x00000000,
    0x00000000, 0x00002eb7, 0x00000000, 0x00000000, 0x00000000, 0x00003eb7, 0x00000000, 0x00000000,
    0x00000000, 0x00004eb7, 0x00000000, 0x00000000, 0x00000000, 0x00005eb7, 0x00000000, 0x00000000,
    0x00000000, 0x00006eb7, 0x00000000, 0x00000000, 0x00000000, 0x00007eb7, 0x00000000, 0x00000000,
    0x00000000, 0x00008eb7, 0x00000000, 0x00000000, 0x00000000, 0x00009eb7, 0x00000000, 0x00000000,
    0x00000000, 0x0000aeb7, 0x00000000, 0x00000000, 0x00000000, 0x0000beb7, 0x00000000, 0x00000000,
    0x00000000, 0x0000ceb7, 0x00000000, 0x00000000, 0x00000000, 0x0000deb7, 0x00000000, 0x00000000,
    0x00000000, 0x0000eeb7, 0x00000000, 0x00000000, 0x00000000, 0x0000feb7, 0x00000000, 0x00000000,
    0x00000000, 0x00010eb7, 0x00000000, 0x00000000, 0x00000000, 0x00011eb7, 0x00000000, 0x00000000,
    0x00000000, 0x00012eb7, 0x00000000, 0x00000000, 0x00000000, 0x00013eb7, 0x00000000, 0x00000000,
    0x00000000, 0x00014eb7, 0x00000000, 0x00000000, 0x00000000, 0x00015eb7, 0x00000000, 0x00000000,
    0x00000000, 0x00016eb7, 0x00000000, 0x00000000, 0x00000000, 0x00017eb7, 0x00000000, 0x00000000,
    0x00000000, 0x00018eb7, 0x00000000, 0x00000000, 0x00000000, 0x00019eb7, 0x00000000, 0x00000000,
    0x00000000, 0x0001aeb7, 0x00000000, 0x00000000, 0x00000000, 0x0001beb7, 0x00000000, 0x00000000,
    0x00000000, 0x0001ceb7, 0x00000000, 0x00000000, 0x00000000, 0x0001deb7, 0x00000000, 0x00000000,
    0x00000000, 0x0001eeb7, 0x00000000, 0x00000000, 0x00000000, 0x0001feb7, 0x00000000, 0x00000000]"

definition decomp16_222 :: "u32 list" where
  "decomp16_222 = [
    0x00000000, 0x00000000, 0x00000000, 0x00000000, 0x00000000, 0x00001f37, 0x00000000, 0x00000000,
    0x00000000, 0x00002f37, 0x00000000, 0x00000000, 0x00000000, 0x00003f37, 0x00000000, 0x00000000,
    0x00000000, 0x00004f37, 0x00000000, 0x00000000, 0x00000000, 0x00005f37, 0x00000000, 0x00000000,
    0x00000000, 0x00006f37, 0x00000000, 0x00000000, 0x00000000, 0x00007f37, 0x00000000, 0x00000000,
    0x00000000, 0x00008f37, 0x00000000, 0x00000000, 0x00000000, 0x00009f37, 0x00000000, 0x00000000,
    0x00000000, 0x0000af37, 0x00000000, 0x00000000, 0x00000000, 0x0000bf37, 0x00000000, 0x00000000,
    0x00000000, 0x0000cf37, 0x00000000, 0x00000000, 0x00000000, 0x0000df37, 0x00000000, 0x00000000,
    0x00000000, 0x0000ef37, 0x00000000, 0x00000000, 0x00000000, 0x0000ff37, 0x00000000, 0x00000000,
    0x00000000, 0x00010f37, 0x00000000, 0x00000000, 0x00000000, 0x00011f37, 0x00000000, 0x00000000,
    0x00000000, 0x00012f37, 0x00000000, 0x00000000, 0x00000000, 0x00013f37, 0x00000000, 0x00000000,
    0x00000000, 0x00014f37, 0x00000000, 0x00000000, 0x00000000, 0x00015f37, 0x00000000, 0x00000000,
    0x00000000, 0x00016f37, 0x00000000, 0x00000000, 0x00000000, 0x00017f37, 0x00000000, 0x00000000,
    0x00000000, 0x00018f37, 0x00000000, 0x00000000, 0x00000000, 0x00019f37, 0x00000000, 0x00000000,
    0x00000000, 0x0001af37, 0x00000000, 0x00000000, 0x00000000, 0x0001bf37, 0x00000000, 0x00000000,
    0x00000000, 0x0001cf37, 0x00000000, 0x00000000, 0x00000000, 0x0001df37, 0x00000000, 0x00000000,
    0x00000000, 0x0001ef37, 0x00000000, 0x00000000, 0x00000000, 0x0001ff37, 0x00000000, 0x00000000]"

definition decomp16_223 :: "u32 list" where
  "decomp16_223 = [
    0x00000000, 0x00000000, 0x00000000, 0x00000000, 0x00000000, 0x00001fb7, 0x00000000, 0x00000000,
    0x00000000, 0x00002fb7, 0x00000000, 0x00000000, 0x00000000, 0x00003fb7, 0x00000000, 0x00000000,
    0x00000000, 0x00004fb7, 0x00000000, 0x00000000, 0x00000000, 0x00005fb7, 0x00000000, 0x00000000,
    0x00000000, 0x00006fb7, 0x00000000, 0x00000000, 0x00000000, 0x00007fb7, 0x00000000, 0x00000000,
    0x00000000, 0x00008fb7, 0x00000000, 0x00000000, 0x00000000, 0x00009fb7, 0x00000000, 0x00000000,
    0x00000000, 0x0000afb7, 0x00000000, 0x00000000, 0x00000000, 0x0000bfb7, 0x00000000, 0x00000000,
    0x00000000, 0x0000cfb7, 0x00000000, 0x00000000, 0x00000000, 0x0000dfb7, 0x00000000, 0x00000000,
    0x00000000, 0x0000efb7, 0x00000000, 0x00000000, 0x00000000, 0x0000ffb7, 0x00000000, 0x00000000,
    0x00000000, 0x00010fb7, 0x00000000, 0x00000000, 0x00000000, 0x00011fb7, 0x00000000, 0x00000000,
    0x00000000, 0x00012fb7, 0x00000000, 0x00000000, 0x00000000, 0x00013fb7, 0x00000000, 0x00000000,
    0x00000000, 0x00014fb7, 0x00000000, 0x00000000, 0x00000000, 0x00015fb7, 0x00000000, 0x00000000,
    0x00000000, 0x00016fb7, 0x00000000, 0x00000000, 0x00000000, 0x00017fb7, 0x00000000, 0x00000000,
    0x00000000, 0x00018fb7, 0x00000000, 0x00000000, 0x00000000, 0x00019fb7, 0x00000000, 0x00000000,
    0x00000000, 0x0001afb7, 0x00000000, 0x00000000, 0x00000000, 0x0001bfb7, 0x00000000, 0x00000000,
    0x00000000, 0x0001cfb7, 0x00000000, 0x00000000, 0x00000000, 0x0001dfb7, 0x00000000, 0x00000000,
    0x00000000, 0x0001efb7, 0x00000000, 0x00000000, 0x00000000, 0x0001ffb7, 0x00000000, 0x00000000]"

definition decomp16_224 :: "u32 list" where
  "decomp16_224 = [
    0x00000000, 0x00000000, 0x00000000, 0x00000000, 0x00000000, 0x00000000, 0x00000000, 0x00000000,
    0x00000000, 0x00000000, 0x00000000, 0x00000000, 0x00000000, 0x00000000, 0x00000000, 0x00000000,
    0x00000000, 0x00000000, 0x00000000, 0x00000000, 0x00000000, 0x00000000, 0x00000000, 0x00000000,
    0x00000000, 0x00000000, 0x00000000, 0x00000000, 0x00000000, 0x00000000, 0x00000000, 0x00000000,
    0x00000000, 0x00000000, 0x00000000, 0x00000000, 0x00000000, 0x00000000, 0x00000000, 0x00000000,
    0x00000000, 0x00000000, 0x00000000, 0x00000000, 0x00000000, 0x00000000, 0x00000000, 0x00000000,
    0x00000000, 0x00000000, 0x00000000, 0x00000000, 0x00000000, 0x00000000, 0x00000000, 0x00000000,
    0x00000000, 0x00000000, 0x00000000, 0x00000000, 0x00000000, 0x00000000, 0x00000000, 0x00000000,
    0x00000000, 0x00000000, 0x00000000, 0x00000000, 0x00000000, 0x00000000, 0x00000000, 0x00000000,
    0x00000000, 0x00000000, 0x00000000, 0x00000000, 0x00000000, 0x00000000, 0x00000000, 0x00000000,
    0x00000000, 0x00000000, 0x00000000, 0x00000000, 0x00000000, 0x00000000, 0x00000000, 0x00000000,
    0x00000000, 0x00000000, 0x00000000, 0x00000000, 0x00000000, 0x00000000, 0x00000000, 0x00000000,
    0x00000000, 0x00000000, 0x00000000, 0x00000000, 0x00000000, 0x00000000, 0x00000000, 0x00000000,
    0x00000000, 0x00000000, 0x00000000, 0x00000000, 0x00000000, 0x00000000, 0x00000000, 0x00000000,
    0x00000000, 0x00000000, 0x00000000, 0x00000000, 0x00000000, 0x00000000, 0x00000000, 0x00000000,
    0x00000000, 0x00000000, 0x00000000, 0x00000000, 0x00000000, 0x00000000, 0x00000000, 0x00000000]"

definition decomp16_225 :: "u32 list" where
  "decomp16_225 = [
    0x00000000, 0xfffe00b7, 0x00000000, 0x00000000, 0x00000000, 0xfffe10b7, 0x00000000, 0x00000000,
    0x00000000, 0xfffe20b7, 0x00000000, 0x00000000, 0x00000000, 0xfffe30b7, 0x00000000, 0x00000000,
    0x00000000, 0xfffe40b7, 0x00000000, 0x00000000, 0x00000000, 0xfffe50b7, 0x00000000, 0x00000000,
    0x00000000, 0xfffe60b7, 0x00000000, 0x00000000, 0x00000000, 0xfffe70b7, 0x00000000, 0x00000000,
    0x00000000, 0xfffe80b7, 0x00000000, 0x00000000, 0x00000000, 0xfffe90b7, 0x00000000, 0x00000000,
    0x00000000, 0xfffea0b7, 0x00000000, 0x00000000, 0x00000000, 0xfffeb0b7, 0x00000000, 0x00000000,
    0x00000000, 0xfffec0b7, 0x00000000, 0x00000000, 0x00000000, 0xfffed0b7, 0x00000000, 0x00000000,
    0x00000000, 0xfffee0b7, 0x00000000, 0x00000000, 0x00000000, 0xfffef0b7, 0x00000000, 0x00000000,
    0x00000000, 0xffff00b7, 0x00000000, 0x00000000, 0x00000000, 0xffff10b7, 0x00000000, 0x00000000,
    0x00000000, 0xffff20b7, 0x00000000, 0x00000000, 0x00000000, 0xffff30b7, 0x00000000, 0x00000000,
    0x00000000, 0xffff40b7, 0x00000000, 0x00000000, 0x00000000, 0xffff50b7, 0x00000000, 0x00000000,
    0x00000000, 0xffff60b7, 0x00000000, 0x00000000, 0x00000000, 0xffff70b7, 0x00000000, 0x00000000,
    0x00000000, 0xffff80b7, 0x00000000, 0x00000000, 0x00000000, 0xffff90b7, 0x00000000, 0x00000000,
    0x00000000, 0xffffa0b7, 0x00000000, 0x00000000, 0x00000000, 0xffffb0b7, 0x00000000, 0x00000000,
    0x00000000, 0xffffc0b7, 0x00000000, 0x00000000, 0x00000000, 0xffffd0b7, 0x00000000, 0x00000000,
    0x00000000, 0xffffe0b7, 0x00000000, 0x00000000, 0x00000000, 0xfffff0b7, 0x00000000, 0x00000000]"

definition decomp16_226 :: "u32 list" where
  "decomp16_226 = [
    0x00000000, 0xe0010113, 0x00000000, 0x00000000, 0x00000000, 0xe2010113, 0x00000000, 0x00000000,
    0x00000000, 0xe8010113, 0x00000000, 0x00000000, 0x00000000, 0xea010113, 0x00000000, 0x00000000,
    0x00000000, 0xf0010113, 0x00000000, 0x00000000, 0x00000000, 0xf2010113, 0x00000000, 0x00000000,
    0x00000000, 0xf8010113, 0x00000000, 0x00000000, 0x00000000, 0xfa010113, 0x00000000, 0x00000000,
    0x00000000, 0xe4010113, 0x00000000, 0x00000000, 0x00000000, 0xe6010113, 0x00000000, 0x00000000,
    0x00000000, 0xec010113, 0x00000000, 0x00000000, 0x00000000, 0xee010113, 0x00000000, 0x00000000,
    0x00000000, 0xf4010113, 0x00000000, 0x00000000, 0x00000000, 0xf6010113, 0x00000000, 0x00000000,
    0x00000000, 0xfc010113, 0x00000000, 0x00000000, 0x00000000, 0xfe010113, 0x00000000, 0x00000000,
    0x00000000, 0xe1010113, 0x00000000, 0x00000000, 0x00000000, 0xe3010113, 0x00000000, 0x00000000,
    0x00000000, 0xe9010113, 0x00000000, 0x00000000, 0x00000000, 0xeb010113, 0x00000000, 0x00000000,
    0x00000000, 0xf1010113, 0x00000000, 0x00000000, 0x00000000, 0xf3010113, 0x00000000, 0x00000000,
    0x00000000, 0xf9010113, 0x00000000, 0x00000000, 0x00000000, 0xfb010113, 0x00000000, 0x00000000,
    0x00000000, 0xe5010113, 0x00000000, 0x00000000, 0x00000000, 0xe7010113, 0x00000000, 0x00000000,
    0x00000000, 0xed010113, 0x00000000, 0x00000000, 0x00000000, 0xef010113, 0x00000000, 0x00000000,
    0x00000000, 0xf5010113, 0x00000000, 0x00000000, 0x00000000, 0xf7010113, 0x00000000, 0x00000000,
    0x00000000, 0xfd010113, 0x00000000, 0x00000000, 0x00000000, 0xff010113, 0x00000000, 0x00000000]"

definition decomp16_227 :: "u32 list" where
  "decomp16_227 = [
    0x00000000, 0xfffe01b7, 0x00000000, 0x00000000, 0x00000000, 0xfffe11b7, 0x00000000, 0x00000000,
    0x00000000, 0xfffe21b7, 0x00000000, 0x00000000, 0x00000000, 0xfffe31b7, 0x00000000, 0x00000000,
    0x00000000, 0xfffe41b7, 0x00000000, 0x00000000, 0x00000000, 0xfffe51b7, 0x00000000, 0x00000000,
    0x00000000, 0xfffe61b7, 0x00000000, 0x00000000, 0x00000000, 0xfffe71b7, 0x00000000, 0x00000000,
    0x00000000, 0xfffe81b7, 0x00000000, 0x00000000, 0x00000000, 0xfffe91b7, 0x00000000, 0x00000000,
    0x00000000, 0xfffea1b7, 0x00000000, 0x00000000, 0x00000000, 0xfffeb1b7, 0x00000000, 0x00000000,
    0x00000000, 0xfffec1b7, 0x00000000, 0x00000000, 0x00000000, 0xfffed1b7, 0x00000000, 0x00000000,
    0x00000000, 0xfffee1b7, 0x00000000, 0x00000000, 0x00000000, 0xfffef1b7, 0x00000000, 0x00000000,
    0x00000000, 0xffff01b7, 0x00000000, 0x00000000, 0x00000000, 0xffff11b7, 0x00000000, 0x00000000,
    0x00000000, 0xffff21b7, 0x00000000, 0x00000000, 0x00000000, 0xffff31b7, 0x00000000, 0x00000000,
    0x00000000, 0xffff41b7, 0x00000000, 0x00000000, 0x00000000, 0xffff51b7, 0x00000000, 0x00000000,
    0x00000000, 0xffff61b7, 0x00000000, 0x00000000, 0x00000000, 0xffff71b7, 0x00000000, 0x00000000,
    0x00000000, 0xffff81b7, 0x00000000, 0x00000000, 0x00000000, 0xffff91b7, 0x00000000, 0x00000000,
    0x00000000, 0xffffa1b7, 0x00000000, 0x00000000, 0x00000000, 0xffffb1b7, 0x00000000, 0x00000000,
    0x00000000, 0xffffc1b7, 0x00000000, 0x00000000, 0x00000000, 0xffffd1b7, 0x00000000, 0x00000000,
    0x00000000, 0xffffe1b7, 0x00000000, 0x00000000, 0x00000000, 0xfffff1b7, 0x00000000, 0x00000000]"

definition decomp16_228 :: "u32 list" where
  "decomp16_228 = [
    0x00000000, 0xfffe0237, 0x00000000, 0x00000000, 0x00000000, 0xfffe1237, 0x00000000, 0x00000000,
    0x00000000, 0xfffe2237, 0x00000000, 0x00000000, 0x00000000, 0xfffe3237, 0x00000000, 0x00000000,
    0x00000000, 0xfffe4237, 0x00000000, 0x00000000, 0x00000000, 0xfffe5237, 0x00000000, 0x00000000,
    0x00000000, 0xfffe6237, 0x00000000, 0x00000000, 0x00000000, 0xfffe7237, 0x00000000, 0x00000000,
    0x00000000, 0xfffe8237, 0x00000000, 0x00000000, 0x00000000, 0xfffe9237, 0x00000000, 0x00000000,
    0x00000000, 0xfffea237, 0x00000000, 0x00000000, 0x00000000, 0xfffeb237, 0x00000000, 0x00000000,
    0x00000000, 0xfffec237, 0x00000000, 0x00000000, 0x00000000, 0xfffed237, 0x00000000, 0x00000000,
    0x00000000, 0xfffee237, 0x00000000, 0x00000000, 0x00000000, 0xfffef237, 0x00000000, 0x00000000,
    0x00000000, 0xffff0237, 0x00000000, 0x00000000, 0x00000000, 0xffff1237, 0x00000000, 0x00000000,
    0x00000000, 0xffff2237, 0x00000000, 0x00000000, 0x00000000, 0xffff3237, 0x00000000, 0x00000000,
    0x00000000, 0xffff4237, 0x00000000, 0x00000000, 0x00000000, 0xffff5237, 0x00000000, 0x00000000,
    0x00000000, 0xffff6237, 0x00000000, 0x00000000, 0x00000000, 0xffff7237, 0x00000000, 0x00000000,
    0x00000000, 0xffff8237, 0x00000000, 0x00000000, 0x00000000, 0xffff9237, 0x00000000, 0x00000000,
    0x00000000, 0xffffa237, 0x00000000, 0x00000000, 0x00000000, 0xffffb237, 0x00000000, 0x00000000,
    0x00000000, 0xffffc237, 0x00000000, 0x00000000, 0x00000000, 0xffffd237, 0x00000000, 0x00000000,
    0x00000000, 0xffffe237, 0x00000000, 0x00000000, 0x00000000, 0xfffff237, 0x00000000, 0x00000000]"

definition decomp16_229 :: "u32 list" where
  "decomp16_229 = [
    0x00000000, 0xfffe02b7, 0x00000000, 0x00000000, 0x00000000, 0xfffe12b7, 0x00000000, 0x00000000,
    0x00000000, 0xfffe22b7, 0x00000000, 0x00000000, 0x00000000, 0xfffe32b7, 0x00000000, 0x00000000,
    0x00000000, 0xfffe42b7, 0x00000000, 0x00000000, 0x00000000, 0xfffe52b7, 0x00000000, 0x00000000,
    0x00000000, 0xfffe62b7, 0x00000000, 0x00000000, 0x00000000, 0xfffe72b7, 0x00000000, 0x00000000,
    0x00000000, 0xfffe82b7, 0x00000000, 0x00000000, 0x00000000, 0xfffe92b7, 0x00000000, 0x00000000,
    0x00000000, 0xfffea2b7, 0x00000000, 0x00000000, 0x00000000, 0xfffeb2b7, 0x00000000, 0x00000000,
    0x00000000, 0xfffec2b7, 0x00000000, 0x00000000, 0x00000000, 0xfffed2b7, 0x00000000, 0x00000000,
    0x00000000, 0xfffee2b7, 0x00000000, 0x00000000, 0x00000000, 0xfffef2b7, 0x00000000, 0x00000000,
    0x00000000, 0xffff02b7, 0x00000000, 0x00000000, 0x00000000, 0xffff12b7, 0x00000000, 0x00000000,
    0x00000000, 0xffff22b7, 0x00000000, 0x00000000, 0x00000000, 0xffff32b7, 0x00000000, 0x00000000,
    0x00000000, 0xffff42b7, 0x00000000, 0x00000000, 0x00000000, 0xffff52b7, 0x00000000, 0x00000000,
    0x00000000, 0xffff62b7, 0x00000000, 0x00000000, 0x00000000, 0xffff72b7, 0x00000000, 0x00000000,
    0x00000000, 0xffff82b7, 0x00000000, 0x00000000, 0x00000000, 0xffff92b7, 0x00000000, 0x00000000,
    0x00000000, 0xffffa2b7, 0x00000000, 0x00000000, 0x00000000, 0xffffb2b7, 0x00000000, 0x00000000,
    0x00000000, 0xffffc2b7, 0x00000000, 0x00000000, 0x00000000, 0xffffd2b7, 0x00000000, 0x00000000,
    0x00000000, 0xffffe2b7, 0x00000000, 0x00000000, 0x00000000, 0xfffff2b7, 0x00000000, 0x00000000]"

definition decomp16_230 :: "u32 list" where
  "decomp16_230 = [
    0x00000000, 0xfffe0337, 0x00000000, 0x00000000, 0x00000000, 0xfffe1337, 0x00000000, 0x00000000,
    0x00000000, 0xfffe2337, 0x00000000, 0x00000000, 0x00000000, 0xfffe3337, 0x00000000, 0x00000000,
    0x00000000, 0xfffe4337, 0x00000000, 0x00000000, 0x00000000, 0xfffe5337, 0x00000000, 0x00000000,
    0x00000000, 0xfffe6337, 0x00000000, 0x00000000, 0x00000000, 0xfffe7337, 0x00000000, 0x00000000,
    0x00000000, 0xfffe8337, 0x00000000, 0x00000000, 0x00000000, 0xfffe9337, 0x00000000, 0x00000000,
    0x00000000, 0xfffea337, 0x00000000, 0x00000000, 0x00000000, 0xfffeb337, 0x00000000, 0x00000000,
    0x00000000, 0xfffec337, 0x00000000, 0x00000000, 0x00000000, 0xfffed337, 0x00000000, 0x00000000,
    0x00000000, 0xfffee337, 0x00000000, 0x00000000, 0x00000000, 0xfffef337, 0x00000000, 0x00000000,
    0x00000000, 0xffff0337, 0x00000000, 0x00000000, 0x00000000, 0xffff1337, 0x00000000, 0x00000000,
    0x00000000, 0xffff2337, 0x00000000, 0x00000000, 0x00000000, 0xffff3337, 0x00000000, 0x00000000,
    0x00000000, 0xffff4337, 0x00000000, 0x00000000, 0x00000000, 0xffff5337, 0x00000000, 0x00000000,
    0x00000000, 0xffff6337, 0x00000000, 0x00000000, 0x00000000, 0xffff7337, 0x00000000, 0x00000000,
    0x00000000, 0xffff8337, 0x00000000, 0x00000000, 0x00000000, 0xffff9337, 0x00000000, 0x00000000,
    0x00000000, 0xffffa337, 0x00000000, 0x00000000, 0x00000000, 0xffffb337, 0x00000000, 0x00000000,
    0x00000000, 0xffffc337, 0x00000000, 0x00000000, 0x00000000, 0xffffd337, 0x00000000, 0x00000000,
    0x00000000, 0xffffe337, 0x00000000, 0x00000000, 0x00000000, 0xfffff337, 0x00000000, 0x00000000]"

definition decomp16_231 :: "u32 list" where
  "decomp16_231 = [
    0x00000000, 0xfffe03b7, 0x00000000, 0x00000000, 0x00000000, 0xfffe13b7, 0x00000000, 0x00000000,
    0x00000000, 0xfffe23b7, 0x00000000, 0x00000000, 0x00000000, 0xfffe33b7, 0x00000000, 0x00000000,
    0x00000000, 0xfffe43b7, 0x00000000, 0x00000000, 0x00000000, 0xfffe53b7, 0x00000000, 0x00000000,
    0x00000000, 0xfffe63b7, 0x00000000, 0x00000000, 0x00000000, 0xfffe73b7, 0x00000000, 0x00000000,
    0x00000000, 0xfffe83b7, 0x00000000, 0x00000000, 0x00000000, 0xfffe93b7, 0x00000000, 0x00000000,
    0x00000000, 0xfffea3b7, 0x00000000, 0x00000000, 0x00000000, 0xfffeb3b7, 0x00000000, 0x00000000,
    0x00000000, 0xfffec3b7, 0x00000000, 0x00000000, 0x00000000, 0xfffed3b7, 0x00000000, 0x00000000,
    0x00000000, 0xfffee3b7, 0x00000000, 0x00000000, 0x00000000, 0xfffef3b7, 0x00000000, 0x00000000,
    0x00000000, 0xffff03b7, 0x00000000, 0x00000000, 0x00000000, 0xffff13b7, 0x00000000, 0x00000000,
    0x00000000, 0xffff23b7, 0x00000000, 0x00000000, 0x00000000, 0xffff33b7, 0x00000000, 0x00000000,
    0x00000000, 0xffff43b7, 0x00000000, 0x00000000, 0x00000000, 0xffff53b7, 0x00000000, 0x00000000,
    0x00000000, 0xffff63b7, 0x00000000, 0x00000000, 0x00000000, 0xffff73b7, 0x00000000, 0x00000000,
    0x00000000, 0xffff83b7, 0x00000000, 0x00000000, 0x00000000, 0xffff93b7, 0x00000000, 0x00000000,
    0x00000000, 0xffffa3b7, 0x00000000, 0x00000000, 0x00000000, 0xffffb3b7, 0x00000000, 0x00000000,
    0x00000000, 0xffffc3b7, 0x00000000, 0x00000000, 0x00000000, 0xffffd3b7, 0x00000000, 0x00000000,
    0x00000000, 0xffffe3b7, 0x00000000, 0x00000000, 0x00000000, 0xfffff3b7, 0x00000000, 0x00000000]"

definition decomp16_232 :: "u32 list" where
  "decomp16_232 = [
    0x00000000, 0xfffe0437, 0x00000000, 0x00000000, 0x00000000, 0xfffe1437, 0x00000000, 0x00000000,
    0x00000000, 0xfffe2437, 0x00000000, 0x00000000, 0x00000000, 0xfffe3437, 0x00000000, 0x00000000,
    0x00000000, 0xfffe4437, 0x00000000, 0x00000000, 0x00000000, 0xfffe5437, 0x00000000, 0x00000000,
    0x00000000, 0xfffe6437, 0x00000000, 0x00000000, 0x00000000, 0xfffe7437, 0x00000000, 0x00000000,
    0x00000000, 0xfffe8437, 0x00000000, 0x00000000, 0x00000000, 0xfffe9437, 0x00000000, 0x00000000,
    0x00000000, 0xfffea437, 0x00000000, 0x00000000, 0x00000000, 0xfffeb437, 0x00000000, 0x00000000,
    0x00000000, 0xfffec437, 0x00000000, 0x00000000, 0x00000000, 0xfffed437, 0x00000000, 0x00000000,
    0x00000000, 0xfffee437, 0x00000000, 0x00000000, 0x00000000, 0xfffef437, 0x00000000, 0x00000000,
    0x00000000, 0xffff0437, 0x00000000, 0x00000000, 0x00000000, 0xffff1437, 0x00000000, 0x00000000,
    0x00000000, 0xffff2437, 0x00000000, 0x00000000, 0x00000000, 0xffff3437, 0x00000000, 0x00000000,
    0x00000000, 0xffff4437, 0x00000000, 0x00000000, 0x00000000, 0xffff5437, 0x00000000, 0x00000000,
    0x00000000, 0xffff6437, 0x00000000, 0x00000000, 0x00000000, 0xffff7437, 0x00000000, 0x00000000,
    0x00000000, 0xffff8437, 0x00000000, 0x00000000, 0x00000000, 0xffff9437, 0x00000000, 0x00000000,
    0x00000000, 0xffffa437, 0x00000000, 0x00000000, 0x00000000, 0xffffb437, 0x00000000, 0x00000000,
    0x00000000, 0xffffc437, 0x00000000, 0x00000000, 0x00000000, 0xffffd437, 0x00000000, 0x00000000,
    0x00000000, 0xffffe437, 0x00000000, 0x00000000, 0x00000000, 0xfffff437, 0x00000000, 0x00000000]"

definition decomp16_233 :: "u32 list" where
  "decomp16_233 = [
    0x00000000, 0xfffe04b7, 0x00000000, 0x00000000, 0x00000000, 0xfffe14b7, 0x00000000, 0x00000000,
    0x00000000, 0xfffe24b7, 0x00000000, 0x00000000, 0x00000000, 0xfffe34b7, 0x00000000, 0x00000000,
    0x00000000, 0xfffe44b7, 0x00000000, 0x00000000, 0x00000000, 0xfffe54b7, 0x00000000, 0x00000000,
    0x00000000, 0xfffe64b7, 0x00000000, 0x00000000, 0x00000000, 0xfffe74b7, 0x00000000, 0x00000000,
    0x00000000, 0xfffe84b7, 0x00000000, 0x00000000, 0x00000000, 0xfffe94b7, 0x00000000, 0x00000000,
    0x00000000, 0xfffea4b7, 0x00000000, 0x00000000, 0x00000000, 0xfffeb4b7, 0x00000000, 0x00000000,
    0x00000000, 0xfffec4b7, 0x00000000, 0x00000000, 0x00000000, 0xfffed4b7, 0x00000000, 0x00000000,
    0x00000000, 0xfffee4b7, 0x00000000, 0x00000000, 0x00000000, 0xfffef4b7, 0x00000000, 0x00000000,
    0x00000000, 0xffff04b7, 0x00000000, 0x00000000, 0x00000000, 0xffff14b7, 0x00000000, 0x00000000,
    0x00000000, 0xffff24b7, 0x00000000, 0x00000000, 0x00000000, 0xffff34b7, 0x00000000, 0x00000000,
    0x00000000, 0xffff44b7, 0x00000000, 0x00000000, 0x00000000, 0xffff54b7, 0x00000000, 0x00000000,
    0x00000000, 0xffff64b7, 0x00000000, 0x00000000, 0x00000000, 0xffff74b7, 0x00000000, 0x00000000,
    0x00000000, 0xffff84b7, 0x00000000, 0x00000000, 0x00000000, 0xffff94b7, 0x00000000, 0x00000000,
    0x00000000, 0xffffa4b7, 0x00000000, 0x00000000, 0x00000000, 0xffffb4b7, 0x00000000, 0x00000000,
    0x00000000, 0xffffc4b7, 0x00000000, 0x00000000, 0x00000000, 0xffffd4b7, 0x00000000, 0x00000000,
    0x00000000, 0xffffe4b7, 0x00000000, 0x00000000, 0x00000000, 0xfffff4b7, 0x00000000, 0x00000000]"

definition decomp16_234 :: "u32 list" where
  "decomp16_234 = [
    0x00000000, 0xfffe0537, 0x00000000, 0x00000000, 0x00000000, 0xfffe1537, 0x00000000, 0x00000000,
    0x00000000, 0xfffe2537, 0x00000000, 0x00000000, 0x00000000, 0xfffe3537, 0x00000000, 0x00000000,
    0x00000000, 0xfffe4537, 0x00000000, 0x00000000, 0x00000000, 0xfffe5537, 0x00000000, 0x00000000,
    0x00000000, 0xfffe6537, 0x00000000, 0x00000000, 0x00000000, 0xfffe7537, 0x00000000, 0x00000000,
    0x00000000, 0xfffe8537, 0x00000000, 0x00000000, 0x00000000, 0xfffe9537, 0x00000000, 0x00000000,
    0x00000000, 0xfffea537, 0x00000000, 0x00000000, 0x00000000, 0xfffeb537, 0x00000000, 0x00000000,
    0x00000000, 0xfffec537, 0x00000000, 0x00000000, 0x00000000, 0xfffed537, 0x00000000, 0x00000000,
    0x00000000, 0xfffee537, 0x00000000, 0x00000000, 0x00000000, 0xfffef537, 0x00000000, 0x00000000,
    0x00000000, 0xffff0537, 0x00000000, 0x00000000, 0x00000000, 0xffff1537, 0x00000000, 0x00000000,
    0x00000000, 0xffff2537, 0x00000000, 0x00000000, 0x00000000, 0xffff3537, 0x00000000, 0x00000000,
    0x00000000, 0xffff4537, 0x00000000, 0x00000000, 0x00000000, 0xffff5537, 0x00000000, 0x00000000,
    0x00000000, 0xffff6537, 0x00000000, 0x00000000, 0x00000000, 0xffff7537, 0x00000000, 0x00000000,
    0x00000000, 0xffff8537, 0x00000000, 0x00000000, 0x00000000, 0xffff9537, 0x00000000, 0x00000000,
    0x00000000, 0xffffa537, 0x00000000, 0x00000000, 0x00000000, 0xffffb537, 0x00000000, 0x00000000,
    0x00000000, 0xffffc537, 0x00000000, 0x00000000, 0x00000000, 0xffffd537, 0x00000000, 0x00000000,
    0x00000000, 0xffffe537, 0x00000000, 0x00000000, 0x00000000, 0xfffff537, 0x00000000, 0x00000000]"

definition decomp16_235 :: "u32 list" where
  "decomp16_235 = [
    0x00000000, 0xfffe05b7, 0x00000000, 0x00000000, 0x00000000, 0xfffe15b7, 0x00000000, 0x00000000,
    0x00000000, 0xfffe25b7, 0x00000000, 0x00000000, 0x00000000, 0xfffe35b7, 0x00000000, 0x00000000,
    0x00000000, 0xfffe45b7, 0x00000000, 0x00000000, 0x00000000, 0xfffe55b7, 0x00000000, 0x00000000,
    0x00000000, 0xfffe65b7, 0x00000000, 0x00000000, 0x00000000, 0xfffe75b7, 0x00000000, 0x00000000,
    0x00000000, 0xfffe85b7, 0x00000000, 0x00000000, 0x00000000, 0xfffe95b7, 0x00000000, 0x00000000,
    0x00000000, 0xfffea5b7, 0x00000000, 0x00000000, 0x00000000, 0xfffeb5b7, 0x00000000, 0x00000000,
    0x00000000, 0xfffec5b7, 0x00000000, 0x00000000, 0x00000000, 0xfffed5b7, 0x00000000, 0x00000000,
    0x00000000, 0xfffee5b7, 0x00000000, 0x00000000, 0x00000000, 0xfffef5b7, 0x00000000, 0x00000000,
    0x00000000, 0xffff05b7, 0x00000000, 0x00000000, 0x00000000, 0xffff15b7, 0x00000000, 0x00000000,
    0x00000000, 0xffff25b7, 0x00000000, 0x00000000, 0x00000000, 0xffff35b7, 0x00000000, 0x00000000,
    0x00000000, 0xffff45b7, 0x00000000, 0x00000000, 0x00000000, 0xffff55b7, 0x00000000, 0x00000000,
    0x00000000, 0xffff65b7, 0x00000000, 0x00000000, 0x00000000, 0xffff75b7, 0x00000000, 0x00000000,
    0x00000000, 0xffff85b7, 0x00000000, 0x00000000, 0x00000000, 0xffff95b7, 0x00000000, 0x00000000,
    0x00000000, 0xffffa5b7, 0x00000000, 0x00000000, 0x00000000, 0xffffb5b7, 0x00000000, 0x00000000,
    0x00000000, 0xffffc5b7, 0x00000000, 0x00000000, 0x00000000, 0xffffd5b7, 0x00000000, 0x00000000,
    0x00000000, 0xffffe5b7, 0x00000000, 0x00000000, 0x00000000, 0xfffff5b7, 0x00000000, 0x00000000]"

definition decomp16_236 :: "u32 list" where
  "decomp16_236 = [
    0x00000000, 0xfffe0637, 0x00000000, 0x00000000, 0x00000000, 0xfffe1637, 0x00000000, 0x00000000,
    0x00000000, 0xfffe2637, 0x00000000, 0x00000000, 0x00000000, 0xfffe3637, 0x00000000, 0x00000000,
    0x00000000, 0xfffe4637, 0x00000000, 0x00000000, 0x00000000, 0xfffe5637, 0x00000000, 0x00000000,
    0x00000000, 0xfffe6637, 0x00000000, 0x00000000, 0x00000000, 0xfffe7637, 0x00000000, 0x00000000,
    0x00000000, 0xfffe8637, 0x00000000, 0x00000000, 0x00000000, 0xfffe9637, 0x00000000, 0x00000000,
    0x00000000, 0xfffea637, 0x00000000, 0x00000000, 0x00000000, 0xfffeb637, 0x00000000, 0x00000000,
    0x00000000, 0xfffec637, 0x00000000, 0x00000000, 0x00000000, 0xfffed637, 0x00000000, 0x00000000,
    0x00000000, 0xfffee637, 0x00000000, 0x00000000, 0x00000000, 0xfffef637, 0x00000000, 0x00000000,
    0x00000000, 0xffff0637, 0x00000000, 0x00000000, 0x00000000, 0xffff1637, 0x00000000, 0x00000000,
    0x00000000, 0xffff2637, 0x00000000, 0x00000000, 0x00000000, 0xffff3637, 0x00000000, 0x00000000,
    0x00000000, 0xffff4637, 0x00000000, 0x00000000, 0x00000000, 0xffff5637, 0x00000000, 0x00000000,
    0x00000000, 0xffff6637, 0x00000000, 0x00000000, 0x00000000, 0xffff7637, 0x00000000, 0x00000000,
    0x00000000, 0xffff8637, 0x00000000, 0x00000000, 0x00000000, 0xffff9637, 0x00000000, 0x00000000,
    0x00000000, 0xffffa637, 0x00000000, 0x00000000, 0x00000000, 0xffffb637, 0x00000000, 0x00000000,
    0x00000000, 0xffffc637, 0x00000000, 0x00000000, 0x00000000, 0xffffd637, 0x00000000, 0x00000000,
    0x00000000, 0xffffe637, 0x00000000, 0x00000000, 0x00000000, 0xfffff637, 0x00000000, 0x00000000]"

definition decomp16_237 :: "u32 list" where
  "decomp16_237 = [
    0x00000000, 0xfffe06b7, 0x00000000, 0x00000000, 0x00000000, 0xfffe16b7, 0x00000000, 0x00000000,
    0x00000000, 0xfffe26b7, 0x00000000, 0x00000000, 0x00000000, 0xfffe36b7, 0x00000000, 0x00000000,
    0x00000000, 0xfffe46b7, 0x00000000, 0x00000000, 0x00000000, 0xfffe56b7, 0x00000000, 0x00000000,
    0x00000000, 0xfffe66b7, 0x00000000, 0x00000000, 0x00000000, 0xfffe76b7, 0x00000000, 0x00000000,
    0x00000000, 0xfffe86b7, 0x00000000, 0x00000000, 0x00000000, 0xfffe96b7, 0x00000000, 0x00000000,
    0x00000000, 0xfffea6b7, 0x00000000, 0x00000000, 0x00000000, 0xfffeb6b7, 0x00000000, 0x00000000,
    0x00000000, 0xfffec6b7, 0x00000000, 0x00000000, 0x00000000, 0xfffed6b7, 0x00000000, 0x00000000,
    0x00000000, 0xfffee6b7, 0x00000000, 0x00000000, 0x00000000, 0xfffef6b7, 0x00000000, 0x00000000,
    0x00000000, 0xffff06b7, 0x00000000, 0x00000000, 0x00000000, 0xffff16b7, 0x00000000, 0x00000000,
    0x00000000, 0xffff26b7, 0x00000000, 0x00000000, 0x00000000, 0xffff36b7, 0x00000000, 0x00000000,
    0x00000000, 0xffff46b7, 0x00000000, 0x00000000, 0x00000000, 0xffff56b7, 0x00000000, 0x00000000,
    0x00000000, 0xffff66b7, 0x00000000, 0x00000000, 0x00000000, 0xffff76b7, 0x00000000, 0x00000000,
    0x00000000, 0xffff86b7, 0x00000000, 0x00000000, 0x00000000, 0xffff96b7, 0x00000000, 0x00000000,
    0x00000000, 0xffffa6b7, 0x00000000, 0x00000000, 0x00000000, 0xffffb6b7, 0x00000000, 0x00000000,
    0x00000000, 0xffffc6b7, 0x00000000, 0x00000000, 0x00000000, 0xffffd6b7, 0x00000000, 0x00000000,
    0x00000000, 0xffffe6b7, 0x00000000, 0x00000000, 0x00000000, 0xfffff6b7, 0x00000000, 0x00000000]"

definition decomp16_238 :: "u32 list" where
  "decomp16_238 = [
    0x00000000, 0xfffe0737, 0x00000000, 0x00000000, 0x00000000, 0xfffe1737, 0x00000000, 0x00000000,
    0x00000000, 0xfffe2737, 0x00000000, 0x00000000, 0x00000000, 0xfffe3737, 0x00000000, 0x00000000,
    0x00000000, 0xfffe4737, 0x00000000, 0x00000000, 0x00000000, 0xfffe5737, 0x00000000, 0x00000000,
    0x00000000, 0xfffe6737, 0x00000000, 0x00000000, 0x00000000, 0xfffe7737, 0x00000000, 0x00000000,
    0x00000000, 0xfffe8737, 0x00000000, 0x00000000, 0x00000000, 0xfffe9737, 0x00000000, 0x00000000,
    0x00000000, 0xfffea737, 0x00000000, 0x00000000, 0x00000000, 0xfffeb737, 0x00000000, 0x00000000,
    0x00000000, 0xfffec737, 0x00000000, 0x00000000, 0x00000000, 0xfffed737, 0x00000000, 0x00000000,
    0x00000000, 0xfffee737, 0x00000000, 0x00000000, 0x00000000, 0xfffef737, 0x00000000, 0x00000000,
    0x00000000, 0xffff0737, 0x00000000, 0x00000000, 0x00000000, 0xffff1737, 0x00000000, 0x00000000,
    0x00000000, 0xffff2737, 0x00000000, 0x00000000, 0x00000000, 0xffff3737, 0x00000000, 0x00000000,
    0x00000000, 0xffff4737, 0x00000000, 0x00000000, 0x00000000, 0xffff5737, 0x00000000, 0x00000000,
    0x00000000, 0xffff6737, 0x00000000, 0x00000000, 0x00000000, 0xffff7737, 0x00000000, 0x00000000,
    0x00000000, 0xffff8737, 0x00000000, 0x00000000, 0x00000000, 0xffff9737, 0x00000000, 0x00000000,
    0x00000000, 0xffffa737, 0x00000000, 0x00000000, 0x00000000, 0xffffb737, 0x00000000, 0x00000000,
    0x00000000, 0xffffc737, 0x00000000, 0x00000000, 0x00000000, 0xffffd737, 0x00000000, 0x00000000,
    0x00000000, 0xffffe737, 0x00000000, 0x00000000, 0x00000000, 0xfffff737, 0x00000000, 0x00000000]"

definition decomp16_239 :: "u32 list" where
  "decomp16_239 = [
    0x00000000, 0xfffe07b7, 0x00000000, 0x00000000, 0x00000000, 0xfffe17b7, 0x00000000, 0x00000000,
    0x00000000, 0xfffe27b7, 0x00000000, 0x00000000, 0x00000000, 0xfffe37b7, 0x00000000, 0x00000000,
    0x00000000, 0xfffe47b7, 0x00000000, 0x00000000, 0x00000000, 0xfffe57b7, 0x00000000, 0x00000000,
    0x00000000, 0xfffe67b7, 0x00000000, 0x00000000, 0x00000000, 0xfffe77b7, 0x00000000, 0x00000000,
    0x00000000, 0xfffe87b7, 0x00000000, 0x00000000, 0x00000000, 0xfffe97b7, 0x00000000, 0x00000000,
    0x00000000, 0xfffea7b7, 0x00000000, 0x00000000, 0x00000000, 0xfffeb7b7, 0x00000000, 0x00000000,
    0x00000000, 0xfffec7b7, 0x00000000, 0x00000000, 0x00000000, 0xfffed7b7, 0x00000000, 0x00000000,
    0x00000000, 0xfffee7b7, 0x00000000, 0x00000000, 0x00000000, 0xfffef7b7, 0x00000000, 0x00000000,
    0x00000000, 0xffff07b7, 0x00000000, 0x00000000, 0x00000000, 0xffff17b7, 0x00000000, 0x00000000,
    0x00000000, 0xffff27b7, 0x00000000, 0x00000000, 0x00000000, 0xffff37b7, 0x00000000, 0x00000000,
    0x00000000, 0xffff47b7, 0x00000000, 0x00000000, 0x00000000, 0xffff57b7, 0x00000000, 0x00000000,
    0x00000000, 0xffff67b7, 0x00000000, 0x00000000, 0x00000000, 0xffff77b7, 0x00000000, 0x00000000,
    0x00000000, 0xffff87b7, 0x00000000, 0x00000000, 0x00000000, 0xffff97b7, 0x00000000, 0x00000000,
    0x00000000, 0xffffa7b7, 0x00000000, 0x00000000, 0x00000000, 0xffffb7b7, 0x00000000, 0x00000000,
    0x00000000, 0xffffc7b7, 0x00000000, 0x00000000, 0x00000000, 0xffffd7b7, 0x00000000, 0x00000000,
    0x00000000, 0xffffe7b7, 0x00000000, 0x00000000, 0x00000000, 0xfffff7b7, 0x00000000, 0x00000000]"

definition decomp16_240 :: "u32 list" where
  "decomp16_240 = [
    0x00000000, 0xfffe0837, 0x00000000, 0x00000000, 0x00000000, 0xfffe1837, 0x00000000, 0x00000000,
    0x00000000, 0xfffe2837, 0x00000000, 0x00000000, 0x00000000, 0xfffe3837, 0x00000000, 0x00000000,
    0x00000000, 0xfffe4837, 0x00000000, 0x00000000, 0x00000000, 0xfffe5837, 0x00000000, 0x00000000,
    0x00000000, 0xfffe6837, 0x00000000, 0x00000000, 0x00000000, 0xfffe7837, 0x00000000, 0x00000000,
    0x00000000, 0xfffe8837, 0x00000000, 0x00000000, 0x00000000, 0xfffe9837, 0x00000000, 0x00000000,
    0x00000000, 0xfffea837, 0x00000000, 0x00000000, 0x00000000, 0xfffeb837, 0x00000000, 0x00000000,
    0x00000000, 0xfffec837, 0x00000000, 0x00000000, 0x00000000, 0xfffed837, 0x00000000, 0x00000000,
    0x00000000, 0xfffee837, 0x00000000, 0x00000000, 0x00000000, 0xfffef837, 0x00000000, 0x00000000,
    0x00000000, 0xffff0837, 0x00000000, 0x00000000, 0x00000000, 0xffff1837, 0x00000000, 0x00000000,
    0x00000000, 0xffff2837, 0x00000000, 0x00000000, 0x00000000, 0xffff3837, 0x00000000, 0x00000000,
    0x00000000, 0xffff4837, 0x00000000, 0x00000000, 0x00000000, 0xffff5837, 0x00000000, 0x00000000,
    0x00000000, 0xffff6837, 0x00000000, 0x00000000, 0x00000000, 0xffff7837, 0x00000000, 0x00000000,
    0x00000000, 0xffff8837, 0x00000000, 0x00000000, 0x00000000, 0xffff9837, 0x00000000, 0x00000000,
    0x00000000, 0xffffa837, 0x00000000, 0x00000000, 0x00000000, 0xffffb837, 0x00000000, 0x00000000,
    0x00000000, 0xffffc837, 0x00000000, 0x00000000, 0x00000000, 0xffffd837, 0x00000000, 0x00000000,
    0x00000000, 0xffffe837, 0x00000000, 0x00000000, 0x00000000, 0xfffff837, 0x00000000, 0x00000000]"

definition decomp16_241 :: "u32 list" where
  "decomp16_241 = [
    0x00000000, 0xfffe08b7, 0x00000000, 0x00000000, 0x00000000, 0xfffe18b7, 0x00000000, 0x00000000,
    0x00000000, 0xfffe28b7, 0x00000000, 0x00000000, 0x00000000, 0xfffe38b7, 0x00000000, 0x00000000,
    0x00000000, 0xfffe48b7, 0x00000000, 0x00000000, 0x00000000, 0xfffe58b7, 0x00000000, 0x00000000,
    0x00000000, 0xfffe68b7, 0x00000000, 0x00000000, 0x00000000, 0xfffe78b7, 0x00000000, 0x00000000,
    0x00000000, 0xfffe88b7, 0x00000000, 0x00000000, 0x00000000, 0xfffe98b7, 0x00000000, 0x00000000,
    0x00000000, 0xfffea8b7, 0x00000000, 0x00000000, 0x00000000, 0xfffeb8b7, 0x00000000, 0x00000000,
    0x00000000, 0xfffec8b7, 0x00000000, 0x00000000, 0x00000000, 0xfffed8b7, 0x00000000, 0x00000000,
    0x00000000, 0xfffee8b7, 0x00000000, 0x00000000, 0x00000000, 0xfffef8b7, 0x00000000, 0x00000000,
    0x00000000, 0xffff08b7, 0x00000000, 0x00000000, 0x00000000, 0xffff18b7, 0x00000000, 0x00000000,
    0x00000000, 0xffff28b7, 0x00000000, 0x00000000, 0x00000000, 0xffff38b7, 0x00000000, 0x00000000,
    0x00000000, 0xffff48b7, 0x00000000, 0x00000000, 0x00000000, 0xffff58b7, 0x00000000, 0x00000000,
    0x00000000, 0xffff68b7, 0x00000000, 0x00000000, 0x00000000, 0xffff78b7, 0x00000000, 0x00000000,
    0x00000000, 0xffff88b7, 0x00000000, 0x00000000, 0x00000000, 0xffff98b7, 0x00000000, 0x00000000,
    0x00000000, 0xffffa8b7, 0x00000000, 0x00000000, 0x00000000, 0xffffb8b7, 0x00000000, 0x00000000,
    0x00000000, 0xffffc8b7, 0x00000000, 0x00000000, 0x00000000, 0xffffd8b7, 0x00000000, 0x00000000,
    0x00000000, 0xffffe8b7, 0x00000000, 0x00000000, 0x00000000, 0xfffff8b7, 0x00000000, 0x00000000]"

definition decomp16_242 :: "u32 list" where
  "decomp16_242 = [
    0x00000000, 0xfffe0937, 0x00000000, 0x00000000, 0x00000000, 0xfffe1937, 0x00000000, 0x00000000,
    0x00000000, 0xfffe2937, 0x00000000, 0x00000000, 0x00000000, 0xfffe3937, 0x00000000, 0x00000000,
    0x00000000, 0xfffe4937, 0x00000000, 0x00000000, 0x00000000, 0xfffe5937, 0x00000000, 0x00000000,
    0x00000000, 0xfffe6937, 0x00000000, 0x00000000, 0x00000000, 0xfffe7937, 0x00000000, 0x00000000,
    0x00000000, 0xfffe8937, 0x00000000, 0x00000000, 0x00000000, 0xfffe9937, 0x00000000, 0x00000000,
    0x00000000, 0xfffea937, 0x00000000, 0x00000000, 0x00000000, 0xfffeb937, 0x00000000, 0x00000000,
    0x00000000, 0xfffec937, 0x00000000, 0x00000000, 0x00000000, 0xfffed937, 0x00000000, 0x00000000,
    0x00000000, 0xfffee937, 0x00000000, 0x00000000, 0x00000000, 0xfffef937, 0x00000000, 0x00000000,
    0x00000000, 0xffff0937, 0x00000000, 0x00000000, 0x00000000, 0xffff1937, 0x00000000, 0x00000000,
    0x00000000, 0xffff2937, 0x00000000, 0x00000000, 0x00000000, 0xffff3937, 0x00000000, 0x00000000,
    0x00000000, 0xffff4937, 0x00000000, 0x00000000, 0x00000000, 0xffff5937, 0x00000000, 0x00000000,
    0x00000000, 0xffff6937, 0x00000000, 0x00000000, 0x00000000, 0xffff7937, 0x00000000, 0x00000000,
    0x00000000, 0xffff8937, 0x00000000, 0x00000000, 0x00000000, 0xffff9937, 0x00000000, 0x00000000,
    0x00000000, 0xffffa937, 0x00000000, 0x00000000, 0x00000000, 0xffffb937, 0x00000000, 0x00000000,
    0x00000000, 0xffffc937, 0x00000000, 0x00000000, 0x00000000, 0xffffd937, 0x00000000, 0x00000000,
    0x00000000, 0xffffe937, 0x00000000, 0x00000000, 0x00000000, 0xfffff937, 0x00000000, 0x00000000]"

definition decomp16_243 :: "u32 list" where
  "decomp16_243 = [
    0x00000000, 0xfffe09b7, 0x00000000, 0x00000000, 0x00000000, 0xfffe19b7, 0x00000000, 0x00000000,
    0x00000000, 0xfffe29b7, 0x00000000, 0x00000000, 0x00000000, 0xfffe39b7, 0x00000000, 0x00000000,
    0x00000000, 0xfffe49b7, 0x00000000, 0x00000000, 0x00000000, 0xfffe59b7, 0x00000000, 0x00000000,
    0x00000000, 0xfffe69b7, 0x00000000, 0x00000000, 0x00000000, 0xfffe79b7, 0x00000000, 0x00000000,
    0x00000000, 0xfffe89b7, 0x00000000, 0x00000000, 0x00000000, 0xfffe99b7, 0x00000000, 0x00000000,
    0x00000000, 0xfffea9b7, 0x00000000, 0x00000000, 0x00000000, 0xfffeb9b7, 0x00000000, 0x00000000,
    0x00000000, 0xfffec9b7, 0x00000000, 0x00000000, 0x00000000, 0xfffed9b7, 0x00000000, 0x00000000,
    0x00000000, 0xfffee9b7, 0x00000000, 0x00000000, 0x00000000, 0xfffef9b7, 0x00000000, 0x00000000,
    0x00000000, 0xffff09b7, 0x00000000, 0x00000000, 0x00000000, 0xffff19b7, 0x00000000, 0x00000000,
    0x00000000, 0xffff29b7, 0x00000000, 0x00000000, 0x00000000, 0xffff39b7, 0x00000000, 0x00000000,
    0x00000000, 0xffff49b7, 0x00000000, 0x00000000, 0x00000000, 0xffff59b7, 0x00000000, 0x00000000,
    0x00000000, 0xffff69b7, 0x00000000, 0x00000000, 0x00000000, 0xffff79b7, 0x00000000, 0x00000000,
    0x00000000, 0xffff89b7, 0x00000000, 0x00000000, 0x00000000, 0xffff99b7, 0x00000000, 0x00000000,
    0x00000000, 0xffffa9b7, 0x00000000, 0x00000000, 0x00000000, 0xffffb9b7, 0x00000000, 0x00000000,
    0x00000000, 0xffffc9b7, 0x00000000, 0x00000000, 0x00000000, 0xffffd9b7, 0x00000000, 0x00000000,
    0x00000000, 0xffffe9b7, 0x00000000, 0x00000000, 0x00000000, 0xfffff9b7, 0x00000000, 0x00000000]"

definition decomp16_244 :: "u32 list" where
  "decomp16_244 = [
    0x00000000, 0xfffe0a37, 0x00000000, 0x00000000, 0x00000000, 0xfffe1a37, 0x00000000, 0x00000000,
    0x00000000, 0xfffe2a37, 0x00000000, 0x00000000, 0x00000000, 0xfffe3a37, 0x00000000, 0x00000000,
    0x00000000, 0xfffe4a37, 0x00000000, 0x00000000, 0x00000000, 0xfffe5a37, 0x00000000, 0x00000000,
    0x00000000, 0xfffe6a37, 0x00000000, 0x00000000, 0x00000000, 0xfffe7a37, 0x00000000, 0x00000000,
    0x00000000, 0xfffe8a37, 0x00000000, 0x00000000, 0x00000000, 0xfffe9a37, 0x00000000, 0x00000000,
    0x00000000, 0xfffeaa37, 0x00000000, 0x00000000, 0x00000000, 0xfffeba37, 0x00000000, 0x00000000,
    0x00000000, 0xfffeca37, 0x00000000, 0x00000000, 0x00000000, 0xfffeda37, 0x00000000, 0x00000000,
    0x00000000, 0xfffeea37, 0x00000000, 0x00000000, 0x00000000, 0xfffefa37, 0x00000000, 0x00000000,
    0x00000000, 0xffff0a37, 0x00000000, 0x00000000, 0x00000000, 0xffff1a37, 0x00000000, 0x00000000,
    0x00000000, 0xffff2a37, 0x00000000, 0x00000000, 0x00000000, 0xffff3a37, 0x00000000, 0x00000000,
    0x00000000, 0xffff4a37, 0x00000000, 0x00000000, 0x00000000, 0xffff5a37, 0x00000000, 0x00000000,
    0x00000000, 0xffff6a37, 0x00000000, 0x00000000, 0x00000000, 0xffff7a37, 0x00000000, 0x00000000,
    0x00000000, 0xffff8a37, 0x00000000, 0x00000000, 0x00000000, 0xffff9a37, 0x00000000, 0x00000000,
    0x00000000, 0xffffaa37, 0x00000000, 0x00000000, 0x00000000, 0xffffba37, 0x00000000, 0x00000000,
    0x00000000, 0xffffca37, 0x00000000, 0x00000000, 0x00000000, 0xffffda37, 0x00000000, 0x00000000,
    0x00000000, 0xffffea37, 0x00000000, 0x00000000, 0x00000000, 0xfffffa37, 0x00000000, 0x00000000]"

definition decomp16_245 :: "u32 list" where
  "decomp16_245 = [
    0x00000000, 0xfffe0ab7, 0x00000000, 0x00000000, 0x00000000, 0xfffe1ab7, 0x00000000, 0x00000000,
    0x00000000, 0xfffe2ab7, 0x00000000, 0x00000000, 0x00000000, 0xfffe3ab7, 0x00000000, 0x00000000,
    0x00000000, 0xfffe4ab7, 0x00000000, 0x00000000, 0x00000000, 0xfffe5ab7, 0x00000000, 0x00000000,
    0x00000000, 0xfffe6ab7, 0x00000000, 0x00000000, 0x00000000, 0xfffe7ab7, 0x00000000, 0x00000000,
    0x00000000, 0xfffe8ab7, 0x00000000, 0x00000000, 0x00000000, 0xfffe9ab7, 0x00000000, 0x00000000,
    0x00000000, 0xfffeaab7, 0x00000000, 0x00000000, 0x00000000, 0xfffebab7, 0x00000000, 0x00000000,
    0x00000000, 0xfffecab7, 0x00000000, 0x00000000, 0x00000000, 0xfffedab7, 0x00000000, 0x00000000,
    0x00000000, 0xfffeeab7, 0x00000000, 0x00000000, 0x00000000, 0xfffefab7, 0x00000000, 0x00000000,
    0x00000000, 0xffff0ab7, 0x00000000, 0x00000000, 0x00000000, 0xffff1ab7, 0x00000000, 0x00000000,
    0x00000000, 0xffff2ab7, 0x00000000, 0x00000000, 0x00000000, 0xffff3ab7, 0x00000000, 0x00000000,
    0x00000000, 0xffff4ab7, 0x00000000, 0x00000000, 0x00000000, 0xffff5ab7, 0x00000000, 0x00000000,
    0x00000000, 0xffff6ab7, 0x00000000, 0x00000000, 0x00000000, 0xffff7ab7, 0x00000000, 0x00000000,
    0x00000000, 0xffff8ab7, 0x00000000, 0x00000000, 0x00000000, 0xffff9ab7, 0x00000000, 0x00000000,
    0x00000000, 0xffffaab7, 0x00000000, 0x00000000, 0x00000000, 0xffffbab7, 0x00000000, 0x00000000,
    0x00000000, 0xffffcab7, 0x00000000, 0x00000000, 0x00000000, 0xffffdab7, 0x00000000, 0x00000000,
    0x00000000, 0xffffeab7, 0x00000000, 0x00000000, 0x00000000, 0xfffffab7, 0x00000000, 0x00000000]"

definition decomp16_246 :: "u32 list" where
  "decomp16_246 = [
    0x00000000, 0xfffe0b37, 0x00000000, 0x00000000, 0x00000000, 0xfffe1b37, 0x00000000, 0x00000000,
    0x00000000, 0xfffe2b37, 0x00000000, 0x00000000, 0x00000000, 0xfffe3b37, 0x00000000, 0x00000000,
    0x00000000, 0xfffe4b37, 0x00000000, 0x00000000, 0x00000000, 0xfffe5b37, 0x00000000, 0x00000000,
    0x00000000, 0xfffe6b37, 0x00000000, 0x00000000, 0x00000000, 0xfffe7b37, 0x00000000, 0x00000000,
    0x00000000, 0xfffe8b37, 0x00000000, 0x00000000, 0x00000000, 0xfffe9b37, 0x00000000, 0x00000000,
    0x00000000, 0xfffeab37, 0x00000000, 0x00000000, 0x00000000, 0xfffebb37, 0x00000000, 0x00000000,
    0x00000000, 0xfffecb37, 0x00000000, 0x00000000, 0x00000000, 0xfffedb37, 0x00000000, 0x00000000,
    0x00000000, 0xfffeeb37, 0x00000000, 0x00000000, 0x00000000, 0xfffefb37, 0x00000000, 0x00000000,
    0x00000000, 0xffff0b37, 0x00000000, 0x00000000, 0x00000000, 0xffff1b37, 0x00000000, 0x00000000,
    0x00000000, 0xffff2b37, 0x00000000, 0x00000000, 0x00000000, 0xffff3b37, 0x00000000, 0x00000000,
    0x00000000, 0xffff4b37, 0x00000000, 0x00000000, 0x00000000, 0xffff5b37, 0x00000000, 0x00000000,
    0x00000000, 0xffff6b37, 0x00000000, 0x00000000, 0x00000000, 0xffff7b37, 0x00000000, 0x00000000,
    0x00000000, 0xffff8b37, 0x00000000, 0x00000000, 0x00000000, 0xffff9b37, 0x00000000, 0x00000000,
    0x00000000, 0xffffab37, 0x00000000, 0x00000000, 0x00000000, 0xffffbb37, 0x00000000, 0x00000000,
    0x00000000, 0xffffcb37, 0x00000000, 0x00000000, 0x00000000, 0xffffdb37, 0x00000000, 0x00000000,
    0x00000000, 0xffffeb37, 0x00000000, 0x00000000, 0x00000000, 0xfffffb37, 0x00000000, 0x00000000]"

definition decomp16_247 :: "u32 list" where
  "decomp16_247 = [
    0x00000000, 0xfffe0bb7, 0x00000000, 0x00000000, 0x00000000, 0xfffe1bb7, 0x00000000, 0x00000000,
    0x00000000, 0xfffe2bb7, 0x00000000, 0x00000000, 0x00000000, 0xfffe3bb7, 0x00000000, 0x00000000,
    0x00000000, 0xfffe4bb7, 0x00000000, 0x00000000, 0x00000000, 0xfffe5bb7, 0x00000000, 0x00000000,
    0x00000000, 0xfffe6bb7, 0x00000000, 0x00000000, 0x00000000, 0xfffe7bb7, 0x00000000, 0x00000000,
    0x00000000, 0xfffe8bb7, 0x00000000, 0x00000000, 0x00000000, 0xfffe9bb7, 0x00000000, 0x00000000,
    0x00000000, 0xfffeabb7, 0x00000000, 0x00000000, 0x00000000, 0xfffebbb7, 0x00000000, 0x00000000,
    0x00000000, 0xfffecbb7, 0x00000000, 0x00000000, 0x00000000, 0xfffedbb7, 0x00000000, 0x00000000,
    0x00000000, 0xfffeebb7, 0x00000000, 0x00000000, 0x00000000, 0xfffefbb7, 0x00000000, 0x00000000,
    0x00000000, 0xffff0bb7, 0x00000000, 0x00000000, 0x00000000, 0xffff1bb7, 0x00000000, 0x00000000,
    0x00000000, 0xffff2bb7, 0x00000000, 0x00000000, 0x00000000, 0xffff3bb7, 0x00000000, 0x00000000,
    0x00000000, 0xffff4bb7, 0x00000000, 0x00000000, 0x00000000, 0xffff5bb7, 0x00000000, 0x00000000,
    0x00000000, 0xffff6bb7, 0x00000000, 0x00000000, 0x00000000, 0xffff7bb7, 0x00000000, 0x00000000,
    0x00000000, 0xffff8bb7, 0x00000000, 0x00000000, 0x00000000, 0xffff9bb7, 0x00000000, 0x00000000,
    0x00000000, 0xffffabb7, 0x00000000, 0x00000000, 0x00000000, 0xffffbbb7, 0x00000000, 0x00000000,
    0x00000000, 0xffffcbb7, 0x00000000, 0x00000000, 0x00000000, 0xffffdbb7, 0x00000000, 0x00000000,
    0x00000000, 0xffffebb7, 0x00000000, 0x00000000, 0x00000000, 0xfffffbb7, 0x00000000, 0x00000000]"

definition decomp16_248 :: "u32 list" where
  "decomp16_248 = [
    0x00000000, 0xfffe0c37, 0x00000000, 0x00000000, 0x00000000, 0xfffe1c37, 0x00000000, 0x00000000,
    0x00000000, 0xfffe2c37, 0x00000000, 0x00000000, 0x00000000, 0xfffe3c37, 0x00000000, 0x00000000,
    0x00000000, 0xfffe4c37, 0x00000000, 0x00000000, 0x00000000, 0xfffe5c37, 0x00000000, 0x00000000,
    0x00000000, 0xfffe6c37, 0x00000000, 0x00000000, 0x00000000, 0xfffe7c37, 0x00000000, 0x00000000,
    0x00000000, 0xfffe8c37, 0x00000000, 0x00000000, 0x00000000, 0xfffe9c37, 0x00000000, 0x00000000,
    0x00000000, 0xfffeac37, 0x00000000, 0x00000000, 0x00000000, 0xfffebc37, 0x00000000, 0x00000000,
    0x00000000, 0xfffecc37, 0x00000000, 0x00000000, 0x00000000, 0xfffedc37, 0x00000000, 0x00000000,
    0x00000000, 0xfffeec37, 0x00000000, 0x00000000, 0x00000000, 0xfffefc37, 0x00000000, 0x00000000,
    0x00000000, 0xffff0c37, 0x00000000, 0x00000000, 0x00000000, 0xffff1c37, 0x00000000, 0x00000000,
    0x00000000, 0xffff2c37, 0x00000000, 0x00000000, 0x00000000, 0xffff3c37, 0x00000000, 0x00000000,
    0x00000000, 0xffff4c37, 0x00000000, 0x00000000, 0x00000000, 0xffff5c37, 0x00000000, 0x00000000,
    0x00000000, 0xffff6c37, 0x00000000, 0x00000000, 0x00000000, 0xffff7c37, 0x00000000, 0x00000000,
    0x00000000, 0xffff8c37, 0x00000000, 0x00000000, 0x00000000, 0xffff9c37, 0x00000000, 0x00000000,
    0x00000000, 0xffffac37, 0x00000000, 0x00000000, 0x00000000, 0xffffbc37, 0x00000000, 0x00000000,
    0x00000000, 0xffffcc37, 0x00000000, 0x00000000, 0x00000000, 0xffffdc37, 0x00000000, 0x00000000,
    0x00000000, 0xffffec37, 0x00000000, 0x00000000, 0x00000000, 0xfffffc37, 0x00000000, 0x00000000]"

definition decomp16_249 :: "u32 list" where
  "decomp16_249 = [
    0x00000000, 0xfffe0cb7, 0x00000000, 0x00000000, 0x00000000, 0xfffe1cb7, 0x00000000, 0x00000000,
    0x00000000, 0xfffe2cb7, 0x00000000, 0x00000000, 0x00000000, 0xfffe3cb7, 0x00000000, 0x00000000,
    0x00000000, 0xfffe4cb7, 0x00000000, 0x00000000, 0x00000000, 0xfffe5cb7, 0x00000000, 0x00000000,
    0x00000000, 0xfffe6cb7, 0x00000000, 0x00000000, 0x00000000, 0xfffe7cb7, 0x00000000, 0x00000000,
    0x00000000, 0xfffe8cb7, 0x00000000, 0x00000000, 0x00000000, 0xfffe9cb7, 0x00000000, 0x00000000,
    0x00000000, 0xfffeacb7, 0x00000000, 0x00000000, 0x00000000, 0xfffebcb7, 0x00000000, 0x00000000,
    0x00000000, 0xfffeccb7, 0x00000000, 0x00000000, 0x00000000, 0xfffedcb7, 0x00000000, 0x00000000,
    0x00000000, 0xfffeecb7, 0x00000000, 0x00000000, 0x00000000, 0xfffefcb7, 0x00000000, 0x00000000,
    0x00000000, 0xffff0cb7, 0x00000000, 0x00000000, 0x00000000, 0xffff1cb7, 0x00000000, 0x00000000,
    0x00000000, 0xffff2cb7, 0x00000000, 0x00000000, 0x00000000, 0xffff3cb7, 0x00000000, 0x00000000,
    0x00000000, 0xffff4cb7, 0x00000000, 0x00000000, 0x00000000, 0xffff5cb7, 0x00000000, 0x00000000,
    0x00000000, 0xffff6cb7, 0x00000000, 0x00000000, 0x00000000, 0xffff7cb7, 0x00000000, 0x00000000,
    0x00000000, 0xffff8cb7, 0x00000000, 0x00000000, 0x00000000, 0xffff9cb7, 0x00000000, 0x00000000,
    0x00000000, 0xffffacb7, 0x00000000, 0x00000000, 0x00000000, 0xffffbcb7, 0x00000000, 0x00000000,
    0x00000000, 0xffffccb7, 0x00000000, 0x00000000, 0x00000000, 0xffffdcb7, 0x00000000, 0x00000000,
    0x00000000, 0xffffecb7, 0x00000000, 0x00000000, 0x00000000, 0xfffffcb7, 0x00000000, 0x00000000]"

definition decomp16_250 :: "u32 list" where
  "decomp16_250 = [
    0x00000000, 0xfffe0d37, 0x00000000, 0x00000000, 0x00000000, 0xfffe1d37, 0x00000000, 0x00000000,
    0x00000000, 0xfffe2d37, 0x00000000, 0x00000000, 0x00000000, 0xfffe3d37, 0x00000000, 0x00000000,
    0x00000000, 0xfffe4d37, 0x00000000, 0x00000000, 0x00000000, 0xfffe5d37, 0x00000000, 0x00000000,
    0x00000000, 0xfffe6d37, 0x00000000, 0x00000000, 0x00000000, 0xfffe7d37, 0x00000000, 0x00000000,
    0x00000000, 0xfffe8d37, 0x00000000, 0x00000000, 0x00000000, 0xfffe9d37, 0x00000000, 0x00000000,
    0x00000000, 0xfffead37, 0x00000000, 0x00000000, 0x00000000, 0xfffebd37, 0x00000000, 0x00000000,
    0x00000000, 0xfffecd37, 0x00000000, 0x00000000, 0x00000000, 0xfffedd37, 0x00000000, 0x00000000,
    0x00000000, 0xfffeed37, 0x00000000, 0x00000000, 0x00000000, 0xfffefd37, 0x00000000, 0x00000000,
    0x00000000, 0xffff0d37, 0x00000000, 0x00000000, 0x00000000, 0xffff1d37, 0x00000000, 0x00000000,
    0x00000000, 0xffff2d37, 0x00000000, 0x00000000, 0x00000000, 0xffff3d37, 0x00000000, 0x00000000,
    0x00000000, 0xffff4d37, 0x00000000, 0x00000000, 0x00000000, 0xffff5d37, 0x00000000, 0x00000000,
    0x00000000, 0xffff6d37, 0x00000000, 0x00000000, 0x00000000, 0xffff7d37, 0x00000000, 0x00000000,
    0x00000000, 0xffff8d37, 0x00000000, 0x00000000, 0x00000000, 0xffff9d37, 0x00000000, 0x00000000,
    0x00000000, 0xffffad37, 0x00000000, 0x00000000, 0x00000000, 0xffffbd37, 0x00000000, 0x00000000,
    0x00000000, 0xffffcd37, 0x00000000, 0x00000000, 0x00000000, 0xffffdd37, 0x00000000, 0x00000000,
    0x00000000, 0xffffed37, 0x00000000, 0x00000000, 0x00000000, 0xfffffd37, 0x00000000, 0x00000000]"

definition decomp16_251 :: "u32 list" where
  "decomp16_251 = [
    0x00000000, 0xfffe0db7, 0x00000000, 0x00000000, 0x00000000, 0xfffe1db7, 0x00000000, 0x00000000,
    0x00000000, 0xfffe2db7, 0x00000000, 0x00000000, 0x00000000, 0xfffe3db7, 0x00000000, 0x00000000,
    0x00000000, 0xfffe4db7, 0x00000000, 0x00000000, 0x00000000, 0xfffe5db7, 0x00000000, 0x00000000,
    0x00000000, 0xfffe6db7, 0x00000000, 0x00000000, 0x00000000, 0xfffe7db7, 0x00000000, 0x00000000,
    0x00000000, 0xfffe8db7, 0x00000000, 0x00000000, 0x00000000, 0xfffe9db7, 0x00000000, 0x00000000,
    0x00000000, 0xfffeadb7, 0x00000000, 0x00000000, 0x00000000, 0xfffebdb7, 0x00000000, 0x00000000,
    0x00000000, 0xfffecdb7, 0x00000000, 0x00000000, 0x00000000, 0xfffeddb7, 0x00000000, 0x00000000,
    0x00000000, 0xfffeedb7, 0x00000000, 0x00000000, 0x00000000, 0xfffefdb7, 0x00000000, 0x00000000,
    0x00000000, 0xffff0db7, 0x00000000, 0x00000000, 0x00000000, 0xffff1db7, 0x00000000, 0x00000000,
    0x00000000, 0xffff2db7, 0x00000000, 0x00000000, 0x00000000, 0xffff3db7, 0x00000000, 0x00000000,
    0x00000000, 0xffff4db7, 0x00000000, 0x00000000, 0x00000000, 0xffff5db7, 0x00000000, 0x00000000,
    0x00000000, 0xffff6db7, 0x00000000, 0x00000000, 0x00000000, 0xffff7db7, 0x00000000, 0x00000000,
    0x00000000, 0xffff8db7, 0x00000000, 0x00000000, 0x00000000, 0xffff9db7, 0x00000000, 0x00000000,
    0x00000000, 0xffffadb7, 0x00000000, 0x00000000, 0x00000000, 0xffffbdb7, 0x00000000, 0x00000000,
    0x00000000, 0xffffcdb7, 0x00000000, 0x00000000, 0x00000000, 0xffffddb7, 0x00000000, 0x00000000,
    0x00000000, 0xffffedb7, 0x00000000, 0x00000000, 0x00000000, 0xfffffdb7, 0x00000000, 0x00000000]"

definition decomp16_252 :: "u32 list" where
  "decomp16_252 = [
    0x00000000, 0xfffe0e37, 0x00000000, 0x00000000, 0x00000000, 0xfffe1e37, 0x00000000, 0x00000000,
    0x00000000, 0xfffe2e37, 0x00000000, 0x00000000, 0x00000000, 0xfffe3e37, 0x00000000, 0x00000000,
    0x00000000, 0xfffe4e37, 0x00000000, 0x00000000, 0x00000000, 0xfffe5e37, 0x00000000, 0x00000000,
    0x00000000, 0xfffe6e37, 0x00000000, 0x00000000, 0x00000000, 0xfffe7e37, 0x00000000, 0x00000000,
    0x00000000, 0xfffe8e37, 0x00000000, 0x00000000, 0x00000000, 0xfffe9e37, 0x00000000, 0x00000000,
    0x00000000, 0xfffeae37, 0x00000000, 0x00000000, 0x00000000, 0xfffebe37, 0x00000000, 0x00000000,
    0x00000000, 0xfffece37, 0x00000000, 0x00000000, 0x00000000, 0xfffede37, 0x00000000, 0x00000000,
    0x00000000, 0xfffeee37, 0x00000000, 0x00000000, 0x00000000, 0xfffefe37, 0x00000000, 0x00000000,
    0x00000000, 0xffff0e37, 0x00000000, 0x00000000, 0x00000000, 0xffff1e37, 0x00000000, 0x00000000,
    0x00000000, 0xffff2e37, 0x00000000, 0x00000000, 0x00000000, 0xffff3e37, 0x00000000, 0x00000000,
    0x00000000, 0xffff4e37, 0x00000000, 0x00000000, 0x00000000, 0xffff5e37, 0x00000000, 0x00000000,
    0x00000000, 0xffff6e37, 0x00000000, 0x00000000, 0x00000000, 0xffff7e37, 0x00000000, 0x00000000,
    0x00000000, 0xffff8e37, 0x00000000, 0x00000000, 0x00000000, 0xffff9e37, 0x00000000, 0x00000000,
    0x00000000, 0xffffae37, 0x00000000, 0x00000000, 0x00000000, 0xffffbe37, 0x00000000, 0x00000000,
    0x00000000, 0xffffce37, 0x00000000, 0x00000000, 0x00000000, 0xffffde37, 0x00000000, 0x00000000,
    0x00000000, 0xffffee37, 0x00000000, 0x00000000, 0x00000000, 0xfffffe37, 0x00000000, 0x00000000]"

definition decomp16_253 :: "u32 list" where
  "decomp16_253 = [
    0x00000000, 0xfffe0eb7, 0x00000000, 0x00000000, 0x00000000, 0xfffe1eb7, 0x00000000, 0x00000000,
    0x00000000, 0xfffe2eb7, 0x00000000, 0x00000000, 0x00000000, 0xfffe3eb7, 0x00000000, 0x00000000,
    0x00000000, 0xfffe4eb7, 0x00000000, 0x00000000, 0x00000000, 0xfffe5eb7, 0x00000000, 0x00000000,
    0x00000000, 0xfffe6eb7, 0x00000000, 0x00000000, 0x00000000, 0xfffe7eb7, 0x00000000, 0x00000000,
    0x00000000, 0xfffe8eb7, 0x00000000, 0x00000000, 0x00000000, 0xfffe9eb7, 0x00000000, 0x00000000,
    0x00000000, 0xfffeaeb7, 0x00000000, 0x00000000, 0x00000000, 0xfffebeb7, 0x00000000, 0x00000000,
    0x00000000, 0xfffeceb7, 0x00000000, 0x00000000, 0x00000000, 0xfffedeb7, 0x00000000, 0x00000000,
    0x00000000, 0xfffeeeb7, 0x00000000, 0x00000000, 0x00000000, 0xfffefeb7, 0x00000000, 0x00000000,
    0x00000000, 0xffff0eb7, 0x00000000, 0x00000000, 0x00000000, 0xffff1eb7, 0x00000000, 0x00000000,
    0x00000000, 0xffff2eb7, 0x00000000, 0x00000000, 0x00000000, 0xffff3eb7, 0x00000000, 0x00000000,
    0x00000000, 0xffff4eb7, 0x00000000, 0x00000000, 0x00000000, 0xffff5eb7, 0x00000000, 0x00000000,
    0x00000000, 0xffff6eb7, 0x00000000, 0x00000000, 0x00000000, 0xffff7eb7, 0x00000000, 0x00000000,
    0x00000000, 0xffff8eb7, 0x00000000, 0x00000000, 0x00000000, 0xffff9eb7, 0x00000000, 0x00000000,
    0x00000000, 0xffffaeb7, 0x00000000, 0x00000000, 0x00000000, 0xffffbeb7, 0x00000000, 0x00000000,
    0x00000000, 0xffffceb7, 0x00000000, 0x00000000, 0x00000000, 0xffffdeb7, 0x00000000, 0x00000000,
    0x00000000, 0xffffeeb7, 0x00000000, 0x00000000, 0x00000000, 0xfffffeb7, 0x00000000, 0x00000000]"

definition decomp16_254 :: "u32 list" where
  "decomp16_254 = [
    0x00000000, 0xfffe0f37, 0x00000000, 0x00000000, 0x00000000, 0xfffe1f37, 0x00000000, 0x00000000,
    0x00000000, 0xfffe2f37, 0x00000000, 0x00000000, 0x00000000, 0xfffe3f37, 0x00000000, 0x00000000,
    0x00000000, 0xfffe4f37, 0x00000000, 0x00000000, 0x00000000, 0xfffe5f37, 0x00000000, 0x00000000,
    0x00000000, 0xfffe6f37, 0x00000000, 0x00000000, 0x00000000, 0xfffe7f37, 0x00000000, 0x00000000,
    0x00000000, 0xfffe8f37, 0x00000000, 0x00000000, 0x00000000, 0xfffe9f37, 0x00000000, 0x00000000,
    0x00000000, 0xfffeaf37, 0x00000000, 0x00000000, 0x00000000, 0xfffebf37, 0x00000000, 0x00000000,
    0x00000000, 0xfffecf37, 0x00000000, 0x00000000, 0x00000000, 0xfffedf37, 0x00000000, 0x00000000,
    0x00000000, 0xfffeef37, 0x00000000, 0x00000000, 0x00000000, 0xfffeff37, 0x00000000, 0x00000000,
    0x00000000, 0xffff0f37, 0x00000000, 0x00000000, 0x00000000, 0xffff1f37, 0x00000000, 0x00000000,
    0x00000000, 0xffff2f37, 0x00000000, 0x00000000, 0x00000000, 0xffff3f37, 0x00000000, 0x00000000,
    0x00000000, 0xffff4f37, 0x00000000, 0x00000000, 0x00000000, 0xffff5f37, 0x00000000, 0x00000000,
    0x00000000, 0xffff6f37, 0x00000000, 0x00000000, 0x00000000, 0xffff7f37, 0x00000000, 0x00000000,
    0x00000000, 0xffff8f37, 0x00000000, 0x00000000, 0x00000000, 0xffff9f37, 0x00000000, 0x00000000,
    0x00000000, 0xffffaf37, 0x00000000, 0x00000000, 0x00000000, 0xffffbf37, 0x00000000, 0x00000000,
    0x00000000, 0xffffcf37, 0x00000000, 0x00000000, 0x00000000, 0xffffdf37, 0x00000000, 0x00000000,
    0x00000000, 0xffffef37, 0x00000000, 0x00000000, 0x00000000, 0xffffff37, 0x00000000, 0x00000000]"

definition decomp16_255 :: "u32 list" where
  "decomp16_255 = [
    0x00000000, 0xfffe0fb7, 0x00000000, 0x00000000, 0x00000000, 0xfffe1fb7, 0x00000000, 0x00000000,
    0x00000000, 0xfffe2fb7, 0x00000000, 0x00000000, 0x00000000, 0xfffe3fb7, 0x00000000, 0x00000000,
    0x00000000, 0xfffe4fb7, 0x00000000, 0x00000000, 0x00000000, 0xfffe5fb7, 0x00000000, 0x00000000,
    0x00000000, 0xfffe6fb7, 0x00000000, 0x00000000, 0x00000000, 0xfffe7fb7, 0x00000000, 0x00000000,
    0x00000000, 0xfffe8fb7, 0x00000000, 0x00000000, 0x00000000, 0xfffe9fb7, 0x00000000, 0x00000000,
    0x00000000, 0xfffeafb7, 0x00000000, 0x00000000, 0x00000000, 0xfffebfb7, 0x00000000, 0x00000000,
    0x00000000, 0xfffecfb7, 0x00000000, 0x00000000, 0x00000000, 0xfffedfb7, 0x00000000, 0x00000000,
    0x00000000, 0xfffeefb7, 0x00000000, 0x00000000, 0x00000000, 0xfffeffb7, 0x00000000, 0x00000000,
    0x00000000, 0xffff0fb7, 0x00000000, 0x00000000, 0x00000000, 0xffff1fb7, 0x00000000, 0x00000000,
    0x00000000, 0xffff2fb7, 0x00000000, 0x00000000, 0x00000000, 0xffff3fb7, 0x00000000, 0x00000000,
    0x00000000, 0xffff4fb7, 0x00000000, 0x00000000, 0x00000000, 0xffff5fb7, 0x00000000, 0x00000000,
    0x00000000, 0xffff6fb7, 0x00000000, 0x00000000, 0x00000000, 0xffff7fb7, 0x00000000, 0x00000000,
    0x00000000, 0xffff8fb7, 0x00000000, 0x00000000, 0x00000000, 0xffff9fb7, 0x00000000, 0x00000000,
    0x00000000, 0xffffafb7, 0x00000000, 0x00000000, 0x00000000, 0xffffbfb7, 0x00000000, 0x00000000,
    0x00000000, 0xffffcfb7, 0x00000000, 0x00000000, 0x00000000, 0xffffdfb7, 0x00000000, 0x00000000,
    0x00000000, 0xffffefb7, 0x00000000, 0x00000000, 0x00000000, 0xffffffb7, 0x00000000, 0x00000000]"

definition decomp16_block_3 :: "u32 list list" where
  "decomp16_block_3 = [
    decomp16_192, decomp16_193, decomp16_194, decomp16_195, decomp16_196, decomp16_197,
    decomp16_198, decomp16_199, decomp16_200, decomp16_201, decomp16_202, decomp16_203,
    decomp16_204, decomp16_205, decomp16_206, decomp16_207, decomp16_208, decomp16_209,
    decomp16_210, decomp16_211, decomp16_212, decomp16_213, decomp16_214, decomp16_215,
    decomp16_216, decomp16_217, decomp16_218, decomp16_219, decomp16_220, decomp16_221,
    decomp16_222, decomp16_223, decomp16_224, decomp16_225, decomp16_226, decomp16_227,
    decomp16_228, decomp16_229, decomp16_230, decomp16_231, decomp16_232, decomp16_233,
    decomp16_234, decomp16_235, decomp16_236, decomp16_237, decomp16_238, decomp16_239,
    decomp16_240, decomp16_241, decomp16_242, decomp16_243, decomp16_244, decomp16_245,
    decomp16_246, decomp16_247, decomp16_248, decomp16_249, decomp16_250, decomp16_251,
    decomp16_252, decomp16_253, decomp16_254, decomp16_255]"

lemma rows_192:
  "chunk 192 = decomp16_192"
  "chunk 193 = decomp16_193"
  "chunk 194 = decomp16_194"
  "chunk 195 = decomp16_195"
  "chunk 196 = decomp16_196"
  "chunk 197 = decomp16_197"
  "chunk 198 = decomp16_198"
  "chunk 199 = decomp16_199"
  by (simp_all add: chunk_eval
    decomp16_192_def decomp16_193_def decomp16_194_def decomp16_195_def decomp16_196_def
    decomp16_197_def decomp16_198_def decomp16_199_def)

lemma rows_200:
  "chunk 200 = decomp16_200"
  "chunk 201 = decomp16_201"
  "chunk 202 = decomp16_202"
  "chunk 203 = decomp16_203"
  "chunk 204 = decomp16_204"
  "chunk 205 = decomp16_205"
  "chunk 206 = decomp16_206"
  "chunk 207 = decomp16_207"
  by (simp_all add: chunk_eval
    decomp16_200_def decomp16_201_def decomp16_202_def decomp16_203_def decomp16_204_def
    decomp16_205_def decomp16_206_def decomp16_207_def)

lemma rows_208:
  "chunk 208 = decomp16_208"
  "chunk 209 = decomp16_209"
  "chunk 210 = decomp16_210"
  "chunk 211 = decomp16_211"
  "chunk 212 = decomp16_212"
  "chunk 213 = decomp16_213"
  "chunk 214 = decomp16_214"
  "chunk 215 = decomp16_215"
  by (simp_all add: chunk_eval
    decomp16_208_def decomp16_209_def decomp16_210_def decomp16_211_def decomp16_212_def
    decomp16_213_def decomp16_214_def decomp16_215_def)

lemma rows_216:
  "chunk 216 = decomp16_216"
  "chunk 217 = decomp16_217"
  "chunk 218 = decomp16_218"
  "chunk 219 = decomp16_219"
  "chunk 220 = decomp16_220"
  "chunk 221 = decomp16_221"
  "chunk 222 = decomp16_222"
  "chunk 223 = decomp16_223"
  by (simp_all add: chunk_eval
    decomp16_216_def decomp16_217_def decomp16_218_def decomp16_219_def decomp16_220_def
    decomp16_221_def decomp16_222_def decomp16_223_def)

lemma rows_224:
  "chunk 224 = decomp16_224"
  "chunk 225 = decomp16_225"
  "chunk 226 = decomp16_226"
  "chunk 227 = decomp16_227"
  "chunk 228 = decomp16_228"
  "chunk 229 = decomp16_229"
  "chunk 230 = decomp16_230"
  "chunk 231 = decomp16_231"
  by (simp_all add: chunk_eval
    decomp16_224_def decomp16_225_def decomp16_226_def decomp16_227_def decomp16_228_def
    decomp16_229_def decomp16_230_def decomp16_231_def)

lemma rows_232:
  "chunk 232 = decomp16_232"
  "chunk 233 = decomp16_233"
  "chunk 234 = decomp16_234"
  "chunk 235 = decomp16_235"
  "chunk 236 = decomp16_236"
  "chunk 237 = decomp16_237"
  "chunk 238 = decomp16_238"
  "chunk 239 = decomp16_239"
  by (simp_all add: chunk_eval
    decomp16_232_def decomp16_233_def decomp16_234_def decomp16_235_def decomp16_236_def
    decomp16_237_def decomp16_238_def decomp16_239_def)

lemma rows_240:
  "chunk 240 = decomp16_240"
  "chunk 241 = decomp16_241"
  "chunk 242 = decomp16_242"
  "chunk 243 = decomp16_243"
  "chunk 244 = decomp16_244"
  "chunk 245 = decomp16_245"
  "chunk 246 = decomp16_246"
  "chunk 247 = decomp16_247"
  by (simp_all add: chunk_eval
    decomp16_240_def decomp16_241_def decomp16_242_def decomp16_243_def decomp16_244_def
    decomp16_245_def decomp16_246_def decomp16_247_def)

lemma rows_248:
  "chunk 248 = decomp16_248"
  "chunk 249 = decomp16_249"
  "chunk 250 = decomp16_250"
  "chunk 251 = decomp16_251"
  "chunk 252 = decomp16_252"
  "chunk 253 = decomp16_253"
  "chunk 254 = decomp16_254"
  "chunk 255 = decomp16_255"
  by (simp_all add: chunk_eval
    decomp16_248_def decomp16_249_def decomp16_250_def decomp16_251_def decomp16_252_def
    decomp16_253_def decomp16_254_def decomp16_255_def)

lemma block_3: "chunks_from 192 decomp16_block_3"
  by (simp add: decomp16_block_3_def
    rows_192 rows_200 rows_208 rows_216 rows_224 rows_232 rows_240 rows_248 del: One_nat_def)

end
