(* ===== verification/Decomp16_Rows_5.thy ===== *)
theory Decomp16_Rows_5
  imports Decomp16_Lines
begin

text \<open>
  The rows 0xa000 to 0xbfff of \<open>decomp16_table\<close>, as they stand in \<open>src/decomp16.cpp\<close>, 128 to a
  definition, and their comparison with the chunks of theory \<open>Decomp16_Lines\<close>.
\<close>

definition decomp16_320 :: "u32 list" where
  "decomp16_320 = [
    0x00000000, 0x0000006f, 0x00000000, 0x00000000, 0x00000000, 0x0200006f, 0x00000000, 0x00000000,
    0x00000000, 0x0020006f, 0x00000000, 0x00000000, 0x00000000, 0x0220006f, 0x00000000, 0x00000000,
    0x00000000, 0x0040006f, 0x00000000, 0x00000000, 0x00000000, 0x0240006f, 0x00000000, 0x00000000,
    0x00000000, 0x0060006f, 0x00000000, 0x00000000, 0x00000000, 0x0260006f, 0x00000000, 0x00000000,
    0x00000000, 0x0080006f, 0x00000000, 0x00000000, 0x00000000, 0x0280006f, 0x00000000, 0x00000000,
    0x00000000, 0x00a0006f, 0x00000000, 0x00000000, 0x00000000, 0x02a0006f, 0x00000000, 0x00000000,
    0x00000000, 0x00c0006f, 0x00000000, 0x00000000, 0x00000000, 0x02c0006f, 0x00000000, 0x00000000,
    0x00000000, 0x00e0006f, 0x00000000, 0x00000000, 0x00000000, 0x02e0006f, 0x00000000, 0x00000000,
    0x00000000, 0x0800006f, 0x00000000, 0x00000000, 0x00000000, 0x0a00006f, 0x00000000, 0x00000000,
    0x00000000, 0x0820006f, 0x00000000, 0x00000000, 0x00000000, 0x0a20006f, 0x00000000, 0x00000000,
    0x00000000, 0x0840006f, 0x00000000, 0x00000000, 0x00000000, 0x0a40006f, 0x00000000, 0x00000000,
    0x00000000, 0x0860006f, 0x00000000, 0x00000000, 0x00000000, 0x0a60006f, 0x00000000, 0x00000000,
    0x00000000, 0x0880006f, 0x00000000, 0x00000000, 0x00000000, 0x0a80006f, 0x00000000, 0x00000000,
    0x00000000, 0x08a0006f, 0x00000000, 0x00000000, 0x00000000, 0x0aa0006f, 0x00000000, 0x00000000,
    0x00000000, 0x08c0006f, 0x00000000, 0x00000000, 0x00000000, 0x0ac0006f, 0x00000000, 0x00000000,
    0x00000000, 0x08e0006f, 0x00000000, 0x00000000, 0x00000000, 0x0ae0006f, 0x00000000, 0x00000000]"

definition decomp16_321 :: "u32 list" where
  "decomp16_321 = [
    0x00000000, 0x0400006f, 0x00000000, 0x00000000, 0x00000000, 0x0600006f, 0x00000000, 0x00000000,
    0x00000000, 0x0420006f, 0x00000000, 0x00000000, 0x00000000, 0x0620006f, 0x00000000, 0x00000000,
    0x00000000, 0x0440006f, 0x00000000, 0x00000000, 0x00000000, 0x0640006f, 0x00000000, 0x00000000,
    0x00000000, 0x0460006f, 0x00000000, 0x00000000, 0x00000000, 0x0660006f, 0x00000000, 0x00000000,
    0x00000000, 0x0480006f, 0x00000000, 0x00000000, 0x00000000, 0x0680006f, 0x00000000, 0x00000000,
    0x00000000, 0x04a0006f, 0x00000000, 0x00000000, 0x00000000, 0x06a0006f, 0x00000000, 0x00000000,
    0x00000000, 0x04c0006f, 0x00000000, 0x00000000, 0x00000000, 0x06c0006f, 0x00000000, 0x00000000,
    0x00000000, 0x04e0006f, 0x00000000, 0x00000000, 0x00000000, 0x06e0006f, 0x00000000, 0x00000000,
    0x00000000, 0x0c00006f, 0x00000000, 0x00000000, 0x00000000, 0x0e00006f, 0x00000000, 0x00000000,
    0x00000000, 0x0c20006f, 0x00000000, 0x00000000, 0x00000000, 0x0e20006f, 0x00000000, 0x00000000,
    0x00000000, 0x0c40006f, 0x00000000, 0x00000000, 0x00000000, 0x0e40006f, 0x00000000, 0x00000000,
    0x00000000, 0x0c60006f, 0x00000000, 0x00000000, 0x00000000, 0x0e60006f, 0x00000000, 0x00000000,
    0x00000000, 0x0c80006f, 0x00000000, 0x00000000, 0x00000000, 0x0e80006f, 0x00000000, 0x00000000,
    0x00000000, 0x0ca0006f, 0x00000000, 0x00000000, 0x00000000, 0x0ea0006f, 0x00000000, 0x00000000,
    0x00000000, 0x0cc0006f, 0x00000000, 0x00000000, 0x00000000, 0x0ec0006f, 0x00000000, 0x00000000,
    0x00000000, 0x0ce0006f, 0x00000000, 0x00000000, 0x00000000, 0x0ee0006f, 0x00000000, 0x00000000]"

definition decomp16_322 :: "u32 list" where
  "decomp16_322 = [
    0x00000000, 0x4000006f, 0x00000000, 0x00000000, 0x00000000, 0x4200006f, 0x00000000, 0x00000000,
    0x00000000, 0x4020006f, 0x00000000, 0x00000000, 0x00000000, 0x4220006f, 0x00000000, 0x00000000,
    0x00000000, 0x4040006f, 0x00000000, 0x00000000, 0x00000000, 0x4240006f, 0x00000000, 0x00000000,
    0x00000000, 0x4060006f, 0x00000000, 0x00000000, 0x00000000, 0x4260006f, 0x00000000, 0x00000000,
    0x00000000, 0x4080006f, 0x00000000, 0x00000000, 0x00000000, 0x4280006f, 0x00000000, 0x00000000,
    0x00000000, 0x40a0006f, 0x00000000, 0x00000000, 0x00000000, 0x42a0006f, 0x00000000, 0x00000000,
    0x00000000, 0x40c0006f, 0x00000000, 0x00000000, 0x00000000, 0x42c0006f, 0x00000000, 0x00000000,
    0x00000000, 0x40e0006f, 0x00000000, 0x00000000, 0x00000000, 0x42e0006f, 0x00000000, 0x00000000,
    0x00000000, 0x4800006f, 0x00000000, 0x00000000, 0x00000000, 0x4a00006f, 0x00000000, 0x00000000,
    0x00000000, 0x4820006f, 0x00000000, 0x00000000, 0x00000000, 0x4a20006f, 0x00000000, 0x00000000,
    0x00000000, 0x4840006f, 0x00000000, 0x00000000, 0x00000000, 0x4a40006f, 0x00000000, 0x00000000,
    0x00000000, 0x4860006f, 0x00000000, 0x00000000, 0x00000000, 0x4a60006f, 0x00000000, 0x00000000,
    0x00000000, 0x4880006f, 0x00000000, 0x00000000, 0x00000000, 0x4a80006f, 0x00000000, 0x00000000,
    0x00000000, 0x48a0006f, 0x00000000, 0x00000000, 0x00000000, 0x4aa0006f, 0x00000000, 0x00000000,
    0x00000000, 0x48c0006f, 0x00000000, 0x00000000, 0x00000000, 0x4ac0006f, 0x00000000, 0x00000000,
    0x00000000, 0x48e0006f, 0x00000000, 0x00000000, 0x00000000, 0x4ae0006f, 0x00000000, 0x00000000]"

definition decomp16_323 :: "u32 list" where
  "decomp16_323 = [
    0x00000000, 0x4400006f, 0x00000000, 0x00000000, 0x00000000, 0x4600006f, 0x00000000, 0x00000000,
    0x00000000, 0x4420006f, 0x00000000, 0x00000000, 0x00000000, 0x4620006f, 0x00000000, 0x00000000,
    0x00000000, 0x4440006f, 0x00000000, 0x00000000, 0x00000000, 0x4640006f, 0x00000000, 0x00000000,
    0x00000000, 0x4460006f, 0x00000000, 0x00000000, 0x00000000, 0x4660006f, 0x00000000, 0x00000000,
    0x00000000, 0x4480006f, 0x00000000, 0x00000000, 0x00000000, 0x4680006f, 0x00000000, 0x00000000,
    0x00000000, 0x44a0006f, 0x00000000, 0x00000000, 0x00000000, 0x46a0006f, 0x00000000, 0x00000000,
    0x00000000, 0x44c0006f, 0x00000000, 0x00000000, 0x00000000, 0x46c0006f, 0x00000000, 0x00000000,
    0x00000000, 0x44e0006f, 0x00000000, 0x00000000, 0x00000000, 0x46e0006f, 0x00000000, 0x00000000,
    0x00000000, 0x4c00006f, 0x00000000, 0x00000000, 0x00000000, 0x4e00006f, 0x00000000, 0x00000000,
    0x00000000, 0x4c20006f, 0x00000000, 0x00000000, 0x00000000, 0x4e20006f, 0x00000000, 0x00000000,
    0x00000000, 0x4c40006f, 0x00000000, 0x00000000, 0x00000000, 0x4e40006f, 0x00000000, 0x00000000,
    0x00000000, 0x4c60006f, 0x00000000, 0x00000000, 0x00000000, 0x4e60006f, 0x00000000, 0x00000000,
    0x00000000, 0x4c80006f, 0x00000000, 0x00000000, 0x00000000, 0x4e80006f, 0x00000000, 0x00000000,
    0x00000000, 0x4ca0006f, 0x00000000, 0x00000000, 0x00000000, 0x4ea0006f, 0x00000000, 0x00000000,
    0x00000000, 0x4cc0006f, 0x00000000, 0x00000000, 0x00000000, 0x4ec0006f, 0x00000000, 0x00000000,
    0x00000000, 0x4ce0006f, 0x00000000, 0x00000000, 0x00000000, 0x4ee0006f, 0x00000000, 0x00000000]"

definition decomp16_324 :: "u32 list" where
  "decomp16_324 = [
    0x00000000, 0x1000006f, 0x00000000, 0x00000000, 0x00000000, 0x1200006f, 0x00000000, 0x00000000,
    0x00000000, 0x1020006f, 0x00000000, 0x00000000, 0x00000000, 0x1220006f, 0x00000000, 0x00000000,
    0x00000000, 0x1040006f, 0x00000000, 0x00000000, 0x00000000, 0x1240006f, 0x00000000, 0x00000000,
    0x00000000, 0x1060006f, 0x00000000, 0x00000000, 0x00000000, 0x1260006f, 0x00000000, 0x00000000,
    0x00000000, 0x1080006f, 0x00000000, 0x00000000, 0x00000000, 0x1280006f, 0x00000000, 0x00000000,
    0x00000000, 0x10a0006f, 0x00000000, 0x00000000, 0x00000000, 0x12a0006f, 0x00000000, 0x00000000,
    0x00000000, 0x10c0006f, 0x00000000, 0x00000000, 0x00000000, 0x12c0006f, 0x00000000, 0x00000000,
    0x00000000, 0x10e0006f, 0x00000000, 0x00000000, 0x00000000, 0x12e0006f, 0x00000000, 0x00000000,
    0x00000000, 0x1800006f, 0x00000000, 0x00000000, 0x00000000, 0x1a00006f, 0x00000000, 0x00000000,
    0x00000000, 0x1820006f, 0x00000000, 0x00000000, 0x00000000, 0x1a20006f, 0x00000000, 0x00000000,
    0x00000000, 0x1840006f, 0x00000000, 0x00000000, 0x00000000, 0x1a40006f, 0x00000000, 0x00000000,
    0x00000000, 0x1860006f, 0x00000000, 0x00000000, 0x00000000, 0x1a60006f, 0x00000000, 0x00000000,
    0x00000000, 0x1880006f, 0x00000000, 0x00000000, 0x00000000, 0x1a80006f, 0x00000000, 0x00000000,
    0x00000000, 0x18a0006f, 0x00000000, 0x00000000, 0x00000000, 0x1aa0006f, 0x00000000, 0x00000000,
    0x00000000, 0x18c0006f, 0x00000000, 0x00000000, 0x00000000, 0x1ac0006f, 0x00000000, 0x00000000,
    0x00000000, 0x18e0006f, 0x00000000, 0x00000000, 0x00000000, 0x1ae0006f, 0x00000000, 0x00000000]"

definition decomp16_325 :: "u32 list" where
  "decomp16_325 = [
    0x00000000, 0x1400006f, 0x00000000, 0x00000000, 0x00000000, 0x1600006f, 0x00000000, 0x00000000,
    0x00000000, 0x1420006f, 0x00000000, 0x00000000, 0x00000000, 0x1620006f, 0x00000000, 0x00000000,
    0x00000000, 0x1440006f, 0x00000000, 0x00000000, 0x00000000, 0x1640006f, 0x00000000, 0x00000000,
    0x00000000, 0x1460006f, 0x00000000, 0x00000000, 0x00000000, 0x1660006f, 0x00000000, 0x00000000,
    0x00000000, 0x1480006f, 0x00000000, 0x00000000, 0x00000000, 0x1680006f, 0x00000000, 0x00000000,
    0x00000000, 0x14a0006f, 0x00000000, 0x00000000, 0x00000000, 0x16a0006f, 0x00000000, 0x00000000,
    0x00000000, 0x14c0006f, 0x00000000, 0x00000000, 0x00000000, 0x16c0006f, 0x00000000, 0x00000000,
    0x00000000, 0x14e0006f, 0x00000000, 0x00000000, 0x00000000, 0x16e0006f, 0x00000000, 0x00000000,
    0x00000000, 0x1c00006f, 0x00000000, 0x00000000, 0x00000000, 0x1e00006f, 0x00000000, 0x00000000,
    0x00000000, 0x1c20006f, 0x00000000, 0x00000000, 0x00000000, 0x1e20006f, 0x00000000, 0x00000000,
    0x00000000, 0x1c40006f, 0x00000000, 0x00000000, 0x00000000, 0x1e40006f, 0x00000000, 0x00000000,
    0x00000000, 0x1c60006f, 0x00000000, 0x00000000, 0x00000000, 0x1e60006f, 0x00000000, 0x00000000,
    0x00000000, 0x1c80006f, 0x00000000, 0x00000000, 0x00000000, 0x1e80006f, 0x00000000, 0x00000000,
    0x00000000, 0x1ca0006f, 0x00000000, 0x00000000, 0x00000000, 0x1ea0006f, 0x00000000, 0x00000000,
    0x00000000, 0x1cc0006f, 0x00000000, 0x00000000, 0x00000000, 0x1ec0006f, 0x00000000, 0x00000000,
    0x00000000, 0x1ce0006f, 0x00000000, 0x00000000, 0x00000000, 0x1ee0006f, 0x00000000, 0x00000000]"

definition decomp16_326 :: "u32 list" where
  "decomp16_326 = [
    0x00000000, 0x5000006f, 0x00000000, 0x00000000, 0x00000000, 0x5200006f, 0x00000000, 0x00000000,
    0x00000000, 0x5020006f, 0x00000000, 0x00000000, 0x00000000, 0x5220006f, 0x00000000, 0x00000000,
    0x00000000, 0x5040006f, 0x00000000, 0x00000000, 0x00000000, 0x5240006f, 0x00000000, 0x00000000,
    0x00000000, 0x5060006f, 0x00000000, 0x00000000, 0x00000000, 0x5260006f, 0x00000000, 0x00000000,
    0x00000000, 0x5080006f, 0x00000000, 0x00000000, 0x00000000, 0x5280006f, 0x00000000, 0x00000000,
    0x00000000, 0x50a0006f, 0x00000000, 0x00000000, 0x00000000, 0x52a0006f, 0x00000000, 0x00000000,
    0x00000000, 0x50c0006f, 0x00000000, 0x00000000, 0x00000000, 0x52c0006f, 0x00000000, 0x00000000,
    0x00000000, 0x50e0006f, 0x00000000, 0x00000000, 0x00000000, 0x52e0006f, 0x00000000, 0x00000000,
    0x00000000, 0x5800006f, 0x00000000, 0x00000000, 0x00000000, 0x5a00006f, 0x00000000, 0x00000000,
    0x00000000, 0x5820006f, 0x00000000, 0x00000000, 0x00000000, 0x5a20006f, 0x00000000, 0x00000000,
    0x00000000, 0x5840006f, 0x00000000, 0x00000000, 0x00000000, 0x5a40006f, 0x00000000, 0x00000000,
    0x00000000, 0x5860006f, 0x00000000, 0x00000000, 0x00000000, 0x5a60006f, 0x00000000, 0x00000000,
    0x00000000, 0x5880006f, 0x00000000, 0x00000000, 0x00000000, 0x5a80006f, 0x00000000, 0x00000000,
    0x00000000, 0x58a0006f, 0x00000000, 0x00000000, 0x00000000, 0x5aa0006f, 0x00000000, 0x00000000,
    0x00000000, 0x58c0006f, 0x00000000, 0x00000000, 0x00000000, 0x5ac0006f, 0x00000000, 0x00000000,
    0x00000000, 0x58e0006f, 0x00000000, 0x00000000, 0x00000000, 0x5ae0006f, 0x00000000, 0x00000000]"

definition decomp16_327 :: "u32 list" where
  "decomp16_327 = [
    0x00000000, 0x5400006f, 0x00000000, 0x00000000, 0x00000000, 0x5600006f, 0x00000000, 0x00000000,
    0x00000000, 0x5420006f, 0x00000000, 0x00000000, 0x00000000, 0x5620006f, 0x00000000, 0x00000000,
    0x00000000, 0x5440006f, 0x00000000, 0x00000000, 0x00000000, 0x5640006f, 0x00000000, 0x00000000,
    0x00000000, 0x5460006f, 0x00000000, 0x00000000, 0x00000000, 0x5660006f, 0x00000000, 0x00000000,
    0x00000000, 0x5480006f, 0x00000000, 0x00000000, 0x00000000, 0x5680006f, 0x00000000, 0x00000000,
    0x00000000, 0x54a0006f, 0x00000000, 0x00000000, 0x00000000, 0x56a0006f, 0x00000000, 0x00000000,
    0x00000000, 0x54c0006f, 0x00000000, 0x00000000, 0x00000000, 0x56c0006f, 0x00000000, 0x00000000,
    0x00000000, 0x54e0006f, 0x00000000, 0x00000000, 0x00000000, 0x56e0006f, 0x00000000, 0x00000000,
    0x00000000, 0x5c00006f, 0x00000000, 0x00000000, 0x00000000, 0x5e00006f, 0x00000000, 0x00000000,
    0x00000000, 0x5c20006f, 0x00000000, 0x00000000, 0x00000000, 0x5e20006f, 0x00000000, 0x00000000,
    0x00000000, 0x5c40006f, 0x00000000, 0x00000000, 0x00000000, 0x5e40006f, 0x00000000, 0x00000000,
    0x00000000, 0x5c60006f, 0x00000000, 0x00000000, 0x00000000, 0x5e60006f, 0x00000000, 0x00000000,
    0x00000000, 0x5c80006f, 0x00000000, 0x00000000, 0x00000000, 0x5e80006f, 0x00000000, 0x00000000,
    0x00000000, 0x5ca0006f, 0x00000000, 0x00000000, 0x00000000, 0x5ea0006f, 0x00000000, 0x00000000,
    0x00000000, 0x5cc0006f, 0x00000000, 0x00000000, 0x00000000, 0x5ec0006f, 0x00000000, 0x00000000,
    0x00000000, 0x5ce0006f, 0x00000000, 0x00000000, 0x00000000, 0x5ee0006f, 0x00000000, 0x00000000]"

definition decomp16_328 :: "u32 list" where
  "decomp16_328 = [
    0x00000000, 0x2000006f, 0x00000000, 0x00000000, 0x00000000, 0x2200006f, 0x00000000, 0x00000000,
    0x00000000, 0x2020006f, 0x00000000, 0x00000000, 0x00000000, 0x2220006f, 0x00000000, 0x00000000,
    0x00000000, 0x2040006f, 0x00000000, 0x00000000, 0x00000000, 0x2240006f, 0x00000000, 0x00000000,
    0x00000000, 0x2060006f, 0x00000000, 0x00000000, 0x00000000, 0x2260006f, 0x00000000, 0x00000000,
    0x00000000, 0x2080006f, 0x00000000, 0x00000000, 0x00000000, 0x2280006f, 0x00000000, 0x00000000,
    0x00000000, 0x20a0006f, 0x00000000, 0x00000000, 0x00000000, 0x22a0006f, 0x00000000, 0x00000000,
    0x00000000, 0x20c0006f, 0x00000000, 0x00000000, 0x00000000, 0x22c0006f, 0x00000000, 0x00000000,
    0x00000000, 0x20e0006f, 0x00000000, 0x00000000, 0x00000000, 0x22e0006f, 0x00000000, 0x00000000,
    0x00000000, 0x2800006f, 0x00000000, 0x00000000, 0x00000000, 0x2a00006f, 0x00000000, 0x00000000,
    0x00000000, 0x2820006f, 0x00000000, 0x00000000, 0x00000000, 0x2a20006f, 0x00000000, 0x00000000,
    0x00000000, 0x2840006f, 0x00000000, 0x00000000, 0x00000000, 0x2a40006f, 0x00000000, 0x00000000,
    0x00000000, 0x2860006f, 0x00000000, 0x00000000, 0x00000000, 0x2a60006f, 0x00000000, 0x00000000,
    0x00000000, 0x2880006f, 0x00000000, 0x00000000, 0x00000000, 0x2a80006f, 0x00000000, 0x00000000,
    0x00000000, 0x28a0006f, 0x00000000, 0x00000000, 0x00000000, 0x2aa0006f, 0x00000000, 0x00000000,
    0x00000000, 0x28c0006f, 0x00000000, 0x00000000, 0x00000000, 0x2ac0006f, 0x00000000, 0x00000000,
    0x00000000, 0x28e0006f, 0x00000000, 0x00000000, 0x00000000, 0x2ae0006f, 0x00000000, 0x00000000]"

definition decomp16_329 :: "u32 list" where
  "decomp16_329 = [
    0x00000000, 0x2400006f, 0x00000000, 0x00000000, 0x00000000, 0x2600006f, 0x00000000, 0x00000000,
    0x00000000, 0x2420006f, 0x00000000, 0x00000000, 0x00000000, 0x2620006f, 0x00000000, 0x00000000,
    0x00000000, 0x2440006f, 0x00000000, 0x00000000, 0x00000000, 0x2640006f, 0x00000000, 0x00000000,
    0x00000000, 0x2460006f, 0x00000000, 0x00000000, 0x00000000, 0x2660006f, 0x00000000, 0x00000000,
    0x00000000, 0x2480006f, 0x00000000, 0x00000000, 0x00000000, 0x2680006f, 0x00000000, 0x00000000,
    0x00000000, 0x24a0006f, 0x00000000, 0x00000000, 0x00000000, 0x26a0006f, 0x00000000, 0x00000000,
    0x00000000, 0x24c0006f, 0x00000000, 0x00000000, 0x00000000, 0x26c0006f, 0x00000000, 0x00000000,
    0x00000000, 0x24e0006f, 0x00000000, 0x00000000, 0x00000000, 0x26e0006f, 0x00000000, 0x00000000,
    0x00000000, 0x2c00006f, 0x00000000, 0x00000000, 0x00000000, 0x2e00006f, 0x00000000, 0x00000000,
    0x00000000, 0x2c20006f, 0x00000000, 0x00000000, 0x00000000, 0x2e20006f, 0x00000000, 0x00000000,
    0x00000000, 0x2c40006f, 0x00000000, 0x00000000, 0x00000000, 0x2e40006f, 0x00000000, 0x00000000,
    0x00000000, 0x2c60006f, 0x00000000, 0x00000000, 0x00000000, 0x2e60006f, 0x00000000, 0x00000000,
    0x00000000, 0x2c80006f, 0x00000000, 0x00000000, 0x00000000, 0x2e80006f, 0x00000000, 0x00000000,
    0x00000000, 0x2ca0006f, 0x00000000, 0x00000000, 0x00000000, 0x2ea0006f, 0x00000000, 0x00000000,
    0x00000000, 0x2cc0006f, 0x00000000, 0x00000000, 0x00000000, 0x2ec0006f, 0x00000000, 0x00000000,
    0x00000000, 0x2ce0006f, 0x00000000, 0x00000000, 0x00000000, 0x2ee0006f, 0x00000000, 0x00000000]"

definition decomp16_330 :: "u32 list" where
  "decomp16_330 = [
    0x00000000, 0x6000006f, 0x00000000, 0x00000000, 0x00000000, 0x6200006f, 0x00000000, 0x00000000,
    0x00000000, 0x6020006f, 0x00000000, 0x00000000, 0x00000000, 0x6220006f, 0x00000000, 0x00000000,
    0x00000000, 0x6040006f, 0x00000000, 0x00000000, 0x00000000, 0x6240006f, 0x00000000, 0x00000000,
    0x00000000, 0x6060006f, 0x00000000, 0x00000000, 0x00000000, 0x6260006f, 0x00000000, 0x00000000,
    0x00000000, 0x6080006f, 0x00000000, 0x00000000, 0x00000000, 0x6280006f, 0x00000000, 0x00000000,
    0x00000000, 0x60a0006f, 0x00000000, 0x00000000, 0x00000000, 0x62a0006f, 0x00000000, 0x00000000,
    0x00000000, 0x60c0006f, 0x00000000, 0x00000000, 0x00000000, 0x62c0006f, 0x00000000, 0x00000000,
    0x00000000, 0x60e0006f, 0x00000000, 0x00000000, 0x00000000, 0x62e0006f, 0x00000000, 0x00000000,
    0x00000000, 0x6800006f, 0x00000000, 0x00000000, 0x00000000, 0x6a00006f, 0x00000000, 0x00000000,
    0x00000000, 0x6820006f, 0x00000000, 0x00000000, 0x00000000, 0x6a20006f, 0x00000000, 0x00000000,
    0x00000000, 0x6840006f, 0x00000000, 0x00000000, 0x00000000, 0x6a40006f, 0x00000000, 0x00000000,
    0x00000000, 0x6860006f, 0x00000000, 0x00000000, 0x00000000, 0x6a60006f, 0x00000000, 0x00000000,
    0x00000000, 0x6880006f, 0x00000000, 0x00000000, 0x00000000, 0x6a80006f, 0x00000000, 0x00000000,
    0x00000000, 0x68a0006f, 0x00000000, 0x00000000, 0x00000000, 0x6aa0006f, 0x00000000, 0x00000000,
    0x00000000, 0x68c0006f, 0x00000000, 0x00000000, 0x00000000, 0x6ac0006f, 0x00000000, 0x00000000,
    0x00000000, 0x68e0006f, 0x00000000, 0x00000000, 0x00000000, 0x6ae0006f, 0x00000000, 0x00000000]"

definition decomp16_331 :: "u32 list" where
  "decomp16_331 = [
    0x00000000, 0x6400006f, 0x00000000, 0x00000000, 0x00000000, 0x6600006f, 0x00000000, 0x00000000,
    0x00000000, 0x6420006f, 0x00000000, 0x00000000, 0x00000000, 0x6620006f, 0x00000000, 0x00000000,
    0x00000000, 0x6440006f, 0x00000000, 0x00000000, 0x00000000, 0x6640006f, 0x00000000, 0x00000000,
    0x00000000, 0x6460006f, 0x00000000, 0x00000000, 0x00000000, 0x6660006f, 0x00000000, 0x00000000,
    0x00000000, 0x6480006f, 0x00000000, 0x00000000, 0x00000000, 0x6680006f, 0x00000000, 0x00000000,
    0x00000000, 0x64a0006f, 0x00000000, 0x00000000, 0x00000000, 0x66a0006f, 0x00000000, 0x00000000,
    0x00000000, 0x64c0006f, 0x00000000, 0x00000000, 0x00000000, 0x66c0006f, 0x00000000, 0x00000000,
    0x00000000, 0x64e0006f, 0x00000000, 0x00000000, 0x00000000, 0x66e0006f, 0x00000000, 0x00000000,
    0x00000000, 0x6c00006f, 0x00000000, 0x00000000, 0x00000000, 0x6e00006f, 0x00000000, 0x00000000,
    0x00000000, 0x6c20006f, 0x00000000, 0x00000000, 0x00000000, 0x6e20006f, 0x00000000, 0x00000000,
    0x00000000, 0x6c40006f, 0x00000000, 0x00000000, 0x00000000, 0x6e40006f, 0x00000000, 0x00000000,
    0x00000000, 0x6c60006f, 0x00000000, 0x00000000, 0x00000000, 0x6e60006f, 0x00000000, 0x00000000,
    0x00000000, 0x6c80006f, 0x00000000, 0x00000000, 0x00000000, 0x6e80006f, 0x00000000, 0x00000000,
    0x00000000, 0x6ca0006f, 0x00000000, 0x00000000, 0x00000000, 0x6ea0006f, 0x00000000, 0x00000000,
    0x00000000, 0x6cc0006f, 0x00000000, 0x00000000, 0x00000000, 0x6ec0006f, 0x00000000, 0x00000000,
    0x00000000, 0x6ce0006f, 0x00000000, 0x00000000, 0x00000000, 0x6ee0006f, 0x00000000, 0x00000000]"

definition decomp16_332 :: "u32 list" where
  "decomp16_332 = [
    0x00000000, 0x3000006f, 0x00000000, 0x00000000, 0x00000000, 0x3200006f, 0x00000000, 0x00000000,
    0x00000000, 0x3020006f, 0x00000000, 0x00000000, 0x00000000, 0x3220006f, 0x00000000, 0x00000000,
    0x00000000, 0x3040006f, 0x00000000, 0x00000000, 0x00000000, 0x3240006f, 0x00000000, 0x00000000,
    0x00000000, 0x3060006f, 0x00000000, 0x00000000, 0x00000000, 0x3260006f, 0x00000000, 0x00000000,
    0x00000000, 0x3080006f, 0x00000000, 0x00000000, 0x00000000, 0x3280006f, 0x00000000, 0x00000000,
    0x00000000, 0x30a0006f, 0x00000000, 0x00000000, 0x00000000, 0x32a0006f, 0x00000000, 0x00000000,
    0x00000000, 0x30c0006f, 0x00000000, 0x00000000, 0x00000000, 0x32c0006f, 0x00000000, 0x00000000,
    0x00000000, 0x30e0006f, 0x00000000, 0x00000000, 0x00000000, 0x32e0006f, 0x00000000, 0x00000000,
    0x00000000, 0x3800006f, 0x00000000, 0x00000000, 0x00000000, 0x3a00006f, 0x00000000, 0x00000000,
    0x00000000, 0x3820006f, 0x00000000, 0x00000000, 0x00000000, 0x3a20006f, 0x00000000, 0x00000000,
    0x00000000, 0x3840006f, 0x00000000, 0x00000000, 0x00000000, 0x3a40006f, 0x00000000, 0x00000000,
    0x00000000, 0x3860006f, 0x00000000, 0x00000000, 0x00000000, 0x3a60006f, 0x00000000, 0x00000000,
    0x00000000, 0x3880006f, 0x00000000, 0x00000000, 0x00000000, 0x3a80006f, 0x00000000, 0x00000000,
    0x00000000, 0x38a0006f, 0x00000000, 0x00000000, 0x00000000, 0x3aa0006f, 0x00000000, 0x00000000,
    0x00000000, 0x38c0006f, 0x00000000, 0x00000000, 0x00000000, 0x3ac0006f, 0x00000000, 0x00000000,
    0x00000000, 0x38e0006f, 0x00000000, 0x00000000, 0x00000000, 0x3ae0006f, 0x00000000, 0x00000000]"

definition decomp16_333 :: "u32 list" where
  "decomp16_333 = [
    0x00000000, 0x3400006f, 0x00000000, 0x00000000, 0x00000000, 0x3600006f, 0x00000000, 0x00000000,
    0x00000000, 0x3420006f, 0x00000000, 0x00000000, 0x00000000, 0x3620006f, 0x00000000, 0x00000000,
    0x00000000, 0x3440006f, 0x00000000, 0x00000000, 0x00000000, 0x3640006f, 0x00000000, 0x00000000,
    0x00000000, 0x3460006f, 0x00000000, 0x00000000, 0x00000000, 0x3660006f, 0x00000000, 0x00000000,
    0x00000000, 0x3480006f, 0x00000000, 0x00000000, 0x00000000, 0x3680006f, 0x00000000, 0x00000000,
    0x00000000, 0x34a0006f, 0x00000000, 0x00000000, 0x00000000, 0x36a0006f, 0x00000000, 0x00000000,
    0x00000000, 0x34c0006f, 0x00000000, 0x00000000, 0x00000000, 0x36c0006f, 0x00000000, 0x00000000,
    0x00000000, 0x34e0006f, 0x00000000, 0x00000000, 0x00000000, 0x36e0006f, 0x00000000, 0x00000000,
    0x00000000, 0x3c00006f, 0x00000000, 0x00000000, 0x00000000, 0x3e00006f, 0x00000000, 0x00000000,
    0x00000000, 0x3c20006f, 0x00000000, 0x00000000, 0x00000000, 0x3e20006f, 0x00000000, 0x00000000,
    0x00000000, 0x3c40006f, 0x00000000, 0x00000000, 0x00000000, 0x3e40006f, 0x00000000, 0x00000000,
    0x00000000, 0x3c60006f, 0x00000000, 0x00000000, 0x00000000, 0x3e60006f, 0x00000000, 0x00000000,
    0x00000000, 0x3c80006f, 0x00000000, 0x00000000, 0x00000000, 0x3e80006f, 0x00000000, 0x00000000,
    0x00000000, 0x3ca0006f, 0x00000000, 0x00000000, 0x00000000, 0x3ea0006f, 0x00000000, 0x00000000,
    0x00000000, 0x3cc0006f, 0x00000000, 0x00000000, 0x00000000, 0x3ec0006f, 0x00000000, 0x00000000,
    0x00000000, 0x3ce0006f, 0x00000000, 0x00000000, 0x00000000, 0x3ee0006f, 0x00000000, 0x00000000]"

definition decomp16_334 :: "u32 list" where
  "decomp16_334 = [
    0x00000000, 0x7000006f, 0x00000000, 0x00000000, 0x00000000, 0x7200006f, 0x00000000, 0x00000000,
    0x00000000, 0x7020006f, 0x00000000, 0x00000000, 0x00000000, 0x7220006f, 0x00000000, 0x00000000,
    0x00000000, 0x7040006f, 0x00000000, 0x00000000, 0x00000000, 0x7240006f, 0x00000000, 0x00000000,
    0x00000000, 0x7060006f, 0x00000000, 0x00000000, 0x00000000, 0x7260006f, 0x00000000, 0x00000000,
    0x00000000, 0x7080006f, 0x00000000, 0x00000000, 0x00000000, 0x7280006f, 0x00000000, 0x00000000,
    0x00000000, 0x70a0006f, 0x00000000, 0x00000000, 0x00000000, 0x72a0006f, 0x00000000, 0x00000000,
    0x00000000, 0x70c0006f, 0x00000000, 0x00000000, 0x00000000, 0x72c0006f, 0x00000000, 0x00000000,
    0x00000000, 0x70e0006f, 0x00000000, 0x00000000, 0x00000000, 0x72e0006f, 0x00000000, 0x00000000,
    0x00000000, 0x7800006f, 0x00000000, 0x00000000, 0x00000000, 0x7a00006f, 0x00000000, 0x00000000,
    0x00000000, 0x7820006f, 0x00000000, 0x00000000, 0x00000000, 0x7a20006f, 0x00000000, 0x00000000,
    0x00000000, 0x7840006f, 0x00000000, 0x00000000, 0x00000000, 0x7a40006f, 0x00000000, 0x00000000,
    0x00000000, 0x7860006f, 0x00000000, 0x00000000, 0x00000000, 0x7a60006f, 0x00000000, 0x00000000,
    0x00000000, 0x7880006f, 0x00000000, 0x00000000, 0x00000000, 0x7a80006f, 0x00000000, 0x00000000,
    0x00000000, 0x78a0006f, 0x00000000, 0x00000000, 0x00000000, 0x7aa0006f, 0x00000000, 0x00000000,
    0x00000000, 0x78c0006f, 0x00000000, 0x00000000, 0x00000000, 0x7ac0006f, 0x00000000, 0x00000000,
    0x00000000, 0x78e0006f, 0x00000000, 0x00000000, 0x00000000, 0x7ae0006f, 0x00000000, 0x00000000]"

definition decomp16_335 :: "u32 list" where
  "decomp16_335 = [
    0x00000000, 0x7400006f, 0x00000000, 0x00000000, 0x00000000, 0x7600006f, 0x00000000, 0x00000000,
    0x00000000, 0x7420006f, 0x00000000, 0x00000000, 0x00000000, 0x7620006f, 0x00000000, 0x00000000,
    0x00000000, 0x7440006f, 0x00000000, 0x00000000, 0x00000000, 0x7640006f, 0x00000000, 0x00000000,
    0x00000000, 0x7460006f, 0x00000000, 0x00000000, 0x00000000, 0x7660006f, 0x00000000, 0x00000000,
    0x00000000, 0x7480006f, 0x00000000, 0x00000000, 0x00000000, 0x7680006f, 0x00000000, 0x00000000,
    0x00000000, 0x74a0006f, 0x00000000, 0x00000000, 0x00000000, 0x76a0006f, 0x00000000, 0x00000000,
    0x00000000, 0x74c0006f, 0x00000000, 0x00000000, 0x00000000, 0x76c0006f, 0x00000000, 0x00000000,
    0x00000000, 0x74e0006f, 0x00000000, 0x00000000, 0x00000000, 0x76e0006f, 0x00000000, 0x00000000,
    0x00000000, 0x7c00006f, 0x00000000, 0x00000000, 0x00000000, 0x7e00006f, 0x00000000, 0x00000000,
    0x00000000, 0x7c20006f, 0x00000000, 0x00000000, 0x00000000, 0x7e20006f, 0x00000000, 0x00000000,
    0x00000000, 0x7c40006f, 0x00000000, 0x00000000, 0x00000000, 0x7e40006f, 0x00000000, 0x00000000,
    0x00000000, 0x7c60006f, 0x00000000, 0x00000000, 0x00000000, 0x7e60006f, 0x00000000, 0x00000000,
    0x00000000, 0x7c80006f, 0x00000000, 0x00000000, 0x00000000, 0x7e80006f, 0x00000000, 0x00000000,
    0x00000000, 0x7ca0006f, 0x00000000, 0x00000000, 0x00000000, 0x7ea0006f, 0x00000000, 0x00000000,
    0x00000000, 0x7cc0006f, 0x00000000, 0x00000000, 0x00000000, 0x7ec0006f, 0x00000000, 0x00000000,
    0x00000000, 0x7ce0006f, 0x00000000, 0x00000000, 0x00000000, 0x7ee0006f, 0x00000000, 0x00000000]"

definition decomp16_336 :: "u32 list" where
  "decomp16_336 = [
    0x00000000, 0x0100006f, 0x00000000, 0x00000000, 0x00000000, 0x0300006f, 0x00000000, 0x00000000,
    0x00000000, 0x0120006f, 0x00000000, 0x00000000, 0x00000000, 0x0320006f, 0x00000000, 0x00000000,
    0x00000000, 0x0140006f, 0x00000000, 0x00000000, 0x00000000, 0x0340006f, 0x00000000, 0x00000000,
    0x00000000, 0x0160006f, 0x00000000, 0x00000000, 0x00000000, 0x0360006f, 0x00000000, 0x00000000,
    0x00000000, 0x0180006f, 0x00000000, 0x00000000, 0x00000000, 0x0380006f, 0x00000000, 0x00000000,
    0x00000000, 0x01a0006f, 0x00000000, 0x00000000, 0x00000000, 0x03a0006f, 0x00000000, 0x00000000,
    0x00000000, 0x01c0006f, 0x00000000, 0x00000000, 0x00000000, 0x03c0006f, 0x00000000, 0x00000000,
    0x00000000, 0x01e0006f, 0x00000000, 0x00000000, 0x00000000, 0x03e0006f, 0x00000000, 0x00000000,
    0x00000000, 0x0900006f, 0x00000000, 0x00000000, 0x00000000, 0x0b00006f, 0x00000000, 0x00000000,
    0x00000000, 0x0920006f, 0x00000000, 0x00000000, 0x00000000, 0x0b20006f, 0x00000000, 0x00000000,
    0x00000000, 0x0940006f, 0x00000000, 0x00000000, 0x00000000, 0x0b40006f, 0x00000000, 0x00000000,
    0x00000000, 0x0960006f, 0x00000000, 0x00000000, 0x00000000, 0x0b60006f, 0x00000000, 0x00000000,
    0x00000000, 0x0980006f, 0x00000000, 0x00000000, 0x00000000, 0x0b80006f, 0x00000000, 0x00000000,
    0x00000000, 0x09a0006f, 0x00000000, 0x00000000, 0x00000000, 0x0ba0006f, 0x00000000, 0x00000000,
    0x00000000, 0x09c0006f, 0x00000000, 0x00000000, 0x00000000, 0x0bc0006f, 0x00000000, 0x00000000,
    0x00000000, 0x09e0006f, 0x00000000, 0x00000000, 0x00000000, 0x0be0006f, 0x00000000, 0x00000000]"

definition decomp16_337 :: "u32 list" where
  "decomp16_337 = [
    0x00000000, 0x0500006f, 0x00000000, 0x00000000, 0x00000000, 0x0700006f, 0x00000000, 0x00000000,
    0x00000000, 0x0520006f, 0x00000000, 0x00000000, 0x00000000, 0x0720006f, 0x00000000, 0x00000000,
    0x00000000, 0x0540006f, 0x00000000, 0x00000000, 0x00000000, 0x0740006f, 0x00000000, 0x00000000,
    0x00000000, 0x0560006f, 0x00000000, 0x00000000, 0x00000000, 0x0760006f, 0x00000000, 0x00000000,
    0x00000000, 0x0580006f, 0x00000000, 0x00000000, 0x00000000, 0x0780006f, 0x00000000, 0x00000000,
    0x00000000, 0x05a0006f, 0x00000000, 0x00000000, 0x00000000, 0x07a0006f, 0x00000000, 0x00000000,
    0x00000000, 0x05c0006f, 0x00000000, 0x00000000, 0x00000000, 0x07c0006f, 0x00000000, 0x00000000,
    0x00000000, 0x05e0006f, 0x00000000, 0x00000000, 0x00000000, 0x07e0006f, 0x00000000, 0x00000000,
    0x00000000, 0x0d00006f, 0x00000000, 0x00000000, 0x00000000, 0x0f00006f, 0x00000000, 0x00000000,
    0x00000000, 0x0d20006f, 0x00000000, 0x00000000, 0x00000000, 0x0f20006f, 0x00000000, 0x00000000,
    0x00000000, 0x0d40006f, 0x00000000, 0x00000000, 0x00000000, 0x0f40006f, 0x00000000, 0x00000000,
    0x00000000, 0x0d60006f, 0x00000000, 0x00000000, 0x00000000, 0x0f60006f, 0x00000000, 0x00000000,
    0x00000000, 0x0d80006f, 0x00000000, 0x00000000, 0x00000000, 0x0f80006f, 0x00000000, 0x00000000,
    0x00000000, 0x0da0006f, 0x00000000, 0x00000000, 0x00000000, 0x0fa0006f, 0x00000000, 0x00000000,
    0x00000000, 0x0dc0006f, 0x00000000, 0x00000000, 0x00000000, 0x0fc0006f, 0x00000000, 0x00000000,
    0x00000000, 0x0de0006f, 0x00000000, 0x00000000, 0x00000000, 0x0fe0006f, 0x00000000, 0x00000000]"

definition decomp16_338 :: "u32 list" where
  "decomp16_338 = [
    0x00000000, 0x4100006f, 0x00000000, 0x00000000, 0x00000000, 0x4300006f, 0x00000000, 0x00000000,
    0x00000000, 0x4120006f, 0x00000000, 0x00000000, 0x00000000, 0x4320006f, 0x00000000, 0x00000000,
    0x00000000, 0x4140006f, 0x00000000, 0x00000000, 0x00000000, 0x4340006f, 0x00000000, 0x00000000,
    0x00000000, 0x4160006f, 0x00000000, 0x00000000, 0x00000000, 0x4360006f, 0x00000000, 0x00000000,
    0x00000000, 0x4180006f, 0x00000000, 0x00000000, 0x00000000, 0x4380006f, 0x00000000, 0x00000000,
    0x00000000, 0x41a0006f, 0x00000000, 0x00000000, 0x00000000, 0x43a0006f, 0x00000000, 0x00000000,
    0x00000000, 0x41c0006f, 0x00000000, 0x00000000, 0x00000000, 0x43c0006f, 0x00000000, 0x00000000,
    0x00000000, 0x41e0006f, 0x00000000, 0x00000000, 0x00000000, 0x43e0006f, 0x00000000, 0x00000000,
    0x00000000, 0x4900006f, 0x00000000, 0x00000000, 0x00000000, 0x4b00006f, 0x00000000, 0x00000000,
    0x00000000, 0x4920006f, 0x00000000, 0x00000000, 0x00000000, 0x4b20006f, 0x00000000, 0x00000000,
    0x00000000, 0x4940006f, 0x00000000, 0x00000000, 0x00000000, 0x4b40006f, 0x00000000, 0x00000000,
    0x00000000, 0x4960006f, 0x00000000, 0x00000000, 0x00000000, 0x4b60006f, 0x00000000, 0x00000000,
    0x00000000, 0x4980006f, 0x00000000, 0x00000000, 0x00000000, 0x4b80006f, 0x00000000, 0x00000000,
    0x00000000, 0x49a0006f, 0x00000000, 0x00000000, 0x00000000, 0x4ba0006f, 0x00000000, 0x00000000,
    0x00000000, 0x49c0006f, 0x00000000, 0x00000000, 0x00000000, 0x4bc0006f, 0x00000000, 0x00000000,
    0x00000000, 0x49e0006f, 0x00000000, 0x00000000, 0x00000000, 0x4be0006f, 0x00000000, 0x00000000]"

definition decomp16_339 :: "u32 list" where
  "decomp16_339 = [
    0x00000000, 0x4500006f, 0x00000000, 0x00000000, 0x00000000, 0x4700006f, 0x00000000, 0x00000000,
    0x00000000, 0x4520006f, 0x00000000, 0x00000000, 0x00000000, 0x4720006f, 0x00000000, 0x00000000,
    0x00000000, 0x4540006f, 0x00000000, 0x00000000, 0x00000000, 0x4740006f, 0x00000000, 0x00000000,
    0x00000000, 0x4560006f, 0x00000000, 0x00000000, 0x00000000, 0x4760006f, 0x00000000, 0x00000000,
    0x00000000, 0x4580006f, 0x00000000, 0x00000000, 0x00000000, 0x4780006f, 0x00000000, 0x00000000,
    0x00000000, 0x45a0006f, 0x00000000, 0x00000000, 0x00000000, 0x47a0006f, 0x00000000, 0x00000000,
    0x00000000, 0x45c0006f, 0x00000000, 0x00000000, 0x00000000, 0x47c0006f, 0x00000000, 0x00000000,
    0x00000000, 0x45e0006f, 0x00000000, 0x00000000, 0x00000000, 0x47e0006f, 0x00000000, 0x00000000,
    0x00000000, 0x4d00006f, 0x00000000, 0x00000000, 0x00000000, 0x4f00006f, 0x00000000, 0x00000000,
    0x00000000, 0x4d20006f, 0x00000000, 0x00000000, 0x00000000, 0x4f20006f, 0x00000000, 0x00000000,
    0x00000000, 0x4d40006f, 0x00000000, 0x00000000, 0x00000000, 0x4f40006f, 0x00000000, 0x00000000,
    0x00000000, 0x4d60006f, 0x00000000, 0x00000000, 0x00000000, 0x4f60006f, 0x00000000, 0x00000000,
    0x00000000, 0x4d80006f, 0x00000000, 0x00000000, 0x00000000, 0x4f80006f, 0x00000000, 0x00000000,
    0x00000000, 0x4da0006f, 0x00000000, 0x00000000, 0x00000000, 0x4fa0006f, 0x00000000, 0x00000000,
    0x00000000, 0x4dc0006f, 0x00000000, 0x00000000, 0x00000000, 0x4fc0006f, 0x00000000, 0x00000000,
    0x00000000, 0x4de0006f, 0x00000000, 0x00000000, 0x00000000, 0x4fe0006f, 0x00000000, 0x00000000]"

definition decomp16_340 :: "u32 list" where
  "decomp16_340 = [
    0x00000000, 0x1100006f, 0x00000000, 0x00000000, 0x00000000, 0x1300006f, 0x00000000, 0x00000000,
    0x00000000, 0x1120006f, 0x00000000, 0x00000000, 0x00000000, 0x1320006f, 0x00000000, 0x00000000,
    0x00000000, 0x1140006f, 0x00000000, 0x00000000, 0x00000000, 0x1340006f, 0x00000000, 0x00000000,
    0x00000000, 0x1160006f, 0x00000000, 0x00000000, 0x00000000, 0x1360006f, 0x00000000, 0x00000000,
    0x00000000, 0x1180006f, 0x00000000, 0x00000000, 0x00000000, 0x1380006f, 0x00000000, 0x00000000,
    0x00000000, 0x11a0006f, 0x00000000, 0x00000000, 0x00000000, 0x13a0006f, 0x00000000, 0x00000000,
    0x00000000, 0x11c0006f, 0x00000000, 0x00000000, 0x00000000, 0x13c0006f, 0x00000000, 0x00000000,
    0x00000000, 0x11e0006f, 0x00000000, 0x00000000, 0x00000000, 0x13e0006f, 0x00000000, 0x00000000,
    0x00000000, 0x1900006f, 0x00000000, 0x00000000, 0x00000000, 0x1b00006f, 0x00000000, 0x00000000,
    0x00000000, 0x1920006f, 0x00000000, 0x00000000, 0x00000000, 0x1b20006f, 0x00000000, 0x00000000,
    0x00000000, 0x1940006f, 0x00000000, 0x00000000, 0x00000000, 0x1b40006f, 0x00000000, 0x00000000,
    0x00000000, 0x1960006f, 0x00000000, 0x00000000, 0x00000000, 0x1b60006f, 0x00000000, 0x00000000,
    0x00000000, 0x1980006f, 0x00000000, 0x00000000, 0x00000000, 0x1b80006f, 0x00000000, 0x00000000,
    0x00000000, 0x19a0006f, 0x00000000, 0x00000000, 0x00000000, 0x1ba0006f, 0x00000000, 0x00000000,
    0x00000000, 0x19c0006f, 0x00000000, 0x00000000, 0x00000000, 0x1bc0006f, 0x00000000, 0x00000000,
    0x00000000, 0x19e0006f, 0x00000000, 0x00000000, 0x00000000, 0x1be0006f, 0x00000000, 0x00000000]"

definition decomp16_341 :: "u32 list" where
  "decomp16_341 = [
    0x00000000, 0x1500006f, 0x00000000, 0x00000000, 0x00000000, 0x1700006f, 0x00000000, 0x00000000,
    0x00000000, 0x1520006f, 0x00000000, 0x00000000, 0x00000000, 0x1720006f, 0x00000000, 0x00000000,
    0x00000000, 0x1540006f, 0x00000000, 0x00000000, 0x00000000, 0x1740006f, 0x00000000, 0x00000000,
    0x00000000, 0x1560006f, 0x00000000, 0x00000000, 0x00000000, 0x1760006f, 0x00000000, 0x00000000,
    0x00000000, 0x1580006f, 0x00000000, 0x00000000, 0x00000000, 0x1780006f, 0x00000000, 0x00000000,
    0x00000000, 0x15a0006f, 0x00000000, 0x00000000, 0x00000000, 0x17a0006f, 0x00000000, 0x00000000,
    0x00000000, 0x15c0006f, 0x00000000, 0x00000000, 0x00000000, 0x17c0006f, 0x00000000, 0x00000000,
    0x00000000, 0x15e0006f, 0x00000000, 0x00000000, 0x00000000, 0x17e0006f, 0x00000000, 0x00000000,
    0x00000000, 0x1d00006f, 0x00000000, 0x00000000, 0x00000000, 0x1f00006f, 0x00000000, 0x00000000,
    0x00000000, 0x1d20006f, 0x00000000, 0x00000000, 0x00000000, 0x1f20006f, 0x00000000, 0x00000000,
    0x00000000, 0x1d40006f, 0x00000000, 0x00000000, 0x00000000, 0x1f40006f, 0x00000000, 0x00000000,
    0x00000000, 0x1d60006f, 0x00000000, 0x00000000, 0x00000000, 0x1f60006f, 0x00000000, 0x00000000,
    0x00000000, 0x1d80006f, 0x00000000, 0x00000000, 0x00000000, 0x1f80006f, 0x00000000, 0x00000000,
    0x00000000, 0x1da0006f, 0x00000000, 0x00000000, 0x00000000, 0x1fa0006f, 0x00000000, 0x00000000,
    0x00000000, 0x1dc0006f, 0x00000000, 0x00000000, 0x00000000, 0x1fc0006f, 0x00000000, 0x00000000,
    0x00000000, 0x1de0006f, 0x00000000, 0x00000000, 0x00000000, 0x1fe0006f, 0x00000000, 0x00000000]"

definition decomp16_342 :: "u32 list" where
  "decomp16_342 = [
    0x00000000, 0x5100006f, 0x00000000, 0x00000000, 0x00000000, 0x5300006f, 0x00000000, 0x00000000,
    0x00000000, 0x5120006f, 0x00000000, 0x00000000, 0x00000000, 0x5320006f, 0x00000000, 0x00000000,
    0x00000000, 0x5140006f, 0x00000000, 0x00000000, 0x00000000, 0x5340006f, 0x00000000, 0x00000000,
    0x00000000, 0x5160006f, 0x00000000, 0x00000000, 0x00000000, 0x5360006f, 0x00000000, 0x00000000,
    0x00000000, 0x5180006f, 0x00000000, 0x00000000, 0x00000000, 0x5380006f, 0x00000000, 0x00000000,
    0x00000000, 0x51a0006f, 0x00000000, 0x00000000, 0x00000000, 0x53a0006f, 0x00000000, 0x00000000,
    0x00000000, 0x51c0006f, 0x00000000, 0x00000000, 0x00000000, 0x53c0006f, 0x00000000, 0x00000000,
    0x00000000, 0x51e0006f, 0x00000000, 0x00000000, 0x00000000, 0x53e0006f, 0x00000000, 0x00000000,
    0x00000000, 0x5900006f, 0x00000000, 0x00000000, 0x00000000, 0x5b00006f, 0x00000000, 0x00000000,
    0x00000000, 0x5920006f, 0x00000000, 0x00000000, 0x00000000, 0x5b20006f, 0x00000000, 0x00000000,
    0x00000000, 0x5940006f, 0x00000000, 0x00000000, 0x00000000, 0x5b40006f, 0x00000000, 0x00000000,
    0x00000000, 0x5960006f, 0x00000000, 0x00000000, 0x00000000, 0x5b60006f, 0x00000000, 0x00000000,
    0x00000000, 0x5980006f, 0x00000000, 0x00000000, 0x00000000, 0x5b80006f, 0x00000000, 0x00000000,
    0x00000000, 0x59a0006f, 0x00000000, 0x00000000, 0x00000000, 0x5ba0006f, 0x00000000, 0x00000000,
    0x00000000, 0x59c0006f, 0x00000000, 0x00000000, 0x00000000, 0x5bc0006f, 0x00000000, 0x00000000,
    0x00000000, 0x59e0006f, 0x00000000, 0x00000000, 0x00000000, 0x5be0006f, 0x00000000, 0x00000000]"

definition decomp16_343 :: "u32 list" where
  "decomp16_343 = [
    0x00000000, 0x5500006f, 0x00000000, 0x00000000, 0x00000000, 0x5700006f, 0x00000000, 0x00000000,
    0x00000000, 0x5520006f, 0x00000000, 0x00000000, 0x00000000, 0x5720006f, 0x00000000, 0x00000000,
    0x00000000, 0x5540006f, 0x00000000, 0x00000000, 0x00000000, 0x5740006f, 0x00000000, 0x00000000,
    0x00000000, 0x5560006f, 0x00000000, 0x00000000, 0x00000000, 0x5760006f, 0x00000000, 0x00000000,
    0x00000000, 0x5580006f, 0x00000000, 0x00000000, 0x00000000, 0x5780006f, 0x00000000, 0x00000000,
    0x00000000, 0x55a0006f, 0x00000000, 0x00000000, 0x00000000, 0x57a0006f, 0x00000000, 0x00000000,
    0x00000000, 0x55c0006f, 0x00000000, 0x00000000, 0x00000000, 0x57c0006f, 0x00000000, 0x00000000,
    0x00000000, 0x55e0006f, 0x00000000, 0x00000000, 0x00000000, 0x57e0006f, 0x00000000, 0x00000000,
    0x00000000, 0x5d00006f, 0x00000000, 0x00000000, 0x00000000, 0x5f00006f, 0x00000000, 0x00000000,
    0x00000000, 0x5d20006f, 0x00000000, 0x00000000, 0x00000000, 0x5f20006f, 0x00000000, 0x00000000,
    0x00000000, 0x5d40006f, 0x00000000, 0x00000000, 0x00000000, 0x5f40006f, 0x00000000, 0x00000000,
    0x00000000, 0x5d60006f, 0x00000000, 0x00000000, 0x00000000, 0x5f60006f, 0x00000000, 0x00000000,
    0x00000000, 0x5d80006f, 0x00000000, 0x00000000, 0x00000000, 0x5f80006f, 0x00000000, 0x00000000,
    0x00000000, 0x5da0006f, 0x00000000, 0x00000000, 0x00000000, 0x5fa0006f, 0x00000000, 0x00000000,
    0x00000000, 0x5dc0006f, 0x00000000, 0x00000000, 0x00000000, 0x5fc0006f, 0x00000000, 0x00000000,
    0x00000000, 0x5de0006f, 0x00000000, 0x00000000, 0x00000000, 0x5fe0006f, 0x00000000, 0x00000000]"

definition decomp16_344 :: "u32 list" where
  "decomp16_344 = [
    0x00000000, 0x2100006f, 0x00000000, 0x00000000, 0x00000000, 0x2300006f, 0x00000000, 0x00000000,
    0x00000000, 0x2120006f, 0x00000000, 0x00000000, 0x00000000, 0x2320006f, 0x00000000, 0x00000000,
    0x00000000, 0x2140006f, 0x00000000, 0x00000000, 0x00000000, 0x2340006f, 0x00000000, 0x00000000,
    0x00000000, 0x2160006f, 0x00000000, 0x00000000, 0x00000000, 0x2360006f, 0x00000000, 0x00000000,
    0x00000000, 0x2180006f, 0x00000000, 0x00000000, 0x00000000, 0x2380006f, 0x00000000, 0x00000000,
    0x00000000, 0x21a0006f, 0x00000000, 0x00000000, 0x00000000, 0x23a0006f, 0x00000000, 0x00000000,
    0x00000000, 0x21c0006f, 0x00000000, 0x00000000, 0x00000000, 0x23c0006f, 0x00000000, 0x00000000,
    0x00000000, 0x21e0006f, 0x00000000, 0x00000000, 0x00000000, 0x23e0006f, 0x00000000, 0x00000000,
    0x00000000, 0x2900006f, 0x00000000, 0x00000000, 0x00000000, 0x2b00006f, 0x00000000, 0x00000000,
    0x00000000, 0x2920006f, 0x00000000, 0x00000000, 0x00000000, 0x2b20006f, 0x00000000, 0x00000000,
    0x00000000, 0x2940006f, 0x00000000, 0x00000000, 0x00000000, 0x2b40006f, 0x00000000, 0x00000000,
    0x00000000, 0x2960006f, 0x00000000, 0x00000000, 0x00000000, 0x2b60006f, 0x00000000, 0x00000000,
    0x00000000, 0x2980006f, 0x00000000, 0x00000000, 0x00000000, 0x2b80006f, 0x00000000, 0x00000000,
    0x00000000, 0x29a0006f, 0x00000000, 0x00000000, 0x00000000, 0x2ba0006f, 0x00000000, 0x00000000,
    0x00000000, 0x29c0006f, 0x00000000, 0x00000000, 0x00000000, 0x2bc0006f, 0x00000000, 0x00000000,
    0x00000000, 0x29e0006f, 0x00000000, 0x00000000, 0x00000000, 0x2be0006f, 0x00000000, 0x00000000]"

definition decomp16_345 :: "u32 list" where
  "decomp16_345 = [
    0x00000000, 0x2500006f, 0x00000000, 0x00000000, 0x00000000, 0x2700006f, 0x00000000, 0x00000000,
    0x00000000, 0x2520006f, 0x00000000, 0x00000000, 0x00000000, 0x2720006f, 0x00000000, 0x00000000,
    0x00000000, 0x2540006f, 0x00000000, 0x00000000, 0x00000000, 0x2740006f, 0x00000000, 0x00000000,
    0x00000000, 0x2560006f, 0x00000000, 0x00000000, 0x00000000, 0x2760006f, 0x00000000, 0x00000000,
    0x00000000, 0x2580006f, 0x00000000, 0x00000000, 0x00000000, 0x2780006f, 0x00000000, 0x00000000,
    0x00000000, 0x25a0006f, 0x00000000, 0x00000000, 0x00000000, 0x27a0006f, 0x00000000, 0x00000000,
    0x00000000, 0x25c0006f, 0x00000000, 0x00000000, 0x00000000, 0x27c0006f, 0x00000000, 0x00000000,
    0x00000000, 0x25e0006f, 0x00000000, 0x00000000, 0x00000000, 0x27e0006f, 0x00000000, 0x00000000,
    0x00000000, 0x2d00006f, 0x00000000, 0x00000000, 0x00000000, 0x2f00006f, 0x00000000, 0x00000000,
    0x00000000, 0x2d20006f, 0x00000000, 0x00000000, 0x00000000, 0x2f20006f, 0x00000000, 0x00000000,
    0x00000000, 0x2d40006f, 0x00000000, 0x00000000, 0x00000000, 0x2f40006f, 0x00000000, 0x00000000,
    0x00000000, 0x2d60006f, 0x00000000, 0x00000000, 0x00000000, 0x2f60006f, 0x00000000, 0x00000000,
    0x00000000, 0x2d80006f, 0x00000000, 0x00000000, 0x00000000, 0x2f80006f, 0x00000000, 0x00000000,
    0x00000000, 0x2da0006f, 0x00000000, 0x00000000, 0x00000000, 0x2fa0006f, 0x00000000, 0x00000000,
    0x00000000, 0x2dc0006f, 0x00000000, 0x00000000, 0x00000000, 0x2fc0006f, 0x00000000, 0x00000000,
    0x00000000, 0x2de0006f, 0x00000000, 0x00000000, 0x00000000, 0x2fe0006f, 0x00000000, 0x00000000]"

definition decomp16_346 :: "u32 list" where
  "decomp16_346 = [
    0x00000000, 0x6100006f, 0x00000000, 0x00000000, 0x00000000, 0x6300006f, 0x00000000, 0x00000000,
    0x00000000, 0x6120006f, 0x00000000, 0x00000000, 0x00000000, 0x6320006f, 0x00000000, 0x00000000,
    0x00000000, 0x6140006f, 0x00000000, 0x00000000, 0x00000000, 0x6340006f, 0x00000000, 0x00000000,
    0x00000000, 0x6160006f, 0x00000000, 0x00000000, 0x00000000, 0x6360006f, 0x00000000, 0x00000000,
    0x00000000, 0x6180006f, 0x00000000, 0x00000000, 0x00000000, 0x6380006f, 0x00000000, 0x00000000,
    0x00000000, 0x61a0006f, 0x00000000, 0x00000000, 0x00000000, 0x63a0006f, 0x00000000, 0x00000000,
    0x00000000, 0x61c0006f, 0x00000000, 0x00000000, 0x00000000, 0x63c0006f, 0x00000000, 0x00000000,
    0x00000000, 0x61e0006f, 0x00000000, 0x00000000, 0x00000000, 0x63e0006f, 0x00000000, 0x00000000,
    0x00000000, 0x6900006f, 0x00000000, 0x00000000, 0x00000000, 0x6b00006f, 0x00000000, 0x00000000,
    0x00000000, 0x6920006f, 0x00000000, 0x00000000, 0x00000000, 0x6b20006f, 0x00000000, 0x00000000,
    0x00000000, 0x6940006f, 0x00000000, 0x00000000, 0x00000000, 0x6b40006f, 0x00000000, 0x00000000,
    0x00000000, 0x6960006f, 0x00000000, 0x00000000, 0x00000000, 0x6b60006f, 0x00000000, 0x00000000,
    0x00000000, 0x6980006f, 0x00000000, 0x00000000, 0x00000000, 0x6b80006f, 0x00000000, 0x00000000,
    0x00000000, 0x69a0006f, 0x00000000, 0x00000000, 0x00000000, 0x6ba0006f, 0x00000000, 0x00000000,
    0x00000000, 0x69c0006f, 0x00000000, 0x00000000, 0x00000000, 0x6bc0006f, 0x00000000, 0x00000000,
    0x00000000, 0x69e0006f, 0x00000000, 0x00000000, 0x00000000, 0x6be0006f, 0x00000000, 0x00000000]"

definition decomp16_347 :: "u32 list" where
  "decomp16_347 = [
    0x00000000, 0x6500006f, 0x00000000, 0x00000000, 0x00000000, 0x6700006f, 0x00000000, 0x00000000,
    0x00000000, 0x6520006f, 0x00000000, 0x00000000, 0x00000000, 0x6720006f, 0x00000000, 0x00000000,
    0x00000000, 0x6540006f, 0x00000000, 0x00000000, 0x00000000, 0x6740006f, 0x00000000, 0x00000000,
    0x00000000, 0x6560006f, 0x00000000, 0x00000000, 0x00000000, 0x6760006f, 0x00000000, 0x00000000,
    0x00000000, 0x6580006f, 0x00000000, 0x00000000, 0x00000000, 0x6780006f, 0x00000000, 0x00000000,
    0x00000000, 0x65a0006f, 0x00000000, 0x00000000, 0x00000000, 0x67a0006f, 0x00000000, 0x00000000,
    0x00000000, 0x65c0006f, 0x00000000, 0x00000000, 0x00000000, 0x67c0006f, 0x00000000, 0x00000000,
    0x00000000, 0x65e0006f, 0x00000000, 0x00000000, 0x00000000, 0x67e0006f, 0x00000000, 0x00000000,
    0x00000000, 0x6d00006f, 0x00000000, 0x00000000, 0x00000000, 0x6f00006f, 0x00000000, 0x00000000,
    0x00000000, 0x6d20006f, 0x00000000, 0x00000000, 0x00000000, 0x6f20006f, 0x00000000, 0x00000000,
    0x00000000, 0x6d40006f, 0x00000000, 0x00000000, 0x00000000, 0x6f40006f, 0x00000000, 0x00000000,
    0x00000000, 0x6d60006f, 0x00000000, 0x00000000, 0x00000000, 0x6f60006f, 0x00000000, 0x00000000,
    0x00000000, 0x6d80006f, 0x00000000, 0x00000000, 0x00000000, 0x6f80006f, 0x00000000, 0x00000000,
    0x00000000, 0x6da0006f, 0x00000000, 0x00000000, 0x00000000, 0x6fa0006f, 0x00000000, 0x00000000,
    0x00000000, 0x6dc0006f, 0x00000000, 0x00000000, 0x00000000, 0x6fc0006f, 0x00000000, 0x00000000,
    0x00000000, 0x6de0006f, 0x00000000, 0x00000000, 0x00000000, 0x6fe0006f, 0x00000000, 0x00000000]"

definition decomp16_348 :: "u32 list" where
  "decomp16_348 = [
    0x00000000, 0x3100006f, 0x00000000, 0x00000000, 0x00000000, 0x3300006f, 0x00000000, 0x00000000,
    0x00000000, 0x3120006f, 0x00000000, 0x00000000, 0x00000000, 0x3320006f, 0x00000000, 0x00000000,
    0x00000000, 0x3140006f, 0x00000000, 0x00000000, 0x00000000, 0x3340006f, 0x00000000, 0x00000000,
    0x00000000, 0x3160006f, 0x00000000, 0x00000000, 0x00000000, 0x3360006f, 0x00000000, 0x00000000,
    0x00000000, 0x3180006f, 0x00000000, 0x00000000, 0x00000000, 0x3380006f, 0x00000000, 0x00000000,
    0x00000000, 0x31a0006f, 0x00000000, 0x00000000, 0x00000000, 0x33a0006f, 0x00000000, 0x00000000,
    0x00000000, 0x31c0006f, 0x00000000, 0x00000000, 0x00000000, 0x33c0006f, 0x00000000, 0x00000000,
    0x00000000, 0x31e0006f, 0x00000000, 0x00000000, 0x00000000, 0x33e0006f, 0x00000000, 0x00000000,
    0x00000000, 0x3900006f, 0x00000000, 0x00000000, 0x00000000, 0x3b00006f, 0x00000000, 0x00000000,
    0x00000000, 0x3920006f, 0x00000000, 0x00000000, 0x00000000, 0x3b20006f, 0x00000000, 0x00000000,
    0x00000000, 0x3940006f, 0x00000000, 0x00000000, 0x00000000, 0x3b40006f, 0x00000000, 0x00000000,
    0x00000000, 0x3960006f, 0x00000000, 0x00000000, 0x00000000, 0x3b60006f, 0x00000000, 0x00000000,
    0x00000000, 0x3980006f, 0x00000000, 0x00000000, 0x00000000, 0x3b80006f, 0x00000000, 0x00000000,
    0x00000000, 0x39a0006f, 0x00000000, 0x00000000, 0x00000000, 0x3ba0006f, 0x00000000, 0x00000000,
    0x00000000, 0x39c0006f, 0x00000000, 0x00000000, 0x00000000, 0x3bc0006f, 0x00000000, 0x00000000,
    0x00000000, 0x39e0006f, 0x00000000, 0x00000000, 0x00000000, 0x3be0006f, 0x00000000, 0x00000000]"

definition decomp16_349 :: "u32 list" where
  "decomp16_349 = [
    0x00000000, 0x3500006f, 0x00000000, 0x00000000, 0x00000000, 0x3700006f, 0x00000000, 0x00000000,
    0x00000000, 0x3520006f, 0x00000000, 0x00000000, 0x00000000, 0x3720006f, 0x00000000, 0x00000000,
    0x00000000, 0x3540006f, 0x00000000, 0x00000000, 0x00000000, 0x3740006f, 0x00000000, 0x00000000,
    0x00000000, 0x3560006f, 0x00000000, 0x00000000, 0x00000000, 0x3760006f, 0x00000000, 0x00000000,
    0x00000000, 0x3580006f, 0x00000000, 0x00000000, 0x00000000, 0x3780006f, 0x00000000, 0x00000000,
    0x00000000, 0x35a0006f, 0x00000000, 0x00000000, 0x00000000, 0x37a0006f, 0x00000000, 0x00000000,
    0x00000000, 0x35c0006f, 0x00000000, 0x00000000, 0x00000000, 0x37c0006f, 0x00000000, 0x00000000,
    0x00000000, 0x35e0006f, 0x00000000, 0x00000000, 0x00000000, 0x37e0006f, 0x00000000, 0x00000000,
    0x00000000, 0x3d00006f, 0x00000000, 0x00000000, 0x00000000, 0x3f00006f, 0x00000000, 0x00000000,
    0x00000000, 0x3d20006f, 0x00000000, 0x00000000, 0x00000000, 0x3f20006f, 0x00000000, 0x00000000,
    0x00000000, 0x3d40006f, 0x00000000, 0x00000000, 0x00000000, 0x3f40006f, 0x00000000, 0x00000000,
    0x00000000, 0x3d60006f, 0x00000000, 0x00000000, 0x00000000, 0x3f60006f, 0x00000000, 0x00000000,
    0x00000000, 0x3d80006f, 0x00000000, 0x00000000, 0x00000000, 0x3f80006f, 0x00000000, 0x00000000,
    0x00000000, 0x3da0006f, 0x00000000, 0x00000000, 0x00000000, 0x3fa0006f, 0x00000000, 0x00000000,
    0x00000000, 0x3dc0006f, 0x00000000, 0x00000000, 0x00000000, 0x3fc0006f, 0x00000000, 0x00000000,
    0x00000000, 0x3de0006f, 0x00000000, 0x00000000, 0x00000000, 0x3fe0006f, 0x00000000, 0x00000000]"

definition decomp16_350 :: "u32 list" where
  "decomp16_350 = [
    0x00000000, 0x7100006f, 0x00000000, 0x00000000, 0x00000000, 0x7300006f, 0x00000000, 0x00000000,
    0x00000000, 0x7120006f, 0x00000000, 0x00000000, 0x00000000, 0x7320006f, 0x00000000, 0x00000000,
    0x00000000, 0x7140006f, 0x00000000, 0x00000000, 0x00000000, 0x7340006f, 0x00000000, 0x00000000,
    0x00000000, 0x7160006f, 0x00000000, 0x00000000, 0x00000000, 0x7360006f, 0x00000000, 0x00000000,
    0x00000000, 0x7180006f, 0x00000000, 0x00000000, 0x00000000, 0x7380006f, 0x00000000, 0x00000000,
    0x00000000, 0x71a0006f, 0x00000000, 0x00000000, 0x00000000, 0x73a0006f, 0x00000000, 0x00000000,
    0x00000000, 0x71c0006f, 0x00000000, 0x00000000, 0x00000000, 0x73c0006f, 0x00000000, 0x00000000,
    0x00000000, 0x71e0006f, 0x00000000, 0x00000000, 0x00000000, 0x73e0006f, 0x00000000, 0x00000000,
    0x00000000, 0x7900006f, 0x00000000, 0x00000000, 0x00000000, 0x7b00006f, 0x00000000, 0x00000000,
    0x00000000, 0x7920006f, 0x00000000, 0x00000000, 0x00000000, 0x7b20006f, 0x00000000, 0x00000000,
    0x00000000, 0x7940006f, 0x00000000, 0x00000000, 0x00000000, 0x7b40006f, 0x00000000, 0x00000000,
    0x00000000, 0x7960006f, 0x00000000, 0x00000000, 0x00000000, 0x7b60006f, 0x00000000, 0x00000000,
    0x00000000, 0x7980006f, 0x00000000, 0x00000000, 0x00000000, 0x7b80006f, 0x00000000, 0x00000000,
    0x00000000, 0x79a0006f, 0x00000000, 0x00000000, 0x00000000, 0x7ba0006f, 0x00000000, 0x00000000,
    0x00000000, 0x79c0006f, 0x00000000, 0x00000000, 0x00000000, 0x7bc0006f, 0x00000000, 0x00000000,
    0x00000000, 0x79e0006f, 0x00000000, 0x00000000, 0x00000000, 0x7be0006f, 0x00000000, 0x00000000]"

definition decomp16_351 :: "u32 list" where
  "decomp16_351 = [
    0x00000000, 0x7500006f, 0x00000000, 0x00000000, 0x00000000, 0x7700006f, 0x00000000, 0x00000000,
    0x00000000, 0x7520006f, 0x00000000, 0x00000000, 0x00000000, 0x7720006f, 0x00000000, 0x00000000,
    0x00000000, 0x7540006f, 0x00000000, 0x00000000, 0x00000000, 0x7740006f, 0x00000000, 0x00000000,
    0x00000000, 0x7560006f, 0x00000000, 0x00000000, 0x00000000, 0x7760006f, 0x00000000, 0x00000000,
    0x00000000, 0x7580006f, 0x00000000, 0x00000000, 0x00000000, 0x7780006f, 0x00000000, 0x00000000,
    0x00000000, 0x75a0006f, 0x00000000, 0x00000000, 0x00000000, 0x77a0006f, 0x00000000, 0x00000000,
    0x00000000, 0x75c0006f, 0x00000000, 0x00000000, 0x00000000, 0x77c0006f, 0x00000000, 0x00000000,
    0x00000000, 0x75e0006f, 0x00000000, 0x00000000, 0x00000000, 0x77e0006f, 0x00000000, 0x00000000,
    0x00000000, 0x7d00006f, 0x00000000, 0x00000000, 0x00000000, 0x7f00006f, 0x00000000, 0x00000000,
    0x00000000, 0x7d20006f, 0x00000000, 0x00000000, 0x00000000, 0x7f20006f, 0x00000000, 0x00000000,
    0x00000000, 0x7d40006f, 0x00000000, 0x00000000, 0x00000000, 0x7f40006f, 0x00000000, 0x00000000,
    0x00000000, 0x7d60006f, 0x00000000, 0x00000000, 0x00000000, 0x7f60006f, 0x00000000, 0x00000000,
    0x00000000, 0x7d80006f, 0x00000000, 0x00000000, 0x00000000, 0x7f80006f, 0x00000000, 0x00000000,
    0x00000000, 0x7da0006f, 0x00000000, 0x00000000, 0x00000000, 0x7fa0006f, 0x00000000, 0x00000000,
    0x00000000, 0x7dc0006f, 0x00000000, 0x00000000, 0x00000000, 0x7fc0006f, 0x00000000, 0x00000000,
    0x00000000, 0x7de0006f, 0x00000000, 0x00000000, 0x00000000, 0x7fe0006f, 0x00000000, 0x00000000]"

definition decomp16_352 :: "u32 list" where
  "decomp16_352 = [
    0x00000000, 0x801ff06f, 0x00000000, 0x00000000, 0x00000000, 0x821ff06f, 0x00000000, 0x00000000,
    0x00000000, 0x803ff06f, 0x00000000, 0x00000000, 0x00000000, 0x823ff06f, 0x00000000, 0x00000000,
    0x00000000, 0x805ff06f, 0x00000000, 0x00000000, 0x00000000, 0x825ff06f, 0x00000000, 0x00000000,
    0x00000000, 0x807ff06f, 0x00000000, 0x00000000, 0x00000000, 0x827ff06f, 0x00000000, 0x00000000,
    0x00000000, 0x809ff06f, 0x00000000, 0x00000000, 0x00000000, 0x829ff06f, 0x00000000, 0x00000000,
    0x00000000, 0x80bff06f, 0x00000000, 0x00000000, 0x00000000, 0x82bff06f, 0x00000000, 0x00000000,
    0x00000000, 0x80dff06f, 0x00000000, 0x00000000, 0x00000000, 0x82dff06f, 0x00000000, 0x00000000,
    0x00000000, 0x80fff06f, 0x00000000, 0x00000000, 0x00000000, 0x82fff06f, 0x00000000, 0x00000000,
    0x00000000, 0x881ff06f, 0x00000000, 0x00000000, 0x00000000, 0x8a1ff06f, 0x00000000, 0x00000000,
    0x00000000, 0x883ff06f, 0x00000000, 0x00000000, 0x00000000, 0x8a3ff06f, 0x00000000, 0x00000000,
    0x00000000, 0x885ff06f, 0x00000000, 0x00000000, 0x00000000, 0x8a5ff06f, 0x00000000, 0x00000000,
    0x00000000, 0x887ff06f, 0x00000000, 0x00000000, 0x00000000, 0x8a7ff06f, 0x00000000, 0x00000000,
    0x00000000, 0x889ff06f, 0x00000000, 0x00000000, 0x00000000, 0x8a9ff06f, 0x00000000, 0x00000000,
    0x00000000, 0x88bff06f, 0x00000000, 0x00000000, 0x00000000, 0x8abff06f, 0x00000000, 0x00000000,
    0x00000000, 0x88dff06f, 0x00000000, 0x00000000, 0x00000000, 0x8adff06f, 0x00000000, 0x00000000,
    0x00000000, 0x88fff06f, 0x00000000, 0x00000000, 0x00000000, 0x8afff06f, 0x00000000, 0x00000000]"

definition decomp16_353 :: "u32 list" where
  "decomp16_353 = [
    0x00000000, 0x841ff06f, 0x00000000, 0x00000000, 0x00000000, 0x861ff06f, 0x00000000, 0x00000000,
    0x00000000, 0x843ff06f, 0x00000000, 0x00000000, 0x00000000, 0x863ff06f, 0x00000000, 0x00000000,
    0x00000000, 0x845ff06f, 0x00000000, 0x00000000, 0x00000000, 0x865ff06f, 0x00000000, 0x00000000,
    0x00000000, 0x847ff06f, 0x00000000, 0x00000000, 0x00000000, 0x867ff06f, 0x00000000, 0x00000000,
    0x00000000, 0x849ff06f, 0x00000000, 0x00000000, 0x00000000, 0x869ff06f, 0x00000000, 0x00000000,
    0x00000000, 0x84bff06f, 0x00000000, 0x00000000, 0x00000000, 0x86bff06f, 0x00000000, 0x00000000,
    0x00000000, 0x84dff06f, 0x00000000, 0x00000000, 0x00000000, 0x86dff06f, 0x00000000, 0x00000000,
    0x00000000, 0x84fff06f, 0x00000000, 0x00000000, 0x00000000, 0x86fff06f, 0x00000000, 0x00000000,
    0x00000000, 0x8c1ff06f, 0x00000000, 0x00000000, 0x00000000, 0x8e1ff06f, 0x00000000, 0x00000000,
    0x00000000, 0x8c3ff06f, 0x00000000, 0x00000000, 0x00000000, 0x8e3ff06f, 0x00000000, 0x00000000,
    0x00000000, 0x8c5ff06f, 0x00000000, 0x00000000, 0x00000000, 0x8e5ff06f, 0x00000000, 0x00000000,
    0x00000000, 0x8c7ff06f, 0x00000000, 0x00000000, 0x00000000, 0x8e7ff06f, 0x00000000, 0x00000000,
    0x00000000, 0x8c9ff06f, 0x00000000, 0x00000000, 0x00000000, 0x8e9ff06f, 0x00000000, 0x00000000,
    0x00000000, 0x8cbff06f, 0x00000000, 0x00000000, 0x00000000, 0x8ebff06f, 0x00000000, 0x00000000,
    0x00000000, 0x8cdff06f, 0x00000000, 0x00000000, 0x00000000, 0x8edff06f, 0x00000000, 0x00000000,
    0x00000000, 0x8cfff06f, 0x00000000, 0x00000000, 0x00000000, 0x8efff06f, 0x00000000, 0x00000000]"

definition decomp16_354 :: "u32 list" where
  "decomp16_354 = [
    0x00000000, 0xc01ff06f, 0x00000000, 0x00000000, 0x00000000, 0xc21ff06f, 0x00000000, 0x00000000,
    0x00000000, 0xc03ff06f, 0x00000000, 0x00000000, 0x00000000, 0xc23ff06f, 0x00000000, 0x00000000,
    0x00000000, 0xc05ff06f, 0x00000000, 0x00000000, 0x00000000, 0xc25ff06f, 0x00000000, 0x00000000,
    0x00000000, 0xc07ff06f, 0x00000000, 0x00000000, 0x00000000, 0xc27ff06f, 0x00000000, 0x00000000,
    0x00000000, 0xc09ff06f, 0x00000000, 0x00000000, 0x00000000, 0xc29ff06f, 0x00000000, 0x00000000,
    0x00000000, 0xc0bff06f, 0x00000000, 0x00000000, 0x00000000, 0xc2bff06f, 0x00000000, 0x00000000,
    0x00000000, 0xc0dff06f, 0x00000000, 0x00000000, 0x00000000, 0xc2dff06f, 0x00000000, 0x00000000,
    0x00000000, 0xc0fff06f, 0x00000000, 0x00000000, 0x00000000, 0xc2fff06f, 0x00000000, 0x00000000,
    0x00000000, 0xc81ff06f, 0x00000000, 0x00000000, 0x00000000, 0xca1ff06f, 0x00000000, 0x00000000,
    0x00000000, 0xc83ff06f, 0x00000000, 0x00000000, 0x00000000, 0xca3ff06f, 0x00000000, 0x00000000,
    0x00000000, 0xc85ff06f, 0x00000000, 0x00000000, 0x00000000, 0xca5ff06f, 0x00000000, 0x00000000,
    0x00000000, 0xc87ff06f, 0x00000000, 0x00000000, 0x00000000, 0xca7ff06f, 0x00000000, 0x00000000,
    0x00000000, 0xc89ff06f, 0x00000000, 0x00000000, 0x00000000, 0xca9ff06f, 0x00000000, 0x00000000,
    0x00000000, 0xc8bff06f, 0x00000000, 0x00000000, 0x00000000, 0xcabff06f, 0x00000000, 0x00000000,
    0x00000000, 0xc8dff06f, 0x00000000, 0x00000000, 0x00000000, 0xcadff06f, 0x00000000, 0x00000000,
    0x00000000, 0xc8fff06f, 0x00000000, 0x00000000, 0x00000000, 0xcafff06f, 0x00000000, 0x00000000]"

definition decomp16_355 :: "u32 list" where
  "decomp16_355 = [
    0x00000000, 0xc41ff06f, 0x00000000, 0x00000000, 0x00000000, 0xc61ff06f, 0x00000000, 0x00000000,
    0x00000000, 0xc43ff06f, 0x00000000, 0x00000000, 0x00000000, 0xc63ff06f, 0x00000000, 0x00000000,
    0x00000000, 0xc45ff06f, 0x00000000, 0x00000000, 0x00000000, 0xc65ff06f, 0x00000000, 0x00000000,
    0x00000000, 0xc47ff06f, 0x00000000, 0x00000000, 0x00000000, 0xc67ff06f, 0x00000000, 0x00000000,
    0x00000000, 0xc49ff06f, 0x00000000, 0x00000000, 0x00000000, 0xc69ff06f, 0x00000000, 0x00000000,
    0x00000000, 0xc4bff06f, 0x00000000, 0x00000000, 0x00000000, 0xc6bff06f, 0x00000000, 0x00000000,
    0x00000000, 0xc4dff06f, 0x00000000, 0x00000000, 0x00000000, 0xc6dff06f, 0x00000000, 0x00000000,
    0x00000000, 0xc4fff06f, 0x00000000, 0x00000000, 0x00000000, 0xc6fff06f, 0x00000000, 0x00000000,
    0x00000000, 0xcc1ff06f, 0x00000000, 0x00000000, 0x00000000, 0xce1ff06f, 0x00000000, 0x00000000,
    0x00000000, 0xcc3ff06f, 0x00000000, 0x00000000, 0x00000000, 0xce3ff06f, 0x00000000, 0x00000000,
    0x00000000, 0xcc5ff06f, 0x00000000, 0x00000000, 0x00000000, 0xce5ff06f, 0x00000000, 0x00000000,
    0x00000000, 0xcc7ff06f, 0x00000000, 0x00000000, 0x00000000, 0xce7ff06f, 0x00000000, 0x00000000,
    0x00000000, 0xcc9ff06f, 0x00000000, 0x00000000, 0x00000000, 0xce9ff06f, 0x00000000, 0x00000000,
    0x00000000, 0xccbff06f, 0x00000000, 0x00000000, 0x00000000, 0xcebff06f, 0x00000000, 0x00000000,
    0x00000000, 0xccdff06f, 0x00000000, 0x00000000, 0x00000000, 0xcedff06f, 0x00000000, 0x00000000,
    0x00000000, 0xccfff06f, 0x00000000, 0x00000000, 0x00000000, 0xcefff06f, 0x00000000, 0x00000000]"

definition decomp16_356 :: "u32 list" where
  "decomp16_356 = [
    0x00000000, 0x901ff06f, 0x00000000, 0x00000000, 0x00000000, 0x921ff06f, 0x00000000, 0x00000000,
    0x00000000, 0x903ff06f, 0x00000000, 0x00000000, 0x00000000, 0x923ff06f, 0x00000000, 0x00000000,
    0x00000000, 0x905ff06f, 0x00000000, 0x00000000, 0x00000000, 0x925ff06f, 0x00000000, 0x00000000,
    0x00000000, 0x907ff06f, 0x00000000, 0x00000000, 0x00000000, 0x927ff06f, 0x00000000, 0x00000000,
    0x00000000, 0x909ff06f, 0x00000000, 0x00000000, 0x00000000, 0x929ff06f, 0x00000000, 0x00000000,
    0x00000000, 0x90bff06f, 0x00000000, 0x00000000, 0x00000000, 0x92bff06f, 0x00000000, 0x00000000,
    0x00000000, 0x90dff06f, 0x00000000, 0x00000000, 0x00000000, 0x92dff06f, 0x00000000, 0x00000000,
    0x00000000, 0x90fff06f, 0x00000000, 0x00000000, 0x00000000, 0x92fff06f, 0x00000000, 0x00000000,
    0x00000000, 0x981ff06f, 0x00000000, 0x00000000, 0x00000000, 0x9a1ff06f, 0x00000000, 0x00000000,
    0x00000000, 0x983ff06f, 0x00000000, 0x00000000, 0x00000000, 0x9a3ff06f, 0x00000000, 0x00000000,
    0x00000000, 0x985ff06f, 0x00000000, 0x00000000, 0x00000000, 0x9a5ff06f, 0x00000000, 0x00000000,
    0x00000000, 0x987ff06f, 0x00000000, 0x00000000, 0x00000000, 0x9a7ff06f, 0x00000000, 0x00000000,
    0x00000000, 0x989ff06f, 0x00000000, 0x00000000, 0x00000000, 0x9a9ff06f, 0x00000000, 0x00000000,
    0x00000000, 0x98bff06f, 0x00000000, 0x00000000, 0x00000000, 0x9abff06f, 0x00000000, 0x00000000,
    0x00000000, 0x98dff06f, 0x00000000, 0x00000000, 0x00000000, 0x9adff06f, 0x00000000, 0x00000000,
    0x00000000, 0x98fff06f, 0x00000000, 0x00000000, 0x00000000, 0x9afff06f, 0x00000000, 0x00000000]"

definition decomp16_357 :: "u32 list" where
  "decomp16_357 = [
    0x00000000, 0x941ff06f, 0x00000000, 0x00000000, 0x00000000, 0x961ff06f, 0x00000000, 0x00000000,
    0x00000000, 0x943ff06f, 0x00000000, 0x00000000, 0x00000000, 0x963ff06f, 0x00000000, 0x00000000,
    0x00000000, 0x945ff06f, 0x00000000, 0x00000000, 0x00000000, 0x965ff06f, 0x00000000, 0x00000000,
    0x00000000, 0x947ff06f, 0x00000000, 0x00000000, 0x00000000, 0x967ff06f, 0x00000000, 0x00000000,
    0x00000000, 0x949ff06f, 0x00000000, 0x00000000, 0x00000000, 0x969ff06f, 0x00000000, 0x00000000,
    0x00000000, 0x94bff06f, 0x00000000, 0x00000000, 0x00000000, 0x96bff06f, 0x00000000, 0x00000000,
    0x00000000, 0x94dff06f, 0x00000000, 0x00000000, 0x00000000, 0x96dff06f, 0x00000000, 0x00000000,
    0x00000000, 0x94fff06f, 0x00000000, 0x00000000, 0x00000000, 0x96fff06f, 0x00000000, 0x00000000,
    0x00000000, 0x9c1ff06f, 0x00000000, 0x00000000, 0x00000000, 0x9e1ff06f, 0x00000000, 0x00000000,
    0x00000000, 0x9c3ff06f, 0x00000000, 0x00000000, 0x00000000, 0x9e3ff06f, 0x00000000, 0x00000000,
    0x00000000, 0x9c5ff06f, 0x00000000, 0x00000000, 0x00000000, 0x9e5ff06f, 0x00000000, 0x00000000,
    0x00000000, 0x9c7ff06f, 0x00000000, 0x00000000, 0x00000000, 0x9e7ff06f, 0x00000000, 0x00000000,
    0x00000000, 0x9c9ff06f, 0x00000000, 0x00000000, 0x00000000, 0x9e9ff06f, 0x00000000, 0x00000000,
    0x00000000, 0x9cbff06f, 0x00000000, 0x00000000, 0x00000000, 0x9ebff06f, 0x00000000, 0x00000000,
    0x00000000, 0x9cdff06f, 0x00000000, 0x00000000, 0x00000000, 0x9edff06f, 0x00000000, 0x00000000,
    0x00000000, 0x9cfff06f, 0x00000000, 0x00000000, 0x00000000, 0x9efff06f, 0x00000000, 0x00000000]"

definition decomp16_358 :: "u32 list" where
  "decomp16_358 = [
    0x00000000, 0xd01ff06f, 0x00000000, 0x00000000, 0x00000000, 0xd21ff06f, 0x00000000, 0x00000000,
    0x00000000, 0xd03ff06f, 0x00000000, 0x00000000, 0x00000000, 0xd23ff06f, 0x00000000, 0x00000000,
    0x00000000, 0xd05ff06f, 0x00000000, 0x00000000, 0x00000000, 0xd25ff06f, 0x00000000, 0x00000000,
    0x00000000, 0xd07ff06f, 0x00000000, 0x00000000, 0x00000000, 0xd27ff06f, 0x00000000, 0x00000000,
    0x00000000, 0xd09ff06f, 0x00000000, 0x00000000, 0x00000000, 0xd29ff06f, 0x00000000, 0x00000000,
    0x00000000, 0xd0bff06f, 0x00000000, 0x00000000, 0x00000000, 0xd2bff06f, 0x00000000, 0x00000000,
    0x00000000, 0xd0dff06f, 0x00000000, 0x00000000, 0x00000000, 0xd2dff06f, 0x00000000, 0x00000000,
    0x00000000, 0xd0fff06f, 0x00000000, 0x00000000, 0x00000000, 0xd2fff06f, 0x00000000, 0x00000000,
    0x00000000, 0xd81ff06f, 0x00000000, 0x00000000, 0x00000000, 0xda1ff06f, 0x00000000, 0x00000000,
    0x00000000, 0xd83ff06f, 0x00000000, 0x00000000, 0x00000000, 0xda3ff06f, 0x00000000, 0x00000000,
    0x00000000, 0xd85ff06f, 0x00000000, 0x00000000, 0x00000000, 0xda5ff06f, 0x00000000, 0x00000000,
    0x00000000, 0xd87ff06f, 0x00000000, 0x00000000, 0x00000000, 0xda7ff06f, 0x00000000, 0x00000000,
    0x00000000, 0xd89ff06f, 0x00000000, 0x00000000, 0x00000000, 0xda9ff06f, 0x00000000, 0x00000000,
    0x00000000, 0xd8bff06f, 0x00000000, 0x00000000, 0x00000000, 0xdabff06f, 0x00000000, 0x00000000,
    0x00000000, 0xd8dff06f, 0x00000000, 0x00000000, 0x00000000, 0xdadff06f, 0x00000000, 0x00000000,
    0x00000000, 0xd8fff06f, 0x00000000, 0x00000000, 0x00000000, 0xdafff06f, 0x00000000, 0x00000000]"

definition decomp16_359 :: "u32 list" where
  "decomp16_359 = [
    0x00000000, 0xd41ff06f, 0x00000000, 0x00000000, 0x00000000, 0xd61ff06f, 0x00000000, 0x00000000,
    0x00000000, 0xd43ff06f, 0x00000000, 0x00000000, 0x00000000, 0xd63ff06f, 0x00000000, 0x00000000,
    0x00000000, 0xd45ff06f, 0x00000000, 0x00000000, 0x00000000, 0xd65ff06f, 0x00000000, 0x00000000,
    0x00000000, 0xd47ff06f, 0x00000000, 0x00000000, 0x00000000, 0xd67ff06f, 0x00000000, 0x00000000,
    0x00000000, 0xd49ff06f, 0x00000000, 0x00000000, 0x00000000, 0xd69ff06f, 0x00000000, 0x00000000,
    0x00000000, 0xd4bff06f, 0x00000000, 0x00000000, 0x00000000, 0xd6bff06f, 0x00000000, 0x00000000,
    0x00000000, 0xd4dff06f, 0x00000000, 0x00000000, 0x00000000, 0xd6dff06f, 0x00000000, 0x00000000,
    0x00000000, 0xd4fff06f, 0x00000000, 0x00000000, 0x00000000, 0xd6fff06f, 0x00000000, 0x00000000,
    0x00000000, 0xdc1ff06f, 0x00000000, 0x00000000, 0x00000000, 0xde1ff06f, 0x00000000, 0x00000000,
    0x00000000, 0xdc3ff06f, 0x00000000, 0x00000000, 0x00000000, 0xde3ff06f, 0x00000000, 0x00000000,
    0x00000000, 0xdc5ff06f, 0x00000000, 0x00000000, 0x00000000, 0xde5ff06f, 0x00000000, 0x00000000,
    0x00000000, 0xdc7ff06f, 0x00000000, 0x00000000, 0x00000000, 0xde7ff06f, 0x00000000, 0x00000000,
    0x00000000, 0xdc9ff06f, 0x00000000, 0x00000000, 0x00000000, 0xde9ff06f, 0x00000000, 0x00000000,
    0x00000000, 0xdcbff06f, 0x00000000, 0x00000000, 0x00000000, 0xdebff06f, 0x00000000, 0x00000000,
    0x00000000, 0xdcdff06f, 0x00000000, 0x00000000, 0x00000000, 0xdedff06f, 0x00000000, 0x00000000,
    0x00000000, 0xdcfff06f, 0x00000000, 0x00000000, 0x00000000, 0xdefff06f, 0x00000000, 0x00000000]"

definition decomp16_360 :: "u32 list" where
  "decomp16_360 = [
    0x00000000, 0xa01ff06f, 0x00000000, 0x00000000, 0x00000000, 0xa21ff06f, 0x00000000, 0x00000000,
    0x00000000, 0xa03ff06f, 0x00000000, 0x00000000, 0x00000000, 0xa23ff06f, 0x00000000, 0x00000000,
    0x00000000, 0xa05ff06f, 0x00000000, 0x00000000, 0x00000000, 0xa25ff06f, 0x00000000, 0x00000000,
    0x00000000, 0xa07ff06f, 0x00000000, 0x00000000, 0x00000000, 0xa27ff06f, 0x00000000, 0x00000000,
    0x00000000, 0xa09ff06f, 0x00000000, 0x00000000, 0x00000000, 0xa29ff06f, 0x00000000, 0x00000000,
    0x00000000, 0xa0bff06f, 0x00000000, 0x00000000, 0x00000000, 0xa2bff06f, 0x00000000, 0x00000000,
    0x00000000, 0xa0dff06f, 0x00000000, 0x00000000, 0x00000000, 0xa2dff06f, 0x00000000, 0x00000000,
    0x00000000, 0xa0fff06f, 0x00000000, 0x00000000, 0x00000000, 0xa2fff06f, 0x00000000, 0x00000000,
    0x00000000, 0xa81ff06f, 0x00000000, 0x00000000, 0x00000000, 0xaa1ff06f, 0x00000000, 0x00000000,
    0x00000000, 0xa83ff06f, 0x00000000, 0x00000000, 0x00000000, 0xaa3ff06f, 0x00000000, 0x00000000,
    0x00000000, 0xa85ff06f, 0x00000000, 0x00000000, 0x00000000, 0xaa5ff06f, 0x00000000, 0x00000000,
    0x00000000, 0xa87ff06f, 0x00000000, 0x00000000, 0x00000000, 0xaa7ff06f, 0x00000000, 0x00000000,
    0x00000000, 0xa89ff06f, 0x00000000, 0x00000000, 0x00000000, 0xaa9ff06f, 0x00000000, 0x00000000,
    0x00000000, 0xa8bff06f, 0x00000000, 0x00000000, 0x00000000, 0xaabff06f, 0x00000000, 0x00000000,
    0x00000000, 0xa8dff06f, 0x00000000, 0x00000000, 0x00000000, 0xaadff06f, 0x00000000, 0x00000000,
    0x00000000, 0xa8fff06f, 0x00000000, 0x00000000, 0x00000000, 0xaafff06f, 0x00000000, 0x00000000]"

definition decomp16_361 :: "u32 list" where
  "decomp16_361 = [
    0x00000000, 0xa41ff06f, 0x00000000, 0x00000000, 0x00000000, 0xa61ff06f, 0x00000000, 0x00000000,
    0x00000000, 0xa43ff06f, 0x00000000, 0x00000000, 0x00000000, 0xa63ff06f, 0x00000000, 0x00000000,
    0x00000000, 0xa45ff06f, 0x00000000, 0x00000000, 0x00000000, 0xa65ff06f, 0x00000000, 0x00000000,
    0x00000000, 0xa47ff06f, 0x00000000, 0x00000000, 0x00000000, 0xa67ff06f, 0x00000000, 0x00000000,
    0x00000000, 0xa49ff06f, 0x00000000, 0x00000000, 0x00000000, 0xa69ff06f, 0x00000000, 0x00000000,
    0x00000000, 0xa4bff06f, 0x00000000, 0x00000000, 0x00000000, 0xa6bff06f, 0x00000000, 0x00000000,
    0x00000000, 0xa4dff06f, 0x00000000, 0x00000000, 0x00000000, 0xa6dff06f, 0x00000000, 0x00000000,
    0x00000000, 0xa4fff06f, 0x00000000, 0x00000000, 0x00000000, 0xa6fff06f, 0x00000000, 0x00000000,
    0x00000000, 0xac1ff06f, 0x00000000, 0x00000000, 0x00000000, 0xae1ff06f, 0x00000000, 0x00000000,
    0x00000000, 0xac3ff06f, 0x00000000, 0x00000000, 0x00000000, 0xae3ff06f, 0x00000000, 0x00000000,
    0x00000000, 0xac5ff06f, 0x00000000, 0x00000000, 0x00000000, 0xae5ff06f, 0x00000000, 0x00000000,
    0x00000000, 0xac7ff06f, 0x00000000, 0x00000000, 0x00000000, 0xae7ff06f, 0x00000000, 0x00000000,
    0x00000000, 0xac9ff06f, 0x00000000, 0x00000000, 0x00000000, 0xae9ff06f, 0x00000000, 0x00000000,
    0x00000000, 0xacbff06f, 0x00000000, 0x00000000, 0x00000000, 0xaebff06f, 0x00000000, 0x00000000,
    0x00000000, 0xacdff06f, 0x00000000, 0x00000000, 0x00000000, 0xaedff06f, 0x00000000, 0x00000000,
    0x00000000, 0xacfff06f, 0x00000000, 0x00000000, 0x00000000, 0xaefff06f, 0x00000000, 0x00000000]"

definition decomp16_362 :: "u32 list" where
  "decomp16_362 = [
    0x00000000, 0xe01ff06f, 0x00000000, 0x00000000, 0x00000000, 0xe21ff06f, 0x00000000, 0x00000000,
    0x00000000, 0xe03ff06f, 0x00000000, 0x00000000, 0x00000000, 0xe23ff06f, 0x00000000, 0x00000000,
    0x00000000, 0xe05ff06f, 0x00000000, 0x00000000, 0x00000000, 0xe25ff06f, 0x00000000, 0x00000000,
    0x00000000, 0xe07ff06f, 0x00000000, 0x00000000, 0x00000000, 0xe27ff06f, 0x00000000, 0x00000000,
    0x00000000, 0xe09ff06f, 0x00000000, 0x00000000, 0x00000000, 0xe29ff06f, 0x00000000, 0x00000000,
    0x00000000, 0xe0bff06f, 0x00000000, 0x00000000, 0x00000000, 0xe2bff06f, 0x00000000, 0x00000000,
    0x00000000, 0xe0dff06f, 0x00000000, 0x00000000, 0x00000000, 0xe2dff06f, 0x00000000, 0x00000000,
    0x00000000, 0xe0fff06f, 0x00000000, 0x00000000, 0x00000000, 0xe2fff06f, 0x00000000, 0x00000000,
    0x00000000, 0xe81ff06f, 0x00000000, 0x00000000, 0x00000000, 0xea1ff06f, 0x00000000, 0x00000000,
    0x00000000, 0xe83ff06f, 0x00000000, 0x00000000, 0x00000000, 0xea3ff06f, 0x00000000, 0x00000000,
    0x00000000, 0xe85ff06f, 0x00000000, 0x00000000, 0x00000000, 0xea5ff06f, 0x00000000, 0x00000000,
    0x00000000, 0xe87ff06f, 0x00000000, 0x00000000, 0x00000000, 0xea7ff06f, 0x00000000, 0x00000000,
    0x00000000, 0xe89ff06f, 0x00000000, 0x00000000, 0x00000000, 0xea9ff06f, 0x00000000, 0x00000000,
    0x00000000, 0xe8bff06f, 0x00000000, 0x00000000, 0x00000000, 0xeabff06f, 0x00000000, 0x00000000,
    0x00000000, 0xe8dff06f, 0x00000000, 0x00000000, 0x00000000, 0xeadff06f, 0x00000000, 0x00000000,
    0x00000000, 0xe8fff06f, 0x00000000, 0x00000000, 0x00000000, 0xeafff06f, 0x00000000, 0x00000000]"

definition decomp16_363 :: "u32 list" where
  "decomp16_363 = [
    0x00000000, 0xe41ff06f, 0x00000000, 0x00000000, 0x00000000, 0xe61ff06f, 0x00000000, 0x00000000,
    0x00000000, 0xe43ff06f, 0x00000000, 0x00000000, 0x00000000, 0xe63ff06f, 0x00000000, 0x00000000,
    0x00000000, 0xe45ff06f, 0x00000000, 0x00000000, 0x00000000, 0xe65ff06f, 0x00000000, 0x00000000,
    0x00000000, 0xe47ff06f, 0x00000000, 0x00000000, 0x00000000, 0xe67ff06f, 0x00000000, 0x00000000,
    0x00000000, 0xe49ff06f, 0x00000000, 0x00000000, 0x00000000, 0xe69ff06f, 0x00000000, 0x00000000,
    0x00000000, 0xe4bff06f, 0x00000000, 0x00000000, 0x00000000, 0xe6bff06f, 0x00000000, 0x00000000,
    0x00000000, 0xe4dff06f, 0x00000000, 0x00000000, 0x00000000, 0xe6dff06f, 0x00000000, 0x00000000,
    0x00000000, 0xe4fff06f, 0x00000000, 0x00000000, 0x00000000, 0xe6fff06f, 0x00000000, 0x00000000,
    0x00000000, 0xec1ff06f, 0x00000000, 0x00000000, 0x00000000, 0xee1ff06f, 0x00000000, 0x00000000,
    0x00000000, 0xec3ff06f, 0x00000000, 0x00000000, 0x00000000, 0xee3ff06f, 0x00000000, 0x00000000,
    0x00000000, 0xec5ff06f, 0x00000000, 0x00000000, 0x00000000, 0xee5ff06f, 0x00000000, 0x00000000,
    0x00000000, 0xec7ff06f, 0x00000000, 0x00000000, 0x00000000, 0xee7ff06f, 0x00000000, 0x00000000,
    0x00000000, 0xec9ff06f, 0x00000000, 0x00000000, 0x00000000, 0xee9ff06f, 0x00000000, 0x00000000,
    0x00000000, 0xecbff06f, 0x00000000, 0x00000000, 0x00000000, 0xeebff06f, 0x00000000, 0x00000000,
    0x00000000, 0xecdff06f, 0x00000000, 0x00000000, 0x00000000, 0xeedff06f, 0x00000000, 0x00000000,
    0x00000000, 0xecfff06f, 0x00000000, 0x00000000, 0x00000000, 0xeefff06f, 0x00000000, 0x00000000]"

definition decomp16_364 :: "u32 list" where
  "decomp16_364 = [
    0x00000000, 0xb01ff06f, 0x00000000, 0x00000000, 0x00000000, 0xb21ff06f, 0x00000000, 0x00000000,
    0x00000000, 0xb03ff06f, 0x00000000, 0x00000000, 0x00000000, 0xb23ff06f, 0x00000000, 0x00000000,
    0x00000000, 0xb05ff06f, 0x00000000, 0x00000000, 0x00000000, 0xb25ff06f, 0x00000000, 0x00000000,
    0x00000000, 0xb07ff06f, 0x00000000, 0x00000000, 0x00000000, 0xb27ff06f, 0x00000000, 0x00000000,
    0x00000000, 0xb09ff06f, 0x00000000, 0x00000000, 0x00000000, 0xb29ff06f, 0x00000000, 0x00000000,
    0x00000000, 0xb0bff06f, 0x00000000, 0x00000000, 0x00000000, 0xb2bff06f, 0x00000000, 0x00000000,
    0x00000000, 0xb0dff06f, 0x00000000, 0x00000000, 0x00000000, 0xb2dff06f, 0x00000000, 0x00000000,
    0x00000000, 0xb0fff06f, 0x00000000, 0x00000000, 0x00000000, 0xb2fff06f, 0x00000000, 0x00000000,
    0x00000000, 0xb81ff06f, 0x00000000, 0x00000000, 0x00000000, 0xba1ff06f, 0x00000000, 0x00000000,
    0x00000000, 0xb83ff06f, 0x00000000, 0x00000000, 0x00000000, 0xba3ff06f, 0x00000000, 0x00000000,
    0x00000000, 0xb85ff06f, 0x00000000, 0x00000000, 0x00000000, 0xba5ff06f, 0x00000000, 0x00000000,
    0x00000000, 0xb87ff06f, 0x00000000, 0x00000000, 0x00000000, 0xba7ff06f, 0x00000000, 0x00000000,
    0x00000000, 0xb89ff06f, 0x00000000, 0x00000000, 0x00000000, 0xba9ff06f, 0x00000000, 0x00000000,
    0x00000000, 0xb8bff06f, 0x00000000, 0x00000000, 0x00000000, 0xbabff06f, 0x00000000, 0x00000000,
    0x00000000, 0xb8dff06f, 0x00000000, 0x00000000, 0x00000000, 0xbadff06f, 0x00000000, 0x00000000,
    0x00000000, 0xb8fff06f, 0x00000000, 0x00000000, 0x00000000, 0xbafff06f, 0x00000000, 0x00000000]"

definition decomp16_365 :: "u32 list" where
  "decomp16_365 = [
    0x00000000, 0xb41ff06f, 0x00000000, 0x00000000, 0x00000000, 0xb61ff06f, 0x00000000, 0x00000000,
    0x00000000, 0xb43ff06f, 0x00000000, 0x00000000, 0x00000000, 0xb63ff06f, 0x00000000, 0x00000000,
    0x00000000, 0xb45ff06f, 0x00000000, 0x00000000, 0x00000000, 0xb65ff06f, 0x00000000, 0x00000000,
    0x00000000, 0xb47ff06f, 0x00000000, 0x00000000, 0x00000000, 0xb67ff06f, 0x00000000, 0x00000000,
    0x00000000, 0xb49ff06f, 0x00000000, 0x00000000, 0x00000000, 0xb69ff06f, 0x00000000, 0x00000000,
    0x00000000, 0xb4bff06f, 0x00000000, 0x00000000, 0x00000000, 0xb6bff06f, 0x00000000, 0x00000000,
    0x00000000, 0xb4dff06f, 0x00000000, 0x00000000, 0x00000000, 0xb6dff06f, 0x00000000, 0x00000000,
    0x00000000, 0xb4fff06f, 0x00000000, 0x00000000, 0x00000000, 0xb6fff06f, 0x00000000, 0x00000000,
    0x00000000, 0xbc1ff06f, 0x00000000, 0x00000000, 0x00000000, 0xbe1ff06f, 0x00000000, 0x00000000,
    0x00000000, 0xbc3ff06f, 0x00000000, 0x00000000, 0x00000000, 0xbe3ff06f, 0x00000000, 0x00000000,
    0x00000000, 0xbc5ff06f, 0x00000000, 0x00000000, 0x00000000, 0xbe5ff06f, 0x00000000, 0x00000000,
    0x00000000, 0xbc7ff06f, 0x00000000, 0x00000000, 0x00000000, 0xbe7ff06f, 0x00000000, 0x00000000,
    0x00000000, 0xbc9ff06f, 0x00000000, 0x00000000, 0x00000000, 0xbe9ff06f, 0x00000000, 0x00000000,
    0x00000000, 0xbcbff06f, 0x00000000, 0x00000000, 0x00000000, 0xbebff06f, 0x00000000, 0x00000000,
    0x00000000, 0xbcdff06f, 0x00000000, 0x00000000, 0x00000000, 0xbedff06f, 0x00000000, 0x00000000,
    0x00000000, 0xbcfff06f, 0x00000000, 0x00000000, 0x00000000, 0xbefff06f, 0x00000000, 0x00000000]"

definition decomp16_366 :: "u32 list" where
  "decomp16_366 = [
    0x00000000, 0xf01ff06f, 0x00000000, 0x00000000, 0x00000000, 0xf21ff06f, 0x00000000, 0x00000000,
    0x00000000, 0xf03ff06f, 0x00000000, 0x00000000, 0x00000000, 0xf23ff06f, 0x00000000, 0x00000000,
    0x00000000, 0xf05ff06f, 0x00000000, 0x00000000, 0x00000000, 0xf25ff06f, 0x00000000, 0x00000000,
    0x00000000, 0xf07ff06f, 0x00000000, 0x00000000, 0x00000000, 0xf27ff06f, 0x00000000, 0x00000000,
    0x00000000, 0xf09ff06f, 0x00000000, 0x00000000, 0x00000000, 0xf29ff06f, 0x00000000, 0x00000000,
    0x00000000, 0xf0bff06f, 0x00000000, 0x00000000, 0x00000000, 0xf2bff06f, 0x00000000, 0x00000000,
    0x00000000, 0xf0dff06f, 0x00000000, 0x00000000, 0x00000000, 0xf2dff06f, 0x00000000, 0x00000000,
    0x00000000, 0xf0fff06f, 0x00000000, 0x00000000, 0x00000000, 0xf2fff06f, 0x00000000, 0x00000000,
    0x00000000, 0xf81ff06f, 0x00000000, 0x00000000, 0x00000000, 0xfa1ff06f, 0x00000000, 0x00000000,
    0x00000000, 0xf83ff06f, 0x00000000, 0x00000000, 0x00000000, 0xfa3ff06f, 0x00000000, 0x00000000,
    0x00000000, 0xf85ff06f, 0x00000000, 0x00000000, 0x00000000, 0xfa5ff06f, 0x00000000, 0x00000000,
    0x00000000, 0xf87ff06f, 0x00000000, 0x00000000, 0x00000000, 0xfa7ff06f, 0x00000000, 0x00000000,
    0x00000000, 0xf89ff06f, 0x00000000, 0x00000000, 0x00000000, 0xfa9ff06f, 0x00000000, 0x00000000,
    0x00000000, 0xf8bff06f, 0x00000000, 0x00000000, 0x00000000, 0xfabff06f, 0x00000000, 0x00000000,
    0x00000000, 0xf8dff06f, 0x00000000, 0x00000000, 0x00000000, 0xfadff06f, 0x00000000, 0x00000000,
    0x00000000, 0xf8fff06f, 0x00000000, 0x00000000, 0x00000000, 0xfafff06f, 0x00000000, 0x00000000]"

definition decomp16_367 :: "u32 list" where
  "decomp16_367 = [
    0x00000000, 0xf41ff06f, 0x00000000, 0x00000000, 0x00000000, 0xf61ff06f, 0x00000000, 0x00000000,
    0x00000000, 0xf43ff06f, 0x00000000, 0x00000000, 0x00000000, 0xf63ff06f, 0x00000000, 0x00000000,
    0x00000000, 0xf45ff06f, 0x00000000, 0x00000000, 0x00000000, 0xf65ff06f, 0x00000000, 0x00000000,
    0x00000000, 0xf47ff06f, 0x00000000, 0x00000000, 0x00000000, 0xf67ff06f, 0x00000000, 0x00000000,
    0x00000000, 0xf49ff06f, 0x00000000, 0x00000000, 0x00000000, 0xf69ff06f, 0x00000000, 0x00000000,
    0x00000000, 0xf4bff06f, 0x00000000, 0x00000000, 0x00000000, 0xf6bff06f, 0x00000000, 0x00000000,
    0x00000000, 0xf4dff06f, 0x00000000, 0x00000000, 0x00000000, 0xf6dff06f, 0x00000000, 0x00000000,
    0x00000000, 0xf4fff06f, 0x00000000, 0x00000000, 0x00000000, 0xf6fff06f, 0x00000000, 0x00000000,
    0x00000000, 0xfc1ff06f, 0x00000000, 0x00000000, 0x00000000, 0xfe1ff06f, 0x00000000, 0x00000000,
    0x00000000, 0xfc3ff06f, 0x00000000, 0x00000000, 0x00000000, 0xfe3ff06f, 0x00000000, 0x00000000,
    0x00000000, 0xfc5ff06f, 0x00000000, 0x00000000, 0x00000000, 0xfe5ff06f, 0x00000000, 0x00000000,
    0x00000000, 0xfc7ff06f, 0x00000000, 0x00000000, 0x00000000, 0xfe7ff06f, 0x00000000, 0x00000000,
    0x00000000, 0xfc9ff06f, 0x00000000, 0x00000000, 0x00000000, 0xfe9ff06f, 0x00000000, 0x00000000,
    0x00000000, 0xfcbff06f, 0x00000000, 0x00000000, 0x00000000, 0xfebff06f, 0x00000000, 0x00000000,
    0x00000000, 0xfcdff06f, 0x00000000, 0x00000000, 0x00000000, 0xfedff06f, 0x00000000, 0x00000000,
    0x00000000, 0xfcfff06f, 0x00000000, 0x00000000, 0x00000000, 0xfefff06f, 0x00000000, 0x00000000]"

definition decomp16_368 :: "u32 list" where
  "decomp16_368 = [
    0x00000000, 0x811ff06f, 0x00000000, 0x00000000, 0x00000000, 0x831ff06f, 0x00000000, 0x00000000,
    0x00000000, 0x813ff06f, 0x00000000, 0x00000000, 0x00000000, 0x833ff06f, 0x00000000, 0x00000000,
    0x00000000, 0x815ff06f, 0x00000000, 0x00000000, 0x00000000, 0x835ff06f, 0x00000000, 0x00000000,
    0x00000000, 0x817ff06f, 0x00000000, 0x00000000, 0x00000000, 0x837ff06f, 0x00000000, 0x00000000,
    0x00000000, 0x819ff06f, 0x00000000, 0x00000000, 0x00000000, 0x839ff06f, 0x00000000, 0x00000000,
    0x00000000, 0x81bff06f, 0x00000000, 0x00000000, 0x00000000, 0x83bff06f, 0x00000000, 0x00000000,
    0x00000000, 0x81dff06f, 0x00000000, 0x00000000, 0x00000000, 0x83dff06f, 0x00000000, 0x00000000,
    0x00000000, 0x81fff06f, 0x00000000, 0x00000000, 0x00000000, 0x83fff06f, 0x00000000, 0x00000000,
    0x00000000, 0x891ff06f, 0x00000000, 0x00000000, 0x00000000, 0x8b1ff06f, 0x00000000, 0x00000000,
    0x00000000, 0x893ff06f, 0x00000000, 0x00000000, 0x00000000, 0x8b3ff06f, 0x00000000, 0x00000000,
    0x00000000, 0x895ff06f, 0x00000000, 0x00000000, 0x00000000, 0x8b5ff06f, 0x00000000, 0x00000000,
    0x00000000, 0x897ff06f, 0x00000000, 0x00000000, 0x00000000, 0x8b7ff06f, 0x00000000, 0x00000000,
    0x00000000, 0x899ff06f, 0x00000000, 0x00000000, 0x00000000, 0x8b9ff06f, 0x00000000, 0x00000000,
    0x00000000, 0x89bff06f, 0x00000000, 0x00000000, 0x00000000, 0x8bbff06f, 0x00000000, 0x00000000,
    0x00000000, 0x89dff06f, 0x00000000, 0x00000000, 0x00000000, 0x8bdff06f, 0x00000000, 0x00000000,
    0x00000000, 0x89fff06f, 0x00000000, 0x00000000, 0x00000000, 0x8bfff06f, 0x00000000, 0x00000000]"

definition decomp16_369 :: "u32 list" where
  "decomp16_369 = [
    0x00000000, 0x851ff06f, 0x00000000, 0x00000000, 0x00000000, 0x871ff06f, 0x00000000, 0x00000000,
    0x00000000, 0x853ff06f, 0x00000000, 0x00000000, 0x00000000, 0x873ff06f, 0x00000000, 0x00000000,
    0x00000000, 0x855ff06f, 0x00000000, 0x00000000, 0x00000000, 0x875ff06f, 0x00000000, 0x00000000,
    0x00000000, 0x857ff06f, 0x00000000, 0x00000000, 0x00000000, 0x877ff06f, 0x00000000, 0x00000000,
    0x00000000, 0x859ff06f, 0x00000000, 0x00000000, 0x00000000, 0x879ff06f, 0x00000000, 0x00000000,
    0x00000000, 0x85bff06f, 0x00000000, 0x00000000, 0x00000000, 0x87bff06f, 0x00000000, 0x00000000,
    0x00000000, 0x85dff06f, 0x00000000, 0x00000000, 0x00000000, 0x87dff06f, 0x00000000, 0x00000000,
    0x00000000, 0x85fff06f, 0x00000000, 0x00000000, 0x00000000, 0x87fff06f, 0x00000000, 0x00000000,
    0x00000000, 0x8d1ff06f, 0x00000000, 0x00000000, 0x00000000, 0x8f1ff06f, 0x00000000, 0x00000000,
    0x00000000, 0x8d3ff06f, 0x00000000, 0x00000000, 0x00000000, 0x8f3ff06f, 0x00000000, 0x00000000,
    0x00000000, 0x8d5ff06f, 0x00000000, 0x00000000, 0x00000000, 0x8f5ff06f, 0x00000000, 0x00000000,
    0x00000000, 0x8d7ff06f, 0x00000000, 0x00000000, 0x00000000, 0x8f7ff06f, 0x00000000, 0x00000000,
    0x00000000, 0x8d9ff06f, 0x00000000, 0x00000000, 0x00000000, 0x8f9ff06f, 0x00000000, 0x00000000,
    0x00000000, 0x8dbff06f, 0x00000000, 0x00000000, 0x00000000, 0x8fbff06f, 0x00000000, 0x00000000,
    0x00000000, 0x8ddff06f, 0x00000000, 0x00000000, 0x00000000, 0x8fdff06f, 0x00000000, 0x00000000,
    0x00000000, 0x8dfff06f, 0x00000000, 0x00000000, 0x00000000, 0x8ffff06f, 0x00000000, 0x00000000]"

definition decomp16_370 :: "u32 list" where
  "decomp16_370 = [
    0x00000000, 0xc11ff06f, 0x00000000, 0x00000000, 0x00000000, 0xc31ff06f, 0x00000000, 0x00000000,
    0x00000000, 0xc13ff06f, 0x00000000, 0x00000000, 0x00000000, 0xc33ff06f, 0x00000000, 0x00000000,
    0x00000000, 0xc15ff06f, 0x00000000, 0x00000000, 0x00000000, 0xc35ff06f, 0x00000000, 0x00000000,
    0x00000000, 0xc17ff06f, 0x00000000, 0x00000000, 0x00000000, 0xc37ff06f, 0x00000000, 0x00000000,
    0x00000000, 0xc19ff06f, 0x00000000, 0x00000000, 0x00000000, 0xc39ff06f, 0x00000000, 0x00000000,
    0x00000000, 0xc1bff06f, 0x00000000, 0x00000000, 0x00000000, 0xc3bff06f, 0x00000000, 0x00000000,
    0x00000000, 0xc1dff06f, 0x00000000, 0x00000000, 0x00000000, 0xc3dff06f, 0x00000000, 0x00000000,
    0x00000000, 0xc1fff06f, 0x00000000, 0x00000000, 0x00000000, 0xc3fff06f, 0x00000000, 0x00000000,
    0x00000000, 0xc91ff06f, 0x00000000, 0x00000000, 0x00000000, 0xcb1ff06f, 0x00000000, 0x00000000,
    0x00000000, 0xc93ff06f, 0x00000000, 0x00000000, 0x00000000, 0xcb3ff06f, 0x00000000, 0x00000000,
    0x00000000, 0xc95ff06f, 0x00000000, 0x00000000, 0x00000000, 0xcb5ff06f, 0x00000000, 0x00000000,
    0x00000000, 0xc97ff06f, 0x00000000, 0x00000000, 0x00000000, 0xcb7ff06f, 0x00000000, 0x00000000,
    0x00000000, 0xc99ff06f, 0x00000000, 0x00000000, 0x00000000, 0xcb9ff06f, 0x00000000, 0x00000000,
    0x00000000, 0xc9bff06f, 0x00000000, 0x00000000, 0x00000000, 0xcbbff06f, 0x00000000, 0x00000000,
    0x00000000, 0xc9dff06f, 0x00000000, 0x00000000, 0x00000000, 0xcbdff06f, 0x00000000, 0x00000000,
    0x00000000, 0xc9fff06f, 0x00000000, 0x00000000, 0x00000000, 0xcbfff06f, 0x00000000, 0x00000000]"

definition decomp16_371 :: "u32 list" where
  "decomp16_371 = [
    0x00000000, 0xc51ff06f, 0x00000000, 0x00000000, 0x00000000, 0xc71ff06f, 0x00000000, 0x00000000,
    0x00000000, 0xc53ff06f, 0x00000000, 0x00000000, 0x00000000, 0xc73ff06f, 0x00000000, 0x00000000,
    0x00000000, 0xc55ff06f, 0x00000000, 0x00000000, 0x00000000, 0xc75ff06f, 0x00000000, 0x00000000,
    0x00000000, 0xc57ff06f, 0x00000000, 0x00000000, 0x00000000, 0xc77ff06f, 0x00000000, 0x00000000,
    0x00000000, 0xc59ff06f, 0x00000000, 0x00000000, 0x00000000, 0xc79ff06f, 0x00000000, 0x00000000,
    0x00000000, 0xc5bff06f, 0x00000000, 0x00000000, 0x00000000, 0xc7bff06f, 0x00000000, 0x00000000,
    0x00000000, 0xc5dff06f, 0x00000000, 0x00000000, 0x00000000, 0xc7dff06f, 0x00000000, 0x00000000,
    0x00000000, 0xc5fff06f, 0x00000000, 0x00000000, 0x00000000, 0xc7fff06f, 0x00000000, 0x00000000,
    0x00000000, 0xcd1ff06f, 0x00000000, 0x00000000, 0x00000000, 0xcf1ff06f, 0x00000000, 0x00000000,
    0x00000000, 0xcd3ff06f, 0x00000000, 0x00000000, 0x00000000, 0xcf3ff06f, 0x00000000, 0x00000000,
    0x00000000, 0xcd5ff06f, 0x00000000, 0x00000000, 0x00000000, 0xcf5ff06f, 0x00000000, 0x00000000,
    0x00000000, 0xcd7ff06f, 0x00000000, 0x00000000, 0x00000000, 0xcf7ff06f, 0x00000000, 0x00000000,
    0x00000000, 0xcd9ff06f, 0x00000000, 0x00000000, 0x00000000, 0xcf9ff06f, 0x00000000, 0x00000000,
    0x00000000, 0xcdbff06f, 0x00000000, 0x00000000, 0x00000000, 0xcfbff06f, 0x00000000, 0x00000000,
    0x00000000, 0xcddff06f, 0x00000000, 0x00000000, 0x00000000, 0xcfdff06f, 0x00000000, 0x00000000,
    0x00000000, 0xcdfff06f, 0x00000000, 0x00000000, 0x00000000, 0xcffff06f, 0x00000000, 0x00000000]"

definition decomp16_372 :: "u32 list" where
  "decomp16_372 = [
    0x00000000, 0x911ff06f, 0x00000000, 0x00000000, 0x00000000, 0x931ff06f, 0x00000000, 0x00000000,
    0x00000000, 0x913ff06f, 0x00000000, 0x00000000, 0x00000000, 0x933ff06f, 0x00000000, 0x00000000,
    0x00000000, 0x915ff06f, 0x00000000, 0x00000000, 0x00000000, 0x935ff06f, 0x00000000, 0x00000000,
    0x00000000, 0x917ff06f, 0x00000000, 0x00000000, 0x00000000, 0x937ff06f, 0x00000000, 0x00000000,
    0x00000000, 0x919ff06f, 0x00000000, 0x00000000, 0x00000000, 0x939ff06f, 0x00000000, 0x00000000,
    0x00000000, 0x91bff06f, 0x00000000, 0x00000000, 0x00000000, 0x93bff06f, 0x00000000, 0x00000000,
    0x00000000, 0x91dff06f, 0x00000000, 0x00000000, 0x00000000, 0x93dff06f, 0x00000000, 0x00000000,
    0x00000000, 0x91fff06f, 0x00000000, 0x00000000, 0x00000000, 0x93fff06f, 0x00000000, 0x00000000,
    0x00000000, 0x991ff06f, 0x00000000, 0x00000000, 0x00000000, 0x9b1ff06f, 0x00000000, 0x00000000,
    0x00000000, 0x993ff06f, 0x00000000, 0x00000000, 0x00000000, 0x9b3ff06f, 0x00000000, 0x00000000,
    0x00000000, 0x995ff06f, 0x00000000, 0x00000000, 0x00000000, 0x9b5ff06f, 0x00000000, 0x00000000,
    0x00000000, 0x997ff06f, 0x00000000, 0x00000000, 0x00000000, 0x9b7ff06f, 0x00000000, 0x00000000,
    0x00000000, 0x999ff06f, 0x00000000, 0x00000000, 0x00000000, 0x9b9ff06f, 0x00000000, 0x00000000,
    0x00000000, 0x99bff06f, 0x00000000, 0x00000000, 0x00000000, 0x9bbff06f, 0x00000000, 0x00000000,
    0x00000000, 0x99dff06f, 0x00000000, 0x00000000, 0x00000000, 0x9bdff06f, 0x00000000, 0x00000000,
    0x00000000, 0x99fff06f, 0x00000000, 0x00000000, 0x00000000, 0x9bfff06f, 0x00000000, 0x00000000]"

definition decomp16_373 :: "u32 list" where
  "decomp16_373 = [
    0x00000000, 0x951ff06f, 0x00000000, 0x00000000, 0x00000000, 0x971ff06f, 0x00000000, 0x00000000,
    0x00000000, 0x953ff06f, 0x00000000, 0x00000000, 0x00000000, 0x973ff06f, 0x00000000, 0x00000000,
    0x00000000, 0x955ff06f, 0x00000000, 0x00000000, 0x00000000, 0x975ff06f, 0x00000000, 0x00000000,
    0x00000000, 0x957ff06f, 0x00000000, 0x00000000, 0x00000000, 0x977ff06f, 0x00000000, 0x00000000,
    0x00000000, 0x959ff06f, 0x00000000, 0x00000000, 0x00000000, 0x979ff06f, 0x00000000, 0x00000000,
    0x00000000, 0x95bff06f, 0x00000000, 0x00000000, 0x00000000, 0x97bff06f, 0x00000000, 0x00000000,
    0x00000000, 0x95dff06f, 0x00000000, 0x00000000, 0x00000000, 0x97dff06f, 0x00000000, 0x00000000,
    0x00000000, 0x95fff06f, 0x00000000, 0x00000000, 0x00000000, 0x97fff06f, 0x00000000, 0x00000000,
    0x00000000, 0x9d1ff06f, 0x00000000, 0x00000000, 0x00000000, 0x9f1ff06f, 0x00000000, 0x00000000,
    0x00000000, 0x9d3ff06f, 0x00000000, 0x00000000, 0x00000000, 0x9f3ff06f, 0x00000000, 0x00000000,
    0x00000000, 0x9d5ff06f, 0x00000000, 0x00000000, 0x00000000, 0x9f5ff06f, 0x00000000, 0x00000000,
    0x00000000, 0x9d7ff06f, 0x00000000, 0x00000000, 0x00000000, 0x9f7ff06f, 0x00000000, 0x00000000,
    0x00000000, 0x9d9ff06f, 0x00000000, 0x00000000, 0x00000000, 0x9f9ff06f, 0x00000000, 0x00000000,
    0x00000000, 0x9dbff06f, 0x00000000, 0x00000000, 0x00000000, 0x9fbff06f, 0x00000000, 0x00000000,
    0x00000000, 0x9ddff06f, 0x00000000, 0x00000000, 0x00000000, 0x9fdff06f, 0x00000000, 0x00000000,
    0x00000000, 0x9dfff06f, 0x00000000, 0x00000000, 0x00000000, 0x9ffff06f, 0x00000000, 0x00000000]"

definition decomp16_374 :: "u32 list" where
  "decomp16_374 = [
    0x00000000, 0xd11ff06f, 0x00000000, 0x00000000, 0x00000000, 0xd31ff06f, 0x00000000, 0x00000000,
    0x00000000, 0xd13ff06f, 0x00000000, 0x00000000, 0x00000000, 0xd33ff06f, 0x00000000, 0x00000000,
    0x00000000, 0xd15ff06f, 0x00000000, 0x00000000, 0x00000000, 0xd35ff06f, 0x00000000, 0x00000000,
    0x00000000, 0xd17ff06f, 0x00000000, 0x00000000, 0x00000000, 0xd37ff06f, 0x00000000, 0x00000000,
    0x00000000, 0xd19ff06f, 0x00000000, 0x00000000, 0x00000000, 0xd39ff06f, 0x00000000, 0x00000000,
    0x00000000, 0xd1bff06f, 0x00000000, 0x00000000, 0x00000000, 0xd3bff06f, 0x00000000, 0x00000000,
    0x00000000, 0xd1dff06f, 0x00000000, 0x00000000, 0x00000000, 0xd3dff06f, 0x00000000, 0x00000000,
    0x00000000, 0xd1fff06f, 0x00000000, 0x00000000, 0x00000000, 0xd3fff06f, 0x00000000, 0x00000000,
    0x00000000, 0xd91ff06f, 0x00000000, 0x00000000, 0x00000000, 0xdb1ff06f, 0x00000000, 0x00000000,
    0x00000000, 0xd93ff06f, 0x00000000, 0x00000000, 0x00000000, 0xdb3ff06f, 0x00000000, 0x00000000,
    0x00000000, 0xd95ff06f, 0x00000000, 0x00000000, 0x00000000, 0xdb5ff06f, 0x00000000, 0x00000000,
    0x00000000, 0xd97ff06f, 0x00000000, 0x00000000, 0x00000000, 0xdb7ff06f, 0x00000000, 0x00000000,
    0x00000000, 0xd99ff06f, 0x00000000, 0x00000000, 0x00000000, 0xdb9ff06f, 0x00000000, 0x00000000,
    0x00000000, 0xd9bff06f, 0x00000000, 0x00000000, 0x00000000, 0xdbbff06f, 0x00000000, 0x00000000,
    0x00000000, 0xd9dff06f, 0x00000000, 0x00000000, 0x00000000, 0xdbdff06f, 0x00000000, 0x00000000,
    0x00000000, 0xd9fff06f, 0x00000000, 0x00000000, 0x00000000, 0xdbfff06f, 0x00000000, 0x00000000]"

definition decomp16_375 :: "u32 list" where
  "decomp16_375 = [
    0x00000000, 0xd51ff06f, 0x00000000, 0x00000000, 0x00000000, 0xd71ff06f, 0x00000000, 0x00000000,
    0x00000000, 0xd53ff06f, 0x00000000, 0x00000000, 0x00000000, 0xd73ff06f, 0x00000000, 0x00000000,
    0x00000000, 0xd55ff06f, 0x00000000, 0x00000000, 0x00000000, 0xd75ff06f, 0x00000000, 0x00000000,
    0x00000000, 0xd57ff06f, 0x00000000, 0x00000000, 0x00000000, 0xd77ff06f, 0x00000000, 0x00000000,
    0x00000000, 0xd59ff06f, 0x00000000, 0x00000000, 0x00000000, 0xd79ff06f, 0x00000000, 0x00000000,
    0x00000000, 0xd5bff06f, 0x00000000, 0x00000000, 0x00000000, 0xd7bff06f, 0x00000000, 0x00000000,
    0x00000000, 0xd5dff06f, 0x00000000, 0x00000000, 0x00000000, 0xd7dff06f, 0x00000000, 0x00000000,
    0x00000000, 0xd5fff06f, 0x00000000, 0x00000000, 0x00000000, 0xd7fff06f, 0x00000000, 0x00000000,
    0x00000000, 0xdd1ff06f, 0x00000000, 0x00000000, 0x00000000, 0xdf1ff06f, 0x00000000, 0x00000000,
    0x00000000, 0xdd3ff06f, 0x00000000, 0x00000000, 0x00000000, 0xdf3ff06f, 0x00000000, 0x00000000,
    0x00000000, 0xdd5ff06f, 0x00000000, 0x00000000, 0x00000000, 0xdf5ff06f, 0x00000000, 0x00000000,
    0x00000000, 0xdd7ff06f, 0x00000000, 0x00000000, 0x00000000, 0xdf7ff06f, 0x00000000, 0x00000000,
    0x00000000, 0xdd9ff06f, 0x00000000, 0x00000000, 0x00000000, 0xdf9ff06f, 0x00000000, 0x00000000,
    0x00000000, 0xddbff06f, 0x00000000, 0x00000000, 0x00000000, 0xdfbff06f, 0x00000000, 0x00000000,
    0x00000000, 0xdddff06f, 0x00000000, 0x00000000, 0x00000000, 0xdfdff06f, 0x00000000, 0x00000000,
    0x00000000, 0xddfff06f, 0x00000000, 0x00000000, 0x00000000, 0xdffff06f, 0x00000000, 0x00000000]"

definition decomp16_376 :: "u32 list" where
  "decomp16_376 = [
    0x00000000, 0xa11ff06f, 0x00000000, 0x00000000, 0x00000000, 0xa31ff06f, 0x00000000, 0x00000000,
    0x00000000, 0xa13ff06f, 0x00000000, 0x00000000, 0x00000000, 0xa33ff06f, 0x00000000, 0x00000000,
    0x00000000, 0xa15ff06f, 0x00000000, 0x00000000, 0x00000000, 0xa35ff06f, 0x00000000, 0x00000000,
    0x00000000, 0xa17ff06f, 0x00000000, 0x00000000, 0x00000000, 0xa37ff06f, 0x00000000, 0x00000000,
    0x00000000, 0xa19ff06f, 0x00000000, 0x00000000, 0x00000000, 0xa39ff06f, 0x00000000, 0x00000000,
    0x00000000, 0xa1bff06f, 0x00000000, 0x00000000, 0x00000000, 0xa3bff06f, 0x00000000, 0x00000000,
    0x00000000, 0xa1dff06f, 0x00000000, 0x00000000, 0x00000000, 0xa3dff06f, 0x00000000, 0x00000000,
    0x00000000, 0xa1fff06f, 0x00000000, 0x00000000, 0x00000000, 0xa3fff06f, 0x00000000, 0x00000000,
    0x00000000, 0xa91ff06f, 0x00000000, 0x00000000, 0x00000000, 0xab1ff06f, 0x00000000, 0x00000000,
    0x00000000, 0xa93ff06f, 0x00000000, 0x00000000, 0x00000000, 0xab3ff06f, 0x00000000, 0x00000000,
    0x00000000, 0xa95ff06f, 0x00000000, 0x00000000, 0x00000000, 0xab5ff06f, 0x00000000, 0x00000000,
    0x00000000, 0xa97ff06f, 0x00000000, 0x00000000, 0x00000000, 0xab7ff06f, 0x00000000, 0x00000000,
    0x00000000, 0xa99ff06f, 0x00000000, 0x00000000, 0x00000000, 0xab9ff06f, 0x00000000, 0x00000000,
    0x00000000, 0xa9bff06f, 0x00000000, 0x00000000, 0x00000000, 0xabbff06f, 0x00000000, 0x00000000,
    0x00000000, 0xa9dff06f, 0x00000000, 0x00000000, 0x00000000, 0xabdff06f, 0x00000000, 0x00000000,
    0x00000000, 0xa9fff06f, 0x00000000, 0x00000000, 0x00000000, 0xabfff06f, 0x00000000, 0x00000000]"

definition decomp16_377 :: "u32 list" where
  "decomp16_377 = [
    0x00000000, 0xa51ff06f, 0x00000000, 0x00000000, 0x00000000, 0xa71ff06f, 0x00000000, 0x00000000,
    0x00000000, 0xa53ff06f, 0x00000000, 0x00000000, 0x00000000, 0xa73ff06f, 0x00000000, 0x00000000,
    0x00000000, 0xa55ff06f, 0x00000000, 0x00000000, 0x00000000, 0xa75ff06f, 0x00000000, 0x00000000,
    0x00000000, 0xa57ff06f, 0x00000000, 0x00000000, 0x00000000, 0xa77ff06f, 0x00000000, 0x00000000,
    0x00000000, 0xa59ff06f, 0x00000000, 0x00000000, 0x00000000, 0xa79ff06f, 0x00000000, 0x00000000,
    0x00000000, 0xa5bff06f, 0x00000000, 0x00000000, 0x00000000, 0xa7bff06f, 0x00000000, 0x00000000,
    0x00000000, 0xa5dff06f, 0x00000000, 0x00000000, 0x00000000, 0xa7dff06f, 0x00000000, 0x00000000,
    0x00000000, 0xa5fff06f, 0x00000000, 0x00000000, 0x00000000, 0xa7fff06f, 0x00000000, 0x00000000,
    0x00000000, 0xad1ff06f, 0x00000000, 0x00000000, 0x00000000, 0xaf1ff06f, 0x00000000, 0x00000000,
    0x00000000, 0xad3ff06f, 0x00000000, 0x00000000, 0x00000000, 0xaf3ff06f, 0x00000000, 0x00000000,
    0x00000000, 0xad5ff06f, 0x00000000, 0x00000000, 0x00000000, 0xaf5ff06f, 0x00000000, 0x00000000,
    0x00000000, 0xad7ff06f, 0x00000000, 0x00000000, 0x00000000, 0xaf7ff06f, 0x00000000, 0x00000000,
    0x00000000, 0xad9ff06f, 0x00000000, 0x00000000, 0x00000000, 0xaf9ff06f, 0x00000000, 0x00000000,
    0x00000000, 0xadbff06f, 0x00000000, 0x00000000, 0x00000000, 0xafbff06f, 0x00000000, 0x00000000,
    0x00000000, 0xaddff06f, 0x00000000, 0x00000000, 0x00000000, 0xafdff06f, 0x00000000, 0x00000000,
    0x00000000, 0xadfff06f, 0x00000000, 0x00000000, 0x00000000, 0xaffff06f, 0x00000000, 0x00000000]"

definition decomp16_378 :: "u32 list" where
  "decomp16_378 = [
    0x00000000, 0xe11ff06f, 0x00000000, 0x00000000, 0x00000000, 0xe31ff06f, 0x00000000, 0x00000000,
    0x00000000, 0xe13ff06f, 0x00000000, 0x00000000, 0x00000000, 0xe33ff06f, 0x00000000, 0x00000000,
    0x00000000, 0xe15ff06f, 0x00000000, 0x00000000, 0x00000000, 0xe35ff06f, 0x00000000, 0x00000000,
    0x00000000, 0xe17ff06f, 0x00000000, 0x00000000, 0x00000000, 0xe37ff06f, 0x00000000, 0x00000000,
    0x00000000, 0xe19ff06f, 0x00000000, 0x00000000, 0x00000000, 0xe39ff06f, 0x00000000, 0x00000000,
    0x00000000, 0xe1bff06f, 0x00000000, 0x00000000, 0x00000000, 0xe3bff06f, 0x00000000, 0x00000000,
    0x00000000, 0xe1dff06f, 0x00000000, 0x00000000, 0x00000000, 0xe3dff06f, 0x00000000, 0x00000000,
    0x00000000, 0xe1fff06f, 0x00000000, 0x00000000, 0x00000000, 0xe3fff06f, 0x00000000, 0x00000000,
    0x00000000, 0xe91ff06f, 0x00000000, 0x00000000, 0x00000000, 0xeb1ff06f, 0x00000000, 0x00000000,
    0x00000000, 0xe93ff06f, 0x00000000, 0x00000000, 0x00000000, 0xeb3ff06f, 0x00000000, 0x00000000,
    0x00000000, 0xe95ff06f, 0x00000000, 0x00000000, 0x00000000, 0xeb5ff06f, 0x00000000, 0x00000000,
    0x00000000, 0xe97ff06f, 0x00000000, 0x00000000, 0x00000000, 0xeb7ff06f, 0x00000000, 0x00000000,
    0x00000000, 0xe99ff06f, 0x00000000, 0x00000000, 0x00000000, 0xeb9ff06f, 0x00000000, 0x00000000,
    0x00000000, 0xe9bff06f, 0x00000000, 0x00000000, 0x00000000, 0xebbff06f, 0x00000000, 0x00000000,
    0x00000000, 0xe9dff06f, 0x00000000, 0x00000000, 0x00000000, 0xebdff06f, 0x00000000, 0x00000000,
    0x00000000, 0xe9fff06f, 0x00000000, 0x00000000, 0x00000000, 0xebfff06f, 0x00000000, 0x00000000]"

definition decomp16_379 :: "u32 list" where
  "decomp16_379 = [
    0x00000000, 0xe51ff06f, 0x00000000, 0x00000000, 0x00000000, 0xe71ff06f, 0x00000000, 0x00000000,
    0x00000000, 0xe53ff06f, 0x00000000, 0x00000000, 0x00000000, 0xe73ff06f, 0x00000000, 0x00000000,
    0x00000000, 0xe55ff06f, 0x00000000, 0x00000000, 0x00000000, 0xe75ff06f, 0x00000000, 0x00000000,
    0x00000000, 0xe57ff06f, 0x00000000, 0x00000000, 0x00000000, 0xe77ff06f, 0x00000000, 0x00000000,
    0x00000000, 0xe59ff06f, 0x00000000, 0x00000000, 0x00000000, 0xe79ff06f, 0x00000000, 0x00000000,
    0x00000000, 0xe5bff06f, 0x00000000, 0x00000000, 0x00000000, 0xe7bff06f, 0x00000000, 0x00000000,
    0x00000000, 0xe5dff06f, 0x00000000, 0x00000000, 0x00000000, 0xe7dff06f, 0x00000000, 0x00000000,
    0x00000000, 0xe5fff06f, 0x00000000, 0x00000000, 0x00000000, 0xe7fff06f, 0x00000000, 0x00000000,
    0x00000000, 0xed1ff06f, 0x00000000, 0x00000000, 0x00000000, 0xef1ff06f, 0x00000000, 0x00000000,
    0x00000000, 0xed3ff06f, 0x00000000, 0x00000000, 0x00000000, 0xef3ff06f, 0x00000000, 0x00000000,
    0x00000000, 0xed5ff06f, 0x00000000, 0x00000000, 0x00000000, 0xef5ff06f, 0x00000000, 0x00000000,
    0x00000000, 0xed7ff06f, 0x00000000, 0x00000000, 0x00000000, 0xef7ff06f, 0x00000000, 0x00000000,
    0x00000000, 0xed9ff06f, 0x00000000, 0x00000000, 0x00000000, 0xef9ff06f, 0x00000000, 0x00000000,
    0x00000000, 0xedbff06f, 0x00000000, 0x00000000, 0x00000000, 0xefbff06f, 0x00000000, 0x00000000,
    0x00000000, 0xeddff06f, 0x00000000, 0x00000000, 0x00000000, 0xefdff06f, 0x00000000, 0x00000000,
    0x00000000, 0xedfff06f, 0x00000000, 0x00000000, 0x00000000, 0xeffff06f, 0x00000000, 0x00000000]"

definition decomp16_380 :: "u32 list" where
  "decomp16_380 = [
    0x00000000, 0xb11ff06f, 0x00000000, 0x00000000, 0x00000000, 0xb31ff06f, 0x00000000, 0x00000000,
    0x00000000, 0xb13ff06f, 0x00000000, 0x00000000, 0x00000000, 0xb33ff06f, 0x00000000, 0x00000000,
    0x00000000, 0xb15ff06f, 0x00000000, 0x00000000, 0x00000000, 0xb35ff06f, 0x00000000, 0x00000000,
    0x00000000, 0xb17ff06f, 0x00000000, 0x00000000, 0x00000000, 0xb37ff06f, 0x00000000, 0x00000000,
    0x00000000, 0xb19ff06f, 0x00000000, 0x00000000, 0x00000000, 0xb39ff06f, 0x00000000, 0x00000000,
    0x00000000, 0xb1bff06f, 0x00000000, 0x00000000, 0x00000000, 0xb3bff06f, 0x00000000, 0x00000000,
    0x00000000, 0xb1dff06f, 0x00000000, 0x00000000, 0x00000000, 0xb3dff06f, 0x00000000, 0x00000000,
    0x00000000, 0xb1fff06f, 0x00000000, 0x00000000, 0x00000000, 0xb3fff06f, 0x00000000, 0x00000000,
    0x00000000, 0xb91ff06f, 0x00000000, 0x00000000, 0x00000000, 0xbb1ff06f, 0x00000000, 0x00000000,
    0x00000000, 0xb93ff06f, 0x00000000, 0x00000000, 0x00000000, 0xbb3ff06f, 0x00000000, 0x00000000,
    0x00000000, 0xb95ff06f, 0x00000000, 0x00000000, 0x00000000, 0xbb5ff06f, 0x00000000, 0x00000000,
    0x00000000, 0xb97ff06f, 0x00000000, 0x00000000, 0x00000000, 0xbb7ff06f, 0x00000000, 0x00000000,
    0x00000000, 0xb99ff06f, 0x00000000, 0x00000000, 0x00000000, 0xbb9ff06f, 0x00000000, 0x00000000,
    0x00000000, 0xb9bff06f, 0x00000000, 0x00000000, 0x00000000, 0xbbbff06f, 0x00000000, 0x00000000,
    0x00000000, 0xb9dff06f, 0x00000000, 0x00000000, 0x00000000, 0xbbdff06f, 0x00000000, 0x00000000,
    0x00000000, 0xb9fff06f, 0x00000000, 0x00000000, 0x00000000, 0xbbfff06f, 0x00000000, 0x00000000]"

definition decomp16_381 :: "u32 list" where
  "decomp16_381 = [
    0x00000000, 0xb51ff06f, 0x00000000, 0x00000000, 0x00000000, 0xb71ff06f, 0x00000000, 0x00000000,
    0x00000000, 0xb53ff06f, 0x00000000, 0x00000000, 0x00000000, 0xb73ff06f, 0x00000000, 0x00000000,
    0x00000000, 0xb55ff06f, 0x00000000, 0x00000000, 0x00000000, 0xb75ff06f, 0x00000000, 0x00000000,
    0x00000000, 0xb57ff06f, 0x00000000, 0x00000000, 0x00000000, 0xb77ff06f, 0x00000000, 0x00000000,
    0x00000000, 0xb59ff06f, 0x00000000, 0x00000000, 0x00000000, 0xb79ff06f, 0x00000000, 0x00000000,
    0x00000000, 0xb5bff06f, 0x00000000, 0x00000000, 0x00000000, 0xb7bff06f, 0x00000000, 0x00000000,
    0x00000000, 0xb5dff06f, 0x00000000, 0x00000000, 0x00000000, 0xb7dff06f, 0x00000000, 0x00000000,
    0x00000000, 0xb5fff06f, 0x00000000, 0x00000000, 0x00000000, 0xb7fff06f, 0x00000000, 0x00000000,
    0x00000000, 0xbd1ff06f, 0x00000000, 0x00000000, 0x00000000, 0xbf1ff06f, 0x00000000, 0x00000000,
    0x00000000, 0xbd3ff06f, 0x00000000, 0x00000000, 0x00000000, 0xbf3ff06f, 0x00000000, 0x00000000,
    0x00000000, 0xbd5ff06f, 0x00000000, 0x00000000, 0x00000000, 0xbf5ff06f, 0x00000000, 0x00000000,
    0x00000000, 0xbd7ff06f, 0x00000000, 0x00000000, 0x00000000, 0xbf7ff06f, 0x00000000, 0x00000000,
    0x00000000, 0xbd9ff06f, 0x00000000, 0x00000000, 0x00000000, 0xbf9ff06f, 0x00000000, 0x00000000,
    0x00000000, 0xbdbff06f, 0x00000000, 0x00000000, 0x00000000, 0xbfbff06f, 0x00000000, 0x00000000,
    0x00000000, 0xbddff06f, 0x00000000, 0x00000000, 0x00000000, 0xbfdff06f, 0x00000000, 0x00000000,
    0x00000000, 0xbdfff06f, 0x00000000, 0x00000000, 0x00000000, 0xbffff06f, 0x00000000, 0x00000000]"

definition decomp16_382 :: "u32 list" where
  "decomp16_382 = [
    0x00000000, 0xf11ff06f, 0x00000000, 0x00000000, 0x00000000, 0xf31ff06f, 0x00000000, 0x00000000,
    0x00000000, 0xf13ff06f, 0x00000000, 0x00000000, 0x00000000, 0xf33ff06f, 0x00000000, 0x00000000,
    0x00000000, 0xf15ff06f, 0x00000000, 0x00000000, 0x00000000, 0xf35ff06f, 0x00000000, 0x00000000,
    0x00000000, 0xf17ff06f, 0x00000000, 0x00000000, 0x00000000, 0xf37ff06f, 0x00000000, 0x00000000,
    0x00000000, 0xf19ff06f, 0x00000000, 0x00000000, 0x00000000, 0xf39ff06f, 0x00000000, 0x00000000,
    0x00000000, 0xf1bff06f, 0x00000000, 0x00000000, 0x00000000, 0xf3bff06f, 0x00000000, 0x00000000,
    0x00000000, 0xf1dff06f, 0x00000000, 0x00000000, 0x00000000, 0xf3dff06f, 0x00000000, 0x00000000,
    0x00000000, 0xf1fff06f, 0x00000000, 0x00000000, 0x00000000, 0xf3fff06f, 0x00000000, 0x00000000,
    0x00000000, 0xf91ff06f, 0x00000000, 0x00000000, 0x00000000, 0xfb1ff06f, 0x00000000, 0x00000000,
    0x00000000, 0xf93ff06f, 0x00000000, 0x00000000, 0x00000000, 0xfb3ff06f, 0x00000000, 0x00000000,
    0x00000000, 0xf95ff06f, 0x00000000, 0x00000000, 0x00000000, 0xfb5ff06f, 0x00000000, 0x00000000,
    0x00000000, 0xf97ff06f, 0x00000000, 0x00000000, 0x00000000, 0xfb7ff06f, 0x00000000, 0x00000000,
    0x00000000, 0xf99ff06f, 0x00000000, 0x00000000, 0x00000000, 0xfb9ff06f, 0x00000000, 0x00000000,
    0x00000000, 0xf9bff06f, 0x00000000, 0x00000000, 0x00000000, 0xfbbff06f, 0x00000000, 0x00000000,
    0x00000000, 0xf9dff06f, 0x00000000, 0x00000000, 0x00000000, 0xfbdff06f, 0x00000000, 0x00000000,
    0x00000000, 0xf9fff06f, 0x00000000, 0x00000000, 0x00000000, 0xfbfff06f, 0x00000000, 0x00000000]"

definition decomp16_383 :: "u32 list" where
  "decomp16_383 = [
    0x00000000, 0xf51ff06f, 0x00000000, 0x00000000, 0x00000000, 0xf71ff06f, 0x00000000, 0x00000000,
    0x00000000, 0xf53ff06f, 0x00000000, 0x00000000, 0x00000000, 0xf73ff06f, 0x00000000, 0x00000000,
    0x00000000, 0xf55ff06f, 0x00000000, 0x00000000, 0x00000000, 0xf75ff06f, 0x00000000, 0x00000000,
    0x00000000, 0xf57ff06f, 0x00000000, 0x00000000, 0x00000000, 0xf77ff06f, 0x00000000, 0x00000000,
    0x00000000, 0xf59ff06f, 0x00000000, 0x00000000, 0x00000000, 0xf79ff06f, 0x00000000, 0x00000000,
    0x00000000, 0xf5bff06f, 0x00000000, 0x00000000, 0x00000000, 0xf7bff06f, 0x00000000, 0x00000000,
    0x00000000, 0xf5dff06f, 0x00000000, 0x00000000, 0x00000000, 0xf7dff06f, 0x00000000, 0x00000000,
    0x00000000, 0xf5fff06f, 0x00000000, 0x00000000, 0x00000000, 0xf7fff06f, 0x00000000, 0x00000000,
    0x00000000, 0xfd1ff06f, 0x00000000, 0x00000000, 0x00000000, 0xff1ff06f, 0x00000000, 0x00000000,
    0x00000000, 0xfd3ff06f, 0x00000000, 0x00000000, 0x00000000, 0xff3ff06f, 0x00000000, 0x00000000,
    0x00000000, 0xfd5ff06f, 0x00000000, 0x00000000, 0x00000000, 0xff5ff06f, 0x00000000, 0x00000000,
    0x00000000, 0xfd7ff06f, 0x00000000, 0x00000000, 0x00000000, 0xff7ff06f, 0x00000000, 0x00000000,
    0x00000000, 0xfd9ff06f, 0x00000000, 0x00000000, 0x00000000, 0xff9ff06f, 0x00000000, 0x00000000,
    0x00000000, 0xfdbff06f, 0x00000000, 0x00000000, 0x00000000, 0xffbff06f, 0x00000000, 0x00000000,
    0x00000000, 0xfddff06f, 0x00000000, 0x00000000, 0x00000000, 0xffdff06f, 0x00000000, 0x00000000,
    0x00000000, 0xfdfff06f, 0x00000000, 0x00000000, 0x00000000, 0xfffff06f, 0x00000000, 0x00000000]"

definition decomp16_block_5 :: "u32 list list" where
  "decomp16_block_5 = [
    decomp16_320, decomp16_321, decomp16_322, decomp16_323, decomp16_324, decomp16_325,
    decomp16_326, decomp16_327, decomp16_328, decomp16_329, decomp16_330, decomp16_331,
    decomp16_332, decomp16_333, decomp16_334, decomp16_335, decomp16_336, decomp16_337,
    decomp16_338, decomp16_339, decomp16_340, decomp16_341, decomp16_342, decomp16_343,
    decomp16_344, decomp16_345, decomp16_346, decomp16_347, decomp16_348, decomp16_349,
    decomp16_350, decomp16_351, decomp16_352, decomp16_353, decomp16_354, decomp16_355,
    decomp16_356, decomp16_357, decomp16_358, decomp16_359, decomp16_360, decomp16_361,
    decomp16_362, decomp16_363, decomp16_364, decomp16_365, decomp16_366, decomp16_367,
    decomp16_368, decomp16_369, decomp16_370, decomp16_371, decomp16_372, decomp16_373,
    decomp16_374, decomp16_375, decomp16_376, decomp16_377, decomp16_378, decomp16_379,
    decomp16_380, decomp16_381, decomp16_382, decomp16_383]"

lemma rows_320:
  "chunk 320 = decomp16_320"
  "chunk 321 = decomp16_321"
  "chunk 322 = decomp16_322"
  "chunk 323 = decomp16_323"
  "chunk 324 = decomp16_324"
  "chunk 325 = decomp16_325"
  "chunk 326 = decomp16_326"
  "chunk 327 = decomp16_327"
  by (simp_all add: chunk_eval
    decomp16_320_def decomp16_321_def decomp16_322_def decomp16_323_def decomp16_324_def
    decomp16_325_def decomp16_326_def decomp16_327_def)

lemma rows_328:
  "chunk 328 = decomp16_328"
  "chunk 329 = decomp16_329"
  "chunk 330 = decomp16_330"
  "chunk 331 = decomp16_331"
  "chunk 332 = decomp16_332"
  "chunk 333 = decomp16_333"
  "chunk 334 = decomp16_334"
  "chunk 335 = decomp16_335"
  by (simp_all add: chunk_eval
    decomp16_328_def decomp16_329_def decomp16_330_def decomp16_331_def decomp16_332_def
    decomp16_333_def decomp16_334_def decomp16_335_def)

lemma rows_336:
  "chunk 336 = decomp16_336"
  "chunk 337 = decomp16_337"
  "chunk 338 = decomp16_338"
  "chunk 339 = decomp16_339"
  "chunk 340 = decomp16_340"
  "chunk 341 = decomp16_341"
  "chunk 342 = decomp16_342"
  "chunk 343 = decomp16_343"
  by (simp_all add: chunk_eval
    decomp16_336_def decomp16_337_def decomp16_338_def decomp16_339_def decomp16_340_def
    decomp16_341_def decomp16_342_def decomp16_343_def)

lemma rows_344:
  "chunk 344 = decomp16_344"
  "chunk 345 = decomp16_345"
  "chunk 346 = decomp16_346"
  "chunk 347 = decomp16_347"
  "chunk 348 = decomp16_348"
  "chunk 349 = decomp16_349"
  "chunk 350 = decomp16_350"
  "chunk 351 = decomp16_351"
  by (simp_all add: chunk_eval
    decomp16_344_def decomp16_345_def decomp16_346_def decomp16_347_def decomp16_348_def
    decomp16_349_def decomp16_350_def decomp16_351_def)

lemma rows_352:
  "chunk 352 = decomp16_352"
  "chunk 353 = decomp16_353"
  "chunk 354 = decomp16_354"
  "chunk 355 = decomp16_355"
  "chunk 356 = decomp16_356"
  "chunk 357 = decomp16_357"
  "chunk 358 = decomp16_358"
  "chunk 359 = decomp16_359"
  by (simp_all add: chunk_eval
    decomp16_352_def decomp16_353_def decomp16_354_def decomp16_355_def decomp16_356_def
    decomp16_357_def decomp16_358_def decomp16_359_def)

lemma rows_360:
  "chunk 360 = decomp16_360"
  "chunk 361 = decomp16_361"
  "chunk 362 = decomp16_362"
  "chunk 363 = decomp16_363"
  "chunk 364 = decomp16_364"
  "chunk 365 = decomp16_365"
  "chunk 366 = decomp16_366"
  "chunk 367 = decomp16_367"
  by (simp_all add: chunk_eval
    decomp16_360_def decomp16_361_def decomp16_362_def decomp16_363_def decomp16_364_def
    decomp16_365_def decomp16_366_def decomp16_367_def)

lemma rows_368:
  "chunk 368 = decomp16_368"
  "chunk 369 = decomp16_369"
  "chunk 370 = decomp16_370"
  "chunk 371 = decomp16_371"
  "chunk 372 = decomp16_372"
  "chunk 373 = decomp16_373"
  "chunk 374 = decomp16_374"
  "chunk 375 = decomp16_375"
  by (simp_all add: chunk_eval
    decomp16_368_def decomp16_369_def decomp16_370_def decomp16_371_def decomp16_372_def
    decomp16_373_def decomp16_374_def decomp16_375_def)

lemma rows_376:
  "chunk 376 = decomp16_376"
  "chunk 377 = decomp16_377"
  "chunk 378 = decomp16_378"
  "chunk 379 = decomp16_379"
  "chunk 380 = decomp16_380"
  "chunk 381 = decomp16_381"
  "chunk 382 = decomp16_382"
  "chunk 383 = decomp16_383"
  by (simp_all add: chunk_eval
    decomp16_376_def decomp16_377_def decomp16_378_def decomp16_379_def decomp16_380_def
    decomp16_381_def decomp16_382_def decomp16_383_def)

lemma block_5: "chunks_from 320 decomp16_block_5"
  by (simp add: decomp16_block_5_def
    rows_320 rows_328 rows_336 rows_344 rows_352 rows_360 rows_368 rows_376 del: One_nat_def)

end
