(* ===== verification/Decomp16_Rows_7.thy ===== *)
theory Decomp16_Rows_7
  imports Decomp16_Lines
begin

text \<open>
  The rows 0xe000 to 0xffff of \<open>decomp16_table\<close>, as they stand in \<open>src/decomp16.cpp\<close>, 128 to a
  definition, and their comparison with the chunks of theory \<open>Decomp16_Lines\<close>.
\<close>

definition decomp16_448 :: "u32 list" where
  "decomp16_448 = [
    0x00000000, 0x00041063, 0x00000000, 0x00000000, 0x00000000, 0x02041063, 0x00000000, 0x00000000,
    0x00000000, 0x00041163, 0x00000000, 0x00000000, 0x00000000, 0x02041163, 0x00000000, 0x00000000,
    0x00000000, 0x00041263, 0x00000000, 0x00000000, 0x00000000, 0x02041263, 0x00000000, 0x00000000,
    0x00000000, 0x00041363, 0x00000000, 0x00000000, 0x00000000, 0x02041363, 0x00000000, 0x00000000,
    0x00000000, 0x04041063, 0x00000000, 0x00000000, 0x00000000, 0x06041063, 0x00000000, 0x00000000,
    0x00000000, 0x04041163, 0x00000000, 0x00000000, 0x00000000, 0x06041163, 0x00000000, 0x00000000,
    0x00000000, 0x04041263, 0x00000000, 0x00000000, 0x00000000, 0x06041263, 0x00000000, 0x00000000,
    0x00000000, 0x04041363, 0x00000000, 0x00000000, 0x00000000, 0x06041363, 0x00000000, 0x00000000,
    0x00000000, 0x08041063, 0x00000000, 0x00000000, 0x00000000, 0x0a041063, 0x00000000, 0x00000000,
    0x00000000, 0x08041163, 0x00000000, 0x00000000, 0x00000000, 0x0a041163, 0x00000000, 0x00000000,
    0x00000000, 0x08041263, 0x00000000, 0x00000000, 0x00000000, 0x0a041263, 0x00000000, 0x00000000,
    0x00000000, 0x08041363, 0x00000000, 0x00000000, 0x00000000, 0x0a041363, 0x00000000, 0x00000000,
    0x00000000, 0x0c041063, 0x00000000, 0x00000000, 0x00000000, 0x0e041063, 0x00000000, 0x00000000,
    0x00000000, 0x0c041163, 0x00000000, 0x00000000, 0x00000000, 0x0e041163, 0x00000000, 0x00000000,
    0x00000000, 0x0c041263, 0x00000000, 0x00000000, 0x00000000, 0x0e041263, 0x00000000, 0x00000000,
    0x00000000, 0x0c041363, 0x00000000, 0x00000000, 0x00000000, 0x0e041363, 0x00000000, 0x00000000]"

definition decomp16_449 :: "u32 list" where
  "decomp16_449 = [
    0x00000000, 0x00049063, 0x00000000, 0x00000000, 0x00000000, 0x02049063, 0x00000000, 0x00000000,
    0x00000000, 0x00049163, 0x00000000, 0x00000000, 0x00000000, 0x02049163, 0x00000000, 0x00000000,
    0x00000000, 0x00049263, 0x00000000, 0x00000000, 0x00000000, 0x02049263, 0x00000000, 0x00000000,
    0x00000000, 0x00049363, 0x00000000, 0x00000000, 0x00000000, 0x02049363, 0x00000000, 0x00000000,
    0x00000000, 0x04049063, 0x00000000, 0x00000000, 0x00000000, 0x06049063, 0x00000000, 0x00000000,
    0x00000000, 0x04049163, 0x00000000, 0x00000000, 0x00000000, 0x06049163, 0x00000000, 0x00000000,
    0x00000000, 0x04049263, 0x00000000, 0x00000000, 0x00000000, 0x06049263, 0x00000000, 0x00000000,
    0x00000000, 0x04049363, 0x00000000, 0x00000000, 0x00000000, 0x06049363, 0x00000000, 0x00000000,
    0x00000000, 0x08049063, 0x00000000, 0x00000000, 0x00000000, 0x0a049063, 0x00000000, 0x00000000,
    0x00000000, 0x08049163, 0x00000000, 0x00000000, 0x00000000, 0x0a049163, 0x00000000, 0x00000000,
    0x00000000, 0x08049263, 0x00000000, 0x00000000, 0x00000000, 0x0a049263, 0x00000000, 0x00000000,
    0x00000000, 0x08049363, 0x00000000, 0x00000000, 0x00000000, 0x0a049363, 0x00000000, 0x00000000,
    0x00000000, 0x0c049063, 0x00000000, 0x00000000, 0x00000000, 0x0e049063, 0x00000000, 0x00000000,
    0x00000000, 0x0c049163, 0x00000000, 0x00000000, 0x00000000, 0x0e049163, 0x00000000, 0x00000000,
    0x00000000, 0x0c049263, 0x00000000, 0x00000000, 0x00000000, 0x0e049263, 0x00000000, 0x00000000,
    0x00000000, 0x0c049363, 0x00000000, 0x00000000, 0x00000000, 0x0e049363, 0x00000000, 0x00000000]"

definition decomp16_450 :: "u32 list" where
  "decomp16_450 = [
    0x00000000, 0x00051063, 0x00000000, 0x00000000, 0x00000000, 0x02051063, 0x00000000, 0x00000000,
    0x00000000, 0x00051163, 0x00000000, 0x00000000, 0x00000000, 0x02051163, 0x00000000, 0x00000000,
    0x00000000, 0x00051263, 0x00000000, 0x00000000, 0x00000000, 0x02051263, 0x00000000, 0x00000000,
    0x00000000, 0x00051363, 0x00000000, 0x00000000, 0x00000000, 0x02051363, 0x00000000, 0x00000000,
    0x00000000, 0x04051063, 0x00000000, 0x00000000, 0x00000000, 0x06051063, 0x00000000, 0x00000000,
    0x00000000, 0x04051163, 0x00000000, 0x00000000, 0x00000000, 0x06051163, 0x00000000, 0x00000000,
    0x00000000, 0x04051263, 0x00000000, 0x00000000, 0x00000000, 0x06051263, 0x00000000, 0x00000000,
    0x00000000, 0x04051363, 0x00000000, 0x00000000, 0x00000000, 0x06051363, 0x00000000, 0x00000000,
    0x00000000, 0x08051063, 0x00000000, 0x00000000, 0x00000000, 0x0a051063, 0x00000000, 0x00000000,
    0x00000000, 0x08051163, 0x00000000, 0x00000000, 0x00000000, 0x0a051163, 0x00000000, 0x00000000,
    0x00000000, 0x08051263, 0x00000000, 0x00000000, 0x00000000, 0x0a051263, 0x00000000, 0x00000000,
    0x00000000, 0x08051363, 0x00000000, 0x00000000, 0x00000000, 0x0a051363, 0x00000000, 0x00000000,
    0x00000000, 0x0c051063, 0x00000000, 0x00000000, 0x00000000, 0x0e051063, 0x00000000, 0x00000000,
    0x00000000, 0x0c051163, 0x00000000, 0x00000000, 0x00000000, 0x0e051163, 0x00000000, 0x00000000,
    0x00000000, 0x0c051263, 0x00000000, 0x00000000, 0x00000000, 0x0e051263, 0x00000000, 0x00000000,
    0x00000000, 0x0c051363, 0x00000000, 0x00000000, 0x00000000, 0x0e051363, 0x00000000, 0x00000000]"

definition decomp16_451 :: "u32 list" where
  "decomp16_451 = [
    0x00000000, 0x00059063, 0x00000000, 0x00000000, 0x00000000, 0x02059063, 0x00000000, 0x00000000,
    0x00000000, 0x00059163, 0x00000000, 0x00000000, 0x00000000, 0x02059163, 0x00000000, 0x00000000,
    0x00000000, 0x00059263, 0x00000000, 0x00000000, 0x00000000, 0x02059263, 0x00000000, 0x00000000,
    0x00000000, 0x00059363, 0x00000000, 0x00000000, 0x00000000, 0x02059363, 0x00000000, 0x00000000,
    0x00000000, 0x04059063, 0x00000000, 0x00000000, 0x00000000, 0x06059063, 0x00000000, 0x00000000,
    0x00000000, 0x04059163, 0x00000000, 0x00000000, 0x00000000, 0x06059163, 0x00000000, 0x00000000,
    0x00000000, 0x04059263, 0x00000000, 0x00000000, 0x00000000, 0x06059263, 0x00000000, 0x00000000,
    0x00000000, 0x04059363, 0x00000000, 0x00000000, 0x00000000, 0x06059363, 0x00000000, 0x00000000,
    0x00000000, 0x08059063, 0x00000000, 0x00000000, 0x00000000, 0x0a059063, 0x00000000, 0x00000000,
    0x00000000, 0x08059163, 0x00000000, 0x00000000, 0x00000000, 0x0a059163, 0x00000000, 0x00000000,
    0x00000000, 0x08059263, 0x00000000, 0x00000000, 0x00000000, 0x0a059263, 0x00000000, 0x00000000,
    0x00000000, 0x08059363, 0x00000000, 0x00000000, 0x00000000, 0x0a059363, 0x00000000, 0x00000000,
    0x00000000, 0x0c059063, 0x00000000, 0x00000000, 0x00000000, 0x0e059063, 0x00000000, 0x00000000,
    0x00000000, 0x0c059163, 0x00000000, 0x00000000, 0x00000000, 0x0e059163, 0x00000000, 0x00000000,
    0x00000000, 0x0c059263, 0x00000000, 0x00000000, 0x00000000, 0x0e059263, 0x00000000, 0x00000000,
    0x00000000, 0x0c059363, 0x00000000, 0x00000000, 0x00000000, 0x0e059363, 0x00000000, 0x00000000]"

definition decomp16_452 :: "u32 list" where
  "decomp16_452 = [
    0x00000000, 0x00061063, 0x00000000, 0x00000000, 0x00000000, 0x02061063, 0x00000000, 0x00000000,
    0x00000000, 0x00061163, 0x00000000, 0x00000000, 0x00000000, 0x02061163, 0x00000000, 0x00000000,
    0x00000000, 0x00061263, 0x00000000, 0x00000000, 0x00000000, 0x02061263, 0x00000000, 0x00000000,
    0x00000000, 0x00061363, 0x00000000, 0x00000000, 0x00000000, 0x02061363, 0x00000000, 0x00000000,
    0x00000000, 0x04061063, 0x00000000, 0x00000000, 0x00000000, 0x06061063, 0x00000000, 0x00000000,
    0x00000000, 0x04061163, 0x00000000, 0x00000000, 0x00000000, 0x06061163, 0x00000000, 0x00000000,
    0x00000000, 0x04061263, 0x00000000, 0x00000000, 0x00000000, 0x06061263, 0x00000000, 0x00000000,
    0x00000000, 0x04061363, 0x00000000, 0x00000000, 0x00000000, 0x06061363, 0x00000000, 0x00000000,
    0x00000000, 0x08061063, 0x00000000, 0x00000000, 0x00000000, 0x0a061063, 0x00000000, 0x00000000,
    0x00000000, 0x08061163, 0x00000000, 0x00000000, 0x00000000, 0x0a061163, 0x00000000, 0x00000000,
    0x00000000, 0x08061263, 0x00000000, 0x00000000, 0x00000000, 0x0a061263, 0x00000000, 0x00000000,
    0x00000000, 0x08061363, 0x00000000, 0x00000000, 0x00000000, 0x0a061363, 0x00000000, 0x00000000,
    0x00000000, 0x0c061063, 0x00000000, 0x00000000, 0x00000000, 0x0e061063, 0x00000000, 0x00000000,
    0x00000000, 0x0c061163, 0x00000000, 0x00000000, 0x00000000, 0x0e061163, 0x00000000, 0x00000000,
    0x00000000, 0x0c061263, 0x00000000, 0x00000000, 0x00000000, 0x0e061263, 0x00000000, 0x00000000,
    0x00000000, 0x0c061363, 0x00000000, 0x00000000, 0x00000000, 0x0e061363, 0x00000000, 0x00000000]"

definition decomp16_453 :: "u32 list" where
  "decomp16_453 = [
    0x00000000, 0x00069063, 0x00000000, 0x00000000, 0x00000000, 0x02069063, 0x00000000, 0x00000000,
    0x00000000, 0x00069163, 0x00000000, 0x00000000, 0x00000000, 0x02069163, 0x00000000, 0x00000000,
    0x00000000, 0x00069263, 0x00000000, 0x00000000, 0x00000000, 0x02069263, 0x00000000, 0x00000000,
    0x00000000, 0x00069363, 0x00000000, 0x00000000, 0x00000000, 0x02069363, 0x00000000, 0x00000000,
    0x00000000, 0x04069063, 0x00000000, 0x00000000, 0x00000000, 0x06069063, 0x00000000, 0x00000000,
    0x00000000, 0x04069163, 0x00000000, 0x00000000, 0x00000000, 0x06069163, 0x00000000, 0x00000000,
    0x00000000, 0x04069263, 0x00000000, 0x00000000, 0x00000000, 0x06069263, 0x00000000, 0x00000000,
    0x00000000, 0x04069363, 0x00000000, 0x00000000, 0x00000000, 0x06069363, 0x00000000, 0x00000000,
    0x00000000, 0x08069063, 0x00000000, 0x00000000, 0x00000000, 0x0a069063, 0x00000000, 0x00000000,
    0x00000000, 0x08069163, 0x00000000, 0x00000000, 0x00000000, 0x0a069163, 0x00000000, 0x00000000,
    0x00000000, 0x08069263, 0x00000000, 0x00000000, 0x00000000, 0x0a069263, 0x00000000, 0x00000000,
    0x00000000, 0x08069363, 0x00000000, 0x00000000, 0x00000000, 0x0a069363, 0x00000000, 0x00000000,
    0x00000000, 0x0c069063, 0x00000000, 0x00000000, 0x00000000, 0x0e069063, 0x00000000, 0x00000000,
    0x00000000, 0x0c069163, 0x00000000, 0x00000000, 0x00000000, 0x0e069163, 0x00000000, 0x00000000,
    0x00000000, 0x0c069263, 0x00000000, 0x00000000, 0x00000000, 0x0e069263, 0x00000000, 0x00000000,
    0x00000000, 0x0c069363, 0x00000000, 0x00000000, 0x00000000, 0x0e069363, 0x00000000, 0x00000000]"

definition decomp16_454 :: "u32 list" where
  "decomp16_454 = [
    0x00000000, 0x00071063, 0x00000000, 0x00000000, 0x00000000, 0x02071063, 0x00000000, 0x00000000,
    0x00000000, 0x00071163, 0x00000000, 0x00000000, 0x00000000, 0x02071163, 0x00000000, 0x00000000,
    0x00000000, 0x00071263, 0x00000000, 0x00000000, 0x00000000, 0x02071263, 0x00000000, 0x00000000,
    0x00000000, 0x00071363, 0x00000000, 0x00000000, 0x00000000, 0x02071363, 0x00000000, 0x00000000,
    0x00000000, 0x04071063, 0x00000000, 0x00000000, 0x00000000, 0x06071063, 0x00000000, 0x00000000,
    0x00000000, 0x04071163, 0x00000000, 0x00000000, 0x00000000, 0x06071163, 0x00000000, 0x00000000,
    0x00000000, 0x04071263, 0x00000000, 0x00000000, 0x00000000, 0x06071263, 0x00000000, 0x00000000,
    0x00000000, 0x04071363, 0x00000000, 0x00000000, 0x00000000, 0x06071363, 0x00000000, 0x00000000,
    0x00000000, 0x08071063, 0x00000000, 0x00000000, 0x00000000, 0x0a071063, 0x00000000, 0x00000000,
    0x00000000, 0x08071163, 0x00000000, 0x00000000, 0x00000000, 0x0a071163, 0x00000000, 0x00000000,
    0x00000000, 0x08071263, 0x00000000, 0x00000000, 0x00000000, 0x0a071263, 0x00000000, 0x00000000,
    0x00000000, 0x08071363, 0x00000000, 0x00000000, 0x00000000, 0x0a071363, 0x00000000, 0x00000000,
    0x00000000, 0x0c071063, 0x00000000, 0x00000000, 0x00000000, 0x0e071063, 0x00000000, 0x00000000,
    0x00000000, 0x0c071163, 0x00000000, 0x00000000, 0x00000000, 0x0e071163, 0x00000000, 0x00000000,
    0x00000000, 0x0c071263, 0x00000000, 0x00000000, 0x00000000, 0x0e071263, 0x00000000, 0x00000000,
    0x00000000, 0x0c071363, 0x00000000, 0x00000000, 0x00000000, 0x0e071363, 0x00000000, 0x00000000]"

definition decomp16_455 :: "u32 list" where
  "decomp16_455 = [
    0x00000000, 0x00079063, 0x00000000, 0x00000000, 0x00000000, 0x02079063, 0x00000000, 0x00000000,
    0x00000000, 0x00079163, 0x00000000, 0x00000000, 0x00000000, 0x02079163, 0x00000000, 0x00000000,
    0x00000000, 0x00079263, 0x00000000, 0x00000000, 0x00000000, 0x02079263, 0x00000000, 0x00000000,
    0x00000000, 0x00079363, 0x00000000, 0x00000000, 0x00000000, 0x02079363, 0x00000000, 0x00000000,
    0x00000000, 0x04079063, 0x00000000, 0x00000000, 0x00000000, 0x06079063, 0x00000000, 0x00000000,
    0x00000000, 0x04079163, 0x00000000, 0x00000000, 0x00000000, 0x06079163, 0x00000000, 0x00000000,
    0x00000000, 0x04079263, 0x00000000, 0x00000000, 0x00000000, 0x06079263, 0x00000000, 0x00000000,
    0x00000000, 0x04079363, 0x00000000, 0x00000000, 0x00000000, 0x06079363, 0x00000000, 0x00000000,
    0x00000000, 0x08079063, 0x00000000, 0x00000000, 0x00000000, 0x0a079063, 0x00000000, 0x00000000,
    0x00000000, 0x08079163, 0x00000000, 0x00000000, 0x00000000, 0x0a079163, 0x00000000, 0x00000000,
    0x00000000, 0x08079263, 0x00000000, 0x00000000, 0x00000000, 0x0a079263, 0x00000000, 0x00000000,
    0x00000000, 0x08079363, 0x00000000, 0x00000000, 0x00000000, 0x0a079363, 0x00000000, 0x00000000,
    0x00000000, 0x0c079063, 0x00000000, 0x00000000, 0x00000000, 0x0e079063, 0x00000000, 0x00000000,
    0x00000000, 0x0c079163, 0x00000000, 0x00000000, 0x00000000, 0x0e079163, 0x00000000, 0x00000000,
    0x00000000, 0x0c079263, 0x00000000, 0x00000000, 0x00000000, 0x0e079263, 0x00000000, 0x00000000,
    0x00000000, 0x0c079363, 0x00000000, 0x00000000, 0x00000000, 0x0e079363, 0x00000000, 0x00000000]"

definition decomp16_456 :: "u32 list" where
  "decomp16_456 = [
    0x00000000, 0x00041463, 0x00000000, 0x00000000, 0x00000000, 0x02041463, 0x00000000, 0x00000000,
    0x00000000, 0x00041563, 0x00000000, 0x00000000, 0x00000000, 0x02041563, 0x00000000, 0x00000000,
    0x00000000, 0x00041663, 0x00000000, 0x00000000, 0x00000000, 0x02041663, 0x00000000, 0x00000000,
    0x00000000, 0x00041763, 0x00000000, 0x00000000, 0x00000000, 0x02041763, 0x00000000, 0x00000000,
    0x00000000, 0x04041463, 0x00000000, 0x00000000, 0x00000000, 0x06041463, 0x00000000, 0x00000000,
    0x00000000, 0x04041563, 0x00000000, 0x00000000, 0x00000000, 0x06041563, 0x00000000, 0x00000000,
    0x00000000, 0x04041663, 0x00000000, 0x00000000, 0x00000000, 0x06041663, 0x00000000, 0x00000000,
    0x00000000, 0x04041763, 0x00000000, 0x00000000, 0x00000000, 0x06041763, 0x00000000, 0x00000000,
    0x00000000, 0x08041463, 0x00000000, 0x00000000, 0x00000000, 0x0a041463, 0x00000000, 0x00000000,
    0x00000000, 0x08041563, 0x00000000, 0x00000000, 0x00000000, 0x0a041563, 0x00000000, 0x00000000,
    0x00000000, 0x08041663, 0x00000000, 0x00000000, 0x00000000, 0x0a041663, 0x00000000, 0x00000000,
    0x00000000, 0x08041763, 0x00000000, 0x00000000, 0x00000000, 0x0a041763, 0x00000000, 0x00000000,
    0x00000000, 0x0c041463, 0x00000000, 0x00000000, 0x00000000, 0x0e041463, 0x00000000, 0x00000000,
    0x00000000, 0x0c041563, 0x00000000, 0x00000000, 0x00000000, 0x0e041563, 0x00000000, 0x00000000,
    0x00000000, 0x0c041663, 0x00000000, 0x00000000, 0x00000000, 0x0e041663, 0x00000000, 0x00000000,
    0x00000000, 0x0c041763, 0x00000000, 0x00000000, 0x00000000, 0x0e041763, 0x00000000, 0x00000000]"

definition decomp16_457 :: "u32 list" where
  "decomp16_457 = [
    0x00000000, 0x00049463, 0x00000000, 0x00000000, 0x00000000, 0x02049463, 0x00000000, 0x00000000,
    0x00000000, 0x00049563, 0x00000000, 0x00000000, 0x00000000, 0x02049563, 0x00000000, 0x00000000,
    0x00000000, 0x00049663, 0x00000000, 0x00000000, 0x00000000, 0x02049663, 0x00000000, 0x00000000,
    0x00000000, 0x00049763, 0x00000000, 0x00000000, 0x00000000, 0x02049763, 0x00000000, 0x00000000,
    0x00000000, 0x04049463, 0x00000000, 0x00000000, 0x00000000, 0x06049463, 0x00000000, 0x00000000,
    0x00000000, 0x04049563, 0x00000000, 0x00000000, 0x00000000, 0x06049563, 0x00000000, 0x00000000,
    0x00000000, 0x04049663, 0x00000000, 0x00000000, 0x00000000, 0x06049663, 0x00000000, 0x00000000,
    0x00000000, 0x04049763, 0x00000000, 0x00000000, 0x00000000, 0x06049763, 0x00000000, 0x00000000,
    0x00000000, 0x08049463, 0x00000000, 0x00000000, 0x00000000, 0x0a049463, 0x00000000, 0x00000000,
    0x00000000, 0x08049563, 0x00000000, 0x00000000, 0x00000000, 0x0a049563, 0x00000000, 0x00000000,
    0x00000000, 0x08049663, 0x00000000, 0x00000000, 0x00000000, 0x0a049663, 0x00000000, 0x00000000,
    0x00000000, 0x08049763, 0x00000000, 0x00000000, 0x00000000, 0x0a049763, 0x00000000, 0x00000000,
    0x00000000, 0x0c049463, 0x00000000, 0x00000000, 0x00000000, 0x0e049463, 0x00000000, 0x00000000,
    0x00000000, 0x0c049563, 0x00000000, 0x00000000, 0x00000000, 0x0e049563, 0x00000000, 0x00000000,
    0x00000000, 0x0c049663, 0x00000000, 0x00000000, 0x00000000, 0x0e049663, 0x00000000, 0x00000000,
    0x00000000, 0x0c049763, 0x00000000, 0x00000000, 0x00000000, 0x0e049763, 0x00000000, 0x00000000]"

definition decomp16_458 :: "u32 list" where
  "decomp16_458 = [
    0x00000000, 0x00051463, 0x00000000, 0x00000000, 0x00000000, 0x02051463, 0x00000000, 0x00000000,
    0x00000000, 0x00051563, 0x00000000, 0x00000000, 0x00000000, 0x02051563, 0x00000000, 0x00000000,
    0x00000000, 0x00051663, 0x00000000, 0x00000000, 0x00000000, 0x02051663, 0x00000000, 0x00000000,
    0x00000000, 0x00051763, 0x00000000, 0x00000000, 0x00000000, 0x02051763, 0x00000000, 0x00000000,
    0x00000000, 0x04051463, 0x00000000, 0x00000000, 0x00000000, 0x06051463, 0x00000000, 0x00000000,
    0x00000000, 0x04051563, 0x00000000, 0x00000000, 0x00000000, 0x06051563, 0x00000000, 0x00000000,
    0x00000000, 0x04051663, 0x00000000, 0x00000000, 0x00000000, 0x06051663, 0x00000000, 0x00000000,
    0x00000000, 0x04051763, 0x00000000, 0x00000000, 0x00000000, 0x06051763, 0x00000000, 0x00000000,
    0x00000000, 0x08051463, 0x00000000, 0x00000000, 0x00000000, 0x0a051463, 0x00000000, 0x00000000,
    0x00000000, 0x08051563, 0x00000000, 0x00000000, 0x00000000, 0x0a051563, 0x00000000, 0x00000000,
    0x00000000, 0x08051663, 0x00000000, 0x00000000, 0x00000000, 0x0a051663, 0x00000000, 0x00000000,
    0x00000000, 0x08051763, 0x00000000, 0x00000000, 0x00000000, 0x0a051763, 0x00000000, 0x00000000,
    0x00000000, 0x0c051463, 0x00000000, 0x00000000, 0x00000000, 0x0e051463, 0x00000000, 0x00000000,
    0x00000000, 0x0c051563, 0x00000000, 0x00000000, 0x00000000, 0x0e051563, 0x00000000, 0x00000000,
    0x00000000, 0x0c051663, 0x00000000, 0x00000000, 0x00000000, 0x0e051663, 0x00000000, 0x00000000,
    0x00000000, 0x0c051763, 0x00000000, 0x00000000, 0x00000000, 0x0e051763, 0x00000000, 0x00000000]"

definition decomp16_459 :: "u32 list" where
  "decomp16_459 = [
    0x00000000, 0x00059463, 0x00000000, 0x00000000, 0x00000000, 0x02059463, 0x00000000, 0x00000000,
    0x00000000, 0x00059563, 0x00000000, 0x00000000, 0x00000000, 0x02059563, 0x00000000, 0x00000000,
    0x00000000, 0x00059663, 0x00000000, 0x00000000, 0x00000000, 0x02059663, 0x00000000, 0x00000000,
    0x00000000, 0x00059763, 0x00000000, 0x00000000, 0x00000000, 0x02059763, 0x00000000, 0x00000000,
    0x00000000, 0x04059463, 0x00000000, 0x00000000, 0x00000000, 0x06059463, 0x00000000, 0x00000000,
    0x00000000, 0x04059563, 0x00000000, 0x00000000, 0x00000000, 0x06059563, 0x00000000, 0x00000000,
    0x00000000, 0x04059663, 0x00000000, 0x00000000, 0x00000000, 0x06059663, 0x00000000, 0x00000000,
    0x00000000, 0x04059763, 0x00000000, 0x00000000, 0x00000000, 0x06059763, 0x00000000, 0x00000000,
    0x00000000, 0x08059463, 0x00000000, 0x00000000, 0x00000000, 0x0a059463, 0x00000000, 0x00000000,
    0x00000000, 0x08059563, 0x00000000, 0x00000000, 0x00000000, 0x0a059563, 0x00000000, 0x00000000,
    0x00000000, 0x08059663, 0x00000000, 0x00000000, 0x00000000, 0x0a059663, 0x00000000, 0x00000000,
    0x00000000, 0x08059763, 0x00000000, 0x00000000, 0x00000000, 0x0a059763, 0x00000000, 0x00000000,
    0x00000000, 0x0c059463, 0x00000000, 0x00000000, 0x00000000, 0x0e059463, 0x00000000, 0x00000000,
    0x00000000, 0x0c059563, 0x00000000, 0x00000000, 0x00000000, 0x0e059563, 0x00000000, 0x00000000,
    0x00000000, 0x0c059663, 0x00000000, 0x00000000, 0x00000000, 0x0e059663, 0x00000000, 0x00000000,
    0x00000000, 0x0c059763, 0x00000000, 0x00000000, 0x00000000, 0x0e059763, 0x00000000, 0x00000000]"

definition decomp16_460 :: "u32 list" where
  "decomp16_460 = [
    0x00000000, 0x00061463, 0x00000000, 0x00000000, 0x00000000, 0x02061463, 0x00000000, 0x00000000,
    0x00000000, 0x00061563, 0x00000000, 0x00000000, 0x00000000, 0x02061563, 0x00000000, 0x00000000,
    0x00000000, 0x00061663, 0x00000000, 0x00000000, 0x00000000, 0x02061663, 0x00000000, 0x00000000,
    0x00000000, 0x00061763, 0x00000000, 0x00000000, 0x00000000, 0x02061763, 0x00000000, 0x00000000,
    0x00000000, 0x04061463, 0x00000000, 0x00000000, 0x00000000, 0x06061463, 0x00000000, 0x00000000,
    0x00000000, 0x04061563, 0x00000000, 0x00000000, 0x00000000, 0x06061563, 0x00000000, 0x00000000,
    0x00000000, 0x04061663, 0x00000000, 0x00000000, 0x00000000, 0x06061663, 0x00000000, 0x00000000,
    0x00000000, 0x04061763, 0x00000000, 0x00000000, 0x00000000, 0x06061763, 0x00000000, 0x00000000,
    0x00000000, 0x08061463, 0x00000000, 0x00000000, 0x00000000, 0x0a061463, 0x00000000, 0x00000000,
    0x00000000, 0x08061563, 0x00000000, 0x00000000, 0x00000000, 0x0a061563, 0x00000000, 0x00000000,
    0x00000000, 0x08061663, 0x00000000, 0x00000000, 0x00000000, 0x0a061663, 0x00000000, 0x00000000,
    0x00000000, 0x08061763, 0x00000000, 0x00000000, 0x00000000, 0x0a061763, 0x00000000, 0x00000000,
    0x00000000, 0x0c061463, 0x00000000, 0x00000000, 0x00000000, 0x0e061463, 0x00000000, 0x00000000,
    0x00000000, 0x0c061563, 0x00000000, 0x00000000, 0x00000000, 0x0e061563, 0x00000000, 0x00000000,
    0x00000000, 0x0c061663, 0x00000000, 0x00000000, 0x00000000, 0x0e061663, 0x00000000, 0x00000000,
    0x00000000, 0x0c061763, 0x00000000, 0x00000000, 0x00000000, 0x0e061763, 0x00000000, 0x00000000]"

definition decomp16_461 :: "u32 list" where
  "decomp16_461 = [
    0x00000000, 0x00069463, 0x00000000, 0x00000000, 0x00000000, 0x02069463, 0x00000000, 0x00000000,
    0x00000000, 0x00069563, 0x00000000, 0x00000000, 0x00000000, 0x02069563, 0x00000000, 0x00000000,
    0x00000000, 0x00069663, 0x00000000, 0x00000000, 0x00000000, 0x02069663, 0x00000000, 0x00000000,
    0x00000000, 0x00069763, 0x00000000, 0x00000000, 0x00000000, 0x02069763, 0x00000000, 0x00000000,
    0x00000000, 0x04069463, 0x00000000, 0x00000000, 0x00000000, 0x06069463, 0x00000000, 0x00000000,
    0x00000000, 0x04069563, 0x00000000, 0x00000000, 0x00000000, 0x06069563, 0x00000000, 0x00000000,
    0x00000000, 0x04069663, 0x00000000, 0x00000000, 0x00000000, 0x06069663, 0x00000000, 0x00000000,
    0x00000000, 0x04069763, 0x00000000, 0x00000000, 0x00000000, 0x06069763, 0x00000000, 0x00000000,
    0x00000000, 0x08069463, 0x00000000, 0x00000000, 0x00000000, 0x0a069463, 0x00000000, 0x00000000,
    0x00000000, 0x08069563, 0x00000000, 0x00000000, 0x00000000, 0x0a069563, 0x00000000, 0x00000000,
    0x00000000, 0x08069663, 0x00000000, 0x00000000, 0x00000000, 0x0a069663, 0x00000000, 0x00000000,
    0x00000000, 0x08069763, 0x00000000, 0x00000000, 0x00000000, 0x0a069763, 0x00000000, 0x00000000,
    0x00000000, 0x0c069463, 0x00000000, 0x00000000, 0x00000000, 0x0e069463, 0x00000000, 0x00000000,
    0x00000000, 0x0c069563, 0x00000000, 0x00000000, 0x00000000, 0x0e069563, 0x00000000, 0x00000000,
    0x00000000, 0x0c069663, 0x00000000, 0x00000000, 0x00000000, 0x0e069663, 0x00000000, 0x00000000,
    0x00000000, 0x0c069763, 0x00000000, 0x00000000, 0x00000000, 0x0e069763, 0x00000000, 0x00000000]"

definition decomp16_462 :: "u32 list" where
  "decomp16_462 = [
    0x00000000, 0x00071463, 0x00000000, 0x00000000, 0x00000000, 0x02071463, 0x00000000, 0x00000000,
    0x00000000, 0x00071563, 0x00000000, 0x00000000, 0x00000000, 0x02071563, 0x00000000, 0x00000000,
    0x00000000, 0x00071663, 0x00000000, 0x00000000, 0x00000000, 0x02071663, 0x00000000, 0x00000000,
    0x00000000, 0x00071763, 0x00000000, 0x00000000, 0x00000000, 0x02071763, 0x00000000, 0x00000000,
    0x00000000, 0x04071463, 0x00000000, 0x00000000, 0x00000000, 0x06071463, 0x00000000, 0x00000000,
    0x00000000, 0x04071563, 0x00000000, 0x00000000, 0x00000000, 0x06071563, 0x00000000, 0x00000000,
    0x00000000, 0x04071663, 0x00000000, 0x00000000, 0x00000000, 0x06071663, 0x00000000, 0x00000000,
    0x00000000, 0x04071763, 0x00000000, 0x00000000, 0x00000000, 0x06071763, 0x00000000, 0x00000000,
    0x00000000, 0x08071463, 0x00000000, 0x00000000, 0x00000000, 0x0a071463, 0x00000000, 0x00000000,
    0x00000000, 0x08071563, 0x00000000, 0x00000000, 0x00000000, 0x0a071563, 0x00000000, 0x00000000,
    0x00000000, 0x08071663, 0x00000000, 0x00000000, 0x00000000, 0x0a071663, 0x00000000, 0x00000000,
    0x00000000, 0x08071763, 0x00000000, 0x00000000, 0x00000000, 0x0a071763, 0x00000000, 0x00000000,
    0x00000000, 0x0c071463, 0x00000000, 0x00000000, 0x00000000, 0x0e071463, 0x00000000, 0x00000000,
    0x00000000, 0x0c071563, 0x00000000, 0x00000000, 0x00000000, 0x0e071563, 0x00000000, 0x00000000,
    0x00000000, 0x0c071663, 0x00000000, 0x00000000, 0x00000000, 0x0e071663, 0x00000000, 0x00000000,
    0x00000000, 0x0c071763, 0x00000000, 0x00000000, 0x00000000, 0x0e071763, 0x00000000, 0x00000000]"

definition decomp16_463 :: "u32 list" where
  "decomp16_463 = [
    0x00000000, 0x00079463, 0x00000000, 0x00000000, 0x00000000, 0x02079463, 0x00000000, 0x00000000,
    0x00000000, 0x00079563, 0x00000000, 0x00000000, 0x00000000, 0x02079563, 0x00000000, 0x00000000,
    0x00000000, 0x00079663, 0x00000000, 0x00000000, 0x00000000, 0x02079663, 0x00000000, 0x00000000,
    0x00000000, 0x00079763, 0x00000000, 0x00000000, 0x00000000, 0x02079763, 0x00000000, 0x00000000,
    0x00000000, 0x04079463, 0x00000000, 0x00000000, 0x00000000, 0x06079463, 0x00000000, 0x00000000,
    0x00000000, 0x04079563, 0x00000000, 0x00000000, 0x00000000, 0x06079563, 0x00000000, 0x00000000,
    0x00000000, 0x04079663, 0x00000000, 0x00000000, 0x00000000, 0x06079663, 0x00000000, 0x00000000,
    0x00000000, 0x04079763, 0x00000000, 0x00000000, 0x00000000, 0x06079763, 0x00000000, 0x00000000,
    0x00000000, 0x08079463, 0x00000000, 0x00000000, 0x00000000, 0x0a079463, 0x00000000, 0x00000000,
    0x00000000, 0x08079563, 0x00000000, 0x00000000, 0x00000000, 0x0a079563, 0x00000000, 0x00000000,
    0x00000000, 0x08079663, 0x00000000, 0x00000000, 0x00000000, 0x0a079663, 0x00000000, 0x00000000,
    0x00000000, 0x08079763, 0x00000000, 0x00000000, 0x00000000, 0x0a079763, 0x00000000, 0x00000000,
    0x00000000, 0x0c079463, 0x00000000, 0x00000000, 0x00000000, 0x0e079463, 0x00000000, 0x00000000,
    0x00000000, 0x0c079563, 0x00000000, 0x00000000, 0x00000000, 0x0e079563, 0x00000000, 0x00000000,
    0x00000000, 0x0c079663, 0x00000000, 0x00000000, 0x00000000, 0x0e079663, 0x00000000, 0x00000000,
    0x00000000, 0x0c079763, 0x00000000, 0x00000000, 0x00000000, 0x0e079763, 0x00000000, 0x00000000]"

definition decomp16_464 :: "u32 list" where
  "decomp16_464 = [
    0x00000000, 0x00041863, 0x00000000, 0x00000000, 0x00000000, 0x02041863, 0x00000000, 0x00000000,
    0x00000000, 0x00041963, 0x00000000, 0x00000000, 0x00000000, 0x02041963, 0x00000000, 0x00000000,
    0x00000000, 0x00041a63, 0x00000000, 0x00000000, 0x00000000, 0x02041a63, 0x00000000, 0x00000000,
    0x00000000, 0x00041b63, 0x00000000, 0x00000000, 0x00000000, 0x02041b63, 0x00000000, 0x00000000,
    0x00000000, 0x04041863, 0x00000000, 0x00000000, 0x00000000, 0x06041863, 0x00000000, 0x00000000,
    0x00000000, 0x04041963, 0x00000000, 0x00000000, 0x00000000, 0x06041963, 0x00000000, 0x00000000,
    0x00000000, 0x04041a63, 0x00000000, 0x00000000, 0x00000000, 0x06041a63, 0x00000000, 0x00000000,
    0x00000000, 0x04041b63, 0x00000000, 0x00000000, 0x00000000, 0x06041b63, 0x00000000, 0x00000000,
    0x00000000, 0x08041863, 0x00000000, 0x00000000, 0x00000000, 0x0a041863, 0x00000000, 0x00000000,
    0x00000000, 0x08041963, 0x00000000, 0x00000000, 0x00000000, 0x0a041963, 0x00000000, 0x00000000,
    0x00000000, 0x08041a63, 0x00000000, 0x00000000, 0x00000000, 0x0a041a63, 0x00000000, 0x00000000,
    0x00000000, 0x08041b63, 0x00000000, 0x00000000, 0x00000000, 0x0a041b63, 0x00000000, 0x00000000,
    0x00000000, 0x0c041863, 0x00000000, 0x00000000, 0x00000000, 0x0e041863, 0x00000000, 0x00000000,
    0x00000000, 0x0c041963, 0x00000000, 0x00000000, 0x00000000, 0x0e041963, 0x00000000, 0x00000000,
    0x00000000, 0x0c041a63, 0x00000000, 0x00000000, 0x00000000, 0x0e041a63, 0x00000000, 0x00000000,
    0x00000000, 0x0c041b63, 0x00000000, 0x00000000, 0x00000000, 0x0e041b63, 0x00000000, 0x00000000]"

definition decomp16_465 :: "u32 list" where
  "decomp16_465 = [
    0x00000000, 0x00049863, 0x00000000, 0x00000000, 0x00000000, 0x02049863, 0x00000000, 0x00000000,
    0x00000000, 0x00049963, 0x00000000, 0x00000000, 0x00000000, 0x02049963, 0x00000000, 0x00000000,
    0x00000000, 0x00049a63, 0x00000000, 0x00000000, 0x00000000, 0x02049a63, 0x00000000, 0x00000000,
    0x00000000, 0x00049b63, 0x00000000, 0x00000000, 0x00000000, 0x02049b63, 0x00000000, 0x00000000,
    0x00000000, 0x04049863, 0x00000000, 0x00000000, 0x00000000, 0x06049863, 0x00000000, 0x00000000,
    0x00000000, 0x04049963, 0x00000000, 0x00000000, 0x00000000, 0x06049963, 0x00000000, 0x00000000,
    0x00000000, 0x04049a63, 0x00000000, 0x00000000, 0x00000000, 0x06049a63, 0x00000000, 0x00000000,
    0x00000000, 0x04049b63, 0x00000000, 0x00000000, 0x00000000, 0x06049b63, 0x00000000, 0x00000000,
    0x00000000, 0x08049863, 0x00000000, 0x00000000, 0x00000000, 0x0a049863, 0x00000000, 0x00000000,
    0x00000000, 0x08049963, 0x00000000, 0x00000000, 0x00000000, 0x0a049963, 0x00000000, 0x00000000,
    0x00000000, 0x08049a63, 0x00000000, 0x00000000, 0x00000000, 0x0a049a63, 0x00000000, 0x00000000,
    0x00000000, 0x08049b63, 0x00000000, 0x00000000, 0x00000000, 0x0a049b63, 0x00000000, 0x00000000,
    0x00000000, 0x0c049863, 0x00000000, 0x00000000, 0x00000000, 0x0e049863, 0x00000000, 0x00000000,
    0x00000000, 0x0c049963, 0x00000000, 0x00000000, 0x00000000, 0x0e049963, 0x00000000, 0x00000000,
    0x00000000, 0x0c049a63, 0x00000000, 0x00000000, 0x00000000, 0x0e049a63, 0x00000000, 0x00000000,
    0x00000000, 0x0c049b63, 0x00000000, 0x00000000, 0x00000000, 0x0e049b63, 0x00000000, 0x00000000]"

definition decomp16_466 :: "u32 list" where
  "decomp16_466 = [
    0x00000000, 0x00051863, 0x00000000, 0x00000000, 0x00000000, 0x02051863, 0x00000000, 0x00000000,
    0x00000000, 0x00051963, 0x00000000, 0x00000000, 0x00000000, 0x02051963, 0x00000000, 0x00000000,
    0x00000000, 0x00051a63, 0x00000000, 0x00000000, 0x00000000, 0x02051a63, 0x00000000, 0x00000000,
    0x00000000, 0x00051b63, 0x00000000, 0x00000000, 0x00000000, 0x02051b63, 0x00000000, 0x00000000,
    0x00000000, 0x04051863, 0x00000000, 0x00000000, 0x00000000, 0x06051863, 0x00000000, 0x00000000,
    0x00000000, 0x04051963, 0x00000000, 0x00000000, 0x00000000, 0x06051963, 0x00000000, 0x00000000,
    0x00000000, 0x04051a63, 0x00000000, 0x00000000, 0x00000000, 0x06051a63, 0x00000000, 0x00000000,
    0x00000000, 0x04051b63, 0x00000000, 0x00000000, 0x00000000, 0x06051b63, 0x00000000, 0x00000000,
    0x00000000, 0x08051863, 0x00000000, 0x00000000, 0x00000000, 0x0a051863, 0x00000000, 0x00000000,
    0x00000000, 0x08051963, 0x00000000, 0x00000000, 0x00000000, 0x0a051963, 0x00000000, 0x00000000,
    0x00000000, 0x08051a63, 0x00000000, 0x00000000, 0x00000000, 0x0a051a63, 0x00000000, 0x00000000,
    0x00000000, 0x08051b63, 0x00000000, 0x00000000, 0x00000000, 0x0a051b63, 0x00000000, 0x00000000,
    0x00000000, 0x0c051863, 0x00000000, 0x00000000, 0x00000000, 0x0e051863, 0x00000000, 0x00000000,
    0x00000000, 0x0c051963, 0x00000000, 0x00000000, 0x00000000, 0x0e051963, 0x00000000, 0x00000000,
    0x00000000, 0x0c051a63, 0x00000000, 0x00000000, 0x00000000, 0x0e051a63, 0x00000000, 0x00000000,
    0x00000000, 0x0c051b63, 0x00000000, 0x00000000, 0x00000000, 0x0e051b63, 0x00000000, 0x00000000]"

definition decomp16_467 :: "u32 list" where
  "decomp16_467 = [
    0x00000000, 0x00059863, 0x00000000, 0x00000000, 0x00000000, 0x02059863, 0x00000000, 0x00000000,
    0x00000000, 0x00059963, 0x00000000, 0x00000000, 0x00000000, 0x02059963, 0x00000000, 0x00000000,
    0x00000000, 0x00059a63, 0x00000000, 0x00000000, 0x00000000, 0x02059a63, 0x00000000, 0x00000000,
    0x00000000, 0x00059b63, 0x00000000, 0x00000000, 0x00000000, 0x02059b63, 0x00000000, 0x00000000,
    0x00000000, 0x04059863, 0x00000000, 0x00000000, 0x00000000, 0x06059863, 0x00000000, 0x00000000,
    0x00000000, 0x04059963, 0x00000000, 0x00000000, 0x00000000, 0x06059963, 0x00000000, 0x00000000,
    0x00000000, 0x04059a63, 0x00000000, 0x00000000, 0x00000000, 0x06059a63, 0x00000000, 0x00000000,
    0x00000000, 0x04059b63, 0x00000000, 0x00000000, 0x00000000, 0x06059b63, 0x00000000, 0x00000000,
    0x00000000, 0x08059863, 0x00000000, 0x00000000, 0x00000000, 0x0a059863, 0x00000000, 0x00000000,
    0x00000000, 0x08059963, 0x00000000, 0x00000000, 0x00000000, 0x0a059963, 0x00000000, 0x00000000,
    0x00000000, 0x08059a63, 0x00000000, 0x00000000, 0x00000000, 0x0a059a63, 0x00000000, 0x00000000,
    0x00000000, 0x08059b63, 0x00000000, 0x00000000, 0x00000000, 0x0a059b63, 0x00000000, 0x00000000,
    0x00000000, 0x0c059863, 0x00000000, 0x00000000, 0x00000000, 0x0e059863, 0x00000000, 0x00000000,
    0x00000000, 0x0c059963, 0x00000000, 0x00000000, 0x00000000, 0x0e059963, 0x00000000, 0x00000000,
    0x00000000, 0x0c059a63, 0x00000000, 0x00000000, 0x00000000, 0x0e059a63, 0x00000000, 0x00000000,
    0x00000000, 0x0c059b63, 0x00000000, 0x00000000, 0x00000000, 0x0e059b63, 0x00000000, 0x00000000]"

definition decomp16_468 :: "u32 list" where
  "decomp16_468 = [
    0x00000000, 0x00061863, 0x00000000, 0x00000000, 0x00000000, 0x02061863, 0x00000000, 0x00000000,
    0x00000000, 0x00061963, 0x00000000, 0x00000000, 0x00000000, 0x02061963, 0x00000000, 0x00000000,
    0x00000000, 0x00061a63, 0x00000000, 0x00000000, 0x00000000, 0x02061a63, 0x00000000, 0x00000000,
    0x00000000, 0x00061b63, 0x00000000, 0x00000000, 0x00000000, 0x02061b63, 0x00000000, 0x00000000,
    0x00000000, 0x04061863, 0x00000000, 0x00000000, 0x00000000, 0x06061863, 0x00000000, 0x00000000,
    0x00000000, 0x04061963, 0x00000000, 0x00000000, 0x00000000, 0x06061963, 0x00000000, 0x00000000,
    0x00000000, 0x04061a63, 0x00000000, 0x00000000, 0x00000000, 0x06061a63, 0x00000000, 0x00000000,
    0x00000000, 0x04061b63, 0x00000000, 0x00000000, 0x00000000, 0x06061b63, 0x00000000, 0x00000000,
    0x00000000, 0x08061863, 0x00000000, 0x00000000, 0x00000000, 0x0a061863, 0x00000000, 0x00000000,
    0x00000000, 0x08061963, 0x00000000, 0x00000000, 0x00000000, 0x0a061963, 0x00000000, 0x00000000,
    0x00000000, 0x08061a63, 0x00000000, 0x00000000, 0x00000000, 0x0a061a63, 0x00000000, 0x00000000,
    0x00000000, 0x08061b63, 0x00000000, 0x00000000, 0x00000000, 0x0a061b63, 0x00000000, 0x00000000,
    0x00000000, 0x0c061863, 0x00000000, 0x00000000, 0x00000000, 0x0e061863, 0x00000000, 0x00000000,
    0x00000000, 0x0c061963, 0x00000000, 0x00000000, 0x00000000, 0x0e061963, 0x00000000, 0x00000000,
    0x00000000, 0x0c061a63, 0x00000000, 0x00000000, 0x00000000, 0x0e061a63, 0x00000000, 0x00000000,
    0x00000000, 0x0c061b63, 0x00000000, 0x00000000, 0x00000000, 0x0e061b63, 0x00000000, 0x00000000]"

definition decomp16_469 :: "u32 list" where
  "decomp16_469 = [
    0x00000000, 0x00069863, 0x00000000, 0x00000000, 0x00000000, 0x02069863, 0x00000000, 0x00000000,
    0x00000000, 0x00069963, 0x00000000, 0x00000000, 0x00000000, 0x02069963, 0x00000000, 0x00000000,
    0x00000000, 0x00069a63, 0x00000000, 0x00000000, 0x00000000, 0x02069a63, 0x00000000, 0x00000000,
    0x00000000, 0x00069b63, 0x00000000, 0x00000000, 0x00000000, 0x02069b63, 0x00000000, 0x00000000,
    0x00000000, 0x04069863, 0x00000000, 0x00000000, 0x00000000, 0x06069863, 0x00000000, 0x00000000,
    0x00000000, 0x04069963, 0x00000000, 0x00000000, 0x00000000, 0x06069963, 0x00000000, 0x00000000,
    0x00000000, 0x04069a63, 0x00000000, 0x00000000, 0x00000000, 0x06069a63, 0x00000000, 0x00000000,
    0x00000000, 0x04069b63, 0x00000000, 0x00000000, 0x00000000, 0x06069b63, 0x00000000, 0x00000000,
    0x00000000, 0x08069863, 0x00000000, 0x00000000, 0x00000000, 0x0a069863, 0x00000000, 0x00000000,
    0x00000000, 0x08069963, 0x00000000, 0x00000000, 0x00000000, 0x0a069963, 0x00000000, 0x00000000,
    0x00000000, 0x08069a63, 0x00000000, 0x00000000, 0x00000000, 0x0a069a63, 0x00000000, 0x00000000,
    0x00000000, 0x08069b63, 0x00000000, 0x00000000, 0x00000000, 0x0a069b63, 0x00000000, 0x00000000,
    0x00000000, 0x0c069863, 0x00000000, 0x00000000, 0x00000000, 0x0e069863, 0x00000000, 0x00000000,
    0x00000000, 0x0c069963, 0x00000000, 0x00000000, 0x00000000, 0x0e069963, 0x00000000, 0x00000000,
    0x00000000, 0x0c069a63, 0x00000000, 0x00000000, 0x00000000, 0x0e069a63, 0x00000000, 0x00000000,
    0x00000000, 0x0c069b63, 0x00000000, 0x00000000, 0x00000000, 0x0e069b63, 0x00000000, 0x00000000]"

definition decomp16_470 :: "u32 list" where
  "decomp16_470 = [
    0x00000000, 0x00071863, 0x00000000, 0x00000000, 0x00000000, 0x02071863, 0x00000000, 0x00000000,
    0x00000000, 0x00071963, 0x00000000, 0x00000000, 0x00000000, 0x02071963, 0x00000000, 0x00000000,
    0x00000000, 0x00071a63, 0x00000000, 0x00000000, 0x00000000, 0x02071a63, 0x00000000, 0x00000000,
    0x00000000, 0x00071b63, 0x00000000, 0x00000000, 0x00000000, 0x02071b63, 0x00000000, 0x00000000,
    0x00000000, 0x04071863, 0x00000000, 0x00000000, 0x00000000, 0x06071863, 0x00000000, 0x00000000,
    0x00000000, 0x04071963, 0x00000000, 0x00000000, 0x00000000, 0x06071963, 0x00000000, 0x00000000,
    0x00000000, 0x04071a63, 0x00000000, 0x00000000, 0x00000000, 0x06071a63, 0x00000000, 0x00000000,
    0x00000000, 0x04071b63, 0x00000000, 0x00000000, 0x00000000, 0x06071b63, 0x00000000, 0x00000000,
    0x00000000, 0x08071863, 0x00000000, 0x00000000, 0x00000000, 0x0a071863, 0x00000000, 0x00000000,
    0x00000000, 0x08071963, 0x00000000, 0x00000000, 0x00000000, 0x0a071963, 0x00000000, 0x00000000,
    0x00000000, 0x08071a63, 0x00000000, 0x00000000, 0x00000000, 0x0a071a63, 0x00000000, 0x00000000,
    0x00000000, 0x08071b63, 0x00000000, 0x00000000, 0x00000000, 0x0a071b63, 0x00000000, 0x00000000,
    0x00000000, 0x0c071863, 0x00000000, 0x00000000, 0x00000000, 0x0e071863, 0x00000000, 0x00000000,
    0x00000000, 0x0c071963, 0x00000000, 0x00000000, 0x00000000, 0x0e071963, 0x00000000, 0x00000000,
    0x00000000, 0x0c071a63, 0x00000000, 0x00000000, 0x00000000, 0x0e071a63, 0x00000000, 0x00000000,
    0x00000000, 0x0c071b63, 0x00000000, 0x00000000, 0x00000000, 0x0e071b63, 0x00000000, 0x00000000]"

definition decomp16_471 :: "u32 list" where
  "decomp16_471 = [
    0x00000000, 0x00079863, 0x00000000, 0x00000000, 0x00000000, 0x02079863, 0x00000000, 0x00000000,
    0x00000000, 0x00079963, 0x00000000, 0x00000000, 0x00000000, 0x02079963, 0x00000000, 0x00000000,
    0x00000000, 0x00079a63, 0x00000000, 0x00000000, 0x00000000, 0x02079a63, 0x00000000, 0x00000000,
    0x00000000, 0x00079b63, 0x00000000, 0x00000000, 0x00000000, 0x02079b63, 0x00000000, 0x00000000,
    0x00000000, 0x04079863, 0x00000000, 0x00000000, 0x00000000, 0x06079863, 0x00000000, 0x00000000,
    0x00000000, 0x04079963, 0x00000000, 0x00000000, 0x00000000, 0x06079963, 0x00000000, 0x00000000,
    0x00000000, 0x04079a63, 0x00000000, 0x00000000, 0x00000000, 0x06079a63, 0x00000000, 0x00000000,
    0x00000000, 0x04079b63, 0x00000000, 0x00000000, 0x00000000, 0x06079b63, 0x00000000, 0x00000000,
    0x00000000, 0x08079863, 0x00000000, 0x00000000, 0x00000000, 0x0a079863, 0x00000000, 0x00000000,
    0x00000000, 0x08079963, 0x00000000, 0x00000000, 0x00000000, 0x0a079963, 0x00000000, 0x00000000,
    0x00000000, 0x08079a63, 0x00000000, 0x00000000, 0x00000000, 0x0a079a63, 0x00000000, 0x00000000,
    0x00000000, 0x08079b63, 0x00000000, 0x00000000, 0x00000000, 0x0a079b63, 0x00000000, 0x00000000,
    0x00000000, 0x0c079863, 0x00000000, 0x00000000, 0x00000000, 0x0e079863, 0x00000000, 0x00000000,
    0x00000000, 0x0c079963, 0x00000000, 0x00000000, 0x00000000, 0x0e079963, 0x00000000, 0x00000000,
    0x00000000, 0x0c079a63, 0x00000000, 0x00000000, 0x00000000, 0x0e079a63, 0x00000000, 0x00000000,
    0x00000000, 0x0c079b63, 0x00000000, 0x00000000, 0x00000000, 0x0e079b63, 0x00000000, 0x00000000]"

definition decomp16_472 :: "u32 list" where
  "decomp16_472 = [
    0x00000000, 0x00041c63, 0x00000000, 0x00000000, 0x00000000, 0x02041c63, 0x00000000, 0x00000000,
    0x00000000, 0x00041d63, 0x00000000, 0x00000000, 0x00000000, 0x02041d63, 0x00000000, 0x00000000,
    0x00000000, 0x00041e63, 0x00000000, 0x00000000, 0x00000000, 0x02041e63, 0x00000000, 0x00000000,
    0x00000000, 0x00041f63, 0x00000000, 0x00000000, 0x00000000, 0x02041f63, 0x00000000, 0x00000000,
    0x00000000, 0x04041c63, 0x00000000, 0x00000000, 0x00000000, 0x06041c63, 0x00000000, 0x00000000,
    0x00000000, 0x04041d63, 0x00000000, 0x00000000, 0x00000000, 0x06041d63, 0x00000000, 0x00000000,
    0x00000000, 0x04041e63, 0x00000000, 0x00000000, 0x00000000, 0x06041e63, 0x00000000, 0x00000000,
    0x00000000, 0x04041f63, 0x00000000, 0x00000000, 0x00000000, 0x06041f63, 0x00000000, 0x00000000,
    0x00000000, 0x08041c63, 0x00000000, 0x00000000, 0x00000000, 0x0a041c63, 0x00000000, 0x00000000,
    0x00000000, 0x08041d63, 0x00000000, 0x00000000, 0x00000000, 0x0a041d63, 0x00000000, 0x00000000,
    0x00000000, 0x08041e63, 0x00000000, 0x00000000, 0x00000000, 0x0a041e63, 0x00000000, 0x00000000,
    0x00000000, 0x08041f63, 0x00000000, 0x00000000, 0x00000000, 0x0a041f63, 0x00000000, 0x00000000,
    0x00000000, 0x0c041c63, 0x00000000, 0x00000000, 0x00000000, 0x0e041c63, 0x00000000, 0x00000000,
    0x00000000, 0x0c041d63, 0x00000000, 0x00000000, 0x00000000, 0x0e041d63, 0x00000000, 0x00000000,
    0x00000000, 0x0c041e63, 0x00000000, 0x00000000, 0x00000000, 0x0e041e63, 0x00000000, 0x00000000,
    0x00000000, 0x0c041f63, 0x00000000, 0x00000000, 0x00000000, 0x0e041f63, 0x00000000, 0x00000000]"

definition decomp16_473 :: "u32 list" where
  "decomp16_473 = [
    0x00000000, 0x00049c63, 0x00000000, 0x00000000, 0x00000000, 0x02049c63, 0x00000000, 0x00000000,
    0x00000000, 0x00049d63, 0x00000000, 0x00000000, 0x00000000, 0x02049d63, 0x00000000, 0x00000000,
    0x00000000, 0x00049e63, 0x00000000, 0x00000000, 0x00000000, 0x02049e63, 0x00000000, 0x00000000,
    0x00000000, 0x00049f63, 0x00000000, 0x00000000, 0x00000000, 0x02049f63, 0x00000000, 0x00000000,
    0x00000000, 0x04049c63, 0x00000000, 0x00000000, 0x00000000, 0x06049c63, 0x00000000, 0x00000000,
    0x00000000, 0x04049d63, 0x00000000, 0x00000000, 0x00000000, 0x06049d63, 0x00000000, 0x00000000,
    0x00000000, 0x04049e63, 0x00000000, 0x00000000, 0x00000000, 0x06049e63, 0x00000000, 0x00000000,
    0x00000000, 0x04049f63, 0x00000000, 0x00000000, 0x00000000, 0x06049f63, 0x00000000, 0x00000000,
    0x00000000, 0x08049c63, 0x00000000, 0x00000000, 0x00000000, 0x0a049c63, 0x00000000, 0x00000000,
    0x00000000, 0x08049d63, 0x00000000, 0x00000000, 0x00000000, 0x0a049d63, 0x00000000, 0x00000000,
    0x00000000, 0x08049e63, 0x00000000, 0x00000000, 0x00000000, 0x0a049e63, 0x00000000, 0x00000000,
    0x00000000, 0x08049f63, 0x00000000, 0x00000000, 0x00000000, 0x0a049f63, 0x00000000, 0x00000000,
    0x00000000, 0x0c049c63, 0x00000000, 0x00000000, 0x00000000, 0x0e049c63, 0x00000000, 0x00000000,
    0x00000000, 0x0c049d63, 0x00000000, 0x00000000, 0x00000000, 0x0e049d63, 0x00000000, 0x00000000,
    0x00000000, 0x0c049e63, 0x00000000, 0x00000000, 0x00000000, 0x0e049e63, 0x00000000, 0x00000000,
    0x00000000, 0x0c049f63, 0x00000000, 0x00000000, 0x00000000, 0x0e049f63, 0x00000000, 0x00000000]"

definition decomp16_474 :: "u32 list" where
  "decomp16_474 = [
    0x00000000, 0x00051c63, 0x00000000, 0x00000000, 0x00000000, 0x02051c63, 0x00000000, 0x00000000,
    0x00000000, 0x00051d63, 0x00000000, 0x00000000, 0x00000000, 0x02051d63, 0x00000000, 0x00000000,
    0x00000000, 0x00051e63, 0x00000000, 0x00000000, 0x00000000, 0x02051e63, 0x00000000, 0x00000000,
    0x00000000, 0x00051f63, 0x00000000, 0x00000000, 0x00000000, 0x02051f63, 0x00000000, 0x00000000,
    0x00000000, 0x04051c63, 0x00000000, 0x00000000, 0x00000000, 0x06051c63, 0x00000000, 0x00000000,
    0x00000000, 0x04051d63, 0x00000000, 0x00000000, 0x00000000, 0x06051d63, 0x00000000, 0x00000000,
    0x00000000, 0x04051e63, 0x00000000, 0x00000000, 0x00000000, 0x06051e63, 0x00000000, 0x00000000,
    0x00000000, 0x04051f63, 0x00000000, 0x00000000, 0x00000000, 0x06051f63, 0x00000000, 0x00000000,
    0x00000000, 0x08051c63, 0x00000000, 0x00000000, 0x00000000, 0x0a051c63, 0x00000000, 0x00000000,
    0x00000000, 0x08051d63, 0x00000000, 0x00000000, 0x00000000, 0x0a051d63, 0x00000000, 0x00000000,
    0x00000000, 0x08051e63, 0x00000000, 0x00000000, 0x00000000, 0x0a051e63, 0x00000000, 0x00000000,
    0x00000000, 0x08051f63, 0x00000000, 0x00000000, 0x00000000, 0x0a051f63, 0x00000000, 0x00000000,
    0x00000000, 0x0c051c63, 0x00000000, 0x00000000, 0x00000000, 0x0e051c63, 0x00000000, 0x00000000,
    0x00000000, 0x0c051d63, 0x00000000, 0x00000000, 0x00000000, 0x0e051d63, 0x00000000, 0x00000000,
    0x00000000, 0x0c051e63, 0x00000000, 0x00000000, 0x00000000, 0x0e051e63, 0x00000000, 0x00000000,
    0x00000000, 0x0c051f63, 0x00000000, 0x00000000, 0x00000000, 0x0e051f63, 0x00000000, 0x00000000]"

definition decomp16_475 :: "u32 list" where
  "decomp16_475 = [
    0x00000000, 0x00059c63, 0x00000000, 0x00000000, 0x00000000, 0x02059c63, 0x00000000, 0x00000000,
    0x00000000, 0x00059d63, 0x00000000, 0x00000000, 0x00000000, 0x02059d63, 0x00000000, 0x00000000,
    0x00000000, 0x00059e63, 0x00000000, 0x00000000, 0x00000000, 0x02059e63, 0x00000000, 0x00000000,
    0x00000000, 0x00059f63, 0x00000000, 0x00000000, 0x00000000, 0x02059f63, 0x00000000, 0x00000000,
    0x00000000, 0x04059c63, 0x00000000, 0x00000000, 0x00000000, 0x06059c63, 0x00000000, 0x00000000,
    0x00000000, 0x04059d63, 0x00000000, 0x00000000, 0x00000000, 0x06059d63, 0x00000000, 0x00000000,
    0x00000000, 0x04059e63, 0x00000000, 0x00000000, 0x00000000, 0x06059e63, 0x00000000, 0x00000000,
    0x00000000, 0x04059f63, 0x00000000, 0x00000000, 0x00000000, 0x06059f63, 0x00000000, 0x00000000,
    0x00000000, 0x08059c63, 0x00000000, 0x00000000, 0x00000000, 0x0a059c63, 0x00000000, 0x00000000,
    0x00000000, 0x08059d63, 0x00000000, 0x00000000, 0x00000000, 0x0a059d63, 0x00000000, 0x00000000,
    0x00000000, 0x08059e63, 0x00000000, 0x00000000, 0x00000000, 0x0a059e63, 0x00000000, 0x00000000,
    0x00000000, 0x08059f63, 0x00000000, 0x00000000, 0x00000000, 0x0a059f63, 0x00000000, 0x00000000,
    0x00000000, 0x0c059c63, 0x00000000, 0x00000000, 0x00000000, 0x0e059c63, 0x00000000, 0x00000000,
    0x00000000, 0x0c059d63, 0x00000000, 0x00000000, 0x00000000, 0x0e059d63, 0x00000000, 0x00000000,
    0x00000000, 0x0c059e63, 0x00000000, 0x00000000, 0x00000000, 0x0e059e63, 0x00000000, 0x00000000,
    0x00000000, 0x0c059f63, 0x00000000, 0x00000000, 0x00000000, 0x0e059f63, 0x00000000, 0x00000000]"

definition decomp16_476 :: "u32 list" where
  "decomp16_476 = [
    0x00000000, 0x00061c63, 0x00000000, 0x00000000, 0x00000000, 0x02061c63, 0x00000000, 0x00000000,
    0x00000000, 0x00061d63, 0x00000000, 0x00000000, 0x00000000, 0x02061d63, 0x00000000, 0x00000000,
    0x00000000, 0x00061e63, 0x00000000, 0x00000000, 0x00000000, 0x02061e63, 0x00000000, 0x00000000,
    0x00000000, 0x00061f63, 0x00000000, 0x00000000, 0x00000000, 0x02061f63, 0x00000000, 0x00000000,
    0x00000000, 0x04061c63, 0x00000000, 0x00000000, 0x00000000, 0x06061c63, 0x00000000, 0x00000000,
    0x00000000, 0x04061d63, 0x00000000, 0x00000000, 0x00000000, 0x06061d63, 0x00000000, 0x00000000,
    0x00000000, 0x04061e63, 0x00000000, 0x00000000, 0x00000000, 0x06061e63, 0x00000000, 0x00000000,
    0x00000000, 0x04061f63, 0x00000000, 0x00000000, 0x00000000, 0x06061f63, 0x00000000, 0x00000000,
    0x00000000, 0x08061c63, 0x00000000, 0x00000000, 0x00000000, 0x0a061c63, 0x00000000, 0x00000000,
    0x00000000, 0x08061d63, 0x00000000, 0x00000000, 0x00000000, 0x0a061d63, 0x00000000, 0x00000000,
    0x00000000, 0x08061e63, 0x00000000, 0x00000000, 0x00000000, 0x0a061e63, 0x00000000, 0x00000000,
    0x00000000, 0x08061f63, 0x00000000, 0x00000000, 0x00000000, 0x0a061f63, 0x00000000, 0x00000000,
    0x00000000, 0x0c061c63, 0x00000000, 0x00000000, 0x00000000, 0x0e061c63, 0x00000000, 0x00000000,
    0x00000000, 0x0c061d63, 0x00000000, 0x00000000, 0x00000000, 0x0e061d63, 0x00000000, 0x00000000,
    0x00000000, 0x0c061e63, 0x00000000, 0x00000000, 0x00000000, 0x0e061e63, 0x00000000, 0x00000000,
    0x00000000, 0x0c061f63, 0x00000000, 0x00000000, 0x00000000, 0x0e061f63, 0x00000000, 0x00000000]"

definition decomp16_477 :: "u32 list" where
  "decomp16_477 = [
    0x00000000, 0x00069c63, 0x00000000, 0x00000000, 0x00000000, 0x02069c63, 0x00000000, 0x00000000,
    0x00000000, 0x00069d63, 0x00000000, 0x00000000, 0x00000000, 0x02069d63, 0x00000000, 0x00000000,
    0x00000000, 0x00069e63, 0x00000000, 0x00000000, 0x00000000, 0x02069e63, 0x00000000, 0x00000000,
    0x00000000, 0x00069f63, 0x00000000, 0x00000000, 0x00000000, 0x02069f63, 0x00000000, 0x00000000,
    0x00000000, 0x04069c63, 0x00000000, 0x00000000, 0x00000000, 0x06069c63, 0x00000000, 0x00000000,
    0x00000000, 0x04069d63, 0x00000000, 0x00000000, 0x00000000, 0x06069d63, 0x00000000, 0x00000000,
    0x00000000, 0x04069e63, 0x00000000, 0x00000000, 0x00000000, 0x06069e63, 0x00000000, 0x00000000,
    0x00000000, 0x04069f63, 0x00000000, 0x00000000, 0x00000000, 0x06069f63, 0x00000000, 0x00000000,
    0x00000000, 0x08069c63, 0x00000000, 0x00000000, 0x00000000, 0x0a069c63, 0x00000000, 0x00000000,
    0x00000000, 0x08069d63, 0x00000000, 0x00000000, 0x00000000, 0x0a069d63, 0x00000000, 0x00000000,
    0x00000000, 0x08069e63, 0x00000000, 0x00000000, 0x00000000, 0x0a069e63, 0x00000000, 0x00000000,
    0x00000000, 0x08069f63, 0x00000000, 0x00000000, 0x00000000, 0x0a069f63, 0x00000000, 0x00000000,
    0x00000000, 0x0c069c63, 0x00000000, 0x00000000, 0x00000000, 0x0e069c63, 0x00000000, 0x00000000,
    0x00000000, 0x0c069d63, 0x00000000, 0x00000000, 0x00000000, 0x0e069d63, 0x00000000, 0x00000000,
    0x00000000, 0x0c069e63, 0x00000000, 0x00000000, 0x00000000, 0x0e069e63, 0x00000000, 0x00000000,
    0x00000000, 0x0c069f63, 0x00000000, 0x00000000, 0x00000000, 0x0e069f63, 0x00000000, 0x00000000]"

definition decomp16_478 :: "u32 list" where
  "decomp16_478 = [
    0x00000000, 0x00071c63, 0x00000000, 0x00000000, 0x00000000, 0x02071c63, 0x00000000, 0x00000000,
    0x00000000, 0x00071d63, 0x00000000, 0x00000000, 0x00000000, 0x02071d63, 0x00000000, 0x00000000,
    0x00000000, 0x00071e63, 0x00000000, 0x00000000, 0x00000000, 0x02071e63, 0x00000000, 0x00000000,
    0x00000000, 0x00071f63, 0x00000000, 0x00000000, 0x00000000, 0x02071f63, 0x00000000, 0x00000000,
    0x00000000, 0x04071c63, 0x00000000, 0x00000000, 0x00000000, 0x06071c63, 0x00000000, 0x00000000,
    0x00000000, 0x04071d63, 0x00000000, 0x00000000, 0x00000000, 0x06071d63, 0x00000000, 0x00000000,
    0x00000000, 0x04071e63, 0x00000000, 0x00000000, 0x00000000, 0x06071e63, 0x00000000, 0x00000000,
    0x00000000, 0x04071f63, 0x00000000, 0x00000000, 0x00000000, 0x06071f63, 0x00000000, 0x00000000,
    0x00000000, 0x08071c63, 0x00000000, 0x00000000, 0x00000000, 0x0a071c63, 0x00000000, 0x00000000,
    0x00000000, 0x08071d63, 0x00000000, 0x00000000, 0x00000000, 0x0a071d63, 0x00000000, 0x00000000,
    0x00000000, 0x08071e63, 0x00000000, 0x00000000, 0x00000000, 0x0a071e63, 0x00000000, 0x00000000,
    0x00000000, 0x08071f63, 0x00000000, 0x00000000, 0x00000000, 0x0a071f63, 0x00000000, 0x00000000,
    0x00000000, 0x0c071c63, 0x00000000, 0x00000000, 0x00000000, 0x0e071c63, 0x00000000, 0x00000000,
    0x00000000, 0x0c071d63, 0x00000000, 0x00000000, 0x00000000, 0x0e071d63, 0x00000000, 0x00000000,
    0x00000000, 0x0c071e63, 0x00000000, 0x00000000, 0x00000000, 0x0e071e63, 0x00000000, 0x00000000,
    0x00000000, 0x0c071f63, 0x00000000, 0x00000000, 0x00000000, 0x0e071f63, 0x00000000, 0x00000000]"

definition decomp16_479 :: "u32 list" where
  "decomp16_479 = [
    0x00000000, 0x00079c63, 0x00000000, 0x00000000, 0x00000000, 0x02079c63, 0x00000000, 0x00000000,
    0x00000000, 0x00079d63, 0x00000000, 0x00000000, 0x00000000, 0x02079d63, 0x00000000, 0x00000000,
    0x00000000, 0x00079e63, 0x00000000, 0x00000000, 0x00000000, 0x02079e63, 0x00000000, 0x00000000,
    0x00000000, 0x00079f63, 0x00000000, 0x00000000, 0x00000000, 0x02079f63, 0x00000000, 0x00000000,
    0x00000000, 0x04079c63, 0x00000000, 0x00000000, 0x00000000, 0x06079c63, 0x00000000, 0x00000000,
    0x00000000, 0x04079d63, 0x00000000, 0x00000000, 0x00000000, 0x06079d63, 0x00000000, 0x00000000,
    0x00000000, 0x04079e63, 0x00000000, 0x00000000, 0x00000000, 0x06079e63, 0x00000000, 0x00000000,
    0x00000000, 0x04079f63, 0x00000000, 0x00000000, 0x00000000, 0x06079f63, 0x00000000, 0x00000000,
    0x00000000, 0x08079c63, 0x00000000, 0x00000000, 0x00000000, 0x0a079c63, 0x00000000, 0x00000000,
    0x00000000, 0x08079d63, 0x00000000, 0x00000000, 0x00000000, 0x0a079d63, 0x00000000, 0x00000000,
    0x00000000, 0x08079e63, 0x00000000, 0x00000000, 0x00000000, 0x0a079e63, 0x00000000, 0x00000000,
    0x00000000, 0x08079f63, 0x00000000, 0x00000000, 0x00000000, 0x0a079f63, 0x00000000, 0x00000000,
    0x00000000, 0x0c079c63, 0x00000000, 0x00000000, 0x00000000, 0x0e079c63, 0x00000000, 0x00000000,
    0x00000000, 0x0c079d63, 0x00000000, 0x00000000, 0x00000000, 0x0e079d63, 0x00000000, 0x00000000,
    0x00000000, 0x0c079e63, 0x00000000, 0x00000000, 0x00000000, 0x0e079e63, 0x00000000, 0x00000000,
    0x00000000, 0x0c079f63, 0x00000000, 0x00000000, 0x00000000, 0x0e079f63, 0x00000000, 0x00000000]"

definition decomp16_480 :: "u32 list" where
  "decomp16_480 = [
    0x00000000, 0xf00410e3, 0x00000000, 0x00000000, 0x00000000, 0xf20410e3, 0x00000000, 0x00000000,
    0x00000000, 0xf00411e3, 0x00000000, 0x00000000, 0x00000000, 0xf20411e3, 0x00000000, 0x00000000,
    0x00000000, 0xf00412e3, 0x00000000, 0x00000000, 0x00000000, 0xf20412e3, 0x00000000, 0x00000000,
    0x00000000, 0xf00413e3, 0x00000000, 0x00000000, 0x00000000, 0xf20413e3, 0x00000000, 0x00000000,
    0x00000000, 0xf40410e3, 0x00000000, 0x00000000, 0x00000000, 0xf60410e3, 0x00000000, 0x00000000,
    0x00000000, 0xf40411e3, 0x00000000, 0x00000000, 0x00000000, 0xf60411e3, 0x00000000, 0x00000000,
    0x00000000, 0xf40412e3, 0x00000000, 0x00000000, 0x00000000, 0xf60412e3, 0x00000000, 0x00000000,
    0x00000000, 0xf40413e3, 0x00000000, 0x00000000, 0x00000000, 0xf60413e3, 0x00000000, 0x00000000,
    0x00000000, 0xf80410e3, 0x00000000, 0x00000000, 0x00000000, 0xfa0410e3, 0x00000000, 0x00000000,
    0x00000000, 0xf80411e3, 0x00000000, 0x00000000, 0x00000000, 0xfa0411e3, 0x00000000, 0x00000000,
    0x00000000, 0xf80412e3, 0x00000000, 0x00000000, 0x00000000, 0xfa0412e3, 0x00000000, 0x00000000,
    0x00000000, 0xf80413e3, 0x00000000, 0x00000000, 0x00000000, 0xfa0413e3, 0x00000000, 0x00000000,
    0x00000000, 0xfc0410e3, 0x00000000, 0x00000000, 0x00000000, 0xfe0410e3, 0x00000000, 0x00000000,
    0x00000000, 0xfc0411e3, 0x00000000, 0x00000000, 0x00000000, 0xfe0411e3, 0x00000000, 0x00000000,
    0x00000000, 0xfc0412e3, 0x00000000, 0x00000000, 0x00000000, 0xfe0412e3, 0x00000000, 0x00000000,
    0x00000000, 0xfc0413e3, 0x00000000, 0x00000000, 0x00000000, 0xfe0413e3, 0x00000000, 0x00000000]"

definition decomp16_481 :: "u32 list" where
  "decomp16_481 = [
    0x00000000, 0xf00490e3, 0x00000000, 0x00000000, 0x00000000, 0xf20490e3, 0x00000000, 0x00000000,
    0x00000000, 0xf00491e3, 0x00000000, 0x00000000, 0x00000000, 0xf20491e3, 0x00000000, 0x00000000,
    0x00000000, 0xf00492e3, 0x00000000, 0x00000000, 0x00000000, 0xf20492e3, 0x00000000, 0x00000000,
    0x00000000, 0xf00493e3, 0x00000000, 0x00000000, 0x00000000, 0xf20493e3, 0x00000000, 0x00000000,
    0x00000000, 0xf40490e3, 0x00000000, 0x00000000, 0x00000000, 0xf60490e3, 0x00000000, 0x00000000,
    0x00000000, 0xf40491e3, 0x00000000, 0x00000000, 0x00000000, 0xf60491e3, 0x00000000, 0x00000000,
    0x00000000, 0xf40492e3, 0x00000000, 0x00000000, 0x00000000, 0xf60492e3, 0x00000000, 0x00000000,
    0x00000000, 0xf40493e3, 0x00000000, 0x00000000, 0x00000000, 0xf60493e3, 0x00000000, 0x00000000,
    0x00000000, 0xf80490e3, 0x00000000, 0x00000000, 0x00000000, 0xfa0490e3, 0x00000000, 0x00000000,
    0x00000000, 0xf80491e3, 0x00000000, 0x00000000, 0x00000000, 0xfa0491e3, 0x00000000, 0x00000000,
    0x00000000, 0xf80492e3, 0x00000000, 0x00000000, 0x00000000, 0xfa0492e3, 0x00000000, 0x00000000,
    0x00000000, 0xf80493e3, 0x00000000, 0x00000000, 0x00000000, 0xfa0493e3, 0x00000000, 0x00000000,
    0x00000000, 0xfc0490e3, 0x00000000, 0x00000000, 0x00000000, 0xfe0490e3, 0x00000000, 0x00000000,
    0x00000000, 0xfc0491e3, 0x00000000, 0x00000000, 0x00000000, 0xfe0491e3, 0x00000000, 0x00000000,
    0x00000000, 0xfc0492e3, 0x00000000, 0x00000000, 0x00000000, 0xfe0492e3, 0x00000000, 0x00000000,
    0x00000000, 0xfc0493e3, 0x00000000, 0x00000000, 0x00000000, 0xfe0493e3, 0x00000000, 0x00000000]"

definition decomp16_482 :: "u32 list" where
  "decomp16_482 = [
    0x00000000, 0xf00510e3, 0x00000000, 0x00000000, 0x00000000, 0xf20510e3, 0x00000000, 0x00000000,
    0x00000000, 0xf00511e3, 0x00000000, 0x00000000, 0x00000000, 0xf20511e3, 0x00000000, 0x00000000,
    0x00000000, 0xf00512e3, 0x00000000, 0x00000000, 0x00000000, 0xf20512e3, 0x00000000, 0x00000000,
    0x00000000, 0xf00513e3, 0x00000000, 0x00000000, 0x00000000, 0xf20513e3, 0x00000000, 0x00000000,
    0x00000000, 0xf40510e3, 0x00000000, 0x00000000, 0x00000000, 0xf60510e3, 0x00000000, 0x00000000,
    0x00000000, 0xf40511e3, 0x00000000, 0x00000000, 0x00000000, 0xf60511e3, 0x00000000, 0x00000000,
    0x00000000, 0xf40512e3, 0x00000000, 0x00000000, 0x00000000, 0xf60512e3, 0x00000000, 0x00000000,
    0x00000000, 0xf40513e3, 0x00000000, 0x00000000, 0x00000000, 0xf60513e3, 0x00000000, 0x00000000,
    0x00000000, 0xf80510e3, 0x00000000, 0x00000000, 0x00000000, 0xfa0510e3, 0x00000000, 0x00000000,
    0x00000000, 0xf80511e3, 0x00000000, 0x00000000, 0x00000000, 0xfa0511e3, 0x00000000, 0x00000000,
    0x00000000, 0xf80512e3, 0x00000000, 0x00000000, 0x00000000, 0xfa0512e3, 0x00000000, 0x00000000,
    0x00000000, 0xf80513e3, 0x00000000, 0x00000000, 0x00000000, 0xfa0513e3, 0x00000000, 0x00000000,
    0x00000000, 0xfc0510e3, 0x00000000, 0x00000000, 0x00000000, 0xfe0510e3, 0x00000000, 0x00000000,
    0x00000000, 0xfc0511e3, 0x00000000, 0x00000000, 0x00000000, 0xfe0511e3, 0x00000000, 0x00000000,
    0x00000000, 0xfc0512e3, 0x00000000, 0x00000000, 0x00000000, 0xfe0512e3, 0x00000000, 0x00000000,
    0x00000000, 0xfc0513e3, 0x00000000, 0x00000000, 0x00000000, 0xfe0513e3, 0x00000000, 0x00000000]"

definition decomp16_483 :: "u32 list" where
  "decomp16_483 = [
    0x00000000, 0xf00590e3, 0x00000000, 0x00000000, 0x00000000, 0xf20590e3, 0x00000000, 0x00000000,
    0x00000000, 0xf00591e3, 0x00000000, 0x00000000, 0x00000000, 0xf20591e3, 0x00000000, 0x00000000,
    0x00000000, 0xf00592e3, 0x00000000, 0x00000000, 0x00000000, 0xf20592e3, 0x00000000, 0x00000000,
    0x00000000, 0xf00593e3, 0x00000000, 0x00000000, 0x00000000, 0xf20593e3, 0x00000000, 0x00000000,
    0x00000000, 0xf40590e3, 0x00000000, 0x00000000, 0x00000000, 0xf60590e3, 0x00000000, 0x00000000,
    0x00000000, 0xf40591e3, 0x00000000, 0x00000000, 0x00000000, 0xf60591e3, 0x00000000, 0x00000000,
    0x00000000, 0xf40592e3, 0x00000000, 0x00000000, 0x00000000, 0xf60592e3, 0x00000000, 0x00000000,
    0x00000000, 0xf40593e3, 0x00000000, 0x00000000, 0x00000000, 0xf60593e3, 0x00000000, 0x00000000,
    0x00000000, 0xf80590e3, 0x00000000, 0x00000000, 0x00000000, 0xfa0590e3, 0x00000000, 0x00000000,
    0x00000000, 0xf80591e3, 0x00000000, 0x00000000, 0x00000000, 0xfa0591e3, 0x00000000, 0x00000000,
    0x00000000, 0xf80592e3, 0x00000000, 0x00000000, 0x00000000, 0xfa0592e3, 0x00000000, 0x00000000,
    0x00000000, 0xf80593e3, 0x00000000, 0x00000000, 0x00000000, 0xfa0593e3, 0x00000000, 0x00000000,
    0x00000000, 0xfc0590e3, 0x00000000, 0x00000000, 0x00000000, 0xfe0590e3, 0x00000000, 0x00000000,
    0x00000000, 0xfc0591e3, 0x00000000, 0x00000000, 0x00000000, 0xfe0591e3, 0x00000000, 0x00000000,
    0x00000000, 0xfc0592e3, 0x00000000, 0x00000000, 0x00000000, 0xfe0592e3, 0x00000000, 0x00000000,
    0x00000000, 0xfc0593e3, 0x00000000, 0x00000000, 0x00000000, 0xfe0593e3, 0x00000000, 0x00000000]"

definition decomp16_484 :: "u32 list" where
  "decomp16_484 = [
    0x00000000, 0xf00610e3, 0x00000000, 0x00000000, 0x00000000, 0xf20610e3, 0x00000000, 0x00000000,
    0x00000000, 0xf00611e3, 0x00000000, 0x00000000, 0x00000000, 0xf20611e3, 0x00000000, 0x00000000,
    0x00000000, 0xf00612e3, 0x00000000, 0x00000000, 0x00000000, 0xf20612e3, 0x00000000, 0x00000000,
    0x00000000, 0xf00613e3, 0x00000000, 0x00000000, 0x00000000, 0xf20613e3, 0x00000000, 0x00000000,
    0x00000000, 0xf40610e3, 0x00000000, 0x00000000, 0x00000000, 0xf60610e3, 0x00000000, 0x00000000,
    0x00000000, 0xf40611e3, 0x00000000, 0x00000000, 0x00000000, 0xf60611e3, 0x00000000, 0x00000000,
    0x00000000, 0xf40612e3, 0x00000000, 0x00000000, 0x00000000, 0xf60612e3, 0x00000000, 0x00000000,
    0x00000000, 0xf40613e3, 0x00000000, 0x00000000, 0x00000000, 0xf60613e3, 0x00000000, 0x00000000,
    0x00000000, 0xf80610e3, 0x00000000, 0x00000000, 0x00000000, 0xfa0610e3, 0x00000000, 0x00000000,
    0x00000000, 0xf80611e3, 0x00000000, 0x00000000, 0x00000000, 0xfa0611e3, 0x00000000, 0x00000000,
    0x00000000, 0xf80612e3, 0x00000000, 0x00000000, 0x00000000, 0xfa0612e3, 0x00000000, 0x00000000,
    0x00000000, 0xf80613e3, 0x00000000, 0x00000000, 0x00000000, 0xfa0613e3, 0x00000000, 0x00000000,
    0x00000000, 0xfc0610e3, 0x00000000, 0x00000000, 0x00000000, 0xfe0610e3, 0x00000000, 0x00000000,
    0x00000000, 0xfc0611e3, 0x00000000, 0x00000000, 0x00000000, 0xfe0611e3, 0x00000000, 0x00000000,
    0x00000000, 0xfc0612e3, 0x00000000, 0x00000000, 0x00000000, 0xfe0612e3, 0x00000000, 0x00000000,
    0x00000000, 0xfc0613e3, 0x00000000, 0x00000000, 0x00000000, 0xfe0613e3, 0x00000000, 0x00000000]"

definition decomp16_485 :: "u32 list" where
  "decomp16_485 = [
    0x00000000, 0xf00690e3, 0x00000000, 0x00000000, 0x00000000, 0xf20690e3, 0x00000000, 0x00000000,
    0x00000000, 0xf00691e3, 0x00000000, 0x00000000, 0x00000000, 0xf20691e3, 0x00000000, 0x00000000,
    0x00000000, 0xf00692e3, 0x00000000, 0x00000000, 0x00000000, 0xf20692e3, 0x00000000, 0x00000000,
    0x00000000, 0xf00693e3, 0x00000000, 0x00000000, 0x00000000, 0xf20693e3, 0x00000000, 0x00000000,
    0x00000000, 0xf40690e3, 0x00000000, 0x00000000, 0x00000000, 0xf60690e3, 0x00000000, 0x00000000,
    0x00000000, 0xf40691e3, 0x00000000, 0x00000000, 0x00000000, 0xf60691e3, 0x00000000, 0x00000000,
    0x00000000, 0xf40692e3, 0x00000000, 0x00000000, 0x00000000, 0xf60692e3, 0x00000000, 0x00000000,
    0x00000000, 0xf40693e3, 0x00000000, 0x00000000, 0x00000000, 0xf60693e3, 0x00000000, 0x00000000,
    0x00000000, 0xf80690e3, 0x00000000, 0x00000000, 0x00000000, 0xfa0690e3, 0x00000000, 0x00000000,
    0x00000000, 0xf80691e3, 0x00000000, 0x00000000, 0x00000000, 0xfa0691e3, 0x00000000, 0x00000000,
    0x00000000, 0xf80692e3, 0x00000000, 0x00000000, 0x00000000, 0xfa0692e3, 0x00000000, 0x00000000,
    0x00000000, 0xf80693e3, 0x00000000, 0x00000000, 0x00000000, 0xfa0693e3, 0x00000000, 0x00000000,
    0x00000000, 0xfc0690e3, 0x00000000, 0x00000000, 0x00000000, 0xfe0690e3, 0x00000000, 0x00000000,
    0x00000000, 0xfc0691e3, 0x00000000, 0x00000000, 0x00000000, 0xfe0691e3, 0x00000000, 0x00000000,
    0x00000000, 0xfc0692e3, 0x00000000, 0x00000000, 0x00000000, 0xfe0692e3, 0x00000000, 0x00000000,
    0x00000000, 0xfc0693e3, 0x00000000, 0x00000000, 0x00000000, 0xfe0693e3, 0x00000000, 0x00000000]"

definition decomp16_486 :: "u32 list" where
  "decomp16_486 = [
    0x00000000, 0xf00710e3, 0x00000000, 0x00000000, 0x00000000, 0xf20710e3, 0x00000000, 0x00000000,
    0x00000000, 0xf00711e3, 0x00000000, 0x00000000, 0x00000000, 0xf20711e3, 0x00000000, 0x00000000,
    0x00000000, 0xf00712e3, 0x00000000, 0x00000000, 0x00000000, 0xf20712e3, 0x00000000, 0x00000000,
    0x00000000, 0xf00713e3, 0x00000000, 0x00000000, 0x00000000, 0xf20713e3, 0x00000000, 0x00000000,
    0x00000000, 0xf40710e3, 0x00000000, 0x00000000, 0x00000000, 0xf60710e3, 0x00000000, 0x00000000,
    0x00000000, 0xf40711e3, 0x00000000, 0x00000000, 0x00000000, 0xf60711e3, 0x00000000, 0x00000000,
    0x00000000, 0xf40712e3, 0x00000000, 0x00000000, 0x00000000, 0xf60712e3, 0x00000000, 0x00000000,
    0x00000000, 0xf40713e3, 0x00000000, 0x00000000, 0x00000000, 0xf60713e3, 0x00000000, 0x00000000,
    0x00000000, 0xf80710e3, 0x00000000, 0x00000000, 0x00000000, 0xfa0710e3, 0x00000000, 0x00000000,
    0x00000000, 0xf80711e3, 0x00000000, 0x00000000, 0x00000000, 0xfa0711e3, 0x00000000, 0x00000000,
    0x00000000, 0xf80712e3, 0x00000000, 0x00000000, 0x00000000, 0xfa0712e3, 0x00000000, 0x00000000,
    0x00000000, 0xf80713e3, 0x00000000, 0x00000000, 0x00000000, 0xfa0713e3, 0x00000000, 0x00000000,
    0x00000000, 0xfc0710e3, 0x00000000, 0x00000000, 0x00000000, 0xfe0710e3, 0x00000000, 0x00000000,
    0x00000000, 0xfc0711e3, 0x00000000, 0x00000000, 0x00000000, 0xfe0711e3, 0x00000000, 0x00000000,
    0x00000000, 0xfc0712e3, 0x00000000, 0x00000000, 0x00000000, 0xfe0712e3, 0x00000000, 0x00000000,
    0x00000000, 0xfc0713e3, 0x00000000, 0x00000000, 0x00000000, 0xfe0713e3, 0x00000000, 0x00000000]"

definition decomp16_487 :: "u32 list" where
  "decomp16_487 = [
    0x00000000, 0xf00790e3, 0x00000000, 0x00000000, 0x00000000, 0xf20790e3, 0x00000000, 0x00000000,
    0x00000000, 0xf00791e3, 0x00000000, 0x00000000, 0x00000000, 0xf20791e3, 0x00000000, 0x00000000,
    0x00000000, 0xf00792e3, 0x00000000, 0x00000000, 0x00000000, 0xf20792e3, 0x00000000, 0x00000000,
    0x00000000, 0xf00793e3, 0x00000000, 0x00000000, 0x00000000, 0xf20793e3, 0x00000000, 0x00000000,
    0x00000000, 0xf40790e3, 0x00000000, 0x00000000, 0x00000000, 0xf60790e3, 0x00000000, 0x00000000,
    0x00000000, 0xf40791e3, 0x00000000, 0x00000000, 0x00000000, 0xf60791e3, 0x00000000, 0x00000000,
    0x00000000, 0xf40792e3, 0x00000000, 0x00000000, 0x00000000, 0xf60792e3, 0x00000000, 0x00000000,
    0x00000000, 0xf40793e3, 0x00000000, 0x00000000, 0x00000000, 0xf60793e3, 0x00000000, 0x00000000,
    0x00000000, 0xf80790e3, 0x00000000, 0x00000000, 0x00000000, 0xfa0790e3, 0x00000000, 0x00000000,
    0x00000000, 0xf80791e3, 0x00000000, 0x00000000, 0x00000000, 0xfa0791e3, 0x00000000, 0x00000000,
    0x00000000, 0xf80792e3, 0x00000000, 0x00000000, 0x00000000, 0xfa0792e3, 0x00000000, 0x00000000,
    0x00000000, 0xf80793e3, 0x00000000, 0x00000000, 0x00000000, 0xfa0793e3, 0x00000000, 0x00000000,
    0x00000000, 0xfc0790e3, 0x00000000, 0x00000000, 0x00000000, 0xfe0790e3, 0x00000000, 0x00000000,
    0x00000000, 0xfc0791e3, 0x00000000, 0x00000000, 0x00000000, 0xfe0791e3, 0x00000000, 0x00000000,
    0x00000000, 0xfc0792e3, 0x00000000, 0x00000000, 0x00000000, 0xfe0792e3, 0x00000000, 0x00000000,
    0x00000000, 0xfc0793e3, 0x00000000, 0x00000000, 0x00000000, 0xfe0793e3, 0x00000000, 0x00000000]"

definition decomp16_488 :: "u32 list" where
  "decomp16_488 = [
    0x00000000, 0xf00414e3, 0x00000000, 0x00000000, 0x00000000, 0xf20414e3, 0x00000000, 0x00000000,
    0x00000000, 0xf00415e3, 0x00000000, 0x00000000, 0x00000000, 0xf20415e3, 0x00000000, 0x00000000,
    0x00000000, 0xf00416e3, 0x00000000, 0x00000000, 0x00000000, 0xf20416e3, 0x00000000, 0x00000000,
    0x00000000, 0xf00417e3, 0x00000000, 0x00000000, 0x00000000, 0xf20417e3, 0x00000000, 0x00000000,
    0x00000000, 0xf40414e3, 0x00000000, 0x00000000, 0x00000000, 0xf60414e3, 0x00000000, 0x00000000,
    0x00000000, 0xf40415e3, 0x00000000, 0x00000000, 0x00000000, 0xf60415e3, 0x00000000, 0x00000000,
    0x00000000, 0xf40416e3, 0x00000000, 0x00000000, 0x00000000, 0xf60416e3, 0x00000000, 0x00000000,
    0x00000000, 0xf40417e3, 0x00000000, 0x00000000, 0x00000000, 0xf60417e3, 0x00000000, 0x00000000,
    0x00000000, 0xf80414e3, 0x00000000, 0x00000000, 0x00000000, 0xfa0414e3, 0x00000000, 0x00000000,
    0x00000000, 0xf80415e3, 0x00000000, 0x00000000, 0x00000000, 0xfa0415e3, 0x00000000, 0x00000000,
    0x00000000, 0xf80416e3, 0x00000000, 0x00000000, 0x00000000, 0xfa0416e3, 0x00000000, 0x00000000,
    0x00000000, 0xf80417e3, 0x00000000, 0x00000000, 0x00000000, 0xfa0417e3, 0x00000000, 0x00000000,
    0x00000000, 0xfc0414e3, 0x00000000, 0x00000000, 0x00000000, 0xfe0414e3, 0x00000000, 0x00000000,
    0x00000000, 0xfc0415e3, 0x00000000, 0x00000000, 0x00000000, 0xfe0415e3, 0x00000000, 0x00000000,
    0x00000000, 0xfc0416e3, 0x00000000, 0x00000000, 0x00000000, 0xfe0416e3, 0x00000000, 0x00000000,
    0x00000000, 0xfc0417e3, 0x00000000, 0x00000000, 0x00000000, 0xfe0417e3, 0x00000000, 0x00000000]"

definition decomp16_489 :: "u32 list" where
  "decomp16_489 = [
    0x00000000, 0xf00494e3, 0x00000000, 0x00000000, 0x00000000, 0xf20494e3, 0x00000000, 0x00000000,
    0x00000000, 0xf00495e3, 0x00000000, 0x00000000, 0x00000000, 0xf20495e3, 0x00000000, 0x00000000,
    0x00000000, 0xf00496e3, 0x00000000, 0x00000000, 0x00000000, 0xf20496e3, 0x00000000, 0x00000000,
    0x00000000, 0xf00497e3, 0x00000000, 0x00000000, 0x00000000, 0xf20497e3, 0x00000000, 0x00000000,
    0x00000000, 0xf40494e3, 0x00000000, 0x00000000, 0x00000000, 0xf60494e3, 0x00000000, 0x00000000,
    0x00000000, 0xf40495e3, 0x00000000, 0x00000000, 0x00000000, 0xf60495e3, 0x00000000, 0x00000000,
    0x00000000, 0xf40496e3, 0x00000000, 0x00000000, 0x00000000, 0xf60496e3, 0x00000000, 0x00000000,
    0x00000000, 0xf40497e3, 0x00000000, 0x00000000, 0x00000000, 0xf60497e3, 0x00000000, 0x00000000,
    0x00000000, 0xf80494e3, 0x00000000, 0x00000000, 0x00000000, 0xfa0494e3, 0x00000000, 0x00000000,
    0x00000000, 0xf80495e3, 0x00000000, 0x00000000, 0x00000000, 0xfa0495e3, 0x00000000, 0x00000000,
    0x00000000, 0xf80496e3, 0x00000000, 0x00000000, 0x00000000, 0xfa0496e3, 0x00000000, 0x00000000,
    0x00000000, 0xf80497e3, 0x00000000, 0x00000000, 0x00000000, 0xfa0497e3, 0x00000000, 0x00000000,
    0x00000000, 0xfc0494e3, 0x00000000, 0x00000000, 0x00000000, 0xfe0494e3, 0x00000000, 0x00000000,
    0x00000000, 0xfc0495e3, 0x00000000, 0x00000000, 0x00000000, 0xfe0495e3, 0x00000000, 0x00000000,
    0x00000000, 0xfc0496e3, 0x00000000, 0x00000000, 0x00000000, 0xfe0496e3, 0x00000000, 0x00000000,
    0x00000000, 0xfc0497e3, 0x00000000, 0x00000000, 0x00000000, 0xfe0497e3, 0x00000000, 0x00000000]"

definition decomp16_490 :: "u32 list" where
  "decomp16_490 = [
    0x00000000, 0xf00514e3, 0x00000000, 0x00000000, 0x00000000, 0xf20514e3, 0x00000000, 0x00000000,
    0x00000000, 0xf00515e3, 0x00000000, 0x00000000, 0x00000000, 0xf20515e3, 0x00000000, 0x00000000,
    0x00000000, 0xf00516e3, 0x00000000, 0x00000000, 0x00000000, 0xf20516e3, 0x00000000, 0x00000000,
    0x00000000, 0xf00517e3, 0x00000000, 0x00000000, 0x00000000, 0xf20517e3, 0x00000000, 0x00000000,
    0x00000000, 0xf40514e3, 0x00000000, 0x00000000, 0x00000000, 0xf60514e3, 0x00000000, 0x00000000,
    0x00000000, 0xf40515e3, 0x00000000, 0x00000000, 0x00000000, 0xf60515e3, 0x00000000, 0x00000000,
    0x00000000, 0xf40516e3, 0x00000000, 0x00000000, 0x00000000, 0xf60516e3, 0x00000000, 0x00000000,
    0x00000000, 0xf40517e3, 0x00000000, 0x00000000, 0x00000000, 0xf60517e3, 0x00000000, 0x00000000,
    0x00000000, 0xf80514e3, 0x00000000, 0x00000000, 0x00000000, 0xfa0514e3, 0x00000000, 0x00000000,
    0x00000000, 0xf80515e3, 0x00000000, 0x00000000, 0x00000000, 0xfa0515e3, 0x00000000, 0x00000000,
    0x00000000, 0xf80516e3, 0x00000000, 0x00000000, 0x00000000, 0xfa0516e3, 0x00000000, 0x00000000,
    0x00000000, 0xf80517e3, 0x00000000, 0x00000000, 0x00000000, 0xfa0517e3, 0x00000000, 0x00000000,
    0x00000000, 0xfc0514e3, 0x00000000, 0x00000000, 0x00000000, 0xfe0514e3, 0x00000000, 0x00000000,
    0x00000000, 0xfc0515e3, 0x00000000, 0x00000000, 0x00000000, 0xfe0515e3, 0x00000000, 0x00000000,
    0x00000000, 0xfc0516e3, 0x00000000, 0x00000000, 0x00000000, 0xfe0516e3, 0x00000000, 0x00000000,
    0x00000000, 0xfc0517e3, 0x00000000, 0x00000000, 0x00000000, 0xfe0517e3, 0x00000000, 0x00000000]"

definition decomp16_491 :: "u32 list" where
  "decomp16_491 = [
    0x00000000, 0xf00594e3, 0x00000000, 0x00000000, 0x00000000, 0xf20594e3, 0x00000000, 0x00000000,
    0x00000000, 0xf00595e3, 0x00000000, 0x00000000, 0x00000000, 0xf20595e3, 0x00000000, 0x00000000,
    0x00000000, 0xf00596e3, 0x00000000, 0x00000000, 0x00000000, 0xf20596e3, 0x00000000, 0x00000000,
    0x00000000, 0xf00597e3, 0x00000000, 0x00000000, 0x00000000, 0xf20597e3, 0x00000000, 0x00000000,
    0x00000000, 0xf40594e3, 0x00000000, 0x00000000, 0x00000000, 0xf60594e3, 0x00000000, 0x00000000,
    0x00000000, 0xf40595e3, 0x00000000, 0x00000000, 0x00000000, 0xf60595e3, 0x00000000, 0x00000000,
    0x00000000, 0xf40596e3, 0x00000000, 0x00000000, 0x00000000, 0xf60596e3, 0x00000000, 0x00000000,
    0x00000000, 0xf40597e3, 0x00000000, 0x00000000, 0x00000000, 0xf60597e3, 0x00000000, 0x00000000,
    0x00000000, 0xf80594e3, 0x00000000, 0x00000000, 0x00000000, 0xfa0594e3, 0x00000000, 0x00000000,
    0x00000000, 0xf80595e3, 0x00000000, 0x00000000, 0x00000000, 0xfa0595e3, 0x00000000, 0x00000000,
    0x00000000, 0xf80596e3, 0x00000000, 0x00000000, 0x00000000, 0xfa0596e3, 0x00000000, 0x00000000,
    0x00000000, 0xf80597e3, 0x00000000, 0x00000000, 0x00000000, 0xfa0597e3, 0x00000000, 0x00000000,
    0x00000000, 0xfc0594e3, 0x00000000, 0x00000000, 0x00000000, 0xfe0594e3, 0x00000000, 0x00000000,
    0x00000000, 0xfc0595e3, 0x00000000, 0x00000000, 0x00000000, 0xfe0595e3, 0x00000000, 0x00000000,
    0x00000000, 0xfc0596e3, 0x00000000, 0x00000000, 0x00000000, 0xfe0596e3, 0x00000000, 0x00000000,
    0x00000000, 0xfc0597e3, 0x00000000, 0x00000000, 0x00000000, 0xfe0597e3, 0x00000000, 0x00000000]"

definition decomp16_492 :: "u32 list" where
  "decomp16_492 = [
    0x00000000, 0xf00614e3, 0x00000000, 0x00000000, 0x00000000, 0xf20614e3, 0x00000000, 0x00000000,
    0x00000000, 0xf00615e3, 0x00000000, 0x00000000, 0x00000000, 0xf20615e3, 0x00000000, 0x00000000,
    0x00000000, 0xf00616e3, 0x00000000, 0x00000000, 0x00000000, 0xf20616e3, 0x00000000, 0x00000000,
    0x00000000, 0xf00617e3, 0x00000000, 0x00000000, 0x00000000, 0xf20617e3, 0x00000000, 0x00000000,
    0x00000000, 0xf40614e3, 0x00000000, 0x00000000, 0x00000000, 0xf60614e3, 0x00000000, 0x00000000,
    0x00000000, 0xf40615e3, 0x00000000, 0x00000000, 0x00000000, 0xf60615e3, 0x00000000, 0x00000000,
    0x00000000, 0xf40616e3, 0x00000000, 0x00000000, 0x00000000, 0xf60616e3, 0x00000000, 0x00000000,
    0x00000000, 0xf40617e3, 0x00000000, 0x00000000, 0x00000000, 0xf60617e3, 0x00000000, 0x00000000,
    0x00000000, 0xf80614e3, 0x00000000, 0x00000000, 0x00000000, 0xfa0614e3, 0x00000000, 0x00000000,
    0x00000000, 0xf80615e3, 0x00000000, 0x00000000, 0x00000000, 0xfa0615e3, 0x00000000, 0x00000000,
    0x00000000, 0xf80616e3, 0x00000000, 0x00000000, 0x00000000, 0xfa0616e3, 0x00000000, 0x00000000,
    0x00000000, 0xf80617e3, 0x00000000, 0x00000000, 0x00000000, 0xfa0617e3, 0x00000000, 0x00000000,
    0x00000000, 0xfc0614e3, 0x00000000, 0x00000000, 0x00000000, 0xfe0614e3, 0x00000000, 0x00000000,
    0x00000000, 0xfc0615e3, 0x00000000, 0x00000000, 0x00000000, 0xfe0615e3, 0x00000000, 0x00000000,
    0x00000000, 0xfc0616e3, 0x00000000, 0x00000000, 0x00000000, 0xfe0616e3, 0x00000000, 0x00000000,
    0x00000000, 0xfc0617e3, 0x00000000, 0x00000000, 0x00000000, 0xfe0617e3, 0x00000000, 0x00000000]"

definition decomp16_493 :: "u32 list" where
  "decomp16_493 = [
    0x00000000, 0xf00694e3, 0x00000000, 0x00000000, 0x00000000, 0xf20694e3, 0x00000000, 0x00000000,
    0x00000000, 0xf00695e3, 0x00000000, 0x00000000, 0x00000000, 0xf20695e3, 0x00000000, 0x00000000,
    0x00000000, 0xf00696e3, 0x00000000, 0x00000000, 0x00000000, 0xf20696e3, 0x00000000, 0x00000000,
    0x00000000, 0xf00697e3, 0x00000000, 0x00000000, 0x00000000, 0xf20697e3, 0x00000000, 0x00000000,
    0x00000000, 0xf40694e3, 0x00000000, 0x00000000, 0x00000000, 0xf60694e3, 0x00000000, 0x00000000,
    0x00000000, 0xf40695e3, 0x00000000, 0x00000000, 0x00000000, 0xf60695e3, 0x00000000, 0x00000000,
    0x00000000, 0xf40696e3, 0x00000000, 0x00000000, 0x00000000, 0xf60696e3, 0x00000000, 0x00000000,
    0x00000000, 0xf40697e3, 0x00000000, 0x00000000, 0x00000000, 0xf60697e3, 0x00000000, 0x00000000,
    0x00000000, 0xf80694e3, 0x00000000, 0x00000000, 0x00000000, 0xfa0694e3, 0x00000000, 0x00000000,
    0x00000000, 0xf80695e3, 0x00000000, 0x00000000, 0x00000000, 0xfa0695e3, 0x00000000, 0x00000000,
    0x00000000, 0xf80696e3, 0x00000000, 0x00000000, 0x00000000, 0xfa0696e3, 0x00000000, 0x00000000,
    0x00000000, 0xf80697e3, 0x00000000, 0x00000000, 0x00000000, 0xfa0697e3, 0x00000000, 0x00000000,
    0x00000000, 0xfc0694e3, 0x00000000, 0x00000000, 0x00000000, 0xfe0694e3, 0x00000000, 0x00000000,
    0x00000000, 0xfc0695e3, 0x00000000, 0x00000000, 0x00000000, 0xfe0695e3, 0x00000000, 0x00000000,
    0x00000000, 0xfc0696e3, 0x00000000, 0x00000000, 0x00000000, 0xfe0696e3, 0x00000000, 0x00000000,
    0x00000000, 0xfc0697e3, 0x00000000, 0x00000000, 0x00000000, 0xfe0697e3, 0x00000000, 0x00000000]"

definition decomp16_494 :: "u32 list" where
  "decomp16_494 = [
    0x00000000, 0xf00714e3, 0x00000000, 0x00000000, 0x00000000, 0xf20714e3, 0x00000000, 0x00000000,
    0x00000000, 0xf00715e3, 0x00000000, 0x00000000, 0x00000000, 0xf20715e3, 0x00000000, 0x00000000,
    0x00000000, 0xf00716e3, 0x00000000, 0x00000000, 0x00000000, 0xf20716e3, 0x00000000, 0x00000000,
    0x00000000, 0xf00717e3, 0x00000000, 0x00000000, 0x00000000, 0xf20717e3, 0x00000000, 0x00000000,
    0x00000000, 0xf40714e3, 0x00000000, 0x00000000, 0x00000000, 0xf60714e3, 0x00000000, 0x00000000,
    0x00000000, 0xf40715e3, 0x00000000, 0x00000000, 0x00000000, 0xf60715e3, 0x00000000, 0x00000000,
    0x00000000, 0xf40716e3, 0x00000000, 0x00000000, 0x00000000, 0xf60716e3, 0x00000000, 0x00000000,
    0x00000000, 0xf40717e3, 0x00000000, 0x00000000, 0x00000000, 0xf60717e3, 0x00000000, 0x00000000,
    0x00000000, 0xf80714e3, 0x00000000, 0x00000000, 0x00000000, 0xfa0714e3, 0x00000000, 0x00000000,
    0x00000000, 0xf80715e3, 0x00000000, 0x00000000, 0x00000000, 0xfa0715e3, 0x00000000, 0x00000000,
    0x00000000, 0xf80716e3, 0x00000000, 0x00000000, 0x00000000, 0xfa0716e3, 0x00000000, 0x00000000,
    0x00000000, 0xf80717e3, 0x00000000, 0x00000000, 0x00000000, 0xfa0717e3, 0x00000000, 0x00000000,
    0x00000000, 0xfc0714e3, 0x00000000, 0x00000000, 0x00000000, 0xfe0714e3, 0x00000000, 0x00000000,
    0x00000000, 0xfc0715e3, 0x00000000, 0x00000000, 0x00000000, 0xfe0715e3, 0x00000000, 0x00000000,
    0x00000000, 0xfc0716e3, 0x00000000, 0x00000000, 0x00000000, 0xfe0716e3, 0x00000000, 0x00000000,
    0x00000000, 0xfc0717e3, 0x00000000, 0x00000000, 0x00000000, 0xfe0717e3, 0x00000000, 0x00000000]"

definition decomp16_495 :: "u32 list" where
  "decomp16_495 = [
    0x00000000, 0xf00794e3, 0x00000000, 0x00000000, 0x00000000, 0xf20794e3, 0x00000000, 0x00000000,
    0x00000000, 0xf00795e3, 0x00000000, 0x00000000, 0x00000000, 0xf20795e3, 0x00000000, 0x00000000,
    0x00000000, 0xf00796e3, 0x00000000, 0x00000000, 0x00000000, 0xf20796e3, 0x00000000, 0x00000000,
    0x00000000, 0xf00797e3, 0x00000000, 0x00000000, 0x00000000, 0xf20797e3, 0x00000000, 0x00000000,
    0x00000000, 0xf40794e3, 0x00000000, 0x00000000, 0x00000000, 0xf60794e3, 0x00000000, 0x00000000,
    0x00000000, 0xf40795e3, 0x00000000, 0x00000000, 0x00000000, 0xf60795e3, 0x00000000, 0x00000000,
    0x00000000, 0xf40796e3, 0x00000000, 0x00000000, 0x00000000, 0xf60796e3, 0x00000000, 0x00000000,
    0x00000000, 0xf40797e3, 0x00000000, 0x00000000, 0x00000000, 0xf60797e3, 0x00000000, 0x00000000,
    0x00000000, 0xf80794e3, 0x00000000, 0x00000000, 0x00000000, 0xfa0794e3, 0x00000000, 0x00000000,
    0x00000000, 0xf80795e3, 0x00000000, 0x00000000, 0x00000000, 0xfa0795e3, 0x00000000, 0x00000000,
    0x00000000, 0xf80796e3, 0x00000000, 0x00000000, 0x00000000, 0xfa0796e3, 0x00000000, 0x00000000,
    0x00000000, 0xf80797e3, 0x00000000, 0x00000000, 0x00000000, 0xfa0797e3, 0x00000000, 0x00000000,
    0x00000000, 0xfc0794e3, 0x00000000, 0x00000000, 0x00000000, 0xfe0794e3, 0x00000000, 0x00000000,
    0x00000000, 0xfc0795e3, 0x00000000, 0x00000000, 0x00000000, 0xfe0795e3, 0x00000000, 0x00000000,
    0x00000000, 0xfc0796e3, 0x00000000, 0x00000000, 0x00000000, 0xfe0796e3, 0x00000000, 0x00000000,
    0x00000000, 0xfc0797e3, 0x00000000, 0x00000000, 0x00000000, 0xfe0797e3, 0x00000000, 0x00000000]"

definition decomp16_496 :: "u32 list" where
  "decomp16_496 = [
    0x00000000, 0xf00418e3, 0x00000000, 0x00000000, 0x00000000, 0xf20418e3, 0x00000000, 0x00000000,
    0x00000000, 0xf00419e3, 0x00000000, 0x00000000, 0x00000000, 0xf20419e3, 0x00000000, 0x00000000,
    0x00000000, 0xf0041ae3, 0x00000000, 0x00000000, 0x00000000, 0xf2041ae3, 0x00000000, 0x00000000,
    0x00000000, 0xf0041be3, 0x00000000, 0x00000000, 0x00000000, 0xf2041be3, 0x00000000, 0x00000000,
    0x00000000, 0xf40418e3, 0x00000000, 0x00000000, 0x00000000, 0xf60418e3, 0x00000000, 0x00000000,
    0x00000000, 0xf40419e3, 0x00000000, 0x00000000, 0x00000000, 0xf60419e3, 0x00000000, 0x00000000,
    0x00000000, 0xf4041ae3, 0x00000000, 0x00000000, 0x00000000, 0xf6041ae3, 0x00000000, 0x00000000,
    0x00000000, 0xf4041be3, 0x00000000, 0x00000000, 0x00000000, 0xf6041be3, 0x00000000, 0x00000000,
    0x00000000, 0xf80418e3, 0x00000000, 0x00000000, 0x00000000, 0xfa0418e3, 0x00000000, 0x00000000,
    0x00000000, 0xf80419e3, 0x00000000, 0x00000000, 0x00000000, 0xfa0419e3, 0x00000000, 0x00000000,
    0x00000000, 0xf8041ae3, 0x00000000, 0x00000000, 0x00000000, 0xfa041ae3, 0x00000000, 0x00000000,
    0x00000000, 0xf8041be3, 0x00000000, 0x00000000, 0x00000000, 0xfa041be3, 0x00000000, 0x00000000,
    0x00000000, 0xfc0418e3, 0x00000000, 0x00000000, 0x00000000, 0xfe0418e3, 0x00000000, 0x00000000,
    0x00000000, 0xfc0419e3, 0x00000000, 0x00000000, 0x00000000, 0xfe0419e3, 0x00000000, 0x00000000,
    0x00000000, 0xfc041ae3, 0x00000000, 0x00000000, 0x00000000, 0xfe041ae3, 0x00000000, 0x00000000,
    0x00000000, 0xfc041be3, 0x00000000, 0x00000000, 0x00000000, 0xfe041be3, 0x00000000, 0x00000000]"

definition decomp16_497 :: "u32 list" where
  "decomp16_497 = [
    0x00000000, 0xf00498e3, 0x00000000, 0x00000000, 0x00000000, 0xf20498e3, 0x00000000, 0x00000000,
    0x00000000, 0xf00499e3, 0x00000000, 0x00000000, 0x00000000, 0xf20499e3, 0x00000000, 0x00000000,
    0x00000000, 0xf0049ae3, 0x00000000, 0x00000000, 0x00000000, 0xf2049ae3, 0x00000000, 0x00000000,
    0x00000000, 0xf0049be3, 0x00000000, 0x00000000, 0x00000000, 0xf2049be3, 0x00000000, 0x00000000,
    0x00000000, 0xf40498e3, 0x00000000, 0x00000000, 0x00000000, 0xf60498e3, 0x00000000, 0x00000000,
    0x00000000, 0xf40499e3, 0x00000000, 0x00000000, 0x00000000, 0xf60499e3, 0x00000000, 0x00000000,
    0x00000000, 0xf4049ae3, 0x00000000, 0x00000000, 0x00000000, 0xf6049ae3, 0x00000000, 0x00000000,
    0x00000000, 0xf4049be3, 0x00000000, 0x00000000, 0x00000000, 0xf6049be3, 0x00000000, 0x00000000,
    0x00000000, 0xf80498e3, 0x00000000, 0x00000000, 0x00000000, 0xfa0498e3, 0x00000000, 0x00000000,
    0x00000000, 0xf80499e3, 0x00000000, 0x00000000, 0x00000000, 0xfa0499e3, 0x00000000, 0x00000000,
    0x00000000, 0xf8049ae3, 0x00000000, 0x00000000, 0x00000000, 0xfa049ae3, 0x00000000, 0x00000000,
    0x00000000, 0xf8049be3, 0x00000000, 0x00000000, 0x00000000, 0xfa049be3, 0x00000000, 0x00000000,
    0x00000000, 0xfc0498e3, 0x00000000, 0x00000000, 0x00000000, 0xfe0498e3, 0x00000000, 0x00000000,
    0x00000000, 0xfc0499e3, 0x00000000, 0x00000000, 0x00000000, 0xfe0499e3, 0x00000000, 0x00000000,
    0x00000000, 0xfc049ae3, 0x00000000, 0x00000000, 0x00000000, 0xfe049ae3, 0x00000000, 0x00000000,
    0x00000000, 0xfc049be3, 0x00000000, 0x00000000, 0x00000000, 0xfe049be3, 0x00000000, 0x00000000]"

definition decomp16_498 :: "u32 list" where
  "decomp16_498 = [
    0x00000000, 0xf00518e3, 0x00000000, 0x00000000, 0x00000000, 0xf20518e3, 0x00000000, 0x00000000,
    0x00000000, 0xf00519e3, 0x00000000, 0x00000000, 0x00000000, 0xf20519e3, 0x00000000, 0x00000000,
    0x00000000, 0xf0051ae3, 0x00000000, 0x00000000, 0x00000000, 0xf2051ae3, 0x00000000, 0x00000000,
    0x00000000, 0xf0051be3, 0x00000000, 0x00000000, 0x00000000, 0xf2051be3, 0x00000000, 0x00000000,
    0x00000000, 0xf40518e3, 0x00000000, 0x00000000, 0x00000000, 0xf60518e3, 0x00000000, 0x00000000,
    0x00000000, 0xf40519e3, 0x00000000, 0x00000000, 0x00000000, 0xf60519e3, 0x00000000, 0x00000000,
    0x00000000, 0xf4051ae3, 0x00000000, 0x00000000, 0x00000000, 0xf6051ae3, 0x00000000, 0x00000000,
    0x00000000, 0xf4051be3, 0x00000000, 0x00000000, 0x00000000, 0xf6051be3, 0x00000000, 0x00000000,
    0x00000000, 0xf80518e3, 0x00000000, 0x00000000, 0x00000000, 0xfa0518e3, 0x00000000, 0x00000000,
    0x00000000, 0xf80519e3, 0x00000000, 0x00000000, 0x00000000, 0xfa0519e3, 0x00000000, 0x00000000,
    0x00000000, 0xf8051ae3, 0x00000000, 0x00000000, 0x00000000, 0xfa051ae3, 0x00000000, 0x00000000,
    0x00000000, 0xf8051be3, 0x00000000, 0x00000000, 0x00000000, 0xfa051be3, 0x00000000, 0x00000000,
    0x00000000, 0xfc0518e3, 0x00000000, 0x00000000, 0x00000000, 0xfe0518e3, 0x00000000, 0x00000000,
    0x00000000, 0xfc0519e3, 0x00000000, 0x00000000, 0x00000000, 0xfe0519e3, 0x00000000, 0x00000000,
    0x00000000, 0xfc051ae3, 0x00000000, 0x00000000, 0x00000000, 0xfe051ae3, 0x00000000, 0x00000000,
    0x00000000, 0xfc051be3, 0x00000000, 0x00000000, 0x00000000, 0xfe051be3, 0x00000000, 0x00000000]"

definition decomp16_499 :: "u32 list" where
  "decomp16_499 = [
    0x00000000, 0xf00598e3, 0x00000000, 0x00000000, 0x00000000, 0xf20598e3, 0x00000000, 0x00000000,
    0x00000000, 0xf00599e3, 0x00000000, 0x00000000, 0x00000000, 0xf20599e3, 0x00000000, 0x00000000,
    0x00000000, 0xf0059ae3, 0x00000000, 0x00000000, 0x00000000, 0xf2059ae3, 0x00000000, 0x00000000,
    0x00000000, 0xf0059be3, 0x00000000, 0x00000000, 0x00000000, 0xf2059be3, 0x00000000, 0x00000000,
    0x00000000, 0xf40598e3, 0x00000000, 0x00000000, 0x00000000, 0xf60598e3, 0x00000000, 0x00000000,
    0x00000000, 0xf40599e3, 0x00000000, 0x00000000, 0x00000000, 0xf60599e3, 0x00000000, 0x00000000,
    0x00000000, 0xf4059ae3, 0x00000000, 0x00000000, 0x00000000, 0xf6059ae3, 0x00000000, 0x00000000,
    0x00000000, 0xf4059be3, 0x00000000, 0x00000000, 0x00000000, 0xf6059be3, 0x00000000, 0x00000000,
    0x00000000, 0xf80598e3, 0x00000000, 0x00000000, 0x00000000, 0xfa0598e3, 0x00000000, 0x00000000,
    0x00000000, 0xf80599e3, 0x00000000, 0x00000000, 0x00000000, 0xfa0599e3, 0x00000000, 0x00000000,
    0x00000000, 0xf8059ae3, 0x00000000, 0x00000000, 0x00000000, 0xfa059ae3, 0x00000000, 0x00000000,
    0x00000000, 0xf8059be3, 0x00000000, 0x00000000, 0x00000000, 0xfa059be3, 0x00000000, 0x00000000,
    0x00000000, 0xfc0598e3, 0x00000000, 0x00000000, 0x00000000, 0xfe0598e3, 0x00000000, 0x00000000,
    0x00000000, 0xfc0599e3, 0x00000000, 0x00000000, 0x00000000, 0xfe0599e3, 0x00000000, 0x00000000,
    0x00000000, 0xfc059ae3, 0x00000000, 0x00000000, 0x00000000, 0xfe059ae3, 0x00000000, 0x00000000,
    0x00000000, 0xfc059be3, 0x00000000, 0x00000000, 0x00000000, 0xfe059be3, 0x00000000, 0x00000000]"

definition decomp16_500 :: "u32 list" where
  "decomp16_500 = [
    0x00000000, 0xf00618e3, 0x00000000, 0x00000000, 0x00000000, 0xf20618e3, 0x00000000, 0x00000000,
    0x00000000, 0xf00619e3, 0x00000000, 0x00000000, 0x00000000, 0xf20619e3, 0x00000000, 0x00000000,
    0x00000000, 0xf0061ae3, 0x00000000, 0x00000000, 0x00000000, 0xf2061ae3, 0x00000000, 0x00000000,
    0x00000000, 0xf0061be3, 0x00000000, 0x00000000, 0x00000000, 0xf2061be3, 0x00000000, 0x00000000,
    0x00000000, 0xf40618e3, 0x00000000, 0x00000000, 0x00000000, 0xf60618e3, 0x00000000, 0x00000000,
    0x00000000, 0xf40619e3, 0x00000000, 0x00000000, 0x00000000, 0xf60619e3, 0x00000000, 0x00000000,
    0x00000000, 0xf4061ae3, 0x00000000, 0x00000000, 0x00000000, 0xf6061ae3, 0x00000000, 0x00000000,
    0x00000000, 0xf4061be3, 0x00000000, 0x00000000, 0x00000000, 0xf6061be3, 0x00000000, 0x00000000,
    0x00000000, 0xf80618e3, 0x00000000, 0x00000000, 0x00000000, 0xfa0618e3, 0x00000000, 0x00000000,
    0x00000000, 0xf80619e3, 0x00000000, 0x00000000, 0x00000000, 0xfa0619e3, 0x00000000, 0x00000000,
    0x00000000, 0xf8061ae3, 0x00000000, 0x00000000, 0x00000000, 0xfa061ae3, 0x00000000, 0x00000000,
    0x00000000, 0xf8061be3, 0x00000000, 0x00000000, 0x00000000, 0xfa061be3, 0x00000000, 0x00000000,
    0x00000000, 0xfc0618e3, 0x00000000, 0x00000000, 0x00000000, 0xfe0618e3, 0x00000000, 0x00000000,
    0x00000000, 0xfc0619e3, 0x00000000, 0x00000000, 0x00000000, 0xfe0619e3, 0x00000000, 0x00000000,
    0x00000000, 0xfc061ae3, 0x00000000, 0x00000000, 0x00000000, 0xfe061ae3, 0x00000000, 0x00000000,
    0x00000000, 0xfc061be3, 0x00000000, 0x00000000, 0x00000000, 0xfe061be3, 0x00000000, 0x00000000]"

definition decomp16_501 :: "u32 list" where
  "decomp16_501 = [
    0x00000000, 0xf00698e3, 0x00000000, 0x00000000, 0x00000000, 0xf20698e3, 0x00000000, 0x00000000,
    0x00000000, 0xf00699e3, 0x00000000, 0x00000000, 0x00000000, 0xf20699e3, 0x00000000, 0x00000000,
    0x00000000, 0xf0069ae3, 0x00000000, 0x00000000, 0x00000000, 0xf2069ae3, 0x00000000, 0x00000000,
    0x00000000, 0xf0069be3, 0x00000000, 0x00000000, 0x00000000, 0xf2069be3, 0x00000000, 0x00000000,
    0x00000000, 0xf40698e3, 0x00000000, 0x00000000, 0x00000000, 0xf60698e3, 0x00000000, 0x00000000,
    0x00000000, 0xf40699e3, 0x00000000, 0x00000000, 0x00000000, 0xf60699e3, 0x00000000, 0x00000000,
    0x00000000, 0xf4069ae3, 0x00000000, 0x00000000, 0x00000000, 0xf6069ae3, 0x00000000, 0x00000000,
    0x00000000, 0xf4069be3, 0x00000000, 0x00000000, 0x00000000, 0xf6069be3, 0x00000000, 0x00000000,
    0x00000000, 0xf80698e3, 0x00000000, 0x00000000, 0x00000000, 0xfa0698e3, 0x00000000, 0x00000000,
    0x00000000, 0xf80699e3, 0x00000000, 0x00000000, 0x00000000, 0xfa0699e3, 0x00000000, 0x00000000,
    0x00000000, 0xf8069ae3, 0x00000000, 0x00000000, 0x00000000, 0xfa069ae3, 0x00000000, 0x00000000,
    0x00000000, 0xf8069be3, 0x00000000, 0x00000000, 0x00000000, 0xfa069be3, 0x00000000, 0x00000000,
    0x00000000, 0xfc0698e3, 0x00000000, 0x00000000, 0x00000000, 0xfe0698e3, 0x00000000, 0x00000000,
    0x00000000, 0xfc0699e3, 0x00000000, 0x00000000, 0x00000000, 0xfe0699e3, 0x00000000, 0x00000000,
    0x00000000, 0xfc069ae3, 0x00000000, 0x00000000, 0x00000000, 0xfe069ae3, 0x00000000, 0x00000000,
    0x00000000, 0xfc069be3, 0x00000000, 0x00000000, 0x00000000, 0xfe069be3, 0x00000000, 0x00000000]"

definition decomp16_502 :: "u32 list" where
  "decomp16_502 = [
    0x00000000, 0xf00718e3, 0x00000000, 0x00000000, 0x00000000, 0xf20718e3, 0x00000000, 0x00000000,
    0x00000000, 0xf00719e3, 0x00000000, 0x00000000, 0x00000000, 0xf20719e3, 0x00000000, 0x00000000,
    0x00000000, 0xf0071ae3, 0x00000000, 0x00000000, 0x00000000, 0xf2071ae3, 0x00000000, 0x00000000,
    0x00000000, 0xf0071be3, 0x00000000, 0x00000000, 0x00000000, 0xf2071be3, 0x00000000, 0x00000000,
    0x00000000, 0xf40718e3, 0x00000000, 0x00000000, 0x00000000, 0xf60718e3, 0x00000000, 0x00000000,
    0x00000000, 0xf40719e3, 0x00000000, 0x00000000, 0x00000000, 0xf60719e3, 0x00000000, 0x00000000,
    0x00000000, 0xf4071ae3, 0x00000000, 0x00000000, 0x00000000, 0xf6071ae3, 0x00000000, 0x00000000,
    0x00000000, 0xf4071be3, 0x00000000, 0x00000000, 0x00000000, 0xf6071be3, 0x00000000, 0x00000000,
    0x00000000, 0xf80718e3, 0x00000000, 0x00000000, 0x00000000, 0xfa0718e3, 0x00000000, 0x00000000,
    0x00000000, 0xf80719e3, 0x00000000, 0x00000000, 0x00000000, 0xfa0719e3, 0x00000000, 0x00000000,
    0x00000000, 0xf8071ae3, 0x00000000, 0x00000000, 0x00000000, 0xfa071ae3, 0x00000000, 0x00000000,
    0x00000000, 0xf8071be3, 0x00000000, 0x00000000, 0x00000000, 0xfa071be3, 0x00000000, 0x00000000,
    0x00000000, 0xfc0718e3, 0x00000000, 0x00000000, 0x00000000, 0xfe0718e3, 0x00000000, 0x00000000,
    0x00000000, 0xfc0719e3, 0x00000000, 0x00000000, 0x00000000, 0xfe0719e3, 0x00000000, 0x00000000,
    0x00000000, 0xfc071ae3, 0x00000000, 0x00000000, 0x00000000, 0xfe071ae3, 0x00000000, 0x00000000,
    0x00000000, 0xfc071be3, 0x00000000, 0x00000000, 0x00000000, 0xfe071be3, 0x00000000, 0x00000000]"

definition decomp16_503 :: "u32 list" where
  "decomp16_503 = [
    0x00000000, 0xf00798e3, 0x00000000, 0x00000000, 0x00000000, 0xf20798e3, 0x00000000, 0x00000000,
    0x00000000, 0xf00799e3, 0x00000000, 0x00000000, 0x00000000, 0xf20799e3, 0x00000000, 0x00000000,
    0x00000000, 0xf0079ae3, 0x00000000, 0x00000000, 0x00000000, 0xf2079ae3, 0x00000000, 0x00000000,
    0x00000000, 0xf0079be3, 0x00000000, 0x00000000, 0x00000000, 0xf2079be3, 0x00000000, 0x00000000,
    0x00000000, 0xf40798e3, 0x00000000, 0x00000000, 0x00000000, 0xf60798e3, 0x00000000, 0x00000000,
    0x00000000, 0xf40799e3, 0x00000000, 0x00000000, 0x00000000, 0xf60799e3, 0x00000000, 0x00000000,
    0x00000000, 0xf4079ae3, 0x00000000, 0x00000000, 0x00000000, 0xf6079ae3, 0x00000000, 0x00000000,
    0x00000000, 0xf4079be3, 0x00000000, 0x00000000, 0x00000000, 0xf6079be3, 0x00000000, 0x00000000,
    0x00000000, 0xf80798e3, 0x00000000, 0x00000000, 0x00000000, 0xfa0798e3, 0x00000000, 0x00000000,
    0x00000000, 0xf80799e3, 0x00000000, 0x00000000, 0x00000000, 0xfa0799e3, 0x00000000, 0x00000000,
    0x00000000, 0xf8079ae3, 0x00000000, 0x00000000, 0x00000000, 0xfa079ae3, 0x00000000, 0x00000000,
    0x00000000, 0xf8079be3, 0x00000000, 0x00000000, 0x00000000, 0xfa079be3, 0x00000000, 0x00000000,
    0x00000000, 0xfc0798e3, 0x00000000, 0x00000000, 0x00000000, 0xfe0798e3, 0x00000000, 0x00000000,
    0x00000000, 0xfc0799e3, 0x00000000, 0x00000000, 0x00000000, 0xfe0799e3, 0x00000000, 0x00000000,
    0x00000000, 0xfc079ae3, 0x00000000, 0x00000000, 0x00000000, 0xfe079ae3, 0x00000000, 0x00000000,
    0x00000000, 0xfc079be3, 0x00000000, 0x00000000, 0x00000000, 0xfe079be3, 0x00000000, 0x00000000]"

definition decomp16_504 :: "u32 list" where
  "decomp16_504 = [
    0x00000000, 0xf0041ce3, 0x00000000, 0x00000000, 0x00000000, 0xf2041ce3, 0x00000000, 0x00000000,
    0x00000000, 0xf0041de3, 0x00000000, 0x00000000, 0x00000000, 0xf2041de3, 0x00000000, 0x00000000,
    0x00000000, 0xf0041ee3, 0x00000000, 0x00000000, 0x00000000, 0xf2041ee3, 0x00000000, 0x00000000,
    0x00000000, 0xf0041fe3, 0x00000000, 0x00000000, 0x00000000, 0xf2041fe3, 0x00000000, 0x00000000,
    0x00000000, 0xf4041ce3, 0x00000000, 0x00000000, 0x00000000, 0xf6041ce3, 0x00000000, 0x00000000,
    0x00000000, 0xf4041de3, 0x00000000, 0x00000000, 0x00000000, 0xf6041de3, 0x00000000, 0x00000000,
    0x00000000, 0xf4041ee3, 0x00000000, 0x00000000, 0x00000000, 0xf6041ee3, 0x00000000, 0x00000000,
    0x00000000, 0xf4041fe3, 0x00000000, 0x00000000, 0x00000000, 0xf6041fe3, 0x00000000, 0x00000000,
    0x00000000, 0xf8041ce3, 0x00000000, 0x00000000, 0x00000000, 0xfa041ce3, 0x00000000, 0x00000000,
    0x00000000, 0xf8041de3, 0x00000000, 0x00000000, 0x00000000, 0xfa041de3, 0x00000000, 0x00000000,
    0x00000000, 0xf8041ee3, 0x00000000, 0x00000000, 0x00000000, 0xfa041ee3, 0x00000000, 0x00000000,
    0x00000000, 0xf8041fe3, 0x00000000, 0x00000000, 0x00000000, 0xfa041fe3, 0x00000000, 0x00000000,
    0x00000000, 0xfc041ce3, 0x00000000, 0x00000000, 0x00000000, 0xfe041ce3, 0x00000000, 0x00000000,
    0x00000000, 0xfc041de3, 0x00000000, 0x00000000, 0x00000000, 0xfe041de3, 0x00000000, 0x00000000,
    0x00000000, 0xfc041ee3, 0x00000000, 0x00000000, 0x00000000, 0xfe041ee3, 0x00000000, 0x00000000,
    0x00000000, 0xfc041fe3, 0x00000000, 0x00000000, 0x00000000, 0xfe041fe3, 0x00000000, 0x00000000]"

definition decomp16_505 :: "u32 list" where
  "decomp16_505 = [
    0x00000000, 0xf0049ce3, 0x00000000, 0x00000000, 0x00000000, 0xf2049ce3, 0x00000000, 0x00000000,
    0x00000000, 0xf0049de3, 0x00000000, 0x00000000, 0x00000000, 0xf2049de3, 0x00000000, 0x00000000,
    0x00000000, 0xf0049ee3, 0x00000000, 0x00000000, 0x00000000, 0xf2049ee3, 0x00000000, 0x00000000,
    0x00000000, 0xf0049fe3, 0x00000000, 0x00000000, 0x00000000, 0xf2049fe3, 0x00000000, 0x00000000,
    0x00000000, 0xf4049ce3, 0x00000000, 0x00000000, 0x00000000, 0xf6049ce3, 0x00000000, 0x00000000,
    0x00000000, 0xf4049de3, 0x00000000, 0x00000000, 0x00000000, 0xf6049de3, 0x00000000, 0x00000000,
    0x00000000, 0xf4049ee3, 0x00000000, 0x00000000, 0x00000000, 0xf6049ee3, 0x00000000, 0x00000000,
    0x00000000, 0xf4049fe3, 0x00000000, 0x00000000, 0x00000000, 0xf6049fe3, 0x00000000, 0x00000000,
    0x00000000, 0xf8049ce3, 0x00000000, 0x00000000, 0x00000000, 0xfa049ce3, 0x00000000, 0x00000000,
    0x00000000, 0xf8049de3, 0x00000000, 0x00000000, 0x00000000, 0xfa049de3, 0x00000000, 0x00000000,
    0x00000000, 0xf8049ee3, 0x00000000, 0x00000000, 0x00000000, 0xfa049ee3, 0x00000000, 0x00000000,
    0x00000000, 0xf8049fe3, 0x00000000, 0x00000000, 0x00000000, 0xfa049fe3, 0x00000000, 0x00000000,
    0x00000000, 0xfc049ce3, 0x00000000, 0x00000000, 0x00000000, 0xfe049ce3, 0x00000000, 0x00000000,
    0x00000000, 0xfc049de3, 0x00000000, 0x00000000, 0x00000000, 0xfe049de3, 0x00000000, 0x00000000,
    0x00000000, 0xfc049ee3, 0x00000000, 0x00000000, 0x00000000, 0xfe049ee3, 0x00000000, 0x00000000,
    0x00000000, 0xfc049fe3, 0x00000000, 0x00000000, 0x00000000, 0xfe049fe3, 0x00000000, 0x00000000]"

definition decomp16_506 :: "u32 list" where
  "decomp16_506 = [
    0x00000000, 0xf0051ce3, 0x00000000, 0x00000000, 0x00000000, 0xf2051ce3, 0x00000000, 0x00000000,
    0x00000000, 0xf0051de3, 0x00000000, 0x00000000, 0x00000000, 0xf2051de3, 0x00000000, 0x00000000,
    0x00000000, 0xf0051ee3, 0x00000000, 0x00000000, 0x00000000, 0xf2051ee3, 0x00000000, 0x00000000,
    0x00000000, 0xf0051fe3, 0x00000000, 0x00000000, 0x00000000, 0xf2051fe3, 0x00000000, 0x00000000,
    0x00000000, 0xf4051ce3, 0x00000000, 0x00000000, 0x00000000, 0xf6051ce3, 0x00000000, 0x00000000,
    0x00000000, 0xf4051de3, 0x00000000, 0x00000000, 0x00000000, 0xf6051de3, 0x00000000, 0x00000000,
    0x00000000, 0xf4051ee3, 0x00000000, 0x00000000, 0x00000000, 0xf6051ee3, 0x00000000, 0x00000000,
    0x00000000, 0xf4051fe3, 0x00000000, 0x00000000, 0x00000000, 0xf6051fe3, 0x00000000, 0x00000000,
    0x00000000, 0xf8051ce3, 0x00000000, 0x00000000, 0x00000000, 0xfa051ce3, 0x00000000, 0x00000000,
    0x00000000, 0xf8051de3, 0x00000000, 0x00000000, 0x00000000, 0xfa051de3, 0x00000000, 0x00000000,
    0x00000000, 0xf8051ee3, 0x00000000, 0x00000000, 0x00000000, 0xfa051ee3, 0x00000000, 0x00000000,
    0x00000000, 0xf8051fe3, 0x00000000, 0x00000000, 0x00000000, 0xfa051fe3, 0x00000000, 0x00000000,
    0x00000000, 0xfc051ce3, 0x00000000, 0x00000000, 0x00000000, 0xfe051ce3, 0x00000000, 0x00000000,
    0x00000000, 0xfc051de3, 0x00000000, 0x00000000, 0x00000000, 0xfe051de3, 0x00000000, 0x00000000,
    0x00000000, 0xfc051ee3, 0x00000000, 0x00000000, 0x00000000, 0xfe051ee3, 0x00000000, 0x00000000,
    0x00000000, 0xfc051fe3, 0x00000000, 0x00000000, 0x00000000, 0xfe051fe3, 0x00000000, 0x00000000]"

definition decomp16_507 :: "u32 list" where
  "decomp16_507 = [
    0x00000000, 0xf0059ce3, 0x00000000, 0x00000000, 0x00000000, 0xf2059ce3, 0x00000000, 0x00000000,
    0x00000000, 0xf0059de3, 0x00000000, 0x00000000, 0x00000000, 0xf2059de3, 0x00000000, 0x00000000,
    0x00000000, 0xf0059ee3, 0x00000000, 0x00000000, 0x00000000, 0xf2059ee3, 0x00000000, 0x00000000,
    0x00000000, 0xf0059fe3, 0x00000000, 0x00000000, 0x00000000, 0xf2059fe3, 0x00000000, 0x00000000,
    0x00000000, 0xf4059ce3, 0x00000000, 0x00000000, 0x00000000, 0xf6059ce3, 0x00000000, 0x00000000,
    0x00000000, 0xf4059de3, 0x00000000, 0x00000000, 0x00000000, 0xf6059de3, 0x00000000, 0x00000000,
    0x00000000, 0xf4059ee3, 0x00000000, 0x00000000, 0x00000000, 0xf6059ee3, 0x00000000, 0x00000000,
    0x00000000, 0xf4059fe3, 0x00000000, 0x00000000, 0x00000000, 0xf6059fe3, 0x00000000, 0x00000000,
    0x00000000, 0xf8059ce3, 0x00000000, 0x00000000, 0x00000000, 0xfa059ce3, 0x00000000, 0x00000000,
    0x00000000, 0xf8059de3, 0x00000000, 0x00000000, 0x00000000, 0xfa059de3, 0x00000000, 0x00000000,
    0x00000000, 0xf8059ee3, 0x00000000, 0x00000000, 0x00000000, 0xfa059ee3, 0x00000000, 0x00000000,
    0x00000000, 0xf8059fe3, 0x00000000, 0x00000000, 0x00000000, 0xfa059fe3, 0x00000000, 0x00000000,
    0x00000000, 0xfc059ce3, 0x00000000, 0x00000000, 0x00000000, 0xfe059ce3, 0x00000000, 0x00000000,
    0x00000000, 0xfc059de3, 0x00000000, 0x00000000, 0x00000000, 0xfe059de3, 0x00000000, 0x00000000,
    0x00000000, 0xfc059ee3, 0x00000000, 0x00000000, 0x00000000, 0xfe059ee3, 0x00000000, 0x00000000,
    0x00000000, 0xfc059fe3, 0x00000000, 0x00000000, 0x00000000, 0xfe059fe3, 0x00000000, 0x00000000]"

definition decomp16_508 :: "u32 list" where
  "decomp16_508 = [
    0x00000000, 0xf0061ce3, 0x00000000, 0x00000000, 0x00000000, 0xf2061ce3, 0x00000000, 0x00000000,
    0x00000000, 0xf0061de3, 0x00000000, 0x00000000, 0x00000000, 0xf2061de3, 0x00000000, 0x00000000,
    0x00000000, 0xf0061ee3, 0x00000000, 0x00000000, 0x00000000, 0xf2061ee3, 0x00000000, 0x00000000,
    0x00000000, 0xf0061fe3, 0x00000000, 0x00000000, 0x00000000, 0xf2061fe3, 0x00000000, 0x00000000,
    0x00000000, 0xf4061ce3, 0x00000000, 0x00000000, 0x00000000, 0xf6061ce3, 0x00000000, 0x00000000,
    0x00000000, 0xf4061de3, 0x00000000, 0x00000000, 0x00000000, 0xf6061de3, 0x00000000, 0x00000000,
    0x00000000, 0xf4061ee3, 0x00000000, 0x00000000, 0x00000000, 0xf6061ee3, 0x00000000, 0x00000000,
    0x00000000, 0xf4061fe3, 0x00000000, 0x00000000, 0x00000000, 0xf6061fe3, 0x00000000, 0x00000000,
    0x00000000, 0xf8061ce3, 0x00000000, 0x00000000, 0x00000000, 0xfa061ce3, 0x00000000, 0x00000000,
    0x00000000, 0xf8061de3, 0x00000000, 0x00000000, 0x00000000, 0xfa061de3, 0x00000000, 0x00000000,
    0x00000000, 0xf8061ee3, 0x00000000, 0x00000000, 0x00000000, 0xfa061ee3, 0x00000000, 0x00000000,
    0x00000000, 0xf8061fe3, 0x00000000, 0x00000000, 0x00000000, 0xfa061fe3, 0x00000000, 0x00000000,
    0x00000000, 0xfc061ce3, 0x00000000, 0x00000000, 0x00000000, 0xfe061ce3, 0x00000000, 0x00000000,
    0x00000000, 0xfc061de3, 0x00000000, 0x00000000, 0x00000000, 0xfe061de3, 0x00000000, 0x00000000,
    0x00000000, 0xfc061ee3, 0x00000000, 0x00000000, 0x00000000, 0xfe061ee3, 0x00000000, 0x00000000,
    0x00000000, 0xfc061fe3, 0x00000000, 0x00000000, 0x00000000, 0xfe061fe3, 0x00000000, 0x00000000]"

definition decomp16_509 :: "u32 list" where
  "decomp16_509 = [
    0x00000000, 0xf0069ce3, 0x00000000, 0x00000000, 0x00000000, 0xf2069ce3, 0x00000000, 0x00000000,
    0x00000000, 0xf0069de3, 0x00000000, 0x00000000, 0x00000000, 0xf2069de3, 0x00000000, 0x00000000,
    0x00000000, 0xf0069ee3, 0x00000000, 0x00000000, 0x00000000, 0xf2069ee3, 0x00000000, 0x00000000,
    0x00000000, 0xf0069fe3, 0x00000000, 0x00000000, 0x00000000, 0xf2069fe3, 0x00000000, 0x00000000,
    0x00000000, 0xf4069ce3, 0x00000000, 0x00000000, 0x00000000, 0xf6069ce3, 0x00000000, 0x00000000,
    0x00000000, 0xf4069de3, 0x00000000, 0x00000000, 0x00000000, 0xf6069de3, 0x00000000, 0x00000000,
    0x00000000, 0xf4069ee3, 0x00000000, 0x00000000, 0x00000000, 0xf6069ee3, 0x00000000, 0x00000000,
    0x00000000, 0xf4069fe3, 0x00000000, 0x00000000, 0x00000000, 0xf6069fe3, 0x00000000, 0x00000000,
    0x00000000, 0xf8069ce3, 0x00000000, 0x00000000, 0x00000000, 0xfa069ce3, 0x00000000, 0x00000000,
    0x00000000, 0xf8069de3, 0x00000000, 0x00000000, 0x00000000, 0xfa069de3, 0x00000000, 0x00000000,
    0x00000000, 0xf8069ee3, 0x00000000, 0x00000000, 0x00000000, 0xfa069ee3, 0x00000000, 0x00000000,
    0x00000000, 0xf8069fe3, 0x00000000, 0x00000000, 0x00000000, 0xfa069fe3, 0x00000000, 0x00000000,
    0x00000000, 0xfc069ce3, 0x00000000, 0x00000000, 0x00000000, 0xfe069ce3, 0x00000000, 0x00000000,
    0x00000000, 0xfc069de3, 0x00000000, 0x00000000, 0x00000000, 0xfe069de3, 0x00000000, 0x00000000,
    0x00000000, 0xfc069ee3, 0x00000000, 0x00000000, 0x00000000, 0xfe069ee3, 0x00000000, 0x00000000,
    0x00000000, 0xfc069fe3, 0x00000000, 0x00000000, 0x00000000, 0xfe069fe3, 0x00000000, 0x00000000]"

definition decomp16_510 :: "u32 list" where
  "decomp16_510 = [
    0x00000000, 0xf0071ce3, 0x00000000, 0x00000000, 0x00000000, 0xf2071ce3, 0x00000000, 0x00000000,
    0x00000000, 0xf0071de3, 0x00000000, 0x00000000, 0x00000000, 0xf2071de3, 0x00000000, 0x00000000,
    0x00000000, 0xf0071ee3, 0x00000000, 0x00000000, 0x00000000, 0xf2071ee3, 0x00000000, 0x00000000,
    0x00000000, 0xf0071fe3, 0x00000000, 0x00000000, 0x00000000, 0xf2071fe3, 0x00000000, 0x00000000,
    0x00000000, 0xf4071ce3, 0x00000000, 0x00000000, 0x00000000, 0xf6071ce3, 0x00000000, 0x00000000,
    0x00000000, 0xf4071de3, 0x00000000, 0x00000000, 0x00000000, 0xf6071de3, 0x00000000, 0x00000000,
    0x00000000, 0xf4071ee3, 0x00000000, 0x00000000, 0x00000000, 0xf6071ee3, 0x00000000, 0x00000000,
    0x00000000, 0xf4071fe3, 0x00000000, 0x00000000, 0x00000000, 0xf6071fe3, 0x00000000, 0x00000000,
    0x00000000, 0xf8071ce3, 0x00000000, 0x00000000, 0x00000000, 0xfa071ce3, 0x00000000, 0x00000000,
    0x00000000, 0xf8071de3, 0x00000000, 0x00000000, 0x00000000, 0xfa071de3, 0x00000000, 0x00000000,
    0x00000000, 0xf8071ee3, 0x00000000, 0x00000000, 0x00000000, 0xfa071ee3, 0x00000000, 0x00000000,
    0x00000000, 0xf8071fe3, 0x00000000, 0x00000000, 0x00000000, 0xfa071fe3, 0x00000000, 0x00000000,
    0x00000000, 0xfc071ce3, 0x00000000, 0x00000000, 0x00000000, 0xfe071ce3, 0x00000000, 0x00000000,
    0x00000000, 0xfc071de3, 0x00000000, 0x00000000, 0x00000000, 0xfe071de3, 0x00000000, 0x00000000,
    0x00000000, 0xfc071ee3, 0x00000000, 0x00000000, 0x00000000, 0xfe071ee3, 0x00000000, 0x00000000,
    0x00000000, 0xfc071fe3, 0x00000000, 0x00000000, 0x00000000, 0xfe071fe3, 0x00000000, 0x00000000]"

definition decomp16_511 :: "u32 list" where
  "decomp16_511 = [
    0x00000000, 0xf0079ce3, 0x00000000, 0x00000000, 0x00000000, 0xf2079ce3, 0x00000000, 0x00000000,
    0x00000000, 0xf0079de3, 0x00000000, 0x00000000, 0x00000000, 0xf2079de3, 0x00000000, 0x00000000,
    0x00000000, 0xf0079ee3, 0x00000000, 0x00000000, 0x00000000, 0xf2079ee3, 0x00000000, 0x00000000,
    0x00000000, 0xf0079fe3, 0x00000000, 0x00000000, 0x00000000, 0xf2079fe3, 0x00000000, 0x00000000,
    0x00000000, 0xf4079ce3, 0x00000000, 0x00000000, 0x00000000, 0xf6079ce3, 0x00000000, 0x00000000,
    0x00000000, 0xf4079de3, 0x00000000, 0x00000000, 0x00000000, 0xf6079de3, 0x00000000, 0x00000000,
    0x00000000, 0xf4079ee3, 0x00000000, 0x00000000, 0x00000000, 0xf6079ee3, 0x00000000, 0x00000000,
    0x00000000, 0xf4079fe3, 0x00000000, 0x00000000, 0x00000000, 0xf6079fe3, 0x00000000, 0x00000000,
    0x00000000, 0xf8079ce3, 0x00000000, 0x00000000, 0x00000000, 0xfa079ce3, 0x00000000, 0x00000000,
    0x00000000, 0xf8079de3, 0x00000000, 0x00000000, 0x00000000, 0xfa079de3, 0x00000000, 0x00000000,
    0x00000000, 0xf8079ee3, 0x00000000, 0x00000000, 0x00000000, 0xfa079ee3, 0x00000000, 0x00000000,
    0x00000000, 0xf8079fe3, 0x00000000, 0x00000000, 0x00000000, 0xfa079fe3, 0x00000000, 0x00000000,
    0x00000000, 0xfc079ce3, 0x00000000, 0x00000000, 0x00000000, 0xfe079ce3, 0x00000000, 0x00000000,
    0x00000000, 0xfc079de3, 0x00000000, 0x00000000, 0x00000000, 0xfe079de3, 0x00000000, 0x00000000,
    0x00000000, 0xfc079ee3, 0x00000000, 0x00000000, 0x00000000, 0xfe079ee3, 0x00000000, 0x00000000,
    0x00000000, 0xfc079fe3, 0x00000000, 0x00000000, 0x00000000, 0xfe079fe3, 0x00000000, 0x00000000]"

definition decomp16_block_7 :: "u32 list list" where
  "decomp16_block_7 = [
    decomp16_448, decomp16_449, decomp16_450, decomp16_451, decomp16_452, decomp16_453,
    decomp16_454, decomp16_455, decomp16_456, decomp16_457, decomp16_458, decomp16_459,
    decomp16_460, decomp16_461, decomp16_462, decomp16_463, decomp16_464, decomp16_465,
    decomp16_466, decomp16_467, decomp16_468, decomp16_469, decomp16_470, decomp16_471,
    decomp16_472, decomp16_473, decomp16_474, decomp16_475, decomp16_476, decomp16_477,
    decomp16_478, decomp16_479, decomp16_480, decomp16_481, decomp16_482, decomp16_483,
    decomp16_484, decomp16_485, decomp16_486, decomp16_487, decomp16_488, decomp16_489,
    decomp16_490, decomp16_491, decomp16_492, decomp16_493, decomp16_494, decomp16_495,
    decomp16_496, decomp16_497, decomp16_498, decomp16_499, decomp16_500, decomp16_501,
    decomp16_502, decomp16_503, decomp16_504, decomp16_505, decomp16_506, decomp16_507,
    decomp16_508, decomp16_509, decomp16_510, decomp16_511]"

lemma rows_448:
  "chunk 448 = decomp16_448"
  "chunk 449 = decomp16_449"
  "chunk 450 = decomp16_450"
  "chunk 451 = decomp16_451"
  "chunk 452 = decomp16_452"
  "chunk 453 = decomp16_453"
  "chunk 454 = decomp16_454"
  "chunk 455 = decomp16_455"
  by (simp_all add: chunk_eval
    decomp16_448_def decomp16_449_def decomp16_450_def decomp16_451_def decomp16_452_def
    decomp16_453_def decomp16_454_def decomp16_455_def)

lemma rows_456:
  "chunk 456 = decomp16_456"
  "chunk 457 = decomp16_457"
  "chunk 458 = decomp16_458"
  "chunk 459 = decomp16_459"
  "chunk 460 = decomp16_460"
  "chunk 461 = decomp16_461"
  "chunk 462 = decomp16_462"
  "chunk 463 = decomp16_463"
  by (simp_all add: chunk_eval
    decomp16_456_def decomp16_457_def decomp16_458_def decomp16_459_def decomp16_460_def
    decomp16_461_def decomp16_462_def decomp16_463_def)

lemma rows_464:
  "chunk 464 = decomp16_464"
  "chunk 465 = decomp16_465"
  "chunk 466 = decomp16_466"
  "chunk 467 = decomp16_467"
  "chunk 468 = decomp16_468"
  "chunk 469 = decomp16_469"
  "chunk 470 = decomp16_470"
  "chunk 471 = decomp16_471"
  by (simp_all add: chunk_eval
    decomp16_464_def decomp16_465_def decomp16_466_def decomp16_467_def decomp16_468_def
    decomp16_469_def decomp16_470_def decomp16_471_def)

lemma rows_472:
  "chunk 472 = decomp16_472"
  "chunk 473 = decomp16_473"
  "chunk 474 = decomp16_474"
  "chunk 475 = decomp16_475"
  "chunk 476 = decomp16_476"
  "chunk 477 = decomp16_477"
  "chunk 478 = decomp16_478"
  "chunk 479 = decomp16_479"
  by (simp_all add: chunk_eval
    decomp16_472_def decomp16_473_def decomp16_474_def decomp16_475_def decomp16_476_def
    decomp16_477_def decomp16_478_def decomp16_479_def)

lemma rows_480:
  "chunk 480 = decomp16_480"
  "chunk 481 = decomp16_481"
  "chunk 482 = decomp16_482"
  "chunk 483 = decomp16_483"
  "chunk 484 = decomp16_484"
  "chunk 485 = decomp16_485"
  "chunk 486 = decomp16_486"
  "chunk 487 = decomp16_487"
  by (simp_all add: chunk_eval
    decomp16_480_def decomp16_481_def decomp16_482_def decomp16_483_def decomp16_484_def
    decomp16_485_def decomp16_486_def decomp16_487_def)

lemma rows_488:
  "chunk 488 = decomp16_488"
  "chunk 489 = decomp16_489"
  "chunk 490 = decomp16_490"
  "chunk 491 = decomp16_491"
  "chunk 492 = decomp16_492"
  "chunk 493 = decomp16_493"
  "chunk 494 = decomp16_494"
  "chunk 495 = decomp16_495"
  by (simp_all add: chunk_eval
    decomp16_488_def decomp16_489_def decomp16_490_def decomp16_491_def decomp16_492_def
    decomp16_493_def decomp16_494_def decomp16_495_def)

lemma rows_496:
  "chunk 496 = decomp16_496"
  "chunk 497 = decomp16_497"
  "chunk 498 = decomp16_498"
  "chunk 499 = decomp16_499"
  "chunk 500 = decomp16_500"
  "chunk 501 = decomp16_501"
  "chunk 502 = decomp16_502"
  "chunk 503 = decomp16_503"
  by (simp_all add: chunk_eval
    decomp16_496_def decomp16_497_def decomp16_498_def decomp16_499_def decomp16_500_def
    decomp16_501_def decomp16_502_def decomp16_503_def)

lemma rows_504:
  "chunk 504 = decomp16_504"
  "chunk 505 = decomp16_505"
  "chunk 506 = decomp16_506"
  "chunk 507 = decomp16_507"
  "chunk 508 = decomp16_508"
  "chunk 509 = decomp16_509"
  "chunk 510 = decomp16_510"
  "chunk 511 = decomp16_511"
  by (simp_all add: chunk_eval
    decomp16_504_def decomp16_505_def decomp16_506_def decomp16_507_def decomp16_508_def
    decomp16_509_def decomp16_510_def decomp16_511_def)

lemma block_7: "chunks_from 448 decomp16_block_7"
  by (simp add: decomp16_block_7_def
    rows_448 rows_456 rows_464 rows_472 rows_480 rows_488 rows_496 rows_504 del: One_nat_def)

end
