(* ===== verification/Decomp16_Table.thy ===== *)
theory Decomp16_Table
  imports Decomp16_Chunks Decomp16_Rows_0 Decomp16_Rows_1 Decomp16_Rows_2 Decomp16_Rows_3
    Decomp16_Rows_4 Decomp16_Rows_5 Decomp16_Rows_6 Decomp16_Rows_7
begin

text \<open>
  The whole of \<open>src/decomp16.cpp\<close>, row by row, and its comparison with \<open>decomp16_table\<close>, the function
  the rest of the development works with.
\<close>

definition decomp16_rows :: "u32 list" where
  "decomp16_rows = concat (decomp16_block_0 @ decomp16_block_1 @ decomp16_block_2 @ decomp16_block_3 @
    decomp16_block_4 @ decomp16_block_5 @ decomp16_block_6 @ decomp16_block_7)"

lemma chunks_from_append: "chunks_from k (cs @ ds) \<longleftrightarrow> chunks_from k cs \<and> chunks_from (k + length cs) ds"
  by (induction k cs rule: chunks_from.induct) (simp_all add: add.assoc)

lemma chunk_list: "chunks_from 0 cs \<Longrightarrow> length cs \<le> 512 \<Longrightarrow>
    concat cs = map (\<lambda>n. decomp16_table (of_nat n)) [0..<128 * length cs]"
proof (induction cs rule: rev_induct)
  case (snoc c cs)
  have "[0..<128 * length cs + 128] = [0..<128 * length cs] @ [128 * length cs..<128 * length cs + 128]"
    using upt_add_eq_append [of 0 "128 * length cs" 128] by simp
  then show ?case using snoc chunk_rows [of "length cs"] by (simp add: chunks_from_append add.commute)
qed simp

lemma block_lengths:
  "length decomp16_block_0 = 64" "length decomp16_block_1 = 64" "length decomp16_block_2 = 64" "length decomp16_block_3 = 64"
  "length decomp16_block_4 = 64" "length decomp16_block_5 = 64" "length decomp16_block_6 = 64" "length decomp16_block_7 = 64"
  by (simp_all add: decomp16_block_0_def decomp16_block_1_def decomp16_block_2_def decomp16_block_3_def
    decomp16_block_4_def decomp16_block_5_def decomp16_block_6_def decomp16_block_7_def)

text \<open>
  C16: Each of the 65536 rows of the expansion table is what the architecture says: row \<open>c\<close> of the
  file holds the 32-bit encoding of the instruction the 16-bit word \<open>c\<close> stands for, and 0 where
  there is none. The rows are compared literally.
\<close>

theorem decomp16_literal_rows:
  "length decomp16_rows = 65536 \<and> decomp16_rows ! unat c = decomp16_table c"
proof -
  let ?bs = "decomp16_block_0 @ decomp16_block_1 @ decomp16_block_2 @ decomp16_block_3 @
    decomp16_block_4 @ decomp16_block_5 @ decomp16_block_6 @ decomp16_block_7"
  have "chunks_from 0 ?bs"
    using block_0 block_1 block_2 block_3 block_4 block_5 block_6 block_7
    by (simp add: chunks_from_append block_lengths)
  then have r: "decomp16_rows = map (\<lambda>n. decomp16_table (of_nat n)) [0..<65536]"
    using chunk_list [of ?bs] by (simp add: decomp16_rows_def block_lengths)
  have "unat c < 65536" using unsigned_less [of c, where 'a = nat] by simp
  then have "decomp16_rows ! unat c = decomp16_table (of_nat (0 + unat c))"
    unfolding r by (subst nth_map) (simp_all only: length_upt nth_upt diff_zero add_0)
  moreover have "length decomp16_rows = 65536" unfolding r by (simp only: length_map length_upt diff_zero)
  ultimately show ?thesis by simp
qed

end
