(* ===== verification/Segment_Checked.thy ===== *)
theory Segment_Checked
  imports Memory_Facts
begin

text \<open>
  The accessors of \<open>Segment\<close> as a build with \<open>DO_MEMORY_CHECK\<close> has them (\<open>src/RiscVFast.h\<close>): each
  tests its address against \<open>memLen\<close> first and ends the program through \<open>fatal\<close>. \<open>Memory\<close> only
  hands a segment addresses inside it, so the two builds do the same there
  (\<open>memory_check_invisible\<close>); an instruction fetch goes to the segment directly. The test looks at
  the first byte of an access alone (\<open>check_first_byte\<close>).
\<close>

section \<open>The accessors\<close>

text \<open>
  The first lines of each: the address has become an offset by the time \<open>fatal\<close> reports it, so the
  report names the offset.
\<close>

definition seg_check :: "access \<Rightarrow> segment \<Rightarrow> u32 \<Rightarrow> 'a result \<Rightarrow> 'a result" where
  "seg_check k s addr r =
    (let addr = addr - memBase s in if addr \<ge> memLen s then Inl (FatalAccess k addr) else r)"

definition Segment_getPtr :: "segment \<Rightarrow> u32 \<Rightarrow> nat result" where
  "Segment_getPtr s addr = Inr (seg_off s addr)"

definition Segment_getPtr_check :: "segment \<Rightarrow> u32 \<Rightarrow> nat result" where
  "Segment_getPtr_check s addr = seg_check GetPtr s addr (Inr (seg_off s addr))"

definition Segment_fetch32_check :: "segment \<Rightarrow> u32 \<Rightarrow> u32 result" where
  "Segment_fetch32_check s addr = seg_check Fetch32 s addr (chain (seg_load s addr 4) (\<lambda>bs. Inr (le_word bs)))"

definition Segment_read64_check :: "segment \<Rightarrow> u32 \<Rightarrow> u64 result" where
  "Segment_read64_check s addr = seg_check Read64 s addr (chain (seg_load s addr 8) (\<lambda>bs. Inr (le_word bs)))"

definition Segment_read32_check :: "segment \<Rightarrow> u32 \<Rightarrow> u32 result" where
  "Segment_read32_check s addr = seg_check Read32 s addr (chain (seg_load s addr 4) (\<lambda>bs. Inr (le_word bs)))"

definition Segment_read16_check :: "segment \<Rightarrow> u32 \<Rightarrow> u32 result" where
  "Segment_read16_check s addr =
    seg_check Read16 s addr (chain (seg_load s addr 2) (\<lambda>bs. Inr (scast (le_word bs :: u16))))"

definition Segment_read16u_check :: "segment \<Rightarrow> u32 \<Rightarrow> u32 result" where
  "Segment_read16u_check s addr =
    seg_check Read16u s addr (chain (seg_load s addr 2) (\<lambda>bs. Inr (ucast (le_word bs :: u16))))"

definition Segment_read8_check :: "segment \<Rightarrow> u32 \<Rightarrow> u32 result" where
  "Segment_read8_check s addr =
    seg_check Read8 s addr (chain (seg_load s addr 1) (\<lambda>bs. Inr (scast (le_word bs :: u8))))"

definition Segment_read8u_check :: "segment \<Rightarrow> u32 \<Rightarrow> u32 result" where
  "Segment_read8u_check s addr =
    seg_check Read8u s addr (chain (seg_load s addr 1) (\<lambda>bs. Inr (ucast (le_word bs :: u8))))"

definition Segment_write64_check :: "segment \<Rightarrow> u32 \<Rightarrow> u64 \<Rightarrow> segment result" where
  "Segment_write64_check s addr value = seg_check Write64 s addr (seg_store s addr (le_bytes 8 value))"

definition Segment_write32_check :: "segment \<Rightarrow> u32 \<Rightarrow> u32 \<Rightarrow> segment result" where
  "Segment_write32_check s addr value = seg_check Write32 s addr (seg_store s addr (le_bytes 4 value))"

definition Segment_write16_check :: "segment \<Rightarrow> u32 \<Rightarrow> u32 \<Rightarrow> segment result" where
  "Segment_write16_check s addr value = seg_check Write16 s addr (seg_store s addr (le_bytes 2 value))"

definition Segment_write8_check :: "segment \<Rightarrow> u32 \<Rightarrow> u32 \<Rightarrow> segment result" where
  "Segment_write8_check s addr value = seg_check Write8 s addr (seg_store s addr (le_bytes 1 value))"

section \<open>The methods of \<open>Memory\<close> over them\<close>

definition Memory_getPtr_check :: "memory \<Rightarrow> u32 \<Rightarrow> ptr result" where
  "Memory_getPtr_check m addr =
    (if isdata m addr then chain (Segment_getPtr_check (dataMem m) addr) (\<lambda>i. Inr (Data, i))
     else if istext m addr then chain (Segment_getPtr_check (insnMem m) addr) (\<lambda>i. Inr (Text, i))
     else Inl (FatalAccess GetPtr addr))"

definition Memory_fetch32_check :: "memory \<Rightarrow> u32 \<Rightarrow> u32 result" where
  "Memory_fetch32_check m addr =
    (if istext m addr then Segment_fetch32_check (insnMem m) addr else Inl (FatalAccess Fetch32 addr))"

definition Memory_read64_check :: "memory \<Rightarrow> u32 \<Rightarrow> u64 result" where
  "Memory_read64_check m addr =
    (if isdata m addr then Segment_read64_check (dataMem m) addr
     else if istext m addr then Segment_read64_check (insnMem m) addr
     else Inl (FatalAccess Read64 addr))"

definition Memory_read32_check :: "memory \<Rightarrow> u32 \<Rightarrow> (u32 \<times> host_effect) result" where
  "Memory_read32_check m addr =
    (if isdata m addr then chain (Segment_read32_check (dataMem m) addr) (\<lambda>v. Inr (v, NoEffect))
     else if istext m addr then chain (Segment_read32_check (insnMem m) addr) (\<lambda>v. Inr (v, NoEffect))
     else if ishost m addr then Inr (host_read addr)
     else Inl (FatalAccess Read32 addr))"

definition Memory_read16_check :: "memory \<Rightarrow> u32 \<Rightarrow> u32 result" where
  "Memory_read16_check m addr =
    (if isdata m addr then Segment_read16_check (dataMem m) addr
     else if istext m addr then Segment_read16_check (insnMem m) addr
     else Inl (FatalAccess Read16 addr))"

definition Memory_read16u_check :: "memory \<Rightarrow> u32 \<Rightarrow> u32 result" where
  "Memory_read16u_check m addr =
    (if isdata m addr then Segment_read16u_check (dataMem m) addr
     else if istext m addr then Segment_read16u_check (insnMem m) addr
     else Inl (FatalAccess Read16u addr))"

definition Memory_read8_check :: "memory \<Rightarrow> u32 \<Rightarrow> u32 result" where
  "Memory_read8_check m addr =
    (if isdata m addr then Segment_read8_check (dataMem m) addr
     else if istext m addr then Segment_read8_check (insnMem m) addr
     else Inl (FatalAccess Read8 addr))"

definition Memory_read8u_check :: "memory \<Rightarrow> u32 \<Rightarrow> u32 result" where
  "Memory_read8u_check m addr =
    (if isdata m addr then Segment_read8u_check (dataMem m) addr
     else if istext m addr then Segment_read8u_check (insnMem m) addr
     else Inl (FatalAccess Read8u addr))"

definition Memory_write64_check :: "memory \<Rightarrow> u32 \<Rightarrow> u64 \<Rightarrow> memory result" where
  "Memory_write64_check m addr value =
    (if isdata m addr then on_data m (Segment_write64_check (dataMem m) addr value)
     else if do_core m \<and> istext m addr then on_text m (Segment_write64_check (insnMem m) addr value)
     else Inl (FatalAccess Write64 addr))"

definition Memory_write32_check :: "memory \<Rightarrow> u32 \<Rightarrow> u32 \<Rightarrow> (memory \<times> host_effect) result" where
  "Memory_write32_check m addr value =
    (if isdata m addr then
       chain (on_data m (Segment_write32_check (dataMem m) addr value)) (\<lambda>m'. Inr (m', NoEffect))
     else if do_core m \<and> istext m addr then
       chain (on_text m (Segment_write32_check (insnMem m) addr value)) (\<lambda>m'. Inr (m', NoEffect))
     else if ishost m addr then Inr (m, host_write addr value)
     else Inl (FatalAccess Write32 addr))"

definition Memory_write16_check :: "memory \<Rightarrow> u32 \<Rightarrow> u32 \<Rightarrow> memory result" where
  "Memory_write16_check m addr value =
    (if isdata m addr then on_data m (Segment_write16_check (dataMem m) addr value)
     else if do_core m \<and> istext m addr then on_text m (Segment_write16_check (insnMem m) addr value)
     else Inl (FatalAccess Write16 addr))"

definition Memory_write8_check :: "memory \<Rightarrow> u32 \<Rightarrow> u32 \<Rightarrow> memory result" where
  "Memory_write8_check m addr value =
    (if isdata m addr then on_data m (Segment_write8_check (dataMem m) addr value)
     else if do_core m \<and> istext m addr then on_text m (Segment_write8_check (insnMem m) addr value)
     else Inl (FatalAccess Write8 addr))"

section \<open>The two builds\<close>

lemma seg_check_ok: "Segment_ok s addr \<Longrightarrow> seg_check k s addr r = r"
  by (simp add: seg_check_def Segment_ok_def)

lemma seg_check_bad: "\<not> Segment_ok s addr \<Longrightarrow> seg_check k s addr r = Inl (FatalAccess k (addr - memBase s))"
  by (simp add: seg_check_def Segment_ok_def)

lemma routed_ok: "isdata m addr \<Longrightarrow> Segment_ok (dataMem m) addr" "istext m addr \<Longrightarrow> Segment_ok (insnMem m) addr"
  by (auto simp: isdata_def istext_def Segment_ok_def)

lemmas segment_checks = Segment_getPtr_check_def Segment_fetch32_check_def Segment_read64_check_def
  Segment_read32_check_def Segment_read16_check_def Segment_read16u_check_def Segment_read8_check_def
  Segment_read8u_check_def Segment_write64_check_def Segment_write32_check_def Segment_write16_check_def
  Segment_write8_check_def

lemmas segment_plain = Segment_getPtr_def Segment_fetch32_def Segment_read64_def Segment_read32_def
  Segment_read16_def Segment_read16u_def Segment_read8_def Segment_read8u_def Segment_write64_def
  Segment_write32_def Segment_write16_def Segment_write8_def

lemma segment_check_read:
  "Segment_fetch32_check s a = seg_check Fetch32 s a (Segment_fetch32 s a)"
  "Segment_read64_check s a = seg_check Read64 s a (Segment_read64 s a)"
  "Segment_read32_check s a = seg_check Read32 s a (Segment_read32 s a)"
  "Segment_read16_check s a = seg_check Read16 s a (Segment_read16 s a)"
  "Segment_read16u_check s a = seg_check Read16u s a (Segment_read16u s a)"
  "Segment_read8_check s a = seg_check Read8 s a (Segment_read8 s a)"
  "Segment_read8u_check s a = seg_check Read8u s a (Segment_read8u s a)"
  "Segment_getPtr_check s a = seg_check GetPtr s a (Segment_getPtr s a)"
  by (simp_all only: segment_checks segment_plain)

lemma segment_check_write:
  "Segment_write64_check s a v = seg_check Write64 s a (Segment_write64 s a v)"
  "Segment_write32_check s a w = seg_check Write32 s a (Segment_write32 s a w)"
  "Segment_write16_check s a w = seg_check Write16 s a (Segment_write16 s a w)"
  "Segment_write8_check s a w = seg_check Write8 s a (Segment_write8 s a w)"
  by (simp_all only: segment_checks segment_plain)

lemma checked_reads:
  "Memory_getPtr_check m a = Memory_getPtr m a"
  "Memory_fetch32_check m a = Memory_fetch32 m a"
  "Memory_read64_check m a = Memory_read64 m a"
  "Memory_read32_check m a = Memory_read32 m a"
  "Memory_read16_check m a = Memory_read16 m a"
  "Memory_read16u_check m a = Memory_read16u m a"
  "Memory_read8_check m a = Memory_read8 m a"
  "Memory_read8u_check m a = Memory_read8u m a"
  by (simp_all add: Memory_getPtr_check_def Memory_getPtr_def Memory_fetch32_check_def Memory_fetch32_def
      Memory_read64_check_def Memory_read64_def Memory_read32_check_def Memory_read32_def
      Memory_read16_check_def Memory_read16_def Memory_read16u_check_def Memory_read16u_def
      Memory_read8_check_def Memory_read8_def Memory_read8u_check_def Memory_read8u_def
      segment_check_read Segment_getPtr_def seg_check_ok routed_ok)

lemma checked_writes:
  "Memory_write64_check m a v = Memory_write64 m a v"
  "Memory_write32_check m a w = Memory_write32 m a w"
  "Memory_write16_check m a w = Memory_write16 m a w"
  "Memory_write8_check m a w = Memory_write8 m a w"
  by (simp_all add: Memory_write64_check_def Memory_write64_def Memory_write32_check_def Memory_write32_def
      Memory_write16_check_def Memory_write16_def Memory_write8_check_def Memory_write8_def
      segment_check_write seg_check_ok routed_ok)

text \<open>
  C21: Defining \<open>DO_MEMORY_CHECK\<close> changes no access that goes through \<open>Memory\<close>: each of
  its twelve methods returns the same value, the same memory or the same error, because it only
  hands a segment addresses the check lets through. An address given to a segment directly, as an
  instruction fetch is, ends the program when it is outside, and otherwise does what it does
  without the check.
\<close>

theorem memory_check_invisible:
  "Memory_getPtr_check = Memory_getPtr \<and> Memory_fetch32_check = Memory_fetch32 \<and>
   Memory_read64_check = Memory_read64 \<and> Memory_read32_check = Memory_read32 \<and>
   Memory_read16_check = Memory_read16 \<and> Memory_read16u_check = Memory_read16u \<and>
   Memory_read8_check = Memory_read8 \<and> Memory_read8u_check = Memory_read8u \<and>
   Memory_write64_check = Memory_write64 \<and> Memory_write32_check = Memory_write32 \<and>
   Memory_write16_check = Memory_write16 \<and> Memory_write8_check = Memory_write8 \<and>
   Segment_fetch32_check s pc =
     (if Segment_ok s pc then Segment_fetch32 s pc else Inl (FatalAccess Fetch32 (pc - memBase s)))"
  by (auto simp: fun_eq_iff checked_reads checked_writes segment_check_read seg_check_ok seg_check_bad)

section \<open>The end of a segment\<close>

text \<open>
  The check only asks for the first byte: at the last byte of a segment whose allocation ends there,
  every access of more than a byte passes it and leaves the allocation.
\<close>

lemma check_first_byte:
  assumes "memLen s \<noteq> 0" and "length (data s) = unat (memLen s)"
  defines "a \<equiv> memBase s + (memLen s - 1)"
  shows "Segment_ok s a" "Segment_fetch32_check s a = Inl HostUB" "Segment_read64_check s a = Inl HostUB"
    "Segment_read32_check s a = Inl HostUB" "Segment_read16_check s a = Inl HostUB"
    "Segment_read16u_check s a = Inl HostUB" "Segment_write64_check s a v = Inl HostUB"
    "Segment_write32_check s a w = Inl HostUB" "Segment_write16_check s a w = Inl HostUB"
    "\<exists>b. Segment_read8u_check s a = Inr b"
proof -
  have l: "memLen s - 1 < memLen s" using assms(1)
    by (simp add: word_less_nat_alt measure_unat)
  then show ok: "Segment_ok s a" by (simp add: Segment_ok_def a_def)
  have "0 < unat (memLen s)" using assms(1) unat_gt_0 by blast
  moreover have "seg_off s a = unat (memLen s) - 1"
    using assms(1) by (simp add: seg_off_def a_def unat_minus_one)
  ultimately have o: "seg_off s a + 1 = length (data s)" using assms(2) by simp
  note rules = segment_check_read segment_check_write seg_check_ok [OF ok] segment_plain seg_load_def seg_store_def
  show "Segment_fetch32_check s a = Inl HostUB" "Segment_read64_check s a = Inl HostUB"
    "Segment_read32_check s a = Inl HostUB" "Segment_read16_check s a = Inl HostUB"
    "Segment_read16u_check s a = Inl HostUB" "Segment_write64_check s a v = Inl HostUB"
    "Segment_write32_check s a w = Inl HostUB" "Segment_write16_check s a w = Inl HostUB"
    "\<exists>b. Segment_read8u_check s a = Inr b"
    using o by (simp_all add: rules)
qed

end
