(* ===== verification/Reports.thy ===== *)
theory Reports
  imports Printf Machine
begin

text \<open>
  What the simulator prints about itself: the dumps of \<open>src/Cpu.h\<close> and \<open>src/Cpu.cpp\<close>, the signature
  file \<open>sigTick\<close> writes, the messages of \<open>src/Util.cpp\<close> and \<open>src/RiscVFast.cpp\<close>, and the one reader
  of immediate formats in \<open>src/Decode.cpp\<close> that nothing calls. A report is the text it writes. The
  signature is read back in \<open>signature_replays\<close>: its lines hold what changed, and all of it.
\<close>

unbundle bit_operations_syntax

section \<open>Names and numbers\<close>

text \<open>\<open>%02x\<close>, \<open>%4.4s\<close> and \<open>%-10.10s\<close>.\<close>

definition fmt_02x :: "u32 \<Rightarrow> string" where "fmt_02x w = pad0 2 (hex_of (unat w))"

definition fmt_4s :: "string \<Rightarrow> string" where
  "fmt_4s s = (let t = take 4 s in replicate (4 - length t) (CHR '' '') @ t)"

definition fmt_10s :: "string \<Rightarrow> string" where
  "fmt_10s s = (let t = take 10 s in t @ replicate (10 - length t) (CHR '' ''))"

text \<open>The names of the three register fields, as the dumps look them up.\<close>

definition field_names :: "vliw \<Rightarrow> (string \<times> string \<times> string) result" where
  "field_names v =
    chain (getRegName (uint (rd v))) (\<lambda>d.
    chain (getRegName (uint (rs1 v))) (\<lambda>a.
    chain (getRegName (uint (rs2 v))) (\<lambda>b. Inr (d, a, b))))"

section \<open>Dumps\<close>

definition Vliw_dump :: "vliw \<Rightarrow> string result" where
  "Vliw_dump v =
    chain (field_names v) (\<lambda>(d, a, b).
      Inr (''  op='' @ getVliwName (uint (opcode v)) @ '' ('' @ fmt_02x (ucast (opcode v)) @ ''), rd='' @ d @
        '', rs1='' @ a @ '', rs2='' @ b @ '', imm='' @ fmt_08x (imm v) @ nl))"

definition dump_reg_item :: "cpu \<Rightarrow> nat \<Rightarrow> string result" where
  "dump_reg_item c i =
    chain (getRegName (int i)) (\<lambda>n.
      Inr ('' '' @ fmt_4s n @ '':'' @ fmt_08x (reg c ! i) @ (if i mod 8 = 7 then nl else [])))"

text \<open>A loop that prints something for each element.\<close>

fun print_all :: "('a \<Rightarrow> string result) \<Rightarrow> 'a list \<Rightarrow> string result" where
  "print_all f [] = Inr []"
| "print_all f (x # xs) = chain (f x) (\<lambda>s. chain (print_all f xs) (\<lambda>t. Inr (s @ t)))"

definition dumpReg32 :: "cpu \<Rightarrow> string result" where
  "dumpReg32 c = print_all (dump_reg_item c) [0..<32]"

definition dump32 :: "cpu \<Rightarrow> string result" where
  "dump32 c =
    chain (dumpReg32 c) (\<lambda>regs.
      Inr (''  ['' @ hex64 (cycle c) @ ''] pc:'' @ fmt_08x (pc c) @ '', pc_next:'' @ fmt_08x (pc_next c) @ nl @ regs))"

text \<open>The log line skips the five characters \<open>VLIW_\<close> of the name.\<close>

definition Cpu_log :: "vliw \<Rightarrow> cpu \<Rightarrow> string result" where
  "Cpu_log v c =
    (let name = getVliwName (uint (opcode v)) in
     if length name < 5 then Inl HostUB
     else
       chain (field_names v) (\<lambda>(d, a, b).
         Inr (fmt_08x (pc c) @ '': '' @ drop 5 name @ '' '' @ d @ '','' @ a @ '','' @ b @ '',0x'' @ fmt_08x (imm v) @ nl)))"

definition dump_vliw_item :: "(u32 \<Rightarrow> vliw) \<Rightarrow> u32 \<Rightarrow> string result" where
  "dump_vliw_item t i =
    (let vp = t i in
     if opcode vp \<noteq> VLIW_NONE then
       let addr = push_bit 1 i in
       chain (field_names vp) (\<lambda>(d, a, b).
         Inr (fmt_08x addr @ '': op='' @ fmt_10s (getVliwName (uint (opcode vp))) @ '' ('' @ fmt_02x (ucast (opcode vp)) @
           ''), rd='' @ d @ '', rs1='' @ a @ '', rs2='' @ b @ '', imm='' @ fmt_08x (imm vp) @ nl))
     else Inr [])"

text \<open>The contents of \<open>vliw_dump.txt\<close>.\<close>

definition dump_vliw :: "(u32 \<Rightarrow> vliw) \<Rightarrow> string result" where
  "dump_vliw t = print_all (\<lambda>i. dump_vliw_item t (of_nat i)) [0..<0x200000]"

definition hash_dump :: "hash_table \<Rightarrow> string" where
  "hash_dump h =
    concat (map (\<lambda>i. let (code32, v) = h (of_nat i)
      in if code32 \<noteq> 0 then fmt_08x code32 @ '': '' @ fmt_d (ucast (opcode v)) @ nl else []) [0..<0x10000])"

section \<open>Messages\<close>

text \<open>\<open>vsnprintf\<close> into 256 bytes keeps 255 characters of a message.\<close>

definition fatal_text :: "string \<Rightarrow> cpu \<Rightarrow> string result" where
  "fatal_text msg c = chain (dump32 c) (\<lambda>d. Inr (take 255 msg @ d))"

definition warn_text :: "string \<Rightarrow> string" where "warn_text msg = ''Warn: '' @ take 255 msg"
definition error_text :: "string \<Rightarrow> string" where "error_text msg = ''Error: '' @ take 255 msg"

text \<open>
  \<open>_trace\<close>: the line for the file and the line for the console. It looks at the last character of
  the message, so an empty one is read before its start.
\<close>

definition trace_text :: "string \<Rightarrow> string \<Rightarrow> u32 \<Rightarrow> string \<Rightarrow> (string \<times> string) result" where
  "trace_text file func lno msg =
    (let buffer = take 1023 msg in
     if buffer = [] then Inl HostUB
     else
       let buffer = (if last buffer = CHR 0x0a then butlast buffer else buffer);
           t = file @ '', '' @ func @ ''.'' @ fmt_d lno @ '': '' @ buffer @ nl
       in Inr (t, ''Trace: '' @ t))"

definition usage :: string where
  "usage =
    tabs 1 @ ''-T addr:size    - .text base addresss'' @ nl @
    tabs 1 @ ''-D addr:size    - .data base addresss'' @ nl @
    tabs 1 @ ''-H addr:size'' @ tabs 1 @ ''- host base addresss'' @ nl @
    tabs 1 @ ''-v'' @ tabs 3 @ ''    - verbose'' @ nl @
    tabs 1 @ ''-q'' @ tabs 3 @ ''    - quiet'' @ nl @
    ''    -c              - compile to Warp output'' @ nl @
    ''    -d              - output disassembled code'' @ nl @
    ''    -t              - output execution trace'' @ nl @
    tabs 1 @ ''-i'' @ tabs 3 @ ''    - interactive debug mode'' @ nl @
    tabs 1 @ ''-u'' @ tabs 3 @ ''    - unified memory, .text/.data same address space'' @ nl @
    tabs 1 @ ''--newlib'' @ tabs 1 @ ''    - support newlib semi-hosting'' @ nl"

section \<open>The reader of immediate formats\<close>

definition streq :: "string \<Rightarrow> string \<Rightarrow> bool" where "streq s t \<longleftrightarrow> s = t"

definition isdigit :: "char \<Rightarrow> bool" where "isdigit c \<longleftrightarrow> c \<in> set ''0123456789''"

fun dec_value :: "string \<Rightarrow> nat \<Rightarrow> nat" where
  "dec_value [] acc = acc"
| "dec_value (c # cs) acc = dec_value cs (10 * acc + (of_char c - 48))"

text \<open>\<open>atoi\<close>, on what \<open>isdigit\<close> goes over.\<close>

definition number :: "string \<Rightarrow> nat" where "number s = dec_value (takeWhile isdigit s) 0"
definition past_number :: "string \<Rightarrow> string" where "past_number s = dropWhile isdigit s"

lemma past_number_le: "length (past_number s) \<le> length s"
  by (simp add: past_number_def length_dropWhile_le)

text \<open>
  \<open>doImm\<close>, less what it prints: a single number sets its bit (a shift of 32 or more is undefined),
  a range \<open>[n1:n2]\<close> sets none, and a format error returns 0.
\<close>

function doImm :: "string \<Rightarrow> u32 \<Rightarrow> u32 result" where
  "doImm s acc =
    (case s of
       [] \<Rightarrow> Inr acc
     | c # r \<Rightarrow>
         if c = CHR ''|'' then doImm r acc
         else if isdigit c then
           (if number s < 32 then doImm (past_number r) (acc OR push_bit (number s) 1) else Inl HostUB)
         else if c = CHR ''['' then
           (case past_number r of
              [] \<Rightarrow> Inr 0
            | d # r \<Rightarrow>
                if d \<noteq> CHR '':'' then Inr 0
                else
                  (case past_number r of
                     [] \<Rightarrow> Inr 0
                   | d # r \<Rightarrow> if d \<noteq> CHR '']'' then Inr 0 else doImm r acc))
         else Inr 0)"
  by pat_completeness auto

termination
proof (relation "measure (\<lambda>(s, _). length s)", goal_cases)
  case (3 s acc c r)
  then show ?case using past_number_le [of r] by simp
next
  case (4 s acc c r d r1 e r2)
  then show ?case using past_number_le [of r] past_number_le [of r1] by simp
qed auto

declare doImm.simps [simp del]

section \<open>The signature\<close>

record signature =
  sig_sav :: "u32 list"
  sig_text :: string

definition signature_start :: signature where
  "signature_start = \<lparr>sig_sav = replicate 32 0, sig_text = []\<rparr>"

definition sig_item :: "u32 list \<Rightarrow> nat \<Rightarrow> string" where
  "sig_item regs i = '' '' @ regNameTable ! i @ '':'' @ fmt_08x (regs ! i)"

definition sig_changed :: "u32 list \<Rightarrow> u32 list \<Rightarrow> nat list" where
  "sig_changed regs sav = filter (\<lambda>i. regs ! i \<noteq> sav ! i) [1..<32]"

definition sigTick :: "cpu \<Rightarrow> signature \<Rightarrow> signature" where
  "sigTick c g =
    (let flag = (\<exists>i \<in> set [1..<32]. reg c ! i \<noteq> sig_sav g ! i);
         text = (if flag then concat (map (sig_item (reg c)) (sig_changed (reg c) (sig_sav g))) @ nl else [])
     in \<lparr>sig_sav = fold (\<lambda>i sav. sav[i := reg c ! i]) [1..<32] (sig_sav g), sig_text = sig_text g @ text\<rparr>)"

text \<open>A reader of the file: its words in turn, each a register's name and its new value.\<close>

fun words_of :: "string \<Rightarrow> string \<Rightarrow> string list" where
  "words_of w [] = (if w = [] then [] else [w])"
| "words_of w (c # cs) =
    (if isspace c then (if w = [] then words_of [] cs else w # words_of [] cs) else words_of (w @ [c]) cs)"

definition sig_apply :: "string \<Rightarrow> u32 list \<Rightarrow> u32 list" where
  "sig_apply t regs =
    (let name = takeWhile (\<lambda>c. c \<noteq> CHR '':'') t; rest = drop (Suc (length name)) t
     in regs[length (takeWhile (\<lambda>n. n \<noteq> name) regNameTable) := of_nat (fst (hex_digits rest 0))])"

definition sig_replay :: "string \<Rightarrow> u32 list" where
  "sig_replay text = fold sig_apply (words_of [] text) (replicate 32 0)"

lemma words_of_split: "isspace c \<Longrightarrow> words_of w (xs @ c # ys) = words_of w xs @ words_of [] ys"
  by (induction xs arbitrary: w) auto

lemma words_of_plain: "list_all (\<lambda>c. \<not> isspace c) t \<Longrightarrow> words_of w t = (if w @ t = [] then [] else [w @ t])"
  by (induction t arbitrary: w) auto

lemma spaces: "isspace (CHR '' '')" "isspace (CHR 0x0a)" "\<not> isspace (CHR '':'')"
  by (simp_all add: isspace_def)

lemma reg_names_plain:
  "list_all (\<lambda>s. list_all (\<lambda>c. \<not> isspace c \<and> c \<noteq> CHR '':'') s \<and> s \<noteq> []) regNameTable"
  by (simp add: regNameTable_def isspace_def)

lemma reg_name_plain: "i < 32 \<Longrightarrow> list_all (\<lambda>c. \<not> isspace c \<and> c \<noteq> CHR '':'') (regNameTable ! i)"
  using reg_names_plain unfolding list_all_iff [of _ regNameTable] by (simp add: nth_mem)

lemma fmt_08x_plain: "list_all (\<lambda>c. \<not> isspace c) (fmt_08x w)"
proof -
  have "\<not> isspace (CHR ''0'')" by (simp add: isspace_def)
  then show ?thesis
    using hex_of_all [of "unat w"] digit_plain by (fastforce simp: fmt_08x_def pad0_def list_all_iff)
qed

lemma hex_zeros: "hex_digits (replicate n (CHR ''0'') @ s) 0 = hex_digits s 0"
proof (induction n)
  case (Suc n)
  have "hex_val (CHR ''0'') = Some 0" using hex_val_digit [of 0] by (simp add: hex_digit_def)
  then show ?case using Suc by simp
qed simp

lemma hex_read: "fst (hex_digits (fmt_08x w) 0) = unat w"
proof -
  have "hex_digits (fmt_08x w) 0 = hex_digits (hex_of (unat w)) 0" by (simp add: fmt_08x_def pad0_def hex_zeros)
  also have "\<dots> = (unat w, [])" using hex_digits_append [of "unat w" "[]" 0] by simp
  finally show ?thesis by simp
qed

lemma reg_name_index: "list_all (\<lambda>i. length (takeWhile (\<lambda>n. n \<noteq> regNameTable ! i) regNameTable) = i) [0..<32]"
  by code_simp

text \<open>The word of an item, and what reading it does.\<close>

definition sig_word :: "u32 list \<Rightarrow> nat \<Rightarrow> string" where
  "sig_word regs i = regNameTable ! i @ '':'' @ fmt_08x (regs ! i)"

lemma sig_word_words: "i < 32 \<Longrightarrow> words_of [] (sig_word regs i) = [sig_word regs i]"
proof -
  assume i: "i < 32"
  have "list_all (\<lambda>c. \<not> isspace c) (sig_word regs i)"
    using reg_name_plain [OF i] fmt_08x_plain spaces(3) by (auto simp: sig_word_def list_all_iff)
  then show ?thesis by (simp add: words_of_plain) (simp add: sig_word_def)
qed

lemma sig_apply_word: "i < 32 \<Longrightarrow> sig_apply (sig_word regs i) r = r[i := regs ! i]"
proof -
  assume i: "i < 32"
  have "takeWhile (\<lambda>c. c \<noteq> CHR '':'') (sig_word regs i) = regNameTable ! i"
    unfolding sig_word_def using reg_name_plain [OF i] by (subst takeWhile_append2) (auto simp: list_all_iff)
  moreover have "length (takeWhile (\<lambda>n. n \<noteq> regNameTable ! i) regNameTable) = i"
    using reg_name_index i by (simp add: list_all_iff)
  ultimately show ?thesis by (simp add: sig_apply_def Let_def) (simp add: sig_word_def hex_read)
qed

lemma sig_line_words:
  "\<forall>i \<in> set xs. i < 32 \<Longrightarrow>
    words_of [] (out @ concat (map (sig_item regs) xs) @ nl) = words_of [] out @ map (sig_word regs) xs"
proof (induction xs arbitrary: out)
  case Nil
  then show ?case using words_of_split [OF spaces(2), of "[]" out "[]"] by (simp add: nl_def)
next
  case (Cons x xs)
  have "words_of [] (out @ concat (map (sig_item regs) (x # xs)) @ nl) =
      words_of [] ((out @ sig_item regs x) @ concat (map (sig_item regs) xs) @ nl)" by simp
  also have "\<dots> = words_of [] (out @ sig_item regs x) @ map (sig_word regs) xs"
    using Cons.prems by (intro Cons.IH) simp
  also have "out @ sig_item regs x = out @ CHR '' '' # sig_word regs x" by (simp add: sig_item_def sig_word_def)
  also have "words_of [] \<dots> = words_of [] out @ [sig_word regs x]"
    using Cons.prems by (subst words_of_split [OF spaces(1)]) (simp add: sig_word_words)
  finally show ?case by simp
qed

lemma fold_words: "\<forall>i \<in> set xs. i < 32 \<Longrightarrow>
    fold sig_apply (map (sig_word regs) xs) r = fold (\<lambda>i r. r[i := regs ! i]) xs r"
  by (induction xs arbitrary: r) (simp_all add: sig_apply_word)

lemma fold_updates:
  "length (fold (\<lambda>i r. r[i := v ! i]) xs r) = length r"
  "\<forall>i \<in> set xs. i < length r \<Longrightarrow> j < length r \<Longrightarrow>
    fold (\<lambda>i r. r[i := v ! i]) xs r ! j = (if j \<in> set xs then v ! j else r ! j)"
  by (induction xs arbitrary: r) (auto simp: nth_list_update)

lemma sig_sav_step:
  assumes "length (reg c) = 32" and "length (sig_sav g) = 32"
  shows "sig_sav (sigTick c g) = sig_sav g ! 0 # tl (reg c)"
proof (rule nth_equalityI)
  show "length (sig_sav (sigTick c g)) = length (sig_sav g ! 0 # tl (reg c))"
    using assms by (simp add: sigTick_def Let_def fold_updates)
  fix j assume "j < length (sig_sav (sigTick c g))"
  then have "j < 32" using assms by (simp add: sigTick_def Let_def fold_updates)
  then show "sig_sav (sigTick c g) ! j = (sig_sav g ! 0 # tl (reg c)) ! j"
    using assms by (cases j) (simp_all add: sigTick_def Let_def fold_updates nth_tl)
qed

lemma sig_tick_replays:
  assumes "length (sig_sav g) = 32" and "sig_replay (sig_text g) = sig_sav g"
  shows "sig_replay (sig_text (sigTick c g)) = sig_sav (sigTick c g)"
proof -
  define xs where "xs = sig_changed (reg c) (sig_sav g)"
  have xs: "\<forall>i \<in> set xs. i < 32" and mem: "j \<in> set xs \<longleftrightarrow> 1 \<le> j \<and> j < 32 \<and> reg c ! j \<noteq> sig_sav g ! j" for j
    by (auto simp: xs_def sig_changed_def)
  have "fold (\<lambda>i r. r[i := reg c ! i]) xs (sig_sav g) = fold (\<lambda>i r. r[i := reg c ! i]) [1..<32] (sig_sav g)"
    using assms(1) xs by (intro nth_equalityI) (auto simp: fold_updates mem)
  moreover have "words_of [] (sig_text (sigTick c g)) = words_of [] (sig_text g) @ map (sig_word (reg c)) xs"
  proof (cases "xs = []")
    case True
    then have "\<forall>i \<in> set [1..<32]. reg c ! i = sig_sav g ! i" by (simp add: xs_def sig_changed_def filter_empty_conv)
    with True show ?thesis by (simp add: sigTick_def Let_def)
  next
    case False
    then have "\<exists>i \<in> set [1..<32]. reg c ! i \<noteq> sig_sav g ! i" by (auto simp: xs_def sig_changed_def filter_empty_conv)
    then show ?thesis using sig_line_words [OF xs] by (simp add: sigTick_def Let_def flip: xs_def)
  qed
  ultimately show ?thesis
    using assms(2) by (simp add: sig_replay_def fold_words [OF xs]) (simp add: sigTick_def Let_def)
qed

lemma signature_run:
  assumes "\<forall>c \<in> set cs. length (reg c) = 32" and "length (sig_sav g) = 32" and "sig_replay (sig_text g) = sig_sav g"
  shows "sig_replay (sig_text (fold sigTick cs g)) = (if cs = [] then sig_sav g else sig_sav g ! 0 # tl (reg (last cs)))"
  using assms
proof (induction cs arbitrary: g)
  case (Cons c cs)
  have "length (sig_sav (sigTick c g)) = 32" "sig_sav (sigTick c g) ! 0 = sig_sav g ! 0"
    using Cons.prems by (simp_all add: sig_sav_step)
  then show ?case using Cons.IH [of "sigTick c g"] Cons.prems sig_tick_replays [of g c] by (simp add: sig_sav_step)
qed simp

lemma sig_tick_again:
  assumes "length (reg c) = 32" and "length (sig_sav g) = 32"
  shows "sigTick c (sigTick c g) = sigTick c g"
proof -
  define h where "h = sigTick c g"
  have sav: "sig_sav h = sig_sav g ! 0 # tl (reg c)" unfolding h_def by (rule sig_sav_step [OF assms])
  have len: "length (sig_sav h) = 32" using sav assms by simp
  have same: "reg c ! i = sig_sav h ! i" if "1 \<le> i" "i < 32" for i
    using that assms sav by (cases i) (simp_all add: nth_tl)
  have "fold (\<lambda>i sav. sav[i := reg c ! i]) [1..<32] (sig_sav h) = sig_sav h"
    using len same by (intro nth_equalityI) (auto simp: fold_updates)
  moreover have "\<not> (\<exists>i \<in> set [1..<32]. reg c ! i \<noteq> sig_sav h ! i)" using same by auto
  ultimately have "sigTick c h = h" by (simp add: sigTick_def [of c h] Let_def)
  then show ?thesis by (simp add: h_def)
qed

lemma sig_sav_length: "length (sig_sav (fold sigTick cs g)) = length (sig_sav g)"
  by (induction cs arbitrary: g) (simp_all add: sigTick_def Let_def fold_updates)

text \<open>
  The signature file loses nothing: reading its lines back, each word a register's
  name and its new value, gives the registers of the last tick, whatever the ticks before it
  changed; register 0 is never written and reads as 0. A tick that changes no register adds no line.
\<close>

theorem signature_replays:
  assumes "\<forall>c \<in> set (cs @ [c]). length (reg c) = 32"
  shows "sig_replay (sig_text (fold sigTick (cs @ [c]) signature_start)) = 0 # tl (reg c) \<and>
    fold sigTick (cs @ [c, c]) signature_start = fold sigTick (cs @ [c]) signature_start"
proof -
  have "sig_replay (sig_text signature_start) = sig_sav signature_start"
    by (simp add: sig_replay_def signature_start_def)
  then show ?thesis
    using signature_run [of "cs @ [c]" signature_start] assms sig_tick_again [of c "fold sigTick cs signature_start"]
    by (simp add: sig_sav_length) (simp add: signature_start_def)
qed

theorem signature_replays_witness:
  "sig_replay (sig_text (sigTick (Cpu_new\<lparr>reg := replicate 32 7\<rparr>) signature_start)) = 0 # replicate 31 7"
  using signature_replays [of "[]" "Cpu_new\<lparr>reg := replicate 32 7\<rparr>"] by (simp add: tl_replicate)

section \<open>The reports of a running program\<close>

lemma reg_name: "i < 32 \<Longrightarrow> getRegName (int i) = Inr (regNameTable ! i)"
  by (simp add: getRegName_def)

lemma field_names_ok:
  assumes "regs_ok v"
  shows "\<exists>n. field_names v = Inr n"
proof -
  have "getRegName (uint r) = Inr (regNameTable ! unat r)" if "r < 32" for r :: u8
    using that reg_name [of "unat r"] by (simp add: word_less_nat_alt)
  then show ?thesis using assms by (simp add: regs_ok_def field_names_def)
qed

lemma print_all_ok:
  assumes "\<forall>x \<in> set xs. \<exists>s. f x = Inr s"
  shows "\<exists>s. print_all f xs = Inr s"
  using assms by (induction xs) fastforce+

text \<open>No dump of the processor or of a decoded instruction reads outside a table.\<close>

lemma dumps_ok:
  "\<exists>t. dump32 c = Inr t" "regs_ok v \<Longrightarrow> \<exists>t. Vliw_dump v = Inr t"
  "\<forall>i. regs_ok (vs i) \<Longrightarrow> \<exists>t. dump_vliw vs = Inr t"
proof -
  have "\<exists>t. dumpReg32 c = Inr t"
    unfolding dumpReg32_def by (rule print_all_ok) (simp add: dump_reg_item_def reg_name)
  then show "\<exists>t. dump32 c = Inr t" by (auto simp: dump32_def)
  show "regs_ok v \<Longrightarrow> \<exists>t. Vliw_dump v = Inr t" using field_names_ok by (fastforce simp: Vliw_dump_def)
  assume "\<forall>i. regs_ok (vs i)"
  then have "\<exists>t. dump_vliw_item vs i = Inr t" for i
    using field_names_ok [of "vs i"] by (auto simp: dump_vliw_item_def Let_def)
  then show "\<exists>t. dump_vliw vs = Inr t" unfolding dump_vliw_def by (intro print_all_ok) simp
qed

text \<open>A log line reads past the end of the name \<open>???\<close> of an operation code outside the table.\<close>

lemma log_unknown:
  assumes "opcode v \<ge> VLIW_SIZE"
  shows "Cpu_log v c = Inl HostUB"
proof -
  have "int (unat VLIW_SIZE) \<le> uint (opcode v)" using assms by (simp add: word_le_def)
  then have "getVliwName (uint (opcode v)) = ''???''" by (simp add: getVliwName_def)
  then show ?thesis by (simp add: Cpu_log_def)
qed

text \<open>The format of a jump's immediate loses its ranges.\<close>

lemma doImm_ranges: "doImm ''20|[10:1]|11|[19:12]'' 0 = Inr 0x00100800"
  by code_simp

end
