(* ===== verification/Run_Slow.thy ===== *)
theory Run_Slow
  imports Reports Run_Facts
begin

text \<open>
  \<open>Cpu::run\<close> of \<open>src/Cpu.cpp\<close> in a build without \<open>VERY_FAST\<close>: each turn first tests the program
  counter (even, and inside the text segment) and looks for the breakpoint, and the loop prints,
  logs and ticks the signature as asked. What is printed, logged and ticked is a \<open>report\<close> beside the
  machine. Whatever is asked for, such a run is the fast run cut short
  (\<open>slow_loop_cut\<close>), and it is the whole fast run when no test stops it (\<open>slow_loop_calm\<close>).
\<close>

unbundle bit_operations_syntax

section \<open>The loop\<close>

text \<open>Whether the log file is open and \<open>doSignature\<close>, and what has been written.\<close>

record probes =
  log_open :: bool
  doSignature :: bool

record report =
  rep_out :: string
  rep_log :: string
  rep_sig :: signature

definition say :: "string \<Rightarrow> report \<Rightarrow> report" where
  "say t r = r\<lparr>rep_out := rep_out r @ t\<rparr>"

text \<open>The tests at the top of a turn: what to print when one fails.\<close>

definition pc_fault :: "'h machine \<Rightarrow> string result option" where
  "pc_fault s =
    (let c = cpu s in
     if pc c AND 0x00000001 \<noteq> 0 then Some (Inr (''Unaligned PC: '' @ fmt_08x (pc c) @ nl))
     else if \<not> Cpu_checkPc (memory s) (pc c) c then
       Some (chain (dump32 c) (\<lambda>d. Inr (''Bad PC: '' @ fmt_08x (pc c) @ nl @ d)))
     else None)"

definition at_break :: "cpu \<Rightarrow> bool" where
  "at_break c \<longleftrightarrow> pc c = breakpoint c \<or> singleStep c"

definition check_break :: "'h machine \<times> report \<Rightarrow> 'h machine \<times> report" where
  "check_break sr =
    (let (s, r) = sr; c = cpu s in
     if at_break c then
       (s\<lparr>cpu := c\<lparr>running := False\<rparr>\<rparr>,
        say ((if singleStep c then ''Single Step @ 0x'' else ''BreakPoint @ 0x'') @ fmt_08x (pc c) @ nl) r)
     else (s, r))"

text \<open>What follows the decoding.\<close>

definition slow_insn :: "'h os \<Rightarrow> probes \<Rightarrow> vliw \<Rightarrow> u32 \<Rightarrow> 'h machine \<times> report \<Rightarrow> ('h machine \<times> report) result" where
  "slow_insn os p vlp len sr =
    (let (s, r) = sr;
         c = (cpu s)\<lparr>pc_inc := pc (cpu s) + len\<rparr>;
         c = c\<lparr>pc_next := pc_inc c\<rparr>
     in chain (if verbose c \<noteq> 0 then Vliw_dump vlp else Inr []) (\<lambda>d.
        chain (if log_open p then Cpu_log vlp c else Inr []) (\<lambda>l.
        let r = (say d r)\<lparr>rep_log := rep_log r @ l\<rparr>;
            (vlp, c) = check_irqs vlp c
        in chain (execute os vlp (put_cpu s c)) (\<lambda>s.
           chain (if verbose (cpu s) \<noteq> 0 then dump32 (cpu s) else Inr []) (\<lambda>d.
           let r = say d r;
               r = (if doSignature p then r\<lparr>rep_sig := sigTick (cpu s) (rep_sig r)\<rparr> else r)
           in Inr (s\<lparr>cpu := (cpu s)\<lparr>pc := pc_next (cpu s), cycle := cycle (cpu s) + 1\<rparr>\<rparr>, r))))))"

text \<open>One turn: whether \<open>run\<close> goes on, and the state.\<close>

definition slow_step :: "'h os \<Rightarrow> probes \<Rightarrow> 'h machine \<times> report \<Rightarrow> (bool \<times> 'h machine \<times> report) result" where
  "slow_step os p sr =
    (case pc_fault (fst sr) of
       Some t \<Rightarrow> chain t (\<lambda>t. Inr (False, fst sr, say t (snd sr)))
     | None \<Rightarrow>
         (let (s, r) = check_break sr
          in chain (fetch_code (memory s) (cpu s)) (\<lambda>(code32, len).
             chain (decode_cached code32 s) (\<lambda>(vlp, s).
             chain (slow_insn os p vlp len (s, r)) (\<lambda>sr. Inr (True, sr))))))"

fun slow_loop :: "'h os \<Rightarrow> probes \<Rightarrow> nat \<Rightarrow> 'h machine \<times> report \<Rightarrow> (bool \<times> 'h machine \<times> report) result" where
  "slow_loop os p 0 sr = Inr (True, sr)"
| "slow_loop os p (Suc n) sr =
    (if running (cpu (fst sr)) then
       chain (slow_step os p sr) (\<lambda>(ok, s, r).
         if \<not> ok then Inr (False, s, r)
         else if stop (cpu s) then Inr (True, s\<lparr>cpu := (cpu s)\<lparr>stop := False\<rparr>\<rparr>, r)
         else slow_loop os p n (s, r))
     else Inr (True, sr))"

definition run_slow :: "'h os \<Rightarrow> probes \<Rightarrow> u64 \<Rightarrow> 'h machine \<times> report \<Rightarrow> (bool \<times> 'h machine \<times> report) result" where
  "run_slow os p n sr =
    (let (s, r) = sr;
         s = s\<lparr>cpu := (cpu s)\<lparr>running := True, cycle := 0\<rparr>\<rparr>;
         r = (if verbose (cpu s) \<noteq> 0 then say (''Run - '' @ dec64 n @ nl) r else r)
     in slow_loop os p (unat n) (s, r))"

section \<open>A turn\<close>

lemma slow_insn_machine: "slow_insn os p v len (s, r) = Inr (s', r') \<Longrightarrow> run_insn os v len s = Inr s'"
  by (auto simp: slow_insn_def run_insn_def Let_def case_prod_unfold faultfacts split: if_splits)

lemma check_irqs_ctl:
  assumes "check_irqs v c = (v', c')"
  shows "ctl c' = ctl c" "length (reg c') = length (reg c)"
  using assms
  by (auto simp: check_irqs_def do_external_irq_def do_time_irq_def Let_def case_prod_unfold split: if_splits)

lemma execute_ctl:
  assumes "check_irqs v c = (v', c')" and "execute os v' (put_cpu s c') = Inr s'"
  shows "verbose (cpu s') = verbose c" "breakpoint (cpu s') = breakpoint c" "singleStep (cpu s') = singleStep c"
    "running (cpu s') \<Longrightarrow> running c" "length (reg (cpu s')) = length (reg c)"
  using execute_keeps [OF assms(2)] check_irqs_ctl [OF assms(1)] by (auto simp: keeps_def put_cpu_def)

lemma slow_insn_quiet:
  assumes "verbose (cpu s) = 0" and "\<not> log_open p"
  shows "map_sum id (\<lambda>(s', r'). (s', rep_out r', rep_log r')) (slow_insn os p v len (s, r)) =
    map_sum id (\<lambda>s'. (s', rep_out r, rep_log r)) (run_insn os v len s)"
proof -
  define c where "c = (cpu s)\<lparr>pc_inc := pc (cpu s) + len, pc_next := pc (cpu s) + len\<rparr>"
  obtain v' c' where i: "check_irqs v c = (v', c')" by fastforce
  have q: "verbose (cpu t) = 0" if "execute os v' (put_cpu s c') = Inr t" for t
    using execute_ctl(1) [OF i that] assms(1) by (simp add: c_def)
  show ?thesis
  proof (cases "execute os v' (put_cpu s c')")
    case (Inl e)
    then show ?thesis using i assms by (simp add: slow_insn_def run_insn_def Let_def c_def say_def)
  next
    case (Inr t)
    then show ?thesis using i assms q [OF Inr] by (simp add: slow_insn_def run_insn_def Let_def c_def say_def)
  qed
qed

lemma slow_step_machine:
  assumes "slow_step os p (s, r) = Inr (True, s', r')"
  shows "run_step os (if at_break (cpu s) then s\<lparr>cpu := (cpu s)\<lparr>running := False\<rparr>\<rparr> else s) = Inr s'"
  using assms slow_insn_machine
  by (fastforce simp: slow_step_def run_step_def check_break_def Let_def case_prod_unfold faultfacts
      split: if_splits option.splits)

lemma decode_cached_same_cpu: "decode_cached code s = Inr (v, s') \<Longrightarrow> cpu s' = cpu s"
  by (auto simp: decode_cached_def Let_def faultfacts split: option.splits)

lemma run_step_ctl:
  assumes "run_step os s = Inr s'"
  shows "verbose (cpu s') = verbose (cpu s)" "breakpoint (cpu s') = breakpoint (cpu s)"
    "singleStep (cpu s') = singleStep (cpu s)" "running (cpu s') \<Longrightarrow> running (cpu s)"
    "length (reg (cpu s')) = length (reg (cpu s))"
proof -
  obtain code len v s1 where s1: "decode_cached code s = Inr (v, s1)" and i: "run_insn os v len s1 = Inr s'"
    using assms by (auto simp: run_step_def faultfacts)
  from i obtain v' c' t where "check_irqs v ((cpu s1)\<lparr>pc_inc := pc (cpu s1) + len, pc_next := pc (cpu s1) + len\<rparr>) = (v', c')"
    "execute os v' (put_cpu s1 c') = Inr t" "s' = t\<lparr>cpu := (cpu t)\<lparr>pc := pc_next (cpu t), cycle := cycle (cpu t) + 1\<rparr>\<rparr>"
    by (auto simp: run_insn_def Let_def faultfacts split: prod.splits)
  from execute_ctl [OF this(1,2)] this(3) decode_cached_same_cpu [OF s1]
  show "verbose (cpu s') = verbose (cpu s)" "breakpoint (cpu s') = breakpoint (cpu s)"
    "singleStep (cpu s') = singleStep (cpu s)" "running (cpu s') \<Longrightarrow> running (cpu s)"
    "length (reg (cpu s')) = length (reg (cpu s))"
    by simp_all
qed

section \<open>A run cut short\<close>

text \<open>
  How a run without \<open>VERY_FAST\<close> that started in \<open>s\<close> ends: in what the fast loop gives for some
  number of turns, or one instruction after such a state if that is at the breakpoint.
\<close>

definition cut_short :: "'h os \<Rightarrow> nat \<Rightarrow> 'h machine \<Rightarrow> 'h machine \<Rightarrow> bool" where
  "cut_short os n s s' \<longleftrightarrow> (\<exists>k t. k \<le> n \<and> run_loop os k s = Inr t \<and>
    (s' = t \<or> at_break (cpu t) \<and> (\<exists>u. run_step os (t\<lparr>cpu := (cpu t)\<lparr>running := False\<rparr>\<rparr>) = Inr u \<and>
      s' = u\<lparr>cpu := (cpu u)\<lparr>stop := False\<rparr>\<rparr>)))"

lemma cut_short_0: "cut_short os n s s"
  unfolding cut_short_def by (intro exI [of _ 0] exI [of _ s]) simp

lemma cut_short_turn:
  assumes "running (cpu s)" and "run_step os s = Inr s1" and "\<not> stop (cpu s1)" and "cut_short os n s1 s'"
  shows "cut_short os (Suc n) s s'"
proof -
  obtain k t where k: "k \<le> n" "run_loop os k s1 = Inr t" "s' = t \<or> at_break (cpu t) \<and>
      (\<exists>u. run_step os (t\<lparr>cpu := (cpu t)\<lparr>running := False\<rparr>\<rparr>) = Inr u \<and> s' = u\<lparr>cpu := (cpu u)\<lparr>stop := False\<rparr>\<rparr>)"
    using assms(4) unfolding cut_short_def by blast
  have "run_loop os (Suc k) s = Inr t" using assms(1-3) k(2) by simp
  with k show ?thesis unfolding cut_short_def by (intro exI [of _ "Suc k"] exI [of _ t]) simp
qed

lemma slow_loop_cut:
  assumes "slow_loop os p n (s, r) = Inr (ok, s', r')"
  shows "cut_short os n s s' \<and> (\<not> ok \<longrightarrow> pc_fault s' \<noteq> None)"
  using assms
proof (induction n arbitrary: s r)
  case 0
  then show ?case using cut_short_0 by auto
next
  case (Suc n)
  show ?case
  proof (cases "running (cpu s)")
    case False
    then show ?thesis using Suc.prems cut_short_0 by auto
  next
    case True
    then obtain ok1 s1 r1 where s1: "slow_step os p (s, r) = Inr (ok1, s1, r1)"
      and end1: "(if \<not> ok1 then Inr (False, s1, r1)
         else if stop (cpu s1) then Inr (True, s1\<lparr>cpu := (cpu s1)\<lparr>stop := False\<rparr>\<rparr>, r1)
         else slow_loop os p n (s1, r1)) = Inr (ok, s', r')"
      using Suc.prems by (auto simp: faultfacts)
    consider "\<not> ok1" | "ok1" "at_break (cpu s)" | "ok1" "\<not> at_break (cpu s)" by blast
    then show ?thesis
    proof cases
      case 1
      then have "s1 = s" "pc_fault s \<noteq> None" using s1
        by (auto simp: slow_step_def Let_def case_prod_unfold faultfacts split: option.splits)
      then show ?thesis using 1 end1 cut_short_0 by auto
    next
      case 2
      let ?s = "s\<lparr>cpu := (cpu s)\<lparr>running := False\<rparr>\<rparr>"
      have u: "run_step os ?s = Inr s1" using slow_step_machine [of os p s r s1 r1] s1 2 by simp
      have "\<not> running (cpu s1)" using run_step_ctl(4) [OF u] by auto
      then have "slow_loop os p n (s1, r1) = Inr (True, s1, r1)" by (cases n) simp_all
      then have "s' = s1\<lparr>cpu := (cpu s1)\<lparr>stop := False\<rparr>\<rparr> \<and> ok"
        using end1 2 by (auto split: if_splits)
      then show ?thesis using u 2 unfolding cut_short_def
        by (intro conjI exI [of _ 0] exI [of _ s]) auto
    next
      case 3
      have u: "run_step os s = Inr s1" using slow_step_machine [of os p s r s1 r1] s1 3 by simp
      show ?thesis
      proof (cases "stop (cpu s1)")
        case stop: True
        then have "run_loop os 1 s = Inr s' \<and> ok" using end1 3 u True by auto
        then show ?thesis unfolding cut_short_def by (intro conjI exI [of _ 1] exI [of _ s']) auto
      next
        case False
        then have "cut_short os n s1 s' \<and> (\<not> ok \<longrightarrow> pc_fault s' \<noteq> None)"
          using Suc.IH [of s1 r1] end1 3 by simp
        then show ?thesis using cut_short_turn [OF True u False] by simp
      qed
    qed
  qed
qed

section \<open>A run that is not cut\<close>

text \<open>That no test stops the fast loop in its first \<open>n\<close> turns.\<close>

fun calm :: "'h os \<Rightarrow> nat \<Rightarrow> 'h machine \<Rightarrow> bool" where
  "calm os 0 s \<longleftrightarrow> True"
| "calm os (Suc n) s \<longleftrightarrow> (running (cpu s) \<longrightarrow> pc_fault s = None \<and> \<not> at_break (cpu s) \<and>
    (case run_step os s of Inl e \<Rightarrow> True | Inr t \<Rightarrow> stop (cpu t) \<or> calm os n t))"

abbreviation machine_text :: "bool \<times> 'h machine \<times> report \<Rightarrow> bool \<times> 'h machine \<times> string \<times> string" where
  "machine_text \<equiv> \<lambda>(ok, s, r). (ok, s, rep_out r, rep_log r)"

lemma slow_step_quiet:
  assumes "verbose (cpu s) = 0" and "\<not> log_open p" and "pc_fault s = None" and "\<not> at_break (cpu s)"
  shows "map_sum id machine_text (slow_step os p (s, r)) =
    map_sum id (\<lambda>s'. (True, s', rep_out r, rep_log r)) (run_step os s)"
proof -
  have "map_sum id machine_text (chain (slow_insn os p v len (t, r)) (\<lambda>sr. Inr (True, sr))) =
      map_sum id (\<lambda>s'. (True, s', rep_out r, rep_log r)) (run_insn os v len t)" if "cpu t = cpu s" for v len t
    using slow_insn_quiet [of t p os v len r] that assms(1,2)
    by (cases "slow_insn os p v len (t, r)"; cases "run_insn os v len t") auto
  then show ?thesis using assms(3,4)
    by (auto simp: slow_step_def run_step_def check_break_def case_prod_unfold dest!: decode_cached_same_cpu intro!: chain_cong)
qed

lemma slow_loop_calm:
  assumes "verbose (cpu s) = 0" and "\<not> log_open p" and "calm os n s"
  shows "map_sum id machine_text (slow_loop os p n (s, r)) =
    map_sum id (\<lambda>s'. (True, s', rep_out r, rep_log r)) (run_loop os n s)"
  using assms
proof (induction n arbitrary: s r)
  case (Suc n)
  show ?case
  proof (cases "running (cpu s)")
    case True
    have q: "map_sum id machine_text (slow_step os p (s, r)) =
        map_sum id (\<lambda>s'. (True, s', rep_out r, rep_log r)) (run_step os s)"
      using Suc.prems True by (intro slow_step_quiet) simp_all
    show ?thesis
    proof (cases "run_step os s")
      case (Inl e)
      then show ?thesis using q True by (cases "slow_step os p (s, r)") auto
    next
      case (Inr s1)
      then obtain r1 where r1: "slow_step os p (s, r) = Inr (True, s1, r1)" "rep_out r1 = rep_out r" "rep_log r1 = rep_log r"
        using q by (cases "slow_step os p (s, r)") auto
      have "verbose (cpu s1) = 0" using run_step_ctl(1) [OF Inr] Suc.prems(1) by simp
      then show ?thesis using Suc.IH [of s1 r1] Suc.prems(2,3) True Inr r1 by auto
    qed
  qed simp
qed simp

section \<open>The signature of a run\<close>

text \<open>
  That the signature file stands for what was last ticked, and that the last tick saw the registers
  of the machine, or nothing was ticked yet.
\<close>

definition signed :: "'h machine \<Rightarrow> report \<Rightarrow> bool" where
  "signed s r \<longleftrightarrow> length (reg (cpu s)) = 32 \<and> length (sig_sav (rep_sig r)) = 32 \<and> sig_sav (rep_sig r) ! 0 = 0 \<and>
    sig_replay (sig_text (rep_sig r)) = sig_sav (rep_sig r) \<and>
    (rep_sig r = signature_start \<or> tl (sig_sav (rep_sig r)) = tl (reg (cpu s)))"

lemma slow_insn_sig:
  assumes "slow_insn os p v len (s, r) = Inr (s', r')" and "doSignature p"
  shows "\<exists>c. reg c = reg (cpu s') \<and> rep_sig r' = sigTick c (rep_sig r)"
  using assms by (auto simp: slow_insn_def Let_def case_prod_unfold say_def faultfacts)

lemma slow_step_sig:
  assumes "slow_step os p (s, r) = Inr (ok, s', r')" and "doSignature p" and "signed s r"
  shows "signed s' r'"
proof (cases "pc_fault s")
  case (Some t)
  then have "s' = s" "rep_sig r' = rep_sig r" using assms(1) by (auto simp: slow_step_def say_def faultfacts)
  then show ?thesis using assms(3) by (simp add: signed_def)
next
  case None
  then obtain v len s1 r1 where i: "slow_insn os p v len (s1, r1) = Inr (s', r')" "rep_sig r1 = rep_sig r" and ok
    using assms(1) by (auto simp: slow_step_def check_break_def say_def Let_def case_prod_unfold faultfacts split: if_splits)
  then obtain c where c: "reg c = reg (cpu s')" "rep_sig r' = sigTick c (rep_sig r)"
    using slow_insn_sig [OF i(1) assms(2)] by auto
  have "length (reg (cpu s')) = 32"
    using run_step_ctl(5) [OF slow_step_machine [of os p s r s' r']] assms(1,3) \<open>ok\<close>
    by (simp add: signed_def split: if_splits)
  then show ?thesis using assms(3) c sig_tick_replays [of "rep_sig r" c] sig_sav_step [of c "rep_sig r"]
    by (simp add: signed_def)
qed

lemma slow_loop_sig:
  assumes "slow_loop os p n (s, r) = Inr (ok, s', r')" and "doSignature p" and "signed s r"
  shows "signed s' r'"
  using assms
proof (induction n arbitrary: s r)
  case (Suc n)
  show ?case
  proof (cases "running (cpu s)")
    case True
    then obtain ok1 s1 r1 where s1: "slow_step os p (s, r) = Inr (ok1, s1, r1)"
      and end1: "(if \<not> ok1 then Inr (False, s1, r1)
         else if stop (cpu s1) then Inr (True, s1\<lparr>cpu := (cpu s1)\<lparr>stop := False\<rparr>\<rparr>, r1)
         else slow_loop os p n (s1, r1)) = Inr (ok, s', r')"
      using Suc.prems by (auto simp: faultfacts)
    have "signed s1 r1" by (rule slow_step_sig [OF s1 Suc.prems(2,3)])
    then show ?thesis using end1 Suc.IH [of s1 r1] Suc.prems(2) by (auto simp: signed_def split: if_splits)
  qed (use Suc.prems in simp)
qed simp

end
