(* ===== verification/Slow_Props.thy ===== *)
theory Slow_Props
  imports Run_Slow Composition
begin

text \<open>
  What the build without \<open>VERY_FAST\<close> promises, against the loop of theory \<open>Run\<close>.
\<close>

section \<open>A sample\<close>

text \<open>One turn of \<open>addi x1,x0,5\<close>, logged and ticked.\<close>

definition slow_machine :: "nat machine" where "slow_machine = bare_machine 0x00500093"

definition probes_on :: probes where "probes_on = \<lparr>log_open = True, doSignature = True\<rparr>"

definition new_report :: report where
  "new_report = \<lparr>rep_out = [], rep_log = [], rep_sig = signature_start\<rparr>"

lemma slow_sample:
  "\<exists>s' r'. run_slow sample_os probes_on 1 (slow_machine, new_report) = Inr (True, s', r') \<and>
    rep_log r' = ''00000000: ADDI ra,x0,x0,0x00000005'' @ nl \<and> sig_text (rep_sig r') = '' ra:00000005'' @ nl"
proof -
  have "case run_slow sample_os probes_on 1 (slow_machine, new_report) of
      Inl e \<Rightarrow> False | Inr (ok, s, r) \<Rightarrow> ok \<and> rep_log r = ''00000000: ADDI ra,x0,x0,0x00000005'' @ nl \<and>
        sig_text (rep_sig r) = '' ra:00000005'' @ nl"
    by code_simp
  then show ?thesis by (auto split: sum.splits prod.splits)
qed

section \<open>The properties\<close>

text \<open>
  C12: The checks of a build without \<open>VERY_FAST\<close> only cut a run short. Whatever it prints,
  logs and ticks, if \<open>run\<close> returns there, then the machine is the one the fast build has after some
  number of turns, at most as many as were asked for; or the breakpoint (or the single step) was
  reached there, and the machine is one instruction further with \<open>running\<close> clear. It returns false
  only where the program counter is odd or outside the text segment.
\<close>

theorem slow_is_prefix:
  assumes "run_slow os p n (s, r) = Inr (ok, s', r')"
  shows "cut_short os (unat n) (s\<lparr>cpu := (cpu s)\<lparr>running := True, cycle := 0\<rparr>\<rparr>) s' \<and>
    (\<not> ok \<longrightarrow> bit (pc (cpu s')) 0 \<or> \<not> istext (memory s') (pc (cpu s')))"
proof -
  obtain r1 where "slow_loop os p (unat n) (s\<lparr>cpu := (cpu s)\<lparr>running := True, cycle := 0\<rparr>\<rparr>, r1) = Inr (ok, s', r')"
    using assms by (auto simp: run_slow_def Let_def)
  from slow_loop_cut [OF this] show ?thesis
    by (auto simp: pc_fault_def Cpu_checkPc_def istext_def Let_def and_one_eq odd_iff_mod_2_eq_one bit_0 not_le split: if_splits)
qed

theorem slow_is_prefix_witness:
  "\<exists>s' r'. run_slow sample_os probes_on 1 (slow_machine, new_report) = Inr (True, s', r') \<and>
    cut_short sample_os 1 (slow_machine\<lparr>cpu := (cpu slow_machine)\<lparr>running := True, cycle := 0\<rparr>\<rparr>) s'"
proof -
  obtain s' r' where r: "run_slow sample_os probes_on 1 (slow_machine, new_report) = Inr (True, s', r')"
    using slow_sample by blast
  show ?thesis using slow_is_prefix [OF r] r by auto
qed


text \<open>
  C13: A build without \<open>VERY_FAST\<close> does what the fast build does, errors included, as long as
  every turn of the fast run starts at an even address inside the text segment that is not the
  breakpoint. Neither the signature nor the checks disturb the machine, and with \<open>verbose\<close> clear and
  no log file nothing is printed.
\<close>

theorem slow_is_fast:
  assumes "verbose (cpu s) = 0" and "\<not> log_open p"
    and "calm os (unat n) (s\<lparr>cpu := (cpu s)\<lparr>running := True, cycle := 0\<rparr>\<rparr>)"
  shows "map_sum id machine_text (run_slow os p n (s, r)) = map_sum id (\<lambda>s'. (True, s', rep_out r, rep_log r)) (run os n s)"
  using slow_loop_calm [OF _ assms(2,3), of r] assms(1) by (simp add: run_slow_def run_def Let_def)

theorem slow_is_fast_witness:
  "map_sum id machine_text (run_slow sample_os \<lparr>log_open = False, doSignature = True\<rparr> 1 (slow_machine, new_report)) =
    map_sum id (\<lambda>s'. (True, s', [], [])) (run sample_os 1 slow_machine)"
proof -
  have "verbose (cpu slow_machine) = 0"
    "calm sample_os 1 (slow_machine\<lparr>cpu := (cpu slow_machine)\<lparr>running := True, cycle := 0\<rparr>\<rparr>)" by code_simp+
  then show ?thesis
    using slow_is_fast [of slow_machine "\<lparr>log_open = False, doSignature = True\<rparr>" sample_os 1 new_report]
    by (simp add: new_report_def)
qed


text \<open>
  C39: What a run leaves in \<open>signature.txt\<close> is the history of its registers: when
  \<open>doSignature\<close> is set and the file is new, reading the file back after the run gives the registers
  the machine ended with (or zeros, before the first turn), however many turns were run and however
  the run ended.
\<close>

theorem signature_of_run:
  assumes "run_slow os p n (s, r) = Inr (ok, s', r')" and "doSignature p"
    and "rep_sig r = signature_start" and "length (reg (cpu s)) = 32"
  shows "sig_replay (sig_text (rep_sig r')) = (if rep_sig r' = signature_start then replicate 32 0 else 0 # tl (reg (cpu s')))"
proof -
  let ?s = "s\<lparr>cpu := (cpu s)\<lparr>running := True, cycle := 0\<rparr>\<rparr>"
  obtain r1 where l: "slow_loop os p (unat n) (?s, r1) = Inr (ok, s', r')" and "rep_sig r1 = rep_sig r"
    using assms(1) by (auto simp: run_slow_def Let_def say_def split: if_splits)
  then have "signed ?s r1" using assms(3,4) by (simp add: signed_def signature_start_def sig_replay_def)
  then have i: "signed s' r'" by (rule slow_loop_sig [OF l assms(2)])
  show ?thesis
  proof (cases "rep_sig r' = signature_start")
    case True
    then show ?thesis by (simp add: sig_replay_def signature_start_def)
  next
    case False
    then show ?thesis using i by (cases "sig_sav (rep_sig r')") (auto simp: signed_def)
  qed
qed

theorem signature_of_run_witness:
  "\<exists>s' r'. run_slow sample_os probes_on 1 (slow_machine, new_report) = Inr (True, s', r') \<and>
    sig_replay (sig_text (rep_sig r')) = 0 # tl (reg (cpu s'))"
proof -
  obtain s' r' where r: "run_slow sample_os probes_on 1 (slow_machine, new_report) = Inr (True, s', r')"
    and t: "sig_text (rep_sig r') \<noteq> []"
    using slow_sample by auto
  have "doSignature probes_on" "rep_sig new_report = signature_start" "length (reg (cpu slow_machine)) = 32"
    by (simp_all add: probes_on_def new_report_def slow_machine_def bare_machine_def sample_machine_def Cpu_reset_def Cpu_new_def)
  from signature_of_run [OF r this] r t show ?thesis by (auto simp: signature_start_def)
qed

end
