(* ===== verification/Trace.thy ===== *)
theory Trace
  imports Reports Execute
begin

text \<open>
  The end of \<open>Cpu::execute\<close> in a build with \<open>DO_TRACE\<close> (\<open>src/Cpu.cpp\<close>): after each instruction a
  few lines go to \<open>trace.txt\<close>, until 100000 have been traced. The lines are made from the registers
  and the memory the instruction left, so the trace of a load can show, or stumble over, an address
  the load never used.
\<close>

unbundle bit_operations_syntax

section \<open>The lines of an instruction\<close>

text \<open>\<open>%d\<close> of a comparison.\<close>

definition fmt_bool :: "bool \<Rightarrow> string" where "fmt_bool b = (if b then ''1'' else ''0'')"

definition name_of :: "u8 \<Rightarrow> string result" where "name_of r = getRegName (uint (r AND 0x1f))"

text \<open>A store or a load: the operand line, and the line of the access, which reads the memory.\<close>

definition trace_access :: "string \<Rightarrow> string \<Rightarrow> string \<Rightarrow> u32 \<Rightarrow> string \<Rightarrow> u32 \<Rightarrow> u32 \<Rightarrow> string \<Rightarrow> string" where
  "trace_access nm r base j arrow addr32 x shown =
    ''  '' @ nm @ '' '' @ r @ '','' @ fmt_d j @ ''['' @ base @ '']'' @ nl @
    ''  0x'' @ fmt_08x addr32 @ arrow @ fmt_08x x @ '' ['' @ shown @ '']'' @ nl"

definition trace_store :: "vliw \<Rightarrow> string \<Rightarrow> string \<Rightarrow> u32 \<Rightarrow> 'h machine \<Rightarrow> (string \<times> 'h machine) result" where
  "trace_store v b r addr32 s =
    chain (reg_get (cpu s) (rs2 v)) (\<lambda>x.
      if opcode v = VLIW_SW then
        chain (Memory_read32 (memory s) addr32) (\<lambda>(w, e).
          Inr (trace_access ''sw'' r b (imm v) '' <= 0x'' addr32 x (fmt_08x w), apply_host e s))
      else if opcode v = VLIW_SH then
        chain (Memory_read16 (memory s) addr32) (\<lambda>w.
          Inr (trace_access ''sh'' r b (imm v) '' <= 0x'' addr32 x (fmt_04x w), s))
      else
        chain (Memory_read8 (memory s) addr32) (\<lambda>w.
          Inr (trace_access ''sb'' r b (imm v) '' <= 0x'' addr32 x (fmt_02x w), s)))"

definition load_name :: "u8 \<Rightarrow> string" where
  "load_name op =
    (if op = VLIW_LW then ''lw'' else if op = VLIW_LH then ''lh'' else if op = VLIW_LHU then ''lhu''
     else if op = VLIW_LB then ''lb'' else ''lbu'')"

definition trace_load :: "vliw \<Rightarrow> string \<Rightarrow> string \<Rightarrow> u32 \<Rightarrow> 'h machine \<Rightarrow> (string \<times> 'h machine) result" where
  "trace_load v b r addr32 s =
    chain (reg_get (cpu s) (rd v)) (\<lambda>x.
    chain (Memory_read32 (memory s) addr32) (\<lambda>(w, e).
    chain (if opcode v = VLIW_LB \<or> opcode v = VLIW_LBU then Cpu_checkAddr (memory s) addr32 else Inr ()) (\<lambda>_.
      Inr (trace_access (load_name (opcode v)) r b (imm v) '' => 0x'' addr32 x (fmt_08x w), apply_host e s))))"

text \<open>The branches: the name, the operator shown, and the comparison.\<close>

definition branch_show :: "u8 \<Rightarrow> (string \<times> string \<times> (u32 \<Rightarrow> u32 \<Rightarrow> bool)) option" where
  "branch_show op =
    (if op = VLIW_BEQ then Some (''beq'', ''=='', (\<lambda>a b. a = b))
     else if op = VLIW_BNE then Some (''bne'', ''!='', (\<lambda>a b. a \<noteq> b))
     else if op = VLIW_BGE then Some (''bge'', ''>='', (\<lambda>a b. sint a \<ge> sint b))
     else if op = VLIW_BLT then Some (''blt'', ''<'', (\<lambda>a b. sint a < sint b))
     else if op = VLIW_BGEU then Some (''bgeu'', ''>='', (\<lambda>a b. a \<ge> b))
     else if op = VLIW_BLTU then Some (''bltu'', ''<'', (\<lambda>a b. a < b))
     else None)"

definition trace_branch :: "vliw \<Rightarrow> string \<Rightarrow> string \<Rightarrow> string \<times> string \<times> (u32 \<Rightarrow> u32 \<Rightarrow> bool) \<Rightarrow> cpu \<Rightarrow> string result" where
  "trace_branch v n1 n2 sh c =
    (let (nm, sign, f) = sh in
     chain (reg_get c (rs1 v)) (\<lambda>a.
     chain (reg_get c (rs2 v)) (\<lambda>b.
       Inr (''  '' @ nm @ '' '' @ n1 @ '','' @ n2 @ '','' @ fmt_08x (pc c + imm v) @ nl @
         ''  0x'' @ fmt_08x a @ '' '' @ sign @ '' 0x'' @ fmt_08x b @ '' - '' @ fmt_bool (f a b) @ nl @
         (if pc_next c \<noteq> pc_inc c then ''  Bra/Jmp: '' @ fmt_08x (pc_next c) @ nl else [])))))"

definition trace_lines :: "vliw \<Rightarrow> 'h machine \<Rightarrow> (string \<times> 'h machine) result" where
  "trace_lines v s =
    (let c = cpu s; op = opcode v in
     chain (name_of (rd v)) (\<lambda>d.
     chain (name_of (rs1 v)) (\<lambda>n1.
     chain (name_of (rs2 v)) (\<lambda>n2.
     chain (reg_get c (rs1 v)) (\<lambda>base.
     chain (if unat op < length VliwName then Inr (VliwName ! unat op) else Inl HostUB) (\<lambda>nm.
       let addr32 = base + imm v;
           head = fmt_08x (pc c) @ '': '' @ nm @ '' '' @ d @ '','' @ n1 @ '','' @ n2 @ '', '' @ fmt_08x (imm v) @ nl
       in chain
         (if op = VLIW_SW \<or> op = VLIW_SH \<or> op = VLIW_SB then trace_store v n1 n2 addr32 s
          else if op = VLIW_LW \<or> op = VLIW_LH \<or> op = VLIW_LHU \<or> op = VLIW_LB \<or> op = VLIW_LBU then
            trace_load v n1 d addr32 s
          else if op = VLIW_JAL then
            Inr (if rd v = 1 then ''  Call: '' @ fmt_08x (pc_next c) @ nl else [], s)
          else
            (case branch_show op of
               Some sh \<Rightarrow> chain (trace_branch v n1 n2 sh c) (\<lambda>t. Inr (t, s))
             | None \<Rightarrow>
                 chain (reg_get c (rd v)) (\<lambda>x.
                   if op = VLIW_ADDI then
                     Inr (''  addi '' @ d @ '','' @ n1 @ '','' @ fmt_d (imm v) @ nl @
                       ''  '' @ d @ '' <= 0x'' @ fmt_08x x @ nl, s)
                   else if op = VLIW_ADD then
                     Inr (''  addi '' @ d @ '','' @ n1 @ '','' @ n2 @ nl @ ''  '' @ d @ '' <= 0x'' @ fmt_08x x @ nl, s)
                   else Inr (if rd v \<noteq> 0 then ''  '' @ d @ '' = '' @ fmt_08x x @ nl else [], s))))
         (\<lambda>(t, s). Inr (head @ t, s))))))))"

text \<open>
  \<open>execute\<close> with its trace: the count of instructions traced so far and the text of the file.
  \<open>None\<close> is the exit, with status 0, when the trace is full.
\<close>

definition execute_traced :: "'h os \<Rightarrow> vliw \<Rightarrow> nat \<times> string \<times> 'h machine \<Rightarrow> (nat \<times> string \<times> 'h machine) option result" where
  "execute_traced os v st =
    (let (cnt, out, s) = st in
     chain (execute os v s) (\<lambda>s.
       if cnt \<ge> 100000 then Inr None
       else chain (trace_lines v s) (\<lambda>(t, s). Inr (Some (cnt + 1, out @ t, s)))))"

end
