(* ===== verification/Trace_Props.thy ===== *)
theory Trace_Props
  imports Trace Composition
begin

text \<open>
  What a trace shows of a store, and where making the trace changes what the program does: at the
  host port, which the trace reads, and at a load into its own base register.
\<close>

unbundle bit_operations_syntax

section \<open>Loads and stores\<close>

lemma name_of_ok: "r < 32 \<Longrightarrow> name_of r = Inr (regNameTable ! unat r)"
proof -
  assume r: "r < 32"
  have "r AND 0x1f = take_bit 5 r" by (simp add: take_bit_eq_mask mask_numeral)
  also have "\<dots> = r" using r by (intro word_unat_eq_iff [THEN iffD2])
    (simp add: unsigned_take_bit_eq word_less_nat_alt take_bit_nat_eq_self)
  finally have "r AND 0x1f = r" .
  then show ?thesis using r reg_name [of "unat r"] by (simp add: name_of_def word_less_nat_alt)
qed

lemma clear_r0_same: "cpu_inv c \<Longrightarrow> clear_r0 c = c"
  by (cases "reg c") (simp_all add: cpu_inv_def regs32_def reg_val_def clear_r0_def)

lemma execute_sw:
  assumes "opcode v = VLIW_SW" and "regs_ok v" and "cpu_inv (cpu s)"
  shows "execute os v s = chain (Memory_write32 (memory s) (reg_val (cpu s) (rs1 v) + imm v) (reg_val (cpu s) (rs2 v)))
    (\<lambda>(m, e). let t = apply_host e (s\<lparr>memory := m\<rparr>) in Inr (put_cpu t (clear_r0 (cpu t))))"
proof -
  have "exec_cpu v (cpu s) = None" "load_op (opcode v) = None" using group_st [of v S_W] assms(1) by simp_all
  then show ?thesis using assms
    by (simp add: execute_def exec_switch_def or_else_def exec_load_def exec_store_def store_op_def Let_def
        regs_ok_def cpu_inv_def chain_assoc case_prod_unfold)
qed

lemma execute_lw:
  assumes "opcode v = VLIW_LW" and "regs_ok v" and "cpu_inv (cpu s)"
  shows "execute os v s = chain (Cpu_checkAddr (memory s) (reg_val (cpu s) (rs1 v) + imm v)) (\<lambda>_.
    chain (Memory_read32 (memory s) (reg_val (cpu s) (rs1 v) + imm v)) (\<lambda>(x, e).
      let t = apply_host e s in Inr (put_cpu t (clear_r0 (reg_set (rd v) x (cpu t))))))"
proof -
  have "exec_cpu v (cpu s) = None" using group_ld [of v L_W] assms(1) by simp
  moreover have "regs32 (cpu (apply_host e s))" for e
    using assms(3) by (cases e) (simp_all add: apply_host_def cpu_inv_def regs32_def)
  ultimately show ?thesis using assms
    by (simp add: execute_def exec_switch_def or_else_def exec_load_def load_op_def Let_def
        regs_ok_def cpu_inv_def chain_assoc case_prod_unfold put_cpu_def)
qed

text \<open>The first line.\<close>

definition trace_head :: "vliw \<Rightarrow> u32 \<Rightarrow> string" where
  "trace_head v p =
    fmt_08x p @ '': '' @ getVliwName (uint (opcode v)) @ '' '' @ regNameTable ! unat (rd v) @ '','' @
    regNameTable ! unat (rs1 v) @ '','' @ regNameTable ! unat (rs2 v) @ '', '' @ fmt_08x (imm v) @ nl"

lemma trace_lines_sw:
  assumes "opcode v = VLIW_SW" and "regs_ok v" and "regs32 (cpu s)"
  shows "trace_lines v s =
    (let a = reg_val (cpu s) (rs1 v) + imm v in chain (Memory_read32 (memory s) a) (\<lambda>(w, e).
      Inr (trace_head v (pc (cpu s)) @ trace_access ''sw'' (regNameTable ! unat (rs2 v)) (regNameTable ! unat (rs1 v))
        (imm v) '' <= 0x'' a (reg_val (cpu s) (rs2 v)) (fmt_08x w), apply_host e s)))"
  using assms
  by (simp add: trace_lines_def trace_store_def name_of_ok regs_ok_def Let_def chain_assoc case_prod_unfold
      trace_head_def getVliwName_def length_VliwName)

lemma trace_lines_lw:
  assumes "opcode v = VLIW_LW" and "regs_ok v" and "regs32 (cpu s)"
  shows "trace_lines v s =
    (let a = reg_val (cpu s) (rs1 v) + imm v in chain (Memory_read32 (memory s) a) (\<lambda>(w, e).
      Inr (trace_head v (pc (cpu s)) @ trace_access ''lw'' (regNameTable ! unat (rd v)) (regNameTable ! unat (rs1 v))
        (imm v) '' => 0x'' a (reg_val (cpu s) (rd v)) (fmt_08x w), apply_host e s)))"
  using assms
  by (simp add: trace_lines_def trace_load_def load_name_def name_of_ok regs_ok_def Let_def chain_assoc case_prod_unfold
      trace_head_def getVliwName_def length_VliwName)

section \<open>A sample\<close>

text \<open>\<open>sw a0,4(a1)\<close> and \<open>lw a1,0(a1)\<close>, with 7 in \<open>a0\<close> and an address in \<open>a1\<close>.\<close>

definition sw_sample :: vliw where
  "sw_sample = \<lparr>opcode = VLIW_SW, rd = 0, rs1 = 11, rs2 = 10, imm = 4\<rparr>"

definition lw_sample :: vliw where
  "lw_sample = \<lparr>opcode = VLIW_LW, rd = 11, rs1 = 11, rs2 = 0, imm = 0\<rparr>"

definition trace_machine :: "u32 \<Rightarrow> nat machine" where
  "trace_machine a = (bare_machine 0xdeadbeef)\<lparr>cpu := (cpu (bare_machine 0xdeadbeef))\<lparr>reg := (replicate 32 0)[10 := 7, 11 := a]\<rparr>\<rparr>"

lemma sample_regs: "regs_ok sw_sample" "regs_ok lw_sample" "cpu_inv (cpu (trace_machine a))"
  by (simp_all add: sw_sample_def lw_sample_def trace_machine_def regs_ok_def cpu_inv_def regs32_def reg_val_def)

lemma sample_vals:
  "reg_val (cpu (trace_machine a)) 11 = a" "reg_val (cpu (trace_machine a)) 10 = 7" "pc (cpu (trace_machine a)) = 0"
  by (simp_all add: trace_machine_def reg_val_def bare_facts)

section \<open>The properties\<close>

text \<open>
  C40: The trace of a store shows the store: after a 32-bit store to memory, the access line
  names the address the store used and twice the value it stored, once from the register and once
  read back, and making the lines changes nothing.
\<close>

theorem trace_shows_store:
  assumes "opcode v = VLIW_SW" and "regs_ok v" and "cpu_inv (cpu s)"
    and "execute os v s = Inr s'" and "writable (memory s) (reg_val (cpu s) (rs1 v) + imm v)"
  shows "trace_lines v s' = Inr (trace_head v (pc (cpu s)) @
    trace_access ''sw'' (regNameTable ! unat (rs2 v)) (regNameTable ! unat (rs1 v)) (imm v) '' <= 0x''
      (reg_val (cpu s) (rs1 v) + imm v) (reg_val (cpu s) (rs2 v)) (fmt_08x (reg_val (cpu s) (rs2 v))), s')"
proof -
  let ?a = "reg_val (cpu s) (rs1 v) + imm v" and ?x = "reg_val (cpu s) (rs2 v)"
  obtain m e where m: "Memory_write32 (memory s) ?a ?x = Inr (m, e)"
    and s': "s' = (let t = apply_host e (s\<lparr>memory := m\<rparr>) in put_cpu t (clear_r0 (cpu t)))"
    using assms(4) unfolding execute_sw [OF assms(1-3)] by (auto simp: faultfacts Let_def)
  have r: "Memory_read32 m ?a = Inr (?x, NoEffect)" "e = NoEffect" using read_back(1) [OF assms(5) m] by simp_all
  then have "cpu s' = cpu s" "memory s' = m" using s' assms(3) by (simp_all add: apply_host_def put_cpu_def clear_r0_same)
  then show ?thesis using r assms(3)
    by (subst trace_lines_sw [OF assms(1,2)]) (simp_all add: cpu_inv_def Let_def apply_host_def)
qed

theorem trace_shows_store_witness:
  "\<exists>s'. execute sample_os sw_sample (trace_machine 0x40000000) = Inr s' \<and>
    trace_lines sw_sample s' = Inr (trace_head sw_sample 0 @
      trace_access ''sw'' ''a0'' ''a1'' 4 '' <= 0x'' 0x40000004 7 (fmt_08x 7), s')"
proof -
  let ?s = "trace_machine 0x40000000"
  have "case execute sample_os sw_sample ?s of Inr _ \<Rightarrow> True | Inl _ \<Rightarrow> False" by code_simp
  then obtain s' where x: "execute sample_os sw_sample ?s = Inr s'" by (auto split: sum.splits)
  have "writable (memory ?s) 0x40000004" by code_simp
  then show ?thesis
    using trace_shows_store [OF _ sample_regs(1) sample_regs(3) x] x
    by (auto simp: sw_sample_def sample_vals regNameTable_def)
qed

text \<open>
  A store to the console's port is traced by a read of the port, and the port does not
  look at whether it is read or written: the trace adds a character 0 to the console.
\<close>

theorem trace_writes_port:
  assumes "opcode v = VLIW_SW" and "regs_ok v" and "cpu_inv (cpu s)"
    and "execute os v s = Inr s'" and "reg_val (cpu s) (rs1 v) + imm v = 0xfffffffc"
    and "\<not> readable (memory s) 0xfffffffc"
  shows "\<exists>t. trace_lines v s' = Inr (t, s'\<lparr>console := console s' @ [Uart 0]\<rparr>)"
proof -
  let ?x = "reg_val (cpu s) (rs2 v)"
  have n: "\<not> isdata (memory s) 0xfffffffc" "\<not> istext (memory s) 0xfffffffc"
    using assms(6) by (simp_all add: readable_def)
  have h: "ishost (memory s) 0xfffffffc" and s': "s' = put_cpu (apply_host (host_write 0xfffffffc ?x) s)
      (clear_r0 (cpu (apply_host (host_write 0xfffffffc ?x) s)))"
    using assms(4) unfolding execute_sw [OF assms(1-3)] assms(5)
    by (auto simp: Memory_write32_def n faultfacts Let_def split: if_splits)
  have m: "memory s' = memory s" "reg (cpu s') = reg (cpu s)"
    using clear_r0_same [OF assms(3)]
    by (auto simp: s' put_cpu_def apply_host_def clear_r0_def split: host_effect.splits dest: arg_cong [of _ _ reg])
  then have "regs32 (cpu s')" "reg_val (cpu s') (rs1 v) = reg_val (cpu s) (rs1 v)"
    using assms(3) by (simp_all add: cpu_inv_def regs32_def reg_val_def)
  moreover have "Memory_read32 (memory s') 0xfffffffc = Inr (0, UartWrite 0)"
    by (simp add: m Memory_read32_def n h host_read_def host_def CMD_POWER_OFF_def)
  ultimately show ?thesis
    by (subst trace_lines_sw [OF assms(1,2)]) (simp_all add: assms(5) Let_def apply_host_def)
qed

theorem trace_writes_port_witness:
  "\<exists>s' t. execute sample_os sw_sample (trace_machine 0xfffffff8) = Inr s' \<and> console s' = [Uart 7] \<and>
    trace_lines sw_sample s' = Inr (t, s'\<lparr>console := [Uart 7, Uart 0]\<rparr>)"
proof -
  let ?s = "trace_machine 0xfffffff8"
  have "case execute sample_os sw_sample ?s of Inr s \<Rightarrow> console s = [Uart 7] | Inl _ \<Rightarrow> False" by code_simp
  then obtain s' where x: "execute sample_os sw_sample ?s = Inr s'" "console s' = [Uart 7]" by (auto split: sum.splits)
  have "\<not> readable (memory ?s) 0xfffffffc" by code_simp
  then show ?thesis
    using trace_writes_port [OF _ sample_regs(1) sample_regs(3) x(1)] x
    by (auto simp: sw_sample_def sample_vals)
qed

text \<open>
  A load into its own base register is traced at another address: the trace adds the
  offset to the value just loaded. Where that is no address of the memory the trace ends the
  program, which does not end it without the trace.
\<close>

theorem trace_stops_load:
  assumes "opcode v = VLIW_LW" and "regs_ok v" and "cpu_inv (cpu s)"
    and "execute os v s = Inr s'" and "rd v = rs1 v"
    and "\<not> readable (memory s) (reg_val (cpu s') (rd v) + imm v)"
    and "\<not> ishost (memory s) (reg_val (cpu s') (rd v) + imm v)"
  shows "trace_lines v s' = Inl (FatalAccess Read32 (reg_val (cpu s') (rd v) + imm v))"
proof -
  obtain y e where "s' = (let t = apply_host e s in put_cpu t (clear_r0 (reg_set (rd v) y (cpu t))))"
    using assms(4) unfolding execute_lw [OF assms(1-3)] by (auto simp: faultfacts Let_def)
  then have s': "memory s' = memory s" "regs32 (cpu s')"
    using assms(3) by (auto simp: Let_def put_cpu_def apply_host_def cpu_inv_def regs32_def clear_r0_def reg_set_def
        split: host_effect.splits)
  have "Memory_read32 (memory s) (reg_val (cpu s') (rd v) + imm v) = Inl (FatalAccess Read32 (reg_val (cpu s') (rd v) + imm v))"
    using assms(6,7) by (simp add: Memory_read32_def readable_def)
  then show ?thesis using assms(5) s' by (subst trace_lines_lw [OF assms(1,2)]) (simp_all add: Let_def)
qed

theorem trace_stops_load_witness:
  "\<exists>s'. execute sample_os lw_sample (trace_machine 0) = Inr s' \<and>
    trace_lines lw_sample s' = Inl (FatalAccess Read32 0xdeadbeef)"
proof -
  let ?s = "trace_machine 0"
  have "case execute sample_os lw_sample ?s of Inr s \<Rightarrow> reg_val (cpu s) 11 = 0xdeadbeef | Inl _ \<Rightarrow> False" by code_simp
  then obtain s' where x: "execute sample_os lw_sample ?s = Inr s'" "reg_val (cpu s') 11 = 0xdeadbeef" by (auto split: sum.splits)
  have "\<not> readable (memory ?s) 0xdeadbeef" "\<not> ishost (memory ?s) 0xdeadbeef" by code_simp+
  then show ?thesis
    using trace_stops_load [OF _ sample_regs(2) sample_regs(3) x(1)] x
    by (auto simp: lw_sample_def)
qed

end
