(* ===== verification/Priv_Props.thy ===== *)
theory Priv_Props
  imports Isa_Priv
begin

text \<open>
  A turn of the loop as a step of the privileged reference, and what the exceptions' handling of the
  enable bit means for a handler.
\<close>

unbundle bit_operations_syntax

text \<open>
  C3: A turn of the run loop is a step of the trap reference. Whatever the decode caches hold, a turn
  in which an interrupt is due enters its handler, with the program counter, the cause and the
  enable bits saved, and does not execute the instruction; otherwise a control-register
  instruction exchanges a register and a control register, an environment call or breakpoint
  (without \<open>--newlib\<close>) enters the handler, \<open>mret\<close> goes back and \<open>wfi\<close> does nothing. In each case the registers, the
  control registers, the cycle counter and the program counter are exactly the reference's, and memory, console and
  host are as they were. Every control register is meant but the host's clock and random numbers.
\<close>

theorem run_step_is_priv_step:
  assumes "caches_ok s" and "small_text (memory s)" and "\<not> bit (pc (cpu s)) 0" and "cpu_inv (cpu s)"
    and "fetch_code (memory s) (cpu s) = Inr (code, len)" and "isa_decode code = Some i"
    and "i = I_SYS Y_ECALL \<longrightarrow> \<not> do_newlib s"
    and "priv_turn i len (priv_of (cpu s)) = Some p"
  shows "\<exists>s'. run_step os s = Inr s' \<and> priv_of (cpu s') = p \<and> cpu_inv (cpu s') \<and>
    memory s' = memory s \<and> console s' = console s \<and> os_state s' = os_state s"
proof -
  obtain t where t: "run_insn os (vliw_of i) len s = Inr t" "priv_of (cpu t) = p" "cpu_inv (cpu t)"
    "memory t = memory s" "console t = console s" "os_state t = os_state s"
    using priv_run_insn [OF assms(4) isa_decode_wf [OF assms(6)] _ assms(8)] assms(7) by blast
  then obtain s' where s': "run_step os s = Inr s'" "t = with_caches (decoder s) (vliw_insn s) s'"
    using run_step_insn [OF assms(1-3,5,6), of os] swap_back by metis
  with t show ?thesis by auto
qed

text \<open>\<open>csrrwi x5,mtvec,4\<close>, and \<open>lui\<close> with the timer's interrupt due.\<close>

definition irq_machine :: "nat machine" where
  "irq_machine = (bare_machine 0x000012b7)\<lparr>cpu := (cpu (bare_machine 0x000012b7))\<lparr>cycle := 0xf, mstatus := 0x8,
    mie := 0x80, mip := 0x80, mtvec := 0x40\<rparr>\<rparr>"

theorem run_step_is_priv_step_witness:
  "(\<exists>s'. run_step sample_os (bare_machine 0x305252f3) = Inr s' \<and> pc (cpu s') = 4 \<and> mtvec (cpu s') = 4) \<and>
   (\<exists>s'. run_step sample_os irq_machine = Inr s' \<and> pc (cpu s') = 0x40 \<and> mcause (cpu s') = 0x80000007 \<and>
      mepc (cpu s') = 0 \<and> reg_val (cpu s') 5 = 0)"
proof
  let ?s = "bare_machine 0x305252f3"
  have d: "isa_decode 0x305252f3 = Some (I_CSRI C_W 5 4 0x305)" by code_simp
  have "cycle (cpu ?s) = 0" by (simp add: bare_machine_def Cpu_reset_def Cpu_new_def)
  then have "\<exists>p. priv_turn (I_CSRI C_W 5 4 0x305) 4 (priv_of (cpu ?s)) = Some p \<and> ppc p = 4 \<and> csrs p 0x305 = 4"
    by (simp add: priv_turn_def poll_def Let_def csr_step_def csr_write_def csr_read_def csr_held_def csr_cell_def priv_of_def bare_facts(3))
  then obtain p where p: "priv_turn (I_CSRI C_W 5 4 0x305) 4 (priv_of (cpu ?s)) = Some p" "ppc p = 4" "csrs p 0x305 = 4"
    by blast
  obtain s' where s': "run_step sample_os ?s = Inr s'" "priv_of (cpu s') = p"
    using run_step_is_priv_step [OF bare_facts(1,2) _ bare_facts(4) bare_fetch d _ p(1), of sample_os] by (auto simp: bare_facts(3))
  then show "\<exists>s'. run_step sample_os ?s = Inr s' \<and> pc (cpu s') = 4 \<and> mtvec (cpu s') = 4"
    using p(2,3) by (auto simp: priv_of_def)
next
  let ?s = irq_machine
  have eq: "memory ?s = memory (bare_machine 0x000012b7)" "pc (cpu ?s) = 0" "reg (cpu ?s) = reg (cpu (bare_machine 0x000012b7))"
    using bare_facts(3) by (simp_all add: irq_machine_def)
  have c: "caches_ok ?s" "cpu_inv (cpu ?s)" using bare_facts(1,4) [of "0x000012b7"]
    by (simp_all add: irq_machine_def caches_ok_def cpu_inv_def regs32_def reg_val_def)
  have f: "fetch_code (memory ?s) (cpu ?s) = Inr (0x000012b7, 4)"
    using bare_fetch [of "0x000012b7"] by (simp add: fetch_code_def Cpu_fetch_def eq bare_facts(3))
  have d: "isa_decode 0x000012b7 = Some (I_LUI 5 0x1000)" by code_simp
  have "\<exists>p. priv_turn (I_LUI 5 0x1000) 4 (priv_of (cpu ?s)) = Some p \<and> ppc p = 0x40 \<and>
      csrs p 0x342 = 0x80000007 \<and> csrs p 0x341 = 0 \<and> xpr p 5 = xpr (priv_of (cpu ?s)) 5"
    by (simp add: irq_machine_def priv_turn_def poll_def irq_due_def interrupt_def trap_to_def raise_timer_def priv_of_def bare_facts(3))
  then obtain p where p: "priv_turn (I_LUI 5 0x1000) 4 (priv_of (cpu ?s)) = Some p" "ppc p = 0x40"
      "csrs p 0x342 = 0x80000007" "csrs p 0x341 = 0" "xpr p 5 = xpr (priv_of (cpu ?s)) 5" by blast
  obtain s' where s': "run_step sample_os ?s = Inr s'" "priv_of (cpu s') = p"
    using run_step_is_priv_step [OF c(1) _ _ c(2) f d _ p(1), of sample_os] by (auto simp: eq bare_facts(2))
  have "reg_val (cpu ?s) 5 = 0" by (simp add: eq reg_val_def) (simp add: bare_machine_def Cpu_reset_def Cpu_new_def)
  then show "\<exists>s'. run_step sample_os ?s = Inr s' \<and> pc (cpu s') = 0x40 \<and> mcause (cpu s') = 0x80000007 \<and>
      mepc (cpu s') = 0 \<and> reg_val (cpu s') 5 = 0"
    using p(2-5) s' by (auto simp: priv_of_def)
qed

text \<open>
  An exception does not switch interrupts off: one that is pending when an environment
  call or a breakpoint is executed is taken in the handler, and what it saves is an address of the
  handler, in the place of the exception's.
\<close>

theorem exception_interruptible:
  assumes "f \<in> {ecall, ebreak}" and "bit (mstatus c) 3 \<and> (external_pending c \<or> timer_pending c)"
  shows "bit (mstatus (f c)) 3 \<and> (external_pending (f c) \<or> timer_pending (f c)) \<and>
    mepc (f c) = pc c \<and> mepc (take_irq n ((f c)\<lparr>pc := pc_next (f c)\<rparr>)) = mtvec c"
  using assms by (auto simp: ecall_form bit_status external_pending_def timer_pending_def take_irq_def)

theorem exception_interruptible_witness:
  "mepc (take_irq 7 ((ecall (cpu irq_machine))\<lparr>pc := pc_next (ecall (cpu irq_machine))\<rparr>)) = 0x40"
proof -
  have "bit (mstatus (cpu irq_machine)) 3 \<and> (external_pending (cpu irq_machine) \<or> timer_pending (cpu irq_machine))"
    by (simp add: irq_machine_def external_pending_def timer_pending_def)
  then show ?thesis using exception_interruptible [of ecall "cpu irq_machine" 7] by (simp add: irq_machine_def)
qed

end
