(* ===== verification/Isa_Samples.thy ===== *)
theory Isa_Samples
  imports Isa_Run
begin

text \<open>
  Three small programs, run by the reference and so by the run loop (\<open>board_run_loop\<close>): one that traps and comes back,
  one that prints and exits, one that stores.
\<close>

unbundle bit_operations_syntax

text \<open>
  A program that sets its handler (\<open>csrrwi x0,mtvec,8\<close>) and makes an environment call; the handler reads the
  cause and returns, to the call.
\<close>

definition trap_code :: "u8 list" where
  "trap_code = concat (map (le_bytes 4) [0x30545073 :: u32, 0x00000073, 0x34202573, 0x30200073])"

definition trap_machine :: "nat machine" where
  "trap_machine = (bare_machine 0)\<lparr>memory := (memory (bare_machine 0))\<lparr>
    insnMem := \<lparr>memBase = 0, memLen = 16, data = trap_code\<rparr>, do_core := False\<rparr>\<rparr>"

lemma trap_isa:
  "isa_at (memory trap_machine) 0 = Some (I_CSRI C_W 0 8 0x305, 4)"
  "isa_at (memory trap_machine) 4 = Some (I_SYS Y_ECALL, 4)"
  "isa_at (memory trap_machine) 8 = Some (I_CSR C_S 10 0 0x342, 4)"
  "isa_at (memory trap_machine) 12 = Some (I_SYS Y_MRET, 4)"
proof -
  have m: "insnMem (memory trap_machine) = \<lparr>memBase = 0, memLen = 16, data = trap_code\<rparr>" by (simp add: trap_machine_def)
  show "isa_at (memory trap_machine) 0 = Some (I_CSRI C_W 0 8 0x305, 4)"
    "isa_at (memory trap_machine) 4 = Some (I_SYS Y_ECALL, 4)"
    "isa_at (memory trap_machine) 8 = Some (I_CSR C_S 10 0 0x342, 4)"
    "isa_at (memory trap_machine) 12 = Some (I_SYS Y_MRET, 4)"
    unfolding isa_at_def m by code_simp+
qed

lemma trap_ready: "ready trap_machine" "\<not> stop (cpu trap_machine)"
proof -
  have "length trap_code = 16" by code_simp
  moreover have "caches_ok trap_machine"
    by (simp add: caches_ok_def trap_machine_def bare_machine_def sample_machine_def vcache.sound_start decoder_ok_start)
  ultimately show "ready trap_machine" "\<not> stop (cpu trap_machine)"
    using bare_facts(4,8,9) [of 0]
    by (simp_all add: ready_def trap_machine_def small_text_def no_wrap_def)
      (simp add: bare_machine_def sample_machine_def sample_memory_def)
qed

theorem trap_sample:
  "\<exists>s. run_loop sample_os 4 trap_machine = Inr s \<and> pc (cpu s) = 4 \<and> reg_val (cpu s) 10 = 8 \<and> mepc (cpu s) = 4 \<and>
    mtvec (cpu s) = 8 \<and> cycle (cpu s) = 4"
proof -
  let ?m = "memory trap_machine" and ?g = "gpr (abs_at 0 trap_machine)" and ?f = "bcsr (board_of trap_machine)"
  let ?b = "\<lambda>g p f n. \<lparr>core = \<lparr>gpr = g, apc = p, amem = ?m\<rparr>, bcsr = f, bclk = n, hosted = False, edata = endOfData (cpu trap_machine)\<rparr>"
  have f: "?f = (\<lambda>_. 0)"
    by (simp add: board_of_def board_at_def trap_machine_def bare_machine_def fun_eq_iff csr_view_def csr_val_def
        Cpu_reset_def Cpu_new_def)
  have s: "board_of trap_machine = ?b ?g 0 (\<lambda>_. 0) 0"
    unfolding f [symmetric] by (simp add: board_of_def board_at_def abs_at_def trap_machine_def bare_machine_def
        Cpu_reset_def Cpu_new_def)
  note step = board_step_def board_exec_def trap_isa xset_def poll_def priv_part_def with_priv_def csr_step_def csr_write_def
    csr_read_def csr_held_def csr_cell_def exception_def trap_to_def return_trap_def set_mpie_def set_mie_def Let_def
  have 1: "board_step (?b ?g 0 (\<lambda>_. 0) 0) = Some (?b ?g 4 ((\<lambda>_. 0)(0x305 := 8)) 1, [], False)"
    by (simp add: step)
  have 2: "board_step (?b ?g 4 ((\<lambda>_. 0)(0x305 := 8)) 1) =
      Some (?b ?g 8 ((\<lambda>_. 0)(0x305 := 8, 0x341 := 4, 0x342 := 8, 0x300 := 0)) 2, [], False)"
    by (simp add: step)
  have 3: "board_step (?b ?g 8 ((\<lambda>_. 0)(0x305 := 8, 0x341 := 4, 0x342 := 8, 0x300 := 0)) 2) =
      Some (?b (?g(10 := 8)) 12 ((\<lambda>_. 0)(0x305 := 8, 0x341 := 4, 0x342 := 8, 0x300 := 0)) 3, [], False)"
    by (simp add: step)
  have 4: "board_step (?b (?g(10 := 8)) 12 ((\<lambda>_. 0)(0x305 := 8, 0x341 := 4, 0x342 := 8, 0x300 := 0)) 3) =
      Some (?b (?g(10 := 8)) 4 ((\<lambda>_. 0)(0x305 := 8, 0x341 := 4, 0x342 := 8, 0x300 := 0)) 4, [], False)"
    by (simp add: step)
  obtain b where b: "board_run 4 (board_of trap_machine) = Some (b, [], False)"
    "b = ?b (?g(10 := 8)) 4 ((\<lambda>_. 0)(0x305 := 8, 0x341 := 4, 0x342 := 8, 0x300 := 0)) 4"
    unfolding s by (simp add: numeral_nat 1 2 3 4 del: fun_upd_apply)
  obtain t where t: "run_loop sample_os 4 trap_machine = Inr t" "board_of t = b"
    using board_run_loop [OF trap_ready b(1), of 4] by blast
  have "gpr (core (board_of t)) 10 = 8" unfolding t(2) b(2) by simp
  then have "reg_val (cpu t) 10 = 8" by (simp add: board_of_def abs_at_def)
  moreover have c: "csr_view (cpu t) = bcsr b" "cycle (cpu t) = 4" "pc (cpu t) = 4"
    using t(2) unfolding b(2) by (auto simp: board_of_def board_at_def abs_at_def)
  ultimately show ?thesis using t(1) csr_views(3,4) [of "cpu t"] by (auto simp: b(2))
qed

text \<open>A program that writes two bytes of its data to standard output and exits, with \<open>--newlib\<close>.\<close>

definition newlib_code :: "u8 list" where
  "newlib_code = concat (map (le_bytes 4) [0x00100513 :: u32, 0x400005b7, 0x00200613, 0x04000893, 0x00000073,
    0x05d00893, 0x00000073])"

definition newlib_machine :: "nat machine" where
  "newlib_machine = (bare_machine 0)\<lparr>do_newlib := True, memory := (memory (bare_machine 0))\<lparr>
    insnMem := \<lparr>memBase = 0, memLen = 28, data = newlib_code\<rparr>, do_core := False\<rparr>\<rparr>"

lemma newlib_isa:
  "isa_at (memory newlib_machine) 0 = Some (I_IMM A_ADD 10 0 1, 4)"
  "isa_at (memory newlib_machine) 4 = Some (I_LUI 11 0x40000000, 4)"
  "isa_at (memory newlib_machine) 8 = Some (I_IMM A_ADD 12 0 2, 4)"
  "isa_at (memory newlib_machine) 12 = Some (I_IMM A_ADD 17 0 64, 4)"
  "isa_at (memory newlib_machine) 16 = Some (I_SYS Y_ECALL, 4)"
  "isa_at (memory newlib_machine) 20 = Some (I_IMM A_ADD 17 0 93, 4)"
  "isa_at (memory newlib_machine) 24 = Some (I_SYS Y_ECALL, 4)"
proof -
  have m: "insnMem (memory newlib_machine) = \<lparr>memBase = 0, memLen = 28, data = newlib_code\<rparr>" by (simp add: newlib_machine_def)
  show "isa_at (memory newlib_machine) 0 = Some (I_IMM A_ADD 10 0 1, 4)"
    "isa_at (memory newlib_machine) 4 = Some (I_LUI 11 0x40000000, 4)"
    "isa_at (memory newlib_machine) 8 = Some (I_IMM A_ADD 12 0 2, 4)"
    "isa_at (memory newlib_machine) 12 = Some (I_IMM A_ADD 17 0 64, 4)"
    "isa_at (memory newlib_machine) 16 = Some (I_SYS Y_ECALL, 4)"
    "isa_at (memory newlib_machine) 20 = Some (I_IMM A_ADD 17 0 93, 4)"
    "isa_at (memory newlib_machine) 24 = Some (I_SYS Y_ECALL, 4)"
    unfolding isa_at_def m by code_simp+
qed

lemma newlib_ready: "ready newlib_machine" "\<not> stop (cpu newlib_machine)"
proof -
  have "length newlib_code = 28" by code_simp
  moreover have "caches_ok newlib_machine"
    by (simp add: caches_ok_def newlib_machine_def bare_machine_def sample_machine_def vcache.sound_start decoder_ok_start)
  ultimately show "ready newlib_machine" "\<not> stop (cpu newlib_machine)"
    using bare_facts(4,8,9) [of 0]
    by (simp_all add: ready_def newlib_machine_def small_text_def no_wrap_def)
      (simp add: bare_machine_def sample_machine_def sample_memory_def)
qed

lemma newlib_load: "mem_load (memory newlib_machine) 0x40000000 2 = Inr [0, 0]"
  by (simp add: newlib_machine_def bare_machine_def routed_load_def Memory_getPtr_def isdata_def sample_memory_def ptr_load_def
      region_seg_def seg_off_def slice_of_def)
    (simp add: numeral_2_eq_2)

theorem newlib_sample:
  "\<exists>s. run_loop sample_os 100 newlib_machine = Inr s \<and> console s = [Stdout 0, Stdout 0] \<and> pc (cpu s) = 28 \<and> cycle (cpu s) = 7"
proof -
  let ?m = "memory newlib_machine" and ?g = "\<lambda>r :: ireg. reg_val (cpu newlib_machine) (ucast r)"
  let ?b = "\<lambda>g p n. \<lparr>core = \<lparr>gpr = g, apc = p, amem = ?m\<rparr>, bcsr = (\<lambda>_. 0), bclk = n, hosted = True,
    edata = endOfData (cpu newlib_machine)\<rparr>"
  have z: "?g 0 = 0" by (simp add: newlib_machine_def bare_machine_def Cpu_reset_def Cpu_new_def reg_val_def)
  have f: "bcsr (board_of newlib_machine) = (\<lambda>_. 0)"
    by (simp add: board_of_def board_at_def newlib_machine_def bare_machine_def fun_eq_iff csr_view_def csr_val_def
        Cpu_reset_def Cpu_new_def)
  have s: "board_of newlib_machine = ?b ?g 0 0" "console newlib_machine = []"
    unfolding f [symmetric] by (simp_all add: board_of_def board_at_def abs_at_def newlib_machine_def bare_machine_def
        sample_machine_def Cpu_reset_def Cpu_new_def)
  note step = board_step_def board_exec_def newlib_isa xset_def poll_def priv_part_def with_priv_def newlib_call_def Let_def
  let ?h = "?g(10 := 1, 11 := 0x40000000, 12 := 2, 17 := 64)"
  have "board_step (?b ?g 0 0) = Some (?b (?g(10 := 1)) 4 1, [], False)"
    "board_step (?b (?g(10 := 1)) 4 1) = Some (?b (?g(10 := 1, 11 := 0x40000000)) 8 2, [], False)"
    "board_step (?b (?g(10 := 1, 11 := 0x40000000)) 8 2) = Some (?b (?g(10 := 1, 11 := 0x40000000, 12 := 2)) 12 3, [], False)"
    "board_step (?b (?g(10 := 1, 11 := 0x40000000, 12 := 2)) 12 3) = Some (?b ?h 16 4, [], False)"
    using z by (simp_all add: step)
  moreover have "board_step (?b ?h 16 4) = Some (?b (?h(10 := 2)) 20 5, [Stdout 0, Stdout 0], False)"
    using newlib_load by (simp add: step)
  moreover have "board_step (?b (?h(10 := 2)) 20 5) = Some (?b (?h(10 := 2, 17 := 93)) 24 6, [], False)"
    "board_step (?b (?h(10 := 2, 17 := 93)) 24 6) = Some (?b (?h(10 := 2, 17 := 93)) 28 7, [], True)"
    using z by (simp_all add: step)
  ultimately have b: "board_run 7 (board_of newlib_machine) = Some (?b (?h(10 := 2, 17 := 93)) 28 7, [Stdout 0, Stdout 0], True)"
    unfolding s(1) by (simp add: numeral_nat del: fun_upd_apply)
  obtain t where t: "run_loop sample_os 100 newlib_machine = Inr t" "board_of t = ?b (?h(10 := 2, 17 := 93)) 28 7"
    "console t = [Stdout 0, Stdout 0]"
    using board_run_loop [OF newlib_ready b, of 100 sample_os] s(2) by auto
  then have "pc (cpu t) = 28" "cycle (cpu t) = 7" by (auto simp: board_of_def board_at_def abs_at_def)
  then show ?thesis using t by blast
qed

text \<open>A program that stores a word in the data segment.\<close>

definition store_code :: "u8 list" where
  "store_code = concat (map (le_bytes 4) [0x400002b7 :: u32, 0x05500313, 0x0062a023])"

definition store_machine :: "nat machine" where
  "store_machine = (bare_machine 0)\<lparr>memory := (memory (bare_machine 0))\<lparr>
    insnMem := \<lparr>memBase = 0, memLen = 12, data = store_code\<rparr>, do_core := False\<rparr>\<rparr>"

lemma store_isa:
  "isa_at (memory store_machine) 0 = Some (I_LUI 5 0x40000000, 4)"
  "isa_at (memory store_machine) 4 = Some (I_IMM A_ADD 6 0 0x55, 4)"
  "isa_at (memory store_machine) 8 = Some (I_ST S_W 5 6 0, 4)"
proof -
  have m: "insnMem (memory store_machine) = \<lparr>memBase = 0, memLen = 12, data = store_code\<rparr>" by (simp add: store_machine_def)
  show "isa_at (memory store_machine) 0 = Some (I_LUI 5 0x40000000, 4)"
    "isa_at (memory store_machine) 4 = Some (I_IMM A_ADD 6 0 0x55, 4)"
    "isa_at (memory store_machine) 8 = Some (I_ST S_W 5 6 0, 4)"
    unfolding isa_at_def m by code_simp+
qed

lemma store_code_len: "length store_code = 12"
  by code_simp

lemma store_facts:
  "ready store_machine" "\<not> stop (cpu store_machine)" "machine_inv store_machine" "\<not> do_newlib store_machine"
  "\<not> do_core (memory store_machine)" "running (cpu store_machine)" "cycle (cpu store_machine) = 0"
proof -
  have "caches_ok store_machine"
    by (simp add: caches_ok_def store_machine_def bare_machine_def sample_machine_def vcache.sound_start decoder_ok_start)
  then show "ready store_machine" "\<not> stop (cpu store_machine)"
    using bare_facts(4,8,9) [of 0]
    by (simp_all add: ready_def store_machine_def small_text_def no_wrap_def store_code_len)
      (simp add: bare_machine_def sample_machine_def sample_memory_def)
  show "machine_inv store_machine" using bare_facts(4,10) [of 0]
    by (simp add: machine_inv_def memory_ok_def store_machine_def store_code_len)
  show "\<not> do_newlib store_machine" "\<not> do_core (memory store_machine)" "running (cpu store_machine)" "cycle (cpu store_machine) = 0"
    by (simp_all add: store_machine_def bare_machine_def sample_machine_def Cpu_reset_def Cpu_new_def)
qed

theorem store_sample:
  "\<exists>s. run_loop sample_os 3 store_machine = Inr s \<and> pc (cpu s) = 12 \<and> cycle (cpu s) = 3 \<and>
    mem_load (memory s) 0x40000000 4 = Inr [0x55, 0, 0, 0] \<and> mem_load (memory store_machine) 0x40000000 4 = Inr [0, 0, 0, 0]"
proof -
  let ?m = "memory store_machine" and ?g = "\<lambda>r :: ireg. reg_val (cpu store_machine) (ucast r)"
  let ?b = "\<lambda>g p m n. \<lparr>core = \<lparr>gpr = g, apc = p, amem = m\<rparr>, bcsr = (\<lambda>_. 0), bclk = n, hosted = False,
    edata = endOfData (cpu store_machine)\<rparr>"
  have z: "?g 0 = 0" by (simp add: store_machine_def bare_machine_def Cpu_reset_def Cpu_new_def reg_val_def)
  have f: "bcsr (board_of store_machine) = (\<lambda>_. 0)"
    by (simp add: board_of_def board_at_def store_machine_def bare_machine_def fun_eq_iff csr_view_def csr_val_def
        Cpu_reset_def Cpu_new_def)
  have s: "board_of store_machine = ?b ?g 0 ?m 0"
    unfolding f [symmetric] by (simp add: board_of_def board_at_def abs_at_def store_machine_def bare_machine_def
        sample_machine_def Cpu_reset_def Cpu_new_def)
  have w: "writable ?m 0x40000000"
    by (simp add: writable_def isdata_def store_machine_def bare_machine_def sample_memory_def)
  have zeros: "mem_load ?m 0x40000000 4 = Inr [0, 0, 0, 0]"
    by (simp add: store_machine_def bare_machine_def routed_load_def Memory_getPtr_def isdata_def sample_memory_def ptr_load_def
        region_seg_def seg_off_def slice_of_def)
      (simp add: numeral_nat)
  obtain m where m: "mem_store ?m 0x40000000 [0x55, 0, 0, 0] = Inr m"
    by (simp add: store_machine_def bare_machine_def sample_memory_def access_defs isdata_def istext_def seg_off_def)
  have l: "mem_load m 0x40000000 4 = Inr [0x55, 0, 0, 0]" "mem_load ?m 0x40000000 4 = Inr [0, 0, 0, 0]"
    using mem.via.load_same [OF m] zeros by (simp_all add: numeral_nat)
  have le: "le_bytes 4 (0x55 :: u32) = [0x55, 0, 0, 0]" by code_simp
  note step = board_step_def board_exec_def store_isa xset_def poll_def priv_part_def with_priv_def Let_def
  have "board_step (?b ?g 0 ?m 0) = Some (?b (?g(5 := 0x40000000)) 4 ?m 1, [], False)"
    "board_step (?b (?g(5 := 0x40000000)) 4 ?m 1) = Some (?b (?g(5 := 0x40000000, 6 := 0x55)) 8 ?m 2, [], False)"
    using z by (simp_all add: step)
  moreover have "board_step (?b (?g(5 := 0x40000000, 6 := 0x55)) 8 ?m 2) =
      Some (?b (?g(5 := 0x40000000, 6 := 0x55)) 12 m 3, [], False)"
    using w m le by (simp add: step)
  ultimately have b: "board_run 3 (board_of store_machine) = Some (?b (?g(5 := 0x40000000, 6 := 0x55)) 12 m 3, [], False)"
    unfolding s by (simp add: numeral_nat del: fun_upd_apply)
  obtain t where t: "run_loop sample_os 3 store_machine = Inr t" "board_of t = ?b (?g(5 := 0x40000000, 6 := 0x55)) 12 m 3"
    using board_run_loop [OF store_facts(1,2) b, of 3 sample_os] by auto
  then have "pc (cpu t) = 12" "cycle (cpu t) = 3" "memory t = m" by (auto simp: board_of_def board_at_def abs_at_def)
  then show ?thesis using t l by blast
qed

end
