(* ===== verification/Csr_Props.thy ===== *)
theory Csr_Props
  imports Csr_Names Cpu
begin

text \<open>
  The table of control-register names against itself and against what writing a register does.
\<close>

unbundle bit_operations_syntax

section \<open>Control-register names\<close>

lemma unat_u16: "unat (ucast (n :: u16) :: u32) = unat n"
  using unsigned_less [of n, where 'a = nat] by (simp add: unsigned_ucast_eq take_bit_nat_eq_self)

lemma csr_find_row:
  "distinct (map csr_number rs) \<Longrightarrow> r \<in> set rs \<Longrightarrow> csr_find rs (ucast (csr_number r)) = Some (csr_text r)"
proof (induction rs)
  case (Cons q rs)
  have "ucast (csr_number q) = (ucast (csr_number r) :: u32) \<longleftrightarrow> csr_number q = csr_number r"
    using unat_u16 [of "csr_number q"] unat_u16 [of "csr_number r"] by (auto simp: word_unat_eq_iff)
  then show ?case using Cons by (auto simp: image_iff)
qed simp

lemmas csr_rows = csr_table_def csr_table_1_def csr_table_2_def csr_table_3_def

definition read_only_row :: "csr_row \<Rightarrow> bool" where
  "read_only_row r \<longleftrightarrow> drop 1 (csr_access r) = ''RO''"

text \<open>
  The table of control registers names each number once, \<open>csr_name\<close> finds the name of every
  row, the access column says read-only exactly for the numbers whose top two bits say so,
  a write to a read-only register changes nothing, and the registers of the table a
  write can change are these eight.
\<close>

theorem csr_table_sound:
  "distinct (map csr_number csr_table) \<and>
   list_all (\<lambda>r. csr_name (ucast (csr_number r)) = csr_text r) csr_table \<and>
   list_all (\<lambda>r. read_only_row r = (drop_bit 10 (csr_number r) = 3)) csr_table \<and>
   list_all (\<lambda>r. csr_update (ucast (csr_number r)) v c = c) (filter read_only_row csr_table) \<and>
   map csr_text (filter (\<lambda>r. csr_update (ucast (csr_number r)) 1 Cpu_new \<noteq> Cpu_new) csr_table) =
     [''mstatus'', ''mie'', ''mtvec'', ''mscratch'', ''mepc'', ''mip'', ''mcycle'', ''mcycleh'']"
proof (intro conjI)
  have "distinct (map (unat \<circ> csr_number) csr_table)" by (simp add: csr_rows)
  then show d: "distinct (map csr_number csr_table)" by (simp add: distinct_map inj_on_def)
  show "list_all (\<lambda>r. csr_name (ucast (csr_number r)) = csr_text r) csr_table"
    using csr_find_row [OF d] by (simp add: csr_name_def list_all_iff)
  show ro: "list_all (\<lambda>r. read_only_row r = (drop_bit 10 (csr_number r) = 3)) csr_table"
    by (simp add: csr_rows read_only_row_def)
  have "csr_update (ucast n) v c = c" if "drop_bit 10 n = 3" for n :: u16
  proof -
    have "unat n \<notin> {0x300, 0x304, 0x305, 0x340, 0x341, 0x344, 0xb00, 0xb80}"
    proof
      assume "unat n \<in> {0x300, 0x304, 0x305, 0x340, 0x341, 0x344, 0xb00, 0xb80}"
      then have "drop_bit 10 (unat n) \<noteq> 3" by auto
      then show False using arg_cong [OF that, of unat] by (simp add: unat_drop_bit_eq)
    qed
    then show ?thesis using unat_u16 [of n] by (auto simp: csr_update_def word_unat_eq_iff [where 'a = 32])
  qed
  then show "list_all (\<lambda>r. csr_update (ucast (csr_number r)) v c = c) (filter read_only_row csr_table)"
    using ro by (auto simp: list_all_iff)
  have "csr_update (ucast n) 1 Cpu_new \<noteq> Cpu_new \<longleftrightarrow>
      unat n \<in> {0x300, 0x304, 0x305, 0x340, 0x341, 0x344, 0xb00, 0xb80}" for n :: u16
    using unat_u16 [of n] by (auto simp: csr_update_def Cpu_new_def word_unat_eq_iff [where 'a = 32])
  then have f: "filter (\<lambda>r. csr_update (ucast (csr_number r)) 1 Cpu_new \<noteq> Cpu_new) csr_table =
      filter (\<lambda>r. unat (csr_number r) \<in> {0x300, 0x304, 0x305, 0x340, 0x341, 0x344, 0xb00, 0xb80}) csr_table"
    by simp
  show "map csr_text (filter (\<lambda>r. csr_update (ucast (csr_number r)) 1 Cpu_new \<noteq> Cpu_new) csr_table) =
     [''mstatus'', ''mie'', ''mtvec'', ''mscratch'', ''mepc'', ''mip'', ''mcycle'', ''mcycleh'']"
    unfolding f by (simp add: csr_rows)
qed

end
