(* ===== verification/Spec2Isabelle.thy ===== *)
theory Spec2Isabelle
  imports Exec_Props Decode_Props Cpu_Props Boot_Props Listing_Props Debugger_Props Image_Props Table_Props Decomp16_Table
    Segment_Checked Slow_Props Trace_Props Priv_Props Isa_Samples Csr_Props
begin

text \<open>
  A development beside RiscVFast, a simulator of RV32IMC with control registers, two interrupts,
  a host port and Newlib's system calls. It models the program as the Makefile's default builds
  it (\<open>RV32\<close>, \<open>ELF32\<close>, \<open>VERY_FAST\<close>, no \<open>DO_MEMORY_CHECK\<close>) on a 64-bit little-endian Linux host, from
  the command line to the end of the run, and beside it what the other switches of the source add: the loop without
  \<open>VERY_FAST\<close>, the segments with \<open>DO_MEMORY_CHECK\<close>, and the trace with \<open>DO_TRACE\<close>.

  How the program works. \<open>main\<close> (\<open>src/RiscVFast.cpp\<close>) reads the options, loads an ELF file
  (\<open>src/Elf64.cpp\<close>) into the two segments of \<open>Memory\<close> (\<open>src/RiscVFast.h\<close>), may write a
  disassembly (\<open>src/rv_disasm.cpp\<close>) or a translation to C (\<open>src/rv_compile.cpp\<close>), resets the
  \<open>Cpu\<close> (\<open>src/Cpu.h\<close>) and runs it (\<open>src/Cpu.cpp\<close>). Each turn of the run fetches a word, expands a
  16-bit encoding through a table (\<open>src/decomp16.cpp\<close>), decodes it to a \<open>Vliw\<close>
  (\<open>src/Decode.cpp\<close> over \<open>src/OpTable_rv32.cpp\<close>) unless the instruction cache has it, looks for an
  interrupt every sixteenth turn, and executes it. Loads and stores go through \<open>Memory\<close> to a segment or
  to the host port; an environment call with \<open>--newlib\<close> goes to \<open>src/Newlib.cpp\<close>.

  Conventions. A C integer is a word of its width, a class or struct a record, a function that
  may stop the program returns \<open>fault + 'a\<close>: \<open>Fatal...\<close> and \<open>Exit...\<close> are the program's own
  reports and exits, \<open>HostUB\<close> is an access outside an allocation or a division the host traps on.
  The host is a parameter: its system calls and clock (record \<open>'h os\<close> over a state \<open>'h\<close>), the file system, and the contents
  of fresh allocations. What the simulated program prints is \<open>console\<close>; the files the program writes are strings, and so
  are the reports of \<open>Reports\<close>, \<open>Run_Slow\<close> and \<open>Debugger\<close>. Elsewhere what the program prints about itself is left out.

  Theories and the code they model.
  \<^item> \<open>Prelude\<close>: words, faults and their sequencing (\<open>chain\<close>), bit fields, little-endian bytes; the
    collections \<open>wordfacts\<close> and \<open>faultfacts\<close>.
  \<^item> \<open>Vliw_Table\<close>, \<open>Op_Table\<close>, \<open>Vliw\<close>: the operation codes, every row of the opcode table, the decoded instruction.
  \<^item> \<open>Decode\<close>, \<open>Compressed\<close>: \<open>decode2vliw\<close> with the interpretation of a row's operand text and its
    hash table; \<open>decodeCompressed\<close> with its table. \<open>Decomp16\<close>: the expansion table, as the function its 65536
    rows tabulate. \<open>Decomp16_Rows_0\<close> to \<open>Decomp16_Rows_7\<close>, \<open>Decomp16_Table\<close>: every row of the file, literally.
  \<^item> \<open>Memory\<close>: \<open>Segment\<close>, \<open>Memory\<close>, the host port. \<open>Cpu\<close>: the processor's state, traps, interrupts,
    control registers, \<open>brk\<close>. \<open>Machine\<close>: the globals together.
  \<^item> \<open>Newlib\<close>: the system calls. \<open>Execute\<close>: the switch of \<open>Cpu::execute\<close>, one definition per group of cases.
    \<open>Run\<close>: the loop and the instruction cache.
  \<^item> \<open>Printf\<close>, \<open>Csr_Names\<close>, \<open>Disasm\<close>, \<open>Compile\<close>, \<open>Listing\<close>: text formats, the names of control
    registers, the disassembler, the translator, and the two loops over the text.
  \<^item> \<open>Debugger\<close>: the interactive mode, its commands and its loop. \<open>Image_Files\<close>: the writers of memory images in
    \<open>src/Elf64.cpp\<close>. \<open>Table_rv64\<close>: the tables of the 64-bit build.
  \<^item> \<open>Segment_Checked\<close>: the accessors of a segment with \<open>DO_MEMORY_CHECK\<close>. \<open>Reports\<close>: the dumps, the log line, the
    signature and its ticker (\<open>src/Cpu.h\<close>, \<open>src/Cpu.cpp\<close>), the messages of \<open>src/Util.cpp\<close>, the usage text. \<open>Run_Slow\<close>: the
    loop without \<open>VERY_FAST\<close>, with its checks, breakpoint, single step and reports. \<open>Trace\<close>: the lines of \<open>DO_TRACE\<close>.
  \<^item> \<open>Options\<close>, \<open>Elf\<close>, \<open>Boot\<close>: the command line, \<open>readElf\<close>, and \<open>main\<close> from the options to the end.

  References and interfaces. \<open>Isa\<close> decodes from the manual's fields, \<open>Isa_Exec\<close> executes over integers, \<open>Isa_Priv\<close> traps,
  takes interrupts, returns and exchanges control registers; none looks at the program's tables. \<open>Isa_Run\<close> puts them
  together with the port and Newlib's calls that stay off the host to a machine that runs whole programs (\<open>board_run\<close>). The locale \<open>memo\<close> (theory \<open>Memo\<close>) is the interface of a cache in front of a function and is
  interpreted by all three caches; \<open>byte_store\<close> and its extension \<open>routed\<close> (theory
  \<open>Memory_Facts\<close>) are the interface of byte-addressed storage, interpreted by segments, by the pointers into them and
  by \<open>Memory\<close>; \<open>cells\<close> (theory \<open>Cpu_Facts\<close>) is that of the register file and of the control registers.

  What the groups of lemmas show.
  \<^item> \<open>Isa_Decode\<close>, \<open>Decode_Facts\<close>, \<open>Decomp16_Facts\<close>: the decoder against the reference, the soundness of its tables,
    the round trip of encodings. \<open>Decode_Props\<close>: the properties of decoding. \<open>Decomp16_Lines\<close>, \<open>Decomp16_Chunks\<close>,
    \<open>Decomp16_Table\<close>: the literal rows against the function, 32 at a time, as sums of the weights of their bits.
  \<^item> \<open>Memory_Facts\<close>, \<open>Memory_Props\<close>: what is stored is loaded, nothing else changes, the text is protected,
    and accesses inside a segment stay inside its allocation.
  \<^item> \<open>Isa_Exec\<close>, \<open>Exec_Facts\<close>, \<open>Exec_Frame\<close>, \<open>Exec_Wide\<close>, \<open>Exec_Props\<close>: every instruction against the reference, what no
    instruction changes, independence from the caches and from what follows the registers, and the instructions that stop the program.
  \<^item> \<open>Cpu_Facts\<close>, \<open>Cpu_Props\<close>, \<open>Newlib_Props\<close>: traps and returns, the interrupt check, control
    registers, system calls. \<open>Isa_Priv\<close>, \<open>Priv_Props\<close>: a turn with any of them against the reference.
    \<open>Isa_Samples\<close>: small programs that trap, print, store and exit. \<open>Csr_Props\<close>: the table of control-register names.
  \<^item> \<open>Run_Facts\<close>, \<open>Composition\<close>, \<open>Isa_Run\<close> and this theory: the loop with caches against the loop without, a turn and
    a whole run against the instruction set, the invariant of a run, and how a run ends.
  \<^item> \<open>Disasm_Facts\<close>, \<open>Listing_Facts\<close>, \<open>Listing_Props\<close>: the disassembler against the reference, the contents
    and the termination of the listings.
  \<^item> \<open>Elf_Facts\<close>, \<open>Elf_Props\<close>, \<open>Boot_Facts\<close>, \<open>Boot_Sample\<close>, \<open>Boot_Props\<close>: what a load leaves in the segments, and
    the composition: the state a run starts in satisfies what the run's properties ask for, and a program the reference
    powers off ends as the reference does.
  \<^item> \<open>Debugger_Facts\<close>, \<open>Debugger_Props\<close>: no session breaks the machine; what a step and the numbers typed do.
  \<^item> \<open>Slow_Props\<close>: the loop without \<open>VERY_FAST\<close> against the fast one, and its signature file. \<open>Trace_Props\<close>: what the trace
    shows and changes.
  \<^item> \<open>Image_Props\<close>: an Intel hex file read back by the format's rules, and the writers' accesses. \<open>Table_Props\<close>: the
    64-bit tables against the 32-bit ones.

  Bounds. The run makes at most as many turns as it was asked for (\<open>main\<close> asks for \<open>2 ^ 64 - 1\<close>), so \<open>run_loop\<close> is a
  recursion on that number and always returns. The listings' loops count in 32 bits and
  need not end; they are partial functions, and their termination is a property. The debugger's loop goes on until it is told
  to stop. The instruction cache is
  indexed by 21 bits of the program counter, which tells addresses apart inside 4 MB: the properties about it ask
  for a text of at most that size (\<open>small_text\<close>), for an even program counter, and that the text is not rewritten.

  Not modelled. A failure of the host to allocate the buffer of the file or to open a file to be written: both are assumed to
  succeed. The two wrappers of the host's \<open>cpuid\<close> and \<open>rdrand\<close> instructions in \<open>src/Cpu.cpp\<close>, and the build date the
  banner shows: the host's. The verbose messages of the loader and of \<open>main\<close>. The cases of the switch only the RV64 build
  has: that configuration does not compile, since \<open>src/Cpu.cpp\<close> names operation codes \<open>src/VliwTable_rv64.h\<close> lacks. The
  code behind \<open>NO_COMPRESSED\<close>, the structures and constants of \<open>src/Elf64.h\<close> the loader does not read, and the class
  \<open>Section\<close>, which nothing uses.
\<close>

unbundle bit_operations_syntax

section \<open>Properties of the whole simulator\<close>

text \<open>
  C2: A turn of the run loop is a step of the instruction set. Whatever the decode caches hold
  (as long as they are sound), when the word at the program counter expands to an encoding
  of instruction \<open>i\<close>, the turn changes registers, memory and program counter exactly as the
  manual's semantics of \<open>i\<close> (\<open>isa_exec\<close>) says, and leaves the console, the host, the interrupt
  enable bits and the two flags of the loop alone. This covers compressed and full encodings of
  RV32IM except traps, control registers and the host port; it asks that no interrupt is due,
  that a division is one the host can do, and that a jump's target is even.
\<close>

theorem run_step_is_isa_step:
  assumes "caches_ok s" and "small_text (memory s)" and "\<not> bit (pc (cpu s)) 0" and "cpu_inv (cpu s)"
    and "no_wrap (insnMem (memory s))" and "no_wrap (dataMem (memory s))" and "no_irq (cpu s)"
    and "fetch_code (memory s) (cpu s) = Inr (code, len)" and "isa_decode code = Some i"
    and "isa_exec i len (abs_at (pc (cpu s)) s) = Some a" and "host_ok i (abs_at (pc (cpu s)) s)"
  shows "\<exists>s'. run_step os s = Inr s' \<and> abs_at (pc (cpu s')) s' = a \<and> cpu_inv (cpu s') \<and> same_mode s s'"
  by (rule run_step_refines [OF assms(1-6,8-11,7)])

theorem run_step_is_isa_step_witness:
  "\<exists>s'. run_step sample_os (bare_machine 0xfe010113) = Inr s' \<and> pc (cpu s') = 4 \<and>
    reg_val (cpu s') 2 = 0xffffffe0"
proof -
  let ?s = "bare_machine 0xfe010113" and ?i = "I_IMM A_ADD 2 2 0xffffffe0"
  let ?a = "abs_at 0 ?s"
  have d: "isa_decode 0xfe010113 = Some ?i" by code_simp
  have "\<exists>s'. run_step sample_os ?s = Inr s' \<and>
      abs_at (pc (cpu s')) s' = ?a\<lparr>gpr := xset 2 (alu_sem A_ADD (gpr ?a 2) 0xffffffe0) (gpr ?a), apc := apc ?a + 4\<rparr> \<and>
      cpu_inv (cpu s') \<and> same_mode ?s s'"
    by (rule run_step_is_isa_step [OF bare_facts(1,2) _ bare_facts(4,6,7,5) bare_fetch d])
      (simp_all add: bare_facts(3))
  then obtain s' where s': "run_step sample_os ?s = Inr s'"
    and a: "abs_at (pc (cpu s')) s' = ?a\<lparr>gpr := xset 2 (alu_sem A_ADD (gpr ?a 2) 0xffffffe0) (gpr ?a), apc := apc ?a + 4\<rparr>"
    by blast
  have "reg_val (cpu ?s) 2 = 0"
    by (simp add: bare_machine_def reg_val_def Cpu_reset_def Cpu_new_def)
  then have "gpr ?a 2 = 0" by (simp add: abs_at_def)
  then have "pc (cpu s') = 4 \<and> reg_val (cpu s') 2 = 0xffffffe0"
    using arg_cong [OF a, of apc] arg_cong [OF a, of "\<lambda>x. gpr x 2"]
    by (simp add: abs_at_def xset_def)
  with s' show ?thesis by blast
qed

text \<open>
  C5: The instruction cache is invisible. Run from sound caches on a text of at most 4 MB, as
  long as the program counter stays even and the text is not rewritten (\<open>steady\<close>), the loop
  ends in the same state, or with the same fault, as a loop that decodes every instruction
  from the text it is about to execute.
\<close>

theorem run_loop_cache_invisible:
  assumes "caches_ok s" and "small_text (memory s)" and "steady os n (with_caches d t s)"
  shows "swap_caches d t (run_loop os n s) = run_ref os n (with_caches d t s)"
  using assms by (rule run_loop_ref)

theorem run_loop_cache_invisible_witness:
  "swap_caches decoder_start vliw_insn_start (run_loop sample_os 1 (bare_machine 0xfe010113)) =
    run_ref sample_os 1 (with_caches decoder_start vliw_insn_start (bare_machine 0xfe010113))"
proof -
  let ?s = "with_caches decoder_start vliw_insn_start (bare_machine 0xfe010113)"
  have "\<not> do_newlib ?s" "\<not> do_core (memory ?s)"
    by (simp_all add: bare_machine_def sample_machine_def sample_memory_def)
  then have "steady sample_os 1 ?s"
    using step_ref_text [of sample_os ?s] by (simp add: bare_facts split: sum.split)
  then show ?thesis
    by (rule run_loop_cache_invisible [OF bare_facts(1,2)])
qed

text \<open>
  C11: \<open>run(n)\<close> always ends, after at most \<open>n\<close> turns: either exactly \<open>n\<close> turns were made and
  nobody asked to stop, or the last turn cleared \<open>running\<close> or requested the stop, which is
  then acknowledged. There is no other way out but a fault.
\<close>

theorem run_bounded:
  assumes "\<not> stop (cpu s)"
  shows "(\<exists>e. run os n s = Inl e) \<or>
    (\<exists>s' k t. run os n s = Inr s' \<and> k \<le> unat n \<and>
      turns os k (s\<lparr>cpu := (cpu s)\<lparr>running := True, cycle := 0\<rparr>\<rparr>) t \<and>
      (k = unat n \<and> s' = t \<and> \<not> stop (cpu t) \<or> halted t s'))"
proof (cases "run os n s")
  case (Inr s')
  then show ?thesis
    using run_loop_turns [of os "unat n" _ s'] assms by (fastforce simp: run_def)
qed simp

theorem run_bounded_witness:
  "\<exists>s' k t. run sample_os 3 store_machine = Inr s' \<and> cycle (cpu s') = 3 \<and> k \<le> 3 \<and> turns sample_os k store_machine t \<and>
    (k = 3 \<and> s' = t \<or> halted t s')"
proof -
  have e: "store_machine\<lparr>cpu := (cpu store_machine)\<lparr>running := True, cycle := 0\<rparr>\<rparr> = store_machine"
    by (simp add: store_machine_def bare_machine_def Cpu_reset_def Cpu_new_def)
  obtain s' where s': "run_loop sample_os 3 store_machine = Inr s'" "cycle (cpu s') = 3" using store_sample by blast
  then have "run sample_os 3 store_machine = Inr s'" by (simp add: run_def e)
  then show ?thesis using run_bounded [OF store_facts(2), of sample_os 3, unfolded e] s'(2) by auto
qed

text \<open>
  C9: No run breaks the machine: from a state with 32 registers, \<open>x0\<close> zero and allocations
  that cover their segments, every state the loop can end in has them too, with every
  segment where it was and as long as it was, whatever was executed.
\<close>

theorem run_preserves_machine:
  assumes "machine_inv s" and "run_loop os n s = Inr s'"
  shows "machine_inv s' \<and> layout (memory s') = layout (memory s)"
  using assms by (rule run_loop_inv)

theorem run_preserves_machine_witness:
  "\<exists>s'. run_loop sample_os 3 store_machine = Inr s' \<and> cycle (cpu s') = 3 \<and> machine_inv s' \<and>
    layout (memory s') = layout (memory store_machine) \<and> memory s' \<noteq> memory store_machine"
proof -
  obtain s' where s': "run_loop sample_os 3 store_machine = Inr s'" "cycle (cpu s') = 3"
    "mem_load (memory s') 0x40000000 4 \<noteq> mem_load (memory store_machine) 0x40000000 4"
    using store_sample by auto
  then show ?thesis using run_preserves_machine [OF store_facts(3) s'(1)] by auto
qed

lemma run_step_text:
  assumes "run_step os s = Inr s'" and "\<not> do_newlib s \<and> \<not> do_core (memory s)"
  shows "insnMem (memory s') = insnMem (memory s) \<and> \<not> do_newlib s' \<and> \<not> do_core (memory s')"
proof -
  obtain code len v s1 where s1: "decode_cached code s = Inr (v, s1)" "run_insn os v len s1 = Inr s'"
    using assms(1) by (auto simp: run_step_def faultfacts)
  then have "memory s1 = memory s" "do_newlib s1 = do_newlib s"
    by (auto simp: decode_cached_def Let_def faultfacts split: option.splits)
  then show ?thesis
    using run_insn_keeps_but [OF s1(2)] assms(2) by (auto simp: layout_def)
qed

text \<open>
  C10: Without \<open>--core\<close> and \<open>--newlib\<close>, a program cannot change its own text, whatever it
  executes for however many turns.
\<close>

theorem text_is_constant:
  assumes "\<not> do_newlib s" and "\<not> do_core (memory s)" and "\<not> stop (cpu s)" and "run_loop os n s = Inr s'"
  shows "insnMem (memory s') = insnMem (memory s)"
proof -
  obtain k t where t: "turns os k s t" "s' = t \<or> halted t s'"
    using run_loop_turns [OF assms(4,3)] by blast
  have "insnMem (memory t) = insnMem (memory s) \<and> \<not> do_newlib t \<and> \<not> do_core (memory t)"
    using t(1) by (rule turns_invariant) (use assms(1,2) run_step_text in metis)+
  then show ?thesis using t(2) by (auto simp: halted_def)
qed

theorem text_is_constant_witness:
  "\<exists>s'. run_loop sample_os 3 store_machine = Inr s' \<and> cycle (cpu s') = 3 \<and>
    insnMem (memory s') = insnMem (memory store_machine) \<and> memory s' \<noteq> memory store_machine"
proof -
  obtain s' where s': "run_loop sample_os 3 store_machine = Inr s'" "cycle (cpu s') = 3"
    "mem_load (memory s') 0x40000000 4 \<noteq> mem_load (memory store_machine) 0x40000000 4"
    using store_sample by auto
  then show ?thesis using text_is_constant [OF store_facts(4,5,2) s'(1)] by auto
qed

text \<open>
  C24: Powering off from inside. When a running machine is about to execute a 32-bit store of
  a value whose upper half is 2 to \<open>0xfffffffc\<close>, and no segment covers that address, the run
  ends after this very turn, however many turns were asked for: memory, console and registers
  are as they were, the program counter is past the store, and the stop request is consumed.
\<close>

theorem power_off_ends_run:
  assumes "caches_ok s" and "small_text (memory s)" and "\<not> bit (pc (cpu s)) 0"
    and "cpu_inv (cpu s)" and "no_irq (cpu s)" and "running (cpu s)"
    and "fetch_code (memory s) (cpu s) = Inr (code, len)" and "isa_decode code = Some (I_ST S_W t u j)"
    and "\<not> readable (memory s) 0xfffffffc" and "ishost (memory s) 0xfffffffc"
    and "reg_val (cpu s) (ucast t) + j = 0xfffffffc"
    and "ucast (drop_bit 16 (reg_val (cpu s) (ucast u))) = (2 :: u16)"
  shows "\<exists>s'. run_loop os (Suc n) s = Inr s' \<and> \<not> stop (cpu s') \<and> memory s' = memory s \<and>
    console s' = console s \<and> pc (cpu s') = pc (cpu s) + len \<and>
    (\<forall>i < 32. reg_val (cpu s') i = reg_val (cpu s) i)"
proof -
  obtain t where "run_step os s = Inr t" "stop (cpu t)" "memory t = memory s" "console t = console s"
    "pc (cpu t) = pc (cpu s) + len" "\<forall>i < 32. reg_val (cpu t) i = reg_val (cpu s) i"
    using step_power_off [OF assms(1-5,7-12)] by blast
  then show ?thesis using assms(6) by (simp add: reg_val_def)
qed

text \<open>sw x10, -4(x0) with 0x20000 in x10\<close>

definition power_machine :: "nat machine" where
  "power_machine = (bare_machine 0xfea02e23)\<lparr>cpu := reg_set 10 0x20000 (cpu (bare_machine 0xfea02e23))\<rparr>"

theorem power_off_ends_run_witness:
  "\<exists>s'. run_loop sample_os 1000 power_machine = Inr s' \<and> pc (cpu s') = 4"
proof -
  let ?s = power_machine
  have eq: "memory ?s = memory (bare_machine 0xfea02e23)" "decoder ?s = decoder (bare_machine 0xfea02e23)"
    "vliw_insn ?s = vliw_insn (bare_machine 0xfea02e23)" "pc (cpu ?s) = 0" "running (cpu ?s)" "no_irq (cpu ?s)"
    using bare_facts(3,5,8) by (simp_all add: power_machine_def reg_set_def no_irq_def external_pending_def timer_pending_def)
  have c: "caches_ok ?s" "cpu_inv (cpu ?s)" "reg_val (cpu ?s) 10 = 0x20000" "reg_val (cpu ?s) 0 = 0"
    using bare_facts(1,4) by (auto simp: power_machine_def caches_ok_def bare_machine_def sample_machine_def
        Cpu_reset_def Cpu_new_def cpu_inv_def regs32_def reg_val_def reg_set_def)
  have d: "isa_decode 0xfea02e23 = Some (I_ST S_W 0 10 0xfffffffc)" by code_simp
  have f: "fetch_code (memory ?s) (cpu ?s) = Inr (0xfea02e23, 4)"
    using bare_fetch [of "0xfea02e23"] by (simp add: fetch_code_def Cpu_fetch_def eq bare_facts(3))
  have h: "\<not> readable (memory ?s) 0xfffffffc" "ishost (memory ?s) 0xfffffffc"
    by (simp_all add: eq bare_machine_def sample_machine_def sample_memory_def readable_def isdata_def
        istext_def ishost_def HOST_BASE_def HOST_SIZE_def)
  have "\<exists>s'. run_loop sample_os (Suc 999) ?s = Inr s' \<and> \<not> stop (cpu s') \<and> memory s' = memory ?s \<and>
    console s' = console ?s \<and> pc (cpu s') = pc (cpu ?s) + 4 \<and>
    (\<forall>i < 32. reg_val (cpu s') i = reg_val (cpu ?s) i)"
    by (rule power_off_ends_run [OF c(1) _ _ c(2) eq(6,5) f d h])
      (simp_all add: eq(1,4) bare_facts(2) c(3,4))
  then show ?thesis by (auto simp: eq(4) simp del: run_loop.simps)
qed

end
